(* ===== verification/Prelude.thy ===== *)
theory Prelude
  imports Main "HOL-Library.Word"
begin

text \<open>
  Shared vocabulary of the development: machine integer types, kernel error results,
  word-cell stores with their read-back interface, and the arithmetic of aligned sizes and
  of indices modulo the ring size.  The target is the one the repository is built for: an
  LP64 little-endian host with 4 KiB pages (so \<open>PAGE_SIZE\<close> is 4096).
\<close>

unbundle bit_operations_syntax

type_synonym u8 = "8 word"
type_synonym u32 = "32 word"
type_synonym u64 = "64 word"

named_theorems model_defs \<open>definitions of the model that proofs unfold together\<close>
named_theorems ring_simps \<open>facts about ring indices and slot offsets\<close>
named_theorems layout_simps \<open>sizes and offsets of the structures shared with the hardware\<close>

section \<open>Kernel results\<close>

text \<open>
  A kernel entry point returns 0 or a negative error number.  The success value is
  \<open>Inr ()\<close>, an error return \<open>Inl e\<close>; \<open>EXT n\<close> carries an error number that an external
  kernel function produced and the driver passes on.
\<close>

datatype errno =
    EFAULT | EINVAL | ENOMEM | EBUSY | ENOTTY | ETIMEDOUT | ENOTSUPP | ENOSPC
  | EXT int

type_synonym kret = "errno + unit"

abbreviation OK :: kret where
  "OK \<equiv> Inr ()"

definition is_ok :: "kret \<Rightarrow> bool" where
  "is_ok r = (case r of Inl _ \<Rightarrow> False | Inr _ \<Rightarrow> True)"

lemma is_ok_simps [simp]: "is_ok (Inr u) = True" "is_ok (Inl e) = False"
  by (simp_all add: is_ok_def)

lemma is_ok_iff: "is_ok r \<longleftrightarrow> r = OK"
  by (cases r) (auto simp: is_ok_def)

section \<open>Word-cell stores\<close>

text \<open>
  Device memory behind a BAR is a store of 32-bit cells, addressed by byte offset.  A
  block of words is written to and read from consecutive cells, four bytes apart.
  Both take the cell operation as an argument, so that they serve every store of the model.
\<close>

fun put_words :: "('w \<Rightarrow> nat \<Rightarrow> 'm \<Rightarrow> 'm) \<Rightarrow> nat \<Rightarrow> 'w list \<Rightarrow> 'm \<Rightarrow> 'm" where
  "put_words put a [] m = m"
| "put_words put a (w # ws) m = put_words put (a + 4) ws (put w a m)"

definition get_words :: "('m \<Rightarrow> nat \<Rightarrow> 'w) \<Rightarrow> nat \<Rightarrow> nat \<Rightarrow> 'm \<Rightarrow> 'w list" where
  "get_words rd a n m = map (\<lambda>i. rd m (a + 4 * i)) [0..<n]"

lemma length_get_words [simp]: "length (get_words rd a n m) = n"
  by (simp add: get_words_def)

lemma get_words_cong:
  assumes "\<And>i. i < n \<Longrightarrow> rd m (a + 4 * i) = rd m' (a + 4 * i)"
  shows "get_words rd a n m = get_words rd a n m'"
  using assms by (simp add: get_words_def)

text \<open>
  The interface of such a store: a cell read back after a write, and other cells kept.
  What the driver relies on for its ring and its staging buffer is proved here once.
\<close>

locale word_store =
  fixes rd :: "'m \<Rightarrow> nat \<Rightarrow> 'w"
    and put :: "'w \<Rightarrow> nat \<Rightarrow> 'm \<Rightarrow> 'm"
  assumes rd_put_same: "rd (put w a m) a = w"
    and rd_put_other: "b \<noteq> a \<Longrightarrow> rd (put w a m) b = rd m b"
begin

lemma rd_put_words_outside:
  "b < a \<or> a + 4 * length ws \<le> b \<Longrightarrow> rd (put_words put a ws m) b = rd m b"
proof (induction ws arbitrary: a m)
  case Nil
  then show ?case by simp
next
  case (Cons w ws)
  from Cons.prems have "b < a + 4 \<or> a + 4 + 4 * length ws \<le> b" and ne: "b \<noteq> a"
    by auto
  then have "rd (put_words put (a + 4) ws (put w a m)) b = rd (put w a m) b"
    using Cons.IH by blast
  with ne show ?case by (simp add: rd_put_other)
qed

lemma rd_put_words_inside:
  "i < length ws \<Longrightarrow> rd (put_words put a ws m) (a + 4 * i) = ws ! i"
proof (induction ws arbitrary: a m i)
  case Nil
  then show ?case by simp
next
  case (Cons w ws)
  show ?case
  proof (cases i)
    case 0
    have "rd (put_words put (a + 4) ws (put w a m)) a = rd (put w a m) a"
      by (rule rd_put_words_outside) simp
    with 0 show ?thesis by (simp add: rd_put_same)
  next
    case (Suc j)
    with Cons.prems have "j < length ws" by simp
    from Cons.IH [OF this, of "a + 4" "put w a m"] Suc show ?thesis
      by (simp add: algebra_simps)
  qed
qed

lemma get_put_words_same:
  "n = length ws \<Longrightarrow> get_words rd a n (put_words put a ws m) = ws"
  by (rule nth_equalityI) (simp_all add: get_words_def rd_put_words_inside)

lemma get_put_words_disjoint:
  assumes "b + 4 * n \<le> a \<or> a + 4 * length ws \<le> b"
  shows "get_words rd b n (put_words put a ws m) = get_words rd b n m"
proof (rule get_words_cong)
  fix i assume "i < n"
  with assms show "rd (put_words put a ws m) (b + 4 * i) = rd m (b + 4 * i)"
    by (intro rd_put_words_outside) auto
qed

lemma get_words_put_outside:
  assumes "a < b \<or> b + 4 * n \<le> a"
  shows "get_words rd b n (put w a m) = get_words rd b n m"
proof (rule get_words_cong)
  fix i assume "i < n"
  with assms have "b + 4 * i \<noteq> a" by auto
  then show "rd (put w a m) (b + 4 * i) = rd m (b + 4 * i)" by (rule rd_put_other)
qed

end

section \<open>Words\<close>

definition lower_32_bits :: "u64 \<Rightarrow> u32" where
  "lower_32_bits x = ucast x"

definition upper_32_bits :: "u64 \<Rightarrow> u32" where
  "upper_32_bits x = ucast (drop_bit 32 x)"

definition join_32_bits :: "u32 \<Rightarrow> u32 \<Rightarrow> u64" where
  "join_32_bits lo hi = (ucast lo :: u64) OR push_bit 32 (ucast hi)"

lemma join_split_32 [simp]: "join_32_bits (lower_32_bits x) (upper_32_bits x) = x"
  unfolding join_32_bits_def lower_32_bits_def upper_32_bits_def
  by (rule bit_word_eqI) (auto simp: bit_simps)

lemma lower_join_32 [simp]: "lower_32_bits (join_32_bits lo hi) = lo"
  unfolding join_32_bits_def lower_32_bits_def
  by (rule bit_word_eqI) (auto simp: bit_simps)

lemma upper_join_32 [simp]: "upper_32_bits (join_32_bits lo hi) = hi"
  unfolding join_32_bits_def upper_32_bits_def
  by (rule bit_word_eqI) (auto simp: bit_simps dest: bit_imp_le_length)

lemma unat_add_no_wrap:
  fixes x y :: "'a::len word"
  assumes "unat x + unat y < 2 ^ LENGTH('a)"
  shows "unat (x + y) = unat x + unat y"
  using assms by (simp add: unat_word_ariths)

section \<open>Indices modulo a ring size\<close>

lemma mod_succ_neq_dist:
  fixes a b n :: nat
  assumes "b \<le> a" and "a - b < n" and "Suc a mod n \<noteq> b mod n"
  shows "Suc (a - b) < n"
proof (rule ccontr)
  assume "\<not> Suc (a - b) < n"
  with assms(1,2) have "Suc a = b + n" by simp
  then have "Suc a mod n = b mod n" by simp
  with assms(3) show False by contradiction
qed

lemma mod_neq_if_close:
  fixes i j n :: nat
  assumes "i < j" and "j - i < n"
  shows "i mod n \<noteq> j mod n"
proof
  assume "i mod n = j mod n"
  then have "j mod n = i mod n" by simp
  with assms(1) have "n dvd j - i" by (simp add: mod_eq_dvd_iff_nat)
  with assms show False by (auto dest: dvd_imp_le)
qed

end
