(* ===== verification/Uapi.thy ===== *)
theory Uapi
  imports Prelude
begin

text \<open>
  The user-kernel interface of \<open>include/uapi/fpgagpu_ioctl.h\<close>: the parameter structures of
  the six ioctl commands, the opcodes, the DMA directions and the command numbers.  The
  encoding behind \<open>_IOW\<close>, \<open>_IOC_TYPE\<close> and \<open>_IOC_NR\<close> belongs to Linux, not to this repository:
  it is the parameter \<open>ioc_abi\<close> of every definition that uses a command number, and
  \<open>ioc_ok\<close> states what the driver relies on.
\<close>

section \<open>Natural C layout\<close>

definition align_up :: "nat \<Rightarrow> nat \<Rightarrow> nat" where
  "align_up n a = (n + a - 1) div a * a"

text \<open>Field offsets, end and size of a struct whose fields have the given sizes.\<close>

fun c_offsets :: "nat \<Rightarrow> nat list \<Rightarrow> nat list" where
  "c_offsets n [] = []"
| "c_offsets n (s # ss) = align_up n s # c_offsets (align_up n s + s) ss"

fun c_end :: "nat \<Rightarrow> nat list \<Rightarrow> nat" where
  "c_end n [] = n"
| "c_end n (s # ss) = c_end (align_up n s + s) ss"

definition c_sizeof :: "nat list \<Rightarrow> nat" where
  "c_sizeof fs = align_up (c_end 0 fs) (fold max fs 1)"

section \<open>Parameter structures\<close>

record fpgagpu_dma_param =
  dma_direction :: u32
  dma_size :: u32
  ddr3_addr :: u64
  host_vaddr :: u64

record fpgagpu_launch_cmd =
  cmd_opcode :: u32
  cmd_grid_dim_x :: u32
  cmd_grid_dim_y :: u32
  cmd_block_dim_x :: u32
  cmd_block_dim_y :: u32
  cmd_dma_src_addr :: u64
  cmd_dma_dst_addr :: u64
  cmd_num_elements :: u32
  cmd_payload_size :: u32
  cmd_payload_vaddr :: u64

record fpgagpu_version_info =
  major_version :: u32
  minor_version :: u32

text \<open>\<open>instr_size\<close> and \<open>num_words\<close> are one union member of the header, hence one field.\<close>

record fpgagpu_kernel_binary =
  user_instr_ptr :: u64
  instr_size :: u32
  kernel_id :: u32

definition sizeof_dma_param :: nat where
  "sizeof_dma_param = c_sizeof [4, 4, 8, 8]"

definition sizeof_launch_cmd :: nat where
  "sizeof_launch_cmd = c_sizeof [4, 4, 4, 4, 4, 8, 8, 4, 4, 8]"

definition sizeof_version_info :: nat where
  "sizeof_version_info = c_sizeof [4, 4]"

definition sizeof_kernel_binary :: nat where
  "sizeof_kernel_binary = c_sizeof [8, 4, 4]"

lemma uapi_sizes [layout_simps]:
  "sizeof_dma_param = 24" "sizeof_launch_cmd = 56"
  "sizeof_version_info = 8" "sizeof_kernel_binary = 16"
  by (simp_all add: sizeof_dma_param_def sizeof_launch_cmd_def sizeof_version_info_def
      sizeof_kernel_binary_def c_sizeof_def align_up_def)

section \<open>Constants\<close>

definition FPGAGPU_IOC_MAGIC :: u32 where "FPGAGPU_IOC_MAGIC = 0x46"
definition FPGAGPU_MAGIC_OCL :: u32 where "FPGAGPU_MAGIC_OCL = 0x4F434C31"
definition FPGAGPU_DMA_TO_DEVICE :: u32 where "FPGAGPU_DMA_TO_DEVICE = 0"
definition FPGAGPU_DMA_FROM_DEVICE :: u32 where "FPGAGPU_DMA_FROM_DEVICE = 1"
definition FPGAGPU_OPCODE_NOP :: u32 where "FPGAGPU_OPCODE_NOP = 0x00"
definition FPGAGPU_OPCODE_LAUNCH_KERNEL :: u32 where "FPGAGPU_OPCODE_LAUNCH_KERNEL = 0x01"
definition FPGAGPU_OPCODE_LOAD_KERNEL :: u32 where "FPGAGPU_OPCODE_LOAD_KERNEL = 0x10"
definition FPGAGPU_IOC_MAXNR :: u32 where "FPGAGPU_IOC_MAXNR = 6"

lemmas uapi_consts = FPGAGPU_IOC_MAGIC_def FPGAGPU_MAGIC_OCL_def FPGAGPU_DMA_TO_DEVICE_def
  FPGAGPU_DMA_FROM_DEVICE_def FPGAGPU_OPCODE_NOP_def FPGAGPU_OPCODE_LAUNCH_KERNEL_def
  FPGAGPU_OPCODE_LOAD_KERNEL_def FPGAGPU_IOC_MAXNR_def

section \<open>Command numbers\<close>

datatype ioc_dir = IOC_NONE | IOC_READ | IOC_WRITE

record ioc_abi =
  IOC :: "ioc_dir \<Rightarrow> u32 \<Rightarrow> u32 \<Rightarrow> nat \<Rightarrow> u32"
  IOC_TYPE :: "u32 \<Rightarrow> u32"
  IOC_NR :: "u32 \<Rightarrow> u32"

text \<open>
  Linux documents that a command number holds its type and number in eight bits each and its
  argument size in fourteen, and that \<open>_IOC_TYPE\<close> and \<open>_IOC_NR\<close> read them back.
\<close>

definition ioc_ok :: "ioc_abi \<Rightarrow> bool" where
  "ioc_ok abi \<longleftrightarrow> (\<forall>d t n s. t < 256 \<longrightarrow> n < 256 \<longrightarrow> s < 2 ^ 14 \<longrightarrow>
     IOC_TYPE abi (IOC abi d t n s) = t \<and> IOC_NR abi (IOC abi d t n s) = n)"

definition FPGAGPU_IOC_SUBMIT_CMD :: "ioc_abi \<Rightarrow> u32" where
  "FPGAGPU_IOC_SUBMIT_CMD abi = IOC abi IOC_WRITE FPGAGPU_IOC_MAGIC 1 sizeof_launch_cmd"

definition FPGAGPU_IOC_DOORBELL :: "ioc_abi \<Rightarrow> u32" where
  "FPGAGPU_IOC_DOORBELL abi = IOC abi IOC_NONE FPGAGPU_IOC_MAGIC 2 0"

definition FPGAGPU_IOC_WAIT_FOR_IRQ :: "ioc_abi \<Rightarrow> u32" where
  "FPGAGPU_IOC_WAIT_FOR_IRQ abi = IOC abi IOC_NONE FPGAGPU_IOC_MAGIC 3 0"

definition FPGAGPU_IOC_DMA_TRANSFER :: "ioc_abi \<Rightarrow> u32" where
  "FPGAGPU_IOC_DMA_TRANSFER abi = IOC abi IOC_WRITE FPGAGPU_IOC_MAGIC 4 sizeof_dma_param"

definition FPGAGPU_IOC_GET_VERSION :: "ioc_abi \<Rightarrow> u32" where
  "FPGAGPU_IOC_GET_VERSION abi = IOC abi IOC_READ FPGAGPU_IOC_MAGIC 5 sizeof_version_info"

definition FPGAGPU_IOC_LOAD_KERNEL :: "ioc_abi \<Rightarrow> u32" where
  "FPGAGPU_IOC_LOAD_KERNEL abi = IOC abi IOC_WRITE FPGAGPU_IOC_MAGIC 6 sizeof_kernel_binary"

lemmas ioc_cmd_defs = FPGAGPU_IOC_SUBMIT_CMD_def FPGAGPU_IOC_DOORBELL_def
  FPGAGPU_IOC_WAIT_FOR_IRQ_def FPGAGPU_IOC_DMA_TRANSFER_def FPGAGPU_IOC_GET_VERSION_def
  FPGAGPU_IOC_LOAD_KERNEL_def

lemma ioc_cmd_nr:
  assumes "ioc_ok abi"
  shows "IOC_NR abi (FPGAGPU_IOC_SUBMIT_CMD abi) = 1"
    "IOC_NR abi (FPGAGPU_IOC_DOORBELL abi) = 2"
    "IOC_NR abi (FPGAGPU_IOC_WAIT_FOR_IRQ abi) = 3"
    "IOC_NR abi (FPGAGPU_IOC_DMA_TRANSFER abi) = 4"
    "IOC_NR abi (FPGAGPU_IOC_GET_VERSION abi) = 5"
    "IOC_NR abi (FPGAGPU_IOC_LOAD_KERNEL abi) = 6"
  using assms by (simp_all add: ioc_ok_def ioc_cmd_defs layout_simps FPGAGPU_IOC_MAGIC_def)

lemma ioc_cmd_type:
  assumes "ioc_ok abi"
  shows "IOC_TYPE abi (FPGAGPU_IOC_SUBMIT_CMD abi) = FPGAGPU_IOC_MAGIC"
    "IOC_TYPE abi (FPGAGPU_IOC_DOORBELL abi) = FPGAGPU_IOC_MAGIC"
    "IOC_TYPE abi (FPGAGPU_IOC_WAIT_FOR_IRQ abi) = FPGAGPU_IOC_MAGIC"
    "IOC_TYPE abi (FPGAGPU_IOC_DMA_TRANSFER abi) = FPGAGPU_IOC_MAGIC"
    "IOC_TYPE abi (FPGAGPU_IOC_GET_VERSION abi) = FPGAGPU_IOC_MAGIC"
    "IOC_TYPE abi (FPGAGPU_IOC_LOAD_KERNEL abi) = FPGAGPU_IOC_MAGIC"
  using assms by (simp_all add: ioc_ok_def ioc_cmd_defs layout_simps FPGAGPU_IOC_MAGIC_def)

text \<open>Different numbers, hence different commands: no two cases of the switch collide.\<close>

lemma ioc_cmd_distinct:
  assumes "ioc_ok abi"
  shows "distinct [FPGAGPU_IOC_SUBMIT_CMD abi, FPGAGPU_IOC_DOORBELL abi,
    FPGAGPU_IOC_WAIT_FOR_IRQ abi, FPGAGPU_IOC_DMA_TRANSFER abi,
    FPGAGPU_IOC_GET_VERSION abi, FPGAGPU_IOC_LOAD_KERNEL abi]"
proof -
  have "distinct (map (IOC_NR abi) [FPGAGPU_IOC_SUBMIT_CMD abi, FPGAGPU_IOC_DOORBELL abi,
    FPGAGPU_IOC_WAIT_FOR_IRQ abi, FPGAGPU_IOC_DMA_TRANSFER abi,
    FPGAGPU_IOC_GET_VERSION abi, FPGAGPU_IOC_LOAD_KERNEL abi])"
    by (simp add: ioc_cmd_nr [OF assms])
  then show ?thesis unfolding distinct_map by blast
qed

text \<open>The encoding Linux uses on the target, as an instance of the parameter.\<close>

fun ioc_dir_code :: "ioc_dir \<Rightarrow> u32" where
  "ioc_dir_code IOC_NONE = 0"
| "ioc_dir_code IOC_WRITE = 1"
| "ioc_dir_code IOC_READ = 2"

definition linux_ioc :: ioc_abi where
  "linux_ioc = \<lparr>
     IOC = (\<lambda>d t n s. push_bit 30 (ioc_dir_code d) OR push_bit 16 (of_nat s)
              OR push_bit 8 t OR n),
     IOC_TYPE = (\<lambda>c. drop_bit 8 c AND 255),
     IOC_NR = (\<lambda>c. c AND 255)\<rparr>"

lemma bit_below_256:
  fixes t :: u32
  assumes "t < 256" and "bit t m"
  shows "m < 8"
proof (rule ccontr)
  assume "\<not> m < 8"
  from assms(1) have "take_bit 8 t = t"
    by (simp add: take_bit_eq_mod mod_word_less)
  with \<open>\<not> m < 8\<close> have "\<not> bit t m"
    by (metis bit_take_bit_iff)
  with assms(2) show False by contradiction
qed

lemma linux_ioc_ok: "ioc_ok linux_ioc"
proof -
  have m: "(255 :: u32) = mask 8" by (simp add: mask_eq_exp_minus_1)
  have "drop_bit 8 (push_bit 30 d OR push_bit 16 s OR push_bit 8 t OR n) AND 255 = t"
    and "(push_bit 30 d OR push_bit 16 s OR push_bit 8 t OR n) AND 255 = n"
    if "t < 256" "n < 256" for d s t n :: u32
    unfolding m using that
    by (auto intro!: bit_word_eqI simp: bit_simps dest: bit_below_256)
  then show ?thesis by (simp add: ioc_ok_def linux_ioc_def)
qed

end
