(* ===== verification/Device.thy ===== *)
theory Device
  imports Uapi
begin

text \<open>
  The kernel-side data of \<open>include/kmd/fpgagpu_core.h\<close>: the 64-byte dispatch packet and its
  words in BAR0, the ring header, the XDMA descriptor, the per-open context and the device
  structure, with the MMIO primitives the driver reaches BAR0 and BAR1 through.
\<close>

section \<open>BAR0 layout\<close>

definition FPGAGPU_KERNEL_STAGING_OFFSET :: nat where "FPGAGPU_KERNEL_STAGING_OFFSET = 0x00010000"
definition FPGAGPU_RING_OFFSET :: nat where "FPGAGPU_RING_OFFSET = 0x00018000"
definition FPGAGPU_CP_IRQ_OFFSET :: nat where "FPGAGPU_CP_IRQ_OFFSET = 0x00020000"
definition HW_MAJOR_OFFSET :: nat where "HW_MAJOR_OFFSET = 0x20008"
definition HW_MINOR_OFFSET :: nat where "HW_MINOR_OFFSET = 0x2000C"
definition QUEUE_SIZE :: u32 where "QUEUE_SIZE = 512"

definition XDMA_H2C_CHAN0_CTRL :: nat where "XDMA_H2C_CHAN0_CTRL = 0x0004"
definition XDMA_H2C_CHAN0_STATUS :: nat where "XDMA_H2C_CHAN0_STATUS = 0x0040"
definition XDMA_H2C_CHAN0_SG_LO :: nat where "XDMA_H2C_CHAN0_SG_LO = 0x4080"
definition XDMA_H2C_CHAN0_SG_HI :: nat where "XDMA_H2C_CHAN0_SG_HI = 0x4084"
definition XDMA_H2C_CHAN0_SG_ADJ :: nat where "XDMA_H2C_CHAN0_SG_ADJ = 0x4088"
definition XDMA_C2H_CHAN0_CTRL :: nat where "XDMA_C2H_CHAN0_CTRL = 0x1004"
definition XDMA_C2H_CHAN0_STATUS :: nat where "XDMA_C2H_CHAN0_STATUS = 0x1040"
definition XDMA_C2H_CHAN0_SG_LO :: nat where "XDMA_C2H_CHAN0_SG_LO = 0x5080"
definition XDMA_C2H_CHAN0_SG_HI :: nat where "XDMA_C2H_CHAN0_SG_HI = 0x5084"
definition XDMA_C2H_CHAN0_SG_ADJ :: nat where "XDMA_C2H_CHAN0_SG_ADJ = 0x5088"

lemmas bar0_offsets = FPGAGPU_KERNEL_STAGING_OFFSET_def FPGAGPU_RING_OFFSET_def
  FPGAGPU_CP_IRQ_OFFSET_def HW_MAJOR_OFFSET_def HW_MINOR_OFFSET_def

lemmas xdma_offsets = XDMA_H2C_CHAN0_CTRL_def XDMA_H2C_CHAN0_STATUS_def
  XDMA_H2C_CHAN0_SG_LO_def XDMA_H2C_CHAN0_SG_HI_def XDMA_H2C_CHAN0_SG_ADJ_def
  XDMA_C2H_CHAN0_CTRL_def XDMA_C2H_CHAN0_STATUS_def XDMA_C2H_CHAN0_SG_LO_def
  XDMA_C2H_CHAN0_SG_HI_def XDMA_C2H_CHAN0_SG_ADJ_def

section \<open>Dispatch packet\<close>

record fpgagpu_dispatch_packet =
  pkt_magic :: u32
  pkt_opcode :: u32
  pkt_grid_dim_x :: u32
  pkt_grid_dim_y :: u32
  pkt_block_dim_x :: u32
  pkt_block_dim_y :: u32
  pkt_src_dma_addr :: u64
  pkt_dst_dma_addr :: u64
  pkt_num_elements :: u32
  pkt_task_id :: u32
  pkt_kernel_entry :: u32
  pkt_reserved :: "u32 \<times> u32 \<times> u32"

text \<open>\<open>struct fpgagpu_dispatch_packet task = {};\<close> zeroes every field.\<close>

definition zero_packet :: fpgagpu_dispatch_packet where
  "zero_packet = \<lparr>pkt_magic = 0, pkt_opcode = 0, pkt_grid_dim_x = 0, pkt_grid_dim_y = 0,
     pkt_block_dim_x = 0, pkt_block_dim_y = 0, pkt_src_dma_addr = 0, pkt_dst_dma_addr = 0,
     pkt_num_elements = 0, pkt_task_id = 0, pkt_kernel_entry = 0, pkt_reserved = (0, 0, 0)\<rparr>"

text \<open>
  The packed structure as the sixteen little-endian words that \<open>memcpy_toio\<close> moves; a
  64-bit field is its low word and then its high word.
\<close>

definition packet_words :: "fpgagpu_dispatch_packet \<Rightarrow> u32 list" where
  "packet_words p =
     [pkt_magic p, pkt_opcode p, pkt_grid_dim_x p, pkt_grid_dim_y p,
      pkt_block_dim_x p, pkt_block_dim_y p,
      lower_32_bits (pkt_src_dma_addr p), upper_32_bits (pkt_src_dma_addr p),
      lower_32_bits (pkt_dst_dma_addr p), upper_32_bits (pkt_dst_dma_addr p),
      pkt_num_elements p, pkt_task_id p, pkt_kernel_entry p,
      fst (pkt_reserved p), fst (snd (pkt_reserved p)), snd (snd (pkt_reserved p))]"

definition packet_of_words :: "u32 list \<Rightarrow> fpgagpu_dispatch_packet" where
  "packet_of_words ws =
     \<lparr>pkt_magic = ws ! 0, pkt_opcode = ws ! 1, pkt_grid_dim_x = ws ! 2, pkt_grid_dim_y = ws ! 3,
      pkt_block_dim_x = ws ! 4, pkt_block_dim_y = ws ! 5,
      pkt_src_dma_addr = join_32_bits (ws ! 6) (ws ! 7),
      pkt_dst_dma_addr = join_32_bits (ws ! 8) (ws ! 9),
      pkt_num_elements = ws ! 10, pkt_task_id = ws ! 11, pkt_kernel_entry = ws ! 12,
      pkt_reserved = (ws ! 13, ws ! 14, ws ! 15)\<rparr>"

definition sizeof_dispatch_packet :: nat where
  "sizeof_dispatch_packet = sum_list [4, 4, 4, 4, 4, 4, 8, 8, 4, 4, 4, 4 * 3]"

lemma sizeof_dispatch_packet [layout_simps]: "sizeof_dispatch_packet = 64"
  by (simp add: sizeof_dispatch_packet_def)

lemma length_packet_words [simp]: "length (packet_words p) = 16"
  by (simp add: packet_words_def)

lemma packet_of_packet_words [simp]: "packet_of_words (packet_words p) = p"
  by (cases p) (simp add: packet_of_words_def packet_words_def)

lemma packet_words_of_words:
  assumes "length ws = 16"
  shows "packet_words (packet_of_words ws) = ws"
proof -
  from assms have "ws = map ((!) ws) [0..<16]"
    by (simp add: list_eq_iff_nth_eq del: upt_rec_numeral)
  moreover have "[0..<16] = [0, 1, 2, 3, 4, 5, 6, 7, 8, 9, 10, 11, 12, 13, 14, 15 :: nat]"
    by code_simp
  then have "packet_words (packet_of_words ws) = map ((!) ws) [0..<16]"
    by (simp only: packet_words_def packet_of_words_def) simp
  ultimately show ?thesis by simp
qed

section \<open>Ring buffer header and slots\<close>

text \<open>
  \<open>struct fpgagpu_ring_buffer\<close>: head, tail and fourteen reserved words, then the 64-byte
  aligned array \<open>cmds[QUEUE_SIZE]\<close>.  The structure lies in BAR0 at the ring offset.
\<close>

definition ring_fields :: "nat list" where
  "ring_fields = replicate 16 4 @ [64]"

definition RING_HEAD :: nat where
  "RING_HEAD = FPGAGPU_RING_OFFSET + c_offsets 0 ring_fields ! 0"

definition RING_TAIL :: nat where
  "RING_TAIL = FPGAGPU_RING_OFFSET + c_offsets 0 ring_fields ! 1"

definition ring_slot :: "nat \<Rightarrow> nat" where
  "ring_slot i = FPGAGPU_RING_OFFSET + c_offsets 0 ring_fields ! 16 + sizeof_dispatch_packet * i"

definition sizeof_ring_buffer :: nat where
  "sizeof_ring_buffer = c_offsets 0 ring_fields ! 16 + sizeof_dispatch_packet * unat QUEUE_SIZE"

lemma ring_field_offsets:
  "c_offsets 0 ring_fields = [0, 4, 8, 12, 16, 20, 24, 28, 32, 36, 40, 44, 48, 52, 56, 60, 64]"
  by code_simp

lemma ring_offsets [layout_simps, ring_simps]:
  "RING_HEAD = 0x18000" "RING_TAIL = 0x18004" "ring_slot i = 0x18040 + 64 * i"
  "sizeof_ring_buffer = 32832"
  by (simp_all add: RING_HEAD_def RING_TAIL_def ring_slot_def sizeof_ring_buffer_def
      ring_field_offsets bar0_offsets layout_simps QUEUE_SIZE_def)

section \<open>Descriptors, contexts, device\<close>

record xdma_desc =
  xd_control :: u32
  xd_bytes :: u32
  xd_src_addr :: u64
  xd_dst_addr :: u64
  xd_next_desc :: u64

definition XDMA_DESC_MAGIC :: u32 where "XDMA_DESC_MAGIC = 0xAD4B0000"
definition XDMA_DESC_EOP :: u32 where "XDMA_DESC_EOP = 1"

definition sizeof_xdma_desc :: nat where
  "sizeof_xdma_desc = sum_list [4, 4, 8, 8, 8]"

lemma sizeof_xdma_desc [layout_simps]: "sizeof_xdma_desc = 32"
  by (simp add: sizeof_xdma_desc_def)

text \<open>What \<open>sg_set_page\<close> stores in one entry of the scatterlist.\<close>

record scatterlist =
  sg_page :: u64
  sg_length :: u32
  sg_offset :: u32

record fpgagpu_context =
  ctx_dev :: int
  ctx_ring :: u64
  ctx_irq_fired :: int
  ctx_wakeups :: nat

text \<open>An MMIO write through BAR0 (\<open>csr_base\<close>) or BAR1 (\<open>dma_base\<close>), in program order.\<close>

datatype mmio = CsrWrite nat u32 | DmaWrite nat u32

text \<open>
  \<open>struct fpgagpu_dev\<close>.  BAR0 is a store of words (\<open>csr_mem\<close>); \<open>mmio_log\<close> records every
  MMIO write in order.  The last four fields are bookkeeping of kernel resources the driver
  acquires through Linux: page references taken and dropped, pages marked dirty, live
  scatterlist allocations and live DMA mappings.
\<close>

record fpgagpu_dev =
  minor :: int
  csr_mem :: "nat \<Rightarrow> u32"
  mmio_log :: "mmio list"
  dev_irq_fired :: int
  dev_wakeups :: nat
  ring_buffer :: u64
  dma_handle :: u64
  desc_ring :: "xdma_desc list"
  desc_ring_dma_addr :: u64
  pinned_pages :: "u64 list"
  num_pinned_pages :: int
  sgl :: "scatterlist list option"
  sgl_nents :: nat
  ctx_list :: "nat list"
  ctx_heap :: "nat \<Rightarrow> fpgagpu_context option"
  page_refs :: "u64 \<Rightarrow> int"
  dirty_pages :: "u64 list"
  sg_allocs :: int
  dma_maps :: int

text \<open>A device structure as \<open>kzalloc\<close> returns it, over whatever BAR0 holds.\<close>

definition kzalloc_dev :: "(nat \<Rightarrow> u32) \<Rightarrow> fpgagpu_dev" where
  "kzalloc_dev bar = \<lparr>minor = 0, csr_mem = bar, mmio_log = [], dev_irq_fired = 0, dev_wakeups = 0,
     ring_buffer = 0, dma_handle = 0, desc_ring = [], desc_ring_dma_addr = 0, pinned_pages = [],
     num_pinned_pages = 0, sgl = None, sgl_nents = 0, ctx_list = [], ctx_heap = (\<lambda>_. None),
     page_refs = (\<lambda>_. 0), dirty_pages = [], sg_allocs = 0, dma_maps = 0\<rparr>"

section \<open>MMIO primitives\<close>

definition ioread32 :: "fpgagpu_dev \<Rightarrow> nat \<Rightarrow> u32" where
  "ioread32 d off = csr_mem d off"

definition iowrite32 :: "u32 \<Rightarrow> nat \<Rightarrow> fpgagpu_dev \<Rightarrow> fpgagpu_dev" where
  "iowrite32 v off d =
     d\<lparr>csr_mem := (csr_mem d)(off := v), mmio_log := mmio_log d @ [CsrWrite off v]\<rparr>"

definition iowrite32_dma :: "u32 \<Rightarrow> nat \<Rightarrow> fpgagpu_dev \<Rightarrow> fpgagpu_dev" where
  "iowrite32_dma v off d = d\<lparr>mmio_log := mmio_log d @ [DmaWrite off v]\<rparr>"

definition memcpy_toio :: "nat \<Rightarrow> u32 list \<Rightarrow> fpgagpu_dev \<Rightarrow> fpgagpu_dev" where
  "memcpy_toio off ws d = put_words iowrite32 off ws d"

interpretation bar0: word_store ioread32 iowrite32
  by unfold_locales (simp_all add: ioread32_def iowrite32_def)

definition raw_put :: "u32 \<Rightarrow> nat \<Rightarrow> (nat \<Rightarrow> u32) \<Rightarrow> (nat \<Rightarrow> u32)" where
  "raw_put w a m = m(a := w)"

interpretation cells: word_store "\<lambda>m. m" raw_put
  by unfold_locales (simp_all add: raw_put_def)

fun words_log :: "nat \<Rightarrow> u32 list \<Rightarrow> mmio list" where
  "words_log a [] = []"
| "words_log a (w # ws) = CsrWrite a w # words_log (a + 4) ws"

text \<open>Writing to BAR0 changes its cells and the log, and nothing else of the device.\<close>

lemma put_words_iowrite32:
  "put_words iowrite32 a ws d =
     d\<lparr>csr_mem := put_words raw_put a ws (csr_mem d), mmio_log := mmio_log d @ words_log a ws\<rparr>"
  by (induction ws arbitrary: a d) (simp_all add: iowrite32_def raw_put_def)

lemma memcpy_toio_eq:
  "memcpy_toio a ws d =
     d\<lparr>csr_mem := put_words raw_put a ws (csr_mem d), mmio_log := mmio_log d @ words_log a ws\<rparr>"
  by (simp add: memcpy_toio_def put_words_iowrite32)

lemma length_words_log [simp]: "length (words_log a ws) = length ws"
  by (induction ws arbitrary: a) simp_all

lemmas mmio_defs = ioread32_def iowrite32_def iowrite32_dma_def memcpy_toio_eq

end
