(* ===== verification/Fifo.thy ===== *)
theory Fifo
  imports Prelude
begin

text \<open>
  The abstract bounded queue: the contract between the command producers (the ioctl handlers)
  and the consumer of a ring (the firmware).  Its clients' facts, in particular that packets
  leave in the order in which they were accepted, are proved here once from the contract.
\<close>

datatype 'p fifo_op = Enq 'p | Deq

text \<open>
  A schedule of producer and consumer operations: the entries accepted, the entries
  delivered, and the final state.  The consumer waits (does nothing) on an empty queue.
\<close>

fun fifo_run ::
  "('s \<Rightarrow> 'e list) \<Rightarrow> ('p \<Rightarrow> 's \<Rightarrow> kret \<times> 's) \<Rightarrow> ('p \<Rightarrow> 's \<Rightarrow> 'e) \<Rightarrow> ('s \<Rightarrow> 's) \<Rightarrow>
     'p fifo_op list \<Rightarrow> 's \<Rightarrow> 'e list \<times> 'e list \<times> 's" where
  "fifo_run content enq entry deq [] s = ([], [], s)"
| "fifo_run content enq entry deq (Enq p # ops) s =
     (let r = enq p s; (acc, out, t) = fifo_run content enq entry deq ops (snd r)
      in (if is_ok (fst r) then entry p s # acc else acc, out, t))"
| "fifo_run content enq entry deq (Deq # ops) s =
     (if content s = [] then fifo_run content enq entry deq ops s
      else let (acc, out, t) = fifo_run content enq entry deq ops (deq s)
           in (acc, hd (content s) # out, t))"

locale bounded_fifo =
  fixes inv :: "'s \<Rightarrow> bool"
    and content :: "'s \<Rightarrow> 'e list"
    and cap :: nat
    and enq :: "'p \<Rightarrow> 's \<Rightarrow> kret \<times> 's"
    and entry :: "'p \<Rightarrow> 's \<Rightarrow> 'e"
    and deq :: "'s \<Rightarrow> 's"
  assumes enq_room: "inv s \<Longrightarrow> length (content s) < cap \<Longrightarrow>
      \<exists>s'. enq p s = (Inr (), s') \<and> inv s' \<and> content s' = content s @ [entry p s]"
    and enq_full: "inv s \<Longrightarrow> length (content s) = cap \<Longrightarrow> enq p s = (Inl EBUSY, s)"
    and content_bound: "inv s \<Longrightarrow> length (content s) \<le> cap"
    and deq_step: "inv s \<Longrightarrow> content s \<noteq> [] \<Longrightarrow> inv (deq s) \<and> content (deq s) = tl (content s)"
begin

lemma enq_cases:
  assumes "inv s"
  obtains (accepted) s' where "enq p s = (Inr (), s')" "inv s'" "content s' = content s @ [entry p s]"
      "length (content s) < cap"
    | (refused) "enq p s = (Inl EBUSY, s)" "length (content s) = cap"
  using enq_room [OF assms] enq_full [OF assms] content_bound [OF assms]
  by (metis le_neq_implies_less)

lemma enq_ok_iff: "inv s \<Longrightarrow> is_ok (fst (enq p s)) \<longleftrightarrow> length (content s) < cap"
  by (erule enq_cases [of s p]) auto

lemma enq_inv:
  assumes "inv s"
  shows "inv (snd (enq p s))"
  using assms by (cases rule: enq_cases [where p = p]) (use assms in simp_all)

text \<open>Conservation and order: what was queued plus what was accepted is what was delivered
  plus what is still queued, as lists.\<close>

lemma fifo_run_order:
  assumes "inv s" and "fifo_run content enq entry deq ops s = (acc, out, t)"
  shows "content s @ acc = out @ content t \<and> inv t"
  using assms
proof (induction ops arbitrary: s acc out t)
  case Nil
  then show ?case by simp
next
  case (Cons op ops)
  show ?case
  proof (cases op)
    case (Enq p)
    obtain acc' out' t' where run: "fifo_run content enq entry deq ops (snd (enq p s)) = (acc', out', t')"
      by (cases "fifo_run content enq entry deq ops (snd (enq p s))") auto
    have IH: "content (snd (enq p s)) @ acc' = out' @ content t' \<and> inv t'"
      by (rule Cons.IH [OF enq_inv [OF Cons.prems(1)] run])
    from Cons.prems(1) show ?thesis
    proof (cases rule: enq_cases [where p = p])
      case (accepted s')
      with Cons.prems(2) run Enq IH show ?thesis by auto
    next
      case refused
      with Cons.prems(2) run Enq IH show ?thesis by auto
    qed
  next
    case Deq
    show ?thesis
    proof (cases "content s = []")
      case True
      with Cons.prems(2) Deq have "fifo_run content enq entry deq ops s = (acc, out, t)" by simp
      with Cons.prems(1) show ?thesis by (rule Cons.IH)
    next
      case False
      obtain acc' out' t' where run: "fifo_run content enq entry deq ops (deq s) = (acc', out', t')"
        by (cases "fifo_run content enq entry deq ops (deq s)") auto
      from deq_step [OF Cons.prems(1) False]
      have "inv (deq s)" and tl: "content (deq s) = tl (content s)" by simp_all
      with Cons.IH run have "content (deq s) @ acc' = out' @ content t' \<and> inv t'" by blast
      with False tl run Cons.prems(2) Deq show ?thesis
        by (cases "content s") auto
    qed
  qed
qed

end

end
