(* ===== verification/Ring.thy ===== *)
theory Ring
  imports Device Fifo
begin

text \<open>
  The command ring in BAR0.  The host side is what SUBMIT_CMD and LOAD_KERNEL of
  \<open>driver/fpgagpu_ioctl.c\<close> share: the full test and the publication of a 64-byte packet.  The
  firmware is not part of the repository; the ring header of \<open>include/kmd/fpgagpu_core.h\<close>
  says that it owns \<open>head\<close> and advances it past consumed packets, which is all
  \<open>fw_consume\<close> does.  The ring is related to an abstract bounded queue through the locale
  \<open>bounded_fifo\<close>.
\<close>

section \<open>Host operations\<close>

definition ring_full :: "u32 \<Rightarrow> u32 \<Rightarrow> bool" where
  "ring_full head tail \<longleftrightarrow> (tail + 1) mod QUEUE_SIZE = head"

definition ring_publish :: "u32 \<Rightarrow> fpgagpu_dispatch_packet \<Rightarrow> fpgagpu_dev \<Rightarrow> fpgagpu_dev" where
  "ring_publish tail task d =
     (let d1 = memcpy_toio (ring_slot (unat tail)) (packet_words task) d;
          d2 = iowrite32 ((tail + 1) mod QUEUE_SIZE) RING_TAIL d1
      in iowrite32 1 FPGAGPU_CP_IRQ_OFFSET d2)"

definition ring_enq :: "fpgagpu_dispatch_packet \<Rightarrow> fpgagpu_dev \<Rightarrow> kret \<times> fpgagpu_dev" where
  "ring_enq task d =
     (let head = ioread32 d RING_HEAD; tail = ioread32 d RING_TAIL
      in if ring_full head tail then (Inl EBUSY, d) else (OK, ring_publish tail task d))"

text \<open>The firmware's side of the ring: one packet consumed.\<close>

definition fw_consume :: "fpgagpu_dev \<Rightarrow> fpgagpu_dev" where
  "fw_consume d =
     d\<lparr>csr_mem := (csr_mem d)(RING_HEAD := (ioread32 d RING_HEAD + 1) mod QUEUE_SIZE)\<rparr>"

section \<open>The queue a ring memory stands for\<close>

text \<open>
  BAR0 holds the ring window of 32 KiB and, from \<open>FPGAGPU_CP_IRQ_OFFSET\<close> on, registers.  A
  slot whose 64 bytes do not end below that offset is not ring memory: it has no content a
  consumer of the ring could read, and stands for \<open>None\<close>.
\<close>

definition slot_in_bram :: "nat \<Rightarrow> bool" where
  "slot_in_bram i \<longleftrightarrow> ring_slot i + sizeof_dispatch_packet \<le> FPGAGPU_CP_IRQ_OFFSET"

definition slot_packet :: "(nat \<Rightarrow> u32) \<Rightarrow> nat \<Rightarrow> fpgagpu_dispatch_packet" where
  "slot_packet m i = packet_of_words (get_words (\<lambda>m. m) (ring_slot i) 16 m)"

definition slot_view :: "(nat \<Rightarrow> u32) \<Rightarrow> nat \<Rightarrow> fpgagpu_dispatch_packet option" where
  "slot_view m i = (if slot_in_bram i then Some (slot_packet m i) else None)"

definition ring_dist :: "nat \<Rightarrow> nat \<Rightarrow> nat" where
  "ring_dist h t = (if h \<le> t then t - h else t + 512 - h)"

definition ring_wf :: "(nat \<Rightarrow> u32) \<Rightarrow> bool" where
  "ring_wf m \<longleftrightarrow> unat (m RING_HEAD) < 512 \<and> unat (m RING_TAIL) < 512"

definition ring_count :: "(nat \<Rightarrow> u32) \<Rightarrow> nat" where
  "ring_count m = ring_dist (unat (m RING_HEAD)) (unat (m RING_TAIL))"

definition ring_pending :: "(nat \<Rightarrow> u32) \<Rightarrow> nat list" where
  "ring_pending m = map (\<lambda>i. (unat (m RING_HEAD) + i) mod 512) [0..<ring_count m]"

definition ring_abs :: "(nat \<Rightarrow> u32) \<Rightarrow> fpgagpu_dispatch_packet option list" where
  "ring_abs m = map (slot_view m) (ring_pending m)"

definition ring_entry :: "fpgagpu_dispatch_packet \<Rightarrow> (nat \<Rightarrow> u32) \<Rightarrow> fpgagpu_dispatch_packet option" where
  "ring_entry p m = (if slot_in_bram (unat (m RING_TAIL)) then Some p else None)"

lemma slot_in_bram_iff [ring_simps]: "i < 512 \<Longrightarrow> slot_in_bram i \<longleftrightarrow> i \<noteq> 511"
  by (auto simp: slot_in_bram_def ring_offsets layout_simps bar0_offsets)

lemma length_ring_abs [simp]: "length (ring_abs m) = ring_count m"
  by (simp add: ring_abs_def ring_pending_def)

lemma ring_cells_distinct:
  "RING_HEAD \<noteq> RING_TAIL" "RING_TAIL \<noteq> RING_HEAD"
  "RING_HEAD \<noteq> FPGAGPU_CP_IRQ_OFFSET" "RING_TAIL \<noteq> FPGAGPU_CP_IRQ_OFFSET"
  by (simp_all add: ring_offsets bar0_offsets)

section \<open>Index arithmetic\<close>

lemma unat_succ_mod_queue [ring_simps]:
  "unat t < 512 \<Longrightarrow> unat ((t + 1) mod QUEUE_SIZE) = Suc (unat t) mod 512"
  by (simp add: QUEUE_SIZE_def unat_mod unat_word_ariths)

lemma ring_full_iff [ring_simps]:
  assumes "unat h < 512" and "unat t < 512"
  shows "ring_full h t \<longleftrightarrow> Suc (unat t) mod 512 = unat h"
  using unat_succ_mod_queue [OF assms(2)]
  by (metis ring_full_def word_unat_eq_iff)

lemma ring_dist_bound: "h < 512 \<Longrightarrow> t < 512 \<Longrightarrow> ring_dist h t \<le> 511"
  by (auto simp: ring_dist_def)

lemma ring_dist_tail: "h < 512 \<Longrightarrow> t < 512 \<Longrightarrow> (h + ring_dist h t) mod 512 = t"
  by (auto simp: ring_dist_def)

lemma ring_dist_enq:
  assumes "h < 512" and "t < 512" and "Suc t mod 512 \<noteq> h"
  shows "ring_dist h (Suc t mod 512) = Suc (ring_dist h t)"
proof (cases "t = 511")
  case True
  with assms show ?thesis by (auto simp: ring_dist_def)
next
  case False
  with assms(2) have "Suc t mod 512 = Suc t" by simp
  with assms show ?thesis by (auto simp: ring_dist_def)
qed

lemma ring_dist_full:
  assumes "h < 512" and "t < 512"
  shows "Suc t mod 512 = h \<longleftrightarrow> ring_dist h t = 511"
proof (cases "t = 511")
  case True
  with assms show ?thesis by (auto simp: ring_dist_def)
next
  case False
  with assms(2) have "Suc t mod 512 = Suc t" by simp
  with assms show ?thesis by (auto simp: ring_dist_def)
qed

lemma ring_dist_deq:
  assumes "h < 512" and "t < 512" and "h \<noteq> t"
  shows "ring_dist h t = Suc (ring_dist (Suc h mod 512) t)"
proof (cases "h = 511")
  case True
  with assms show ?thesis by (auto simp: ring_dist_def)
next
  case False
  with assms(1) have "Suc h mod 512 = Suc h" by simp
  with assms show ?thesis by (auto simp: ring_dist_def)
qed

lemma ring_dist_0: "h < 512 \<Longrightarrow> t < 512 \<Longrightarrow> ring_dist h t = 0 \<longleftrightarrow> h = t"
  by (auto simp: ring_dist_def)

lemma pending_below: "i \<in> set (ring_pending m) \<Longrightarrow> i < 512"
  by (auto simp: ring_pending_def)

lemma pending_not_tail:
  assumes "ring_wf m" and "i \<in> set (ring_pending m)"
  shows "i \<noteq> unat (m RING_TAIL)"
proof -
  let ?h = "unat (m RING_HEAD)" and ?t = "unat (m RING_TAIL)"
  from assms(1) have h: "?h < 512" and t: "?t < 512" by (simp_all add: ring_wf_def)
  from assms(2) obtain k where k: "k < ring_dist ?h ?t" and i: "i = (?h + k) mod 512"
    by (auto simp: ring_pending_def ring_count_def)
  have "(?h + k) mod 512 \<noteq> (?h + ring_dist ?h ?t) mod 512"
    using k ring_dist_bound [OF h t] by (intro mod_neq_if_close) auto
  with i ring_dist_tail [OF h t] show ?thesis by simp
qed

section \<open>Effect of publishing on BAR0\<close>

definition pub_mem :: "u32 \<Rightarrow> fpgagpu_dispatch_packet \<Rightarrow> (nat \<Rightarrow> u32) \<Rightarrow> (nat \<Rightarrow> u32)" where
  "pub_mem t task m = raw_put 1 FPGAGPU_CP_IRQ_OFFSET
     (raw_put ((t + 1) mod QUEUE_SIZE) RING_TAIL
       (put_words raw_put (ring_slot (unat t)) (packet_words task) m))"

lemma csr_mem_ring_publish [simp]: "csr_mem (ring_publish t task d) = pub_mem t task (csr_mem d)"
  by (simp add: ring_publish_def pub_mem_def memcpy_toio_eq iowrite32_def raw_put_def)

lemma slot_packet_put_slot:
  "slot_packet (put_words raw_put (ring_slot i) (packet_words p) m) i = p"
  by (simp add: slot_packet_def cells.get_put_words_same)

lemma slot_packet_put_other:
  assumes "i \<noteq> j"
  shows "slot_packet (put_words raw_put (ring_slot j) (packet_words p) m) i = slot_packet m i"
proof -
  from assms have "ring_slot i + 4 * 16 \<le> ring_slot j \<or> ring_slot j + 4 * 16 \<le> ring_slot i"
    by (auto simp: ring_offsets)
  then show ?thesis by (simp add: slot_packet_def cells.get_put_words_disjoint)
qed

lemma slot_packet_put_cell:
  "a < ring_slot 0 \<or> ring_slot i + 64 \<le> a \<Longrightarrow> slot_packet (raw_put w a m) i = slot_packet m i"
  by (auto simp: slot_packet_def ring_offsets intro!: arg_cong [where f = packet_of_words]
      cells.get_words_put_outside)

lemma slot_packet_put_tail [simp]:
  "slot_packet (raw_put w RING_TAIL m) i = slot_packet m i"
  by (rule slot_packet_put_cell) (simp add: ring_offsets)

lemma slot_packet_put_head [simp]:
  "slot_packet (raw_put w RING_HEAD m) i = slot_packet m i"
  by (rule slot_packet_put_cell) (simp add: ring_offsets)

lemma slot_packet_put_irq:
  "slot_in_bram i \<Longrightarrow> slot_packet (raw_put w FPGAGPU_CP_IRQ_OFFSET m) i = slot_packet m i"
  by (rule slot_packet_put_cell) (simp add: slot_in_bram_def layout_simps)

lemma pub_mem_head: "pub_mem t p m RING_HEAD = m RING_HEAD"
proof -
  have "put_words raw_put (ring_slot (unat t)) (packet_words p) m RING_HEAD = m RING_HEAD"
    by (rule cells.rd_put_words_outside) (simp add: ring_offsets)
  then show ?thesis by (simp add: pub_mem_def raw_put_def ring_offsets bar0_offsets)
qed

lemma pub_mem_tail: "pub_mem t p m RING_TAIL = (t + 1) mod QUEUE_SIZE"
  by (simp add: pub_mem_def raw_put_def ring_offsets bar0_offsets)

lemma slot_view_pub_mem:
  "slot_view (pub_mem t p m) i =
     (if i = unat t \<and> slot_in_bram i then Some p else slot_view m i)"
  by (cases "i = unat t") (auto simp: slot_view_def pub_mem_def slot_packet_put_irq
      slot_packet_put_slot slot_packet_put_other)

lemma ring_wf_pub_mem:
  "ring_wf m \<Longrightarrow> ring_wf (pub_mem (m RING_TAIL) p m)"
  by (simp add: ring_wf_def pub_mem_head pub_mem_tail unat_succ_mod_queue)

lemma ring_abs_pub_mem:
  assumes wf: "ring_wf m" and room: "\<not> ring_full (m RING_HEAD) (m RING_TAIL)"
  shows "ring_abs (pub_mem (m RING_TAIL) p m) = ring_abs m @ [ring_entry p m]"
proof -
  let ?t = "m RING_TAIL" and ?m' = "pub_mem (m RING_TAIL) p m"
  from wf have h: "unat (m RING_HEAD) < 512" and t: "unat ?t < 512"
    by (simp_all add: ring_wf_def)
  from room have "Suc (unat ?t) mod 512 \<noteq> unat (m RING_HEAD)"
    by (simp add: ring_full_iff [OF h t])
  then have "ring_count ?m' = Suc (ring_count m)"
    by (simp add: ring_count_def pub_mem_head pub_mem_tail unat_succ_mod_queue t
        ring_dist_enq [OF h t])
  then have pend: "ring_pending ?m' = ring_pending m @ [unat ?t]"
    by (simp add: ring_pending_def pub_mem_head ring_count_def ring_dist_tail [OF h t])
  have "map (slot_view ?m') (ring_pending m) = map (slot_view m) (ring_pending m)"
    using pending_not_tail [OF wf] by (auto simp: slot_view_pub_mem)
  moreover have "slot_view ?m' (unat ?t) = ring_entry p m"
    by (simp add: slot_view_pub_mem ring_entry_def) (simp add: slot_view_def)
  ultimately show ?thesis by (simp add: ring_abs_def pend)
qed

lemma ring_abs_consume:
  assumes wf: "ring_wf (csr_mem d)" and ne: "ring_abs (csr_mem d) \<noteq> []"
  shows "ring_wf (csr_mem (fw_consume d))"
    and "ring_abs (csr_mem (fw_consume d)) = tl (ring_abs (csr_mem d))"
proof -
  let ?m = "csr_mem d" and ?m' = "csr_mem (fw_consume d)"
  from wf have h: "unat (?m RING_HEAD) < 512" and t: "unat (?m RING_TAIL) < 512"
    by (simp_all add: ring_wf_def)
  have m': "?m' = raw_put ((?m RING_HEAD + 1) mod QUEUE_SIZE) RING_HEAD ?m"
    by (simp add: fw_consume_def raw_put_def ioread32_def)
  then have h': "unat (?m' RING_HEAD) = Suc (unat (?m RING_HEAD)) mod 512"
    and t': "?m' RING_TAIL = ?m RING_TAIL"
    by (simp_all add: raw_put_def unat_succ_mod_queue h ring_cells_distinct)
  with h t show "ring_wf ?m'" by (simp add: ring_wf_def)
  from ne have "ring_count ?m \<noteq> 0"
    by (metis length_0_conv length_ring_abs)
  then have hne: "unat (?m RING_HEAD) \<noteq> unat (?m RING_TAIL)"
    by (simp add: ring_count_def ring_dist_0 [OF h t])
  have cnt: "ring_count ?m = Suc (ring_count ?m')"
    unfolding ring_count_def h' t' by (rule ring_dist_deq [OF h t hne])
  have "ring_pending ?m' = tl (ring_pending ?m)"
    by (simp add: ring_pending_def cnt h' upt_conv_Cons map_Suc_upt [symmetric] mod_simps
        del: upt_Suc)
  moreover have "slot_view ?m' = slot_view ?m"
    by (simp add: fun_eq_iff slot_view_def m')
  ultimately show "ring_abs ?m' = tl (ring_abs ?m)"
    by (simp add: ring_abs_def map_tl)
qed

section \<open>The ring implements a bounded queue\<close>

text \<open>
  One producer call through \<open>ring_enq\<close> on a well-formed ring: with 511 packets pending
  the call reports a full queue and writes nothing, otherwise the packet joins the queue.
\<close>

abbreviation ring_inv :: "fpgagpu_dev \<Rightarrow> bool" where
  "ring_inv d \<equiv> ring_wf (csr_mem d)"

abbreviation ring_queue :: "fpgagpu_dev \<Rightarrow> fpgagpu_dispatch_packet option list" where
  "ring_queue d \<equiv> ring_abs (csr_mem d)"

lemma ring_full_count:
  assumes "ring_wf m"
  shows "ring_full (m RING_HEAD) (m RING_TAIL) \<longleftrightarrow> ring_count m = 511"
  using assms by (simp add: ring_wf_def ring_count_def ring_full_iff ring_dist_full)

lemma ring_count_bound: "ring_wf m \<Longrightarrow> ring_count m \<le> 511"
  by (simp add: ring_wf_def ring_count_def ring_dist_bound)

lemma ring_enq_full:
  "ring_inv d \<Longrightarrow> length (ring_queue d) = 511 \<Longrightarrow> ring_enq p d = (Inl EBUSY, d)"
  by (simp add: ring_enq_def ioread32_def ring_full_count)

lemma ring_enq_room:
  assumes "ring_inv d" and "length (ring_queue d) < 511"
  shows "ring_enq p d = (OK, ring_publish (ioread32 d RING_TAIL) p d)"
    and "ring_inv (ring_publish (ioread32 d RING_TAIL) p d)"
    and "ring_queue (ring_publish (ioread32 d RING_TAIL) p d)
           = ring_queue d @ [ring_entry p (csr_mem d)]"
  using assms by (simp_all add: ring_enq_def ioread32_def ring_full_count ring_wf_pub_mem
      ring_abs_pub_mem)

interpretation rq: bounded_fifo ring_inv ring_queue 511 ring_enq
  "\<lambda>p d. ring_entry p (csr_mem d)" fw_consume
proof unfold_locales
  fix d p
  assume "ring_inv d" and "length (ring_queue d) < 511"
  then show "\<exists>d'. ring_enq p d = (Inr (), d') \<and> ring_inv d' \<and>
    ring_queue d' = ring_queue d @ [ring_entry p (csr_mem d)]"
    using ring_enq_room by blast
next
  fix d p
  assume "ring_inv d" and "length (ring_queue d) = 511"
  then show "ring_enq p d = (Inl EBUSY, d)" by (rule ring_enq_full)
next
  fix d
  assume "ring_inv d"
  then show "length (ring_queue d) \<le> 511" by (simp add: ring_count_bound)
next
  fix d
  assume "ring_inv d" and "ring_queue d \<noteq> []"
  then show "ring_inv (fw_consume d) \<and> ring_queue (fw_consume d) = tl (ring_queue d)"
    by (simp add: ring_abs_consume)
qed

end
