(* ===== verification/Commands.thy ===== *)
theory Commands
  imports Ring
begin

text \<open>
  The command branches of \<open>fpgagpu_ioctl\<close> that use the ring and the version registers:
  SUBMIT_CMD, DOORBELL, GET_VERSION and LOAD_KERNEL.  What they obtain from Linux (user
  copies, sleeping on a wait queue, page pinning, DMA mapping) and what they read from the
  XDMA status register is the parameter \<open>kenv\<close>.
\<close>

section \<open>The kernel environment\<close>

text \<open>
  \<^item> \<open>copy_dma_param\<close>, \<open>copy_launch_cmd\<close>, \<open>copy_kernel_binary\<close>: what \<open>copy_from_user\<close>
    yields for the structure at a user address, \<open>None\<close> when it faults;
  \<^item> \<open>get_user_u32\<close>: \<open>get_user\<close> of one word; \<open>copy_version_out\<close>: whether \<open>copy_to_user\<close>
    copied everything;
  \<^item> \<open>wait_event\<close>: \<open>wait_event_interruptible_timeout\<close> of five seconds on a condition: its
    return value and the device as the condition was last evaluated on it;
  \<^item> \<open>get_user_pages_fast\<close>: return value and pages, for an address, a count and the write flag;
  \<^item> \<open>kmalloc_ok\<close>: whether the scatterlist allocation succeeds;
  \<^item> \<open>dma_map_sg\<close>: the mapped segments (bus address, length), none on failure;
  \<^item> \<open>xdma_status\<close>: the value of the channel's status register at each successive read.
\<close>

record kenv =
  copy_dma_param :: "u64 \<Rightarrow> fpgagpu_dma_param option"
  copy_launch_cmd :: "u64 \<Rightarrow> fpgagpu_launch_cmd option"
  copy_kernel_binary :: "u64 \<Rightarrow> fpgagpu_kernel_binary option"
  get_user_u32 :: "u64 \<Rightarrow> u32 option"
  copy_version_out :: "u64 \<Rightarrow> bool"
  wait_event :: "(fpgagpu_dev \<Rightarrow> bool) \<Rightarrow> fpgagpu_dev \<Rightarrow> int \<times> fpgagpu_dev"
  get_user_pages_fast :: "u64 \<Rightarrow> nat \<Rightarrow> bool \<Rightarrow> int \<times> u64 list"
  kmalloc_ok :: bool
  dma_map_sg :: "scatterlist list \<Rightarrow> bool \<Rightarrow> (u64 \<times> u32) list"
  xdma_status :: "nat \<Rightarrow> u32"

text \<open>
  Linux documents the wait: a positive value when the condition was true, 0 when the time
  ran out with the condition false, a negative value when a signal interrupted it.
\<close>

definition wait_ok :: "kenv \<Rightarrow> bool" where
  "wait_ok env \<longleftrightarrow> (\<forall>P d r d'. wait_event env P d = (r, d') \<longrightarrow>
     (0 < r \<longrightarrow> P d') \<and> (r = 0 \<longrightarrow> \<not> P d'))"

text \<open>While the host waits, the firmware moves only its head cell.\<close>

definition fw_only_head :: "kenv \<Rightarrow> bool" where
  "fw_only_head env \<longleftrightarrow> (\<forall>P d r d' a. wait_event env P d = (r, d') \<longrightarrow> a \<noteq> RING_HEAD \<longrightarrow>
     csr_mem d' a = csr_mem d a)"

section \<open>SUBMIT_CMD\<close>

definition or_default :: "u32 \<Rightarrow> u32 \<Rightarrow> u32" where
  "or_default v dflt = (if v \<noteq> 0 then v else dflt)"

definition launch_task :: "fpgagpu_launch_cmd \<Rightarrow> fpgagpu_dispatch_packet" where
  "launch_task user_cmd = zero_packet\<lparr>
     pkt_magic := FPGAGPU_MAGIC_OCL,
     pkt_opcode := cmd_opcode user_cmd,
     pkt_grid_dim_x := or_default (cmd_grid_dim_x user_cmd) 32,
     pkt_grid_dim_y := or_default (cmd_grid_dim_y user_cmd) 1,
     pkt_block_dim_x := or_default (cmd_block_dim_x user_cmd) 32,
     pkt_block_dim_y := or_default (cmd_block_dim_y user_cmd) 1,
     pkt_src_dma_addr := cmd_dma_src_addr user_cmd,
     pkt_dst_dma_addr := cmd_dma_dst_addr user_cmd,
     pkt_num_elements := cmd_num_elements user_cmd\<rparr>"

definition submit_cmd :: "kenv \<Rightarrow> int \<Rightarrow> u64 \<Rightarrow> fpgagpu_dev \<Rightarrow> kret \<times> fpgagpu_dev" where
  "submit_cmd env queue_mode arg d =
     (case copy_launch_cmd env arg of
        None \<Rightarrow> (Inl EFAULT, d)
      | Some user_cmd \<Rightarrow>
          if queue_mode = 0 then
            (let head = ioread32 d RING_HEAD; tail = ioread32 d RING_TAIL
             in if ring_full head tail then (Inl EBUSY, d)
                else (OK, ring_publish tail (launch_task user_cmd) d))
          else (Inl ENOTSUPP, d))"

section \<open>DOORBELL\<close>

definition doorbell :: "kenv \<Rightarrow> int \<Rightarrow> fpgagpu_dev \<Rightarrow> kret \<times> fpgagpu_dev" where
  "doorbell env queue_mode d =
     (if queue_mode = 0 then
        (let tail = ioread32 d RING_TAIL;
             (wait_ret, d') = wait_event env (\<lambda>d. ioread32 d RING_HEAD = tail) d
         in if wait_ret = 0 then (Inl ETIMEDOUT, d')
            else if wait_ret < 0 then (Inl (EXT wait_ret), d')
            else (OK, d'))
      else (Inl ENOTSUPP, d))"

section \<open>GET_VERSION\<close>

definition get_version :: "kenv \<Rightarrow> u64 \<Rightarrow> fpgagpu_dev \<Rightarrow> errno + fpgagpu_version_info" where
  "get_version env arg d =
     (let info = \<lparr>major_version = ioread32 d HW_MAJOR_OFFSET,
                  minor_version = ioread32 d HW_MINOR_OFFSET\<rparr>
      in if copy_version_out env arg then Inr info else Inl EFAULT)"

section \<open>LOAD_KERNEL\<close>

text \<open>The copy loop: word \<open>i\<close> of \<open>n\<close> remaining goes to the staging buffer.\<close>

fun stage_words :: "kenv \<Rightarrow> u64 \<Rightarrow> nat \<Rightarrow> nat \<Rightarrow> fpgagpu_dev \<Rightarrow> kret \<times> fpgagpu_dev" where
  "stage_words env u_code i 0 d = (OK, d)"
| "stage_words env u_code i (Suc n) d =
     (case get_user_u32 env (u_code + of_nat (4 * i)) of
        None \<Rightarrow> (Inl EFAULT, d)
      | Some word \<Rightarrow>
          stage_words env u_code (Suc i) n
            (iowrite32 word (FPGAGPU_KERNEL_STAGING_OFFSET + i * 4) d))"

definition load_task :: "fpgagpu_kernel_binary \<Rightarrow> fpgagpu_dispatch_packet" where
  "load_task kbin = zero_packet\<lparr>
     pkt_magic := FPGAGPU_MAGIC_OCL,
     pkt_opcode := FPGAGPU_OPCODE_LOAD_KERNEL,
     pkt_num_elements := instr_size kbin,
     pkt_task_id := kernel_id kbin\<rparr>"

definition load_kernel :: "kenv \<Rightarrow> u64 \<Rightarrow> fpgagpu_dev \<Rightarrow> kret \<times> fpgagpu_dev" where
  "load_kernel env arg d =
     (case copy_kernel_binary env arg of
        None \<Rightarrow> (Inl EFAULT, d)
      | Some kbin \<Rightarrow>
          if instr_size kbin = 0 \<or> instr_size kbin > 1024 then (Inl EINVAL, d)
          else
            (case stage_words env (user_instr_ptr kbin) 0 (unat (instr_size kbin)) d of
               (Inl e, d1) \<Rightarrow> (Inl e, d1)
             | (Inr _, d1) \<Rightarrow>
                 let head = ioread32 d1 RING_HEAD; tail = ioread32 d1 RING_TAIL
                 in if ring_full head tail then (Inl EBUSY, d1)
                    else
                      let d2 = ring_publish tail (load_task kbin) d1;
                          target_tail = (tail + 1) mod QUEUE_SIZE;
                          (timeout, d3) =
                            wait_event env (\<lambda>d. ioread32 d RING_HEAD = target_tail) d2
                      in if timeout = 0 then (Inl ETIMEDOUT, d3)
                         else if timeout < 0 then (Inl (EXT timeout), d3)
                         else (OK, d3)))"

section \<open>Submission in terms of the queue\<close>

lemma submit_cmd_enq:
  "submit_cmd env 0 arg d =
     (case copy_launch_cmd env arg of None \<Rightarrow> (Inl EFAULT, d)
      | Some c \<Rightarrow> ring_enq (launch_task c) d)"
  by (simp add: submit_cmd_def ring_enq_def split: option.split)

lemma mmio_log_ring_publish:
  "mmio_log (ring_publish tail task d) =
     mmio_log d @ words_log (ring_slot (unat tail)) (packet_words task) @
       [CsrWrite RING_TAIL ((tail + 1) mod QUEUE_SIZE), CsrWrite FPGAGPU_CP_IRQ_OFFSET 1]"
  by (simp add: ring_publish_def mmio_defs)

section \<open>The staging loop\<close>

definition user_words :: "kenv \<Rightarrow> u64 \<Rightarrow> nat \<Rightarrow> nat \<Rightarrow> u32 option list" where
  "user_words env u i n = map (\<lambda>j. get_user_u32 env (u + of_nat (4 * j))) [i..<i + n]"

lemma user_words_Suc:
  "user_words env u i (Suc n) = get_user_u32 env (u + of_nat (4 * i)) # user_words env u (Suc i) n"
  by (simp add: user_words_def upt_conv_Cons del: upt_Suc of_nat_mult)

text \<open>The loop succeeds exactly when every word is readable, and then writes the block.\<close>

lemma stage_words_ok:
  "user_words env u i n = map Some ws \<Longrightarrow>
     stage_words env u i n d =
       (OK, memcpy_toio (FPGAGPU_KERNEL_STAGING_OFFSET + 4 * i) ws d)"
proof (induction n arbitrary: i ws d)
  case 0
  then show ?case by (simp add: user_words_def memcpy_toio_def)
next
  case (Suc n)
  from Suc.prems obtain w ws' where w: "get_user_u32 env (u + of_nat (4 * i)) = Some w"
    and ws: "ws = w # ws'" and rest: "user_words env u (Suc i) n = map Some ws'"
    by (cases ws) (auto simp: user_words_Suc)
  have "stage_words env u i (Suc n) d
      = stage_words env u (Suc i) n (iowrite32 w (FPGAGPU_KERNEL_STAGING_OFFSET + i * 4) d)"
    using w by (simp del: of_nat_mult)
  also have "\<dots> = (OK, memcpy_toio (FPGAGPU_KERNEL_STAGING_OFFSET + 4 * Suc i) ws'
      (iowrite32 w (FPGAGPU_KERNEL_STAGING_OFFSET + i * 4) d))"
    by (rule Suc.IH [OF rest])
  finally show ?case
    by (simp add: ws memcpy_toio_def algebra_simps)
qed

lemma stage_words_fault:
  assumes "None \<in> set (user_words env u i n)"
  shows "fst (stage_words env u i n d) = Inl EFAULT"
  using assms
proof (induction n arbitrary: i d)
  case 0
  then show ?case by (simp add: user_words_def)
next
  case (Suc n)
  then show ?case
    by (cases "get_user_u32 env (u + of_nat (4 * i))")
      (auto simp: user_words_Suc simp del: of_nat_mult)
qed

lemma user_words_cases:
  obtains (readable) ws where "user_words env u i n = map Some ws" "length ws = n"
    | (faulting) "None \<in> set (user_words env u i n)"
proof (cases "None \<in> set (user_words env u i n)")
  case True
  then show ?thesis by (rule faulting)
next
  case False
  have "map (Some \<circ> the) (user_words env u i n) = user_words env u i n"
    by (rule map_idI) (use False in \<open>metis comp_apply option.collapse\<close>)
  then have "user_words env u i n = map Some (map the (user_words env u i n))" by simp
  moreover have "length (map the (user_words env u i n)) = n" by (simp add: user_words_def)
  ultimately show ?thesis by (rule readable)
qed

text \<open>Where the loop writes: only inside the staging buffer, whatever its outcome.\<close>

lemma stage_words_frame:
  assumes "a < FPGAGPU_KERNEL_STAGING_OFFSET \<or> FPGAGPU_KERNEL_STAGING_OFFSET + 4 * (i + n) \<le> a"
  shows "csr_mem (snd (stage_words env u i n d)) a = csr_mem d a"
  using assms
proof (induction n arbitrary: i d)
  case 0
  then show ?case by simp
next
  case (Suc n)
  show ?case
  proof (cases "get_user_u32 env (u + of_nat (4 * i))")
    case None
    then show ?thesis by (simp del: of_nat_mult)
  next
    case (Some w)
    from Suc.prems have "a \<noteq> FPGAGPU_KERNEL_STAGING_OFFSET + i * 4" by auto
    moreover from Suc.prems have "a < FPGAGPU_KERNEL_STAGING_OFFSET \<or>
        FPGAGPU_KERNEL_STAGING_OFFSET + 4 * (Suc i + n) \<le> a" by auto
    ultimately show ?thesis
      using Suc.IH [of "Suc i" "iowrite32 w (FPGAGPU_KERNEL_STAGING_OFFSET + i * 4) d"] Some
      by (simp add: iowrite32_def del: of_nat_mult)
  qed
qed

lemma stage_words_ring:
  assumes "unat k \<le> 1024"
  shows "a \<in> {RING_HEAD, RING_TAIL} \<Longrightarrow>
      csr_mem (snd (stage_words env u 0 (unat k) d)) a = csr_mem d a"
    and "ring_queue (snd (stage_words env u 0 (unat k) d)) = ring_queue d"
    and "ring_inv (snd (stage_words env u 0 (unat k) d)) = ring_inv d"
proof -
  let ?d' = "snd (stage_words env u 0 (unat k) d)"
  have frame: "csr_mem ?d' a = csr_mem d a" if "FPGAGPU_RING_OFFSET \<le> a" for a
    using assms that by (intro stage_words_frame) (simp add: bar0_offsets)
  then show cells: "a \<in> {RING_HEAD, RING_TAIL} \<Longrightarrow> csr_mem ?d' a = csr_mem d a"
    by (auto simp: ring_offsets bar0_offsets)
  have "slot_packet (csr_mem ?d') i = slot_packet (csr_mem d) i" for i
    unfolding slot_packet_def
    by (rule arg_cong [where f = packet_of_words], rule get_words_cong)
      (rule frame, simp add: ring_offsets bar0_offsets)
  moreover have "csr_mem ?d' RING_HEAD = csr_mem d RING_HEAD"
    and "csr_mem ?d' RING_TAIL = csr_mem d RING_TAIL"
    by (rule frame, simp add: ring_offsets bar0_offsets)+
  ultimately show "ring_queue ?d' = ring_queue d" and "ring_inv ?d' = ring_inv d"
    by (simp_all add: ring_abs_def ring_pending_def ring_count_def slot_view_def [abs_def]
        ring_wf_def)
qed

section \<open>LOAD_KERNEL by cases\<close>

lemma pub_mem_below_ring: "a < FPGAGPU_RING_OFFSET \<Longrightarrow> pub_mem t p m a = m a"
proof -
  assume a: "a < FPGAGPU_RING_OFFSET"
  then have "put_words raw_put (ring_slot (unat t)) (packet_words p) m a = m a"
    by (intro cells.rd_put_words_outside) (simp add: ring_offsets bar0_offsets)
  with a show ?thesis by (simp add: pub_mem_def raw_put_def ring_offsets bar0_offsets)
qed

text \<open>The device once the code is staged, and once the LOAD packet is published.\<close>

definition staged :: "u32 list \<Rightarrow> fpgagpu_dev \<Rightarrow> fpgagpu_dev" where
  "staged ws d = memcpy_toio FPGAGPU_KERNEL_STAGING_OFFSET ws d"

definition load_published :: "fpgagpu_kernel_binary \<Rightarrow> u32 list \<Rightarrow> fpgagpu_dev \<Rightarrow> fpgagpu_dev" where
  "load_published kbin ws d = ring_publish (ioread32 d RING_TAIL) (load_task kbin) (staged ws d)"

lemma staged_ring:
  assumes "length ws \<le> 1024"
  shows "ioread32 (staged ws d) RING_HEAD = ioread32 d RING_HEAD"
    and "ioread32 (staged ws d) RING_TAIL = ioread32 d RING_TAIL"
    and "slot_view (csr_mem (staged ws d)) = slot_view (csr_mem d)"
proof -
  have out: "csr_mem (staged ws d) a = csr_mem d a" if "FPGAGPU_RING_OFFSET \<le> a" for a
    unfolding staged_def memcpy_toio_eq using assms that
    by (auto simp: bar0_offsets intro!: cells.rd_put_words_outside)
  then show "ioread32 (staged ws d) RING_HEAD = ioread32 d RING_HEAD"
    and "ioread32 (staged ws d) RING_TAIL = ioread32 d RING_TAIL"
    by (simp_all add: ioread32_def ring_offsets bar0_offsets)
  have "slot_packet (csr_mem (staged ws d)) i = slot_packet (csr_mem d) i" for i
    unfolding slot_packet_def
    by (rule arg_cong [where f = packet_of_words], rule get_words_cong)
      (rule out, simp add: ring_offsets bar0_offsets)
  then show "slot_view (csr_mem (staged ws d)) = slot_view (csr_mem d)"
    by (simp add: fun_eq_iff slot_view_def)
qed

lemma load_kernel_staged:
  assumes "copy_kernel_binary env arg = Some kbin"
    and "user_words env (user_instr_ptr kbin) 0 (unat (instr_size kbin)) = map Some ws"
    and "ws \<noteq> []" and "length ws \<le> 1024"
  shows "load_kernel env arg d =
      (if ring_full (ioread32 d RING_HEAD) (ioread32 d RING_TAIL) then (Inl EBUSY, staged ws d)
       else case wait_event env
            (\<lambda>d'. ioread32 d' RING_HEAD = (ioread32 d RING_TAIL + 1) mod QUEUE_SIZE)
            (load_published kbin ws d) of
          (t, d3) \<Rightarrow> (if t = 0 then (Inl ETIMEDOUT, d3)
                     else if t < 0 then (Inl (EXT t), d3) else (OK, d3)))"
proof -
  have n: "unat (instr_size kbin) = length ws"
    using arg_cong [OF assms(2), of length] by (simp add: user_words_def)
  then have "instr_size kbin \<noteq> 0" and "\<not> 1024 < instr_size kbin"
    using assms(3,4) by (auto simp: word_less_nat_alt)
  moreover have "stage_words env (user_instr_ptr kbin) 0 (unat (instr_size kbin)) d
      = (OK, staged ws d)"
    using stage_words_ok [OF assms(2)] by (simp add: staged_def)
  ultimately show ?thesis
    using assms(1) staged_ring(1,2) [OF assms(4)]
    by (simp add: load_kernel_def load_published_def Let_def case_prod_unfold)
qed

section \<open>A concrete environment\<close>

text \<open>
  An instance of the environment on which the hypotheses of the properties hold: every user
  copy succeeds, two words of code are readable at \<open>0x1000\<close>, while the host waits the
  firmware consumes everything that is queued, and pages are mapped at their own address.
\<close>

definition sample_wait :: "(fpgagpu_dev \<Rightarrow> bool) \<Rightarrow> fpgagpu_dev \<Rightarrow> int \<times> fpgagpu_dev" where
  "sample_wait P d =
     (let d' = d\<lparr>csr_mem := (csr_mem d)(RING_HEAD := csr_mem d RING_TAIL)\<rparr>
      in (if P d' then 1 else 0, d'))"

definition sample_map :: "scatterlist list \<Rightarrow> bool \<Rightarrow> (u64 \<times> u32) list" where
  "sample_map sg w =
     (if list_all (\<lambda>e. unat (sg_page e) < 2 ^ 52 \<and> unat (sg_offset e) + unat (sg_length e) \<le> 4096) sg
      then map (\<lambda>e. (0x1000 * sg_page e + ucast (sg_offset e), sg_length e)) sg else [])"

definition sample_cmd :: fpgagpu_launch_cmd where
  "sample_cmd = \<lparr>cmd_opcode = 1, cmd_grid_dim_x = 0, cmd_grid_dim_y = 2, cmd_block_dim_x = 8,
     cmd_block_dim_y = 0, cmd_dma_src_addr = 0, cmd_dma_dst_addr = 0, cmd_num_elements = 64,
     cmd_payload_size = 0, cmd_payload_vaddr = 0\<rparr>"

definition sample_kbin :: fpgagpu_kernel_binary where
  "sample_kbin = \<lparr>user_instr_ptr = 0x1000, instr_size = 2, kernel_id = 7\<rparr>"

definition sample_env :: kenv where
  "sample_env = \<lparr>
     copy_dma_param = (\<lambda>_. Some \<lparr>dma_direction = 0, dma_size = 5000, ddr3_addr = 0x10000,
       host_vaddr = 0x20010\<rparr>),
     copy_launch_cmd = (\<lambda>_. Some sample_cmd),
     copy_kernel_binary = (\<lambda>_. Some sample_kbin),
     get_user_u32 = (\<lambda>a. if a = 0x1000 then Some 0xAA else if a = 0x1004 then Some 0xBB else None),
     copy_version_out = (\<lambda>_. True),
     wait_event = sample_wait,
     get_user_pages_fast = (\<lambda>a n w. (int n, map of_nat [1..<n + 1])),
     kmalloc_ok = True,
     dma_map_sg = sample_map,
     xdma_status = (\<lambda>i. if i < 3 then 1 else 0)\<rparr>"

lemma sample_env_wait: "wait_ok sample_env" "fw_only_head sample_env"
  by (auto simp: wait_ok_def fw_only_head_def sample_env_def sample_wait_def Let_def
      split: if_splits)

definition sample_dev :: fpgagpu_dev where
  "sample_dev = kzalloc_dev (\<lambda>_. 0)"

lemma sample_dev_ring: "ring_inv sample_dev" "ring_queue sample_dev = []"
  by (simp_all add: sample_dev_def kzalloc_dev_def ring_wf_def ring_abs_def ring_pending_def
      ring_count_def ring_dist_def)

section \<open>Properties\<close>

text \<open>C5: SUBMIT_CMD implements the bounded queue.  On a well-formed ring it succeeds exactly
  when fewer than 511 packets are pending, and then the packet built from the user's command
  joins the queue at its end; otherwise it returns \<open>-EBUSY\<close> and the device is unchanged.\<close>

theorem submit_cmd_refines_queue:
  assumes "ring_inv d" and "copy_launch_cmd env arg = Some c"
  shows "case submit_cmd env 0 arg d of (r, d') \<Rightarrow>
    ring_inv d' \<and>
    (if length (ring_queue d) = 511 then r = Inl EBUSY \<and> d' = d
     else r = OK \<and> ring_queue d' = ring_queue d @ [ring_entry (launch_task c) (csr_mem d)])"
proof -
  have enq: "submit_cmd env 0 arg d = ring_enq (launch_task c) d"
    using assms(2) by (simp add: submit_cmd_enq)
  show ?thesis
    using assms(1) by (cases rule: rq.enq_cases [where p = "launch_task c"])
      (use assms(1) in \<open>auto simp: enq\<close>)
qed

theorem submit_cmd_refines_queue_witness:
  "ring_queue (snd (submit_cmd sample_env 0 0 sample_dev)) = [Some (launch_task sample_cmd)]"
proof -
  have c: "copy_launch_cmd sample_env 0 = Some sample_cmd" by (simp add: sample_env_def)
  have "ring_entry (launch_task sample_cmd) (csr_mem sample_dev) = Some (launch_task sample_cmd)"
    by (simp add: ring_entry_def slot_in_bram_iff sample_dev_def kzalloc_dev_def)
  with submit_cmd_refines_queue [OF sample_dev_ring(1) c] show ?thesis
    by (simp add: sample_dev_ring(2) case_prod_unfold del: length_ring_abs)
qed

text \<open>Publication order.  A successful SUBMIT_CMD issues exactly eighteen MMIO writes: the
  sixteen words of the packet into the slot at the old tail, then the new tail, then the
  command interrupt.  The firmware is never told of a packet that is not in place.\<close>

theorem submit_cmd_publish_order:
  assumes "submit_cmd env queue_mode arg d = (OK, d')"
  shows "\<exists>c. copy_launch_cmd env arg = Some c \<and> queue_mode = 0 \<and>
    mmio_log d' = mmio_log d
      @ words_log (ring_slot (unat (ioread32 d RING_TAIL))) (packet_words (launch_task c))
      @ [CsrWrite RING_TAIL ((ioread32 d RING_TAIL + 1) mod QUEUE_SIZE),
         CsrWrite FPGAGPU_CP_IRQ_OFFSET 1]"
  using assms by (auto simp: submit_cmd_def Let_def mmio_log_ring_publish
      split: option.splits if_splits)

theorem submit_cmd_publish_order_witness:
  "\<exists>d' c. submit_cmd sample_env 0 0 sample_dev = (OK, d') \<and>
    length (mmio_log d') = 18 \<and> copy_launch_cmd sample_env 0 = Some c"
proof -
  obtain d' where d': "submit_cmd sample_env 0 0 sample_dev = (OK, d')"
    by (simp add: submit_cmd_def sample_env_def ring_full_def sample_dev_def kzalloc_dev_def
        ioread32_def QUEUE_SIZE_def)
  from submit_cmd_publish_order [OF d'] have "length (mmio_log d') = 18"
    by (auto simp: sample_dev_def kzalloc_dev_def)
  with d' show ?thesis by (auto simp: sample_env_def)
qed

text \<open>C23: the last slot is not ring memory.  The ring structure is 64 bytes longer than the
  32 KiB window between \<open>FPGAGPU_RING_OFFSET\<close> and the control registers, so a submission
  that finds the tail at 511 writes its packet over the registers: the packet's magic number
  lands in the command interrupt register before the tail is published, the version
  registers receive grid dimensions, and no packet joins the queue in memory.\<close>

theorem submit_last_slot_overwrites_registers:
  assumes "ring_inv d" and "copy_launch_cmd env arg = Some c"
    and "ioread32 d RING_TAIL = 511" and "length (ring_queue d) \<noteq> 511"
  shows "FPGAGPU_RING_OFFSET + sizeof_ring_buffer = FPGAGPU_CP_IRQ_OFFSET + 64 \<and>
    (\<exists>d' rest. submit_cmd env 0 arg d = (OK, d') \<and>
       mmio_log d' = mmio_log d @ CsrWrite FPGAGPU_CP_IRQ_OFFSET FPGAGPU_MAGIC_OCL # rest \<and>
       ioread32 d' HW_MAJOR_OFFSET = or_default (cmd_grid_dim_x c) 32 \<and>
       ioread32 d' HW_MINOR_OFFSET = or_default (cmd_grid_dim_y c) 1 \<and>
       ring_queue d' = ring_queue d @ [None])"
proof -
  let ?p = "launch_task c" and ?d' = "ring_publish 511 (launch_task c) d"
  have run: "submit_cmd env 0 arg d = (OK, ?d')"
    using assms ring_enq_room(1) [of d ?p] ring_count_bound [of "csr_mem d"]
    by (simp add: submit_cmd_enq)
  have q: "ring_queue ?d' = ring_queue d @ [None]"
    using submit_cmd_refines_queue [OF assms(1,2)] run assms(3,4)
    by (simp add: ring_entry_def slot_in_bram_iff ioread32_def)
  have log: "mmio_log ?d' = mmio_log d @ CsrWrite FPGAGPU_CP_IRQ_OFFSET FPGAGPU_MAGIC_OCL #
      (tl (words_log (ring_slot 511) (packet_words ?p))
        @ [CsrWrite RING_TAIL ((511 + 1) mod QUEUE_SIZE), CsrWrite FPGAGPU_CP_IRQ_OFFSET 1])"
    unfolding mmio_log_ring_publish
    by (simp add: packet_words_def launch_task_def ring_offsets bar0_offsets)
  have "put_words raw_put (ring_slot 511) (packet_words ?p) (csr_mem d) (ring_slot 511 + 4 * i)
      = packet_words ?p ! i" if "i < 16" for i
    using that by (intro cells.rd_put_words_inside) simp
  from this [of 2] this [of 3]
  have "ioread32 ?d' HW_MAJOR_OFFSET = or_default (cmd_grid_dim_x c) 32"
    and "ioread32 ?d' HW_MINOR_OFFSET = or_default (cmd_grid_dim_y c) 1"
    by (simp_all add: ioread32_def pub_mem_def raw_put_def ring_offsets bar0_offsets
        packet_words_def launch_task_def)
  with run q log show ?thesis by (simp add: layout_simps bar0_offsets)
qed

theorem submit_last_slot_overwrites_registers_witness:
  "\<exists>d' rest. submit_cmd sample_env 0 0
       (kzalloc_dev ((\<lambda>_. 0)(RING_HEAD := 511, RING_TAIL := 511))) = (OK, d') \<and>
     mmio_log d' = CsrWrite FPGAGPU_CP_IRQ_OFFSET FPGAGPU_MAGIC_OCL # rest \<and>
     ring_queue d' = [None]"
proof -
  let ?d = "kzalloc_dev ((\<lambda>_. 0)(RING_HEAD := 511, RING_TAIL := 511))"
  have inv: "ring_inv ?d" and q: "ring_queue ?d = []"
    by (simp_all add: kzalloc_dev_def ring_wf_def ring_abs_def ring_pending_def ring_count_def
        ring_dist_def ring_cells_distinct)
  have c: "copy_launch_cmd sample_env 0 = Some sample_cmd" by (simp add: sample_env_def)
  have t: "ioread32 ?d RING_TAIL = 511" by (simp add: kzalloc_dev_def ioread32_def)
  have ne: "length (ring_queue ?d) \<noteq> 511" unfolding q by simp
  from submit_last_slot_overwrites_registers [OF inv c t ne] show ?thesis
    unfolding q by (auto simp: kzalloc_dev_def)
qed

text \<open>Packets leave the ring in the order they entered.  For every schedule of producer
  calls and firmware steps on a well-formed ring, what was queued followed by what was
  accepted is what was consumed followed by what is still queued: nothing is lost,
  duplicated or reordered (a packet accepted into the last slot counts as the entry
  \<open>None\<close>, having no place in ring memory).\<close>

theorem ring_fifo_order:
  assumes "ring_inv d"
    and "fifo_run ring_queue ring_enq (\<lambda>p d. ring_entry p (csr_mem d)) fw_consume ops d
           = (accepted, consumed, d')"
  shows "ring_queue d @ accepted = consumed @ ring_queue d' \<and> ring_inv d'"
  using assms by (rule rq.fifo_run_order)

theorem ring_fifo_order_witness:
  "\<exists>accepted d'. fifo_run ring_queue ring_enq (\<lambda>p d. ring_entry p (csr_mem d)) fw_consume
     [Enq zero_packet, Deq] sample_dev = (accepted, [Some zero_packet], d') \<and>
     ring_queue sample_dev @ accepted = [Some zero_packet] @ ring_queue d'"
proof -
  let ?e = "\<lambda>p d. ring_entry p (csr_mem d)"
  have room: "length (ring_queue sample_dev) < 511" unfolding sample_dev_ring by simp
  define d1 where "d1 = ring_publish (ioread32 sample_dev RING_TAIL) zero_packet sample_dev"
  have e: "ring_entry zero_packet (csr_mem sample_dev) = Some zero_packet"
    by (simp add: ring_entry_def slot_in_bram_iff sample_dev_def kzalloc_dev_def)
  have enq: "ring_enq zero_packet sample_dev = (OK, d1)" and q: "ring_queue d1 = [Some zero_packet]"
    using ring_enq_room [OF sample_dev_ring(1) room, of zero_packet]
    by (simp_all add: d1_def sample_dev_ring e)
  then have run: "fifo_run ring_queue ring_enq ?e fw_consume [Enq zero_packet, Deq] sample_dev
      = ([Some zero_packet], [Some zero_packet], fw_consume d1)"
    by (simp add: e)
  from ring_fifo_order [OF sample_dev_ring(1) run] run show ?thesis by blast
qed

text \<open>The device after a successful load of given words.\<close>

lemma load_kernel_delivers:
  assumes "load_kernel env arg d = (OK, d')" and "fw_only_head env"
    and "copy_kernel_binary env arg = Some kbin"
    and "user_words env (user_instr_ptr kbin) 0 (unat (instr_size kbin)) = map Some ws"
    and "ws \<noteq> []" and "length ws \<le> 1024"
  shows "\<exists>r. wait_event env (\<lambda>d'. ioread32 d' RING_HEAD = (ioread32 d RING_TAIL + 1) mod QUEUE_SIZE)
      (load_published kbin ws d) = (r, d') \<and> 0 < r"
    and "a \<noteq> RING_HEAD \<Longrightarrow>
      csr_mem d' a = pub_mem (ioread32 d RING_TAIL) (load_task kbin) (csr_mem (staged ws d)) a"
    and "get_words ioread32 FPGAGPU_KERNEL_STAGING_OFFSET (length ws) d' = ws"
proof -
  show w: "\<exists>r. wait_event env (\<lambda>d'. ioread32 d' RING_HEAD = (ioread32 d RING_TAIL + 1) mod QUEUE_SIZE)
      (load_published kbin ws d) = (r, d') \<and> 0 < r"
    using assms(1) load_kernel_staged [OF assms(3-6), of d] by (auto split: if_splits prod.splits)
  have keep: "csr_mem d' a = pub_mem (ioread32 d RING_TAIL) (load_task kbin) (csr_mem (staged ws d)) a"
    if "a \<noteq> RING_HEAD" for a
    using assms(2) w that unfolding fw_only_head_def load_published_def
    by (metis csr_mem_ring_publish)
  then show "a \<noteq> RING_HEAD \<Longrightarrow>
      csr_mem d' a = pub_mem (ioread32 d RING_TAIL) (load_task kbin) (csr_mem (staged ws d)) a" by blast
  have "get_words ioread32 FPGAGPU_KERNEL_STAGING_OFFSET (length ws) d'
      = get_words ioread32 FPGAGPU_KERNEL_STAGING_OFFSET (length ws) (staged ws d)"
    using assms(6) by (intro get_words_cong)
      (simp add: ioread32_def keep pub_mem_below_ring ring_offsets bar0_offsets)
  then show "get_words ioread32 FPGAGPU_KERNEL_STAGING_OFFSET (length ws) d' = ws"
    by (simp add: staged_def memcpy_toio_def bar0.get_put_words_same)
qed

text \<open>The slots do not contain the head: what the firmware does to it leaves the packets alone.\<close>

lemma slot_view_head:
  assumes "\<And>a. a \<noteq> RING_HEAD \<Longrightarrow> mem a = mem' a"
  shows "slot_view mem = slot_view mem'"
proof
  fix i
  have "slot_packet mem i = slot_packet mem' i"
    unfolding slot_packet_def
    by (rule arg_cong [where f = packet_of_words], rule get_words_cong)
      (rule assms, simp add: ring_offsets)
  then show "slot_view mem i = slot_view mem' i" by (simp add: slot_view_def)
qed

lemma slot_view_load:
  assumes "\<And>a. a \<noteq> RING_HEAD \<Longrightarrow> mem a = pub_mem t task (csr_mem (staged ws d)) a"
    and "t = csr_mem d RING_TAIL"
  shows "slot_view mem (unat t) = ring_entry task (csr_mem d)"
proof -
  have "slot_view mem = slot_view (pub_mem t task (csr_mem (staged ws d)))"
    by (rule slot_view_head) (rule assms(1))
  then show ?thesis
    by (simp add: slot_view_pub_mem ring_entry_def assms(2)) (simp add: slot_view_def)
qed

text \<open>C6: a successful LOAD_KERNEL has delivered the program.  The size was between 1 and
  1024 words, every word was read from the user's buffer and the staging buffer holds
  exactly those words, the slot at the old tail holds the LOAD packet with the instruction
  count and kernel id, and the firmware has consumed everything up to it.\<close>

theorem load_kernel_success:
  assumes "load_kernel env arg d = (OK, d')" and "wait_ok env" and "fw_only_head env"
  shows "\<exists>kbin ws. copy_kernel_binary env arg = Some kbin \<and>
    1 \<le> length ws \<and> length ws \<le> 1024 \<and> unat (instr_size kbin) = length ws \<and>
    user_words env (user_instr_ptr kbin) 0 (length ws) = map Some ws \<and>
    get_words ioread32 FPGAGPU_KERNEL_STAGING_OFFSET (length ws) d' = ws \<and>
    slot_view (csr_mem d') (unat (ioread32 d RING_TAIL)) = ring_entry (load_task kbin) (csr_mem d) \<and>
    ioread32 d' RING_TAIL = (ioread32 d RING_TAIL + 1) mod QUEUE_SIZE \<and>
    ioread32 d' RING_HEAD = ioread32 d' RING_TAIL"
proof -
  from assms(1) obtain kbin where k: "copy_kernel_binary env arg = Some kbin"
    and sz: "instr_size kbin \<noteq> 0" "\<not> 1024 < instr_size kbin"
    by (auto simp: load_kernel_def split: option.splits if_splits)
  show ?thesis
  proof (cases rule: user_words_cases [of env "user_instr_ptr kbin" 0 "unat (instr_size kbin)"])
    case (readable ws)
    have len: "1 \<le> length ws" "length ws \<le> 1024"
      using sz readable(2) by (auto simp: word_less_nat_alt unat_gt_0 Suc_le_eq)
    then have ne: "ws \<noteq> []" by auto
    let ?t = "ioread32 d RING_TAIL" and ?d2 = "load_published kbin ws d"
    note delivered = load_kernel_delivers [OF assms(1,3) k readable(1) ne len(2)]
    from delivered(1) obtain r where w: "wait_event env (\<lambda>d'. ioread32 d' RING_HEAD = (?t + 1) mod QUEUE_SIZE) ?d2
        = (r, d')" and r: "0 < r" by blast
    have head: "ioread32 d' RING_HEAD = (?t + 1) mod QUEUE_SIZE"
      using assms(2) w r unfolding wait_ok_def by blast
    note keep = delivered(2)
    have tail: "ioread32 d' RING_TAIL = (?t + 1) mod QUEUE_SIZE"
      by (simp add: ioread32_def keep ring_cells_distinct pub_mem_tail)
    note code = delivered(3)
    have slot: "slot_view (csr_mem d') (unat ?t) = ring_entry (load_task kbin) (csr_mem d)"
      using slot_view_load [OF keep] by (simp add: ioread32_def)
    have words: "user_words env (user_instr_ptr kbin) 0 (length ws) = map Some ws"
      using readable by simp
    have "ioread32 d' RING_HEAD = ioread32 d' RING_TAIL" using head tail by simp
    with k len readable(2) [symmetric] words code slot tail show ?thesis by blast
  next
    case faulting
    obtain d1 where "stage_words env (user_instr_ptr kbin) 0 (unat (instr_size kbin)) d
        = (Inl EFAULT, d1)"
      using stage_words_fault [OF faulting, of d] by (metis prod.collapse)
    with assms(1) k sz show ?thesis by (simp add: load_kernel_def)
  qed
qed

theorem load_kernel_success_witness:
  "\<exists>d'. load_kernel sample_env 0 sample_dev = (OK, d') \<and>
     get_words ioread32 FPGAGPU_KERNEL_STAGING_OFFSET 2 d' = [0xAA, 0xBB] \<and>
     ioread32 d' RING_HEAD = ioread32 d' RING_TAIL"
proof -
  have words: "user_words sample_env 0x1000 0 2 = map Some [0xAA, 0xBB]"
    by (simp add: user_words_def sample_env_def upt_rec)
  have k: "copy_kernel_binary sample_env 0 = Some sample_kbin" by (simp add: sample_env_def)
  have "user_words sample_env (user_instr_ptr sample_kbin) 0 (unat (instr_size sample_kbin))
      = map Some [0xAA, 0xBB]"
    using words by (simp add: sample_kbin_def)
  from load_kernel_staged [OF k this, of sample_dev]
  obtain d' where run: "load_kernel sample_env 0 sample_dev = (OK, d')"
    by (simp add: sample_env_def sample_wait_def ring_full_def sample_dev_def kzalloc_dev_def
        load_published_def pub_mem_tail QUEUE_SIZE_def Let_def ioread32_def
        ring_cells_distinct)
  from load_kernel_success [OF run sample_env_wait] obtain kbin ws where
    "copy_kernel_binary sample_env 0 = Some kbin" and "unat (instr_size kbin) = length ws"
    and uw: "user_words sample_env (user_instr_ptr kbin) 0 (length ws) = map Some ws"
    and code: "get_words ioread32 FPGAGPU_KERNEL_STAGING_OFFSET (length ws) d' = ws"
    and ht: "ioread32 d' RING_HEAD = ioread32 d' RING_TAIL" by blast
  with k have len: "length ws = 2" and ptr: "user_instr_ptr kbin = 0x1000"
    by (auto simp: sample_kbin_def)
  from uw words have "map Some ws = map Some [0xAA, 0xBB]" by (simp only: len ptr)
  then have "ws = [0xAA, 0xBB]" by (metis (no_types) inj_Some map_injective)
  with code [unfolded len] have "get_words ioread32 FPGAGPU_KERNEL_STAGING_OFFSET 2 d' = [0xAA, 0xBB]"
    by (rule trans)
  with run ht show ?thesis by blast
qed

text \<open>A LOAD_KERNEL that returns \<open>-EFAULT\<close>, \<open>-EINVAL\<close> or \<open>-EBUSY\<close> has dispatched
  nothing.  The ring with its queue, and every other cell of BAR0 outside the first 4 KiB of
  the staging buffer, are what they were.\<close>

theorem load_kernel_rejected_no_dispatch:
  assumes "load_kernel env arg d = (Inl e, d')" and "e \<in> {EFAULT, EINVAL, EBUSY}"
  shows "ring_queue d' = ring_queue d \<and>
    (\<forall>a. a \<notin> {FPGAGPU_KERNEL_STAGING_OFFSET ..< FPGAGPU_KERNEL_STAGING_OFFSET + 4096} \<longrightarrow>
       ioread32 d' a = ioread32 d a)"
proof -
  have "d' = d \<or> (\<exists>k u. unat k \<le> 1024 \<and> d' = snd (stage_words env u 0 (unat (k :: u32)) d))"
    using assms
    by (auto simp: load_kernel_def Let_def word_le_nat_alt not_less
        split: option.splits if_splits prod.splits sum.splits) (metis snd_conv)+
  then show ?thesis
  proof (elim disjE exE conjE)
    fix k :: u32 and u
    assume k: "unat k \<le> 1024" and d': "d' = snd (stage_words env u 0 (unat k) d)"
    have "csr_mem d' a = csr_mem d a"
      if "a \<notin> {FPGAGPU_KERNEL_STAGING_OFFSET ..< FPGAGPU_KERNEL_STAGING_OFFSET + 4096}" for a
      unfolding d' using k that by (intro stage_words_frame) (auto simp: not_less)
    with stage_words_ring(2) [OF k, of env u d] show ?thesis
      by (simp add: d' ioread32_def)
  qed simp
qed

theorem load_kernel_rejected_no_dispatch_witness:
  "\<exists>d'. load_kernel (sample_env\<lparr>get_user_u32 := (\<lambda>a. if a = 0x1000 then Some 1 else None)\<rparr>)
     0 sample_dev = (Inl EFAULT, d') \<and> ring_queue d' = [] \<and> ioread32 d' RING_TAIL = 0"
proof -
  let ?env = "sample_env\<lparr>get_user_u32 := (\<lambda>a. if a = 0x1000 then Some 1 else None)\<rparr>"
  have "None \<in> set (user_words ?env 0x1000 0 2)"
    by (simp add: user_words_def upt_rec)
  from stage_words_fault [OF this, of sample_dev] obtain d'
    where "stage_words ?env 0x1000 0 2 sample_dev = (Inl EFAULT, d')"
    by (metis prod.collapse)
  moreover have "copy_kernel_binary ?env 0 = Some sample_kbin" by (simp add: sample_env_def)
  ultimately have run: "load_kernel ?env 0 sample_dev = (Inl EFAULT, d')"
    by (simp add: load_kernel_def sample_kbin_def)
  from load_kernel_rejected_no_dispatch [OF run] have "ring_queue d' = ring_queue sample_dev"
    and "ioread32 d' RING_TAIL = ioread32 sample_dev RING_TAIL"
    by (auto simp: ring_offsets bar0_offsets)
  with run show ?thesis
    unfolding sample_dev_ring by (auto simp: sample_dev_def kzalloc_dev_def ioread32_def)
qed

text \<open>DOORBELL returns success only when the ring is drained: everything that was queued
  when it was called has been consumed, provided the firmware alone moves the ring during
  the wait.  A timeout is reported only when the head never reached the tail that was read.\<close>

theorem doorbell_waits_for_drain:
  assumes "ring_inv d" and "wait_ok env" and "fw_only_head env"
  shows "case doorbell env 0 d of (r, d') \<Rightarrow>
    (r = OK \<longrightarrow> ring_queue d' = []) \<and>
    (r = Inl ETIMEDOUT \<longrightarrow> ioread32 d' RING_HEAD \<noteq> ioread32 d RING_TAIL)"
proof -
  obtain r d' where w: "wait_event env (\<lambda>d'. ioread32 d' RING_HEAD = ioread32 d RING_TAIL) d = (r, d')"
    by (cases "wait_event env (\<lambda>d'. ioread32 d' RING_HEAD = ioread32 d RING_TAIL) d")
  with assms(2) have pos: "0 < r \<Longrightarrow> ioread32 d' RING_HEAD = ioread32 d RING_TAIL"
    and zero: "r = 0 \<Longrightarrow> ioread32 d' RING_HEAD \<noteq> ioread32 d RING_TAIL"
    unfolding wait_ok_def by blast+
  have "csr_mem d' RING_TAIL = csr_mem d RING_TAIL"
    using assms(3) w ring_cells_distinct(2) unfolding fw_only_head_def by blast
  with pos have "0 < r \<Longrightarrow> ring_queue d' = []"
    by (simp add: ring_abs_def ring_pending_def ring_count_def ring_dist_def ioread32_def)
  with w zero show ?thesis by (auto simp: doorbell_def Let_def)
qed

theorem doorbell_waits_for_drain_witness:
  "ring_queue (snd (doorbell sample_env 0 (snd (ring_enq zero_packet sample_dev)))) = []"
proof -
  let ?d = "snd (ring_enq zero_packet sample_dev)"
  have inv: "ring_inv ?d" by (rule rq.enq_inv [OF sample_dev_ring(1)])
  have "fst (doorbell sample_env 0 ?d) = OK"
    by (simp add: doorbell_def sample_env_def sample_wait_def ioread32_def Let_def
        ring_cells_distinct)
  with doorbell_waits_for_drain [OF inv sample_env_wait] show ?thesis
    by (simp add: case_prod_unfold)
qed

end
