(* ===== verification/Dma.thy ===== *)
theory Dma
  imports Commands
begin

text \<open>
  The DMA_TRANSFER branch of \<open>fpgagpu_ioctl\<close>: validation of the user's range, pinning, the
  scatterlist, the XDMA descriptor chain, the polling loop and the teardown.  The reading of
  a descriptor chain by the XDMA engine (\<open>chain_walk\<close>, \<open>desc_moves\<close>) follows the
  descriptor format that \<open>include/kmd/fpgagpu_core.h\<close> documents and is used in statements only.
\<close>

section \<open>Validation\<close>

definition PAGE_SIZE :: u64 where "PAGE_SIZE = 4096"
definition PAGE_MASK :: u64 where "PAGE_MASK = NOT (PAGE_SIZE - 1)"

definition ULONG_MAX :: u64 where "ULONG_MAX = - 1"

definition offset_in_page :: "u64 \<Rightarrow> u32" where
  "offset_in_page a = ucast (a AND (PAGE_SIZE - 1))"

definition DIV_ROUND_UP :: "u64 \<Rightarrow> u64 \<Rightarrow> u64" where
  "DIV_ROUND_UP n d = (n + d - 1) div d"

text \<open>The registers and flags chosen by the direction.\<close>

record dma_chan =
  chan_ctrl :: nat
  chan_status :: nat
  chan_sg_lo :: nat
  chan_sg_hi :: nat
  chan_sg_adj :: nat
  from_device :: bool

definition h2c_chan :: dma_chan where
  "h2c_chan = \<lparr>chan_ctrl = XDMA_H2C_CHAN0_CTRL, chan_status = XDMA_H2C_CHAN0_STATUS,
     chan_sg_lo = XDMA_H2C_CHAN0_SG_LO, chan_sg_hi = XDMA_H2C_CHAN0_SG_HI,
     chan_sg_adj = XDMA_H2C_CHAN0_SG_ADJ, from_device = False\<rparr>"

definition c2h_chan :: dma_chan where
  "c2h_chan = \<lparr>chan_ctrl = XDMA_C2H_CHAN0_CTRL, chan_status = XDMA_C2H_CHAN0_STATUS,
     chan_sg_lo = XDMA_C2H_CHAN0_SG_LO, chan_sg_hi = XDMA_C2H_CHAN0_SG_HI,
     chan_sg_adj = XDMA_C2H_CHAN0_SG_ADJ, from_device = True\<rparr>"

definition dma_channel :: "u32 \<Rightarrow> dma_chan option" where
  "dma_channel dir =
     (if dir = FPGAGPU_DMA_TO_DEVICE then Some h2c_chan
      else if dir = FPGAGPU_DMA_FROM_DEVICE then Some c2h_chan
      else None)"

definition dma_check :: "fpgagpu_dma_param \<Rightarrow> errno + (u32 \<times> nat \<times> dma_chan)" where
  "dma_check p =
     (if dma_size p = 0 \<or> host_vaddr p = 0 then Inl EINVAL
      else if dma_size p > 32 * 1024 * 1024 then Inl EINVAL
      else if host_vaddr p > ULONG_MAX - ucast (dma_size p - 1) then Inl EINVAL
      else let page_offset = offset_in_page (host_vaddr p);
               num_pages = unat (DIV_ROUND_UP (ucast (page_offset + dma_size p)) PAGE_SIZE)
           in if num_pages > 8192 then Inl EINVAL
              else case dma_channel (dma_direction p) of
                     None \<Rightarrow> Inl EINVAL
                   | Some ch \<Rightarrow> Inr (page_offset, num_pages, ch))"

section \<open>Pinning\<close>

definition get_page :: "u64 \<Rightarrow> fpgagpu_dev \<Rightarrow> fpgagpu_dev" where
  "get_page pg d = d\<lparr>page_refs := (page_refs d)(pg := page_refs d pg + 1)\<rparr>"

definition put_page :: "u64 \<Rightarrow> fpgagpu_dev \<Rightarrow> fpgagpu_dev" where
  "put_page pg d = d\<lparr>page_refs := (page_refs d)(pg := page_refs d pg - 1)\<rparr>"

definition set_page_dirty_lock :: "u64 \<Rightarrow> fpgagpu_dev \<Rightarrow> fpgagpu_dev" where
  "set_page_dirty_lock pg d = d\<lparr>dirty_pages := dirty_pages d @ [pg]\<rparr>"

text \<open>What the call leaves in the device: the array filled from the front, one reference per
  page, and the return value as the page count.\<close>

definition pin_pages :: "int \<times> u64 list \<Rightarrow> fpgagpu_dev \<Rightarrow> fpgagpu_dev" where
  "pin_pages r d =
     (fold get_page (snd r) d)\<lparr>num_pinned_pages := fst r,
        pinned_pages := snd r @ drop (length (snd r)) (pinned_pages d)\<rparr>"

definition held_pages :: "fpgagpu_dev \<Rightarrow> u64 list" where
  "held_pages d = take (nat (num_pinned_pages d)) (pinned_pages d)"

definition unpin_pages :: "fpgagpu_dev \<Rightarrow> fpgagpu_dev" where
  "unpin_pages d = (fold put_page (held_pages d) d)\<lparr>num_pinned_pages := 0\<rparr>"

section \<open>Scatterlist\<close>

fun sg_fill :: "u64 list \<Rightarrow> u32 \<Rightarrow> u32 \<Rightarrow> scatterlist list" where
  "sg_fill [] remaining page_offset = []"
| "sg_fill (pg # pgs) remaining page_offset =
     (let len = min remaining (ucast (PAGE_SIZE - ucast page_offset))
      in \<lparr>sg_page = pg, sg_length = len, sg_offset = page_offset\<rparr>
           # sg_fill pgs (remaining - len) 0)"

definition alloc_sgl :: "scatterlist list \<Rightarrow> fpgagpu_dev \<Rightarrow> fpgagpu_dev" where
  "alloc_sgl sg d = d\<lparr>sgl := Some sg, sg_allocs := sg_allocs d + 1\<rparr>"

definition free_sgl :: "fpgagpu_dev \<Rightarrow> fpgagpu_dev" where
  "free_sgl d = d\<lparr>sgl := None, sg_allocs := sg_allocs d - 1\<rparr>"

section \<open>Descriptor chain\<close>

text \<open>Descriptor \<open>i\<close> of \<open>n\<close>, for a segment at a bus address, at a device address.\<close>

definition mk_desc :: "bool \<Rightarrow> u64 \<Rightarrow> nat \<Rightarrow> nat \<Rightarrow> u64 \<times> u32 \<Rightarrow> u64 \<Rightarrow> xdma_desc" where
  "mk_desc from base n i seg cur_ddr3 =
     \<lparr>xd_control = (if i < n - 1 then XDMA_DESC_MAGIC else XDMA_DESC_MAGIC OR XDMA_DESC_EOP),
      xd_bytes = snd seg,
      xd_src_addr = (if from then cur_ddr3 else fst seg),
      xd_dst_addr = (if from then fst seg else cur_ddr3),
      xd_next_desc = (if i < n - 1 then base + of_nat ((i + 1) * sizeof_xdma_desc) else 0)\<rparr>"

fun build_chain ::
  "bool \<Rightarrow> u64 \<Rightarrow> nat \<Rightarrow> nat \<Rightarrow> (u64 \<times> u32) list \<Rightarrow> u64 \<Rightarrow> xdma_desc list \<Rightarrow> xdma_desc list" where
  "build_chain from base n i [] cur_ddr3 ring = ring"
| "build_chain from base n i (seg # segs) cur_ddr3 ring =
     build_chain from base n (Suc i) segs (cur_ddr3 + ucast (snd seg))
       (ring[i := mk_desc from base n i seg cur_ddr3])"

section \<open>Transfer\<close>

definition xdma_start :: "dma_chan \<Rightarrow> fpgagpu_dev \<Rightarrow> fpgagpu_dev" where
  "xdma_start ch d =
     iowrite32_dma 1 (chan_ctrl ch)
       (iowrite32_dma 0 (chan_sg_adj ch)
         (iowrite32_dma (upper_32_bits (desc_ring_dma_addr d)) (chan_sg_hi ch)
           (iowrite32_dma (lower_32_bits (desc_ring_dma_addr d)) (chan_sg_lo ch) d)))"

text \<open>
  The wait: status read number \<open>k\<close>, with the loop counter as the code decrements it.  The
  result is the counter when the loop ends, 0 if the channel stayed busy.
\<close>

function xdma_poll :: "(nat \<Rightarrow> u32) \<Rightarrow> nat \<Rightarrow> int \<Rightarrow> int" where
  "xdma_poll status k timeout =
     (if status k AND 1 \<noteq> 0
      then (if timeout - 1 > 0 then xdma_poll status (Suc k) (timeout - 1) else timeout - 1)
      else timeout)"
  by pat_completeness auto
termination
  by (relation "measure (\<lambda>(_, _, t). nat t)") auto

declare xdma_poll.simps [simp del]

definition XDMA_TIMEOUT :: int where "XDMA_TIMEOUT = 10000000"

definition release_pages :: "dma_chan \<Rightarrow> fpgagpu_dev \<Rightarrow> fpgagpu_dev" where
  "release_pages ch d =
     (fold (\<lambda>pg d. put_page pg (if from_device ch then set_page_dirty_lock pg d else d))
        (held_pages d) d)\<lparr>num_pinned_pages := 0\<rparr>"

definition dma_run :: "kenv \<Rightarrow> dma_chan \<Rightarrow> u64 \<Rightarrow> (u64 \<times> u32) list \<Rightarrow> fpgagpu_dev \<Rightarrow> kret \<times> fpgagpu_dev" where
  "dma_run env ch ddr3 segs d =
     (let d1 = d\<lparr>dma_maps := dma_maps d + 1,
                 desc_ring := build_chain (from_device ch) (desc_ring_dma_addr d)
                   (sgl_nents d) 0 segs ddr3 (desc_ring d)\<rparr>;
          d2 = xdma_start ch d1;
          timeout = xdma_poll (xdma_status env) 0 XDMA_TIMEOUT;
          d3 = iowrite32_dma 0 (chan_ctrl ch) d2;
          d4 = free_sgl (d3\<lparr>dma_maps := dma_maps d3 - 1\<rparr>);
          d5 = release_pages ch d4
      in if timeout = 0 then (Inl ETIMEDOUT, d5) else (OK, d5))"

text \<open>
  The handler, in two parts that share the device structure: pinning, and what follows it.
  \<open>page_offset\<close>, \<open>num_pages\<close> and the channel are local variables of the call.
\<close>

definition dma_pin :: "kenv \<Rightarrow> fpgagpu_dma_param \<Rightarrow> nat \<Rightarrow> dma_chan \<Rightarrow> fpgagpu_dev \<Rightarrow> fpgagpu_dev" where
  "dma_pin env p num_pages ch d =
     pin_pages (get_user_pages_fast env (host_vaddr p AND PAGE_MASK) num_pages (from_device ch)) d"

definition dma_pinned ::
  "kenv \<Rightarrow> fpgagpu_dma_param \<Rightarrow> u32 \<Rightarrow> nat \<Rightarrow> dma_chan \<Rightarrow> fpgagpu_dev \<Rightarrow> kret \<times> fpgagpu_dev" where
  "dma_pinned env p page_offset num_pages ch d1 =
     (if num_pinned_pages d1 < 0 then (Inl (EXT (num_pinned_pages d1)), d1)
      else if num_pinned_pages d1 \<noteq> int num_pages then (Inl EFAULT, unpin_pages d1)
      else if \<not> kmalloc_ok env then (Inl ENOMEM, unpin_pages d1)
      else
        let sg = sg_fill (held_pages d1) (dma_size p) page_offset;
            d2 = alloc_sgl sg d1;
            segs = dma_map_sg env sg (from_device ch);
            d3 = d2\<lparr>sgl_nents := length segs\<rparr>
        in if sgl_nents d3 = 0 then (Inl ENOMEM, unpin_pages (free_sgl d3))
           else dma_run env ch (ddr3_addr p) segs d3)"

definition dma_transfer :: "kenv \<Rightarrow> u64 \<Rightarrow> fpgagpu_dev \<Rightarrow> kret \<times> fpgagpu_dev" where
  "dma_transfer env arg d =
     (case copy_dma_param env arg of
        None \<Rightarrow> (Inl EFAULT, d)
      | Some p \<Rightarrow>
         (case dma_check p of
            Inl e \<Rightarrow> (Inl e, d)
          | Inr (page_offset, num_pages, ch) \<Rightarrow>
              dma_pinned env p page_offset num_pages ch (dma_pin env p num_pages ch d)))"

section \<open>What Linux promises\<close>

definition gup_ok :: "kenv \<Rightarrow> bool" where
  "gup_ok env \<longleftrightarrow> (\<forall>a n w r pgs. get_user_pages_fast env a n w = (r, pgs) \<longrightarrow>
     r \<le> int n \<and> length pgs = nat r)"

text \<open>Bytes of a scatterlist as (page, offset in page), bytes of mapped segments as bus addresses.\<close>

definition sg_bytes :: "scatterlist list \<Rightarrow> (u64 \<times> nat) list" where
  "sg_bytes sg = concat (map (\<lambda>e. map (\<lambda>k. (sg_page e, unat (sg_offset e) + k))
     [0..<unat (sg_length e)]) sg)"

definition seg_bytes :: "(u64 \<times> u32) list \<Rightarrow> u64 list" where
  "seg_bytes segs = concat (map (\<lambda>s. map (\<lambda>k. fst s + of_nat k) [0..<unat (snd s)]) segs)"

text \<open>
  A successful mapping keeps every byte, in order: some translation of bus addresses back to
  page bytes (the identity, or an IOMMU's) takes the segments to the scatterlist.  Segments
  may be merged but are never more than the entries.
\<close>

definition dma_map_ok :: "(u64 \<Rightarrow> u64 \<times> nat) \<Rightarrow> kenv \<Rightarrow> bool" where
  "dma_map_ok bus env \<longleftrightarrow> (\<forall>sg w. dma_map_sg env sg w \<noteq> [] \<longrightarrow>
     length (dma_map_sg env sg w) \<le> length sg \<and>
     map bus (seg_bytes (dma_map_sg env sg w)) = sg_bytes sg)"

section \<open>What the engine reads\<close>

text \<open>
  The XDMA engine starts at the address written to its SG registers, reads a descriptor,
  moves its bytes and follows \<open>next_desc\<close> until a descriptor with the end-of-packet flag.
  \<open>None\<close>: an address that is no descriptor of the ring, a wrong magic number, or no end
  within the fuel.
\<close>

fun chain_walk :: "nat \<Rightarrow> u64 \<Rightarrow> xdma_desc list \<Rightarrow> u64 \<Rightarrow> xdma_desc list option" where
  "chain_walk 0 base ring addr = None"
| "chain_walk (Suc fuel) base ring addr =
     (let rel = unat (addr - base); i = rel div sizeof_xdma_desc
      in if rel mod sizeof_xdma_desc \<noteq> 0 \<or> length ring \<le> i \<or>
            xd_control (ring ! i) AND 0xFFFF0000 \<noteq> XDMA_DESC_MAGIC then None
         else if xd_control (ring ! i) AND XDMA_DESC_EOP \<noteq> 0 then Some [ring ! i]
         else map_option (Cons (ring ! i)) (chain_walk fuel base ring (xd_next_desc (ring ! i))))"

text \<open>The bytes a descriptor moves, as (source, destination) addresses.\<close>

definition desc_moves :: "xdma_desc \<Rightarrow> (u64 \<times> u64) list" where
  "desc_moves x = map (\<lambda>k. (xd_src_addr x + of_nat k, xd_dst_addr x + of_nat k))
     [0..<unat (xd_bytes x)]"

definition chain_moves :: "xdma_desc list \<Rightarrow> (u64 \<times> u64) list" where
  "chain_moves ds = concat (map desc_moves ds)"

end
