(* ===== verification/DmaProps.thy ===== *)
theory DmaProps
  imports Dma
begin

text \<open>
  Correctness of the DMA branch: the validation in terms of numbers, the exactness of the
  scatterlist and of the descriptor chain byte by byte, the polling loop, the balance of
  kernel resources, and the properties built from them.
\<close>

section \<open>Validation\<close>

lemma unat_offset_in_page: "unat (offset_in_page a) = unat a mod 4096"
proof -
  have m: "(PAGE_SIZE - 1) = mask 12" by (simp add: PAGE_SIZE_def mask_eq_exp_minus_1)
  have "unat (a AND (PAGE_SIZE - 1)) = unat a mod 4096"
    unfolding m by (simp add: take_bit_eq_mask [symmetric] unsigned_take_bit_eq) (simp add: take_bit_eq_mod)
  moreover have "unat a mod 4096 < 2 ^ 32"
    by (rule less_trans [of _ 4096]) simp_all
  ultimately show ?thesis
    by (simp add: offset_in_page_def unsigned_ucast_eq take_bit_eq_mod)
qed

lemma offset_in_page_less: "unat (offset_in_page a) < 4096"
  by (simp add: unat_offset_in_page)

lemma unat_num_pages:
  assumes "unat off < 4096" and "unat sz \<le> 2 ^ 25"
  shows "unat (DIV_ROUND_UP (ucast (off + sz :: u32)) PAGE_SIZE) = (unat off + unat sz + 4095) div 4096"
proof -
  have "unat (off + sz) = unat off + unat sz"
    using assms by (intro unat_add_no_wrap) simp
  then have "unat (ucast (off + sz) + 4095 :: u64) = unat off + unat sz + 4095"
    using assms by (subst unat_add_no_wrap) (simp_all add: unsigned_ucast_eq take_bit_eq_mod)
  moreover have "unat (4096 :: u64) = 4096" by simp
  ultimately show ?thesis
    by (simp add: DIV_ROUND_UP_def PAGE_SIZE_def unat_div add.commute del: unsigned_numeral)
qed

lemma range_check:
  assumes "sz \<noteq> 0"
  shows "v > ULONG_MAX - ucast (sz - 1 :: u32) \<longleftrightarrow> unat (v :: u64) + unat sz > 2 ^ 64"
proof -
  have lt: "unat sz < 2 ^ 32" using unsigned_less [of sz] by simp
  then have "unat (ucast (sz - 1) :: u64) = unat sz - 1"
    using assms by (simp add: unsigned_ucast_eq take_bit_eq_mod unat_minus_one)
  then have "unat (ULONG_MAX - ucast (sz - 1) :: u64) = 2 ^ 64 - 1 - (unat sz - 1)"
    by (subst unat_sub)
      (use lt in \<open>simp_all add: ULONG_MAX_def word_le_nat_alt unsigned_minus_1_eq_mask mask_eq_exp_minus_1\<close>)
  moreover have "1 \<le> unat sz" using assms by (simp add: Suc_le_eq unat_gt_0)
  ultimately show ?thesis using lt by (auto simp: word_less_nat_alt)
qed

lemma dma_check_iff:
  "dma_check p = Inr (off, n, ch) \<longleftrightarrow>
     1 \<le> unat (dma_size p) \<and> unat (dma_size p) \<le> 2 ^ 25 \<and> host_vaddr p \<noteq> 0 \<and>
     unat (host_vaddr p) + unat (dma_size p) \<le> 2 ^ 64 \<and>
     off = offset_in_page (host_vaddr p) \<and>
     n = (unat (host_vaddr p) mod 4096 + unat (dma_size p) + 4095) div 4096 \<and> n \<le> 8192 \<and>
     dma_channel (dma_direction p) = Some ch"
proof (cases "dma_size p = 0 \<or> host_vaddr p = 0 \<or> dma_size p > 32 * 1024 * 1024")
  case True
  then show ?thesis by (auto simp: dma_check_def word_less_nat_alt Let_def)
next
  case False
  then have sz: "dma_size p \<noteq> 0" "unat (dma_size p) \<le> 2 ^ 25" "1 \<le> unat (dma_size p)"
    by (auto simp: word_less_nat_alt Suc_le_eq unat_gt_0)
  have n: "unat (DIV_ROUND_UP (ucast (offset_in_page (host_vaddr p) + dma_size p)) PAGE_SIZE)
      = (unat (host_vaddr p) mod 4096 + unat (dma_size p) + 4095) div 4096"
    using unat_num_pages [OF offset_in_page_less sz(2)] by (simp add: unat_offset_in_page)
  from False sz show ?thesis
    by (auto simp: dma_check_def Let_def range_check n split: option.splits)
qed

section \<open>Scatterlist\<close>

definition page_bytes :: "u64 list \<Rightarrow> (u64 \<times> nat) list" where
  "page_bytes ps = concat (map (\<lambda>p. map (Pair p) [0..<4096]) ps)"

lemma page_bytes_simps [simp]:
  "page_bytes [] = []"
  "page_bytes (p # ps) = map (Pair p) [0..<4096] @ page_bytes ps"
  by (simp_all add: page_bytes_def del: upt_rec_numeral)

lemma length_page_bytes [simp]: "length (page_bytes ps) = 4096 * length ps"
  by (induction ps) (simp_all del: upt_rec_numeral)

lemma nth_page_bytes:
  "j < 4096 * length ps \<Longrightarrow> page_bytes ps ! j = (ps ! (j div 4096), j mod 4096)"
proof (induction ps arbitrary: j)
  case Nil
  then show ?case by simp
next
  case (Cons p ps)
  show ?case
  proof (cases "j < 4096")
    case True
    then show ?thesis by (simp add: nth_append del: upt_rec_numeral)
  next
    case False
    then obtain i where i: "j = i + 4096" by (metis add.commute le_add_diff_inverse not_less)
    with Cons.prems have "i < 4096 * length ps" by simp
    moreover have "j div 4096 = Suc (i div 4096)" and "j mod 4096 = i mod 4096"
      using i by simp_all
    ultimately show ?thesis using Cons.IH [of i] i by (simp add: nth_append del: upt_rec_numeral)
  qed
qed

lemma sg_bytes_simps [simp]:
  "sg_bytes [] = []"
  "sg_bytes (e # es) = map (\<lambda>k. (sg_page e, unat (sg_offset e) + k)) [0..<unat (sg_length e)] @ sg_bytes es"
  by (simp_all add: sg_bytes_def)

text \<open>The length of one entry, as a number.\<close>

lemma unat_sg_len:
  assumes "unat off < 4096"
  shows "unat (min rem (ucast (PAGE_SIZE - ucast (off :: u32)) :: u32)) = min (unat rem) (4096 - unat off)"
proof -
  have "unat (ucast off :: u64) = unat off"
    using assms by (simp add: unsigned_ucast_eq take_bit_eq_mod)
  then have "unat (PAGE_SIZE - ucast off :: u64) = 4096 - unat off"
    using assms by (subst unat_sub) (simp_all add: PAGE_SIZE_def word_le_nat_alt)
  then have "unat (ucast (PAGE_SIZE - ucast off :: u64) :: u32) = 4096 - unat off"
    by (simp add: unsigned_ucast_eq take_bit_eq_mod)
  then show ?thesis by (simp add: min_def word_le_nat_alt)
qed

lemma sg_bytes_fill:
  "unat off < 4096 \<Longrightarrow>
     sg_bytes (sg_fill ps rem off) = take (unat rem) (drop (unat off) (page_bytes ps))"
proof (induction ps arbitrary: rem off)
  case Nil
  then show ?case by simp
next
  case (Cons p ps)
  let ?o = "unat off" and ?len = "min rem (ucast (PAGE_SIZE - ucast off) :: u32)"
  have len: "unat ?len = min (unat rem) (4096 - ?o)" by (rule unat_sg_len [OF Cons.prems])
  have "?len \<le> rem" by (rule min.cobounded1)
  then have "unat (rem - ?len) = unat rem - (4096 - ?o)" by (simp add: unat_sub len)
  with Cons.IH [of 0 "rem - ?len"]
  have IH: "sg_bytes (sg_fill ps (rem - ?len) 0) = take (unat rem - (4096 - ?o)) (page_bytes ps)"
    by simp
  have "map (\<lambda>k. (p, ?o + k)) [0..<min (unat rem) (4096 - ?o)]
      = take (unat rem) (drop ?o (map (Pair p) [0..<4096]))"
    using Cons.prems by (intro nth_equalityI) (auto simp del: upt_rec_numeral)
  with IH Cons.prems show ?case by (simp add: Let_def len del: upt_rec_numeral)
qed

lemma length_sg_fill [simp]: "length (sg_fill ps rem off) = length ps"
  by (induction ps arbitrary: rem off) (simp_all add: Let_def)

text \<open>The host bytes of a transfer: byte \<open>k\<close> of the user's buffer, as (page, offset).\<close>

definition user_bytes :: "u64 list \<Rightarrow> nat \<Rightarrow> nat \<Rightarrow> (u64 \<times> nat) list" where
  "user_bytes ps off n = map (\<lambda>k. (ps ! ((off + k) div 4096), (off + k) mod 4096)) [0..<n]"

lemma sg_bytes_user:
  assumes "unat off < 4096" and "unat off + unat rem \<le> 4096 * length ps"
  shows "sg_bytes (sg_fill ps rem off) = user_bytes ps (unat off) (unat rem)"
  unfolding sg_bytes_fill [OF assms(1)] user_bytes_def
  using assms by (intro nth_equalityI) (auto simp: nth_page_bytes)

section \<open>Descriptor chain\<close>

definition seg_start :: "u64 \<Rightarrow> (u64 \<times> u32) list \<Rightarrow> nat \<Rightarrow> u64" where
  "seg_start c segs i = foldl (\<lambda>a s. a + ucast (snd s)) c (take i segs)"

lemma seg_start_simps [simp]:
  "seg_start c segs 0 = c"
  "seg_start c (s # segs) (Suc i) = seg_start (c + ucast (snd s)) segs i"
  by (simp_all add: seg_start_def)

lemma length_build_chain [simp]: "length (build_chain from base n i segs c ring) = length ring"
  by (induction "from" base n i segs c ring rule: build_chain.induct) simp_all

lemma build_chain_before:
  "j < i \<Longrightarrow> build_chain from base n i segs c ring ! j = ring ! j"
  by (induction "from" base n i segs c ring rule: build_chain.induct) simp_all

lemma build_chain_nth:
  "i + length segs \<le> length ring \<Longrightarrow> k < length segs \<Longrightarrow>
     build_chain from base n i segs c ring ! (i + k)
       = mk_desc from base n (i + k) (segs ! k) (seg_start c segs k)"
proof (induction "from" base n i segs c ring arbitrary: k rule: build_chain.induct)
  case (1 "from" base n i c ring)
  then show ?case by simp
next
  case (2 "from" base n i seg segs c ring)
  show ?case
  proof (cases k)
    case 0
    with "2.prems" show ?thesis by (simp add: build_chain_before)
  next
    case (Suc k')
    with "2.prems" "2.IH" [of k'] show ?thesis by simp
  qed
qed

lemma mk_desc_control:
  "xd_control (mk_desc from base n i seg c) AND 0xFFFF0000 = XDMA_DESC_MAGIC"
  "xd_control (mk_desc from base n i seg c) AND XDMA_DESC_EOP = 0 \<longleftrightarrow> i < n - 1"
  by (simp_all add: mk_desc_def XDMA_DESC_MAGIC_def XDMA_DESC_EOP_def)

lemma desc_rel:
  assumes "i \<le> 8192"
  shows "unat (base + of_nat (i * sizeof_xdma_desc) - base :: u64) = 32 * i"
proof -
  have "unat (of_nat (32 * i) :: u64) = 32 * i"
    using assms by (simp add: unat_of_nat del: of_nat_mult)
  then show ?thesis by (simp add: layout_simps mult.commute del: of_nat_mult)
qed

text \<open>Reading a chain of \<open>n\<close> descriptors from number \<open>i\<close> yields exactly \<open>i\<close> to \<open>n - 1\<close>.\<close>

lemma chain_walk_reads:
  assumes "\<And>j. j < n \<Longrightarrow> ring ! j = mk_desc from base n j (seg j) (c j)"
    and "n \<le> length ring" and "length ring \<le> 8192"
  shows "i < n \<Longrightarrow> n - i \<le> fuel \<Longrightarrow>
    chain_walk fuel base ring (base + of_nat (i * sizeof_xdma_desc)) = Some (map ((!) ring) [i..<n])"
proof (induction fuel arbitrary: i)
  case 0
  then show ?case by simp
next
  case (Suc fuel)
  from Suc.prems assms(2,3) have rel: "unat (base + of_nat (i * sizeof_xdma_desc) - base) = 32 * i"
    by (intro desc_rel) simp
  from assms(1) [OF Suc.prems(1)] have d: "ring ! i = mk_desc from base n i (seg i) (c i)" .
  have step: "chain_walk (Suc fuel) base ring (base + of_nat (i * sizeof_xdma_desc)) =
      (if xd_control (ring ! i) AND XDMA_DESC_EOP \<noteq> 0 then Some [ring ! i]
       else map_option (Cons (ring ! i)) (chain_walk fuel base ring (xd_next_desc (ring ! i))))"
    unfolding chain_walk.simps Let_def rel
    using Suc.prems(1) assms(2) mk_desc_control(1) [of "from" base n i "seg i" "c i"]
    by (simp add: sizeof_xdma_desc d)
  show ?case
  proof (cases "i < n - 1")
    case True
    then have nxt: "xd_next_desc (ring ! i) = base + of_nat (Suc i * sizeof_xdma_desc)"
      by (simp add: d mk_desc_def)
    from True Suc.prems have "Suc i < n" and "n - Suc i \<le> fuel" by simp_all
    from Suc.IH [OF this] True have
      "chain_walk (Suc fuel) base ring (base + of_nat (i * sizeof_xdma_desc))
        = Some (ring ! i # map ((!) ring) [Suc i..<n])"
      unfolding step nxt by (simp add: d mk_desc_control(2) del: of_nat_mult)
    with Suc.prems(1) show ?thesis by (simp add: upt_conv_Cons del: of_nat_mult)
  next
    case False
    with Suc.prems(1) have "n = Suc i" by simp
    with step show ?thesis by (simp add: d mk_desc_control(2) del: of_nat_mult)
  qed
qed

lemma seg_bytes_simps [simp]:
  "seg_bytes [] = []"
  "seg_bytes (s # segs) = map (\<lambda>k. fst s + of_nat k) [0..<unat (snd s)] @ seg_bytes segs"
  by (simp_all add: seg_bytes_def)

text \<open>Consecutive addresses from a start.\<close>

definition addrs :: "u64 \<Rightarrow> nat \<Rightarrow> u64 list" where
  "addrs c n = map (\<lambda>k. c + of_nat k) [0..<n]"

lemma length_addrs [simp]: "length (addrs c n) = n"
  by (simp add: addrs_def)

lemma addrs_add: "addrs c (m + n) = addrs c m @ addrs (c + of_nat m) n"
  by (rule nth_equalityI) (auto simp: addrs_def nth_append)

lemma concat_segments:
  "concat (map (\<lambda>j. zip (addrs (fst (segs ! j)) (unat (snd (segs ! j))))
        (addrs (seg_start c segs j) (unat (snd (segs ! j))))) [0..<length segs])
     = zip (seg_bytes segs) (addrs c (length (seg_bytes segs)))"
proof (induction segs arbitrary: c)
  case Nil
  then show ?case by (simp add: addrs_def)
next
  case (Cons s segs)
  have up: "[0..<length (s # segs)] = 0 # map Suc [0..<length segs]"
    by (simp add: map_Suc_upt upt_conv_Cons del: upt_Suc)
  have "of_nat (unat (snd s)) = (ucast (snd s) :: u64)" by (simp add: unsigned_of_nat [symmetric])
  with Cons.IH [of "c + ucast (snd s)"] show ?case
    unfolding up by (simp add: comp_def addrs_add) (simp add: addrs_def)
qed

section \<open>Page references\<close>

lemma fold_get_page:
  "fold get_page ps d = d\<lparr>page_refs := (\<lambda>g. page_refs d g + int (count_list ps g))\<rparr>"
proof (induction ps arbitrary: d)
  case Nil
  then show ?case by simp
next
  case (Cons p ps)
  show ?case unfolding fold_Cons comp_def Cons.IH by (rule fpgagpu_dev.equality) (auto simp: get_page_def)
qed

lemma fold_put_page:
  "fold put_page ps d = d\<lparr>page_refs := (\<lambda>g. page_refs d g - int (count_list ps g))\<rparr>"
proof (induction ps arbitrary: d)
  case Nil
  then show ?case by simp
next
  case (Cons p ps)
  show ?case unfolding fold_Cons comp_def Cons.IH by (rule fpgagpu_dev.equality) (auto simp: put_page_def)
qed

lemma fold_release:
  "fold (\<lambda>g d. put_page g (if b then set_page_dirty_lock g d else d)) ps d =
     d\<lparr>page_refs := (\<lambda>g. page_refs d g - int (count_list ps g)),
       dirty_pages := dirty_pages d @ (if b then ps else [])\<rparr>"
proof (induction ps arbitrary: d)
  case Nil
  then show ?case by simp
next
  case (Cons p ps)
  show ?case
    unfolding fold_Cons comp_def Cons.IH by (rule fpgagpu_dev.equality) (auto simp: put_page_def set_page_dirty_lock_def)
qed

text \<open>Pinning what the kernel returned, and dropping exactly that.\<close>

lemma held_pages_pin:
  "length pgs = nat r \<Longrightarrow> held_pages (pin_pages (r, pgs) d) = pgs"
  by (simp add: held_pages_def pin_pages_def)

lemma pin_pages_eq:
  "pin_pages (r, pgs) d = d\<lparr>num_pinned_pages := r, pinned_pages := pgs @ drop (length pgs) (pinned_pages d),
     page_refs := (\<lambda>g. page_refs d g + int (count_list pgs g))\<rparr>"
  by (simp add: pin_pages_def fold_get_page)

lemma held_pages_update [simp]:
  "held_pages (d\<lparr>sgl := a, sg_allocs := x\<rparr>) = held_pages d"
  "held_pages (d\<lparr>sgl_nents := k\<rparr>) = held_pages d"
  "held_pages (alloc_sgl sg d) = held_pages d"
  "held_pages (free_sgl d) = held_pages d"
  by (simp_all add: held_pages_def alloc_sgl_def free_sgl_def)

section \<open>The whole transfer\<close>

text \<open>The device after a failed attempt: the page array has been reused, nothing is held.\<close>

definition dma_aborted :: "u64 list \<Rightarrow> fpgagpu_dev \<Rightarrow> fpgagpu_dev" where
  "dma_aborted pgs d =
     d\<lparr>pinned_pages := pgs @ drop (length pgs) (pinned_pages d), num_pinned_pages := 0\<rparr>"

lemma unpin_pin_pages:
  "length pgs = nat r \<Longrightarrow> unpin_pages (pin_pages (r, pgs) d) = dma_aborted pgs d"
  by (simp add: unpin_pages_def held_pages_pin fold_put_page) (simp add: pin_pages_eq dma_aborted_def)

definition xdma_log :: "dma_chan \<Rightarrow> u64 \<Rightarrow> mmio list" where
  "xdma_log ch base =
     [DmaWrite (chan_sg_lo ch) (lower_32_bits base), DmaWrite (chan_sg_hi ch) (upper_32_bits base),
      DmaWrite (chan_sg_adj ch) 0, DmaWrite (chan_ctrl ch) 1, DmaWrite (chan_ctrl ch) 0]"

text \<open>The device after the engine ran over a list of segments.\<close>

definition dma_done :: "dma_chan \<Rightarrow> u64 \<Rightarrow> u64 list \<Rightarrow> (u64 \<times> u32) list \<Rightarrow> fpgagpu_dev \<Rightarrow> fpgagpu_dev" where
  "dma_done ch ddr3 pgs segs d =
     (dma_aborted pgs d)\<lparr>
        desc_ring := build_chain (from_device ch) (desc_ring_dma_addr d) (length segs) 0 segs ddr3 (desc_ring d),
        mmio_log := mmio_log d @ xdma_log ch (desc_ring_dma_addr d),
        sgl := None, sgl_nents := length segs,
        dirty_pages := dirty_pages d @ (if from_device ch then pgs else [])\<rparr>"

lemma dma_run_eq:
  assumes "length pgs = nat r"
  shows "dma_run env ch ddr3 segs ((alloc_sgl sg (pin_pages (r, pgs) d))\<lparr>sgl_nents := length segs\<rparr>) =
    (if xdma_poll (xdma_status env) 0 XDMA_TIMEOUT = 0 then Inl ETIMEDOUT else OK,
     dma_done ch ddr3 pgs segs d)"
  using assms
  by (simp add: dma_run_def Let_def release_pages_def fold_release held_pages_def xdma_start_def
      iowrite32_dma_def free_sgl_def alloc_sgl_def pin_pages_eq dma_done_def dma_aborted_def
      xdma_log_def)

text \<open>Every path of the handler, with its effect on the device.\<close>

lemma dma_transfer_paths:
  assumes "gup_ok env"
  shows "dma_transfer env arg d =
     (case copy_dma_param env arg of
        None \<Rightarrow> (Inl EFAULT, d)
      | Some p \<Rightarrow>
     (case dma_check p of
        Inl e \<Rightarrow> (Inl e, d)
      | Inr (off, n, ch) \<Rightarrow>
          let (r, pgs) = get_user_pages_fast env (host_vaddr p AND PAGE_MASK) n (from_device ch);
              sg = sg_fill pgs (dma_size p) off; segs = dma_map_sg env sg (from_device ch)
          in if r < 0 then (Inl (EXT r), d\<lparr>num_pinned_pages := r\<rparr>)
             else if r \<noteq> int n then (Inl EFAULT, dma_aborted pgs d)
             else if \<not> kmalloc_ok env then (Inl ENOMEM, dma_aborted pgs d)
             else if segs = [] then (Inl ENOMEM, (dma_aborted pgs d)\<lparr>sgl := None, sgl_nents := 0\<rparr>)
             else (if xdma_poll (xdma_status env) 0 XDMA_TIMEOUT = 0 then Inl ETIMEDOUT else OK,
                   dma_done ch (ddr3_addr p) pgs segs d)))"
proof (cases "copy_dma_param env arg")
  case None
  then show ?thesis by (simp add: dma_transfer_def)
next
  case (Some p)
  show ?thesis
  proof (cases "dma_check p")
    case (Inl e)
    with Some show ?thesis by (simp add: dma_transfer_def)
  next
    case (Inr x)
    obtain off n ch where x: "x = (off, n, ch)" by (cases x)
    obtain r pgs where g: "get_user_pages_fast env (host_vaddr p AND PAGE_MASK) n (from_device ch) = (r, pgs)"
      by (cases "get_user_pages_fast env (host_vaddr p AND PAGE_MASK) n (from_device ch)")
    with assms have len: "length pgs = nat r" by (auto simp: gup_ok_def)
    have held: "held_pages (pin_pages (r, pgs) d) = pgs" by (rule held_pages_pin [OF len])
    have num: "num_pinned_pages (pin_pages (r, pgs) d) = r" by (simp add: pin_pages_def)
    have neg: "r < 0 \<Longrightarrow> pin_pages (r, pgs) d = d\<lparr>num_pinned_pages := r\<rparr>"
      using len by (simp add: pin_pages_def)
    have map_fail: "unpin_pages (free_sgl ((alloc_sgl sg (pin_pages (r, pgs) d))\<lparr>sgl_nents := 0\<rparr>))
        = (dma_aborted pgs d)\<lparr>sgl := None, sgl_nents := 0\<rparr>" for sg
      by (simp add: unpin_pages_def held fold_put_page)
        (simp add: pin_pages_eq dma_aborted_def alloc_sgl_def free_sgl_def)
    show ?thesis
    proof (cases "r = int n")
      case True
      show ?thesis
        using Some Inr x g
        by (simp add: dma_transfer_def dma_pinned_def dma_pin_def Let_def True held [unfolded True] num [unfolded True]
            unpin_pin_pages [OF len, unfolded True] map_fail [unfolded True]
            dma_run_eq [OF len, unfolded True])
    next
      case False
      then show ?thesis
        using Some Inr x g neg
        by (simp add: dma_transfer_def dma_pinned_def dma_pin_def Let_def num unpin_pin_pages [OF len])
    qed
  qed
qed

section \<open>Polling\<close>

lemma xdma_poll_zero_iff:
  "0 < t \<Longrightarrow> xdma_poll st k t = 0 \<longleftrightarrow> (\<forall>j < nat t. st (k + j) AND 1 \<noteq> 0)"
proof (induction st k t rule: xdma_poll.induct)
  case (1 st k t)
  have split0: "(\<forall>j < nat t. P j) \<longleftrightarrow> P 0 \<and> (\<forall>j < nat (t - 1). P (Suc j))" for P
  proof -
    from "1.prems" have "nat t = Suc (nat (t - 1))" by simp
    then show ?thesis by (simp only: All_less_Suc2)
  qed
  show ?case
  proof (cases "st k AND 1 \<noteq> 0 \<and> t - 1 > 0")
    case True
    then have "xdma_poll st k t = xdma_poll st (Suc k) (t - 1)"
      by (subst xdma_poll.simps) simp
    with True "1.IH" show ?thesis by (subst split0) simp
  next
    case False
    then show ?thesis using "1.prems"
      by (subst xdma_poll.simps, subst split0) auto
  qed
qed

lemma poll_done_iff:
  "xdma_poll st 0 XDMA_TIMEOUT = 0 \<longleftrightarrow> (\<forall>j < 10000000. st j AND 1 \<noteq> 0)"
  by (simp add: XDMA_TIMEOUT_def xdma_poll_zero_iff)

section \<open>The chain of a transfer\<close>

lemma chain_walk_built:
  assumes "segs \<noteq> []" and "length segs \<le> 8192" and "length ring = 8192"
  shows "\<exists>ds. chain_walk 8192 base (build_chain from base (length segs) 0 segs c ring) base = Some ds \<and>
     length ds = length segs \<and>
     chain_moves ds = (if from then zip (addrs c (length (seg_bytes segs))) (seg_bytes segs)
                       else zip (seg_bytes segs) (addrs c (length (seg_bytes segs))))"
proof -
  let ?n = "length segs"
  let ?ring = "build_chain from base ?n 0 segs c ring"
  have d: "?ring ! j = mk_desc from base ?n j (segs ! j) (seg_start c segs j)" if "j < ?n" for j
    using build_chain_nth [of 0 segs ring j "from" base ?n c] that assms by simp
  have walk: "chain_walk 8192 base ?ring base = Some (map ((!) ?ring) [0..<?n])"
    using chain_walk_reads [where ring = ?ring and n = ?n and i = 0 and fuel = 8192, OF d] assms
    by simp
  let ?a = "\<lambda>j. addrs (fst (segs ! j)) (unat (snd (segs ! j)))"
    and ?b = "\<lambda>j. addrs (seg_start c segs j) (unat (snd (segs ! j)))"
  have one: "desc_moves (?ring ! j) = (if from then zip (?b j) (?a j) else zip (?a j) (?b j))"
    if "j < ?n" for j
    using d [OF that] by (auto simp: desc_moves_def mk_desc_def addrs_def intro!: nth_equalityI)
  have "chain_moves (map ((!) ?ring) [0..<?n])
      = concat (map (\<lambda>j. if from then zip (?b j) (?a j) else zip (?a j) (?b j)) [0..<?n])"
    unfolding chain_moves_def map_map
    by (rule arg_cong [where f = concat], rule map_cong) (simp_all add: one)
  also have "\<dots> = (if from then map prod.swap (concat (map (\<lambda>j. zip (?a j) (?b j)) [0..<?n]))
      else concat (map (\<lambda>j. zip (?a j) (?b j)) [0..<?n]))"
    by (auto simp: map_concat comp_def zip_commute [of "?b _"] prod.swap_def
        intro!: arg_cong [where f = concat])
  finally show ?thesis
    using walk unfolding concat_segments
    by (auto simp: zip_commute [of "addrs _ _"] prod.swap_def intro!: exI)
qed

text \<open>The end of a transfer that started the engine, with everything that led there.\<close>

lemma dma_started:
  assumes "gup_ok env" and "dma_transfer env arg d = (r, d')" and "mmio_log d' \<noteq> mmio_log d \<or> r = OK \<or> r = Inl ETIMEDOUT"
  obtains p off n ch pgs where "copy_dma_param env arg = Some p" "dma_check p = Inr (off, n, ch)"
    "get_user_pages_fast env (host_vaddr p AND PAGE_MASK) n (from_device ch) = (int n, pgs)"
    "length pgs = n" "dma_map_sg env (sg_fill pgs (dma_size p) off) (from_device ch) \<noteq> []"
    "r = (if xdma_poll (xdma_status env) 0 XDMA_TIMEOUT = 0 then Inl ETIMEDOUT else OK)"
    "d' = dma_done ch (ddr3_addr p) pgs (dma_map_sg env (sg_fill pgs (dma_size p) off) (from_device ch)) d"
proof -
  have noerr: "dma_check p \<noteq> Inl ETIMEDOUT" for p
    by (simp add: dma_check_def Let_def split: option.splits)
  have "dma_aborted pgs d\<lparr>sgl := None, sgl_nents := 0\<rparr> = d' \<Longrightarrow> mmio_log d' = mmio_log d"
    and "dma_aborted pgs d = d' \<Longrightarrow> mmio_log d' = mmio_log d"
    and "d\<lparr>num_pinned_pages := k\<rparr> = d' \<Longrightarrow> mmio_log d' = mmio_log d" for pgs k
    by (auto simp: dma_aborted_def)
  note aborted = this
  from assms(2,3) obtain p where p: "copy_dma_param env arg = Some p"
    by (auto simp: dma_transfer_paths [OF assms(1)] split: option.splits)
  with assms(2,3) noerr [of p] obtain off n ch where c: "dma_check p = Inr (off, n, ch)"
    by (cases "dma_check p") (auto simp: dma_transfer_paths [OF assms(1)])
  obtain k pgs where g: "get_user_pages_fast env (host_vaddr p AND PAGE_MASK) n (from_device ch) = (k, pgs)"
    by (cases "get_user_pages_fast env (host_vaddr p AND PAGE_MASK) n (from_device ch)")
  with assms(1) have len: "length pgs = nat k" by (auto simp: gup_ok_def)
  from assms(2,3) p c g aborted have "k = int n"
    and "dma_map_sg env (sg_fill pgs (dma_size p) off) (from_device ch) \<noteq> []"
    and "r = (if xdma_poll (xdma_status env) 0 XDMA_TIMEOUT = 0 then Inl ETIMEDOUT else OK)"
    and "d' = dma_done ch (ddr3_addr p) pgs (dma_map_sg env (sg_fill pgs (dma_size p) off) (from_device ch)) d"
    by (auto simp: dma_transfer_paths [OF assms(1)] Let_def split: if_splits)
  with p c g len show ?thesis by (intro that) simp_all
qed

text \<open>The chain of such a transfer, read from its start.\<close>

lemma dma_done_moves:
  assumes "dma_map_ok bus env" and "length (desc_ring d) = 8192" and "dma_check p = Inr (off, n, ch)"
    and "length pgs = n" and "segs = dma_map_sg env (sg_fill pgs (dma_size p) off) (from_device ch)"
    and "segs \<noteq> []" and "d' = dma_done ch (ddr3_addr p) pgs segs d"
  shows "\<exists>ds. chain_walk 8192 (desc_ring_dma_addr d) (desc_ring d') (desc_ring_dma_addr d) = Some ds \<and>
    map (\<lambda>(src, dst). if from_device ch then (bus dst, src) else (bus src, dst)) (chain_moves ds)
      = zip (user_bytes pgs (unat off) (unat (dma_size p)))
          (addrs (ddr3_addr p) (unat (dma_size p)))"
proof -
  let ?sz = "unat (dma_size p)"
  from assms(3) have off: "unat off < 4096" and n: "n \<le> 8192" and cover: "unat off + ?sz \<le> 4096 * n"
    by (auto simp: dma_check_iff unat_offset_in_page)
  have "length segs \<le> length (sg_fill pgs (dma_size p) off)"
    and bus: "map bus (seg_bytes segs) = user_bytes pgs (unat off) ?sz"
    using assms(1,5,6) sg_bytes_user [OF off, of "dma_size p" pgs] cover assms(4)
    unfolding dma_map_ok_def by metis+
  with n assms(4) have "length segs \<le> 8192" by simp
  from chain_walk_built [OF assms(6) this assms(2), of "desc_ring_dma_addr d" "from_device ch" "ddr3_addr p"]
  obtain ds where
    walk: "chain_walk 8192 (desc_ring_dma_addr d) (desc_ring d') (desc_ring_dma_addr d) = Some ds"
    and moves: "chain_moves ds = (if from_device ch
      then zip (addrs (ddr3_addr p) (length (seg_bytes segs))) (seg_bytes segs)
      else zip (seg_bytes segs) (addrs (ddr3_addr p) (length (seg_bytes segs))))"
    by (auto simp: assms(7) dma_done_def dma_aborted_def)
  have "length (seg_bytes segs) = ?sz"
    using arg_cong [OF bus, of length] by (simp add: user_bytes_def)
  with moves have "map (\<lambda>(src, dst). if from_device ch then (bus dst, src) else (bus src, dst)) (chain_moves ds)
      = zip (user_bytes pgs (unat off) ?sz) (addrs (ddr3_addr p) ?sz)"
    unfolding bus [symmetric]
    by (auto simp: zip_map1 split_def zip_commute [of "addrs _ _"] comp_def)
  with walk show ?thesis by blast
qed

section \<open>Properties\<close>

text \<open>C10: which transfers are accepted.  A request passes validation exactly when its size is
  between 1 byte and 32 MiB, its address is not null and its last byte does not wrap around
  the address space, it touches at most 8192 pages and its direction is known; every other
  request is refused with \<open>-EINVAL\<close>.  The page offset and page count handed on are the
  numeric ones.\<close>

theorem dma_check_exact:
  "dma_check p =
     (if 1 \<le> unat (dma_size p) \<and> unat (dma_size p) \<le> 32 * 1024 * 1024 \<and> host_vaddr p \<noteq> 0 \<and>
         unat (host_vaddr p) + unat (dma_size p) \<le> 2 ^ 64 \<and>
         (unat (host_vaddr p) mod 4096 + unat (dma_size p) + 4095) div 4096 \<le> 8192 \<and>
         dma_channel (dma_direction p) \<noteq> None
      then Inr (offset_in_page (host_vaddr p),
                (unat (host_vaddr p) mod 4096 + unat (dma_size p) + 4095) div 4096,
                the (dma_channel (dma_direction p)))
      else Inl EINVAL)"
proof (cases "dma_check p")
  case (Inl e)
  then have "e = EINVAL" by (auto simp: dma_check_def Let_def split: if_splits option.splits)
  with Inl dma_check_iff [of p] show ?thesis by auto
next
  case (Inr x)
  then show ?thesis by (cases x) (simp add: dma_check_iff)
qed

text \<open>C8: kernel resources are balanced.  Whatever happens, every page reference taken is
  dropped, every scatterlist is freed and every DMA mapping is undone before the handler
  returns.\<close>

theorem dma_resources_balanced:
  assumes "gup_ok env" and "dma_transfer env arg d = (r, d')"
  shows "page_refs d' = page_refs d \<and> sg_allocs d' = sg_allocs d \<and> dma_maps d' = dma_maps d \<and>
    (held_pages d = [] \<longrightarrow> held_pages d' = [])"
  using assms(2) unfolding dma_transfer_paths [OF assms(1)]
  by (auto simp: Let_def dma_aborted_def dma_done_def held_pages_def
      split: option.splits sum.splits prod.splits if_splits)

text \<open>C2: the engine moves exactly the user's bytes.  For every transfer that runs (it returns
  success or a timeout) the chain left in the ring, read from its start, moves
  byte \<open>k\<close> of the user's buffer to or from device address \<open>ddr3_addr + k\<close>, for every \<open>k\<close> below
  the size, in order and nothing else; bus addresses are those of the pinned pages.\<close>

theorem dma_moves_exact:
  assumes "gup_ok env" and "dma_map_ok bus env" and "length (desc_ring d) = 8192"
    and "dma_transfer env arg d = (r, d')" and "r \<in> {OK, Inl ETIMEDOUT}"
  shows "\<exists>p off n ch pgs ds. copy_dma_param env arg = Some p \<and> dma_check p = Inr (off, n, ch) \<and>
    get_user_pages_fast env (host_vaddr p AND PAGE_MASK) n (from_device ch) = (int n, pgs) \<and>
    chain_walk 8192 (desc_ring_dma_addr d) (desc_ring d') (desc_ring_dma_addr d) = Some ds \<and>
    map (\<lambda>(src, dst). if from_device ch then (bus dst, src) else (bus src, dst)) (chain_moves ds)
      = zip (user_bytes pgs (unat off) (unat (dma_size p)))
          (addrs (ddr3_addr p) (unat (dma_size p)))"
proof -
  have "mmio_log d' \<noteq> mmio_log d \<or> r = OK \<or> r = Inl ETIMEDOUT" using assms(5) by auto
  from dma_started [OF assms(1,4) this] obtain p off n ch pgs where
    c: "copy_dma_param env arg = Some p" "dma_check p = Inr (off, n, ch)"
    and g: "get_user_pages_fast env (host_vaddr p AND PAGE_MASK) n (from_device ch) = (int n, pgs)"
    and len: "length pgs = n" and ne: "dma_map_sg env (sg_fill pgs (dma_size p) off) (from_device ch) \<noteq> []"
    and d': "d' = dma_done ch (ddr3_addr p) pgs (dma_map_sg env (sg_fill pgs (dma_size p) off) (from_device ch)) d"
    by metis
  from dma_done_moves [OF assms(2,3) c(2) len refl ne d'] c g show ?thesis by blast
qed

text \<open>C9: the engine is driven by the protocol.  A transfer that touches the engine at all
  writes the chain's address (low, high), the adjacent count and the run bit, and last the
  stop bit, to the registers of its own channel and nothing else; it reports a timeout
  exactly when all of the first ten million status reads showed the channel busy; and pages
  the device wrote to are marked dirty.\<close>

theorem dma_engine_protocol:
  assumes "gup_ok env" and "dma_transfer env arg d = (r, d')" and "mmio_log d' \<noteq> mmio_log d"
  shows "\<exists>p off n ch. copy_dma_param env arg = Some p \<and> dma_check p = Inr (off, n, ch) \<and>
    mmio_log d' = mmio_log d @ xdma_log ch (desc_ring_dma_addr d) \<and>
    r = (if {..<10000000} \<subseteq> {k. xdma_status env k AND 1 \<noteq> 0} then Inl ETIMEDOUT else OK) \<and>
    dirty_pages d' = dirty_pages d @ (if from_device ch
      then snd (get_user_pages_fast env (host_vaddr p AND PAGE_MASK) n True) else [])"
proof -
  from assms(3) have "mmio_log d' \<noteq> mmio_log d \<or> r = OK \<or> r = Inl ETIMEDOUT" ..
  from dma_started [OF assms(1,2) this] obtain p off n ch pgs where
    c: "copy_dma_param env arg = Some p" "dma_check p = Inr (off, n, ch)"
    and g: "get_user_pages_fast env (host_vaddr p AND PAGE_MASK) n (from_device ch) = (int n, pgs)"
    and r: "r = (if xdma_poll (xdma_status env) 0 XDMA_TIMEOUT = 0 then Inl ETIMEDOUT else OK)"
    and d': "d' = dma_done ch (ddr3_addr p) pgs (dma_map_sg env (sg_fill pgs (dma_size p) off) (from_device ch)) d"
    by metis
  have "r = (if {..<10000000} \<subseteq> {k. xdma_status env k AND 1 \<noteq> 0} then Inl ETIMEDOUT else OK)"
    unfolding r poll_done_iff by (auto simp: subset_iff)
  moreover have "dirty_pages d' = dirty_pages d @ (if from_device ch
      then snd (get_user_pages_fast env (host_vaddr p AND PAGE_MASK) n True) else [])"
    using g by (auto simp: d' dma_done_def dma_aborted_def)
  ultimately show ?thesis using c by (auto simp: d' dma_done_def)
qed

section \<open>A concrete transfer\<close>

definition sample_dma_dev :: fpgagpu_dev where
  "sample_dma_dev = sample_dev\<lparr>desc_ring := replicate 8192
     \<lparr>xd_control = 0, xd_bytes = 0, xd_src_addr = 0, xd_dst_addr = 0, xd_next_desc = 0\<rparr>,
     desc_ring_dma_addr := 0x7F000000\<rparr>"

definition sample_bus :: "u64 \<Rightarrow> u64 \<times> nat" where
  "sample_bus a = (a div 4096, unat a mod 4096)"

lemma sample_env_gup: "gup_ok sample_env"
  by (auto simp: gup_ok_def sample_env_def)

lemma sample_bus_byte:
  assumes "unat g < 2 ^ 52" and "off + k < 4096"
  shows "sample_bus (0x1000 * g + of_nat off + of_nat k) = (g, off + k)"
proof -
  let ?a = "0x1000 * g + of_nat off + of_nat k :: u64"
  have "?a = of_nat (4096 * unat g + (off + k))" by simp
  moreover have "4096 * unat g + (off + k) < 2 ^ 64" using assms by simp
  ultimately have a: "unat ?a = 4096 * unat g + (off + k)"
    by (simp only: unat_of_nat) (simp add: take_bit_eq_mod)
  have "unat (?a div 4096) = unat g" using assms(2) unfolding unat_div a by simp
  then have "?a div 4096 = g" by (simp only: word_unat_eq_iff)
  moreover have "unat ?a mod 4096 = off + k" using assms(2) unfolding a by simp
  ultimately show ?thesis by (simp only: sample_bus_def)
qed

lemma sample_env_map: "dma_map_ok sample_bus sample_env"
proof -
  have "map sample_bus (seg_bytes (map (\<lambda>e. (0x1000 * sg_page e + ucast (sg_offset e), sg_length e)) sg))
      = sg_bytes sg"
    if "list_all (\<lambda>e. unat (sg_page e) < 2 ^ 52 \<and> unat (sg_offset e) + unat (sg_length e) \<le> 4096) sg" for sg
    using that
  proof (induction sg)
    case Nil
    then show ?case by simp
  next
    case (Cons e sg)
    have "ucast (sg_offset e) = (of_nat (unat (sg_offset e)) :: u64)" by simp
    with Cons show ?case
      by (auto simp: sample_bus_byte simp del: of_nat_unat)
  qed
  then show ?thesis
    by (auto simp: dma_map_ok_def sample_env_def sample_map_def)
qed

text \<open>What the sample request is: 5000 bytes at \<open>0x20010\<close>, two pages, to the device.\<close>

definition sample_param :: fpgagpu_dma_param where
  "sample_param = \<lparr>dma_direction = 0, dma_size = 5000, ddr3_addr = 0x10000, host_vaddr = 0x20010\<rparr>"

lemma sample_check: "dma_check sample_param = Inr (0x10, 2, h2c_chan)"
  by (simp add: dma_check_def sample_param_def offset_in_page_def PAGE_SIZE_def ULONG_MAX_def
      DIV_ROUND_UP_def dma_channel_def FPGAGPU_DMA_TO_DEVICE_def Let_def)

lemma sample_poll: "xdma_poll (xdma_status sample_env) 0 XDMA_TIMEOUT \<noteq> 0"
proof -
  have "xdma_status sample_env 3 AND 1 = 0" by (simp add: sample_env_def)
  then show ?thesis unfolding poll_done_iff by (intro notI) (drule spec [of _ 3], simp)
qed

lemma sample_transfer:
  obtains segs where "segs \<noteq> []"
    "dma_transfer sample_env 0 sample_dma_dev = (OK, dma_done h2c_chan 0x10000 [1, 2] segs sample_dma_dev)"
proof -
  have p: "copy_dma_param sample_env 0 = Some sample_param"
    by (simp add: sample_env_def sample_param_def)
  have g: "get_user_pages_fast sample_env a 2 w = (2, [1, 2])" for a w
    by (simp add: sample_env_def upt_rec)
  let ?segs = "dma_map_sg sample_env (sg_fill [1, 2] (dma_size sample_param) 0x10) False"
  have "?segs \<noteq> []"
    by (simp add: sample_env_def sample_map_def sample_param_def PAGE_SIZE_def Let_def)
  moreover have "dma_transfer sample_env 0 sample_dma_dev
      = (OK, dma_done h2c_chan 0x10000 [1, 2] ?segs sample_dma_dev)"
    using calculation sample_poll unfolding dma_transfer_paths [OF sample_env_gup]
    by (simp add: p sample_check g h2c_chan_def) (simp add: sample_env_def sample_param_def)
  ultimately show ?thesis by (rule that)
qed

theorem dma_resources_balanced_witness:
  "page_refs (snd (dma_transfer sample_env 0 sample_dma_dev)) = (\<lambda>_. 0)"
proof -
  obtain segs where
    "dma_transfer sample_env 0 sample_dma_dev = (OK, dma_done h2c_chan 0x10000 [1, 2] segs sample_dma_dev)"
    by (rule sample_transfer)
  from dma_resources_balanced [OF sample_env_gup this] this show ?thesis
    by (simp add: sample_dma_dev_def sample_dev_def kzalloc_dev_def)
qed

theorem dma_moves_exact_witness:
  "\<exists>d' ds. dma_transfer sample_env 0 sample_dma_dev = (OK, d') \<and>
     chain_walk 8192 0x7F000000 (desc_ring d') 0x7F000000 = Some ds \<and>
     length (chain_moves ds) = 5000 \<and> user_bytes [1, 2] 0x10 5000 ! 4090 = (2, 10)"
proof -
  obtain segs where
    run: "dma_transfer sample_env 0 sample_dma_dev = (OK, dma_done h2c_chan 0x10000 [1, 2] segs sample_dma_dev)"
    by (rule sample_transfer)
  have len: "length (desc_ring sample_dma_dev) = 8192" by (simp add: sample_dma_dev_def)
  have base: "desc_ring_dma_addr sample_dma_dev = 0x7F000000" by (simp add: sample_dma_dev_def)
  have par: "copy_dma_param sample_env 0 = Some sample_param"
    by (simp add: sample_env_def sample_param_def)
  have "(OK :: kret) \<in> {OK, Inl ETIMEDOUT}" by simp
  from dma_moves_exact [OF sample_env_gup sample_env_map len run this] obtain p off n ch pgs ds where
    p: "copy_dma_param sample_env 0 = Some p" "dma_check p = Inr (off, n, ch)"
    and walk: "chain_walk 8192 0x7F000000 (desc_ring (dma_done h2c_chan 0x10000 [1, 2] segs sample_dma_dev))
      0x7F000000 = Some ds"
    and moves: "map (\<lambda>(src, dst). if from_device ch then (sample_bus dst, src) else (sample_bus src, dst))
      (chain_moves ds) = zip (user_bytes pgs (unat off) (unat (dma_size p)))
          (addrs (ddr3_addr p) (unat (dma_size p)))"
    unfolding base by blast
  from p par have "p = sample_param" by simp
  with arg_cong [OF moves, of length] have "length (chain_moves ds) = 5000"
    by (simp add: user_bytes_def sample_param_def)
  with walk run show ?thesis by (auto simp: user_bytes_def)
qed

theorem dma_engine_protocol_witness:
  "\<exists>d'. dma_transfer sample_env 0 sample_dma_dev = (OK, d') \<and>
     mmio_log d' = [DmaWrite 0x4080 0x7F000000, DmaWrite 0x4084 0, DmaWrite 0x4088 0,
       DmaWrite 4 1, DmaWrite 4 0]"
proof -
  obtain segs where
    run: "dma_transfer sample_env 0 sample_dma_dev = (OK, dma_done h2c_chan 0x10000 [1, 2] segs sample_dma_dev)"
    by (rule sample_transfer)
  let ?d' = "dma_done h2c_chan 0x10000 [1, 2] segs sample_dma_dev"
  have "mmio_log ?d' \<noteq> mmio_log sample_dma_dev"
    by (simp add: dma_done_def xdma_log_def)
  from dma_engine_protocol [OF sample_env_gup run this] obtain p off n ch where
    "copy_dma_param sample_env 0 = Some p" "dma_check p = Inr (off, n, ch)"
    and log: "mmio_log ?d' = mmio_log sample_dma_dev @ xdma_log ch (desc_ring_dma_addr sample_dma_dev)"
    by blast
  then have "ch = h2c_chan"
    using sample_check by (auto simp: sample_env_def sample_param_def)
  with log have "mmio_log ?d' = xdma_log h2c_chan 0x7F000000"
    by (simp add: sample_dma_dev_def sample_dev_def kzalloc_dev_def)
  with run show ?thesis
    by (simp add: xdma_log_def h2c_chan_def xdma_offsets lower_32_bits_def upper_32_bits_def)
qed

end
