(* ===== verification/Ioctl.thy ===== *)
theory Ioctl
  imports DmaProps
begin

text \<open>
  The dispatcher \<open>fpgagpu_ioctl\<close> of \<open>driver/fpgagpu_ioctl.c\<close> over the branches of Commands and
  Dma, and the invariant of the device structure that every ioctl keeps.  The reply is the
  return value, the structure copied out to the user (GET_VERSION only) and the device.
\<close>

section \<open>The dispatcher\<close>

definition ioctl_switch ::
  "ioc_abi \<Rightarrow> kenv \<Rightarrow> int \<Rightarrow> u32 \<Rightarrow> u64 \<Rightarrow> fpgagpu_dev \<Rightarrow> kret \<times> fpgagpu_version_info option \<times> fpgagpu_dev" where
  "ioctl_switch abi env queue_mode cmd arg d =
     (if cmd = FPGAGPU_IOC_DMA_TRANSFER abi then (let (r, d') = dma_transfer env arg d in (r, None, d'))
      else if cmd = FPGAGPU_IOC_SUBMIT_CMD abi then
        (let (r, d') = submit_cmd env queue_mode arg d in (r, None, d'))
      else if cmd = FPGAGPU_IOC_DOORBELL abi then
        (let (r, d') = doorbell env queue_mode d in (r, None, d'))
      else if cmd = FPGAGPU_IOC_GET_VERSION abi then
        (case get_version env arg d of Inl e \<Rightarrow> (Inl e, None, d) | Inr info \<Rightarrow> (OK, Some info, d))
      else if cmd = FPGAGPU_IOC_LOAD_KERNEL abi then
        (let (r, d') = load_kernel env arg d in (r, None, d'))
      else (Inl ENOTTY, None, d))"

definition fpgagpu_ioctl ::
  "ioc_abi \<Rightarrow> kenv \<Rightarrow> int \<Rightarrow> u32 \<Rightarrow> u64 \<Rightarrow> fpgagpu_dev \<Rightarrow> kret \<times> fpgagpu_version_info option \<times> fpgagpu_dev" where
  "fpgagpu_ioctl abi env queue_mode cmd arg d =
     (if IOC_TYPE abi cmd \<noteq> FPGAGPU_IOC_MAGIC \<and> IOC_TYPE abi cmd \<noteq> 0x56 then (Inl ENOTTY, None, d)
      else if IOC_NR abi cmd > FPGAGPU_IOC_MAXNR then (Inl ENOTTY, None, d)
      else ioctl_switch abi env queue_mode cmd arg d)"

lemma ioctl_is_switch:
  assumes "ioc_ok abi"
  shows "fpgagpu_ioctl abi env queue_mode cmd arg d = ioctl_switch abi env queue_mode cmd arg d"
proof (cases "cmd \<in> {FPGAGPU_IOC_DMA_TRANSFER abi, FPGAGPU_IOC_SUBMIT_CMD abi, FPGAGPU_IOC_DOORBELL abi,
    FPGAGPU_IOC_GET_VERSION abi, FPGAGPU_IOC_LOAD_KERNEL abi}")
  case True
  then have "IOC_TYPE abi cmd = FPGAGPU_IOC_MAGIC" and "\<not> IOC_NR abi cmd > FPGAGPU_IOC_MAXNR"
    using ioc_cmd_type [OF assms] ioc_cmd_nr [OF assms] by (auto simp: FPGAGPU_IOC_MAXNR_def)
  then show ?thesis by (simp add: fpgagpu_ioctl_def)
next
  case False
  then show ?thesis by (auto simp: fpgagpu_ioctl_def ioctl_switch_def)
qed

section \<open>The device invariant\<close>

text \<open>
  Ring indices are in range, the descriptor ring and the page array have the sizes
  \<open>fpgagpu_probe\<close> allocated, and no page is held between two calls.
\<close>

definition dev_ok :: "fpgagpu_dev \<Rightarrow> bool" where
  "dev_ok d \<longleftrightarrow> ring_inv d \<and> length (desc_ring d) = 8192 \<and> length (pinned_pages d) = 8192 \<and>
     held_pages d = []"

text \<open>
  What may happen to the device while the host sleeps: the firmware moves its head within the
  ring, and interrupts arrive.
\<close>

definition wait_frame :: "kenv \<Rightarrow> bool" where
  "wait_frame env \<longleftrightarrow> (\<forall>P d r d'. wait_event env P d = (r, d') \<longrightarrow> ring_inv d \<longrightarrow>
     (\<exists>h fired wakeups. unat h < 512 \<and>
        d' = d\<lparr>csr_mem := (csr_mem d)(RING_HEAD := h), dev_irq_fired := fired, dev_wakeups := wakeups\<rparr>))"

lemma dev_ok_wait:
  assumes "wait_frame env" and "dev_ok d" and "wait_event env P d = (r, d')"
  shows "dev_ok d'"
  using assms unfolding wait_frame_def dev_ok_def
  by (fastforce simp: ring_wf_def held_pages_def ring_cells_distinct)

lemma dev_ok_after_wait: "wait_frame env \<Longrightarrow> dev_ok d \<Longrightarrow> dev_ok (snd (wait_event env P d))"
  by (rule dev_ok_wait) (auto intro: prod.collapse [symmetric])

lemma dev_ok_frame:
  assumes "dev_ok d" and "ring_inv d'" and "desc_ring d' = desc_ring d"
    and "pinned_pages d' = pinned_pages d" and "num_pinned_pages d' = num_pinned_pages d"
  shows "dev_ok d'"
  using assms by (simp add: dev_ok_def held_pages_def)

lemma dev_ok_publish:
  assumes "dev_ok d"
  shows "dev_ok (ring_publish (ioread32 d RING_TAIL) p d)"
proof (rule dev_ok_frame [OF assms])
  show "ring_inv (ring_publish (ioread32 d RING_TAIL) p d)"
    using assms by (simp add: dev_ok_def ioread32_def ring_wf_pub_mem)
qed (simp_all add: ring_publish_def mmio_defs)

lemma dev_ok_stage:
  assumes "dev_ok d" and "unat k \<le> 1024"
  shows "dev_ok (snd (stage_words env u 0 (unat (k :: u32)) d))"
proof (rule dev_ok_frame [OF assms(1)])
  show "ring_inv (snd (stage_words env u 0 (unat k) d))"
    using assms by (simp add: stage_words_ring(3) dev_ok_def)
  have frame: "desc_ring (snd (stage_words env u i n d)) = desc_ring d \<and>
      pinned_pages (snd (stage_words env u i n d)) = pinned_pages d \<and>
      num_pinned_pages (snd (stage_words env u i n d)) = num_pinned_pages d" for i n d
    by (induction n arbitrary: i d) (auto simp: iowrite32_def split: option.split simp del: of_nat_mult)
  show "desc_ring (snd (stage_words env u 0 (unat k) d)) = desc_ring d"
    and "pinned_pages (snd (stage_words env u 0 (unat k) d)) = pinned_pages d"
    and "num_pinned_pages (snd (stage_words env u 0 (unat k) d)) = num_pinned_pages d"
    by (simp_all add: frame)
qed

lemma dev_ok_dma:
  assumes "dev_ok d" and "gup_ok env"
  shows "dev_ok (snd (dma_transfer env arg d))"
proof -
  have aborted: "dev_ok (dma_aborted pgs d)" if "length pgs \<le> 8192" for pgs
    using assms(1) that by (auto simp: dev_ok_def dma_aborted_def held_pages_def)
  have "dev_ok (dma_done ch a pgs segs d)" if "length pgs \<le> 8192" for ch a pgs segs
    using aborted [OF that] by (auto simp: dev_ok_def dma_aborted_def dma_done_def held_pages_def)
  moreover have "dev_ok ((dma_aborted pgs d)\<lparr>sgl := None, sgl_nents := 0\<rparr>)" if "length pgs \<le> 8192" for pgs
    using aborted [OF that] by (auto simp: dev_ok_def dma_aborted_def held_pages_def)
  moreover have "dev_ok (d\<lparr>num_pinned_pages := r\<rparr>)" if "r < 0" for r
    using assms(1) that by (auto simp: dev_ok_def held_pages_def)
  moreover have "length pgs \<le> 8192"
    if "dma_check p = Inr (off, n, ch)" "get_user_pages_fast env v n w = (r, pgs)" for p off n ch v w r pgs
    using that assms(2) by (fastforce simp: gup_ok_def dma_check_iff)
  ultimately show ?thesis
    using assms(1) aborted unfolding dma_transfer_paths [OF assms(2)]
    by (auto simp: Let_def split: option.split sum.split prod.split)
qed

lemma dev_ok_submit: "dev_ok d \<Longrightarrow> dev_ok (snd (submit_cmd env queue_mode arg d))"
  by (auto simp: submit_cmd_def Let_def dev_ok_publish split: option.split)

lemma dev_ok_doorbell:
  "wait_frame env \<Longrightarrow> dev_ok d \<Longrightarrow> dev_ok (snd (doorbell env queue_mode d))"
  by (auto simp: doorbell_def Let_def split: prod.split dest: dev_ok_wait)

lemma dev_ok_load:
  assumes "wait_frame env" and "dev_ok d"
  shows "dev_ok (snd (load_kernel env arg d))"
proof (cases "copy_kernel_binary env arg")
  case None
  with assms show ?thesis by (simp add: load_kernel_def)
next
  case (Some kbin)
  obtain r1 d1 where st: "stage_words env (user_instr_ptr kbin) 0 (unat (instr_size kbin)) d = (r1, d1)"
    by (cases "stage_words env (user_instr_ptr kbin) 0 (unat (instr_size kbin)) d")
  show ?thesis
  proof (cases "instr_size kbin = 0 \<or> instr_size kbin > 1024")
    case True
    with Some assms show ?thesis by (simp add: load_kernel_def)
  next
    case False
    then have "dev_ok d1"
      using dev_ok_stage [OF assms(2), of "instr_size kbin" env "user_instr_ptr kbin"] st
      by (simp add: word_le_nat_alt not_less)
    then show ?thesis
      using Some False st dev_ok_after_wait [OF assms(1)] dev_ok_publish [of d1]
      by (auto simp: load_kernel_def Let_def split_def split: sum.split)
  qed
qed

section \<open>Properties\<close>

text \<open>Dispatch.  Every command number of the interface reaches its handler (the checks on the
  type and number bytes stop none of them), and every other number, \<open>WAIT_FOR_IRQ\<close> included,
  returns \<open>-ENOTTY\<close> with the device unchanged.\<close>

theorem ioctl_dispatch:
  assumes "ioc_ok abi"
  shows "fpgagpu_ioctl abi env queue_mode (FPGAGPU_IOC_DMA_TRANSFER abi) arg d
       = (let (r, d') = dma_transfer env arg d in (r, None, d')) \<and>
    fpgagpu_ioctl abi env queue_mode (FPGAGPU_IOC_SUBMIT_CMD abi) arg d
       = (let (r, d') = submit_cmd env queue_mode arg d in (r, None, d')) \<and>
    fpgagpu_ioctl abi env queue_mode (FPGAGPU_IOC_DOORBELL abi) arg d
       = (let (r, d') = doorbell env queue_mode d in (r, None, d')) \<and>
    fpgagpu_ioctl abi env queue_mode (FPGAGPU_IOC_GET_VERSION abi) arg d
       = (if copy_version_out env arg
          then (OK, Some \<lparr>major_version = csr_mem d 0x20008, minor_version = csr_mem d 0x2000C\<rparr>, d)
          else (Inl EFAULT, None, d)) \<and>
    fpgagpu_ioctl abi env queue_mode (FPGAGPU_IOC_LOAD_KERNEL abi) arg d
       = (let (r, d') = load_kernel env arg d in (r, None, d')) \<and>
    (cmd \<notin> {FPGAGPU_IOC_DMA_TRANSFER abi, FPGAGPU_IOC_SUBMIT_CMD abi, FPGAGPU_IOC_DOORBELL abi,
             FPGAGPU_IOC_GET_VERSION abi, FPGAGPU_IOC_LOAD_KERNEL abi} \<longrightarrow>
     fpgagpu_ioctl abi env queue_mode cmd arg d = (Inl ENOTTY, None, d))"
  using ioc_cmd_distinct [OF assms]
  by (auto simp: ioctl_is_switch [OF assms] ioctl_switch_def get_version_def ioread32_def
      HW_MAJOR_OFFSET_def HW_MINOR_OFFSET_def)

theorem ioctl_dispatch_witness:
  "fpgagpu_ioctl linux_ioc sample_env 0 (FPGAGPU_IOC_WAIT_FOR_IRQ linux_ioc) 0 sample_dev
     = (Inl ENOTTY, None, sample_dev)"
  using ioctl_dispatch [OF linux_ioc_ok, where cmd = "FPGAGPU_IOC_WAIT_FOR_IRQ linux_ioc"]
    ioc_cmd_distinct [OF linux_ioc_ok] by auto

text \<open>C7: the device invariant survives every ioctl, successful or not: ring indices stay in range,
  the descriptor ring and the page array keep their sizes (no descriptor or page is stored
  past their end), and no user page stays pinned.\<close>

theorem ioctl_keeps_device:
  assumes "dev_ok d" and "gup_ok env" and "wait_frame env"
  shows "dev_ok (snd (snd (fpgagpu_ioctl abi env queue_mode cmd arg d)))"
proof -
  note branch = dev_ok_dma [OF assms(1,2), of arg] dev_ok_submit [OF assms(1), of env queue_mode arg]
    dev_ok_doorbell [OF assms(3,1), of queue_mode] dev_ok_load [OF assms(3,1), of arg]
  have "dev_ok (snd (snd (ioctl_switch abi env queue_mode cmd arg d)))"
    using branch assms(1)
    by (auto simp: ioctl_switch_def split_def Let_def split: sum.split)
  with assms(1) show ?thesis by (simp add: fpgagpu_ioctl_def)
qed

lemma sample_env_frame: "wait_frame sample_env"
  unfolding wait_frame_def
proof (intro allI impI)
  fix P d r d'
  assume "wait_event sample_env P d = (r, d')" and "ring_inv d"
  then have "unat (csr_mem d RING_TAIL) < 512"
    and d': "d' = d\<lparr>csr_mem := (csr_mem d)(RING_HEAD := csr_mem d RING_TAIL)\<rparr>"
    by (simp_all add: sample_env_def sample_wait_def ring_wf_def Let_def)
  moreover from d' have "d' = d\<lparr>csr_mem := (csr_mem d)(RING_HEAD := csr_mem d RING_TAIL),
      dev_irq_fired := dev_irq_fired d, dev_wakeups := dev_wakeups d\<rparr>"
    by (intro fpgagpu_dev.equality) simp_all
  ultimately show "\<exists>h fired wakeups. unat h < 512 \<and>
      d' = d\<lparr>csr_mem := (csr_mem d)(RING_HEAD := h), dev_irq_fired := fired, dev_wakeups := wakeups\<rparr>"
    by blast
qed

theorem ioctl_keeps_device_witness:
  "dev_ok (snd (snd (fpgagpu_ioctl linux_ioc sample_env 0 (FPGAGPU_IOC_LOAD_KERNEL linux_ioc) 0
     (sample_dma_dev\<lparr>pinned_pages := replicate 8192 0\<rparr>))))"
proof -
  have "dev_ok (sample_dma_dev\<lparr>pinned_pages := replicate 8192 0\<rparr>)"
    by (simp add: dev_ok_def held_pages_def sample_dma_dev_def sample_dev_def kzalloc_dev_def ring_wf_def)
  from ioctl_keeps_device [OF this sample_env_gup sample_env_frame] show ?thesis .
qed

end
