(* ===== verification/RingConc.thy ===== *)
theory RingConc
  imports Ioctl
begin

text \<open>
  The ring under concurrency: any number of threads inside SUBMIT_CMD and LOAD_KERNEL of
  \<open>driver/fpgagpu_ioctl.c\<close>, interleaved with each other and with the firmware at the
  granularity of single MMIO accesses.  The handlers are cut at each access to BAR0 and at
  the spin lock; the sequential theories give the meaning of each cut.  \<open>accepted\<close> and
  \<open>consumed\<close> are ghost histories: entries whose tail was published, and entries the firmware
  has read.
\<close>

section \<open>Threads\<close>

datatype job = Submit fpgagpu_launch_cmd | Load fpgagpu_kernel_binary

fun job_task :: "job \<Rightarrow> fpgagpu_dispatch_packet" where
  "job_task (Submit c) = launch_task c"
| "job_task (Load k) = load_task k"

text \<open>Where a thread is: what it will do next, with the values it has read.\<close>

datatype tstate =
    Idle
  | Staging fpgagpu_kernel_binary "u32 list" nat
  | Locking job
  | Locked job
  | GotHead job u32
  | GotTail job u32 u32
  | Copying job u32 nat
  | TailOut job u32
  | IrqOut job u32
  | Waiting u32
  | Done kret

fun critical :: "tstate \<Rightarrow> bool" where
  "critical (Locked j) = True"
| "critical (GotHead j h) = True"
| "critical (GotTail j h t) = True"
| "critical (Copying j t i) = True"
| "critical (TailOut j t) = True"
| "critical (IrqOut j t) = True"
| "critical _ = False"

record conc =
  bar :: "nat \<Rightarrow> u32"
  owner :: "nat option"
  pc :: "nat \<Rightarrow> tstate"
  accepted :: "fpgagpu_dispatch_packet option list"
  consumed :: "fpgagpu_dispatch_packet option list"

definition goto :: "nat \<Rightarrow> tstate \<Rightarrow> conc \<Rightarrow> conc" where
  "goto t st s = s\<lparr>pc := (pc s)(t := st)\<rparr>"

definition poke :: "nat \<Rightarrow> u32 \<Rightarrow> conc \<Rightarrow> conc" where
  "poke a w s = s\<lparr>bar := (bar s)(a := w)\<rparr>"

lemma conc_upd [simp]:
  "bar (goto t st s) = bar s" "owner (goto t st s) = owner s" "pc (goto t st s) = (pc s)(t := st)"
  "accepted (goto t st s) = accepted s" "consumed (goto t st s) = consumed s"
  "bar (poke a w s) = (bar s)(a := w)" "owner (poke a w s) = owner s" "pc (poke a w s) = pc s"
  "accepted (poke a w s) = accepted s" "consumed (poke a w s) = consumed s"
  by (simp_all add: goto_def poke_def)

text \<open>After the unlock, SUBMIT_CMD returns and LOAD_KERNEL waits for the head.\<close>

fun after_unlock :: "job \<Rightarrow> u32 \<Rightarrow> tstate" where
  "after_unlock (Submit c) tail = Done OK"
| "after_unlock (Load k) tail = Waiting ((tail + 1) mod QUEUE_SIZE)"

inductive conc_step :: "conc \<Rightarrow> conc \<Rightarrow> bool" where
  start_submit: "pc s t = Idle \<Longrightarrow> conc_step s (goto t (Locking (Submit c)) s)"
| start_load: "pc s t = Idle \<Longrightarrow> length code = unat (instr_size k) \<Longrightarrow> code \<noteq> [] \<Longrightarrow>
    length code \<le> 1024 \<Longrightarrow> conc_step s (goto t (Staging k code 0) s)"
| stage_word: "pc s t = Staging k code i \<Longrightarrow> i < length code \<Longrightarrow>
    conc_step s (goto t (Staging k code (Suc i)) (poke (FPGAGPU_KERNEL_STAGING_OFFSET + i * 4) (code ! i) s))"
| stage_end: "pc s t = Staging k code (length code) \<Longrightarrow> conc_step s (goto t (Locking (Load k)) s)"
| lock: "pc s t = Locking j \<Longrightarrow> owner s = None \<Longrightarrow>
    conc_step s ((goto t (Locked j) s)\<lparr>owner := Some t\<rparr>)"
| read_head: "pc s t = Locked j \<Longrightarrow> conc_step s (goto t (GotHead j (bar s RING_HEAD)) s)"
| read_tail: "pc s t = GotHead j h \<Longrightarrow> conc_step s (goto t (GotTail j h (bar s RING_TAIL)) s)"
| full: "pc s t = GotTail j h tail \<Longrightarrow> ring_full h tail \<Longrightarrow>
    conc_step s ((goto t (Done (Inl EBUSY)) s)\<lparr>owner := None\<rparr>)"
| room: "pc s t = GotTail j h tail \<Longrightarrow> \<not> ring_full h tail \<Longrightarrow> conc_step s (goto t (Copying j tail 0) s)"
| copy_word: "pc s t = Copying j tail i \<Longrightarrow> i < 16 \<Longrightarrow>
    conc_step s (goto t (Copying j tail (Suc i)) (poke (ring_slot (unat tail) + 4 * i) (packet_words (job_task j) ! i) s))"
| put_tail: "pc s t = Copying j tail 16 \<Longrightarrow>
    conc_step s ((goto t (TailOut j tail) (poke RING_TAIL ((tail + 1) mod QUEUE_SIZE) s))
      \<lparr>accepted := accepted s @ [if slot_in_bram (unat tail) then Some (job_task j) else None]\<rparr>)"
| put_irq: "pc s t = TailOut j tail \<Longrightarrow>
    conc_step s (goto t (IrqOut j tail) (poke FPGAGPU_CP_IRQ_OFFSET 1 s))"
| unlock: "pc s t = IrqOut j tail \<Longrightarrow> conc_step s ((goto t (after_unlock j tail) s)\<lparr>owner := None\<rparr>)"
| woken: "pc s t = Waiting target \<Longrightarrow> bar s RING_HEAD = target \<Longrightarrow> conc_step s (goto t (Done OK) s)"
| timed_out: "pc s t = Waiting target \<Longrightarrow> bar s RING_HEAD \<noteq> target \<Longrightarrow>
    conc_step s (goto t (Done (Inl ETIMEDOUT)) s)"
| interrupted: "pc s t = Waiting target \<Longrightarrow> r < 0 \<Longrightarrow> conc_step s (goto t (Done (Inl (EXT r))) s)"
| return: "pc s t = Done r \<Longrightarrow> conc_step s (goto t Idle s)"
| firmware: "bar s RING_HEAD \<noteq> bar s RING_TAIL \<Longrightarrow>
    conc_step s ((poke RING_HEAD ((bar s RING_HEAD + 1) mod QUEUE_SIZE) s)
      \<lparr>consumed := consumed s @ [slot_view (bar s) (unat (bar s RING_HEAD))]\<rparr>)"

inductive conc_reach :: "conc \<Rightarrow> conc \<Rightarrow> bool" for s where
  here: "conc_reach s s"
| there: "conc_reach s s' \<Longrightarrow> conc_step s' s'' \<Longrightarrow> conc_reach s s''"

text \<open>The ring as \<open>fpgagpu_probe\<close> leaves it: both indices zero, no thread inside.\<close>

definition conc_init :: "(nat \<Rightarrow> u32) \<Rightarrow> conc" where
  "conc_init m = \<lparr>bar = m(RING_HEAD := 0, RING_TAIL := 0), owner = None, pc = (\<lambda>_. Idle),
     accepted = [], consumed = []\<rparr>"

section \<open>Single cells and the queue\<close>

lemma ring_abs_cell_outside:
  assumes "a < FPGAGPU_RING_OFFSET"
  shows "ring_abs (m(a := w)) = ring_abs m" and "ring_wf (m(a := w)) = ring_wf m"
    and "ring_count (m(a := w)) = ring_count m"
proof -
  have ne: "a \<noteq> RING_HEAD" "a \<noteq> RING_TAIL" and "a < ring_slot 0"
    using assms by (auto simp: ring_offsets bar0_offsets)
  then have "slot_packet (m(a := w)) i = slot_packet m i" for i
    using slot_packet_put_cell [of a i w m] by (simp add: raw_put_def)
  then show "ring_abs (m(a := w)) = ring_abs m" and "ring_wf (m(a := w)) = ring_wf m"
    and "ring_count (m(a := w)) = ring_count m"
    using ne by (simp_all add: ring_abs_def ring_pending_def ring_count_def slot_view_def [abs_def] ring_wf_def)
qed

lemma ring_abs_cell_tail_slot:
  assumes "ring_wf m" and "k < 16" and "a = ring_slot (unat (m RING_TAIL)) + 4 * k"
  shows "ring_abs (m(a := w)) = ring_abs m" and "ring_wf (m(a := w)) = ring_wf m"
    and "ring_count (m(a := w)) = ring_count m"
proof -
  have ne: "a \<noteq> RING_HEAD" "a \<noteq> RING_TAIL"
    using assms(3) by (auto simp: ring_offsets)
  have "slot_view (m(a := w)) i = slot_view m i" if "i \<in> set (ring_pending m)" for i
  proof -
    have "i \<noteq> unat (m RING_TAIL)" by (rule pending_not_tail [OF assms(1) that])
    then have "a < ring_slot i \<or> ring_slot i + 4 * 16 \<le> a"
      using assms(2,3) by (auto simp: ring_offsets)
    then have "slot_packet (m(a := w)) i = slot_packet m i"
      using cells.get_words_put_outside [of a "ring_slot i" 16 w m]
      by (simp add: slot_packet_def raw_put_def)
    then show ?thesis by (simp add: slot_view_def)
  qed
  then show "ring_abs (m(a := w)) = ring_abs m" and "ring_wf (m(a := w)) = ring_wf m"
    and "ring_count (m(a := w)) = ring_count m"
    using ne by (simp_all add: ring_abs_def ring_pending_def ring_count_def ring_wf_def)
qed

lemma ring_abs_cell_irq:
  "ring_abs (m(FPGAGPU_CP_IRQ_OFFSET := w)) = ring_abs m"
  "ring_wf (m(FPGAGPU_CP_IRQ_OFFSET := w)) = ring_wf m"
  using slot_packet_put_irq [of _ w m]
  by (auto simp: ring_abs_def ring_pending_def ring_count_def ring_wf_def slot_view_def [abs_def]
      ring_cells_distinct raw_put_def cong: if_cong)

lemma ring_abs_cell_tail:
  assumes wf: "ring_wf m" and room: "ring_count m < 511"
  shows "ring_abs (m(RING_TAIL := (m RING_TAIL + 1) mod QUEUE_SIZE))
      = ring_abs m @ [slot_view m (unat (m RING_TAIL))]"
    and "ring_wf (m(RING_TAIL := (m RING_TAIL + 1) mod QUEUE_SIZE))"
proof -
  let ?t = "m RING_TAIL" and ?m' = "m(RING_TAIL := (m RING_TAIL + 1) mod QUEUE_SIZE)"
  from wf have h: "unat (m RING_HEAD) < 512" and t: "unat ?t < 512"
    by (simp_all add: ring_wf_def)
  from room have "Suc (unat ?t) mod 512 \<noteq> unat (m RING_HEAD)"
    using ring_dist_full [OF h t] by (simp add: ring_count_def)
  then have "ring_count ?m' = Suc (ring_count m)"
    by (simp add: ring_count_def unat_succ_mod_queue t ring_dist_enq [OF h t] ring_cells_distinct)
  then have pend: "ring_pending ?m' = ring_pending m @ [unat ?t]"
    by (simp add: ring_pending_def ring_count_def ring_dist_tail [OF h t] ring_cells_distinct)
  have "slot_view ?m' = slot_view m"
    using slot_packet_put_tail [of _ m] by (simp add: fun_eq_iff slot_view_def raw_put_def)
  then show "ring_abs ?m' = ring_abs m @ [slot_view m (unat ?t)]"
    by (simp add: ring_abs_def pend)
  show "ring_wf ?m'"
    using h t by (simp add: ring_wf_def unat_succ_mod_queue ring_cells_distinct)
qed

lemma ring_abs_cell_head:
  assumes wf: "ring_wf m" and ne: "m RING_HEAD \<noteq> m RING_TAIL"
  shows "ring_abs m = slot_view m (unat (m RING_HEAD)) # ring_abs (m(RING_HEAD := (m RING_HEAD + 1) mod QUEUE_SIZE))"
    and "ring_wf (m(RING_HEAD := (m RING_HEAD + 1) mod QUEUE_SIZE))"
    and "ring_count (m(RING_HEAD := (m RING_HEAD + 1) mod QUEUE_SIZE)) \<le> ring_count m"
proof -
  let ?d = "kzalloc_dev m" and ?m' = "m(RING_HEAD := (m RING_HEAD + 1) mod QUEUE_SIZE)"
  have d: "csr_mem ?d = m" and d': "csr_mem (fw_consume ?d) = ?m'"
    by (simp_all add: kzalloc_dev_def fw_consume_def ioread32_def)
  have "ring_count m \<noteq> 0"
    using wf ne by (simp add: ring_count_def ring_wf_def ring_dist_0 word_unat_eq_iff)
  then obtain c where c: "ring_count m = Suc c" by (cases "ring_count m") simp_all
  then have cons: "ring_abs m = slot_view m (unat (m RING_HEAD)) # tl (ring_abs m)" and "ring_abs m \<noteq> []"
    using wf by (simp_all add: ring_abs_def ring_pending_def upt_conv_Cons ring_wf_def del: upt_Suc)
  note r = ring_abs_consume [of ?d, unfolded d d', OF wf this(2)]
  then show "ring_wf ?m'" and "ring_abs m = slot_view m (unat (m RING_HEAD)) # ring_abs ?m'"
    using cons by simp_all
  from arg_cong [OF this(2), of length] show "ring_count ?m' \<le> ring_count m" by simp
qed

section \<open>The invariant\<close>

text \<open>
  What a thread may rely on at each point.  The head it read may be stale, but only in the
  safe direction: the ring looks at least as full as it is.
\<close>

fun pc_ok :: "(nat \<Rightarrow> u32) \<Rightarrow> tstate \<Rightarrow> bool" where
  "pc_ok m (Staging k code i) \<longleftrightarrow> i \<le> length code \<and> length code \<le> 1024"
| "pc_ok m (GotHead j h) \<longleftrightarrow> unat h < 512 \<and> ring_count m \<le> ring_dist (unat h) (unat (m RING_TAIL))"
| "pc_ok m (GotTail j h t) \<longleftrightarrow> t = m RING_TAIL \<and> unat h < 512 \<and>
     ring_count m \<le> ring_dist (unat h) (unat (m RING_TAIL))"
| "pc_ok m (Copying j t i) \<longleftrightarrow> t = m RING_TAIL \<and> ring_count m < 511 \<and> i \<le> 16 \<and>
     (\<forall>k < i. m (ring_slot (unat t) + 4 * k) = packet_words (job_task j) ! k)"
| "pc_ok m _ \<longleftrightarrow> True"

definition conc_inv :: "conc \<Rightarrow> bool" where
  "conc_inv s \<longleftrightarrow> ring_wf (bar s) \<and> accepted s = consumed s @ ring_abs (bar s) \<and>
     (\<forall>t. critical (pc s t) \<longrightarrow> owner s = Some t) \<and> (\<forall>t. pc_ok (bar s) (pc s t))"

lemma pc_ok_noncritical: "\<not> critical st \<Longrightarrow> pc_ok m st = pc_ok m' st"
  by (cases st) simp_all

lemma pc_ok_cell_outside:
  assumes "a < FPGAGPU_RING_OFFSET"
  shows "pc_ok (m(a := w)) st = pc_ok m st"
proof -
  have "a \<noteq> RING_TAIL" and "\<And>i k. ring_slot i + 4 * k \<noteq> a"
    using assms by (auto simp: ring_offsets bar0_offsets)
  then show ?thesis
    by (cases st) (simp_all add: ring_abs_cell_outside(3) [OF assms])
qed

lemma pc_ok_cell_head:
  assumes "ring_wf m" and "m RING_HEAD \<noteq> m RING_TAIL" and "pc_ok m st"
  shows "pc_ok (m(RING_HEAD := (m RING_HEAD + 1) mod QUEUE_SIZE)) st"
proof -
  have "\<And>i k. ring_slot i + 4 * k \<noteq> RING_HEAD" by (simp add: ring_offsets)
  then show ?thesis
    using assms(3) ring_abs_cell_head(3) [OF assms(1,2)]
    by (cases st) (auto simp: ring_cells_distinct)
qed

text \<open>The part of the invariant about the threads, when one thread moves.\<close>

lemma threads_move:
  assumes "\<forall>u. critical (pc s u) \<longrightarrow> owner s = Some u" and "\<forall>u. pc_ok (bar s) (pc s u)"
    and "owner s = Some t" and "pc_ok m st" and "critical st \<longrightarrow> own = Some t"
  shows "\<forall>u. pc_ok m (((pc s)(t := st)) u)" and "\<forall>u. critical (((pc s)(t := st)) u) \<longrightarrow> own = Some u"
proof -
  have "\<not> critical (pc s u)" if "u \<noteq> t" for u using assms(1,3) that by auto
  then show "\<forall>u. pc_ok m (((pc s)(t := st)) u)" and "\<forall>u. critical (((pc s)(t := st)) u) \<longrightarrow> own = Some u"
    using assms(2,4,5) pc_ok_noncritical [of _ "bar s" m] by auto
qed

lemma conc_inv_own:
  assumes "conc_inv s" and "owner s = Some t" and "pc s' = (pc s)(t := st)" and "consumed s' = consumed s"
    and "ring_wf (bar s')" and "accepted s' = consumed s @ ring_abs (bar s')"
    and "pc_ok (bar s') st" and "critical st \<longrightarrow> owner s' = Some t"
  shows "conc_inv s'"
  using assms(1) threads_move [OF _ _ assms(2,7,8)] assms(3-6)
  by (simp add: conc_inv_def)

text \<open>A thread outside the lock that stays outside.\<close>

lemma conc_inv_free:
  assumes "conc_inv s" and "\<not> critical st" and "pc_ok (bar s) st"
  shows "conc_inv (goto t st s)"
  using assms by (auto simp: conc_inv_def)

lemma conc_inv_crit:
  assumes "conc_inv s" and "pc s t = st" and "critical st"
  shows "owner s = Some t" and "ring_wf (bar s)" and "accepted s = consumed s @ ring_abs (bar s)"
    and "pc_ok (bar s) st"
  using assms by (auto simp: conc_inv_def)

lemma slot_view_copied:
  assumes "\<forall>k < 16. m (ring_slot i + 4 * k) = packet_words p ! k"
  shows "slot_view m i = (if slot_in_bram i then Some p else None)"
proof -
  have "get_words (\<lambda>m. m) (ring_slot i) 16 m = packet_words p"
    using assms by (intro nth_equalityI) (simp_all add: get_words_def del: upt_rec_numeral)
  then show ?thesis by (simp add: slot_view_def slot_packet_def)
qed

lemma conc_inv_stay:
  assumes "conc_inv s" and "pc s t = st0" and "critical st0" and "pc_ok (bar s) st"
  shows "conc_inv (goto t st s)"
  using conc_inv_crit [OF assms(1-3)] assms(4)
  by (intro conc_inv_own [OF assms(1) conc_inv_crit(1) [OF assms(1-3)], where st = st]) simp_all

lemma conc_inv_release:
  assumes "conc_inv s" and "pc s t = st0" and "critical st0" and "pc_ok (bar s) st" and "\<not> critical st"
  shows "conc_inv ((goto t st s)\<lparr>owner := None\<rparr>)"
  using conc_inv_crit [OF assms(1-3)] assms(4,5)
  by (intro conc_inv_own [OF assms(1) conc_inv_crit(1) [OF assms(1-3)], where st = st]) simp_all

lemma conc_inv_stage_word:
  assumes "conc_inv s" and "pc s t = Staging k code i" and "i < length code"
  shows "conc_inv (goto t (Staging k code (Suc i)) (poke (FPGAGPU_KERNEL_STAGING_OFFSET + i * 4) w s))"
proof -
  have "pc_ok (bar s) (pc s t)" using assms(1) by (simp add: conc_inv_def)
  then have a: "FPGAGPU_KERNEL_STAGING_OFFSET + i * 4 < FPGAGPU_RING_OFFSET"
    and st: "pc_ok (bar s) (Staging k code (Suc i))"
    using assms(2,3) by (auto simp: bar0_offsets)
  with assms(1) show ?thesis
    by (auto simp: conc_inv_def ring_abs_cell_outside [OF a] pc_ok_cell_outside [OF a])
qed

lemma conc_inv_copy_word:
  assumes "conc_inv s" and "pc s t = Copying j tail i" and "i < 16"
  shows "conc_inv (goto t (Copying j tail (Suc i))
    (poke (ring_slot (unat tail) + 4 * i) (packet_words (job_task j) ! i) s))"
proof -
  have "critical (Copying j tail i)" by simp
  note inv = conc_inv_crit [OF assms(1,2) this]
  have ok: "tail = bar s RING_TAIL" "ring_count (bar s) < 511"
    and copied: "\<forall>k < i. bar s (ring_slot (unat tail) + 4 * k) = packet_words (job_task j) ! k"
    using inv(4) by auto
  let ?m = "(bar s)(ring_slot (unat tail) + 4 * i := packet_words (job_task j) ! i)"
  note cell = ring_abs_cell_tail_slot [OF inv(2) assms(3), of "ring_slot (unat tail) + 4 * i"
    "packet_words (job_task j) ! i", folded ok(1), OF refl]
  have "pc_ok ?m (Copying j tail (Suc i))"
    using ok copied assms(3) cell(3) by (auto simp: ring_offsets less_Suc_eq)
  with cell(1,2) inv show ?thesis
    by (intro conc_inv_own [OF assms(1) inv(1), where st = "Copying j tail (Suc i)"]) simp_all
qed

lemma conc_inv_put_tail:
  assumes "conc_inv s" and "pc s t = Copying j tail 16"
  shows "conc_inv ((goto t (TailOut j tail) (poke RING_TAIL ((tail + 1) mod QUEUE_SIZE) s))
      \<lparr>accepted := accepted s @ [if slot_in_bram (unat tail) then Some (job_task j) else None]\<rparr>)"
proof -
  have "critical (Copying j tail 16)" by simp
  note inv = conc_inv_crit [OF assms this]
  have ok: "tail = bar s RING_TAIL" "ring_count (bar s) < 511"
    and copied: "\<forall>k < 16. bar s (ring_slot (unat tail) + 4 * k) = packet_words (job_task j) ! k"
    using inv(4) by auto
  note cell = ring_abs_cell_tail [OF inv(2) ok(2), folded ok(1)]
  show ?thesis
    using inv(1,3) cell
    by (intro conc_inv_own [OF assms(1) inv(1), where st = "TailOut j tail"])
      (simp_all add: slot_view_copied [OF copied])
qed

lemma conc_inv_put_irq:
  assumes "conc_inv s" and "pc s t = TailOut j tail"
  shows "conc_inv (goto t (IrqOut j tail) (poke FPGAGPU_CP_IRQ_OFFSET 1 s))"
proof -
  have "critical (TailOut j tail)" by simp
  note inv = conc_inv_crit [OF assms this]
  show ?thesis
    using inv by (intro conc_inv_own [OF assms(1) inv(1), where st = "IrqOut j tail"])
      (simp_all add: ring_abs_cell_irq)
qed

lemma conc_inv_firmware:
  assumes "conc_inv s" and "bar s RING_HEAD \<noteq> bar s RING_TAIL"
  shows "conc_inv ((poke RING_HEAD ((bar s RING_HEAD + 1) mod QUEUE_SIZE) s)
      \<lparr>consumed := consumed s @ [slot_view (bar s) (unat (bar s RING_HEAD))]\<rparr>)"
proof -
  from assms(1) have wf: "ring_wf (bar s)" by (simp add: conc_inv_def)
  from assms(1) ring_abs_cell_head [OF wf assms(2)] pc_ok_cell_head [OF wf assms(2)]
  show ?thesis by (simp add: conc_inv_def)
qed

lemma conc_inv_lock:
  assumes "conc_inv s" and "pc s t = Locking j" and "owner s = None"
  shows "conc_inv ((goto t (Locked j) s)\<lparr>owner := Some t\<rparr>)"
  using assms by (auto simp: conc_inv_def)

lemma conc_inv_step:
  assumes "conc_step s s'" and "conc_inv s"
  shows "conc_inv s'"
  using assms
proof (cases rule: conc_step.cases)
  case (read_head t j)
  have wf: "ring_wf (bar s)" using assms(2) by (simp add: conc_inv_def)
  then show ?thesis unfolding read_head(1)
    by (intro conc_inv_stay [OF assms(2) read_head(2)]) (simp_all add: ring_wf_def ring_count_def)
next
  case (read_tail t j h)
  have "pc_ok (bar s) (GotHead j h)" using conc_inv_crit(4) [OF assms(2) read_tail(2)] by simp
  then show ?thesis unfolding read_tail(1)
    by (intro conc_inv_stay [OF assms(2) read_tail(2)]) simp_all
next
  case (room t j h tail)
  have wf: "ring_wf (bar s)" and ok: "pc_ok (bar s) (GotTail j h tail)"
    using conc_inv_crit(2,4) [OF assms(2) room(2)] by simp_all
  from ok wf have "unat h < 512" "unat tail < 512" by (simp_all add: ring_wf_def)
  with room(3) have "ring_dist (unat h) (unat tail) \<noteq> 511" and "ring_dist (unat h) (unat tail) \<le> 511"
    by (simp_all add: ring_full_iff ring_dist_full ring_dist_bound)
  with ok show ?thesis unfolding room(1)
    by (intro conc_inv_stay [OF assms(2) room(2)]) simp_all
next
  case (stage_word t k code i)
  then show ?thesis using assms(2) by (simp add: conc_inv_stage_word)
next
  case (copy_word t j tail i)
  then show ?thesis using assms(2) by (simp only: conc_inv_copy_word)
next
  case (put_tail t j tail)
  then show ?thesis using assms(2) by (simp only: conc_inv_put_tail)
next
  case (put_irq t j tail)
  then show ?thesis using assms(2) by (simp only: conc_inv_put_irq)
next
  case (full t j h tail)
  then show ?thesis using assms(2) by (auto intro: conc_inv_release)
next
  case (unlock t j tail)
  have "pc_ok (bar s) (after_unlock j tail)" and "\<not> critical (after_unlock j tail)"
    by (cases j; simp)+
  then show ?thesis using assms(2) unlock by (auto intro: conc_inv_release)
next
  case (lock t j)
  then show ?thesis using assms(2) by (simp only: conc_inv_lock)
next
  case firmware
  show ?thesis unfolding firmware(1) by (rule conc_inv_firmware [OF assms(2) firmware(2)])
qed (use assms(2) in \<open>auto intro!: conc_inv_free\<close>)

lemma conc_inv_init: "conc_inv (conc_init m)"
  by (simp add: conc_inv_def conc_init_def ring_wf_def ring_abs_def ring_pending_def ring_count_def
      ring_dist_def ring_cells_distinct)

lemma conc_inv_reach: "conc_reach s s' \<Longrightarrow> conc_inv s \<Longrightarrow> conc_inv s'"
  by (induction rule: conc_reach.induct) (auto intro: conc_inv_step)

section \<open>One submission as a run\<close>

lemma conc_reach_trans: "conc_reach s' s'' \<Longrightarrow> conc_reach s s' \<Longrightarrow> conc_reach s s''"
  by (induction rule: conc_reach.induct) (auto intro: conc_reach.there)

text \<open>Agreement on everything a run of one thread under the lock leaves alone.\<close>

definition same_but :: "nat \<Rightarrow> conc \<Rightarrow> conc \<Rightarrow> bool" where
  "same_but t s s' \<longleftrightarrow> (\<forall>u. u \<noteq> t \<longrightarrow> pc s' u = pc s u) \<and> consumed s' = consumed s \<and>
     (\<forall>a < FPGAGPU_RING_OFFSET. bar s' a = bar s a)"

lemma copy_run:
  "pc s t = Copying j tail i \<Longrightarrow> i \<le> 16 \<Longrightarrow>
     \<exists>s'. conc_reach s s' \<and> pc s' t = Copying j tail 16 \<and> same_but t s s' \<and>
       accepted s' = accepted s"
proof (induction "16 - i" arbitrary: i s)
  case 0
  then show ?case by (auto simp: same_but_def intro: conc_reach.here)
next
  case (Suc n)
  let ?s = "goto t (Copying j tail (Suc i))
    (poke (ring_slot (unat tail) + 4 * i) (packet_words (job_task j) ! i) s)"
  from Suc have "conc_step s ?s" by (intro conc_step.copy_word) simp_all
  then have step: "conc_reach s ?s" by (rule conc_reach.there [OF conc_reach.here])
  have same: "same_but t s ?s" by (simp add: same_but_def ring_offsets bar0_offsets)
  have pc: "pc ?s t = Copying j tail (Suc i)" by simp
  have n: "n = 16 - Suc i" and le: "Suc i \<le> 16" using Suc.hyps(2) Suc.prems(2) by simp_all
  from Suc.hyps(1) [OF n pc le]
  obtain s' where "conc_reach ?s s'" "pc s' t = Copying j tail 16" "same_but t ?s s'"
    "accepted s' = accepted ?s" by blast
  with step same show ?case
    by (intro exI [of _ s']) (auto simp: same_but_def intro: conc_reach_trans)
qed

lemma submission_run:
  assumes "pc s t = Locking j" and "owner s = None"
    and "\<not> ring_full (bar s RING_HEAD) (bar s RING_TAIL)"
  shows "\<exists>s'. conc_reach s s' \<and> pc s' t = after_unlock j (bar s RING_TAIL) \<and> same_but t s s' \<and>
    accepted s' = accepted s @
      [if slot_in_bram (unat (bar s RING_TAIL)) then Some (job_task j) else None]"
proof -
  let ?h = "bar s RING_HEAD" and ?tl = "bar s RING_TAIL"
  let ?s1 = "(goto t (Locked j) s)\<lparr>owner := Some t\<rparr>"
  let ?s2 = "goto t (GotHead j ?h) ?s1"
  let ?s3 = "goto t (GotTail j ?h ?tl) ?s2"
  let ?s4 = "goto t (Copying j ?tl 0) ?s3"
  have "conc_step s ?s1" using assms by (intro conc_step.lock)
  note r1 = conc_reach.there [OF conc_reach.here this]
  have "conc_step ?s1 ?s2" using conc_step.read_head [of ?s1 t j] by simp
  note r2 = conc_reach.there [OF r1 this]
  have "conc_step ?s2 ?s3" using conc_step.read_tail [of ?s2 t j ?h] by simp
  note r3 = conc_reach.there [OF r2 this]
  have "conc_step ?s3 ?s4" using assms(3) by (intro conc_step.room) simp_all
  note r4 = conc_reach.there [OF r3 this]
  have same4: "same_but t s ?s4" by (simp add: same_but_def)
  obtain s5 where r5: "conc_reach ?s4 s5" and pc5: "pc s5 t = Copying j ?tl 16"
    and same5: "same_but t ?s4 s5" and acc5: "accepted s5 = accepted s"
    using copy_run [of ?s4 t j ?tl 0] by auto
  let ?s6 = "(goto t (TailOut j ?tl) (poke RING_TAIL ((?tl + 1) mod QUEUE_SIZE) s5))
      \<lparr>accepted := accepted s5 @ [if slot_in_bram (unat ?tl) then Some (job_task j) else None]\<rparr>"
  let ?s7 = "goto t (IrqOut j ?tl) (poke FPGAGPU_CP_IRQ_OFFSET 1 ?s6)"
  let ?s8 = "(goto t (after_unlock j ?tl) ?s7)\<lparr>owner := None\<rparr>"
  have "conc_step s5 ?s6" by (rule conc_step.put_tail [OF pc5])
  note r6 = conc_reach.there [OF conc_reach_trans [OF r5 r4] this]
  have "conc_step ?s6 ?s7" by (rule conc_step.put_irq) simp
  note r7 = conc_reach.there [OF r6 this]
  have "conc_step ?s7 ?s8" by (rule conc_step.unlock) simp
  note r8 = conc_reach.there [OF r7 this]
  have "same_but t s ?s8"
    using same4 same5 by (simp add: same_but_def ring_offsets bar0_offsets)
  with r8 show ?thesis using acc5 by (intro exI [of _ ?s8]) simp
qed

section \<open>Properties\<close>

text \<open>C3: concurrent submissions are serialised.  In every state that any interleaving of
  submitting threads, loading threads and the firmware can reach, at most one thread is
  between the lock and the unlock, and the entries whose tail was published are, in order,
  exactly those the firmware has read followed by those in the ring: no packet is lost,
  torn, duplicated or overwritten before it is read, although the head used for the full
  test may be stale.\<close>

theorem concurrent_fifo:
  assumes "conc_reach (conc_init m) s"
  shows "accepted s = consumed s @ ring_abs (bar s) \<and> ring_wf (bar s) \<and>
    (critical (pc s t) \<and> critical (pc s u) \<longrightarrow> t = u)"
proof -
  note inv = conc_inv_reach [OF assms conc_inv_init, unfolded conc_inv_def]
  then have "critical (pc s t) \<Longrightarrow> critical (pc s u) \<Longrightarrow> t = u"
    by (metis option.inject)
  with inv show ?thesis by blast
qed

theorem concurrent_fifo_witness:
  "\<exists>s. conc_reach (conc_init (\<lambda>_. 0)) s \<and> accepted s = [Some (launch_task sample_cmd)] \<and>
     consumed s @ ring_abs (bar s) = [Some (launch_task sample_cmd)]"
proof -
  let ?s0 = "conc_init (\<lambda>_. 0)" and ?j = "Submit sample_cmd"
  have "conc_step ?s0 (goto 0 (Locking ?j) ?s0)"
    by (rule conc_step.start_submit) (simp add: conc_init_def)
  then have r1: "conc_reach ?s0 (goto 0 (Locking ?j) ?s0)" by (blast intro: conc_reach.intros)
  have "slot_in_bram 0" by (simp add: slot_in_bram_iff)
  then obtain s where "conc_reach (goto 0 (Locking ?j) ?s0) s" "accepted s = [Some (launch_task sample_cmd)]"
    using submission_run [of "goto 0 (Locking ?j) ?s0" 0 ?j]
    by (auto simp: conc_init_def ring_full_def QUEUE_SIZE_def ring_cells_distinct)
  with concurrent_fifo [OF conc_reach_trans [OF this(1) r1]] r1 show ?thesis
    by (auto intro: conc_reach_trans)
qed

text \<open>The staging buffer is not protected.  LOAD_KERNEL copies the program before it takes the
  lock, so another LOAD_KERNEL can overwrite it while the first one's packet is still
  queued: a reachable state holds the LOAD packet of a thread that staged the one-word
  program \<open>w\<close> and waits for its completion, and a staging buffer with another word.\<close>

theorem load_staging_race:
  "\<exists>k s0 s. conc_reach (conc_init (\<lambda>_. 0)) s0 \<and> pc s0 0 = Staging k [w] 1 \<and>
     bar s0 FPGAGPU_KERNEL_STAGING_OFFSET = w \<and> conc_reach s0 s \<and>
     pc s 0 = Waiting 1 \<and> ring_abs (bar s) = [Some (load_task k)] \<and>
     bar s FPGAGPU_KERNEL_STAGING_OFFSET = w + 1"
proof -
  let ?k = "\<lparr>user_instr_ptr = 0, instr_size = 1, kernel_id = 0\<rparr>"
    and ?init = "conc_init (\<lambda>_. 0)" and ?a = FPGAGPU_KERNEL_STAGING_OFFSET
  have idle: "pc ?init u = Idle" for u by (simp add: conc_init_def)
  let ?b0 = "goto 0 (Staging ?k [w] 0) ?init"
  let ?b1 = "goto 1 (Staging ?k [w + 1] 0) ?b0"
  let ?s0 = "goto 0 (Staging ?k [w] 1) (poke ?a w ?b1)"
  let ?s1 = "goto 0 (Locking (Load ?k)) ?s0"
  have "conc_step ?init ?b0" using idle by (intro conc_step.start_load) simp_all
  note r0 = conc_reach.there [OF conc_reach.here this]
  have "conc_step ?b0 ?b1" using idle by (intro conc_step.start_load) simp_all
  note r1 = conc_reach.there [OF r0 this]
  have "conc_step ?b1 ?s0" using conc_step.stage_word [of ?b1 0 ?k "[w]" 0] by simp
  note r2 = conc_reach.there [OF r1 this]
  have "conc_step ?s0 ?s1" using conc_step.stage_end [of ?s0 0 ?k "[w]"] by simp
  note r3 = conc_reach.there [OF conc_reach.here this]
  have "slot_in_bram 0" by (simp add: slot_in_bram_iff)
  moreover have "bar ?s1 RING_HEAD = 0" "bar ?s1 RING_TAIL = 0"
    by (simp_all add: conc_init_def ring_offsets bar0_offsets)
  ultimately obtain s2 where r4: "conc_reach ?s1 s2" and wait: "pc s2 0 = Waiting 1"
    and same: "same_but 0 ?s1 s2" and acc: "accepted s2 = [Some (load_task ?k)]"
    using submission_run [of ?s1 0 "Load ?k"]
    by (auto simp: conc_init_def ring_full_def QUEUE_SIZE_def)
  let ?s3 = "goto 1 (Staging ?k [w + 1] 1) (poke ?a (w + 1) s2)"
  have "pc s2 1 = Staging ?k [w + 1] 0" using same by (simp add: same_but_def)
  then have "conc_step s2 ?s3" using conc_step.stage_word [of s2 1 ?k "[w + 1]" 0] by simp
  note r5 = conc_reach.there [OF conc_reach_trans [OF r4 r3] this]
  have "conc_inv ?s3" by (rule conc_inv_reach [OF conc_reach_trans [OF r5 r2] conc_inv_init])
  then have "ring_abs (bar ?s3) = [Some (load_task ?k)]"
    using acc same by (simp add: conc_inv_def same_but_def conc_init_def)
  with r2 r5 wait show ?thesis
    by (intro exI [of _ ?k] exI [of _ ?s0] exI [of _ ?s3]) simp
qed

section \<open>Progress under the lock\<close>

text \<open>How many steps a thread is away from releasing the lock.\<close>

fun to_release :: "tstate \<Rightarrow> nat" where
  "to_release (Locked j) = 22"
| "to_release (GotHead j h) = 21"
| "to_release (GotTail j h t) = 20"
| "to_release (Copying j t i) = 19 - i"
| "to_release (TailOut j t) = 2"
| "to_release (IrqOut j t) = 1"
| "to_release _ = 0"

lemma progress_by:
  assumes "conc_step s s'" and "to_release (pc s' t) < to_release (pc s t)"
    and "\<not> critical (pc s' t) \<Longrightarrow> owner s' = None"
  shows "\<exists>s'. conc_step s s' \<and> to_release (pc s' t) < to_release (pc s t) \<and>
    (\<not> critical (pc s' t) \<longrightarrow> owner s' = None)"
  using assms by blast

lemma to_release_mono:
  assumes "conc_step s s'" and "critical (pc s t)"
  shows "to_release (pc s' t) \<le> to_release (pc s t)"
  using assms
proof (cases rule: conc_step.cases)
  case (unlock u j tail)
  then show ?thesis by (cases j) auto
qed auto

lemma critical_advances:
  assumes "critical (pc s t)" and "pc_ok (bar s) (pc s t)"
  shows "\<exists>s'. conc_step s s' \<and> to_release (pc s' t) < to_release (pc s t) \<and>
    (\<not> critical (pc s' t) \<longrightarrow> owner s' = None)"
proof (cases "pc s t")
  case (Locked j)
  show ?thesis by (rule progress_by [OF conc_step.read_head [OF Locked]]) (use Locked in auto)
next
  case (GotHead j h)
  show ?thesis by (rule progress_by [OF conc_step.read_tail [OF GotHead]]) (use GotHead in auto)
next
  case (GotTail j h tail)
  show ?thesis
  proof (cases "ring_full h tail")
    case True
    show ?thesis by (rule progress_by [OF conc_step.full [OF GotTail True]]) (use GotTail in auto)
  next
    case False
    show ?thesis by (rule progress_by [OF conc_step.room [OF GotTail False]]) (use GotTail in auto)
  qed
next
  case (Copying j tail i)
  with assms(2) have "i < 16 \<or> i = 16" by auto
  then show ?thesis
  proof
    assume "i < 16"
    show ?thesis by (rule progress_by [OF conc_step.copy_word [OF Copying \<open>i < 16\<close>]]) (use Copying \<open>i < 16\<close> in auto)
  next
    assume i: "i = 16"
    show ?thesis by (rule progress_by [OF conc_step.put_tail [OF Copying [unfolded i]]]) (use Copying i in auto)
  qed
next
  case (TailOut j tail)
  show ?thesis by (rule progress_by [OF conc_step.put_irq [OF TailOut]]) (use TailOut in auto)
next
  case (IrqOut j tail)
  have "to_release (after_unlock j tail) = 0" by (cases j) simp_all
  then show ?thesis by (intro progress_by [OF conc_step.unlock [OF IrqOut]]) (use IrqOut in auto)
qed (use assms(1) in simp_all)

text \<open>C27: the lock is always given back.  A thread under the lock is never stuck: it has a next
  step of its own, whatever the others do, that brings it closer to the unlock (at most 22
  steps away), and no step of another thread or of the firmware takes it further away.\<close>

theorem lock_progress:
  assumes "conc_reach (conc_init m) s" and "critical (pc s t)"
  shows "to_release (pc s t) \<le> 22 \<and>
    (\<forall>s'. conc_step s s' \<longrightarrow> to_release (pc s' t) \<le> to_release (pc s t)) \<and>
    (\<exists>s'. conc_step s s' \<and> to_release (pc s' t) < to_release (pc s t) \<and>
    (\<not> critical (pc s' t) \<longrightarrow> owner s' = None))"
proof -
  have "pc_ok (bar s) (pc s t)"
    using conc_inv_reach [OF assms(1) conc_inv_init] by (simp add: conc_inv_def)
  note critical_advances [OF assms(2) this]
  moreover have "to_release (pc s t) \<le> 22" by (cases "pc s t") simp_all
  ultimately show ?thesis using to_release_mono [OF _ assms(2)] by blast
qed

theorem lock_progress_witness:
  "\<exists>s s'. conc_reach (conc_init (\<lambda>_. 0)) s \<and> pc s 0 = Locked (Submit sample_cmd) \<and> conc_step s s' \<and>
     to_release (pc s' 0) < 22"
proof -
  let ?s0 = "conc_init (\<lambda>_. 0)" and ?j = "Submit sample_cmd"
  let ?s1 = "goto 0 (Locking ?j) ?s0"
  let ?s2 = "(goto 0 (Locked ?j) ?s1)\<lparr>owner := Some 0\<rparr>"
  have "conc_step ?s0 ?s1" by (rule conc_step.start_submit) (simp add: conc_init_def)
  note r1 = conc_reach.there [OF conc_reach.here this]
  have "conc_step ?s1 ?s2" by (rule conc_step.lock) (simp_all add: conc_init_def)
  note r2 = conc_reach.there [OF r1 this]
  have "critical (pc ?s2 0)" by simp
  from lock_progress [OF r2 this] obtain s' where "conc_step ?s2 s'" "to_release (pc s' 0) < 22"
    by auto
  with r2 show ?thesis by (intro exI [of _ ?s2] exI [of _ s']) simp
qed

end
