(* ===== verification/DmaRace.thy ===== *)
theory DmaRace
  imports DmaProps
begin

text \<open>
  Two DMA_TRANSFER calls at the same time.  The branch of \<open>driver/fpgagpu_ioctl.c\<close> takes no lock
  and keeps its page array, page count, scatterlist and descriptors in \<open>struct fpgagpu_dev\<close>.
  Here a second call pins its pages between the two parts of the first, \<open>dma_pin\<close> and
  \<open>dma_pinned\<close> of theory Dma.
\<close>

section \<open>Two calls\<close>

lemma dma_pinned_run:
  assumes "length pgs = n" and "kmalloc_ok env"
    and "segs = dma_map_sg env (sg_fill pgs (dma_size p) off) (from_device ch)" and "segs \<noteq> []"
    and "xdma_poll (xdma_status env) 0 XDMA_TIMEOUT \<noteq> 0"
  shows "dma_pinned env p off n ch (pin_pages (int n, pgs) d) = (OK, dma_done ch (ddr3_addr p) pgs segs d)"
proof -
  have len: "length pgs = nat (int n)" using assms(1) by simp
  have "num_pinned_pages (pin_pages (int n, pgs) d) = int n" by (simp add: pin_pages_def)
  then show ?thesis
    using assms by (simp add: dma_pinned_def Let_def held_pages_pin [OF len] dma_run_eq [OF len])
qed

lemma dma_pinned_emptied:
  assumes "num_pinned_pages d = 0" and "0 < n"
  shows "dma_pinned env p off n ch d = (Inl EFAULT, d)"
  using assms by (simp add: dma_pinned_def unpin_pages_def held_pages_def)

text \<open>C24: concurrent transfers take each other's pages.  Two requests of the same number of pages
  pass their checks and pin; then the first runs to its end, then the second.  The first
  reports success, but its descriptors move the bytes of the second caller's pages, to or from
  the device addresses of the first; the second is refused; and the pages of the first stay
  pinned for ever, one reference each.\<close>

theorem concurrent_transfers_swap_pages:
  assumes "dma_check p = Inr (off, n, ch)" and "dma_check q = Inr (off', n, ch')"
    and "get_user_pages_fast env (host_vaddr p AND PAGE_MASK) n (from_device ch) = (int n, pgs)"
    and "get_user_pages_fast env (host_vaddr q AND PAGE_MASK) n (from_device ch') = (int n, pgs')"
    and "gup_ok env" and "dma_map_ok bus env" and "length (desc_ring d) = 8192" and "kmalloc_ok env"
    and "dma_map_sg env (sg_fill pgs' (dma_size p) off) (from_device ch) \<noteq> []"
    and "xdma_poll (xdma_status env) 0 XDMA_TIMEOUT \<noteq> 0"
  shows "case dma_pinned env p off n ch (dma_pin env q n ch' (dma_pin env p n ch d)) of
    (r1, d1) \<Rightarrow>
     (case dma_pinned env q off' n ch' d1 of
        (r2, d2) \<Rightarrow> r1 = OK \<and> r2 = Inl EFAULT \<and>
          (\<exists>ds. chain_walk 8192 (desc_ring_dma_addr d) (desc_ring d2) (desc_ring_dma_addr d) = Some ds \<and>
            map (\<lambda>(src, dst). if from_device ch then (bus dst, src) else (bus src, dst)) (chain_moves ds) =
              zip (user_bytes pgs' (unat off) (unat (dma_size p))) (addrs (ddr3_addr p) (unat (dma_size p)))) \<and>
          page_refs d2 = (\<lambda>g. page_refs d g + int (count_list pgs g)))"
proof -
  let ?d = "pin_pages (int n, pgs) d"
  let ?segs = "dma_map_sg env (sg_fill pgs' (dma_size p) off) (from_device ch)"
  let ?d1 = "dma_done ch (ddr3_addr p) pgs' ?segs ?d"
  have len: "length pgs' = n" using assms(4,5) unfolding gup_ok_def by fastforce
  have n: "0 < n" using assms(1) by (auto simp: dma_check_iff)
  have pins: "dma_pin env q n ch' (dma_pin env p n ch d) = pin_pages (int n, pgs') ?d"
    by (simp add: dma_pin_def assms(3,4))
  have one: "dma_pinned env p off n ch (pin_pages (int n, pgs') ?d) = (OK, ?d1)"
    by (rule dma_pinned_run [OF len assms(8) refl assms(9,10)])
  have two: "dma_pinned env q off' n ch' ?d1 = (Inl EFAULT, ?d1)"
    by (rule dma_pinned_emptied [OF _ n]) (simp add: dma_done_def dma_aborted_def)
  have same: "desc_ring_dma_addr ?d = desc_ring_dma_addr d" "desc_ring ?d = desc_ring d"
    by (simp_all add: pin_pages_eq)
  have "length (desc_ring ?d) = 8192" using assms(7) same by simp
  from dma_done_moves [OF assms(6) this assms(1) len refl assms(9) refl]
  have "\<exists>ds. chain_walk 8192 (desc_ring_dma_addr d) (desc_ring ?d1) (desc_ring_dma_addr d) = Some ds \<and>
      map (\<lambda>(src, dst). if from_device ch then (bus dst, src) else (bus src, dst)) (chain_moves ds) =
        zip (user_bytes pgs' (unat off) (unat (dma_size p))) (addrs (ddr3_addr p) (unat (dma_size p)))"
    unfolding same .
  moreover have "page_refs ?d1 = (\<lambda>g. page_refs d g + int (count_list pgs g))"
    by (simp add: dma_done_def dma_aborted_def pin_pages_eq)
  ultimately show ?thesis by (simp add: pins one two)
qed

text \<open>Two 5000-byte writes, from \<open>0x20010\<close> on pages 1 and 2 and from \<open>0x30010\<close> on pages 3 and 4.\<close>

definition race_env :: kenv where
  "race_env = sample_env\<lparr>get_user_pages_fast := (\<lambda>a n w. (int n, map (\<lambda>i. of_nat i + (if a = 0x20000 then 0 else 2)) [1..<n + 1]))\<rparr>"

theorem concurrent_transfers_swap_pages_witness:
  "\<exists>d1 d2 ds.
    dma_pinned race_env sample_param 0x10 2 h2c_chan
      (dma_pin race_env (sample_param\<lparr>host_vaddr := 0x30010\<rparr>) 2 h2c_chan
        (dma_pin race_env sample_param 2 h2c_chan sample_dma_dev)) = (OK, d1) \<and>
    dma_pinned race_env (sample_param\<lparr>host_vaddr := 0x30010\<rparr>) 0x10 2 h2c_chan d1 = (Inl EFAULT, d2) \<and>
    map (\<lambda>(src, dst). (sample_bus src, dst)) (chain_moves ds) =
      zip (user_bytes [3, 4] 0x10 5000) (addrs 0x10000 5000) \<and>
    page_refs d2 = (\<lambda>g. if g \<in> {1, 2} then 1 else 0)"
proof -
  let ?q = "sample_param\<lparr>host_vaddr := 0x30010\<rparr>"
  have check: "dma_check ?q = Inr (0x10, 2, h2c_chan)"
    by (simp add: dma_check_def sample_param_def offset_in_page_def PAGE_SIZE_def ULONG_MAX_def
        DIV_ROUND_UP_def dma_channel_def FPGAGPU_DMA_TO_DEVICE_def Let_def)
  have g: "get_user_pages_fast race_env (host_vaddr sample_param AND PAGE_MASK) 2 (from_device h2c_chan) = (int 2, [1, 2])"
    "get_user_pages_fast race_env (host_vaddr ?q AND PAGE_MASK) 2 (from_device h2c_chan) = (int 2, [3, 4])"
    by (simp_all add: race_env_def sample_param_def PAGE_MASK_def PAGE_SIZE_def upt_rec)
  have env: "gup_ok race_env" "dma_map_ok sample_bus race_env" "kmalloc_ok race_env"
    using sample_env_map by (auto simp: race_env_def gup_ok_def dma_map_ok_def) (simp add: sample_env_def)
  have ring: "length (desc_ring sample_dma_dev) = 8192" by (simp add: sample_dma_dev_def)
  have ne: "dma_map_sg race_env (sg_fill [3, 4] (dma_size sample_param) 0x10) (from_device h2c_chan) \<noteq> []"
    by (simp add: race_env_def sample_env_def sample_map_def sample_param_def PAGE_SIZE_def Let_def)
  have poll: "xdma_poll (xdma_status race_env) 0 XDMA_TIMEOUT \<noteq> 0"
    using sample_poll by (simp add: race_env_def)
  note race = concurrent_transfers_swap_pages [OF sample_check check g env(1,2) ring env(3) ne poll]
  obtain r1 d1 where one: "dma_pinned race_env sample_param 0x10 2 h2c_chan
      (dma_pin race_env ?q 2 h2c_chan (dma_pin race_env sample_param 2 h2c_chan sample_dma_dev)) = (r1, d1)"
    by (rule prod.exhaust)
  obtain r2 d2 where two: "dma_pinned race_env ?q 0x10 2 h2c_chan d1 = (r2, d2)" by (rule prod.exhaust)
  have small: "from_device h2c_chan = False" "unat (0x10 :: u32) = 0x10" "unat (dma_size sample_param) = 5000"
    "ddr3_addr sample_param = 0x10000"
    by (simp_all add: h2c_chan_def sample_param_def)
  have refs: "(\<lambda>g. page_refs sample_dma_dev g + int (count_list [1, 2] g)) = (\<lambda>g. if g \<in> {1, 2} then 1 else 0)"
    by (auto simp: sample_dma_dev_def sample_dev_def kzalloc_dev_def)
  from race have "r1 = OK \<and> r2 = Inl EFAULT \<and> (\<exists>ds. map (\<lambda>(src, dst). (sample_bus src, dst)) (chain_moves ds) =
      zip (user_bytes [3, 4] 0x10 5000) (addrs 0x10000 5000)) \<and> page_refs d2 = (\<lambda>g. if g \<in> {1, 2} then 1 else 0)"
    unfolding one two prod.case small refs if_False by blast
  with one two show ?thesis by blast
qed

end
