(* ===== verification/Lifecycle.thy ===== *)
theory Lifecycle
  imports Ioctl
begin

text \<open>
  Module and device lifecycle: \<open>fpgagpu_core_init\<close>, \<open>fpgagpu_core_exit\<close>, \<open>fpgagpu_probe\<close> with
  its chain of error labels, and \<open>fpgagpu_remove\<close>, all of \<open>driver/fpgagpu_main.c\<close>.  What Linux
  answers to each request is the parameter \<open>probe_env\<close>; what the driver holds is a set of
  resources, and giving back what is not held is recorded.
\<close>

section \<open>Resources\<close>

datatype resource =
    ChrdevRegion | DevClass | PciDriver
  | PciEnabled | PciRegions | IrqVectors | DevMem | Bar0Map | Bar1Map
  | DescRingMem | PinnedArray | IrqHandler | CharDev | DevNode

record drv =
  dv_dev :: fpgagpu_dev
  csr_base :: bool
  dma_base :: bool
  irq :: int
  has_desc_ring :: bool
  has_pinned :: bool

record kstate =
  held :: "resource set"
  bad_frees :: "resource list"
  minor_counter :: int
  drvdata :: "drv option"

definition acquire :: "resource \<Rightarrow> kstate \<Rightarrow> kstate" where
  "acquire r k = k\<lparr>held := insert r (held k)\<rparr>"

definition release :: "resource \<Rightarrow> kstate \<Rightarrow> kstate" where
  "release r k = (if r \<in> held k then k\<lparr>held := held k - {r}\<rparr>
     else k\<lparr>bad_frees := bad_frees k @ [r]\<rparr>)"

definition release_if :: "bool \<Rightarrow> resource \<Rightarrow> kstate \<Rightarrow> kstate" where
  "release_if b r k = (if b then release r k else k)"

section \<open>The PCI environment\<close>

text \<open>
  Return values of the calls of \<open>fpgagpu_probe\<close> and \<open>fpgagpu_core_init\<close>; an allocation or
  mapping either succeeds or yields a null pointer.
\<close>

record probe_env =
  alloc_chrdev_region :: int
  class_create :: "int option"
  pci_register_driver :: int
  pci_enable_device :: int
  pci_request_regions :: int
  pci_alloc_irq_vectors :: int
  kzalloc_dev_ok :: bool
  ioremap_bar0 :: "(nat \<Rightarrow> u32) option"
  ioremap_bar1 :: bool
  pci_irq_vector :: int
  dma_alloc_coherent :: "u64 option"
  kzalloc_pages_ok :: bool
  request_irq :: int
  cdev_add :: int
  device_create :: "int option"

section \<open>Error labels of probe\<close>

definition err_disable :: "kstate \<Rightarrow> kstate" where
  "err_disable k = release PciEnabled k"

definition err_regions :: "kstate \<Rightarrow> kstate" where
  "err_regions k = err_disable (release PciRegions (release IrqVectors k))"

definition err_free :: "kstate \<Rightarrow> kstate" where
  "err_free k = err_regions (release DevMem k)"

definition err_iounmap_bar0 :: "drv \<Rightarrow> kstate \<Rightarrow> kstate" where
  "err_iounmap_bar0 v k = err_free (release_if (csr_base v) Bar0Map k)"

definition err_iounmap :: "drv \<Rightarrow> kstate \<Rightarrow> kstate" where
  "err_iounmap v k = err_iounmap_bar0 v (release_if (dma_base v) Bar1Map k)"

definition err_mem :: "drv \<Rightarrow> kstate \<Rightarrow> kstate" where
  "err_mem v k = err_iounmap v k"

definition err_mem_pt :: "drv \<Rightarrow> kstate \<Rightarrow> kstate" where
  "err_mem_pt v k = err_mem v (release_if (has_desc_ring v) DescRingMem
     (release_if (has_pinned v) PinnedArray k))"

definition err_irq :: "drv \<Rightarrow> kstate \<Rightarrow> kstate" where
  "err_irq v k = err_mem_pt v (release IrqHandler k)"

definition err_cdev :: "drv \<Rightarrow> kstate \<Rightarrow> kstate" where
  "err_cdev v k = err_irq v (release CharDev k)"

section \<open>Probe\<close>

definition MAX_FPGAGPU_DEVICES :: int where "MAX_FPGAGPU_DEVICES = 4"

definition zero_desc :: xdma_desc where
  "zero_desc = \<lparr>xd_control = 0, xd_bytes = 0, xd_src_addr = 0, xd_dst_addr = 0, xd_next_desc = 0\<rparr>"

text \<open>From the IRQ registration on: handler, character device, device node.\<close>

definition probe_register :: "probe_env \<Rightarrow> drv \<Rightarrow> kstate \<Rightarrow> kret \<times> kstate" where
  "probe_register env v k =
     (if request_irq env \<noteq> 0 then (Inl (EXT (request_irq env)), err_irq v k)
      else
        let k1 = acquire IrqHandler k
        in if cdev_add env < 0 then (Inl (EXT (cdev_add env)), err_mem v k1)
           else
             let k2 = acquire CharDev k1
             in case device_create env of
                  Some e \<Rightarrow> (Inl (EXT e), err_cdev v k2)
                | None \<Rightarrow> (OK, acquire DevNode k2))"

text \<open>From the DMA allocations to the reset of the ring.\<close>

definition probe_memory :: "probe_env \<Rightarrow> drv \<Rightarrow> kstate \<Rightarrow> kret \<times> kstate" where
  "probe_memory env v k =
     (case dma_alloc_coherent env of
        None \<Rightarrow> (Inl ENOMEM, err_mem_pt v k)
      | Some bus \<Rightarrow>
          let v1 = v\<lparr>has_desc_ring := True,
                     dv_dev := (dv_dev v)\<lparr>desc_ring := replicate 8192 zero_desc, desc_ring_dma_addr := bus\<rparr>\<rparr>;
              k1 = acquire DescRingMem k
          in if \<not> kzalloc_pages_ok env then (Inl ENOMEM, err_mem_pt v1 k1)
             else
               let v2 = v1\<lparr>has_pinned := True, dv_dev := (dv_dev v1)\<lparr>pinned_pages := replicate 8192 0\<rparr>\<rparr>;
                   k2 = acquire PinnedArray k1;
                   v3 = v2\<lparr>dv_dev := iowrite32 0 RING_TAIL (iowrite32 0 RING_HEAD (dv_dev v2))\<rparr>
               in probe_register env v3 (k2\<lparr>drvdata := Some v3\<rparr>))"

definition fpgagpu_probe :: "probe_env \<Rightarrow> kstate \<Rightarrow> kret \<times> kstate" where
  "fpgagpu_probe env k =
     (if pci_enable_device env \<noteq> 0 then (Inl (EXT (pci_enable_device env)), k)
      else let k1 = acquire PciEnabled k in
      if pci_request_regions env \<noteq> 0 then (Inl (EXT (pci_request_regions env)), err_disable k1)
      else let k2 = acquire PciRegions k1 in
      if pci_alloc_irq_vectors env < 0 then (Inl (EXT (pci_alloc_irq_vectors env)), err_disable k2)
      else let k3 = acquire IrqVectors k2 in
      if \<not> kzalloc_dev_ok env then (Inl ENOMEM, err_regions k3)
      else let k4 = acquire DevMem k3 in
      case ioremap_bar0 env of
        None \<Rightarrow> (Inl ENOMEM, err_free k4)
      | Some bar \<Rightarrow>
          let v = \<lparr>dv_dev = kzalloc_dev bar, csr_base = True, dma_base = False, irq = 0,
                   has_desc_ring = False, has_pinned = False\<rparr>;
              k5 = acquire Bar0Map k4
          in if \<not> ioremap_bar1 env then (Inl ENOMEM, err_iounmap_bar0 v k5)
             else
               let n = minor_counter k5;
                   v1 = v\<lparr>dma_base := True, irq := pci_irq_vector env, dv_dev := (dv_dev v)\<lparr>minor := n\<rparr>\<rparr>;
                   k6 = (acquire Bar1Map k5)\<lparr>minor_counter := n + 1\<rparr>
               in if n \<ge> MAX_FPGAGPU_DEVICES then (Inl ENOSPC, err_iounmap v1 k6)
                  else probe_memory env v1 (k6\<lparr>drvdata := Some v1\<rparr>))"

section \<open>Remove, init and exit\<close>

definition fpgagpu_remove :: "kstate \<Rightarrow> kstate" where
  "fpgagpu_remove k =
     (let k1 = (case drvdata k of
            None \<Rightarrow> k
          | Some v \<Rightarrow>
              release DevMem
                (release_if (irq v \<noteq> 0) IrqHandler
                  (release_if (csr_base v) Bar0Map
                    (release_if (dma_base v) Bar1Map
                      (release_if (has_desc_ring v) DescRingMem
                        (release_if (has_pinned v) PinnedArray
                          (release CharDev (release DevNode k))))))))
      in release PciEnabled (release PciRegions (release IrqVectors k1)))"

definition fpgagpu_core_init :: "probe_env \<Rightarrow> kstate \<Rightarrow> kret \<times> kstate" where
  "fpgagpu_core_init env k =
     (if alloc_chrdev_region env < 0 then (Inl (EXT (alloc_chrdev_region env)), k)
      else let k1 = acquire ChrdevRegion k in
      case class_create env of
        Some e \<Rightarrow> (Inl (EXT e), release ChrdevRegion k1)
      | None \<Rightarrow>
          let k2 = acquire DevClass k1
          in if pci_register_driver env < 0
             then (Inl (EXT (pci_register_driver env)), release ChrdevRegion (release DevClass k2))
             else (OK, acquire PciDriver k2))"

definition fpgagpu_core_exit :: "kstate \<Rightarrow> kstate" where
  "fpgagpu_core_exit k = release ChrdevRegion (release DevClass (release PciDriver k))"

lemmas label_defs = err_disable_def err_regions_def err_free_def err_iounmap_bar0_def
  err_iounmap_def err_mem_def err_mem_pt_def err_irq_def err_cdev_def

lemmas probe_defs = fpgagpu_probe_def probe_memory_def probe_register_def

section \<open>Which step a probe failed at\<close>

text \<open>The calls of probe up to a point, all successful.\<close>

definition pci_ready :: "probe_env \<Rightarrow> bool" where
  "pci_ready env \<longleftrightarrow> pci_enable_device env = 0 \<and> pci_request_regions env = 0"

definition mem_ready :: "probe_env \<Rightarrow> kstate \<Rightarrow> bool" where
  "mem_ready env k \<longleftrightarrow> pci_ready env \<and> pci_alloc_irq_vectors env \<ge> 0 \<and> kzalloc_dev_ok env \<and>
     ioremap_bar0 env \<noteq> None \<and> ioremap_bar1 env \<and> minor_counter k < MAX_FPGAGPU_DEVICES \<and>
     dma_alloc_coherent env \<noteq> None \<and> kzalloc_pages_ok env"

definition device_resources :: "resource set" where
  "device_resources = {PciEnabled, PciRegions, IrqVectors, DevMem, Bar0Map, Bar1Map, DescRingMem,
     PinnedArray, IrqHandler, CharDev, DevNode}"

lemma probe_register_ok:
  "probe_register env v k = (OK, k') \<Longrightarrow> k' = acquire DevNode (acquire CharDev (acquire IrqHandler k))"
  by (auto simp: probe_register_def Let_def split: if_splits option.splits)

text \<open>The driver data of a device whose probe got as far as the IRQ registration.\<close>

definition probed_drv :: "probe_env \<Rightarrow> (nat \<Rightarrow> u32) \<Rightarrow> u64 \<Rightarrow> int \<Rightarrow> drv" where
  "probed_drv env bar bus n =
     \<lparr>dv_dev = iowrite32 0 RING_TAIL (iowrite32 0 RING_HEAD
        ((kzalloc_dev bar)\<lparr>minor := n, desc_ring := replicate 8192 zero_desc, desc_ring_dma_addr := bus,
           pinned_pages := replicate 8192 0\<rparr>)),
      csr_base = True, dma_base = True, irq = pci_irq_vector env, has_desc_ring = True,
      has_pinned = True\<rparr>"

lemma probed_drv_ok:
  "dev_ok (dv_dev (probed_drv env bar bus n))" "ring_queue (dv_dev (probed_drv env bar bus n)) = []"
  by (simp_all add: probed_drv_def dev_ok_def kzalloc_dev_def iowrite32_def ring_wf_def ring_abs_def
      ring_pending_def ring_count_def ring_dist_def held_pages_def ring_cells_distinct)

lemma fst_probe_register:
  "fst (probe_register env v k) = OK \<longleftrightarrow>
     request_irq env = 0 \<and> 0 \<le> cdev_add env \<and> device_create env = None"
  by (auto simp: probe_register_def Let_def split: option.split)

lemma fst_probe_memory:
  "fst (probe_memory env v k) = OK \<longleftrightarrow>
     dma_alloc_coherent env \<noteq> None \<and> kzalloc_pages_ok env \<and> request_irq env = 0 \<and>
     0 \<le> cdev_add env \<and> device_create env = None"
  by (auto simp: probe_memory_def Let_def fst_probe_register split: option.split)

lemma fst_probe:
  "fst (fpgagpu_probe env k) = OK \<longleftrightarrow>
     mem_ready env k \<and> request_irq env = 0 \<and> 0 \<le> cdev_add env \<and> device_create env = None"
  by (auto simp: fpgagpu_probe_def Let_def fst_probe_memory mem_ready_def pci_ready_def acquire_def
      not_less not_le split: option.split)

lemma probe_ok:
  assumes "fpgagpu_probe env k = (OK, k')"
  obtains bar bus where "ioremap_bar0 env = Some bar" "dma_alloc_coherent env = Some bus"
    "minor_counter k < 4"
    "k' = k\<lparr>minor_counter := minor_counter k + 1,
      drvdata := Some (probed_drv env bar bus (minor_counter k)), held := held k \<union> device_resources\<rparr>"
proof -
  from assms have c: "mem_ready env k" "request_irq env = 0" "\<not> cdev_add env < 0" "device_create env = None"
    using fst_probe [of env k] by auto
  then obtain bar bus where b: "ioremap_bar0 env = Some bar" "dma_alloc_coherent env = Some bus"
    by (auto simp: mem_ready_def)
  from c have n: "minor_counter k < 4" by (simp add: mem_ready_def MAX_FPGAGPU_DEVICES_def)
  have h: "insert DevNode (insert CharDev (insert IrqHandler (insert PinnedArray (insert DescRingMem
      (insert Bar1Map (insert Bar0Map (insert DevMem (insert IrqVectors (insert PciRegions
        (insert PciEnabled (held k))))))))))) = held k \<union> device_resources"
    by (auto simp: device_resources_def)
  have "k' = k\<lparr>minor_counter := minor_counter k + 1,
      drvdata := Some (probed_drv env bar bus (minor_counter k)), held := held k \<union> device_resources\<rparr>"
    using assms c b unfolding h [symmetric]
    by (simp add: probe_defs Let_def mem_ready_def pci_ready_def acquire_def probed_drv_def
        kzalloc_dev_def iowrite32_def)
  with b n show ?thesis by (rule that)
qed

lemmas probe_undo = label_defs release_def release_if_def acquire_def

text \<open>A probe that passes every allocation arrives at the registration with all of them held.\<close>

lemma probe_reaches:
  assumes "mem_ready env k"
  shows "\<exists>bar bus. fpgagpu_probe env k = probe_register env (probed_drv env bar bus (minor_counter k))
    (k\<lparr>minor_counter := minor_counter k + 1,
       held := held k \<union> (device_resources - {IrqHandler, CharDev, DevNode}),
       drvdata := Some (probed_drv env bar bus (minor_counter k))\<rparr>)"
proof -
  from assms obtain bar bus where b: "ioremap_bar0 env = Some bar" "dma_alloc_coherent env = Some bus"
    by (auto simp: mem_ready_def)
  have h: "held k \<union> (device_resources - {IrqHandler, CharDev, DevNode}) =
      insert PinnedArray (insert DescRingMem
      (insert Bar1Map (insert Bar0Map (insert DevMem (insert IrqVectors (insert PciRegions
        (insert PciEnabled (held k))))))))"
    by (auto simp: device_resources_def)
  have "fpgagpu_probe env k = probe_register env (probed_drv env bar bus (minor_counter k))
    (k\<lparr>minor_counter := minor_counter k + 1,
       held := held k \<union> (device_resources - {IrqHandler, CharDev, DevNode}),
       drvdata := Some (probed_drv env bar bus (minor_counter k))\<rparr>)"
    using assms b unfolding h
    by (simp add: fpgagpu_probe_def probe_memory_def Let_def mem_ready_def pci_ready_def acquire_def
        probed_drv_def kzalloc_dev_def iowrite32_def)
  then show ?thesis by blast
qed

text \<open>A probe that fails in between gives everything back.\<close>

lemma probe_memory_failure:
  assumes "dma_alloc_coherent env = None \<or> \<not> kzalloc_pages_ok env"
    and "held k = {PciEnabled, PciRegions, IrqVectors, DevMem, Bar0Map, Bar1Map}" and "bad_frees k = []"
    and "csr_base v" "dma_base v" "\<not> has_desc_ring v" "\<not> has_pinned v"
  shows "held (snd (probe_memory env v k)) = {} \<and> bad_frees (snd (probe_memory env v k)) = []"
proof (cases "dma_alloc_coherent env")
  case None
  with assms(2-) show ?thesis by (simp add: probe_memory_def probe_undo insert_Diff_if)
next
  case (Some bus)
  with assms show ?thesis by (simp add: probe_memory_def probe_undo Let_def insert_Diff_if)
qed

lemma probe_early_failure:
  assumes "pci_ready env" and "\<not> pci_alloc_irq_vectors env < 0" and "\<not> mem_ready env k"
    and "held k = {}" and "bad_frees k = []"
  shows "held (snd (fpgagpu_probe env k)) = {} \<and> bad_frees (snd (fpgagpu_probe env k)) = []"
proof -
  consider (dev) "\<not> kzalloc_dev_ok env"
    | (bar0) "kzalloc_dev_ok env" "ioremap_bar0 env = None"
    | (bar1) bar where "kzalloc_dev_ok env" "ioremap_bar0 env = Some bar" "\<not> ioremap_bar1 env"
    | (minor) bar where "kzalloc_dev_ok env" "ioremap_bar0 env = Some bar" "ioremap_bar1 env"
        "MAX_FPGAGPU_DEVICES \<le> minor_counter k"
    | (mem) bar where "kzalloc_dev_ok env" "ioremap_bar0 env = Some bar" "ioremap_bar1 env"
        "\<not> MAX_FPGAGPU_DEVICES \<le> minor_counter k" "dma_alloc_coherent env = None \<or> \<not> kzalloc_pages_ok env"
    using assms(1-3) unfolding mem_ready_def by fastforce
  then show ?thesis
  proof cases
    case dev
    with assms show ?thesis
      by (simp add: fpgagpu_probe_def pci_ready_def Let_def probe_undo insert_Diff_if)
  next
    case bar0
    with assms show ?thesis
      by (simp add: fpgagpu_probe_def pci_ready_def Let_def probe_undo insert_Diff_if)
  next
    case bar1
    with assms show ?thesis
      by (simp add: fpgagpu_probe_def pci_ready_def Let_def probe_undo insert_Diff_if)
  next
    case minor
    with assms show ?thesis
      by (simp add: fpgagpu_probe_def pci_ready_def Let_def probe_undo insert_Diff_if)
  next
    case mem
    with assms probe_memory_failure [OF mem(5)] show ?thesis
      by (simp add: fpgagpu_probe_def pci_ready_def Let_def acquire_def insert_commute)
  qed
qed

text \<open>The registration with everything else held, by its failure.\<close>

lemma probe_register_failure:
  assumes "held k = {PciEnabled, PciRegions, IrqVectors, DevMem, Bar0Map, Bar1Map, DescRingMem, PinnedArray}"
    and "bad_frees k = []" and "csr_base v" "dma_base v" "has_desc_ring v" "has_pinned v"
  shows "request_irq env \<noteq> 0 \<Longrightarrow>
      held (snd (probe_register env v k)) = {} \<and> bad_frees (snd (probe_register env v k)) = [IrqHandler]"
    and "request_irq env = 0 \<Longrightarrow> cdev_add env < 0 \<Longrightarrow>
      held (snd (probe_register env v k)) = {IrqHandler, PinnedArray, DescRingMem} \<and>
      bad_frees (snd (probe_register env v k)) = []"
    and "request_irq env = 0 \<Longrightarrow> \<not> cdev_add env < 0 \<Longrightarrow> device_create env \<noteq> None \<Longrightarrow>
      held (snd (probe_register env v k)) = {} \<and> bad_frees (snd (probe_register env v k)) = []"
proof -
  assume "request_irq env \<noteq> 0"
  with assms show "held (snd (probe_register env v k)) = {} \<and>
      bad_frees (snd (probe_register env v k)) = [IrqHandler]"
    by (simp add: probe_register_def probe_undo insert_Diff_if)
next
  assume "request_irq env = 0" "cdev_add env < 0"
  with assms show "held (snd (probe_register env v k)) = {IrqHandler, PinnedArray, DescRingMem} \<and>
      bad_frees (snd (probe_register env v k)) = []"
    by (simp add: probe_register_def probe_undo insert_Diff_if Let_def) auto
next
  assume "request_irq env = 0" "\<not> cdev_add env < 0" "device_create env \<noteq> None"
  with assms show "held (snd (probe_register env v k)) = {} \<and> bad_frees (snd (probe_register env v k)) = []"
    by (clarsimp simp: probe_register_def probe_undo insert_Diff_if Let_def)
qed

lemma probe_reaches_cases:
  assumes "mem_ready env k" and "held k = {}" and "bad_frees k = []"
  shows "request_irq env \<noteq> 0 \<Longrightarrow>
      held (snd (fpgagpu_probe env k)) = {} \<and> bad_frees (snd (fpgagpu_probe env k)) = [IrqHandler]"
    and "request_irq env = 0 \<Longrightarrow> cdev_add env < 0 \<Longrightarrow>
      held (snd (fpgagpu_probe env k)) = {IrqHandler, PinnedArray, DescRingMem} \<and>
      bad_frees (snd (fpgagpu_probe env k)) = []"
    and "request_irq env = 0 \<Longrightarrow> \<not> cdev_add env < 0 \<Longrightarrow> device_create env \<noteq> None \<Longrightarrow>
      held (snd (fpgagpu_probe env k)) = {} \<and> bad_frees (snd (fpgagpu_probe env k)) = []"
proof -
  obtain v k1 where p: "fpgagpu_probe env k = probe_register env v k1"
    and k1: "held k1 = {PciEnabled, PciRegions, IrqVectors, DevMem, Bar0Map, Bar1Map, DescRingMem, PinnedArray}"
      "bad_frees k1 = []" and v: "csr_base v" "dma_base v" "has_desc_ring v" "has_pinned v"
  proof -
    obtain bar bus where "fpgagpu_probe env k = probe_register env (probed_drv env bar bus (minor_counter k))
      (k\<lparr>minor_counter := minor_counter k + 1,
         held := held k \<union> (device_resources - {IrqHandler, CharDev, DevNode}),
         drvdata := Some (probed_drv env bar bus (minor_counter k))\<rparr>)"
      using probe_reaches [OF assms(1)] by blast
    then show thesis
      by (rule that) (use assms in \<open>auto simp: device_resources_def probed_drv_def\<close>)
  qed
  note r = probe_register_failure [OF k1 v, of env]
  show "request_irq env \<noteq> 0 \<Longrightarrow>
      held (snd (fpgagpu_probe env k)) = {} \<and> bad_frees (snd (fpgagpu_probe env k)) = [IrqHandler]"
    unfolding p by (rule r(1))
  show "request_irq env = 0 \<Longrightarrow> cdev_add env < 0 \<Longrightarrow>
      held (snd (fpgagpu_probe env k)) = {IrqHandler, PinnedArray, DescRingMem} \<and>
      bad_frees (snd (fpgagpu_probe env k)) = []"
    unfolding p by (rule r(2))
  show "request_irq env = 0 \<Longrightarrow> \<not> cdev_add env < 0 \<Longrightarrow> device_create env \<noteq> None \<Longrightarrow>
      held (snd (fpgagpu_probe env k)) = {} \<and> bad_frees (snd (fpgagpu_probe env k)) = []"
    unfolding p by (rule r(3))
qed

section \<open>Properties\<close>

text \<open>A successful probe leaves a usable device: every resource is held, the driver data is
  set, the minor number is the old counter and below four, the ring indices are zero, the
  descriptor ring and the page array have 8192 entries, and the device invariant holds.\<close>

theorem probe_success:
  assumes "fpgagpu_probe env k = (OK, k')"
  shows "held k' = held k \<union> device_resources \<and> bad_frees k' = bad_frees k \<and>
    minor_counter k' = minor_counter k + 1 \<and>
    (\<exists>v. drvdata k' = Some v \<and> dev_ok (dv_dev v) \<and> ring_queue (dv_dev v) = [] \<and>
       minor (dv_dev v) = minor_counter k \<and> minor_counter k < 4 \<and> has_pinned v \<and> has_desc_ring v \<and>
       csr_base v \<and> dma_base v \<and> irq v = pci_irq_vector env)"
proof -
  from assms obtain bar bus where "minor_counter k < 4"
    and "k' = k\<lparr>minor_counter := minor_counter k + 1,
      drvdata := Some (probed_drv env bar bus (minor_counter k)), held := held k \<union> device_resources\<rparr>"
    by (rule probe_ok)
  with probed_drv_ok [of env bar bus "minor_counter k"] show ?thesis
    by (simp add: probed_drv_def iowrite32_def)
qed

text \<open>C28: what a failed probe leaves behind.  Started with nothing held, a failed probe gives
  back everything it took, except that a failing IRQ vector allocation leaves the PCI regions
  requested and a failing \<open>cdev_add\<close> leaves the IRQ handler, the page array and the
  descriptor ring behind although the device structure is freed; and a failing
  \<open>request_irq\<close> frees an interrupt that was never requested.\<close>

theorem probe_failure_exact:
  assumes "fpgagpu_probe env k = (Inl e, k')" and "held k = {}" and "bad_frees k = []"
  shows "held k' =
      (if pci_ready env \<and> pci_alloc_irq_vectors env < 0 then {PciRegions}
       else if mem_ready env k \<and> request_irq env = 0 \<and> cdev_add env < 0
       then {IrqHandler, PinnedArray, DescRingMem}
       else {}) \<and>
    bad_frees k' = (if mem_ready env k \<and> request_irq env \<noteq> 0 then [IrqHandler] else [])"
proof -
  have "fst (fpgagpu_probe env k) \<noteq> OK" using assms(1) by simp
  then consider
      (pci) "\<not> pci_ready env"
    | (vec) "pci_ready env" "pci_alloc_irq_vectors env < 0"
    | (mem) "pci_ready env" "\<not> pci_alloc_irq_vectors env < 0" "\<not> mem_ready env k"
    | (req) "mem_ready env k" "request_irq env \<noteq> 0"
    | (reg) "mem_ready env k" "request_irq env = 0" "0 \<le> cdev_add env \<longrightarrow> device_create env \<noteq> None"
    unfolding fst_probe by (metis not_less)
  then show ?thesis
  proof cases
    case pci
    with assms show ?thesis
      by (auto simp: fpgagpu_probe_def pci_ready_def mem_ready_def Let_def probe_undo split: if_splits)
  next
    case vec
    with assms show ?thesis
      by (simp add: fpgagpu_probe_def pci_ready_def mem_ready_def Let_def) (auto simp: probe_undo)
  next
    case mem
    from assms(1) probe_early_failure [OF mem assms(2,3)] mem show ?thesis
      by (auto simp: mem_ready_def)
  next
    case req
    from probe_reaches_cases [OF req(1) assms(2,3)] req assms(1) show ?thesis
      by (auto simp: mem_ready_def)
  next
    case reg
    from probe_reaches_cases [OF reg(1) assms(2,3)] reg assms(1) show ?thesis
      by (cases "cdev_add env < 0") (auto simp: mem_ready_def)
  qed
qed

text \<open>C29: remove undoes probe.  After a successful probe from a state with nothing held, remove
  gives back everything, each resource once and while it is held, if the interrupt number is
  not zero; with interrupt number zero the handler stays registered.\<close>

theorem remove_after_probe:
  assumes "fpgagpu_probe env k = (OK, k')" and "held k = {}"
  shows "held (fpgagpu_remove k') = (if pci_irq_vector env = 0 then {IrqHandler} else {}) \<and>
    bad_frees (fpgagpu_remove k') = bad_frees k"
proof -
  note p = probe_success [OF assms(1)]
  then obtain v where "drvdata k' = Some v" "has_pinned v" "has_desc_ring v" "csr_base v"
    "dma_base v" "irq v = pci_irq_vector env" by blast
  moreover have "held k' = device_resources" using p assms(2) by simp
  moreover have "bad_frees k' = bad_frees k" using p by simp
  ultimately show ?thesis
    by (simp add: fpgagpu_remove_def release_def release_if_def device_resources_def Let_def insert_Diff_if)
qed

section \<open>Probing again and again\<close>

datatype hotplug = Plug probe_env | Unplug

fun hotplug_run :: "hotplug list \<Rightarrow> kstate \<Rightarrow> nat \<times> kstate" where
  "hotplug_run [] k = (0, k)"
| "hotplug_run (Plug env # ops) k =
     (let (r, k1) = fpgagpu_probe env k; (n, k2) = hotplug_run ops k1
      in (if is_ok r then Suc n else n, k2))"
| "hotplug_run (Unplug # ops) k = hotplug_run ops (fpgagpu_remove k)"

lemma minor_counter_release [simp]:
  "minor_counter (release r k) = minor_counter k"
  "minor_counter (release_if b r k) = minor_counter k"
  "minor_counter (acquire r k) = minor_counter k"
  by (simp_all add: release_def release_if_def acquire_def)

lemma minor_counter_remove [simp]: "minor_counter (fpgagpu_remove k) = minor_counter k"
  by (simp add: fpgagpu_remove_def Let_def split: option.split)

lemma probe_minor_counter:
  "fpgagpu_probe env k = (r, k') \<Longrightarrow> minor_counter k \<le> minor_counter k' \<and>
     (r = OK \<longrightarrow> minor_counter k < 4 \<and> minor_counter k' = minor_counter k + 1)"
  by (auto simp: probe_defs Let_def label_defs MAX_FPGAGPU_DEVICES_def split: if_splits option.splits)

text \<open>Minor numbers are never given back.  Whatever is plugged and unplugged, and in whatever
  order, at most as many probes succeed as the counter has numbers left below four: after
  four successful probes no device can be probed until the module is reloaded, even when all
  four were removed.\<close>

theorem minor_numbers_run_out:
  "fst (hotplug_run ops k) \<le> nat (4 - minor_counter k)"
proof (induction ops arbitrary: k)
  case Nil
  then show ?case by simp
next
  case (Cons op ops)
  show ?case
  proof (cases op)
    case (Plug env)
    obtain r k1 where p: "fpgagpu_probe env k = (r, k1)" by (cases "fpgagpu_probe env k")
    from Cons.IH [of k1] probe_minor_counter [OF p] show ?thesis
      by (auto simp: Plug p Let_def split_def is_ok_iff)
  next
    case Unplug
    with Cons.IH [of "fpgagpu_remove k"] show ?thesis by simp
  qed
qed

text \<open>Loading and unloading the module is balanced.  A failed init leaves nothing behind; a
  successful one holds the device numbers, the class and the driver, and exit gives exactly
  those back.\<close>

theorem init_exit_balanced:
  assumes "fpgagpu_core_init env k = (r, k')" and "held k = {}"
  shows "bad_frees k' = bad_frees k \<and> bad_frees (if r = OK then fpgagpu_core_exit k' else k') = bad_frees k \<and>
    held k' = (if r = OK then {ChrdevRegion, DevClass, PciDriver} else {}) \<and>
    held (if r = OK then fpgagpu_core_exit k' else k') = {}"
  using assms
  by (auto simp: fpgagpu_core_init_def fpgagpu_core_exit_def acquire_def release_def Let_def
      split: if_splits option.splits)

section \<open>Concrete probes\<close>

definition sample_pci :: probe_env where
  "sample_pci = \<lparr>alloc_chrdev_region = 0, class_create = None, pci_register_driver = 0,
     pci_enable_device = 0, pci_request_regions = 0, pci_alloc_irq_vectors = 1, kzalloc_dev_ok = True,
     ioremap_bar0 = Some (\<lambda>_. 7), ioremap_bar1 = True, pci_irq_vector = 33,
     dma_alloc_coherent = Some 0x7F000000, kzalloc_pages_ok = True, request_irq = 0, cdev_add = 0,
     device_create = None\<rparr>"

definition boot :: kstate where
  "boot = \<lparr>held = {}, bad_frees = [], minor_counter = 0, drvdata = None\<rparr>"

lemma sample_probe: "\<exists>k. fpgagpu_probe sample_pci boot = (OK, k)"
  by (simp add: probe_defs Let_def sample_pci_def boot_def MAX_FPGAGPU_DEVICES_def acquire_def)

theorem probe_success_witness:
  "\<exists>k v. fpgagpu_probe sample_pci boot = (OK, k) \<and> drvdata k = Some v \<and> dev_ok (dv_dev v)"
proof -
  obtain k where p: "fpgagpu_probe sample_pci boot = (OK, k)" using sample_probe ..
  with probe_success [OF p] show ?thesis by blast
qed

theorem probe_failure_exact_witness:
  "held (snd (fpgagpu_probe (sample_pci\<lparr>cdev_add := - 12\<rparr>) boot)) = {IrqHandler, PinnedArray, DescRingMem}"
proof -
  let ?env = "sample_pci\<lparr>cdev_add := - 12\<rparr>"
  have k: "held boot = {}" "bad_frees boot = []" by (simp_all add: boot_def)
  obtain e k' where p: "fpgagpu_probe ?env boot = (Inl e, k')"
    by (simp add: probe_defs Let_def sample_pci_def boot_def MAX_FPGAGPU_DEVICES_def acquire_def)
  from probe_failure_exact [OF p k] p show ?thesis
    by (simp add: pci_ready_def mem_ready_def sample_pci_def boot_def MAX_FPGAGPU_DEVICES_def)
qed

theorem remove_after_probe_witness:
  "held (fpgagpu_remove (snd (fpgagpu_probe sample_pci boot))) = {}"
proof -
  obtain k where p: "fpgagpu_probe sample_pci boot = (OK, k)" using sample_probe ..
  have "held boot = {}" by (simp add: boot_def)
  from remove_after_probe [OF p this] p show ?thesis by (simp add: sample_pci_def)
qed

theorem init_exit_balanced_witness:
  "held (fpgagpu_core_exit (snd (fpgagpu_core_init sample_pci boot))) = {}"
proof -
  obtain k where i: "fpgagpu_core_init sample_pci boot = (OK, k)"
    by (simp add: fpgagpu_core_init_def sample_pci_def Let_def)
  have "held boot = {}" by (simp add: boot_def)
  from init_exit_balanced [OF i this] i show ?thesis by simp
qed

end
