(* ===== verification/Files.thy ===== *)
theory Files
  imports Lifecycle
begin

text \<open>
  The file operations other than ioctl (\<open>fpgagpu_open\<close>, \<open>fpgagpu_release\<close>, \<open>fpgagpu_read\<close>,
  \<open>fpgagpu_write\<close> of \<open>driver/fpgagpu_main.c\<close>, \<open>fpgagpu_mmap\<close> of \<open>driver/fpgagpu_mmap.c\<close>) and the
  interrupt handler of \<open>driver/fpgagpu_sched.c\<close>.  Contexts are objects at addresses of a heap;
  the device lists the open ones in order.
\<close>

section \<open>Open and release\<close>

text \<open>The argument is what \<open>kzalloc\<close> returns; the result carries the file's private data.\<close>

definition fpgagpu_open :: "nat option \<Rightarrow> fpgagpu_dev \<Rightarrow> (errno + nat) \<times> fpgagpu_dev" where
  "fpgagpu_open alloc d =
     (case alloc of
        None \<Rightarrow> (Inl ENOMEM, d)
      | Some p \<Rightarrow>
          (Inr p, d\<lparr>ctx_heap := (ctx_heap d)(p \<mapsto> \<lparr>ctx_dev = minor d, ctx_ring = 0, ctx_irq_fired = 0, ctx_wakeups = 0\<rparr>),
                    ctx_list := ctx_list d @ [p]\<rparr>))"

text \<open>\<open>None\<close> is a dereference of memory that holds no context.\<close>

definition fpgagpu_release :: "nat \<Rightarrow> fpgagpu_dev \<Rightarrow> fpgagpu_dev option" where
  "fpgagpu_release p d =
     (case ctx_heap d p of
        None \<Rightarrow> None
      | Some ctx \<Rightarrow> Some (d\<lparr>ctx_list := remove1 p (ctx_list d), ctx_heap := (ctx_heap d)(p := None)\<rparr>))"

definition fpgagpu_read :: "nat \<Rightarrow> int" where
  "fpgagpu_read size_arg = 0"

definition fpgagpu_write :: "nat \<Rightarrow> int" where
  "fpgagpu_write size_arg = int size_arg"

section \<open>Memory mapping\<close>

definition fpgagpu_mmap ::
  "(u64 \<Rightarrow> u64 \<Rightarrow> u64 \<Rightarrow> int) \<Rightarrow> u64 \<Rightarrow> u64 \<Rightarrow> u64 \<Rightarrow> fpgagpu_dev \<Rightarrow> kret" where
  "fpgagpu_mmap dma_mmap_coherent vm_start vm_end vm_pgoff d =
     (let sz = vm_end - vm_start
      in if vm_pgoff = 0 then
           (if sz > PAGE_SIZE then Inl EINVAL
            else let r = dma_mmap_coherent (ring_buffer d) (dma_handle d) sz
                 in if r = 0 then OK else Inl (EXT r))
         else Inl EINVAL)"

section \<open>Interrupt\<close>

definition ctx_wake :: "fpgagpu_context \<Rightarrow> fpgagpu_context" where
  "ctx_wake c = c\<lparr>ctx_irq_fired := 1, ctx_wakeups := ctx_wakeups c + 1\<rparr>"

fun wake_list :: "nat list \<Rightarrow> (nat \<Rightarrow> fpgagpu_context option) \<Rightarrow> (nat \<Rightarrow> fpgagpu_context option)" where
  "wake_list [] h = h"
| "wake_list (p # ps) h = wake_list ps (h(p := map_option ctx_wake (h p)))"

definition fpgagpu_irq_handler :: "int \<Rightarrow> fpgagpu_dev \<Rightarrow> fpgagpu_dev" where
  "fpgagpu_irq_handler queue_mode d =
     (if queue_mode = 0 then d\<lparr>dev_irq_fired := 1, dev_wakeups := dev_wakeups d + 1\<rparr>
      else d\<lparr>ctx_heap := wake_list (ctx_list d) (ctx_heap d)\<rparr>)"

lemma wake_list_nth:
  "distinct ps \<Longrightarrow> wake_list ps h p = (if p \<in> set ps then map_option ctx_wake (h p) else h p)"
  by (induction ps arbitrary: h) auto

section \<open>Contexts of a device\<close>

text \<open>The list names each live context once, and the heap holds nothing else.\<close>

definition ctx_inv :: "fpgagpu_dev \<Rightarrow> bool" where
  "ctx_inv d \<longleftrightarrow> distinct (ctx_list d) \<and> dom (ctx_heap d) = set (ctx_list d)"

text \<open>\<open>kzalloc\<close> returns memory that is not in use.\<close>

datatype file_op = Open "nat option" | Release nat | Irq

definition file_step :: "int \<Rightarrow> file_op \<Rightarrow> fpgagpu_dev \<Rightarrow> fpgagpu_dev option" where
  "file_step queue_mode f d =
     (case f of
        Open alloc \<Rightarrow> Some (snd (fpgagpu_open alloc d))
      | Release p \<Rightarrow> fpgagpu_release p d
      | Irq \<Rightarrow> Some (fpgagpu_irq_handler queue_mode d))"

text \<open>
  What the VFS guarantees of the calls: an allocated address is fresh, and a file is released
  once, after it was opened.
\<close>

definition vfs_ok :: "file_op \<Rightarrow> fpgagpu_dev \<Rightarrow> bool" where
  "vfs_ok f d = (case f of Open (Some p) \<Rightarrow> p \<notin> set (ctx_list d) | Open None \<Rightarrow> True
     | Release p \<Rightarrow> p \<in> set (ctx_list d) | Irq \<Rightarrow> True)"

lemma ctx_inv_irq: "ctx_inv d \<Longrightarrow> ctx_inv (fpgagpu_irq_handler queue_mode d)"
  by (auto simp: ctx_inv_def fpgagpu_irq_handler_def wake_list_nth dom_def split: if_splits)

lemma file_step_ok:
  assumes "ctx_inv d" and "vfs_ok f d"
  shows "\<exists>d'. file_step queue_mode f d = Some d' \<and> ctx_inv d'"
proof (cases f)
  case (Open alloc)
  with assms show ?thesis
    by (cases alloc) (auto simp: file_step_def fpgagpu_open_def ctx_inv_def vfs_ok_def)
next
  case (Release p)
  with assms obtain c where c: "ctx_heap d p = Some c" by (auto simp: ctx_inv_def vfs_ok_def)
  with Release assms(1) show ?thesis
    by (auto simp: file_step_def fpgagpu_release_def ctx_inv_def)
next
  case Irq
  with ctx_inv_irq [OF assms(1)] show ?thesis by (simp add: file_step_def)
qed

lemma release_open:
  assumes "ctx_inv d" and "p \<notin> set (ctx_list d)"
  shows "fpgagpu_release p (snd (fpgagpu_open (Some p) d)) = Some d"
proof -
  from assms have "ctx_heap d p = None" by (auto simp: ctx_inv_def dom_def)
  with assms(2) show ?thesis
    by (simp add: fpgagpu_release_def fpgagpu_open_def remove1_append fun_upd_idem)
qed

text \<open>Runs of file operations, and the runs the VFS may issue.\<close>

fun file_run :: "int \<Rightarrow> file_op list \<Rightarrow> fpgagpu_dev \<Rightarrow> fpgagpu_dev option" where
  "file_run queue_mode [] d = Some d"
| "file_run queue_mode (f # fs) d =
     (case file_step queue_mode f d of None \<Rightarrow> None | Some d' \<Rightarrow> file_run queue_mode fs d')"

fun vfs_run :: "int \<Rightarrow> file_op list \<Rightarrow> fpgagpu_dev \<Rightarrow> bool" where
  "vfs_run queue_mode [] d = True"
| "vfs_run queue_mode (f # fs) d =
     (vfs_ok f d \<and> (case file_step queue_mode f d of None \<Rightarrow> True | Some d' \<Rightarrow> vfs_run queue_mode fs d'))"

text \<open>C30: contexts are managed safely.  Every sequence of opens, releases and interrupts that the
  VFS may issue runs to its end without touching freed memory, with the list naming exactly
  the live contexts, and a release of the context just opened restores the device.\<close>

theorem contexts_safe:
  assumes "ctx_inv d" and "vfs_run queue_mode fs d"
  shows "\<exists>d'. file_run queue_mode fs d = Some d' \<and> ctx_inv d' \<and>
    (\<forall>p. p \<notin> set (ctx_list d') \<longrightarrow> fpgagpu_release p (snd (fpgagpu_open (Some p) d')) = Some d')"
  using assms
proof (induction fs arbitrary: d)
  case Nil
  then show ?case by (simp add: release_open)
next
  case (Cons f fs)
  from Cons.prems obtain d' where "file_step queue_mode f d = Some d'" "ctx_inv d'"
    using file_step_ok [of d f queue_mode] by auto
  with Cons show ?case by simp
qed

theorem contexts_safe_witness:
  "\<exists>d'. file_run 0 [Open (Some 5), Open (Some 8), Irq, Release 5] sample_dev = Some d' \<and>
     ctx_list d' = [8] \<and> ctx_inv d'"
proof -
  have "ctx_inv sample_dev" by (simp add: ctx_inv_def sample_dev_def kzalloc_dev_def)
  moreover have "vfs_run 0 [Open (Some 5), Open (Some 8), Irq, Release 5] sample_dev"
    by (simp add: vfs_ok_def file_step_def fpgagpu_open_def fpgagpu_irq_handler_def
        fpgagpu_release_def sample_dev_def kzalloc_dev_def)
  ultimately obtain d' where d': "file_run 0 [Open (Some 5), Open (Some 8), Irq, Release 5] sample_dev = Some d'"
    and "ctx_inv d'"
    using contexts_safe by blast
  from d' have "ctx_list d' = [8]"
    by (auto simp: file_step_def fpgagpu_open_def fpgagpu_irq_handler_def fpgagpu_release_def
        sample_dev_def kzalloc_dev_def)
  with d' \<open>ctx_inv d'\<close> show ?thesis by blast
qed

text \<open>Whom an interrupt wakes.  With the global queue the device's waiters are woken and no
  context is touched; with private queues every open context is flagged and woken exactly
  once, closed or foreign ones are not, and the device's wait queue, on which
  LOAD_KERNEL sleeps in either mode, is not woken.\<close>

theorem irq_wakes:
  assumes "ctx_inv d"
  shows "(case fpgagpu_irq_handler queue_mode d of d' \<Rightarrow>
    dev_wakeups d' = (if queue_mode = 0 then dev_wakeups d + 1 else dev_wakeups d) \<and>
    ctx_heap d' = (if queue_mode = 0 then ctx_heap d
      else (\<lambda>p. if p \<in> set (ctx_list d) then map_option ctx_wake (ctx_heap d p) else None)) \<and>
    ctx_list d' = ctx_list d \<and> csr_mem d' = csr_mem d \<and> mmio_log d' = mmio_log d)"
proof -
  have "ctx_heap d p = None" if "p \<notin> set (ctx_list d)" for p
    using assms that by (auto simp: ctx_inv_def dom_def)
  with assms show ?thesis
    by (auto simp: fpgagpu_irq_handler_def ctx_inv_def wake_list_nth fun_eq_iff)
qed

theorem irq_wakes_witness:
  "dev_wakeups (fpgagpu_irq_handler 1 (snd (fpgagpu_open (Some 5) sample_dev))) = 0"
proof -
  have "ctx_inv (snd (fpgagpu_open (Some 5) sample_dev))"
    by (simp add: ctx_inv_def fpgagpu_open_def sample_dev_def kzalloc_dev_def)
  from irq_wakes [OF this, of 1] show ?thesis
    by (simp add: fpgagpu_open_def sample_dev_def kzalloc_dev_def)
qed

text \<open>The mapping of the command queue maps nothing of the driver's.  On a freshly probed
  device, whatever the arguments, a mapping is either refused with \<open>-EINVAL\<close> (a page offset,
  or more than one page) or handed to Linux with a null buffer and a null bus address, since
  the ring lives in BAR0 and no code sets \<open>ring_buffer\<close>.\<close>

theorem mmap_maps_null:
  assumes "fpgagpu_probe env k = (OK, k')" and "drvdata k' = Some v"
  shows "fpgagpu_mmap f s e pgoff (dv_dev v) =
    (if pgoff = 0 \<and> e - s \<le> 4096
     then (if f 0 0 (e - s) = 0 then OK else Inl (EXT (f 0 0 (e - s)))) else Inl EINVAL)"
proof -
  from assms obtain bar bus where "v = probed_drv env bar bus (minor_counter k)"
    by (elim probe_ok) auto
  then have "ring_buffer (dv_dev v) = 0" and "dma_handle (dv_dev v) = 0"
    by (simp_all add: probed_drv_def kzalloc_dev_def iowrite32_def)
  then show ?thesis by (simp add: fpgagpu_mmap_def PAGE_SIZE_def Let_def not_le)
qed

theorem mmap_maps_null_witness:
  "\<exists>v. drvdata (snd (fpgagpu_probe sample_pci boot)) = Some v \<and>
     fpgagpu_mmap (\<lambda>cpu bus sz. if cpu = 0 then - 22 else 0) 0x1000 0x2000 0 (dv_dev v) = Inl (EXT (- 22))"
proof -
  obtain k where p: "fpgagpu_probe sample_pci boot = (OK, k)" using sample_probe ..
  then obtain v where v: "drvdata k = Some v" by (elim probe_ok) simp
  from mmap_maps_null [OF p v, where f = "\<lambda>cpu bus sz. if cpu = 0 then - 22 else 0"
    and s = "0x1000" and e = "0x2000" and pgoff = 0] p v
  show ?thesis by simp
qed

end
