(* ===== verification/WaitQueue.thy ===== *)
theory WaitQueue
  imports Files
begin

text \<open>
  Waiting for the firmware: the wait queue of DOORBELL and LOAD_KERNEL (\<open>driver/fpgagpu_ioctl.c\<close>), the
  completion interrupt (\<open>driver/fpgagpu_sched.c\<close>) and the ring, step by step.  A submission is one step
  here, because it holds the lock (theory RingConc).  \<open>wait_event_interruptible_timeout\<close> is cut where
  Linux lets other threads run: it tests the condition, queues the thread, tests again, sleeps
  until it is woken, and starts over; when the time is up or a signal came it tests once more.  The firmware
  commits the head, then its interrupt is due.  Three ghost values count packets: those
  accepted, those finished, and the packet up to which a thread waits.
\<close>

section \<open>Waiters\<close>

datatype waiter = Outside | Tests u32 | Queued u32 | Sleeps u32 | Ended kret

record wait_state =
  wq_dev :: fpgagpu_dev
  waiters :: "nat \<Rightarrow> waiter"
  irq_due :: bool
  issued :: nat
  finished :: nat
  goal :: "nat \<Rightarrow> nat"

definition wait_start :: "fpgagpu_dev \<Rightarrow> wait_state" where
  "wait_start d = \<lparr>wq_dev = d, waiters = (\<lambda>_. Outside), irq_due = False, issued = 0, finished = 0, goal = (\<lambda>_. 0)\<rparr>"

text \<open>A thread that waits for packet number \<open>n\<close>, at \<open>tail\<close>, and a thread that goes on.\<close>

definition begin_wait :: "nat \<Rightarrow> u32 \<Rightarrow> wait_state \<Rightarrow> wait_state" where
  "begin_wait t tail s = s\<lparr>waiters := (waiters s)(t := Tests tail), goal := (goal s)(t := issued s)\<rparr>"

definition move :: "nat \<Rightarrow> waiter \<Rightarrow> wait_state \<Rightarrow> wait_state" where
  "move t w s = s\<lparr>waiters := (waiters s)(t := w)\<rparr>"

definition accept :: "fpgagpu_dev \<Rightarrow> wait_state \<Rightarrow> wait_state" where
  "accept d s = s\<lparr>wq_dev := d, issued := Suc (issued s)\<rparr>"

text \<open>\<open>wake_up_interruptible\<close> on \<open>dev->wait_q\<close>: sleepers test again.\<close>

fun wake :: "waiter \<Rightarrow> waiter" where
  "wake (Sleeps tail) = Queued tail"
| "wake w = w"

definition take_irq :: "int \<Rightarrow> wait_state \<Rightarrow> wait_state" where
  "take_irq queue_mode s =
     (let d' = fpgagpu_irq_handler queue_mode (wq_dev s)
      in s\<lparr>wq_dev := d', irq_due := False,
           waiters := (if dev_wakeups d' \<noteq> dev_wakeups (wq_dev s) then wake \<circ> waiters s else waiters s)\<rparr>)"

inductive wait_step :: "int \<Rightarrow> wait_state \<Rightarrow> wait_state \<Rightarrow> bool" for queue_mode where
  submit: "queue_mode = 0 \<Longrightarrow> ring_enq (launch_task c) (wq_dev s) = (OK, d) \<Longrightarrow> wait_step queue_mode s (accept d s)"
| doorbell_waits: "queue_mode = 0 \<Longrightarrow> waiters s t = Outside \<Longrightarrow>
    wait_step queue_mode s (begin_wait t (ioread32 (wq_dev s) RING_TAIL) s)"
| load_waits: "waiters s t = Outside \<Longrightarrow> ring_enq (load_task k) (wq_dev s) = (OK, d) \<Longrightarrow>
    wait_step queue_mode s (begin_wait t ((ioread32 (wq_dev s) RING_TAIL + 1) mod QUEUE_SIZE) (accept d s))"
| test_true: "waiters s t = Tests tail \<or> waiters s t = Queued tail \<Longrightarrow> ioread32 (wq_dev s) RING_HEAD = tail \<Longrightarrow>
    wait_step queue_mode s (move t (Ended OK) s)"
| test_first: "waiters s t = Tests tail \<Longrightarrow> ioread32 (wq_dev s) RING_HEAD \<noteq> tail \<Longrightarrow>
    wait_step queue_mode s (move t (Queued tail) s)"
| test_again: "waiters s t = Queued tail \<Longrightarrow> ioread32 (wq_dev s) RING_HEAD \<noteq> tail \<Longrightarrow>
    wait_step queue_mode s (move t (Sleeps tail) s)"
| time_out: "waiters s t = Sleeps tail \<Longrightarrow>
    wait_step queue_mode s (move t (Ended (if ioread32 (wq_dev s) RING_HEAD = tail then OK else Inl ETIMEDOUT)) s)"
| signalled: "waiters s t = Queued tail \<or> waiters s t = Sleeps tail \<Longrightarrow> r < 0 \<Longrightarrow>
    wait_step queue_mode s (move t (Ended (if ioread32 (wq_dev s) RING_HEAD = tail then OK else Inl (EXT r))) s)"
| leave: "waiters s t = Ended r \<Longrightarrow> wait_step queue_mode s (move t Outside s)"
| firmware: "ioread32 (wq_dev s) RING_HEAD \<noteq> ioread32 (wq_dev s) RING_TAIL \<Longrightarrow>
    wait_step queue_mode s (s\<lparr>wq_dev := fw_consume (wq_dev s), finished := Suc (finished s), irq_due := True\<rparr>)"
| interrupt: "irq_due s \<Longrightarrow> wait_step queue_mode s (take_irq queue_mode s)"

inductive wait_reach :: "int \<Rightarrow> wait_state \<Rightarrow> wait_state \<Rightarrow> bool" for queue_mode s where
  start: "wait_reach queue_mode s s"
| more: "wait_reach queue_mode s s' \<Longrightarrow> wait_step queue_mode s' s'' \<Longrightarrow> wait_reach queue_mode s s''"

section \<open>The invariant\<close>

fun awaited :: "waiter \<Rightarrow> u32 option" where
  "awaited (Tests tail) = Some tail"
| "awaited (Queued tail) = Some tail"
| "awaited (Sleeps tail) = Some tail"
| "awaited w = None"

lemma awaited_wake [simp]: "awaited (wake w) = awaited w"
  by (cases w) simp_all

abbreviation head_of :: "wait_state \<Rightarrow> u32" where "head_of s \<equiv> csr_mem (wq_dev s) RING_HEAD"
abbreviation tail_of :: "wait_state \<Rightarrow> u32" where "tail_of s \<equiv> csr_mem (wq_dev s) RING_TAIL"

definition wait_inv :: "int \<Rightarrow> wait_state \<Rightarrow> bool" where
  "wait_inv queue_mode s \<longleftrightarrow>
     unat (head_of s) = finished s mod 512 \<and> unat (tail_of s) = issued s mod 512 \<and>
     finished s \<le> issued s \<and> issued s \<le> finished s + 511 \<and>
     (\<forall>t tail. awaited (waiters s t) = Some tail \<longrightarrow> unat tail = goal s t mod 512 \<and> goal s t \<le> issued s) \<and>
     (queue_mode = 0 \<longrightarrow> (\<forall>t. waiters s t = Sleeps (head_of s) \<longrightarrow> irq_due s))"

lemma wait_upd [simp]:
  "wq_dev (move t w s) = wq_dev s" "waiters (move t w s) = (waiters s)(t := w)" "irq_due (move t w s) = irq_due s"
  "issued (move t w s) = issued s" "finished (move t w s) = finished s" "goal (move t w s) = goal s"
  "wq_dev (begin_wait t x s) = wq_dev s" "waiters (begin_wait t x s) = (waiters s)(t := Tests x)"
  "irq_due (begin_wait t x s) = irq_due s" "issued (begin_wait t x s) = issued s"
  "finished (begin_wait t x s) = finished s" "goal (begin_wait t x s) = (goal s)(t := issued s)"
  "wq_dev (accept d s) = d" "waiters (accept d s) = waiters s" "irq_due (accept d s) = irq_due s"
  "issued (accept d s) = Suc (issued s)" "finished (accept d s) = finished s" "goal (accept d s) = goal s"
  by (simp_all add: move_def begin_wait_def accept_def)

lemma irq_handler_cells: "csr_mem (fpgagpu_irq_handler queue_mode d) = csr_mem d"
  by (simp add: fpgagpu_irq_handler_def)

lemma accepted_cells:
  assumes "ring_enq p d = (OK, d')" and "unat (csr_mem d RING_HEAD) < 512" and "unat (csr_mem d RING_TAIL) < 512"
  shows "csr_mem d' RING_HEAD = csr_mem d RING_HEAD" "csr_mem d' RING_TAIL = (csr_mem d RING_TAIL + 1) mod QUEUE_SIZE"
    "Suc (unat (csr_mem d RING_TAIL)) mod 512 \<noteq> unat (csr_mem d RING_HEAD)"
  using assms ring_full_iff [OF assms(2,3)]
  by (auto simp: ring_enq_def Let_def ioread32_def pub_mem_head pub_mem_tail split: if_splits)

lemma consumed_cells:
  "csr_mem (fw_consume d) RING_HEAD = (csr_mem d RING_HEAD + 1) mod QUEUE_SIZE"
  "csr_mem (fw_consume d) RING_TAIL = csr_mem d RING_TAIL"
  by (simp_all add: fw_consume_def ioread32_def ring_cells_distinct)

lemma wait_inv_start:
  assumes "csr_mem d RING_HEAD = 0" and "csr_mem d RING_TAIL = 0"
  shows "wait_inv queue_mode (wait_start d)"
  using assms by (simp add: wait_inv_def wait_start_def)

lemma wait_inv_accept:
  assumes "wait_inv queue_mode s" and "ring_enq p (wq_dev s) = (OK, d)"
  shows "wait_inv queue_mode (accept d s)"
proof -
  have h: "unat (head_of s) = finished s mod 512" and t: "unat (tail_of s) = issued s mod 512"
    and b: "finished s \<le> issued s" "issued s \<le> finished s + 511"
    using assms(1) by (simp_all add: wait_inv_def)
  have "unat (head_of s) < 512" "unat (tail_of s) < 512" by (simp_all add: h t)
  note a = accepted_cells [OF assms(2) this]
  have t': "unat (csr_mem d RING_TAIL) = Suc (issued s) mod 512"
    by (simp add: a(2) unat_succ_mod_queue t mod_Suc_eq)
  have "issued s \<noteq> finished s + 511"
  proof
    assume "issued s = finished s + 511"
    then have "Suc (unat (tail_of s)) mod 512 = (finished s + 512) mod 512" by (simp add: t mod_Suc_eq)
    with a(3) h show False by simp
  qed
  with b have "Suc (issued s) \<le> finished s + 511" by simp
  with assms(1) t' show ?thesis unfolding wait_inv_def wait_upd a(1) by (auto intro: le_SucI)
qed

lemma wait_inv_begin:
  assumes "wait_inv queue_mode s" and "unat tail = issued s mod 512"
  shows "wait_inv queue_mode (begin_wait t tail s)"
  using assms by (auto simp: wait_inv_def)

lemma wait_inv_move:
  assumes "wait_inv queue_mode s" and "awaited w = None \<or> awaited (waiters s t) = awaited w" and "w \<noteq> Sleeps (head_of s)"
  shows "wait_inv queue_mode (move t w s)"
  using assms by (auto simp: wait_inv_def)

lemma wait_inv_firmware:
  assumes "wait_inv queue_mode s" and "head_of s \<noteq> tail_of s"
  shows "wait_inv queue_mode (s\<lparr>wq_dev := fw_consume (wq_dev s), finished := Suc (finished s), irq_due := True\<rparr>)"
proof -
  have h: "unat (head_of s) = finished s mod 512" and t: "unat (tail_of s) = issued s mod 512"
    and b: "finished s \<le> issued s" using assms(1) by (simp_all add: wait_inv_def)
  have "unat ((head_of s + 1) mod QUEUE_SIZE) = Suc (finished s) mod 512"
    by (simp add: unat_succ_mod_queue h mod_Suc_eq)
  moreover have "finished s \<noteq> issued s" using assms(2) h t by (auto simp: word_unat_eq_iff)
  with b have "Suc (finished s) \<le> issued s" by simp
  ultimately show ?thesis using assms(1) by (simp add: wait_inv_def consumed_cells)
qed

lemma wait_inv_irq: "wait_inv queue_mode s \<Longrightarrow> wait_inv queue_mode (take_irq queue_mode s)"
proof -
  assume inv: "wait_inv queue_mode s"
  have "dev_wakeups (fpgagpu_irq_handler 0 d) \<noteq> dev_wakeups d" for d by (simp add: fpgagpu_irq_handler_def)
  moreover have "wake w \<noteq> Sleeps x" for w x by (cases w) simp_all
  ultimately show ?thesis using inv
    by (auto simp: wait_inv_def take_irq_def Let_def irq_handler_cells)
qed

lemma wait_inv_step:
  assumes "wait_step queue_mode s s'" and "wait_inv queue_mode s"
  shows "wait_inv queue_mode s'"
  using assms
proof (cases rule: wait_step.cases)
  case (doorbell_waits t)
  with assms(2) show ?thesis by (auto simp: ioread32_def wait_inv_def intro!: wait_inv_begin)
next
  case (load_waits t k d)
  have "unat (head_of s) < 512" "unat (tail_of s) < 512" using assms(2) by (simp_all add: wait_inv_def)
  note a = accepted_cells [OF load_waits(3) this]
  note inv = wait_inv_accept [OF assms(2) load_waits(3)]
  then have "unat (csr_mem d RING_TAIL) = issued (accept d s) mod 512" unfolding wait_inv_def wait_upd by blast
  with inv show ?thesis unfolding load_waits(1) ioread32_def a(2) [symmetric] by (rule wait_inv_begin)
next
  case (test_first t tail)
  with assms(2) show ?thesis by (auto intro: wait_inv_move)
next
  case (test_again t tail)
  with assms(2) show ?thesis by (auto simp: ioread32_def intro: wait_inv_move)
qed (auto simp: ioread32_def intro: wait_inv_accept wait_inv_move wait_inv_firmware wait_inv_irq)

lemma wait_inv_reach:
  "wait_reach queue_mode s s' \<Longrightarrow> wait_inv queue_mode s \<Longrightarrow> wait_inv queue_mode s'"
  by (induction rule: wait_reach.induct) (auto intro: wait_inv_step)

lemma wait_inv_reachable:
  assumes "wait_reach queue_mode (wait_start d) s" and "csr_mem d RING_HEAD = 0" and "csr_mem d RING_TAIL = 0"
  shows "wait_inv queue_mode s"
  by (rule wait_inv_reach [OF assms(1) wait_inv_start [OF assms(2,3)]])

section \<open>Wakeups\<close>

text \<open>C4: with the shared queue no wakeup is lost.  A thread never sleeps on a condition that holds unless
  the firmware's interrupt is still to come; that interrupt wakes it, and its next step ends the
  wait with success.\<close>

theorem wakeups_not_lost:
  assumes "csr_mem d RING_HEAD = 0" and "csr_mem d RING_TAIL = 0" and "wait_reach 0 (wait_start d) s"
    and "waiters s t = Sleeps tail" and "ioread32 (wq_dev s) RING_HEAD = tail"
  shows "irq_due s \<and> (\<exists>s1 s2. wait_step 0 s s1 \<and> waiters s1 t = Queued tail \<and>
    wait_step 0 s1 s2 \<and> waiters s2 t = Ended OK)"
proof -
  have due: "irq_due s"
    using wait_inv_reachable [OF assms(3,1,2)] assms(4,5) by (auto simp: wait_inv_def ioread32_def)
  let ?s1 = "take_irq 0 s"
  have w: "waiters ?s1 t = Queued tail"
    using assms(4) by (simp add: take_irq_def fpgagpu_irq_handler_def Let_def)
  have h: "ioread32 (wq_dev ?s1) RING_HEAD = tail"
    using assms(5) by (simp add: take_irq_def irq_handler_cells Let_def ioread32_def)
  have "wait_step 0 s ?s1" by (rule interrupt [OF due])
  moreover have "wait_step 0 ?s1 (move t (Ended OK) ?s1)" by (rule test_true [OF _ h]) (simp add: w)
  ultimately show ?thesis using due w by fastforce
qed

text \<open>A run in which a sleeper's packet and a later one are finished before the interrupt is taken.\<close>

lemma room_accepts:
  assumes "unat (csr_mem d RING_HEAD) < 512" and "unat (csr_mem d RING_TAIL) < 512"
    and "Suc (unat (csr_mem d RING_TAIL)) mod 512 \<noteq> unat (csr_mem d RING_HEAD)"
  shows "\<exists>d'. ring_enq p d = (OK, d')"
  using assms by (simp add: ring_enq_def Let_def ioread32_def ring_full_iff)

lemma sleeper_run:
  assumes "csr_mem d RING_HEAD = 0" and "csr_mem d RING_TAIL = 0"
  shows "\<exists>s. wait_reach queue_mode (wait_start d) s \<and> waiters s t = Sleeps 1 \<and> head_of s = 0 \<and> tail_of s = 1 \<and>
    goal s t = 1 \<and> issued s = 1 \<and> finished s = 0"
proof -
  obtain k :: fpgagpu_kernel_binary where True by simp
  obtain d1 where d1: "ring_enq (load_task k) d = (OK, d1)" using room_accepts [of d "load_task k"] assms by auto
  note c1 = accepted_cells [OF d1, unfolded assms, simplified]
  have tail: "(ioread32 d RING_TAIL + 1) mod QUEUE_SIZE = 1" by (simp add: ioread32_def assms QUEUE_SIZE_def)
  let ?s1 = "begin_wait t 1 (accept d1 (wait_start d))"
  have cells: "head_of ?s1 = 0" "tail_of ?s1 = 1" using c1 by (simp_all add: QUEUE_SIZE_def)
  have "wait_step queue_mode (wait_start d) ?s1"
    using load_waits [of "wait_start d" t k d1 queue_mode] d1 by (simp add: wait_start_def tail)
  moreover have "wait_step queue_mode ?s1 (move t (Queued 1) ?s1)"
    using c1 by (intro test_first) (simp_all add: ioread32_def)
  moreover have "wait_step queue_mode (move t (Queued 1) ?s1) (move t (Sleeps 1) (move t (Queued 1) ?s1))"
    using c1 by (intro test_again) (simp_all add: ioread32_def)
  ultimately have "wait_reach queue_mode (wait_start d) (move t (Sleeps 1) (move t (Queued 1) ?s1))"
    by (meson wait_reach.intros)
  moreover have "waiters (move t (Sleeps 1) (move t (Queued 1) ?s1)) t = Sleeps 1" by simp
  ultimately show ?thesis using cells
    by (intro exI [of _ "move t (Sleeps 1) (move t (Queued 1) ?s1)"]) (simp add: wait_start_def)
qed

text \<open>What can happen to a sleeper in one step.\<close>

lemma sleeper_step:
  assumes "wait_step queue_mode s s'" and "waiters s t = Sleeps tail"
  shows "waiters s' t = Sleeps tail \<or> (waiters s' t = Queued tail \<and> irq_due s \<and> queue_mode = 0) \<or>
    (if head_of s = tail then waiters s' t = Ended OK
     else waiters s' t = Ended (Inl ETIMEDOUT) \<or> (\<exists>r<0. waiters s' t = Ended (Inl (EXT r))))"
  using assms
proof (cases rule: wait_step.cases)
  case interrupt
  with assms(2) show ?thesis
    by (cases "queue_mode = 0") (simp_all add: take_irq_def fpgagpu_irq_handler_def Let_def)
qed (auto simp: ioread32_def)

lemma test_exact:
  assumes "wait_inv queue_mode s" and "awaited (waiters s t) = Some tail"
  shows "head_of s = tail \<longleftrightarrow> finished s mod 512 = goal s t mod 512"
  using assms by (auto simp: wait_inv_def word_unat_eq_iff)

lemma quiet_sleeper:
  assumes "wait_inv 0 s" and "\<not> irq_due s" and "head_of s = tail_of s" and "waiters s t = Sleeps tail"
  shows "goal s t < finished s" "head_of s \<noteq> tail"
proof -
  have eq: "finished s mod 512 = issued s mod 512" "finished s \<le> issued s" "issued s \<le> finished s + 511"
    and goal: "unat tail = goal s t mod 512" "goal s t \<le> issued s"
    using assms(1,3,4) by (auto simp: wait_inv_def)
  then have "finished s = issued s"
    using mod_neq_if_close [of "finished s" "issued s" 512] by (cases "finished s < issued s") simp_all
  moreover show "head_of s \<noteq> tail" using assms by (auto simp: wait_inv_def)
  then have "goal s t \<noteq> issued s" using assms(1,3) goal by (auto simp: wait_inv_def word_unat_eq_iff)
  ultimately show "goal s t < finished s" using goal by simp
qed

text \<open>The end of a wait without success, on the way from one state to another.\<close>

definition gave_up :: "int \<Rightarrow> nat \<Rightarrow> u32 \<Rightarrow> wait_state \<Rightarrow> wait_state \<Rightarrow> bool" where
  "gave_up queue_mode t tail s s' \<longleftrightarrow>
     (\<exists>s1 s2. wait_reach queue_mode s s1 \<and> waiters s1 t = Sleeps tail \<and> wait_step queue_mode s1 s2 \<and>
        (waiters s2 t = Ended (Inl ETIMEDOUT) \<or> (\<exists>r<0. waiters s2 t = Ended (Inl (EXT r)))) \<and> wait_reach queue_mode s2 s')"

lemma issued_step: "wait_step queue_mode s s' \<Longrightarrow> issued s \<le> issued s'"
  by (cases rule: wait_step.cases) (auto simp: take_irq_def Let_def)

lemma quiet_step:
  assumes "wait_step queue_mode s s'" and "\<not> irq_due s" and "head_of s = tail_of s" and "issued s' = issued s"
  shows "wq_dev s' = wq_dev s \<and> \<not> irq_due s'"
  using assms by (cases rule: wait_step.cases) (auto simp: ioread32_def)

lemma quiet_run:
  assumes "wait_reach 0 s s'" and quiet: "\<not> irq_due s" "head_of s = tail_of s"
    and sleeps: "waiters s t = Sleeps tail" "head_of s \<noteq> tail"
  shows "issued s \<le> issued s' \<and> (issued s' = issued s \<longrightarrow> wq_dev s' = wq_dev s \<and> \<not> irq_due s' \<and>
    (waiters s' t = Sleeps tail \<or> gave_up 0 t tail s s'))"
  using assms(1)
proof (induction rule: wait_reach.induct)
  case start
  then show ?case using quiet sleeps by simp
next
  case (more s' s'')
  have mono: "issued s' \<le> issued s''" by (rule issued_step [OF more(2)])
  have "wq_dev s'' = wq_dev s \<and> \<not> irq_due s'' \<and> (waiters s'' t = Sleeps tail \<or> gave_up 0 t tail s s'')"
    if same: "issued s'' = issued s"
  proof -
    have s': "issued s' = issued s" "wq_dev s' = wq_dev s" "\<not> irq_due s'" "waiters s' t = Sleeps tail \<or> gave_up 0 t tail s s'"
      using more.IH mono same by simp_all
    have dev: "wq_dev s'' = wq_dev s' \<and> \<not> irq_due s''"
      by (rule quiet_step [OF more(2) s'(3)]) (use quiet(2) s' same in simp_all)
    have "waiters s'' t = Sleeps tail \<or> gave_up 0 t tail s s''" if "waiters s' t = Sleeps tail"
    proof -
      have "waiters s'' t = Sleeps tail \<or> waiters s'' t = Ended (Inl ETIMEDOUT) \<or> (\<exists>r<0. waiters s'' t = Ended (Inl (EXT r)))"
        using sleeper_step [OF more(2) that] s'(2,3) sleeps(2) by auto
      then show ?thesis using more(1,2) that wait_reach.start unfolding gave_up_def by blast
    qed
    moreover have "gave_up 0 t tail s s''" if "gave_up 0 t tail s s'"
      using that wait_reach.more [OF _ more(2)] unfolding gave_up_def by blast
    ultimately show ?thesis using dev s' by auto
  qed
  then show ?case using more.IH mono by simp
qed

text \<open>C25: a completion can be missed.  The wait tests whether the head is exactly at the awaited tail, and that holds
  exactly if the number of finished packets is, modulo 512, the number of the thread's own packet.  With the
  ring drained and no interrupt to come, a thread that still sleeps has therefore had its packet and a later one finished; and
  until another packet is accepted it sleeps on, or its wait ends by the timeout or a signal.  This happens: a
  LOAD_KERNEL whose kernel was loaded sleeps on, because one more command was finished before it tested again.\<close>

theorem completion_missed_exactly:
  assumes "csr_mem d RING_HEAD = 0" and "csr_mem d RING_TAIL = 0"
  shows "(\<forall>s t tail. wait_reach 0 (wait_start d) s \<and> awaited (waiters s t) = Some tail \<longrightarrow>
       (ioread32 (wq_dev s) RING_HEAD = tail \<longleftrightarrow> finished s mod 512 = goal s t mod 512)) \<and>
     (\<forall>s t tail. wait_reach 0 (wait_start d) s \<and> \<not> irq_due s \<and>
       ioread32 (wq_dev s) RING_HEAD = ioread32 (wq_dev s) RING_TAIL \<and> waiters s t = Sleeps tail \<longrightarrow>
       goal s t < finished s \<and>
       (\<forall>s'. wait_reach 0 s s' \<and> issued s' = issued s \<longrightarrow> waiters s' t = Sleeps tail \<or> gave_up 0 t tail s s')) \<and>
     (\<exists>s t tail. wait_reach 0 (wait_start d) s \<and> \<not> irq_due s \<and>
       ioread32 (wq_dev s) RING_HEAD = ioread32 (wq_dev s) RING_TAIL \<and> waiters s t = Sleeps tail)"
proof (intro conjI)
  show "\<forall>s t tail. wait_reach 0 (wait_start d) s \<and> awaited (waiters s t) = Some tail \<longrightarrow>
       (ioread32 (wq_dev s) RING_HEAD = tail \<longleftrightarrow> finished s mod 512 = goal s t mod 512)"
    unfolding ioread32_def using test_exact wait_inv_reachable [OF _ assms] by blast
next
  show "\<forall>s t tail. wait_reach 0 (wait_start d) s \<and> \<not> irq_due s \<and>
       ioread32 (wq_dev s) RING_HEAD = ioread32 (wq_dev s) RING_TAIL \<and> waiters s t = Sleeps tail \<longrightarrow>
       goal s t < finished s \<and>
       (\<forall>s'. wait_reach 0 s s' \<and> issued s' = issued s \<longrightarrow> waiters s' t = Sleeps tail \<or> gave_up 0 t tail s s')"
    unfolding ioread32_def using quiet_sleeper [OF wait_inv_reachable [OF _ assms]] quiet_run by blast
next
  obtain s where s: "wait_reach 0 (wait_start d) s" "waiters s 0 = Sleeps 1" "head_of s = 0" "tail_of s = 1"
    using sleeper_run [OF assms] by blast
  obtain c :: fpgagpu_launch_cmd where True by simp
  obtain d2 where d2: "ring_enq (launch_task c) (wq_dev s) = (OK, d2)"
    using room_accepts [of "wq_dev s" "launch_task c"] s by auto
  note c2 = accepted_cells [OF d2, unfolded s, simplified]
  let ?s2 = "accept d2 s"
  let ?fw = "\<lambda>s. s\<lparr>wq_dev := fw_consume (wq_dev s), finished := Suc (finished s), irq_due := True\<rparr>"
  let ?s5 = "take_irq 0 (?fw (?fw ?s2))"
  have "wait_step 0 s ?s2" by (rule submit [OF refl d2])
  moreover have "wait_step 0 ?s2 (?fw ?s2)"
    by (rule firmware) (simp add: c2 ioread32_def QUEUE_SIZE_def)
  moreover have "wait_step 0 (?fw ?s2) (?fw (?fw ?s2))"
    by (rule firmware) (simp add: consumed_cells c2 ioread32_def QUEUE_SIZE_def)
  moreover have "wait_step 0 (?fw (?fw ?s2)) ?s5" by (rule interrupt) simp
  moreover have cells: "head_of ?s5 = 2" "tail_of ?s5 = 2" "waiters ?s5 0 = Queued 1" "\<not> irq_due ?s5"
    using s(2) by (simp_all add: take_irq_def fpgagpu_irq_handler_def consumed_cells c2 QUEUE_SIZE_def Let_def)
  moreover have "wait_step 0 ?s5 (move 0 (Sleeps 1) ?s5)"
    by (rule test_again [OF cells(3)]) (use cells(1) in \<open>simp add: ioread32_def\<close>)
  ultimately have "wait_reach 0 (wait_start d) (move 0 (Sleeps 1) ?s5)"
    using s(1) by (meson wait_reach.intros)
  with cells show "\<exists>s t tail. wait_reach 0 (wait_start d) s \<and> \<not> irq_due s \<and>
       ioread32 (wq_dev s) RING_HEAD = ioread32 (wq_dev s) RING_TAIL \<and> waiters s t = Sleeps tail"
    by (intro exI [of _ "move 0 (Sleeps 1) ?s5"] exI [of _ 0] exI [of _ 1]) (simp add: ioread32_def)
qed

theorem completion_missed_exactly_witness:
  "\<exists>s t tail. wait_reach 0 (wait_start sample_dev) s \<and> waiters s t = Sleeps tail \<and> \<not> irq_due s \<and>
     goal s t < finished s"
proof -
  have cells: "csr_mem sample_dev RING_HEAD = 0" "csr_mem sample_dev RING_TAIL = 0"
    by (simp_all add: sample_dev_def kzalloc_dev_def)
  from completion_missed_exactly [OF cells] show ?thesis by blast
qed

theorem wakeups_not_lost_witness:
  "\<exists>s s1 s2. wait_reach 0 (wait_start sample_dev) s \<and> waiters s 7 = Sleeps 1 \<and> wait_step 0 s s1 \<and>
     waiters s1 7 = Queued 1 \<and> wait_step 0 s1 s2 \<and> waiters s2 7 = Ended OK"
proof -
  have cells: "csr_mem sample_dev RING_HEAD = 0" "csr_mem sample_dev RING_TAIL = 0"
    by (simp_all add: sample_dev_def kzalloc_dev_def)
  obtain s where s: "wait_reach 0 (wait_start sample_dev) s" "waiters s 7 = Sleeps 1" "head_of s = 0" "tail_of s = 1"
    using sleeper_run [OF cells] by blast
  let ?s = "s\<lparr>wq_dev := fw_consume (wq_dev s), finished := Suc (finished s), irq_due := True\<rparr>"
  have "wait_step 0 s ?s" by (rule firmware) (simp add: s ioread32_def)
  then have run: "wait_reach 0 (wait_start sample_dev) ?s" by (rule more [OF s(1)])
  have "waiters ?s 7 = Sleeps 1" "ioread32 (wq_dev ?s) RING_HEAD = 1"
    using s by (simp_all add: consumed_cells ioread32_def QUEUE_SIZE_def)
  from wakeups_not_lost [OF cells run this] run \<open>waiters ?s 7 = Sleeps 1\<close> show ?thesis by blast
qed

text \<open>C26: with private queues LOAD_KERNEL sleeps out its time.  No interrupt wakes the thread: from any
  state in which it sleeps, only the timeout or a signal ends the wait, although its kernel may be
  loaded and the interrupt taken, a state that is reached; the call then returns success, late.\<close>

theorem private_load_sleeps_out:
  assumes "queue_mode \<noteq> 0" and "csr_mem d RING_HEAD = 0" and "csr_mem d RING_TAIL = 0"
  shows "(\<forall>s s' t tail. wait_step queue_mode s s' \<and> waiters s t = Sleeps tail \<longrightarrow> waiters s' t = Sleeps tail \<or>
       (if ioread32 (wq_dev s) RING_HEAD = tail then waiters s' t = Ended OK
        else waiters s' t = Ended (Inl ETIMEDOUT) \<or> (\<exists>r<0. waiters s' t = Ended (Inl (EXT r))))) \<and>
     (\<exists>s t. wait_reach queue_mode (wait_start d) s \<and> waiters s t = Sleeps (ioread32 (wq_dev s) RING_HEAD) \<and>
       \<not> irq_due s \<and> goal s t = finished s)"
proof (intro conjI)
  show "\<forall>s s' t tail. wait_step queue_mode s s' \<and> waiters s t = Sleeps tail \<longrightarrow> waiters s' t = Sleeps tail \<or>
       (if ioread32 (wq_dev s) RING_HEAD = tail then waiters s' t = Ended OK
        else waiters s' t = Ended (Inl ETIMEDOUT) \<or> (\<exists>r<0. waiters s' t = Ended (Inl (EXT r))))"
    using sleeper_step assms(1) unfolding ioread32_def by blast
next
  obtain s where s: "wait_reach queue_mode (wait_start d) s" "waiters s 0 = Sleeps 1" "head_of s = 0" "tail_of s = 1"
    "goal s 0 = 1" "finished s = 0" using sleeper_run [OF assms(2,3)] by blast
  let ?s1 = "s\<lparr>wq_dev := fw_consume (wq_dev s), finished := Suc (finished s), irq_due := True\<rparr>"
  let ?s2 = "take_irq queue_mode ?s1"
  have "wait_step queue_mode s ?s1" by (rule firmware) (simp add: s ioread32_def)
  moreover have "wait_step queue_mode ?s1 ?s2" by (rule interrupt) simp
  ultimately have "wait_reach queue_mode (wait_start d) ?s2" using s(1) by (meson wait_reach.intros)
  moreover have "waiters ?s2 0 = Sleeps (ioread32 (wq_dev ?s2) RING_HEAD)" "\<not> irq_due ?s2" "goal ?s2 0 = finished ?s2"
    using s assms(1)
    by (simp_all add: take_irq_def fpgagpu_irq_handler_def consumed_cells ioread32_def QUEUE_SIZE_def Let_def)
  ultimately show "\<exists>s t. wait_reach queue_mode (wait_start d) s \<and> waiters s t = Sleeps (ioread32 (wq_dev s) RING_HEAD) \<and>
       \<not> irq_due s \<and> goal s t = finished s" by blast
qed

theorem private_load_sleeps_out_witness:
  "\<exists>s t. wait_reach 1 (wait_start sample_dev) s \<and> waiters s t = Sleeps (ioread32 (wq_dev s) RING_HEAD) \<and> \<not> irq_due s"
  using private_load_sleeps_out [of 1 sample_dev] by (auto simp: sample_dev_def kzalloc_dev_def)

end
