(* ===== verification/Vram.thy ===== *)
theory Vram
  imports Prelude
begin

text \<open>
  The device memory allocator of \<open>umd/src/vram_alloc.c\<close>: a bump pointer over 1 GiB of DDR3,
  with the contract its clients rely on (locale \<open>region_alloc\<close>), the sizes for which the code
  keeps it, and the sizes for which the 64-bit arithmetic wraps.
\<close>

section \<open>The allocator\<close>

definition FPGAGPU_VRAM_USER_BASE :: u64 where "FPGAGPU_VRAM_USER_BASE = 0x00010000"
definition FPGAGPU_VRAM_TOTAL_SIZE :: u64 where "FPGAGPU_VRAM_TOTAL_SIZE = 1024 * 1024 * 1024"
definition PAGE_SIZE_4K :: u64 where "PAGE_SIZE_4K = 4096"

record vram =
  current_heap_ptr :: u64
  vram_initialized :: bool

definition vram_boot :: vram where
  "vram_boot = \<lparr>current_heap_ptr = FPGAGPU_VRAM_USER_BASE, vram_initialized = False\<rparr>"

definition fpgagpu_vram_init :: "vram \<Rightarrow> vram" where
  "fpgagpu_vram_init v = v\<lparr>current_heap_ptr := FPGAGPU_VRAM_USER_BASE, vram_initialized := True\<rparr>"

definition vram_aligned :: "u64 \<Rightarrow> u64" where
  "vram_aligned sz = (sz + PAGE_SIZE_4K - 1) AND NOT (PAGE_SIZE_4K - 1)"

definition fpgagpu_vram_alloc :: "u64 \<Rightarrow> vram \<Rightarrow> u64 \<times> vram" where
  "fpgagpu_vram_alloc sz v =
     (if sz = 0 then (0, v)
      else
        let v1 = (if vram_initialized v then v
                  else v\<lparr>current_heap_ptr := FPGAGPU_VRAM_USER_BASE, vram_initialized := True\<rparr>);
            aligned_size = vram_aligned sz
        in if current_heap_ptr v1 + aligned_size > FPGAGPU_VRAM_TOTAL_SIZE then (0, v1)
           else (current_heap_ptr v1, v1\<lparr>current_heap_ptr := current_heap_ptr v1 + aligned_size\<rparr>))"

definition fpgagpu_vram_free :: "u64 \<Rightarrow> u64 \<Rightarrow> vram \<Rightarrow> vram" where
  "fpgagpu_vram_free addr sz v = v"

section \<open>Regions\<close>

text \<open>A region is a start and a length in bytes, as numbers.\<close>

type_synonym region = "nat \<times> nat"

definition disjoint_regions :: "region \<Rightarrow> region \<Rightarrow> bool" where
  "disjoint_regions r s \<longleftrightarrow> fst r + snd r \<le> fst s \<or> fst s + snd s \<le> fst r"

fun alloc_run :: "('q \<Rightarrow> 's \<Rightarrow> u64 \<times> 's) \<Rightarrow> ('q \<Rightarrow> nat) \<Rightarrow> 'q list \<Rightarrow> 's \<Rightarrow> region list \<times> 's" where
  "alloc_run alloc len [] s = ([], s)"
| "alloc_run alloc len (q # qs) s =
     (let (a, s1) = alloc q s; (rs, s2) = alloc_run alloc len qs s1
      in (if a = 0 then rs else (unat a, len q) # rs, s2))"

text \<open>
  The contract: from a good state every request either fails, or yields a region
  between a frontier and the limit, beyond which the frontier then moves.
\<close>

locale region_alloc =
  fixes inv :: "'s \<Rightarrow> bool"
    and frontier :: "'s \<Rightarrow> nat"
    and base :: nat and limit :: nat
    and ok :: "'q \<Rightarrow> bool"
    and len :: "'q \<Rightarrow> nat"
    and alloc :: "'q \<Rightarrow> 's \<Rightarrow> u64 \<times> 's"
  assumes alloc_inv: "inv s \<Longrightarrow> ok q \<Longrightarrow> inv (snd (alloc q s))"
    and alloc_mono: "inv s \<Longrightarrow> ok q \<Longrightarrow> frontier s \<le> frontier (snd (alloc q s))"
    and alloc_region: "inv s \<Longrightarrow> ok q \<Longrightarrow> fst (alloc q s) \<noteq> 0 \<Longrightarrow>
      frontier s \<le> unat (fst (alloc q s)) \<and> unat (fst (alloc q s)) + len q \<le> frontier (snd (alloc q s))"
    and frontier_bounds: "inv s \<Longrightarrow> base \<le> frontier s \<and> frontier s \<le> limit"
begin

lemma run_regions:
  assumes "inv s" and "\<forall>q \<in> set qs. ok q" and "alloc_run alloc len qs s = (rs, t)"
  shows "inv t \<and> frontier s \<le> frontier t \<and> pairwise disjoint_regions (set rs) \<and>
    (\<forall>r \<in> set rs. frontier s \<le> fst r \<and> fst r + snd r \<le> frontier t) \<and>
    sorted_wrt (\<lambda>r s. fst r + snd r \<le> fst s) rs"
  using assms
proof (induction qs arbitrary: s rs t)
  case Nil
  then show ?case by (simp add: pairwise_def)
next
  case (Cons q qs)
  obtain a s1 where a: "alloc q s = (a, s1)" by (cases "alloc q s")
  obtain rs1 t1 where r: "alloc_run alloc len qs s1 = (rs1, t1)" by (cases "alloc_run alloc len qs s1")
  have q: "ok q" using Cons.prems(2) by simp
  have s1: "inv s1" "frontier s \<le> frontier s1"
    using alloc_inv [OF Cons.prems(1) q] alloc_mono [OF Cons.prems(1) q] a by simp_all
  have IH: "inv t1 \<and> frontier s1 \<le> frontier t1 \<and> pairwise disjoint_regions (set rs1) \<and>
      (\<forall>r \<in> set rs1. frontier s1 \<le> fst r \<and> fst r + snd r \<le> frontier t1) \<and>
      sorted_wrt (\<lambda>r s. fst r + snd r \<le> fst s) rs1"
    by (rule Cons.IH [OF s1(1) _ r]) (use Cons.prems(2) in simp)
  show ?case
  proof (cases "a = 0")
    case True
    with Cons.prems(3) a r have "rs = rs1" "t = t1" by simp_all
    with IH s1 show ?thesis by force
  next
    case False
    with Cons.prems(3) a r have rs: "rs = (unat a, len q) # rs1" and t: "t = t1" by simp_all
    have reg: "frontier s \<le> unat a" "unat a + len q \<le> frontier s1"
      using alloc_region [OF Cons.prems(1) q] a False by simp_all
    have below: "disjoint_regions (unat a, len q) r \<and> disjoint_regions r (unat a, len q)"
      if "r \<in> set rs1" for r
      using IH that reg by (fastforce simp: disjoint_regions_def)
    have "pairwise disjoint_regions (set rs)"
      using IH below unfolding rs by (auto simp: pairwise_insert)
    moreover have "\<forall>r \<in> set rs. frontier s \<le> fst r \<and> fst r + snd r \<le> frontier t"
      using IH reg s1 unfolding rs t by fastforce
    moreover have "sorted_wrt (\<lambda>r s. fst r + snd r \<le> fst s) rs"
      using IH reg unfolding rs by fastforce
    ultimately show ?thesis using IH s1 t by auto
  qed
qed

end

section \<open>Rounding up\<close>

lemma unat_vram_aligned:
  assumes "unat sz \<le> 2 ^ 64 - 4096"
  shows "unat (vram_aligned sz) = (unat sz + 4095) div 4096 * 4096"
proof -
  have "unat (sz + PAGE_SIZE_4K - 1) = unat sz + 4095"
  proof -
    have "sz + PAGE_SIZE_4K - 1 = sz + 4095" by (simp add: PAGE_SIZE_4K_def)
    moreover have "unat (sz + 4095) = unat sz + unat (4095 :: u64)"
      using assms by (intro unat_add_no_wrap) simp
    moreover have "unat (4095 :: u64) = 4095" by simp
    ultimately show ?thesis by (simp only:)
  qed
  moreover have "vram_aligned sz = push_bit 12 (drop_bit 12 (sz + PAGE_SIZE_4K - 1))"
  proof -
    have "PAGE_SIZE_4K - 1 = mask 12" by (simp add: PAGE_SIZE_4K_def mask_eq_exp_minus_1)
    then show ?thesis
      unfolding vram_aligned_def by (auto intro!: bit_word_eqI simp: bit_simps)
  qed
  moreover have "unat (push_bit 12 (drop_bit 12 w)) = unat w div 4096 * 4096" for w :: u64
  proof -
    have "unat (drop_bit 12 w) = unat w div 4096"
      by (simp add: drop_bit_eq_div unat_div)
    moreover have "unat w div 4096 * 4096 < 2 ^ 64"
      using unsigned_less [of w] by (intro le_less_trans [OF div_times_less_eq_dividend]) simp
    ultimately show ?thesis
      by (simp only: unsigned_push_bit_eq) (simp add: push_bit_eq_mult take_bit_eq_mod)
  qed
  ultimately show ?thesis by simp
qed

section \<open>The contract holds for sizes that do not wrap\<close>

definition vram_inv :: "vram \<Rightarrow> bool" where
  "vram_inv v \<longleftrightarrow> (vram_initialized v \<longrightarrow>
     65536 \<le> unat (current_heap_ptr v) \<and> unat (current_heap_ptr v) \<le> 2 ^ 30 \<and>
     4096 dvd unat (current_heap_ptr v))"

text \<open>Where the next region will start.\<close>

definition vram_next :: "vram \<Rightarrow> nat" where
  "vram_next v = (if vram_initialized v then unat (current_heap_ptr v) else 65536)"

definition vram_round :: "u64 \<Rightarrow> nat" where
  "vram_round sz = (unat sz + 4095) div 4096 * 4096"

lemma vram_round_ge: "unat sz \<le> vram_round sz"
proof -
  have "(unat sz + 4095) div 4096 * 4096 + (unat sz + 4095) mod 4096 = unat sz + 4095" by simp
  moreover have "(unat sz + 4095) mod 4096 < 4096" by simp
  ultimately show ?thesis unfolding vram_round_def by linarith
qed

text \<open>The allocator on numbers, for every size up to 8 EiB.\<close>

lemma vram_alloc_numeric:
  assumes "vram_inv v" and "0 < unat sz" and "unat sz \<le> 2 ^ 63"
  shows "fpgagpu_vram_alloc sz v =
    (if vram_next v + vram_round sz \<le> 2 ^ 30
     then (of_nat (vram_next v), \<lparr>current_heap_ptr = of_nat (vram_next v + vram_round sz), vram_initialized = True\<rparr>)
     else (0, \<lparr>current_heap_ptr = of_nat (vram_next v), vram_initialized = True\<rparr>))"
proof -
  let ?v1 = "if vram_initialized v then v
    else v\<lparr>current_heap_ptr := FPGAGPU_VRAM_USER_BASE, vram_initialized := True\<rparr>"
  have ne: "sz \<noteq> 0" using assms(2) by auto
  have p: "unat (current_heap_ptr ?v1) = vram_next v" and init: "vram_initialized ?v1"
    by (simp_all add: vram_next_def FPGAGPU_VRAM_USER_BASE_def)
  have le: "vram_next v \<le> 2 ^ 30" using assms(1) by (auto simp: vram_next_def vram_inv_def)
  have al: "unat (vram_aligned sz) = vram_round sz"
    using assms(3) by (simp add: unat_vram_aligned vram_round_def)
  have "vram_round sz \<le> 2 ^ 63 + 4095"
    unfolding vram_round_def using assms(3) div_times_less_eq_dividend [of "unat sz + 4095" 4096] by simp
  with le have sum: "unat (current_heap_ptr ?v1 + vram_aligned sz) = vram_next v + vram_round sz"
    using p al by (subst unat_add_no_wrap) simp_all
  have inj: "of_nat (unat w) = w" for w :: u64 by simp
  have word: "current_heap_ptr ?v1 = of_nat (vram_next v)"
    and word2: "current_heap_ptr ?v1 + vram_aligned sz = of_nat (vram_next v + vram_round sz)"
    using p sum by (metis inj)+
  have "current_heap_ptr ?v1 + vram_aligned sz > FPGAGPU_VRAM_TOTAL_SIZE \<longleftrightarrow>
      \<not> vram_next v + vram_round sz \<le> 2 ^ 30"
    unfolding word_less_nat_alt sum by (simp add: FPGAGPU_VRAM_TOTAL_SIZE_def not_le)
  moreover have "?v1 = \<lparr>current_heap_ptr = of_nat (vram_next v), vram_initialized = True\<rparr>"
    using word init by (intro vram.equality) simp_all
  ultimately show ?thesis
    using ne word2 unfolding fpgagpu_vram_alloc_def by (simp add: Let_def)
qed

lemma vram_alloc_state:
  assumes "vram_inv v" and "0 < unat sz" and "unat sz \<le> 2 ^ 63"
  shows "vram_inv (snd (fpgagpu_vram_alloc sz v))"
    and "vram_next (snd (fpgagpu_vram_alloc sz v)) =
      (if vram_next v + vram_round sz \<le> 2 ^ 30 then vram_next v + vram_round sz else vram_next v)"
    and "unat (fst (fpgagpu_vram_alloc sz v)) =
      (if vram_next v + vram_round sz \<le> 2 ^ 30 then vram_next v else 0)"
proof -
  have n: "65536 \<le> vram_next v" "vram_next v \<le> 2 ^ 30" "4096 dvd vram_next v"
    using assms(1) by (auto simp: vram_next_def vram_inv_def)
  have small: "unat (of_nat k :: u64) = k" if "k \<le> 2 ^ 30" for k
    using that by (simp add: unat_of_nat take_bit_eq_mod)
  have "4096 dvd vram_round sz" by (simp add: vram_round_def)
  with n show "vram_inv (snd (fpgagpu_vram_alloc sz v))"
    unfolding vram_alloc_numeric [OF assms] by (auto simp: vram_inv_def small simp del: of_nat_add)
  show "vram_next (snd (fpgagpu_vram_alloc sz v)) =
      (if vram_next v + vram_round sz \<le> 2 ^ 30 then vram_next v + vram_round sz else vram_next v)"
    using n unfolding vram_alloc_numeric [OF assms] by (auto simp: vram_next_def small simp del: of_nat_add)
  show "unat (fst (fpgagpu_vram_alloc sz v)) =
      (if vram_next v + vram_round sz \<le> 2 ^ 30 then vram_next v else 0)"
    using n unfolding vram_alloc_numeric [OF assms] by (auto simp: small simp del: of_nat_add)
qed

interpretation vr: region_alloc vram_inv vram_next 65536 "2 ^ 30"
  "\<lambda>sz. 0 < unat sz \<and> unat sz \<le> 2 ^ 63" unat fpgagpu_vram_alloc
proof unfold_locales
  fix v and sz :: u64
  assume v: "vram_inv v" and sz: "0 < unat sz \<and> unat sz \<le> 2 ^ 63"
  note st = vram_alloc_state [OF v, of sz]
  show "vram_inv (snd (fpgagpu_vram_alloc sz v))"
    and "vram_next v \<le> vram_next (snd (fpgagpu_vram_alloc sz v))"
    using st sz by simp_all
  assume "fst (fpgagpu_vram_alloc sz v) \<noteq> 0"
  then have "unat (fst (fpgagpu_vram_alloc sz v)) \<noteq> 0" by (simp add: unat_eq_0)
  with st sz vram_round_ge [of sz]
  show "vram_next v \<le> unat (fst (fpgagpu_vram_alloc sz v)) \<and>
      unat (fst (fpgagpu_vram_alloc sz v)) + unat sz \<le> vram_next (snd (fpgagpu_vram_alloc sz v))"
    by (auto split: if_splits)
next
  fix v
  assume "vram_inv v"
  then show "65536 \<le> vram_next v \<and> vram_next v \<le> 2 ^ 30"
    by (auto simp: vram_inv_def vram_next_def)
qed

section \<open>Properties\<close>

text \<open>What an allocation returns, exactly.  For sizes from 1 byte to 8 EiB the request
  succeeds exactly when its size, rounded up to pages, still fits below 1 GiB; it then
  returns the frontier (page aligned, above the kernel argument page) and moves it by the
  rounded size; otherwise it returns 0 and the frontier stays.\<close>

theorem vram_alloc_exact:
  assumes "vram_inv v" and "sz \<noteq> 0" and "unat sz \<le> 2 ^ 63"
  shows "case fpgagpu_vram_alloc sz v of (a, v') \<Rightarrow> vram_inv v' \<and>
    (if vram_next v + (unat sz + 4095) div 4096 * 4096 \<le> 2 ^ 30
     then unat a = vram_next v \<and> 4096 dvd unat a \<and> 65536 \<le> unat a \<and>
       vram_next v' = vram_next v + (unat sz + 4095) div 4096 * 4096
     else a = 0 \<and> vram_next v' = vram_next v)"
proof -
  have "0 < unat sz" using assms(2) by (simp add: unat_gt_0)
  note st = vram_alloc_state [OF assms(1) this assms(3)]
  have "4096 dvd vram_next v" "65536 \<le> vram_next v"
    using assms(1) by (auto simp: vram_next_def vram_inv_def)
  moreover have "a = 0" if "unat a = 0" for a :: u64 using that by (simp add: unat_eq_0)
  ultimately show ?thesis using st by (auto simp: vram_round_def split_def)
qed

theorem vram_alloc_exact_witness:
  "unat (fst (fpgagpu_vram_alloc 5000 vram_boot)) = 65536"
proof -
  have "vram_inv vram_boot" by (simp add: vram_inv_def vram_boot_def)
  from vram_alloc_exact [OF this, of 5000] show ?thesis
    by (simp add: vram_boot_def vram_next_def split_def)
qed

text \<open>Allocations never overlap.  For every sequence of requests of 1 byte to 8 EiB the regions
  handed out are pairwise disjoint, ascending, above the first 64 KiB and within 1 GiB.\<close>

theorem vram_regions_disjoint:
  assumes "vram_inv v" and "\<forall>sz \<in> set qs. 0 < unat sz \<and> unat sz \<le> 2 ^ 63"
    and "alloc_run fpgagpu_vram_alloc unat qs v = (rs, v')"
  shows "pairwise disjoint_regions (set rs) \<and> sorted_wrt (\<lambda>r s. fst r + snd r \<le> fst s) rs \<and>
    (\<forall>r \<in> set rs. 65536 \<le> fst r \<and> fst r + snd r \<le> 2 ^ 30)"
proof -
  note r = vr.run_regions [OF assms]
  have "65536 \<le> vram_next v" "vram_next v' \<le> 2 ^ 30"
    using vr.frontier_bounds assms(1) r by blast+
  with r show ?thesis by fastforce
qed

theorem vram_regions_disjoint_witness:
  "\<exists>v'. alloc_run fpgagpu_vram_alloc unat [5000, 1, 4096] vram_boot
      = ([(65536, 5000), (73728, 1), (77824, 4096)], v') \<and>
     disjoint_regions (65536, 5000) (73728, 1)"
proof -
  have inv: "vram_inv vram_boot" by (simp add: vram_inv_def vram_boot_def)
  obtain v' where run: "alloc_run fpgagpu_vram_alloc unat [5000, 1, 4096] vram_boot
      = ([(65536, 5000), (73728, 1), (77824, 4096)], v')"
    by (simp add: fpgagpu_vram_alloc_def vram_boot_def vram_aligned_def PAGE_SIZE_4K_def
        FPGAGPU_VRAM_USER_BASE_def FPGAGPU_VRAM_TOTAL_SIZE_def Let_def)
  from vram_regions_disjoint [OF inv _ run] have
    "pairwise disjoint_regions {(65536, 5000), (73728, 1), (77824, 4096)}" by simp
  with run show ?thesis by (auto simp: pairwise_def)
qed

text \<open>Sizes close to 2^64 break the contract.  With 4 KiB less than 2^64 bytes requested the
  allocator reports success and moves the frontier back by a page, so that the next page it
  hands out is the last one it had handed out before; a request of 2^64 - 1 bytes also
  succeeds and reserves nothing.\<close>

theorem vram_alloc_wraps:
  "fpgagpu_vram_alloc (- 4096) \<lparr>current_heap_ptr = 0x20000, vram_initialized = True\<rparr>
     = (0x20000, \<lparr>current_heap_ptr = 0x1F000, vram_initialized = True\<rparr>) \<and>
   fpgagpu_vram_alloc (- 1) \<lparr>current_heap_ptr = 0x20000, vram_initialized = True\<rparr>
     = (0x20000, \<lparr>current_heap_ptr = 0x20000, vram_initialized = True\<rparr>)"
  by (simp add: fpgagpu_vram_alloc_def vram_aligned_def PAGE_SIZE_4K_def
      FPGAGPU_VRAM_TOTAL_SIZE_def Let_def)

end
