(* ===== verification/ClConst.thy ===== *)
theory ClConst
  imports Prelude
begin

text \<open>
  The constants of \<open>include/CL/cl.h\<close>, one definition each, and its enumerations: for every
  group the version of OpenCL (times 100) from which a name exists, 100 for those that always do,
  with its value.  Bit fields are 64 bits wide, parameter names and other enumerations 32; error
  codes, execution states and the keys of property lists are signed.
\<close>

subsection \<open>Error codes\<close>

definition CL_SUCCESS :: int where "CL_SUCCESS = 0"
definition CL_DEVICE_NOT_FOUND :: int where "CL_DEVICE_NOT_FOUND = - 1"
definition CL_DEVICE_NOT_AVAILABLE :: int where "CL_DEVICE_NOT_AVAILABLE = - 2"
definition CL_COMPILER_NOT_AVAILABLE :: int where "CL_COMPILER_NOT_AVAILABLE = - 3"
definition CL_MEM_OBJECT_ALLOCATION_FAILURE :: int where "CL_MEM_OBJECT_ALLOCATION_FAILURE = - 4"
definition CL_OUT_OF_RESOURCES :: int where "CL_OUT_OF_RESOURCES = - 5"
definition CL_OUT_OF_HOST_MEMORY :: int where "CL_OUT_OF_HOST_MEMORY = - 6"
definition CL_PROFILING_INFO_NOT_AVAILABLE :: int where "CL_PROFILING_INFO_NOT_AVAILABLE = - 7"
definition CL_MEM_COPY_OVERLAP :: int where "CL_MEM_COPY_OVERLAP = - 8"
definition CL_IMAGE_FORMAT_MISMATCH :: int where "CL_IMAGE_FORMAT_MISMATCH = - 9"
definition CL_IMAGE_FORMAT_NOT_SUPPORTED :: int where "CL_IMAGE_FORMAT_NOT_SUPPORTED = - 10"
definition CL_BUILD_PROGRAM_FAILURE :: int where "CL_BUILD_PROGRAM_FAILURE = - 11"
definition CL_MAP_FAILURE :: int where "CL_MAP_FAILURE = - 12"
definition CL_MISALIGNED_SUB_BUFFER_OFFSET :: int where "CL_MISALIGNED_SUB_BUFFER_OFFSET = - 13"
definition CL_EXEC_STATUS_ERROR_FOR_EVENTS_IN_WAIT_LIST :: int where "CL_EXEC_STATUS_ERROR_FOR_EVENTS_IN_WAIT_LIST = - 14"
definition CL_COMPILE_PROGRAM_FAILURE :: int where "CL_COMPILE_PROGRAM_FAILURE = - 15"
definition CL_LINKER_NOT_AVAILABLE :: int where "CL_LINKER_NOT_AVAILABLE = - 16"
definition CL_LINK_PROGRAM_FAILURE :: int where "CL_LINK_PROGRAM_FAILURE = - 17"
definition CL_DEVICE_PARTITION_FAILED :: int where "CL_DEVICE_PARTITION_FAILED = - 18"
definition CL_KERNEL_ARG_INFO_NOT_AVAILABLE :: int where "CL_KERNEL_ARG_INFO_NOT_AVAILABLE = - 19"
definition CL_INVALID_VALUE :: int where "CL_INVALID_VALUE = - 30"
definition CL_INVALID_DEVICE_TYPE :: int where "CL_INVALID_DEVICE_TYPE = - 31"
definition CL_INVALID_PLATFORM :: int where "CL_INVALID_PLATFORM = - 32"
definition CL_INVALID_DEVICE :: int where "CL_INVALID_DEVICE = - 33"
definition CL_INVALID_CONTEXT :: int where "CL_INVALID_CONTEXT = - 34"
definition CL_INVALID_QUEUE_PROPERTIES :: int where "CL_INVALID_QUEUE_PROPERTIES = - 35"
definition CL_INVALID_COMMAND_QUEUE :: int where "CL_INVALID_COMMAND_QUEUE = - 36"
definition CL_INVALID_HOST_PTR :: int where "CL_INVALID_HOST_PTR = - 37"
definition CL_INVALID_MEM_OBJECT :: int where "CL_INVALID_MEM_OBJECT = - 38"
definition CL_INVALID_IMAGE_FORMAT_DESCRIPTOR :: int where "CL_INVALID_IMAGE_FORMAT_DESCRIPTOR = - 39"
definition CL_INVALID_IMAGE_SIZE :: int where "CL_INVALID_IMAGE_SIZE = - 40"
definition CL_INVALID_SAMPLER :: int where "CL_INVALID_SAMPLER = - 41"
definition CL_INVALID_BINARY :: int where "CL_INVALID_BINARY = - 42"
definition CL_INVALID_BUILD_OPTIONS :: int where "CL_INVALID_BUILD_OPTIONS = - 43"
definition CL_INVALID_PROGRAM :: int where "CL_INVALID_PROGRAM = - 44"
definition CL_INVALID_PROGRAM_EXECUTABLE :: int where "CL_INVALID_PROGRAM_EXECUTABLE = - 45"
definition CL_INVALID_KERNEL_NAME :: int where "CL_INVALID_KERNEL_NAME = - 46"
definition CL_INVALID_KERNEL_DEFINITION :: int where "CL_INVALID_KERNEL_DEFINITION = - 47"
definition CL_INVALID_KERNEL :: int where "CL_INVALID_KERNEL = - 48"
definition CL_INVALID_ARG_INDEX :: int where "CL_INVALID_ARG_INDEX = - 49"
definition CL_INVALID_ARG_VALUE :: int where "CL_INVALID_ARG_VALUE = - 50"
definition CL_INVALID_ARG_SIZE :: int where "CL_INVALID_ARG_SIZE = - 51"
definition CL_INVALID_KERNEL_ARGS :: int where "CL_INVALID_KERNEL_ARGS = - 52"
definition CL_INVALID_WORK_DIMENSION :: int where "CL_INVALID_WORK_DIMENSION = - 53"
definition CL_INVALID_WORK_GROUP_SIZE :: int where "CL_INVALID_WORK_GROUP_SIZE = - 54"
definition CL_INVALID_WORK_ITEM_SIZE :: int where "CL_INVALID_WORK_ITEM_SIZE = - 55"
definition CL_INVALID_GLOBAL_OFFSET :: int where "CL_INVALID_GLOBAL_OFFSET = - 56"
definition CL_INVALID_EVENT_WAIT_LIST :: int where "CL_INVALID_EVENT_WAIT_LIST = - 57"
definition CL_INVALID_EVENT :: int where "CL_INVALID_EVENT = - 58"
definition CL_INVALID_OPERATION :: int where "CL_INVALID_OPERATION = - 59"
definition CL_INVALID_GL_OBJECT :: int where "CL_INVALID_GL_OBJECT = - 60"
definition CL_INVALID_BUFFER_SIZE :: int where "CL_INVALID_BUFFER_SIZE = - 61"
definition CL_INVALID_MIP_LEVEL :: int where "CL_INVALID_MIP_LEVEL = - 62"
definition CL_INVALID_GLOBAL_WORK_SIZE :: int where "CL_INVALID_GLOBAL_WORK_SIZE = - 63"
definition CL_INVALID_PROPERTY :: int where "CL_INVALID_PROPERTY = - 64"
definition CL_INVALID_IMAGE_DESCRIPTOR :: int where "CL_INVALID_IMAGE_DESCRIPTOR = - 65"
definition CL_INVALID_COMPILER_OPTIONS :: int where "CL_INVALID_COMPILER_OPTIONS = - 66"
definition CL_INVALID_LINKER_OPTIONS :: int where "CL_INVALID_LINKER_OPTIONS = - 67"
definition CL_INVALID_DEVICE_PARTITION_COUNT :: int where "CL_INVALID_DEVICE_PARTITION_COUNT = - 68"
definition CL_INVALID_PIPE_SIZE :: int where "CL_INVALID_PIPE_SIZE = - 69"
definition CL_INVALID_DEVICE_QUEUE :: int where "CL_INVALID_DEVICE_QUEUE = - 70"
definition CL_INVALID_SPEC_ID :: int where "CL_INVALID_SPEC_ID = - 71"
definition CL_MAX_SIZE_RESTRICTION_EXCEEDED :: int where "CL_MAX_SIZE_RESTRICTION_EXCEEDED = - 72"

definition cl_error_codes :: "(nat \<times> int) list" where
  "cl_error_codes =
     [(100, CL_SUCCESS), (100, CL_DEVICE_NOT_FOUND), (100, CL_DEVICE_NOT_AVAILABLE),
      (100, CL_COMPILER_NOT_AVAILABLE), (100, CL_MEM_OBJECT_ALLOCATION_FAILURE),
      (100, CL_OUT_OF_RESOURCES), (100, CL_OUT_OF_HOST_MEMORY),
      (100, CL_PROFILING_INFO_NOT_AVAILABLE), (100, CL_MEM_COPY_OVERLAP),
      (100, CL_IMAGE_FORMAT_MISMATCH), (100, CL_IMAGE_FORMAT_NOT_SUPPORTED),
      (100, CL_BUILD_PROGRAM_FAILURE), (100, CL_MAP_FAILURE),
      (110, CL_MISALIGNED_SUB_BUFFER_OFFSET), (110, CL_EXEC_STATUS_ERROR_FOR_EVENTS_IN_WAIT_LIST),
      (120, CL_COMPILE_PROGRAM_FAILURE), (120, CL_LINKER_NOT_AVAILABLE),
      (120, CL_LINK_PROGRAM_FAILURE), (120, CL_DEVICE_PARTITION_FAILED),
      (120, CL_KERNEL_ARG_INFO_NOT_AVAILABLE), (100, CL_INVALID_VALUE),
      (100, CL_INVALID_DEVICE_TYPE), (100, CL_INVALID_PLATFORM), (100, CL_INVALID_DEVICE),
      (100, CL_INVALID_CONTEXT), (100, CL_INVALID_QUEUE_PROPERTIES),
      (100, CL_INVALID_COMMAND_QUEUE), (100, CL_INVALID_HOST_PTR), (100, CL_INVALID_MEM_OBJECT),
      (100, CL_INVALID_IMAGE_FORMAT_DESCRIPTOR), (100, CL_INVALID_IMAGE_SIZE),
      (100, CL_INVALID_SAMPLER), (100, CL_INVALID_BINARY), (100, CL_INVALID_BUILD_OPTIONS),
      (100, CL_INVALID_PROGRAM), (100, CL_INVALID_PROGRAM_EXECUTABLE),
      (100, CL_INVALID_KERNEL_NAME), (100, CL_INVALID_KERNEL_DEFINITION),
      (100, CL_INVALID_KERNEL), (100, CL_INVALID_ARG_INDEX), (100, CL_INVALID_ARG_VALUE),
      (100, CL_INVALID_ARG_SIZE), (100, CL_INVALID_KERNEL_ARGS), (100, CL_INVALID_WORK_DIMENSION),
      (100, CL_INVALID_WORK_GROUP_SIZE), (100, CL_INVALID_WORK_ITEM_SIZE),
      (100, CL_INVALID_GLOBAL_OFFSET), (100, CL_INVALID_EVENT_WAIT_LIST), (100, CL_INVALID_EVENT),
      (100, CL_INVALID_OPERATION), (100, CL_INVALID_GL_OBJECT), (100, CL_INVALID_BUFFER_SIZE),
      (100, CL_INVALID_MIP_LEVEL), (100, CL_INVALID_GLOBAL_WORK_SIZE), (110, CL_INVALID_PROPERTY),
      (120, CL_INVALID_IMAGE_DESCRIPTOR), (120, CL_INVALID_COMPILER_OPTIONS),
      (120, CL_INVALID_LINKER_OPTIONS), (120, CL_INVALID_DEVICE_PARTITION_COUNT),
      (200, CL_INVALID_PIPE_SIZE), (200, CL_INVALID_DEVICE_QUEUE), (220, CL_INVALID_SPEC_ID),
      (220, CL_MAX_SIZE_RESTRICTION_EXCEEDED)]"

lemmas cl_error_codes_defs = CL_SUCCESS_def CL_DEVICE_NOT_FOUND_def CL_DEVICE_NOT_AVAILABLE_def
  CL_COMPILER_NOT_AVAILABLE_def CL_MEM_OBJECT_ALLOCATION_FAILURE_def CL_OUT_OF_RESOURCES_def
  CL_OUT_OF_HOST_MEMORY_def CL_PROFILING_INFO_NOT_AVAILABLE_def CL_MEM_COPY_OVERLAP_def
  CL_IMAGE_FORMAT_MISMATCH_def CL_IMAGE_FORMAT_NOT_SUPPORTED_def CL_BUILD_PROGRAM_FAILURE_def
  CL_MAP_FAILURE_def CL_MISALIGNED_SUB_BUFFER_OFFSET_def
  CL_EXEC_STATUS_ERROR_FOR_EVENTS_IN_WAIT_LIST_def CL_COMPILE_PROGRAM_FAILURE_def
  CL_LINKER_NOT_AVAILABLE_def CL_LINK_PROGRAM_FAILURE_def CL_DEVICE_PARTITION_FAILED_def
  CL_KERNEL_ARG_INFO_NOT_AVAILABLE_def CL_INVALID_VALUE_def CL_INVALID_DEVICE_TYPE_def
  CL_INVALID_PLATFORM_def CL_INVALID_DEVICE_def CL_INVALID_CONTEXT_def
  CL_INVALID_QUEUE_PROPERTIES_def CL_INVALID_COMMAND_QUEUE_def CL_INVALID_HOST_PTR_def
  CL_INVALID_MEM_OBJECT_def CL_INVALID_IMAGE_FORMAT_DESCRIPTOR_def CL_INVALID_IMAGE_SIZE_def
  CL_INVALID_SAMPLER_def CL_INVALID_BINARY_def CL_INVALID_BUILD_OPTIONS_def CL_INVALID_PROGRAM_def
  CL_INVALID_PROGRAM_EXECUTABLE_def CL_INVALID_KERNEL_NAME_def CL_INVALID_KERNEL_DEFINITION_def
  CL_INVALID_KERNEL_def CL_INVALID_ARG_INDEX_def CL_INVALID_ARG_VALUE_def CL_INVALID_ARG_SIZE_def
  CL_INVALID_KERNEL_ARGS_def CL_INVALID_WORK_DIMENSION_def CL_INVALID_WORK_GROUP_SIZE_def
  CL_INVALID_WORK_ITEM_SIZE_def CL_INVALID_GLOBAL_OFFSET_def CL_INVALID_EVENT_WAIT_LIST_def
  CL_INVALID_EVENT_def CL_INVALID_OPERATION_def CL_INVALID_GL_OBJECT_def
  CL_INVALID_BUFFER_SIZE_def CL_INVALID_MIP_LEVEL_def CL_INVALID_GLOBAL_WORK_SIZE_def
  CL_INVALID_PROPERTY_def CL_INVALID_IMAGE_DESCRIPTOR_def CL_INVALID_COMPILER_OPTIONS_def
  CL_INVALID_LINKER_OPTIONS_def CL_INVALID_DEVICE_PARTITION_COUNT_def CL_INVALID_PIPE_SIZE_def
  CL_INVALID_DEVICE_QUEUE_def CL_INVALID_SPEC_ID_def CL_MAX_SIZE_RESTRICTION_EXCEEDED_def

subsection \<open>Bool\<close>

definition CL_FALSE :: u32 where "CL_FALSE = 0"
definition CL_TRUE :: u32 where "CL_TRUE = 1"
definition CL_BLOCKING :: u32 where "CL_BLOCKING = CL_TRUE"
definition CL_NON_BLOCKING :: u32 where "CL_NON_BLOCKING = CL_FALSE"

definition cl_bool :: "(nat \<times> u32) list" where
  "cl_bool =
     [(100, CL_FALSE), (100, CL_TRUE), (120, CL_BLOCKING), (120, CL_NON_BLOCKING)]"

lemmas cl_bool_defs = CL_FALSE_def CL_TRUE_def CL_BLOCKING_def CL_NON_BLOCKING_def

subsection \<open>Platform info\<close>

definition CL_PLATFORM_PROFILE :: u32 where "CL_PLATFORM_PROFILE = 0x0900"
definition CL_PLATFORM_VERSION :: u32 where "CL_PLATFORM_VERSION = 0x0901"
definition CL_PLATFORM_NAME :: u32 where "CL_PLATFORM_NAME = 0x0902"
definition CL_PLATFORM_VENDOR :: u32 where "CL_PLATFORM_VENDOR = 0x0903"
definition CL_PLATFORM_EXTENSIONS :: u32 where "CL_PLATFORM_EXTENSIONS = 0x0904"
definition CL_PLATFORM_HOST_TIMER_RESOLUTION :: u32 where "CL_PLATFORM_HOST_TIMER_RESOLUTION = 0x0905"
definition CL_PLATFORM_NUMERIC_VERSION :: u32 where "CL_PLATFORM_NUMERIC_VERSION = 0x0906"
definition CL_PLATFORM_EXTENSIONS_WITH_VERSION :: u32 where "CL_PLATFORM_EXTENSIONS_WITH_VERSION = 0x0907"

definition cl_platform_info :: "(nat \<times> u32) list" where
  "cl_platform_info =
     [(100, CL_PLATFORM_PROFILE), (100, CL_PLATFORM_VERSION), (100, CL_PLATFORM_NAME),
      (100, CL_PLATFORM_VENDOR), (100, CL_PLATFORM_EXTENSIONS),
      (210, CL_PLATFORM_HOST_TIMER_RESOLUTION), (300, CL_PLATFORM_NUMERIC_VERSION),
      (300, CL_PLATFORM_EXTENSIONS_WITH_VERSION)]"

lemmas cl_platform_info_defs = CL_PLATFORM_PROFILE_def CL_PLATFORM_VERSION_def
  CL_PLATFORM_NAME_def CL_PLATFORM_VENDOR_def CL_PLATFORM_EXTENSIONS_def
  CL_PLATFORM_HOST_TIMER_RESOLUTION_def CL_PLATFORM_NUMERIC_VERSION_def
  CL_PLATFORM_EXTENSIONS_WITH_VERSION_def

subsection \<open>Device type\<close>

definition CL_DEVICE_TYPE_DEFAULT :: u64 where "CL_DEVICE_TYPE_DEFAULT = push_bit 0 1"
definition CL_DEVICE_TYPE_CPU :: u64 where "CL_DEVICE_TYPE_CPU = push_bit 1 1"
definition CL_DEVICE_TYPE_GPU :: u64 where "CL_DEVICE_TYPE_GPU = push_bit 2 1"
definition CL_DEVICE_TYPE_ACCELERATOR :: u64 where "CL_DEVICE_TYPE_ACCELERATOR = push_bit 3 1"
definition CL_DEVICE_TYPE_CUSTOM :: u64 where "CL_DEVICE_TYPE_CUSTOM = push_bit 4 1"
definition CL_DEVICE_TYPE_ALL :: u64 where "CL_DEVICE_TYPE_ALL = 0xFFFFFFFF"

definition cl_device_type :: "(nat \<times> u64) list" where
  "cl_device_type =
     [(100, CL_DEVICE_TYPE_DEFAULT), (100, CL_DEVICE_TYPE_CPU), (100, CL_DEVICE_TYPE_GPU),
      (100, CL_DEVICE_TYPE_ACCELERATOR), (120, CL_DEVICE_TYPE_CUSTOM), (100, CL_DEVICE_TYPE_ALL)]"

lemmas cl_device_type_defs = CL_DEVICE_TYPE_DEFAULT_def CL_DEVICE_TYPE_CPU_def
  CL_DEVICE_TYPE_GPU_def CL_DEVICE_TYPE_ACCELERATOR_def CL_DEVICE_TYPE_CUSTOM_def
  CL_DEVICE_TYPE_ALL_def

subsection \<open>Device info\<close>

definition CL_DEVICE_TYPE :: u32 where "CL_DEVICE_TYPE = 0x1000"
definition CL_DEVICE_VENDOR_ID :: u32 where "CL_DEVICE_VENDOR_ID = 0x1001"
definition CL_DEVICE_MAX_COMPUTE_UNITS :: u32 where "CL_DEVICE_MAX_COMPUTE_UNITS = 0x1002"
definition CL_DEVICE_MAX_WORK_ITEM_DIMENSIONS :: u32 where "CL_DEVICE_MAX_WORK_ITEM_DIMENSIONS = 0x1003"
definition CL_DEVICE_MAX_WORK_GROUP_SIZE :: u32 where "CL_DEVICE_MAX_WORK_GROUP_SIZE = 0x1004"
definition CL_DEVICE_MAX_WORK_ITEM_SIZES :: u32 where "CL_DEVICE_MAX_WORK_ITEM_SIZES = 0x1005"
definition CL_DEVICE_PREFERRED_VECTOR_WIDTH_CHAR :: u32 where "CL_DEVICE_PREFERRED_VECTOR_WIDTH_CHAR = 0x1006"
definition CL_DEVICE_PREFERRED_VECTOR_WIDTH_SHORT :: u32 where "CL_DEVICE_PREFERRED_VECTOR_WIDTH_SHORT = 0x1007"
definition CL_DEVICE_PREFERRED_VECTOR_WIDTH_INT :: u32 where "CL_DEVICE_PREFERRED_VECTOR_WIDTH_INT = 0x1008"
definition CL_DEVICE_PREFERRED_VECTOR_WIDTH_LONG :: u32 where "CL_DEVICE_PREFERRED_VECTOR_WIDTH_LONG = 0x1009"
definition CL_DEVICE_PREFERRED_VECTOR_WIDTH_FLOAT :: u32 where "CL_DEVICE_PREFERRED_VECTOR_WIDTH_FLOAT = 0x100A"
definition CL_DEVICE_PREFERRED_VECTOR_WIDTH_DOUBLE :: u32 where "CL_DEVICE_PREFERRED_VECTOR_WIDTH_DOUBLE = 0x100B"
definition CL_DEVICE_MAX_CLOCK_FREQUENCY :: u32 where "CL_DEVICE_MAX_CLOCK_FREQUENCY = 0x100C"
definition CL_DEVICE_ADDRESS_BITS :: u32 where "CL_DEVICE_ADDRESS_BITS = 0x100D"
definition CL_DEVICE_MAX_READ_IMAGE_ARGS :: u32 where "CL_DEVICE_MAX_READ_IMAGE_ARGS = 0x100E"
definition CL_DEVICE_MAX_WRITE_IMAGE_ARGS :: u32 where "CL_DEVICE_MAX_WRITE_IMAGE_ARGS = 0x100F"
definition CL_DEVICE_MAX_MEM_ALLOC_SIZE :: u32 where "CL_DEVICE_MAX_MEM_ALLOC_SIZE = 0x1010"
definition CL_DEVICE_IMAGE2D_MAX_WIDTH :: u32 where "CL_DEVICE_IMAGE2D_MAX_WIDTH = 0x1011"
definition CL_DEVICE_IMAGE2D_MAX_HEIGHT :: u32 where "CL_DEVICE_IMAGE2D_MAX_HEIGHT = 0x1012"
definition CL_DEVICE_IMAGE3D_MAX_WIDTH :: u32 where "CL_DEVICE_IMAGE3D_MAX_WIDTH = 0x1013"
definition CL_DEVICE_IMAGE3D_MAX_HEIGHT :: u32 where "CL_DEVICE_IMAGE3D_MAX_HEIGHT = 0x1014"
definition CL_DEVICE_IMAGE3D_MAX_DEPTH :: u32 where "CL_DEVICE_IMAGE3D_MAX_DEPTH = 0x1015"
definition CL_DEVICE_IMAGE_SUPPORT :: u32 where "CL_DEVICE_IMAGE_SUPPORT = 0x1016"
definition CL_DEVICE_MAX_PARAMETER_SIZE :: u32 where "CL_DEVICE_MAX_PARAMETER_SIZE = 0x1017"
definition CL_DEVICE_MAX_SAMPLERS :: u32 where "CL_DEVICE_MAX_SAMPLERS = 0x1018"
definition CL_DEVICE_MEM_BASE_ADDR_ALIGN :: u32 where "CL_DEVICE_MEM_BASE_ADDR_ALIGN = 0x1019"
definition CL_DEVICE_MIN_DATA_TYPE_ALIGN_SIZE :: u32 where "CL_DEVICE_MIN_DATA_TYPE_ALIGN_SIZE = 0x101A"
definition CL_DEVICE_SINGLE_FP_CONFIG :: u32 where "CL_DEVICE_SINGLE_FP_CONFIG = 0x101B"
definition CL_DEVICE_GLOBAL_MEM_CACHE_TYPE :: u32 where "CL_DEVICE_GLOBAL_MEM_CACHE_TYPE = 0x101C"
definition CL_DEVICE_GLOBAL_MEM_CACHELINE_SIZE :: u32 where "CL_DEVICE_GLOBAL_MEM_CACHELINE_SIZE = 0x101D"
definition CL_DEVICE_GLOBAL_MEM_CACHE_SIZE :: u32 where "CL_DEVICE_GLOBAL_MEM_CACHE_SIZE = 0x101E"
definition CL_DEVICE_GLOBAL_MEM_SIZE :: u32 where "CL_DEVICE_GLOBAL_MEM_SIZE = 0x101F"
definition CL_DEVICE_MAX_CONSTANT_BUFFER_SIZE :: u32 where "CL_DEVICE_MAX_CONSTANT_BUFFER_SIZE = 0x1020"
definition CL_DEVICE_MAX_CONSTANT_ARGS :: u32 where "CL_DEVICE_MAX_CONSTANT_ARGS = 0x1021"
definition CL_DEVICE_LOCAL_MEM_TYPE :: u32 where "CL_DEVICE_LOCAL_MEM_TYPE = 0x1022"
definition CL_DEVICE_LOCAL_MEM_SIZE :: u32 where "CL_DEVICE_LOCAL_MEM_SIZE = 0x1023"
definition CL_DEVICE_ERROR_CORRECTION_SUPPORT :: u32 where "CL_DEVICE_ERROR_CORRECTION_SUPPORT = 0x1024"
definition CL_DEVICE_PROFILING_TIMER_RESOLUTION :: u32 where "CL_DEVICE_PROFILING_TIMER_RESOLUTION = 0x1025"
definition CL_DEVICE_ENDIAN_LITTLE :: u32 where "CL_DEVICE_ENDIAN_LITTLE = 0x1026"
definition CL_DEVICE_AVAILABLE :: u32 where "CL_DEVICE_AVAILABLE = 0x1027"
definition CL_DEVICE_COMPILER_AVAILABLE :: u32 where "CL_DEVICE_COMPILER_AVAILABLE = 0x1028"
definition CL_DEVICE_EXECUTION_CAPABILITIES :: u32 where "CL_DEVICE_EXECUTION_CAPABILITIES = 0x1029"
definition CL_DEVICE_QUEUE_PROPERTIES :: u32 where "CL_DEVICE_QUEUE_PROPERTIES = 0x102A"
definition CL_DEVICE_QUEUE_ON_HOST_PROPERTIES :: u32 where "CL_DEVICE_QUEUE_ON_HOST_PROPERTIES = 0x102A"
definition CL_DEVICE_NAME :: u32 where "CL_DEVICE_NAME = 0x102B"
definition CL_DEVICE_VENDOR :: u32 where "CL_DEVICE_VENDOR = 0x102C"
definition CL_DRIVER_VERSION :: u32 where "CL_DRIVER_VERSION = 0x102D"
definition CL_DEVICE_PROFILE :: u32 where "CL_DEVICE_PROFILE = 0x102E"
definition CL_DEVICE_VERSION :: u32 where "CL_DEVICE_VERSION = 0x102F"
definition CL_DEVICE_EXTENSIONS :: u32 where "CL_DEVICE_EXTENSIONS = 0x1030"
definition CL_DEVICE_PLATFORM :: u32 where "CL_DEVICE_PLATFORM = 0x1031"
definition CL_DEVICE_DOUBLE_FP_CONFIG :: u32 where "CL_DEVICE_DOUBLE_FP_CONFIG = 0x1032"
definition CL_DEVICE_PREFERRED_VECTOR_WIDTH_HALF :: u32 where "CL_DEVICE_PREFERRED_VECTOR_WIDTH_HALF = 0x1034"
definition CL_DEVICE_HOST_UNIFIED_MEMORY :: u32 where "CL_DEVICE_HOST_UNIFIED_MEMORY = 0x1035"
definition CL_DEVICE_NATIVE_VECTOR_WIDTH_CHAR :: u32 where "CL_DEVICE_NATIVE_VECTOR_WIDTH_CHAR = 0x1036"
definition CL_DEVICE_NATIVE_VECTOR_WIDTH_SHORT :: u32 where "CL_DEVICE_NATIVE_VECTOR_WIDTH_SHORT = 0x1037"
definition CL_DEVICE_NATIVE_VECTOR_WIDTH_INT :: u32 where "CL_DEVICE_NATIVE_VECTOR_WIDTH_INT = 0x1038"
definition CL_DEVICE_NATIVE_VECTOR_WIDTH_LONG :: u32 where "CL_DEVICE_NATIVE_VECTOR_WIDTH_LONG = 0x1039"
definition CL_DEVICE_NATIVE_VECTOR_WIDTH_FLOAT :: u32 where "CL_DEVICE_NATIVE_VECTOR_WIDTH_FLOAT = 0x103A"
definition CL_DEVICE_NATIVE_VECTOR_WIDTH_DOUBLE :: u32 where "CL_DEVICE_NATIVE_VECTOR_WIDTH_DOUBLE = 0x103B"
definition CL_DEVICE_NATIVE_VECTOR_WIDTH_HALF :: u32 where "CL_DEVICE_NATIVE_VECTOR_WIDTH_HALF = 0x103C"
definition CL_DEVICE_OPENCL_C_VERSION :: u32 where "CL_DEVICE_OPENCL_C_VERSION = 0x103D"
definition CL_DEVICE_LINKER_AVAILABLE :: u32 where "CL_DEVICE_LINKER_AVAILABLE = 0x103E"
definition CL_DEVICE_BUILT_IN_KERNELS :: u32 where "CL_DEVICE_BUILT_IN_KERNELS = 0x103F"
definition CL_DEVICE_IMAGE_MAX_BUFFER_SIZE :: u32 where "CL_DEVICE_IMAGE_MAX_BUFFER_SIZE = 0x1040"
definition CL_DEVICE_IMAGE_MAX_ARRAY_SIZE :: u32 where "CL_DEVICE_IMAGE_MAX_ARRAY_SIZE = 0x1041"
definition CL_DEVICE_PARENT_DEVICE :: u32 where "CL_DEVICE_PARENT_DEVICE = 0x1042"
definition CL_DEVICE_PARTITION_MAX_SUB_DEVICES :: u32 where "CL_DEVICE_PARTITION_MAX_SUB_DEVICES = 0x1043"
definition CL_DEVICE_PARTITION_PROPERTIES :: u32 where "CL_DEVICE_PARTITION_PROPERTIES = 0x1044"
definition CL_DEVICE_PARTITION_AFFINITY_DOMAIN :: u32 where "CL_DEVICE_PARTITION_AFFINITY_DOMAIN = 0x1045"
definition CL_DEVICE_PARTITION_TYPE :: u32 where "CL_DEVICE_PARTITION_TYPE = 0x1046"
definition CL_DEVICE_REFERENCE_COUNT :: u32 where "CL_DEVICE_REFERENCE_COUNT = 0x1047"
definition CL_DEVICE_PREFERRED_INTEROP_USER_SYNC :: u32 where "CL_DEVICE_PREFERRED_INTEROP_USER_SYNC = 0x1048"
definition CL_DEVICE_PRINTF_BUFFER_SIZE :: u32 where "CL_DEVICE_PRINTF_BUFFER_SIZE = 0x1049"
definition CL_DEVICE_IMAGE_PITCH_ALIGNMENT :: u32 where "CL_DEVICE_IMAGE_PITCH_ALIGNMENT = 0x104A"
definition CL_DEVICE_IMAGE_BASE_ADDRESS_ALIGNMENT :: u32 where "CL_DEVICE_IMAGE_BASE_ADDRESS_ALIGNMENT = 0x104B"
definition CL_DEVICE_MAX_READ_WRITE_IMAGE_ARGS :: u32 where "CL_DEVICE_MAX_READ_WRITE_IMAGE_ARGS = 0x104C"
definition CL_DEVICE_MAX_GLOBAL_VARIABLE_SIZE :: u32 where "CL_DEVICE_MAX_GLOBAL_VARIABLE_SIZE = 0x104D"
definition CL_DEVICE_QUEUE_ON_DEVICE_PROPERTIES :: u32 where "CL_DEVICE_QUEUE_ON_DEVICE_PROPERTIES = 0x104E"
definition CL_DEVICE_QUEUE_ON_DEVICE_PREFERRED_SIZE :: u32 where "CL_DEVICE_QUEUE_ON_DEVICE_PREFERRED_SIZE = 0x104F"
definition CL_DEVICE_QUEUE_ON_DEVICE_MAX_SIZE :: u32 where "CL_DEVICE_QUEUE_ON_DEVICE_MAX_SIZE = 0x1050"
definition CL_DEVICE_MAX_ON_DEVICE_QUEUES :: u32 where "CL_DEVICE_MAX_ON_DEVICE_QUEUES = 0x1051"
definition CL_DEVICE_MAX_ON_DEVICE_EVENTS :: u32 where "CL_DEVICE_MAX_ON_DEVICE_EVENTS = 0x1052"
definition CL_DEVICE_SVM_CAPABILITIES :: u32 where "CL_DEVICE_SVM_CAPABILITIES = 0x1053"
definition CL_DEVICE_GLOBAL_VARIABLE_PREFERRED_TOTAL_SIZE :: u32 where "CL_DEVICE_GLOBAL_VARIABLE_PREFERRED_TOTAL_SIZE = 0x1054"
definition CL_DEVICE_MAX_PIPE_ARGS :: u32 where "CL_DEVICE_MAX_PIPE_ARGS = 0x1055"
definition CL_DEVICE_PIPE_MAX_ACTIVE_RESERVATIONS :: u32 where "CL_DEVICE_PIPE_MAX_ACTIVE_RESERVATIONS = 0x1056"
definition CL_DEVICE_PIPE_MAX_PACKET_SIZE :: u32 where "CL_DEVICE_PIPE_MAX_PACKET_SIZE = 0x1057"
definition CL_DEVICE_PREFERRED_PLATFORM_ATOMIC_ALIGNMENT :: u32 where "CL_DEVICE_PREFERRED_PLATFORM_ATOMIC_ALIGNMENT = 0x1058"
definition CL_DEVICE_PREFERRED_GLOBAL_ATOMIC_ALIGNMENT :: u32 where "CL_DEVICE_PREFERRED_GLOBAL_ATOMIC_ALIGNMENT = 0x1059"
definition CL_DEVICE_PREFERRED_LOCAL_ATOMIC_ALIGNMENT :: u32 where "CL_DEVICE_PREFERRED_LOCAL_ATOMIC_ALIGNMENT = 0x105A"
definition CL_DEVICE_IL_VERSION :: u32 where "CL_DEVICE_IL_VERSION = 0x105B"
definition CL_DEVICE_MAX_NUM_SUB_GROUPS :: u32 where "CL_DEVICE_MAX_NUM_SUB_GROUPS = 0x105C"
definition CL_DEVICE_SUB_GROUP_INDEPENDENT_FORWARD_PROGRESS :: u32 where "CL_DEVICE_SUB_GROUP_INDEPENDENT_FORWARD_PROGRESS = 0x105D"
definition CL_DEVICE_NUMERIC_VERSION :: u32 where "CL_DEVICE_NUMERIC_VERSION = 0x105E"
definition CL_DEVICE_EXTENSIONS_WITH_VERSION :: u32 where "CL_DEVICE_EXTENSIONS_WITH_VERSION = 0x1060"
definition CL_DEVICE_ILS_WITH_VERSION :: u32 where "CL_DEVICE_ILS_WITH_VERSION = 0x1061"
definition CL_DEVICE_BUILT_IN_KERNELS_WITH_VERSION :: u32 where "CL_DEVICE_BUILT_IN_KERNELS_WITH_VERSION = 0x1062"
definition CL_DEVICE_ATOMIC_MEMORY_CAPABILITIES :: u32 where "CL_DEVICE_ATOMIC_MEMORY_CAPABILITIES = 0x1063"
definition CL_DEVICE_ATOMIC_FENCE_CAPABILITIES :: u32 where "CL_DEVICE_ATOMIC_FENCE_CAPABILITIES = 0x1064"
definition CL_DEVICE_NON_UNIFORM_WORK_GROUP_SUPPORT :: u32 where "CL_DEVICE_NON_UNIFORM_WORK_GROUP_SUPPORT = 0x1065"
definition CL_DEVICE_OPENCL_C_ALL_VERSIONS :: u32 where "CL_DEVICE_OPENCL_C_ALL_VERSIONS = 0x1066"
definition CL_DEVICE_PREFERRED_WORK_GROUP_SIZE_MULTIPLE :: u32 where "CL_DEVICE_PREFERRED_WORK_GROUP_SIZE_MULTIPLE = 0x1067"
definition CL_DEVICE_WORK_GROUP_COLLECTIVE_FUNCTIONS_SUPPORT :: u32 where "CL_DEVICE_WORK_GROUP_COLLECTIVE_FUNCTIONS_SUPPORT = 0x1068"
definition CL_DEVICE_GENERIC_ADDRESS_SPACE_SUPPORT :: u32 where "CL_DEVICE_GENERIC_ADDRESS_SPACE_SUPPORT = 0x1069"
definition CL_DEVICE_OPENCL_C_FEATURES :: u32 where "CL_DEVICE_OPENCL_C_FEATURES = 0x106F"
definition CL_DEVICE_DEVICE_ENQUEUE_CAPABILITIES :: u32 where "CL_DEVICE_DEVICE_ENQUEUE_CAPABILITIES = 0x1070"
definition CL_DEVICE_PIPE_SUPPORT :: u32 where "CL_DEVICE_PIPE_SUPPORT = 0x1071"
definition CL_DEVICE_LATEST_CONFORMANCE_VERSION_PASSED :: u32 where "CL_DEVICE_LATEST_CONFORMANCE_VERSION_PASSED = 0x1072"

definition cl_device_info :: "(nat \<times> u32) list" where
  "cl_device_info =
     [(100, CL_DEVICE_TYPE), (100, CL_DEVICE_VENDOR_ID), (100, CL_DEVICE_MAX_COMPUTE_UNITS),
      (100, CL_DEVICE_MAX_WORK_ITEM_DIMENSIONS), (100, CL_DEVICE_MAX_WORK_GROUP_SIZE),
      (100, CL_DEVICE_MAX_WORK_ITEM_SIZES), (100, CL_DEVICE_PREFERRED_VECTOR_WIDTH_CHAR),
      (100, CL_DEVICE_PREFERRED_VECTOR_WIDTH_SHORT), (100, CL_DEVICE_PREFERRED_VECTOR_WIDTH_INT),
      (100, CL_DEVICE_PREFERRED_VECTOR_WIDTH_LONG), (100, CL_DEVICE_PREFERRED_VECTOR_WIDTH_FLOAT),
      (100, CL_DEVICE_PREFERRED_VECTOR_WIDTH_DOUBLE), (100, CL_DEVICE_MAX_CLOCK_FREQUENCY),
      (100, CL_DEVICE_ADDRESS_BITS), (100, CL_DEVICE_MAX_READ_IMAGE_ARGS),
      (100, CL_DEVICE_MAX_WRITE_IMAGE_ARGS), (100, CL_DEVICE_MAX_MEM_ALLOC_SIZE),
      (100, CL_DEVICE_IMAGE2D_MAX_WIDTH), (100, CL_DEVICE_IMAGE2D_MAX_HEIGHT),
      (100, CL_DEVICE_IMAGE3D_MAX_WIDTH), (100, CL_DEVICE_IMAGE3D_MAX_HEIGHT),
      (100, CL_DEVICE_IMAGE3D_MAX_DEPTH), (100, CL_DEVICE_IMAGE_SUPPORT),
      (100, CL_DEVICE_MAX_PARAMETER_SIZE), (100, CL_DEVICE_MAX_SAMPLERS),
      (100, CL_DEVICE_MEM_BASE_ADDR_ALIGN), (100, CL_DEVICE_MIN_DATA_TYPE_ALIGN_SIZE),
      (100, CL_DEVICE_SINGLE_FP_CONFIG), (100, CL_DEVICE_GLOBAL_MEM_CACHE_TYPE),
      (100, CL_DEVICE_GLOBAL_MEM_CACHELINE_SIZE), (100, CL_DEVICE_GLOBAL_MEM_CACHE_SIZE),
      (100, CL_DEVICE_GLOBAL_MEM_SIZE), (100, CL_DEVICE_MAX_CONSTANT_BUFFER_SIZE),
      (100, CL_DEVICE_MAX_CONSTANT_ARGS), (100, CL_DEVICE_LOCAL_MEM_TYPE),
      (100, CL_DEVICE_LOCAL_MEM_SIZE), (100, CL_DEVICE_ERROR_CORRECTION_SUPPORT),
      (100, CL_DEVICE_PROFILING_TIMER_RESOLUTION), (100, CL_DEVICE_ENDIAN_LITTLE),
      (100, CL_DEVICE_AVAILABLE), (100, CL_DEVICE_COMPILER_AVAILABLE),
      (100, CL_DEVICE_EXECUTION_CAPABILITIES), (100, CL_DEVICE_QUEUE_PROPERTIES),
      (200, CL_DEVICE_QUEUE_ON_HOST_PROPERTIES), (100, CL_DEVICE_NAME), (100, CL_DEVICE_VENDOR),
      (100, CL_DRIVER_VERSION), (100, CL_DEVICE_PROFILE), (100, CL_DEVICE_VERSION),
      (100, CL_DEVICE_EXTENSIONS), (100, CL_DEVICE_PLATFORM), (120, CL_DEVICE_DOUBLE_FP_CONFIG),
      (110, CL_DEVICE_PREFERRED_VECTOR_WIDTH_HALF), (110, CL_DEVICE_HOST_UNIFIED_MEMORY),
      (110, CL_DEVICE_NATIVE_VECTOR_WIDTH_CHAR), (110, CL_DEVICE_NATIVE_VECTOR_WIDTH_SHORT),
      (110, CL_DEVICE_NATIVE_VECTOR_WIDTH_INT), (110, CL_DEVICE_NATIVE_VECTOR_WIDTH_LONG),
      (110, CL_DEVICE_NATIVE_VECTOR_WIDTH_FLOAT), (110, CL_DEVICE_NATIVE_VECTOR_WIDTH_DOUBLE),
      (110, CL_DEVICE_NATIVE_VECTOR_WIDTH_HALF), (110, CL_DEVICE_OPENCL_C_VERSION),
      (120, CL_DEVICE_LINKER_AVAILABLE), (120, CL_DEVICE_BUILT_IN_KERNELS),
      (120, CL_DEVICE_IMAGE_MAX_BUFFER_SIZE), (120, CL_DEVICE_IMAGE_MAX_ARRAY_SIZE),
      (120, CL_DEVICE_PARENT_DEVICE), (120, CL_DEVICE_PARTITION_MAX_SUB_DEVICES),
      (120, CL_DEVICE_PARTITION_PROPERTIES), (120, CL_DEVICE_PARTITION_AFFINITY_DOMAIN),
      (120, CL_DEVICE_PARTITION_TYPE), (120, CL_DEVICE_REFERENCE_COUNT),
      (120, CL_DEVICE_PREFERRED_INTEROP_USER_SYNC), (120, CL_DEVICE_PRINTF_BUFFER_SIZE),
      (200, CL_DEVICE_IMAGE_PITCH_ALIGNMENT), (200, CL_DEVICE_IMAGE_BASE_ADDRESS_ALIGNMENT),
      (200, CL_DEVICE_MAX_READ_WRITE_IMAGE_ARGS), (200, CL_DEVICE_MAX_GLOBAL_VARIABLE_SIZE),
      (200, CL_DEVICE_QUEUE_ON_DEVICE_PROPERTIES),
      (200, CL_DEVICE_QUEUE_ON_DEVICE_PREFERRED_SIZE), (200, CL_DEVICE_QUEUE_ON_DEVICE_MAX_SIZE),
      (200, CL_DEVICE_MAX_ON_DEVICE_QUEUES), (200, CL_DEVICE_MAX_ON_DEVICE_EVENTS),
      (200, CL_DEVICE_SVM_CAPABILITIES), (200, CL_DEVICE_GLOBAL_VARIABLE_PREFERRED_TOTAL_SIZE),
      (200, CL_DEVICE_MAX_PIPE_ARGS), (200, CL_DEVICE_PIPE_MAX_ACTIVE_RESERVATIONS),
      (200, CL_DEVICE_PIPE_MAX_PACKET_SIZE), (200, CL_DEVICE_PREFERRED_PLATFORM_ATOMIC_ALIGNMENT),
      (200, CL_DEVICE_PREFERRED_GLOBAL_ATOMIC_ALIGNMENT),
      (200, CL_DEVICE_PREFERRED_LOCAL_ATOMIC_ALIGNMENT), (210, CL_DEVICE_IL_VERSION),
      (210, CL_DEVICE_MAX_NUM_SUB_GROUPS),
      (210, CL_DEVICE_SUB_GROUP_INDEPENDENT_FORWARD_PROGRESS), (300, CL_DEVICE_NUMERIC_VERSION),
      (300, CL_DEVICE_EXTENSIONS_WITH_VERSION), (300, CL_DEVICE_ILS_WITH_VERSION),
      (300, CL_DEVICE_BUILT_IN_KERNELS_WITH_VERSION), (300, CL_DEVICE_ATOMIC_MEMORY_CAPABILITIES),
      (300, CL_DEVICE_ATOMIC_FENCE_CAPABILITIES), (300, CL_DEVICE_NON_UNIFORM_WORK_GROUP_SUPPORT),
      (300, CL_DEVICE_OPENCL_C_ALL_VERSIONS), (300, CL_DEVICE_PREFERRED_WORK_GROUP_SIZE_MULTIPLE),
      (300, CL_DEVICE_WORK_GROUP_COLLECTIVE_FUNCTIONS_SUPPORT),
      (300, CL_DEVICE_GENERIC_ADDRESS_SPACE_SUPPORT), (300, CL_DEVICE_OPENCL_C_FEATURES),
      (300, CL_DEVICE_DEVICE_ENQUEUE_CAPABILITIES), (300, CL_DEVICE_PIPE_SUPPORT),
      (300, CL_DEVICE_LATEST_CONFORMANCE_VERSION_PASSED)]"

lemmas cl_device_info_defs = CL_DEVICE_TYPE_def CL_DEVICE_VENDOR_ID_def
  CL_DEVICE_MAX_COMPUTE_UNITS_def CL_DEVICE_MAX_WORK_ITEM_DIMENSIONS_def
  CL_DEVICE_MAX_WORK_GROUP_SIZE_def CL_DEVICE_MAX_WORK_ITEM_SIZES_def
  CL_DEVICE_PREFERRED_VECTOR_WIDTH_CHAR_def CL_DEVICE_PREFERRED_VECTOR_WIDTH_SHORT_def
  CL_DEVICE_PREFERRED_VECTOR_WIDTH_INT_def CL_DEVICE_PREFERRED_VECTOR_WIDTH_LONG_def
  CL_DEVICE_PREFERRED_VECTOR_WIDTH_FLOAT_def CL_DEVICE_PREFERRED_VECTOR_WIDTH_DOUBLE_def
  CL_DEVICE_MAX_CLOCK_FREQUENCY_def CL_DEVICE_ADDRESS_BITS_def CL_DEVICE_MAX_READ_IMAGE_ARGS_def
  CL_DEVICE_MAX_WRITE_IMAGE_ARGS_def CL_DEVICE_MAX_MEM_ALLOC_SIZE_def
  CL_DEVICE_IMAGE2D_MAX_WIDTH_def CL_DEVICE_IMAGE2D_MAX_HEIGHT_def CL_DEVICE_IMAGE3D_MAX_WIDTH_def
  CL_DEVICE_IMAGE3D_MAX_HEIGHT_def CL_DEVICE_IMAGE3D_MAX_DEPTH_def CL_DEVICE_IMAGE_SUPPORT_def
  CL_DEVICE_MAX_PARAMETER_SIZE_def CL_DEVICE_MAX_SAMPLERS_def CL_DEVICE_MEM_BASE_ADDR_ALIGN_def
  CL_DEVICE_MIN_DATA_TYPE_ALIGN_SIZE_def CL_DEVICE_SINGLE_FP_CONFIG_def
  CL_DEVICE_GLOBAL_MEM_CACHE_TYPE_def CL_DEVICE_GLOBAL_MEM_CACHELINE_SIZE_def
  CL_DEVICE_GLOBAL_MEM_CACHE_SIZE_def CL_DEVICE_GLOBAL_MEM_SIZE_def
  CL_DEVICE_MAX_CONSTANT_BUFFER_SIZE_def CL_DEVICE_MAX_CONSTANT_ARGS_def
  CL_DEVICE_LOCAL_MEM_TYPE_def CL_DEVICE_LOCAL_MEM_SIZE_def CL_DEVICE_ERROR_CORRECTION_SUPPORT_def
  CL_DEVICE_PROFILING_TIMER_RESOLUTION_def CL_DEVICE_ENDIAN_LITTLE_def CL_DEVICE_AVAILABLE_def
  CL_DEVICE_COMPILER_AVAILABLE_def CL_DEVICE_EXECUTION_CAPABILITIES_def
  CL_DEVICE_QUEUE_PROPERTIES_def CL_DEVICE_QUEUE_ON_HOST_PROPERTIES_def CL_DEVICE_NAME_def
  CL_DEVICE_VENDOR_def CL_DRIVER_VERSION_def CL_DEVICE_PROFILE_def CL_DEVICE_VERSION_def
  CL_DEVICE_EXTENSIONS_def CL_DEVICE_PLATFORM_def CL_DEVICE_DOUBLE_FP_CONFIG_def
  CL_DEVICE_PREFERRED_VECTOR_WIDTH_HALF_def CL_DEVICE_HOST_UNIFIED_MEMORY_def
  CL_DEVICE_NATIVE_VECTOR_WIDTH_CHAR_def CL_DEVICE_NATIVE_VECTOR_WIDTH_SHORT_def
  CL_DEVICE_NATIVE_VECTOR_WIDTH_INT_def CL_DEVICE_NATIVE_VECTOR_WIDTH_LONG_def
  CL_DEVICE_NATIVE_VECTOR_WIDTH_FLOAT_def CL_DEVICE_NATIVE_VECTOR_WIDTH_DOUBLE_def
  CL_DEVICE_NATIVE_VECTOR_WIDTH_HALF_def CL_DEVICE_OPENCL_C_VERSION_def
  CL_DEVICE_LINKER_AVAILABLE_def CL_DEVICE_BUILT_IN_KERNELS_def
  CL_DEVICE_IMAGE_MAX_BUFFER_SIZE_def CL_DEVICE_IMAGE_MAX_ARRAY_SIZE_def
  CL_DEVICE_PARENT_DEVICE_def CL_DEVICE_PARTITION_MAX_SUB_DEVICES_def
  CL_DEVICE_PARTITION_PROPERTIES_def CL_DEVICE_PARTITION_AFFINITY_DOMAIN_def
  CL_DEVICE_PARTITION_TYPE_def CL_DEVICE_REFERENCE_COUNT_def
  CL_DEVICE_PREFERRED_INTEROP_USER_SYNC_def CL_DEVICE_PRINTF_BUFFER_SIZE_def
  CL_DEVICE_IMAGE_PITCH_ALIGNMENT_def CL_DEVICE_IMAGE_BASE_ADDRESS_ALIGNMENT_def
  CL_DEVICE_MAX_READ_WRITE_IMAGE_ARGS_def CL_DEVICE_MAX_GLOBAL_VARIABLE_SIZE_def
  CL_DEVICE_QUEUE_ON_DEVICE_PROPERTIES_def CL_DEVICE_QUEUE_ON_DEVICE_PREFERRED_SIZE_def
  CL_DEVICE_QUEUE_ON_DEVICE_MAX_SIZE_def CL_DEVICE_MAX_ON_DEVICE_QUEUES_def
  CL_DEVICE_MAX_ON_DEVICE_EVENTS_def CL_DEVICE_SVM_CAPABILITIES_def
  CL_DEVICE_GLOBAL_VARIABLE_PREFERRED_TOTAL_SIZE_def CL_DEVICE_MAX_PIPE_ARGS_def
  CL_DEVICE_PIPE_MAX_ACTIVE_RESERVATIONS_def CL_DEVICE_PIPE_MAX_PACKET_SIZE_def
  CL_DEVICE_PREFERRED_PLATFORM_ATOMIC_ALIGNMENT_def
  CL_DEVICE_PREFERRED_GLOBAL_ATOMIC_ALIGNMENT_def CL_DEVICE_PREFERRED_LOCAL_ATOMIC_ALIGNMENT_def
  CL_DEVICE_IL_VERSION_def CL_DEVICE_MAX_NUM_SUB_GROUPS_def
  CL_DEVICE_SUB_GROUP_INDEPENDENT_FORWARD_PROGRESS_def CL_DEVICE_NUMERIC_VERSION_def
  CL_DEVICE_EXTENSIONS_WITH_VERSION_def CL_DEVICE_ILS_WITH_VERSION_def
  CL_DEVICE_BUILT_IN_KERNELS_WITH_VERSION_def CL_DEVICE_ATOMIC_MEMORY_CAPABILITIES_def
  CL_DEVICE_ATOMIC_FENCE_CAPABILITIES_def CL_DEVICE_NON_UNIFORM_WORK_GROUP_SUPPORT_def
  CL_DEVICE_OPENCL_C_ALL_VERSIONS_def CL_DEVICE_PREFERRED_WORK_GROUP_SIZE_MULTIPLE_def
  CL_DEVICE_WORK_GROUP_COLLECTIVE_FUNCTIONS_SUPPORT_def
  CL_DEVICE_GENERIC_ADDRESS_SPACE_SUPPORT_def CL_DEVICE_OPENCL_C_FEATURES_def
  CL_DEVICE_DEVICE_ENQUEUE_CAPABILITIES_def CL_DEVICE_PIPE_SUPPORT_def
  CL_DEVICE_LATEST_CONFORMANCE_VERSION_PASSED_def

subsection \<open>Device fp config\<close>

definition CL_FP_DENORM :: u64 where "CL_FP_DENORM = push_bit 0 1"
definition CL_FP_INF_NAN :: u64 where "CL_FP_INF_NAN = push_bit 1 1"
definition CL_FP_ROUND_TO_NEAREST :: u64 where "CL_FP_ROUND_TO_NEAREST = push_bit 2 1"
definition CL_FP_ROUND_TO_ZERO :: u64 where "CL_FP_ROUND_TO_ZERO = push_bit 3 1"
definition CL_FP_ROUND_TO_INF :: u64 where "CL_FP_ROUND_TO_INF = push_bit 4 1"
definition CL_FP_FMA :: u64 where "CL_FP_FMA = push_bit 5 1"
definition CL_FP_SOFT_FLOAT :: u64 where "CL_FP_SOFT_FLOAT = push_bit 6 1"
definition CL_FP_CORRECTLY_ROUNDED_DIVIDE_SQRT :: u64 where "CL_FP_CORRECTLY_ROUNDED_DIVIDE_SQRT = push_bit 7 1"

definition cl_device_fp_config :: "(nat \<times> u64) list" where
  "cl_device_fp_config =
     [(100, CL_FP_DENORM), (100, CL_FP_INF_NAN), (100, CL_FP_ROUND_TO_NEAREST),
      (100, CL_FP_ROUND_TO_ZERO), (100, CL_FP_ROUND_TO_INF), (100, CL_FP_FMA),
      (110, CL_FP_SOFT_FLOAT), (120, CL_FP_CORRECTLY_ROUNDED_DIVIDE_SQRT)]"

lemmas cl_device_fp_config_defs = CL_FP_DENORM_def CL_FP_INF_NAN_def CL_FP_ROUND_TO_NEAREST_def
  CL_FP_ROUND_TO_ZERO_def CL_FP_ROUND_TO_INF_def CL_FP_FMA_def CL_FP_SOFT_FLOAT_def
  CL_FP_CORRECTLY_ROUNDED_DIVIDE_SQRT_def

subsection \<open>Device mem cache type\<close>

definition CL_NONE :: u32 where "CL_NONE = 0x0"
definition CL_READ_ONLY_CACHE :: u32 where "CL_READ_ONLY_CACHE = 0x1"
definition CL_READ_WRITE_CACHE :: u32 where "CL_READ_WRITE_CACHE = 0x2"

definition cl_device_mem_cache_type :: "(nat \<times> u32) list" where
  "cl_device_mem_cache_type =
     [(100, CL_NONE), (100, CL_READ_ONLY_CACHE), (100, CL_READ_WRITE_CACHE)]"

lemmas cl_device_mem_cache_type_defs = CL_NONE_def CL_READ_ONLY_CACHE_def CL_READ_WRITE_CACHE_def

subsection \<open>Device local mem type\<close>

definition CL_LOCAL :: u32 where "CL_LOCAL = 0x1"
definition CL_GLOBAL :: u32 where "CL_GLOBAL = 0x2"

definition cl_device_local_mem_type :: "(nat \<times> u32) list" where
  "cl_device_local_mem_type =
     [(100, CL_LOCAL), (100, CL_GLOBAL)]"

lemmas cl_device_local_mem_type_defs = CL_LOCAL_def CL_GLOBAL_def

subsection \<open>Device exec capabilities\<close>

definition CL_EXEC_KERNEL :: u64 where "CL_EXEC_KERNEL = push_bit 0 1"
definition CL_EXEC_NATIVE_KERNEL :: u64 where "CL_EXEC_NATIVE_KERNEL = push_bit 1 1"

definition cl_device_exec_capabilities :: "(nat \<times> u64) list" where
  "cl_device_exec_capabilities =
     [(100, CL_EXEC_KERNEL), (100, CL_EXEC_NATIVE_KERNEL)]"

lemmas cl_device_exec_capabilities_defs = CL_EXEC_KERNEL_def CL_EXEC_NATIVE_KERNEL_def

subsection \<open>Command queue properties\<close>

definition CL_QUEUE_OUT_OF_ORDER_EXEC_MODE_ENABLE :: u64 where "CL_QUEUE_OUT_OF_ORDER_EXEC_MODE_ENABLE = push_bit 0 1"
definition CL_QUEUE_PROFILING_ENABLE :: u64 where "CL_QUEUE_PROFILING_ENABLE = push_bit 1 1"
definition CL_QUEUE_ON_DEVICE :: u64 where "CL_QUEUE_ON_DEVICE = push_bit 2 1"
definition CL_QUEUE_ON_DEVICE_DEFAULT :: u64 where "CL_QUEUE_ON_DEVICE_DEFAULT = push_bit 3 1"

definition cl_command_queue_properties :: "(nat \<times> u64) list" where
  "cl_command_queue_properties =
     [(100, CL_QUEUE_OUT_OF_ORDER_EXEC_MODE_ENABLE), (100, CL_QUEUE_PROFILING_ENABLE),
      (200, CL_QUEUE_ON_DEVICE), (200, CL_QUEUE_ON_DEVICE_DEFAULT)]"

lemmas cl_command_queue_properties_defs = CL_QUEUE_OUT_OF_ORDER_EXEC_MODE_ENABLE_def
  CL_QUEUE_PROFILING_ENABLE_def CL_QUEUE_ON_DEVICE_def CL_QUEUE_ON_DEVICE_DEFAULT_def

subsection \<open>Context info\<close>

definition CL_CONTEXT_REFERENCE_COUNT :: u32 where "CL_CONTEXT_REFERENCE_COUNT = 0x1080"
definition CL_CONTEXT_DEVICES :: u32 where "CL_CONTEXT_DEVICES = 0x1081"
definition CL_CONTEXT_PROPERTIES :: u32 where "CL_CONTEXT_PROPERTIES = 0x1082"
definition CL_CONTEXT_NUM_DEVICES :: u32 where "CL_CONTEXT_NUM_DEVICES = 0x1083"

definition cl_context_info :: "(nat \<times> u32) list" where
  "cl_context_info =
     [(100, CL_CONTEXT_REFERENCE_COUNT), (100, CL_CONTEXT_DEVICES), (100, CL_CONTEXT_PROPERTIES),
      (110, CL_CONTEXT_NUM_DEVICES)]"

lemmas cl_context_info_defs = CL_CONTEXT_REFERENCE_COUNT_def CL_CONTEXT_DEVICES_def
  CL_CONTEXT_PROPERTIES_def CL_CONTEXT_NUM_DEVICES_def

subsection \<open>Context properties\<close>

definition CL_CONTEXT_PLATFORM :: int where "CL_CONTEXT_PLATFORM = 0x1084"
definition CL_CONTEXT_INTEROP_USER_SYNC :: int where "CL_CONTEXT_INTEROP_USER_SYNC = 0x1085"

definition cl_context_properties :: "(nat \<times> int) list" where
  "cl_context_properties =
     [(100, CL_CONTEXT_PLATFORM), (120, CL_CONTEXT_INTEROP_USER_SYNC)]"

lemmas cl_context_properties_defs = CL_CONTEXT_PLATFORM_def CL_CONTEXT_INTEROP_USER_SYNC_def

subsection \<open>Device partition property\<close>

definition CL_DEVICE_PARTITION_EQUALLY :: int where "CL_DEVICE_PARTITION_EQUALLY = 0x1086"
definition CL_DEVICE_PARTITION_BY_COUNTS :: int where "CL_DEVICE_PARTITION_BY_COUNTS = 0x1087"
definition CL_DEVICE_PARTITION_BY_COUNTS_LIST_END :: int where "CL_DEVICE_PARTITION_BY_COUNTS_LIST_END = 0x0"
definition CL_DEVICE_PARTITION_BY_AFFINITY_DOMAIN :: int where "CL_DEVICE_PARTITION_BY_AFFINITY_DOMAIN = 0x1088"

definition cl_device_partition_property :: "(nat \<times> int) list" where
  "cl_device_partition_property =
     [(120, CL_DEVICE_PARTITION_EQUALLY), (120, CL_DEVICE_PARTITION_BY_COUNTS),
      (120, CL_DEVICE_PARTITION_BY_COUNTS_LIST_END),
      (120, CL_DEVICE_PARTITION_BY_AFFINITY_DOMAIN)]"

lemmas cl_device_partition_property_defs = CL_DEVICE_PARTITION_EQUALLY_def
  CL_DEVICE_PARTITION_BY_COUNTS_def CL_DEVICE_PARTITION_BY_COUNTS_LIST_END_def
  CL_DEVICE_PARTITION_BY_AFFINITY_DOMAIN_def

subsection \<open>Device affinity domain\<close>

definition CL_DEVICE_AFFINITY_DOMAIN_NUMA :: u64 where "CL_DEVICE_AFFINITY_DOMAIN_NUMA = push_bit 0 1"
definition CL_DEVICE_AFFINITY_DOMAIN_L4_CACHE :: u64 where "CL_DEVICE_AFFINITY_DOMAIN_L4_CACHE = push_bit 1 1"
definition CL_DEVICE_AFFINITY_DOMAIN_L3_CACHE :: u64 where "CL_DEVICE_AFFINITY_DOMAIN_L3_CACHE = push_bit 2 1"
definition CL_DEVICE_AFFINITY_DOMAIN_L2_CACHE :: u64 where "CL_DEVICE_AFFINITY_DOMAIN_L2_CACHE = push_bit 3 1"
definition CL_DEVICE_AFFINITY_DOMAIN_L1_CACHE :: u64 where "CL_DEVICE_AFFINITY_DOMAIN_L1_CACHE = push_bit 4 1"
definition CL_DEVICE_AFFINITY_DOMAIN_NEXT_PARTITIONABLE :: u64 where "CL_DEVICE_AFFINITY_DOMAIN_NEXT_PARTITIONABLE = push_bit 5 1"

definition cl_device_affinity_domain :: "(nat \<times> u64) list" where
  "cl_device_affinity_domain =
     [(120, CL_DEVICE_AFFINITY_DOMAIN_NUMA), (120, CL_DEVICE_AFFINITY_DOMAIN_L4_CACHE),
      (120, CL_DEVICE_AFFINITY_DOMAIN_L3_CACHE), (120, CL_DEVICE_AFFINITY_DOMAIN_L2_CACHE),
      (120, CL_DEVICE_AFFINITY_DOMAIN_L1_CACHE),
      (120, CL_DEVICE_AFFINITY_DOMAIN_NEXT_PARTITIONABLE)]"

lemmas cl_device_affinity_domain_defs = CL_DEVICE_AFFINITY_DOMAIN_NUMA_def
  CL_DEVICE_AFFINITY_DOMAIN_L4_CACHE_def CL_DEVICE_AFFINITY_DOMAIN_L3_CACHE_def
  CL_DEVICE_AFFINITY_DOMAIN_L2_CACHE_def CL_DEVICE_AFFINITY_DOMAIN_L1_CACHE_def
  CL_DEVICE_AFFINITY_DOMAIN_NEXT_PARTITIONABLE_def

subsection \<open>Device svm capabilities\<close>

definition CL_DEVICE_SVM_COARSE_GRAIN_BUFFER :: u64 where "CL_DEVICE_SVM_COARSE_GRAIN_BUFFER = push_bit 0 1"
definition CL_DEVICE_SVM_FINE_GRAIN_BUFFER :: u64 where "CL_DEVICE_SVM_FINE_GRAIN_BUFFER = push_bit 1 1"
definition CL_DEVICE_SVM_FINE_GRAIN_SYSTEM :: u64 where "CL_DEVICE_SVM_FINE_GRAIN_SYSTEM = push_bit 2 1"
definition CL_DEVICE_SVM_ATOMICS :: u64 where "CL_DEVICE_SVM_ATOMICS = push_bit 3 1"

definition cl_device_svm_capabilities :: "(nat \<times> u64) list" where
  "cl_device_svm_capabilities =
     [(200, CL_DEVICE_SVM_COARSE_GRAIN_BUFFER), (200, CL_DEVICE_SVM_FINE_GRAIN_BUFFER),
      (200, CL_DEVICE_SVM_FINE_GRAIN_SYSTEM), (200, CL_DEVICE_SVM_ATOMICS)]"

lemmas cl_device_svm_capabilities_defs = CL_DEVICE_SVM_COARSE_GRAIN_BUFFER_def
  CL_DEVICE_SVM_FINE_GRAIN_BUFFER_def CL_DEVICE_SVM_FINE_GRAIN_SYSTEM_def
  CL_DEVICE_SVM_ATOMICS_def

subsection \<open>Command queue info\<close>

definition CL_QUEUE_CONTEXT :: u32 where "CL_QUEUE_CONTEXT = 0x1090"
definition CL_QUEUE_DEVICE :: u32 where "CL_QUEUE_DEVICE = 0x1091"
definition CL_QUEUE_REFERENCE_COUNT :: u32 where "CL_QUEUE_REFERENCE_COUNT = 0x1092"
definition CL_QUEUE_PROPERTIES :: u32 where "CL_QUEUE_PROPERTIES = 0x1093"
definition CL_QUEUE_SIZE :: u32 where "CL_QUEUE_SIZE = 0x1094"
definition CL_QUEUE_DEVICE_DEFAULT :: u32 where "CL_QUEUE_DEVICE_DEFAULT = 0x1095"
definition CL_QUEUE_PROPERTIES_ARRAY :: u32 where "CL_QUEUE_PROPERTIES_ARRAY = 0x1098"

definition cl_command_queue_info :: "(nat \<times> u32) list" where
  "cl_command_queue_info =
     [(100, CL_QUEUE_CONTEXT), (100, CL_QUEUE_DEVICE), (100, CL_QUEUE_REFERENCE_COUNT),
      (100, CL_QUEUE_PROPERTIES), (200, CL_QUEUE_SIZE), (210, CL_QUEUE_DEVICE_DEFAULT),
      (300, CL_QUEUE_PROPERTIES_ARRAY)]"

lemmas cl_command_queue_info_defs = CL_QUEUE_CONTEXT_def CL_QUEUE_DEVICE_def
  CL_QUEUE_REFERENCE_COUNT_def CL_QUEUE_PROPERTIES_def CL_QUEUE_SIZE_def
  CL_QUEUE_DEVICE_DEFAULT_def CL_QUEUE_PROPERTIES_ARRAY_def

subsection \<open>Mem flags\<close>

definition CL_MEM_READ_WRITE :: u64 where "CL_MEM_READ_WRITE = push_bit 0 1"
definition CL_MEM_WRITE_ONLY :: u64 where "CL_MEM_WRITE_ONLY = push_bit 1 1"
definition CL_MEM_READ_ONLY :: u64 where "CL_MEM_READ_ONLY = push_bit 2 1"
definition CL_MEM_USE_HOST_PTR :: u64 where "CL_MEM_USE_HOST_PTR = push_bit 3 1"
definition CL_MEM_ALLOC_HOST_PTR :: u64 where "CL_MEM_ALLOC_HOST_PTR = push_bit 4 1"
definition CL_MEM_COPY_HOST_PTR :: u64 where "CL_MEM_COPY_HOST_PTR = push_bit 5 1"
definition CL_MEM_HOST_WRITE_ONLY :: u64 where "CL_MEM_HOST_WRITE_ONLY = push_bit 7 1"
definition CL_MEM_HOST_READ_ONLY :: u64 where "CL_MEM_HOST_READ_ONLY = push_bit 8 1"
definition CL_MEM_HOST_NO_ACCESS :: u64 where "CL_MEM_HOST_NO_ACCESS = push_bit 9 1"
definition CL_MEM_SVM_FINE_GRAIN_BUFFER :: u64 where "CL_MEM_SVM_FINE_GRAIN_BUFFER = push_bit 10 1"
definition CL_MEM_SVM_ATOMICS :: u64 where "CL_MEM_SVM_ATOMICS = push_bit 11 1"
definition CL_MEM_KERNEL_READ_AND_WRITE :: u64 where "CL_MEM_KERNEL_READ_AND_WRITE = push_bit 12 1"

definition cl_mem_flags :: "(nat \<times> u64) list" where
  "cl_mem_flags =
     [(100, CL_MEM_READ_WRITE), (100, CL_MEM_WRITE_ONLY), (100, CL_MEM_READ_ONLY),
      (100, CL_MEM_USE_HOST_PTR), (100, CL_MEM_ALLOC_HOST_PTR), (100, CL_MEM_COPY_HOST_PTR),
      (120, CL_MEM_HOST_WRITE_ONLY), (120, CL_MEM_HOST_READ_ONLY), (120, CL_MEM_HOST_NO_ACCESS),
      (200, CL_MEM_SVM_FINE_GRAIN_BUFFER), (200, CL_MEM_SVM_ATOMICS),
      (200, CL_MEM_KERNEL_READ_AND_WRITE)]"

lemmas cl_mem_flags_defs = CL_MEM_READ_WRITE_def CL_MEM_WRITE_ONLY_def CL_MEM_READ_ONLY_def
  CL_MEM_USE_HOST_PTR_def CL_MEM_ALLOC_HOST_PTR_def CL_MEM_COPY_HOST_PTR_def
  CL_MEM_HOST_WRITE_ONLY_def CL_MEM_HOST_READ_ONLY_def CL_MEM_HOST_NO_ACCESS_def
  CL_MEM_SVM_FINE_GRAIN_BUFFER_def CL_MEM_SVM_ATOMICS_def CL_MEM_KERNEL_READ_AND_WRITE_def

subsection \<open>Mem migration flags\<close>

definition CL_MIGRATE_MEM_OBJECT_HOST :: u64 where "CL_MIGRATE_MEM_OBJECT_HOST = push_bit 0 1"
definition CL_MIGRATE_MEM_OBJECT_CONTENT_UNDEFINED :: u64 where "CL_MIGRATE_MEM_OBJECT_CONTENT_UNDEFINED = push_bit 1 1"

definition cl_mem_migration_flags :: "(nat \<times> u64) list" where
  "cl_mem_migration_flags =
     [(120, CL_MIGRATE_MEM_OBJECT_HOST), (120, CL_MIGRATE_MEM_OBJECT_CONTENT_UNDEFINED)]"

lemmas cl_mem_migration_flags_defs = CL_MIGRATE_MEM_OBJECT_HOST_def
  CL_MIGRATE_MEM_OBJECT_CONTENT_UNDEFINED_def

subsection \<open>Channel order\<close>

definition CL_R :: u32 where "CL_R = 0x10B0"
definition CL_A :: u32 where "CL_A = 0x10B1"
definition CL_RG :: u32 where "CL_RG = 0x10B2"
definition CL_RA :: u32 where "CL_RA = 0x10B3"
definition CL_RGB :: u32 where "CL_RGB = 0x10B4"
definition CL_RGBA :: u32 where "CL_RGBA = 0x10B5"
definition CL_BGRA :: u32 where "CL_BGRA = 0x10B6"
definition CL_ARGB :: u32 where "CL_ARGB = 0x10B7"
definition CL_INTENSITY :: u32 where "CL_INTENSITY = 0x10B8"
definition CL_LUMINANCE :: u32 where "CL_LUMINANCE = 0x10B9"
definition CL_Rx :: u32 where "CL_Rx = 0x10BA"
definition CL_RGx :: u32 where "CL_RGx = 0x10BB"
definition CL_RGBx :: u32 where "CL_RGBx = 0x10BC"
definition CL_DEPTH :: u32 where "CL_DEPTH = 0x10BD"
definition CL_sRGB :: u32 where "CL_sRGB = 0x10BF"
definition CL_sRGBx :: u32 where "CL_sRGBx = 0x10C0"
definition CL_sRGBA :: u32 where "CL_sRGBA = 0x10C1"
definition CL_sBGRA :: u32 where "CL_sBGRA = 0x10C2"
definition CL_ABGR :: u32 where "CL_ABGR = 0x10C3"

definition cl_channel_order :: "(nat \<times> u32) list" where
  "cl_channel_order =
     [(100, CL_R), (100, CL_A), (100, CL_RG), (100, CL_RA), (100, CL_RGB), (100, CL_RGBA),
      (100, CL_BGRA), (100, CL_ARGB), (100, CL_INTENSITY), (100, CL_LUMINANCE), (110, CL_Rx),
      (110, CL_RGx), (110, CL_RGBx), (200, CL_DEPTH), (200, CL_sRGB), (200, CL_sRGBx),
      (200, CL_sRGBA), (200, CL_sBGRA), (200, CL_ABGR)]"

lemmas cl_channel_order_defs = CL_R_def CL_A_def CL_RG_def CL_RA_def CL_RGB_def CL_RGBA_def
  CL_BGRA_def CL_ARGB_def CL_INTENSITY_def CL_LUMINANCE_def CL_Rx_def CL_RGx_def CL_RGBx_def
  CL_DEPTH_def CL_sRGB_def CL_sRGBx_def CL_sRGBA_def CL_sBGRA_def CL_ABGR_def

subsection \<open>Channel type\<close>

definition CL_SNORM_INT8 :: u32 where "CL_SNORM_INT8 = 0x10D0"
definition CL_SNORM_INT16 :: u32 where "CL_SNORM_INT16 = 0x10D1"
definition CL_UNORM_INT8 :: u32 where "CL_UNORM_INT8 = 0x10D2"
definition CL_UNORM_INT16 :: u32 where "CL_UNORM_INT16 = 0x10D3"
definition CL_UNORM_SHORT_565 :: u32 where "CL_UNORM_SHORT_565 = 0x10D4"
definition CL_UNORM_SHORT_555 :: u32 where "CL_UNORM_SHORT_555 = 0x10D5"
definition CL_UNORM_INT_101010 :: u32 where "CL_UNORM_INT_101010 = 0x10D6"
definition CL_SIGNED_INT8 :: u32 where "CL_SIGNED_INT8 = 0x10D7"
definition CL_SIGNED_INT16 :: u32 where "CL_SIGNED_INT16 = 0x10D8"
definition CL_SIGNED_INT32 :: u32 where "CL_SIGNED_INT32 = 0x10D9"
definition CL_UNSIGNED_INT8 :: u32 where "CL_UNSIGNED_INT8 = 0x10DA"
definition CL_UNSIGNED_INT16 :: u32 where "CL_UNSIGNED_INT16 = 0x10DB"
definition CL_UNSIGNED_INT32 :: u32 where "CL_UNSIGNED_INT32 = 0x10DC"
definition CL_HALF_FLOAT :: u32 where "CL_HALF_FLOAT = 0x10DD"
definition CL_FLOAT :: u32 where "CL_FLOAT = 0x10DE"
definition CL_UNORM_INT_101010_2 :: u32 where "CL_UNORM_INT_101010_2 = 0x10E0"

definition cl_channel_type :: "(nat \<times> u32) list" where
  "cl_channel_type =
     [(100, CL_SNORM_INT8), (100, CL_SNORM_INT16), (100, CL_UNORM_INT8), (100, CL_UNORM_INT16),
      (100, CL_UNORM_SHORT_565), (100, CL_UNORM_SHORT_555), (100, CL_UNORM_INT_101010),
      (100, CL_SIGNED_INT8), (100, CL_SIGNED_INT16), (100, CL_SIGNED_INT32),
      (100, CL_UNSIGNED_INT8), (100, CL_UNSIGNED_INT16), (100, CL_UNSIGNED_INT32),
      (100, CL_HALF_FLOAT), (100, CL_FLOAT), (210, CL_UNORM_INT_101010_2)]"

lemmas cl_channel_type_defs = CL_SNORM_INT8_def CL_SNORM_INT16_def CL_UNORM_INT8_def
  CL_UNORM_INT16_def CL_UNORM_SHORT_565_def CL_UNORM_SHORT_555_def CL_UNORM_INT_101010_def
  CL_SIGNED_INT8_def CL_SIGNED_INT16_def CL_SIGNED_INT32_def CL_UNSIGNED_INT8_def
  CL_UNSIGNED_INT16_def CL_UNSIGNED_INT32_def CL_HALF_FLOAT_def CL_FLOAT_def
  CL_UNORM_INT_101010_2_def

subsection \<open>Mem object type\<close>

definition CL_MEM_OBJECT_BUFFER :: u32 where "CL_MEM_OBJECT_BUFFER = 0x10F0"
definition CL_MEM_OBJECT_IMAGE2D :: u32 where "CL_MEM_OBJECT_IMAGE2D = 0x10F1"
definition CL_MEM_OBJECT_IMAGE3D :: u32 where "CL_MEM_OBJECT_IMAGE3D = 0x10F2"
definition CL_MEM_OBJECT_IMAGE2D_ARRAY :: u32 where "CL_MEM_OBJECT_IMAGE2D_ARRAY = 0x10F3"
definition CL_MEM_OBJECT_IMAGE1D :: u32 where "CL_MEM_OBJECT_IMAGE1D = 0x10F4"
definition CL_MEM_OBJECT_IMAGE1D_ARRAY :: u32 where "CL_MEM_OBJECT_IMAGE1D_ARRAY = 0x10F5"
definition CL_MEM_OBJECT_IMAGE1D_BUFFER :: u32 where "CL_MEM_OBJECT_IMAGE1D_BUFFER = 0x10F6"
definition CL_MEM_OBJECT_PIPE :: u32 where "CL_MEM_OBJECT_PIPE = 0x10F7"

definition cl_mem_object_type :: "(nat \<times> u32) list" where
  "cl_mem_object_type =
     [(100, CL_MEM_OBJECT_BUFFER), (100, CL_MEM_OBJECT_IMAGE2D), (100, CL_MEM_OBJECT_IMAGE3D),
      (120, CL_MEM_OBJECT_IMAGE2D_ARRAY), (120, CL_MEM_OBJECT_IMAGE1D),
      (120, CL_MEM_OBJECT_IMAGE1D_ARRAY), (120, CL_MEM_OBJECT_IMAGE1D_BUFFER),
      (200, CL_MEM_OBJECT_PIPE)]"

lemmas cl_mem_object_type_defs = CL_MEM_OBJECT_BUFFER_def CL_MEM_OBJECT_IMAGE2D_def
  CL_MEM_OBJECT_IMAGE3D_def CL_MEM_OBJECT_IMAGE2D_ARRAY_def CL_MEM_OBJECT_IMAGE1D_def
  CL_MEM_OBJECT_IMAGE1D_ARRAY_def CL_MEM_OBJECT_IMAGE1D_BUFFER_def CL_MEM_OBJECT_PIPE_def

subsection \<open>Mem info\<close>

definition CL_MEM_TYPE :: u32 where "CL_MEM_TYPE = 0x1100"
definition CL_MEM_FLAGS :: u32 where "CL_MEM_FLAGS = 0x1101"
definition CL_MEM_SIZE :: u32 where "CL_MEM_SIZE = 0x1102"
definition CL_MEM_HOST_PTR :: u32 where "CL_MEM_HOST_PTR = 0x1103"
definition CL_MEM_MAP_COUNT :: u32 where "CL_MEM_MAP_COUNT = 0x1104"
definition CL_MEM_REFERENCE_COUNT :: u32 where "CL_MEM_REFERENCE_COUNT = 0x1105"
definition CL_MEM_CONTEXT :: u32 where "CL_MEM_CONTEXT = 0x1106"
definition CL_MEM_ASSOCIATED_MEMOBJECT :: u32 where "CL_MEM_ASSOCIATED_MEMOBJECT = 0x1107"
definition CL_MEM_OFFSET :: u32 where "CL_MEM_OFFSET = 0x1108"
definition CL_MEM_USES_SVM_POINTER :: u32 where "CL_MEM_USES_SVM_POINTER = 0x1109"
definition CL_MEM_PROPERTIES :: u32 where "CL_MEM_PROPERTIES = 0x110A"

definition cl_mem_info :: "(nat \<times> u32) list" where
  "cl_mem_info =
     [(100, CL_MEM_TYPE), (100, CL_MEM_FLAGS), (100, CL_MEM_SIZE), (100, CL_MEM_HOST_PTR),
      (100, CL_MEM_MAP_COUNT), (100, CL_MEM_REFERENCE_COUNT), (100, CL_MEM_CONTEXT),
      (110, CL_MEM_ASSOCIATED_MEMOBJECT), (110, CL_MEM_OFFSET), (200, CL_MEM_USES_SVM_POINTER),
      (300, CL_MEM_PROPERTIES)]"

lemmas cl_mem_info_defs = CL_MEM_TYPE_def CL_MEM_FLAGS_def CL_MEM_SIZE_def CL_MEM_HOST_PTR_def
  CL_MEM_MAP_COUNT_def CL_MEM_REFERENCE_COUNT_def CL_MEM_CONTEXT_def
  CL_MEM_ASSOCIATED_MEMOBJECT_def CL_MEM_OFFSET_def CL_MEM_USES_SVM_POINTER_def
  CL_MEM_PROPERTIES_def

subsection \<open>Image info\<close>

definition CL_IMAGE_FORMAT :: u32 where "CL_IMAGE_FORMAT = 0x1110"
definition CL_IMAGE_ELEMENT_SIZE :: u32 where "CL_IMAGE_ELEMENT_SIZE = 0x1111"
definition CL_IMAGE_ROW_PITCH :: u32 where "CL_IMAGE_ROW_PITCH = 0x1112"
definition CL_IMAGE_SLICE_PITCH :: u32 where "CL_IMAGE_SLICE_PITCH = 0x1113"
definition CL_IMAGE_WIDTH :: u32 where "CL_IMAGE_WIDTH = 0x1114"
definition CL_IMAGE_HEIGHT :: u32 where "CL_IMAGE_HEIGHT = 0x1115"
definition CL_IMAGE_DEPTH :: u32 where "CL_IMAGE_DEPTH = 0x1116"
definition CL_IMAGE_ARRAY_SIZE :: u32 where "CL_IMAGE_ARRAY_SIZE = 0x1117"
definition CL_IMAGE_BUFFER :: u32 where "CL_IMAGE_BUFFER = 0x1118"
definition CL_IMAGE_NUM_MIP_LEVELS :: u32 where "CL_IMAGE_NUM_MIP_LEVELS = 0x1119"
definition CL_IMAGE_NUM_SAMPLES :: u32 where "CL_IMAGE_NUM_SAMPLES = 0x111A"

definition cl_image_info :: "(nat \<times> u32) list" where
  "cl_image_info =
     [(100, CL_IMAGE_FORMAT), (100, CL_IMAGE_ELEMENT_SIZE), (100, CL_IMAGE_ROW_PITCH),
      (100, CL_IMAGE_SLICE_PITCH), (100, CL_IMAGE_WIDTH), (100, CL_IMAGE_HEIGHT),
      (100, CL_IMAGE_DEPTH), (120, CL_IMAGE_ARRAY_SIZE), (120, CL_IMAGE_BUFFER),
      (120, CL_IMAGE_NUM_MIP_LEVELS), (120, CL_IMAGE_NUM_SAMPLES)]"

lemmas cl_image_info_defs = CL_IMAGE_FORMAT_def CL_IMAGE_ELEMENT_SIZE_def CL_IMAGE_ROW_PITCH_def
  CL_IMAGE_SLICE_PITCH_def CL_IMAGE_WIDTH_def CL_IMAGE_HEIGHT_def CL_IMAGE_DEPTH_def
  CL_IMAGE_ARRAY_SIZE_def CL_IMAGE_BUFFER_def CL_IMAGE_NUM_MIP_LEVELS_def CL_IMAGE_NUM_SAMPLES_def

subsection \<open>Pipe info\<close>

definition CL_PIPE_PACKET_SIZE :: u32 where "CL_PIPE_PACKET_SIZE = 0x1120"
definition CL_PIPE_MAX_PACKETS :: u32 where "CL_PIPE_MAX_PACKETS = 0x1121"
definition CL_PIPE_PROPERTIES :: u32 where "CL_PIPE_PROPERTIES = 0x1122"

definition cl_pipe_info :: "(nat \<times> u32) list" where
  "cl_pipe_info =
     [(200, CL_PIPE_PACKET_SIZE), (200, CL_PIPE_MAX_PACKETS), (300, CL_PIPE_PROPERTIES)]"

lemmas cl_pipe_info_defs = CL_PIPE_PACKET_SIZE_def CL_PIPE_MAX_PACKETS_def CL_PIPE_PROPERTIES_def

subsection \<open>Addressing mode\<close>

definition CL_ADDRESS_NONE :: u32 where "CL_ADDRESS_NONE = 0x1130"
definition CL_ADDRESS_CLAMP_TO_EDGE :: u32 where "CL_ADDRESS_CLAMP_TO_EDGE = 0x1131"
definition CL_ADDRESS_CLAMP :: u32 where "CL_ADDRESS_CLAMP = 0x1132"
definition CL_ADDRESS_REPEAT :: u32 where "CL_ADDRESS_REPEAT = 0x1133"
definition CL_ADDRESS_MIRRORED_REPEAT :: u32 where "CL_ADDRESS_MIRRORED_REPEAT = 0x1134"

definition cl_addressing_mode :: "(nat \<times> u32) list" where
  "cl_addressing_mode =
     [(100, CL_ADDRESS_NONE), (100, CL_ADDRESS_CLAMP_TO_EDGE), (100, CL_ADDRESS_CLAMP),
      (100, CL_ADDRESS_REPEAT), (110, CL_ADDRESS_MIRRORED_REPEAT)]"

lemmas cl_addressing_mode_defs = CL_ADDRESS_NONE_def CL_ADDRESS_CLAMP_TO_EDGE_def
  CL_ADDRESS_CLAMP_def CL_ADDRESS_REPEAT_def CL_ADDRESS_MIRRORED_REPEAT_def

subsection \<open>Filter mode\<close>

definition CL_FILTER_NEAREST :: u32 where "CL_FILTER_NEAREST = 0x1140"
definition CL_FILTER_LINEAR :: u32 where "CL_FILTER_LINEAR = 0x1141"

definition cl_filter_mode :: "(nat \<times> u32) list" where
  "cl_filter_mode =
     [(100, CL_FILTER_NEAREST), (100, CL_FILTER_LINEAR)]"

lemmas cl_filter_mode_defs = CL_FILTER_NEAREST_def CL_FILTER_LINEAR_def

subsection \<open>Sampler info\<close>

definition CL_SAMPLER_REFERENCE_COUNT :: u32 where "CL_SAMPLER_REFERENCE_COUNT = 0x1150"
definition CL_SAMPLER_CONTEXT :: u32 where "CL_SAMPLER_CONTEXT = 0x1151"
definition CL_SAMPLER_NORMALIZED_COORDS :: u32 where "CL_SAMPLER_NORMALIZED_COORDS = 0x1152"
definition CL_SAMPLER_ADDRESSING_MODE :: u32 where "CL_SAMPLER_ADDRESSING_MODE = 0x1153"
definition CL_SAMPLER_FILTER_MODE :: u32 where "CL_SAMPLER_FILTER_MODE = 0x1154"
definition CL_SAMPLER_MIP_FILTER_MODE :: u32 where "CL_SAMPLER_MIP_FILTER_MODE = 0x1155"
definition CL_SAMPLER_LOD_MIN :: u32 where "CL_SAMPLER_LOD_MIN = 0x1156"
definition CL_SAMPLER_LOD_MAX :: u32 where "CL_SAMPLER_LOD_MAX = 0x1157"
definition CL_SAMPLER_PROPERTIES :: u32 where "CL_SAMPLER_PROPERTIES = 0x1158"

definition cl_sampler_info :: "(nat \<times> u32) list" where
  "cl_sampler_info =
     [(100, CL_SAMPLER_REFERENCE_COUNT), (100, CL_SAMPLER_CONTEXT),
      (100, CL_SAMPLER_NORMALIZED_COORDS), (100, CL_SAMPLER_ADDRESSING_MODE),
      (100, CL_SAMPLER_FILTER_MODE), (200, CL_SAMPLER_MIP_FILTER_MODE), (200, CL_SAMPLER_LOD_MIN),
      (200, CL_SAMPLER_LOD_MAX), (300, CL_SAMPLER_PROPERTIES)]"

lemmas cl_sampler_info_defs = CL_SAMPLER_REFERENCE_COUNT_def CL_SAMPLER_CONTEXT_def
  CL_SAMPLER_NORMALIZED_COORDS_def CL_SAMPLER_ADDRESSING_MODE_def CL_SAMPLER_FILTER_MODE_def
  CL_SAMPLER_MIP_FILTER_MODE_def CL_SAMPLER_LOD_MIN_def CL_SAMPLER_LOD_MAX_def
  CL_SAMPLER_PROPERTIES_def

subsection \<open>Map flags\<close>

definition CL_MAP_READ :: u64 where "CL_MAP_READ = push_bit 0 1"
definition CL_MAP_WRITE :: u64 where "CL_MAP_WRITE = push_bit 1 1"
definition CL_MAP_WRITE_INVALIDATE_REGION :: u64 where "CL_MAP_WRITE_INVALIDATE_REGION = push_bit 2 1"

definition cl_map_flags :: "(nat \<times> u64) list" where
  "cl_map_flags =
     [(100, CL_MAP_READ), (100, CL_MAP_WRITE), (120, CL_MAP_WRITE_INVALIDATE_REGION)]"

lemmas cl_map_flags_defs = CL_MAP_READ_def CL_MAP_WRITE_def CL_MAP_WRITE_INVALIDATE_REGION_def

subsection \<open>Program info\<close>

definition CL_PROGRAM_REFERENCE_COUNT :: u32 where "CL_PROGRAM_REFERENCE_COUNT = 0x1160"
definition CL_PROGRAM_CONTEXT :: u32 where "CL_PROGRAM_CONTEXT = 0x1161"
definition CL_PROGRAM_NUM_DEVICES :: u32 where "CL_PROGRAM_NUM_DEVICES = 0x1162"
definition CL_PROGRAM_DEVICES :: u32 where "CL_PROGRAM_DEVICES = 0x1163"
definition CL_PROGRAM_SOURCE :: u32 where "CL_PROGRAM_SOURCE = 0x1164"
definition CL_PROGRAM_BINARY_SIZES :: u32 where "CL_PROGRAM_BINARY_SIZES = 0x1165"
definition CL_PROGRAM_BINARIES :: u32 where "CL_PROGRAM_BINARIES = 0x1166"
definition CL_PROGRAM_NUM_KERNELS :: u32 where "CL_PROGRAM_NUM_KERNELS = 0x1167"
definition CL_PROGRAM_KERNEL_NAMES :: u32 where "CL_PROGRAM_KERNEL_NAMES = 0x1168"
definition CL_PROGRAM_IL :: u32 where "CL_PROGRAM_IL = 0x1169"
definition CL_PROGRAM_SCOPE_GLOBAL_CTORS_PRESENT :: u32 where "CL_PROGRAM_SCOPE_GLOBAL_CTORS_PRESENT = 0x116A"
definition CL_PROGRAM_SCOPE_GLOBAL_DTORS_PRESENT :: u32 where "CL_PROGRAM_SCOPE_GLOBAL_DTORS_PRESENT = 0x116B"

definition cl_program_info :: "(nat \<times> u32) list" where
  "cl_program_info =
     [(100, CL_PROGRAM_REFERENCE_COUNT), (100, CL_PROGRAM_CONTEXT), (100, CL_PROGRAM_NUM_DEVICES),
      (100, CL_PROGRAM_DEVICES), (100, CL_PROGRAM_SOURCE), (100, CL_PROGRAM_BINARY_SIZES),
      (100, CL_PROGRAM_BINARIES), (120, CL_PROGRAM_NUM_KERNELS), (120, CL_PROGRAM_KERNEL_NAMES),
      (210, CL_PROGRAM_IL), (220, CL_PROGRAM_SCOPE_GLOBAL_CTORS_PRESENT),
      (220, CL_PROGRAM_SCOPE_GLOBAL_DTORS_PRESENT)]"

lemmas cl_program_info_defs = CL_PROGRAM_REFERENCE_COUNT_def CL_PROGRAM_CONTEXT_def
  CL_PROGRAM_NUM_DEVICES_def CL_PROGRAM_DEVICES_def CL_PROGRAM_SOURCE_def
  CL_PROGRAM_BINARY_SIZES_def CL_PROGRAM_BINARIES_def CL_PROGRAM_NUM_KERNELS_def
  CL_PROGRAM_KERNEL_NAMES_def CL_PROGRAM_IL_def CL_PROGRAM_SCOPE_GLOBAL_CTORS_PRESENT_def
  CL_PROGRAM_SCOPE_GLOBAL_DTORS_PRESENT_def

subsection \<open>Program build info\<close>

definition CL_PROGRAM_BUILD_STATUS :: u32 where "CL_PROGRAM_BUILD_STATUS = 0x1181"
definition CL_PROGRAM_BUILD_OPTIONS :: u32 where "CL_PROGRAM_BUILD_OPTIONS = 0x1182"
definition CL_PROGRAM_BUILD_LOG :: u32 where "CL_PROGRAM_BUILD_LOG = 0x1183"
definition CL_PROGRAM_BINARY_TYPE :: u32 where "CL_PROGRAM_BINARY_TYPE = 0x1184"
definition CL_PROGRAM_BUILD_GLOBAL_VARIABLE_TOTAL_SIZE :: u32 where "CL_PROGRAM_BUILD_GLOBAL_VARIABLE_TOTAL_SIZE = 0x1185"

definition cl_program_build_info :: "(nat \<times> u32) list" where
  "cl_program_build_info =
     [(100, CL_PROGRAM_BUILD_STATUS), (100, CL_PROGRAM_BUILD_OPTIONS),
      (100, CL_PROGRAM_BUILD_LOG), (120, CL_PROGRAM_BINARY_TYPE),
      (200, CL_PROGRAM_BUILD_GLOBAL_VARIABLE_TOTAL_SIZE)]"

lemmas cl_program_build_info_defs = CL_PROGRAM_BUILD_STATUS_def CL_PROGRAM_BUILD_OPTIONS_def
  CL_PROGRAM_BUILD_LOG_def CL_PROGRAM_BINARY_TYPE_def
  CL_PROGRAM_BUILD_GLOBAL_VARIABLE_TOTAL_SIZE_def

subsection \<open>Program binary type\<close>

definition CL_PROGRAM_BINARY_TYPE_NONE :: u32 where "CL_PROGRAM_BINARY_TYPE_NONE = 0x0"
definition CL_PROGRAM_BINARY_TYPE_COMPILED_OBJECT :: u32 where "CL_PROGRAM_BINARY_TYPE_COMPILED_OBJECT = 0x1"
definition CL_PROGRAM_BINARY_TYPE_LIBRARY :: u32 where "CL_PROGRAM_BINARY_TYPE_LIBRARY = 0x2"
definition CL_PROGRAM_BINARY_TYPE_EXECUTABLE :: u32 where "CL_PROGRAM_BINARY_TYPE_EXECUTABLE = 0x4"

definition cl_program_binary_type :: "(nat \<times> u32) list" where
  "cl_program_binary_type =
     [(120, CL_PROGRAM_BINARY_TYPE_NONE), (120, CL_PROGRAM_BINARY_TYPE_COMPILED_OBJECT),
      (120, CL_PROGRAM_BINARY_TYPE_LIBRARY), (120, CL_PROGRAM_BINARY_TYPE_EXECUTABLE)]"

lemmas cl_program_binary_type_defs = CL_PROGRAM_BINARY_TYPE_NONE_def
  CL_PROGRAM_BINARY_TYPE_COMPILED_OBJECT_def CL_PROGRAM_BINARY_TYPE_LIBRARY_def
  CL_PROGRAM_BINARY_TYPE_EXECUTABLE_def

subsection \<open>Build status\<close>

definition CL_BUILD_SUCCESS :: int where "CL_BUILD_SUCCESS = 0"
definition CL_BUILD_NONE :: int where "CL_BUILD_NONE = - 1"
definition CL_BUILD_ERROR :: int where "CL_BUILD_ERROR = - 2"
definition CL_BUILD_IN_PROGRESS :: int where "CL_BUILD_IN_PROGRESS = - 3"

definition cl_build_status :: "(nat \<times> int) list" where
  "cl_build_status =
     [(100, CL_BUILD_SUCCESS), (100, CL_BUILD_NONE), (100, CL_BUILD_ERROR),
      (100, CL_BUILD_IN_PROGRESS)]"

lemmas cl_build_status_defs = CL_BUILD_SUCCESS_def CL_BUILD_NONE_def CL_BUILD_ERROR_def
  CL_BUILD_IN_PROGRESS_def

subsection \<open>Kernel info\<close>

definition CL_KERNEL_FUNCTION_NAME :: u32 where "CL_KERNEL_FUNCTION_NAME = 0x1190"
definition CL_KERNEL_NUM_ARGS :: u32 where "CL_KERNEL_NUM_ARGS = 0x1191"
definition CL_KERNEL_REFERENCE_COUNT :: u32 where "CL_KERNEL_REFERENCE_COUNT = 0x1192"
definition CL_KERNEL_CONTEXT :: u32 where "CL_KERNEL_CONTEXT = 0x1193"
definition CL_KERNEL_PROGRAM :: u32 where "CL_KERNEL_PROGRAM = 0x1194"
definition CL_KERNEL_ATTRIBUTES :: u32 where "CL_KERNEL_ATTRIBUTES = 0x1195"

definition cl_kernel_info :: "(nat \<times> u32) list" where
  "cl_kernel_info =
     [(100, CL_KERNEL_FUNCTION_NAME), (100, CL_KERNEL_NUM_ARGS), (100, CL_KERNEL_REFERENCE_COUNT),
      (100, CL_KERNEL_CONTEXT), (100, CL_KERNEL_PROGRAM), (120, CL_KERNEL_ATTRIBUTES)]"

lemmas cl_kernel_info_defs = CL_KERNEL_FUNCTION_NAME_def CL_KERNEL_NUM_ARGS_def
  CL_KERNEL_REFERENCE_COUNT_def CL_KERNEL_CONTEXT_def CL_KERNEL_PROGRAM_def
  CL_KERNEL_ATTRIBUTES_def

subsection \<open>Kernel arg info\<close>

definition CL_KERNEL_ARG_ADDRESS_QUALIFIER :: u32 where "CL_KERNEL_ARG_ADDRESS_QUALIFIER = 0x1196"
definition CL_KERNEL_ARG_ACCESS_QUALIFIER :: u32 where "CL_KERNEL_ARG_ACCESS_QUALIFIER = 0x1197"
definition CL_KERNEL_ARG_TYPE_NAME :: u32 where "CL_KERNEL_ARG_TYPE_NAME = 0x1198"
definition CL_KERNEL_ARG_TYPE_QUALIFIER :: u32 where "CL_KERNEL_ARG_TYPE_QUALIFIER = 0x1199"
definition CL_KERNEL_ARG_NAME :: u32 where "CL_KERNEL_ARG_NAME = 0x119A"

definition cl_kernel_arg_info :: "(nat \<times> u32) list" where
  "cl_kernel_arg_info =
     [(120, CL_KERNEL_ARG_ADDRESS_QUALIFIER), (120, CL_KERNEL_ARG_ACCESS_QUALIFIER),
      (120, CL_KERNEL_ARG_TYPE_NAME), (120, CL_KERNEL_ARG_TYPE_QUALIFIER),
      (120, CL_KERNEL_ARG_NAME)]"

lemmas cl_kernel_arg_info_defs = CL_KERNEL_ARG_ADDRESS_QUALIFIER_def
  CL_KERNEL_ARG_ACCESS_QUALIFIER_def CL_KERNEL_ARG_TYPE_NAME_def CL_KERNEL_ARG_TYPE_QUALIFIER_def
  CL_KERNEL_ARG_NAME_def

subsection \<open>Kernel arg address qualifier\<close>

definition CL_KERNEL_ARG_ADDRESS_GLOBAL :: u32 where "CL_KERNEL_ARG_ADDRESS_GLOBAL = 0x119B"
definition CL_KERNEL_ARG_ADDRESS_LOCAL :: u32 where "CL_KERNEL_ARG_ADDRESS_LOCAL = 0x119C"
definition CL_KERNEL_ARG_ADDRESS_CONSTANT :: u32 where "CL_KERNEL_ARG_ADDRESS_CONSTANT = 0x119D"
definition CL_KERNEL_ARG_ADDRESS_PRIVATE :: u32 where "CL_KERNEL_ARG_ADDRESS_PRIVATE = 0x119E"

definition cl_kernel_arg_address_qualifier :: "(nat \<times> u32) list" where
  "cl_kernel_arg_address_qualifier =
     [(120, CL_KERNEL_ARG_ADDRESS_GLOBAL), (120, CL_KERNEL_ARG_ADDRESS_LOCAL),
      (120, CL_KERNEL_ARG_ADDRESS_CONSTANT), (120, CL_KERNEL_ARG_ADDRESS_PRIVATE)]"

lemmas cl_kernel_arg_address_qualifier_defs = CL_KERNEL_ARG_ADDRESS_GLOBAL_def
  CL_KERNEL_ARG_ADDRESS_LOCAL_def CL_KERNEL_ARG_ADDRESS_CONSTANT_def
  CL_KERNEL_ARG_ADDRESS_PRIVATE_def

subsection \<open>Kernel arg access qualifier\<close>

definition CL_KERNEL_ARG_ACCESS_READ_ONLY :: u32 where "CL_KERNEL_ARG_ACCESS_READ_ONLY = 0x11A0"
definition CL_KERNEL_ARG_ACCESS_WRITE_ONLY :: u32 where "CL_KERNEL_ARG_ACCESS_WRITE_ONLY = 0x11A1"
definition CL_KERNEL_ARG_ACCESS_READ_WRITE :: u32 where "CL_KERNEL_ARG_ACCESS_READ_WRITE = 0x11A2"
definition CL_KERNEL_ARG_ACCESS_NONE :: u32 where "CL_KERNEL_ARG_ACCESS_NONE = 0x11A3"

definition cl_kernel_arg_access_qualifier :: "(nat \<times> u32) list" where
  "cl_kernel_arg_access_qualifier =
     [(120, CL_KERNEL_ARG_ACCESS_READ_ONLY), (120, CL_KERNEL_ARG_ACCESS_WRITE_ONLY),
      (120, CL_KERNEL_ARG_ACCESS_READ_WRITE), (120, CL_KERNEL_ARG_ACCESS_NONE)]"

lemmas cl_kernel_arg_access_qualifier_defs = CL_KERNEL_ARG_ACCESS_READ_ONLY_def
  CL_KERNEL_ARG_ACCESS_WRITE_ONLY_def CL_KERNEL_ARG_ACCESS_READ_WRITE_def
  CL_KERNEL_ARG_ACCESS_NONE_def

subsection \<open>Kernel arg type qualifier\<close>

definition CL_KERNEL_ARG_TYPE_NONE :: u64 where "CL_KERNEL_ARG_TYPE_NONE = 0"
definition CL_KERNEL_ARG_TYPE_CONST :: u64 where "CL_KERNEL_ARG_TYPE_CONST = push_bit 0 1"
definition CL_KERNEL_ARG_TYPE_RESTRICT :: u64 where "CL_KERNEL_ARG_TYPE_RESTRICT = push_bit 1 1"
definition CL_KERNEL_ARG_TYPE_VOLATILE :: u64 where "CL_KERNEL_ARG_TYPE_VOLATILE = push_bit 2 1"
definition CL_KERNEL_ARG_TYPE_PIPE :: u64 where "CL_KERNEL_ARG_TYPE_PIPE = push_bit 3 1"

definition cl_kernel_arg_type_qualifier :: "(nat \<times> u64) list" where
  "cl_kernel_arg_type_qualifier =
     [(120, CL_KERNEL_ARG_TYPE_NONE), (120, CL_KERNEL_ARG_TYPE_CONST),
      (120, CL_KERNEL_ARG_TYPE_RESTRICT), (120, CL_KERNEL_ARG_TYPE_VOLATILE),
      (200, CL_KERNEL_ARG_TYPE_PIPE)]"

lemmas cl_kernel_arg_type_qualifier_defs = CL_KERNEL_ARG_TYPE_NONE_def
  CL_KERNEL_ARG_TYPE_CONST_def CL_KERNEL_ARG_TYPE_RESTRICT_def CL_KERNEL_ARG_TYPE_VOLATILE_def
  CL_KERNEL_ARG_TYPE_PIPE_def

subsection \<open>Kernel work group info\<close>

definition CL_KERNEL_WORK_GROUP_SIZE :: u32 where "CL_KERNEL_WORK_GROUP_SIZE = 0x11B0"
definition CL_KERNEL_COMPILE_WORK_GROUP_SIZE :: u32 where "CL_KERNEL_COMPILE_WORK_GROUP_SIZE = 0x11B1"
definition CL_KERNEL_LOCAL_MEM_SIZE :: u32 where "CL_KERNEL_LOCAL_MEM_SIZE = 0x11B2"
definition CL_KERNEL_PREFERRED_WORK_GROUP_SIZE_MULTIPLE :: u32 where "CL_KERNEL_PREFERRED_WORK_GROUP_SIZE_MULTIPLE = 0x11B3"
definition CL_KERNEL_PRIVATE_MEM_SIZE :: u32 where "CL_KERNEL_PRIVATE_MEM_SIZE = 0x11B4"
definition CL_KERNEL_GLOBAL_WORK_SIZE :: u32 where "CL_KERNEL_GLOBAL_WORK_SIZE = 0x11B5"

definition cl_kernel_work_group_info :: "(nat \<times> u32) list" where
  "cl_kernel_work_group_info =
     [(100, CL_KERNEL_WORK_GROUP_SIZE), (100, CL_KERNEL_COMPILE_WORK_GROUP_SIZE),
      (100, CL_KERNEL_LOCAL_MEM_SIZE), (100, CL_KERNEL_PREFERRED_WORK_GROUP_SIZE_MULTIPLE),
      (100, CL_KERNEL_PRIVATE_MEM_SIZE), (120, CL_KERNEL_GLOBAL_WORK_SIZE)]"

lemmas cl_kernel_work_group_info_defs = CL_KERNEL_WORK_GROUP_SIZE_def
  CL_KERNEL_COMPILE_WORK_GROUP_SIZE_def CL_KERNEL_LOCAL_MEM_SIZE_def
  CL_KERNEL_PREFERRED_WORK_GROUP_SIZE_MULTIPLE_def CL_KERNEL_PRIVATE_MEM_SIZE_def
  CL_KERNEL_GLOBAL_WORK_SIZE_def

subsection \<open>Kernel sub group info\<close>

definition CL_KERNEL_MAX_SUB_GROUP_SIZE_FOR_NDRANGE :: u32 where "CL_KERNEL_MAX_SUB_GROUP_SIZE_FOR_NDRANGE = 0x2033"
definition CL_KERNEL_SUB_GROUP_COUNT_FOR_NDRANGE :: u32 where "CL_KERNEL_SUB_GROUP_COUNT_FOR_NDRANGE = 0x2034"
definition CL_KERNEL_LOCAL_SIZE_FOR_SUB_GROUP_COUNT :: u32 where "CL_KERNEL_LOCAL_SIZE_FOR_SUB_GROUP_COUNT = 0x11B8"
definition CL_KERNEL_MAX_NUM_SUB_GROUPS :: u32 where "CL_KERNEL_MAX_NUM_SUB_GROUPS = 0x11B9"
definition CL_KERNEL_COMPILE_NUM_SUB_GROUPS :: u32 where "CL_KERNEL_COMPILE_NUM_SUB_GROUPS = 0x11BA"

definition cl_kernel_sub_group_info :: "(nat \<times> u32) list" where
  "cl_kernel_sub_group_info =
     [(210, CL_KERNEL_MAX_SUB_GROUP_SIZE_FOR_NDRANGE),
      (210, CL_KERNEL_SUB_GROUP_COUNT_FOR_NDRANGE),
      (210, CL_KERNEL_LOCAL_SIZE_FOR_SUB_GROUP_COUNT), (210, CL_KERNEL_MAX_NUM_SUB_GROUPS),
      (210, CL_KERNEL_COMPILE_NUM_SUB_GROUPS)]"

lemmas cl_kernel_sub_group_info_defs = CL_KERNEL_MAX_SUB_GROUP_SIZE_FOR_NDRANGE_def
  CL_KERNEL_SUB_GROUP_COUNT_FOR_NDRANGE_def CL_KERNEL_LOCAL_SIZE_FOR_SUB_GROUP_COUNT_def
  CL_KERNEL_MAX_NUM_SUB_GROUPS_def CL_KERNEL_COMPILE_NUM_SUB_GROUPS_def

subsection \<open>Kernel exec info\<close>

definition CL_KERNEL_EXEC_INFO_SVM_PTRS :: u32 where "CL_KERNEL_EXEC_INFO_SVM_PTRS = 0x11B6"
definition CL_KERNEL_EXEC_INFO_SVM_FINE_GRAIN_SYSTEM :: u32 where "CL_KERNEL_EXEC_INFO_SVM_FINE_GRAIN_SYSTEM = 0x11B7"

definition cl_kernel_exec_info :: "(nat \<times> u32) list" where
  "cl_kernel_exec_info =
     [(200, CL_KERNEL_EXEC_INFO_SVM_PTRS), (200, CL_KERNEL_EXEC_INFO_SVM_FINE_GRAIN_SYSTEM)]"

lemmas cl_kernel_exec_info_defs = CL_KERNEL_EXEC_INFO_SVM_PTRS_def
  CL_KERNEL_EXEC_INFO_SVM_FINE_GRAIN_SYSTEM_def

subsection \<open>Event info\<close>

definition CL_EVENT_COMMAND_QUEUE :: u32 where "CL_EVENT_COMMAND_QUEUE = 0x11D0"
definition CL_EVENT_COMMAND_TYPE :: u32 where "CL_EVENT_COMMAND_TYPE = 0x11D1"
definition CL_EVENT_REFERENCE_COUNT :: u32 where "CL_EVENT_REFERENCE_COUNT = 0x11D2"
definition CL_EVENT_COMMAND_EXECUTION_STATUS :: u32 where "CL_EVENT_COMMAND_EXECUTION_STATUS = 0x11D3"
definition CL_EVENT_CONTEXT :: u32 where "CL_EVENT_CONTEXT = 0x11D4"

definition cl_event_info :: "(nat \<times> u32) list" where
  "cl_event_info =
     [(100, CL_EVENT_COMMAND_QUEUE), (100, CL_EVENT_COMMAND_TYPE),
      (100, CL_EVENT_REFERENCE_COUNT), (100, CL_EVENT_COMMAND_EXECUTION_STATUS),
      (110, CL_EVENT_CONTEXT)]"

lemmas cl_event_info_defs = CL_EVENT_COMMAND_QUEUE_def CL_EVENT_COMMAND_TYPE_def
  CL_EVENT_REFERENCE_COUNT_def CL_EVENT_COMMAND_EXECUTION_STATUS_def CL_EVENT_CONTEXT_def

subsection \<open>Command type\<close>

definition CL_COMMAND_NDRANGE_KERNEL :: u32 where "CL_COMMAND_NDRANGE_KERNEL = 0x11F0"
definition CL_COMMAND_TASK :: u32 where "CL_COMMAND_TASK = 0x11F1"
definition CL_COMMAND_NATIVE_KERNEL :: u32 where "CL_COMMAND_NATIVE_KERNEL = 0x11F2"
definition CL_COMMAND_READ_BUFFER :: u32 where "CL_COMMAND_READ_BUFFER = 0x11F3"
definition CL_COMMAND_WRITE_BUFFER :: u32 where "CL_COMMAND_WRITE_BUFFER = 0x11F4"
definition CL_COMMAND_COPY_BUFFER :: u32 where "CL_COMMAND_COPY_BUFFER = 0x11F5"
definition CL_COMMAND_READ_IMAGE :: u32 where "CL_COMMAND_READ_IMAGE = 0x11F6"
definition CL_COMMAND_WRITE_IMAGE :: u32 where "CL_COMMAND_WRITE_IMAGE = 0x11F7"
definition CL_COMMAND_COPY_IMAGE :: u32 where "CL_COMMAND_COPY_IMAGE = 0x11F8"
definition CL_COMMAND_COPY_IMAGE_TO_BUFFER :: u32 where "CL_COMMAND_COPY_IMAGE_TO_BUFFER = 0x11F9"
definition CL_COMMAND_COPY_BUFFER_TO_IMAGE :: u32 where "CL_COMMAND_COPY_BUFFER_TO_IMAGE = 0x11FA"
definition CL_COMMAND_MAP_BUFFER :: u32 where "CL_COMMAND_MAP_BUFFER = 0x11FB"
definition CL_COMMAND_MAP_IMAGE :: u32 where "CL_COMMAND_MAP_IMAGE = 0x11FC"
definition CL_COMMAND_UNMAP_MEM_OBJECT :: u32 where "CL_COMMAND_UNMAP_MEM_OBJECT = 0x11FD"
definition CL_COMMAND_MARKER :: u32 where "CL_COMMAND_MARKER = 0x11FE"
definition CL_COMMAND_ACQUIRE_GL_OBJECTS :: u32 where "CL_COMMAND_ACQUIRE_GL_OBJECTS = 0x11FF"
definition CL_COMMAND_RELEASE_GL_OBJECTS :: u32 where "CL_COMMAND_RELEASE_GL_OBJECTS = 0x1200"
definition CL_COMMAND_READ_BUFFER_RECT :: u32 where "CL_COMMAND_READ_BUFFER_RECT = 0x1201"
definition CL_COMMAND_WRITE_BUFFER_RECT :: u32 where "CL_COMMAND_WRITE_BUFFER_RECT = 0x1202"
definition CL_COMMAND_COPY_BUFFER_RECT :: u32 where "CL_COMMAND_COPY_BUFFER_RECT = 0x1203"
definition CL_COMMAND_USER :: u32 where "CL_COMMAND_USER = 0x1204"
definition CL_COMMAND_BARRIER :: u32 where "CL_COMMAND_BARRIER = 0x1205"
definition CL_COMMAND_MIGRATE_MEM_OBJECTS :: u32 where "CL_COMMAND_MIGRATE_MEM_OBJECTS = 0x1206"
definition CL_COMMAND_FILL_BUFFER :: u32 where "CL_COMMAND_FILL_BUFFER = 0x1207"
definition CL_COMMAND_FILL_IMAGE :: u32 where "CL_COMMAND_FILL_IMAGE = 0x1208"
definition CL_COMMAND_SVM_FREE :: u32 where "CL_COMMAND_SVM_FREE = 0x1209"
definition CL_COMMAND_SVM_MEMCPY :: u32 where "CL_COMMAND_SVM_MEMCPY = 0x120A"
definition CL_COMMAND_SVM_MEMFILL :: u32 where "CL_COMMAND_SVM_MEMFILL = 0x120B"
definition CL_COMMAND_SVM_MAP :: u32 where "CL_COMMAND_SVM_MAP = 0x120C"
definition CL_COMMAND_SVM_UNMAP :: u32 where "CL_COMMAND_SVM_UNMAP = 0x120D"
definition CL_COMMAND_SVM_MIGRATE_MEM :: u32 where "CL_COMMAND_SVM_MIGRATE_MEM = 0x120E"

definition cl_command_type :: "(nat \<times> u32) list" where
  "cl_command_type =
     [(100, CL_COMMAND_NDRANGE_KERNEL), (100, CL_COMMAND_TASK), (100, CL_COMMAND_NATIVE_KERNEL),
      (100, CL_COMMAND_READ_BUFFER), (100, CL_COMMAND_WRITE_BUFFER),
      (100, CL_COMMAND_COPY_BUFFER), (100, CL_COMMAND_READ_IMAGE), (100, CL_COMMAND_WRITE_IMAGE),
      (100, CL_COMMAND_COPY_IMAGE), (100, CL_COMMAND_COPY_IMAGE_TO_BUFFER),
      (100, CL_COMMAND_COPY_BUFFER_TO_IMAGE), (100, CL_COMMAND_MAP_BUFFER),
      (100, CL_COMMAND_MAP_IMAGE), (100, CL_COMMAND_UNMAP_MEM_OBJECT), (100, CL_COMMAND_MARKER),
      (100, CL_COMMAND_ACQUIRE_GL_OBJECTS), (100, CL_COMMAND_RELEASE_GL_OBJECTS),
      (110, CL_COMMAND_READ_BUFFER_RECT), (110, CL_COMMAND_WRITE_BUFFER_RECT),
      (110, CL_COMMAND_COPY_BUFFER_RECT), (110, CL_COMMAND_USER), (120, CL_COMMAND_BARRIER),
      (120, CL_COMMAND_MIGRATE_MEM_OBJECTS), (120, CL_COMMAND_FILL_BUFFER),
      (120, CL_COMMAND_FILL_IMAGE), (200, CL_COMMAND_SVM_FREE), (200, CL_COMMAND_SVM_MEMCPY),
      (200, CL_COMMAND_SVM_MEMFILL), (200, CL_COMMAND_SVM_MAP), (200, CL_COMMAND_SVM_UNMAP),
      (300, CL_COMMAND_SVM_MIGRATE_MEM)]"

lemmas cl_command_type_defs = CL_COMMAND_NDRANGE_KERNEL_def CL_COMMAND_TASK_def
  CL_COMMAND_NATIVE_KERNEL_def CL_COMMAND_READ_BUFFER_def CL_COMMAND_WRITE_BUFFER_def
  CL_COMMAND_COPY_BUFFER_def CL_COMMAND_READ_IMAGE_def CL_COMMAND_WRITE_IMAGE_def
  CL_COMMAND_COPY_IMAGE_def CL_COMMAND_COPY_IMAGE_TO_BUFFER_def
  CL_COMMAND_COPY_BUFFER_TO_IMAGE_def CL_COMMAND_MAP_BUFFER_def CL_COMMAND_MAP_IMAGE_def
  CL_COMMAND_UNMAP_MEM_OBJECT_def CL_COMMAND_MARKER_def CL_COMMAND_ACQUIRE_GL_OBJECTS_def
  CL_COMMAND_RELEASE_GL_OBJECTS_def CL_COMMAND_READ_BUFFER_RECT_def
  CL_COMMAND_WRITE_BUFFER_RECT_def CL_COMMAND_COPY_BUFFER_RECT_def CL_COMMAND_USER_def
  CL_COMMAND_BARRIER_def CL_COMMAND_MIGRATE_MEM_OBJECTS_def CL_COMMAND_FILL_BUFFER_def
  CL_COMMAND_FILL_IMAGE_def CL_COMMAND_SVM_FREE_def CL_COMMAND_SVM_MEMCPY_def
  CL_COMMAND_SVM_MEMFILL_def CL_COMMAND_SVM_MAP_def CL_COMMAND_SVM_UNMAP_def
  CL_COMMAND_SVM_MIGRATE_MEM_def

subsection \<open>Command execution status\<close>

definition CL_COMPLETE :: int where "CL_COMPLETE = 0x0"
definition CL_RUNNING :: int where "CL_RUNNING = 0x1"
definition CL_SUBMITTED :: int where "CL_SUBMITTED = 0x2"
definition CL_QUEUED :: int where "CL_QUEUED = 0x3"

definition cl_execution_status :: "(nat \<times> int) list" where
  "cl_execution_status =
     [(100, CL_COMPLETE), (100, CL_RUNNING), (100, CL_SUBMITTED), (100, CL_QUEUED)]"

lemmas cl_execution_status_defs = CL_COMPLETE_def CL_RUNNING_def CL_SUBMITTED_def CL_QUEUED_def

subsection \<open>Buffer create type\<close>

definition CL_BUFFER_CREATE_TYPE_REGION :: u32 where "CL_BUFFER_CREATE_TYPE_REGION = 0x1220"

definition cl_buffer_create_type :: "(nat \<times> u32) list" where
  "cl_buffer_create_type =
     [(110, CL_BUFFER_CREATE_TYPE_REGION)]"

lemmas cl_buffer_create_type_defs = CL_BUFFER_CREATE_TYPE_REGION_def

subsection \<open>Profiling info\<close>

definition CL_PROFILING_COMMAND_QUEUED :: u32 where "CL_PROFILING_COMMAND_QUEUED = 0x1280"
definition CL_PROFILING_COMMAND_SUBMIT :: u32 where "CL_PROFILING_COMMAND_SUBMIT = 0x1281"
definition CL_PROFILING_COMMAND_START :: u32 where "CL_PROFILING_COMMAND_START = 0x1282"
definition CL_PROFILING_COMMAND_END :: u32 where "CL_PROFILING_COMMAND_END = 0x1283"
definition CL_PROFILING_COMMAND_COMPLETE :: u32 where "CL_PROFILING_COMMAND_COMPLETE = 0x1284"

definition cl_profiling_info :: "(nat \<times> u32) list" where
  "cl_profiling_info =
     [(100, CL_PROFILING_COMMAND_QUEUED), (100, CL_PROFILING_COMMAND_SUBMIT),
      (100, CL_PROFILING_COMMAND_START), (100, CL_PROFILING_COMMAND_END),
      (200, CL_PROFILING_COMMAND_COMPLETE)]"

lemmas cl_profiling_info_defs = CL_PROFILING_COMMAND_QUEUED_def CL_PROFILING_COMMAND_SUBMIT_def
  CL_PROFILING_COMMAND_START_def CL_PROFILING_COMMAND_END_def CL_PROFILING_COMMAND_COMPLETE_def

subsection \<open>Device atomic capabilities\<close>

definition CL_DEVICE_ATOMIC_ORDER_RELAXED :: u64 where "CL_DEVICE_ATOMIC_ORDER_RELAXED = push_bit 0 1"
definition CL_DEVICE_ATOMIC_ORDER_ACQ_REL :: u64 where "CL_DEVICE_ATOMIC_ORDER_ACQ_REL = push_bit 1 1"
definition CL_DEVICE_ATOMIC_ORDER_SEQ_CST :: u64 where "CL_DEVICE_ATOMIC_ORDER_SEQ_CST = push_bit 2 1"
definition CL_DEVICE_ATOMIC_SCOPE_WORK_ITEM :: u64 where "CL_DEVICE_ATOMIC_SCOPE_WORK_ITEM = push_bit 3 1"
definition CL_DEVICE_ATOMIC_SCOPE_WORK_GROUP :: u64 where "CL_DEVICE_ATOMIC_SCOPE_WORK_GROUP = push_bit 4 1"
definition CL_DEVICE_ATOMIC_SCOPE_DEVICE :: u64 where "CL_DEVICE_ATOMIC_SCOPE_DEVICE = push_bit 5 1"
definition CL_DEVICE_ATOMIC_SCOPE_ALL_DEVICES :: u64 where "CL_DEVICE_ATOMIC_SCOPE_ALL_DEVICES = push_bit 6 1"

definition cl_device_atomic_capabilities :: "(nat \<times> u64) list" where
  "cl_device_atomic_capabilities =
     [(300, CL_DEVICE_ATOMIC_ORDER_RELAXED), (300, CL_DEVICE_ATOMIC_ORDER_ACQ_REL),
      (300, CL_DEVICE_ATOMIC_ORDER_SEQ_CST), (300, CL_DEVICE_ATOMIC_SCOPE_WORK_ITEM),
      (300, CL_DEVICE_ATOMIC_SCOPE_WORK_GROUP), (300, CL_DEVICE_ATOMIC_SCOPE_DEVICE),
      (300, CL_DEVICE_ATOMIC_SCOPE_ALL_DEVICES)]"

lemmas cl_device_atomic_capabilities_defs = CL_DEVICE_ATOMIC_ORDER_RELAXED_def
  CL_DEVICE_ATOMIC_ORDER_ACQ_REL_def CL_DEVICE_ATOMIC_ORDER_SEQ_CST_def
  CL_DEVICE_ATOMIC_SCOPE_WORK_ITEM_def CL_DEVICE_ATOMIC_SCOPE_WORK_GROUP_def
  CL_DEVICE_ATOMIC_SCOPE_DEVICE_def CL_DEVICE_ATOMIC_SCOPE_ALL_DEVICES_def

subsection \<open>Device device enqueue capabilities\<close>

definition CL_DEVICE_QUEUE_SUPPORTED :: u64 where "CL_DEVICE_QUEUE_SUPPORTED = push_bit 0 1"
definition CL_DEVICE_QUEUE_REPLACEABLE_DEFAULT :: u64 where "CL_DEVICE_QUEUE_REPLACEABLE_DEFAULT = push_bit 1 1"

definition cl_device_device_enqueue_capabilities :: "(nat \<times> u64) list" where
  "cl_device_device_enqueue_capabilities =
     [(300, CL_DEVICE_QUEUE_SUPPORTED), (300, CL_DEVICE_QUEUE_REPLACEABLE_DEFAULT)]"

lemmas cl_device_device_enqueue_capabilities_defs = CL_DEVICE_QUEUE_SUPPORTED_def
  CL_DEVICE_QUEUE_REPLACEABLE_DEFAULT_def

subsection \<open>Khronos vendor id\<close>

definition CL_KHRONOS_VENDOR_ID_CODEPLAY :: u32 where "CL_KHRONOS_VENDOR_ID_CODEPLAY = 0x10004"

definition cl_khronos_vendor_id :: "(nat \<times> u32) list" where
  "cl_khronos_vendor_id =
     [(100, CL_KHRONOS_VENDOR_ID_CODEPLAY)]"

lemmas cl_khronos_vendor_id_defs = CL_KHRONOS_VENDOR_ID_CODEPLAY_def

subsection \<open>Version numbers\<close>

definition CL_VERSION_MAJOR_BITS :: nat where "CL_VERSION_MAJOR_BITS = 10"
definition CL_VERSION_MINOR_BITS :: nat where "CL_VERSION_MINOR_BITS = 10"
definition CL_VERSION_PATCH_BITS :: nat where "CL_VERSION_PATCH_BITS = 12"
definition CL_VERSION_MAJOR_MASK :: u32 where "CL_VERSION_MAJOR_MASK = push_bit CL_VERSION_MAJOR_BITS 1 - 1"
definition CL_VERSION_MINOR_MASK :: u32 where "CL_VERSION_MINOR_MASK = push_bit CL_VERSION_MINOR_BITS 1 - 1"
definition CL_VERSION_PATCH_MASK :: u32 where "CL_VERSION_PATCH_MASK = push_bit CL_VERSION_PATCH_BITS 1 - 1"

definition CL_VERSION_MAJOR :: "u32 \<Rightarrow> u32" where
  "CL_VERSION_MAJOR version = drop_bit (CL_VERSION_MINOR_BITS + CL_VERSION_PATCH_BITS) version"

definition CL_VERSION_MINOR :: "u32 \<Rightarrow> u32" where
  "CL_VERSION_MINOR version = drop_bit CL_VERSION_PATCH_BITS version AND CL_VERSION_MINOR_MASK"

definition CL_VERSION_PATCH :: "u32 \<Rightarrow> u32" where
  "CL_VERSION_PATCH version = version AND CL_VERSION_PATCH_MASK"

definition CL_MAKE_VERSION :: "u32 \<Rightarrow> u32 \<Rightarrow> u32 \<Rightarrow> u32" where
  "CL_MAKE_VERSION major minor patch =
     push_bit (CL_VERSION_MINOR_BITS + CL_VERSION_PATCH_BITS) (major AND CL_VERSION_MAJOR_MASK) OR
     push_bit CL_VERSION_PATCH_BITS (minor AND CL_VERSION_MINOR_MASK) OR
     (patch AND CL_VERSION_PATCH_MASK)"

lemmas cl_version_defs = CL_VERSION_MAJOR_BITS_def CL_VERSION_MINOR_BITS_def CL_VERSION_PATCH_BITS_def
  CL_VERSION_MAJOR_MASK_def CL_VERSION_MINOR_MASK_def CL_VERSION_PATCH_MASK_def

lemma version_masks:
  "CL_VERSION_MAJOR_MASK = mask 10" "CL_VERSION_MINOR_MASK = mask 10" "CL_VERSION_PATCH_MASK = mask 12"
  by (simp_all add: cl_version_defs mask_eq_exp_minus_1)

text \<open>Packing and unpacking are inverse, in both directions.\<close>

lemma version_of_parts:
  "CL_VERSION_MAJOR (CL_MAKE_VERSION a b c) = a AND mask 10"
  "CL_VERSION_MINOR (CL_MAKE_VERSION a b c) = b AND mask 10"
  "CL_VERSION_PATCH (CL_MAKE_VERSION a b c) = c AND mask 12"
  by (rule bit_word_eqI; auto simp: CL_VERSION_MAJOR_def CL_VERSION_MINOR_def CL_VERSION_PATCH_def
    CL_MAKE_VERSION_def version_masks CL_VERSION_MINOR_BITS_def CL_VERSION_PATCH_BITS_def bit_simps
    dest: bit_imp_le_length)+

lemma parts_of_version:
  "CL_MAKE_VERSION (CL_VERSION_MAJOR v) (CL_VERSION_MINOR v) (CL_VERSION_PATCH v) = v"
proof (rule bit_word_eqI)
  fix n :: nat
  assume "n < LENGTH(32)"
  then consider "n < 12" | "12 \<le> n" "n - 12 < 10" "n < 22" | "22 \<le> n" "n < 32" "22 + (n - 22) = n" by force
  then show "bit (CL_MAKE_VERSION (CL_VERSION_MAJOR v) (CL_VERSION_MINOR v) (CL_VERSION_PATCH v)) n \<longleftrightarrow> bit v n"
    by cases (auto simp: CL_VERSION_MAJOR_def CL_VERSION_MINOR_def CL_VERSION_PATCH_def
      CL_MAKE_VERSION_def version_masks CL_VERSION_MINOR_BITS_def CL_VERSION_PATCH_BITS_def bit_simps)
qed

subsection \<open>The enumerations are well formed\<close>

definition single_bits :: "u64 list \<Rightarrow> bool" where
  "single_bits xs \<longleftrightarrow> list_all (\<lambda>x. x \<noteq> 0 \<and> x AND (x - 1) = 0) xs \<and> distinct xs"

definition plain_enums :: "(nat \<times> u32) list list" where
  "plain_enums =
    [cl_platform_info, cl_device_mem_cache_type, cl_device_local_mem_type, cl_context_info,
     cl_command_queue_info, cl_channel_order, cl_channel_type, cl_mem_object_type, cl_mem_info,
     cl_image_info, cl_pipe_info, cl_addressing_mode, cl_filter_mode, cl_sampler_info,
     cl_program_info, cl_program_build_info, cl_program_binary_type,
     cl_kernel_info, cl_kernel_arg_info, cl_kernel_arg_address_qualifier,
     cl_kernel_arg_access_qualifier, cl_kernel_work_group_info, cl_kernel_sub_group_info,
     cl_kernel_exec_info, cl_event_info, cl_command_type, cl_buffer_create_type,
     cl_profiling_info, cl_khronos_vendor_id]"

definition bit_fields :: "(nat \<times> u64) list list" where
  "bit_fields =
    [cl_device_fp_config, cl_device_exec_capabilities, cl_command_queue_properties,
     cl_device_affinity_domain, cl_device_svm_capabilities, cl_mem_flags,
     cl_mem_migration_flags, cl_map_flags,
     cl_device_atomic_capabilities, cl_device_device_enqueue_capabilities]"

lemma distinct_unat: "distinct (map unat xs) \<Longrightarrow> distinct xs"
  by (simp add: distinct_map)

lemmas plain_enums_defs =
  cl_platform_info_def cl_device_mem_cache_type_def cl_device_local_mem_type_def
  cl_context_info_def cl_command_queue_info_def cl_channel_order_def cl_channel_type_def
  cl_mem_object_type_def cl_mem_info_def cl_image_info_def cl_pipe_info_def cl_addressing_mode_def
  cl_filter_mode_def cl_sampler_info_def cl_program_info_def cl_program_build_info_def
  cl_program_binary_type_def cl_kernel_info_def cl_kernel_arg_info_def
  cl_kernel_arg_address_qualifier_def cl_kernel_arg_access_qualifier_def
  cl_kernel_work_group_info_def cl_kernel_sub_group_info_def cl_kernel_exec_info_def
  cl_event_info_def cl_command_type_def cl_buffer_create_type_def cl_profiling_info_def
  cl_khronos_vendor_id_def
  cl_platform_info_defs cl_device_mem_cache_type_defs cl_device_local_mem_type_defs
  cl_context_info_defs cl_command_queue_info_defs cl_channel_order_defs cl_channel_type_defs
  cl_mem_object_type_defs cl_mem_info_defs cl_image_info_defs cl_pipe_info_defs
  cl_addressing_mode_defs cl_filter_mode_defs cl_sampler_info_defs cl_program_info_defs
  cl_program_build_info_defs cl_program_binary_type_defs cl_kernel_info_defs
  cl_kernel_arg_info_defs cl_kernel_arg_address_qualifier_defs cl_kernel_arg_access_qualifier_defs
  cl_kernel_work_group_info_defs cl_kernel_sub_group_info_defs cl_kernel_exec_info_defs
  cl_event_info_defs cl_command_type_defs cl_buffer_create_type_defs cl_profiling_info_defs
  cl_khronos_vendor_id_defs

lemma plain_enums_distinct: "list_all (\<lambda>t. distinct (map snd t)) plain_enums"
  unfolding plain_enums_def
  by (simp only: list.pred_inject simp_thms, intro conjI; rule distinct_unat; simp add: plain_enums_defs)

lemma device_info_distinct:
  "distinct (map snd (filter (\<lambda>e. fst e \<noteq> 100 \<or> snd e \<noteq> CL_DEVICE_QUEUE_PROPERTIES) cl_device_info))"
  by (rule distinct_unat) (simp add: cl_device_info_def cl_device_info_defs)

lemmas bit_fields_defs =
  cl_device_fp_config_def cl_device_exec_capabilities_def cl_command_queue_properties_def
  cl_device_affinity_domain_def cl_device_svm_capabilities_def cl_mem_flags_def
  cl_mem_migration_flags_def cl_map_flags_def cl_device_atomic_capabilities_def
  cl_device_device_enqueue_capabilities_def
  cl_device_fp_config_defs cl_device_exec_capabilities_defs cl_command_queue_properties_defs
  cl_device_affinity_domain_defs cl_device_svm_capabilities_defs cl_mem_flags_defs
  cl_mem_migration_flags_defs cl_map_flags_defs cl_device_atomic_capabilities_defs
  cl_device_device_enqueue_capabilities_defs

lemma bit_fields_single: "list_all (\<lambda>t. single_bits (map snd t)) bit_fields"
  unfolding bit_fields_def
  by (simp only: list.pred_inject simp_thms, intro conjI; simp add: single_bits_def bit_fields_defs)

text \<open>No two names of an enumeration have one value, except the two names of \<open>0x102A\<close> and the second
  names of the truth values; the names of bit fields are different single bits.\<close>

theorem enumerations_distinct:
  "list_all (\<lambda>t. distinct (map snd t)) plain_enums \<and>
   distinct (map snd (filter (\<lambda>e. fst e \<noteq> 100 \<or> snd e \<noteq> CL_DEVICE_QUEUE_PROPERTIES) cl_device_info)) \<and>
   list_all (\<lambda>t. single_bits (map snd t)) bit_fields \<and>
   distinct (map snd cl_error_codes) \<and> distinct (map snd cl_execution_status) \<and>
   distinct (map snd cl_build_status)"
  using plain_enums_distinct device_info_distinct bit_fields_single
  by (simp add: cl_error_codes_def cl_error_codes_defs cl_execution_status_def cl_execution_status_defs
    cl_build_status_def cl_build_status_defs)

end
