(* ===== verification/Umd.thy ===== *)
theory Umd
  imports Uapi Vram ClConst
begin

text \<open>
  The user mode driver: its OpenCL objects (\<open>umd/src/fpgagpu_umd.h\<close>), the system calls it
  makes, and the context and queue functions of \<open>cl_context.c\<close> and \<open>cl_queue.c\<close>.

  Objects live at addresses (natural numbers, 0 is the null pointer) in one map per type.
  A function that dereferences an address at which no object of its type lives has no
  defined result: \<open>None\<close>.  Results of \<open>malloc\<close> are arguments.  The kernel driver is reached
  through system calls; what it answers is the parameter \<open>sys\<close>, a function of the calls
  made so far.
\<close>

lemmas cl_codes = CL_SUCCESS_def CL_DEVICE_NOT_FOUND_def CL_DEVICE_NOT_AVAILABLE_def
  CL_COMPILER_NOT_AVAILABLE_def CL_MEM_OBJECT_ALLOCATION_FAILURE_def CL_OUT_OF_RESOURCES_def
  CL_OUT_OF_HOST_MEMORY_def CL_BUILD_PROGRAM_FAILURE_def CL_INVALID_VALUE_def CL_INVALID_PLATFORM_def
  CL_INVALID_DEVICE_def CL_INVALID_CONTEXT_def CL_INVALID_COMMAND_QUEUE_def CL_INVALID_MEM_OBJECT_def
  CL_INVALID_PROGRAM_def CL_INVALID_PROGRAM_EXECUTABLE_def CL_INVALID_KERNEL_def
  CL_INVALID_ARG_INDEX_def CL_INVALID_ARG_VALUE_def CL_INVALID_KERNEL_ARGS_def
  CL_INVALID_WORK_DIMENSION_def CL_INVALID_EVENT_def CL_INVALID_BUFFER_SIZE_def CL_COMPLETE_def

section \<open>Objects\<close>

record cl_context =
  cx_device :: nat
  cx_fd :: int
  cx_refs :: u32

record cl_command_queue =
  cq_context :: nat
  cq_device :: nat
  cq_properties :: u64
  cq_refs :: u32

record cl_mem =
  mo_context :: nat
  mo_flags :: u64
  mo_size :: u64
  mo_host_ptr :: u64
  mo_ddr3_addr :: u64
  mo_refs :: u32

text \<open>The binary is its address and its words.\<close>

record cl_program =
  pg_context :: nat
  pg_source :: string
  pg_source_len :: u64
  pg_binary_words :: "(u64 \<times> u32 list) option"
  pg_num_instructions :: u32
  pg_is_built :: bool
  pg_refs :: u32

record fpgagpu_kernel_arg =
  ka_is_set :: bool
  ka_is_mem :: bool
  ka_size :: u64
  ka_scalar_val :: u32
  ka_mem_obj :: nat

record cl_kernel =
  kn_program :: nat
  kn_name :: "string option"
  kn_args :: "fpgagpu_kernel_arg list"
  kn_num_args :: u32
  kn_refs :: u32

record cl_event =
  ev_context :: nat
  ev_queue :: nat
  ev_status :: int
  ev_refs :: u32

section \<open>System calls\<close>

text \<open>
  A DMA or LOAD call carries the words of the host buffer it points to when the user mode
  driver filled that buffer itself; for a buffer of the application the list is empty.
\<close>

datatype sys_call =
    SysOpen
  | SysClose int
  | SysVersion int
  | SysDma int fpgagpu_dma_param "u32 list"
  | SysLoad int fpgagpu_kernel_binary "u32 list"
  | SysSubmit int fpgagpu_launch_cmd
  | SysDoorbell int

type_synonym sys = "(sys_call \<times> int) list \<Rightarrow> sys_call \<Rightarrow> int"

record umd =
  vram_state :: vram
  device_fd :: int
  contexts :: "nat \<Rightarrow> cl_context option"
  queues :: "nat \<Rightarrow> cl_command_queue option"
  mems :: "nat \<Rightarrow> cl_mem option"
  programs :: "nat \<Rightarrow> cl_program option"
  kernels :: "nat \<Rightarrow> cl_kernel option"
  events :: "nat \<Rightarrow> cl_event option"
  build_counter :: nat
  tmp_files :: "string set"
  sys_log :: "(sys_call \<times> int) list"

definition do_sys :: "sys \<Rightarrow> sys_call \<Rightarrow> umd \<Rightarrow> int \<times> umd" where
  "do_sys sys c u = (let r = sys (sys_log u) c in (r, u\<lparr>sys_log := sys_log u @ [(c, r)]\<rparr>))"

definition umd_start :: umd where
  "umd_start = \<lparr>vram_state = vram_boot, device_fd = - 1, contexts = (\<lambda>_. None), queues = (\<lambda>_. None),
     mems = (\<lambda>_. None), programs = (\<lambda>_. None), kernels = (\<lambda>_. None), events = (\<lambda>_. None),
     build_counter = 0, tmp_files = {}, sys_log = []\<rparr>"

section \<open>Contexts\<close>

text \<open>\<open>devices\<close> is the first entry of the device array, \<open>None\<close> for a null array.\<close>

definition clCreateContext ::
  "sys \<Rightarrow> u32 \<Rightarrow> nat option \<Rightarrow> nat option \<Rightarrow> umd \<Rightarrow> int \<times> nat \<times> umd" where
  "clCreateContext sys num_devices devices alloc u =
     (case devices of
        None \<Rightarrow> (CL_INVALID_VALUE, 0, u)
      | Some dev \<Rightarrow>
          if num_devices = 0 then (CL_INVALID_VALUE, 0, u)
          else
            let (fd0, u0) = do_sys sys SysOpen u;
                (fd, u1) = (if fd0 < 0 then do_sys sys SysOpen u0 else (fd0, u0))
            in if fd < 0 then (CL_DEVICE_NOT_AVAILABLE, 0, u1)
               else
                 let (_, u2) = do_sys sys (SysVersion fd) u1
                 in case alloc of
                      None \<Rightarrow> let (_, u3) = do_sys sys (SysClose fd) u2 in (CL_OUT_OF_HOST_MEMORY, 0, u3)
                    | Some p \<Rightarrow>
                        (CL_SUCCESS, p,
                         u2\<lparr>contexts := (contexts u2)(p \<mapsto> \<lparr>cx_device = dev, cx_fd = fd, cx_refs = 1\<rparr>),
                            device_fd := fd, vram_state := fpgagpu_vram_init (vram_state u2)\<rparr>))"

definition clRetainContext :: "nat \<Rightarrow> umd \<Rightarrow> (int \<times> umd) option" where
  "clRetainContext p u =
     (if p = 0 then Some (CL_INVALID_CONTEXT, u)
      else case contexts u p of
        None \<Rightarrow> None
      | Some c \<Rightarrow> Some (CL_SUCCESS, u\<lparr>contexts := (contexts u)(p \<mapsto> c\<lparr>cx_refs := cx_refs c + 1\<rparr>)\<rparr>))"

definition clReleaseContext :: "sys \<Rightarrow> nat \<Rightarrow> umd \<Rightarrow> (int \<times> umd) option" where
  "clReleaseContext sys p u =
     (if p = 0 then Some (CL_INVALID_CONTEXT, u)
      else case contexts u p of
        None \<Rightarrow> None
      | Some c \<Rightarrow>
          let n = cx_refs c - 1
          in if n = 0 then
               (let u1 = (if cx_fd c \<ge> 0 then snd (do_sys sys (SysClose (cx_fd c)) u) else u)
                in Some (CL_SUCCESS, u1\<lparr>contexts := (contexts u1)(p := None)\<rparr>))
             else Some (CL_SUCCESS, u\<lparr>contexts := (contexts u)(p \<mapsto> c\<lparr>cx_refs := n\<rparr>)\<rparr>))"

section \<open>Command queues\<close>

definition clCreateCommandQueue ::
  "nat \<Rightarrow> nat \<Rightarrow> u64 \<Rightarrow> nat option \<Rightarrow> umd \<Rightarrow> int \<times> nat \<times> umd" where
  "clCreateCommandQueue context dev properties alloc u =
     (if context = 0 then (CL_INVALID_CONTEXT, 0, u)
      else case alloc of
        None \<Rightarrow> (CL_OUT_OF_HOST_MEMORY, 0, u)
      | Some p \<Rightarrow>
          (CL_SUCCESS, p, u\<lparr>queues := (queues u)(p \<mapsto>
             \<lparr>cq_context = context, cq_device = dev, cq_properties = properties, cq_refs = 1\<rparr>)\<rparr>))"

definition clReleaseCommandQueue :: "nat \<Rightarrow> umd \<Rightarrow> (int \<times> umd) option" where
  "clReleaseCommandQueue p u =
     (if p = 0 then Some (CL_INVALID_COMMAND_QUEUE, u)
      else case queues u p of
        None \<Rightarrow> None
      | Some q \<Rightarrow>
          let n = cq_refs q - 1
          in if n = 0 then Some (CL_SUCCESS, u\<lparr>queues := (queues u)(p := None)\<rparr>)
             else Some (CL_SUCCESS, u\<lparr>queues := (queues u)(p \<mapsto> q\<lparr>cq_refs := n\<rparr>)\<rparr>))"

definition clFinish :: "sys \<Rightarrow> nat \<Rightarrow> umd \<Rightarrow> (int \<times> umd) option" where
  "clFinish sys p u =
     (if p = 0 then Some (CL_INVALID_COMMAND_QUEUE, u)
      else case queues u p of
        None \<Rightarrow> None
      | Some q \<Rightarrow>
          (case contexts u (cq_context q) of
             None \<Rightarrow> None
           | Some c \<Rightarrow>
               let (r, u1) = do_sys sys (SysDoorbell (cx_fd c)) u
               in if r < 0 then Some (CL_OUT_OF_RESOURCES, u1) else Some (CL_SUCCESS, u1)))"

definition clFlush :: "nat \<Rightarrow> int" where
  "clFlush p = (if p = 0 then CL_INVALID_COMMAND_QUEUE else CL_SUCCESS)"

section \<open>Reference counts\<close>

text \<open>
  The contract of the six release functions: a reference is dropped, the object is freed with
  the last one, and a freed object must not be released.
\<close>

locale refcounted =
  fixes objs :: "'s \<Rightarrow> nat \<Rightarrow> 'o option"
    and refs :: "'o \<Rightarrow> u32"
    and rel :: "nat \<Rightarrow> 's \<Rightarrow> (int \<times> 's) option"
  assumes rel_last: "p \<noteq> 0 \<Longrightarrow> objs s p = Some x \<Longrightarrow> refs x = 1 \<Longrightarrow>
      \<exists>s'. rel p s = Some (CL_SUCCESS, s') \<and> objs s' = (objs s)(p := None)"
    and rel_more: "p \<noteq> 0 \<Longrightarrow> objs s p = Some x \<Longrightarrow> refs x \<noteq> 1 \<Longrightarrow>
      \<exists>s' y. rel p s = Some (CL_SUCCESS, s') \<and> objs s' = (objs s)(p \<mapsto> y) \<and> refs y = refs x - 1"
    and rel_dead: "p \<noteq> 0 \<Longrightarrow> objs s p = None \<Longrightarrow> rel p s = None"

fun release_times :: "(nat \<Rightarrow> 's \<Rightarrow> (int \<times> 's) option) \<Rightarrow> nat \<Rightarrow> nat \<Rightarrow> 's \<Rightarrow> 's option" where
  "release_times rel 0 p s = Some s"
| "release_times rel (Suc n) p s =
     (case rel p s of None \<Rightarrow> None | Some (_, s') \<Rightarrow> release_times rel n p s')"

text \<open>An object with \<open>n\<close> references: alive through \<open>n - 1\<close> releases, freed by the next, and a
  further release has no defined result.\<close>

definition lives_for ::
  "('s \<Rightarrow> nat \<Rightarrow> 'o option) \<Rightarrow> (nat \<Rightarrow> 's \<Rightarrow> (int \<times> 's) option) \<Rightarrow> nat \<Rightarrow> nat \<Rightarrow> 's \<Rightarrow> bool" where
  "lives_for objs rel p n s \<longleftrightarrow>
     (\<forall>k < n. \<exists>s'. release_times rel k p s = Some s' \<and> objs s' p \<noteq> None) \<and>
     (\<exists>s'. release_times rel n p s = Some s' \<and> objs s' = (objs s)(p := None)) \<and>
     release_times rel (Suc n) p s = None"

context refcounted
begin

lemma release_partial:
  assumes "p \<noteq> 0"
  shows "objs s p = Some x \<Longrightarrow> n < unat (refs x) \<Longrightarrow>
    \<exists>s' y. release_times rel n p s = Some s' \<and> objs s' = (objs s)(p \<mapsto> y) \<and>
      unat (refs y) = unat (refs x) - n"
proof (induction n arbitrary: s x)
  case 0
  then have "objs s = (objs s)(p \<mapsto> x)" by (simp add: fun_upd_idem)
  then show ?case by (intro exI [of _ s] exI [of _ x]) simp
next
  case (Suc n)
  then have "refs x \<noteq> 1" by auto
  from rel_more [OF assms Suc.prems(1) this] obtain s1 y where
    s1: "rel p s = Some (CL_SUCCESS, s1)" and o1: "objs s1 = (objs s)(p \<mapsto> y)"
    and y: "refs y = refs x - 1" by blast
  have "refs x \<noteq> 0" using Suc.prems(2) by auto
  then have uy: "unat (refs y) = unat (refs x) - 1" by (simp add: y unat_minus_one)
  have "objs s1 p = Some y" and "n < unat (refs y)" using o1 uy Suc.prems(2) by simp_all
  from Suc.IH [OF this] obtain s' z where "release_times rel n p s1 = Some s'"
    "objs s' = (objs s1)(p \<mapsto> z)" "unat (refs z) = unat (refs y) - n" by blast
  then have "release_times rel (Suc n) p s = Some s'" and "objs s' = (objs s)(p \<mapsto> z)"
    and "unat (refs z) = unat (refs x) - Suc n"
    using s1 uy by (simp_all add: o1)
  then show ?case by blast
qed

lemma release_all:
  assumes "p \<noteq> 0"
  shows "objs s p = Some x \<Longrightarrow> unat (refs x) = Suc n \<Longrightarrow>
    (\<exists>s'. release_times rel (Suc n) p s = Some s' \<and> objs s' = (objs s)(p := None)) \<and>
    release_times rel (Suc (Suc n)) p s = None"
proof (induction n arbitrary: s x)
  case 0
  then have "refs x = 1" by (simp add: word_unat_eq_iff)
  from rel_last [OF assms "0.prems"(1) this] obtain s' where
    "rel p s = Some (CL_SUCCESS, s')" and o: "objs s' = (objs s)(p := None)" by blast
  moreover have "rel p s' = None" using rel_dead [OF assms] o by simp
  ultimately have "release_times rel (Suc 0) p s = Some s'" and "release_times rel (Suc (Suc 0)) p s = None"
    by simp_all
  with o show ?case by blast
next
  case (Suc n)
  then have "refs x \<noteq> 1" by auto
  from rel_more [OF assms Suc.prems(1) this] obtain s1 y where
    s1: "rel p s = Some (CL_SUCCESS, s1)" and o1: "objs s1 = (objs s)(p \<mapsto> y)"
    and y: "refs y = refs x - 1" by blast
  have "refs x \<noteq> 0" using Suc.prems(2) by auto
  then have "unat (refs y) = Suc n" using Suc.prems(2) by (simp add: y unat_minus_one)
  moreover have "objs s1 p = Some y" using o1 by simp
  ultimately have "(\<exists>s'. release_times rel (Suc n) p s1 = Some s' \<and> objs s' = (objs s1)(p := None)) \<and>
      release_times rel (Suc (Suc n)) p s1 = None" using Suc.IH by blast
  moreover have "release_times rel (Suc k) p s = release_times rel k p s1" for k
    using s1 by simp
  moreover have "(objs s1)(p := None) = (objs s)(p := None)" by (simp add: o1)
  ultimately show ?case by metis
qed

text \<open>Exactly as many releases as references: alive before, freed at the last, undefined after.\<close>

lemma release_exact:
  assumes "p \<noteq> 0" and "objs s p = Some x" and "refs x \<noteq> 0"
  shows "lives_for objs rel p (unat (refs x)) s"
proof -
  have "0 < unat (refs x)" using assms(3) by (simp add: unat_gt_0)
  then obtain m where m: "unat (refs x) = Suc m" by (cases "unat (refs x)") simp_all
  have "\<exists>s'. release_times rel k p s = Some s' \<and> objs s' p \<noteq> None" if "k < Suc m" for k
    using release_partial [OF assms(1,2), of k] that m by auto
  moreover note release_all [OF assms(1,2) m]
  ultimately show ?thesis unfolding lives_for_def m by blast
qed

end

interpretation rc_context: refcounted contexts cx_refs "clReleaseContext sys" for sys
  by unfold_locales (auto simp: clReleaseContext_def do_sys_def Let_def)

interpretation rc_queue: refcounted queues cq_refs clReleaseCommandQueue
  by unfold_locales (auto simp: clReleaseCommandQueue_def Let_def)

end
