(* ===== verification/ClMem.thy ===== *)
theory ClMem
  imports Umd
begin

text \<open>
  Buffers: \<open>umd/src/cl_mem.c\<close>.  The transfers are built as the code builds them and handed to
  the driver through \<open>do_sys\<close>; the properties say which device bytes they name.
\<close>

section \<open>Operations\<close>


definition clCreateBuffer ::
  "sys \<Rightarrow> nat \<Rightarrow> u64 \<Rightarrow> u64 \<Rightarrow> u64 \<Rightarrow> nat option \<Rightarrow> umd \<Rightarrow> (int \<times> nat \<times> umd) option" where
  "clCreateBuffer sys context flags sz host_ptr alloc u =
     (if context = 0 then Some (CL_INVALID_CONTEXT, 0, u)
      else if sz = 0 then Some (CL_INVALID_BUFFER_SIZE, 0, u)
      else
        let (ddr3_addr, v) = fpgagpu_vram_alloc sz (vram_state u); u1 = u\<lparr>vram_state := v\<rparr>
        in if ddr3_addr = 0 then Some (CL_MEM_OBJECT_ALLOCATION_FAILURE, 0, u1)
           else case alloc of
             None \<Rightarrow> Some (CL_OUT_OF_HOST_MEMORY, 0, u1)
           | Some p \<Rightarrow>
               let u2 = u1\<lparr>mems := (mems u1)(p \<mapsto>
                     \<lparr>mo_context = context, mo_flags = flags, mo_size = sz, mo_host_ptr = host_ptr,
                      mo_ddr3_addr = ddr3_addr, mo_refs = 1\<rparr>)\<rparr>
               in if flags AND CL_MEM_COPY_HOST_PTR \<noteq> 0 \<and> host_ptr \<noteq> 0 then
                    (case contexts u2 context of
                       None \<Rightarrow> None
                     | Some c \<Rightarrow>
                         let (r, u3) = do_sys sys (SysDma (cx_fd c)
                               \<lparr>dma_direction = FPGAGPU_DMA_TO_DEVICE, dma_size = ucast sz,
                                ddr3_addr = ddr3_addr, host_vaddr = host_ptr\<rparr> []) u2
                         in if r < 0 then Some (CL_MEM_OBJECT_ALLOCATION_FAILURE, 0,
                                                u3\<lparr>mems := (mems u3)(p := None)\<rparr>)
                            else Some (CL_SUCCESS, p, u3))
                  else Some (CL_SUCCESS, p, u2))"

definition clReleaseMemObject :: "nat \<Rightarrow> umd \<Rightarrow> (int \<times> umd) option" where
  "clReleaseMemObject p u =
     (if p = 0 then Some (CL_INVALID_MEM_OBJECT, u)
      else case mems u p of
        None \<Rightarrow> None
      | Some m \<Rightarrow>
          let n = mo_refs m - 1
          in if n = 0 then Some (CL_SUCCESS,
                u\<lparr>vram_state := fpgagpu_vram_free (mo_ddr3_addr m) (mo_size m) (vram_state u),
                  mems := (mems u)(p := None)\<rparr>)
             else Some (CL_SUCCESS, u\<lparr>mems := (mems u)(p \<mapsto> m\<lparr>mo_refs := n\<rparr>)\<rparr>))"

text \<open>
  The end shared by the enqueue functions: \<open>ev\<close> is \<open>None\<close> when the caller passed no event
  pointer, otherwise what \<open>malloc\<close> returned.
\<close>

definition complete_event :: "nat \<Rightarrow> nat \<Rightarrow> nat option option \<Rightarrow> umd \<Rightarrow> umd" where
  "complete_event context queue ev u =
     (case ev of
        Some (Some p) \<Rightarrow>
          u\<lparr>events := (events u)(p \<mapsto>
             \<lparr>ev_context = context, ev_queue = queue, ev_status = CL_COMPLETE, ev_refs = 1\<rparr>)\<rparr>
      | _ \<Rightarrow> u)"

text \<open>One direction of \<open>clEnqueueWriteBuffer\<close> and \<open>clEnqueueReadBuffer\<close>, which differ in it only.\<close>

definition enqueue_rw ::
  "u32 \<Rightarrow> sys \<Rightarrow> nat \<Rightarrow> nat \<Rightarrow> u64 \<Rightarrow> u64 \<Rightarrow> u64 \<Rightarrow> nat option option \<Rightarrow> umd \<Rightarrow> (int \<times> umd) option" where
  "enqueue_rw direction sys command_queue buffer offset sz ptr ev u =
     (if command_queue = 0 then Some (CL_INVALID_COMMAND_QUEUE, u)
      else if buffer = 0 then Some (CL_INVALID_MEM_OBJECT, u)
      else if ptr = 0 then Some (CL_INVALID_VALUE, u)
      else case mems u buffer of
        None \<Rightarrow> None
      | Some m \<Rightarrow>
          if offset + sz > mo_size m then Some (CL_INVALID_VALUE, u)
          else case queues u command_queue of
            None \<Rightarrow> None
          | Some q \<Rightarrow>
             (case contexts u (cq_context q) of
                None \<Rightarrow> None
              | Some c \<Rightarrow>
                  let (r, u1) = do_sys sys (SysDma (cx_fd c)
                        \<lparr>dma_direction = direction, dma_size = ucast sz,
                         ddr3_addr = mo_ddr3_addr m + offset, host_vaddr = ptr\<rparr> []) u
                  in if r < 0 then Some (CL_OUT_OF_RESOURCES, u1)
                     else Some (CL_SUCCESS, complete_event (cq_context q) command_queue ev u1)))"

definition clEnqueueWriteBuffer ::
  "sys \<Rightarrow> nat \<Rightarrow> nat \<Rightarrow> u64 \<Rightarrow> u64 \<Rightarrow> u64 \<Rightarrow> nat option option \<Rightarrow> umd \<Rightarrow> (int \<times> umd) option" where
  "clEnqueueWriteBuffer = enqueue_rw FPGAGPU_DMA_TO_DEVICE"

definition clEnqueueReadBuffer ::
  "sys \<Rightarrow> nat \<Rightarrow> nat \<Rightarrow> u64 \<Rightarrow> u64 \<Rightarrow> u64 \<Rightarrow> nat option option \<Rightarrow> umd \<Rightarrow> (int \<times> umd) option" where
  "clEnqueueReadBuffer = enqueue_rw FPGAGPU_DMA_FROM_DEVICE"

text \<open>\<open>bounce\<close> is the aligned buffer, \<open>None\<close> when \<open>posix_memalign\<close> fails.\<close>

definition clEnqueueCopyBuffer ::
  "sys \<Rightarrow> nat \<Rightarrow> nat \<Rightarrow> nat \<Rightarrow> u64 \<Rightarrow> u64 \<Rightarrow> u64 \<Rightarrow> u64 option \<Rightarrow> nat option option \<Rightarrow> umd \<Rightarrow>
     (int \<times> umd) option" where
  "clEnqueueCopyBuffer sys command_queue src dst src_offset dst_offset sz bounce ev u =
     (if command_queue = 0 then Some (CL_INVALID_COMMAND_QUEUE, u)
      else if src = 0 \<or> dst = 0 then Some (CL_INVALID_MEM_OBJECT, u)
      else case mems u src of
        None \<Rightarrow> None
      | Some ms \<Rightarrow>
          if src_offset + sz > mo_size ms then Some (CL_INVALID_VALUE, u)
          else case mems u dst of
            None \<Rightarrow> None
          | Some md \<Rightarrow>
              if dst_offset + sz > mo_size md then Some (CL_INVALID_VALUE, u)
              else case bounce of
                None \<Rightarrow> Some (CL_OUT_OF_HOST_MEMORY, u)
              | Some b \<Rightarrow>
                 (case queues u command_queue of
                    None \<Rightarrow> None
                  | Some q \<Rightarrow>
                 (case contexts u (cq_context q) of
                    None \<Rightarrow> None
                  | Some c \<Rightarrow>
                      let (r1, u1) = do_sys sys (SysDma (cx_fd c)
                            \<lparr>dma_direction = FPGAGPU_DMA_FROM_DEVICE, dma_size = ucast sz,
                             ddr3_addr = mo_ddr3_addr ms + src_offset, host_vaddr = b\<rparr> []) u
                      in if r1 < 0 then Some (CL_OUT_OF_RESOURCES, u1)
                         else
                           let (r2, u2) = do_sys sys (SysDma (cx_fd c)
                                 \<lparr>dma_direction = FPGAGPU_DMA_TO_DEVICE, dma_size = ucast sz,
                                  ddr3_addr = mo_ddr3_addr md + dst_offset, host_vaddr = b\<rparr> []) u1
                           in if r2 < 0 then Some (CL_OUT_OF_RESOURCES, u2)
                              else Some (CL_SUCCESS, complete_event (cq_context q) command_queue ev u2))))"

interpretation rc_mem: refcounted mems mo_refs clReleaseMemObject
  by unfold_locales (auto simp: clReleaseMemObject_def Let_def)

section \<open>Buffers in device memory\<close>

text \<open>The region of a buffer, and the region a transfer names.\<close>

definition mem_region :: "cl_mem \<Rightarrow> region" where
  "mem_region m = (unat (mo_ddr3_addr m), unat (mo_size m))"

definition dma_region :: "fpgagpu_dma_param \<Rightarrow> region" where
  "dma_region p = (unat (ddr3_addr p), unat (dma_size p))"

definition within :: "region \<Rightarrow> region \<Rightarrow> bool" where
  "within r s \<longleftrightarrow> fst s \<le> fst r \<and> fst r + snd r \<le> fst s + snd s"

text \<open>
  Live buffers lie above the kernel argument page, below the frontier of the allocator, and
  do not overlap.
\<close>

definition mem_inv :: "umd \<Rightarrow> bool" where
  "mem_inv u \<longleftrightarrow> vram_inv (vram_state u) \<and>
     (\<forall>p m. mems u p = Some m \<longrightarrow> 65536 \<le> fst (mem_region m) \<and>
        fst (mem_region m) + snd (mem_region m) \<le> vram_next (vram_state u)) \<and>
     (\<forall>p q m n. mems u p = Some m \<longrightarrow> mems u q = Some n \<longrightarrow> p \<noteq> q \<longrightarrow>
        disjoint_regions (mem_region m) (mem_region n))"

lemma mem_inv_insert:
  assumes "mem_inv u" and "0 < unat sz" and "unat sz \<le> 2 ^ 63"
    and "fpgagpu_vram_alloc sz (vram_state u) = (a, v)" and "a \<noteq> 0"
    and "mo_ddr3_addr m = a" and "mo_size m = sz"
    and "vram_state u' = v" and "mems u' = (mems u)(p \<mapsto> m)"
  shows "mem_inv u'"
proof -
  have vi: "vram_inv (vram_state u)" using assms(1) by (simp add: mem_inv_def)
  have sz: "0 < unat sz \<and> unat sz \<le> 2 ^ 63" using assms(2,3) by blast
  note vr.alloc_inv [OF vi sz] and vr.alloc_mono [OF vi sz] and vr.alloc_region [OF vi sz]
    and vr.frontier_bounds [OF vi]
  then have v: "vram_inv v" "vram_next (vram_state u) \<le> vram_next v"
    "vram_next (vram_state u) \<le> unat a" "unat a + unat sz \<le> vram_next v" "65536 \<le> unat a"
    using assms(4,5) by auto
  have reg: "mem_region m = (unat a, unat sz)" using assms(6,7) by (simp add: mem_region_def)
  have old: "65536 \<le> fst (mem_region n) \<and> fst (mem_region n) + snd (mem_region n) \<le> vram_next (vram_state u)"
    if "mems u q = Some n" for q n
    using assms(1) that by (auto simp: mem_inv_def)
  have "disjoint_regions (mem_region m) (mem_region n) \<and> disjoint_regions (mem_region n) (mem_region m)"
    if "mems u q = Some n" for q n
    using old [OF that] v by (simp add: disjoint_regions_def reg)
  moreover have "fst (mem_region n) + snd (mem_region n) \<le> vram_next v" if "mems u q = Some n" for q n
    using old [OF that] v(2) by simp
  moreover have "65536 \<le> fst (mem_region m) \<and> fst (mem_region m) + snd (mem_region m) \<le> vram_next v"
    using v by (simp add: reg)
  moreover have "disjoint_regions (mem_region m') (mem_region n)"
    if "mems u q = Some m'" "mems u r = Some n" "q \<noteq> r" for q r m' n
    using assms(1) that by (auto simp: mem_inv_def)
  ultimately show ?thesis
    using old v(1) unfolding mem_inv_def assms(8,9) by (auto split: if_splits)
qed

lemma mem_inv_cong:
  "vram_state u' = vram_state u \<Longrightarrow> mems u' = mems u \<Longrightarrow> mem_inv u' = mem_inv u"
  by (simp add: mem_inv_def)

lemma do_sys_frame [simp]:
  "vram_state (snd (do_sys sys c u)) = vram_state u" "mems (snd (do_sys sys c u)) = mems u"
  "contexts (snd (do_sys sys c u)) = contexts u" "queues (snd (do_sys sys c u)) = queues u"
  "sys_log (snd (do_sys sys c u)) = sys_log u @ [(c, fst (do_sys sys c u))]"
  by (simp_all add: do_sys_def Let_def)

lemma complete_event_frame [simp]:
  "vram_state (complete_event x q ev u) = vram_state u" "mems (complete_event x q ev u) = mems u"
  "sys_log (complete_event x q ev u) = sys_log u"
  by (simp_all add: complete_event_def split: option.split)

lemma do_sys_log: "sys_log (snd (do_sys sys c u)) = sys_log u @ [(c, sys (sys_log u) c)]"
  and do_sys_ret: "fst (do_sys sys c u) = sys (sys_log u) c"
  by (simp_all add: do_sys_def Let_def)

text \<open>A transfer that passes the bound check without wrapping stays inside the buffer.\<close>

lemma transfer_within:
  assumes "mem_inv u" and "mems u b = Some m" and "unat offset + unat sz < 2 ^ 64"
    and "\<not> offset + sz > mo_size m"
    and "ddr3_addr p = mo_ddr3_addr m + offset" and "dma_size p = ucast sz"
  shows "dma_region p = (unat (mo_ddr3_addr m) + unat offset, unat sz)"
    and "within (dma_region p) (mem_region m)"
proof -
  have "vram_inv (vram_state u)" and r: "fst (mem_region m) + snd (mem_region m) \<le> vram_next (vram_state u)"
    using assms(1,2) by (auto simp: mem_inv_def)
  then have "vram_next (vram_state u) \<le> 2 ^ 30" using vr.frontier_bounds by blast
  with r have top: "unat (mo_ddr3_addr m) + unat (mo_size m) \<le> 2 ^ 30" by (simp add: mem_region_def)
  have "unat (offset + sz) = unat offset + unat sz" using assms(3) by (intro unat_add_no_wrap) simp
  with assms(4) have le: "unat offset + unat sz \<le> unat (mo_size m)"
    by (simp add: word_less_nat_alt not_less)
  then have "unat (mo_ddr3_addr m + offset) = unat (mo_ddr3_addr m) + unat offset"
    using top by (intro unat_add_no_wrap) simp
  moreover have "unat (ucast sz :: u32) = unat sz"
    using le top by (simp add: unsigned_ucast_eq take_bit_eq_mod)
  ultimately show reg: "dma_region p = (unat (mo_ddr3_addr m) + unat offset, unat sz)"
    by (simp add: dma_region_def assms(5,6))
  show "within (dma_region p) (mem_region m)"
    using le by (simp add: reg within_def mem_region_def)
qed

lemma enqueue_rw_cases:
  assumes "enqueue_rw dir sys q b offset sz ptr ev u = Some (r, u')" and "mems u b = Some m"
  obtains (refused) "u' = u" "r \<in> {CL_INVALID_COMMAND_QUEUE, CL_INVALID_MEM_OBJECT, CL_INVALID_VALUE}"
    | (sent) fd ret where "\<not> offset + sz > mo_size m" "mems u' = mems u" "vram_state u' = vram_state u"
        "sys_log u' = sys_log u @ [(SysDma fd \<lparr>dma_direction = dir, dma_size = ucast sz,
           ddr3_addr = mo_ddr3_addr m + offset, host_vaddr = ptr\<rparr> [], ret)]"
        "r = (if ret < 0 then CL_OUT_OF_RESOURCES else CL_SUCCESS)"
proof (cases "q = 0 \<or> b = 0 \<or> ptr = 0 \<or> offset + sz > mo_size m")
  case True
  with assms show ?thesis by (intro refused) (auto simp: enqueue_rw_def split: if_splits)
next
  case False
  with assms obtain qo c where "queues u q = Some qo" "contexts u (cq_context qo) = Some c"
    by (auto simp: enqueue_rw_def split: option.splits)
  with False assms show ?thesis
    by (intro sent [of "cx_fd c"]) (auto simp: enqueue_rw_def split_def Let_def do_sys_log split: if_splits)
qed

section \<open>Properties\<close>

text \<open>Buffers never overlap.  Creating a buffer of at most 8 EiB, whatever its flags and
  whatever the driver answers, keeps all live buffers disjoint, above the kernel argument
  page and below the allocator's frontier; on success the new buffer has the requested size,
  and on failure no buffer is left behind.\<close>

lemma create_buffer_disjoint:
  assumes "mem_inv u" and "clCreateBuffer sys context flags sz host_ptr (Some p) u = Some (r, q, u')"
    and "mems u p = None" and "p \<noteq> 0" and "unat sz \<le> 2 ^ 63"
  shows "mem_inv u' \<and>
    (if r = CL_SUCCESS
     then q = p \<and> (\<exists>m. mems u' = (mems u)(p \<mapsto> m) \<and> mo_size m = sz \<and> mo_refs m = 1 \<and> mo_context m = context)
     else q = 0 \<and> mems u' = mems u)"
proof (cases "context = 0 \<or> sz = 0")
  case True
  then have "clCreateBuffer sys context flags sz host_ptr (Some p) u
      = Some (if context = 0 then CL_INVALID_CONTEXT else CL_INVALID_BUFFER_SIZE, 0, u)"
    by (auto simp: clCreateBuffer_def)
  with assms show ?thesis by (auto simp: cl_codes split: if_splits)
next
  case False
  then have sz: "0 < unat sz" by (simp add: unat_gt_0)
  obtain a v where al: "fpgagpu_vram_alloc sz (vram_state u) = (a, v)"
    by (cases "fpgagpu_vram_alloc sz (vram_state u)")
  have vi: "vram_inv (vram_state u)" using assms(1) by (simp add: mem_inv_def)
  have grow: "vram_inv v" "vram_next (vram_state u) \<le> vram_next v"
    using vr.alloc_inv [OF vi, of sz] vr.alloc_mono [OF vi, of sz] sz assms(5) al by auto
  have keep: "mem_inv w" if "vram_state w = v" "mems w = mems u" for w
    using assms(1) grow that unfolding mem_inv_def by fastforce
  show ?thesis
  proof (cases "a = 0")
    case True
    with False assms(2) al keep show ?thesis by (auto simp: clCreateBuffer_def cl_codes)
  next
    case ne: False
    let ?m = "\<lparr>mo_context = context, mo_flags = flags, mo_size = sz, mo_host_ptr = host_ptr,
      mo_ddr3_addr = a, mo_refs = 1\<rparr>"
    have new: "mem_inv w" if "vram_state w = v" "mems w = (mems u)(p \<mapsto> ?m)" for w
      by (rule mem_inv_insert [OF assms(1) sz assms(5) al ne _ _ that]) simp_all
    have old: "(mems u)(p := None) = mems u" using assms(3) by (simp add: fun_upd_idem)
    show ?thesis
    proof (cases "flags AND CL_MEM_COPY_HOST_PTR \<noteq> 0 \<and> host_ptr \<noteq> 0")
      case True
      with False ne assms(2) al obtain c where "contexts u context = Some c"
        by (auto simp: clCreateBuffer_def Let_def split: option.splits)
      with True False ne assms(2) al new keep old show ?thesis
        by (auto simp: clCreateBuffer_def cl_codes split_def Let_def split: if_splits)
    next
      case nocopy: False
      with False ne assms(2) al have "r = CL_SUCCESS" "q = p"
        "u' = u\<lparr>vram_state := v, mems := (mems u)(p \<mapsto> ?m)\<rparr>"
        by (auto simp: clCreateBuffer_def)
      moreover from this have "mem_inv u'" by (simp add: new)
      moreover from calculation have "\<exists>m. mems u' = (mems u)(p \<mapsto> m) \<and> mo_size m = sz \<and> mo_refs m = 1 \<and>
          mo_context m = context" by (intro exI [of _ ?m]) simp
      ultimately show ?thesis by metis
    qed
  qed
qed

text \<open>A read or write touches exactly the requested part of the buffer.  If offset and size do
  not wrap, a call either is refused without any system call, or makes exactly one transfer,
  in the right direction, of the requested number of bytes from the buffer's start plus the
  offset, inside the buffer (hence outside every other one); it succeeds exactly when the
  driver did.\<close>

theorem buffer_rw_exact:
  assumes "mem_inv u" and "mems u b = Some m" and "unat offset + unat sz < 2 ^ 64"
    and "enqueue_rw dir sys q b offset sz ptr ev u = Some (r, u')"
  shows "(u' = u \<and> r \<notin> {CL_SUCCESS, CL_OUT_OF_RESOURCES}) \<or>
    (\<exists>fd p ret. sys_log u' = sys_log u @ [(SysDma fd p [], ret)] \<and> mems u' = mems u \<and>
       dma_direction p = dir \<and> host_vaddr p = ptr \<and>
       dma_region p = (unat (mo_ddr3_addr m) + unat offset, unat sz) \<and>
       within (dma_region p) (mem_region m) \<and>
       (\<forall>c n. mems u c = Some n \<longrightarrow> c \<noteq> b \<longrightarrow> disjoint_regions (dma_region p) (mem_region n)) \<and>
       r = (if ret < 0 then CL_OUT_OF_RESOURCES else CL_SUCCESS))"
  using assms(4,2)
proof (cases rule: enqueue_rw_cases)
  case refused
  then show ?thesis by (auto simp: cl_codes)
next
  case (sent fd ret)
  let ?p = "\<lparr>dma_direction = dir, dma_size = ucast sz, ddr3_addr = mo_ddr3_addr m + offset, host_vaddr = ptr\<rparr>"
  have reg: "dma_region ?p = (unat (mo_ddr3_addr m) + unat offset, unat sz)"
    and inside: "within (dma_region ?p) (mem_region m)"
    using transfer_within [OF assms(1-3) sent(1), of ?p] by simp_all
  have "disjoint_regions (dma_region ?p) (mem_region n)" if "mems u c = Some n" "c \<noteq> b" for c n
  proof -
    have "disjoint_regions (mem_region m) (mem_region n)"
      using assms(1,2) that unfolding mem_inv_def by metis
    with inside show ?thesis by (auto simp: disjoint_regions_def within_def)
  qed
  with sent reg inside show ?thesis
    by (intro disjI2 exI [of _ fd] exI [of _ ?p] exI [of _ ret]) simp
qed

text \<open>A copy goes through one bounce buffer.  A successful copy whose ranges do not wrap makes
  exactly two transfers of the requested size, first from the source range into the bounce
  buffer and then from the bounce buffer to the destination range, each inside its buffer.\<close>

theorem buffer_copy_exact:
  assumes "mem_inv u" and "mems u s = Some ms" and "mems u d = Some md"
    and "unat src_off + unat sz < 2 ^ 64" and "unat dst_off + unat sz < 2 ^ 64"
    and "clEnqueueCopyBuffer sys q s d src_off dst_off sz (Some b) ev u = Some (CL_SUCCESS, u')"
  shows "\<exists>fd p1 p2 r1 r2. sys_log u' = sys_log u @ [(SysDma fd p1 [], r1), (SysDma fd p2 [], r2)] \<and>
    0 \<le> r1 \<and> 0 \<le> r2 \<and>
    dma_direction p1 = FPGAGPU_DMA_FROM_DEVICE \<and> dma_direction p2 = FPGAGPU_DMA_TO_DEVICE \<and>
    host_vaddr p1 = b \<and> host_vaddr p2 = b \<and>
    dma_region p1 = (unat (mo_ddr3_addr ms) + unat src_off, unat sz) \<and>
    dma_region p2 = (unat (mo_ddr3_addr md) + unat dst_off, unat sz) \<and>
    within (dma_region p1) (mem_region ms) \<and> within (dma_region p2) (mem_region md)"
proof -
  from assms(6) have ok: "q \<noteq> 0" "s \<noteq> 0" "d \<noteq> 0"
    by (auto simp: clEnqueueCopyBuffer_def cl_codes split: if_splits)
  with assms(2,3,6) have bnd: "\<not> src_off + sz > mo_size ms" "\<not> dst_off + sz > mo_size md"
    by (auto simp: clEnqueueCopyBuffer_def cl_codes split: if_splits)
  with ok assms(2,3,6) obtain qo c where qc: "queues u q = Some qo" "contexts u (cq_context qo) = Some c"
    by (auto simp: clEnqueueCopyBuffer_def split: option.splits)
  let ?p1 = "\<lparr>dma_direction = FPGAGPU_DMA_FROM_DEVICE, dma_size = ucast sz,
      ddr3_addr = mo_ddr3_addr ms + src_off, host_vaddr = b\<rparr>"
    and ?p2 = "\<lparr>dma_direction = FPGAGPU_DMA_TO_DEVICE, dma_size = ucast sz,
      ddr3_addr = mo_ddr3_addr md + dst_off, host_vaddr = b\<rparr>"
  let ?u1 = "snd (do_sys sys (SysDma (cx_fd c) ?p1 []) u)"
  let ?r1 = "fst (do_sys sys (SysDma (cx_fd c) ?p1 []) u)"
    and ?r2 = "fst (do_sys sys (SysDma (cx_fd c) ?p2 []) ?u1)"
  have run: "0 \<le> ?r1" "0 \<le> ?r2"
    "u' = complete_event (cq_context qo) q ev (snd (do_sys sys (SysDma (cx_fd c) ?p2 []) ?u1))"
    using assms(2,3,6) ok bnd qc
    by (auto simp: clEnqueueCopyBuffer_def split_def Let_def cl_codes split: if_splits)
  have "sys_log u' = sys_log u @ [(SysDma (cx_fd c) ?p1 [], ?r1), (SysDma (cx_fd c) ?p2 [], ?r2)]"
    by (simp add: run(3))
  then show ?thesis
    using run(1,2) transfer_within [OF assms(1,2,4) bnd(1), of ?p1]
      transfer_within [OF assms(1,3,5) bnd(2), of ?p2]
    by (intro exI [of _ "cx_fd c"] exI [of _ ?p1] exI [of _ ?p2] exI [of _ ?r1] exI [of _ ?r2]) simp
qed

section \<open>Where the contract breaks\<close>

text \<open>A range that wraps is not refused.  A write of 8192 bytes at offset \<open>2^64 - 8192\<close> of a
  4 KiB buffer passes the check \<open>offset + size > buffer->size\<close> and is sent to the 8 KiB of
  device memory below the buffer.\<close>

theorem buffer_write_wraps:
  assumes "mems u b = Some m" and "mo_size m = 4096" and "mo_ddr3_addr m = 0x20000"
    and "queues u q = Some qo" and "contexts u (cq_context qo) = Some c"
    and "q \<noteq> 0" and "b \<noteq> 0" and "ptr \<noteq> 0"
  shows "\<exists>r u'. clEnqueueWriteBuffer sys q b (- 8192) 8192 ptr None u = Some (r, u') \<and>
    (\<exists>ret p. sys_log u' = sys_log u @ [(SysDma (cx_fd c) p [], ret)] \<and>
       dma_region p = (0x1E000, 8192) \<and> disjoint_regions (dma_region p) (mem_region m))"
proof -
  let ?p = "\<lparr>dma_direction = FPGAGPU_DMA_TO_DEVICE, dma_size = 8192, ddr3_addr = 0x1E000, host_vaddr = ptr\<rparr>"
  have "clEnqueueWriteBuffer sys q b (- 8192) 8192 ptr None u =
      Some (if fst (do_sys sys (SysDma (cx_fd c) ?p []) u) < 0 then CL_OUT_OF_RESOURCES else CL_SUCCESS,
        snd (do_sys sys (SysDma (cx_fd c) ?p []) u))"
    using assms by (simp add: clEnqueueWriteBuffer_def enqueue_rw_def split_def Let_def complete_event_def)
  moreover have "dma_region ?p = (0x1E000, 8192)" by (simp add: dma_region_def)
  moreover have "disjoint_regions (dma_region ?p) (mem_region m)"
    using assms(2,3) by (simp add: dma_region_def disjoint_regions_def mem_region_def)
  moreover have "sys_log (snd (do_sys sys (SysDma (cx_fd c) ?p []) u))
      = sys_log u @ [(SysDma (cx_fd c) ?p [], fst (do_sys sys (SysDma (cx_fd c) ?p []) u))]" by simp
  ultimately show ?thesis by blast
qed

text \<open>A second context lets buffers overlap.  \<open>clCreateContext\<close> resets the allocator although
  buffers of the first context are alive, so the next buffer is placed on top of the first.\<close>

theorem second_context_overlaps:
  "\<exists>u1 u2 u3 u4 m1 m2 a.
     clCreateContext (\<lambda>_ _. 3) 1 (Some 9) (Some 1) umd_start = (CL_SUCCESS, 1, u1) \<and>
     clCreateBuffer (\<lambda>_ _. 3) 1 0 8192 0 (Some 2) u1 = Some (CL_SUCCESS, 2, u2) \<and>
     clCreateContext (\<lambda>_ _. 3) 1 (Some 9) (Some 3) u2 = (CL_SUCCESS, 3, u3) \<and>
     clCreateBuffer (\<lambda>_ _. 3) 3 0 4096 0 (Some 4) u3 = Some (CL_SUCCESS, 4, u4) \<and>
     mems u4 2 = Some m1 \<and> mems u4 4 = Some m2 \<and>
     mem_region m1 = (a, 8192) \<and> mem_region m2 = (a, 4096) \<and> \<not> mem_inv u4"
proof -
  let ?s = "\<lambda>_ _. 3"
  define u1 where "u1 = snd (snd (clCreateContext ?s 1 (Some 9) (Some 1) umd_start))"
  define u2 where "u2 = snd (snd (the (clCreateBuffer ?s 1 0 8192 0 (Some 2) u1)))"
  define u3 where "u3 = snd (snd (clCreateContext ?s 1 (Some 9) (Some 3) u2))"
  define u4 where "u4 = snd (snd (the (clCreateBuffer ?s 3 0 4096 0 (Some 4) u3)))"
  note run = clCreateContext_def clCreateBuffer_def do_sys_def Let_def fpgagpu_vram_alloc_def
    vram_aligned_def fpgagpu_vram_init_def umd_start_def vram_boot_def PAGE_SIZE_4K_def
    FPGAGPU_VRAM_USER_BASE_def FPGAGPU_VRAM_TOTAL_SIZE_def
  have 1: "clCreateContext ?s 1 (Some 9) (Some 1) umd_start = (CL_SUCCESS, 1, u1)"
    by (simp add: u1_def run)
  have v1: "vram_state u1 = \<lparr>current_heap_ptr = 0x10000, vram_initialized = True\<rparr>"
    by (simp add: u1_def run)
  have 2: "clCreateBuffer ?s 1 0 8192 0 (Some 2) u1 = Some (CL_SUCCESS, 2, u2)"
    by (simp add: u2_def run v1)
  have m2: "\<exists>m. mems u2 2 = Some m \<and> mem_region m = (0x10000, 8192)"
    by (simp add: u2_def run v1 mem_region_def)
  have 3: "clCreateContext ?s 1 (Some 9) (Some 3) u2 = (CL_SUCCESS, 3, u3)"
    by (simp add: u3_def run)
  have v3: "vram_state u3 = \<lparr>current_heap_ptr = 0x10000, vram_initialized = True\<rparr>" "mems u3 = mems u2"
    by (simp_all add: u3_def run)
  have 4: "clCreateBuffer ?s 3 0 4096 0 (Some 4) u3 = Some (CL_SUCCESS, 4, u4)"
    by (simp add: u4_def run v3)
  have m4: "\<exists>m. mems u4 4 = Some m \<and> mem_region m = (0x10000, 4096)" "mems u4 2 = mems u2 2"
    by (simp_all add: u4_def run v3 mem_region_def)
  from m2 m4 obtain a b where ab: "mems u4 2 = Some a" "mem_region a = (0x10000, 8192)"
    "mems u4 4 = Some b" "mem_region b = (0x10000, 4096)" by auto
  have "\<not> disjoint_regions (mem_region a) (mem_region b)"
    by (simp add: ab disjoint_regions_def)
  moreover have "(2 :: nat) \<noteq> 4" by simp
  ultimately have "\<not> mem_inv u4" using ab(1,3) unfolding mem_inv_def by blast
  with 1 2 3 4 ab show ?thesis by blast
qed

section \<open>A running application\<close>

text \<open>Context 1, queue 5 and buffer 2 of 4 KiB, with a driver that accepts everything.\<close>

definition sample_umd :: umd where
  "sample_umd = umd_start\<lparr>vram_state := \<lparr>current_heap_ptr = 0x22000, vram_initialized = True\<rparr>,
     contexts := [1 \<mapsto> \<lparr>cx_device = 9, cx_fd = 3, cx_refs = 1\<rparr>],
     queues := [5 \<mapsto> \<lparr>cq_context = 1, cq_device = 9, cq_properties = 0, cq_refs = 1\<rparr>],
     mems := [2 \<mapsto> \<lparr>mo_context = 1, mo_flags = 0, mo_size = 4096, mo_host_ptr = 0,
                    mo_ddr3_addr = 0x20000, mo_refs = 2\<rparr>]\<rparr>"

lemma sample_umd_inv: "mem_inv sample_umd"
  by (auto simp: mem_inv_def sample_umd_def vram_inv_def vram_next_def mem_region_def split: if_splits)

lemma create_buffer_disjoint_witness:
  "\<exists>u'. clCreateBuffer (\<lambda>_ _. 0) 1 0 100 0 (Some 7) sample_umd = Some (CL_SUCCESS, 7, u') \<and> mem_inv u'"
proof -
  obtain u' where run: "clCreateBuffer (\<lambda>_ _. 0) 1 0 100 0 (Some 7) sample_umd = Some (CL_SUCCESS, 7, u')"
    by (simp add: clCreateBuffer_def fpgagpu_vram_alloc_def vram_aligned_def PAGE_SIZE_4K_def
        FPGAGPU_VRAM_TOTAL_SIZE_def sample_umd_def Let_def)
  have "mems sample_umd 7 = None" by (simp add: sample_umd_def)
  from create_buffer_disjoint [OF sample_umd_inv run this] run show ?thesis by simp
qed

theorem buffer_rw_exact_witness:
  "\<exists>u' fd p ret. enqueue_rw 0 (\<lambda>_ _. 0) 5 2 16 64 0x5000 None sample_umd = Some (CL_SUCCESS, u') \<and>
     sys_log u' = [(SysDma fd p [], ret)] \<and> dma_region p = (0x20010, 64)"
proof -
  obtain u' where run: "enqueue_rw 0 (\<lambda>_ _. 0) 5 2 16 64 0x5000 None sample_umd = Some (CL_SUCCESS, u')"
    by (simp add: enqueue_rw_def sample_umd_def do_sys_def Let_def)
  obtain m where m: "mems sample_umd 2 = Some m" and a: "mo_ddr3_addr m = 0x20000"
    by (simp add: sample_umd_def)
  have "unat (16 :: u64) + unat (64 :: u64) < 2 ^ 64" by simp
  from buffer_rw_exact [OF sample_umd_inv m this run] have
    "\<exists>fd p ret. sys_log u' = sys_log sample_umd @ [(SysDma fd p [], ret)] \<and> dma_region p = (0x20010, 64)"
    by (auto simp: a)
  with run show ?thesis by (auto simp: sample_umd_def umd_start_def)
qed

theorem buffer_copy_exact_witness:
  "\<exists>u'. clEnqueueCopyBuffer (\<lambda>_ _. 0) 5 2 2 0 2048 1024 (Some 0x7000) None sample_umd = Some (CL_SUCCESS, u') \<and>
     length (sys_log u') = 2"
proof -
  obtain u' where run: "clEnqueueCopyBuffer (\<lambda>_ _. 0) 5 2 2 0 2048 1024 (Some 0x7000) None sample_umd
      = Some (CL_SUCCESS, u')"
    by (simp add: clEnqueueCopyBuffer_def sample_umd_def do_sys_def Let_def)
  obtain m where m: "mems sample_umd 2 = Some m" by (simp add: sample_umd_def)
  have "unat (0 :: u64) + unat (1024 :: u64) < 2 ^ 64" "unat (2048 :: u64) + unat (1024 :: u64) < 2 ^ 64"
    by simp_all
  from buffer_copy_exact [OF sample_umd_inv m m this run] have "length (sys_log u') = 2"
    by (auto simp: sample_umd_def umd_start_def)
  with run show ?thesis by blast
qed

theorem buffer_write_wraps_witness:
  "\<exists>r u' p ret. clEnqueueWriteBuffer (\<lambda>_ _. 0) 5 2 (- 8192) 8192 0x5000 None sample_umd = Some (r, u') \<and>
     sys_log u' = [(SysDma 3 p [], ret)] \<and> dma_region p = (0x1E000, 8192)"
proof -
  obtain m qo c where o: "mems sample_umd 2 = Some m" "mo_size m = 4096" "mo_ddr3_addr m = 0x20000"
    "queues sample_umd 5 = Some qo" "contexts sample_umd (cq_context qo) = Some c" and fd: "cx_fd c = 3"
    by (simp add: sample_umd_def)
  from buffer_write_wraps [OF o, where ptr = "0x5000" and sys = "\<lambda>_ _. 0"] fd show ?thesis
    by (auto simp: sample_umd_def umd_start_def)
qed

end
