(* ===== verification/ClPlatform.thy ===== *)
theory ClPlatform
  imports Umd
begin

text \<open>
  The platform and the device: \<open>umd/src/cl_platform.c\<close>.  Both are static objects; their
  addresses are two distinct numbers.  A query writes into the caller's buffer, which is a list
  of bytes; \<open>None\<close> stands for a null pointer.
\<close>

section \<open>The static objects\<close>

record cl_platform =
  pf_name :: string
  pf_vendor :: string
  pf_version :: string
  pf_profile :: string

record cl_device =
  dv_platform :: nat
  dv_name :: string
  dv_vendor :: string
  dv_type :: u64
  dv_max_compute_units :: u32
  dv_max_work_item_dimensions :: u32
  dv_max_work_item_sizes :: "u64 list"
  dv_max_work_group_size :: u64
  dv_global_mem_size :: u64
  dv_max_mem_alloc_size :: u64
  dv_address_bits :: u32
  dv_fd :: int


definition g_platform_id :: nat where "g_platform_id = 1"
definition g_device_id :: nat where "g_device_id = 2"

definition g_platform :: cl_platform where
  "g_platform = \<lparr>pf_name = ''FPGA-GPU OpenCL Platform'', pf_vendor = ''FPGA-GPU Open Source'',
     pf_version = ''OpenCL 1.2 FPGA-GPU 1.0'', pf_profile = ''EMBEDDED_PROFILE''\<rparr>"

definition g_device :: cl_device where
  "g_device = \<lparr>dv_platform = g_platform_id, dv_name = ''Artix-7 SIMT GPGPU Accelerator'',
     dv_vendor = ''FPGA-GPU'', dv_type = CL_DEVICE_TYPE_GPU OR CL_DEVICE_TYPE_ACCELERATOR,
     dv_max_compute_units = 2, dv_max_work_item_dimensions = 3, dv_max_work_item_sizes = [32, 32, 1],
     dv_max_work_group_size = 32, dv_global_mem_size = FPGAGPU_VRAM_TOTAL_SIZE,
     dv_max_mem_alloc_size = 32 * 1024 * 1024, dv_address_bits = 32, dv_fd = - 1\<rparr>"

section \<open>Discovery\<close>

text \<open>\<open>platforms\<close> and \<open>devices\<close> are the caller's arrays, \<open>num\<close> says whether the caller wants the
  count; the results are the code, the array and the count that was written.\<close>

definition clGetPlatformIDs ::
  "u32 \<Rightarrow> nat list option \<Rightarrow> bool \<Rightarrow> int \<times> nat list option \<times> u32 option" where
  "clGetPlatformIDs num_entries platforms num_platforms =
     (if platforms = None \<and> \<not> num_platforms then (CL_INVALID_VALUE, platforms, None)
      else if num_entries = 0 \<and> platforms \<noteq> None then (CL_INVALID_VALUE, platforms, None)
      else (CL_SUCCESS,
            (case platforms of
               Some ps \<Rightarrow> if num_entries \<ge> 1 then Some (ps[0 := g_platform_id]) else Some ps
             | None \<Rightarrow> None),
            (if num_platforms then Some 1 else None)))"

definition clGetDeviceIDs ::
  "nat \<Rightarrow> u64 \<Rightarrow> u32 \<Rightarrow> nat list option \<Rightarrow> bool \<Rightarrow> int \<times> nat list option \<times> u32 option" where
  "clGetDeviceIDs platform device_type num_entries devices num_devices =
     (if device_type AND (CL_DEVICE_TYPE_GPU OR CL_DEVICE_TYPE_ACCELERATOR OR CL_DEVICE_TYPE_DEFAULT) = 0
      then (CL_DEVICE_NOT_FOUND, devices, None)
      else (CL_SUCCESS,
            (case devices of
               Some ds \<Rightarrow> if num_entries \<ge> 1 then Some (ds[0 := g_device_id]) else Some ds
             | None \<Rightarrow> None),
            (if num_devices then Some 1 else None)))"

section \<open>Queries\<close>

definition string_bytes :: "string \<Rightarrow> u8 list" where
  "string_bytes s = map of_char s @ [0]"

definition value_bytes :: "nat \<Rightarrow> 'a::len word \<Rightarrow> u8 list" where
  "value_bytes n w = map (\<lambda>i. ucast (drop_bit (8 * i) w)) [0..<n]"

text \<open>
  The common end (\<open>COPY_VAL\<close>, \<open>COPY_STR\<close> and the last lines of \<open>clGetPlatformInfo\<close>): the code,
  the size reported and the buffer; \<open>None\<close> when the caller's buffer is smaller than it said.
\<close>

definition copy_value :: "u8 list \<Rightarrow> u64 \<Rightarrow> u8 list option \<Rightarrow> (int \<times> u64 option \<times> u8 list option) option" where
  "copy_value val param_value_size param_value =
     (let len = of_nat (length val)
      in case param_value of
           None \<Rightarrow> Some (CL_SUCCESS, Some len, None)
         | Some b \<Rightarrow>
             if param_value_size < len then Some (CL_INVALID_VALUE, Some len, Some b)
             else if length b < length val then None
             else Some (CL_SUCCESS, Some len, Some (val @ drop (length val) b)))"

definition platform_value :: "u32 \<Rightarrow> u8 list option" where
  "platform_value param_name =
     (if param_name = CL_PLATFORM_PROFILE then Some (string_bytes (pf_profile g_platform))
      else if param_name = CL_PLATFORM_VERSION then Some (string_bytes (pf_version g_platform))
      else if param_name = CL_PLATFORM_NAME then Some (string_bytes (pf_name g_platform))
      else if param_name = CL_PLATFORM_VENDOR then Some (string_bytes (pf_vendor g_platform))
      else if param_name = CL_PLATFORM_EXTENSIONS then Some (string_bytes '''')
      else None)"

definition clGetPlatformInfo ::
  "nat \<Rightarrow> u32 \<Rightarrow> u64 \<Rightarrow> u8 list option \<Rightarrow> (int \<times> u64 option \<times> u8 list option) option" where
  "clGetPlatformInfo platform param_name param_value_size param_value =
     (if platform \<noteq> g_platform_id then Some (CL_INVALID_PLATFORM, None, param_value)
      else case platform_value param_name of
        None \<Rightarrow> Some (CL_INVALID_VALUE, None, param_value)
      | Some val \<Rightarrow> copy_value val param_value_size param_value)"

definition device_value :: "u32 \<Rightarrow> u8 list option" where
  "device_value param_name =
     (if param_name = CL_DEVICE_NAME then Some (string_bytes (dv_name g_device))
      else if param_name = CL_DEVICE_VENDOR then Some (string_bytes (dv_vendor g_device))
      else if param_name = CL_DEVICE_TYPE then Some (value_bytes 8 (dv_type g_device))
      else if param_name = CL_DEVICE_MAX_COMPUTE_UNITS then Some (value_bytes 4 (dv_max_compute_units g_device))
      else if param_name = CL_DEVICE_MAX_WORK_ITEM_DIMENSIONS then Some (value_bytes 4 (dv_max_work_item_dimensions g_device))
      else if param_name = CL_DEVICE_MAX_WORK_GROUP_SIZE then Some (value_bytes 8 (dv_max_work_group_size g_device))
      else if param_name = CL_DEVICE_GLOBAL_MEM_SIZE then Some (value_bytes 8 (dv_global_mem_size g_device))
      else if param_name = CL_DEVICE_MAX_MEM_ALLOC_SIZE then Some (value_bytes 8 (dv_max_mem_alloc_size g_device))
      else if param_name = CL_DEVICE_ADDRESS_BITS then Some (value_bytes 4 (dv_address_bits g_device))
      else if param_name = CL_DEVICE_AVAILABLE then Some (value_bytes 4 CL_TRUE)
      else if param_name = CL_DEVICE_COMPILER_AVAILABLE then Some (value_bytes 4 CL_TRUE)
      else None)"

definition clGetDeviceInfo ::
  "nat \<Rightarrow> u32 \<Rightarrow> u64 \<Rightarrow> u8 list option \<Rightarrow> (int \<times> u64 option \<times> u8 list option) option" where
  "clGetDeviceInfo device param_name param_value_size param_value =
     (if device \<noteq> g_device_id then Some (CL_INVALID_DEVICE, None, param_value)
      else case device_value param_name of
        None \<Rightarrow> Some (CL_INVALID_VALUE, None, param_value)
      | Some val \<Rightarrow> copy_value val param_value_size param_value)"

section \<open>Asking twice\<close>

text \<open>
  The contract OpenCL clients use: ask for the size with a null buffer, then for the value.
  \<open>val\<close> is the value of a known query.
\<close>

locale two_call =
  fixes query :: "u64 \<Rightarrow> u8 list option \<Rightarrow> (int \<times> u64 option \<times> u8 list option) option"
    and val :: "u8 list"
  assumes ask_size: "query sz None = Some (CL_SUCCESS, Some (of_nat (length val)), None)"
    and ask_value: "of_nat (length val) \<le> sz \<Longrightarrow> length val \<le> length b \<Longrightarrow>
      \<exists>n. query sz (Some b) = Some (CL_SUCCESS, n, Some (val @ drop (length val) b))"
    and ask_short: "sz < of_nat (length val) \<Longrightarrow> \<exists>n. query sz (Some b) = Some (CL_INVALID_VALUE, n, Some b)"
    and val_small: "length val < 2 ^ 64"
begin

lemma ask_twice:
  assumes "query sz None = Some (r, Some n, out)" and "length b = unat n"
  shows "\<exists>m. query n (Some b) = Some (CL_SUCCESS, m, Some val)"
proof -
  have n: "n = of_nat (length val)" using assms(1) ask_size [of sz] by simp
  then have "length b = length val"
    using assms(2) val_small by (simp add: unsigned_of_nat take_bit_eq_mod)
  with ask_value [of n b] n show ?thesis by simp
qed

lemma short_keeps: "k < of_nat (length val) \<Longrightarrow> query k (Some b) = Some (r, m, b') \<Longrightarrow> b' = Some b"
  using ask_short [of k b] by auto

end

lemma copy_value_two_call:
  assumes "length val < 2 ^ 64"
  shows "two_call (copy_value val) val"
  using assms by unfold_locales (auto simp: copy_value_def Let_def not_less)

lemma length_value_bytes [simp]: "length (value_bytes n w) = n"
  by (simp add: value_bytes_def)

lemma platform_value_small: "platform_value p = Some val \<Longrightarrow> length val < 2 ^ 64"
  by (auto simp: platform_value_def string_bytes_def g_platform_def split: if_splits)

lemma device_value_small: "device_value p = Some val \<Longrightarrow> length val < 2 ^ 64"
  by (auto simp: device_value_def string_bytes_def g_device_def split: if_splits)

text \<open>Any known parameter; an unknown one is answered by the value of the platform's name.\<close>

definition known_platform :: "u32 \<Rightarrow> u32" where
  "known_platform p = (if platform_value p = None then CL_PLATFORM_NAME else p)"

definition known_device :: "u32 \<Rightarrow> u32" where
  "known_device p = (if device_value p = None then CL_DEVICE_NAME else p)"

lemma platform_query:
  "clGetPlatformInfo g_platform_id (known_platform p) = copy_value (the (platform_value (known_platform p)))"
  by (auto simp: fun_eq_iff clGetPlatformInfo_def known_platform_def platform_value_def)

lemma device_query:
  "clGetDeviceInfo g_device_id (known_device p) = copy_value (the (device_value (known_device p)))"
  by (auto simp: fun_eq_iff clGetDeviceInfo_def known_device_def device_value_def)

interpretation platform_info: two_call "clGetPlatformInfo g_platform_id (known_platform p)"
    "the (platform_value (known_platform p))" for p
  unfolding platform_query
  by (rule copy_value_two_call, rule platform_value_small [of "known_platform p"])
    (auto simp: known_platform_def platform_value_def)

interpretation device_info: two_call "clGetDeviceInfo g_device_id (known_device p)"
    "the (device_value (known_device p))" for p
  unfolding device_query
  by (rule copy_value_two_call, rule device_value_small [of "known_device p"])
    (auto simp: known_device_def device_value_def)

section \<open>Properties\<close>

text \<open>Asking twice gets the value.  A client that asks for the size of a device parameter
  with a null buffer and then passes a buffer of exactly that size gets the whole value in it;
  with a smaller size it gets an error and its buffer back unchanged.\<close>

theorem device_info_two_calls:
  assumes "clGetDeviceInfo g_device_id p sz None = Some (r, Some n, out)" and "length b = unat n"
  shows "\<exists>val. device_value p = Some val \<and> length val = unat n \<and>
    (\<exists>m. clGetDeviceInfo g_device_id p n (Some b) = Some (CL_SUCCESS, m, Some val)) \<and>
    (\<forall>k < n. \<exists>m. clGetDeviceInfo g_device_id p k (Some b) = Some (CL_INVALID_VALUE, m, Some b))"
proof -
  obtain val where v: "device_value p = Some val"
    using assms(1) by (auto simp: clGetDeviceInfo_def split: option.splits)
  then have kp: "known_device p = p" by (simp add: known_device_def)
  note device_info.ask_size [of p, unfolded kp v option.sel]
  with assms(1) have n: "n = of_nat (length val)" by simp
  then have len: "length val = unat n"
    using device_value_small [OF v] by (simp add: unsigned_of_nat take_bit_eq_mod)
  from device_info.ask_twice [of p, unfolded kp v option.sel, OF assms]
    device_info.ask_short [of _ p, unfolded kp v option.sel, folded n] v len
  show ?thesis by blast
qed

theorem device_info_two_calls_witness:
  "\<exists>val. device_value CL_DEVICE_VENDOR = Some val \<and> length val = unat (9 :: u64) \<and>
    (\<exists>m. clGetDeviceInfo g_device_id CL_DEVICE_VENDOR 9 (Some (replicate 9 0)) = Some (CL_SUCCESS, m, Some val)) \<and>
    (\<forall>k < 9. \<exists>m. clGetDeviceInfo g_device_id CL_DEVICE_VENDOR k (Some (replicate 9 0)) =
       Some (CL_INVALID_VALUE, m, Some (replicate 9 0)))"
  by (rule device_info_two_calls [where sz = 0 and out = None])
    (simp_all add: clGetDeviceInfo_def device_value_def copy_value_def string_bytes_def g_device_def
      CL_DEVICE_VENDOR_def CL_DEVICE_NAME_def)

end
