(* ===== verification/ClProgram.thy ===== *)
theory ClProgram
  imports ClPlatform "HOL-Library.Sublist"
begin

text \<open>
  Programs and kernels: \<open>umd/src/cl_program.c\<close> and \<open>cl_kernel.c\<close>.  The device compiler is a
  parameter (\<open>fpgagpu-clang\<close> is another repository); what files, \<open>malloc\<close> and the
  environment answer during a build is the record \<open>build_env\<close>.
\<close>

section \<open>C strings and bytes\<close>

abbreviation NUL :: char where "NUL \<equiv> CHR 0x00"

definition strlen :: "string \<Rightarrow> nat option" where
  "strlen s = (if NUL \<in> set s then Some (length (takeWhile (\<lambda>c. c \<noteq> NUL) s)) else None)"

definition strstr :: "string \<Rightarrow> string \<Rightarrow> bool" where
  "strstr needle s = sublist needle (takeWhile (\<lambda>c. c \<noteq> NUL) s)"

definition snprintf :: "nat \<Rightarrow> string \<Rightarrow> string" where
  "snprintf n s = take (n - 1) s"

fun dec :: "nat \<Rightarrow> string" where
  "dec n = (if n < 10 then [char_of (48 + n)] else dec (n div 10) @ [char_of (48 + n mod 10)])"

declare dec.simps [simp del]

fun le_word :: "u8 list \<Rightarrow> 'a::len word" where
  "le_word [] = 0"
| "le_word (b # bs) = ucast b OR push_bit 8 (le_word bs)"

fun words_le :: "u8 list \<Rightarrow> u32 list" where
  "words_le (a # b # c # d # r) = le_word [a, b, c, d] # words_le r"
| "words_le _ = []"

section \<open>Programs\<close>

text \<open>
  A source string is the memory readable at its pointer.  The bytes \<open>memcpy\<close> takes from it
  are as many as its length entry says, or up to its terminator; \<open>None\<close> when that runs out
  of the memory there.
\<close>

definition source_piece :: "string \<Rightarrow> u64 \<Rightarrow> string option" where
  "source_piece s len =
     (if len > 0 then (if unat len \<le> length s then Some (take (unat len) s) else None)
      else case strlen s of None \<Rightarrow> None | Some n \<Rightarrow> Some (take n s))"

text \<open>The first loop stops at a null string (\<open>Some None\<close>).\<close>

fun source_pieces :: "(string option \<times> u64) list \<Rightarrow> string list option option" where
  "source_pieces [] = Some (Some [])"
| "source_pieces ((None, len) # r) = Some None"
| "source_pieces ((Some s, len) # r) =
     (case source_piece s len of
        None \<Rightarrow> None
      | Some p \<Rightarrow>
         (case source_pieces r of
            None \<Rightarrow> None
          | Some None \<Rightarrow> Some None
          | Some (Some ps) \<Rightarrow> Some (Some (p # ps))))"

text \<open>
  \<open>strings\<close> has the \<open>count\<close> entries of the array (\<open>None\<close> for a null array), each with its
  entry of \<open>lengths\<close>, 0 for a null \<open>lengths\<close> array: the code treats both alike.  The last
  two arguments are the results of the two \<open>malloc\<close> calls.
\<close>

definition clCreateProgramWithSource ::
  "nat \<Rightarrow> (string option \<times> u64) list option \<Rightarrow> nat option \<Rightarrow> bool \<Rightarrow> umd \<Rightarrow>
     (int \<times> nat \<times> umd) option" where
  "clCreateProgramWithSource context strings alloc source_alloc u =
     (if context = 0 then Some (CL_INVALID_CONTEXT, 0, u)
      else case strings of
        None \<Rightarrow> Some (CL_INVALID_VALUE, 0, u)
      | Some ss \<Rightarrow>
          if ss = [] then Some (CL_INVALID_VALUE, 0, u)
          else case source_pieces ss of
            None \<Rightarrow> None
          | Some None \<Rightarrow> Some (CL_INVALID_VALUE, 0, u)
          | Some (Some ps) \<Rightarrow>
             (case alloc of
                None \<Rightarrow> Some (CL_OUT_OF_HOST_MEMORY, 0, u)
              | Some p \<Rightarrow>
                  if \<not> source_alloc then Some (CL_OUT_OF_HOST_MEMORY, 0, u)
                  else
                    let total_len = sum_list (map (\<lambda>s. of_nat (length s)) ps);
                        offset = length (concat ps)
                    in if unat (total_len + 1) < offset + 1 then None
                       else Some (CL_SUCCESS, p, u\<lparr>programs := (programs u)(p \<mapsto>
                         \<lparr>pg_context = context, pg_source = concat ps, pg_source_len = total_len,
                          pg_binary_words = None, pg_num_instructions = 0, pg_is_built = False,
                          pg_refs = 1\<rparr>)\<rparr>)))"

definition clReleaseProgram :: "nat \<Rightarrow> umd \<Rightarrow> (int \<times> umd) option" where
  "clReleaseProgram p u =
     (if p = 0 then Some (CL_INVALID_PROGRAM, u)
      else case programs u p of
        None \<Rightarrow> None
      | Some g \<Rightarrow>
          let n = pg_refs g - 1
          in if n = 0 then Some (CL_SUCCESS, u\<lparr>programs := (programs u)(p := None)\<rparr>)
             else Some (CL_SUCCESS, u\<lparr>programs := (programs u)(p \<mapsto> g\<lparr>pg_refs := n\<rparr>)\<rparr>))"

section \<open>Building\<close>

text \<open>
  \<open>be_write_*\<close> is what \<open>write\<close> returns (\<open>None\<close> for an error; it may write less than asked),
  \<open>be_ftell\<close> is \<open>False\<close> when \<open>ftell\<close> fails, \<open>be_fread\<close> how many bytes \<open>fread\<close> delivers, and
  \<open>be_heap\<close> what fresh memory happens to hold.
\<close>

record build_env =
  be_pid :: nat
  be_compiler_dir :: "string option"
  be_open :: bool
  be_write_header :: "nat option"
  be_write_source :: "nat option"
  be_fopen :: bool
  be_ftell :: bool
  be_malloc :: "u64 option"
  be_fread :: nat
  be_heap :: "u8 list"

text \<open>The compiler: the command line and the source file's text give the exit status and the
  output file, if there is one.\<close>

type_synonym device_compiler = "string \<Rightarrow> string \<Rightarrow> int \<times> u8 list option"

definition header_include :: string where
  "header_include = ''#include \"device_intrinsics.h\"'' @ [CHR 0x0A]"

definition src_path :: "nat \<Rightarrow> nat \<Rightarrow> string" where
  "src_path pid counter =
     snprintf 256 (''/tmp/fpgagpu_kernel_'' @ dec pid @ ''_'' @ dec counter @ ''.c'')"

definition bin_path :: "string \<Rightarrow> string" where
  "bin_path src_tmpl = snprintf 512 (src_tmpl @ ''.bin'')"

definition compiler_script :: "string option \<Rightarrow> string" where
  "compiler_script compiler_dir =
     (case compiler_dir of
        Some d \<Rightarrow> snprintf 512 (d @ ''/scripts/fpgagpu-clang'')
      | None \<Rightarrow> snprintf 512
          ''/home/user/workspace/fpga-gpu/fpga-gpu-compiler/scripts/fpgagpu-clang'')"

definition compile_cmd :: "string \<Rightarrow> string \<Rightarrow> string \<Rightarrow> string" where
  "compile_cmd script src bin =
     snprintf 2048 (script @ '' -b '' @ src @ '' -o '' @ bin @ '' > /dev/null 2>&1'')"

text \<open>The two \<open>write\<close> calls: the text that reaches the file, \<open>None\<close> on an error.\<close>

definition write_source :: "build_env \<Rightarrow> cl_program \<Rightarrow> string option" where
  "write_source e g =
     (let header = (if strstr ''device_intrinsics.h'' (pg_source g @ [NUL]) then Some []
                    else map_option (\<lambda>n. take n header_include) (be_write_header e))
      in case header of
           None \<Rightarrow> None
         | Some h \<Rightarrow> map_option (\<lambda>n. h @ take n (take (unat (pg_source_len g)) (pg_source g)))
                       (be_write_source e))"

text \<open>Steps 3 and 4, from the compiler on, without the file system clean-up that every path
  has in common; the result is the return code and the program.\<close>

definition read_binary :: "build_env \<Rightarrow> u8 list option \<Rightarrow> cl_program \<Rightarrow> int \<times> cl_program" where
  "read_binary e bin g =
     (case (if be_fopen e then bin else None) of
        None \<Rightarrow> (CL_BUILD_PROGRAM_FAILURE, g)
      | Some bytes \<Rightarrow>
          let fsize = (if be_ftell e then int (length bytes) else - 1)
          in if fsize \<le> 0 \<or> fsize mod 4 \<noteq> 0 then (CL_BUILD_PROGRAM_FAILURE, g)
             else case be_malloc e of
               None \<Rightarrow> (CL_OUT_OF_HOST_MEMORY, g\<lparr>pg_binary_words := None\<rparr>)
             | Some a \<Rightarrow>
                 let got = min (be_fread e) (length bytes);
                     buf = take got bytes @ take (length bytes - got) (drop got (be_heap e));
                     g1 = g\<lparr>pg_binary_words := Some (a, words_le buf)\<rparr>
                 in if got \<noteq> length bytes then (CL_BUILD_PROGRAM_FAILURE, g1)
                    else (CL_SUCCESS, g1\<lparr>pg_num_instructions := word_of_int (fsize div 4),
                                         pg_is_built := True\<rparr>))"

definition clBuildProgram ::
  "device_compiler \<Rightarrow> build_env \<Rightarrow> nat \<Rightarrow> umd \<Rightarrow> (int \<times> umd) option" where
  "clBuildProgram compile e p u =
     (if p = 0 then Some (CL_INVALID_PROGRAM, u)
      else
        let src = src_path (be_pid e) (build_counter u);
            u1 = u\<lparr>build_counter := build_counter u + 1\<rparr>
        in if \<not> be_open e then Some (CL_COMPILER_NOT_AVAILABLE, u1)
           else
             let u2 = u1\<lparr>tmp_files := insert src (tmp_files u1)\<rparr>
             in case programs u2 p of
                  None \<Rightarrow> None
                | Some g \<Rightarrow>
                   (case write_source e g of
                      None \<Rightarrow> Some (CL_BUILD_PROGRAM_FAILURE,
                                    u2\<lparr>tmp_files := tmp_files u2 - {src}\<rparr>)
                    | Some txt \<Rightarrow>
                        let bin = bin_path src;
                            (ret, out) = compile (compile_cmd (compiler_script (be_compiler_dir e)) src bin) txt;
                            u3 = (case out of None \<Rightarrow> u2
                                  | Some _ \<Rightarrow> u2\<lparr>tmp_files := insert bin (tmp_files u2)\<rparr>)
                        in if ret \<noteq> 0 then
                             Some (CL_BUILD_PROGRAM_FAILURE,
                                   u3\<lparr>tmp_files := tmp_files u3 - {src} - {bin}\<rparr>)
                           else
                             let (r, g1) = read_binary e out g
                             in Some (r, u3\<lparr>programs := (programs u3)(p \<mapsto> g1),
                                            tmp_files := tmp_files u3 - {src} - {bin}\<rparr>)))"

section \<open>Kernels\<close>

definition FPGAGPU_MAX_ARGS :: nat where "FPGAGPU_MAX_ARGS = 32"

definition no_arg :: fpgagpu_kernel_arg where
  "no_arg = \<lparr>ka_is_set = False, ka_is_mem = False, ka_size = 0, ka_scalar_val = 0, ka_mem_obj = 0\<rparr>"

text \<open>\<open>dup_ok\<close> is \<open>False\<close> when \<open>strdup\<close> fails: the name is then null.\<close>

definition clCreateKernel ::
  "nat \<Rightarrow> string option \<Rightarrow> nat option \<Rightarrow> bool \<Rightarrow> umd \<Rightarrow> (int \<times> nat \<times> umd) option" where
  "clCreateKernel program kernel_name alloc dup_ok u =
     (if program = 0 then Some (CL_INVALID_PROGRAM, 0, u)
      else case programs u program of
        None \<Rightarrow> None
      | Some g \<Rightarrow>
          if \<not> pg_is_built g then Some (CL_INVALID_PROGRAM_EXECUTABLE, 0, u)
          else case kernel_name of
            None \<Rightarrow> Some (CL_INVALID_VALUE, 0, u)
          | Some name \<Rightarrow>
             (case alloc of
                None \<Rightarrow> Some (CL_OUT_OF_HOST_MEMORY, 0, u)
              | Some k \<Rightarrow> Some (CL_SUCCESS, k, u\<lparr>kernels := (kernels u)(k \<mapsto>
                  \<lparr>kn_program = program, kn_name = (if dup_ok then Some name else None),
                   kn_args = replicate FPGAGPU_MAX_ARGS no_arg, kn_num_args = 0, kn_refs = 1\<rparr>)\<rparr>)))"

definition clReleaseKernel :: "nat \<Rightarrow> umd \<Rightarrow> (int \<times> umd) option" where
  "clReleaseKernel p u =
     (if p = 0 then Some (CL_INVALID_KERNEL, u)
      else case kernels u p of
        None \<Rightarrow> None
      | Some k \<Rightarrow>
          let n = kn_refs k - 1
          in if n = 0 then Some (CL_SUCCESS, u\<lparr>kernels := (kernels u)(p := None)\<rparr>)
             else Some (CL_SUCCESS, u\<lparr>kernels := (kernels u)(p \<mapsto> k\<lparr>kn_refs := n\<rparr>)\<rparr>))"

text \<open>The entry \<open>clSetKernelArg\<close> stores.  \<open>val\<close> is the memory readable at \<open>arg_value\<close>; an
  argument of pointer size is taken for a buffer and dereferenced.\<close>

definition kernel_arg_of ::
  "(nat \<Rightarrow> cl_mem option) \<Rightarrow> u64 \<Rightarrow> u8 list \<Rightarrow> fpgagpu_kernel_arg option" where
  "kernel_arg_of ms arg_size val =
     (if arg_size = 8 then
        (if length val < 8 then None
         else let mem = unat (le_word (take 8 val) :: u64)
              in case ms mem of
                   None \<Rightarrow> None
                 | Some m \<Rightarrow> Some \<lparr>ka_is_set = True, ka_is_mem = True, ka_size = arg_size,
                                  ka_scalar_val = ucast (mo_ddr3_addr m), ka_mem_obj = mem\<rparr>)
      else if arg_size \<le> 4 then
        (if length val < unat arg_size then None
         else Some \<lparr>ka_is_set = True, ka_is_mem = False, ka_size = arg_size,
                    ka_scalar_val = le_word (take (unat arg_size) val), ka_mem_obj = 0\<rparr>)
      else Some \<lparr>ka_is_set = True, ka_is_mem = False, ka_size = arg_size,
                 ka_scalar_val = 0, ka_mem_obj = 0\<rparr>)"

definition clSetKernelArg ::
  "nat \<Rightarrow> u32 \<Rightarrow> u64 \<Rightarrow> u8 list option \<Rightarrow> umd \<Rightarrow> (int \<times> umd) option" where
  "clSetKernelArg kern arg_index arg_size arg_value u =
     (if kern = 0 then Some (CL_INVALID_KERNEL, u)
      else if arg_index \<ge> of_nat FPGAGPU_MAX_ARGS then Some (CL_INVALID_ARG_INDEX, u)
      else case arg_value of
        None \<Rightarrow> Some (CL_INVALID_ARG_VALUE, u)
      | Some val \<Rightarrow>
         (case kernels u kern of
            None \<Rightarrow> None
          | Some k \<Rightarrow>
             (case kernel_arg_of (mems u) arg_size val of
                None \<Rightarrow> None
              | Some a \<Rightarrow>
                  let k1 = k\<lparr>kn_args := (kn_args k)[unat arg_index := a]\<rparr>;
                      k2 = (if arg_index \<ge> kn_num_args k1 then k1\<lparr>kn_num_args := arg_index + 1\<rparr> else k1)
                  in Some (CL_SUCCESS, u\<lparr>kernels := (kernels u)(kern \<mapsto> k2)\<rparr>))))"

interpretation rc_program: refcounted programs pg_refs clReleaseProgram
  by unfold_locales (auto simp: clReleaseProgram_def Let_def)

interpretation rc_kernel: refcounted kernels kn_refs clReleaseKernel
  by unfold_locales (auto simp: clReleaseKernel_def Let_def)

section \<open>Bytes of a binary\<close>

definition bytes_le :: "u32 \<Rightarrow> u8 list" where
  "bytes_le w = [ucast w, ucast (drop_bit 8 w), ucast (drop_bit 16 w), ucast (drop_bit 24 w)]"

text \<open>A word survives the trip through its bytes.\<close>

lemma value_bytes_Suc: "value_bytes (Suc k) w = ucast w # value_bytes k (drop_bit 8 w)"
  unfolding value_bytes_def
  by (simp only: upt_conv_Cons [OF zero_less_Suc] map_Suc_upt [symmetric] list.map map_map)
     (simp add: add.commute)

lemma bit_le_word_bytes:
  fixes w :: "'a::len word"
  assumes "n < LENGTH('a)"
  shows "bit (le_word (value_bytes k w) :: 'a word) n \<longleftrightarrow> n < 8 * k \<and> bit w n"
  using assms
proof (induction k arbitrary: w n)
  case 0
  then show ?case by (simp add: value_bytes_def)
next
  case (Suc k)
  then show ?case
    using Suc.IH [of "n - 8" "drop_bit 8 w"]
    by (cases "n < 8") (auto simp: value_bytes_Suc bit_simps)
qed

lemma le_word_bytes_u64: "le_word (value_bytes 8 w) = (w :: u64)"
  by (rule bit_word_eqI) (simp add: bit_le_word_bytes)

lemma bytes_le_word: "bytes_le (le_word [a, b, c, d]) = [a, b, c, d]"
  unfolding bytes_le_def le_word.simps list.inject
  by (intro conjI bit_word_eqI) (auto simp: bit_simps dest: bit_imp_le_length)

lemma bytes_words_le: "length bs mod 4 = 0 \<Longrightarrow> concat (map bytes_le (words_le bs)) = bs"
proof (induction bs rule: words_le.induct)
  case (1 a b c d r)
  then have "length r mod 4 = 0" by simp
  with 1 show ?case by (simp add: bytes_le_word del: le_word.simps)
qed simp_all

lemma length_words_le: "length (words_le bs) = length bs div 4"
  by (induction bs rule: words_le.induct) auto

section \<open>Temporary files\<close>

lemma dec_ge10: "10 \<le> n \<Longrightarrow> dec n = dec (n div 10) @ [char_of (48 + n mod 10)]"
  by (subst dec.simps) simp

lemma dec_lt10: "n < 10 \<Longrightarrow> dec n = [char_of (48 + n)]"
  by (subst dec.simps) simp

lemma dec_not_Nil [simp]: "dec n \<noteq> []"
  by (subst dec.simps) simp

lemma digit_inj:
  fixes m n :: nat
  assumes "char_of (48 + m) = (char_of (48 + n) :: char)" and "m < 10" and "n < 10"
  shows "m = n"
proof -
  from arg_cong [OF assms(1), of "of_char :: char \<Rightarrow> nat"] have "(48 + m) mod 256 = (48 + n) mod 256"
    by (simp only: of_char_of)
  with assms(2,3) show ?thesis by simp
qed

lemma dec_inj: "dec m = dec n \<Longrightarrow> m = n"
proof (induction m arbitrary: n rule: less_induct)
  case (less m)
  consider (small) "m < 10" "n < 10" | (big) "10 \<le> m" "10 \<le> n"
    | (left) "m < 10" "10 \<le> n" | (right) "10 \<le> m" "n < 10" by linarith
  then show ?case
  proof cases
    case small
    with less.prems show ?thesis by (intro digit_inj) (simp_all add: dec_lt10)
  next
    case big
    with less.prems have d: "dec (m div 10) = dec (n div 10)"
      and "char_of (48 + m mod 10) = (char_of (48 + n mod 10) :: char)" by (simp_all add: dec_ge10)
    from this(2) have "m mod 10 = n mod 10" by (rule digit_inj) simp_all
    moreover have "m div 10 = n div 10" by (rule less.IH [OF _ d]) (use big in simp)
    ultimately show ?thesis by (metis mult_div_mod_eq)
  next
    case left
    with less.prems show ?thesis by (simp add: dec_lt10 dec_ge10 dec_not_Nil [symmetric])
  next
    case right
    with less.prems show ?thesis by (simp add: dec_lt10 dec_ge10)
  qed
qed

lemma length_dec: "n < 10 ^ k \<Longrightarrow> 0 < k \<Longrightarrow> length (dec n) \<le> k"
proof (induction k arbitrary: n)
  case 0
  then show ?case by simp
next
  case (Suc k)
  show ?case
  proof (cases "n < 10")
    case True
    then show ?thesis by (simp add: dec_lt10)
  next
    case False
    with Suc.prems have "0 < k" by (cases k) simp_all
    moreover have "n div 10 < 10 ^ k" using Suc.prems(1) by (simp add: less_mult_imp_div_less)
    ultimately show ?thesis using Suc.IH False by (simp add: dec_ge10)
  qed
qed

section \<open>Properties of programs\<close>

text \<open>What a source entry contributes.\<close>

definition copied_piece :: "string option \<times> u64 \<Rightarrow> string \<Rightarrow> bool" where
  "copied_piece e t =
     (case e of
        (None, _) \<Rightarrow> False
      | (Some m, len) \<Rightarrow> prefix t m \<and>
          (if len > 0 then length t = unat len
           else length t < length m \<and> m ! length t = NUL \<and> NUL \<notin> set t))"

lemma takeWhile_NUL:
  assumes "NUL \<in> set m" and "t = takeWhile (\<lambda>c. c \<noteq> NUL) m"
  shows "length t < length m" and "m ! length t = NUL" and "NUL \<notin> set t" and "prefix t m"
proof -
  from assms(1) obtain b r where m: "m = b @ NUL # r" and b: "NUL \<notin> set b"
    by (meson split_list_first)
  then have "\<forall>c \<in> set b. c \<noteq> NUL" by auto
  then have "t = b" unfolding assms(2) m by (simp add: takeWhile_append2)
  with m b show "length t < length m" and "m ! length t = NUL" and "NUL \<notin> set t" and "prefix t m"
    by simp_all
qed

lemma source_piece_copied: "source_piece m len = Some t \<Longrightarrow> copied_piece (Some m, len) t"
  by (auto simp: source_piece_def copied_piece_def strlen_def take_is_prefix takeWhile_NUL
      takeWhile_eq_take [symmetric] split: if_splits)

lemma source_pieces_copied: "source_pieces ss = Some (Some ps) \<Longrightarrow> list_all2 copied_piece ss ps"
  by (induction ss arbitrary: ps rule: source_pieces.induct)
    (auto split: option.splits intro: source_piece_copied)

lemma sum_lengths: "sum_list (map (\<lambda>s. of_nat (length s)) ps) = (of_nat (length (concat ps)) :: 'a::semiring_1)"
  by (induction ps) simp_all

lemma unat_of_nat_Suc_ge:
  assumes "n + 1 \<le> unat (of_nat n + 1 :: u64)"
  shows "unat (of_nat n :: u64) = n"
proof -
  have "(of_nat n + 1 :: u64) = of_nat (n + 1)" by simp
  then have "unat (of_nat n + 1 :: u64) = (n + 1) mod 2 ^ LENGTH(64)"
    by (simp only: unsigned_of_nat take_bit_eq_mod of_nat_id)
  moreover have "(n + 1) mod 2 ^ LENGTH(64) < 2 ^ LENGTH(64)" by simp
  ultimately have "n < 2 ^ 64" using assms by (simp del: mod_less_divisor)
  then show ?thesis by (simp add: unsigned_of_nat take_bit_eq_mod)
qed

text \<open>A program's source is the concatenation of its strings.  When
  \<open>clCreateProgramWithSource\<close> succeeds, each string contributed exactly the bytes its length
  asks for, or up to its terminator when it has none; the stored length is the length of the
  stored text without wrap-around, nothing was written past the buffer, and the program is
  not built.\<close>

theorem program_source_exact:
  assumes "clCreateProgramWithSource context strings alloc source_alloc u = Some (CL_SUCCESS, p, u')"
  shows "\<exists>ss ps g. strings = Some ss \<and> list_all2 copied_piece ss ps \<and> alloc = Some p \<and>
    u' = u\<lparr>programs := (programs u)(p \<mapsto> g)\<rparr> \<and> pg_source g = concat ps \<and>
    unat (pg_source_len g) = length (pg_source g) \<and> pg_context g = context \<and>
    \<not> pg_is_built g \<and> pg_refs g = 1"
proof -
  from assms obtain ss ps where st: "strings = Some ss" "source_pieces ss = Some (Some ps)" "alloc = Some p"
    and le: "length (concat ps) + 1 \<le> unat (of_nat (length (concat ps)) + 1 :: u64)"
    and u': "u' = u\<lparr>programs := (programs u)(p \<mapsto>
      \<lparr>pg_context = context, pg_source = concat ps, pg_source_len = of_nat (length (concat ps)),
       pg_binary_words = None, pg_num_instructions = 0, pg_is_built = False, pg_refs = 1\<rparr>)\<rparr>"
    by (auto simp: clCreateProgramWithSource_def cl_codes Let_def sum_lengths not_less
        split: if_splits option.splits)
  show ?thesis
    by (rule exI [of _ ss], rule exI [of _ ps], rule exI, intro conjI, rule st(1),
        rule source_pieces_copied [OF st(2)], rule st(3), rule u')
      (simp_all add: unat_of_nat_Suc_ge [OF le])
qed

theorem program_source_exact_witness:
  "\<exists>ss ps g. Some [(Some (''ab'' @ [NUL]), 0), (Some ''cdef'', 2)] = Some ss \<and>
    list_all2 copied_piece ss ps \<and> Some (7::nat) = Some 7 \<and>
    umd_start\<lparr>programs := (programs umd_start)(7 \<mapsto>
       \<lparr>pg_context = 3, pg_source = ''abcd'', pg_source_len = 4, pg_binary_words = None,
        pg_num_instructions = 0, pg_is_built = False, pg_refs = 1\<rparr>)\<rparr>
      = umd_start\<lparr>programs := (programs umd_start)(7 \<mapsto> g)\<rparr> \<and> pg_source g = concat ps \<and>
    unat (pg_source_len g) = length (pg_source g) \<and> pg_context g = 3 \<and>
    \<not> pg_is_built g \<and> pg_refs g = 1"
  by (rule program_source_exact [where source_alloc = True])
    (simp add: clCreateProgramWithSource_def source_piece_def strlen_def)

text \<open>What reading the binary does to the program.\<close>

lemma read_binary_success:
  assumes "read_binary e out g = (CL_SUCCESS, g')"
  shows "\<exists>bytes a ws. out = Some bytes \<and> bytes \<noteq> [] \<and> pg_binary_words g' = Some (a, ws) \<and>
    concat (map bytes_le ws) = bytes \<and> pg_num_instructions g' = of_nat (length ws) \<and>
    pg_is_built g' \<and> pg_source g' = pg_source g \<and> pg_refs g' = pg_refs g"
proof -
  from assms obtain bytes a where o: "out = Some bytes" and ne: "bytes \<noteq> []"
    and m: "int (length bytes) mod 4 = 0" and
    g': "g' = g\<lparr>pg_binary_words := Some (a, words_le bytes),
      pg_num_instructions := word_of_int (int (length bytes) div 4), pg_is_built := True\<rparr>"
    by (auto simp: read_binary_def cl_codes Let_def split: option.splits if_splits)
  from m have "length bytes mod 4 = 0" by presburger
  then have "concat (map bytes_le (words_le bytes)) = bytes" by (rule bytes_words_le)
  moreover have "int (length bytes) div 4 = int (length (words_le bytes))"
    by (simp add: length_words_le zdiv_int)
  ultimately show ?thesis using o ne unfolding g' by simp
qed

abbreviation build_cmd :: "build_env \<Rightarrow> umd \<Rightarrow> string" where
  "build_cmd e u \<equiv> compile_cmd (compiler_script (be_compiler_dir e))
     (src_path (be_pid e) (build_counter u)) (bin_path (src_path (be_pid e) (build_counter u)))"

lemma build_successful:
  assumes "clBuildProgram compile e p u = Some (CL_SUCCESS, u')"
  obtains g body out g' where "programs u p = Some g" "write_source e g = Some body"
    "compile (build_cmd e u) body = (0, out)" "read_binary e out g = (CL_SUCCESS, g')"
    "programs u' = (programs u)(p \<mapsto> g')"
proof -
  from assms obtain g body where g: "programs u p = Some g" and t: "write_source e g = Some body"
    by (auto simp: clBuildProgram_def cl_codes Let_def split: if_splits option.splits)
  obtain ret out where c: "compile (build_cmd e u) body = (ret, out)" by (cases "compile (build_cmd e u) body")
  obtain r g' where b: "read_binary e out g = (r, g')" by (cases "read_binary e out g")
  from assms g t c b have "ret = 0" "r = CL_SUCCESS" "programs u' = (programs u)(p \<mapsto> g')"
    by (auto simp: clBuildProgram_def cl_codes Let_def split: if_splits option.splits)
  with g t c b show ?thesis by (intro that) simp_all
qed

text \<open>A successful build holds the compiler's output.  When \<open>clBuildProgram\<close> returns
  success, the compiler was run on the text written from the program's source and exited
  with 0, its output is not empty, the program's binary words are that output, byte for
  byte, its instruction count is their number, and it is marked as built; no other program
  changed.\<close>

theorem build_success_exact:
  assumes "clBuildProgram compile e p u = Some (CL_SUCCESS, u')"
  shows "\<exists>g g' txt bytes a ws. programs u p = Some g \<and> write_source e g = Some txt \<and>
    compile (build_cmd e u) txt = (0, Some bytes) \<and> bytes \<noteq> [] \<and>
    programs u' = (programs u)(p \<mapsto> g') \<and> pg_binary_words g' = Some (a, ws) \<and>
    concat (map bytes_le ws) = bytes \<and> pg_num_instructions g' = of_nat (length ws) \<and>
    pg_is_built g' \<and> pg_source g' = pg_source g \<and> pg_refs g' = pg_refs g"
proof -
  from assms obtain g body out g' where b: "programs u p = Some g" "write_source e g = Some body"
    "compile (build_cmd e u) body = (0, out)" "read_binary e out g = (CL_SUCCESS, g')"
    "programs u' = (programs u)(p \<mapsto> g')" by (rule build_successful)
  with read_binary_success [OF b(4)] show ?thesis by auto
qed

text \<open>A run of the build: one instruction, no header in the source.\<close>

definition demo_program :: cl_program where
  "demo_program = \<lparr>pg_context = 3, pg_source = ''k'', pg_source_len = 1, pg_binary_words = None,
     pg_num_instructions = 0, pg_is_built = False, pg_refs = 1\<rparr>"

definition demo_env :: build_env where
  "demo_env = \<lparr>be_pid = 42, be_compiler_dir = Some ''/opt'', be_open = True, be_write_header = Some 64,
     be_write_source = Some 64, be_fopen = True, be_ftell = True, be_malloc = Some 4096,
     be_fread = 64, be_heap = []\<rparr>"

lemma demo_build_run:
  "clBuildProgram (\<lambda>_ _. (0, Some [1, 2, 0, 0])) demo_env 5 (umd_start\<lparr>programs := [5 \<mapsto> demo_program]\<rparr>)
   = Some (CL_SUCCESS, umd_start\<lparr>programs := [5 \<mapsto> demo_program\<lparr>
       pg_binary_words := Some (4096, [513]), pg_num_instructions := 1, pg_is_built := True\<rparr>],
       build_counter := 1\<rparr>)"
  by (auto simp: clBuildProgram_def demo_env_def demo_program_def write_source_def strstr_def
      read_binary_def Let_def umd_start_def)

theorem build_success_exact_witness:
  "\<exists>g g' txt bytes a ws. [5 \<mapsto> demo_program] (5 :: nat) = Some g \<and> write_source demo_env g = Some txt \<and>
    (0 :: int, Some [1, 2, 0, 0 :: u8]) = (0, Some bytes) \<and> bytes \<noteq> [] \<and>
    [5 \<mapsto> demo_program\<lparr>pg_binary_words := Some (4096, [513]), pg_num_instructions := 1,
       pg_is_built := True\<rparr>] = [5 :: nat \<mapsto> demo_program, 5 \<mapsto> g'] \<and> pg_binary_words g' = Some (a, ws) \<and>
    concat (map bytes_le ws) = bytes \<and> pg_num_instructions g' = of_nat (length ws) \<and>
    pg_is_built g' \<and> pg_source g' = pg_source g \<and> pg_refs g' = pg_refs g"
  using build_success_exact [OF demo_build_run] by simp

text \<open>C22: no build leaves a temporary file behind.  Whatever fails - opening, writing,
  compiling, reading, allocating - after \<open>clBuildProgram\<close> returns there is no temporary file
  that was not there before, and none but its own two has been removed.\<close>

theorem build_leaves_no_files:
  assumes "clBuildProgram compile e p u = Some (r, u')"
  shows "tmp_files u' \<subseteq> tmp_files u \<and>
    tmp_files u - {src_path (be_pid e) (build_counter u), bin_path (src_path (be_pid e) (build_counter u))}
      \<subseteq> tmp_files u'"
  using assms
  by (auto simp: clBuildProgram_def Let_def split: if_splits option.splits prod.splits)

theorem build_leaves_no_files_witness:
  "tmp_files (umd_start\<lparr>programs := [5 \<mapsto> demo_program], build_counter := 1\<rparr>) \<subseteq>
     tmp_files (umd_start\<lparr>programs := [5 \<mapsto> demo_program]\<rparr>) \<and>
   tmp_files (umd_start\<lparr>programs := [5 \<mapsto> demo_program]\<rparr>) -
     {src_path 42 0, bin_path (src_path 42 0)}
   \<subseteq> tmp_files (umd_start\<lparr>programs := [5 \<mapsto> demo_program], build_counter := 1\<rparr>)"
  using build_leaves_no_files
    [of "\<lambda>_ _. (1, None)" demo_env 5 "umd_start\<lparr>programs := [5 \<mapsto> demo_program]\<rparr>" CL_BUILD_PROGRAM_FAILURE
      "umd_start\<lparr>programs := [5 \<mapsto> demo_program], build_counter := 1\<rparr>"]
  by (simp add: clBuildProgram_def demo_env_def demo_program_def write_source_def strstr_def
      Let_def umd_start_def)

text \<open>The names fit their buffers, so \<open>snprintf\<close> does not cut them.\<close>

lemma src_path_fits:
  assumes "pid < 10 ^ 10" and "counter < 10 ^ 10"
  shows "src_path pid counter = ''/tmp/fpgagpu_kernel_'' @ dec pid @ ''_'' @ dec counter @ ''.c''"
  using length_dec [OF assms(1)] length_dec [OF assms(2)]
  by (simp add: src_path_def snprintf_def)

lemma compiler_script_length: "length (compiler_script d) \<le> 511"
  by (auto simp: compiler_script_def snprintf_def split: option.splits)

text \<open>Builds of one process never share a file.  The temporary source paths of two builds
  are equal only if their counters are, a source path is never a binary path, and the
  command line that names both fits its buffer, whatever \<open>FPGAGPU_COMPILER_DIR\<close> is.\<close>

theorem build_paths_distinct:
  assumes "pid < 10 ^ 10" and "i < 10 ^ 10" and "j < 10 ^ 10"
  shows "(src_path pid i = src_path pid j \<longleftrightarrow> i = j) \<and>
    src_path pid i \<noteq> bin_path (src_path pid j) \<and>
    (bin_path (src_path pid i) = bin_path (src_path pid j) \<longleftrightarrow> i = j) \<and>
    compile_cmd (compiler_script d) (src_path pid i) (bin_path (src_path pid i)) =
      compiler_script d @ '' -b '' @ src_path pid i @ '' -o '' @ src_path pid i @ ''.bin > /dev/null 2>&1''"
proof -
  note paths = src_path_fits [OF assms(1,2)] src_path_fits [OF assms(1,3)]
  have len: "length (src_path pid k) \<le> 255" for k by (simp add: src_path_def snprintf_def)
  have bin: "bin_path (src_path pid k) = src_path pid k @ ''.bin''" for k
    using len [of k] by (simp add: bin_path_def snprintf_def)
  have ij: "src_path pid i = src_path pid j \<longleftrightarrow> i = j"
    using dec_inj [of i j] by (auto simp: paths)
  have "last (src_path pid i) \<noteq> last (bin_path (src_path pid j))" unfolding bin by (simp add: paths)
  then have ne: "src_path pid i \<noteq> bin_path (src_path pid j)" by metis
  have fits: "snprintf 2048 s = s" if "length s \<le> 2047" for s using that by (simp add: snprintf_def)
  have cmd: "compile_cmd (compiler_script d) (src_path pid i) (bin_path (src_path pid i)) =
      compiler_script d @ '' -b '' @ src_path pid i @ '' -o '' @ src_path pid i @ ''.bin > /dev/null 2>&1''"
    using len [of i] compiler_script_length [of d]
    unfolding compile_cmd_def bin by (subst fits) simp_all
  from ij ne cmd show ?thesis unfolding bin by simp
qed

theorem build_paths_distinct_witness:
  "(src_path 42 0 = src_path 42 10 \<longleftrightarrow> (0 :: nat) = 10) \<and>
    src_path 42 0 \<noteq> bin_path (src_path 42 10) \<and>
    (bin_path (src_path 42 0) = bin_path (src_path 42 10) \<longleftrightarrow> (0 :: nat) = 10) \<and>
    compile_cmd (compiler_script None) (src_path 42 0) (bin_path (src_path 42 0)) =
      compiler_script None @ '' -b '' @ src_path 42 0 @ '' -o '' @ src_path 42 0 @ ''.bin > /dev/null 2>&1''"
  by (rule build_paths_distinct) simp_all

text \<open>A rebuild that runs out of memory leaves the program marked as built.
  \<open>clBuildProgram\<close> frees the old words and stores the null result of \<open>malloc\<close> before it
  returns, but does not clear the flag: a kernel can still be created from the program, whose
  words are gone while its instruction count is the old one.\<close>

theorem rebuild_failure_keeps_built:
  assumes "programs u p = Some g" and "pg_is_built g" and "p \<noteq> 0" and "be_open e"
    and "write_source e g = Some body" and "compile (build_cmd e u) body = (0, Some bytes)"
    and "be_fopen e" and "be_ftell e" and "bytes \<noteq> []" and "length bytes mod 4 = 0" and "be_malloc e = None"
  shows "\<exists>u' g' k. clBuildProgram compile e p u = Some (CL_OUT_OF_HOST_MEMORY, u') \<and>
    programs u' p = Some g' \<and> pg_binary_words g' = None \<and>
    pg_num_instructions g' = pg_num_instructions g \<and>
    clCreateKernel p (Some name) (Some k) True u' = Some (CL_SUCCESS, k, u'\<lparr>kernels := (kernels u')(k \<mapsto>
      \<lparr>kn_program = p, kn_name = Some name, kn_args = replicate FPGAGPU_MAX_ARGS no_arg,
       kn_num_args = 0, kn_refs = 1\<rparr>)\<rparr>)"
proof -
  from assms(10) have m: "int (length bytes) mod 4 = 0" by presburger
  then have "read_binary e (Some bytes) g = (CL_OUT_OF_HOST_MEMORY, g\<lparr>pg_binary_words := None\<rparr>)"
    using assms(7-9,11) by (simp add: read_binary_def)
  with assms(1-6) have "\<exists>u'. clBuildProgram compile e p u = Some (CL_OUT_OF_HOST_MEMORY, u') \<and>
      programs u' = (programs u)(p \<mapsto> g\<lparr>pg_binary_words := None\<rparr>)"
    by (simp add: clBuildProgram_def Let_def)
  then obtain u' where "clBuildProgram compile e p u = Some (CL_OUT_OF_HOST_MEMORY, u')"
    and "programs u' p = Some (g\<lparr>pg_binary_words := None\<rparr>)" by auto
  with assms(2,3) show ?thesis
    by (intro exI [of _ u'] exI [of _ "g\<lparr>pg_binary_words := None\<rparr>"] exI) (simp add: clCreateKernel_def)
qed

theorem rebuild_failure_keeps_built_witness:
  "\<exists>u' g' k. clBuildProgram (\<lambda>_ _. (0, Some [1, 2, 0, 0])) (demo_env\<lparr>be_malloc := None\<rparr>) 5
      (umd_start\<lparr>programs := [5 \<mapsto> demo_program\<lparr>pg_is_built := True\<rparr>]\<rparr>) = Some (CL_OUT_OF_HOST_MEMORY, u') \<and>
    programs u' 5 = Some g' \<and> pg_binary_words g' = None \<and>
    pg_num_instructions g' = pg_num_instructions (demo_program\<lparr>pg_is_built := True\<rparr>) \<and>
    clCreateKernel 5 (Some ''k'') (Some k) True u' = Some (CL_SUCCESS, k, u'\<lparr>kernels := (kernels u')(k \<mapsto>
      \<lparr>kn_program = 5, kn_name = Some ''k'', kn_args = replicate FPGAGPU_MAX_ARGS no_arg,
       kn_num_args = 0, kn_refs = 1\<rparr>)\<rparr>)"
  by (rule rebuild_failure_keeps_built [where bytes = "[1, 2, 0, 0]" and body = "header_include @ ''k''"])
    (auto simp: demo_env_def demo_program_def write_source_def strstr_def header_include_def
      dest: sublist_length_le)

section \<open>Properties of kernels\<close>

text \<open>The argument array has its 32 entries and the count stays within it.\<close>

definition kernel_ok :: "cl_kernel \<Rightarrow> bool" where
  "kernel_ok k \<longleftrightarrow> length (kn_args k) = FPGAGPU_MAX_ARGS \<and> unat (kn_num_args k) \<le> FPGAGPU_MAX_ARGS"

definition kernel_inv :: "umd \<Rightarrow> bool" where
  "kernel_inv u \<longleftrightarrow> (\<forall>p k. kernels u p = Some k \<longrightarrow> kernel_ok k)"

lemma create_kernel_inv:
  "kernel_inv u \<Longrightarrow> clCreateKernel program kernel_name alloc dup_ok u = Some (r, p, u') \<Longrightarrow> kernel_inv u'"
  by (auto simp: clCreateKernel_def kernel_inv_def kernel_ok_def split: if_splits option.splits)

lemma release_kernel_inv: "kernel_inv u \<Longrightarrow> clReleaseKernel p u = Some (r, u') \<Longrightarrow> kernel_inv u'"
  by (auto simp: clReleaseKernel_def kernel_inv_def kernel_ok_def Let_def split: if_splits option.splits)

text \<open>What the device sees of an argument: a buffer's address cut to 32 bits, the bytes of a
  scalar of at most four, and 0 for anything else.\<close>

definition arg_word_ok :: "(nat \<Rightarrow> cl_mem option) \<Rightarrow> u64 \<Rightarrow> u8 list \<Rightarrow> u32 \<Rightarrow> bool" where
  "arg_word_ok ms sz val w \<longleftrightarrow>
     (if sz = 8 then \<exists>m. ms (unat (le_word (take 8 val) :: u64)) = Some m \<and> w = lower_32_bits (mo_ddr3_addr m)
      else if sz \<le> 4 then bytes_le w = take (unat sz) val @ replicate (4 - unat sz) 0
      else w = 0)"

lemma le_word_zeros: "le_word (v @ replicate n 0) = le_word v"
proof (induction v)
  case Nil
  show ?case by (induction n) simp_all
qed simp

lemma le_word_bytes:
  assumes "length v \<le> 4"
  shows "bytes_le (le_word v) = v @ replicate (4 - length v) 0"
proof -
  let ?w = "v @ replicate (4 - length v) 0"
  have "length ?w = 4" using assms by simp
  then obtain a b c d where w: "?w = [a, b, c, d]"
    by (auto simp: length_Suc_conv numeral_eq_Suc simp del: length_append)
  have "bytes_le (le_word v) = bytes_le (le_word ?w)" by (simp only: le_word_zeros)
  also have "\<dots> = ?w" unfolding w by (rule bytes_le_word)
  finally show ?thesis .
qed

lemma kernel_arg_of_ok:
  assumes "kernel_arg_of ms sz val = Some a"
  shows "ka_is_set a \<and> ka_size a = sz \<and> (ka_is_mem a \<longleftrightarrow> sz = 8) \<and> arg_word_ok ms sz val (ka_scalar_val a)"
  using assms
  by (auto simp: kernel_arg_of_def arg_word_ok_def lower_32_bits_def Let_def not_less not_le le_word_bytes
      word_le_nat_alt split: if_splits option.splits)

text \<open>The kernel after entry \<open>i\<close> was set.\<close>

definition with_arg :: "u32 \<Rightarrow> fpgagpu_kernel_arg \<Rightarrow> cl_kernel \<Rightarrow> cl_kernel" where
  "with_arg i a k = (let k1 = k\<lparr>kn_args := (kn_args k)[unat i := a]\<rparr>
     in if i \<ge> kn_num_args k1 then k1\<lparr>kn_num_args := i + 1\<rparr> else k1)"

lemma with_arg:
  assumes "i < of_nat FPGAGPU_MAX_ARGS"
  shows "kn_args (with_arg i a k) = (kn_args k)[unat i := a]"
    and "unat (kn_num_args (with_arg i a k)) = max (unat (kn_num_args k)) (unat i + 1)"
    and "unat i < FPGAGPU_MAX_ARGS"
    and "kernel_ok k \<Longrightarrow> kernel_ok (with_arg i a k)"
proof -
  have i: "unat i < 32" using assms by (simp add: FPGAGPU_MAX_ARGS_def word_less_nat_alt)
  then have "unat (i + 1) = unat i + 1" by (simp add: unat_add_no_wrap)
  then show args: "kn_args (with_arg i a k) = (kn_args k)[unat i := a]"
    and num: "unat (kn_num_args (with_arg i a k)) = max (unat (kn_num_args k)) (unat i + 1)"
    by (auto simp: with_arg_def Let_def word_le_nat_alt)
  show "unat i < FPGAGPU_MAX_ARGS" using i by (simp add: FPGAGPU_MAX_ARGS_def)
  show "kernel_ok k \<Longrightarrow> kernel_ok (with_arg i a k)"
    using i unfolding kernel_ok_def args num by (simp add: FPGAGPU_MAX_ARGS_def)
qed

lemma set_arg_cases:
  assumes "clSetKernelArg kern i sz v u = Some (r, u')"
  obtains (refused) "r \<noteq> CL_SUCCESS" "u' = u"
    | (stored) val k a where "r = CL_SUCCESS" "v = Some val" "kernels u kern = Some k"
        "kernel_arg_of (mems u) sz val = Some a" "i < of_nat FPGAGPU_MAX_ARGS"
        "u' = u\<lparr>kernels := (kernels u)(kern \<mapsto> with_arg i a k)\<rparr>"
proof (cases "r = CL_SUCCESS")
  case False
  with assms show ?thesis
    by (intro refused) (auto simp: clSetKernelArg_def Let_def split: if_splits option.splits)
next
  case True
  with assms obtain val k a where "v = Some val" "kernels u kern = Some k"
    "kernel_arg_of (mems u) sz val = Some a" "i < of_nat FPGAGPU_MAX_ARGS"
    "u' = u\<lparr>kernels := (kernels u)(kern \<mapsto> with_arg i a k)\<rparr>"
    by (auto simp: clSetKernelArg_def with_arg_def cl_codes Let_def not_le split: if_splits option.splits)
  with True show ?thesis by (rule stored)
qed

lemma set_arg_inv: "kernel_inv u \<Longrightarrow> clSetKernelArg kern i sz v u = Some (r, u') \<Longrightarrow> kernel_inv u'"
  by (erule set_arg_cases) (auto simp: kernel_inv_def with_arg(4))

text \<open>Setting an argument changes one entry and stays inside the array.  The invariant is
  kept; on success exactly the indexed entry is replaced, by one marked as set that carries
  the value, and the argument count becomes the larger of itself and index + 1; otherwise
  nothing changes.\<close>

theorem set_kernel_arg_exact:
  assumes "kernel_inv u" and "clSetKernelArg kern i sz v u = Some (r, u')"
  shows "kernel_inv u' \<and>
    (if r = CL_SUCCESS
     then \<exists>k k' a val. v = Some val \<and> kernels u kern = Some k \<and> unat i < FPGAGPU_MAX_ARGS \<and>
       u' = u\<lparr>kernels := (kernels u)(kern \<mapsto> k')\<rparr> \<and> kn_args k' = (kn_args k)[unat i := a] \<and>
       unat (kn_num_args k') = max (unat (kn_num_args k)) (unat i + 1) \<and>
       ka_is_set a \<and> ka_size a = sz \<and> (ka_is_mem a \<longleftrightarrow> sz = 8) \<and> arg_word_ok (mems u) sz val (ka_scalar_val a)
     else u' = u)"
  using assms(2)
proof (cases rule: set_arg_cases)
  case refused
  with assms(1) show ?thesis by simp
next
  case (stored val k a)
  note w = with_arg(1,2) [OF stored(5), of a k] with_arg(3) [OF stored(5)]
  show ?thesis unfolding if_P [OF stored(1)]
    using set_arg_inv [OF assms] stored(2,3,6) w(1-3) kernel_arg_of_ok [OF stored(4)] by blast
qed

definition demo_kernel :: cl_kernel where
  "demo_kernel = \<lparr>kn_program = 5, kn_name = Some ''k'', kn_args = replicate 32 no_arg,
     kn_num_args = 0, kn_refs = 1\<rparr>"

theorem set_kernel_arg_exact_witness:
  "\<exists>k (k' :: cl_kernel) a val. Some [7, 0, 0, 0] = Some val \<and> [6 \<mapsto> demo_kernel] (6 :: nat) = Some k \<and>
     unat (2 :: u32) < FPGAGPU_MAX_ARGS \<and> kn_args k' = (kn_args k)[unat (2 :: u32) := a] \<and>
     unat (kn_num_args k') = 3 \<and> ka_is_set a \<and> ka_size a = 4 \<and> arg_word_ok Map.empty 4 val (ka_scalar_val a)"
proof -
  let ?u = "umd_start\<lparr>kernels := [6 \<mapsto> demo_kernel]\<rparr>"
  have inv: "kernel_inv ?u" by (simp add: kernel_inv_def kernel_ok_def demo_kernel_def FPGAGPU_MAX_ARGS_def)
  obtain u' where run: "clSetKernelArg 6 2 4 (Some [7, 0, 0, 0]) ?u = Some (CL_SUCCESS, u')"
    by (simp add: clSetKernelArg_def kernel_arg_of_def FPGAGPU_MAX_ARGS_def Let_def)
  from set_kernel_arg_exact [OF inv run] show ?thesis
    by (simp add: umd_start_def demo_kernel_def) blast
qed

end
