(* ===== verification/ClEnqueue.thy ===== *)
theory ClEnqueue
  imports ClMem ClProgram
begin

text \<open>
  Kernel launches and events: \<open>umd/src/cl_enqueue.c\<close>.  A launch is four requests to the driver:
  the argument page by DMA, the program's words, the launch command, the doorbell.
\<close>

section \<open>Operations\<close>

definition FPGAGPU_KERNARG_BASE :: u64 where "FPGAGPU_KERNARG_BASE = 0x00000000"
definition FPGAGPU_KERNARG_SIZE :: nat where "FPGAGPU_KERNARG_SIZE = 4096"

text \<open>The marshalling loop from entry \<open>i\<close> on; \<open>None\<close> when an argument was not set.\<close>

fun marshal_args :: "nat \<Rightarrow> fpgagpu_kernel_arg list \<Rightarrow> u32 list \<Rightarrow> u32 list option" where
  "marshal_args i [] buf = Some buf"
| "marshal_args i (a # r) buf =
     (if \<not> ka_is_set a then None
      else marshal_args (Suc i) r
             (buf[i * 2 + 0 := ka_scalar_val a, i * 2 + 1 := ka_scalar_val a]))"

text \<open>\<open>(global + block - 1) / block\<close> in \<open>size_t\<close>, cut to 32 bits; \<open>None\<close> for a zero block.\<close>

definition grid_dim :: "u64 \<Rightarrow> u32 \<Rightarrow> u32 option" where
  "grid_dim global block =
     (if block = 0 then None else Some (ucast ((global + ucast block - 1) div ucast block)))"

text \<open>
  Steps 4 and 5 up to the system call.  The two size arrays are functions of the index; the
  code reads entry 1 only when \<open>work_dim > 1\<close>.
\<close>

definition launch_cmd_of :: "u32 \<Rightarrow> (nat \<Rightarrow> u64) \<Rightarrow> (nat \<Rightarrow> u64) option \<Rightarrow> fpgagpu_launch_cmd option" where
  "launch_cmd_of work_dim global local =
     (let block_x = (case local of Some l \<Rightarrow> if l 0 > 0 then ucast (l 0) else 2 | None \<Rightarrow> 2);
          block_y = (if work_dim > 1 then
                       (case local of Some l \<Rightarrow> if l 1 > 0 then ucast (l 1) else 1 | None \<Rightarrow> 1)
                     else 1);
          total = ucast (global 0 * (if work_dim > 1 then global 1 else 1))
      in case grid_dim (global 0) block_x of
           None \<Rightarrow> None
         | Some grid_x \<Rightarrow>
            (case (if work_dim > 1 then grid_dim (global 1) block_y else Some 1) of
               None \<Rightarrow> None
             | Some grid_y \<Rightarrow> Some
                 \<lparr>cmd_opcode = FPGAGPU_OPCODE_LAUNCH_KERNEL, cmd_grid_dim_x = grid_x,
                  cmd_grid_dim_y = grid_y, cmd_block_dim_x = block_x, cmd_block_dim_y = block_y,
                  cmd_dma_src_addr = FPGAGPU_KERNARG_BASE, cmd_dma_dst_addr = 0,
                  cmd_num_elements = total, cmd_payload_size = 0, cmd_payload_vaddr = 0\<rparr>))"

text \<open>The requests of a launch.\<close>

definition kernarg_upload :: "u64 \<Rightarrow> fpgagpu_dma_param" where
  "kernarg_upload buf = \<lparr>dma_direction = FPGAGPU_DMA_TO_DEVICE, dma_size = of_nat FPGAGPU_KERNARG_SIZE,
     ddr3_addr = FPGAGPU_KERNARG_BASE, host_vaddr = buf\<rparr>"

definition kernel_image :: "cl_program \<Rightarrow> fpgagpu_kernel_binary" where
  "kernel_image g = \<lparr>user_instr_ptr = (case pg_binary_words g of None \<Rightarrow> 0 | Some (a, _) \<Rightarrow> a),
     instr_size = pg_num_instructions g, kernel_id = 1\<rparr>"

definition image_words :: "cl_program \<Rightarrow> u32 list" where
  "image_words g = (case pg_binary_words g of None \<Rightarrow> [] | Some (_, ws) \<Rightarrow> ws)"

text \<open>Steps 2 to 6, once the argument page is marshalled.\<close>

definition launch_kernel ::
  "sys \<Rightarrow> int \<Rightarrow> u64 \<Rightarrow> u32 list \<Rightarrow> cl_program \<Rightarrow> u32 \<Rightarrow> (nat \<Rightarrow> u64) \<Rightarrow> (nat \<Rightarrow> u64) option \<Rightarrow> umd \<Rightarrow>
     (int \<times> umd) option" where
  "launch_kernel sys fd buf page g work_dim global local u =
     (let (r1, u1) = do_sys sys (SysDma fd (kernarg_upload buf) page) u
      in if r1 < 0 then Some (CL_OUT_OF_RESOURCES, u1)
         else let (r2, u2) = do_sys sys (SysLoad fd (kernel_image g) (image_words g)) u1
         in if r2 < 0 then Some (CL_OUT_OF_RESOURCES, u2)
            else case launch_cmd_of work_dim global local of
              None \<Rightarrow> None
            | Some cmd \<Rightarrow>
                let (r3, u3) = do_sys sys (SysSubmit fd cmd) u2
                in if r3 < 0 then Some (CL_OUT_OF_RESOURCES, u3)
                   else let (r4, u4) = do_sys sys (SysDoorbell fd) u3
                        in if r4 < 0 then Some (CL_OUT_OF_RESOURCES, u4) else Some (CL_SUCCESS, u4))"

definition clEnqueueNDRangeKernel ::
  "sys \<Rightarrow> nat \<Rightarrow> nat \<Rightarrow> u32 \<Rightarrow> (nat \<Rightarrow> u64) option \<Rightarrow> (nat \<Rightarrow> u64) option \<Rightarrow> u64 option \<Rightarrow>
     nat option option \<Rightarrow> umd \<Rightarrow> (int \<times> umd) option" where
  "clEnqueueNDRangeKernel sys command_queue kern work_dim global_size local_size memalign ev u =
     (if command_queue = 0 then Some (CL_INVALID_COMMAND_QUEUE, u)
      else if kern = 0 then Some (CL_INVALID_KERNEL, u)
      else case kernels u kern of
        None \<Rightarrow> None
      | Some k \<Rightarrow>
          if kn_program k = 0 then Some (CL_INVALID_PROGRAM_EXECUTABLE, u)
          else case programs u (kn_program k) of
            None \<Rightarrow> None
          | Some g \<Rightarrow>
              if \<not> pg_is_built g then Some (CL_INVALID_PROGRAM_EXECUTABLE, u)
              else case (if work_dim = 0 \<or> work_dim > 3 then None else global_size) of
                None \<Rightarrow> Some (CL_INVALID_WORK_DIMENSION, u)
              | Some global \<Rightarrow>
                 (case queues u command_queue of
                    None \<Rightarrow> None
                  | Some q \<Rightarrow>
                     (case contexts u (cq_context q) of
                        None \<Rightarrow> None
                      | Some c \<Rightarrow>
                         (case memalign of
                            None \<Rightarrow> Some (CL_OUT_OF_HOST_MEMORY, u)
                          | Some buf \<Rightarrow>
                             (case marshal_args 0 (take (unat (kn_num_args k)) (kn_args k))
                                     (replicate (FPGAGPU_KERNARG_SIZE div 4) 0) of
                                None \<Rightarrow> Some (CL_INVALID_KERNEL_ARGS, u)
                              | Some page \<Rightarrow>
                                 (case launch_kernel sys (cx_fd c) buf page g work_dim global local_size u of
                                    None \<Rightarrow> None
                                  | Some (r, u1) \<Rightarrow>
                                      if r = CL_SUCCESS
                                      then Some (r, complete_event (cq_context q) command_queue ev u1)
                                      else Some (r, u1)))))))"

definition clWaitForEvents :: "u32 \<Rightarrow> nat list \<Rightarrow> int" where
  "clWaitForEvents num_events event_list = CL_SUCCESS"

definition clReleaseEvent :: "nat \<Rightarrow> umd \<Rightarrow> (int \<times> umd) option" where
  "clReleaseEvent p u =
     (if p = 0 then Some (CL_INVALID_EVENT, u)
      else case events u p of
        None \<Rightarrow> None
      | Some e \<Rightarrow>
          let n = ev_refs e - 1
          in if n = 0 then Some (CL_SUCCESS, u\<lparr>events := (events u)(p := None)\<rparr>)
             else Some (CL_SUCCESS, u\<lparr>events := (events u)(p \<mapsto> e\<lparr>ev_refs := n\<rparr>)\<rparr>))"

interpretation rc_event: refcounted events ev_refs clReleaseEvent
  by unfold_locales (auto simp: clReleaseEvent_def Let_def)

section \<open>The argument page\<close>

lemma length_marshal: "marshal_args i as buf = Some page \<Longrightarrow> length page = length buf"
  by (induction i as buf rule: marshal_args.induct) (auto split: if_splits)

lemma marshal_args_set: "(\<exists>page. marshal_args i as buf = Some page) \<longleftrightarrow> (\<forall>a \<in> set as. ka_is_set a)"
  by (induction i as buf rule: marshal_args.induct) auto

lemma marshal_args_nth:
  assumes "marshal_args i as buf = Some page" and "2 * (i + length as) \<le> length buf" and "n < length buf"
  shows "page ! n = (if 2 * i \<le> n \<and> n < 2 * (i + length as) then ka_scalar_val (as ! (n div 2 - i)) else buf ! n)"
  using assms
proof (induction i as buf arbitrary: page rule: marshal_args.induct)
  case (1 i buf)
  then show ?case by auto
next
  case (2 i a r buf)
  let ?b = "buf[i * 2 + 0 := ka_scalar_val a, i * 2 + 1 := ka_scalar_val a]"
  from "2.prems" have set: "ka_is_set a" and m: "marshal_args (Suc i) r ?b = Some page"
    by (auto split: if_splits)
  have IH: "page ! n = (if 2 * Suc i \<le> n \<and> n < 2 * (Suc i + length r)
      then ka_scalar_val (r ! (n div 2 - Suc i)) else ?b ! n)"
    by (rule "2.IH" [OF _ m]) (use set "2.prems" in simp_all)
  consider "n < 2 * i" | "n = 2 * i" | "n = 2 * i + 1" | "2 * Suc i \<le> n" by atomize_elim presburger
  then show ?case
  proof cases
    case 4
    then have "n div 2 - i = Suc (n div 2 - Suc i)" by presburger
    with 4 IH show ?thesis by (simp add: nth_list_update)
  qed (use IH "2.prems" in \<open>simp_all add: nth_list_update\<close>)
qed

text \<open>The page the device sees: every argument word twice, zeros after them.\<close>

definition arg_page :: "fpgagpu_kernel_arg list \<Rightarrow> u32 list" where
  "arg_page as = map (\<lambda>n. if n < 2 * length as then ka_scalar_val (as ! (n div 2)) else 0)
     [0..<FPGAGPU_KERNARG_SIZE div 4]"

lemma marshal_arg_page:
  assumes "marshal_args 0 as (replicate (FPGAGPU_KERNARG_SIZE div 4) 0) = Some page"
    and "length as \<le> FPGAGPU_MAX_ARGS"
  shows "page = arg_page as"
proof (rule nth_equalityI)
  show len: "length page = length (arg_page as)"
    using length_marshal [OF assms(1)] by (simp add: arg_page_def)
  fix n assume "n < length page"
  then have n: "n < 1024" using len by (simp add: arg_page_def FPGAGPU_KERNARG_SIZE_def)
  with assms(2) show "page ! n = arg_page as ! n"
    using marshal_args_nth [OF assms(1), of n]
    by (simp add: arg_page_def FPGAGPU_KERNARG_SIZE_def FPGAGPU_MAX_ARGS_def)
qed

lemma launch_kernel_success:
  assumes "launch_kernel sys fd buf page g work_dim global local u = Some (CL_SUCCESS, u')"
  shows "\<exists>cmd r1 r2 r3 r4. launch_cmd_of work_dim global local = Some cmd \<and>
    0 \<le> r1 \<and> 0 \<le> r2 \<and> 0 \<le> r3 \<and> 0 \<le> r4 \<and>
    u' = u\<lparr>sys_log := sys_log u @ [(SysDma fd (kernarg_upload buf) page, r1),
      (SysLoad fd (kernel_image g) (image_words g), r2), (SysSubmit fd cmd, r3), (SysDoorbell fd, r4)]\<rparr>"
  using assms
  by (auto simp: launch_kernel_def do_sys_def Let_def cl_codes not_less split: if_splits option.splits)

section \<open>Properties of launches\<close>

lemma enqueue_kernel_requests:
  assumes "kernel_inv u"
    and "clEnqueueNDRangeKernel sys q kern work_dim global local memalign ev u = Some (CL_SUCCESS, u')"
  shows "\<exists>k g qu c gl buf cmd r1 r2 r3 r4. kernels u kern = Some k \<and> programs u (kn_program k) = Some g \<and>
    pg_is_built g \<and> queues u q = Some qu \<and> contexts u (cq_context qu) = Some c \<and> global = Some gl \<and>
    memalign = Some buf \<and> work_dim \<in> {1, 2, 3} \<and> (\<forall>a \<in> set (take (unat (kn_num_args k)) (kn_args k)). ka_is_set a) \<and>
    launch_cmd_of work_dim gl local = Some cmd \<and> 0 \<le> r1 \<and> 0 \<le> r2 \<and> 0 \<le> r3 \<and> 0 \<le> r4 \<and>
    sys_log u' = sys_log u @
      [(SysDma (cx_fd c) (kernarg_upload buf) (arg_page (take (unat (kn_num_args k)) (kn_args k))), r1),
       (SysLoad (cx_fd c) (kernel_image g) (image_words g), r2), (SysSubmit (cx_fd c) cmd, r3),
       (SysDoorbell (cx_fd c), r4)]"
proof -
  from assms(2) obtain k g qu c gl buf page r u1
    where k: "kernels u kern = Some k" "programs u (kn_program k) = Some g" "pg_is_built g"
      "queues u q = Some qu" "contexts u (cq_context qu) = Some c" "global = Some gl"
      "memalign = Some buf"
    and wd: "work_dim \<noteq> 0" "\<not> work_dim > 3"
    and m: "marshal_args 0 (take (unat (kn_num_args k)) (kn_args k)) (replicate (FPGAGPU_KERNARG_SIZE div 4) 0) = Some page"
    and l: "launch_kernel sys (cx_fd c) buf page g work_dim gl local u = Some (CL_SUCCESS, u1)"
    and u': "u' = complete_event (cq_context qu) q ev u1"
    by (auto simp: clEnqueueNDRangeKernel_def cl_codes split: if_splits option.splits)
  have "length (kn_args k) = 32" using assms(1) k(1)
    by (simp add: kernel_inv_def kernel_ok_def FPGAGPU_MAX_ARGS_def)
  then have page: "page = arg_page (take (unat (kn_num_args k)) (kn_args k))"
    by (intro marshal_arg_page [OF m]) (simp add: FPGAGPU_MAX_ARGS_def)
  have set: "\<forall>a \<in> set (take (unat (kn_num_args k)) (kn_args k)). ka_is_set a"
    using marshal_args_set m by blast
  have "work_dim \<in> {1, 2, 3}"
  proof -
    from wd have "0 < unat work_dim" "unat work_dim \<le> 3"
      by (simp_all add: word_less_nat_alt not_less unat_gt_0)
    then have "unat work_dim = 1 \<or> unat work_dim = 2 \<or> unat work_dim = 3" by linarith
    then show ?thesis by (auto simp: word_unat_eq_iff)
  qed
  moreover have "sys_log u' = sys_log u1" unfolding u'
    by (simp add: complete_event_def split: option.splits)
  moreover note launch_kernel_success [OF l, unfolded page] k set
  ultimately show ?thesis by fastforce
qed

text \<open>A successful launch makes exactly its four requests.  When
  \<open>clEnqueueNDRangeKernel\<close> returns success, the driver was asked, on the queue's context and in
  this order, to copy the argument page to device address 0, to load the program's words, to
  launch, and to wait; each answered without an error.  Every argument up to the kernel's
  count was set, the page holds each argument's word in both lanes' slots and zeros
  elsewhere, and the program was built.\<close>

theorem enqueue_kernel_exact:
  assumes "kernel_inv u"
    and "clEnqueueNDRangeKernel sys q kern work_dim global local memalign ev u = Some (CL_SUCCESS, u')"
  shows "\<exists>k g qu c gl buf cmd r1 r2 r3 r4. kernels u kern = Some k \<and> programs u (kn_program k) = Some g \<and>
    pg_is_built g \<and> queues u q = Some qu \<and> contexts u (cq_context qu) = Some c \<and> global = Some gl \<and>
    memalign = Some buf \<and> work_dim \<in> {1, 2, 3} \<and> (\<forall>a \<in> set (take (unat (kn_num_args k)) (kn_args k)). ka_is_set a) \<and>
    launch_cmd_of work_dim gl local = Some cmd \<and> 0 \<le> r1 \<and> 0 \<le> r2 \<and> 0 \<le> r3 \<and> 0 \<le> r4 \<and>
    sys_log u' = sys_log u @
      [(SysDma (cx_fd c) (kernarg_upload buf) (arg_page (take (unat (kn_num_args k)) (kn_args k))), r1),
       (SysLoad (cx_fd c) (kernel_image g) (image_words g), r2), (SysSubmit (cx_fd c) cmd, r3),
       (SysDoorbell (cx_fd c), r4)]"
  using assms by (rule enqueue_kernel_requests)

lemma ceil_div_least:
  fixes b g n :: nat
  assumes "0 < b"
  shows "(g + b - 1) div b \<le> n \<longleftrightarrow> g \<le> n * b"
proof -
  have "(g + b - 1) div b \<le> n \<longleftrightarrow> g + b - 1 < Suc n * b"
    using assms by (simp add: less_Suc_eq_le [symmetric] div_less_iff_less_mult)
  also have "\<dots> \<longleftrightarrow> g \<le> n * b" using assms by auto
  finally show ?thesis .
qed

lemma grid_dim_least:
  assumes "unat g < 2 ^ 32" and "0 < unat b"
  shows "\<exists>x. grid_dim g b = Some x \<and> (\<forall>n. unat g \<le> n * unat b \<longleftrightarrow> unat x \<le> n)"
proof -
  have b32: "unat b < 2 ^ 32" using unsigned_less [of b] by simp
  have ub: "unat (ucast b :: u64) = unat b"
    using b32 by (simp add: unsigned_ucast_eq take_bit_eq_mod)
  have sum: "unat (g + ucast b) = unat g + unat b"
    using assms(1) b32 ub by (subst unat_add_no_wrap) simp_all
  then have "g + ucast b \<noteq> 0" using assms(2) by (metis add_gr_0 unsigned_0 less_irrefl)
  then have num: "unat (g + ucast b - 1) = unat g + unat b - 1" by (simp add: unat_minus_one sum)
  let ?q = "(unat g + unat b - 1) div unat b"
  have "?q \<le> unat g" using assms(2) by (simp only: ceil_div_least) simp
  then have q32: "?q < 2 ^ 32" using assms(1) by simp
  have "unat ((g + ucast b - 1) div ucast b) = ?q" by (simp only: unat_div num ub)
  then have "unat (ucast ((g + ucast b - 1) div ucast b) :: u32) = ?q"
    using q32 by (simp add: unsigned_ucast_eq take_bit_eq_mod)
  moreover have "b \<noteq> 0" using assms(2) by auto
  ultimately show ?thesis using ceil_div_least [OF assms(2)]
    by (simp add: grid_dim_def)
qed

lemma ucast_pos:
  fixes x :: u64
  assumes "unat x < 2 ^ 32" and "x > 0"
  shows "0 < unat (ucast x :: u32)"
  using assms by (simp add: unsigned_ucast_eq take_bit_eq_mod unat_gt_0)

lemma block_pos:
  assumes "\<forall>l. local = Some l \<longrightarrow> unat (l d :: u64) < 2 ^ 32" and "0 < unat n"
  shows "0 < unat (case local of Some l \<Rightarrow> if l d > 0 then ucast (l d) else n | None \<Rightarrow> (n :: u32))"
proof (cases local)
  case (Some l)
  with assms ucast_pos [of "l d"] show ?thesis by simp
qed (simp add: assms(2))

text \<open>The grid of the launch command covers the work exactly.  For sizes below 2^32 the launch command exists (no
  division by zero), its blocks are never empty, and in each of the two dimensions the number
  of blocks is the least one whose items reach the global size.\<close>

theorem grid_covers_work:
  assumes "\<forall>d < 2. unat (global d) < 2 ^ 32" and "\<forall>l d. local = Some l \<longrightarrow> d < 2 \<longrightarrow> unat (l d) < 2 ^ 32"
  shows "\<exists>cmd. launch_cmd_of work_dim global local = Some cmd \<and>
    0 < unat (cmd_block_dim_x cmd) \<and> 0 < unat (cmd_block_dim_y cmd) \<and>
    (\<forall>n. unat (global 0) \<le> n * unat (cmd_block_dim_x cmd) \<longleftrightarrow> unat (cmd_grid_dim_x cmd) \<le> n) \<and>
    (if work_dim > 1
     then \<forall>n. unat (global 1) \<le> n * unat (cmd_block_dim_y cmd) \<longleftrightarrow> unat (cmd_grid_dim_y cmd) \<le> n
     else cmd_grid_dim_y cmd = 1)"
proof -
  let ?bx = "case local of Some l \<Rightarrow> if l 0 > 0 then ucast (l 0) else 2 | None \<Rightarrow> (2 :: u32)"
  let ?by = "if work_dim > 1 then case local of Some l \<Rightarrow> if l 1 > 0 then ucast (l 1) else 1 | None \<Rightarrow> 1
    else (1 :: u32)"
  have pos: "0 < unat ?bx" "0 < unat ?by"
    using block_pos [of local 0 2] block_pos [of local 1 1] assms(2) by simp_all
  have g: "unat (global 0) < 2 ^ 32" "unat (global 1) < 2 ^ 32"
    using assms(1)[rule_format, of 0] assms(1)[rule_format, of 1] by simp_all
  obtain x where x: "grid_dim (global 0) ?bx = Some x"
    "\<forall>n. unat (global 0) \<le> n * unat ?bx \<longleftrightarrow> unat x \<le> n"
    using grid_dim_least [OF g(1) pos(1)] by blast
  obtain y where y: "grid_dim (global 1) ?by = Some y"
    "\<forall>n. unat (global 1) \<le> n * unat ?by \<longleftrightarrow> unat y \<le> n"
    using grid_dim_least [OF g(2) pos(2)] by blast
  let ?cmd = "\<lparr>cmd_opcode = FPGAGPU_OPCODE_LAUNCH_KERNEL, cmd_grid_dim_x = x,
    cmd_grid_dim_y = (if work_dim > 1 then y else 1), cmd_block_dim_x = ?bx, cmd_block_dim_y = ?by,
    cmd_dma_src_addr = FPGAGPU_KERNARG_BASE, cmd_dma_dst_addr = 0,
    cmd_num_elements = ucast (global 0 * (if work_dim > 1 then global 1 else 1)),
    cmd_payload_size = 0, cmd_payload_vaddr = 0\<rparr>"
  have "launch_cmd_of work_dim global local = Some ?cmd"
    unfolding launch_cmd_of_def Let_def x(1) using y(1)
    by (cases "work_dim > 1") (simp_all del: One_nat_def)
  then show ?thesis using pos x(2) y(2)
    by (intro exI [of _ ?cmd]; cases "work_dim > 1") (simp_all del: One_nat_def)
qed

theorem grid_covers_work_witness:
  "\<exists>cmd. launch_cmd_of 2 (\<lambda>_. 100) (Some (\<lambda>_. 8)) = Some cmd \<and>
    0 < unat (cmd_block_dim_x cmd) \<and> 0 < unat (cmd_block_dim_y cmd) \<and>
    (\<forall>n. unat (100 :: u64) \<le> n * unat (cmd_block_dim_x cmd) \<longleftrightarrow> unat (cmd_grid_dim_x cmd) \<le> n) \<and>
    (if (2 :: u32) > 1
     then \<forall>n. unat (100 :: u64) \<le> n * unat (cmd_block_dim_y cmd) \<longleftrightarrow> unat (cmd_grid_dim_y cmd) \<le> n
     else cmd_grid_dim_y cmd = 1)"
  by (rule grid_covers_work) auto

text \<open>A launch divides by zero exactly when a local size is a non-zero multiple of 2^32.  The
  block sizes are cut to 32 bits after they were tested in 64.\<close>

theorem launch_divides_by_zero_exactly:
  "launch_cmd_of work_dim global local = None \<longleftrightarrow>
    (\<exists>l. local = Some l \<and> ((l 0 \<noteq> 0 \<and> unat (l 0) mod 2 ^ 32 = 0) \<or>
      (work_dim > 1 \<and> l 1 \<noteq> 0 \<and> unat (l 1) mod 2 ^ 32 = 0)))"
proof -
  have "(ucast x :: u32) = 0 \<longleftrightarrow> unat x mod 2 ^ 32 = 0" for x :: u64
    by (simp add: word_unat_eq_iff unsigned_ucast_eq take_bit_eq_mod)
  then show ?thesis
    by (auto simp: launch_cmd_of_def grid_dim_def Let_def word_gt_0 split: option.splits)
qed

text \<open>The third dimension never reaches the device.  A launch over three dimensions is the
  same as one over two, whatever its depth, and reports the same success: work items beyond the
  first layer are not run.\<close>

theorem third_dimension_ignored:
  assumes "gl' 0 = gl 0" and "gl' 1 = gl 1"
  shows "clEnqueueNDRangeKernel sys q kern 3 (Some gl) local memalign ev u =
    clEnqueueNDRangeKernel sys q kern 2 (Some gl') local memalign ev u"
proof -
  have one_less: "(1 :: u32) < 3" "(1 :: u32) < 2" by simp_all
  have cmd: "launch_cmd_of 3 gl local = launch_cmd_of 2 gl' local"
    unfolding launch_cmd_of_def assms if_P [OF one_less(1)] if_P [OF one_less(2)] ..
  have same: "launch_kernel sys fd buf page g 3 gl local v = launch_kernel sys fd buf page g 2 gl' local v"
    for fd buf page g v unfolding launch_kernel_def cmd ..
  have dims: "(if (3 :: u32) = 0 \<or> (3 :: u32) > 3 then None else Some gl) = Some gl"
    "(if (2 :: u32) = 0 \<or> (2 :: u32) > 3 then None else Some gl') = Some gl'" by simp_all
  show ?thesis unfolding clEnqueueNDRangeKernel_def dims option.case same ..
qed

text \<open>A context, a queue, a program of one instruction and a kernel with one argument.\<close>

definition demo_launch :: umd where
  "demo_launch = umd_start\<lparr>contexts := [3 \<mapsto> \<lparr>cx_device = 1, cx_fd = 9, cx_refs = 1\<rparr>],
     queues := [4 \<mapsto> \<lparr>cq_context = 3, cq_device = 1, cq_properties = 0, cq_refs = 1\<rparr>],
     programs := [5 \<mapsto> demo_program\<lparr>pg_binary_words := Some (4096, [513]), pg_num_instructions := 1,
       pg_is_built := True\<rparr>],
     kernels := [6 \<mapsto> demo_kernel\<lparr>kn_args :=
       \<lparr>ka_is_set = True, ka_is_mem = False, ka_size = 4, ka_scalar_val = 7, ka_mem_obj = 0\<rparr>
         # replicate 31 no_arg,
       kn_num_args := 1\<rparr>]\<rparr>"

lemma demo_launch_run:
  "\<exists>u'. clEnqueueNDRangeKernel (\<lambda>_ _. 0) 4 6 1 (Some (\<lambda>_. 100)) None (Some 8192) None demo_launch
     = Some (CL_SUCCESS, u')"
  by (simp add: clEnqueueNDRangeKernel_def demo_launch_def demo_kernel_def launch_kernel_def do_sys_def
      launch_cmd_of_def grid_dim_def complete_event_def cl_codes)

theorem third_dimension_ignored_witness:
  "clEnqueueNDRangeKernel (\<lambda>_ _. 0) 4 6 3 (Some (\<lambda>d. [4, 4, 100] ! d)) None (Some 8192) None demo_launch =
    clEnqueueNDRangeKernel (\<lambda>_ _. 0) 4 6 2 (Some (\<lambda>d. [4, 4] ! d)) None (Some 8192) None demo_launch"
  by (rule third_dimension_ignored) simp_all

theorem enqueue_kernel_exact_witness:
  "\<exists>(u' :: umd) k cmd r1 r2 r3 r4.
    clEnqueueNDRangeKernel (\<lambda>_ _. 0) 4 6 1 (Some (\<lambda>_. 100)) None (Some 8192) None demo_launch
      = Some (CL_SUCCESS, u') \<and>
    kernels demo_launch 6 = Some k \<and> launch_cmd_of 1 (\<lambda>_. 100) None = Some cmd \<and>
    sys_log u' =
      [(SysDma 9 (kernarg_upload 8192) (arg_page (take (unat (kn_num_args k)) (kn_args k))), r1),
       (SysLoad 9 \<lparr>user_instr_ptr = 4096, instr_size = 1, kernel_id = 1\<rparr> [513], r2), (SysSubmit 9 cmd, r3),
       (SysDoorbell 9, r4)]"
proof -
  have inv: "kernel_inv demo_launch"
    by (simp add: kernel_inv_def kernel_ok_def demo_launch_def demo_kernel_def FPGAGPU_MAX_ARGS_def umd_start_def)
  obtain u' where run: "clEnqueueNDRangeKernel (\<lambda>_ _. 0) 4 6 1 (Some (\<lambda>_. 100)) None (Some 8192) None
      demo_launch = Some (CL_SUCCESS, u')" using demo_launch_run by blast
  from enqueue_kernel_exact [OF inv run] obtain k g qu c buf cmd r1 r2 r3 r4
    where k: "kernels demo_launch 6 = Some k" "programs demo_launch (kn_program k) = Some g"
      "queues demo_launch 4 = Some qu" "contexts demo_launch (cq_context qu) = Some c" "buf = 8192"
      "launch_cmd_of 1 (\<lambda>_. 100) None = Some cmd"
    and log: "sys_log u' = sys_log demo_launch @
      [(SysDma (cx_fd c) (kernarg_upload buf) (arg_page (take (unat (kn_num_args k)) (kn_args k))), r1),
       (SysLoad (cx_fd c) (kernel_image g) (image_words g), r2), (SysSubmit (cx_fd c) cmd, r3),
       (SysDoorbell (cx_fd c), r4)]" by auto
  from k have "cx_fd c = 9" "kernel_image g = \<lparr>user_instr_ptr = 4096, instr_size = 1, kernel_id = 1\<rparr>"
    "image_words g = [513]" "sys_log demo_launch = []"
    by (auto simp: demo_launch_def umd_start_def kernel_image_def image_words_def demo_program_def
        demo_kernel_def)
  with run k log show ?thesis by auto
qed

end
