(* ===== verification/ClApp.thy ===== *)
theory ClApp
  imports ClEnqueue
begin

text \<open>
  Whole applications: every sequence of calls to the user mode driver, as a step relation over
  its state, and the life of its objects.
\<close>

section \<open>Runs\<close>

text \<open>
  One call, with what it asks of the allocator: a new context, created while buffers are alive or not; a
  buffer of some size; or nothing.  What \<open>malloc\<close> returns for a buffer is not null and not a live
  buffer; nothing else is assumed of the arguments.  A call without a defined result has no step.
\<close>

datatype request = Opens bool | Allocates u64 | Other

inductive umd_step :: "sys \<Rightarrow> request \<Rightarrow> umd \<Rightarrow> umd \<Rightarrow> bool" for sys where
  create_context: "clCreateContext sys n devs alloc u = (CL_SUCCESS, p, u') \<Longrightarrow> umd_step sys (Opens (mems u \<noteq> Map.empty)) u u'"
| create_context_fails: "clCreateContext sys n devs alloc u = (r, p, u') \<Longrightarrow> r \<noteq> CL_SUCCESS \<Longrightarrow> umd_step sys Other u u'"
| retain_context: "clRetainContext p u = Some (r, u') \<Longrightarrow> umd_step sys Other u u'"
| release_context: "clReleaseContext sys p u = Some (r, u') \<Longrightarrow> umd_step sys Other u u'"
| create_queue: "clCreateCommandQueue context dev props alloc u = (r, p, u') \<Longrightarrow> umd_step sys Other u u'"
| release_queue: "clReleaseCommandQueue p u = Some (r, u') \<Longrightarrow> umd_step sys Other u u'"
| finish: "clFinish sys p u = Some (r, u') \<Longrightarrow> umd_step sys Other u u'"
| create_buffer: "clCreateBuffer sys context flags sz host_ptr (Some q) u = Some (r, p, u') \<Longrightarrow>
    q \<noteq> 0 \<Longrightarrow> mems u q = None \<Longrightarrow> umd_step sys (Allocates sz) u u'"
| create_buffer_oom: "clCreateBuffer sys context flags sz host_ptr None u = Some (r, p, u') \<Longrightarrow>
    umd_step sys (Allocates sz) u u'"
| release_buffer: "clReleaseMemObject p u = Some (r, u') \<Longrightarrow> umd_step sys Other u u'"
| write_buffer: "clEnqueueWriteBuffer sys q b offset sz ptr ev u = Some (r, u') \<Longrightarrow> umd_step sys Other u u'"
| read_buffer: "clEnqueueReadBuffer sys q b offset sz ptr ev u = Some (r, u') \<Longrightarrow> umd_step sys Other u u'"
| copy_buffer: "clEnqueueCopyBuffer sys q src dst so dst_off sz bounce ev u = Some (r, u') \<Longrightarrow> umd_step sys Other u u'"
| create_program: "clCreateProgramWithSource context strings alloc ok u = Some (r, p, u') \<Longrightarrow> umd_step sys Other u u'"
| build_program: "clBuildProgram compile e p u = Some (r, u') \<Longrightarrow> umd_step sys Other u u'"
| release_program: "clReleaseProgram p u = Some (r, u') \<Longrightarrow> umd_step sys Other u u'"
| create_kernel: "clCreateKernel program name alloc ok u = Some (r, p, u') \<Longrightarrow> umd_step sys Other u u'"
| set_arg: "clSetKernelArg kern i sz v u = Some (r, u') \<Longrightarrow> umd_step sys Other u u'"
| release_kernel: "clReleaseKernel p u = Some (r, u') \<Longrightarrow> umd_step sys Other u u'"
| enqueue_kernel: "clEnqueueNDRangeKernel sys q kern work_dim global local memalign ev u = Some (r, u') \<Longrightarrow>
    umd_step sys Other u u'"
| release_event: "clReleaseEvent p u = Some (r, u') \<Longrightarrow> umd_step sys Other u u'"

text \<open>A run from the start of the process, with its requests, the latest first.\<close>

inductive umd_run :: "sys \<Rightarrow> request list \<Rightarrow> umd \<Rightarrow> bool" for sys where
  start: "umd_run sys [] umd_start"
| call: "umd_run sys rs u \<Longrightarrow> umd_step sys r u u' \<Longrightarrow> umd_run sys (r # rs) u'"

text \<open>Most calls leave buffers and kernels alone.\<close>

definition frame :: "umd \<Rightarrow> umd \<Rightarrow> bool" where
  "frame u u' \<longleftrightarrow> vram_state u' = vram_state u \<and> mems u' = mems u \<and> kernels u' = kernels u"

lemma frame_do_sys [simp]: "kernels (snd (do_sys sys c u)) = kernels u"
  by (simp add: do_sys_def Let_def)

lemma frame_event [simp]: "kernels (complete_event x q ev u) = kernels u"
  by (simp add: complete_event_def split: option.split)

lemma frame_context:
  "clRetainContext p u = Some (r, u') \<Longrightarrow> frame u u'"
  "clReleaseContext sys p u = Some (r, u') \<Longrightarrow> frame u u'"
  by (auto simp: frame_def clRetainContext_def clReleaseContext_def Let_def split: if_splits option.splits)

lemma frame_queue:
  "clCreateCommandQueue context dev props alloc u = (r, p, u') \<Longrightarrow> frame u u'"
  "clReleaseCommandQueue p u = Some (r, u') \<Longrightarrow> frame u u'"
  "clFinish sys p u = Some (r, u') \<Longrightarrow> frame u u'"
  by (auto simp: frame_def clCreateCommandQueue_def clReleaseCommandQueue_def clFinish_def Let_def split_def
      split: if_splits option.splits)

lemma frame_rw: "enqueue_rw dir sys q b offset sz ptr ev u = Some (r, u') \<Longrightarrow> frame u u'"
  by (auto simp: frame_def enqueue_rw_def Let_def split_def split: if_splits option.splits)

lemma frame_copy: "clEnqueueCopyBuffer sys q src dst so dst_off sz bounce ev u = Some (r, u') \<Longrightarrow> frame u u'"
  by (auto simp: frame_def clEnqueueCopyBuffer_def Let_def split_def split: if_splits option.splits)

lemma frame_program:
  "clCreateProgramWithSource context strings alloc ok u = Some (r, p, u') \<Longrightarrow> frame u u'"
  "clReleaseProgram p u = Some (r, u') \<Longrightarrow> frame u u'"
  by (auto simp: frame_def clCreateProgramWithSource_def clReleaseProgram_def Let_def
      split: if_splits option.splits)

lemma frame_build: "clBuildProgram compile e p u = Some (r, u') \<Longrightarrow> frame u u'"
  by (auto simp: frame_def clBuildProgram_def Let_def split: if_splits option.splits prod.splits)

lemma frame_launch: "launch_kernel sys fd buf page g work_dim global local u = Some (r, u') \<Longrightarrow> frame u u'"
  by (auto simp: frame_def launch_kernel_def Let_def split_def split: if_splits option.splits)

lemma frame_enqueue:
  "clEnqueueNDRangeKernel sys q kern work_dim global local memalign ev u = Some (r, u') \<Longrightarrow> frame u u'"
  by (auto simp: clEnqueueNDRangeKernel_def dest!: frame_launch split: if_splits option.splits)
    (auto simp: frame_def)

lemma frame_release_event: "clReleaseEvent p u = Some (r, u') \<Longrightarrow> frame u u'"
  by (auto simp: frame_def clReleaseEvent_def Let_def split: if_splits option.splits)

lemma frame_context_fails: "clCreateContext sys n devs alloc u = (r, p, u') \<Longrightarrow> r \<noteq> CL_SUCCESS \<Longrightarrow> frame u u'"
  by (auto simp: frame_def clCreateContext_def Let_def split_def split: if_splits option.splits)

section \<open>What the calls do to buffers and kernels\<close>

lemma create_context_state:
  "clCreateContext sys n devs alloc u = (CL_SUCCESS, p, u') \<Longrightarrow>
   vram_state u' = fpgagpu_vram_init (vram_state u) \<and> mems u' = mems u \<and> kernels u' = kernels u"
  by (auto simp: clCreateContext_def Let_def cl_codes split_def split: if_splits option.splits)

lemma create_buffer_kernels:
  "clCreateBuffer sys context flags sz host_ptr alloc u = Some (r, p, u') \<Longrightarrow> kernels u' = kernels u"
  by (auto simp: clCreateBuffer_def Let_def split_def split: if_splits option.splits)

lemma create_buffer_oom_state:
  "clCreateBuffer sys context flags sz host_ptr None u = Some (r, p, u') \<Longrightarrow> mems u' = mems u \<and>
   (vram_state u' = vram_state u \<or> sz \<noteq> 0 \<and> vram_state u' = snd (fpgagpu_vram_alloc sz (vram_state u)))"
  by (auto simp: clCreateBuffer_def Let_def split_def split: if_splits option.splits)

text \<open>A created buffer has the region it was given; a failed creation leaves no buffer.\<close>

lemma create_buffer_state:
  assumes "clCreateBuffer sys context flags sz host_ptr (Some q) u = Some (r, p, u')" and "mems u q = None"
  shows "(mems u' = mems u \<or> sz \<noteq> 0 \<and> (\<exists>m. mems u' = (mems u)(q \<mapsto> m) \<and> mo_size m = sz \<and>
      mo_ddr3_addr m = fst (fpgagpu_vram_alloc sz (vram_state u)) \<and> mo_ddr3_addr m \<noteq> 0)) \<and>
    (vram_state u' = vram_state u \<or> sz \<noteq> 0 \<and> vram_state u' = snd (fpgagpu_vram_alloc sz (vram_state u)))"
  using assms by (auto simp: clCreateBuffer_def Let_def split_def fun_upd_idem split: if_splits option.splits)

lemma release_buffer_state:
  "clReleaseMemObject p u = Some (r, u') \<Longrightarrow> vram_state u' = vram_state u \<and> kernels u' = kernels u \<and>
   (\<forall>q n. mems u' q = Some n \<longrightarrow> (\<exists>m. mems u q = Some m \<and> mem_region n = mem_region m))"
  by (auto simp: clReleaseMemObject_def fpgagpu_vram_free_def mem_region_def Let_def split: if_splits option.splits)

lemma step_cases:
  assumes "umd_step sys req u u'"
  obtains (quiet) "frame u u'"
  | (opens) "req = Opens (mems u \<noteq> Map.empty)" "vram_state u' = fpgagpu_vram_init (vram_state u)" "mems u' = mems u"
      "kernels u' = kernels u"
  | (buffer) cx flags sz host_ptr q r p where "req = Allocates sz" "q \<noteq> 0" "mems u q = None"
      "clCreateBuffer sys cx flags sz host_ptr (Some q) u = Some (r, p, u')" "kernels u' = kernels u"
  | (no_memory) sz where "req = Allocates sz" "mems u' = mems u" "kernels u' = kernels u"
      "vram_state u' = vram_state u \<or> sz \<noteq> 0 \<and> vram_state u' = snd (fpgagpu_vram_alloc sz (vram_state u))"
  | (freed) "vram_state u' = vram_state u" "kernels u' = kernels u"
      "\<forall>q n. mems u' q = Some n \<longrightarrow> (\<exists>m. mems u q = Some m \<and> mem_region n = mem_region m)"
  | (kernel) "vram_state u' = vram_state u" "mems u' = mems u" "kernel_inv u \<longrightarrow> kernel_inv u'"
  using assms
proof (cases rule: umd_step.cases)
  case (create_kernel program name alloc ok r p)
  have "vram_state u' = vram_state u" "mems u' = mems u"
    using create_kernel by (auto simp: clCreateKernel_def split: if_splits option.splits)
  then show ?thesis by (rule kernel) (use create_kernel_inv [OF _ create_kernel(2)] in blast)
next
  case (release_kernel p r)
  have "vram_state u' = vram_state u" "mems u' = mems u"
    using release_kernel by (auto simp: clReleaseKernel_def Let_def split: if_splits option.splits)
  then show ?thesis by (rule kernel) (use release_kernel_inv [OF _ release_kernel(2)] in blast)
next
  case (set_arg kern i sz v r)
  have "vram_state u' = vram_state u \<and> mems u' = mems u" by (rule set_arg_cases [OF set_arg(2)]) simp_all
  then show ?thesis by (intro kernel) (use set_arg_inv [OF _ set_arg(2)] in blast)+
qed (auto simp: clEnqueueWriteBuffer_def clEnqueueReadBuffer_def
      dest: create_context_state create_buffer_oom_state create_buffer_kernels release_buffer_state
      intro: that frame_context frame_queue frame_rw frame_copy frame_program frame_build frame_enqueue
        frame_release_event frame_context_fails)

section \<open>Invariants of runs\<close>

text \<open>The three parts: argument tables, buffers in device memory, buffers apart (\<open>mem_inv\<close>).\<close>

definition spans :: "umd \<Rightarrow> bool" where
  "spans u \<longleftrightarrow> vram_inv (vram_state u) \<and>
     (\<forall>b m. mems u b = Some m \<longrightarrow> 65536 \<le> unat (mo_ddr3_addr m) \<and> unat (mo_ddr3_addr m) + unat (mo_size m) \<le> 2 ^ 30)"

lemma vram_init_inv: "vram_inv (fpgagpu_vram_init v)"
  by (simp add: fpgagpu_vram_init_def vram_inv_def FPGAGPU_VRAM_USER_BASE_def)

lemma step_kernels: "umd_step sys req u u' \<Longrightarrow> kernel_inv u \<Longrightarrow> kernel_inv u'"
  by (erule step_cases) (simp_all add: kernel_inv_def frame_def)

lemma alloc_keeps:
  assumes "vram_inv v" and "sz \<noteq> 0" and "unat sz \<le> 2 ^ 63"
  shows "vram_inv (snd (fpgagpu_vram_alloc sz v))" "vram_next v \<le> vram_next (snd (fpgagpu_vram_alloc sz v))"
    "fst (fpgagpu_vram_alloc sz v) \<noteq> 0 \<Longrightarrow> 65536 \<le> unat (fst (fpgagpu_vram_alloc sz v)) \<and>
      unat (fst (fpgagpu_vram_alloc sz v)) + unat sz \<le> 2 ^ 30"
proof -
  have sz: "0 < unat sz \<and> unat sz \<le> 2 ^ 63" using assms(2,3) by (simp add: unat_gt_0)
  note vr = vr.alloc_inv [OF assms(1) sz] vr.alloc_mono [OF assms(1) sz] vr.alloc_region [OF assms(1) sz]
  show "vram_inv (snd (fpgagpu_vram_alloc sz v))" "vram_next v \<le> vram_next (snd (fpgagpu_vram_alloc sz v))"
    by (rule vr(1), rule vr(2))
  show "fst (fpgagpu_vram_alloc sz v) \<noteq> 0 \<Longrightarrow> 65536 \<le> unat (fst (fpgagpu_vram_alloc sz v)) \<and>
      unat (fst (fpgagpu_vram_alloc sz v)) + unat sz \<le> 2 ^ 30"
    using vr(3) vr.frontier_bounds [OF assms(1)] vr.frontier_bounds [OF vr(1)] by linarith
qed

lemma step_spans:
  assumes "umd_step sys req u u'" and "spans u" and small: "\<And>sz. req = Allocates sz \<Longrightarrow> unat sz \<le> 2 ^ 63"
  shows "spans u'"
  using assms(1)
proof (cases rule: step_cases)
  case (buffer cx flags sz host_ptr q r p)
  have "vram_inv (vram_state u)" using assms(2) by (simp add: spans_def)
  note keeps = alloc_keeps [OF this _ small [OF buffer(1)]]
  show ?thesis using create_buffer_state [OF buffer(4,3)] keeps assms(2) unfolding spans_def by (auto split: if_splits)
next
  case (no_memory sz)
  then show ?thesis using alloc_keeps [OF _ _ small [OF no_memory(1)], of "vram_state u"] assms(2) by (auto simp: spans_def)
next
  case freed
  then show ?thesis using assms(2) unfolding spans_def mem_region_def by (metis prod.inject)
qed (use assms(2) in \<open>simp_all add: spans_def frame_def vram_init_inv\<close>)

lemma mem_inv_sub:
  assumes "mem_inv u" and "vram_state u' = vram_state u"
    and "\<And>q n. mems u' q = Some n \<Longrightarrow> \<exists>m. mems u q = Some m \<and> mem_region n = mem_region m"
  shows "mem_inv u'"
  using assms unfolding mem_inv_def by metis

lemma step_apart:
  assumes "umd_step sys req u u'" and "mem_inv u" and small: "\<And>sz. req = Allocates sz \<Longrightarrow> unat sz \<le> 2 ^ 63"
    and empty: "req \<noteq> Opens True"
  shows "mem_inv u'"
  using assms(1)
proof (cases rule: step_cases)
  case opens
  then show ?thesis using empty by (simp add: mem_inv_def vram_init_inv)
next
  case (buffer cx flags sz host_ptr q r p)
  then show ?thesis using create_buffer_disjoint [OF assms(2) buffer(4,3,2) small [OF buffer(1)]] by blast
next
  case (no_memory sz)
  have "vram_inv (vram_state u)" using assms(2) by (simp add: mem_inv_def)
  from alloc_keeps(1,2) [OF this _ small [OF no_memory(1)]] have "vram_inv (vram_state u') \<and> vram_next (vram_state u) \<le> vram_next (vram_state u')"
    using no_memory(4) \<open>vram_inv (vram_state u)\<close> by auto
  then show ?thesis using assms(2) no_memory(2) unfolding mem_inv_def by fastforce
next
  case freed
  then show ?thesis using mem_inv_sub [OF assms(2)] by blast
qed (use assms(2) in \<open>simp_all add: mem_inv_def frame_def\<close>)

definition small_buffers :: "request list \<Rightarrow> bool" where
  "small_buffers rs \<longleftrightarrow> (\<forall>sz. Allocates sz \<in> set rs \<longrightarrow> unat sz \<le> 2 ^ 63)"

lemma run_inv:
  "umd_run sys rs u \<Longrightarrow> kernel_inv u \<and> (small_buffers rs \<longrightarrow> spans u) \<and>
    (small_buffers rs \<and> Opens True \<notin> set rs \<longrightarrow> mem_inv u)"
proof (induction rule: umd_run.induct)
  case start
  have "vram_inv vram_boot" by (simp add: vram_boot_def vram_inv_def)
  then show ?case by (simp add: umd_start_def kernel_inv_def spans_def mem_inv_def)
next
  case (call rs u r u')
  have "small_buffers rs" "unat sz \<le> 2 ^ 63" if "small_buffers (r # rs)" "r = Allocates sz" for sz
    using that by (auto simp: small_buffers_def)
  moreover have "small_buffers rs" if "small_buffers (r # rs)" using that by (auto simp: small_buffers_def)
  ultimately show ?case using call step_kernels [OF call(2)] step_spans [OF call(2)] step_apart [OF call(2)] by auto
qed

text \<open>C11: what an application cannot do to the driver's bookkeeping.  Whatever calls it makes from the start of the process,
  in whatever order and however they fail, every kernel keeps its 32 argument entries with a count inside them.  If
  no buffer of more than 2^63 bytes was asked for, every live buffer lies between the argument page and the end of device
  memory.  If moreover no context was created while a buffer was alive, no two live buffers share a byte.  Both
  conditions are needed: see \<open>vram_alloc_wraps\<close> and \<open>second_context_overlaps\<close>.\<close>

theorem application_keeps_invariants:
  assumes "umd_run sys rs u"
  shows "(\<forall>p k. kernels u p = Some k \<longrightarrow> length (kn_args k) = FPGAGPU_MAX_ARGS \<and>
      unat (kn_num_args k) \<le> FPGAGPU_MAX_ARGS) \<and>
    ((\<forall>sz. Allocates sz \<in> set rs \<longrightarrow> unat sz \<le> 2 ^ 63) \<longrightarrow>
      (\<forall>b m. mems u b = Some m \<longrightarrow> 65536 \<le> unat (mo_ddr3_addr m) \<and> unat (mo_ddr3_addr m) + unat (mo_size m) \<le> 2 ^ 30) \<and>
      (Opens True \<notin> set rs \<longrightarrow>
        (\<forall>b c m n. mems u b = Some m \<longrightarrow> mems u c = Some n \<longrightarrow> b \<noteq> c \<longrightarrow>
          disjoint_regions (mem_region m) (mem_region n))))"
  using run_inv [OF assms] unfolding kernel_inv_def kernel_ok_def spans_def mem_inv_def small_buffers_def by blast

theorem application_keeps_invariants_witness:
  "\<exists>u m n. umd_run (\<lambda>_ _. 3) [Allocates 4096, Allocates 8192, Opens False] u \<and> mems u 2 = Some m \<and> mems u 4 = Some n \<and>
     65536 \<le> unat (mo_ddr3_addr m) \<and> unat (mo_ddr3_addr m) + unat (mo_size m) \<le> 2 ^ 30 \<and>
     disjoint_regions (mem_region m) (mem_region n)"
proof -
  let ?s = "\<lambda>_ _. 3"
  define u where "u = snd (snd (clCreateContext ?s 1 (Some 9) (Some 1) umd_start))"
  have c: "clCreateContext ?s 1 (Some 9) (Some 1) umd_start = (CL_SUCCESS, 1, u)"
    by (simp add: u_def clCreateContext_def do_sys_def Let_def)
  have v: "vram_state u = \<lparr>current_heap_ptr = 0x10000, vram_initialized = True\<rparr>" "mems u = Map.empty"
    by (simp_all add: u_def clCreateContext_def do_sys_def Let_def fpgagpu_vram_init_def umd_start_def
        vram_boot_def FPGAGPU_VRAM_USER_BASE_def)
  note alloc = clCreateBuffer_def fpgagpu_vram_alloc_def vram_aligned_def PAGE_SIZE_4K_def FPGAGPU_VRAM_TOTAL_SIZE_def Let_def
  obtain u1 where b1: "clCreateBuffer ?s 1 0 8192 0 (Some 2) u = Some (CL_SUCCESS, 2, u1)" and m1: "mems u1 2 \<noteq> None" "mems u1 4 = None"
    and v1: "vram_state u1 = \<lparr>current_heap_ptr = 0x12000, vram_initialized = True\<rparr>"
    using v by (simp add: alloc)
  obtain u2 where b2: "clCreateBuffer ?s 1 0 4096 0 (Some 4) u1 = Some (CL_SUCCESS, 4, u2)" and m2: "mems u2 2 = mems u1 2" "mems u2 4 \<noteq> None"
    using v1 by (simp add: alloc)
  have "umd_step ?s (Opens (mems umd_start \<noteq> Map.empty)) umd_start u" by (rule create_context [OF c])
  then have "umd_step ?s (Opens False) umd_start u" by (simp add: umd_start_def)
  moreover have "umd_step ?s (Allocates 8192) u u1" by (rule create_buffer [OF b1]) (simp_all add: v)
  moreover have "umd_step ?s (Allocates 4096) u1 u2" by (rule create_buffer [OF b2]) (simp_all add: m1)
  ultimately have run: "umd_run ?s [Allocates 4096, Allocates 8192, Opens False] u2" by (meson umd_run.intros)
  from application_keeps_invariants [OF run] run m1 m2 show ?thesis by force
qed

section \<open>Lives of objects\<close>

text \<open>C21: every object lives exactly as long as it has references.  For contexts, queues,
  buffers, programs, kernels and events alike.\<close>

theorem objects_live_until_last_release:
  assumes "p \<noteq> 0"
  shows "(\<forall>x. contexts u p = Some x \<and> cx_refs x \<noteq> 0 \<longrightarrow>
      lives_for contexts (clReleaseContext sys) p (unat (cx_refs x)) u) \<and>
    (\<forall>x. queues u p = Some x \<and> cq_refs x \<noteq> 0 \<longrightarrow>
      lives_for queues clReleaseCommandQueue p (unat (cq_refs x)) u) \<and>
    (\<forall>x. mems u p = Some x \<and> mo_refs x \<noteq> 0 \<longrightarrow>
      lives_for mems clReleaseMemObject p (unat (mo_refs x)) u) \<and>
    (\<forall>x. programs u p = Some x \<and> pg_refs x \<noteq> 0 \<longrightarrow>
      lives_for programs clReleaseProgram p (unat (pg_refs x)) u) \<and>
    (\<forall>x. kernels u p = Some x \<and> kn_refs x \<noteq> 0 \<longrightarrow>
      lives_for kernels clReleaseKernel p (unat (kn_refs x)) u) \<and>
    (\<forall>x. events u p = Some x \<and> ev_refs x \<noteq> 0 \<longrightarrow>
      lives_for events clReleaseEvent p (unat (ev_refs x)) u)"
  using rc_context.release_exact [OF assms] rc_queue.release_exact [OF assms] rc_mem.release_exact [OF assms]
    rc_program.release_exact [OF assms] rc_kernel.release_exact [OF assms] rc_event.release_exact [OF assms]
  by blast

theorem objects_live_until_last_release_witness:
  "lives_for mems clReleaseMemObject 2 2 sample_umd"
  using objects_live_until_last_release [of 2 sample_umd]
  by (simp add: sample_umd_def)

text \<open>A queue does not keep its context alive: \<open>clFinish\<close> on a queue whose context was released
  for the last time reads freed memory.\<close>

lemma finish_after_context_release:
  assumes "q \<noteq> 0" and "queues u q = Some x" and "cq_context x \<noteq> 0"
    and "contexts u (cq_context x) = Some c" and "cx_refs c = 1"
    and "clReleaseContext sys (cq_context x) u = Some (r, u')"
  shows "clFinish sys q u' = None"
proof -
  have "queues u' = queues u" "contexts u' (cq_context x) = None"
    using assms(3-6) by (auto simp: clReleaseContext_def Let_def)
  with assms(1,2) show ?thesis by (simp add: clFinish_def)
qed

end
