(* ===== verification/Stack.thy ===== *)
theory Stack
  imports DmaProps ClApp ClPlatform
begin

text \<open>
  The user mode driver on top of the kernel driver: what a request that the one hands over does
  in the other.
\<close>

section \<open>Kernel code\<close>

text \<open>C18: the compiler's output reaches the device.  When a build succeeded, the kernel driver
  reads the program's words where the request points to them, and LOAD_KERNEL succeeds, then
  the staging buffer of the device holds, byte for byte, what the compiler produced.\<close>

theorem compiled_code_reaches_staging:
  assumes "clBuildProgram compile e p u = Some (CL_SUCCESS, u')" and "programs u' p = Some g"
    and "copy_kernel_binary env arg = Some (kernel_image g)"
    and "user_words env (user_instr_ptr (kernel_image g)) 0 (unat (instr_size (kernel_image g)))
      = map Some (image_words g)"
    and "load_kernel env arg d = (OK, d')" and "fw_only_head env"
  shows "\<exists>body bytes. compile (build_cmd e u) body = (0, Some bytes) \<and> length bytes \<le> 4096 \<and>
    concat (map bytes_le (get_words ioread32 FPGAGPU_KERNEL_STAGING_OFFSET (length bytes div 4) d')) = bytes"
proof -
  from assms(1) obtain g0 body out g' where b: "compile (build_cmd e u) body = (0, out)"
    "read_binary e out g0 = (CL_SUCCESS, g')" "programs u' = (programs u)(p \<mapsto> g')"
    by (rule build_successful)
  with assms(2) have "read_binary e out g0 = (CL_SUCCESS, g)" by simp
  from read_binary_success [OF this] obtain bytes a ws where o: "out = Some bytes"
    and ne: "bytes \<noteq> []" and ws: "pg_binary_words g = Some (a, ws)"
    and bytes: "concat (map bytes_le ws) = bytes" by blast
  have img: "image_words g = ws" by (simp add: image_words_def ws)
  have len: "length bytes = 4 * length ws"
    unfolding bytes [symmetric] by (simp add: length_concat comp_def bytes_le_def sum_list_triv)
  have "length ws = unat (instr_size (kernel_image g))"
    using arg_cong [OF assms(4), of length] by (simp add: img user_words_def)
  moreover have "instr_size (kernel_image g) \<le> 1024"
    using assms(3,5) by (auto simp: load_kernel_def not_less split: if_splits)
  ultimately have small: "length ws \<le> 1024" by (simp add: word_le_nat_alt)
  have "ws \<noteq> []" using ne bytes by auto
  from load_kernel_delivers(3) [OF assms(5,6,3) assms(4) [unfolded img] this small]
  have "get_words ioread32 FPGAGPU_KERNEL_STAGING_OFFSET (length bytes div 4) d' = ws"
    using len by simp
  then have "concat (map bytes_le (get_words ioread32 FPGAGPU_KERNEL_STAGING_OFFSET (length bytes div 4) d')) = bytes"
    by (simp only: bytes)
  moreover have "length bytes \<le> 4096" using len small by simp
  ultimately show ?thesis using b(1) unfolding o by blast
qed

text \<open>The sample environment holds the words \<open>0xAA\<close>, \<open>0xBB\<close> at \<open>0x1000\<close>.\<close>

theorem compiled_code_reaches_staging_witness:
  "\<exists>d'. load_kernel (sample_env\<lparr>copy_kernel_binary := (\<lambda>_. Some \<lparr>user_instr_ptr = 0x1000, instr_size = 2,
      kernel_id = 1\<rparr>)\<rparr>) 0 sample_dev = (OK, d') \<and>
    concat (map bytes_le (get_words ioread32 FPGAGPU_KERNEL_STAGING_OFFSET 2 d'))
      = [0xAA, 0, 0, 0, 0xBB, 0, 0, 0]"
proof -
  let ?bin = "[0xAA, 0, 0, 0, 0xBB, 0, 0, 0] :: u8 list"
  let ?k = "\<lparr>user_instr_ptr = 0x1000, instr_size = 2, kernel_id = 1\<rparr>"
  let ?env = "sample_env\<lparr>copy_kernel_binary := (\<lambda>_. Some ?k)\<rparr>"
  let ?e = "demo_env\<lparr>be_malloc := Some 0x1000\<rparr>"
  let ?u = "umd_start\<lparr>programs := [5 \<mapsto> demo_program]\<rparr>"
  obtain u' g where run: "clBuildProgram (\<lambda>_ _. (0, Some ?bin)) ?e 5 ?u = Some (CL_SUCCESS, u')"
    and g: "programs u' 5 = Some g" and words: "pg_binary_words g = Some (0x1000, [0xAA, 0xBB])"
    and n: "pg_num_instructions g = 2"
    by (auto simp: clBuildProgram_def demo_env_def demo_program_def write_source_def strstr_def
        read_binary_def Let_def dest: sublist_length_le)
  have img: "kernel_image g = ?k" "image_words g = [0xAA, 0xBB]"
    by (simp_all add: kernel_image_def image_words_def words n)
  have uw: "user_words ?env (user_instr_ptr (kernel_image g)) 0 (unat (instr_size (kernel_image g)))
      = map Some (image_words g)"
    by (simp add: img user_words_def sample_env_def upt_rec)
  have k: "copy_kernel_binary ?env 0 = Some (kernel_image g)" by (simp add: img)
  from load_kernel_staged [OF k uw, of sample_dev]
  obtain d' where load: "load_kernel ?env 0 sample_dev = (OK, d')"
    by (simp add: img sample_env_def sample_wait_def ring_full_def sample_dev_def kzalloc_dev_def
        load_published_def pub_mem_tail QUEUE_SIZE_def Let_def ioread32_def ring_cells_distinct)
  have fw: "fw_only_head ?env" using sample_env_wait by (simp add: fw_only_head_def)
  from compiled_code_reaches_staging [OF run g k uw load fw] load show ?thesis by auto
qed

section \<open>Buffer contents\<close>

lemma map_unat_addrs:
  assumes "unat a + n \<le> 2 ^ 64"
  shows "map unat (addrs a n) = [unat a ..< unat a + n]"
proof (rule nth_equalityI)
  fix k assume "k < length (map unat (addrs a n))"
  then have k: "k < n" by simp
  then have "unat (of_nat k :: u64) = k" using assms by (simp add: unsigned_of_nat take_bit_eq_mod)
  moreover from this have "unat (a + of_nat k) = unat a + unat (of_nat k :: u64)"
    using assms k by (intro unat_add_no_wrap) simp
  ultimately show "map unat (addrs a n) ! k = [unat a ..< unat a + n] ! k" using k by (simp add: addrs_def)
qed simp

lemma rw_request:
  assumes "mem_inv u" and "mems u b = Some m" and "unat offset + unat sz < 2 ^ 64"
    and "enqueue_rw dir sys q b offset sz ptr ev u = Some (r, u')"
    and "sys_log u' = sys_log u @ [(SysDma fd p [], ret)]"
  shows "p = \<lparr>dma_direction = dir, dma_size = ucast sz, ddr3_addr = mo_ddr3_addr m + offset, host_vaddr = ptr\<rparr>"
    and "dma_region p = (unat (mo_ddr3_addr m) + unat offset, unat sz)"
    and "within (dma_region p) (mem_region m)"
proof -
  from assms(4,2) show p: "p = \<lparr>dma_direction = dir, dma_size = ucast sz,
      ddr3_addr = mo_ddr3_addr m + offset, host_vaddr = ptr\<rparr>"
    using assms(5) by (cases rule: enqueue_rw_cases; simp)
  from assms(4,2) have bound: "\<not> offset + sz > mo_size m"
    using assms(5) by (cases rule: enqueue_rw_cases; simp)
  show "dma_region p = (unat (mo_ddr3_addr m) + unat offset, unat sz)" "within (dma_region p) (mem_region m)"
    using transfer_within [OF assms(1-3) bound, of p] by (simp_all add: p)
qed

lemma within_apart:
  "within r s \<Longrightarrow> disjoint_regions s t \<Longrightarrow> disjoint_regions r t"
  by (auto simp: disjoint_regions_def within_def)

lemma mem_apart:
  "mem_inv u \<Longrightarrow> mems u b = Some m \<Longrightarrow> mems u c = Some n \<Longrightarrow> c \<noteq> b \<Longrightarrow>
   disjoint_regions (mem_region m) (mem_region n)"
  unfolding mem_inv_def by metis

lemma mem_region_top:
  assumes "mem_inv u" and "mems u b = Some m"
  shows "fst (mem_region m) + snd (mem_region m) \<le> 2 ^ 30"
proof -
  have "vram_inv (vram_state u)" "fst (mem_region m) + snd (mem_region m) \<le> vram_next (vram_state u)"
    using assms by (auto simp: mem_inv_def)
  then show ?thesis using vr.frontier_bounds by fastforce
qed

lemma done_moves:
  assumes "dma_map_ok bus env" and "length (desc_ring d) = 8192" and chk: "dma_check p = Inr (off, n, ch)"
    and "length pgs = n" and "segs = dma_map_sg env (sg_fill pgs (dma_size p) off) (from_device ch)"
    and "segs \<noteq> []" and "d' = dma_done ch (ddr3_addr p) pgs segs d"
    and top: "unat (ddr3_addr p) + unat (dma_size p) \<le> 2 ^ 64" and ch: "from_device ch = from"
  obtains ds where "chain_walk 8192 (desc_ring_dma_addr d) (desc_ring d') (desc_ring_dma_addr d) = Some ds"
    and "map (\<lambda>(src, dst). if from then (bus dst, unat src) else (bus src, unat dst)) (chain_moves ds) =
      zip (user_bytes pgs (unat (host_vaddr p) mod 4096) (unat (dma_size p)))
        [unat (ddr3_addr p) ..< unat (ddr3_addr p) + unat (dma_size p)]"
proof -
  from chk have off: "off = offset_in_page (host_vaddr p)" by (simp add: dma_check_iff)
  from dma_done_moves [OF assms(1-7)] obtain ds where
    walk: "chain_walk 8192 (desc_ring_dma_addr d) (desc_ring d') (desc_ring_dma_addr d) = Some ds"
    and moves: "map (\<lambda>(src, dst). if from then (bus dst, src) else (bus src, dst)) (chain_moves ds) =
      zip (user_bytes pgs (unat off) (unat (dma_size p))) (addrs (ddr3_addr p) (unat (dma_size p)))"
    by (auto simp: ch)
  have "map (\<lambda>(src, dst). if from then (bus dst, unat src) else (bus src, unat dst)) (chain_moves ds) =
      map (\<lambda>(x, a). (x, unat a)) (map (\<lambda>(src, dst). if from then (bus dst, src) else (bus src, dst)) (chain_moves ds))"
    by (simp add: split_def)
  also have "\<dots> = zip (user_bytes pgs (unat off) (unat (dma_size p))) (map unat (addrs (ddr3_addr p) (unat (dma_size p))))"
    unfolding moves by (simp add: zip_map2)
  also have "\<dots> = zip (user_bytes pgs (unat (host_vaddr p) mod 4096) (unat (dma_size p)))
      [unat (ddr3_addr p) ..< unat (ddr3_addr p) + unat (dma_size p)]"
    by (simp add: map_unat_addrs [OF top] off unat_offset_in_page)
  finally show thesis by (rule that [OF walk])
qed

lemma transfer_moves:
  assumes "dma_transfer env arg d = (OK, d')" and "copy_dma_param env arg = Some p"
    and "gup_ok env" and "dma_map_ok bus env" and "length (desc_ring d) = 8192"
    and top: "unat (ddr3_addr p) + unat (dma_size p) \<le> 2 ^ 64"
    and dir: "from = (dma_direction p \<noteq> FPGAGPU_DMA_TO_DEVICE)"
  obtains pgs ds where
    "get_user_pages_fast env (host_vaddr p AND PAGE_MASK) (length pgs) from = (int (length pgs), pgs)"
    and "unat (host_vaddr p) mod 4096 + unat (dma_size p) \<le> 4096 * length pgs" and "length pgs \<le> 8192"
    and "chain_walk 8192 (desc_ring_dma_addr d) (desc_ring d') (desc_ring_dma_addr d) = Some ds"
    and "map (\<lambda>(src, dst). if from then (bus dst, unat src) else (bus src, unat dst)) (chain_moves ds) =
      zip (user_bytes pgs (unat (host_vaddr p) mod 4096) (unat (dma_size p)))
        [unat (ddr3_addr p) ..< unat (ddr3_addr p) + unat (dma_size p)]"
proof -
  from dma_started [OF assms(3,1)] obtain off n ch pgs where chk: "dma_check p = Inr (off, n, ch)"
    and gup: "get_user_pages_fast env (host_vaddr p AND PAGE_MASK) n (from_device ch) = (int n, pgs)"
    and len: "length pgs = n" and ne: "dma_map_sg env (sg_fill pgs (dma_size p) off) (from_device ch) \<noteq> []"
    and d': "d' = dma_done ch (ddr3_addr p) pgs (dma_map_sg env (sg_fill pgs (dma_size p) off) (from_device ch)) d"
    using assms(2) by (metis option.inject)
  from chk have ch: "dma_channel (dma_direction p) = Some ch"
    and cover: "unat (host_vaddr p) mod 4096 + unat (dma_size p) \<le> 4096 * n" "n \<le> 8192"
    by (auto simp: dma_check_iff)
  from ch have ch: "from_device ch = from"
    by (auto simp: dir dma_channel_def h2c_chan_def c2h_chan_def split: if_splits)
  from done_moves [OF assms(4,5) chk len refl ne d' top ch] obtain ds where
    walk: "chain_walk 8192 (desc_ring_dma_addr d) (desc_ring d') (desc_ring_dma_addr d) = Some ds"
    and moves: "map (\<lambda>(src, dst). if from then (bus dst, unat src) else (bus src, unat dst)) (chain_moves ds) =
      zip (user_bytes pgs (unat (host_vaddr p) mod 4096) (unat (dma_size p)))
        [unat (ddr3_addr p) ..< unat (ddr3_addr p) + unat (dma_size p)]" .
  show thesis by (rule that [OF _ _ _ walk moves]) (use gup len ch cover in simp_all)
qed

lemma host_to_device_moves:
  assumes "dma_transfer env arg d = (OK, d')" and "copy_dma_param env arg = Some p"
    and "dma_direction p = FPGAGPU_DMA_TO_DEVICE"
    and "gup_ok env" and "dma_map_ok bus env" and "length (desc_ring d) = 8192"
    and "unat (ddr3_addr p) + unat (dma_size p) \<le> 2 ^ 64"
  obtains pgs ds where
    "get_user_pages_fast env (host_vaddr p AND PAGE_MASK) (length pgs) False = (int (length pgs), pgs)"
    and "chain_walk 8192 (desc_ring_dma_addr d) (desc_ring d') (desc_ring_dma_addr d) = Some ds"
    and "map (\<lambda>(src, dst). (bus src, unat dst)) (chain_moves ds) =
      zip (user_bytes pgs (unat (host_vaddr p) mod 4096) (unat (dma_size p)))
        [unat (ddr3_addr p) ..< unat (ddr3_addr p) + unat (dma_size p)]"
  using transfer_moves [OF assms(1,2,4-7), of False] assms(3) that by (auto simp: split_def)

text \<open>C12: written bytes reach their buffer and nothing else.  For a write whose range does not
  wrap, the transfer the kernel driver carries out moves byte \<open>k\<close> of the application's memory
  to device address start of the buffer + offset + \<open>k\<close>, for every \<open>k\<close> below the size, in order;
  these addresses lie inside the buffer and outside every other live buffer.\<close>

theorem written_bytes_reach_buffer:
  assumes "mem_inv u" and "mems u b = Some m" and "unat offset + unat sz < 2 ^ 64"
    and "clEnqueueWriteBuffer sys q b offset sz ptr ev u = Some (r, u')"
    and "sys_log u' = sys_log u @ [(SysDma fd p [], ret)]" and "copy_dma_param env arg = Some p"
    and "gup_ok env" and "dma_map_ok bus env" and "length (desc_ring d) = 8192"
    and "dma_transfer env arg d = (OK, d')"
  shows "\<exists>pgs ds. get_user_pages_fast env (ptr AND PAGE_MASK) (length pgs) False = (int (length pgs), pgs) \<and>
    chain_walk 8192 (desc_ring_dma_addr d) (desc_ring d') (desc_ring_dma_addr d) = Some ds \<and>
    map (\<lambda>(src, dst). (bus src, unat dst)) (chain_moves ds) =
      zip (user_bytes pgs (unat ptr mod 4096) (unat sz))
        [unat (mo_ddr3_addr m) + unat offset ..< unat (mo_ddr3_addr m) + unat offset + unat sz] \<and>
    unat offset + unat sz \<le> unat (mo_size m) \<and>
    (\<forall>c n. mems u c = Some n \<longrightarrow> c \<noteq> b \<longrightarrow>
       disjoint_regions (unat (mo_ddr3_addr m) + unat offset, unat sz) (mem_region n))"
proof -
  note req = rw_request [OF assms(1-3) assms(4) [unfolded clEnqueueWriteBuffer_def] assms(5)]
  note p = req(1) and inside = req(3)
  have addr: "unat (ddr3_addr p) = unat (mo_ddr3_addr m) + unat offset" and size: "unat (dma_size p) = unat sz"
    using req(2) by (simp_all add: dma_region_def)
  have "unat (ddr3_addr p) + unat (dma_size p) \<le> 2 ^ 64"
    using inside mem_region_top [OF assms(1,2)] by (simp add: within_def dma_region_def)
  then obtain pgs ds where
    "get_user_pages_fast env (ptr AND PAGE_MASK) (length pgs) False = (int (length pgs), pgs)"
    "chain_walk 8192 (desc_ring_dma_addr d) (desc_ring d') (desc_ring_dma_addr d) = Some ds"
    "map (\<lambda>(src, dst). (bus src, unat dst)) (chain_moves ds) =
      zip (user_bytes pgs (unat ptr mod 4096) (unat sz))
        [unat (mo_ddr3_addr m) + unat offset ..< unat (mo_ddr3_addr m) + unat offset + unat sz]"
    using host_to_device_moves [OF assms(10,6) _ assms(7-9)] unfolding addr size by (auto simp: p)
  moreover have "unat offset + unat sz \<le> unat (mo_size m)"
    using inside by (simp add: within_def req(2) mem_region_def)
  moreover have "\<forall>c n. mems u c = Some n \<longrightarrow> c \<noteq> b \<longrightarrow> disjoint_regions (dma_region p) (mem_region n)"
    using within_apart [OF inside mem_apart [OF assms(1,2)]] by blast
  ultimately show ?thesis unfolding req(2) by blast
qed

text \<open>A buffer of 8 KiB at \<open>0x10000\<close>, written with the 5000 bytes of the sample request.\<close>

definition stack_umd :: umd where
  "stack_umd = umd_start\<lparr>vram_state := \<lparr>current_heap_ptr = 0x12000, vram_initialized = True\<rparr>,
     contexts := [1 \<mapsto> \<lparr>cx_device = 9, cx_fd = 3, cx_refs = 1\<rparr>],
     queues := [5 \<mapsto> \<lparr>cq_context = 1, cq_device = 9, cq_properties = 0, cq_refs = 1\<rparr>],
     mems := [2 \<mapsto> \<lparr>mo_context = 1, mo_flags = 0, mo_size = 8192, mo_host_ptr = 0,
                    mo_ddr3_addr = 0x10000, mo_refs = 1\<rparr>]\<rparr>"

lemma stack_umd_inv: "mem_inv stack_umd"
  by (auto simp: mem_inv_def stack_umd_def vram_inv_def vram_next_def mem_region_def split: if_splits)

theorem written_bytes_reach_buffer_witness:
  "\<exists>d' pgs ds. dma_transfer sample_env 0 sample_dma_dev = (OK, d') \<and>
    chain_walk 8192 0x7F000000 (desc_ring d') 0x7F000000 = Some ds \<and>
    map (\<lambda>(src, dst). (sample_bus src, unat dst)) (chain_moves ds) =
      zip (user_bytes pgs 0x10 5000) [0x10000 ..< 0x10000 + 5000]"
proof -
  obtain segs where
    run: "dma_transfer sample_env 0 sample_dma_dev = (OK, dma_done h2c_chan 0x10000 [1, 2] segs sample_dma_dev)"
    by (rule sample_transfer)
  obtain m where m: "mems stack_umd 2 = Some m" and a: "mo_ddr3_addr m = 0x10000"
    by (simp add: stack_umd_def)
  obtain u' where w: "clEnqueueWriteBuffer (\<lambda>_ _. 0) 5 2 0 5000 0x20010 None stack_umd = Some (CL_SUCCESS, u')"
    and log: "sys_log u' = sys_log stack_umd @ [(SysDma 3 sample_param [], 0)]"
    by (simp add: clEnqueueWriteBuffer_def enqueue_rw_def stack_umd_def do_sys_def Let_def sample_param_def
        complete_event_def FPGAGPU_DMA_TO_DEVICE_def)
  have "unat (0 :: u64) + unat (5000 :: u64) < 2 ^ 64" "copy_dma_param sample_env 0 = Some sample_param"
    "length (desc_ring sample_dma_dev) = 8192"
    by (simp_all add: sample_env_def sample_param_def sample_dma_dev_def)
  from written_bytes_reach_buffer [OF stack_umd_inv m this(1) w log this(2) sample_env_gup sample_env_map this(3) run]
  obtain pgs ds where
    walk: "chain_walk 8192 (desc_ring_dma_addr sample_dma_dev)
       (desc_ring (dma_done h2c_chan 0x10000 [1, 2] segs sample_dma_dev)) (desc_ring_dma_addr sample_dma_dev) = Some ds"
    and moves: "map (\<lambda>(src, dst). (sample_bus src, unat dst)) (chain_moves ds) =
      zip (user_bytes pgs (unat (0x20010 :: u64) mod 4096) (unat (5000 :: u64)))
        [unat (mo_ddr3_addr m) + unat (0 :: u64) ..< unat (mo_ddr3_addr m) + unat (0 :: u64) + unat (5000 :: u64)]"
    by blast
  have nums: "unat (0x20010 :: u64) mod 4096 = 0x10" "unat (5000 :: u64) = 5000" "unat (0 :: u64) = 0"
    "unat (0x10000 :: u64) = 0x10000" by simp_all
  have base: "desc_ring_dma_addr sample_dma_dev = 0x7F000000" by (simp add: sample_dma_dev_def)
  from moves have "map (\<lambda>(src, dst). (sample_bus src, unat dst)) (chain_moves ds) =
      zip (user_bytes pgs 0x10 5000) [0x10000 ..< 0x10000 + 5000]"
    by (simp only: a nums add_0_right)
  with walk [unfolded base] run show ?thesis by blast
qed

end
