(* ===== verification/RoundTrip.thy ===== *)
theory RoundTrip
  imports Stack
begin

text \<open>
  A buffer is written and read back: \<open>clEnqueueWriteBuffer\<close> and \<open>clEnqueueReadBuffer\<close> (\<open>umd/src/cl_mem.c\<close>),
  the two DMA_TRANSFERs they make (\<open>driver/fpgagpu_ioctl.c\<close>), and the XDMA engine on the descriptor
  chains these leave.  The engine is hardware: it is a parameter, from the direction, the descriptors,
  the pages of the host and the memory of the device to the two memories afterwards.
\<close>

type_synonym host_memory = "u64 \<times> nat \<Rightarrow> u8"
type_synonym device_memory = "nat \<Rightarrow> u8"
type_synonym engine = "bool \<Rightarrow> xdma_desc list \<Rightarrow> host_memory \<Rightarrow> device_memory \<Rightarrow> host_memory \<times> device_memory"

text \<open>The moves of a chain as pairs of a byte of a page and a device address.\<close>

definition byte_moves :: "bool \<Rightarrow> (u64 \<Rightarrow> u64 \<times> nat) \<Rightarrow> xdma_desc list \<Rightarrow> ((u64 \<times> nat) \<times> nat) list" where
  "byte_moves from bus ds = map (\<lambda>(src, dst). if from then (bus dst, unat src) else (bus src, unat dst)) (chain_moves ds)"

text \<open>What an engine does with a chain whose destinations are different bytes: each destination
  receives its source, and nothing else changes.\<close>

definition engine_ok :: "(u64 \<Rightarrow> u64 \<times> nat) \<Rightarrow> engine \<Rightarrow> bool" where
  "engine_ok bus engine \<longleftrightarrow>
     (\<forall>ds h g. distinct (map snd (byte_moves False bus ds)) \<longrightarrow>
        engine False ds h g = (h, \<lambda>a. case map_of (map prod.swap (byte_moves False bus ds)) a of None \<Rightarrow> g a | Some x \<Rightarrow> h x)) \<and>
     (\<forall>ds h g. distinct (map fst (byte_moves True bus ds)) \<longrightarrow>
        engine True ds h g = (\<lambda>x. case map_of (byte_moves True bus ds) x of None \<Rightarrow> h x | Some a \<Rightarrow> g a, g))"

text \<open>An engine that moves byte by byte.\<close>

definition bytewise :: "(u64 \<Rightarrow> u64 \<times> nat) \<Rightarrow> engine" where
  "bytewise bus from ds h g =
     (if from then (fold (\<lambda>(x, a) h. h(x := g a)) (byte_moves True bus ds) h, g)
      else (h, fold (\<lambda>(x, a) g. g(a := h x)) (byte_moves False bus ds) g))"

lemma fold_moves_to:
  "distinct (map snd ms) \<Longrightarrow>
   fold (\<lambda>(x, a) g. g(a := h x)) ms g a = (case map_of (map prod.swap ms) a of None \<Rightarrow> g a | Some x \<Rightarrow> h x)"
proof (induction ms arbitrary: g)
  case (Cons y ms)
  moreover have "a \<notin> set (map snd ms) \<Longrightarrow> map_of (map prod.swap ms) a = None"
    by (force simp: map_of_eq_None_iff)
  ultimately show ?case by (cases y) (auto split: option.split)
qed simp

lemma fold_moves_from:
  "distinct (map fst ms) \<Longrightarrow>
   fold (\<lambda>(x, a) h. h(x := g a)) ms h x = (case map_of ms x of None \<Rightarrow> h x | Some a \<Rightarrow> g a)"
proof (induction ms arbitrary: h)
  case (Cons y ms)
  moreover have "x \<notin> set (map fst ms) \<Longrightarrow> map_of ms x = None"
    by (simp add: map_of_eq_None_iff)
  ultimately show ?case by (cases y) (auto split: option.split)
qed simp

lemma bytewise_ok: "engine_ok bus (bytewise bus)"
  by (simp add: engine_ok_def bytewise_def fold_moves_to fold_moves_from fun_eq_iff)

section \<open>One transfer\<close>

lemma user_bytes_distinct:
  assumes "distinct ps" and "off + n \<le> 4096 * length ps"
  shows "distinct (user_bytes ps off n)"
proof -
  have "inj_on (\<lambda>k. (ps ! ((off + k) div 4096), (off + k) mod 4096)) {0..<n}"
  proof (rule inj_onI)
    fix i j assume ij: "i \<in> {0..<n}" "j \<in> {0..<n}"
      and eq: "(ps ! ((off + i) div 4096), (off + i) mod 4096) = (ps ! ((off + j) div 4096), (off + j) mod 4096)"
    then have "(off + i) div 4096 < length ps" "(off + j) div 4096 < length ps" using assms(2) by auto
    then have "(off + i) div 4096 = (off + j) div 4096" using eq assms(1) by (simp add: nth_eq_iff_index_eq)
    moreover have "(off + i) mod 4096 = (off + j) mod 4096" using eq by simp
    ultimately have "off + i = off + j" by (metis div_mult_mod_eq)
    then show "i = j" by simp
  qed
  then show ?thesis by (simp add: user_bytes_def distinct_map)
qed

lemma length_user_bytes [simp]: "length (user_bytes ps off n) = n"
  by (simp add: user_bytes_def)

lemma swap_zip: "map prod.swap (zip xs ys) = zip ys xs"
  by (simp add: zip_commute [of ys xs] prod.swap_def split_def)

lemma engine_writes:
  assumes "engine_ok bus engine" and "byte_moves False bus ds = zip xs [a ..< a + length xs]" and "k < length xs"
  shows "snd (engine False ds h g) (a + k) = h (xs ! k)"
proof -
  have "map_of (zip [a ..< a + length xs] xs) ([a ..< a + length xs] ! k) = Some (xs ! k)"
    using assms(3) by (intro map_of_zip_nth) simp_all
  then show ?thesis using assms by (simp add: engine_ok_def swap_zip)
qed

lemma engine_reads:
  assumes "engine_ok bus engine" and "byte_moves True bus ds = zip xs [a ..< a + length xs]" and "distinct xs"
  shows "map (fst (engine True ds h g)) xs = map g [a ..< a + length xs]"
    and "x \<notin> set xs \<Longrightarrow> fst (engine True ds h g) x = h x"
proof -
  have run: "engine True ds h g = (\<lambda>x. case map_of (zip xs [a ..< a + length xs]) x of None \<Rightarrow> h x | Some a \<Rightarrow> g a, g)"
    using assms by (simp add: engine_ok_def)
  show "map (fst (engine True ds h g)) xs = map g [a ..< a + length xs]"
  proof (rule nth_equalityI)
    fix k assume "k < length (map (fst (engine True ds h g)) xs)"
    then show "map (fst (engine True ds h g)) xs ! k = map g [a ..< a + length xs] ! k"
      using map_of_zip_nth [of xs "[a ..< a + length xs]" k] assms(3) by (simp add: run)
  qed simp
  assume "x \<notin> set xs"
  then have none: "map_of (zip xs [a ..< a + length xs]) x = None"
    by (auto simp: map_of_eq_None_iff dest: set_zip_leftD)
  show "fst (engine True ds h g) x = h x" unfolding run fst_conv none by simp
qed

section \<open>Written and read back\<close>

lemma rw_transfer:
  assumes "mem_inv u" and "mems u b = Some m" and "unat offset + unat sz < 2 ^ 64"
    and "enqueue_rw dir sys q b offset sz ptr ev u = Some (r, u')"
    and "sys_log u' = sys_log u @ [(SysDma fd p [], ret)]"
    and "copy_dma_param env arg = Some p" and "dma_transfer env arg d = (OK, d')"
    and "gup_ok env" and "dma_map_ok bus env" and "length (desc_ring d) = 8192"
    and "from = (dir \<noteq> FPGAGPU_DMA_TO_DEVICE)"
  obtains pgs ds where
    "get_user_pages_fast env (ptr AND PAGE_MASK) (length pgs) from = (int (length pgs), pgs)"
    and "unat ptr mod 4096 + unat sz \<le> 4096 * length pgs" and "length pgs \<le> 8192"
    and "chain_walk 8192 (desc_ring_dma_addr d) (desc_ring d') (desc_ring_dma_addr d) = Some ds"
    and "byte_moves from bus ds = zip (user_bytes pgs (unat ptr mod 4096) (unat sz))
      [unat (mo_ddr3_addr m) + unat offset ..< unat (mo_ddr3_addr m) + unat offset + unat sz]"
proof -
  note req = rw_request [OF assms(1-5)]
  have addr: "unat (ddr3_addr p) = unat (mo_ddr3_addr m) + unat offset" and size: "unat (dma_size p) = unat sz"
    using req(2) by (simp_all add: dma_region_def)
  have "unat (ddr3_addr p) + unat (dma_size p) \<le> 2 ^ 64"
    using req(3) mem_region_top [OF assms(1,2)] by (simp add: within_def dma_region_def)
  moreover have "from = (dma_direction p \<noteq> FPGAGPU_DMA_TO_DEVICE)" by (simp add: assms(11) req(1))
  ultimately obtain pgs ds where
    "get_user_pages_fast env (ptr AND PAGE_MASK) (length pgs) from = (int (length pgs), pgs)"
    "unat ptr mod 4096 + unat sz \<le> 4096 * length pgs" "length pgs \<le> 8192"
    "chain_walk 8192 (desc_ring_dma_addr d) (desc_ring d') (desc_ring_dma_addr d) = Some ds"
    "byte_moves from bus ds = zip (user_bytes pgs (unat ptr mod 4096) (unat sz))
      [unat (mo_ddr3_addr m) + unat offset ..< unat (mo_ddr3_addr m) + unat offset + unat sz]"
    using transfer_moves [OF assms(7,6,8-10)] unfolding byte_moves_def addr size by (auto simp: req(1))
  then show thesis by (rule that)
qed

text \<open>C13: what is written to a buffer is read back.  An application writes a range of a buffer and, while the
  buffer lives, reads the same range into memory of its own, and both transfers succeed.  Whatever
  happened in between, if the device left the range alone then the bytes the application
  finds are the bytes it wrote, in order, and no other byte of its memory was changed.\<close>

theorem buffer_round_trip:
  assumes "unat offset + unat sz < 2 ^ 64" and "gup_ok env" and "dma_map_ok bus env" and "engine_ok bus engine"
    and wr: "mem_inv u" "mems u b = Some m" "clEnqueueWriteBuffer sys q b offset sz src ev u = Some (r, u')"
      "sys_log u' = sys_log u @ [(SysDma fd p [], ret)]" "copy_dma_param env arg = Some p"
      "dma_transfer env arg d = (OK, d')" "length (desc_ring d) = 8192"
    and rd: "mem_inv v" "mems v b = Some m" "clEnqueueReadBuffer sys2 q2 b offset sz dst ev2 v = Some (r2, v')"
      "sys_log v' = sys_log v @ [(SysDma fd2 p2 [], ret2)]" "copy_dma_param env arg2 = Some p2"
      "dma_transfer env arg2 e = (OK, e')" "length (desc_ring e) = 8192"
    and own: "\<forall>n pgs. n \<le> 8192 \<and> get_user_pages_fast env (dst AND PAGE_MASK) n True = (int n, pgs) \<longrightarrow> distinct pgs"
  shows "\<exists>pgs pgs2 ds ds2. get_user_pages_fast env (src AND PAGE_MASK) (length pgs) False = (int (length pgs), pgs) \<and>
    get_user_pages_fast env (dst AND PAGE_MASK) (length pgs2) True = (int (length pgs2), pgs2) \<and>
    chain_walk 8192 (desc_ring_dma_addr d) (desc_ring d') (desc_ring_dma_addr d) = Some ds \<and>
    chain_walk 8192 (desc_ring_dma_addr e) (desc_ring e') (desc_ring_dma_addr e) = Some ds2 \<and>
    (\<forall>h g h2 g2. (\<forall>k < unat sz. g2 (unat (mo_ddr3_addr m) + unat offset + k) =
        snd (engine False ds h g) (unat (mo_ddr3_addr m) + unat offset + k)) \<longrightarrow>
      map (fst (engine True ds2 h2 g2)) (user_bytes pgs2 (unat dst mod 4096) (unat sz)) =
        map h (user_bytes pgs (unat src mod 4096) (unat sz)) \<and>
      (\<forall>x. x \<notin> set (user_bytes pgs2 (unat dst mod 4096) (unat sz)) \<longrightarrow> fst (engine True ds2 h2 g2) x = h2 x))"
proof -
  have "False = (FPGAGPU_DMA_TO_DEVICE \<noteq> FPGAGPU_DMA_TO_DEVICE)" by simp
  from rw_transfer [OF wr(1,2) assms(1) wr(3) [unfolded clEnqueueWriteBuffer_def] wr(4-6) assms(2,3) wr(7) this]
  obtain pgs ds where w: "get_user_pages_fast env (src AND PAGE_MASK) (length pgs) False = (int (length pgs), pgs)"
    "chain_walk 8192 (desc_ring_dma_addr d) (desc_ring d') (desc_ring_dma_addr d) = Some ds"
    "byte_moves False bus ds = zip (user_bytes pgs (unat src mod 4096) (unat sz))
      [unat (mo_ddr3_addr m) + unat offset ..< unat (mo_ddr3_addr m) + unat offset + unat sz]" by metis
  have "True = (FPGAGPU_DMA_FROM_DEVICE \<noteq> FPGAGPU_DMA_TO_DEVICE)"
    by (simp add: FPGAGPU_DMA_FROM_DEVICE_def FPGAGPU_DMA_TO_DEVICE_def)
  from rw_transfer [OF rd(1,2) assms(1) rd(3) [unfolded clEnqueueReadBuffer_def] rd(4-6) assms(2,3) rd(7) this]
  obtain pgs2 ds2 where r: "get_user_pages_fast env (dst AND PAGE_MASK) (length pgs2) True = (int (length pgs2), pgs2)"
    "unat dst mod 4096 + unat sz \<le> 4096 * length pgs2" "length pgs2 \<le> 8192"
    "chain_walk 8192 (desc_ring_dma_addr e) (desc_ring e') (desc_ring_dma_addr e) = Some ds2"
    "byte_moves True bus ds2 = zip (user_bytes pgs2 (unat dst mod 4096) (unat sz))
      [unat (mo_ddr3_addr m) + unat offset ..< unat (mo_ddr3_addr m) + unat offset + unat sz]" by metis
  let ?a = "unat (mo_ddr3_addr m) + unat offset"
  let ?xs = "user_bytes pgs (unat src mod 4096) (unat sz)" and ?ys = "user_bytes pgs2 (unat dst mod 4096) (unat sz)"
  have "distinct pgs2" using own r(1,3) by blast
  then have dist: "distinct ?ys" by (rule user_bytes_distinct [OF _ r(2)])
  have reads: "map (fst (engine True ds2 h2 g2)) ?ys = map g2 [?a ..< ?a + length ?ys]"
    "x \<notin> set ?ys \<Longrightarrow> fst (engine True ds2 h2 g2) x = h2 x" for h2 g2 x
    by (rule engine_reads [OF assms(4) _ dist], simp add: r(5))+
  have "map g2 [?a ..< ?a + length ?ys] = map h ?xs"
    if "\<forall>k < unat sz. g2 (?a + k) = snd (engine False ds h g) (?a + k)" for h g g2
    using that engine_writes [OF assms(4), of ds ?xs ?a _ h g] w(3) by (intro nth_equalityI) simp_all
  with reads have same: "map (fst (engine True ds2 h2 g2)) ?ys = map h ?xs"
    if "\<forall>k < unat sz. g2 (?a + k) = snd (engine False ds h g) (?a + k)" for h g h2 g2
    using that by metis
  show ?thesis
    by (rule exI [of _ pgs], rule exI [of _ pgs2], rule exI [of _ ds], rule exI [of _ ds2])
      (use w(1,2) r(1,4) same reads(2) in blast)
qed

text \<open>The 5000 bytes of the sample request, read back to another address.\<close>

definition back_param :: fpgagpu_dma_param where
  "back_param = \<lparr>dma_direction = 1, dma_size = 5000, ddr3_addr = 0x10000, host_vaddr = 0x30010\<rparr>"

definition back_env :: kenv where
  "back_env = sample_env\<lparr>copy_dma_param := (\<lambda>arg. Some (if arg = 0 then sample_param else back_param))\<rparr>"

lemma back_env_ok: "gup_ok back_env" "dma_map_ok sample_bus back_env"
  "n \<le> 8192 \<Longrightarrow> get_user_pages_fast back_env a n w = (int n, pgs) \<Longrightarrow> distinct pgs"
proof -
  show "gup_ok back_env" "dma_map_ok sample_bus back_env"
    using sample_env_gup sample_env_map by (simp_all add: back_env_def gup_ok_def dma_map_ok_def)
  assume n: "n \<le> 8192" and "get_user_pages_fast back_env a n w = (int n, pgs)"
  then have pgs: "pgs = map of_nat [1..<n + 1]" by (simp add: back_env_def sample_env_def)
  have "inj_on (of_nat :: nat \<Rightarrow> u64) (set [1..<n + 1])"
    using n by (intro inj_onI) (auto simp: word_of_nat_eq_iff take_bit_eq_mod)
  then show "distinct pgs" unfolding pgs distinct_map by (simp only: distinct_upt simp_thms)
qed

lemma back_transfers:
  "\<exists>d'. dma_transfer back_env 0 sample_dma_dev = (OK, d')" "\<exists>d'. dma_transfer back_env 1 sample_dma_dev = (OK, d')"
proof -
  have p: "copy_dma_param back_env 0 = Some sample_param" "copy_dma_param back_env 1 = Some back_param"
    by (simp_all add: back_env_def)
  have check: "dma_check back_param = Inr (0x10, 2, c2h_chan)"
    by (simp add: dma_check_def back_param_def offset_in_page_def PAGE_SIZE_def ULONG_MAX_def DIV_ROUND_UP_def
        dma_channel_def FPGAGPU_DMA_TO_DEVICE_def FPGAGPU_DMA_FROM_DEVICE_def Let_def)
  have g: "get_user_pages_fast back_env a 2 w = (2, [1, 2])" for a w
    by (simp add: back_env_def sample_env_def upt_rec)
  have "dma_map_sg back_env (sg_fill [1, 2] 5000 0x10) w \<noteq> []" for w
    by (simp add: back_env_def sample_env_def sample_map_def PAGE_SIZE_def Let_def)
  moreover have "xdma_poll (xdma_status back_env) 0 XDMA_TIMEOUT \<noteq> 0" and "kmalloc_ok back_env"
    using sample_poll by (simp_all add: back_env_def) (simp add: sample_env_def)
  moreover have "dma_size sample_param = 5000" "dma_size back_param = 5000"
    by (simp_all add: sample_param_def back_param_def)
  ultimately show "\<exists>d'. dma_transfer back_env 0 sample_dma_dev = (OK, d')" "\<exists>d'. dma_transfer back_env 1 sample_dma_dev = (OK, d')"
    unfolding dma_transfer_paths [OF back_env_ok(1)] by (simp_all add: p check sample_check g h2c_chan_def c2h_chan_def)
qed

theorem buffer_round_trip_witness:
  "\<exists>d' e' ds ds2 pgs pgs2. dma_transfer back_env 0 sample_dma_dev = (OK, d') \<and> dma_transfer back_env 1 sample_dma_dev = (OK, e') \<and>
     chain_walk 8192 0x7F000000 (desc_ring d') 0x7F000000 = Some ds \<and>
     chain_walk 8192 0x7F000000 (desc_ring e') 0x7F000000 = Some ds2 \<and>
     (\<forall>h g h2. map (fst (bytewise sample_bus True ds2 h2 (snd (bytewise sample_bus False ds h g)))) (user_bytes pgs2 0x10 5000) =
        map h (user_bytes pgs 0x10 5000))"
proof -
  obtain d' e' where run: "dma_transfer back_env 0 sample_dma_dev = (OK, d')" "dma_transfer back_env 1 sample_dma_dev = (OK, e')"
    using back_transfers by blast
  obtain m where m: "mems stack_umd 2 = Some m" by (simp add: stack_umd_def)
  obtain u' where w: "clEnqueueWriteBuffer (\<lambda>_ _. 0) 5 2 0 5000 0x20010 None stack_umd = Some (CL_SUCCESS, u')"
    and wlog: "sys_log u' = sys_log stack_umd @ [(SysDma 3 sample_param [], 0)]"
    by (simp add: clEnqueueWriteBuffer_def enqueue_rw_def stack_umd_def do_sys_def Let_def sample_param_def
        complete_event_def FPGAGPU_DMA_TO_DEVICE_def)
  obtain v' where r: "clEnqueueReadBuffer (\<lambda>_ _. 0) 5 2 0 5000 0x30010 None stack_umd = Some (CL_SUCCESS, v')"
    and rlog: "sys_log v' = sys_log stack_umd @ [(SysDma 3 back_param [], 0)]"
    by (simp add: clEnqueueReadBuffer_def enqueue_rw_def stack_umd_def do_sys_def Let_def back_param_def
        complete_event_def FPGAGPU_DMA_FROM_DEVICE_def)
  have small: "unat (0 :: u64) + unat (5000 :: u64) < 2 ^ 64" and ring: "length (desc_ring sample_dma_dev) = 8192"
    and base: "desc_ring_dma_addr sample_dma_dev = 0x7F000000" by (simp_all add: sample_dma_dev_def)
  have params: "copy_dma_param back_env 0 = Some sample_param" "copy_dma_param back_env 1 = Some back_param"
    by (simp_all add: back_env_def)
  have own: "\<forall>n pgs. n \<le> 8192 \<and> get_user_pages_fast back_env (0x30010 AND PAGE_MASK) n True = (int n, pgs) \<longrightarrow> distinct pgs"
    using back_env_ok(3) by blast
  from buffer_round_trip [OF small back_env_ok(1,2) bytewise_ok stack_umd_inv m w wlog params(1) run(1) ring
      stack_umd_inv m r rlog params(2) run(2) ring own]
  obtain pgs pgs2 ds ds2 where chains: "chain_walk 8192 0x7F000000 (desc_ring d') 0x7F000000 = Some ds"
      "chain_walk 8192 0x7F000000 (desc_ring e') 0x7F000000 = Some ds2"
    and trip: "\<forall>h g h2 g2. (\<forall>k < unat (5000 :: u64). g2 (unat (mo_ddr3_addr m) + unat (0 :: u64) + k) =
        snd (bytewise sample_bus False ds h g) (unat (mo_ddr3_addr m) + unat (0 :: u64) + k)) \<longrightarrow>
      map (fst (bytewise sample_bus True ds2 h2 g2)) (user_bytes pgs2 (unat (0x30010 :: u64) mod 4096) (unat (5000 :: u64))) =
        map h (user_bytes pgs (unat (0x20010 :: u64) mod 4096) (unat (5000 :: u64)))"
    unfolding base by blast
  have nums: "unat (0x20010 :: u64) mod 4096 = 0x10" "unat (0x30010 :: u64) mod 4096 = 0x10" "unat (5000 :: u64) = 5000" by simp_all
  from trip have "\<forall>h g h2. map (fst (bytewise sample_bus True ds2 h2 (snd (bytewise sample_bus False ds h g))))
      (user_bytes pgs2 0x10 5000) = map h (user_bytes pgs 0x10 5000)" unfolding nums by blast
  with run chains show ?thesis by blast
qed

end
