(* ===== verification/DmaTest.thy ===== *)
theory DmaTest
  imports RoundTrip Ioctl
begin

text \<open>
  The acceptance test of the DMA path, \<open>tests/test_dma.c\<close>, on the kernel driver and the XDMA engine.
  The machine is the driver's device, the pages of the host and the memory of the device; the
  program reaches its pages through an address translation.  Printing, timing and \<open>free\<close> are left out;
  the results of \<open>posix_memalign\<close> are arguments.
\<close>

section \<open>The machine\<close>

record machine =
  m_dev :: fpgagpu_dev
  m_host :: host_memory
  m_ddr :: device_memory

text \<open>A translation takes the address of a page to the page.\<close>

definition loc :: "(u64 \<Rightarrow> u64) \<Rightarrow> u64 \<Rightarrow> u64 \<times> nat" where
  "loc pt a = (pt (a AND PAGE_MASK), unat a mod 4096)"

definition get :: "(u64 \<Rightarrow> u64) \<Rightarrow> u64 \<Rightarrow> machine \<Rightarrow> u8" where
  "get pt a w = m_host w (loc pt a)"

definition put :: "(u64 \<Rightarrow> u64) \<Rightarrow> u64 \<Rightarrow> u8 \<Rightarrow> machine \<Rightarrow> machine" where
  "put pt a v w = w\<lparr>m_host := (m_host w)(loc pt a := v)\<rparr>"

definition memset :: "(u64 \<Rightarrow> u64) \<Rightarrow> u64 \<Rightarrow> u8 \<Rightarrow> u64 \<Rightarrow> machine \<Rightarrow> machine" where
  "memset pt a v n w = fold (\<lambda>i. put pt (a + of_nat i) v) [0..<unat n] w"

text \<open>\<open>ioctl\<close> returns a negative number on errors.\<close>

definition sys_result :: "kret \<Rightarrow> int" where
  "sys_result r = (case r of Inl _ \<Rightarrow> -1 | Inr _ \<Rightarrow> 0)"

text \<open>DMA_TRANSFER on the machine.  The engine runs over the chain that the driver left, if it left
  one.  When the driver gave up on the engine, the two memories are what \<open>torn\<close> makes of them;
  on its other errors it has not started the engine.\<close>

definition ioctl_dma ::
  "ioc_abi \<Rightarrow> kenv \<Rightarrow> int \<Rightarrow> engine \<Rightarrow> (host_memory \<times> device_memory \<Rightarrow> host_memory \<times> device_memory) \<Rightarrow>
   fpgagpu_dma_param \<Rightarrow> machine \<Rightarrow> int \<times> machine" where
  "ioctl_dma abi env queue_mode engine torn p w =
     (let (r, _, d) = fpgagpu_ioctl abi (env\<lparr>copy_dma_param := \<lambda>_. Some p\<rparr>) queue_mode
            (FPGAGPU_IOC_DMA_TRANSFER abi) 0 (m_dev w);
          mems = (m_host w, m_ddr w);
          (h, g) = (if r = Inl ETIMEDOUT then torn mems
             else if r = OK then
               (case chain_walk 8192 (desc_ring_dma_addr d) (desc_ring d) (desc_ring_dma_addr d) of
                  None \<Rightarrow> mems
                | Some ds \<Rightarrow> engine (dma_direction p \<noteq> FPGAGPU_DMA_TO_DEVICE) ds (m_host w) (m_ddr w))
             else mems)
      in (sys_result r, \<lparr>m_dev = d, m_host = h, m_ddr = g\<rparr>))"

section \<open>The tests\<close>

text \<open>The transfer a test asks for is \<open>xfer\<close>: the parameters of the call, the machine, the result of
  \<open>ioctl\<close> and the machine afterwards.\<close>

definition test_dma_transfer ::
  "(u64 \<Rightarrow> u64) \<Rightarrow> (fpgagpu_dma_param \<Rightarrow> machine \<Rightarrow> int \<times> machine) \<Rightarrow> u64 option \<Rightarrow> u64 option \<Rightarrow>
   u64 \<Rightarrow> u64 \<Rightarrow> machine \<Rightarrow> int \<times> machine" where
  "test_dma_transfer pt xfer tx rx addr sz w =
     (case (tx, rx) of
        (Some tx_buf, Some rx_buf) \<Rightarrow>
          let w = fold (\<lambda>i. put pt (tx_buf + of_nat i) (ucast ((addr + of_nat i * 31 + 0xA5) AND 0xFF))) [0..<unat sz] w;
              w = memset pt rx_buf 0 sz w;
              (r, w) = xfer \<lparr>dma_direction = FPGAGPU_DMA_TO_DEVICE, dma_size = ucast sz, ddr3_addr = addr,
                 host_vaddr = tx_buf\<rparr> w
          in if r < 0 then (-1, w)
             else
               let (r, w) = xfer \<lparr>dma_direction = FPGAGPU_DMA_FROM_DEVICE, dma_size = ucast sz, ddr3_addr = addr,
                      host_vaddr = rx_buf\<rparr> w
               in if r < 0 then (-1, w)
                  else if map (\<lambda>i. get pt (tx_buf + of_nat i) w) [0..<unat sz] \<noteq>
                    map (\<lambda>i. get pt (rx_buf + of_nat i) w) [0..<unat sz] then (-1, w)
                  else (0, w)
      | _ \<Rightarrow> (-1, w))"

definition dma_range ::
  "(fpgagpu_dma_param \<Rightarrow> machine \<Rightarrow> int \<times> machine) \<Rightarrow> u32 \<Rightarrow> u64 \<Rightarrow> u64 \<Rightarrow> u64 \<Rightarrow> machine \<Rightarrow> int \<times> machine" where
  "dma_range xfer direction address buffer sz w =
     (let (r, w) = xfer \<lparr>dma_direction = direction, dma_size = ucast sz, ddr3_addr = address, host_vaddr = buffer\<rparr> w
      in if r < 0 then (-1, w) else (0, w))"

text \<open>The memory the range test prepares: guards everywhere, and the payload in the buffer to send and in the
  image to expect.\<close>

definition fill_range ::
  "(u64 \<Rightarrow> u64) \<Rightarrow> u64 \<Rightarrow> u64 \<Rightarrow> u64 \<Rightarrow> u64 \<Rightarrow> u64 \<Rightarrow> u64 \<Rightarrow> u64 \<Rightarrow> machine \<Rightarrow> machine" where
  "fill_range pt tx rx img expected tx_offset ddr_offset sz w =
     (let bytes = 4 * PAGE_SIZE;
          w = memset pt tx 0x5c bytes w;
          w = memset pt rx 0xcc bytes w;
          w = memset pt img 0xa5 bytes w;
          w = memset pt expected 0xa5 bytes w
      in fold (\<lambda>i w. put pt (expected + (ddr_offset + of_nat i)) (ucast (of_nat i * 31 + 7 :: u64))
             (put pt (tx + (tx_offset + of_nat i)) (ucast (of_nat i * 31 + 7 :: u64)) w))
           [0..<unat sz] w)"

definition test_dma_range ::
  "(u64 \<Rightarrow> u64) \<Rightarrow> (fpgagpu_dma_param \<Rightarrow> machine \<Rightarrow> int \<times> machine) \<Rightarrow>
   u64 option \<Rightarrow> u64 option \<Rightarrow> u64 option \<Rightarrow> u64 option \<Rightarrow>
   u64 \<Rightarrow> u64 \<Rightarrow> u64 \<Rightarrow> u64 \<Rightarrow> machine \<Rightarrow> int \<times> machine" where
  "test_dma_range pt xfer tx rx img expected tx_offset rx_offset ddr_offset sz w =
     (let bytes = 4 * PAGE_SIZE; base = 0x00400000; failed = -1
      in if tx_offset + sz > bytes \<or> rx_offset + sz > bytes \<or> ddr_offset + sz > bytes then (failed, w)
         else
           case (tx, rx, img, expected) of
             (Some tx, Some rx, Some img, Some expected) \<Rightarrow>
               let w = fill_range pt tx rx img expected tx_offset ddr_offset sz w;
                   (r, w) = dma_range xfer FPGAGPU_DMA_TO_DEVICE base img bytes w
               in if r \<noteq> 0 then (failed, w)
                  else let (r, w) = dma_range xfer FPGAGPU_DMA_TO_DEVICE (base + ddr_offset) (tx + tx_offset) sz w
               in if r \<noteq> 0 then (failed, w)
                  else let (r, w) = dma_range xfer FPGAGPU_DMA_FROM_DEVICE base img bytes w
               in if r \<noteq> 0 then (failed, w)
                  else if \<exists>i \<in> {..<unat bytes}. get pt (img + of_nat i) w \<noteq> get pt (expected + of_nat i) w
                    then (failed, w)
                  else let (r, w) = dma_range xfer FPGAGPU_DMA_FROM_DEVICE (base + ddr_offset) (rx + rx_offset) sz w
               in if r \<noteq> 0 then (failed, w)
                  else if \<exists>i \<in> {..<unat bytes}. get pt (rx + of_nat i) w \<noteq>
                      (if of_nat i \<ge> rx_offset \<and> of_nat i < rx_offset + sz
                       then get pt (tx + (tx_offset + of_nat i - rx_offset)) w else 0xcc)
                    then (failed, w)
                  else (0, w)
           | _ \<Rightarrow> (failed, w))"

fun run_tests :: "(machine \<Rightarrow> int \<times> machine) list \<Rightarrow> nat \<Rightarrow> machine \<Rightarrow> nat \<times> machine" where
  "run_tests [] failed w = (failed, w)"
| "run_tests (test # tests) failed w =
     (let (r, w) = test w in run_tests tests (if r \<noteq> 0 then failed + 1 else failed) w)"

text \<open>The tests of \<open>main\<close>.  Buffer \<open>j\<close> of test \<open>k\<close> is \<open>mem k j\<close>, if \<open>posix_memalign\<close> gives one.\<close>

definition dma_tests ::
  "(u64 \<Rightarrow> u64) \<Rightarrow> (fpgagpu_dma_param \<Rightarrow> machine \<Rightarrow> int \<times> machine) \<Rightarrow> (nat \<Rightarrow> nat \<Rightarrow> u64 option) \<Rightarrow>
   (machine \<Rightarrow> int \<times> machine) list" where
  "dma_tests pt xfer mem =
     (let range = \<lambda>k. test_dma_range pt xfer (mem k 0) (mem k 1) (mem k 2) (mem k 3);
          transfer = \<lambda>k. test_dma_transfer pt xfer (mem k 0) (mem k 1)
      in [range 0 32 96 64 128,
          range 1 (PAGE_SIZE - 32) (PAGE_SIZE - 64) (PAGE_SIZE - 16) 128,
          range 2 64 (PAGE_SIZE - 32) 32 (PAGE_SIZE + 128),
          transfer 3 0x00000000 4096,
          transfer 4 0x00010000 65536,
          transfer 5 0x00100000 262144,
          transfer 6 0x01000000 1048576,
          transfer 7 0x10000000 2097152,
          transfer 8 0x20000000 4194304,
          transfer 9 0x3F000000 1048576])"

text \<open>The other calls of \<open>main\<close>.\<close>

definition ioctl_version :: "ioc_abi \<Rightarrow> kenv \<Rightarrow> int \<Rightarrow> machine \<Rightarrow> int \<times> machine" where
  "ioctl_version abi env queue_mode w =
     (let (r, _, d) = fpgagpu_ioctl abi env queue_mode (FPGAGPU_IOC_GET_VERSION abi) 0 (m_dev w)
      in (sys_result r, w\<lparr>m_dev := d\<rparr>))"

definition ioctl_submit :: "ioc_abi \<Rightarrow> kenv \<Rightarrow> int \<Rightarrow> fpgagpu_launch_cmd \<Rightarrow> machine \<Rightarrow> int \<times> machine" where
  "ioctl_submit abi env queue_mode cmd w =
     (let (r, _, d) = fpgagpu_ioctl abi (env\<lparr>copy_launch_cmd := \<lambda>_. Some cmd\<rparr>) queue_mode
            (FPGAGPU_IOC_SUBMIT_CMD abi) 0 (m_dev w)
      in (sys_result r, w\<lparr>m_dev := d\<rparr>))"

definition ioctl_doorbell :: "ioc_abi \<Rightarrow> kenv \<Rightarrow> int \<Rightarrow> u64 \<Rightarrow> machine \<Rightarrow> int \<times> machine" where
  "ioctl_doorbell abi env queue_mode arg w =
     (let (r, _, d) = fpgagpu_ioctl abi env queue_mode (FPGAGPU_IOC_DOORBELL abi) arg (m_dev w)
      in (sys_result r, w\<lparr>m_dev := d\<rparr>))"

definition probe_cmd :: fpgagpu_launch_cmd where
  "probe_cmd = \<lparr>cmd_opcode = 0, cmd_grid_dim_x = 1, cmd_grid_dim_y = 1, cmd_block_dim_x = 32, cmd_block_dim_y = 1,
     cmd_dma_src_addr = 0, cmd_dma_dst_addr = 0, cmd_num_elements = 32, cmd_payload_size = 0, cmd_payload_vaddr = 0\<rparr>"

definition test_dma_main ::
  "ioc_abi \<Rightarrow> kenv \<Rightarrow> int \<Rightarrow> engine \<Rightarrow> (host_memory \<times> device_memory \<Rightarrow> host_memory \<times> device_memory) \<Rightarrow>
   (u64 \<Rightarrow> u64) \<Rightarrow> int \<Rightarrow> (nat \<Rightarrow> nat \<Rightarrow> u64 option) \<Rightarrow> machine \<Rightarrow> int \<times> machine" where
  "test_dma_main abi env queue_mode engine torn pt fd mem w =
     (if fd < 0 then (1, w)
      else
        let (_, w) = ioctl_version abi env queue_mode w;
            (failed, w) = run_tests (dma_tests pt (ioctl_dma abi env queue_mode engine torn) mem) 0 w;
            (r, w) = ioctl_submit abi env queue_mode probe_cmd w;
            failed = (if r < 0 then failed + 1 else failed);
            (r, w) = ioctl_doorbell abi env queue_mode 0 w;
            failed = (if r < 0 then failed + 1 else failed)
        in (if failed \<noteq> 0 then 1 else 0, w))"

section \<open>Addresses\<close>

lemma unat_page: "unat (a AND PAGE_MASK) = unat a - unat a mod 4096"
proof -
  have m: "PAGE_MASK = NOT (mask 12)" by (simp add: PAGE_MASK_def PAGE_SIZE_def mask_eq_exp_minus_1)
  have "a = (a AND mask 12) OR (a AND NOT (mask 12))" by (simp add: bit.conj_disj_distrib [symmetric])
  then have "a = (a AND mask 12) + (a AND NOT (mask 12))"
    by (subst disjunctive_add_eq_or) (simp_all add: and.assoc and.left_commute)
  then have split: "a AND PAGE_MASK = a - (a AND mask 12)" unfolding m by (metis add_diff_cancel_left')
  have low: "unat (a AND mask 12) = unat a mod 4096"
    by (simp add: take_bit_eq_mask [symmetric] unsigned_take_bit_eq) (simp add: take_bit_eq_mod)
  then have "a AND mask 12 \<le> a" by (simp add: word_le_nat_alt)
  then show ?thesis by (simp add: split unat_sub low)
qed

lemma unat_of_nat_u64: "n < 2 ^ 64 \<Longrightarrow> unat (of_nat n :: u64) = n"
  by (simp add: unsigned_of_nat take_bit_eq_mod)

lemma page_step:
  assumes "unat a + k < 2 ^ 64"
  shows "(a + of_nat k) AND PAGE_MASK = (a AND PAGE_MASK) + of_nat ((unat a mod 4096 + k) div 4096 * 4096)"
    and "unat (a + of_nat k) mod 4096 = (unat a mod 4096 + k) mod 4096"
proof -
  have k: "unat (of_nat k :: u64) = k" using assms by (intro unat_of_nat_u64) simp
  have sum: "unat (a + of_nat k) = unat a + k" using assms k by (subst unat_add_no_wrap) simp_all
  obtain q where q: "q = (unat a mod 4096 + k) div 4096 * 4096" by blast
  have le: "q \<le> unat a mod 4096 + k" unfolding q by (rule div_times_less_eq_dividend)
  have low: "unat a mod 4096 \<le> unat a" by (rule mod_less_eq_dividend)
  have cut: "unat a + k = unat a div 4096 * 4096 + (unat a mod 4096 + k)" by (simp add: add.assoc [symmetric])
  have "(unat a + k) div 4096 = unat a div 4096 + (unat a mod 4096 + k) div 4096"
    unfolding cut by (rule div_mult_self3) simp
  then have pages: "unat a + k - (unat a + k) mod 4096 = unat a - unat a mod 4096 + q"
    unfolding minus_mod_eq_div_mult q by (simp only: add_mult_distrib)
  have "q < 2 ^ 64" using le low assms by linarith
  then have u: "unat (of_nat q :: u64) = q" by (rule unat_of_nat_u64)
  have "unat (a AND PAGE_MASK) + unat (of_nat q :: u64) < 2 ^ 64"
    unfolding unat_page u using le low assms by linarith
  then have "unat ((a AND PAGE_MASK) + of_nat q) = unat a - unat a mod 4096 + q"
    using u unat_page by (subst unat_add_no_wrap) simp_all
  then have "unat ((a + of_nat k) AND PAGE_MASK) = unat ((a AND PAGE_MASK) + of_nat q)"
    by (simp only: unat_page sum pages)
  then show "(a + of_nat k) AND PAGE_MASK = (a AND PAGE_MASK) + of_nat ((unat a mod 4096 + k) div 4096 * 4096)"
    by (simp only: word_unat_eq_iff q)
  show "unat (a + of_nat k) mod 4096 = (unat a mod 4096 + k) mod 4096" unfolding sum by (simp add: mod_simps)
qed

lemma user_bytes_loc:
  assumes "unat v + n \<le> 2 ^ 64" and "length pgs * 4096 \<ge> unat v mod 4096 + n"
    and "pgs = map (\<lambda>i. pt ((v AND PAGE_MASK) + of_nat (i * 4096))) [0..<length pgs]"
  shows "user_bytes pgs (unat v mod 4096) n = map (\<lambda>k. loc pt (v + of_nat k)) [0..<n]"
proof (rule nth_equalityI)
  fix k assume "k < length (user_bytes pgs (unat v mod 4096) n)"
  then have k: "k < n" by (simp add: user_bytes_def)
  then have "unat v + k < 2 ^ 64" using assms(1) by simp
  note step = page_step [OF this]
  have "(unat v mod 4096 + k) div 4096 < length pgs" using assms(2) k by auto
  then have "pgs ! ((unat v mod 4096 + k) div 4096) =
      pt ((v AND PAGE_MASK) + of_nat ((unat v mod 4096 + k) div 4096 * 4096))"
    by (subst assms(3)) simp
  then show "user_bytes pgs (unat v mod 4096) n ! k = map (\<lambda>k. loc pt (v + of_nat k)) [0..<n] ! k"
    using k by (simp add: user_bytes_def loc_def step)
qed (simp add: user_bytes_def)

section \<open>One call\<close>

text \<open>Memory of the program: a range of whole pages that Linux pins, page by page, as they are mapped.\<close>

definition mapped :: "kenv \<Rightarrow> (u64 \<Rightarrow> u64) \<Rightarrow> u64 \<Rightarrow> nat \<Rightarrow> bool" where
  "mapped env pt buf n \<longleftrightarrow> buf \<noteq> 0 \<and> 4096 dvd unat buf \<and> 4096 dvd n \<and> unat buf + n \<le> 2 ^ 64 \<and>
     (\<forall>a k w. 4096 dvd unat a \<and> unat buf \<le> unat a \<and> unat a + 4096 * k \<le> unat buf + n \<longrightarrow>
        get_user_pages_fast env a k w = (int k, map (\<lambda>i. pt (a + of_nat (i * 4096))) [0..<k]))"

lemma mapped_pins:
  "mapped env pt buf n \<Longrightarrow> 4096 dvd unat a \<Longrightarrow> unat buf \<le> unat a \<Longrightarrow> unat a + 4096 * k \<le> unat buf + n \<Longrightarrow>
   get_user_pages_fast env a k w = (int k, map (\<lambda>i. pt (a + of_nat (i * 4096))) [0..<k])"
  by (simp add: mapped_def)

text \<open>Nothing fails for want of memory or time: the scatterlist is allocated, parts of the program's pages can
  be mapped, and the channel leaves its busy state while it is polled.\<close>

definition serves :: "kenv \<Rightarrow> (u64 \<Rightarrow> u64) \<Rightarrow> bool" where
  "serves env pt \<longleftrightarrow> kmalloc_ok env \<and>
     (\<forall>sg w. sg \<noteq> [] \<and> (\<forall>e \<in> set sg. sg_page e \<in> range pt \<and> unat (sg_offset e) + unat (sg_length e) \<le> 4096) \<longrightarrow>
        dma_map_sg env sg w \<noteq> []) \<and>
     (\<exists>j < 10000000. xdma_status env j AND 1 = 0)"

lemma sg_fill_parts:
  "unat off < 4096 \<Longrightarrow> e \<in> set (sg_fill pgs rem off) \<Longrightarrow>
   sg_page e \<in> set pgs \<and> unat (sg_offset e) + unat (sg_length e) \<le> 4096"
proof (induction pgs arbitrary: rem off)
  case (Cons pg pgs)
  have "unat (ucast off :: u64) = unat off"
    using Cons.prems(1) by (simp add: unsigned_ucast_eq take_bit_eq_mod)
  then have "unat (PAGE_SIZE - ucast off) = 4096 - unat off"
    using Cons.prems(1) by (subst unat_sub) (simp_all add: PAGE_SIZE_def word_le_nat_alt)
  then have "unat (ucast (PAGE_SIZE - ucast off) :: u32) = 4096 - unat off"
    by (simp add: unsigned_ucast_eq take_bit_eq_mod)
  then have "unat off + unat (min rem (ucast (PAGE_SIZE - ucast off))) \<le> 4096"
    using Cons.prems(1) by (auto simp: min_def word_le_nat_alt)
  with Cons.prems Cons.IH [of 0] show ?case by (auto simp: Let_def)
qed simp

lemma whole_pages:
  assumes "4096 dvd b" and "4096 dvd n" and "b \<le> v" and "v + s \<le> b + n"
  shows "b \<le> v - v mod 4096" and "v - v mod 4096 + 4096 * ((v mod 4096 + s + 4095) div 4096) \<le> b + (n :: nat)"
proof -
  obtain x where "b = 4096 * x" using assms(1) by blast
  moreover obtain y where "n = 4096 * y" using assms(2) by blast
  ultimately have xy: "b = 4096 * x" "n = 4096 * y" by simp_all
  have v: "v - v mod 4096 = 4096 * (v div 4096)" by (simp add: minus_mod_eq_mult_div)
  have "x \<le> v div 4096" using assms(3) by (simp add: xy less_eq_div_iff_mult_less_eq mult.commute)
  then show "b \<le> v - v mod 4096" by (simp add: v xy)
  have "4096 * (v div 4096) + (v mod 4096 + s) \<le> 4096 * (x + y)"
    using assms(4) unfolding xy distrib_left add.assoc [symmetric] mult_div_mod_eq .
  then have "v mod 4096 + s \<le> 4096 * (x + y - v div 4096)" unfolding diff_mult_distrib2 by linarith
  then have "(v mod 4096 + s + 4095) div 4096 \<le> x + y - v div 4096"
    by (intro less_Suc_eq_le [THEN iffD1] div_less_iff_less_mult [THEN iffD2]) simp_all
  moreover have "v div 4096 \<le> x + y" using assms(4) xy by linarith
  ultimately have "v div 4096 + (v mod 4096 + s + 4095) div 4096 \<le> x + y" by linarith
  then show "v - v mod 4096 + 4096 * ((v mod 4096 + s + 4095) div 4096) \<le> b + n"
    unfolding v xy by linarith
qed

text \<open>What the tests rely on: the driver's ring of descriptors, and everything but the memories.\<close>

definition working :: "ioc_abi \<Rightarrow> kenv \<Rightarrow> (u64 \<Rightarrow> u64) \<Rightarrow> (u64 \<Rightarrow> u64 \<times> nat) \<Rightarrow> engine \<Rightarrow> bool" where
  "working abi env pt bus engine \<longleftrightarrow> ioc_ok abi \<and> gup_ok env \<and> dma_map_ok bus env \<and> engine_ok bus engine \<and> serves env pt"

definition same_ring :: "fpgagpu_dev \<Rightarrow> fpgagpu_dev \<Rightarrow> bool" where
  "same_ring d d' \<longleftrightarrow> csr_mem d' = csr_mem d \<and> (length (desc_ring d) = 8192 \<longrightarrow> length (desc_ring d') = 8192)"

lemma same_ring_trans: "same_ring a b \<Longrightarrow> same_ring b c \<Longrightarrow> same_ring a c"
  by (simp add: same_ring_def)

lemma round_up:
  assumes "1 \<le> s" and "s \<le> 2 ^ 24" and "off < (4096 :: nat)"
  shows "1 \<le> (off + s + 4095) div 4096" and "(off + s + 4095) div 4096 \<le> 8192"
    and "off + s \<le> (off + s + 4095) div 4096 * 4096"
proof -
  have "(off + s + 4095) mod 4096 < 4096" by simp
  then show "off + s \<le> (off + s + 4095) div 4096 * 4096" unfolding minus_mod_eq_div_mult [symmetric] by linarith
  show "1 \<le> (off + s + 4095) div 4096" using assms(1) by (simp add: Suc_le_eq div_greater_zero_iff)
  have "(off + s + 4095) div 4096 \<le> (8191 + 2 ^ 24) div 4096" by (rule div_le_mono) (use assms in linarith)
  then show "(off + s + 4095) div 4096 \<le> 8192" by simp
qed

lemma call_succeeds:
  assumes w: "working abi env pt bus engine" and buf: "mapped env pt buf m" "unat buf \<le> unat v" "unat v + unat sz \<le> unat buf + m"
    and sz: "1 \<le> unat sz" "unat sz \<le> 2 ^ 24" and addr: "unat addr + unat sz \<le> 2 ^ 64"
    and ring: "length (desc_ring d) = 8192" and dir: "dma_channel dir = Some ch" "from = (dir \<noteq> FPGAGPU_DMA_TO_DEVICE)"
  obtains d' ds where
    "fpgagpu_ioctl abi (env\<lparr>copy_dma_param := \<lambda>_. Some \<lparr>dma_direction = dir, dma_size = ucast (sz :: u64), ddr3_addr = addr,
       host_vaddr = v\<rparr>\<rparr>) queue_mode (FPGAGPU_IOC_DMA_TRANSFER abi) 0 d = (OK, None, d')"
    and "same_ring d d'" and "desc_ring_dma_addr d' = desc_ring_dma_addr d"
    and "chain_walk 8192 (desc_ring_dma_addr d) (desc_ring d') (desc_ring_dma_addr d) = Some ds"
    and "byte_moves from bus ds = zip (map (\<lambda>k. loc pt (v + of_nat k)) [0..<unat sz]) [unat addr ..< unat addr + unat sz]"
proof -
  let ?p = "\<lparr>dma_direction = dir, dma_size = ucast sz, ddr3_addr = addr, host_vaddr = v\<rparr> :: fpgagpu_dma_param"
  let ?env = "env\<lparr>copy_dma_param := \<lambda>_. Some ?p\<rparr>"
  let ?n = "(unat v mod 4096 + unat sz + 4095) div 4096"
  have env: "gup_ok ?env" "dma_map_ok bus ?env" using w by (simp_all add: working_def gup_ok_def dma_map_ok_def)
  have size: "unat (ucast sz :: u32) = unat sz" using sz(2) by (simp add: unsigned_ucast_eq take_bit_eq_mod)
  have top: "unat v + unat sz \<le> 2 ^ 64" using buf by (simp add: mapped_def)
  have n: "1 \<le> ?n" "?n \<le> 8192" "unat v mod 4096 + unat sz \<le> ?n * 4096"
    by (rule round_up [OF sz], simp)+
  have "v \<noteq> 0" using buf(1,2) by (auto simp: mapped_def unat_eq_0)
  then have chk: "dma_check ?p = Inr (offset_in_page v, ?n, ch)"
    using sz top n dir(1) by (simp add: dma_check_iff size)
  have ch: "from_device ch = from" using dir by (auto simp: dma_channel_def h2c_chan_def c2h_chan_def split: if_splits)
  define pgs where "pgs = map (\<lambda>i. pt ((v AND PAGE_MASK) + of_nat (i * 4096))) [0..<?n]"
  have whole: "4096 dvd unat buf" "4096 dvd m" using buf(1) by (simp_all add: mapped_def)
  have pages: "4096 dvd unat (v AND PAGE_MASK)" by (simp only: unat_page minus_mod_eq_mult_div dvd_triv_left)
  have gup: "get_user_pages_fast env (v AND PAGE_MASK) ?n from = (int ?n, pgs)"
    unfolding pgs_def by (rule mapped_pins [OF buf(1) pages]) (use whole_pages [OF whole buf(2,3)] in \<open>simp_all only: unat_page\<close>)
  have len: "length pgs = ?n" by (simp add: pgs_def)
  let ?segs = "dma_map_sg env (sg_fill pgs (ucast sz) (offset_in_page v)) from"
  have "pgs \<noteq> []" using len n(1) by auto
  then have "sg_fill pgs (ucast sz) (offset_in_page v) \<noteq> []" by (cases pgs) (simp_all add: Let_def)
  moreover have "sg_page e \<in> range pt \<and> unat (sg_offset e) + unat (sg_length e) \<le> 4096"
    if "e \<in> set (sg_fill pgs (ucast sz) (offset_in_page v))" for e
    using sg_fill_parts [OF offset_in_page_less that] by (auto simp: pgs_def)
  ultimately have segs: "?segs \<noteq> []" and km: "kmalloc_ok env" and poll: "xdma_poll (xdma_status env) 0 XDMA_TIMEOUT \<noteq> 0"
    using w unfolding working_def serves_def poll_done_iff by blast+
  let ?d = "dma_done ch addr pgs ?segs d"
  have "dma_transfer ?env 0 d = (OK, ?d)"
    using gup segs km poll unfolding dma_transfer_paths [OF env(1)] by (simp add: chk ch)
  then have run: "fpgagpu_ioctl abi ?env queue_mode (FPGAGPU_IOC_DMA_TRANSFER abi) 0 d = (OK, None, ?d)"
    using w by (simp add: ioctl_is_switch working_def ioctl_switch_def)
  have same: "same_ring d ?d" "desc_ring_dma_addr ?d = desc_ring_dma_addr d"
    by (simp_all add: same_ring_def dma_done_def dma_aborted_def)
  have segs': "?segs = dma_map_sg ?env (sg_fill pgs (dma_size ?p) (offset_in_page v)) (from_device ch)" by (simp add: ch)
  from addr have top': "unat (ddr3_addr ?p) + unat (dma_size ?p) \<le> 2 ^ 64" by (simp add: size)
  have fin: "?d = dma_done ch (ddr3_addr ?p) pgs ?segs d" by simp
  from done_moves [OF env(2) ring chk len segs' segs fin top' ch] obtain ds where
    walk: "chain_walk 8192 (desc_ring_dma_addr d) (desc_ring ?d) (desc_ring_dma_addr d) = Some ds"
    and moves: "map (\<lambda>(src, dst). if from then (bus dst, unat src) else (bus src, unat dst)) (chain_moves ds) =
      zip (user_bytes pgs (unat (host_vaddr ?p) mod 4096) (unat (dma_size ?p)))
        [unat (ddr3_addr ?p) ..< unat (ddr3_addr ?p) + unat (dma_size ?p)]" .
  have "user_bytes pgs (unat v mod 4096) (unat sz) = map (\<lambda>k. loc pt (v + of_nat k)) [0..<unat sz]"
    by (rule user_bytes_loc [OF top]) (use n(3) in \<open>simp_all add: len pgs_def [symmetric]\<close>, simp add: pgs_def)
  with moves have "byte_moves from bus ds = zip (map (\<lambda>k. loc pt (v + of_nat k)) [0..<unat sz]) [unat addr ..< unat addr + unat sz]"
    unfolding byte_moves_def by (simp add: size)
  with run same walk show thesis by (rule that)
qed

lemma engine_writes_only:
  assumes "engine_ok bus engine" and "byte_moves False bus ds = zip xs [a ..< a + length xs]"
  shows "fst (engine False ds h g) = h" and "b \<notin> {a ..< a + length xs} \<Longrightarrow> snd (engine False ds h g) b = g b"
proof -
  have run: "engine False ds h g = (h, \<lambda>b. case map_of (zip [a ..< a + length xs] xs) b of None \<Rightarrow> g b | Some x \<Rightarrow> h x)"
    using assms by (simp add: engine_ok_def swap_zip)
  show "fst (engine False ds h g) = h" by (simp add: run)
  assume "b \<notin> {a ..< a + length xs}"
  then have none: "map_of (zip [a ..< a + length xs] xs) b = None" by (auto simp: map_of_eq_None_iff dest: set_zip_leftD)
  show "snd (engine False ds h g) b = g b" unfolding run snd_conv none by simp
qed

lemma dma_to:
  assumes w: "working abi env pt bus engine" and buf: "mapped env pt buf m" "unat buf \<le> unat v" "unat v + unat sz \<le> unat buf + m"
    and sz: "1 \<le> unat (sz :: u64)" "unat sz \<le> 2 ^ 24" and addr: "unat addr + unat sz \<le> 2 ^ 64"
    and ring: "length (desc_ring (m_dev s)) = 8192"
  obtains d g where
    "ioctl_dma abi env queue_mode engine torn \<lparr>dma_direction = FPGAGPU_DMA_TO_DEVICE, dma_size = ucast sz, ddr3_addr = addr,
       host_vaddr = v\<rparr> s = (0, \<lparr>m_dev = d, m_host = m_host s, m_ddr = g\<rparr>)"
    and "same_ring (m_dev s) d" and "\<forall>k < unat sz. g (unat addr + k) = m_host s (loc pt (v + of_nat k))"
    and "\<forall>a. a \<notin> {unat addr ..< unat addr + unat sz} \<longrightarrow> g a = m_ddr s a"
proof -
  have "dma_channel FPGAGPU_DMA_TO_DEVICE = Some h2c_chan" "False = (FPGAGPU_DMA_TO_DEVICE \<noteq> FPGAGPU_DMA_TO_DEVICE)"
    by (simp_all add: dma_channel_def)
  from call_succeeds [OF w buf sz addr ring this] obtain d ds where
    run: "fpgagpu_ioctl abi (env\<lparr>copy_dma_param := \<lambda>_. Some \<lparr>dma_direction = FPGAGPU_DMA_TO_DEVICE, dma_size = ucast sz,
       ddr3_addr = addr, host_vaddr = v\<rparr>\<rparr>) queue_mode (FPGAGPU_IOC_DMA_TRANSFER abi) 0 (m_dev s) = (OK, None, d)"
    and same: "same_ring (m_dev s) d" and base: "desc_ring_dma_addr d = desc_ring_dma_addr (m_dev s)"
    and walk: "chain_walk 8192 (desc_ring_dma_addr (m_dev s)) (desc_ring d) (desc_ring_dma_addr (m_dev s)) = Some ds"
    and moves: "byte_moves False bus ds = zip (map (\<lambda>k. loc pt (v + of_nat k)) [0..<unat sz]) [unat addr ..< unat addr + unat sz]" .
  have ok: "engine_ok bus engine" using w by (simp add: working_def)
  note only = engine_writes_only [OF ok, of ds "map (\<lambda>k. loc pt (v + of_nat k)) [0..<unat sz]" "unat addr", simplified, OF moves]
  let ?e = "engine False ds (m_host s) (m_ddr s)"
  have "ioctl_dma abi env queue_mode engine torn \<lparr>dma_direction = FPGAGPU_DMA_TO_DEVICE, dma_size = ucast sz, ddr3_addr = addr,
       host_vaddr = v\<rparr> s = (0, \<lparr>m_dev = d, m_host = m_host s, m_ddr = snd ?e\<rparr>)"
    by (simp add: ioctl_dma_def run base walk sys_result_def only(1) split_def)
  moreover have "\<forall>k < unat sz. snd ?e (unat addr + k) = m_host s (loc pt (v + of_nat k))"
    using engine_writes [OF ok, of ds "map (\<lambda>k. loc pt (v + of_nat k)) [0..<unat sz]" "unat addr"] moves by simp
  ultimately show thesis by (rule that [OF _ same]) (simp_all add: only(2))
qed

lemma dma_from:
  assumes w: "working abi env pt bus engine" and buf: "mapped env pt buf m" "unat buf \<le> unat v" "unat v + unat sz \<le> unat buf + m"
    and sz: "1 \<le> unat (sz :: u64)" "unat sz \<le> 2 ^ 24" and addr: "unat addr + unat sz \<le> 2 ^ 64"
    and ring: "length (desc_ring (m_dev s)) = 8192" and inj: "inj_on (\<lambda>k. loc pt (v + of_nat k)) {..<unat sz}"
  obtains d h where
    "ioctl_dma abi env queue_mode engine torn \<lparr>dma_direction = FPGAGPU_DMA_FROM_DEVICE, dma_size = ucast sz, ddr3_addr = addr,
       host_vaddr = v\<rparr> s = (0, \<lparr>m_dev = d, m_host = h, m_ddr = m_ddr s\<rparr>)"
    and "same_ring (m_dev s) d" and "\<forall>k < unat sz. h (loc pt (v + of_nat k)) = m_ddr s (unat addr + k)"
    and "\<forall>x. x \<notin> (\<lambda>k. loc pt (v + of_nat k)) ` {..<unat sz} \<longrightarrow> h x = m_host s x"
proof -
  have "dma_channel FPGAGPU_DMA_FROM_DEVICE = Some c2h_chan" "True = (FPGAGPU_DMA_FROM_DEVICE \<noteq> FPGAGPU_DMA_TO_DEVICE)"
    by (simp_all add: dma_channel_def FPGAGPU_DMA_FROM_DEVICE_def FPGAGPU_DMA_TO_DEVICE_def)
  from call_succeeds [OF w buf sz addr ring this] obtain d ds where
    run: "fpgagpu_ioctl abi (env\<lparr>copy_dma_param := \<lambda>_. Some \<lparr>dma_direction = FPGAGPU_DMA_FROM_DEVICE, dma_size = ucast sz,
       ddr3_addr = addr, host_vaddr = v\<rparr>\<rparr>) queue_mode (FPGAGPU_IOC_DMA_TRANSFER abi) 0 (m_dev s) = (OK, None, d)"
    and same: "same_ring (m_dev s) d" and base: "desc_ring_dma_addr d = desc_ring_dma_addr (m_dev s)"
    and walk: "chain_walk 8192 (desc_ring_dma_addr (m_dev s)) (desc_ring d) (desc_ring_dma_addr (m_dev s)) = Some ds"
    and moves: "byte_moves True bus ds = zip (map (\<lambda>k. loc pt (v + of_nat k)) [0..<unat sz]) [unat addr ..< unat addr + unat sz]" .
  have ok: "engine_ok bus engine" using w by (simp add: working_def)
  have dirs: "FPGAGPU_DMA_FROM_DEVICE \<noteq> FPGAGPU_DMA_TO_DEVICE"
    by (simp add: FPGAGPU_DMA_FROM_DEVICE_def FPGAGPU_DMA_TO_DEVICE_def)
  let ?xs = "map (\<lambda>k. loc pt (v + of_nat k)) [0..<unat sz]"
  have dist: "distinct ?xs" using inj by (simp add: distinct_map atLeast0LessThan)
  have ms: "byte_moves True bus ds = zip ?xs [unat addr ..< unat addr + length ?xs]" using moves by simp
  let ?e = "engine True ds (m_host s) (m_ddr s)"
  note reads = engine_reads [OF ok ms dist, where h = "m_host s" and g = "m_ddr s"]
  have "snd ?e = m_ddr s" using ok ms dist by (simp add: engine_ok_def)
  then have "ioctl_dma abi env queue_mode engine torn \<lparr>dma_direction = FPGAGPU_DMA_FROM_DEVICE, dma_size = ucast sz,
       ddr3_addr = addr, host_vaddr = v\<rparr> s = (0, \<lparr>m_dev = d, m_host = fst ?e, m_ddr = m_ddr s\<rparr>)"
    by (simp add: ioctl_dma_def run base walk sys_result_def split_def dirs)
  moreover have "\<forall>k < unat sz. fst ?e (loc pt (v + of_nat k)) = m_ddr s (unat addr + k)"
    using reads(1) by (simp add: list_eq_iff_nth_eq)
  moreover have "\<forall>x. x \<notin> (\<lambda>k. loc pt (v + of_nat k)) ` {..<unat sz} \<longrightarrow> fst ?e x = m_host s x"
    using reads(2) by (simp add: atLeast0LessThan)
  ultimately show thesis by (rule that [OF _ same])
qed

section \<open>Filling memory\<close>

text \<open>A fill changes the pages of the host only, and of these the bytes it names.\<close>

definition filled :: "(nat \<Rightarrow> u64 \<times> nat) \<Rightarrow> nat \<Rightarrow> (nat \<Rightarrow> u8) \<Rightarrow> machine \<Rightarrow> machine \<Rightarrow> bool" where
  "filled f n c s s' \<longleftrightarrow> m_dev s' = m_dev s \<and> m_ddr s' = m_ddr s \<and> (\<forall>k < n. m_host s' (f k) = c k) \<and>
     (\<forall>x. x \<notin> f ` {..<n} \<longrightarrow> m_host s' x = m_host s x)"

lemma fold_put:
  "inj_on (\<lambda>i. loc pt (f i)) {..<n} \<Longrightarrow> filled (\<lambda>i. loc pt (f i)) n c s (fold (\<lambda>i. put pt (f i) (c i)) [0..<n] s)"
proof (induction n)
  case (Suc n)
  moreover have "inj_on (\<lambda>i. loc pt (f i)) {..<n}" by (rule inj_on_subset [OF Suc.prems]) auto
  ultimately show ?case by (auto simp: filled_def put_def less_Suc_eq lessThan_Suc inj_on_def)
qed (simp add: filled_def)

lemma memset_filled:
  "inj_on (\<lambda>i. loc pt (a + of_nat i)) {..<unat n} \<Longrightarrow>
   filled (\<lambda>i. loc pt (a + of_nat i)) (unat n) (\<lambda>_. v) s (memset pt a v n s)"
  unfolding memset_def by (rule fold_put)

text \<open>The loop that writes the same bytes to two places.\<close>

lemma fold_put2:
  assumes "inj_on (\<lambda>i. loc pt (f i)) {..<n}" and "inj_on (\<lambda>i. loc pt (g i)) {..<n}"
    and "\<And>i j. i < n \<Longrightarrow> j < n \<Longrightarrow> loc pt (f i) \<noteq> loc pt (g j)"
    and "s' = fold (\<lambda>i s. put pt (g i) (c i) (put pt (f i) (c i) s)) [0..<n] s"
  shows "m_dev s' = m_dev s \<and> m_ddr s' = m_ddr s \<and>
    (\<forall>k < n. m_host s' (loc pt (f k)) = c k \<and> m_host s' (loc pt (g k)) = c k) \<and>
    (\<forall>x. x \<notin> (\<lambda>i. loc pt (f i)) ` {..<n} \<union> (\<lambda>i. loc pt (g i)) ` {..<n} \<longrightarrow> m_host s' x = m_host s x)"
  using assms
proof (induction n arbitrary: s')
  case (Suc n)
  have "inj_on (\<lambda>i. loc pt (f i)) {..<n}" "inj_on (\<lambda>i. loc pt (g i)) {..<n}"
    by (rule inj_on_subset [OF Suc.prems(1)], auto) (rule inj_on_subset [OF Suc.prems(2)], auto)
  note IH = Suc.IH [OF this Suc.prems(3) refl]
  obtain t where t: "t = fold (\<lambda>i s. put pt (g i) (c i) (put pt (f i) (c i) s)) [0..<n] s" by blast
  have s': "s' = put pt (g n) (c n) (put pt (f n) (c n) t)" by (simp add: Suc.prems(4) t)
  have new: "loc pt (f n) \<noteq> loc pt (g n)" "k < n \<Longrightarrow> loc pt (f k) \<noteq> loc pt (f n)" "k < n \<Longrightarrow> loc pt (f k) \<noteq> loc pt (g n)"
    "k < n \<Longrightarrow> loc pt (g k) \<noteq> loc pt (f n)" "k < n \<Longrightarrow> loc pt (g k) \<noteq> loc pt (g n)" for k
    using Suc.prems(1,2) Suc.prems(3) [of n n] Suc.prems(3) [of k n] Suc.prems(3) [of n k]
    by (auto simp: inj_on_def dest: spec [of _ k])
  from IH [folded t] show ?case
    by (auto simp: s' put_def less_Suc_eq lessThan_Suc new)
qed simp

section \<open>The range test\<close>

text \<open>Byte \<open>i\<close> of a buffer, and buffers that share no byte.\<close>

definition byte_at :: "(u64 \<Rightarrow> u64) \<Rightarrow> u64 \<Rightarrow> nat \<Rightarrow> u64 \<times> nat" where
  "byte_at pt b i = loc pt (b + of_nat i)"

definition own :: "(u64 \<Rightarrow> u64) \<Rightarrow> u64 list \<Rightarrow> nat \<Rightarrow> bool" where
  "own pt bufs n \<longleftrightarrow> distinct (concat (map (\<lambda>b. map (byte_at pt b) [0..<n]) bufs))"

lemma own_Nil [simp]: "own pt [] n"
  by (simp add: own_def)

lemma own_Cons:
  "own pt (b # bs) n \<longleftrightarrow> inj_on (byte_at pt b) {..<n} \<and>
     (\<forall>c \<in> set bs. \<forall>i < n. \<forall>j < n. byte_at pt b i \<noteq> byte_at pt c j) \<and> own pt bs n"
  unfolding own_def by (simp add: distinct_map atLeast0LessThan) blast

lemma inj_shift:
  fixes f :: "nat \<Rightarrow> 'a"
  assumes "inj_on f {..<m}" and "d + n \<le> m"
  shows "inj_on (\<lambda>k. f (d + k)) {..<n}"
proof (rule inj_onI)
  fix i j assume "i \<in> {..<n}" "j \<in> {..<n}" "f (d + i) = f (d + j)"
  then show "i = j" using inj_onD [OF assms(1), of "d + i" "d + j"] assms(2) by simp
qed

lemma memset_buffer:
  "inj_on (byte_at pt b) {..<unat n} \<Longrightarrow> filled (byte_at pt b) (unat n) (\<lambda>_. v) s (memset pt b v n s)"
  using memset_filled [of pt b n v s] by (simp add: byte_at_def [abs_def])

lemma filled_inside: "filled f n c s s' \<Longrightarrow> k < n \<Longrightarrow> m_host s' (f k) = c k"
  by (simp add: filled_def)

lemma filled_outside: "filled f n c s s' \<Longrightarrow> (\<And>k. k < n \<Longrightarrow> x \<noteq> f k) \<Longrightarrow> m_host s' x = m_host s x"
  unfolding filled_def by (metis imageE lessThan_iff)

definition payload :: "nat \<Rightarrow> u8" where
  "payload i = ucast (of_nat i * 31 + 7 :: u64)"

lemma range_filled:
  assumes own: "own pt [tx, rx, img, ex] B" and B: "B = unat (4 * PAGE_SIZE)"
    and fit: "unat tx_offset + unat sz \<le> B" "unat ddr_offset + unat sz \<le> B"
    and t: "t = fill_range pt tx rx img ex tx_offset ddr_offset sz s"
  shows "m_dev t = m_dev s"
    and "k < unat sz \<Longrightarrow> m_host t (byte_at pt tx (unat tx_offset + k)) = payload k"
    and "i < B \<Longrightarrow> m_host t (byte_at pt rx i) = 0xcc"
    and "i < B \<Longrightarrow> m_host t (byte_at pt img i) = 0xa5"
    and "i < B \<Longrightarrow> m_host t (byte_at pt ex i) =
      (if unat ddr_offset \<le> i \<and> i < unat ddr_offset + unat sz then payload (i - unat ddr_offset) else 0xa5)"
proof -
  let ?L = "byte_at pt" and ?n = "unat sz"
  have inj: "inj_on (?L tx) {..<B}" "inj_on (?L rx) {..<B}" "inj_on (?L img) {..<B}" "inj_on (?L ex) {..<B}"
    using own by (simp_all add: own_Cons)
  have apart: "?L rx i \<noteq> ?L tx j" "?L rx i \<noteq> ?L img j" "?L rx i \<noteq> ?L ex j" "?L img i \<noteq> ?L tx j" "?L img i \<noteq> ?L ex j"
    "?L ex i \<noteq> ?L tx j" "?L tx i \<noteq> ?L ex j" if "i < B" "j < B" for i j
    using own that by (simp_all add: own_Cons not_sym)
  define s1 where "s1 = memset pt tx 0x5c (4 * PAGE_SIZE) s"
  define s2 where "s2 = memset pt rx 0xcc (4 * PAGE_SIZE) s1"
  define s3 where "s3 = memset pt img 0xa5 (4 * PAGE_SIZE) s2"
  define s4 where "s4 = memset pt ex 0xa5 (4 * PAGE_SIZE) s3"
  note f = memset_buffer [of pt tx "4 * PAGE_SIZE", folded B, OF inj(1), of "0x5c" s, folded s1_def]
    memset_buffer [of pt rx "4 * PAGE_SIZE", folded B, OF inj(2), of "0xcc" s1, folded s2_def]
    memset_buffer [of pt img "4 * PAGE_SIZE", folded B, OF inj(3), of "0xa5" s2, folded s3_def]
    memset_buffer [of pt ex "4 * PAGE_SIZE", folded B, OF inj(4), of "0xa5" s3, folded s4_def]
  have shift: "tx + (tx_offset + of_nat i) = tx + of_nat (unat tx_offset + i)"
    "ex + (ddr_offset + of_nat i) = ex + of_nat (unat ddr_offset + i)" for i by simp_all
  have t: "t = fold (\<lambda>i s. put pt (ex + of_nat (unat ddr_offset + i)) (payload i)
      (put pt (tx + of_nat (unat tx_offset + i)) (payload i) s)) [0..<?n] s4"
    unfolding t fill_range_def Let_def s1_def s2_def s3_def s4_def payload_def shift ..
  have in_tx: "i < ?n \<Longrightarrow> unat tx_offset + i < B" and in_ex: "i < ?n \<Longrightarrow> unat ddr_offset + i < B" for i
    using fit by simp_all
  have sub: "inj_on (\<lambda>i. ?L tx (unat tx_offset + i)) {..<?n}" "inj_on (\<lambda>i. ?L ex (unat ddr_offset + i)) {..<?n}"
    using inj_shift [OF inj(1) fit(1)] inj_shift [OF inj(4) fit(2)] by simp_all
  have cross: "?L tx (unat tx_offset + i) \<noteq> ?L ex (unat ddr_offset + j)" if "i < ?n" "j < ?n" for i j
    by (rule apart(7) [OF in_tx [OF that(1)] in_ex [OF that(2)]])
  have put2: "m_dev t = m_dev s4 \<and> m_ddr t = m_ddr s4 \<and>
    (\<forall>k < ?n. m_host t (?L tx (unat tx_offset + k)) = payload k \<and> m_host t (?L ex (unat ddr_offset + k)) = payload k) \<and>
    (\<forall>x. x \<notin> (\<lambda>i. ?L tx (unat tx_offset + i)) ` {..<?n} \<union> (\<lambda>i. ?L ex (unat ddr_offset + i)) ` {..<?n} \<longrightarrow>
       m_host t x = m_host s4 x)"
    unfolding byte_at_def
    by (rule fold_put2 [where f = "\<lambda>i. tx + of_nat (unat tx_offset + i)" and g = "\<lambda>i. ex + of_nat (unat ddr_offset + i)",
          OF sub [unfolded byte_at_def] cross [unfolded byte_at_def] t])
  then have loop: "m_dev t = m_dev s4" "k < ?n \<Longrightarrow> m_host t (?L tx (unat tx_offset + k)) = payload k"
    "k < ?n \<Longrightarrow> m_host t (?L ex (unat ddr_offset + k)) = payload k" for k by simp_all
  have rest: "m_host t x = m_host s4 x"
    if "\<And>k. k < ?n \<Longrightarrow> x \<noteq> ?L tx (unat tx_offset + k)" "\<And>k. k < ?n \<Longrightarrow> x \<noteq> ?L ex (unat ddr_offset + k)" for x
    using put2 that by (metis (no_types, lifting) UnE imageE lessThan_iff)
  show "m_dev t = m_dev s" using loop(1) f by (simp add: filled_def)
  show "k < ?n \<Longrightarrow> m_host t (?L tx (unat tx_offset + k)) = payload k" by (rule loop(2))
  { assume i: "i < B"
    have "m_host t (?L rx i) = m_host s4 (?L rx i)" by (rule rest) (erule apart(1) [OF i in_tx], erule apart(3) [OF i in_ex])
    also have "\<dots> = m_host s3 (?L rx i)" by (rule filled_outside [OF f(4)]) (rule apart(3) [OF i])
    also have "\<dots> = m_host s2 (?L rx i)" by (rule filled_outside [OF f(3)]) (rule apart(2) [OF i])
    finally show "m_host t (?L rx i) = 0xcc" using filled_inside [OF f(2) i] by simp
  next
    assume i: "i < B"
    have "m_host t (?L img i) = m_host s4 (?L img i)" by (rule rest) (erule apart(4) [OF i in_tx], erule apart(5) [OF i in_ex])
    also have "\<dots> = m_host s3 (?L img i)" by (rule filled_outside [OF f(4)]) (rule apart(5) [OF i])
    finally show "m_host t (?L img i) = 0xa5" using filled_inside [OF f(3) i] by simp
  next
    assume i: "i < B"
    show "m_host t (?L ex i) =
      (if unat ddr_offset \<le> i \<and> i < unat ddr_offset + ?n then payload (i - unat ddr_offset) else 0xa5)"
    proof (cases "unat ddr_offset \<le> i \<and> i < unat ddr_offset + ?n")
      case True
      then show ?thesis using loop(3) [of "i - unat ddr_offset"] by (simp add: less_diff_conv2)
    next
      case False
      have "m_host t (?L ex i) = m_host s4 (?L ex i)"
      proof (rule rest)
        show "?L ex i \<noteq> ?L tx (unat tx_offset + k)" if "k < ?n" for k by (rule apart(6) [OF i in_tx [OF that]])
        show "?L ex i \<noteq> ?L ex (unat ddr_offset + k)" if "k < ?n" for k
          using inj_onD [OF inj(4), of i "unat ddr_offset + k"] i in_ex [OF that] False that by auto
      qed
      then have "m_host t (?L ex i) = 0xa5" using filled_inside [OF f(4) i] by simp
      with False show ?thesis by (simp only: if_False)
    qed }
qed

lemma page_bytes: "unat (4 * PAGE_SIZE) = 16384"
  by (simp add: PAGE_SIZE_def)

lemma unat_at: "unat a + unat b \<le> 2 ^ 63 \<Longrightarrow> unat (a + b :: u64) = unat a + unat b"
  by (rule unat_add_no_wrap) simp

lemma not_beyond: "unat a + unat b \<le> unat n \<Longrightarrow> \<not> a + b > (n :: u64)"
proof -
  assume le: "unat a + unat b \<le> unat n"
  then have "unat a + unat b < 2 ^ LENGTH(64)" using unsigned_less [of n, where ?'a = nat] by simp
  then show ?thesis using le by (simp add: word_less_nat_alt unat_add_no_wrap)
qed

text \<open>The calls of the range test, on buffers of \<open>B\<close> bytes.\<close>

lemma range_to:
  assumes "working abi env pt bus engine" and "mapped env pt b B" and "unat off + unat sz \<le> B"
    and "1 \<le> unat (sz :: u64)" and "unat sz \<le> 2 ^ 24" and "unat addr + unat sz \<le> 2 ^ 64" and "length (desc_ring (m_dev s)) = 8192"
    and "unat b + B \<le> 2 ^ 63"
  obtains d g where
    "dma_range (ioctl_dma abi env queue_mode engine torn) FPGAGPU_DMA_TO_DEVICE addr (b + off) sz s =
       (0, \<lparr>m_dev = d, m_host = m_host s, m_ddr = g\<rparr>)"
    and "same_ring (m_dev s) d" and "\<forall>k < unat sz. g (unat addr + k) = m_host s (byte_at pt b (unat off + k))"
    and "\<forall>a. a \<notin> {unat addr ..< unat addr + unat sz} \<longrightarrow> g a = m_ddr s a"
proof -
  have off: "unat (b + off) = unat b + unat off" using assms(3,8) by (intro unat_at) linarith
  have at: "loc pt (b + off + of_nat k) = byte_at pt b (unat off + k)" for k by (simp add: byte_at_def add.assoc)
  have lo: "unat b \<le> unat (b + off)" "unat (b + off) + unat sz \<le> unat b + B" using off assms(3) by simp_all
  from dma_to [OF assms(1,2) lo assms(4-7), where queue_mode = queue_mode and torn = torn]
  obtain d g where run: "ioctl_dma abi env queue_mode engine torn \<lparr>dma_direction = FPGAGPU_DMA_TO_DEVICE, dma_size = ucast sz,
      ddr3_addr = addr, host_vaddr = b + off\<rparr> s = (0, \<lparr>m_dev = d, m_host = m_host s, m_ddr = g\<rparr>)" and same: "same_ring (m_dev s) d"
    and mem:
    "\<forall>k < unat sz. g (unat addr + k) = m_host s (loc pt (b + off + of_nat k))"
    "\<forall>a. a \<notin> {unat addr ..< unat addr + unat sz} \<longrightarrow> g a = m_ddr s a" .
  show thesis by (rule that [OF _ same mem [unfolded at]]) (simp add: dma_range_def run)
qed

lemma range_from:
  assumes "working abi env pt bus engine" and "mapped env pt b B" and "unat off + unat sz \<le> B"
    and "1 \<le> unat (sz :: u64)" and "unat sz \<le> 2 ^ 24" and "unat addr + unat sz \<le> 2 ^ 64" and "length (desc_ring (m_dev s)) = 8192"
    and "unat b + B \<le> 2 ^ 63" and inj: "inj_on (byte_at pt b) {..<B}"
  obtains d h where
    "dma_range (ioctl_dma abi env queue_mode engine torn) FPGAGPU_DMA_FROM_DEVICE addr (b + off) sz s =
       (0, \<lparr>m_dev = d, m_host = h, m_ddr = m_ddr s\<rparr>)"
    and "same_ring (m_dev s) d" and "\<forall>k < unat sz. h (byte_at pt b (unat off + k)) = m_ddr s (unat addr + k)"
    and "\<forall>x. x \<notin> (\<lambda>k. byte_at pt b (unat off + k)) ` {..<unat sz} \<longrightarrow> h x = m_host s x"
proof -
  have off: "unat (b + off) = unat b + unat off" using assms(3,8) by (intro unat_at) linarith
  have at: "loc pt (b + off + of_nat k) = byte_at pt b (unat off + k)" for k by (simp add: byte_at_def add.assoc)
  have inj': "inj_on (\<lambda>k. loc pt (b + off + of_nat k)) {..<unat sz}"
    unfolding at by (rule inj_shift [OF inj assms(3)])
  have lo: "unat b \<le> unat (b + off)" "unat (b + off) + unat sz \<le> unat b + B" using off assms(3) by simp_all
  from dma_from [OF assms(1,2) lo assms(4-7) inj', where queue_mode = queue_mode and torn = torn]
  obtain d h where run: "ioctl_dma abi env queue_mode engine torn \<lparr>dma_direction = FPGAGPU_DMA_FROM_DEVICE, dma_size = ucast sz,
      ddr3_addr = addr, host_vaddr = b + off\<rparr> s = (0, \<lparr>m_dev = d, m_host = h, m_ddr = m_ddr s\<rparr>)" and same: "same_ring (m_dev s) d"
    and mem:
    "\<forall>k < unat sz. h (loc pt (b + off + of_nat k)) = m_ddr s (unat addr + k)"
    "\<forall>x. x \<notin> (\<lambda>k. loc pt (b + off + of_nat k)) ` {..<unat sz} \<longrightarrow> h x = m_host s x" .
  show thesis by (rule that [OF _ same mem [unfolded at]]) (simp add: dma_range_def run)
qed

lemma range_passes:
  assumes w: "working abi env pt bus engine" and maps: "mapped env pt tx B" "mapped env pt rx B" "mapped env pt img B"
    and low: "unat tx + B \<le> 2 ^ 63" "unat rx + B \<le> 2 ^ 63" "unat img + B \<le> 2 ^ 63"
    and own: "own pt [tx, rx, img, ex] B" and B: "B = unat (4 * PAGE_SIZE)"
    and sz: "1 \<le> unat sz" and fit: "unat tx_offset + unat sz \<le> B" "unat rx_offset + unat sz \<le> B" "unat ddr_offset + unat sz \<le> B"
    and ring: "length (desc_ring (m_dev s)) = 8192"
  obtains s' where
    "test_dma_range pt (ioctl_dma abi env queue_mode engine torn) (Some tx) (Some rx) (Some img) (Some ex)
       tx_offset rx_offset ddr_offset sz s = (0, s')"
    and "same_ring (m_dev s) (m_dev s')"
proof -
  let ?L = "byte_at pt" and ?n = "unat sz" and ?x = "ioctl_dma abi env queue_mode engine torn"
  let ?bytes = "4 * PAGE_SIZE" and ?base = "0x00400000 :: u64"
  have B16: "B = 16384" by (simp add: B page_bytes)
  have inj: "inj_on (?L tx) {..<B}" "inj_on (?L rx) {..<B}" "inj_on (?L img) {..<B}" using own by (simp_all add: own_Cons)
  have apart: "?L rx i \<noteq> ?L tx j" "?L rx i \<noteq> ?L img j" "?L img i \<noteq> ?L tx j" "?L img i \<noteq> ?L ex j" "?L ex i \<noteq> ?L img j"
    "?L tx i \<noteq> ?L img j" "?L tx i \<noteq> ?L rx j" if "i < B" "j < B" for i j
    using own that by (simp_all add: own_Cons not_sym)
  obtain t where t: "t = fill_range pt tx rx img ex tx_offset ddr_offset sz s" by blast
  note fill = range_filled [OF own B fit(1,3) t]
  have szs: "1 \<le> unat ?bytes" "unat ?bytes \<le> 2 ^ 24" "?n \<le> 2 ^ 24" using fit by (simp_all add: page_bytes B16)
  have base: "unat ?base + unat ?bytes \<le> 2 ^ 64" by (simp add: page_bytes)
  have at: "unat (?base + ddr_offset) = unat ?base + unat ddr_offset" using fit(3) by (intro unat_at) (simp add: B16)
  then have top: "unat (?base + ddr_offset) + ?n \<le> 2 ^ 64" using fit(3) by (simp add: B16)
  have whole: "unat (0 :: u64) + unat ?bytes \<le> B" by (simp add: B)
  have "length (desc_ring (m_dev t)) = 8192" using ring fill(1) by simp
  from range_to [OF w maps(3) whole szs(1,2) base this low(3), where queue_mode = queue_mode and torn = torn]
  obtain d1 g1 where c1: "dma_range ?x FPGAGPU_DMA_TO_DEVICE ?base (img + 0) ?bytes t = (0, \<lparr>m_dev = d1, m_host = m_host t, m_ddr = g1\<rparr>)"
    "same_ring (m_dev t) d1" "\<forall>k < unat ?bytes. g1 (unat ?base + k) = m_host t (?L img (unat (0 :: u64) + k))" by metis
  let ?s1 = "\<lparr>m_dev = d1, m_host = m_host t, m_ddr = g1\<rparr>"
  have ring1: "length (desc_ring (m_dev ?s1)) = 8192" using c1(2) ring fill(1) by (simp add: same_ring_def)
  from range_to [OF w maps(1) fit(1) sz szs(3) top ring1 low(1), where queue_mode = queue_mode and torn = torn]
  obtain d2 g2 where c2: "dma_range ?x FPGAGPU_DMA_TO_DEVICE (?base + ddr_offset) (tx + tx_offset) sz ?s1 =
      (0, \<lparr>m_dev = d2, m_host = m_host t, m_ddr = g2\<rparr>)"
    "same_ring d1 d2" "\<forall>k < ?n. g2 (unat ?base + unat ddr_offset + k) = m_host t (?L tx (unat tx_offset + k))"
    "\<forall>a. a \<notin> {unat ?base + unat ddr_offset ..< unat ?base + unat ddr_offset + ?n} \<longrightarrow> g2 a = g1 a"
    unfolding at by simp metis
  let ?s2 = "\<lparr>m_dev = d2, m_host = m_host t, m_ddr = g2\<rparr>"
  have ring2: "length (desc_ring (m_dev ?s2)) = 8192" using c2(2) ring1 by (simp add: same_ring_def)
  from range_from [OF w maps(3) whole szs(1,2) base ring2 low(3) inj(3), where queue_mode = queue_mode and torn = torn]
  obtain d3 h3 where c3: "dma_range ?x FPGAGPU_DMA_FROM_DEVICE ?base (img + 0) ?bytes ?s2 = (0, \<lparr>m_dev = d3, m_host = h3, m_ddr = g2\<rparr>)"
    "same_ring d2 d3" "\<forall>k < unat ?bytes. h3 (?L img (unat (0 :: u64) + k)) = g2 (unat ?base + k)"
    "\<forall>x. x \<notin> (\<lambda>k. ?L img (unat (0 :: u64) + k)) ` {..<unat ?bytes} \<longrightarrow> h3 x = m_host t x" by auto
  let ?s3 = "\<lparr>m_dev = d3, m_host = h3, m_ddr = g2\<rparr>"
  have ring3: "length (desc_ring (m_dev ?s3)) = 8192" using c3(2) ring2 by (simp add: same_ring_def)
  from range_from [OF w maps(2) fit(2) sz szs(3) top ring3 low(2) inj(2), where queue_mode = queue_mode and torn = torn]
  obtain d4 h4 where c4: "dma_range ?x FPGAGPU_DMA_FROM_DEVICE (?base + ddr_offset) (rx + rx_offset) sz ?s3 =
      (0, \<lparr>m_dev = d4, m_host = h4, m_ddr = g2\<rparr>)"
    "same_ring d3 d4" "\<forall>k < ?n. h4 (?L rx (unat rx_offset + k)) = g2 (unat ?base + unat ddr_offset + k)"
    "\<forall>x. x \<notin> (\<lambda>k. ?L rx (unat rx_offset + k)) ` {..<?n} \<longrightarrow> h4 x = h3 x"
    unfolding at by auto
  let ?s4 = "\<lparr>m_dev = d4, m_host = h4, m_ddr = g2\<rparr>"
  have in_tx: "k < ?n \<Longrightarrow> unat tx_offset + k < B" and in_rx: "k < ?n \<Longrightarrow> unat rx_offset + k < B" for k using fit by simp_all
  have ddr: "g2 (unat ?base + unat ddr_offset + k) = payload k" if "k < ?n" for k using c2(3) fill(2) that by simp
  have out3: "h3 x = m_host t x" if "\<And>j. j < B \<Longrightarrow> x \<noteq> ?L img j" for x
  proof -
    have "x \<notin> (\<lambda>k. ?L img (unat (0 :: u64) + k)) ` {..<unat ?bytes}" using that by (auto simp del: split_paired_Ex simp: B)
    with c3(4) show ?thesis by blast
  qed
  have out4: "h4 x = h3 x" if "\<And>k. k < ?n \<Longrightarrow> x \<noteq> ?L rx (unat rx_offset + k)" for x
  proof -
    have "x \<notin> (\<lambda>k. ?L rx (unat rx_offset + k)) ` {..<?n}" using that by auto
    with c4(4) show ?thesis by blast
  qed
  have img: "h3 (?L img i) = h3 (?L ex i)" if i: "i < B" for i
  proof -
    have ex: "h3 (?L ex i) = m_host t (?L ex i)" by (rule out3) (rule apart(5) [OF i])
    have im: "h3 (?L img i) = g2 (unat ?base + i)" using c3(3) i by (simp add: B)
    show ?thesis
    proof (cases "unat ddr_offset \<le> i \<and> i < unat ddr_offset + ?n")
      case True
      with ddr [of "i - unat ddr_offset"] show ?thesis unfolding im ex fill(5) [OF i] by (simp add: less_diff_conv2)
    next
      case False
      then have "g2 (unat ?base + i) = g1 (unat ?base + i)" using c2(4) by auto
      also have "\<dots> = 0xa5" using c1(3) fill(4) [OF i] i by (simp add: B)
      finally show ?thesis unfolding im ex fill(5) [OF i] using False by (simp only: if_False)
    qed
  qed
  have tx: "h4 (?L tx j) = m_host t (?L tx j)" if j: "j < B" for j
  proof -
    have "h4 (?L tx j) = h3 (?L tx j)" by (rule out4) (rule apart(7) [OF j in_rx])
    also have "\<dots> = m_host t (?L tx j)" by (rule out3) (rule apart(6) [OF j])
    finally show ?thesis .
  qed
  have rx: "h4 (?L rx i) = (if unat rx_offset \<le> i \<and> i < unat rx_offset + ?n
      then h4 (?L tx (unat tx_offset + (i - unat rx_offset))) else 0xcc)" if i: "i < B" for i
  proof (cases "unat rx_offset \<le> i \<and> i < unat rx_offset + ?n")
    case True
    then have k: "i - unat rx_offset < ?n" "unat rx_offset + (i - unat rx_offset) = i" by (simp_all add: less_diff_conv2)
    have "h4 (?L rx (unat rx_offset + (i - unat rx_offset))) = payload (i - unat rx_offset)"
      using c4(3) k(1) by (simp only: ddr [OF k(1)])
    moreover have "h4 (?L tx (unat tx_offset + (i - unat rx_offset))) = payload (i - unat rx_offset)"
      by (simp only: tx [OF in_tx [OF k(1)]] fill(2) [OF k(1)])
    ultimately show ?thesis using True by (simp only: k(2) if_True simp_thms)
  next
    case False
    have "h4 (?L rx i) = h3 (?L rx i)"
    proof (rule out4)
      show "?L rx i \<noteq> ?L rx (unat rx_offset + k)" if "k < ?n" for k
        using inj_onD [OF inj(2), of i "unat rx_offset + k"] i in_rx [OF that] False that by auto
    qed
    also have "\<dots> = m_host t (?L rx i)" by (rule out3) (rule apart(2) [OF i])
    finally have "h4 (?L rx i) = 0xcc" by (simp only: fill(3) [OF i])
    with False show ?thesis by (simp only: if_False)
  qed
  have at_rx: "(of_nat i \<ge> rx_offset \<and> of_nat i < rx_offset + sz) = (unat rx_offset \<le> i \<and> i < unat rx_offset + ?n)" if "i < B" for i
  proof -
    have "unat (of_nat i :: u64) = i" using that by (intro unat_of_nat_u64) (simp add: B16)
    moreover have "unat (rx_offset + sz) = unat rx_offset + ?n" using fit(2) by (intro unat_at) (simp add: B16)
    ultimately show ?thesis by (simp add: word_le_nat_alt word_less_nat_alt)
  qed
  have at_tx: "loc pt (tx + (tx_offset + of_nat i - rx_offset)) = ?L tx (unat tx_offset + (i - unat rx_offset))" if "unat rx_offset \<le> i" for i
    using that by (simp add: byte_at_def of_nat_diff add_diff_eq)
  have fits: "\<not> tx_offset + sz > ?bytes" "\<not> rx_offset + sz > ?bytes" "\<not> ddr_offset + sz > ?bytes"
    by (rule not_beyond, use fit B in simp)+
  have check1: "\<not> (\<exists>i \<in> {..<unat ?bytes}. get pt (img + of_nat i) ?s3 \<noteq> get pt (ex + of_nat i) ?s3)"
    using img by (simp add: get_def byte_at_def B)
  have check2: "\<not> (\<exists>i \<in> {..<unat ?bytes}. get pt (rx + of_nat i) ?s4 \<noteq>
      (if of_nat i \<ge> rx_offset \<and> of_nat i < rx_offset + sz then get pt (tx + (tx_offset + of_nat i - rx_offset)) ?s4 else 0xcc))"
    using rx at_rx at_tx by (auto simp: get_def byte_at_def [symmetric] B)
  have "test_dma_range pt ?x (Some tx) (Some rx) (Some img) (Some ex) tx_offset rx_offset ddr_offset sz s = (0, ?s4)"
    using c1(1) c2(1) c3(1) c4(1) check1 check2 fits
    by (simp add: test_dma_range_def Let_def t [symmetric])
  moreover have "same_ring (m_dev s) (m_dev ?s4)"
    using c1(2) c2(2) c3(2) c4(2) fill(1) by (simp add: same_ring_def)
  ultimately show thesis by (rule that)
qed

section \<open>The transfer test\<close>

lemma transfer_passes:
  assumes w: "working abi env pt bus engine" and maps: "mapped env pt tx (unat sz)" "mapped env pt rx (unat sz)"
    and own: "own pt [tx, rx] (unat sz)" and sz: "1 \<le> unat sz" "unat sz \<le> 2 ^ 24" and top: "unat addr + unat sz \<le> 2 ^ 64"
    and ring: "length (desc_ring (m_dev s)) = 8192"
  obtains s' where
    "test_dma_transfer pt (ioctl_dma abi env queue_mode engine torn) (Some tx) (Some rx) addr sz s = (0, s')"
    and "same_ring (m_dev s) (m_dev s')"
proof -
  let ?L = "byte_at pt" and ?n = "unat sz" and ?x = "ioctl_dma abi env queue_mode engine torn"
  let ?c = "\<lambda>i. ucast ((addr + of_nat i * 31 + 0xA5) AND 0xFF) :: u8"
  have inj: "inj_on (?L tx) {..<?n}" "inj_on (?L rx) {..<?n}" and apart: "i < ?n \<Longrightarrow> j < ?n \<Longrightarrow> ?L tx i \<noteq> ?L rx j" for i j
    using own by (simp_all add: own_Cons)
  define s1 where "s1 = fold (\<lambda>i. put pt (tx + of_nat i) (?c i)) [0..<?n] s"
  define s2 where "s2 = memset pt rx 0 sz s1"
  have f1: "filled (?L tx) ?n ?c s s1" unfolding s1_def byte_at_def [abs_def] by (rule fold_put) (use inj(1) in \<open>simp add: byte_at_def [abs_def]\<close>)
  have f2: "filled (?L rx) ?n (\<lambda>_. 0) s1 s2" unfolding s2_def by (rule memset_buffer [OF inj(2)])
  have "length (desc_ring (m_dev s2)) = 8192" using f1 f2 ring by (simp add: filled_def)
  from dma_to [OF w maps(1) order_refl order_refl sz top this, where queue_mode = queue_mode and torn = torn]
  obtain d g where c1: "?x \<lparr>dma_direction = FPGAGPU_DMA_TO_DEVICE, dma_size = ucast sz, ddr3_addr = addr, host_vaddr = tx\<rparr> s2 =
      (0, \<lparr>m_dev = d, m_host = m_host s2, m_ddr = g\<rparr>)" "same_ring (m_dev s2) d"
    "\<forall>k < ?n. g (unat addr + k) = m_host s2 (?L tx k)" "\<forall>a. a \<notin> {unat addr ..< unat addr + ?n} \<longrightarrow> g a = m_ddr s2 a"
    unfolding byte_at_def .
  let ?s3 = "\<lparr>m_dev = d, m_host = m_host s2, m_ddr = g\<rparr>"
  have ring3: "length (desc_ring (m_dev ?s3)) = 8192" using c1(2) f1 f2 ring by (simp add: same_ring_def filled_def)
  have inj': "inj_on (\<lambda>k. loc pt (rx + of_nat k)) {..<?n}" using inj(2) by (simp add: byte_at_def [abs_def])
  from dma_from [OF w maps(2) order_refl order_refl sz top ring3 inj', where queue_mode = queue_mode and torn = torn]
  obtain e h where c2: "?x \<lparr>dma_direction = FPGAGPU_DMA_FROM_DEVICE, dma_size = ucast sz, ddr3_addr = addr, host_vaddr = rx\<rparr> ?s3 =
      (0, \<lparr>m_dev = e, m_host = h, m_ddr = g\<rparr>)" "same_ring d e"
    "\<forall>k < ?n. h (?L rx k) = g (unat addr + k)" "\<forall>x. x \<notin> ?L rx ` {..<?n} \<longrightarrow> h x = m_host s2 x"
    unfolding byte_at_def [abs_def] by auto
  have "h (?L tx k) = h (?L rx k)" if "k < ?n" for k
  proof -
    have "?L tx k \<notin> ?L rx ` {..<?n}" using apart [OF that] by auto
    with c2(4) have "h (?L tx k) = m_host s2 (?L tx k)" by blast
    with c1(3) c2(3) that show ?thesis by simp
  qed
  then have "map (\<lambda>i. get pt (tx + of_nat i) \<lparr>m_dev = e, m_host = h, m_ddr = g\<rparr>) [0..<?n] =
      map (\<lambda>i. get pt (rx + of_nat i) \<lparr>m_dev = e, m_host = h, m_ddr = g\<rparr>) [0..<?n]"
    by (simp add: get_def byte_at_def)
  then have run: "test_dma_transfer pt ?x (Some tx) (Some rx) addr sz s = (0, \<lparr>m_dev = e, m_host = h, m_ddr = g\<rparr>)"
    by (simp only: test_dma_transfer_def prod.case option.case s1_def [symmetric] s2_def [symmetric] Let_def c1(1) c2(1)) simp
  have "same_ring (m_dev s) e" using c1(2) c2(2) f1 f2 by (simp add: same_ring_def filled_def)
  then show thesis by (intro that [OF run]) simp
qed

section \<open>The whole program\<close>

lemma run_tests_pass:
  assumes "\<forall>f \<in> set fs. \<forall>s. length (desc_ring (m_dev s)) = 8192 \<longrightarrow> (\<exists>s'. f s = (0, s') \<and> same_ring (m_dev s) (m_dev s'))"
    and "length (desc_ring (m_dev s)) = 8192"
  shows "\<exists>s'. run_tests fs n s = (n, s') \<and> same_ring (m_dev s) (m_dev s')"
  using assms
proof (induction fs arbitrary: s)
  case Nil
  then show ?case by (simp add: same_ring_def)
next
  case (Cons f fs)
  obtain s1 where s1: "f s = (0, s1)" "same_ring (m_dev s) (m_dev s1)" using Cons.prems by auto
  then have "length (desc_ring (m_dev s1)) = 8192" using Cons.prems(2) by (simp add: same_ring_def)
  then obtain s2 where "run_tests fs n s1 = (n, s2)" "same_ring (m_dev s1) (m_dev s2)"
    using Cons.IH [of s1] Cons.prems(1) by auto
  with s1 show ?case by (auto intro: same_ring_trans)
qed

text \<open>The bytes of each buffer of a test, and buffers as \<open>posix_memalign\<close> and Linux give them: whole pages
  below \<open>2^63\<close> that can be pinned and share no byte.\<close>

definition test_bytes :: "nat \<Rightarrow> nat" where
  "test_bytes k = [16384, 16384, 16384, 4096, 65536, 262144, 1048576, 2097152, 4194304, 1048576] ! k"

definition test_buffers :: "nat \<Rightarrow> nat" where
  "test_buffers k = (if k < 3 then 4 else 2)"

definition buffers_ok :: "kenv \<Rightarrow> (u64 \<Rightarrow> u64) \<Rightarrow> u64 list \<Rightarrow> nat \<Rightarrow> bool" where
  "buffers_ok env pt bufs n \<longleftrightarrow> (\<forall>b \<in> set bufs. mapped env pt b n \<and> unat b + n \<le> 2 ^ 63) \<and> own pt bufs n"

lemma four: "map f [0..<test_buffers k] = (if k < 3 then [f 0, f 1, f 2, f 3] else [f 0, f 1])"
  by (simp add: test_buffers_def upt_rec eval_nat_numeral)

lemma dma_tests_pass:
  assumes w: "working abi env pt bus engine"
    and mem: "\<And>k. k < 10 \<Longrightarrow> buffers_ok env pt (map (buf k) [0..<test_buffers k]) (test_bytes k)"
    and f: "f \<in> set (dma_tests pt (ioctl_dma abi env queue_mode engine torn) (\<lambda>k j. Some (buf k j)))"
    and ring: "length (desc_ring (m_dev s)) = 8192"
  shows "\<exists>s'. f s = (0, s') \<and> same_ring (m_dev s) (m_dev s')"
proof -
  let ?x = "ioctl_dma abi env queue_mode engine torn"
  have range: "\<exists>s'. test_dma_range pt ?x (Some (buf k 0)) (Some (buf k 1)) (Some (buf k 2)) (Some (buf k 3)) a b c n s = (0, s') \<and>
      same_ring (m_dev s) (m_dev s')"
    if "k < 3" "1 \<le> unat n" "unat a + unat n \<le> 16384" "unat b + unat n \<le> 16384" "unat c + unat n \<le> 16384" for k a b c n
  proof -
    have "test_bytes k = 16384" using that(1) by (auto simp: test_bytes_def less_Suc_eq numeral_3_eq_3)
    then have ok: "buffers_ok env pt [buf k 0, buf k 1, buf k 2, buf k 3] 16384" using mem [of k] that(1) by (simp add: four)
    show ?thesis
      by (rule range_passes [OF w, of "buf k 0" 16384 "buf k 1" "buf k 2" "buf k 3" n a b c s queue_mode torn])
        (use ok that ring in \<open>auto simp: buffers_ok_def page_bytes\<close>)
  qed
  have transfer: "\<exists>s'. test_dma_transfer pt ?x (Some (buf k 0)) (Some (buf k 1)) a n s = (0, s') \<and> same_ring (m_dev s) (m_dev s')"
    if "3 \<le> k" "k < 10" "unat n = test_bytes k" "1 \<le> unat n" "unat n \<le> 2 ^ 24" "unat a + unat n \<le> 2 ^ 64" for k a n
  proof -
    have ok: "buffers_ok env pt [buf k 0, buf k 1] (unat n)" using mem [OF that(2)] that(1,3) by (simp add: four)
    show ?thesis
      by (rule transfer_passes [OF w, of "buf k 0" n "buf k 1" a s queue_mode torn])
        (use ok that ring in \<open>auto simp: buffers_ok_def\<close>)
  qed
  have "\<forall>f \<in> set (dma_tests pt ?x (\<lambda>k j. Some (buf k j))). \<exists>s'. f s = (0, s') \<and> same_ring (m_dev s) (m_dev s')"
    unfolding dma_tests_def Let_def list.set ball_simps
    by (intro conjI TrueI range transfer) (simp_all add: PAGE_SIZE_def test_bytes_def)
  then show ?thesis using f by blast
qed

lemma switch_neq:
  assumes "ioc_ok abi"
  shows "FPGAGPU_IOC_SUBMIT_CMD abi \<noteq> FPGAGPU_IOC_DMA_TRANSFER abi" "FPGAGPU_IOC_DOORBELL abi \<noteq> FPGAGPU_IOC_DMA_TRANSFER abi"
    "FPGAGPU_IOC_DOORBELL abi \<noteq> FPGAGPU_IOC_SUBMIT_CMD abi" "FPGAGPU_IOC_GET_VERSION abi \<noteq> FPGAGPU_IOC_DMA_TRANSFER abi"
    "FPGAGPU_IOC_GET_VERSION abi \<noteq> FPGAGPU_IOC_SUBMIT_CMD abi" "FPGAGPU_IOC_GET_VERSION abi \<noteq> FPGAGPU_IOC_DOORBELL abi"
    "FPGAGPU_IOC_LOAD_KERNEL abi \<noteq> FPGAGPU_IOC_DMA_TRANSFER abi" "FPGAGPU_IOC_LOAD_KERNEL abi \<noteq> FPGAGPU_IOC_SUBMIT_CMD abi"
    "FPGAGPU_IOC_LOAD_KERNEL abi \<noteq> FPGAGPU_IOC_DOORBELL abi" "FPGAGPU_IOC_LOAD_KERNEL abi \<noteq> FPGAGPU_IOC_GET_VERSION abi"
  using ioc_cmd_distinct [OF assms] by auto

lemma version_keeps: "ioc_ok abi \<Longrightarrow> \<exists>r. ioctl_version abi env queue_mode w = (r, w)"
  by (cases "get_version env 0 (m_dev w)")
    (simp_all add: ioctl_version_def ioctl_is_switch ioctl_switch_def switch_neq)

text \<open>C14: the project's own test of the DMA path passes.  When the kernel driver, Linux and the engine do
  what is documented of them, the buffers are ordinary memory, the ring has room and the firmware drains it,
  \<open>test_dma\<close> returns 0: all ten tests find exactly the bytes they expect, payload, guards in
  the memory of the device and guards in the memory of the host, and the probe command
  completes.\<close>

theorem dma_test_passes:
  assumes "working abi env pt bus engine" and "queue_mode = 0" and "0 \<le> fd"
    and "\<forall>k < 10. buffers_ok env pt (map (buf k) [0..<test_buffers k]) (test_bytes k)"
    and "length (desc_ring (m_dev s)) = 8192"
    and "\<not> ring_full (ioread32 (m_dev s) RING_HEAD) (ioread32 (m_dev s) RING_TAIL)"
    and "\<forall>d. 0 < fst (wait_event env (\<lambda>d'. ioread32 d' RING_HEAD = ioread32 d RING_TAIL) d)"
  shows "fst (test_dma_main abi env queue_mode engine torn pt fd (\<lambda>k j. Some (buf k j)) s) = 0"
proof -
  have abi: "ioc_ok abi" using assms(1) by (simp add: working_def)
  obtain r0 where v: "ioctl_version abi env queue_mode s = (r0, s)" using version_keeps [OF abi] by blast
  obtain s1 where run: "run_tests (dma_tests pt (ioctl_dma abi env queue_mode engine torn) (\<lambda>k j. Some (buf k j))) 0 s = (0, s1)"
    and same: "same_ring (m_dev s) (m_dev s1)"
    using run_tests_pass [OF _ assms(5)] dma_tests_pass [OF assms(1)] assms(4) by blast
  have "ioread32 (m_dev s1) a = ioread32 (m_dev s) a" for a using same by (simp add: ioread32_def same_ring_def)
  with assms(6) have room: "\<not> ring_full (ioread32 (m_dev s1) RING_HEAD) (ioread32 (m_dev s1) RING_TAIL)" by simp
  obtain s2 where submit: "ioctl_submit abi env queue_mode probe_cmd s1 = (0, s2)"
    using room assms(2) by (simp add: ioctl_submit_def ioctl_is_switch [OF abi] ioctl_switch_def switch_neq [OF abi]
        submit_cmd_def Let_def sys_result_def)
  obtain r d' where wait: "wait_event env (\<lambda>d'. ioread32 d' RING_HEAD = ioread32 (m_dev s2) RING_TAIL) (m_dev s2) = (r, d')"
    by fastforce
  then have "0 < r" using assms(7) by (metis fst_conv)
  then obtain s3 where bell: "ioctl_doorbell abi env queue_mode 0 s2 = (0, s3)"
    using wait assms(2) by (simp add: ioctl_doorbell_def ioctl_is_switch [OF abi] ioctl_switch_def switch_neq [OF abi]
        doorbell_def Let_def sys_result_def)
  show ?thesis using assms(3) by (simp add: test_dma_main_def v run submit bell)
qed

text \<open>A machine on which the program can run: four buffers of the address space, 256 MiB apart, and pages
  numbered by their address.\<close>

definition page_of :: "u64 \<Rightarrow> u64" where "page_of a = a div 4096"

definition test_env :: kenv where
  "test_env = sample_env\<lparr>get_user_pages_fast := \<lambda>a n w. (int n, map (\<lambda>i. page_of (a + of_nat (i * 4096))) [0..<n])\<rparr>"

definition test_buf :: "nat \<Rightarrow> u64" where "test_buf j = [0x10000000, 0x20000000, 0x30000000, 0x40000000] ! j"

definition test_machine :: machine where
  "test_machine = \<lparr>m_dev = sample_dma_dev, m_host = \<lambda>_. 0, m_ddr = \<lambda>_. 0\<rparr>"

lemma loc_page_of: "loc page_of a = loc page_of b \<longleftrightarrow> a = b"
proof
  assume eq: "loc page_of a = loc page_of b"
  have "unat (page_of (x AND PAGE_MASK)) = unat x div 4096" for x
    by (simp add: page_of_def unat_div unat_page minus_mod_eq_div_mult)
  with eq have "unat a div 4096 = unat b div 4096" "unat a mod 4096 = unat b mod 4096" by (simp_all add: loc_def) metis
  then have "unat a = unat b" by (metis div_mult_mod_eq)
  then show "a = b" by (simp add: word_unat_eq_iff)
qed simp

lemma byte_page_of:
  assumes "unat b + i < 2 ^ 63" and "unat c + j < 2 ^ 63"
  shows "byte_at page_of b i = byte_at page_of c j \<longleftrightarrow> unat b + i = unat c + j"
proof -
  have "unat (x + of_nat k) = unat x + k" if "unat x + k < 2 ^ 63" for x :: u64 and k
    using that unat_of_nat_u64 [of k] unat_at [of x "of_nat k"] by simp
  then show ?thesis using assms by (simp add: byte_at_def loc_page_of word_unat_eq_iff)
qed

lemma test_sizes: "\<forall>k < 10. 4096 dvd test_bytes k \<and> test_bytes k \<le> 4194304"
proof -
  have "\<forall>n \<in> set [16384, 16384, 16384, 4096, 65536, 262144, 1048576, 2097152, 4194304, 1048576 :: nat].
      4096 dvd n \<and> n \<le> 4194304" by simp
  then show ?thesis unfolding test_bytes_def list_all_iff [symmetric] list_all_length by simp
qed

lemma spaced_buffers:
  assumes "sorted_wrt (<) js" and "set js \<subseteq> {0, 1, 2, 3}" and n: "4096 dvd n" "n \<le> 4194304"
  shows "buffers_ok test_env page_of (map test_buf js) n"
proof -
  have buf: "unat (test_buf j) = 0x10000000 * (j + 1)" if "j \<in> {0, 1, 2, 3}" for j
    using that by (auto simp: test_buf_def)
  have low: "unat (test_buf j) + n \<le> 2 ^ 63" if "j \<in> {0, 1, 2, 3}" for j
    using n(2) that by (auto simp: test_buf_def)
  have "mapped test_env page_of (test_buf j) n" if "j \<in> {0, 1, 2, 3}" for j
  proof -
    have "4096 dvd unat (test_buf j)" unfolding buf [OF that] by (rule dvd_mult2) simp
    moreover have "test_buf j \<noteq> 0" using that by (auto simp: test_buf_def)
    ultimately show ?thesis using low [OF that] n(1) by (simp add: mapped_def test_env_def)
  qed
  moreover have "own page_of (map test_buf js) n" using assms(1,2)
  proof (induction js)
    case (Cons j js)
    then have j: "j \<in> {0, 1, 2, 3}" by simp
    have "inj_on (byte_at page_of (test_buf j)) {..<n}"
      using low [OF j] by (intro inj_onI) (simp add: byte_page_of)
    moreover have "byte_at page_of (test_buf j) x \<noteq> byte_at page_of (test_buf i) y" if "i \<in> set js" "x < n" "y < n" for i x y
    proof -
      have i: "i \<in> {0, 1, 2, 3}" "j < i" using that(1) Cons.prems by auto
      then have "unat (test_buf j) + x < unat (test_buf i)" using n(2) that(2) by (simp add: buf [OF i(1)] buf [OF j])
      then show ?thesis using low [OF i(1)] low [OF j] that by (simp add: byte_page_of)
    qed
    ultimately show ?case using Cons by (simp add: own_Cons)
  qed simp
  ultimately show ?thesis using assms(2) low by (auto simp: buffers_ok_def)
qed

lemma test_buffers_ok:
  assumes "k < 10"
  shows "buffers_ok test_env page_of (map test_buf [0..<test_buffers k]) (test_bytes k)"
  by (rule spaced_buffers) (use assms test_sizes in \<open>auto simp: test_buffers_def\<close>)

lemma test_env_works: "working linux_ioc test_env page_of sample_bus (bytewise sample_bus)"
proof -
  have "unat (page_of a) < 2 ^ 52" for a using unsigned_less [of a, where ?'a = nat]
    by (simp add: page_of_def unat_div) 
  then have "dma_map_sg test_env sg w \<noteq> []"
    if "sg \<noteq> []" "\<forall>e \<in> set sg. sg_page e \<in> range page_of \<and> unat (sg_offset e) + unat (sg_length e) \<le> 4096" for sg w
    using that by (auto simp: test_env_def sample_env_def sample_map_def list_all_iff)
  moreover have "xdma_status test_env 3 AND 1 = 0" by (simp add: test_env_def sample_env_def)
  moreover have "kmalloc_ok test_env" by (simp add: test_env_def sample_env_def)
  ultimately have "serves test_env page_of" unfolding serves_def by (metis numeral_less_iff semiring_norm(76,78,80,81))
  moreover have "gup_ok test_env" by (simp add: gup_ok_def test_env_def)
  moreover have "dma_map_ok sample_bus test_env" using sample_env_map by (simp add: dma_map_ok_def test_env_def)
  ultimately show ?thesis by (simp add: working_def linux_ioc_ok bytewise_ok)
qed

theorem dma_test_passes_witness:
  "fst (test_dma_main linux_ioc test_env 0 (bytewise sample_bus) id page_of 3 (\<lambda>k j. Some (test_buf j)) test_machine) = 0"
proof (rule dma_test_passes [OF test_env_works])
  show "\<forall>k<10. buffers_ok test_env page_of (map test_buf [0..<test_buffers k]) (test_bytes k)"
    using test_buffers_ok by blast
  show "length (desc_ring (m_dev test_machine)) = 8192" by (simp add: test_machine_def sample_dma_dev_def)
  show "\<not> ring_full (ioread32 (m_dev test_machine) RING_HEAD) (ioread32 (m_dev test_machine) RING_TAIL)"
    by (simp add: test_machine_def sample_dma_dev_def sample_dev_def kzalloc_dev_def ioread32_def ring_full_def QUEUE_SIZE_def)
  show "\<forall>d. 0 < fst (wait_event test_env (\<lambda>d'. ioread32 d' RING_HEAD = ioread32 d RING_TAIL) d)"
    by (simp add: test_env_def sample_env_def sample_wait_def ioread32_def Let_def)
qed simp_all

end
