(* ===== verification/System.thy ===== *)
theory System
  imports DmaTest
begin

text \<open>
  The user mode driver on the machine of theory DmaTest: every system call it makes is served by the kernel
  driver, with the XDMA engine and the GPU behind it.  Programs alternate between calls to the user mode
  driver and accesses to their own memory.
\<close>

section \<open>The board\<close>

text \<open>What is not this program: the command numbers, Linux, the module parameter \<open>queue_mode\<close>, the engine and
  what it leaves when it times out, the address translation, the descriptor that \<open>open\<close> returns, and the
  GPU: the memory of the device after a wait for it, from the state of the driver's device and the memory before.\<close>

record board =
  bd_abi :: ioc_abi
  bd_env :: kenv
  bd_mode :: int
  bd_engine :: engine
  bd_torn :: "host_memory \<times> device_memory \<Rightarrow> host_memory \<times> device_memory"
  bd_pt :: "u64 \<Rightarrow> u64"
  bd_fd :: int
  bd_gpu :: "fpgagpu_dev \<Rightarrow> device_memory \<Rightarrow> device_memory"

text \<open>The words that the user mode driver wrote to a buffer of its own before it made the call.\<close>

definition put_user :: "(u64 \<Rightarrow> u64) \<Rightarrow> u64 \<Rightarrow> u32 list \<Rightarrow> machine \<Rightarrow> machine" where
  "put_user pt a ws w =
     (let bytes = concat (map bytes_le ws) in fold (\<lambda>i. put pt (a + of_nat i) (bytes ! i)) [0..<length bytes] w)"

definition ioctl_load ::
  "ioc_abi \<Rightarrow> kenv \<Rightarrow> int \<Rightarrow> fpgagpu_kernel_binary \<Rightarrow> u32 list \<Rightarrow> machine \<Rightarrow> int \<times> machine" where
  "ioctl_load abi env queue_mode k ws w =
     (let word = (\<lambda>a. map_of (zip (map (\<lambda>i. user_instr_ptr k + of_nat (4 * i)) [0..<length ws]) ws) a);
          (r, _, d) = fpgagpu_ioctl abi (env\<lparr>copy_kernel_binary := \<lambda>_. Some k, get_user_u32 := word\<rparr>) queue_mode
            (FPGAGPU_IOC_LOAD_KERNEL abi) 0 (m_dev w)
      in (sys_result r, w\<lparr>m_dev := d\<rparr>))"

text \<open>The GPU works while the host waits in DOORBELL.\<close>

definition serve :: "board \<Rightarrow> sys_call \<Rightarrow> machine \<Rightarrow> int \<times> machine" where
  "serve b c w =
     (case c of
        SysOpen \<Rightarrow> (bd_fd b, w)
      | SysClose _ \<Rightarrow> (0, w)
      | SysVersion _ \<Rightarrow> ioctl_version (bd_abi b) (bd_env b) (bd_mode b) w
      | SysDma _ p ws \<Rightarrow> ioctl_dma (bd_abi b) (bd_env b) (bd_mode b) (bd_engine b) (bd_torn b) p
            (put_user (bd_pt b) (host_vaddr p) ws w)
      | SysLoad _ k ws \<Rightarrow> ioctl_load (bd_abi b) (bd_env b) (bd_mode b) k ws w
      | SysSubmit _ cmd \<Rightarrow> ioctl_submit (bd_abi b) (bd_env b) (bd_mode b) cmd w
      | SysDoorbell _ \<Rightarrow>
          let (r, w') = ioctl_doorbell (bd_abi b) (bd_env b) (bd_mode b) 0 w
          in (r, w'\<lparr>m_ddr := bd_gpu b (m_dev w) (m_ddr w')\<rparr>))"

definition serve_all :: "board \<Rightarrow> (sys_call \<times> int) list \<Rightarrow> machine \<Rightarrow> machine" where
  "serve_all b cs w = fold (\<lambda>(c, _) w. snd (serve b c w)) cs w"

text \<open>The answers of the machine \<open>w\<close> to a user mode driver in state \<open>u\<close>, and a call to the user mode driver on
  both: the machine afterwards has served the system calls that the call added to the log.\<close>

definition machine_sys :: "board \<Rightarrow> machine \<Rightarrow> umd \<Rightarrow> sys" where
  "machine_sys b w u log c = fst (serve b c (serve_all b (drop (length (sys_log u)) log) w))"

definition call ::
  "board \<Rightarrow> (sys \<Rightarrow> umd \<Rightarrow> ('a \<times> umd) option) \<Rightarrow> umd \<times> machine \<Rightarrow> ('a \<times> umd \<times> machine) option" where
  "call b f s =
     (case f (machine_sys b (snd s) (fst s)) (fst s) of
        None \<Rightarrow> None
      | Some (r, u') \<Rightarrow> Some (r, u', serve_all b (drop (length (sys_log (fst s))) (sys_log u')) (snd s)))"

lemma put_user_Nil [simp]: "put_user pt a [] w = w"
  by (simp add: put_user_def)

lemma serve_all_simps [simp]:
  "serve_all b [] w = w" "serve_all b ((c, r) # cs) w = serve_all b cs (snd (serve b c w))"
  by (simp_all add: serve_all_def)

text \<open>A call without a system call leaves the machine alone.\<close>

lemma call_local:
  "f (machine_sys b w u) u = Some (r, u') \<Longrightarrow> sys_log u' = sys_log u \<Longrightarrow> call b f (u, w) = Some (r, u', w)"
  by (simp add: call_def)

lemma machine_sys_first: "machine_sys b w u (sys_log u) c = fst (serve b c w)"
  by (simp add: machine_sys_def)

lemma machine_sys_next: "machine_sys b w u (sys_log u @ cs) c = fst (serve b c (serve_all b cs w))"
  by (simp add: machine_sys_def)

section \<open>Calls that succeed\<close>

lemma call_rw:
  assumes "mems u p = Some m" and "queues u q = Some cq" and "contexts u (cq_context cq) = Some cx"
    and "q \<noteq> 0" and "p \<noteq> 0" and "ptr \<noteq> 0" and "\<not> offset + sz > mo_size m"
    and dma: "ioctl_dma (bd_abi b) (bd_env b) (bd_mode b) (bd_engine b) (bd_torn b)
      \<lparr>dma_direction = dir, dma_size = ucast sz, ddr3_addr = mo_ddr3_addr m + offset, host_vaddr = ptr\<rparr> w = (0, w')"
  obtains log where "call b (\<lambda>sys. enqueue_rw dir sys q p offset sz ptr None) (u, w) = Some (CL_SUCCESS, u\<lparr>sys_log := log\<rparr>, w')"
proof -
  let ?c = "SysDma (cx_fd cx) \<lparr>dma_direction = dir, dma_size = ucast sz, ddr3_addr = mo_ddr3_addr m + offset, host_vaddr = ptr\<rparr> []"
  have "serve b ?c w = (0, w')" by (simp add: serve_def dma)
  then have "call b (\<lambda>sys. enqueue_rw dir sys q p offset sz ptr None) (u, w) =
      Some (CL_SUCCESS, u\<lparr>sys_log := sys_log u @ [(?c, 0)]\<rparr>, w')"
    using assms(1-7) by (simp add: call_def enqueue_rw_def do_sys_def Let_def machine_sys_first complete_event_def)
  then show thesis by (rule that)
qed

lemma call_copy:
  assumes "mems u p1 = Some m1" and "mems u p2 = Some m2" and "queues u q = Some cq" and "contexts u (cq_context cq) = Some cx"
    and "q \<noteq> 0" and "p1 \<noteq> 0" and "p2 \<noteq> 0" and "\<not> o1 + sz > mo_size m1" and "\<not> o2 + sz > mo_size m2"
    and "ioctl_dma (bd_abi b) (bd_env b) (bd_mode b) (bd_engine b) (bd_torn b) \<lparr>dma_direction = FPGAGPU_DMA_FROM_DEVICE,
      dma_size = ucast sz, ddr3_addr = mo_ddr3_addr m1 + o1, host_vaddr = bounce\<rparr> w = (0, w')"
    and "ioctl_dma (bd_abi b) (bd_env b) (bd_mode b) (bd_engine b) (bd_torn b) \<lparr>dma_direction = FPGAGPU_DMA_TO_DEVICE,
      dma_size = ucast sz, ddr3_addr = mo_ddr3_addr m2 + o2, host_vaddr = bounce\<rparr> w' = (0, w'')"
  obtains log where "call b (\<lambda>sys. clEnqueueCopyBuffer sys q p1 p2 o1 o2 sz (Some bounce) None) (u, w) =
    Some (CL_SUCCESS, u\<lparr>sys_log := log\<rparr>, w'')"
proof -
  let ?c1 = "SysDma (cx_fd cx) \<lparr>dma_direction = FPGAGPU_DMA_FROM_DEVICE, dma_size = ucast sz, ddr3_addr = mo_ddr3_addr m1 + o1,
    host_vaddr = bounce\<rparr> []"
  let ?c2 = "SysDma (cx_fd cx) \<lparr>dma_direction = FPGAGPU_DMA_TO_DEVICE, dma_size = ucast sz, ddr3_addr = mo_ddr3_addr m2 + o2,
    host_vaddr = bounce\<rparr> []"
  have s: "serve b ?c1 w = (0, w')" "serve b ?c2 w' = (0, w'')" by (simp_all add: serve_def assms(10,11))
  have "call b (\<lambda>sys. clEnqueueCopyBuffer sys q p1 p2 o1 o2 sz (Some bounce) None) (u, w) =
      Some (CL_SUCCESS, u\<lparr>sys_log := sys_log u @ [(?c1, 0), (?c2, 0)]\<rparr>, w'')"
    using assms(1-9) s by (simp add: call_def clEnqueueCopyBuffer_def do_sys_def Let_def machine_sys_first machine_sys_next
        complete_event_def)
  then show thesis by (rule that)
qed

text \<open>The firmware and the GPU: the ring is drained in time, the wait changes what \<open>wait_frame\<close> allows, and an idle
  GPU leaves its memory alone.\<close>

definition board_ok :: "board \<Rightarrow> (u64 \<Rightarrow> u64 \<times> nat) \<Rightarrow> bool" where
  "board_ok b bus \<longleftrightarrow> working (bd_abi b) (bd_env b) (bd_pt b) bus (bd_engine b) \<and> bd_mode b = 0 \<and> 0 \<le> bd_fd b \<and>
     wait_ok (bd_env b) \<and> wait_frame (bd_env b) \<and>
     (\<forall>d. 0 < fst (wait_event (bd_env b) (\<lambda>d'. ioread32 d' RING_HEAD = ioread32 d RING_TAIL) d)) \<and>
     (\<forall>d g. csr_mem d RING_HEAD = csr_mem d RING_TAIL \<longrightarrow> bd_gpu b d g = g)"

text \<open>A device at rest between calls.\<close>

definition at_rest :: "fpgagpu_dev \<Rightarrow> bool" where
  "at_rest d \<longleftrightarrow> ring_inv d \<and> csr_mem d RING_HEAD = csr_mem d RING_TAIL \<and> length (desc_ring d) = 8192"

lemma at_rest_same: "at_rest d \<Longrightarrow> same_ring d d' \<Longrightarrow> at_rest d'"
  by (simp add: at_rest_def same_ring_def)

text \<open>A wait that succeeds drains the ring.\<close>

lemma doorbell_drains:
  assumes "board_ok b bus" and "ring_inv (m_dev w)"
  obtains d where "ioctl_doorbell (bd_abi b) (bd_env b) (bd_mode b) 0 w = (0, w\<lparr>m_dev := d\<rparr>)"
    and "ring_inv d" and "csr_mem d RING_HEAD = csr_mem d RING_TAIL" and "desc_ring d = desc_ring (m_dev w)"
    and "\<And>a. a \<noteq> RING_HEAD \<Longrightarrow> csr_mem d a = csr_mem (m_dev w) a"
proof -
  let ?P = "\<lambda>d'. ioread32 d' RING_HEAD = ioread32 (m_dev w) RING_TAIL"
  have abi: "ioc_ok (bd_abi b)" using assms(1) by (simp add: board_ok_def working_def)
  obtain r d where wait: "wait_event (bd_env b) ?P (m_dev w) = (r, d)" by fastforce
  have r: "0 < r" using assms(1) wait by (auto simp: board_ok_def dest: spec [of _ "m_dev w"])
  then have head: "?P d" using assms(1) wait unfolding board_ok_def wait_ok_def by blast
  obtain h fired wakeups where d: "unat h < 512"
    "d = (m_dev w)\<lparr>csr_mem := (csr_mem (m_dev w))(RING_HEAD := h), dev_irq_fired := fired, dev_wakeups := wakeups\<rparr>"
    using assms wait unfolding board_ok_def wait_frame_def by blast
  show thesis
  proof (rule that [of d])
    show "ioctl_doorbell (bd_abi b) (bd_env b) (bd_mode b) 0 w = (0, w\<lparr>m_dev := d\<rparr>)"
      using wait r assms(1) by (simp add: ioctl_doorbell_def ioctl_is_switch [OF abi] ioctl_switch_def switch_neq [OF abi]
          doorbell_def Let_def sys_result_def board_ok_def)
    show "ring_inv d" using d assms(2) by (simp add: ring_wf_def ring_cells_distinct)
    show "csr_mem d RING_HEAD = csr_mem d RING_TAIL" using head d ring_cells_distinct by (simp add: ioread32_def)
    show "desc_ring d = desc_ring (m_dev w)" by (simp add: d)
    show "a \<noteq> RING_HEAD \<Longrightarrow> csr_mem d a = csr_mem (m_dev w) a" for a by (simp add: d)
  qed
qed

section \<open>Reading and writing\<close>

text \<open>A write of a buffer and a read of it, from and to memory of the program.  The state of the user mode driver changes by its
  log only.\<close>

lemma call_write:
  assumes ok: "board_ok b bus" and rest: "at_rest (m_dev w)" and sz: "1 \<le> unat sz" "unat sz \<le> 2 ^ 24"
    and buf: "mapped (bd_env b) (bd_pt b) ptr (unat sz)"
    and obj: "mems u p = Some m" "queues u q = Some cq" "contexts u (cq_context cq) = Some cx" "q \<noteq> 0" "p \<noteq> 0"
    and fit: "sz \<le> mo_size m" "unat (mo_ddr3_addr m) = a" "a + unat sz \<le> 2 ^ 64"
  obtains l' w' where "call b (\<lambda>sys. clEnqueueWriteBuffer sys q p 0 sz ptr None) (u\<lparr>sys_log := l\<rparr>, w) =
      Some (CL_SUCCESS, u\<lparr>sys_log := l'\<rparr>, w')"
    and "at_rest (m_dev w')" and "csr_mem (m_dev w') = csr_mem (m_dev w)" and "m_host w' = m_host w"
    and "\<forall>k < unat sz. m_ddr w' (a + k) = m_host w (byte_at (bd_pt b) ptr k)"
    and "\<forall>x. x \<notin> {a ..< a + unat sz} \<longrightarrow> m_ddr w' x = m_ddr w x"
proof -
  have W: "working (bd_abi b) (bd_env b) (bd_pt b) bus (bd_engine b)" using ok by (simp add: board_ok_def)
  have ring: "length (desc_ring (m_dev w)) = 8192" using rest by (simp add: at_rest_def)
  have "ptr \<noteq> 0" "\<not> 0 + sz > mo_size m" using buf fit(1) by (simp_all add: mapped_def not_less)
  note rw = call_rw [where u = "u\<lparr>sys_log := l\<rparr>" and b = b and w = w and dir = FPGAGPU_DMA_TO_DEVICE, OF _ _ _ obj(4,5) this, where cq = cq and cx = cx]
  from dma_to [OF W buf order_refl order_refl sz fit(3) [folded fit(2)] ring, where queue_mode = "bd_mode b" and torn = "bd_torn b"]
  obtain d g where c: "ioctl_dma (bd_abi b) (bd_env b) (bd_mode b) (bd_engine b) (bd_torn b)
      \<lparr>dma_direction = FPGAGPU_DMA_TO_DEVICE, dma_size = ucast sz, ddr3_addr = mo_ddr3_addr m, host_vaddr = ptr\<rparr> w =
      (0, \<lparr>m_dev = d, m_host = m_host w, m_ddr = g\<rparr>)" "same_ring (m_dev w) d"
    "\<forall>k < unat sz. g (unat (mo_ddr3_addr m) + k) = m_host w (loc (bd_pt b) (ptr + of_nat k))"
    "\<forall>x. x \<notin> {unat (mo_ddr3_addr m) ..< unat (mo_ddr3_addr m) + unat sz} \<longrightarrow> g x = m_ddr w x" .
  from rw [of "\<lparr>m_dev = d, m_host = m_host w, m_ddr = g\<rparr>"] c(1) obj(1-3)
  obtain l' where "call b (\<lambda>sys. clEnqueueWriteBuffer sys q p 0 sz ptr None) (u\<lparr>sys_log := l\<rparr>, w) =
      Some (CL_SUCCESS, u\<lparr>sys_log := l'\<rparr>, \<lparr>m_dev = d, m_host = m_host w, m_ddr = g\<rparr>)"
    unfolding clEnqueueWriteBuffer_def by auto
  then show thesis
    by (rule that) (use c fit(2) at_rest_same [OF rest c(2)] in \<open>simp_all add: byte_at_def same_ring_def\<close>)
qed

lemma call_read:
  assumes ok: "board_ok b bus" and rest: "at_rest (m_dev w)" and sz: "1 \<le> unat sz" "unat sz \<le> 2 ^ 24"
    and buf: "mapped (bd_env b) (bd_pt b) ptr (unat sz)" and inj: "inj_on (byte_at (bd_pt b) ptr) {..<unat sz}"
    and obj: "mems u p = Some m" "queues u q = Some cq" "contexts u (cq_context cq) = Some cx" "q \<noteq> 0" "p \<noteq> 0"
    and fit: "sz \<le> mo_size m" "unat (mo_ddr3_addr m) = a" "a + unat sz \<le> 2 ^ 64"
  obtains l' w' where "call b (\<lambda>sys. clEnqueueReadBuffer sys q p 0 sz ptr None) (u\<lparr>sys_log := l\<rparr>, w) =
      Some (CL_SUCCESS, u\<lparr>sys_log := l'\<rparr>, w')"
    and "at_rest (m_dev w')" and "csr_mem (m_dev w') = csr_mem (m_dev w)" and "m_ddr w' = m_ddr w"
    and "\<forall>k < unat sz. m_host w' (byte_at (bd_pt b) ptr k) = m_ddr w (a + k)"
    and "\<forall>x. x \<notin> byte_at (bd_pt b) ptr ` {..<unat sz} \<longrightarrow> m_host w' x = m_host w x"
proof -
  have W: "working (bd_abi b) (bd_env b) (bd_pt b) bus (bd_engine b)" using ok by (simp add: board_ok_def)
  have ring: "length (desc_ring (m_dev w)) = 8192" using rest by (simp add: at_rest_def)
  have "ptr \<noteq> 0" "\<not> 0 + sz > mo_size m" using buf fit(1) by (simp_all add: mapped_def not_less)
  note rw = call_rw [where u = "u\<lparr>sys_log := l\<rparr>" and b = b and w = w and dir = FPGAGPU_DMA_FROM_DEVICE, OF _ _ _ obj(4,5) this, where cq = cq and cx = cx]
  have inj': "inj_on (\<lambda>k. loc (bd_pt b) (ptr + of_nat k)) {..<unat sz}" using inj by (simp add: byte_at_def [abs_def])
  from dma_from [OF W buf order_refl order_refl sz fit(3) [folded fit(2)] ring inj', where queue_mode = "bd_mode b" and torn = "bd_torn b"]
  obtain d h where c: "ioctl_dma (bd_abi b) (bd_env b) (bd_mode b) (bd_engine b) (bd_torn b)
      \<lparr>dma_direction = FPGAGPU_DMA_FROM_DEVICE, dma_size = ucast sz, ddr3_addr = mo_ddr3_addr m, host_vaddr = ptr\<rparr> w =
      (0, \<lparr>m_dev = d, m_host = h, m_ddr = m_ddr w\<rparr>)" "same_ring (m_dev w) d"
    "\<forall>k < unat sz. h (loc (bd_pt b) (ptr + of_nat k)) = m_ddr w (unat (mo_ddr3_addr m) + k)"
    "\<forall>x. x \<notin> (\<lambda>k. loc (bd_pt b) (ptr + of_nat k)) ` {..<unat sz} \<longrightarrow> h x = m_host w x" .
  from rw [of "\<lparr>m_dev = d, m_host = h, m_ddr = m_ddr w\<rparr>"] c(1) obj(1-3)
  obtain l' where "call b (\<lambda>sys. clEnqueueReadBuffer sys q p 0 sz ptr None) (u\<lparr>sys_log := l\<rparr>, w) =
      Some (CL_SUCCESS, u\<lparr>sys_log := l'\<rparr>, \<lparr>m_dev = d, m_host = h, m_ddr = m_ddr w\<rparr>)"
    unfolding clEnqueueReadBuffer_def by auto
  then show thesis
    by (rule that) (use c fit(2) at_rest_same [OF rest c(2)] in \<open>simp_all add: byte_at_def [abs_def] same_ring_def del: split_paired_All\<close>)
qed

section \<open>Programs\<close>

text \<open>Calls with the results of \<open>clCreateContext\<close> and of \<open>clCreateBuffer\<close>: a code and an object.\<close>

definition object :: "int \<times> nat \<times> umd \<Rightarrow> ((int \<times> nat) \<times> umd)" where
  "object x = (case x of (err, p, u) \<Rightarrow> ((err, p), u))"

lemma object_simp [simp]: "object (err, p, u) = ((err, p), u)"
  by (simp add: object_def)

lemma call_context:
  assumes "board_ok b bus"
  obtains log where "call b (\<lambda>sys u. Some (object (clCreateContext sys 1 (Some dev) (Some p) u))) (u, w) =
    Some ((CL_SUCCESS, p), u\<lparr>contexts := (contexts u)(p \<mapsto> \<lparr>cx_device = dev, cx_fd = bd_fd b, cx_refs = 1\<rparr>),
      device_fd := bd_fd b, vram_state := fpgagpu_vram_init (vram_state u), sys_log := log\<rparr>, w)"
proof -
  have fd: "\<not> bd_fd b < 0" and abi: "ioc_ok (bd_abi b)" using assms by (simp_all add: board_ok_def working_def)
  have o: "serve b SysOpen w = (bd_fd b, w)" by (simp add: serve_def)
  obtain r where v: "serve b (SysVersion (bd_fd b)) w = (r, w)" using version_keeps [OF abi, of "bd_env b" "bd_mode b" w] by (auto simp: serve_def)
  have "call b (\<lambda>sys u. Some (object (clCreateContext sys 1 (Some dev) (Some p) u))) (u, w) =
    Some ((CL_SUCCESS, p), u\<lparr>contexts := (contexts u)(p \<mapsto> \<lparr>cx_device = dev, cx_fd = bd_fd b, cx_refs = 1\<rparr>),
      device_fd := bd_fd b, vram_state := fpgagpu_vram_init (vram_state u),
      sys_log := sys_log u @ [(SysOpen, bd_fd b), (SysVersion (bd_fd b), r)]\<rparr>, w)"
    by (simp add: call_def clCreateContext_def do_sys_def Let_def fd o v machine_sys_first machine_sys_next split_def)
  then show thesis by (rule that)
qed

lemma call_close:
  assumes "contexts u p = Some c" and "cx_refs c = 1" and "p \<noteq> 0"
  obtains log where "call b (\<lambda>sys. clReleaseContext sys p) (u, w) =
    Some (CL_SUCCESS, u\<lparr>contexts := (contexts u)(p := None), sys_log := log\<rparr>, w)"
proof (cases "0 \<le> cx_fd c")
  case True
  have "call b (\<lambda>sys. clReleaseContext sys p) (u, w) =
      Some (CL_SUCCESS, u\<lparr>contexts := (contexts u)(p := None), sys_log := sys_log u @ [(SysClose (cx_fd c), 0)]\<rparr>, w)"
    using assms True by (simp add: call_def clReleaseContext_def do_sys_def Let_def machine_sys_first serve_def)
  then show thesis by (rule that)
next
  case False
  have "call b (\<lambda>sys. clReleaseContext sys p) (u, w) =
      Some (CL_SUCCESS, u\<lparr>contexts := (contexts u)(p := None), sys_log := sys_log u\<rparr>, w)"
    using assms False by (simp add: call_def clReleaseContext_def Let_def)
  then show thesis by (rule that)
qed

lemma call_finish:
  assumes "board_ok b bus" and "ring_inv (m_dev w)" and "queues u q = Some cq" and "contexts u (cq_context cq) = Some cx" and "q \<noteq> 0"
  obtains log d where "call b (\<lambda>sys. clFinish sys q) (u, w) = Some (CL_SUCCESS, u\<lparr>sys_log := log\<rparr>,
      w\<lparr>m_dev := d, m_ddr := bd_gpu b (m_dev w) (m_ddr w)\<rparr>)"
    and "ring_inv d" and "csr_mem d RING_HEAD = csr_mem d RING_TAIL" and "desc_ring d = desc_ring (m_dev w)"
proof -
  from doorbell_drains [OF assms(1,2)] obtain d where d: "ioctl_doorbell (bd_abi b) (bd_env b) (bd_mode b) 0 w = (0, w\<lparr>m_dev := d\<rparr>)"
    "ring_inv d" "csr_mem d RING_HEAD = csr_mem d RING_TAIL" "desc_ring d = desc_ring (m_dev w)" by metis
  have "serve b (SysDoorbell (cx_fd cx)) w = (0, w\<lparr>m_dev := d, m_ddr := bd_gpu b (m_dev w) (m_ddr w)\<rparr>)"
    by (simp add: serve_def d(1))
  then have "call b (\<lambda>sys. clFinish sys q) (u, w) = Some (CL_SUCCESS, u\<lparr>sys_log := sys_log u @ [(SysDoorbell (cx_fd cx), 0)]\<rparr>,
      w\<lparr>m_dev := d, m_ddr := bd_gpu b (m_dev w) (m_ddr w)\<rparr>)"
    using assms(3-5) by (simp add: call_def clFinish_def do_sys_def Let_def machine_sys_first)
  then show thesis using d(2-4) by (rule that)
qed

text \<open>A copy of a buffer, through the bounce buffer of the user mode driver.\<close>

lemma call_copied:
  assumes ok: "board_ok b bus" and rest: "at_rest (m_dev w)" and sz: "1 \<le> unat sz" "unat sz \<le> 2 ^ 24"
    and buf: "mapped (bd_env b) (bd_pt b) bounce (unat sz)" and inj: "inj_on (byte_at (bd_pt b) bounce) {..<unat sz}"
    and obj: "mems u p1 = Some m1" "mems u p2 = Some m2" "queues u q = Some cq" "contexts u (cq_context cq) = Some cx"
      "q \<noteq> 0" "p1 \<noteq> 0" "p2 \<noteq> 0"
    and fit: "sz \<le> mo_size m1" "sz \<le> mo_size m2" "unat (mo_ddr3_addr m1) = a1" "unat (mo_ddr3_addr m2) = a2"
      "a1 + unat sz \<le> 2 ^ 64" "a2 + unat sz \<le> 2 ^ 64"
  obtains l' w' where "call b (\<lambda>sys. clEnqueueCopyBuffer sys q p1 p2 0 0 sz (Some bounce) None) (u\<lparr>sys_log := l\<rparr>, w) =
      Some (CL_SUCCESS, u\<lparr>sys_log := l'\<rparr>, w')"
    and "at_rest (m_dev w')" and "\<forall>k < unat sz. m_ddr w' (a2 + k) = m_ddr w (a1 + k)"
    and "\<forall>x. x \<notin> byte_at (bd_pt b) bounce ` {..<unat sz} \<longrightarrow> m_host w' x = m_host w x"
proof -
  have W: "working (bd_abi b) (bd_env b) (bd_pt b) bus (bd_engine b)" using ok by (simp add: board_ok_def)
  let ?dma = "ioctl_dma (bd_abi b) (bd_env b) (bd_mode b) (bd_engine b) (bd_torn b)"
  let ?L = "\<lambda>k. loc (bd_pt b) (bounce + of_nat k)"
  have ring: "length (desc_ring (m_dev w)) = 8192" using rest by (simp add: at_rest_def)
  have inj': "inj_on ?L {..<unat sz}" using inj by (simp add: byte_at_def [abs_def])
  from dma_from [OF W buf order_refl order_refl sz fit(5) [folded fit(3)] ring inj', where queue_mode = "bd_mode b" and torn = "bd_torn b"]
  obtain d h where c1: "?dma \<lparr>dma_direction = FPGAGPU_DMA_FROM_DEVICE, dma_size = ucast sz, ddr3_addr = mo_ddr3_addr m1, host_vaddr = bounce\<rparr> w =
      (0, \<lparr>m_dev = d, m_host = h, m_ddr = m_ddr w\<rparr>)" "same_ring (m_dev w) d"
    "\<forall>k < unat sz. h (?L k) = m_ddr w (unat (mo_ddr3_addr m1) + k)" "\<forall>x. x \<notin> ?L ` {..<unat sz} \<longrightarrow> h x = m_host w x" .
  let ?w1 = "\<lparr>m_dev = d, m_host = h, m_ddr = m_ddr w\<rparr>"
  have rest1: "at_rest (m_dev ?w1)" using at_rest_same [OF rest c1(2)] by simp
  then have ring1: "length (desc_ring (m_dev ?w1)) = 8192" by (simp add: at_rest_def)
  from dma_to [OF W buf order_refl order_refl sz fit(6) [folded fit(4)] ring1, where queue_mode = "bd_mode b" and torn = "bd_torn b"]
  obtain e g where c2: "?dma \<lparr>dma_direction = FPGAGPU_DMA_TO_DEVICE, dma_size = ucast sz, ddr3_addr = mo_ddr3_addr m2, host_vaddr = bounce\<rparr> ?w1 =
      (0, \<lparr>m_dev = e, m_host = m_host ?w1, m_ddr = g\<rparr>)" "same_ring (m_dev ?w1) e"
    "\<forall>k < unat sz. g (unat (mo_ddr3_addr m2) + k) = m_host ?w1 (?L k)" .
  from call_copy [where u = "u\<lparr>sys_log := l\<rparr>" and b = b and w = w and w' = ?w1 and w'' = "\<lparr>m_dev = e, m_host = m_host ?w1, m_ddr = g\<rparr>"
      and cq = cq and cx = cx and ?o1.0 = 0 and ?o2.0 = 0 and sz = sz and bounce = bounce, OF _ _ _ _ obj(5-7)] c1(1) c2(1) obj(1-4) fit(1,2)
  obtain l' where "call b (\<lambda>sys. clEnqueueCopyBuffer sys q p1 p2 0 0 sz (Some bounce) None) (u\<lparr>sys_log := l\<rparr>, w) =
      Some (CL_SUCCESS, u\<lparr>sys_log := l'\<rparr>, \<lparr>m_dev = e, m_host = m_host ?w1, m_ddr = g\<rparr>)" by (auto simp: not_less)
  then show thesis
    by (rule that) (use c1(3,4) c2(3) fit(3,4) at_rest_same [OF rest1 c2(2)] in \<open>simp_all add: byte_at_def [abs_def] del: split_paired_All\<close>)
qed

text \<open>A wait on a drained ring.\<close>

lemma call_waited:
  assumes ok: "board_ok b bus" and rest: "at_rest (m_dev w)"
    and obj: "queues u q = Some cq" "contexts u (cq_context cq) = Some cx" "q \<noteq> 0"
  obtains l' w' where "call b (\<lambda>sys. clFinish sys q) (u\<lparr>sys_log := l\<rparr>, w) = Some (CL_SUCCESS, u\<lparr>sys_log := l'\<rparr>, w')"
    and "at_rest (m_dev w')" and "m_ddr w' = m_ddr w" and "m_host w' = m_host w"
proof -
  have "ring_inv (m_dev w)" using rest by (simp add: at_rest_def)
  from call_finish [OF ok this, where u = "u\<lparr>sys_log := l\<rparr>" and q = q and cq = cq and cx = cx] obj
  obtain l' d where c: "call b (\<lambda>sys. clFinish sys q) (u\<lparr>sys_log := l\<rparr>, w) = Some (CL_SUCCESS, u\<lparr>sys_log := l'\<rparr>,
      w\<lparr>m_dev := d, m_ddr := bd_gpu b (m_dev w) (m_ddr w)\<rparr>)"
    and d: "ring_inv d" "csr_mem d RING_HEAD = csr_mem d RING_TAIL" "desc_ring d = desc_ring (m_dev w)" by auto
  show thesis by (rule that [OF c]) (use ok rest d in \<open>simp_all add: board_ok_def at_rest_def\<close>)
qed

end
