(* ===== verification/Launch.thy ===== *)
theory Launch
  imports Stack Ioctl
begin

text \<open>
  A kernel launch through the whole stack: the requests of \<open>clEnqueueNDRangeKernel\<close>
  (\<open>umd/src/cl_enqueue.c\<close>), served one after the other by \<open>fpgagpu_ioctl\<close>
  (\<open>driver/fpgagpu_ioctl.c\<close>), and what they leave on the device.
\<close>

section \<open>Requests served by the kernel driver\<close>

text \<open>The command number a request is made with; opening and closing are not ioctls.\<close>

fun request_number :: "ioc_abi \<Rightarrow> sys_call \<Rightarrow> u32 option" where
  "request_number abi SysOpen = None"
| "request_number abi (SysClose fd) = None"
| "request_number abi (SysVersion fd) = Some (FPGAGPU_IOC_GET_VERSION abi)"
| "request_number abi (SysDma fd p page) = Some (FPGAGPU_IOC_DMA_TRANSFER abi)"
| "request_number abi (SysLoad fd k ws) = Some (FPGAGPU_IOC_LOAD_KERNEL abi)"
| "request_number abi (SysSubmit fd c) = Some (FPGAGPU_IOC_SUBMIT_CMD abi)"
| "request_number abi (SysDoorbell fd) = Some (FPGAGPU_IOC_DOORBELL abi)"

text \<open>What the driver finds in user memory when a request is made.\<close>

fun delivered :: "kenv \<Rightarrow> u64 \<Rightarrow> sys_call \<Rightarrow> bool" where
  "delivered env arg (SysDma fd p page) \<longleftrightarrow> copy_dma_param env arg = Some p"
| "delivered env arg (SysLoad fd k ws) \<longleftrightarrow> copy_kernel_binary env arg = Some k \<and>
     user_words env (user_instr_ptr k) 0 (unat (instr_size k)) = map Some ws"
| "delivered env arg (SysSubmit fd c) \<longleftrightarrow> copy_launch_cmd env arg = Some c"
| "delivered env arg c \<longleftrightarrow> True"

text \<open>The driver serves a sequence of requests, each with success; nothing comes in between.\<close>

fun served ::
  "ioc_abi \<Rightarrow> int \<Rightarrow> (sys_call \<times> kenv \<times> u64) list \<Rightarrow> fpgagpu_dev \<Rightarrow> fpgagpu_dev \<Rightarrow> bool" where
  "served abi mode [] d d' \<longleftrightarrow> d' = d"
| "served abi mode ((c, env, arg) # rest) d d' \<longleftrightarrow> delivered env arg c \<and>
     (case request_number abi c of
        None \<Rightarrow> False
      | Some n \<Rightarrow>
         (case fpgagpu_ioctl abi env mode n arg d of
            (r, info, d1) \<Rightarrow> r = OK \<and> served abi mode rest d1 d'))"

text \<open>The documented behaviour of what the driver calls, together.\<close>

definition host_ok :: "(u64 \<Rightarrow> u64 \<times> nat) \<Rightarrow> kenv \<Rightarrow> bool" where
  "host_ok bus env \<longleftrightarrow> gup_ok env \<and> dma_map_ok bus env \<and> wait_ok env \<and> fw_only_head env \<and> wait_frame env"

section \<open>Each step on the device\<close>

lemma ioctl_branch:
  assumes "ioc_ok abi"
  shows "fpgagpu_ioctl abi env mode (FPGAGPU_IOC_DMA_TRANSFER abi) arg d
       = (let (r, d') = dma_transfer env arg d in (r, None, d'))"
    and "fpgagpu_ioctl abi env mode (FPGAGPU_IOC_SUBMIT_CMD abi) arg d
       = (let (r, d') = submit_cmd env mode arg d in (r, None, d'))"
    and "fpgagpu_ioctl abi env mode (FPGAGPU_IOC_DOORBELL abi) arg d
       = (let (r, d') = doorbell env mode d in (r, None, d'))"
    and "fpgagpu_ioctl abi env mode (FPGAGPU_IOC_LOAD_KERNEL abi) arg d
       = (let (r, d') = load_kernel env arg d in (r, None, d'))"
  using ioc_cmd_distinct [OF assms]
  by (auto simp: ioctl_is_switch [OF assms] ioctl_switch_def)

lemma served_launch:
  assumes "ioc_ok abi"
    and "served abi mode [(SysDma f p page, e1, a1), (SysLoad f k ws, e2, a2), (SysSubmit f c, e3, a3),
      (SysDoorbell f, e4, a4)] d d'"
  obtains d1 d2 d3 where "copy_dma_param e1 a1 = Some p" "dma_transfer e1 a1 d = (OK, d1)"
    "copy_kernel_binary e2 a2 = Some k"
    "user_words e2 (user_instr_ptr k) 0 (unat (instr_size k)) = map Some ws"
    "load_kernel e2 a2 d1 = (OK, d2)" "copy_launch_cmd e3 a3 = Some c"
    "submit_cmd e3 mode a3 d2 = (OK, d3)" "doorbell e4 mode d3 = (OK, d')"
  using assms(2)
  by (auto simp: ioctl_branch [OF assms(1)] Let_def split: prod.splits)

lemma dma_device:
  assumes "gup_ok env" and "dma_transfer env arg d = (OK, d')"
  shows "csr_mem d' = csr_mem d" and "desc_ring_dma_addr d' = desc_ring_dma_addr d"
  by (rule dma_started [OF assms]; simp add: dma_done_def dma_aborted_def)+

lemma doorbell_device:
  assumes "doorbell env mode d = (OK, d')" and "wait_ok env" and "wait_frame env" and "ring_inv d"
  shows "mode = 0" and "a \<noteq> RING_HEAD \<Longrightarrow> csr_mem d' a = csr_mem d a"
    and "ring_queue d' = []" and "desc_ring d' = desc_ring d"
proof -
  let ?P = "\<lambda>d'. ioread32 d' RING_HEAD = ioread32 d RING_TAIL"
  from assms(1) show "mode = 0" by (auto simp: doorbell_def split: if_splits)
  with assms(1) obtain r where w: "wait_event env ?P d = (r, d')" and r: "0 < r"
    by (auto simp: doorbell_def Let_def split: if_splits prod.splits)
  from w assms(3,4) obtain h fired wakeups where
    d': "d' = d\<lparr>csr_mem := (csr_mem d)(RING_HEAD := h), dev_irq_fired := fired, dev_wakeups := wakeups\<rparr>"
    unfolding wait_frame_def by blast
  then show "a \<noteq> RING_HEAD \<Longrightarrow> csr_mem d' a = csr_mem d a" and "desc_ring d' = desc_ring d" by simp_all
  have "?P d'" using assms(2) w r unfolding wait_ok_def by blast
  then show "ring_queue d' = []"
    using d' ring_cells_distinct(2)
    by (simp add: ring_abs_def ring_pending_def ring_count_def ring_dist_def ioread32_def)
qed

lemma load_device:
  assumes "load_kernel env arg d = (OK, d')" and "copy_kernel_binary env arg = Some k"
    and "user_words env (user_instr_ptr k) 0 (unat (instr_size k)) = map Some ws"
    and "fw_only_head env" and "wait_frame env" and "wait_ok env" and "ring_inv d"
  shows "length ws = unat (instr_size k)" and "length ws \<le> 1024"
    and "get_words ioread32 FPGAGPU_KERNEL_STAGING_OFFSET (length ws) d' = ws"
    and "slot_view (csr_mem d') (unat (ioread32 d RING_TAIL)) = ring_entry (load_task k) (csr_mem d)"
    and "csr_mem d' RING_TAIL = (ioread32 d RING_TAIL + 1) mod QUEUE_SIZE"
    and "desc_ring d' = desc_ring d"
proof -
  let ?t = "ioread32 d RING_TAIL"
  show len: "length ws = unat (instr_size k)"
    using arg_cong [OF assms(3), of length] by (simp add: user_words_def)
  from assms(1,2) have "instr_size k \<noteq> 0" "\<not> 1024 < instr_size k"
    by (auto simp: load_kernel_def split: if_splits)
  then have ne: "ws \<noteq> []" and small': "length ws \<le> 1024"
    using len by (auto simp: word_less_nat_alt word_unat_eq_iff)
  show small: "length ws \<le> 1024" by (rule small')
  note del = load_kernel_delivers [OF assms(1,4,2,3) ne small]
  show "get_words ioread32 FPGAGPU_KERNEL_STAGING_OFFSET (length ws) d' = ws" by (rule del(3))
  show "slot_view (csr_mem d') (unat ?t) = ring_entry (load_task k) (csr_mem d)"
    by (rule slot_view_load) (use del(2) in \<open>auto simp: ioread32_def\<close>)
  show "csr_mem d' RING_TAIL = (?t + 1) mod QUEUE_SIZE"
    using del(2) by (simp add: ring_cells_distinct pub_mem_tail)
  have "ring_inv (load_published k ws d)"
    using assms(7) staged_ring [OF small, of d]
    by (simp add: load_published_def ring_wf_def ioread32_def pub_mem_head pub_mem_tail unat_succ_mod_queue)
  with del(1) assms(5) have "desc_ring d' = desc_ring (load_published k ws d)"
    unfolding wait_frame_def by fastforce
  then show "desc_ring d' = desc_ring d"
    by (simp add: load_published_def ring_publish_def staged_def mmio_defs)
qed

section \<open>The four requests of a launch\<close>

lemma launch_on_device:
  assumes "copy_dma_param e1 a1 = Some p" and "dma_transfer e1 a1 d = (OK, d1)"
    and "copy_kernel_binary e2 a2 = Some k"
    and "user_words e2 (user_instr_ptr k) 0 (unat (instr_size k)) = map Some ws"
    and "load_kernel e2 a2 d1 = (OK, d2)" and "copy_launch_cmd e3 a3 = Some c"
    and "submit_cmd e3 mode a3 d2 = (OK, d3)" and "doorbell e4 mode d3 = (OK, d')"
    and "host_ok bus e1" and "host_ok bus e2" and "host_ok bus e4" and "dev_ok d"
  shows "get_words ioread32 FPGAGPU_KERNEL_STAGING_OFFSET (length ws) d' = ws"
    and "desc_ring d' = desc_ring d1"
    and "slot_view (csr_mem d') (unat (ioread32 d RING_TAIL)) =
      (if unat (ioread32 d RING_TAIL) = 511 then None else Some (load_task k))"
    and "slot_view (csr_mem d') (Suc (unat (ioread32 d RING_TAIL)) mod 512) =
      (if unat (ioread32 d RING_TAIL) = 510 then None else Some (launch_task c))"
    and "ring_queue d' = []"
proof -
  let ?t = "ioread32 d RING_TAIL" and ?t2 = "(ioread32 d RING_TAIL + 1) mod QUEUE_SIZE"
  have ok1: "gup_ok e1" and ok2: "fw_only_head e2" "wait_frame e2" "wait_ok e2"
    and ok4: "wait_ok e4" "wait_frame e4"
    using assms(9-11) by (simp_all add: host_ok_def)
  note dma = dma_device [OF ok1 assms(2)]
  have inv1: "dev_ok d1" using dev_ok_dma [OF assms(12) ok1, of a1] assms(2) by simp
  have inv2: "dev_ok d2" using dev_ok_load [OF ok2(2) inv1, of a2] assms(5) by simp
  have inv3: "dev_ok d3" using dev_ok_submit [OF inv2, of e3 mode a3] assms(7) by simp
  have ring: "ring_inv d1" "ring_inv d3" using inv1 inv3 by (simp_all add: dev_ok_def)
  note load = load_device [OF assms(5,3,4) ok2 ring(1)]
  have tail: "ioread32 d1 RING_TAIL = ?t" and tail2: "ioread32 d2 RING_TAIL = ?t2"
    using dma(1) load(5) by (simp_all add: ioread32_def)
  have d3: "d3 = ring_publish ?t2 (launch_task c) d2"
  proof -
    have "submit_cmd e3 mode a3 d2 = (OK, d3)" "copy_launch_cmd e3 a3 = Some c" by (rule assms(7), rule assms(6))
    then show ?thesis by (simp add: submit_cmd_def Let_def tail2 split: if_splits)
  qed
  note bell = doorbell_device [OF assms(8) ok4 ring(2)]
  show "ring_queue d' = []" by (rule bell(3))
  have "desc_ring d3 = desc_ring d2" by (simp add: d3 ring_publish_def mmio_defs)
  with load(6) bell(4) show "desc_ring d' = desc_ring d1" by simp
  have "get_words ioread32 FPGAGPU_KERNEL_STAGING_OFFSET (length ws) d'
      = get_words ioread32 FPGAGPU_KERNEL_STAGING_OFFSET (length ws) d2"
    using load(2) by (intro get_words_cong)
      (simp add: ioread32_def bell(2) d3 pub_mem_below_ring ring_offsets bar0_offsets)
  with load(3) show "get_words ioread32 FPGAGPU_KERNEL_STAGING_OFFSET (length ws) d' = ws" by simp
  have view: "slot_view (csr_mem d') = slot_view (pub_mem ?t2 (launch_task c) (csr_mem d2))"
    by (rule slot_view_head) (simp add: bell(2) d3)
  have t: "unat ?t < 512" using assms(12) by (simp add: dev_ok_def ring_wf_def ioread32_def)
  then have t2: "unat ?t2 = Suc (unat ?t) mod 512" by (rule unat_succ_mod_queue)
  have "Suc n mod 512 \<noteq> n" if "n < 512" for n :: nat
    using that by (cases "n = 511") simp_all
  with t t2 have ne: "unat ?t2 \<noteq> unat ?t" by simp
  have "slot_view (csr_mem d') (unat ?t) = slot_view (csr_mem d2) (unat ?t)"
    unfolding view slot_view_pub_mem using ne by simp
  also have "\<dots> = ring_entry (load_task k) (csr_mem d1)" using load(4) tail by simp
  finally show "slot_view (csr_mem d') (unat ?t) = (if unat ?t = 511 then None else Some (load_task k))"
    using t tail by (simp add: ring_entry_def ioread32_def slot_in_bram_iff)
  have "slot_in_bram (unat ?t2) \<longleftrightarrow> unat ?t \<noteq> 510"
    unfolding t2 using t by (subst slot_in_bram_iff) (simp, cases "unat ?t = 511", simp_all)
  then show "slot_view (csr_mem d') (Suc (unat ?t) mod 512) =
      (if unat ?t = 510 then None else Some (launch_task c))"
    unfolding view t2 [symmetric] slot_view_pub_mem by (simp add: slot_view_def)
qed

section \<open>Properties\<close>

text \<open>C1: a launch reaches the device.  When \<open>clEnqueueNDRangeKernel\<close> returned success and the
  kernel driver served its four requests in a row, then in the final state of the device: the
  staging buffer holds the program's words; the descriptor chain moved the 4096 bytes of the
  argument page, in order, from the pages of the host buffer to device address 0; the slots at
  the old tail and after it hold the LOAD packet and the LAUNCH packet (slot 511, which is not
  ring memory, holds none); and the firmware has consumed everything that was queued.\<close>

theorem launch_reaches_device:
  assumes "kernel_inv u" and "ioc_ok abi" and "dev_ok d"
    and "clEnqueueNDRangeKernel sys q kern wd global local memalign ev u = Some (CL_SUCCESS, u')"
    and "map fst (drop (length (sys_log u)) (sys_log u')) = [c1, c2, c3, c4]"
    and "served abi mode [(c1, e1, a1), (c2, e2, a2), (c3, e3, a3), (c4, e4, a4)] d d'"
    and "\<forall>e \<in> {e1, e2, e3, e4}. host_ok bus e"
  shows "\<exists>k g gl buf cmd pgs ds. kernels u kern = Some k \<and> programs u (kn_program k) = Some g \<and>
    global = Some gl \<and> memalign = Some buf \<and> launch_cmd_of wd gl local = Some cmd \<and>
    get_words ioread32 FPGAGPU_KERNEL_STAGING_OFFSET (length (image_words g)) d' = image_words g \<and>
    get_user_pages_fast e1 (buf AND PAGE_MASK) (length pgs) False = (int (length pgs), pgs) \<and>
    chain_walk 8192 (desc_ring_dma_addr d) (desc_ring d') (desc_ring_dma_addr d) = Some ds \<and>
    map (\<lambda>(src, dst). (bus src, unat dst)) (chain_moves ds) =
      zip (user_bytes pgs (unat buf mod 4096) 4096) [0..<4096] \<and>
    slot_view (csr_mem d') (unat (ioread32 d RING_TAIL)) =
      (if unat (ioread32 d RING_TAIL) = 511 then None else Some (load_task (kernel_image g))) \<and>
    slot_view (csr_mem d') (Suc (unat (ioread32 d RING_TAIL)) mod 512) =
      (if unat (ioread32 d RING_TAIL) = 510 then None else Some (launch_task cmd)) \<and>
    ring_queue d' = []"
proof -
  have host: "host_ok bus e1" "host_ok bus e2" "host_ok bus e4" using assms(7) by simp_all
  from enqueue_kernel_requests [OF assms(1,4)] obtain k g and cx :: cl_context and gl buf cmd r1 r2 r3 r4 where
    k: "kernels u kern = Some k" "programs u (kn_program k) = Some g" "global = Some gl" "memalign = Some buf"
      "launch_cmd_of wd gl local = Some cmd"
    and log: "sys_log u' = sys_log u @
      [(SysDma (cx_fd cx) (kernarg_upload buf) (arg_page (take (unat (kn_num_args k)) (kn_args k))), r1),
       (SysLoad (cx_fd cx) (kernel_image g) (image_words g), r2), (SysSubmit (cx_fd cx) cmd, r3),
       (SysDoorbell (cx_fd cx), r4)]"
    by auto
  have "served abi mode [(SysDma (cx_fd cx) (kernarg_upload buf) (arg_page (take (unat (kn_num_args k)) (kn_args k))), e1, a1),
      (SysLoad (cx_fd cx) (kernel_image g) (image_words g), e2, a2), (SysSubmit (cx_fd cx) cmd, e3, a3),
      (SysDoorbell (cx_fd cx), e4, a4)] d d'"
    using assms(5,6) unfolding log by simp
  from served_launch [OF assms(2) this] obtain d1 d2 d3 where
    dma: "copy_dma_param e1 a1 = Some (kernarg_upload buf)" "dma_transfer e1 a1 d = (OK, d1)"
    and rest: "copy_kernel_binary e2 a2 = Some (kernel_image g)"
      "user_words e2 (user_instr_ptr (kernel_image g)) 0 (unat (instr_size (kernel_image g))) = map Some (image_words g)"
      "load_kernel e2 a2 d1 = (OK, d2)" "copy_launch_cmd e3 a3 = Some cmd" "submit_cmd e3 mode a3 d2 = (OK, d3)"
      "doorbell e4 mode d3 = (OK, d')" .
  note device = launch_on_device [OF dma rest host assms(3)]
  have host1: "gup_ok e1" "dma_map_ok bus e1" and ring: "length (desc_ring d) = 8192"
    using host(1) assms(3) by (simp_all add: host_ok_def dev_ok_def)
  obtain pgs ds where
    "get_user_pages_fast e1 (buf AND PAGE_MASK) (length pgs) False = (int (length pgs), pgs)"
    "chain_walk 8192 (desc_ring_dma_addr d) (desc_ring d') (desc_ring_dma_addr d) = Some ds"
    "map (\<lambda>(src, dst). (bus src, unat dst)) (chain_moves ds) =
      zip (user_bytes pgs (unat buf mod 4096) 4096) [0..<4096]"
    using host_to_device_moves [OF dma(2,1) _ host1 ring] device(2)
    by (auto simp: kernarg_upload_def FPGAGPU_KERNARG_BASE_def FPGAGPU_KERNARG_SIZE_def)
  with device(1,3-5) k show ?thesis by blast
qed

text \<open>A launch of 100 items of the one-word program of the sample application.\<close>

definition launch_cmd_100 :: fpgagpu_launch_cmd where
  "launch_cmd_100 = \<lparr>cmd_opcode = FPGAGPU_OPCODE_LAUNCH_KERNEL, cmd_grid_dim_x = 50, cmd_grid_dim_y = 1,
     cmd_block_dim_x = 2, cmd_block_dim_y = 1, cmd_dma_src_addr = 0, cmd_dma_dst_addr = 0,
     cmd_num_elements = 100, cmd_payload_size = 0, cmd_payload_vaddr = 0\<rparr>"

definition launch_env :: kenv where
  "launch_env = sample_env\<lparr>copy_dma_param := (\<lambda>_. Some (kernarg_upload 8192)),
     copy_launch_cmd := (\<lambda>_. Some launch_cmd_100),
     copy_kernel_binary := (\<lambda>_. Some \<lparr>user_instr_ptr = 4096, instr_size = 1, kernel_id = 1\<rparr>),
     get_user_u32 := (\<lambda>a. if a = 4096 then Some 513 else None)\<rparr>"

lemma launch_env_ok: "host_ok sample_bus launch_env"
  using sample_env_gup sample_env_map sample_env_wait sample_env_frame
  by (simp add: host_ok_def launch_env_def gup_ok_def dma_map_ok_def wait_ok_def fw_only_head_def wait_frame_def)

definition launch_dev :: fpgagpu_dev where
  "launch_dev = sample_dma_dev\<lparr>pinned_pages := replicate 8192 0\<rparr>"

lemma launch_dev_ok: "dev_ok launch_dev"
  by (simp add: dev_ok_def held_pages_def launch_dev_def sample_dma_dev_def sample_dev_def kzalloc_dev_def ring_wf_def)

lemma launch_dma: "\<exists>d'. dma_transfer launch_env 0 launch_dev = (OK, d')"
proof -
  have ok: "gup_ok launch_env" using launch_env_ok by (simp add: host_ok_def)
  have p: "copy_dma_param launch_env 0 = Some (kernarg_upload 8192)" by (simp add: launch_env_def)
  have check: "dma_check (kernarg_upload 8192) = Inr (0, 1, h2c_chan)"
    by (simp add: dma_check_def kernarg_upload_def FPGAGPU_KERNARG_SIZE_def offset_in_page_def PAGE_SIZE_def
        ULONG_MAX_def DIV_ROUND_UP_def dma_channel_def FPGAGPU_DMA_TO_DEVICE_def Let_def)
  have g: "get_user_pages_fast launch_env a (Suc 0) w = (1, [1])" for a w
    by (simp add: launch_env_def sample_env_def)
  have "dma_map_sg launch_env (sg_fill [1] (dma_size (kernarg_upload 8192)) 0) False \<noteq> []"
    by (simp add: launch_env_def sample_env_def sample_map_def kernarg_upload_def FPGAGPU_KERNARG_SIZE_def
        PAGE_SIZE_def Let_def)
  moreover have "xdma_poll (xdma_status launch_env) 0 XDMA_TIMEOUT \<noteq> 0" and "kmalloc_ok launch_env"
    using sample_poll by (simp_all add: launch_env_def) (simp add: sample_env_def)
  ultimately show ?thesis
    unfolding dma_transfer_paths [OF ok] by (simp add: p check g h2c_chan_def)
qed

lemma launch_served:
  "\<exists>d'. served linux_ioc 0 [(SysDma 9 (kernarg_upload 8192) page, launch_env, 0),
     (SysLoad 9 \<lparr>user_instr_ptr = 4096, instr_size = 1, kernel_id = 1\<rparr> [513], launch_env, 0),
     (SysSubmit 9 launch_cmd_100, launch_env, 0), (SysDoorbell 9, launch_env, 0)] launch_dev d'"
proof -
  obtain d1 where d1: "dma_transfer launch_env 0 launch_dev = (OK, d1)" using launch_dma by blast
  have "gup_ok launch_env" using launch_env_ok by (simp add: host_ok_def)
  from dma_device(1) [OF this d1] have ring: "ioread32 d1 RING_HEAD = 0" "ioread32 d1 RING_TAIL = 0"
    by (simp_all add: ioread32_def launch_dev_def sample_dma_dev_def sample_dev_def kzalloc_dev_def)
  have cells: "copy_kernel_binary launch_env 0 = Some \<lparr>user_instr_ptr = 4096, instr_size = 1, kernel_id = 1\<rparr>"
    "copy_launch_cmd launch_env 0 = Some launch_cmd_100" "copy_dma_param launch_env 0 = Some (kernarg_upload 8192)"
    "user_words launch_env 4096 0 1 = map Some [513]" and wait: "wait_event launch_env = sample_wait"
    by (simp_all add: launch_env_def sample_env_def user_words_Suc user_words_def)
  let ?k = "\<lparr>user_instr_ptr = 4096, instr_size = 1, kernel_id = 1\<rparr>"
  have full: "\<not> ring_full 0 0" "\<not> ring_full 1 1" by (simp_all add: ring_full_def QUEUE_SIZE_def)
  have succ: "((0 :: u32) + 1) mod QUEUE_SIZE = 1" "((1 :: u32) + 1) mod QUEUE_SIZE = 2"
    by (simp_all add: QUEUE_SIZE_def)
  have tail1: "ioread32 (load_published ?k [513] d1) RING_TAIL = 1"
    using succ by (simp add: ioread32_def load_published_def pub_mem_tail ring [unfolded ioread32_def])
  define d2 where "d2 = snd (sample_wait (\<lambda>d'. ioread32 d' RING_HEAD = 1) (load_published ?k [513] d1))"
  have ring2: "ioread32 d2 RING_HEAD = 1" "ioread32 d2 RING_TAIL = 1"
    using tail1 ring_cells_distinct by (simp_all add: d2_def sample_wait_def ioread32_def Let_def)
  have d2: "load_kernel launch_env 0 d1 = (OK, d2)"
    using load_kernel_staged [OF cells(1), of "[513]" d1] cells(4) full succ tail1 ring_cells_distinct
    by (simp add: ring wait d2_def sample_wait_def Let_def) (simp add: ioread32_def)
  define d3 where "d3 = ring_publish 1 (launch_task launch_cmd_100) d2"
  have d3: "submit_cmd launch_env 0 0 d2 = (OK, d3)"
    using full by (simp add: submit_cmd_def cells ring2 d3_def)
  define d4 where "d4 = snd (sample_wait (\<lambda>d'. ioread32 d' RING_HEAD = ioread32 d3 RING_TAIL) d3)"
  have d4: "doorbell launch_env 0 d3 = (OK, d4)"
    by (simp add: doorbell_def wait d4_def sample_wait_def Let_def ioread32_def)
  show ?thesis
    by (intro exI [of _ d4]) (simp add: ioctl_branch [OF linux_ioc_ok] d1 d2 d3 d4 cells cells(4) [unfolded One_nat_def])
qed

theorem launch_reaches_device_witness:
  "\<exists>u' d'. clEnqueueNDRangeKernel (\<lambda>_ _. 0) 4 6 1 (Some (\<lambda>_. 100)) None (Some 8192) None demo_launch
      = Some (CL_SUCCESS, u') \<and>
    get_words ioread32 FPGAGPU_KERNEL_STAGING_OFFSET 1 d' = [513] \<and>
    slot_view (csr_mem d') 1 = Some (launch_task launch_cmd_100) \<and> ring_queue d' = []"
proof -
  have inv: "kernel_inv demo_launch"
    by (simp add: kernel_inv_def kernel_ok_def demo_launch_def demo_kernel_def FPGAGPU_MAX_ARGS_def umd_start_def)
  obtain u' where run: "clEnqueueNDRangeKernel (\<lambda>_ _. 0) 4 6 1 (Some (\<lambda>_. 100)) None (Some 8192) None
      demo_launch = Some (CL_SUCCESS, u')" using demo_launch_run by blast
  have cmd: "launch_cmd_of 1 (\<lambda>_. 100) None = Some launch_cmd_100"
    by (simp add: launch_cmd_of_def grid_dim_def launch_cmd_100_def FPGAGPU_KERNARG_BASE_def)
  let ?page = "arg_page [\<lparr>ka_is_set = True, ka_is_mem = False, ka_size = 4, ka_scalar_val = 7, ka_mem_obj = 0\<rparr>]"
  have log: "map fst (drop (length (sys_log demo_launch)) (sys_log u')) =
      [SysDma 9 (kernarg_upload 8192) ?page, SysLoad 9 \<lparr>user_instr_ptr = 4096, instr_size = 1, kernel_id = 1\<rparr> [513],
       SysSubmit 9 launch_cmd_100, SysDoorbell 9]"
    using enqueue_kernel_requests [OF inv run] cmd
    by (auto simp: demo_launch_def umd_start_def kernel_image_def image_words_def demo_program_def
        demo_kernel_def)
  from launch_served [of ?page] obtain d' where d': "served linux_ioc 0 [(SysDma 9 (kernarg_upload 8192) ?page, launch_env, 0),
     (SysLoad 9 \<lparr>user_instr_ptr = 4096, instr_size = 1, kernel_id = 1\<rparr> [513], launch_env, 0),
     (SysSubmit 9 launch_cmd_100, launch_env, 0), (SysDoorbell 9, launch_env, 0)] launch_dev d'" by blast
  have host: "\<forall>e \<in> {launch_env, launch_env, launch_env, launch_env}. host_ok sample_bus e"
    using launch_env_ok by simp
  have tail: "ioread32 launch_dev RING_TAIL = 0"
    by (simp add: launch_dev_def sample_dma_dev_def sample_dev_def kzalloc_dev_def ioread32_def)
  from launch_reaches_device [OF inv linux_ioc_ok launch_dev_ok run log d' host]
  obtain k g where k: "kernels demo_launch 6 = Some k" "programs demo_launch (kn_program k) = Some g"
    and dev: "get_words ioread32 FPGAGPU_KERNEL_STAGING_OFFSET (length (image_words g)) d' = image_words g"
      "slot_view (csr_mem d') 1 = Some (launch_task launch_cmd_100)" "ring_queue d' = []"
    by (auto simp: cmd tail)
  from k have "image_words g = [513]"
    by (auto simp: demo_launch_def umd_start_def image_words_def demo_program_def demo_kernel_def)
  with run dev show ?thesis by auto
qed

text \<open>C20: the packet of a launch.  For sizes below 2^32 its blocks are not empty and it has, in x and in y, the least
  number of blocks that covers the size.  There are two exceptions, because 0 stands for a default in the kernel driver: an x
  size of 0 is given 32 columns of blocks (in as many rows as y needs), a y size of 0 one row.  The packet has no third
  dimension: sizes other than the first two change nothing, so only one layer of a deeper launch is covered.\<close>

theorem launch_packet_grid:
  assumes "\<forall>d < 2. unat (global d) < 2 ^ 32" and "\<forall>l d. local = Some l \<longrightarrow> d < 2 \<longrightarrow> unat (l d) < 2 ^ 32"
    and "launch_cmd_of work_dim global local = Some cmd"
  shows "0 < unat (pkt_block_dim_x (launch_task cmd)) \<and> 0 < unat (pkt_block_dim_y (launch_task cmd)) \<and>
    (if global 0 = 0 then pkt_grid_dim_x (launch_task cmd) = 32
     else \<forall>n. unat (global 0) \<le> n * unat (pkt_block_dim_x (launch_task cmd)) \<longleftrightarrow>
            unat (pkt_grid_dim_x (launch_task cmd)) \<le> n) \<and>
    (if work_dim > 1 \<and> global 1 \<noteq> 0
     then \<forall>n. unat (global 1) \<le> n * unat (pkt_block_dim_y (launch_task cmd)) \<longleftrightarrow>
            unat (pkt_grid_dim_y (launch_task cmd)) \<le> n
     else pkt_grid_dim_y (launch_task cmd) = 1) \<and>
    (\<forall>size. size 0 = global 0 \<and> size 1 = global 1 \<longrightarrow> launch_cmd_of work_dim size local = Some cmd)"
proof -
  note least = grid_covers_work [OF assms(1,2), of work_dim, unfolded assms(3) option.inject]
  have block: "0 < unat (cmd_block_dim_x cmd)" "0 < unat (cmd_block_dim_y cmd)" using least by auto
  have x: "unat (global 0) \<le> n * unat (cmd_block_dim_x cmd) \<longleftrightarrow> unat (cmd_grid_dim_x cmd) \<le> n" for n
    using least by auto
  have y: "work_dim > 1 \<Longrightarrow> unat (global 1) \<le> n * unat (cmd_block_dim_y cmd) \<longleftrightarrow> unat (cmd_grid_dim_y cmd) \<le> n"
    "\<not> work_dim > 1 \<Longrightarrow> cmd_grid_dim_y cmd = 1" for n
    using least by auto
  have zx: "cmd_grid_dim_x cmd = 0 \<longleftrightarrow> global 0 = 0"
    using x [of 0] by (simp add: word_unat_eq_iff)
  have zy: "work_dim > 1 \<Longrightarrow> cmd_grid_dim_y cmd = 0 \<longleftrightarrow> global 1 = 0"
    using y(1) [of 0] by (simp add: word_unat_eq_iff)
  have nz: "cmd_block_dim_x cmd \<noteq> 0" "cmd_block_dim_y cmd \<noteq> 0" using block by auto
  have layer: "launch_cmd_of work_dim size local = Some cmd" if "size 0 = global 0" "size 1 = global 1" for size
    using assms(3) unfolding launch_cmd_of_def that .
  show ?thesis
    using block x y zx zy nz layer by (auto simp: launch_task_def or_default_def)
qed

theorem launch_packet_grid_witness:
  "\<exists>cmd. launch_cmd_of 1 (\<lambda>_. 0) None = Some cmd \<and> cmd_grid_dim_x cmd = 0 \<and> cmd_num_elements cmd = 0 \<and>
    pkt_grid_dim_x (launch_task cmd) = 32"
proof -
  obtain cmd where cmd: "launch_cmd_of 1 (\<lambda>_. 0) None = Some cmd" "cmd_grid_dim_x cmd = 0" "cmd_num_elements cmd = 0"
    by (simp add: launch_cmd_of_def grid_dim_def)
  have "\<forall>d < (2 :: nat). unat (0 :: u64) < 2 ^ 32" by simp
  from launch_packet_grid [OF this _ cmd(1)] cmd show ?thesis by auto
qed

end
