(* ===== verification/KernelRun.thy ===== *)
theory KernelRun
  imports System Launch
begin

text \<open>
  A kernel launch on the machine of theory System: \<open>clEnqueueNDRangeKernel\<close> served by the kernel driver, up
  to what the GPU finds when the host starts to wait for it: the command in the ring, the code in the
  staging buffer and the arguments in the memory of the device.  Then what a GPU and a compiler promise, and the
  other calls a program with a kernel makes.
\<close>

section \<open>Words in memory\<close>

lemma le_word_bytes_le: "le_word (bytes_le w) = w"
proof (rule bit_word_eqI)
  fix n assume "n < LENGTH(32)"
  consider "n < 8" | "8 \<le> n" "n < 16" | "16 \<le> n" "n < 24" | "24 \<le> n" by linarith
  then show "bit (le_word (bytes_le w) :: u32) n \<longleftrightarrow> bit w n"
    by cases (auto simp: bytes_le_def bit_simps dest: bit_imp_le_length)
qed

lemma length_bytes [simp]: "length (concat (map bytes_le ws)) = 4 * length ws"
  by (induction ws) (simp_all add: bytes_le_def)

lemma nth_bytes: "i < length ws \<Longrightarrow> j < 4 \<Longrightarrow> concat (map bytes_le ws) ! (4 * i + j) = bytes_le (ws ! i) ! j"
proof (induction ws arbitrary: i)
  case (Cons w ws)
  have "length (bytes_le w) = 4" by (simp add: bytes_le_def)
  with Cons show ?case by (cases i) (simp_all add: nth_append)
qed simp

definition get32 :: "device_memory \<Rightarrow> nat \<Rightarrow> u32" where
  "get32 g a = le_word [g a, g (a + 1), g (a + 2), g (a + 3)]"

lemma get32_cong: "(\<And>k. k < 4 \<Longrightarrow> g (a + k) = h (c + k)) \<Longrightarrow> get32 g a = get32 h c"
proof -
  assume eq: "\<And>k. k < 4 \<Longrightarrow> g (a + k) = h (c + k)"
  show ?thesis using eq [of 0] eq [of 1] eq [of 2] eq [of 3] by (simp add: get32_def)
qed

lemma get32_word:
  assumes "\<And>k. k < 4 * length ws \<Longrightarrow> g k = concat (map bytes_le ws) ! k" and "i < length ws"
  shows "get32 g (4 * i) = ws ! i"
proof -
  have "g (4 * i + j) = bytes_le (ws ! i) ! j" if "j < 4" for j
    using assms nth_bytes [OF assms(2) that] that by simp
  from this [of 0] this [of 1] this [of 2] this [of 3]
  have "[g (4 * i), g (4 * i + 1), g (4 * i + 2), g (4 * i + 3)] = bytes_le (ws ! i)"
    by (simp add: bytes_le_def numeral_2_eq_2 numeral_3_eq_3)
  then show ?thesis by (simp only: get32_def le_word_bytes_le)
qed

definition put32 :: "nat \<Rightarrow> u32 \<Rightarrow> device_memory \<Rightarrow> device_memory" where
  "put32 a v g = (let bs = bytes_le v in g(a := bs ! 0, a + 1 := bs ! 1, a + 2 := bs ! 2, a + 3 := bs ! 3))"

lemma bytes_le_4: "bytes_le v = [bytes_le v ! 0, bytes_le v ! 1, bytes_le v ! 2, bytes_le v ! 3]"
  by (simp add: bytes_le_def numeral_2_eq_2 numeral_3_eq_3)

lemma get32_put32 [simp]: "get32 (put32 a v g) a = v"
proof -
  let ?g = "put32 a v g"
  have "[?g a, ?g (a + 1), ?g (a + 2), ?g (a + 3)] = bytes_le v"
    by (subst bytes_le_4) (simp add: put32_def Let_def)
  then show ?thesis by (simp only: get32_def le_word_bytes_le)
qed

lemma get32_put32_other: "a + 4 \<le> c \<or> c + 4 \<le> a \<Longrightarrow> get32 (put32 a v g) c = get32 g c"
  by (auto simp: get32_def put32_def Let_def)

section \<open>The three requests after the upload\<close>

lemma load_words:
  assumes "unat (instr_size k) = length ws" and "length ws \<le> 1024"
  shows "user_words (env\<lparr>copy_kernel_binary := x, get_user_u32 :=
      map_of (zip (map (\<lambda>i. user_instr_ptr k + of_nat (4 * i)) [0..<length ws]) ws)\<rparr>)
    (user_instr_ptr k) 0 (unat (instr_size k)) = map Some ws"
proof -
  let ?as = "map (\<lambda>i. user_instr_ptr k + of_nat (4 * i)) [0..<length ws]"
  have "inj_on (\<lambda>i. user_instr_ptr k + of_nat (4 * i)) {0..<length ws}"
  proof (rule inj_onI)
    fix i j assume "i \<in> {0..<length ws}" "j \<in> {0..<length ws}"
      and eq: "user_instr_ptr k + of_nat (4 * i) = user_instr_ptr k + of_nat (4 * j)"
    then have "unat (of_nat (4 * i) :: u64) = 4 * i" "unat (of_nat (4 * j) :: u64) = 4 * j"
      using assms(2) by (intro unat_of_nat_u64; simp)+
    with eq show "i = j" by (metis add_left_cancel mult_cancel1 zero_neq_numeral)
  qed
  then have dist: "distinct ?as" by (simp add: distinct_map)
  have "map_of (zip ?as ws) (user_instr_ptr k + of_nat (4 * i)) = Some (ws ! i)" if "i < length ws" for i
    using map_of_zip_nth [of ?as ws i] dist that by simp
  then show ?thesis by (intro nth_equalityI) (simp_all add: user_words_def assms(1) del: of_nat_mult)
qed

text \<open>LOAD_KERNEL: the words are staged, the packet is queued and the firmware takes it.\<close>

lemma load_on_machine:
  assumes ok: "board_ok b bus" and fw: "fw_only_head (bd_env b)" and rest: "at_rest (m_dev w)"
    and k: "unat (instr_size k) = length ws" "ws \<noteq> []" "length ws \<le> 1024"
  obtains d where "ioctl_load (bd_abi b) (bd_env b) (bd_mode b) k ws w = (0, w\<lparr>m_dev := d\<rparr>)" and "at_rest d"
    and "get_words ioread32 FPGAGPU_KERNEL_STAGING_OFFSET (length ws) d = ws"
    and "csr_mem d RING_TAIL = (csr_mem (m_dev w) RING_TAIL + 1) mod QUEUE_SIZE"
proof -
  have abi: "ioc_ok (bd_abi b)" using ok by (simp add: board_ok_def working_def)
  let ?env = "bd_env b\<lparr>copy_kernel_binary := \<lambda>_. Some k, get_user_u32 :=
      map_of (zip (map (\<lambda>i. user_instr_ptr k + of_nat (4 * i)) [0..<length ws]) ws)\<rparr>"
  have c: "copy_kernel_binary ?env 0 = Some k" by simp
  note words = load_words [OF k(1,3), where env = "bd_env b" and x = "\<lambda>_. Some k"]
  let ?pub = "load_published k ws (m_dev w)"
  have inv: "ring_inv (m_dev w)" and idle: "csr_mem (m_dev w) RING_HEAD = csr_mem (m_dev w) RING_TAIL"
    and len: "length (desc_ring (m_dev w)) = 8192" using rest by (simp_all add: at_rest_def)
  have room: "\<not> ring_full (ioread32 (m_dev w) RING_HEAD) (ioread32 (m_dev w) RING_TAIL)"
    using inv idle ring_full_count [OF inv] by (simp add: ioread32_def ring_count_def ring_dist_def)
  have tail: "ioread32 ?pub RING_TAIL = (ioread32 (m_dev w) RING_TAIL + 1) mod QUEUE_SIZE"
    by (simp add: load_published_def ioread32_def pub_mem_tail)
  obtain r d where wait: "wait_event (bd_env b) (\<lambda>d'. ioread32 d' RING_HEAD = ioread32 ?pub RING_TAIL) ?pub = (r, d)" by fastforce
  have r: "0 < r" using ok wait by (auto simp: board_ok_def dest: spec [of _ ?pub])
  have load: "load_kernel ?env 0 (m_dev w) = (OK, d)"
    using load_kernel_staged [OF c words k(2,3), of "m_dev w"] room wait r by (simp add: tail)
  have env: "fw_only_head ?env" "wait_frame ?env" "wait_ok ?env"
  proof -
    have "fw_only_head ?env = fw_only_head (bd_env b)" "wait_frame ?env = wait_frame (bd_env b)" "wait_ok ?env = wait_ok (bd_env b)"
      by (simp_all add: fw_only_head_def wait_frame_def wait_ok_def)
    then show "fw_only_head ?env" "wait_frame ?env" "wait_ok ?env" using fw ok by (simp_all add: board_ok_def)
  qed
  note dev = load_device [OF load c words env inv]
  have "ioread32 d RING_HEAD = ioread32 ?pub RING_TAIL" using ok wait r unfolding board_ok_def wait_ok_def by blast
  then have drained: "csr_mem d RING_HEAD = csr_mem d RING_TAIL" using dev(5) tail by (simp add: ioread32_def)
  have "unat ((csr_mem (m_dev w) RING_TAIL + 1) mod QUEUE_SIZE) < 512"
    using inv by (simp add: ring_wf_def unat_succ_mod_queue)
  then have "at_rest d" using drained dev(5,6) len by (simp add: at_rest_def ring_wf_def ioread32_def)
  moreover have "ioctl_load (bd_abi b) (bd_env b) (bd_mode b) k ws w = (0, w\<lparr>m_dev := d\<rparr>)"
    using load by (simp add: ioctl_load_def ioctl_branch [OF abi] Let_def sys_result_def)
  ultimately show thesis using dev(3,5) by (intro that) (simp_all add: ioread32_def)
qed

text \<open>SUBMIT_CMD on a drained ring.\<close>

lemma submit_on_machine:
  assumes ok: "board_ok b bus" and rest: "at_rest (m_dev w)" and slot: "unat (csr_mem (m_dev w) RING_TAIL) \<noteq> 511"
  obtains d where "ioctl_submit (bd_abi b) (bd_env b) (bd_mode b) cmd w = (0, w\<lparr>m_dev := d\<rparr>)" and "ring_inv d"
    and "ring_queue d = [Some (launch_task cmd)]" and "desc_ring d = desc_ring (m_dev w)"
    and "\<And>n. n \<le> 1024 \<Longrightarrow> get_words ioread32 FPGAGPU_KERNEL_STAGING_OFFSET n d = get_words ioread32 FPGAGPU_KERNEL_STAGING_OFFSET n (m_dev w)"
proof -
  have abi: "ioc_ok (bd_abi b)" using ok by (simp add: board_ok_def working_def)
  let ?d = "ring_publish (ioread32 (m_dev w) RING_TAIL) (launch_task cmd) (m_dev w)"
  have inv: "ring_inv (m_dev w)" and idle: "csr_mem (m_dev w) RING_HEAD = csr_mem (m_dev w) RING_TAIL"
    using rest by (simp_all add: at_rest_def)
  then have queue: "ring_queue (m_dev w) = []" by (simp add: ring_abs_def ring_pending_def ring_count_def ring_dist_def)
  have room: "\<not> ring_full (ioread32 (m_dev w) RING_HEAD) (ioread32 (m_dev w) RING_TAIL)"
    using inv idle ring_full_count [OF inv] by (simp add: ioread32_def ring_count_def ring_dist_def)
  have entry: "ring_entry (launch_task cmd) (csr_mem (m_dev w)) = Some (launch_task cmd)"
    using inv slot by (simp add: ring_entry_def slot_in_bram_iff ring_wf_def)
  show thesis
  proof (rule that [of ?d])
    show "ioctl_submit (bd_abi b) (bd_env b) (bd_mode b) cmd w = (0, w\<lparr>m_dev := ?d\<rparr>)"
      using room ok by (simp add: ioctl_submit_def ioctl_branch [OF abi] Let_def sys_result_def submit_cmd_def board_ok_def)
    show "ring_inv ?d" "ring_queue ?d = [Some (launch_task cmd)]"
      using ring_enq_room [OF inv, of "launch_task cmd"] room by (simp_all add: queue entry)
    show "desc_ring ?d = desc_ring (m_dev w)" by (simp add: ring_publish_def mmio_defs)
    show "get_words ioread32 FPGAGPU_KERNEL_STAGING_OFFSET n ?d = get_words ioread32 FPGAGPU_KERNEL_STAGING_OFFSET n (m_dev w)"
      if "n \<le> 1024" for n
      using that by (intro get_words_cong) (simp add: ioread32_def pub_mem_below_ring ring_offsets bar0_offsets)
  qed
qed

section \<open>A launch\<close>

text \<open>A kernel that was built, with its arguments set, and the page of them.\<close>

definition launchable :: "umd \<Rightarrow> nat \<Rightarrow> u32 list \<Rightarrow> u32 list \<Rightarrow> bool" where
  "launchable u k code page \<longleftrightarrow> k \<noteq> 0 \<and> code \<noteq> [] \<and> length code \<le> 1024 \<and>
     (\<exists>kn g a. kernels u k = Some kn \<and> kn_program kn \<noteq> 0 \<and> programs u (kn_program kn) = Some g \<and> pg_is_built g \<and>
        pg_binary_words g = Some (a, code) \<and> pg_num_instructions g = of_nat (length code) \<and>
        marshal_args 0 (take (unat (kn_num_args kn)) (kn_args kn)) (replicate (FPGAGPU_KERNARG_SIZE div 4) 0) = Some page)"

lemma put_user_filled:
  assumes "inj_on (byte_at pt a) {..<4 * length ws}"
  shows "filled (byte_at pt a) (4 * length ws) ((!) (concat (map bytes_le ws))) w (put_user pt a ws w)"
  using fold_put [of pt "\<lambda>i. a + of_nat i" "4 * length ws" "(!) (concat (map bytes_le ws))" w] assms
  by (simp add: put_user_def Let_def byte_at_def [abs_def])

lemma upload_on_machine:
  assumes ok: "board_ok b bus" and rest: "at_rest (m_dev w)" and len: "length page = 1024"
    and buf: "mapped (bd_env b) (bd_pt b) buf 4096" and inj: "inj_on (byte_at (bd_pt b) buf) {..<4096}"
  obtains d h g where "serve b (SysDma fd (kernarg_upload buf) page) w = (0, \<lparr>m_dev = d, m_host = h, m_ddr = g\<rparr>)"
    and "same_ring (m_dev w) d" and "\<forall>k < 4096. g k = concat (map bytes_le page) ! k" and "\<forall>a \<ge> 4096. g a = m_ddr w a"
    and "\<forall>x. x \<notin> byte_at (bd_pt b) buf ` {..<4096} \<longrightarrow> h x = m_host w x"
proof -
  let ?s = "put_user (bd_pt b) buf page w"
  have f: "filled (byte_at (bd_pt b) buf) 4096 ((!) (concat (map bytes_le page))) w ?s"
    using put_user_filled [of "bd_pt b" buf page w] inj len by simp
  have W: "working (bd_abi b) (bd_env b) (bd_pt b) bus (bd_engine b)" using ok by (simp add: board_ok_def)
  have ring: "length (desc_ring (m_dev ?s)) = 8192" using f rest by (simp add: filled_def at_rest_def)
  from dma_to [OF W buf order_refl, where sz = 4096 and addr = 0 and s = ?s and queue_mode = "bd_mode b" and torn = "bd_torn b", simplified, OF ring]
  obtain d g where c: "ioctl_dma (bd_abi b) (bd_env b) (bd_mode b) (bd_engine b) (bd_torn b)
      \<lparr>dma_direction = FPGAGPU_DMA_TO_DEVICE, dma_size = 4096, ddr3_addr = 0, host_vaddr = buf\<rparr> ?s = (0, \<lparr>m_dev = d, m_host = m_host ?s, m_ddr = g\<rparr>)"
    "same_ring (m_dev ?s) d" "\<forall>k < 4096. g k = m_host ?s (loc (bd_pt b) (buf + of_nat k))" "\<forall>a \<ge> 4096. g a = m_ddr ?s a"
    by (metis not_less)
  show thesis
  proof (rule that [of d "m_host ?s" g])
    show "serve b (SysDma fd (kernarg_upload buf) page) w = (0, \<lparr>m_dev = d, m_host = m_host ?s, m_ddr = g\<rparr>)"
      using c(1) by (simp add: serve_def kernarg_upload_def FPGAGPU_KERNARG_SIZE_def FPGAGPU_KERNARG_BASE_def)
  qed (use c f in \<open>simp_all add: filled_def byte_at_def\<close>)
qed

text \<open>The whole call: the four requests are served, the GPU starts on a device that holds the code, the arguments
  and the one command, and the driver's device is at rest afterwards.\<close>

lemma call_launch:
  assumes ok: "board_ok b bus" and fw: "fw_only_head (bd_env b)" and rest: "at_rest (m_dev w)"
    and slot: "unat (csr_mem (m_dev w) RING_TAIL) \<noteq> 510"
    and buf: "mapped (bd_env b) (bd_pt b) buf 4096" and inj: "inj_on (byte_at (bd_pt b) buf) {..<4096}"
    and kernel: "launchable u k code page"
    and queue: "queues u q = Some cq" "contexts u (cq_context cq) = Some cx" "q \<noteq> 0"
    and dims: "work_dim \<noteq> 0" "work_dim \<le> 3" "launch_cmd_of work_dim global local = Some cmd"
  obtains log w' d g where
    "call b (\<lambda>sys. clEnqueueNDRangeKernel sys q k work_dim (Some global) local (Some buf) None) (u, w) =
       Some (CL_SUCCESS, u\<lparr>sys_log := log\<rparr>, w')"
    and "ring_inv d" and "ring_queue d = [Some (launch_task cmd)]"
    and "get_words ioread32 FPGAGPU_KERNEL_STAGING_OFFSET (length code) d = code"
    and "\<forall>a < 4096. g a = concat (map bytes_le page) ! a" and "\<forall>a \<ge> 4096. g a = m_ddr w a"
    and "m_ddr w' = bd_gpu b d g" and "at_rest (m_dev w')"
    and "\<forall>x. x \<notin> byte_at (bd_pt b) buf ` {..<4096} \<longrightarrow> m_host w' x = m_host w x"
proof -
  obtain kn pg a where k: "kernels u k = Some kn" "kn_program kn \<noteq> 0" "programs u (kn_program kn) = Some pg" "pg_is_built pg"
    "pg_binary_words pg = Some (a, code)" "pg_num_instructions pg = of_nat (length code)"
    "marshal_args 0 (take (unat (kn_num_args kn)) (kn_args kn)) (replicate (FPGAGPU_KERNARG_SIZE div 4) 0) = Some page"
    and code: "code \<noteq> []" "length code \<le> 1024" and k0: "k \<noteq> 0" using kernel unfolding launchable_def by blast
  have len: "length page = 1024" using length_marshal [OF k(7)] by (simp add: FPGAGPU_KERNARG_SIZE_def)
  let ?fd = "cx_fd cx"
  obtain d1 h g where s1: "serve b (SysDma ?fd (kernarg_upload buf) page) w = (0, \<lparr>m_dev = d1, m_host = h, m_ddr = g\<rparr>)"
    and same: "same_ring (m_dev w) d1" and mem: "\<forall>k < 4096. g k = concat (map bytes_le page) ! k" "\<forall>a \<ge> 4096. g a = m_ddr w a"
    "\<forall>x. x \<notin> byte_at (bd_pt b) buf ` {..<4096} \<longrightarrow> h x = m_host w x"
    by (rule upload_on_machine [OF ok rest len buf inj])
  let ?w1 = "\<lparr>m_dev = d1, m_host = h, m_ddr = g\<rparr>"
  have rest1: "at_rest (m_dev ?w1)" using at_rest_same [OF rest same] by simp
  have size: "unat (instr_size (kernel_image pg)) = length code" using code(2)
    by (simp add: kernel_image_def k(6) unsigned_of_nat take_bit_eq_mod)
  have words: "image_words pg = code" by (simp add: image_words_def k(5))
  obtain d2 where l2: "ioctl_load (bd_abi b) (bd_env b) (bd_mode b) (kernel_image pg) code ?w1 = (0, ?w1\<lparr>m_dev := d2\<rparr>)"
    and rest2: "at_rest d2" and staged: "get_words ioread32 FPGAGPU_KERNEL_STAGING_OFFSET (length code) d2 = code"
    and tail2: "csr_mem d2 RING_TAIL = (csr_mem d1 RING_TAIL + 1) mod QUEUE_SIZE"
    using load_on_machine [OF ok fw rest1 size code] by (metis machine.select_convs(1))
  have s2: "serve b (SysLoad ?fd (kernel_image pg) (image_words pg)) ?w1 = (0, ?w1\<lparr>m_dev := d2\<rparr>)"
    by (simp add: serve_def words l2)
  let ?w2 = "?w1\<lparr>m_dev := d2\<rparr>"
  have "unat (csr_mem d1 RING_TAIL) < 512" "csr_mem d1 RING_TAIL = csr_mem (m_dev w) RING_TAIL"
    using rest1 same by (simp_all add: at_rest_def ring_wf_def same_ring_def)
  moreover have "(n + 1) mod 512 \<noteq> 511" if "n < 512" "n \<noteq> 510" for n :: nat
    using that by (cases "n = 511") simp_all
  ultimately have slot2: "unat (csr_mem (m_dev ?w2) RING_TAIL) \<noteq> 511" using slot by (simp add: tail2 unat_succ_mod_queue)
  have rest2': "at_rest (m_dev ?w2)" using rest2 by simp
  obtain d3 where l3: "ioctl_submit (bd_abi b) (bd_env b) (bd_mode b) cmd ?w2 = (0, ?w2\<lparr>m_dev := d3\<rparr>)"
    and inv3: "ring_inv d3" and q3: "ring_queue d3 = [Some (launch_task cmd)]" and desc3: "desc_ring d3 = desc_ring d2"
    and keep: "get_words ioread32 FPGAGPU_KERNEL_STAGING_OFFSET (length code) d3 = code"
    using submit_on_machine [OF ok rest2' slot2, of cmd] code(2) staged by simp metis
  have s3: "serve b (SysSubmit ?fd cmd) ?w2 = (0, ?w2\<lparr>m_dev := d3\<rparr>)" using l3 by (simp add: serve_def)
  let ?w3 = "?w2\<lparr>m_dev := d3\<rparr>"
  have inv3': "ring_inv (m_dev ?w3)" using inv3 by simp
  obtain d4 where l4: "ioctl_doorbell (bd_abi b) (bd_env b) (bd_mode b) 0 ?w3 = (0, ?w3\<lparr>m_dev := d4\<rparr>)"
    and rest4: "at_rest d4"
    using doorbell_drains [OF ok inv3'] desc3 rest2 unfolding at_rest_def by (metis machine.select_convs(1) machine.update_convs(1))
  let ?w4 = "?w3\<lparr>m_dev := d4, m_ddr := bd_gpu b d3 g\<rparr>"
  have s4: "serve b (SysDoorbell ?fd) ?w3 = (0, ?w4)" using l4 by (simp add: serve_def)
  have dim: "\<not> (work_dim = 0 \<or> work_dim > 3)" using dims(1,2) by (simp add: not_less)
  have run: "call b (\<lambda>sys. clEnqueueNDRangeKernel sys q k work_dim (Some global) local (Some buf) None) (u, w) =
      Some (CL_SUCCESS, u\<lparr>sys_log := sys_log u @ [(SysDma ?fd (kernarg_upload buf) page, 0),
        (SysLoad ?fd (kernel_image pg) (image_words pg), 0), (SysSubmit ?fd cmd, 0), (SysDoorbell ?fd, 0)]\<rparr>, ?w4)"
    using k k0 queue dim dims(3) s1 s2 s3 s4
    by (simp add: call_def clEnqueueNDRangeKernel_def launch_kernel_def do_sys_def Let_def machine_sys_first machine_sys_next
        complete_event_def)
  show thesis by (rule that [OF run inv3 q3 keep mem(1,2)]) (use rest4 mem(3) in simp_all)
qed

section \<open>The GPU and the compiler\<close>

text \<open>The argument \<open>i\<close> that lane \<open>lane\<close> finds in the page at \<open>base\<close>.\<close>

definition kernel_arg :: "nat \<Rightarrow> nat \<Rightarrow> nat \<Rightarrow> device_memory \<Rightarrow> u32" where
  "kernel_arg base lane i g = get32 g (base + 8 * i + 4 * lane)"

text \<open>The threads of a launch are named by their global ids, those of a block are dealt to two lanes.  The GPU runs
  every thread once, each as a whole, in some order.\<close>

type_synonym kernel_thread = "nat \<Rightarrow> nat \<Rightarrow> nat \<times> nat \<Rightarrow> device_memory \<Rightarrow> device_memory"

definition grid_threads :: "fpgagpu_dispatch_packet \<Rightarrow> (nat \<times> nat) list" where
  "grid_threads pkt = List.product [0..<unat (pkt_grid_dim_x pkt) * unat (pkt_block_dim_x pkt)]
     [0..<unat (pkt_grid_dim_y pkt) * unat (pkt_block_dim_y pkt)]"

definition run_threads :: "fpgagpu_dispatch_packet \<Rightarrow> kernel_thread \<Rightarrow> (nat \<times> nat) list \<Rightarrow> device_memory \<Rightarrow> device_memory" where
  "run_threads pkt thread =
     fold (\<lambda>i. let bx = unat (pkt_block_dim_x pkt); by = unat (pkt_block_dim_y pkt)
               in thread (unat (pkt_src_dma_addr pkt)) ((fst i mod bx + snd i mod by * bx) mod 2) i)"

definition gpu_runs :: "board \<Rightarrow> u32 list \<Rightarrow> kernel_thread \<Rightarrow> bool" where
  "gpu_runs b code thread \<longleftrightarrow>
     (\<forall>d g pkt. ring_queue d = [Some pkt] \<and> pkt_opcode pkt = FPGAGPU_OPCODE_LAUNCH_KERNEL \<and>
        get_words ioread32 FPGAGPU_KERNEL_STAGING_OFFSET (length code) d = code \<longrightarrow>
        (\<exists>ids. distinct ids \<and> set ids = set (grid_threads pkt) \<and> bd_gpu b d g = run_threads pkt thread ids g))"

text \<open>Threads that each write a word of their own, and read nothing that is written, give the same in every order.\<close>

lemma independent_threads:
  assumes step: "\<And>i g'. i \<in> set ids \<Longrightarrow> \<forall>a < low. g' a = g a \<Longrightarrow> f i g' = put32 (addr i) (val i) g'"
    and high: "\<And>i. i \<in> set ids \<Longrightarrow> low \<le> addr i"
    and apart: "\<And>i j. i \<in> set ids \<Longrightarrow> j \<in> set ids \<Longrightarrow> i \<noteq> j \<Longrightarrow> addr i + 4 \<le> addr j \<or> addr j + 4 \<le> addr i"
    and i: "i \<in> set ids"
  shows "get32 (fold f ids g) (addr i) = val i"
proof -
  have "get32 (fold f js g') (addr i) = (if i \<in> set js then val i else get32 g' (addr i))"
    if "set js \<subseteq> set ids" "\<forall>a < low. g' a = g a" for js g'
    using that
  proof (induction js arbitrary: g')
    case (Cons j js)
    then have j: "j \<in> set ids" and f: "f j g' = put32 (addr j) (val j) g'" using step by simp_all
    have "\<forall>a < low. f j g' a = g a" using Cons.prems(2) high [OF j] by (simp add: f put32_def Let_def)
    then have "get32 (fold f js (f j g')) (addr i) = (if i \<in> set js then val i else get32 (f j g') (addr i))"
      using Cons by simp
    then show ?case using apart [OF j i] by (auto simp: f get32_put32_other)
  qed simp
  then show ?thesis using i by simp
qed

text \<open>The compiler translates the source, with or without its header, to code that the GPU runs as \<open>thread\<close>.\<close>

definition translates :: "device_compiler \<Rightarrow> board \<Rightarrow> string \<Rightarrow> kernel_thread \<Rightarrow> u32 list \<Rightarrow> bool" where
  "translates compile b src thread code \<longleftrightarrow> code \<noteq> [] \<and> length code \<le> 1024 \<and> gpu_runs b code thread \<and>
     (\<forall>cmd. \<forall>h \<in> {[], header_include}. compile cmd (h @ src) = (0, Some (concat (map bytes_le code))))"

section \<open>Programs and kernels\<close>

lemma words_le_bytes: "words_le (concat (map bytes_le ws)) = ws"
proof (induction ws)
  case (Cons w ws)
  have "le_word [ucast w, ucast (drop_bit 8 w), ucast (drop_bit 16 w), ucast (drop_bit 24 w)] = w"
    using le_word_bytes_le [of w] by (simp only: bytes_le_def)
  with Cons show ?case by (simp add: bytes_le_def del: le_word.simps)
qed simp

lemma call_source:
  assumes "context \<noteq> 0" and "NUL \<notin> set src" and "length src < 2 ^ 63"
  shows "call b (\<lambda>_ u. map_option object (clCreateProgramWithSource context (Some [(Some (src @ [NUL]), 0)]) (Some p) True u)) (u, w) =
    Some ((CL_SUCCESS, p), u\<lparr>programs := (programs u)(p \<mapsto> \<lparr>pg_context = context, pg_source = src, pg_source_len = of_nat (length src),
      pg_binary_words = None, pg_num_instructions = 0, pg_is_built = False, pg_refs = 1\<rparr>)\<rparr>, w)"
proof -
  have "takeWhile (\<lambda>c. c \<noteq> NUL) (src @ [NUL]) = src" using assms(2) by (subst takeWhile_append2) auto
  then have "source_pieces [(Some (src @ [NUL]), 0)] = Some (Some [src])" by (simp add: source_piece_def strlen_def)
  moreover have "unat (of_nat (length src) + 1 :: u64) = length src + 1" using assms(3)
    by (subst unat_add_no_wrap) (simp_all add: unat_of_nat_u64)
  ultimately show ?thesis using assms(1) by (simp add: call_def clCreateProgramWithSource_def Let_def)
qed

text \<open>A file system and a heap on which a build of a source and a binary of these lengths does not fail.\<close>

definition build_ok :: "build_env \<Rightarrow> nat \<Rightarrow> nat \<Rightarrow> bool" where
  "build_ok e src bin \<longleftrightarrow> be_open e \<and> (\<exists>n \<ge> length header_include. be_write_header e = Some n) \<and>
     (\<exists>n \<ge> src. be_write_source e = Some n) \<and> be_fopen e \<and> be_ftell e \<and> be_malloc e \<noteq> None \<and> bin \<le> be_fread e"

lemma call_build:
  assumes e: "build_ok e (length (pg_source g)) (4 * length code)" and g: "programs u p = Some g" "p \<noteq> 0"
    "pg_source_len g = of_nat (length (pg_source g))" "length (pg_source g) < 2 ^ 63"
    and c: "translates compile b (pg_source g) thread code" and u: "tmp_files u = {}"
  obtains a where "call b (\<lambda>_. clBuildProgram compile e p) (u, w) = Some (CL_SUCCESS, u\<lparr>build_counter := build_counter u + 1,
    programs := (programs u)(p \<mapsto> g\<lparr>pg_binary_words := Some (a, code), pg_num_instructions := of_nat (length code),
      pg_is_built := True\<rparr>)\<rparr>, w)"
proof -
  obtain a where a: "be_malloc e = Some a" using e by (auto simp: build_ok_def)
  have len: "unat (pg_source_len g) = length (pg_source g)" using g(3,4) by (simp add: unat_of_nat_u64)
  obtain h where h: "h \<in> {[], header_include}" "write_source e g = Some (h @ pg_source g)"
  proof (cases "strstr ''device_intrinsics.h'' (pg_source g @ [NUL])")
    case True
    then show thesis using that [of "[]"] e len by (auto simp: write_source_def build_ok_def)
  next
    case False
    then show thesis using that [of header_include] e len by (auto simp: write_source_def build_ok_def)
  qed
  have out: "compile cmd (h @ pg_source g) = (0, Some (concat (map bytes_le code)))" for cmd
    using c h(1) unfolding translates_def by blast
  have "code \<noteq> []" using c by (simp add: translates_def)
  then have bin: "read_binary e (Some (concat (map bytes_le code))) g =
      (CL_SUCCESS, g\<lparr>pg_binary_words := Some (a, code), pg_num_instructions := of_nat (length code), pg_is_built := True\<rparr>)"
    using e a by (simp add: read_binary_def build_ok_def Let_def words_le_bytes min_def)
  have files: "insert x (insert y {}) - {y} - {x} = {}" for x y :: string by auto
  have "call b (\<lambda>_. clBuildProgram compile e p) (u, w) = Some (CL_SUCCESS, u\<lparr>build_counter := build_counter u + 1,
    programs := (programs u)(p \<mapsto> g\<lparr>pg_binary_words := Some (a, code), pg_num_instructions := of_nat (length code),
      pg_is_built := True\<rparr>)\<rparr>, w)"
    using e g(1,2) u by (simp add: call_def clBuildProgram_def build_ok_def Let_def h(2) out bin files)
  then show thesis by (rule that)
qed

lemma call_kernel:
  "program \<noteq> 0 \<Longrightarrow> programs u program = Some g \<Longrightarrow> pg_is_built g \<Longrightarrow>
   call b (\<lambda>_ u. map_option object (clCreateKernel program (Some name) (Some k) True u)) (u, w) =
     Some ((CL_SUCCESS, k), u\<lparr>kernels := (kernels u)(k \<mapsto> \<lparr>kn_program = program, kn_name = Some name,
       kn_args = replicate FPGAGPU_MAX_ARGS no_arg, kn_num_args = 0, kn_refs = 1\<rparr>)\<rparr>, w)"
  by (simp add: call_def clCreateKernel_def)

lemma call_arg:
  assumes "k \<noteq> 0" and "kernels u k = Some kn" and "i < of_nat FPGAGPU_MAX_ARGS" and "kernel_arg_of (mems u) sz val = Some a"
  shows "call b (\<lambda>_. clSetKernelArg k i sz (Some val)) (u, w) = Some (CL_SUCCESS, u\<lparr>kernels := (kernels u)(k \<mapsto> with_arg i a kn)\<rparr>, w)"
proof -
  have "\<not> of_nat FPGAGPU_MAX_ARGS \<le> i" using assms(3) by (simp only: not_le)
  then show ?thesis using assms(1,2,4) by (simp add: call_def clSetKernelArg_def with_arg_def Let_def)
qed

lemma mem_arg:
  "ms m = Some x \<Longrightarrow> m < 2 ^ 64 \<Longrightarrow> kernel_arg_of ms 8 (value_bytes 8 (of_nat m :: u64)) =
     Some \<lparr>ka_is_set = True, ka_is_mem = True, ka_size = 8, ka_scalar_val = ucast (mo_ddr3_addr x), ka_mem_obj = m\<rparr>"
  by (simp add: kernel_arg_of_def le_word_bytes_u64 unat_of_nat_u64)

lemma int_arg:
  "kernel_arg_of ms 4 (bytes_le v) =
     Some \<lparr>ka_is_set = True, ka_is_mem = False, ka_size = 4, ka_scalar_val = v, ka_mem_obj = 0\<rparr>"
  by (simp add: kernel_arg_of_def le_word_bytes_le bytes_le_def [THEN arg_cong [where f = length]])

lemma call_release_kernel:
  "kernels u p = Some k \<Longrightarrow> kn_refs k = 1 \<Longrightarrow> p \<noteq> 0 \<Longrightarrow>
   call b (\<lambda>_. clReleaseKernel p) (u, w) = Some (CL_SUCCESS, u\<lparr>kernels := (kernels u)(p := None)\<rparr>, w)"
  by (simp add: call_def clReleaseKernel_def Let_def)

lemma call_release_program:
  "programs u p = Some g \<Longrightarrow> pg_refs g = 1 \<Longrightarrow> p \<noteq> 0 \<Longrightarrow>
   call b (\<lambda>_. clReleaseProgram p) (u, w) = Some (CL_SUCCESS, u\<lparr>programs := (programs u)(p := None)\<rparr>, w)"
  by (simp add: call_def clReleaseProgram_def Let_def)

end
