(* ===== verification/CopyTest.thy ===== *)
theory CopyTest
  imports System "HOL-Library.Monad_Syntax"
begin

text \<open>
  The buffer copy test, \<open>tests/test_opencl_buffer_copy.c\<close>, from its first call to its exit code, on the user
  mode driver, the kernel driver and the engine.  Printing and \<open>free\<close> are left out; the results of
  \<open>malloc\<close> and \<open>posix_memalign\<close>, in the program and in the user mode driver, are arguments.
\<close>

section \<open>The program\<close>

text \<open>The discovery at the start of every test: the device, 0 if none was found.\<close>

definition first_device :: nat where
  "first_device =
     (let platform = (case clGetPlatformIDs 1 (Some [0]) False of (_, Some (p # _), _) \<Rightarrow> p | _ \<Rightarrow> 0)
      in case clGetDeviceIDs platform CL_DEVICE_TYPE_ALL 1 (Some [0]) False of (_, Some (d # _), _) \<Rightarrow> d | _ \<Rightarrow> 0)"

definition TEST_SIZE :: u64 where "TEST_SIZE = 4096"

definition fill_copy :: "(u64 \<Rightarrow> u64) \<Rightarrow> u64 \<Rightarrow> u64 \<Rightarrow> machine \<Rightarrow> machine" where
  "fill_copy pt host_src host_dst w =
     fold (\<lambda>i w. put pt (host_dst + of_nat i) 0 (put pt (host_src + of_nat i) (of_nat (i * 13 + 7)) w))
       [0..<unat TEST_SIZE] w"

text \<open>\<open>cx\<close>, \<open>cq\<close>, \<open>b1\<close>, \<open>b2\<close> are what \<open>malloc\<close> gives the user mode driver for its objects, \<open>bounce\<close> what it gets for the
  copy.\<close>

definition test_buffer_copy ::
  "board \<Rightarrow> nat option \<Rightarrow> nat option \<Rightarrow> u64 option \<Rightarrow> u64 option \<Rightarrow> nat option \<Rightarrow> nat option \<Rightarrow> u64 option \<Rightarrow>
   umd \<times> machine \<Rightarrow> (int \<times> umd \<times> machine) option" where
  "test_buffer_copy b cx cq src dst b1 b2 bounce s =
     do {
       ((err, context), s) \<leftarrow> call b (\<lambda>sys u. Some (object (clCreateContext sys 1 (Some first_device) cx u))) s;
       if err \<noteq> CL_SUCCESS then Some (1, s)
       else do {
         ((err, queue), s) \<leftarrow> call b (\<lambda>_ u. Some (object (clCreateCommandQueue context first_device 0 cq u))) s;
         if err \<noteq> CL_SUCCESS then Some (1, s)
         else case (src, dst) of
           (Some host_src, Some host_dst) \<Rightarrow> do {
             let s = (fst s, fill_copy (bd_pt b) host_src host_dst (snd s));
             ((_, dev_buf1), s) \<leftarrow> call b (\<lambda>sys u. map_option object (clCreateBuffer sys context CL_MEM_READ_WRITE TEST_SIZE 0 b1 u)) s;
             ((_, dev_buf2), s) \<leftarrow> call b (\<lambda>sys u. map_option object (clCreateBuffer sys context CL_MEM_READ_WRITE TEST_SIZE 0 b2 u)) s;
             (_, s) \<leftarrow> call b (\<lambda>sys. clEnqueueWriteBuffer sys queue dev_buf1 0 TEST_SIZE host_src None) s;
             (_, s) \<leftarrow> call b (\<lambda>sys. clEnqueueCopyBuffer sys queue dev_buf1 dev_buf2 0 0 TEST_SIZE bounce None) s;
             (_, s) \<leftarrow> call b (\<lambda>sys. clFinish sys queue) s;
             (_, s) \<leftarrow> call b (\<lambda>sys. clEnqueueReadBuffer sys queue dev_buf2 0 TEST_SIZE host_dst None) s;
             let mismatches = length (filter (\<lambda>i. get (bd_pt b) (host_src + of_nat i) (snd s) \<noteq>
                 get (bd_pt b) (host_dst + of_nat i) (snd s)) [0..<unat TEST_SIZE]);
             (_, s) \<leftarrow> call b (\<lambda>_. clReleaseMemObject dev_buf1) s;
             (_, s) \<leftarrow> call b (\<lambda>_. clReleaseMemObject dev_buf2) s;
             (_, s) \<leftarrow> call b (\<lambda>_. clReleaseCommandQueue queue) s;
             (_, s) \<leftarrow> call b (\<lambda>sys. clReleaseContext sys context) s;
             Some (if mismatches = 0 then 0 else 1, s)
           }
         | _ \<Rightarrow> Some (1, s)
       }
     }"

section \<open>Its parts\<close>

lemma first_device: "first_device = g_device_id"
  by (simp add: first_device_def clGetPlatformIDs_def clGetDeviceIDs_def CL_DEVICE_TYPE_ALL_def CL_DEVICE_TYPE_GPU_def
      CL_DEVICE_TYPE_ACCELERATOR_def CL_DEVICE_TYPE_DEFAULT_def cl_codes)

lemma call_queue:
  "context \<noteq> 0 \<Longrightarrow> call b (\<lambda>_ u. Some (object (clCreateCommandQueue context dev props (Some p) u))) (u, w) =
    Some ((CL_SUCCESS, p), u\<lparr>queues := (queues u)(p \<mapsto>
      \<lparr>cq_context = context, cq_device = dev, cq_properties = props, cq_refs = 1\<rparr>)\<rparr>, w)"
  by (simp add: call_def clCreateCommandQueue_def)

lemma call_buffer:
  assumes "context \<noteq> 0" and "sz \<noteq> 0" and "fpgagpu_vram_alloc sz (vram_state u) = (a, v)" and "a \<noteq> 0"
    and "flags AND CL_MEM_COPY_HOST_PTR = 0"
  shows "call b (\<lambda>sys u. map_option object (clCreateBuffer sys context flags sz ptr (Some p) u)) (u, w) =
    Some ((CL_SUCCESS, p), u\<lparr>vram_state := v, mems := (mems u)(p \<mapsto>
      \<lparr>mo_context = context, mo_flags = flags, mo_size = sz, mo_host_ptr = ptr, mo_ddr3_addr = a, mo_refs = 1\<rparr>)\<rparr>, w)"
  using assms by (simp add: call_def clCreateBuffer_def Let_def)

lemma call_release_buffer:
  "mems u p = Some m \<Longrightarrow> mo_refs m = 1 \<Longrightarrow> p \<noteq> 0 \<Longrightarrow>
   call b (\<lambda>_. clReleaseMemObject p) (u, w) = Some (CL_SUCCESS, u\<lparr>mems := (mems u)(p := None)\<rparr>, w)"
  by (simp add: call_def clReleaseMemObject_def fpgagpu_vram_free_def Let_def)

lemma call_release_queue:
  "queues u p = Some q \<Longrightarrow> cq_refs q = 1 \<Longrightarrow> p \<noteq> 0 \<Longrightarrow>
   call b (\<lambda>_. clReleaseCommandQueue p) (u, w) = Some (CL_SUCCESS, u\<lparr>queues := (queues u)(p := None)\<rparr>, w)"
  by (simp add: call_def clReleaseCommandQueue_def Let_def)

lemma two_buffers:
  "fpgagpu_vram_alloc TEST_SIZE (fpgagpu_vram_init v) = (0x10000, (fpgagpu_vram_init v)\<lparr>current_heap_ptr := 0x11000\<rparr>)"
  "fpgagpu_vram_alloc TEST_SIZE ((fpgagpu_vram_init v)\<lparr>current_heap_ptr := 0x11000\<rparr>) =
     (0x11000, (fpgagpu_vram_init v)\<lparr>current_heap_ptr := 0x12000\<rparr>)"
  by (simp_all add: fpgagpu_vram_alloc_def fpgagpu_vram_init_def TEST_SIZE_def vram_aligned_def PAGE_SIZE_4K_def
      FPGAGPU_VRAM_USER_BASE_def FPGAGPU_VRAM_TOTAL_SIZE_def Let_def)

lemma fill_copy_dev: "m_dev (fill_copy pt src dst w) = m_dev w"
proof -
  have "m_dev (fold (\<lambda>i w. put pt (dst + of_nat i) 0 (put pt (src + of_nat i) (of_nat (i * 13 + 7)) w)) is w) = m_dev w" for "is"
    by (induction "is" arbitrary: w) (simp_all add: put_def)
  then show ?thesis unfolding fill_copy_def .
qed

text \<open>C15: the buffer copy test passes.  On a board that does what is documented of it, with buffers that are
  ordinary memory and memory for every object, the program returns 0: the 4096 bytes it finds in
  the second host buffer, after a write, a copy through the bounce buffer and a read, are those it wrote.  It has
  released every object and left the driver's device at rest.\<close>

theorem buffer_copy_test_passes:
  assumes ok: "board_ok b bus" and rest: "at_rest (m_dev w)"
    and bufs: "buffers_ok (bd_env b) (bd_pt b) [src, dst, bounce] (unat TEST_SIZE)"
    and new: "cx \<noteq> 0" "cq \<noteq> 0" "b1 \<noteq> 0" "b2 \<noteq> 0" "b1 \<noteq> b2"
  shows "\<exists>u' w'. test_buffer_copy b (Some cx) (Some cq) (Some src) (Some dst) (Some b1) (Some b2) (Some bounce)
      (umd_start, w) = Some (0, u', w') \<and>
    contexts u' = Map.empty \<and> queues u' = Map.empty \<and> mems u' = Map.empty \<and> at_rest (m_dev w')"
proof -
  let ?L = "byte_at (bd_pt b)" and ?n = "unat TEST_SIZE"
  have maps: "mapped (bd_env b) (bd_pt b) src ?n" "mapped (bd_env b) (bd_pt b) dst ?n" "mapped (bd_env b) (bd_pt b) bounce ?n"
    and own: "own (bd_pt b) [src, dst, bounce] ?n" using bufs by (simp_all add: buffers_ok_def)
  have inj: "inj_on (?L dst) {..<?n}" "inj_on (?L bounce) {..<?n}"
    and apart: "\<And>i j. i < ?n \<Longrightarrow> j < ?n \<Longrightarrow> ?L src i \<noteq> ?L dst j \<and> ?L src i \<noteq> ?L bounce j"
    using own by (simp_all add: own_Cons)
  have n: "1 \<le> ?n" "?n \<le> 2 ^ 24" by (simp_all add: TEST_SIZE_def)
  define t where "t = fill_copy (bd_pt b) src dst w"
  have rest0: "at_rest (m_dev t)" using rest by (simp add: t_def fill_copy_dev)
  let ?c = "\<lparr>cx_device = first_device, cx_fd = bd_fd b, cx_refs = 1\<rparr>"
  let ?q = "\<lparr>cq_context = cx, cq_device = first_device, cq_properties = 0, cq_refs = 1\<rparr>"
  let ?m = "\<lambda>a. \<lparr>mo_context = cx, mo_flags = CL_MEM_READ_WRITE, mo_size = TEST_SIZE, mo_host_ptr = 0, mo_ddr3_addr = a, mo_refs = 1\<rparr>"
  obtain l1 where u1: "call b (\<lambda>sys u. Some (object (clCreateContext sys 1 (Some first_device) (Some cx) u))) (umd_start, w) =
    Some ((CL_SUCCESS, cx), umd_start\<lparr>contexts := (contexts umd_start)(cx \<mapsto> ?c), device_fd := bd_fd b,
      vram_state := fpgagpu_vram_init (vram_state umd_start), sys_log := l1\<rparr>, w)" by (rule call_context [OF ok])
  define u2 where "u2 = umd_start\<lparr>contexts := (contexts umd_start)(cx \<mapsto> ?c), device_fd := bd_fd b,
      vram_state := fpgagpu_vram_init (vram_state umd_start), sys_log := l1\<rparr>"
  define u3 where "u3 = u2\<lparr>queues := (queues u2)(cq \<mapsto> ?q)\<rparr>"
  define v where "v = fpgagpu_vram_init (vram_state umd_start)"
  define u4 where "u4 = u3\<lparr>vram_state := v\<lparr>current_heap_ptr := 0x11000\<rparr>, mems := (mems u3)(b1 \<mapsto> ?m 0x10000)\<rparr>"
  define u5 where "u5 = u4\<lparr>vram_state := v\<lparr>current_heap_ptr := 0x12000\<rparr>, mems := (mems u4)(b2 \<mapsto> ?m 0x11000)\<rparr>"
  have u3: "call b (\<lambda>_ u. Some (object (clCreateCommandQueue cx first_device 0 (Some cq) u))) (u2, w) = Some ((CL_SUCCESS, cq), u3, w)"
    unfolding u3_def by (rule call_queue [OF new(1)])
  have size: "TEST_SIZE \<noteq> 0" "CL_MEM_READ_WRITE AND CL_MEM_COPY_HOST_PTR = 0"
    by (simp_all add: TEST_SIZE_def CL_MEM_READ_WRITE_def CL_MEM_COPY_HOST_PTR_def)
  have vs: "vram_state u3 = v" "vram_state u4 = v\<lparr>current_heap_ptr := 0x11000\<rparr>" by (simp_all add: u2_def u3_def u4_def v_def)
  have u4: "call b (\<lambda>sys u. map_option object (clCreateBuffer sys cx CL_MEM_READ_WRITE TEST_SIZE 0 (Some b1) u)) (u3, t) =
      Some ((CL_SUCCESS, b1), u4, t)"
    unfolding u4_def by (rule call_buffer [OF new(1) size(1) _ _ size(2)]) (simp_all add: vs two_buffers v_def)
  have u5: "call b (\<lambda>sys u. map_option object (clCreateBuffer sys cx CL_MEM_READ_WRITE TEST_SIZE 0 (Some b2) u)) (u4, t) =
      Some ((CL_SUCCESS, b2), u5, t)"
    unfolding u5_def by (rule call_buffer [OF new(1) size(1) _ _ size(2)]) (simp_all add: vs two_buffers v_def)
  have obj: "mems u5 b1 = Some (?m 0x10000)" "mems u5 b2 = Some (?m 0x11000)" "queues u5 cq = Some ?q" "contexts u5 (cq_context ?q) = Some ?c"
    using new by (simp_all add: u2_def u3_def u4_def u5_def)
  have fit: "TEST_SIZE \<le> mo_size (?m 0x10000)" "TEST_SIZE \<le> mo_size (?m 0x11000)" "unat (mo_ddr3_addr (?m 0x10000)) = 0x10000"
    "unat (mo_ddr3_addr (?m 0x11000)) = 0x11000" "0x10000 + ?n \<le> 2 ^ 64" "0x11000 + ?n \<le> 2 ^ 64" by (simp_all add: TEST_SIZE_def)
  obtain l6 w1 where u6: "call b (\<lambda>sys. clEnqueueWriteBuffer sys cq b1 0 TEST_SIZE src None) (u5\<lparr>sys_log := sys_log u5\<rparr>, t) =
      Some (CL_SUCCESS, u5\<lparr>sys_log := l6\<rparr>, w1)" and rest1: "at_rest (m_dev w1)" and w1: "m_host w1 = m_host t"
    "\<forall>k < ?n. m_ddr w1 (0x10000 + k) = m_host t (?L src k)"
    by (rule call_write [OF ok rest0 n maps(1) obj(1,3,4) new(2,3) fit(1,3,5), where l = "sys_log u5"])
  obtain l7 w2 where u7: "call b (\<lambda>sys. clEnqueueCopyBuffer sys cq b1 b2 0 0 TEST_SIZE (Some bounce) None) (u5\<lparr>sys_log := l6\<rparr>, w1) =
      Some (CL_SUCCESS, u5\<lparr>sys_log := l7\<rparr>, w2)" and rest2: "at_rest (m_dev w2)"
    and w2: "\<forall>k < ?n. m_ddr w2 (0x11000 + k) = m_ddr w1 (0x10000 + k)" "\<forall>x. x \<notin> ?L bounce ` {..<?n} \<longrightarrow> m_host w2 x = m_host w1 x"
    by (rule call_copied [OF ok rest1 n maps(3) inj(2) obj new(2-4) fit, where l = l6])
  obtain l8 w3 where u8: "call b (\<lambda>sys. clFinish sys cq) (u5\<lparr>sys_log := l7\<rparr>, w2) = Some (CL_SUCCESS, u5\<lparr>sys_log := l8\<rparr>, w3)"
    and rest3: "at_rest (m_dev w3)" and w3: "m_ddr w3 = m_ddr w2" "m_host w3 = m_host w2"
    by (rule call_waited [OF ok rest2 obj(3,4) new(2), where l = l7])
  obtain l9 w4 where u9: "call b (\<lambda>sys. clEnqueueReadBuffer sys cq b2 0 TEST_SIZE dst None) (u5\<lparr>sys_log := l8\<rparr>, w3) =
      Some (CL_SUCCESS, u5\<lparr>sys_log := l9\<rparr>, w4)" and rest4: "at_rest (m_dev w4)"
    and w4: "\<forall>k < ?n. m_host w4 (?L dst k) = m_ddr w3 (0x11000 + k)" "\<forall>x. x \<notin> ?L dst ` {..<?n} \<longrightarrow> m_host w4 x = m_host w3 x"
    by (rule call_read [OF ok rest3 n maps(2) inj(1) obj(2-4) new(2,4) fit(2,4,6), where l = l8])
  have same: "get (bd_pt b) (src + of_nat k) w4 = get (bd_pt b) (dst + of_nat k) w4" if k: "k < ?n" for k
  proof -
    have "?L src k \<notin> ?L dst ` {..<?n}" "?L src k \<notin> ?L bounce ` {..<?n}" using apart [OF k] by auto
    then have "m_host w4 (?L src k) = m_host t (?L src k)" using w4(2) w3(2) w2(2) w1(1) by (simp del: split_paired_All)
    moreover have "m_host w4 (?L dst k) = m_host t (?L src k)" using w4(1) w3(1) w2(1) w1(2) k by simp
    ultimately show ?thesis by (simp add: get_def byte_at_def)
  qed
  then have none: "filter (\<lambda>i. get (bd_pt b) (src + of_nat i) w4 \<noteq> get (bd_pt b) (dst + of_nat i) w4) [0..<?n] = []"
    by (simp add: filter_empty_conv)
  define u9 where "u9 = u5\<lparr>sys_log := l9\<rparr>"
  have obj9: "mems u9 b1 = Some (?m 0x10000)" "(mems u9)(b1 := None, b2 := None) = Map.empty"
    "mems (u9\<lparr>mems := (mems u9)(b1 := None)\<rparr>) b2 = Some (?m 0x11000)" "queues u9 = [cq \<mapsto> ?q]" "contexts u9 = [cx \<mapsto> ?c]"
    using new by (auto simp: u9_def u2_def u3_def u4_def u5_def umd_start_def)
  define u10 where "u10 = u9\<lparr>mems := (mems u9)(b1 := None)\<rparr>"
  define u11 where "u11 = u10\<lparr>mems := (mems u10)(b2 := None)\<rparr>"
  define u12 where "u12 = u11\<lparr>queues := (queues u11)(cq := None)\<rparr>"
  have r1: "call b (\<lambda>_. clReleaseMemObject b1) (u9, w4) = Some (CL_SUCCESS, u10, w4)"
    unfolding u10_def by (rule call_release_buffer [OF obj9(1) _ new(3)]) simp
  have r2: "call b (\<lambda>_. clReleaseMemObject b2) (u10, w4) = Some (CL_SUCCESS, u11, w4)"
    unfolding u11_def by (rule call_release_buffer [OF obj9(3) [folded u10_def] _ new(4)]) simp
  have q11: "queues u11 cq = Some ?q" by (simp add: u11_def u10_def obj9)
  have r3: "call b (\<lambda>_. clReleaseCommandQueue cq) (u11, w4) = Some (CL_SUCCESS, u12, w4)"
    unfolding u12_def by (rule call_release_queue [OF q11 _ new(2)]) simp
  have "contexts u12 cx = Some ?c" by (simp add: u12_def u11_def u10_def obj9)
  then obtain l10 where r4: "call b (\<lambda>sys. clReleaseContext sys cx) (u12, w4) =
      Some (CL_SUCCESS, u12\<lparr>contexts := (contexts u12)(cx := None), sys_log := l10\<rparr>, w4)"
    by (rule call_close [where c = ?c]) (simp_all add: new)
  define u13 where "u13 = u12\<lparr>contexts := (contexts u12)(cx := None), sys_log := l10\<rparr>"
  have gone: "contexts u13 = Map.empty" "queues u13 = Map.empty" "mems u13 = Map.empty"
    using obj9(2) by (simp_all add: u13_def u12_def u11_def u10_def obj9(4,5) fun_eq_iff)
  have self: "u5\<lparr>sys_log := sys_log u5\<rparr> = u5" by simp
  note steps = u1 [folded u2_def] u3 t_def [symmetric] u4 u5 u6 [unfolded self] u7 u8 u9 [folded u9_def] none r1 r2 r3 r4 [folded u13_def]
  have "test_buffer_copy b (Some cx) (Some cq) (Some src) (Some dst) (Some b1) (Some b2) (Some bounce) (umd_start, w) = Some (0, u13, w4)"
    unfolding test_buffer_copy_def by (simp add: steps)
  with gone rest4 show ?thesis by auto
qed

text \<open>The machine of the DMA test, with a GPU that never touches its memory.\<close>

definition test_board :: board where
  "test_board = \<lparr>bd_abi = linux_ioc, bd_env = test_env, bd_mode = 0, bd_engine = bytewise sample_bus, bd_torn = id,
     bd_pt = page_of, bd_fd = 3, bd_gpu = \<lambda>_ g. g\<rparr>"

lemma test_board_ok: "board_ok test_board sample_bus"
proof -
  have "wait_event test_env = wait_event sample_env" by (simp add: test_env_def)
  moreover have "wait_ok sample_env" "wait_frame sample_env"
    "0 < fst (wait_event sample_env (\<lambda>d'. ioread32 d' RING_HEAD = ioread32 d RING_TAIL) d)" for d
    using sample_env_wait sample_env_frame by (simp_all add: sample_env_def sample_wait_def ioread32_def Let_def)
  ultimately show ?thesis using test_env_works
    by (simp add: board_ok_def test_board_def wait_ok_def wait_frame_def)
qed

theorem buffer_copy_test_passes_witness:
  "\<exists>u' w'. test_buffer_copy test_board (Some 10) (Some 11) (Some (test_buf 0)) (Some (test_buf 1)) (Some 12) (Some 13)
     (Some (test_buf 2)) (umd_start, test_machine) = Some (0, u', w')"
proof -
  have "at_rest (m_dev test_machine)"
    by (simp add: at_rest_def test_machine_def sample_dma_dev_def sample_dev_def kzalloc_dev_def ring_wf_def)
  moreover have "buffers_ok (bd_env test_board) (bd_pt test_board) [test_buf 0, test_buf 1, test_buf 2] (unat TEST_SIZE)"
    using spaced_buffers [of "[0, 1, 2]" "unat TEST_SIZE"] by (simp add: test_board_def TEST_SIZE_def)
  ultimately show ?thesis using buffer_copy_test_passes [OF test_board_ok, of test_machine "test_buf 0" "test_buf 1" "test_buf 2" 10 11 12 13]
    by auto
qed

end
