(* ===== verification/ThreeBuffers.thy ===== *)
theory ThreeBuffers
  imports KernelRun CopyTest
begin

text \<open>
  What the kernel tests have in common: three vectors in the memory of the program, a buffer of a page for each, a
  program built from source, its kernel with the buffers and a number as arguments, a launch, and the result
  read back.
\<close>

section \<open>Vectors\<close>

text \<open>Entry \<open>i\<close> of an \<open>int32_t\<close> array.\<close>

definition put_int :: "(u64 \<Rightarrow> u64) \<Rightarrow> u64 \<Rightarrow> nat \<Rightarrow> u32 \<Rightarrow> machine \<Rightarrow> machine" where
  "put_int pt a i v = put_user pt (a + of_nat (4 * i)) [v]"

definition int_at :: "(u64 \<Rightarrow> u64) \<Rightarrow> u64 \<Rightarrow> nat \<Rightarrow> machine \<Rightarrow> u32" where
  "int_at pt a i w = le_word (map (\<lambda>j. get pt (a + of_nat (4 * i + j)) w) [0..<4])"

lemma put_int_filled:
  assumes "inj_on (byte_at pt a) {..<n}" and "4 * i + 4 \<le> n"
  shows "filled (\<lambda>j. byte_at pt a (4 * i + j)) 4 ((!) (bytes_le v)) w (put_int pt a i v w)"
proof -
  have at: "byte_at pt (a + of_nat (4 * i)) = (\<lambda>j. byte_at pt a (4 * i + j))"
    by (simp add: byte_at_def fun_eq_iff add.assoc)
  have "inj_on (\<lambda>j. byte_at pt a (4 * i + j)) {..<4}"
    using assms by (intro inj_onI) (auto dest!: inj_onD)
  then show ?thesis using put_user_filled [of pt "a + of_nat (4 * i)" "[v]" w]
    by (simp add: at put_int_def del: of_nat_mult)
qed

lemma int_at_bytes: "int_at pt a i w = le_word (map (\<lambda>j. m_host w (byte_at pt a (4 * i + j))) [0..<4])"
  by (simp add: int_at_def get_def byte_at_def)

lemma int_at_put:
  assumes "inj_on (byte_at pt a) {..<n}" and "4 * i + 4 \<le> n"
  shows "int_at pt a i (put_int pt a i v w) = v"
proof -
  have "map (\<lambda>j. m_host (put_int pt a i v w) (byte_at pt a (4 * i + j))) [0..<4] = map ((!) (bytes_le v)) [0..<4]"
    using put_int_filled [OF assms, of v w] by (simp add: filled_def del: split_paired_All)
  also have "\<dots> = bytes_le v" by (simp add: bytes_le_def upt_rec numeral_2_eq_2 numeral_3_eq_3)
  finally show ?thesis by (simp add: int_at_bytes le_word_bytes_le)
qed

lemma int_at_other:
  assumes "inj_on (byte_at pt a) {..<n}" and "4 * i + 4 \<le> n"
    and "\<And>j k. j < 4 \<Longrightarrow> k < 4 \<Longrightarrow> byte_at pt c (4 * l + j) \<noteq> byte_at pt a (4 * i + k)"
  shows "int_at pt c l (put_int pt a i v w) = int_at pt c l w"
proof -
  have "m_host (put_int pt a i v w) (byte_at pt c (4 * l + j)) = m_host w (byte_at pt c (4 * l + j))" if "j < 4" for j
  proof -
    have "byte_at pt c (4 * l + j) \<notin> (\<lambda>k. byte_at pt a (4 * i + k)) ` {..<4}" using assms(3) [OF that] by auto
    then show ?thesis using put_int_filled [OF assms(1,2), of v w] unfolding filled_def by blast
  qed
  then show ?thesis unfolding int_at_bytes by (intro arg_cong [where f = le_word]) simp
qed

lemma put_int_keeps [simp]:
  "m_dev (put_int pt a i v w) = m_dev w" "m_ddr (put_int pt a i v w) = m_ddr w"
proof -
  have "m_dev (fold (\<lambda>i. put pt (f i) (c i)) xs w) = m_dev w \<and> m_ddr (fold (\<lambda>i. put pt (f i) (c i)) xs w) = m_ddr w"
    for f and c :: "nat \<Rightarrow> u8" and xs
    by (induction xs arbitrary: w) (simp_all add: put_def)
  then show "m_dev (put_int pt a i v w) = m_dev w" "m_ddr (put_int pt a i v w) = m_ddr w"
    by (simp_all add: put_int_def put_user_def Let_def)
qed

text \<open>Two vectors that share no byte, filled entry by entry.\<close>

lemma bytes_apart:
  assumes "own pt [a, b] 4096" and "i < 1024" and "l < 1024" and "j < 4" and "k < 4"
  shows "byte_at pt a (4 * l + j) \<noteq> byte_at pt b (4 * i + k)" "byte_at pt b (4 * l + j) \<noteq> byte_at pt a (4 * i + k)"
    "l \<noteq> i \<Longrightarrow> byte_at pt a (4 * l + j) \<noteq> byte_at pt a (4 * i + k)"
    "l \<noteq> i \<Longrightarrow> byte_at pt b (4 * l + j) \<noteq> byte_at pt b (4 * i + k)"
proof -
  have b: "4 * l + j < 4096" "4 * i + k < 4096" using assms(2-) by simp_all
  have neq: "l \<noteq> i \<Longrightarrow> 4 * l + j \<noteq> 4 * i + k" using assms(4,5) by presburger
  have inj: "inj_on (byte_at pt a) {..<4096}" "inj_on (byte_at pt b) {..<4096}" using assms(1) by (simp_all add: own_Cons)
  show "byte_at pt a (4 * l + j) \<noteq> byte_at pt b (4 * i + k)" using assms(1) b by (simp add: own_Cons)
  show "byte_at pt b (4 * l + j) \<noteq> byte_at pt a (4 * i + k)" using assms(1) b by (metis list.set_intros(1) own_Cons)
  show "l \<noteq> i \<Longrightarrow> byte_at pt a (4 * l + j) \<noteq> byte_at pt a (4 * i + k)"
    "l \<noteq> i \<Longrightarrow> byte_at pt b (4 * l + j) \<noteq> byte_at pt b (4 * i + k)"
    using inj neq b by (auto dest: inj_onD)
qed

lemma put_pair:
  fixes pt a b n x y w
  defines "w' \<equiv> put_int pt b n y (put_int pt a n x w)"
  assumes own: "own pt [a, b] 4096" and n: "n < 1024"
  shows "int_at pt a n w' = x" and "int_at pt b n w' = y"
    and "i < 1024 \<Longrightarrow> i \<noteq> n \<Longrightarrow> int_at pt a i w' = int_at pt a i w"
    and "i < 1024 \<Longrightarrow> i \<noteq> n \<Longrightarrow> int_at pt b i w' = int_at pt b i w"
proof -
  have inj: "inj_on (byte_at pt a) {..<4096}" "inj_on (byte_at pt b) {..<4096}" using own by (simp_all add: own_Cons)
  have n4: "4 * n + 4 \<le> 4096" using n by simp
  note apart = bytes_apart [OF own n]
  have b: "int_at pt a i w' = int_at pt a i (put_int pt a n x w)"
    "i \<noteq> n \<Longrightarrow> int_at pt b i w' = int_at pt b i (put_int pt a n x w)" if "i < 1024" for i
    unfolding w'_def by (rule int_at_other [OF inj(2) n4], rule apart [OF that]; assumption)+
  have a: "int_at pt b i (put_int pt a n x w) = int_at pt b i w"
    "i \<noteq> n \<Longrightarrow> int_at pt a i (put_int pt a n x w) = int_at pt a i w" if "i < 1024" for i
    by (rule int_at_other [OF inj(1) n4], rule apart [OF that]; assumption)+
  show "int_at pt a n w' = x" using b(1) [OF n] by (simp add: int_at_put [OF inj(1) n4])
  show "int_at pt b n w' = y" by (simp add: w'_def int_at_put [OF inj(2) n4])
  show "i < 1024 \<Longrightarrow> i \<noteq> n \<Longrightarrow> int_at pt a i w' = int_at pt a i w"
    "i < 1024 \<Longrightarrow> i \<noteq> n \<Longrightarrow> int_at pt b i w' = int_at pt b i w"
    by (simp_all add: a b)
qed

lemma int_at_third:
  assumes "own pt [a, c] 4096" and "n < 1024" and "i < 1024"
  shows "int_at pt a i (put_int pt c n v w) = int_at pt a i w"
  using assms by (intro int_at_other [where n = 4096] bytes_apart(1)) (simp_all add: own_Cons)

lemma get32_int:
  assumes "\<forall>k < 4096. g (x + k) = m_host w (byte_at pt a k)" and "i < 1024"
  shows "get32 g (x + 4 * i) = int_at pt a i w"
proof -
  have "g (x + 4 * i + j) = m_host w (byte_at pt a (4 * i + j))" if "j < 4" for j
    using assms that by (simp add: add.assoc)
  from this [of 0] this [of 1] this [of 2] this [of 3]
  have "[g (x + 4 * i), g (x + 4 * i + 1), g (x + 4 * i + 2), g (x + 4 * i + 3)] =
      map (\<lambda>j. m_host w (byte_at pt a (4 * i + j))) [0..<4]"
    by (simp add: upt_rec numeral_2_eq_2 numeral_3_eq_3)
  then show ?thesis by (simp only: get32_def int_at_bytes)
qed

section \<open>Arguments\<close>

text \<open>The calls the tests make, with the arguments they share.\<close>

abbreviation create_buffer :: "board \<Rightarrow> nat \<Rightarrow> u64 \<Rightarrow> nat option \<Rightarrow> umd \<times> machine \<Rightarrow> ((int \<times> nat) \<times> umd \<times> machine) option" where
  "create_buffer b context flags p \<equiv> call b (\<lambda>sys u. map_option object (clCreateBuffer sys context flags 4096 0 p u))"

abbreviation set_mem_arg :: "board \<Rightarrow> nat \<Rightarrow> u32 \<Rightarrow> nat \<Rightarrow> umd \<times> machine \<Rightarrow> (int \<times> umd \<times> machine) option" where
  "set_mem_arg b kern i m \<equiv> call b (\<lambda>_. clSetKernelArg kern i 8 (Some (value_bytes 8 (of_nat m :: u64))))"

abbreviation write_page :: "board \<Rightarrow> nat \<Rightarrow> nat \<Rightarrow> u64 \<Rightarrow> umd \<times> machine \<Rightarrow> (int \<times> umd \<times> machine) option" where
  "write_page b queue m h \<equiv> call b (\<lambda>sys. clEnqueueWriteBuffer sys queue m 0 4096 h None)"

abbreviation read_page :: "board \<Rightarrow> nat \<Rightarrow> nat \<Rightarrow> u64 \<Rightarrow> umd \<times> machine \<Rightarrow> (int \<times> umd \<times> machine) option" where
  "read_page b queue m h \<equiv> call b (\<lambda>sys. clEnqueueReadBuffer sys queue m 0 4096 h None)"

abbreviation create_program :: "board \<Rightarrow> nat \<Rightarrow> string \<Rightarrow> nat option \<Rightarrow> bool \<Rightarrow> umd \<times> machine \<Rightarrow> ((int \<times> nat) \<times> umd \<times> machine) option" where
  "create_program b context src p text_ok \<equiv>
     call b (\<lambda>_ u. map_option object (clCreateProgramWithSource context (Some [(Some (src @ [NUL]), 0)]) p text_ok u))"

abbreviation create_kernel :: "board \<Rightarrow> nat \<Rightarrow> string \<Rightarrow> nat option \<Rightarrow> bool \<Rightarrow> umd \<times> machine \<Rightarrow> ((int \<times> nat) \<times> umd \<times> machine) option" where
  "create_kernel b program name k name_ok \<equiv> call b (\<lambda>_ u. map_option object (clCreateKernel program (Some name) k name_ok u))"

lemma three_buffers:
  "fpgagpu_vram_alloc 4096 (fpgagpu_vram_init v) = (0x10000, (fpgagpu_vram_init v)\<lparr>current_heap_ptr := 0x11000\<rparr>)"
  "fpgagpu_vram_alloc 4096 ((fpgagpu_vram_init v)\<lparr>current_heap_ptr := 0x11000\<rparr>) =
     (0x11000, (fpgagpu_vram_init v)\<lparr>current_heap_ptr := 0x12000\<rparr>)"
  "fpgagpu_vram_alloc 4096 ((fpgagpu_vram_init v)\<lparr>current_heap_ptr := 0x12000\<rparr>) =
     (0x12000, (fpgagpu_vram_init v)\<lparr>current_heap_ptr := 0x13000\<rparr>)"
  by (simp_all add: fpgagpu_vram_alloc_def fpgagpu_vram_init_def vram_aligned_def PAGE_SIZE_4K_def
      FPGAGPU_VRAM_USER_BASE_def FPGAGPU_VRAM_TOTAL_SIZE_def Let_def)

text \<open>A kernel whose arguments are three buffers and a number, and the page they make.\<close>

definition args_page :: "u32 \<Rightarrow> u32 list" where
  "args_page v = [0x10000, 0x10000, 0x11000, 0x11000, 0x12000, 0x12000, v, v] @ replicate 1016 0"

definition arg_entry :: "bool \<Rightarrow> u64 \<Rightarrow> u32 \<Rightarrow> nat \<Rightarrow> fpgagpu_kernel_arg" where
  "arg_entry m n v p = \<lparr>ka_is_set = True, ka_is_mem = m, ka_size = n, ka_scalar_val = v, ka_mem_obj = p\<rparr>"

definition three_kernel :: "u32 \<Rightarrow> nat \<Rightarrow> string option \<Rightarrow> nat \<Rightarrow> nat \<Rightarrow> nat \<Rightarrow> cl_kernel" where
  "three_kernel v p n a b c =
     with_arg 3 (arg_entry False 4 v 0) (with_arg 2 (arg_entry True 8 0x12000 c) (with_arg 1 (arg_entry True 8 0x11000 b)
       (with_arg 0 (arg_entry True 8 0x10000 a) \<lparr>kn_program = p, kn_name = n, kn_args = replicate FPGAGPU_MAX_ARGS no_arg,
          kn_num_args = 0, kn_refs = 1\<rparr>)))"

lemma marshal_four:
  "marshal_args 0 [arg_entry m1 n1 v1 p1, arg_entry m2 n2 v2 p2, arg_entry m3 n3 v3 p3, arg_entry m4 n4 v4 p4]
     ([0, 0, 0, 0, 0, 0, 0, 0] @ zs) = Some ([v1, v1, v2, v2, v3, v3, v4, v4] @ zs)"
  by (simp add: arg_entry_def eval_nat_numeral)

lemma four_args:
  shows "kn_program (three_kernel v p n a b c) = p" and "kn_refs (three_kernel v p n a b c) = 1"
    and "marshal_args 0 (take (unat (kn_num_args (three_kernel v p n a b c))) (kn_args (three_kernel v p n a b c)))
      (replicate (FPGAGPU_KERNARG_SIZE div 4) 0) = Some (args_page v)"
proof -
  let ?k = "three_kernel v p n a b c"
  have "replicate 32 no_arg = replicate 4 no_arg @ replicate 28 no_arg" by (simp flip: replicate_add)
  also have "replicate 4 no_arg = [no_arg, no_arg, no_arg, no_arg]" by (simp add: eval_nat_numeral)
  finally have r: "replicate FPGAGPU_MAX_ARGS no_arg = [no_arg, no_arg, no_arg, no_arg] @ replicate 28 no_arg"
    by (simp only: FPGAGPU_MAX_ARGS_def)
  have "replicate 1024 (0 :: u32) = replicate 8 0 @ replicate 1016 0" by (simp flip: replicate_add)
  also have "replicate 8 (0 :: u32) = [0, 0, 0, 0, 0, 0, 0, 0]" by (simp add: eval_nat_numeral)
  finally have page: "replicate (FPGAGPU_KERNARG_SIZE div 4) 0 = [0, 0, 0, 0, 0, 0, 0, 0] @ replicate 1016 (0 :: u32)"
    by (simp add: FPGAGPU_KERNARG_SIZE_def)
  show "kn_program ?k = p" "kn_refs ?k = 1" by (simp_all add: three_kernel_def with_arg_def Let_def)
  have at: "(w # x # y # z # r)[2 := v] = w # x # v # z # r" "(w # x # y # z # r)[3 := v] = w # x # y # v # r"
    for v w x y z :: fpgagpu_kernel_arg and r by (simp_all add: numeral_2_eq_2 numeral_3_eq_3)
  have k: "kn_num_args ?k = 4" "kn_args ?k = [arg_entry True 8 0x10000 a, arg_entry True 8 0x11000 b, arg_entry True 8 0x12000 c,
      arg_entry False 4 v 0] @ replicate 28 no_arg"
    unfolding three_kernel_def r by (simp_all add: with_arg_def Let_def at)
  have "take 4 ([arg_entry True 8 0x10000 a, arg_entry True 8 0x11000 b, arg_entry True 8 0x12000 c,
      arg_entry False 4 v 0] @ xs) = [arg_entry True 8 0x10000 a, arg_entry True 8 0x11000 b, arg_entry True 8 0x12000 c,
      arg_entry False 4 v 0]" for xs by simp
  then show "marshal_args 0 (take (unat (kn_num_args ?k)) (kn_args ?k)) (replicate (FPGAGPU_KERNARG_SIZE div 4) 0) = Some (args_page v)"
    unfolding k page args_page_def by (simp only: marshal_four unat_numeral) (simp add: marshal_four arg_entry_def)
qed

definition three_args :: "u32 \<Rightarrow> device_memory \<Rightarrow> bool" where
  "three_args v g \<longleftrightarrow> (\<forall>lane < 2. kernel_arg 0 lane 0 g = 0x10000 \<and> kernel_arg 0 lane 1 g = 0x11000 \<and>
     kernel_arg 0 lane 2 g = 0x12000 \<and> kernel_arg 0 lane 3 g = v)"

lemma args_page_args:
  assumes "\<forall>a < 4096. g a = concat (map bytes_le (args_page v)) ! a"
  shows "three_args v g"
proof -
  have len: "length (args_page v) = 1024" by (simp add: args_page_def)
  have page: "get32 g (4 * i) = args_page v ! i" if "i < 8" for i
    using get32_word [of "args_page v" g i] assms that len by simp
  have "args_page v ! 0 = 0x10000" "args_page v ! 1 = 0x10000" "args_page v ! 2 = 0x11000" "args_page v ! 3 = 0x11000"
    "args_page v ! 4 = 0x12000" "args_page v ! 5 = 0x12000" "args_page v ! 6 = v" "args_page v ! 7 = v"
    by (simp_all add: args_page_def)
  then show ?thesis
    using page [of 0] page [of 1] page [of 2] page [of 3] page [of 4] page [of 5] page [of 6] page [of 7]
    by (auto simp: three_args_def kernel_arg_def less_2_cases_iff)
qed

text \<open>The arguments are below the vectors, so a thread that writes to the third leaves them alone.\<close>

lemma three_args_low: "three_args v g \<Longrightarrow> \<forall>a < 4096. g' a = g a \<Longrightarrow> three_args v g'"
  by (simp add: three_args_def kernel_arg_def get32_def)

text \<open>The address of an entry.\<close>

lemma entry_addr:
  assumes "unat a \<le> 0x12000" and "i < 1024"
  shows "unat (a + 4 * of_nat i :: u32) = unat a + 4 * i"
proof -
  have "unat (of_nat (4 * i) :: u32) = 4 * i" using assms(2) by (simp add: unsigned_of_nat take_bit_eq_mod del: of_nat_mult)
  then show ?thesis using assms by (subst unat_add_no_wrap) simp_all
qed

section \<open>Transfers and launch\<close>

lemma discovery:
  "clGetPlatformIDs 1 (Some [0]) True = (CL_SUCCESS, Some [g_platform_id], Some 1)"
  "clGetDeviceIDs p CL_DEVICE_TYPE_ALL 1 (Some [0]) True = (CL_SUCCESS, Some [g_device_id], Some 1)"
  by (simp_all add: clGetPlatformIDs_def clGetDeviceIDs_def CL_DEVICE_TYPE_ALL_def CL_DEVICE_TYPE_GPU_def
      CL_DEVICE_TYPE_ACCELERATOR_def CL_DEVICE_TYPE_DEFAULT_def)

text \<open>Three buffers of a page each, next to each other, and the queue.\<close>

definition three_pages :: "umd \<Rightarrow> nat \<Rightarrow> nat \<Rightarrow> nat \<Rightarrow> nat \<Rightarrow> bool" where
  "three_pages u q p1 p2 p3 \<longleftrightarrow> q \<noteq> 0 \<and> p1 \<noteq> 0 \<and> p2 \<noteq> 0 \<and> p3 \<noteq> 0 \<and>
     (\<exists>cq cx. queues u q = Some cq \<and> contexts u (cq_context cq) = Some cx) \<and>
     (\<exists>m. mems u p1 = Some m \<and> mo_ddr3_addr m = 0x10000 \<and> mo_size m = 4096) \<and>
     (\<exists>m. mems u p2 = Some m \<and> mo_ddr3_addr m = 0x11000 \<and> mo_size m = 4096) \<and>
     (\<exists>m. mems u p3 = Some m \<and> mo_ddr3_addr m = 0x12000 \<and> mo_size m = 4096)"

lemma page_bounds: "1 \<le> unat (4096 :: u64)" "unat (4096 :: u64) \<le> 2 ^ 24" "unat (4096 :: u64) = 4096"
  by simp_all

lemma vectors_uploaded:
  assumes ok: "board_ok b bus" and rest: "at_rest (m_dev w)"
    and bufs: "buffers_ok (bd_env b) (bd_pt b) [h_A, h_B, h_C, page] 4096" and u: "three_pages u q p1 p2 p3"
  obtains l1 l2 l3 w1 w2 w3 where
    "call b (\<lambda>sys. clEnqueueWriteBuffer sys q p1 0 4096 h_A None) (u\<lparr>sys_log := l\<rparr>, w) = Some (CL_SUCCESS, u\<lparr>sys_log := l1\<rparr>, w1)"
    "call b (\<lambda>sys. clEnqueueWriteBuffer sys q p2 0 4096 h_B None) (u\<lparr>sys_log := l1\<rparr>, w1) = Some (CL_SUCCESS, u\<lparr>sys_log := l2\<rparr>, w2)"
    "call b (\<lambda>sys. clEnqueueWriteBuffer sys q p3 0 4096 h_C None) (u\<lparr>sys_log := l2\<rparr>, w2) = Some (CL_SUCCESS, u\<lparr>sys_log := l3\<rparr>, w3)"
    "at_rest (m_dev w3)" "csr_mem (m_dev w3) = csr_mem (m_dev w)"
    "\<And>i. i < 1024 \<Longrightarrow> get32 (m_ddr w3) (0x10000 + 4 * i) = int_at (bd_pt b) h_A i w \<and>
      get32 (m_ddr w3) (0x11000 + 4 * i) = int_at (bd_pt b) h_B i w"
proof -
  have maps: "mapped (bd_env b) (bd_pt b) h_A (unat (4096 :: u64))" "mapped (bd_env b) (bd_pt b) h_B (unat (4096 :: u64))"
    "mapped (bd_env b) (bd_pt b) h_C (unat (4096 :: u64))" using bufs by (simp_all add: buffers_ok_def)
  obtain cq cx m1 m2 m3 where obj: "queues u q = Some cq" "contexts u (cq_context cq) = Some cx" "q \<noteq> 0"
    and m: "mems u p1 = Some m1" "mems u p2 = Some m2" "mems u p3 = Some m3" "p1 \<noteq> 0" "p2 \<noteq> 0" "p3 \<noteq> 0"
      "mo_ddr3_addr m1 = 0x10000" "mo_ddr3_addr m2 = 0x11000" "mo_ddr3_addr m3 = 0x12000"
      "mo_size m1 = 4096" "mo_size m2 = 4096" "mo_size m3 = 4096"
    using u unfolding three_pages_def by blast
  have a1: "4096 \<le> mo_size m1" "unat (mo_ddr3_addr m1) = 0x10000" "0x10000 + unat (4096 :: u64) \<le> 2 ^ 64"
    and a2: "4096 \<le> mo_size m2" "unat (mo_ddr3_addr m2) = 0x11000" "0x11000 + unat (4096 :: u64) \<le> 2 ^ 64"
    and a3: "4096 \<le> mo_size m3" "unat (mo_ddr3_addr m3) = 0x12000" "0x12000 + unat (4096 :: u64) \<le> 2 ^ 64"
    using m by simp_all
  obtain l1 w1 where w1: "call b (\<lambda>sys. clEnqueueWriteBuffer sys q p1 0 4096 h_A None) (u\<lparr>sys_log := l\<rparr>, w) =
      Some (CL_SUCCESS, u\<lparr>sys_log := l1\<rparr>, w1)" "at_rest (m_dev w1)" "csr_mem (m_dev w1) = csr_mem (m_dev w)" "m_host w1 = m_host w"
    "\<forall>k < unat (4096 :: u64). m_ddr w1 (0x10000 + k) = m_host w (byte_at (bd_pt b) h_A k)"
    by (rule call_write [OF ok rest page_bounds(1,2) maps(1) m(1) obj m(4) a1, where l = l])
  obtain l2 w2 where w2: "call b (\<lambda>sys. clEnqueueWriteBuffer sys q p2 0 4096 h_B None) (u\<lparr>sys_log := l1\<rparr>, w1) =
      Some (CL_SUCCESS, u\<lparr>sys_log := l2\<rparr>, w2)" "at_rest (m_dev w2)" "csr_mem (m_dev w2) = csr_mem (m_dev w1)" "m_host w2 = m_host w1"
    "\<forall>k < unat (4096 :: u64). m_ddr w2 (0x11000 + k) = m_host w1 (byte_at (bd_pt b) h_B k)"
    "\<forall>x. x \<notin> {0x11000 ..< 0x11000 + unat (4096 :: u64)} \<longrightarrow> m_ddr w2 x = m_ddr w1 x"
    by (rule call_write [OF ok w1(2) page_bounds(1,2) maps(2) m(2) obj m(5) a2, where l = l1])
  obtain l3 w3 where w3: "call b (\<lambda>sys. clEnqueueWriteBuffer sys q p3 0 4096 h_C None) (u\<lparr>sys_log := l2\<rparr>, w2) =
      Some (CL_SUCCESS, u\<lparr>sys_log := l3\<rparr>, w3)" "at_rest (m_dev w3)" "csr_mem (m_dev w3) = csr_mem (m_dev w2)"
    "\<forall>x. x \<notin> {0x12000 ..< 0x12000 + unat (4096 :: u64)} \<longrightarrow> m_ddr w3 x = m_ddr w2 x"
    by (rule call_write [OF ok w2(2) page_bounds(1,2) maps(3) m(3) obj m(6) a3, where l = l2])
  have "\<forall>k < 4096. m_ddr w3 (0x10000 + k) = m_host w (byte_at (bd_pt b) h_A k)"
    "\<forall>k < 4096. m_ddr w3 (0x11000 + k) = m_host w (byte_at (bd_pt b) h_B k)"
    using w1(4,5) w2(5,6) w3(4) by simp_all
  from get32_int [OF this(1)] get32_int [OF this(2)] w3(3) w2(3) w1(3)
  show thesis by (intro that [OF w1(1) w2(1) w3(1,2)]) simp_all
qed

text \<open>The launch, the wait and the read: the third vector is what the threads leave in the third buffer.\<close>

lemma kernel_run:
  assumes ok: "board_ok b bus" and fw: "fw_only_head (bd_env b)" and rest: "at_rest (m_dev w)"
    and slot: "unat (csr_mem (m_dev w) RING_TAIL) \<noteq> 510" and gpu: "gpu_runs b code thread"
    and bufs: "buffers_ok (bd_env b) (bd_pt b) [h_A, h_B, h_C, page] 4096" and u: "three_pages u q p1 p2 p3"
    and kernel: "launchable u k code (args_page v)"
    and cmd: "launch_cmd_of dims global local = Some cmd" "dims \<noteq> 0" "dims \<le> 3" "cmd_opcode cmd = FPGAGPU_OPCODE_LAUNCH_KERNEL"
  obtains l1 l2 l3 w1 w2 w3 ids g where
    "call b (\<lambda>sys. clEnqueueNDRangeKernel sys q k dims (Some global) local (Some page) None) (u, w) =
      Some (CL_SUCCESS, u\<lparr>sys_log := l1\<rparr>, w1)"
    "call b (\<lambda>sys. clFinish sys q) (u\<lparr>sys_log := l1\<rparr>, w1) = Some (CL_SUCCESS, u\<lparr>sys_log := l2\<rparr>, w2)"
    "call b (\<lambda>sys. clEnqueueReadBuffer sys q p3 0 4096 h_C None) (u\<lparr>sys_log := l2\<rparr>, w2) = Some (CL_SUCCESS, u\<lparr>sys_log := l3\<rparr>, w3)"
    "at_rest (m_dev w3)" "set ids = set (grid_threads (launch_task cmd))" "three_args v g" "\<forall>a \<ge> 4096. g a = m_ddr w a"
    "\<forall>i < 1024. int_at (bd_pt b) h_C i w3 = get32 (run_threads (launch_task cmd) thread ids g) (0x12000 + 4 * i)"
proof -
  have maps: "mapped (bd_env b) (bd_pt b) h_C (unat (4096 :: u64))" "mapped (bd_env b) (bd_pt b) page 4096"
    and inj: "inj_on (byte_at (bd_pt b) h_C) {..<unat (4096 :: u64)}" "inj_on (byte_at (bd_pt b) page) {..<4096}"
    using bufs by (simp_all add: buffers_ok_def own_Cons)
  obtain cq cx m3 where obj: "queues u q = Some cq" "contexts u (cq_context cq) = Some cx" "q \<noteq> 0"
    and m: "mems u p3 = Some m3" "p3 \<noteq> 0" "mo_ddr3_addr m3 = 0x12000" "mo_size m3 = 4096"
    using u unfolding three_pages_def by blast
  have a3: "4096 \<le> mo_size m3" "unat (mo_ddr3_addr m3) = 0x12000" "0x12000 + unat (4096 :: u64) \<le> 2 ^ 64" using m by simp_all
  obtain l1 w1 d g where c1: "call b (\<lambda>sys. clEnqueueNDRangeKernel sys q k dims (Some global) local (Some page) None) (u, w) =
      Some (CL_SUCCESS, u\<lparr>sys_log := l1\<rparr>, w1)" and q: "ring_queue d = [Some (launch_task cmd)]"
    and staged: "get_words ioread32 FPGAGPU_KERNEL_STAGING_OFFSET (length code) d = code"
    and g: "\<forall>a < 4096. g a = concat (map bytes_le (args_page v)) ! a" "\<forall>a \<ge> 4096. g a = m_ddr w a"
    and w1: "m_ddr w1 = bd_gpu b d g" "at_rest (m_dev w1)"
    by (rule call_launch [OF ok fw rest slot maps(2) inj(2) kernel obj cmd(2,3,1)])
  obtain l2 w2 where c2: "call b (\<lambda>sys. clFinish sys q) (u\<lparr>sys_log := l1\<rparr>, w1) = Some (CL_SUCCESS, u\<lparr>sys_log := l2\<rparr>, w2)"
    and w2: "at_rest (m_dev w2)" "m_ddr w2 = m_ddr w1" by (rule call_waited [OF ok w1(2) obj, where l = l1])
  obtain l3 w3 where c3: "call b (\<lambda>sys. clEnqueueReadBuffer sys q p3 0 4096 h_C None) (u\<lparr>sys_log := l2\<rparr>, w2) =
      Some (CL_SUCCESS, u\<lparr>sys_log := l3\<rparr>, w3)" "at_rest (m_dev w3)"
    "\<forall>k < unat (4096 :: u64). m_host w3 (byte_at (bd_pt b) h_C k) = m_ddr w2 (0x12000 + k)"
    by (rule call_read [OF ok w2(1) page_bounds(1,2) maps(1) inj(1) m(1) obj m(2) a3, where l = l2])
  have "pkt_opcode (launch_task cmd) = FPGAGPU_OPCODE_LAUNCH_KERNEL" using cmd(4) by (simp add: launch_task_def)
  then obtain ids where ids: "set ids = set (grid_threads (launch_task cmd))" "bd_gpu b d g = run_threads (launch_task cmd) thread ids g"
    using gpu q staged unfolding gpu_runs_def by blast
  have "int_at (bd_pt b) h_C i w3 = get32 (run_threads (launch_task cmd) thread ids g) (0x12000 + 4 * i)" if "i < 1024" for i
    using get32_int [where g = "m_ddr w2" and x = "0x12000" and w = w3 and pt = "bd_pt b" and a = h_C and i = i] c3(3) that
    by (simp add: w2(2) w1(1) ids(2))
  then show thesis by (intro that [OF c1 c2 c3(1,2) ids(1) args_page_args [OF g(1)] g(2)]) simp
qed

section \<open>Objects\<close>

text \<open>What a program has between the creation of its buffers and their release.\<close>

definition opened :: "(nat \<Rightarrow> nat) \<Rightarrow> umd \<Rightarrow> bool" where
  "opened obj u \<longleftrightarrow>
     (\<exists>c q. contexts u = [obj 0 \<mapsto> c] \<and> cx_refs c = 1 \<and> queues u = [obj 1 \<mapsto> q] \<and> cq_refs q = 1 \<and> cq_context q = obj 0) \<and>
     (\<exists>m1 m2 m3. mems u = [obj 2 \<mapsto> m1, obj 3 \<mapsto> m2, obj 4 \<mapsto> m3] \<and>
        mo_refs m1 = 1 \<and> mo_ddr3_addr m1 = 0x10000 \<and> mo_size m1 = 4096 \<and>
        mo_refs m2 = 1 \<and> mo_ddr3_addr m2 = 0x11000 \<and> mo_size m2 = 4096 \<and>
        mo_refs m3 = 1 \<and> mo_ddr3_addr m3 = 0x12000 \<and> mo_size m3 = 4096)"

lemma opened_cong: "contexts u' = contexts u \<Longrightarrow> queues u' = queues u \<Longrightarrow> mems u' = mems u \<Longrightarrow> opened obj u' = opened obj u"
  by (simp add: opened_def)

definition new_objects :: "(nat \<Rightarrow> nat) \<Rightarrow> bool" where
  "new_objects obj \<longleftrightarrow> (\<forall>i < 7. obj i \<noteq> 0 \<and> obj i < 2 ^ 64) \<and> distinct [obj 2, obj 3, obj 4]"

lemma new_objects:
  assumes "new_objects obj"
  shows "obj 0 \<noteq> 0" "obj 1 \<noteq> 0" "obj 2 \<noteq> 0" "obj 3 \<noteq> 0" "obj 4 \<noteq> 0" "obj 5 \<noteq> 0" "obj 6 \<noteq> 0"
    "obj 2 < 2 ^ 64" "obj 3 < 2 ^ 64" "obj 4 < 2 ^ 64" "obj 2 \<noteq> obj 3" "obj 2 \<noteq> obj 4" "obj 3 \<noteq> obj 4"
  using assms by (simp_all add: new_objects_def)

lemma opened_pages: "opened obj u \<Longrightarrow> new_objects obj \<Longrightarrow> three_pages u (obj 1) (obj 2) (obj 3) (obj 4)"
  using new_objects [of obj] by (auto simp: opened_def three_pages_def)

lemma objects_created:
  assumes ok: "board_ok b bus" and new: "new_objects obj"
  obtains u1 u2 u3 u4 u5 where
    "call b (\<lambda>sys u. Some (object (clCreateContext sys 1 (Some g_device_id) (Some (obj 0)) u))) (umd_start, w) = Some ((CL_SUCCESS, obj 0), u1, w)"
    "call b (\<lambda>_ u. Some (object (clCreateCommandQueue (obj 0) g_device_id 0 (Some (obj 1)) u))) (u1, w) = Some ((CL_SUCCESS, obj 1), u2, w)"
    "create_buffer b (obj 0) CL_MEM_READ_ONLY (Some (obj 2)) (u2, w1) = Some ((CL_SUCCESS, obj 2), u3, w1)"
    "create_buffer b (obj 0) CL_MEM_READ_ONLY (Some (obj 3)) (u3, w1) = Some ((CL_SUCCESS, obj 3), u4, w1)"
    "create_buffer b (obj 0) CL_MEM_WRITE_ONLY (Some (obj 4)) (u4, w1) = Some ((CL_SUCCESS, obj 4), u5, w1)"
    "opened obj u5" "programs u5 = Map.empty" "kernels u5 = Map.empty" "tmp_files u5 = {}"
proof -
  note nz = new_objects [OF new]
  let ?c = "\<lparr>cx_device = g_device_id, cx_fd = bd_fd b, cx_refs = 1\<rparr>"
  let ?q = "\<lparr>cq_context = obj 0, cq_device = g_device_id, cq_properties = 0, cq_refs = 1\<rparr>"
  let ?m = "\<lambda>f a. \<lparr>mo_context = obj 0, mo_flags = f, mo_size = 4096, mo_host_ptr = 0, mo_ddr3_addr = a, mo_refs = 1\<rparr>"
  let ?v = "fpgagpu_vram_init (vram_state umd_start)"
  obtain l1 where c1: "call b (\<lambda>sys u. Some (object (clCreateContext sys 1 (Some g_device_id) (Some (obj 0)) u))) (umd_start, w) =
    Some ((CL_SUCCESS, obj 0), umd_start\<lparr>contexts := (contexts umd_start)(obj 0 \<mapsto> ?c), device_fd := bd_fd b,
      vram_state := ?v, sys_log := l1\<rparr>, w)" by (rule call_context [OF ok])
  define u1 where "u1 = umd_start\<lparr>contexts := (contexts umd_start)(obj 0 \<mapsto> ?c), device_fd := bd_fd b, vram_state := ?v, sys_log := l1\<rparr>"
  define u2 where "u2 = u1\<lparr>queues := (queues u1)(obj 1 \<mapsto> ?q)\<rparr>"
  define u3 where "u3 = u2\<lparr>vram_state := ?v\<lparr>current_heap_ptr := 0x11000\<rparr>, mems := (mems u2)(obj 2 \<mapsto> ?m CL_MEM_READ_ONLY 0x10000)\<rparr>"
  define u4 where "u4 = u3\<lparr>vram_state := ?v\<lparr>current_heap_ptr := 0x12000\<rparr>, mems := (mems u3)(obj 3 \<mapsto> ?m CL_MEM_READ_ONLY 0x11000)\<rparr>"
  define u5 where "u5 = u4\<lparr>vram_state := ?v\<lparr>current_heap_ptr := 0x13000\<rparr>, mems := (mems u4)(obj 4 \<mapsto> ?m CL_MEM_WRITE_ONLY 0x12000)\<rparr>"
  have c2: "call b (\<lambda>_ u. Some (object (clCreateCommandQueue (obj 0) g_device_id 0 (Some (obj 1)) u))) (u1, w) = Some ((CL_SUCCESS, obj 1), u2, w)"
    unfolding u2_def by (rule call_queue [OF nz(1)])
  have flags: "(4096 :: u64) \<noteq> 0" "CL_MEM_READ_ONLY AND CL_MEM_COPY_HOST_PTR = 0" "CL_MEM_WRITE_ONLY AND CL_MEM_COPY_HOST_PTR = 0"
    by (simp_all add: CL_MEM_READ_ONLY_def CL_MEM_WRITE_ONLY_def CL_MEM_COPY_HOST_PTR_def)
  have vs: "vram_state u2 = ?v" "vram_state u3 = ?v\<lparr>current_heap_ptr := 0x11000\<rparr>" "vram_state u4 = ?v\<lparr>current_heap_ptr := 0x12000\<rparr>"
    by (simp_all add: u1_def u2_def u3_def u4_def)
  have c3: "create_buffer b (obj 0) CL_MEM_READ_ONLY (Some (obj 2)) (u2, w1) = Some ((CL_SUCCESS, obj 2), u3, w1)"
    unfolding u3_def by (rule call_buffer [OF nz(1) flags(1) _ _ flags(2)]) (simp_all only: vs three_buffers, simp)
  have c4: "create_buffer b (obj 0) CL_MEM_READ_ONLY (Some (obj 3)) (u3, w1) = Some ((CL_SUCCESS, obj 3), u4, w1)"
    unfolding u4_def by (rule call_buffer [OF nz(1) flags(1) _ _ flags(2)]) (simp_all only: vs three_buffers, simp)
  have c5: "create_buffer b (obj 0) CL_MEM_WRITE_ONLY (Some (obj 4)) (u4, w1) = Some ((CL_SUCCESS, obj 4), u5, w1)"
    unfolding u5_def by (rule call_buffer [OF nz(1) flags(1) _ _ flags(3)]) (simp_all only: vs three_buffers, simp)
  have maps: "contexts u5 = [obj 0 \<mapsto> ?c]" "queues u5 = [obj 1 \<mapsto> ?q]"
    "mems u5 = [obj 2 \<mapsto> ?m CL_MEM_READ_ONLY 0x10000, obj 3 \<mapsto> ?m CL_MEM_READ_ONLY 0x11000, obj 4 \<mapsto> ?m CL_MEM_WRITE_ONLY 0x12000]"
    by (simp_all add: u1_def u2_def u3_def u4_def u5_def umd_start_def)
  have "opened obj u5" unfolding opened_def maps by (intro exI conjI) (rule refl | simp)+
  then show thesis
    by (rule that [OF c1 [folded u1_def] c2 c3 c4 c5]) (simp_all add: u1_def u2_def u3_def u4_def u5_def umd_start_def)
qed

text \<open>The program is built and the kernel created.\<close>

definition fresh_kernel :: "nat \<Rightarrow> string \<Rightarrow> cl_kernel" where
  "fresh_kernel p name = \<lparr>kn_program = p, kn_name = Some name, kn_args = replicate FPGAGPU_MAX_ARGS no_arg, kn_num_args = 0, kn_refs = 1\<rparr>"

lemma kernel_created:
  assumes start: "programs u = Map.empty" "kernels u = Map.empty" "tmp_files u = {}" and nz: "cx \<noteq> 0" "p \<noteq> 0"
    and src: "NUL \<notin> set src" "length src < 2 ^ 63"
    and kernel: "translates compile b src thread code" and e: "build_ok e (length src) (4 * length code)"
  obtains u1 u2 h a where
    "call b (\<lambda>_ u. map_option object (clCreateProgramWithSource cx (Some [(Some (src @ [NUL]), 0)]) (Some p) True u)) (u, w) =
      Some ((CL_SUCCESS, p), u1, w)"
    "call b (\<lambda>_. clBuildProgram compile e p) (u1, w) = Some (CL_SUCCESS, u2, w)"
    "call b (\<lambda>_ u. map_option object (clCreateKernel p (Some name) (Some k) True u)) (u2, w) =
      Some ((CL_SUCCESS, k), u2\<lparr>kernels := [k \<mapsto> fresh_kernel p name]\<rparr>, w)"
    "u2 = u\<lparr>build_counter := build_counter u + 1, programs := [p \<mapsto> h]\<rparr>" "pg_refs h = 1" "pg_is_built h"
    "pg_binary_words h = Some (a, code)" "pg_num_instructions h = of_nat (length code)"
proof -
  let ?g = "\<lparr>pg_context = cx, pg_source = src, pg_source_len = of_nat (length src), pg_binary_words = None,
    pg_num_instructions = 0, pg_is_built = False, pg_refs = 1\<rparr>"
  let ?h = "\<lambda>a. ?g\<lparr>pg_binary_words := Some (a, code), pg_num_instructions := of_nat (length code), pg_is_built := True\<rparr>"
  let ?u1 = "u\<lparr>programs := [p \<mapsto> ?g]\<rparr>" and ?u2 = "\<lambda>a. u\<lparr>build_counter := build_counter u + 1, programs := [p \<mapsto> ?h a]\<rparr>"
  have c1: "call b (\<lambda>_ u. map_option object (clCreateProgramWithSource cx (Some [(Some (src @ [NUL]), 0)]) (Some p) True u)) (u, w) =
      Some ((CL_SUCCESS, p), ?u1, w)" using call_source [OF nz(1) src, where u = u] start by simp
  have build: "build_ok e (length (pg_source ?g)) (4 * length code)" "programs ?u1 p = Some ?g" "pg_source_len ?g = of_nat (length (pg_source ?g))"
    "length (pg_source ?g) < 2 ^ 63" "translates compile b (pg_source ?g) thread code" "tmp_files ?u1 = {}"
    using e kernel src(2) start by simp_all
  obtain a where "call b (\<lambda>_. clBuildProgram compile e p) (?u1, w) = Some (CL_SUCCESS, ?u1\<lparr>build_counter := build_counter ?u1 + 1,
      programs := (programs ?u1)(p \<mapsto> ?h a)\<rparr>, w)" by (rule call_build [OF build(1,2) nz(2) build(3-6)])
  then have c2: "call b (\<lambda>_. clBuildProgram compile e p) (?u1, w) = Some (CL_SUCCESS, ?u2 a, w)" by simp
  have c3: "call b (\<lambda>_ u. map_option object (clCreateKernel p (Some name) (Some k) True u)) (?u2 a, w) =
      Some ((CL_SUCCESS, k), ?u2 a\<lparr>kernels := [k \<mapsto> fresh_kernel p name]\<rparr>, w)"
    using call_kernel [OF nz(2), where g = "?h a" and u = "?u2 a"] start by (simp add: fresh_kernel_def)
  show thesis by (rule that [OF c1 c2 c3 refl]) simp_all
qed

text \<open>Its arguments are set.\<close>

lemma call_mem_arg:
  "k \<noteq> 0 \<Longrightarrow> kernels u = [k \<mapsto> kn] \<Longrightarrow> i < of_nat FPGAGPU_MAX_ARGS \<Longrightarrow> mems u p = Some m \<Longrightarrow> p < 2 ^ 64 \<Longrightarrow>
   set_mem_arg b k i p (u, w) =
     Some (CL_SUCCESS, u\<lparr>kernels := [k \<mapsto> with_arg i (arg_entry True 8 (ucast (mo_ddr3_addr m)) p) kn]\<rparr>, w)"
  using call_arg [of k u kn i 8 "value_bytes 8 (of_nat p :: u64)" "arg_entry True 8 (ucast (mo_ddr3_addr m)) p" b w]
  by (simp add: mem_arg arg_entry_def)

lemma args_set:
  assumes new: "new_objects obj" and op: "opened obj u"
  obtains k1 k2 k3 where
    "set_mem_arg b (obj 6) 0 (obj 2) (u\<lparr>kernels := [obj 6 \<mapsto> fresh_kernel p name]\<rparr>, w) = Some (CL_SUCCESS, u\<lparr>kernels := [obj 6 \<mapsto> k1]\<rparr>, w)"
    "set_mem_arg b (obj 6) 1 (obj 3) (u\<lparr>kernels := [obj 6 \<mapsto> k1]\<rparr>, w) = Some (CL_SUCCESS, u\<lparr>kernels := [obj 6 \<mapsto> k2]\<rparr>, w)"
    "set_mem_arg b (obj 6) 2 (obj 4) (u\<lparr>kernels := [obj 6 \<mapsto> k2]\<rparr>, w) = Some (CL_SUCCESS, u\<lparr>kernels := [obj 6 \<mapsto> k3]\<rparr>, w)"
    "call b (\<lambda>_. clSetKernelArg (obj 6) 3 4 (Some (bytes_le v))) (u\<lparr>kernels := [obj 6 \<mapsto> k3]\<rparr>, w) =
      Some (CL_SUCCESS, u\<lparr>kernels := [obj 6 \<mapsto> three_kernel v p (Some name) (obj 2) (obj 3) (obj 4)]\<rparr>, w)"
proof -
  note nz = new_objects [OF new]
  obtain m1 m2 m3 where m: "mems u (obj 2) = Some m1" "mems u (obj 3) = Some m2" "mems u (obj 4) = Some m3"
    and a: "mo_ddr3_addr m1 = 0x10000" "mo_ddr3_addr m2 = 0x11000" "mo_ddr3_addr m3 = 0x12000"
    using op nz(11-13) by (auto simp: opened_def)
  have idx: "(0 :: u32) < of_nat FPGAGPU_MAX_ARGS" "(1 :: u32) < of_nat FPGAGPU_MAX_ARGS" "(2 :: u32) < of_nat FPGAGPU_MAX_ARGS"
    "(3 :: u32) < of_nat FPGAGPU_MAX_ARGS" by (simp_all add: FPGAGPU_MAX_ARGS_def)
  let ?s = "\<lambda>kn. u\<lparr>kernels := [obj 6 \<mapsto> kn]\<rparr>"
  define k1 where "k1 = with_arg 0 (arg_entry True 8 0x10000 (obj 2)) (fresh_kernel p name)"
  define k2 where "k2 = with_arg 1 (arg_entry True 8 0x11000 (obj 3)) k1"
  define k3 where "k3 = with_arg 2 (arg_entry True 8 0x12000 (obj 4)) k2"
  have "set_mem_arg b (obj 6) 0 (obj 2) (?s (fresh_kernel p name), w) = Some (CL_SUCCESS, ?s k1, w)"
    using call_mem_arg [where u = "?s (fresh_kernel p name)" and b = b and w = w, OF nz(7) _ idx(1) _ nz(8)] m a by (simp add: k1_def)
  moreover have "set_mem_arg b (obj 6) 1 (obj 3) (?s k1, w) = Some (CL_SUCCESS, ?s k2, w)"
    using call_mem_arg [where u = "?s k1" and b = b and w = w, OF nz(7) _ idx(2) _ nz(9)] m a by (simp add: k2_def)
  moreover have "set_mem_arg b (obj 6) 2 (obj 4) (?s k2, w) = Some (CL_SUCCESS, ?s k3, w)"
    using call_mem_arg [where u = "?s k2" and b = b and w = w, OF nz(7) _ idx(3) _ nz(10)] m a by (simp add: k3_def)
  moreover have "call b (\<lambda>_. clSetKernelArg (obj 6) 3 4 (Some (bytes_le v))) (?s k3, w) =
      Some (CL_SUCCESS, ?s (three_kernel v p (Some name) (obj 2) (obj 3) (obj 4)), w)"
    using call_arg [where u = "?s k3" and b = b and w = w, OF nz(7) _ idx(4) int_arg, of k3 v]
    by (simp add: k3_def k2_def k1_def three_kernel_def fresh_kernel_def arg_entry_def)
  ultimately show thesis by (rule that)
qed

text \<open>The program is built, its kernel created and given its arguments.\<close>

lemma kernel_ready:
  assumes new: "new_objects obj" and start: "opened obj u" "programs u = Map.empty" "kernels u = Map.empty" "tmp_files u = {}"
    and src: "NUL \<notin> set src" "length src < 2 ^ 63"
    and kernel: "translates compile b src thread code" and e: "build_ok e (length src) (4 * length code)"
  obtains p1 p2 h k1 k2 k3 k4 where
    "create_program b (obj 0) src (Some (obj 5)) True (u, w) = Some ((CL_SUCCESS, obj 5), p1, w)"
    "call b (\<lambda>_. clBuildProgram compile e (obj 5)) (p1, w) = Some (CL_SUCCESS, p2, w)"
    "create_kernel b (obj 5) name (Some (obj 6)) True (p2, w) = Some ((CL_SUCCESS, obj 6), p2\<lparr>kernels := [obj 6 \<mapsto> fresh_kernel (obj 5) name]\<rparr>, w)"
    "set_mem_arg b (obj 6) 0 (obj 2) (p2\<lparr>kernels := [obj 6 \<mapsto> fresh_kernel (obj 5) name]\<rparr>, w) = Some (CL_SUCCESS, k1, w)"
    "set_mem_arg b (obj 6) 1 (obj 3) (k1, w) = Some (CL_SUCCESS, k2, w)"
    "set_mem_arg b (obj 6) 2 (obj 4) (k2, w) = Some (CL_SUCCESS, k3, w)"
    "call b (\<lambda>_. clSetKernelArg (obj 6) 3 4 (Some (bytes_le v))) (k3, w) = Some (CL_SUCCESS, k4, w)"
    "opened obj k4" "kernels k4 = [obj 6 \<mapsto> three_kernel v (obj 5) (Some name) (obj 2) (obj 3) (obj 4)]"
    "programs k4 = [obj 5 \<mapsto> h]" "pg_refs h = 1" "tmp_files k4 = {}" "launchable k4 (obj 6) code (args_page v)"
proof -
  note nz = new_objects [OF new]
  let ?kn = "three_kernel v (obj 5) (Some name) (obj 2) (obj 3) (obj 4)"
  obtain p1 p2 h a where built: "create_program b (obj 0) src (Some (obj 5)) True (u, w) = Some ((CL_SUCCESS, obj 5), p1, w)"
    "call b (\<lambda>_. clBuildProgram compile e (obj 5)) (p1, w) = Some (CL_SUCCESS, p2, w)"
    "create_kernel b (obj 5) name (Some (obj 6)) True (p2, w) = Some ((CL_SUCCESS, obj 6), p2\<lparr>kernels := [obj 6 \<mapsto> fresh_kernel (obj 5) name]\<rparr>, w)"
    and p2: "p2 = u\<lparr>build_counter := build_counter u + 1, programs := [obj 5 \<mapsto> h]\<rparr>" and h: "pg_refs h = 1" "pg_is_built h"
    "pg_binary_words h = Some (a, code)" "pg_num_instructions h = of_nat (length code)"
    by (rule kernel_created [OF start(2-4) nz(1,6) src kernel e])
  have "opened obj p2" using start(1) by (simp add: p2 opened_def)
  note args = args_set [OF new this, where b = b and w = w and p = "obj 5" and name = name and v = v]
  let ?z = "p2\<lparr>kernels := [obj 6 \<mapsto> ?kn]\<rparr>"
  have launch: "launchable ?z (obj 6) code (args_page v)"
    using nz kernel h four_args(1,3) [of v "obj 5" "Some name" "obj 2" "obj 3" "obj 4"] by (simp add: launchable_def translates_def p2)
  have op: "opened obj ?z" "programs p2 = [obj 5 \<mapsto> h]" "tmp_files p2 = {}" using start(1,4) by (simp_all add: p2 opened_def)
  show thesis by (rule args) (rule that [where h = h, OF built], assumption+, simp_all add: op h launch)
qed

text \<open>Everything is released.\<close>

lemma objects_released:
  assumes new: "new_objects obj" and op: "opened obj u" and kernel: "kernels u = [obj 6 \<mapsto> kn]" "kn_refs kn = 1"
    and program: "programs u = [obj 5 \<mapsto> h]" "pg_refs h = 1"
  obtains u1 u2 u3 u4 u5 u6 u7 where
    "call b (\<lambda>_. clReleaseKernel (obj 6)) (u, w) = Some (CL_SUCCESS, u1, w)"
    "call b (\<lambda>_. clReleaseProgram (obj 5)) (u1, w) = Some (CL_SUCCESS, u2, w)"
    "call b (\<lambda>_. clReleaseMemObject (obj 2)) (u2, w) = Some (CL_SUCCESS, u3, w)"
    "call b (\<lambda>_. clReleaseMemObject (obj 3)) (u3, w) = Some (CL_SUCCESS, u4, w)"
    "call b (\<lambda>_. clReleaseMemObject (obj 4)) (u4, w) = Some (CL_SUCCESS, u5, w)"
    "call b (\<lambda>_. clReleaseCommandQueue (obj 1)) (u5, w) = Some (CL_SUCCESS, u6, w)"
    "call b (\<lambda>sys. clReleaseContext sys (obj 0)) (u6, w) = Some (CL_SUCCESS, u7, w)"
    "contexts u7 = Map.empty" "queues u7 = Map.empty" "mems u7 = Map.empty" "programs u7 = Map.empty" "kernels u7 = Map.empty"
    "tmp_files u7 = tmp_files u"
proof -
  note nz = new_objects [OF new]
  obtain c q m1 m2 m3 where o: "contexts u = [obj 0 \<mapsto> c]" "cx_refs c = 1" "queues u = [obj 1 \<mapsto> q]" "cq_refs q = 1"
    and m: "mems u = [obj 2 \<mapsto> m1, obj 3 \<mapsto> m2, obj 4 \<mapsto> m3]" "mo_refs m1 = 1" "mo_refs m2 = 1" "mo_refs m3 = 1"
    using op unfolding opened_def by blast
  define u1 where "u1 = u\<lparr>kernels := (kernels u)(obj 6 := None)\<rparr>"
  define u2 where "u2 = u1\<lparr>programs := (programs u1)(obj 5 := None)\<rparr>"
  define u3 where "u3 = u2\<lparr>mems := (mems u2)(obj 2 := None)\<rparr>"
  define u4 where "u4 = u3\<lparr>mems := (mems u3)(obj 3 := None)\<rparr>"
  define u5 where "u5 = u4\<lparr>mems := (mems u4)(obj 4 := None)\<rparr>"
  define u6 where "u6 = u5\<lparr>queues := (queues u5)(obj 1 := None)\<rparr>"
  note defs = u1_def u2_def u3_def u4_def u5_def u6_def
  have lookup: "kernels u (obj 6) = Some kn" "programs u1 (obj 5) = Some h" "mems u2 (obj 2) = Some m1" "mems u3 (obj 3) = Some m2"
    "mems u4 (obj 4) = Some m3" "queues u5 (obj 1) = Some q" "contexts u6 (obj 0) = Some c"
    using nz(11-13) by (simp_all add: defs o m kernel program)
  obtain l where r7: "call b (\<lambda>sys. clReleaseContext sys (obj 0)) (u6, w) =
      Some (CL_SUCCESS, u6\<lparr>contexts := (contexts u6)(obj 0 := None), sys_log := l\<rparr>, w)"
    by (rule call_close [OF lookup(7) o(2) nz(1)])
  have gone: "(contexts u)(obj 0 := None) = Map.empty" "(queues u)(obj 1 := None) = Map.empty" "(kernels u)(obj 6 := None) = Map.empty"
    "(programs u)(obj 5 := None) = Map.empty" "(mems u)(obj 2 := None, obj 3 := None, obj 4 := None) = Map.empty"
    by (auto simp: o m kernel program fun_eq_iff)
  show thesis
    by (rule that [OF call_release_kernel [OF lookup(1) kernel(2) nz(7), folded u1_def]
          call_release_program [OF lookup(2) program(2) nz(6), folded u2_def]
          call_release_buffer [OF lookup(3) m(2) nz(3), folded u3_def] call_release_buffer [OF lookup(4) m(3) nz(4), folded u4_def]
          call_release_buffer [OF lookup(5) m(4) nz(5), folded u5_def] call_release_queue [OF lookup(6) o(4) nz(2), folded u6_def] r7])
      (simp_all add: defs gone del: One_nat_def)
qed

text \<open>A whole test: every call succeeds, whatever the host does between the creation of the queue and that of the
  buffers, and the third vector is the \<open>out\<close> that the threads compute from the first two.\<close>

lemma kernel_test:
  assumes ok: "board_ok b bus" and fw: "fw_only_head (bd_env b)" and rest: "at_rest (m_dev w1)"
    and slot: "unat (csr_mem (m_dev w1) RING_TAIL) \<noteq> 510" and src: "NUL \<notin> set src" "length src < 2 ^ 63"
    and kernel: "translates compile b src thread code" and e: "build_ok e (length src) (4 * length code)"
    and bufs: "buffers_ok (bd_env b) (bd_pt b) [h_A, h_B, h_C, page] 4096" and new: "new_objects obj"
    and cmd: "launch_cmd_of dims global local = Some cmd" "dims \<noteq> 0" "dims \<le> 3" "cmd_opcode cmd = FPGAGPU_OPCODE_LAUNCH_KERNEL"
    and result: "\<forall>ids g i. set ids = set (grid_threads (launch_task cmd)) \<and> three_args v g \<and>
      (\<forall>i < 1024. get32 g (0x10000 + 4 * i) = int_at (bd_pt b) h_A i w1 \<and> get32 g (0x11000 + 4 * i) = int_at (bd_pt b) h_B i w1) \<and>
      i < n \<longrightarrow> get32 (run_threads (launch_task cmd) thread ids g) (0x12000 + 4 * i) = out i" and n: "n \<le> 1024"
  obtains u1 u2 u3 u4 u5 v1 v2 v3 p1 p2 k0 k1 k2 k3 k4 l1 l2 l3 r1 r2 r3 r4 r5 r6 r7 w2 w3 w4 w5 w6 w7 where
    "call b (\<lambda>sys u. Some (object (clCreateContext sys 1 (Some g_device_id) (Some (obj 0)) u))) (umd_start, w) = Some ((CL_SUCCESS, obj 0), u1, w)"
    "call b (\<lambda>_ u. Some (object (clCreateCommandQueue (obj 0) g_device_id 0 (Some (obj 1)) u))) (u1, w) = Some ((CL_SUCCESS, obj 1), u2, w)"
    "create_buffer b (obj 0) CL_MEM_READ_ONLY (Some (obj 2)) (u2, w1) = Some ((CL_SUCCESS, obj 2), u3, w1)"
    "create_buffer b (obj 0) CL_MEM_READ_ONLY (Some (obj 3)) (u3, w1) = Some ((CL_SUCCESS, obj 3), u4, w1)"
    "create_buffer b (obj 0) CL_MEM_WRITE_ONLY (Some (obj 4)) (u4, w1) = Some ((CL_SUCCESS, obj 4), u5, w1)"
    "write_page b (obj 1) (obj 2) h_A (u5, w1) = Some (CL_SUCCESS, v1, w2)"
    "write_page b (obj 1) (obj 3) h_B (v1, w2) = Some (CL_SUCCESS, v2, w3)"
    "write_page b (obj 1) (obj 4) h_C (v2, w3) = Some (CL_SUCCESS, v3, w4)"
    "create_program b (obj 0) src (Some (obj 5)) True (v3, w4) = Some ((CL_SUCCESS, obj 5), p1, w4)"
    "call b (\<lambda>_. clBuildProgram compile e (obj 5)) (p1, w4) = Some (CL_SUCCESS, p2, w4)"
    "create_kernel b (obj 5) name (Some (obj 6)) True (p2, w4) = Some ((CL_SUCCESS, obj 6), k0, w4)"
    "set_mem_arg b (obj 6) 0 (obj 2) (k0, w4) = Some (CL_SUCCESS, k1, w4)"
    "set_mem_arg b (obj 6) 1 (obj 3) (k1, w4) = Some (CL_SUCCESS, k2, w4)"
    "set_mem_arg b (obj 6) 2 (obj 4) (k2, w4) = Some (CL_SUCCESS, k3, w4)"
    "call b (\<lambda>_. clSetKernelArg (obj 6) 3 4 (Some (bytes_le v))) (k3, w4) = Some (CL_SUCCESS, k4, w4)"
    "call b (\<lambda>sys. clEnqueueNDRangeKernel sys (obj 1) (obj 6) dims (Some global) local (Some page) None) (k4, w4) = Some (CL_SUCCESS, l1, w5)"
    "call b (\<lambda>sys. clFinish sys (obj 1)) (l1, w5) = Some (CL_SUCCESS, l2, w6)"
    "read_page b (obj 1) (obj 4) h_C (l2, w6) = Some (CL_SUCCESS, l3, w7)"
    "call b (\<lambda>_. clReleaseKernel (obj 6)) (l3, w7) = Some (CL_SUCCESS, r1, w7)"
    "call b (\<lambda>_. clReleaseProgram (obj 5)) (r1, w7) = Some (CL_SUCCESS, r2, w7)"
    "call b (\<lambda>_. clReleaseMemObject (obj 2)) (r2, w7) = Some (CL_SUCCESS, r3, w7)"
    "call b (\<lambda>_. clReleaseMemObject (obj 3)) (r3, w7) = Some (CL_SUCCESS, r4, w7)"
    "call b (\<lambda>_. clReleaseMemObject (obj 4)) (r4, w7) = Some (CL_SUCCESS, r5, w7)"
    "call b (\<lambda>_. clReleaseCommandQueue (obj 1)) (r5, w7) = Some (CL_SUCCESS, r6, w7)"
    "call b (\<lambda>sys. clReleaseContext sys (obj 0)) (r6, w7) = Some (CL_SUCCESS, r7, w7)"
    "contexts r7 = Map.empty" "queues r7 = Map.empty" "mems r7 = Map.empty" "programs r7 = Map.empty" "kernels r7 = Map.empty"
    "tmp_files r7 = {}" "at_rest (m_dev w7)" "\<forall>i < n. int_at (bd_pt b) h_C i w7 = out i"
proof -
  note nz = new_objects [OF new]
  obtain u1 u2 u3 u4 u where created:
    "call b (\<lambda>sys u. Some (object (clCreateContext sys 1 (Some g_device_id) (Some (obj 0)) u))) (umd_start, w) = Some ((CL_SUCCESS, obj 0), u1, w)"
    "call b (\<lambda>_ u. Some (object (clCreateCommandQueue (obj 0) g_device_id 0 (Some (obj 1)) u))) (u1, w) = Some ((CL_SUCCESS, obj 1), u2, w)"
    "create_buffer b (obj 0) CL_MEM_READ_ONLY (Some (obj 2)) (u2, w1) = Some ((CL_SUCCESS, obj 2), u3, w1)"
    "create_buffer b (obj 0) CL_MEM_READ_ONLY (Some (obj 3)) (u3, w1) = Some ((CL_SUCCESS, obj 3), u4, w1)"
    "create_buffer b (obj 0) CL_MEM_WRITE_ONLY (Some (obj 4)) (u4, w1) = Some ((CL_SUCCESS, obj 4), u, w1)"
    and op: "opened obj u" and start: "programs u = Map.empty" "kernels u = Map.empty" "tmp_files u = {}"
    by (rule objects_created [OF ok new])
  obtain l1 l2 l3 w2 w3 w4 where upload:
    "write_page b (obj 1) (obj 2) h_A (u\<lparr>sys_log := sys_log u\<rparr>, w1) = Some (CL_SUCCESS, u\<lparr>sys_log := l1\<rparr>, w2)"
    "write_page b (obj 1) (obj 3) h_B (u\<lparr>sys_log := l1\<rparr>, w2) = Some (CL_SUCCESS, u\<lparr>sys_log := l2\<rparr>, w3)"
    "write_page b (obj 1) (obj 4) h_C (u\<lparr>sys_log := l2\<rparr>, w3) = Some (CL_SUCCESS, u\<lparr>sys_log := l3\<rparr>, w4)"
    and w4: "at_rest (m_dev w4)" "csr_mem (m_dev w4) = csr_mem (m_dev w1)"
    and vecs: "\<forall>i < 1024. get32 (m_ddr w4) (0x10000 + 4 * i) = int_at (bd_pt b) h_A i w1 \<and>
      get32 (m_ddr w4) (0x11000 + 4 * i) = int_at (bd_pt b) h_B i w1"
    by (rule vectors_uploaded [OF ok rest bufs opened_pages [OF op new], where l = "sys_log u"]) blast
  have self: "u\<lparr>sys_log := sys_log u\<rparr> = u" by simp
  define v3 where "v3 = u\<lparr>sys_log := l3\<rparr>"
  have v3: "opened obj v3" "programs v3 = Map.empty" "kernels v3 = Map.empty" "tmp_files v3 = {}"
    using op start by (simp_all add: v3_def opened_def)
  obtain p1 p2 h k1 k2 k3 k4 where built:
    "create_program b (obj 0) src (Some (obj 5)) True (v3, w4) = Some ((CL_SUCCESS, obj 5), p1, w4)"
    "call b (\<lambda>_. clBuildProgram compile e (obj 5)) (p1, w4) = Some (CL_SUCCESS, p2, w4)"
    "create_kernel b (obj 5) name (Some (obj 6)) True (p2, w4) = Some ((CL_SUCCESS, obj 6), p2\<lparr>kernels := [obj 6 \<mapsto> fresh_kernel (obj 5) name]\<rparr>, w4)"
    "set_mem_arg b (obj 6) 0 (obj 2) (p2\<lparr>kernels := [obj 6 \<mapsto> fresh_kernel (obj 5) name]\<rparr>, w4) = Some (CL_SUCCESS, k1, w4)"
    "set_mem_arg b (obj 6) 1 (obj 3) (k1, w4) = Some (CL_SUCCESS, k2, w4)"
    "set_mem_arg b (obj 6) 2 (obj 4) (k2, w4) = Some (CL_SUCCESS, k3, w4)"
    "call b (\<lambda>_. clSetKernelArg (obj 6) 3 4 (Some (bytes_le v))) (k3, w4) = Some (CL_SUCCESS, k4, w4)"
    and k4: "opened obj k4" "kernels k4 = [obj 6 \<mapsto> three_kernel v (obj 5) (Some name) (obj 2) (obj 3) (obj 4)]"
      "programs k4 = [obj 5 \<mapsto> h]" "pg_refs h = 1" "tmp_files k4 = {}" "launchable k4 (obj 6) code (args_page v)"
    by (rule kernel_ready [OF new v3 src kernel e])
  have slot4: "unat (csr_mem (m_dev w4) RING_TAIL) \<noteq> 510" using slot w4(2) by simp
  have gpu: "gpu_runs b code thread" using kernel by (simp add: translates_def)
  obtain l5 l6 l7 w5 w6 w7 ids g where run:
    "call b (\<lambda>sys. clEnqueueNDRangeKernel sys (obj 1) (obj 6) dims (Some global) local (Some page) None) (k4, w4) = Some (CL_SUCCESS, k4\<lparr>sys_log := l5\<rparr>, w5)"
    "call b (\<lambda>sys. clFinish sys (obj 1)) (k4\<lparr>sys_log := l5\<rparr>, w5) = Some (CL_SUCCESS, k4\<lparr>sys_log := l6\<rparr>, w6)"
    "read_page b (obj 1) (obj 4) h_C (k4\<lparr>sys_log := l6\<rparr>, w6) = Some (CL_SUCCESS, k4\<lparr>sys_log := l7\<rparr>, w7)"
    and rest7: "at_rest (m_dev w7)" and ids: "set ids = set (grid_threads (launch_task cmd))" and g: "three_args v g" "\<forall>a \<ge> 4096. g a = m_ddr w4 a"
    and res: "\<forall>i < 1024. int_at (bd_pt b) h_C i w7 = get32 (run_threads (launch_task cmd) thread ids g) (0x12000 + 4 * i)"
    by (rule kernel_run [OF ok fw w4(1) slot4 gpu bufs opened_pages [OF k4(1) new] k4(6) cmd])
  have "get32 g a = get32 (m_ddr w4) a" if "4096 \<le> a" for a using g(2) that by (intro get32_cong) simp
  then have out: "\<forall>i < n. int_at (bd_pt b) h_C i w7 = out i" using result ids g(1) vecs res n by simp
  define y where "y = k4\<lparr>sys_log := l7\<rparr>"
  have y: "opened obj y" "kernels y = kernels k4" "programs y = [obj 5 \<mapsto> h]" "tmp_files y = {}"
    using k4 by (simp_all add: y_def opened_def)
  note calls = created upload [unfolded self, folded v3_def] built run [folded y_def]
  show thesis
    by (rule objects_released [OF new y(1) y(2) [unfolded k4(2)] four_args(2) y(3) k4(4), where b = b and w = w7])
      (rule that, (rule calls)+, assumption+, simp_all add: y rest7 out)
qed

section \<open>A board that runs a kernel\<close>

text \<open>A GPU that runs the threads of a launch in the order of their ids, and a compiler that knows one kernel.\<close>

definition thread_gpu :: "kernel_thread \<Rightarrow> fpgagpu_dev \<Rightarrow> device_memory \<Rightarrow> device_memory" where
  "thread_gpu thread d g =
     (case ring_queue d of
        [Some pkt] \<Rightarrow> if pkt_opcode pkt = FPGAGPU_OPCODE_LAUNCH_KERNEL then run_threads pkt thread (grid_threads pkt) g else g
      | _ \<Rightarrow> g)"

definition thread_board :: "kernel_thread \<Rightarrow> board" where "thread_board thread = test_board\<lparr>bd_gpu := thread_gpu thread\<rparr>"

lemma thread_board_ok: "board_ok (thread_board thread) sample_bus"
proof -
  have "thread_gpu thread d g = g" if "csr_mem d RING_HEAD = csr_mem d RING_TAIL" for d g
    using that by (simp add: thread_gpu_def ring_abs_def ring_pending_def ring_count_def ring_dist_def)
  then show ?thesis using test_board_ok by (simp add: board_ok_def thread_board_def)
qed

lemma thread_compiler: "translates (\<lambda>_ _. (0, Some [1, 0, 0, 0])) (thread_board thread) src thread [1]"
proof -
  have "distinct (grid_threads pkt)" for pkt by (simp add: grid_threads_def distinct_product)
  then have "gpu_runs (thread_board thread) [1] thread"
    by (auto simp: gpu_runs_def thread_board_def thread_gpu_def)
  then show ?thesis by (simp add: translates_def bytes_le_def)
qed

lemma thread_board_start:
  "fw_only_head (bd_env (thread_board thread))" "at_rest (m_dev test_machine)" "unat (csr_mem (m_dev test_machine) RING_TAIL) \<noteq> 510"
  "buffers_ok (bd_env (thread_board thread)) (bd_pt (thread_board thread)) [test_buf 0, test_buf 1, test_buf 2, test_buf 3] 4096"
  "length src \<le> 4096 \<Longrightarrow> build_ok (demo_env\<lparr>be_write_source := Some 4096\<rparr>) (length src) (4 * length [1 :: u32])"
  "new_objects (\<lambda>i. i + 10)"
  using sample_env_wait(2) spaced_buffers [of "[0, 1, 2, 3]" 4096]
  by (simp_all add: thread_board_def test_board_def test_env_def fw_only_head_def at_rest_def test_machine_def sample_dma_dev_def
      sample_dev_def kzalloc_dev_def ring_wf_def build_ok_def demo_env_def header_include_def new_objects_def)

end
