(* ===== verification/VectorAdd.thy ===== *)
theory VectorAdd
  imports ThreeBuffers
begin

text \<open>
  The vector addition test, \<open>tests/test_opencl_vector_add.c\<close>, from discovery to its exit code: buffers, a program
  built from source, a launch, and the check of the result.  Printing and \<open>free\<close> are left out.  The compiler
  and the GPU are parameters.
\<close>

section \<open>The kernel\<close>

text \<open>\<open>vector_add\<close>, run by the thread with global id \<open>i\<close>.\<close>

definition vector_add :: kernel_thread where
  "vector_add base lane i g =
     (let A = kernel_arg base lane 0 g; B = kernel_arg base lane 1 g; C = kernel_arg base lane 2 g;
          n = kernel_arg base lane 3 g; id = of_nat (fst i) :: u32
      in if sint id < sint n
         then put32 (unat (C + 4 * id)) (get32 g (unat (A + 4 * id)) + get32 g (unat (B + 4 * id))) g
         else g)"

definition kernel_source :: string where
  "kernel_source = ''__kernel void vector_add(__global const int *A, __global const int *B, __global int *C, int n) { int id = get_global_id(0); if (id < n) { C[id] = A[id] + B[id]; } }''"

section \<open>The program\<close>

definition NUM_ELEMENTS :: nat where "NUM_ELEMENTS = 64"

fun fill_vectors :: "(u64 \<Rightarrow> u64) \<Rightarrow> u64 \<Rightarrow> u64 \<Rightarrow> u64 \<Rightarrow> nat \<Rightarrow> machine \<Rightarrow> machine \<times> u32 list" where
  "fill_vectors pt h_A h_B h_C 0 w = (w, [])"
| "fill_vectors pt h_A h_B h_C (Suc i) w =
     (let (w, expected) = fill_vectors pt h_A h_B h_C i w;
          w = put_int pt h_A i (of_nat ((i + 1) * 10)) w;
          w = put_int pt h_B i (of_nat ((i + 1) * 3)) w;
          w = put_int pt h_C i 0 w
      in (w, expected @ [int_at pt h_A i w + int_at pt h_B i w]))"

text \<open>\<open>obj\<close> is what \<open>malloc\<close> gives the user mode driver for its objects, in the order of their creation, \<open>mem\<close> what
  \<open>posix_memalign\<close> gives for the three vectors and the page of arguments, \<open>text_ok\<close> and \<open>name_ok\<close> whether there is
  memory for the source and the name of the kernel.\<close>

definition vector_add_main ::
  "board \<Rightarrow> device_compiler \<Rightarrow> build_env \<Rightarrow> (nat \<Rightarrow> nat option) \<Rightarrow> (nat \<Rightarrow> u64 option) \<Rightarrow> bool \<Rightarrow> bool \<Rightarrow>
   umd \<times> machine \<Rightarrow> (int \<times> umd \<times> machine) option" where
  "vector_add_main b compile e obj mem text_ok name_ok s =
     (let (err, platforms, num_platforms) = clGetPlatformIDs 1 (Some [0]) True;
          platform = (case platforms of Some (p # _) \<Rightarrow> p | _ \<Rightarrow> 0)
      in if err \<noteq> CL_SUCCESS \<or> num_platforms \<in> {None, Some 0} then Some (1, s) else
      let (err, devices, num_devices) = clGetDeviceIDs platform CL_DEVICE_TYPE_ALL 1 (Some [0]) True;
          device = (case devices of Some (d # _) \<Rightarrow> d | _ \<Rightarrow> 0)
      in if err \<noteq> CL_SUCCESS \<or> num_devices \<in> {None, Some 0} then Some (1, s) else
      do {
        ((err, context), s) \<leftarrow> call b (\<lambda>sys u. Some (object (clCreateContext sys 1 (Some device) (obj 0) u))) s;
        if err \<noteq> CL_SUCCESS \<or> context = 0 then Some (1, s) else do {
        ((err, queue), s) \<leftarrow> call b (\<lambda>_ u. Some (object (clCreateCommandQueue context device 0 (obj 1) u))) s;
        if err \<noteq> CL_SUCCESS \<or> queue = 0 then do {
          (_, s) \<leftarrow> call b (\<lambda>sys. clReleaseContext sys context) s;
          Some (1, s)
        } else case (mem 0, mem 1, mem 2) of
          (Some h_A, Some h_B, Some h_C) \<Rightarrow> do {
            let (w, expected) = fill_vectors (bd_pt b) h_A h_B h_C NUM_ELEMENTS (snd s);
            let s = (fst s, w);
            ((_, d_A), s) \<leftarrow> create_buffer b context CL_MEM_READ_ONLY (obj 2) s;
            ((_, d_B), s) \<leftarrow> create_buffer b context CL_MEM_READ_ONLY (obj 3) s;
            ((_, d_C), s) \<leftarrow> create_buffer b context CL_MEM_WRITE_ONLY (obj 4) s;
            (_, s) \<leftarrow> call b (\<lambda>sys. clEnqueueWriteBuffer sys queue d_A 0 4096 h_A None) s;
            (_, s) \<leftarrow> call b (\<lambda>sys. clEnqueueWriteBuffer sys queue d_B 0 4096 h_B None) s;
            (_, s) \<leftarrow> call b (\<lambda>sys. clEnqueueWriteBuffer sys queue d_C 0 4096 h_C None) s;
            ((err, program), s) \<leftarrow> call b (\<lambda>_ u. map_option object
                (clCreateProgramWithSource context (Some [(Some (kernel_source @ [NUL]), 0)]) (obj 5) text_ok u)) s;
            if err \<noteq> CL_SUCCESS then Some (1, s) else do {
            (err, s) \<leftarrow> call b (\<lambda>_. clBuildProgram compile e program) s;
            if err \<noteq> CL_SUCCESS then Some (1, s) else do {
            ((err, kern), s) \<leftarrow> call b (\<lambda>_ u. map_option object
                (clCreateKernel program (Some ''vector_add'') (obj 6) name_ok u)) s;
            if err \<noteq> CL_SUCCESS then Some (1, s) else do {
            (_, s) \<leftarrow> set_mem_arg b kern 0 d_A s;
            (_, s) \<leftarrow> set_mem_arg b kern 1 d_B s;
            (_, s) \<leftarrow> set_mem_arg b kern 2 d_C s;
            (_, s) \<leftarrow> call b (\<lambda>_. clSetKernelArg kern 3 4 (Some (bytes_le (of_nat NUM_ELEMENTS)))) s;
            (err, s) \<leftarrow> call b (\<lambda>sys. clEnqueueNDRangeKernel sys queue kern 1 (Some ((!) [of_nat NUM_ELEMENTS]))
                (Some ((!) [2])) (mem 3) None) s;
            if err \<noteq> CL_SUCCESS then Some (1, s) else do {
            (_, s) \<leftarrow> call b (\<lambda>sys. clFinish sys queue) s;
            (err, s) \<leftarrow> call b (\<lambda>sys. clEnqueueReadBuffer sys queue d_C 0 4096 h_C None) s;
            if err \<noteq> CL_SUCCESS then Some (1, s) else do {
            let mismatches = length (filter (\<lambda>i. int_at (bd_pt b) h_C i (snd s) \<noteq> expected ! i) [0..<NUM_ELEMENTS]);
            (_, s) \<leftarrow> call b (\<lambda>_. clReleaseKernel kern) s;
            (_, s) \<leftarrow> call b (\<lambda>_. clReleaseProgram program) s;
            (_, s) \<leftarrow> call b (\<lambda>_. clReleaseMemObject d_A) s;
            (_, s) \<leftarrow> call b (\<lambda>_. clReleaseMemObject d_B) s;
            (_, s) \<leftarrow> call b (\<lambda>_. clReleaseMemObject d_C) s;
            (_, s) \<leftarrow> call b (\<lambda>_. clReleaseCommandQueue queue) s;
            (_, s) \<leftarrow> call b (\<lambda>sys. clReleaseContext sys context) s;
            Some (if mismatches = 0 then 0 else 1, s)
          }}}}}}
        | _ \<Rightarrow> Some (1, s)
      }})"

section \<open>The work of the GPU\<close>

definition vector_cmd :: fpgagpu_launch_cmd where
  "vector_cmd = \<lparr>cmd_opcode = FPGAGPU_OPCODE_LAUNCH_KERNEL, cmd_grid_dim_x = 32, cmd_grid_dim_y = 1, cmd_block_dim_x = 2,
     cmd_block_dim_y = 1, cmd_dma_src_addr = 0, cmd_dma_dst_addr = 0, cmd_num_elements = 64, cmd_payload_size = 0,
     cmd_payload_vaddr = 0\<rparr>"

lemma vector_cmd: "launch_cmd_of 1 ((!) [of_nat NUM_ELEMENTS]) (Some ((!) [2])) = Some vector_cmd"
  by (simp add: launch_cmd_of_def NUM_ELEMENTS_def grid_dim_def vector_cmd_def FPGAGPU_KERNARG_BASE_def Let_def)

lemma vector_packet:
  "grid_threads (launch_task vector_cmd) = List.product [0..<64] [0]"
  "run_threads (launch_task vector_cmd) thread = fold (\<lambda>i. thread 0 ((fst i mod 2 + snd i mod 1 * 2) mod 2) i)"
  by (simp_all add: grid_threads_def run_threads_def launch_task_def vector_cmd_def or_default_def Let_def)

lemma vector_add_thread:
  assumes "three_args 64 g" and "fst i < 64" and "lane < 2"
  shows "vector_add 0 lane i g =
    put32 (0x12000 + 4 * fst i) (get32 g (0x10000 + 4 * fst i) + get32 g (0x11000 + 4 * fst i)) g"
proof -
  have "sint (of_nat (fst i) :: u32) = int (fst i)" using assms(2) by (simp add: signed_of_nat signed_take_bit_int_eq_self)
  then show ?thesis using assms by (simp add: vector_add_def Let_def three_args_def entry_addr)
qed

lemma vector_add_grid:
  assumes ids: "set ids = set (grid_threads (launch_task vector_cmd))" and args: "three_args 64 g" and i: "i < 64"
  shows "get32 (run_threads (launch_task vector_cmd) vector_add ids g) (0x12000 + 4 * i) =
    get32 g (0x10000 + 4 * i) + get32 g (0x11000 + 4 * i)"
proof -
  let ?f = "\<lambda>i. vector_add 0 ((fst i mod 2 + snd i mod 1 * 2) mod 2) i"
  let ?addr = "\<lambda>j :: nat \<times> nat. 0x12000 + 4 * fst j"
  let ?val = "\<lambda>j :: nat \<times> nat. get32 g (0x10000 + 4 * fst j) + get32 g (0x11000 + 4 * fst j)"
  have set: "set ids = {..<64} \<times> {0}" unfolding ids vector_packet set_product set_upt atLeast0LessThan by simp
  have "get32 (fold ?f ids g) (?addr (i, 0)) = ?val (i, 0)"
  proof (rule independent_threads [where f = ?f and addr = ?addr and val = ?val and low = "0x12000"])
    fix j and g' assume j: "j \<in> set ids" and same: "\<forall>a < 0x12000. g' a = g a"
    have "fst j < 64" using j by (simp add: set mem_Times_iff)
    moreover have "get32 g' a = get32 g a" if "a + 4 \<le> 0x12000" for a using same that by (intro get32_cong) simp
    ultimately show "?f j g' = put32 (?addr j) (?val j) g'"
      using vector_add_thread [OF three_args_low [OF args]] same by simp
  next
    fix j k assume "j \<in> set ids" "k \<in> set ids" "j \<noteq> k"
    then have "fst j \<noteq> fst k" by (auto simp: set)
    then show "?addr j + 4 \<le> ?addr k \<or> ?addr k + 4 \<le> ?addr j" by linarith
  qed (use i in \<open>simp_all add: set\<close>)
  then show ?thesis by (simp only: vector_packet fst_conv)
qed

section \<open>The vectors\<close>

lemma fill_vectors_ints:
  assumes own: "own pt [a, b, c] 4096" and "n \<le> 1024"
  shows "\<exists>w'. fill_vectors pt a b c n w = (w', map (\<lambda>i. of_nat ((i + 1) * 10) + of_nat ((i + 1) * 3)) [0..<n]) \<and>
    m_dev w' = m_dev w \<and>
    (\<forall>i < n. int_at pt a i w' = of_nat ((i + 1) * 10) \<and> int_at pt b i w' = of_nat ((i + 1) * 3))"
  using assms(2)
proof (induction n)
  case (Suc n)
  then obtain w1 where w1: "fill_vectors pt a b c n w = (w1, map (\<lambda>i. of_nat ((i + 1) * 10) + of_nat ((i + 1) * 3)) [0..<n])"
    "m_dev w1 = m_dev w" "\<And>i. i < n \<Longrightarrow> int_at pt a i w1 = of_nat ((i + 1) * 10) \<and> int_at pt b i w1 = of_nat ((i + 1) * 3)" by auto
  let ?x = "of_nat ((n + 1) * 10) :: u32" and ?y = "of_nat ((n + 1) * 3) :: u32"
  define w2 where "w2 = put_int pt b n ?y (put_int pt a n ?x w1)"
  define w3 where "w3 = put_int pt c n 0 w2"
  have own2: "own pt [a, b] 4096" "own pt [a, c] 4096" "own pt [b, c] 4096" using own by (simp_all add: own_Cons)
  have n: "n < 1024" using Suc.prems by simp
  note pair = put_pair [OF own2(1) n, where x = ?x and y = ?y and w = w1, folded w2_def]
  have c: "int_at pt a i w3 = int_at pt a i w2" "int_at pt b i w3 = int_at pt b i w2" if "i < 1024" for i
    unfolding w3_def by (rule int_at_third [OF own2(2) n that], rule int_at_third [OF own2(3) n that])
  have "int_at pt a n w3 = ?x" "int_at pt b n w3 = ?y" using c [OF n] pair(1,2) by simp_all
  moreover have "int_at pt a i w3 = of_nat ((i + 1) * 10) \<and> int_at pt b i w3 = of_nat ((i + 1) * 3)" if "i < n" for i
    using that w1(3) [OF that] c [of i] pair(3,4) [of i] n by (simp del: of_nat_mult of_nat_add)
  moreover have "fill_vectors pt a b c (Suc n) w =
      (w3, map (\<lambda>i. of_nat ((i + 1) * 10) + of_nat ((i + 1) * 3)) [0..<n] @ [int_at pt a n w3 + int_at pt b n w3])"
    by (simp add: w1(1) Let_def w2_def w3_def)
  moreover have "m_dev w3 = m_dev w" by (simp add: w3_def w2_def w1(2))
  ultimately show ?case by (auto simp: less_Suc_eq)
qed simp

section \<open>The test\<close>

lemma source_text: "NUL \<notin> set kernel_source" "length kernel_source < 2 ^ 63"
  by (simp_all add: kernel_source_def)

text \<open>C16: the vector addition test passes.  On a board that does what is documented of it, with a compiler that
  translates the kernel and a GPU that runs its threads, in any order, with ordinary memory and a file system that
  works, the program returns 0: the sums it reads back are those it expects.  It has released every object and left no
  file behind, and the driver's device is at rest.  (The one exception is a ring whose next free slot but one is the last,
  which is not ring memory.)\<close>

theorem vector_add_test_passes:
  assumes ok: "board_ok b bus" and fw: "fw_only_head (bd_env b)" and rest: "at_rest (m_dev w)"
    and slot: "unat (csr_mem (m_dev w) RING_TAIL) \<noteq> 510"
    and kernel: "translates compile b kernel_source vector_add code"
    and e: "build_ok e (length kernel_source) (4 * length code)"
    and bufs: "buffers_ok (bd_env b) (bd_pt b) [mem 0, mem 1, mem 2, mem 3] 4096" and new: "new_objects obj"
  shows "\<exists>u' w'. vector_add_main b compile e (\<lambda>i. Some (obj i)) (\<lambda>i. Some (mem i)) True True (umd_start, w) = Some (0, u', w') \<and>
    contexts u' = Map.empty \<and> queues u' = Map.empty \<and> mems u' = Map.empty \<and> programs u' = Map.empty \<and>
    kernels u' = Map.empty \<and> tmp_files u' = {} \<and> at_rest (m_dev w')"
proof -
  note nz = new_objects [OF new]
  have own: "own (bd_pt b) [mem 0, mem 1, mem 2] 4096" using bufs by (simp add: buffers_ok_def own_Cons)
  obtain w1 expected where fill: "fill_vectors (bd_pt b) (mem 0) (mem 1) (mem 2) NUM_ELEMENTS w = (w1, expected)"
    and same: "m_dev w1 = m_dev w"
    and vec: "\<And>i. i < 64 \<Longrightarrow> expected ! i = int_at (bd_pt b) (mem 0) i w1 + int_at (bd_pt b) (mem 1) i w1"
    using fill_vectors_ints [OF own, of 64 w] by (auto simp: NUM_ELEMENTS_def)
  have cmd: "(1 :: u32) \<noteq> 0" "(1 :: u32) \<le> 3" "cmd_opcode vector_cmd = FPGAGPU_OPCODE_LAUNCH_KERNEL" "NUM_ELEMENTS \<le> 1024"
    by (simp_all add: vector_cmd_def NUM_ELEMENTS_def)
  have out: "\<forall>ids g i. set ids = set (grid_threads (launch_task vector_cmd)) \<and> three_args (of_nat NUM_ELEMENTS) g \<and>
      (\<forall>i < 1024. get32 g (0x10000 + 4 * i) = int_at (bd_pt b) (mem 0) i w1 \<and> get32 g (0x11000 + 4 * i) = int_at (bd_pt b) (mem 1) i w1) \<and>
      i < NUM_ELEMENTS \<longrightarrow> get32 (run_threads (launch_task vector_cmd) vector_add ids g) (0x12000 + 4 * i) = expected ! i"
    using vector_add_grid vec by (simp add: NUM_ELEMENTS_def)
  show ?thesis
  proof (rule kernel_test [where w = w and name = "''vector_add''", OF ok fw rest [folded same] slot [folded same] source_text kernel
      e bufs new vector_cmd cmd(1-3) out cmd(4)], goal_cases)
    case calls: 1
    have none: "filter (\<lambda>i. int_at (bd_pt b) (mem 2) i w7 \<noteq> expected ! i) [0..<NUM_ELEMENTS] = []"
      if "\<forall>i < NUM_ELEMENTS. int_at (bd_pt b) (mem 2) i w7 = expected ! i" for w7
      using that by (simp add: filter_empty_conv)
    show ?case unfolding vector_add_main_def
      by (simp add: calls discovery fill nz none [OF calls(33)] del: One_nat_def)
  qed
qed

theorem vector_add_test_passes_witness:
  "\<exists>u' w'. vector_add_main (thread_board vector_add) (\<lambda>_ _. (0, Some [1, 0, 0, 0])) (demo_env\<lparr>be_write_source := Some 4096\<rparr>)
     (\<lambda>i. Some (i + 10)) (\<lambda>i. Some (test_buf i)) True True (umd_start, test_machine) = Some (0, u', w')"
proof -
  have "length kernel_source \<le> 4096" by (simp add: kernel_source_def)
  from vector_add_test_passes [OF thread_board_ok thread_board_start(1-3) thread_compiler thread_board_start(5) [OF this]
      thread_board_start(4,6)] show ?thesis by auto
qed

end
