(* ===== verification/MatMul.thy ===== *)
theory MatMul
  imports ThreeBuffers
begin

text \<open>
  The matrix multiplication test, \<open>tests/test_opencl_matmul.c\<close>, with the files it writes through
  \<open>tests/raw_data.c\<close>: a kernel launched on two dimensions, its result compared with the product that the program
  computes itself.  Messages and \<open>free\<close> are left out.
\<close>

section \<open>Files of numbers\<close>

text \<open>Whether \<open>fopen\<close> gives a file for a path, how many bytes it takes, and whether \<open>fclose\<close> succeeds.\<close>

record file_env =
  fe_open :: "string \<Rightarrow> bool"
  fe_room :: "string \<Rightarrow> nat"
  fe_close :: "string \<Rightarrow> bool"

type_synonym files = "string \<Rightarrow> u8 list option"

fun write_words :: "nat \<Rightarrow> u32 list \<Rightarrow> u8 list \<Rightarrow> bool \<times> u8 list" where
  "write_words room [] out = (True, out)"
| "write_words room (v # vs) out =
     (if length out + 4 \<le> room then write_words room vs (out @ bytes_le v)
      else (False, take room (out @ bytes_le v)))"

definition write_raw :: "file_env \<Rightarrow> string \<Rightarrow> u32 list \<Rightarrow> files \<Rightarrow> int \<times> files" where
  "write_raw fe path values fs =
     (if \<not> fe_open fe path then (1, fs) else
      let (ok, out) = write_words (fe_room fe path) values []
      in (if \<not> ok then 1 else if fe_close fe path then 0 else 1, fs(path \<mapsto> out)))"

lemma write_words_room:
  "length out + 4 * length vs \<le> room \<Longrightarrow> write_words room vs out = (True, out @ concat (map bytes_le vs))"
proof (induction vs arbitrary: out)
  case (Cons v vs)
  have "length (bytes_le v) = 4" by (simp add: bytes_le_def)
  with Cons show ?case by simp
qed simp

lemma write_raw_ok:
  "fe_open fe p \<Longrightarrow> fe_close fe p \<Longrightarrow> 4 * length vs \<le> fe_room fe p \<Longrightarrow>
   write_raw fe p vs fs = (0, fs(p \<mapsto> concat (map bytes_le vs)))"
  by (simp add: write_raw_def write_words_room)

section \<open>The kernel\<close>

definition MATRIX_DIM :: nat where "MATRIX_DIM = 4"

text \<open>\<open>matmul\<close>, run by the thread with the global ids \<open>i\<close>.\<close>

definition matmul :: kernel_thread where
  "matmul base lane i g =
     (let A = kernel_arg base lane 0 g; B = kernel_arg base lane 1 g; C = kernel_arg base lane 2 g; N = kernel_arg base lane 3 g;
          col = of_nat (fst i); row = of_nat (snd i);
          sum = fold (\<lambda>k sum. sum + get32 g (unat (A + 4 * (row * N + of_nat k))) * get32 g (unat (B + 4 * (of_nat k * N + col)))) [0..<4] 0
      in put32 (unat (C + 4 * (row * N + col))) sum g)"

definition matmul_source :: string where
  "matmul_source = ''__kernel void matmul(__global const int *A, __global const int *B, __global int *C, int N) { int col = get_global_id(0); int row = get_global_id(1); int sum = 0; for (int k = 0; k < 4; k++) { sum += A[row * N + k] * B[k * N + col]; } C[row * N + col] = sum; }''"

section \<open>The program\<close>

fun fill_matrices :: "(u64 \<Rightarrow> u64) \<Rightarrow> u64 \<Rightarrow> u64 \<Rightarrow> nat \<Rightarrow> machine \<Rightarrow> machine" where
  "fill_matrices pt h_A h_B 0 w = w"
| "fill_matrices pt h_A h_B (Suc i) w =
     (let w = fill_matrices pt h_A h_B i w;
          w = put_int pt h_A i (of_nat (i mod 7 + 1)) w
      in put_int pt h_B i (of_nat (i mod 5 + 2)) w)"

definition golden :: "(u64 \<Rightarrow> u64) \<Rightarrow> u64 \<Rightarrow> u64 \<Rightarrow> machine \<Rightarrow> u32 list" where
  "golden pt h_A h_B w =
     concat (map (\<lambda>r. map (\<lambda>c.
       fold (\<lambda>k sum. sum + int_at pt h_A (r * MATRIX_DIM + k) w * int_at pt h_B (k * MATRIX_DIM + c) w) [0..<MATRIX_DIM] 0)
       [0..<MATRIX_DIM]) [0..<MATRIX_DIM])"

text \<open>The first \<open>n\<close> entries of an array.\<close>

definition ints :: "(u64 \<Rightarrow> u64) \<Rightarrow> u64 \<Rightarrow> nat \<Rightarrow> machine \<Rightarrow> u32 list" where
  "ints pt a n w = map (\<lambda>i. int_at pt a i w) [0..<n]"

text \<open>The parameters are those of \<open>vector_add_main\<close>, and the files with their environment.  \<open>memcmp\<close> compares the
  words, which are equal exactly when their bytes are.\<close>

definition matmul_main ::
  "board \<Rightarrow> device_compiler \<Rightarrow> build_env \<Rightarrow> file_env \<Rightarrow> (nat \<Rightarrow> nat option) \<Rightarrow> (nat \<Rightarrow> u64 option) \<Rightarrow> bool \<Rightarrow> bool \<Rightarrow>
   files \<Rightarrow> umd \<times> machine \<Rightarrow> (int \<times> files \<times> umd \<times> machine) option" where
  "matmul_main b compile e fe obj mem text_ok name_ok fs s =
     (let (err, platforms, _) = clGetPlatformIDs 1 (Some [0]) False;
          platform = (case platforms of Some (p # _) \<Rightarrow> p | _ \<Rightarrow> 0)
      in if err \<noteq> CL_SUCCESS then Some (1, fs, s) else
      let (err, devices, _) = clGetDeviceIDs platform CL_DEVICE_TYPE_ALL 1 (Some [0]) False;
          device = (case devices of Some (d # _) \<Rightarrow> d | _ \<Rightarrow> 0)
      in if err \<noteq> CL_SUCCESS then Some (1, fs, s) else
      do {
        ((err, context), s) \<leftarrow> call b (\<lambda>sys u. Some (object (clCreateContext sys 1 (Some device) (obj 0) u))) s;
        if err \<noteq> CL_SUCCESS then Some (1, fs, s) else do {
        ((err, queue), s) \<leftarrow> call b (\<lambda>_ u. Some (object (clCreateCommandQueue context device 0 (obj 1) u))) s;
        if err \<noteq> CL_SUCCESS then Some (1, fs, s) else case (mem 0, mem 1, mem 2) of
          (Some h_A, Some h_B, Some h_C) \<Rightarrow> do {
            let w = memset (bd_pt b) h_C 0 4096 (memset (bd_pt b) h_B 0 4096 (memset (bd_pt b) h_A 0 4096 (snd s)));
            let w = fill_matrices (bd_pt b) h_A h_B (MATRIX_DIM * MATRIX_DIM) w;
            let expected = golden (bd_pt b) h_A h_B w;
            let s = (fst s, w);
            let (failed, fs) = write_raw fe ''matmul_cpu.bin'' expected fs;
            if failed \<noteq> 0 then Some (1, fs, s) else do {
            ((_, d_A), s) \<leftarrow> create_buffer b context CL_MEM_READ_ONLY (obj 2) s;
            ((_, d_B), s) \<leftarrow> create_buffer b context CL_MEM_READ_ONLY (obj 3) s;
            ((_, d_C), s) \<leftarrow> create_buffer b context CL_MEM_WRITE_ONLY (obj 4) s;
            if d_A = 0 \<or> d_B = 0 \<or> d_C = 0 then Some (1, fs, s) else do {
            (err, s) \<leftarrow> write_page b queue d_A h_A s;
            if err \<noteq> CL_SUCCESS then Some (1, fs, s) else do {
            (err, s) \<leftarrow> write_page b queue d_B h_B s;
            if err \<noteq> CL_SUCCESS then Some (1, fs, s) else do {
            (err, s) \<leftarrow> write_page b queue d_C h_C s;
            if err \<noteq> CL_SUCCESS then Some (1, fs, s) else do {
            ((_, program), s) \<leftarrow> create_program b context matmul_source (obj 5) text_ok s;
            (err, s) \<leftarrow> call b (\<lambda>_. clBuildProgram compile e program) s;
            if err \<noteq> CL_SUCCESS then Some (1, fs, s) else do {
            ((_, kern), s) \<leftarrow> create_kernel b program ''matmul'' (obj 6) name_ok s;
            if kern = 0 then Some (1, fs, s) else do {
            (err, s) \<leftarrow> set_mem_arg b kern 0 d_A s;
            if err \<noteq> CL_SUCCESS then Some (1, fs, s) else do {
            (err, s) \<leftarrow> set_mem_arg b kern 1 d_B s;
            if err \<noteq> CL_SUCCESS then Some (1, fs, s) else do {
            (err, s) \<leftarrow> set_mem_arg b kern 2 d_C s;
            if err \<noteq> CL_SUCCESS then Some (1, fs, s) else do {
            (err, s) \<leftarrow> call b (\<lambda>_. clSetKernelArg kern 3 4 (Some (bytes_le (of_nat MATRIX_DIM)))) s;
            if err \<noteq> CL_SUCCESS then Some (1, fs, s) else do {
            (err, s) \<leftarrow> call b (\<lambda>sys. clEnqueueNDRangeKernel sys queue kern 2
                (Some ((!) [of_nat MATRIX_DIM, of_nat MATRIX_DIM])) (Some ((!) [2, 1])) (mem 3) None) s;
            if err \<noteq> CL_SUCCESS then Some (1, fs, s) else do {
            (err, s) \<leftarrow> call b (\<lambda>sys. clFinish sys queue) s;
            if err \<noteq> CL_SUCCESS then Some (1, fs, s) else do {
            (err, s) \<leftarrow> read_page b queue d_C h_C s;
            if err \<noteq> CL_SUCCESS then Some (1, fs, s) else do {
            let result = ints (bd_pt b) h_C (MATRIX_DIM * MATRIX_DIM) (snd s);
            let (failed, fs) = write_raw fe ''matmul_gpu.bin'' result fs;
            if failed \<noteq> 0 then Some (1, fs, s) else do {
            let mismatches = (result \<noteq> expected);
            (_, s) \<leftarrow> call b (\<lambda>_. clReleaseKernel kern) s;
            (_, s) \<leftarrow> call b (\<lambda>_. clReleaseProgram program) s;
            (_, s) \<leftarrow> call b (\<lambda>_. clReleaseMemObject d_A) s;
            (_, s) \<leftarrow> call b (\<lambda>_. clReleaseMemObject d_B) s;
            (_, s) \<leftarrow> call b (\<lambda>_. clReleaseMemObject d_C) s;
            (_, s) \<leftarrow> call b (\<lambda>_. clReleaseCommandQueue queue) s;
            (_, s) \<leftarrow> call b (\<lambda>sys. clReleaseContext sys context) s;
            Some (if mismatches then 1 else 0, fs, s)
          }}}}}}}}}}}}}}}}
        | _ \<Rightarrow> Some (1, fs, s)
      }})"

section \<open>The work of the GPU\<close>

definition matmul_cmd :: fpgagpu_launch_cmd where
  "matmul_cmd = \<lparr>cmd_opcode = FPGAGPU_OPCODE_LAUNCH_KERNEL, cmd_grid_dim_x = 2, cmd_grid_dim_y = 4, cmd_block_dim_x = 2,
     cmd_block_dim_y = 1, cmd_dma_src_addr = 0, cmd_dma_dst_addr = 0, cmd_num_elements = 16, cmd_payload_size = 0,
     cmd_payload_vaddr = 0\<rparr>"

lemma matmul_cmd:
  "launch_cmd_of 2 ((!) [of_nat MATRIX_DIM, of_nat MATRIX_DIM]) (Some ((!) [2, 1])) = Some matmul_cmd"
  by (simp add: launch_cmd_of_def MATRIX_DIM_def grid_dim_def matmul_cmd_def FPGAGPU_KERNARG_BASE_def Let_def)

lemma matmul_packet:
  "grid_threads (launch_task matmul_cmd) = List.product [0..<4] [0..<4]"
  "run_threads (launch_task matmul_cmd) thread = fold (\<lambda>i. thread 0 ((fst i mod 2 + snd i mod 1 * 2) mod 2) i)"
  by (simp_all only: grid_threads_def run_threads_def launch_task_def matmul_cmd_def or_default_def Let_def
      fpgagpu_launch_cmd.simps fpgagpu_dispatch_packet.simps) simp_all

text \<open>An entry of the product of two matrices in memory.\<close>

definition entry_product :: "(nat \<Rightarrow> u32) \<Rightarrow> (nat \<Rightarrow> u32) \<Rightarrow> nat \<Rightarrow> nat \<Rightarrow> u32" where
  "entry_product A B r c = fold (\<lambda>k sum. sum + A (r * 4 + k) * B (k * 4 + c)) [0..<4] 0"

lemma entry_product_cong:
  assumes "\<And>i. i < 16 \<Longrightarrow> A i = A' i" and "\<And>i. i < 16 \<Longrightarrow> B i = B' i" and "r < 4" and "c < 4"
  shows "entry_product A B r c = entry_product A' B' r c"
  unfolding entry_product_def using assms by (intro fold_cong) (auto simp: fun_eq_iff)

lemma matmul_thread:
  assumes args: "three_args 4 g" and i: "fst i < 4" "snd i < 4" and lane: "lane < 2"
  shows "matmul 0 lane i g = put32 (0x12000 + 4 * (snd i * 4 + fst i))
    (entry_product (\<lambda>i. get32 g (0x10000 + 4 * i)) (\<lambda>i. get32 g (0x11000 + 4 * i)) (snd i) (fst i)) g"
proof -
  have idx: "of_nat r * 4 + of_nat c = (of_nat (r * 4 + c) :: u32)" for r c by simp
  have addr: "unat (a + 4 * (of_nat r * 4 + of_nat c) :: u32) = unat a + 4 * (r * 4 + c)"
    if "unat a \<le> 0x12000" "r < 4" "c < 4" for a r c
    unfolding idx using that by (intro entry_addr) simp_all
  have in_A: "unat (0x10000 + 4 * (of_nat (snd i) * 4 + of_nat k) :: u32) = 0x10000 + 4 * (snd i * 4 + k)"
    and in_B: "unat (0x11000 + 4 * (of_nat k * 4 + of_nat (fst i)) :: u32) = 0x11000 + 4 * (k * 4 + fst i)" if "k < 4" for k
    using addr [of "0x10000" "snd i" k] addr [of "0x11000" k "fst i"] i that by simp_all
  have sum: "fold (\<lambda>k sum. sum + get32 g (unat (0x10000 + 4 * (of_nat (snd i) * 4 + of_nat k) :: u32)) *
      get32 g (unat (0x11000 + 4 * (of_nat k * 4 + of_nat (fst i)) :: u32))) [0..<4] 0 =
    entry_product (\<lambda>i. get32 g (0x10000 + 4 * i)) (\<lambda>i. get32 g (0x11000 + 4 * i)) (snd i) (fst i)"
    unfolding entry_product_def
  proof (intro fold_cong refl ext)
    fix k sum assume "k \<in> set [0 ..< 4 :: nat]"
    then have "k < 4" by simp
    then show "sum + get32 g (unat (0x10000 + 4 * (of_nat (snd i) * 4 + of_nat k) :: u32)) *
        get32 g (unat (0x11000 + 4 * (of_nat k * 4 + of_nat (fst i)) :: u32)) =
      sum + get32 g (0x10000 + 4 * (snd i * 4 + k)) * get32 g (0x11000 + 4 * (k * 4 + fst i))" by (simp only: in_A in_B)
  qed
  have "unat (0x12000 + 4 * (of_nat (snd i) * 4 + of_nat (fst i)) :: u32) = 0x12000 + 4 * (snd i * 4 + fst i)"
    using addr [of "0x12000"] i by simp
  then show ?thesis using args lane unfolding matmul_def three_args_def Let_def by (simp only: sum)
qed

lemma matmul_grid:
  assumes ids: "set ids = set (grid_threads (launch_task matmul_cmd))" and args: "three_args 4 g" and i: "i < 16"
  shows "get32 (run_threads (launch_task matmul_cmd) matmul ids g) (0x12000 + 4 * i) =
    entry_product (\<lambda>i. get32 g (0x10000 + 4 * i)) (\<lambda>i. get32 g (0x11000 + 4 * i)) (i div 4) (i mod 4)"
proof -
  let ?f = "\<lambda>i. matmul 0 ((fst i mod 2 + snd i mod 1 * 2) mod 2) i"
  let ?addr = "\<lambda>j :: nat \<times> nat. 0x12000 + 4 * (snd j * 4 + fst j)"
  let ?val = "\<lambda>g (j :: nat \<times> nat). entry_product (\<lambda>i. get32 g (0x10000 + 4 * i)) (\<lambda>i. get32 g (0x11000 + 4 * i)) (snd j) (fst j)"
  have set: "set ids = {..<4} \<times> {..<4}" unfolding ids matmul_packet set_product set_upt atLeast0LessThan by (rule refl)
  have "get32 (fold ?f ids g) (?addr (i mod 4, i div 4)) = ?val g (i mod 4, i div 4)"
  proof (rule independent_threads [where f = ?f and addr = ?addr and val = "?val g" and low = "0x12000"])
    fix j and g' assume "j \<in> set ids" and same: "\<forall>a < 0x12000. g' a = g a"
    then have j: "fst j < 4" "snd j < 4" by (simp_all add: set mem_Times_iff)
    have low: "get32 g' a = get32 g a" if "a + 4 \<le> 0x12000" for a using same that by (intro get32_cong) simp
    have "?val g' j = ?val g j" by (rule entry_product_cong [OF _ _ j(2,1)]) (simp_all add: low)
    then show "?f j g' = put32 (?addr j) (?val g j) g'"
      using matmul_thread [OF three_args_low [OF args] j] same by simp
  next
    fix j k assume "j \<in> set ids" "k \<in> set ids" "j \<noteq> k"
    then have "fst j < 4" "fst k < 4" "fst j \<noteq> fst k \<or> snd j \<noteq> snd k" by (auto simp: set prod_eq_iff)
    then have "snd j * 4 + fst j \<noteq> snd k * 4 + fst k" by presburger
    then show "?addr j + 4 \<le> ?addr k \<or> ?addr k + 4 \<le> ?addr j" by arith
  qed (use i in \<open>simp_all add: set less_mult_imp_div_less\<close>)
  moreover have "i div 4 * 4 + i mod 4 = i" by simp
  ultimately show ?thesis by (simp only: matmul_packet fst_conv snd_conv)
qed

section \<open>The matrices\<close>

lemma memset_keeps [simp]: "m_dev (memset pt a v n w) = m_dev w"
proof -
  have "m_dev (fold (\<lambda>i. put pt (f i) v) xs w) = m_dev w" for f and xs :: "nat list"
    by (induction xs arbitrary: w) (simp_all add: put_def)
  then show ?thesis by (simp add: memset_def)
qed

lemma fill_matrices_ints:
  assumes own: "own pt [a, b] 4096"
  shows "n \<le> 1024 \<Longrightarrow> m_dev (fill_matrices pt a b n w) = m_dev w \<and>
    (\<forall>i < n. int_at pt a i (fill_matrices pt a b n w) = of_nat (i mod 7 + 1) \<and>
      int_at pt b i (fill_matrices pt a b n w) = of_nat (i mod 5 + 2))"
proof (induction n)
  case (Suc n)
  then have n: "n < 1024" by simp
  note pair = put_pair [OF own n, where x = "of_nat (n mod 7 + 1)" and y = "of_nat (n mod 5 + 2)" and w = "fill_matrices pt a b n w"]
  show ?case using Suc n pair by (simp add: Let_def less_Suc_eq del: of_nat_add)
qed simp

lemma golden_nth:
  assumes "i < 16"
  shows "golden pt a b w ! i = entry_product (\<lambda>i. int_at pt a i w) (\<lambda>i. int_at pt b i w) (i div 4) (i mod 4)"
proof -
  have upt: "[0..<4] = [0, 1, 2, 3 :: nat]" "[0..<16] = [0, 1, 2, 3, 4, 5, 6, 7, 8, 9, 10, 11, 12, 13, 14, 15 :: nat]"
    by (simp_all add: upt_rec)
  have "concat (map (\<lambda>r. map (f r) [0..<4]) [0..<4]) = map (\<lambda>i. f (i div 4) (i mod 4)) [0..<16]" for f :: "nat \<Rightarrow> nat \<Rightarrow> u32"
    by (simp add: upt)
  then show ?thesis using assms by (simp add: golden_def entry_product_def MATRIX_DIM_def)
qed

lemma length_golden: "length (golden pt a b w) = 16"
  by (simp add: golden_def MATRIX_DIM_def length_concat comp_def sum_list_triv)

text \<open>The bytes of the product of the two matrices, row by row.\<close>

definition product_bytes :: "u8 list" where
  "product_bytes = concat (map (\<lambda>i. bytes_le (of_nat
     (\<Sum>k < 4. ((i div 4 * 4 + k) mod 7 + 1) * ((k * 4 + i mod 4) mod 5 + 2)))) [0..<16])"

lemma golden_product:
  assumes "\<And>i. i < 16 \<Longrightarrow> int_at pt a i w = of_nat (i mod 7 + 1)" and "\<And>i. i < 16 \<Longrightarrow> int_at pt b i w = of_nat (i mod 5 + 2)"
  shows "concat (map bytes_le (golden pt a b w)) = product_bytes"
proof -
  have sum: "entry_product (\<lambda>i. of_nat (A i)) (\<lambda>i. of_nat (B i)) r c = of_nat (\<Sum>k < 4. A (r * 4 + k) * B (k * 4 + c))"
    for A B and r c :: nat
    by (simp add: entry_product_def upt_rec eval_nat_numeral lessThan_Suc algebra_simps)
  have "golden pt a b w = map ((!) (golden pt a b w)) [0..<16]" by (metis length_golden map_nth)
  also have "\<dots> = map (\<lambda>i. of_nat (\<Sum>k < 4. ((i div 4 * 4 + k) mod 7 + 1) * ((k * 4 + i mod 4) mod 5 + 2))) [0..<16]"
  proof (intro map_cong refl)
    fix i assume "i \<in> set [0 ..< 16 :: nat]"
    then have i: "i < 16" "i div 4 < 4" "i mod 4 < 4" by auto
    have "golden pt a b w ! i = entry_product (\<lambda>i. of_nat (i mod 7 + 1)) (\<lambda>i. of_nat (i mod 5 + 2)) (i div 4) (i mod 4)"
      unfolding golden_nth [OF i(1)] by (rule entry_product_cong [OF assms i(2,3)])
    then show "golden pt a b w ! i = of_nat (\<Sum>k < 4. ((i div 4 * 4 + k) mod 7 + 1) * ((k * 4 + i mod 4) mod 5 + 2))"
      by (simp only: sum)
  qed
  finally show ?thesis by (simp only: product_bytes_def map_map comp_def)
qed

section \<open>The test\<close>

definition files_ok :: "file_env \<Rightarrow> bool" where
  "files_ok fe \<longleftrightarrow> (\<forall>p \<in> {''matmul_cpu.bin'', ''matmul_gpu.bin''}. fe_open fe p \<and> 64 \<le> fe_room fe p \<and> fe_close fe p)"

lemma matmul_text: "NUL \<notin> set matmul_source" "length matmul_source < 2 ^ 63"
  by (simp_all add: matmul_source_def)

lemma discovery_uncounted:
  "clGetPlatformIDs 1 (Some [0]) False = (CL_SUCCESS, Some [g_platform_id], None)"
  "clGetDeviceIDs p CL_DEVICE_TYPE_ALL 1 (Some [0]) False = (CL_SUCCESS, Some [g_device_id], None)"
  by (simp_all add: clGetPlatformIDs_def clGetDeviceIDs_def CL_DEVICE_TYPE_ALL_def CL_DEVICE_TYPE_GPU_def
      CL_DEVICE_TYPE_ACCELERATOR_def CL_DEVICE_TYPE_DEFAULT_def)

text \<open>C17: the matrix multiplication test passes.  Under the same assumptions as the vector addition test, and with
  files that take 64 bytes, it returns 0 and both of its files hold the product of the two matrices, so the
  comparison it is written for (\<open>cmp matmul_cpu.bin matmul_gpu.bin\<close>) succeeds.  Every object is released.\<close>

theorem matmul_test_passes:
  assumes ok: "board_ok b bus" and fw: "fw_only_head (bd_env b)" and rest: "at_rest (m_dev w)"
    and slot: "unat (csr_mem (m_dev w) RING_TAIL) \<noteq> 510"
    and kernel: "translates compile b matmul_source matmul code"
    and e: "build_ok e (length matmul_source) (4 * length code)" and files: "files_ok fe"
    and bufs: "buffers_ok (bd_env b) (bd_pt b) [mem 0, mem 1, mem 2, mem 3] 4096" and new: "new_objects obj"
  shows "\<exists>u' w'. matmul_main b compile e fe (\<lambda>i. Some (obj i)) (\<lambda>i. Some (mem i)) True True fs (umd_start, w) =
      Some (0, fs(''matmul_cpu.bin'' \<mapsto> product_bytes, ''matmul_gpu.bin'' \<mapsto> product_bytes), u', w') \<and>
    contexts u' = Map.empty \<and> queues u' = Map.empty \<and> mems u' = Map.empty \<and> programs u' = Map.empty \<and>
    kernels u' = Map.empty \<and> tmp_files u' = {} \<and> at_rest (m_dev w')"
proof -
  note nz = new_objects [OF new]
  have own: "own (bd_pt b) [mem 0, mem 1] 4096" using bufs by (simp add: buffers_ok_def own_Cons)
  define w0 where "w0 = memset (bd_pt b) (mem 2) 0 4096 (memset (bd_pt b) (mem 1) 0 4096 (memset (bd_pt b) (mem 0) 0 4096 w))"
  define w1 where "w1 = fill_matrices (bd_pt b) (mem 0) (mem 1) (MATRIX_DIM * MATRIX_DIM) w0"
  define expected where "expected = golden (bd_pt b) (mem 0) (mem 1) w1"
  have same: "m_dev w1 = m_dev w" and filled: "\<And>i. i < 16 \<Longrightarrow> int_at (bd_pt b) (mem 0) i w1 = of_nat (i mod 7 + 1)"
    "\<And>i. i < 16 \<Longrightarrow> int_at (bd_pt b) (mem 1) i w1 = of_nat (i mod 5 + 2)"
    using fill_matrices_ints [OF own, of 16 w0] by (simp_all add: w1_def w0_def MATRIX_DIM_def)
  have len: "length expected = 16" by (simp only: expected_def length_golden)
  have bytes: "concat (map bytes_le expected) = product_bytes" unfolding expected_def by (rule golden_product [OF filled])
  have saved: "write_raw fe ''matmul_cpu.bin'' expected fs = (0, fs(''matmul_cpu.bin'' \<mapsto> product_bytes))"
    "write_raw fe ''matmul_gpu.bin'' expected fs = (0, fs(''matmul_gpu.bin'' \<mapsto> product_bytes))" for fs
    using files write_raw_ok [of fe _ expected fs] len bytes by (simp_all add: files_ok_def)
  have cmd: "(2 :: u32) \<noteq> 0" "(2 :: u32) \<le> 3" "cmd_opcode matmul_cmd = FPGAGPU_OPCODE_LAUNCH_KERNEL" "(16 :: nat) \<le> 1024"
    by (simp_all add: matmul_cmd_def)
  have out: "\<forall>ids g i. set ids = set (grid_threads (launch_task matmul_cmd)) \<and> three_args (of_nat MATRIX_DIM) g \<and>
      (\<forall>i < 1024. get32 g (0x10000 + 4 * i) = int_at (bd_pt b) (mem 0) i w1 \<and> get32 g (0x11000 + 4 * i) = int_at (bd_pt b) (mem 1) i w1) \<and>
      i < 16 \<longrightarrow> get32 (run_threads (launch_task matmul_cmd) matmul ids g) (0x12000 + 4 * i) = expected ! i"
    (is "\<forall>ids g i. ?ids ids \<and> ?args g \<and> ?vecs g \<and> i < 16 \<longrightarrow> ?out ids g i = _")
  proof (intro allI impI, elim conjE)
    fix ids g and i :: nat assume a: "?ids ids" "?args g" "?vecs g" "i < 16"
    have args: "three_args 4 g" using a(2) by (simp add: MATRIX_DIM_def)
    have "i div 4 < 4" "i mod 4 < 4" using a(4) by auto
    then show "?out ids g i = expected ! i" unfolding matmul_grid [OF a(1) args a(4)] expected_def golden_nth [OF a(4)]
      using a(3) by (intro entry_product_cong) simp_all
  qed
  show ?thesis
  proof (rule kernel_test [where w = w and name = "''matmul''", OF ok fw rest [folded same] slot [folded same] matmul_text kernel
      e bufs new matmul_cmd cmd(1-3) out cmd(4)], goal_cases)
    case calls: 1
    have result: "ints (bd_pt b) (mem 2) (MATRIX_DIM * MATRIX_DIM) w7 = expected"
      if "\<forall>i < 16. int_at (bd_pt b) (mem 2) i w7 = expected ! i" for w7
      using that len by (intro nth_equalityI) (simp_all add: ints_def MATRIX_DIM_def)
    show ?case unfolding matmul_main_def
      by (simp add: calls discovery_uncounted w0_def [symmetric] w1_def [symmetric] expected_def [symmetric] saved nz
          result [OF calls(33)] Let_def del: One_nat_def)
  qed
qed

theorem matmul_test_passes_witness:
  "\<exists>u' w'. matmul_main (thread_board matmul) (\<lambda>_ _. (0, Some [1, 0, 0, 0])) (demo_env\<lparr>be_write_source := Some 4096\<rparr>)
     \<lparr>fe_open = \<lambda>_. True, fe_room = \<lambda>_. 4096, fe_close = \<lambda>_. True\<rparr>
     (\<lambda>i. Some (i + 10)) (\<lambda>i. Some (test_buf i)) True True Map.empty (umd_start, test_machine) =
       Some (0, [''matmul_cpu.bin'' \<mapsto> product_bytes, ''matmul_gpu.bin'' \<mapsto> product_bytes], u', w')"
proof -
  have src: "length matmul_source \<le> 4096" by (simp add: matmul_source_def)
  have files: "files_ok \<lparr>fe_open = \<lambda>_. True, fe_room = \<lambda>_. 4096, fe_close = \<lambda>_. True\<rparr>" by (simp add: files_ok_def)
  from matmul_test_passes [OF thread_board_ok thread_board_start(1-3) thread_compiler thread_board_start(5) [OF src] files
      thread_board_start(4,6), of Map.empty] show ?thesis by auto
qed

end
