(* ===== verification/ClHalf.thy ===== *)
theory ClHalf
  imports Prelude "HOL-Library.While_Combinator"
begin

text \<open>
  Half precision numbers: \<open>include/CL/cl_half.h\<close>.  A \<open>cl_float\<close>, \<open>cl_double\<close> or \<open>cl_half\<close> is its bit
  pattern, as in the unions of the code.  Magnitudes are natural numbers: a half counts in
  units of \<open>2^-24\<close>, a float in units of \<open>2^-149\<close>, a double in units of \<open>2^-1074\<close>, so that
  every finite value is exact.
\<close>

type_synonym u16 = "16 word"

section \<open>The conversions\<close>

definition CL_FLT_MANT_DIG :: nat where "CL_FLT_MANT_DIG = 24"
definition CL_FLT_MAX_EXP :: int where "CL_FLT_MAX_EXP = 128"
definition CL_HALF_MANT_DIG :: nat where "CL_HALF_MANT_DIG = 11"
definition CL_HALF_MAX_EXP :: int where "CL_HALF_MAX_EXP = 16"
definition CL_HALF_MIN_EXP :: int where "CL_HALF_MIN_EXP = - 13"
definition CL_DBL_MANT_DIG :: nat where "CL_DBL_MANT_DIG = 53"
definition CL_DBL_MAX_EXP :: int where "CL_DBL_MAX_EXP = 1024"

datatype cl_half_rounding_mode = CL_HALF_RTE | CL_HALF_RTZ | CL_HALF_RTP | CL_HALF_RTN

definition CL_HALF_EXP_MASK :: u16 where "CL_HALF_EXP_MASK = 0x7C00"
definition CL_HALF_MAX_FINITE_MAG :: u16 where "CL_HALF_MAX_FINITE_MAG = 0x7BFF"

definition cl_half_handle_overflow :: "cl_half_rounding_mode \<Rightarrow> u16 \<Rightarrow> u16" where
  "cl_half_handle_overflow rounding_mode sign =
     (if rounding_mode = CL_HALF_RTZ then push_bit 15 sign OR CL_HALF_MAX_FINITE_MAG
      else if rounding_mode = CL_HALF_RTP \<and> sign \<noteq> 0 then push_bit 15 1 OR CL_HALF_MAX_FINITE_MAG
      else if rounding_mode = CL_HALF_RTN \<and> sign = 0 then CL_HALF_MAX_FINITE_MAG
      else push_bit 15 sign OR CL_HALF_EXP_MASK)"

definition cl_half_handle_underflow :: "cl_half_rounding_mode \<Rightarrow> u16 \<Rightarrow> u16" where
  "cl_half_handle_underflow rounding_mode sign =
     (if rounding_mode = CL_HALF_RTP \<and> sign = 0 then push_bit 15 sign OR 1
      else if rounding_mode = CL_HALF_RTN \<and> sign \<noteq> 0 then push_bit 15 sign OR 1
      else push_bit 15 sign)"

text \<open>
  The tail that both conversions to half share, from the shift of the mantissa on; the code has
  it once with 32-bit and once with 64-bit mantissas.
\<close>

definition half_mantissa :: "cl_half_rounding_mode \<Rightarrow> u16 \<Rightarrow> 'a::len word \<Rightarrow> nat \<Rightarrow> u16" where
  "half_mantissa rounding_mode sign mant lsb_pos =
     (let h_mant = ucast (drop_bit lsb_pos mant);
          halfway = push_bit (lsb_pos - 1) 1;
          msk = push_bit 1 halfway - 1
      in case rounding_mode of
           CL_HALF_RTE \<Rightarrow>
             if mant AND msk > halfway then h_mant + 1
             else if mant AND msk = halfway then (if h_mant AND 1 \<noteq> 0 then h_mant + 1 else h_mant)
             else h_mant
         | CL_HALF_RTZ \<Rightarrow> h_mant
         | CL_HALF_RTP \<Rightarrow> if mant AND msk \<noteq> 0 \<and> sign = 0 then h_mant + 1 else h_mant
         | CL_HALF_RTN \<Rightarrow> if mant AND msk \<noteq> 0 \<and> sign \<noteq> 0 then h_mant + 1 else h_mant)"

definition half_pack :: "u16 \<Rightarrow> u16 \<Rightarrow> u16 \<Rightarrow> u16" where
  "half_pack sign h_exp h_mant =
     (if h_mant AND 0x400 \<noteq> 0 then push_bit 15 sign OR push_bit 10 (h_exp + 1) OR 0
      else push_bit 15 sign OR push_bit 10 h_exp OR h_mant)"

definition cl_half_from_float :: "u32 \<Rightarrow> cl_half_rounding_mode \<Rightarrow> u16" where
  "cl_half_from_float f rounding_mode =
     (let sign = ucast (drop_bit 31 f) :: u16;
          f_exp = drop_bit (CL_FLT_MANT_DIG - 1) f AND 0xFF;
          f_mant = f AND (push_bit (CL_FLT_MANT_DIG - 1) 1 - 1);
          exp = int (unat f_exp) - CL_FLT_MAX_EXP + 1;
          h_exp = word_of_int (exp + CL_HALF_MAX_EXP - 1) :: u16;
          lsb_pos = CL_FLT_MANT_DIG - CL_HALF_MANT_DIG
      in if f_exp = 0xFF then
           (if f_mant \<noteq> 0 then push_bit 15 sign OR CL_HALF_EXP_MASK OR (ucast (drop_bit lsb_pos f_mant) OR 0x200)
            else push_bit 15 sign OR CL_HALF_EXP_MASK)
         else if f_exp = 0 \<and> f_mant = 0 then push_bit 15 sign
         else if exp \<ge> CL_HALF_MAX_EXP then cl_half_handle_overflow rounding_mode sign
         else if exp < CL_HALF_MIN_EXP - int CL_HALF_MANT_DIG - 1 then cl_half_handle_underflow rounding_mode sign
         else
           let (h_exp, f_mant, lsb_pos) =
                 (if exp < - 14
                  then (0, f_mant OR push_bit (CL_FLT_MANT_DIG - 1) 1, nat (- exp + (int CL_FLT_MANT_DIG - 25)))
                  else (h_exp, f_mant, lsb_pos))
           in half_pack sign h_exp (half_mantissa rounding_mode sign f_mant lsb_pos))"

definition cl_half_from_double :: "u64 \<Rightarrow> cl_half_rounding_mode \<Rightarrow> u16" where
  "cl_half_from_double d rounding_mode =
     (let sign = ucast (drop_bit 63 d) :: u16;
          d_exp = drop_bit (CL_DBL_MANT_DIG - 1) d AND 0x7FF;
          d_mant = d AND (push_bit (CL_DBL_MANT_DIG - 1) 1 - 1);
          exp = int (unat d_exp) - CL_DBL_MAX_EXP + 1;
          h_exp = word_of_int (exp + CL_HALF_MAX_EXP - 1) :: u16;
          lsb_pos = CL_DBL_MANT_DIG - CL_HALF_MANT_DIG
      in if d_exp = 0x7FF then
           (if d_mant \<noteq> 0 then push_bit 15 sign OR CL_HALF_EXP_MASK OR (ucast (drop_bit lsb_pos d_mant) OR 0x200)
            else push_bit 15 sign OR CL_HALF_EXP_MASK)
         else if d_exp = 0 \<and> d_mant = 0 then push_bit 15 sign
         else if exp \<ge> CL_HALF_MAX_EXP then cl_half_handle_overflow rounding_mode sign
         else if exp < CL_HALF_MIN_EXP - int CL_HALF_MANT_DIG - 1 then cl_half_handle_underflow rounding_mode sign
         else
           let (h_exp, d_mant, lsb_pos) =
                 (if exp < - 14
                  then (0, d_mant OR push_bit (CL_DBL_MANT_DIG - 1) 1, nat (- exp + (int CL_DBL_MANT_DIG - 25)))
                  else (h_exp, d_mant, lsb_pos))
           in half_pack sign h_exp (half_mantissa rounding_mode sign d_mant lsb_pos))"

text \<open>The loop that normalises a denormal, with the shift it counts; \<open>None\<close> is a loop that never
  ends.\<close>

definition needs_shift :: "u16 \<times> u32 \<Rightarrow> bool" where
  "needs_shift s = (case s of (h_mant, shift) \<Rightarrow> h_mant AND 0x400 = 0)"

definition shift_mantissa :: "u16 \<times> u32 \<Rightarrow> u16 \<times> u32" where
  "shift_mantissa s = (case s of (h_mant, shift) \<Rightarrow> (push_bit 1 h_mant, shift + 1))"

definition normalize :: "u16 \<Rightarrow> (u16 \<times> u32) option" where
  "normalize h_mant = while_option needs_shift shift_mantissa (h_mant, 0)"

definition cl_half_to_float :: "u16 \<Rightarrow> u32 option" where
  "cl_half_to_float h =
     (let sign = drop_bit 15 h;
          h_exp = drop_bit (CL_HALF_MANT_DIG - 1) h AND 0x1F;
          h_mant = h AND 0x3FF;
          exp = int (unat h_exp) - CL_HALF_MAX_EXP + 1;
          f_exp = word_of_int (exp + CL_FLT_MAX_EXP - 1) :: u32
      in if h_exp = 0x1F then
           (if h_mant \<noteq> 0 then Some (push_bit 31 (ucast sign) OR 0x7F800000 OR
              (push_bit (CL_FLT_MANT_DIG - CL_HALF_MANT_DIG) (ucast h_mant) OR 0x400000))
            else Some (push_bit 31 (ucast sign) OR 0x7F800000))
         else
           (case (if h_exp = 0 then
                    (if h_mant = 0 then Some (0, h_mant)
                     else case normalize h_mant of
                            None \<Rightarrow> None
                          | Some (m, shift) \<Rightarrow> Some (f_exp - (shift - 1), m AND 0x3FF))
                  else Some (f_exp, h_mant)) of
              None \<Rightarrow> None
            | Some (f_exp, h_mant) \<Rightarrow>
                Some (push_bit 31 (ucast sign) OR push_bit 23 f_exp OR push_bit 13 (ucast h_mant))))"

section \<open>Magnitudes and correct rounding\<close>

text \<open>The magnitude of a half given by its lower 15 bits.  The code of infinity counts as the
  next number after the largest finite one, as IEEE rounding has it.\<close>

definition half_mag :: "nat \<Rightarrow> nat" where
  "half_mag c = (if c div 1024 = 0 then c mod 1024 else (c mod 1024 + 1024) * 2 ^ (c div 1024 - 1))"

text \<open>The magnitude of a binary number with \<open>m\<close> mantissa bits, from its exponent field and
  mantissa.\<close>

definition bin_mag :: "nat \<Rightarrow> nat \<Rightarrow> nat \<Rightarrow> nat" where
  "bin_mag m e f = (if e = 0 then f else (f + 2 ^ m) * 2 ^ (e - 1))"

definition float_mag :: "u32 \<Rightarrow> nat" where
  "float_mag x = bin_mag 23 (unat x div 2 ^ 23 mod 2 ^ 8) (unat x mod 2 ^ 23)"

definition double_mag :: "u64 \<Rightarrow> nat" where
  "double_mag x = bin_mag 52 (unat x div 2 ^ 52 mod 2 ^ 11) (unat x mod 2 ^ 52)"

text \<open>
  \<open>c\<close> is the code the rounding mode asks for, for the magnitude \<open>x\<close> in units of which a unit
  of half precision has \<open>U\<close>: the neighbour below, the neighbour above, or the nearer one, the
  even one when both are equally near.
\<close>

definition toward_zero :: "nat \<Rightarrow> nat \<Rightarrow> nat \<Rightarrow> bool" where
  "toward_zero U x c \<longleftrightarrow> c \<le> 0x7BFF \<and> half_mag c * U \<le> x \<and> (c = 0x7BFF \<or> x < half_mag (c + 1) * U)"

definition away_from_zero :: "nat \<Rightarrow> nat \<Rightarrow> nat \<Rightarrow> bool" where
  "away_from_zero U x c \<longleftrightarrow> c \<le> 0x7C00 \<and> (c = 0x7C00 \<or> x \<le> half_mag c * U) \<and> (c = 0 \<or> half_mag (c - 1) * U < x)"

definition to_nearest :: "nat \<Rightarrow> nat \<Rightarrow> nat \<Rightarrow> bool" where
  "to_nearest U x c \<longleftrightarrow> c \<le> 0x7C00 \<and>
     (c = 0 \<or> (half_mag (c - 1) + half_mag c) * U < 2 * x \<or>
       ((half_mag (c - 1) + half_mag c) * U = 2 * x \<and> even c)) \<and>
     (c = 0x7C00 \<or> 2 * x < (half_mag c + half_mag (c + 1)) * U \<or>
       (2 * x = (half_mag c + half_mag (c + 1)) * U \<and> even c))"

definition rounded :: "cl_half_rounding_mode \<Rightarrow> bool \<Rightarrow> nat \<Rightarrow> nat \<Rightarrow> nat \<Rightarrow> bool" where
  "rounded mode neg U x c =
     (case mode of
        CL_HALF_RTE \<Rightarrow> to_nearest U x c
      | CL_HALF_RTZ \<Rightarrow> toward_zero U x c
      | CL_HALF_RTP \<Rightarrow> if neg then toward_zero U x c else away_from_zero U x c
      | CL_HALF_RTN \<Rightarrow> if neg then away_from_zero U x c else toward_zero U x c)"

lemma half_mag_Suc: "half_mag (c + 1) = half_mag c + 2 ^ (max (c div 1024) 1 - 1)"
proof (cases "c mod 1024 = 1023")
  case True
  then have c: "c = 1024 * (c div 1024) + 1023" by (metis mult_div_mod_eq)
  then have "c + 1 = 1024 * (c div 1024 + 1)" by simp
  then have d: "(c + 1) div 1024 = c div 1024 + 1" "(c + 1) mod 1024 = 0"
    by (metis div_mult_self1_is_m zero_less_numeral) (metis \<open>c + 1 = _\<close> mod_mult_self1_is_0)
  show ?thesis
  proof (cases "c div 1024")
    case 0
    with d True show ?thesis unfolding half_mag_def by simp
  next
    case (Suc k)
    with d True show ?thesis unfolding half_mag_def by simp
  qed
next
  case False
  have "c mod 1024 < 1024" by simp
  with False have "c mod 1024 + 1 < 1024" by linarith
  moreover have "c + 1 = 1024 * (c div 1024) + (c mod 1024 + 1)" by simp
  ultimately have d: "(c + 1) div 1024 = c div 1024" "(c + 1) mod 1024 = c mod 1024 + 1"
    by (metis div_less div_mult_self4 add.right_neutral zero_neq_numeral, metis mod_less mod_mult_self4)
  show ?thesis unfolding half_mag_def d
    by (cases "c div 1024") (simp_all add: algebra_simps)
qed

lemma half_mag_less: "half_mag c < half_mag (c + 1)"
  using half_mag_Suc [of c] by simp

lemma half_mag_strict: "strict_mono half_mag"
  using half_mag_less by (simp add: strict_mono_Suc_iff)

text \<open>The rounding decision of the code, on the quotient and the remainder of the mantissa.\<close>

definition round_up :: "cl_half_rounding_mode \<Rightarrow> bool \<Rightarrow> nat \<Rightarrow> nat \<Rightarrow> nat \<Rightarrow> bool" where
  "round_up mode neg q r H =
     (case mode of
        CL_HALF_RTE \<Rightarrow> r > H \<or> (r = H \<and> odd q)
      | CL_HALF_RTZ \<Rightarrow> False
      | CL_HALF_RTP \<Rightarrow> r \<noteq> 0 \<and> \<not> neg
      | CL_HALF_RTN \<Rightarrow> r \<noteq> 0 \<and> neg)"

text \<open>Adding the decision to the code below gives the code the mode asks for: \<open>x\<close> lies \<open>r\<close> steps
  of \<open>V\<close> above the code \<open>c\<close>, and the next code is \<open>2 H\<close> steps above it.\<close>

lemma rounded_inc:
  assumes "half_mag c * U + r * V = x" and "half_mag (c + 1) * U = half_mag c * U + 2 * H * V"
    and "r < 2 * H" and "0 < V" and "c \<le> 0x7BFF" and "even c = even q"
  shows "rounded mode neg U x (c + (if round_up mode neg q r H then 1 else 0))"
proof -
  have U: "0 < U" using assms(2-4) by (cases U) auto
  have mono: "half_mag a * U < half_mag b * U" if "a < b" for a b
    using half_mag_strict U that by (simp add: strict_mono_less)
  have rV: "r * V < 2 * H * V" using assms(3,4) by simp
  have below: "half_mag (c - 1) * U < half_mag c * U" if "c \<noteq> 0" using mono that by simp
  have below': "c = 0 \<or> half_mag (c - Suc 0) < half_mag c"
    using half_mag_strict by (auto simp: strict_mono_less)
  have above: "half_mag (c + 1) * U < half_mag (c + 2) * U" using mono [of "c + 1" "c + 2"] by simp
  have cmp: "r * V < H * V \<longleftrightarrow> r < H" "r * V = H * V \<longleftrightarrow> r = H" "H * V < r * V \<longleftrightarrow> H < r"
    using assms(4) by auto
  have suc: "c + 1 \<le> 0x7C00" "c \<noteq> 0x7C00" using assms(5) by simp_all
  show ?thesis
  proof (cases mode)
    case CL_HALF_RTE
    have low: "(half_mag (c - 1) + half_mag c) * U < 2 * x" if "c \<noteq> 0"
      using below [OF that] assms(1) unfolding add_mult_distrib by linarith
    have high: "2 * x < (half_mag (c + 1) + half_mag (c + 2)) * U"
      using above rV assms(1,2) unfolding add_mult_distrib by linarith
    have mid: "2 * x < (half_mag c + half_mag (c + 1)) * U \<longleftrightarrow> r < H"
      "2 * x = (half_mag c + half_mag (c + 1)) * U \<longleftrightarrow> r = H"
      unfolding add_mult_distrib cmp(1,2) [symmetric] using assms(1,2) by linarith+
    then have mid': "(half_mag c + half_mag (c + 1)) * U < 2 * x \<longleftrightarrow> H < r"
      "(half_mag c + half_mag (c + 1)) * U = 2 * x \<longleftrightarrow> r = H" by linarith+
    show ?thesis
    proof (cases "round_up mode neg q r H")
      case True
      then have "H < r \<or> (r = H \<and> odd c)" using assms(6) by (auto simp: CL_HALF_RTE round_up_def)
      with high mid' assms(5) have "to_nearest U x (c + 1)" by (auto simp: to_nearest_def)
      with True show ?thesis by (simp add: rounded_def CL_HALF_RTE)
    next
      case False
      then have "r < H \<or> (r = H \<and> even c)" using assms(6) by (auto simp: CL_HALF_RTE round_up_def)
      with low mid assms(5) have "to_nearest U x c" by (auto simp: to_nearest_def)
      with False show ?thesis by (simp add: rounded_def CL_HALF_RTE)
    qed
  next
    case CL_HALF_RTZ
    with assms(1,2,5) rV show ?thesis by (auto simp: rounded_def round_up_def toward_zero_def)
  next
    case CL_HALF_RTP
    with assms(1,2,4,5) rV below' suc show ?thesis
      by (auto simp: rounded_def round_up_def toward_zero_def away_from_zero_def)
  next
    case CL_HALF_RTN
    with assms(1,2,4,5) rV below' suc show ?thesis
      by (auto simp: rounded_def round_up_def toward_zero_def away_from_zero_def)
  qed
qed

section \<open>Words\<close>

lemma unat_drop_bit: "unat (drop_bit n x) = unat x div 2 ^ n"
  unfolding unsigned_drop_bit_eq by (simp add: drop_bit_eq_div take_bit_nat_eq_self)

lemma unat_take_bit: "unat (take_bit n x) = unat x mod 2 ^ n"
  unfolding unsigned_take_bit_eq by (simp add: take_bit_eq_mod)

lemma unat_push_bit_1:
  assumes "n < LENGTH('a::len)"
  shows "unat (push_bit n 1 :: 'a word) = 2 ^ n"
  unfolding unsigned_push_bit_eq using assms by (simp add: take_bit_nat_eq_self)

lemma unat_push_bit:
  fixes x :: "'a::len word"
  assumes "2 ^ n * unat x < 2 ^ LENGTH('a)"
  shows "unat (push_bit n x) = 2 ^ n * unat x"
  unfolding unsigned_push_bit_eq using assms
  by (simp add: push_bit_eq_mult take_bit_nat_eq_self mult.commute)

lemma unat_ucast_mod: "unat (ucast (x :: 'a::len word) :: 'b::len word) = unat x mod 2 ^ LENGTH('b)"
  by (simp add: unsigned_ucast_eq take_bit_eq_mod)

lemma and_low_mask:
  assumes "0 < n" and "n < LENGTH('a::len)"
  shows "(x :: 'a word) AND (push_bit 1 (push_bit (n - 1) 1) - 1) = take_bit n x"
proof -
  have "push_bit 1 (push_bit (n - 1) 1) = (push_bit n 1 :: 'a word)"
    unfolding push_bit_push_bit using assms(1) by simp
  then show ?thesis by (simp add: take_bit_eq_mask mask_eq_exp_minus_1 push_bit_of_1)
qed

lemma and_one_odd: "(x :: 'a::len word) AND 1 \<noteq> 0 \<longleftrightarrow> odd (unat x)"
proof -
  have "x AND 1 = take_bit 1 x" by (simp add: take_bit_eq_mask mask_eq_exp_minus_1)
  then have "unat (x AND 1) = unat x mod 2" by (simp only: unat_take_bit) simp
  moreover have "x AND 1 \<noteq> 0 \<longleftrightarrow> unat (x AND 1) \<noteq> 0" by (simp only: word_unat_eq_iff unsigned_0)
  ultimately show ?thesis by presburger
qed

text \<open>The mantissa part on numbers.\<close>

lemma half_mantissa_unat:
  assumes "0 < n" and "n < LENGTH('a::len)" and "unat (m :: 'a word) div 2 ^ n < 2 ^ 16 - 1"
  shows "unat (half_mantissa mode sign m n) = unat m div 2 ^ n +
    (if round_up mode (sign \<noteq> 0) (unat m div 2 ^ n) (unat m mod 2 ^ n) (2 ^ (n - 1)) then 1 else 0)"
proof -
  let ?q = "unat m div 2 ^ n" and ?r = "unat m mod 2 ^ n"
  define h where "h = (ucast (drop_bit n m) :: u16)"
  have h: "unat h = ?q" using assms(3) by (simp add: h_def unat_ucast_mod unat_drop_bit)
  have h1: "unat (h + 1) = ?q + 1" using assms(3) h by (subst unat_add_no_wrap) simp_all
  have half: "unat (push_bit (n - 1) 1 :: 'a word) = 2 ^ (n - 1)"
    using assms(2) by (intro unat_push_bit_1) simp
  have r: "unat (take_bit n m) = ?r" by (rule unat_take_bit)
  have cmp: "take_bit n m > push_bit (n - 1) 1 \<longleftrightarrow> ?r > 2 ^ (n - 1)"
    "take_bit n m = push_bit (n - 1) 1 \<longleftrightarrow> ?r = 2 ^ (n - 1)"
    "take_bit n m \<noteq> 0 \<longleftrightarrow> ?r \<noteq> 0"
    by (simp_all only: word_less_nat_alt word_unat_eq_iff half r unsigned_0)
  have odd: "h AND 1 \<noteq> 0 \<longleftrightarrow> odd ?q" by (simp only: and_one_odd h)
  show ?thesis
    unfolding half_mantissa_def Let_def and_low_mask [OF assms(1,2)] cmp h_def [symmetric] odd round_up_def
    by (cases mode) (simp_all add: h h1)
qed

text \<open>The packing on numbers: a carry out of the mantissa goes into the exponent.\<close>

lemma or_disjoint_add:
  fixes x y :: "'a::len word"
  assumes "unat y < 2 ^ n" and "unat x mod 2 ^ n = 0"
  shows "unat (x OR y) = unat x + unat y"
proof -
  have "\<not> bit x k \<or> \<not> bit y k" for k
  proof (cases "k < n")
    case True
    have "take_bit n (unat x) = 0" using assms(2) by (simp add: take_bit_eq_mod)
    then have "\<not> bit (unat x) k" using True by (metis bit_0_eq bit_take_bit_iff bot_apply bot_bool_def)
    then show ?thesis by (simp add: bit_unsigned_iff bit_imp_le_length)
  next
    case False
    have "take_bit n (unat y) = unat y" using assms(1) by (simp add: take_bit_nat_eq_self)
    then have "\<not> bit (unat y) k" using False by (metis bit_take_bit_iff)
    then show ?thesis by (simp add: bit_unsigned_iff bit_imp_le_length)
  qed
  then have "x AND y = 0" by (intro bit_word_eqI) (simp add: bit_simps)
  then have "x OR y = x + y" by (simp add: disjunctive_add_eq_or)
  moreover have "unat x + unat y < 2 ^ LENGTH('a)"
  proof (cases "n \<le> LENGTH('a)")
    case True
    obtain k where k: "unat x = 2 ^ n * k" using assms(2) by (metis mult_div_mod_eq add.right_neutral)
    have "unat x < 2 ^ LENGTH('a)" by (rule unsigned_less)
    then have "2 ^ n * k < 2 ^ n * 2 ^ (LENGTH('a) - n)" using k True by (simp flip: power_add)
    then have "k + 1 \<le> 2 ^ (LENGTH('a) - n)" by simp
    then have "2 ^ n * (k + 1) \<le> 2 ^ n * 2 ^ (LENGTH('a) - n)" by (rule mult_le_mono2)
    then have "2 ^ n * k + 2 ^ n \<le> 2 ^ LENGTH('a)" using True by (simp flip: power_add)
    with k assms(1) show ?thesis by linarith
  next
    case False
    have "unat x < 2 ^ LENGTH('a)" by (rule unsigned_less)
    also have "\<dots> < 2 ^ n" using False by simp
    finally have "unat x = 0" using assms(2) by simp
    then show ?thesis using unsigned_less [of y] by simp
  qed
  ultimately show ?thesis by (simp add: unat_add_no_wrap)
qed

section \<open>The algorithm on numbers\<close>

definition overflow_code :: "cl_half_rounding_mode \<Rightarrow> bool \<Rightarrow> nat" where
  "overflow_code mode neg =
     (if mode = CL_HALF_RTZ \<or> (mode = CL_HALF_RTP \<and> neg) \<or> (mode = CL_HALF_RTN \<and> \<not> neg) then 0x7BFF else 0x7C00)"

definition underflow_code :: "cl_half_rounding_mode \<Rightarrow> bool \<Rightarrow> nat" where
  "underflow_code mode neg =
     (if (mode = CL_HALF_RTP \<and> \<not> neg) \<or> (mode = CL_HALF_RTN \<and> neg) then 1 else 0)"

text \<open>A format with \<open>p\<close> mantissa bits and exponent bias \<open>b\<close>.\<close>

definition half_code :: "cl_half_rounding_mode \<Rightarrow> bool \<Rightarrow> nat \<Rightarrow> nat \<Rightarrow> nat \<Rightarrow> nat \<Rightarrow> nat" where
  "half_code mode neg p b e m =
     (if e = 0 \<and> m = 0 then 0
      else if b + 16 \<le> e then overflow_code mode neg
      else if e + 25 < b then underflow_code mode neg
      else
        let (h, M, n) = (if e + 14 < b then (0, m + 2 ^ p, b + p - 24 - e) else (e + 15 - b, m, p - 10));
            q = M div 2 ^ n
        in h * 1024 + (q + (if round_up mode neg q (M mod 2 ^ n) (2 ^ (n - 1)) then 1 else 0)))"

lemma half_mag_small: "c < 1024 \<Longrightarrow> half_mag c = c"
  by (simp add: half_mag_def)

lemma half_mag_normal: "0 < h \<Longrightarrow> q < 1024 \<Longrightarrow> half_mag (h * 1024 + q) = (q + 1024) * 2 ^ (h - 1)"
  by (simp add: half_mag_def)

lemma rounded_overflow:
  assumes "half_mag 0x7C00 * U \<le> x" and "0 < U"
  shows "rounded mode neg U x (overflow_code mode neg)"
proof -
  have "half_mag 0x7BFF * U < half_mag 0x7C00 * U"
    using assms(2) half_mag_less [of "0x7BFF"] by simp
  then have less: "half_mag 0x7BFF * U < x" using assms(1) by (rule less_le_trans)
  have "(half_mag 0x7BFF + half_mag 0x7C00) * U < 2 * x"
    using less assms(1) unfolding add_mult_distrib by linarith
  then have "to_nearest U x 0x7C00" by (simp add: to_nearest_def)
  moreover have "toward_zero U x 0x7BFF" using less by (simp add: toward_zero_def)
  moreover have "away_from_zero U x 0x7C00" using less by (simp add: away_from_zero_def)
  ultimately show ?thesis by (cases mode) (simp_all add: rounded_def overflow_code_def)
qed

lemma rounded_underflow:
  assumes "0 < x" and "2 * x < U"
  shows "rounded mode neg U x (underflow_code mode neg)"
proof -
  have m: "half_mag 0 = 0" "half_mag 1 = 1" by (simp_all add: half_mag_small)
  then have "to_nearest U x 0" "toward_zero U x 0" "away_from_zero U x 1"
    using assms by (simp_all add: to_nearest_def toward_zero_def away_from_zero_def)
  then show ?thesis by (cases mode) (simp_all add: rounded_def underflow_code_def)
qed

lemma rounded_zero: "0 < U \<Longrightarrow> rounded mode neg U 0 0"
  using half_mag_small [of 0] half_mag_small [of 1]
  by (cases mode) (simp_all add: rounded_def to_nearest_def toward_zero_def away_from_zero_def)

lemma half_code_rounded:
  assumes "m < 2 ^ p" and "11 \<le> p" and "26 \<le> b"
  shows "rounded mode neg (2 ^ (b + p - 25)) (bin_mag p e m) (half_code mode neg p b e m)"
proof -
  let ?U = "2 ^ (b + p - 25) :: nat" and ?x = "bin_mag p e m"
  consider (zero) "e = 0" "m = 0" | (over) "b + 16 \<le> e" | (under) "e + 25 < b" "\<not> (e = 0 \<and> m = 0)"
    | (denormal) "b \<le> e + 25" "e + 14 < b" | (normal) "b \<le> e + 14" "e < b + 16" by linarith
  then show ?thesis
  proof cases
    case zero
    then show ?thesis by (simp add: half_code_def bin_mag_def rounded_zero)
  next
    case over
    have "half_mag 0x7C00 = 2 ^ 40" using half_mag_normal [of 31 0] by simp
    moreover have "40 + (b + p - 25) = p + (b + 15)" using assms(3) by simp
    ultimately have "half_mag 0x7C00 * ?U = 2 ^ p * 2 ^ (b + 15)" by (metis power_add)
    also have "\<dots> \<le> (m + 2 ^ p) * 2 ^ (e - 1)"
      using over by (intro mult_le_mono) (simp_all add: power_increasing)
    finally have "half_mag 0x7C00 * ?U \<le> ?x" using over by (simp add: bin_mag_def)
    then have "rounded mode neg ?U ?x (overflow_code mode neg)" by (rule rounded_overflow) simp
    moreover have "half_code mode neg p b e m = overflow_code mode neg"
      using over by (simp add: half_code_def)
    ultimately show ?thesis by simp
  next
    case under
    have pos: "0 < ?x" using under by (auto simp: bin_mag_def)
    have "?x < 2 ^ (b + p - 26)"
    proof (cases e)
      case 0
      have "(2 :: nat) ^ p \<le> 2 ^ (b + p - 26)" using assms(3) by (intro power_increasing) simp_all
      with assms(1) have "m < 2 ^ (b + p - 26)" by (rule less_le_trans)
      with 0 show ?thesis by (simp add: bin_mag_def)
    next
      case (Suc k)
      have "m + 2 ^ p < 2 ^ (p + 1)" using assms(1) by simp
      then have "(m + 2 ^ p) * 2 ^ k < 2 ^ (p + 1) * 2 ^ k" by simp
      also have "\<dots> \<le> 2 ^ (b + p - 26)" using under(1) Suc unfolding power_add [symmetric]
        by (intro power_increasing) simp_all
      finally show ?thesis using Suc by (simp add: bin_mag_def)
    qed
    then have "2 * ?x < 2 * 2 ^ (b + p - 26)" by simp
    also have "\<dots> = ?U" using assms(2,3) by (simp flip: power_Suc add: Suc_diff_le)
    finally have "rounded mode neg ?U ?x (underflow_code mode neg)" by (rule rounded_underflow [OF pos])
    moreover have "half_code mode neg p b e m = underflow_code mode neg"
      using under by (auto simp: half_code_def)
    ultimately show ?thesis by simp
  next
    case denormal
    let ?n = "b + p - 24 - e" and ?M = "m + 2 ^ p" and ?V = "2 ^ (e - 1) :: nat"
    let ?q = "?M div 2 ^ ?n"
    have e: "0 < e" and n: "0 < ?n" using denormal assms(2,3) by simp_all
    have U: "2 ^ ?n * ?V = ?U" using denormal e assms(2) by (simp flip: power_add)
    have "?M < 2 ^ (p + 1)" using assms(1) by simp
    also have "\<dots> \<le> 2 ^ (10 + ?n)" using denormal by (intro power_increasing) simp_all
    finally have q: "?q < 1024" by (simp add: power_add less_mult_imp_div_less)
    have q1: "half_mag (?q + 1) = ?q + 1" using half_mag_Suc [of ?q] q by (simp add: half_mag_small)
    have 1: "half_mag ?q * ?U + (?M mod 2 ^ ?n) * ?V = ?x"
    proof -
      have M: "?q * 2 ^ ?n + ?M mod 2 ^ ?n = ?M" by (rule div_mult_mod_eq)
      have "?x = (?q * 2 ^ ?n + ?M mod 2 ^ ?n) * ?V" unfolding M using e by (simp add: bin_mag_def)
      also have "\<dots> = ?q * (2 ^ ?n * ?V) + (?M mod 2 ^ ?n) * ?V" by (simp add: add_mult_distrib)
      finally show ?thesis by (simp only: U half_mag_small [OF q])
    qed
    have H: "2 * 2 ^ (?n - 1) = (2 ^ ?n :: nat)" using n by (simp flip: power_Suc)
    have r: "?M mod 2 ^ ?n < 2 * 2 ^ (?n - 1)" unfolding H by simp
    have 2: "half_mag (?q + 1) * ?U = half_mag ?q * ?U + 2 * 2 ^ (?n - 1) * ?V"
      unfolding H U q1 half_mag_small [OF q] by simp
    have "rounded mode neg ?U ?x (?q + (if round_up mode neg ?q (?M mod 2 ^ ?n) (2 ^ (?n - 1)) then 1 else 0))"
      by (rule rounded_inc [OF 1 2 r]) (use q in simp_all)
    moreover have "half_code mode neg p b e m = ?q + (if round_up mode neg ?q (?M mod 2 ^ ?n) (2 ^ (?n - 1)) then 1 else 0)"
      using denormal e by (simp add: half_code_def)
    ultimately show ?thesis by simp
  next
    case normal
    let ?n = "p - 10" and ?h = "e + 15 - b" and ?V = "2 ^ (e - 1) :: nat"
    let ?q = "m div 2 ^ ?n" and ?r = "m mod 2 ^ ?n"
    have e: "0 < e" and n: "0 < ?n" and h: "0 < ?h" "?h \<le> 30" using normal assms(2,3) by simp_all
    have p: "2 ^ p = (1024 * 2 ^ ?n :: nat)" using assms(2) power_add [of "2 :: nat" 10 ?n] by simp
    have "m < 1024 * 2 ^ ?n" using assms(1) by (simp only: p)
    then have q: "?q < 1024" by (simp add: less_mult_imp_div_less)
    have c: "half_mag (?h * 1024 + ?q) = (?q + 1024) * 2 ^ (?h - 1)" by (rule half_mag_normal [OF h(1) q])
    have V: "2 ^ (?h - 1) * ?U = 2 ^ ?n * ?V" using normal e h assms(2,3) by (simp flip: power_add)
    have 1: "half_mag (?h * 1024 + ?q) * ?U + ?r * ?V = ?x"
    proof -
      have "?x = (m + 1024 * 2 ^ ?n) * ?V" using e by (simp add: bin_mag_def p)
      also have "\<dots> = (?q * 2 ^ ?n + ?r + 1024 * 2 ^ ?n) * ?V" by (simp only: div_mult_mod_eq)
      also have "\<dots> = (?q + 1024) * (2 ^ ?n * ?V) + ?r * ?V" by (simp only: algebra_simps)
      finally show ?thesis unfolding c V [symmetric] by (simp add: mult.assoc)
    qed
    have H: "2 * 2 ^ (?n - 1) = (2 ^ ?n :: nat)" using n by (simp flip: power_Suc)
    have r: "?r < 2 * 2 ^ (?n - 1)" unfolding H by simp
    have "half_mag (?h * 1024 + ?q + 1) = half_mag (?h * 1024 + ?q) + 2 ^ (?h - 1)"
      unfolding half_mag_Suc using q h by simp
    then have 2: "half_mag (?h * 1024 + ?q + 1) * ?U = half_mag (?h * 1024 + ?q) * ?U + 2 * 2 ^ (?n - 1) * ?V"
      unfolding H V [symmetric] by (simp add: add_mult_distrib)
    have "rounded mode neg ?U ?x (?h * 1024 + ?q + (if round_up mode neg ?q ?r (2 ^ (?n - 1)) then 1 else 0))"
      by (rule rounded_inc [OF 1 2 r]) (use q h in simp_all)
    moreover have "half_code mode neg p b e m = ?h * 1024 + ?q + (if round_up mode neg ?q ?r (2 ^ (?n - 1)) then 1 else 0)"
      using normal e by (simp add: half_code_def)
    ultimately show ?thesis by simp
  qed
qed

section \<open>From words to numbers\<close>

lemma and_0x400: "(x :: u16) AND 0x400 \<noteq> 0 \<longleftrightarrow> odd (unat x div 1024)"
proof -
  have "(0x400 :: u16) = 2 ^ 10" by simp
  then have "x AND 0x400 \<noteq> 0 \<longleftrightarrow> bit x 10" by (simp only: and_exp_eq_0_iff_not_bit) simp
  also have "\<dots> \<longleftrightarrow> bit (unat x) 10" by (simp add: bit_unsigned_iff)
  also have "\<dots> \<longleftrightarrow> odd (unat x div 2 ^ 10)" by (rule bit_iff_odd)
  finally show ?thesis by simp
qed

lemma sign_code:
  assumes "unat sign \<le> 1" and "unat c < 2 ^ 15"
  shows "unat (push_bit 15 sign OR c :: u16) = 2 ^ 15 * unat sign + unat c"
proof -
  have s: "unat (push_bit 15 sign) = 2 ^ 15 * unat sign" using assms(1) by (intro unat_push_bit) simp
  then show ?thesis using assms(2) by (subst or_disjoint_add [where n = 15]) simp_all
qed

lemma half_pack_unat:
  assumes "unat sign \<le> 1" and "unat h_exp \<le> 30" and "unat h_mant \<le> 1024"
  shows "unat (half_pack sign h_exp h_mant) = 2 ^ 15 * unat sign + (unat h_exp * 1024 + unat h_mant)"
proof -
  have code: "unat (push_bit 10 x OR y) = 1024 * unat x + unat y" if "unat x \<le> 31" "unat y < 2 ^ 10" for x y :: u16
    using that unat_push_bit [of 10 x] by (subst or_disjoint_add [where n = 10]) simp_all
  have carry: "h_mant AND 0x400 \<noteq> 0 \<longleftrightarrow> unat h_mant = 1024"
    unfolding and_0x400 using assms(3) by (cases "unat h_mant = 1024") simp_all
  show ?thesis
  proof (cases "unat h_mant = 1024")
    case True
    have "unat (h_exp + 1) = unat h_exp + 1" using assms(2) by (subst unat_add_no_wrap) simp_all
    with True sign_code [OF assms(1), of "push_bit 10 (h_exp + 1) OR 0"] code [of "h_exp + 1" 0] assms(2) carry
    show ?thesis by (simp add: half_pack_def)
  next
    case False
    with sign_code [OF assms(1), of "push_bit 10 h_exp OR h_mant"] code [of h_exp h_mant] assms(2,3) carry
    show ?thesis by (simp add: half_pack_def)
  qed
qed

lemma handle_overflow_unat:
  assumes "unat sign \<le> 1"
  shows "unat (cl_half_handle_overflow mode sign) = 2 ^ 15 * unat sign + overflow_code mode (sign \<noteq> 0)"
proof -
  have "sign = 0 \<or> sign = 1" using assms by (auto simp: word_unat_eq_iff)
  then show ?thesis
    by (cases mode) (auto simp: cl_half_handle_overflow_def overflow_code_def CL_HALF_MAX_FINITE_MAG_def
      CL_HALF_EXP_MASK_def)
qed

lemma handle_underflow_unat:
  assumes "unat sign \<le> 1"
  shows "unat (cl_half_handle_underflow mode sign) = 2 ^ 15 * unat sign + underflow_code mode (sign \<noteq> 0)"
proof -
  have "sign = 0 \<or> sign = 1" using assms by (auto simp: word_unat_eq_iff)
  then show ?thesis
    by (cases mode) (auto simp: cl_half_handle_underflow_def underflow_code_def)
qed

text \<open>The common body of the two conversions, with the fields as numbers.\<close>

lemma unat_or_implicit:
  fixes m :: "'a::len word"
  assumes "unat m < 2 ^ p" and "p + 1 < LENGTH('a)"
  shows "unat (m OR push_bit p 1) = unat m + 2 ^ p"
proof -
  have "unat (push_bit p 1 :: 'a word) = 2 ^ p" using assms(2) by (intro unat_push_bit_1) simp
  then have "unat (push_bit p 1 OR m) = 2 ^ p + unat m"
    using assms(1) by (subst or_disjoint_add [where n = p]) simp_all
  then show ?thesis by (simp add: or.commute add.commute)
qed

lemma convert_body:
  fixes mant :: "'a::len word"
  assumes "unat sign \<le> 1" and "unat mant < 2 ^ p" and "11 \<le> p" and "p + 1 < LENGTH('a)" and "26 \<le> b"
    and "b \<le> e + 25" and "e < b + 16" and "\<not> (e = 0 \<and> unat mant = 0)"
    and "(h, M, n) = (if e + 14 < b then (0, mant OR push_bit p 1, b + p - 24 - e)
      else (word_of_int (int e - int b + 15), mant, p - 10))"
  shows "unat (half_pack sign h (half_mantissa mode sign M n)) =
    2 ^ 15 * unat sign + half_code mode (sign \<noteq> 0) p b e (unat mant)"
proof (cases "e + 14 < b")
  case True
  then have v: "h = 0" "M = mant OR push_bit p 1" "n = b + p - 24 - e" using assms(9) by simp_all
  have M: "unat M = unat mant + 2 ^ p" unfolding v(2) using assms(2,4) by (rule unat_or_implicit)
  have n: "0 < n" "n < LENGTH('a)" "p + 1 \<le> 10 + n" using True assms(3,4,6) by (simp_all add: v(3))
  have "unat M < 2 ^ (p + 1)" using assms(2) M by simp
  also have "\<dots> \<le> 2 ^ (10 + n)" using n(3) by (intro power_increasing) simp_all
  finally have q: "unat M div 2 ^ n < 1024" by (simp add: power_add less_mult_imp_div_less)
  then have u: "unat (half_mantissa mode sign M n) = unat M div 2 ^ n +
    (if round_up mode (sign \<noteq> 0) (unat M div 2 ^ n) (unat M mod 2 ^ n) (2 ^ (n - 1)) then 1 else 0)"
    using n by (intro half_mantissa_unat) simp_all
  have "unat (half_pack sign h (half_mantissa mode sign M n)) =
      2 ^ 15 * unat sign + (unat h * 1024 + unat (half_mantissa mode sign M n))"
    by (rule half_pack_unat) (use assms(1) q u v(1) in \<open>simp_all\<close>)
  moreover have "half_code mode (sign \<noteq> 0) p b e (unat mant) = unat (half_mantissa mode sign M n)"
    unfolding u M using True assms(6,8) by (auto simp: half_code_def v(3))
  ultimately show ?thesis by (simp add: v(1))
next
  case False
  then have v: "h = word_of_int (int e - int b + 15)" "M = mant" "n = p - 10" using assms(9) by simp_all
  have "int e - int b + 15 = int (e + 15 - b)" using False by simp
  then have "h = of_nat (e + 15 - b)" by (simp only: v(1) of_int_of_nat_eq)
  moreover have "take_bit 16 (e + 15 - b) = e + 15 - b" using assms(7) by (intro take_bit_nat_eq_self) simp
  ultimately have h: "unat h = e + 15 - b" by (simp only: unsigned_of_nat of_nat_id) simp
  have n: "0 < n" "n < LENGTH('a)" using assms(3,4) by (simp_all add: v(3))
  have "(2 :: nat) ^ p = 2 ^ 10 * 2 ^ n" using assms(3) by (simp only: v(3) flip: power_add) simp
  then have "unat M < 2 ^ 10 * 2 ^ n" using assms(2) by (simp only: v(2))
  then have q: "unat M div 2 ^ n < 1024" by (simp add: less_mult_imp_div_less)
  then have u: "unat (half_mantissa mode sign M n) = unat M div 2 ^ n +
    (if round_up mode (sign \<noteq> 0) (unat M div 2 ^ n) (unat M mod 2 ^ n) (2 ^ (n - 1)) then 1 else 0)"
    using n by (intro half_mantissa_unat) simp_all
  have "unat (half_pack sign h (half_mantissa mode sign M n)) =
      2 ^ 15 * unat sign + (unat h * 1024 + unat (half_mantissa mode sign M n))"
    by (rule half_pack_unat) (use assms(1,7) q u h False in \<open>simp_all\<close>)
  moreover have "half_code mode (sign \<noteq> 0) p b e (unat mant) = unat h * 1024 + unat (half_mantissa mode sign M n)"
    unfolding u h using False assms(6-8) by (auto simp: half_code_def v(2,3))
  ultimately show ?thesis by simp
qed

lemma convert_unat:
  fixes mant :: "'a::len word"
  assumes "unat sign \<le> 1" and "unat mant < 2 ^ p" and "11 \<le> p" and "p + 1 < LENGTH('a)" and "26 \<le> b"
    and "r = (if e = 0 \<and> unat mant = 0 then push_bit 15 sign
       else if b + 16 \<le> e then cl_half_handle_overflow mode sign
       else if e + 25 < b then cl_half_handle_underflow mode sign
       else let (h, M, n) = (if e + 14 < b then (0, mant OR push_bit p 1, b + p - 24 - e)
                             else (word_of_int (int e - int b + 15), mant, p - 10))
            in half_pack sign h (half_mantissa mode sign M n))"
  shows "unat r = 2 ^ 15 * unat sign + half_code mode (sign \<noteq> 0) p b e (unat mant)"
proof (cases "(e = 0 \<and> unat mant = 0) \<or> b + 16 \<le> e \<or> e + 25 < b")
  case True
  then show ?thesis using assms(1) unfolding assms(6) half_code_def
    by (auto simp: handle_overflow_unat handle_underflow_unat unat_push_bit)
next
  case False
  obtain h :: u16 and M n where v: "(h, M, n) = (if e + 14 < b then (0, mant OR push_bit p 1, b + p - 24 - e)
    else (word_of_int (int e - int b + 15), mant, p - 10))" by (metis prod_cases3)
  have "unat (half_pack sign h (half_mantissa mode sign M n)) =
      2 ^ 15 * unat sign + half_code mode (sign \<noteq> 0) p b e (unat mant)"
    by (rule convert_body [OF assms(1-5) _ _ _ v]) (use False in \<open>simp_all\<close>)
  moreover have "r = half_pack sign h (half_mantissa mode sign M n)"
  proof -
    have nz: "\<not> (e = 0 \<and> unat mant = 0)" "\<not> b + 16 \<le> e" "\<not> e + 25 < b" using False by simp_all
    show ?thesis unfolding assms(6) v [symmetric] if_not_P [OF nz(1)] if_not_P [OF nz(2)] if_not_P [OF nz(3)] by simp
  qed
  ultimately show ?thesis by (simp only:)
qed

lemma from_float_unat:
  assumes "unat f div 2 ^ 23 mod 2 ^ 8 \<noteq> 255"
  shows "unat (cl_half_from_float f mode) = 2 ^ 15 * (unat f div 2 ^ 31) +
    half_code mode (unat f div 2 ^ 31 \<noteq> 0) 23 127 (unat f div 2 ^ 23 mod 2 ^ 8) (unat f mod 2 ^ 23)"
proof -
  define sign where "sign = (ucast (drop_bit 31 f) :: u16)"
  define ex where "ex = drop_bit 23 f AND 0xFF"
  define mant where "mant = f AND (push_bit 23 1 - 1)"
  let ?e = "unat f div 2 ^ 23 mod 2 ^ 8"
  have top: "unat f < 2 ^ 32" using unsigned_less [of f] by simp
  have sign: "unat sign = unat f div 2 ^ 31"
    using top by (simp add: sign_def unat_ucast_mod unat_drop_bit less_mult_imp_div_less)
  have s1: "unat sign \<le> 1" using top by (simp add: sign)
  have "ex = take_bit 8 (drop_bit 23 f)" using and_low_mask [of 8 "drop_bit 23 f"] by (simp add: ex_def)
  then have ex: "unat ex = ?e" by (simp only: unat_take_bit unat_drop_bit)
  have mant: "unat mant = unat f mod 2 ^ 23"
    using and_low_mask [of 23 f] by (simp add: mant_def unat_take_bit)
  have z: "ex = 0xFF \<longleftrightarrow> ?e = 255" "ex = 0 \<and> mant = 0 \<longleftrightarrow> ?e = 0 \<and> unat mant = 0"
    by (simp_all add: word_unat_eq_iff ex)
  have sz: "sign \<noteq> 0 \<longleftrightarrow> unat f div 2 ^ 31 \<noteq> 0" by (simp add: word_unat_eq_iff sign)
  have c: "int ?e - 128 + 1 \<ge> 16 \<longleftrightarrow> 127 + 16 \<le> ?e" "int ?e - 128 + 1 < - 25 \<longleftrightarrow> ?e + 25 < 127"
    "int ?e - 128 + 1 < - 14 \<longleftrightarrow> ?e + 14 < 127" by linarith+
  have n: "nat (- (int ?e - 128 + 1) + (24 - 25)) = 127 + 23 - 24 - ?e" if "?e + 14 < 127" using that by linarith
  have h: "int ?e - 128 + 1 + 16 - 1 = int ?e - int 127 + 15" by simp
  have num: "24 - 1 = (23 :: nat)" "24 - 11 = (13 :: nat)" "int 11 = 11" "- 13 - 11 - 1 = (- 25 :: int)"
    "int 24 = 24" by simp_all
  have body: "cl_half_from_float f mode =
      (if ?e = 0 \<and> unat mant = 0 then push_bit 15 sign
       else if 127 + 16 \<le> ?e then cl_half_handle_overflow mode sign
       else if ?e + 25 < 127 then cl_half_handle_underflow mode sign
       else let (h, M, n) = (if ?e + 14 < 127 then (0, mant OR push_bit 23 1, 127 + 23 - 24 - ?e)
                             else (word_of_int (int ?e - int 127 + 15), mant, 23 - 10))
            in half_pack sign h (half_mantissa mode sign M n))"
    unfolding cl_half_from_float_def CL_FLT_MANT_DIG_def CL_FLT_MAX_EXP_def CL_HALF_MAX_EXP_def
      CL_HALF_MIN_EXP_def CL_HALF_MANT_DIG_def Let_def num sign_def [symmetric] ex_def [symmetric]
      mant_def [symmetric] z ex c h
    using assms n by (simp cong: if_cong)
  have "unat mant < 2 ^ 23" by (simp add: mant)
  from convert_unat [OF s1 this _ _ _ body] show ?thesis by (simp only: sign sz mant) simp
qed

lemma from_double_unat:
  assumes "unat f div 2 ^ 52 mod 2 ^ 11 \<noteq> 2047"
  shows "unat (cl_half_from_double f mode) = 2 ^ 15 * (unat f div 2 ^ 63) +
    half_code mode (unat f div 2 ^ 63 \<noteq> 0) 52 1023 (unat f div 2 ^ 52 mod 2 ^ 11) (unat f mod 2 ^ 52)"
proof -
  define sign where "sign = (ucast (drop_bit 63 f) :: u16)"
  define ex where "ex = drop_bit 52 f AND 0x7FF"
  define mant where "mant = f AND (push_bit 52 1 - 1)"
  let ?e = "unat f div 2 ^ 52 mod 2 ^ 11"
  have top: "unat f < 2 ^ 64" using unsigned_less [of f] by simp
  have sign: "unat sign = unat f div 2 ^ 63"
    using top by (simp add: sign_def unat_ucast_mod unat_drop_bit less_mult_imp_div_less)
  have s1: "unat sign \<le> 1" using top by (simp add: sign)
  have "ex = take_bit 11 (drop_bit 52 f)" using and_low_mask [of 11 "drop_bit 52 f"] by (simp add: ex_def)
  then have ex: "unat ex = ?e" by (simp only: unat_take_bit unat_drop_bit)
  have mant: "unat mant = unat f mod 2 ^ 52"
    using and_low_mask [of 52 f] by (simp add: mant_def unat_take_bit)
  have z: "ex = 0x7FF \<longleftrightarrow> ?e = 2047" "ex = 0 \<and> mant = 0 \<longleftrightarrow> ?e = 0 \<and> unat mant = 0"
    by (simp_all add: word_unat_eq_iff ex)
  have sz: "sign \<noteq> 0 \<longleftrightarrow> unat f div 2 ^ 63 \<noteq> 0" by (simp add: word_unat_eq_iff sign)
  have c: "int ?e - 1024 + 1 \<ge> 16 \<longleftrightarrow> 1023 + 16 \<le> ?e" "int ?e - 1024 + 1 < - 25 \<longleftrightarrow> ?e + 25 < 1023"
    "int ?e - 1024 + 1 < - 14 \<longleftrightarrow> ?e + 14 < 1023" by linarith+
  have n: "nat (- (int ?e - 1024 + 1) + (53 - 25)) = 1023 + 52 - 24 - ?e" if "?e + 14 < 1023" using that by linarith
  have h: "int ?e - 1024 + 1 + 16 - 1 = int ?e - int 1023 + 15" by simp
  have num: "53 - 1 = (52 :: nat)" "53 - 11 = (42 :: nat)" "int 11 = 11" "- 13 - 11 - 1 = (- 25 :: int)"
    "int 53 = 53" by simp_all
  have body: "cl_half_from_double f mode =
      (if ?e = 0 \<and> unat mant = 0 then push_bit 15 sign
       else if 1023 + 16 \<le> ?e then cl_half_handle_overflow mode sign
       else if ?e + 25 < 1023 then cl_half_handle_underflow mode sign
       else let (h, M, n) = (if ?e + 14 < 1023 then (0, mant OR push_bit 52 1, 1023 + 52 - 24 - ?e)
                             else (word_of_int (int ?e - int 1023 + 15), mant, 52 - 10))
            in half_pack sign h (half_mantissa mode sign M n))"
    unfolding cl_half_from_double_def CL_DBL_MANT_DIG_def CL_DBL_MAX_EXP_def CL_HALF_MAX_EXP_def
      CL_HALF_MIN_EXP_def CL_HALF_MANT_DIG_def Let_def num sign_def [symmetric] ex_def [symmetric]
      mant_def [symmetric] z ex c h
    using assms n by (simp cong: if_cong)
  have "unat mant < 2 ^ 52" by (simp add: mant)
  from convert_unat [OF s1 this _ _ _ body] show ?thesis by (simp only: sign sz mant) simp
qed

end
