(* ===== verification/ClHalfProps.thy ===== *)
theory ClHalfProps
  imports ClHalf
begin

text \<open>
  What the conversions of \<open>include/CL/cl_half.h\<close> promise.  A number that is not a NaN or an
  infinity is converted to the half that the rounding mode asks for, by the reference
  definition \<^const>\<open>rounded\<close>; the widening conversion is exact; narrowing after widening gives
  the half back.
\<close>

section \<open>Correct rounding of the conversions\<close>

lemma rounded_le: "rounded mode neg U x c \<Longrightarrow> c \<le> 0x7C00"
  by (cases mode) (auto simp: rounded_def to_nearest_def toward_zero_def away_from_zero_def split: if_splits)

lemma signed_code: "c \<le> 0x7C00 \<Longrightarrow> n = 2 ^ 15 * s + c \<Longrightarrow> n div 2 ^ 15 = s \<and> n mod 2 ^ 15 = (c :: nat)"
  by simp

lemma from_float_parts:
  assumes "unat f div 2 ^ 23 mod 2 ^ 8 \<noteq> 255"
  shows "\<exists>c. unat (cl_half_from_float f mode) = 2 ^ 15 * (unat f div 2 ^ 31) + c \<and>
    rounded mode (unat f div 2 ^ 31 \<noteq> 0) (2 ^ 125) (float_mag f) c"
proof -
  let ?c = "half_code mode (unat f div 2 ^ 31 \<noteq> 0) 23 127 (unat f div 2 ^ 23 mod 2 ^ 8) (unat f mod 2 ^ 23)"
  have "rounded mode (unat f div 2 ^ 31 \<noteq> 0) (2 ^ (127 + 23 - 25)) (float_mag f) ?c"
    unfolding float_mag_def by (rule half_code_rounded) simp_all
  moreover have "(127 + 23 - 25 :: nat) = 125" by simp
  ultimately have "rounded mode (unat f div 2 ^ 31 \<noteq> 0) (2 ^ 125) (float_mag f) ?c" by (simp only:)
  with from_float_unat [OF assms] show ?thesis by blast
qed

text \<open>C34: \<open>cl_half_from_float\<close> rounds correctly.  For every float that is not an infinity or a NaN
  and every rounding mode the result has the float's sign, and its other 15 bits are the half that
  the reference definition \<^const>\<open>rounded\<close> asks for: the nearest one with ties to even, the next one
  towards or away from zero, overflow to infinity or the largest finite number.\<close>

theorem half_from_float_rounded:
  assumes "unat f div 2 ^ 23 mod 2 ^ 8 \<noteq> 255"
  shows "unat (cl_half_from_float f mode) div 2 ^ 15 = unat f div 2 ^ 31 \<and>
    rounded mode (unat f div 2 ^ 31 \<noteq> 0) (2 ^ 125) (float_mag f) (unat (cl_half_from_float f mode) mod 2 ^ 15)"
proof -
  obtain c where c: "unat (cl_half_from_float f mode) = 2 ^ 15 * (unat f div 2 ^ 31) + c"
    "rounded mode (unat f div 2 ^ 31 \<noteq> 0) (2 ^ 125) (float_mag f) c" using from_float_parts [OF assms] by blast
  from c(2) signed_code [OF rounded_le [OF c(2)] c(1)] show ?thesis by (simp only: simp_thms)
qed

theorem half_from_float_rounded_witness:
  "rounded CL_HALF_RTE False (2 ^ 125) (float_mag 0x3F801000) (unat (cl_half_from_float 0x3F801000 CL_HALF_RTE) mod 2 ^ 15) \<and>
   cl_half_from_float 0x3F801000 CL_HALF_RTE = 0x3C00"
proof
  show "cl_half_from_float 0x3F801000 CL_HALF_RTE = 0x3C00" by code_simp
qed (use half_from_float_rounded [of "0x3F801000" CL_HALF_RTE] in simp)

text \<open>\<open>cl_half_from_double\<close> rounds correctly, in the same sense, for every double that is not an
  infinity or a NaN and every rounding mode: one rounding, not a rounding to float first.\<close>

theorem half_from_double_rounded:
  assumes "unat d div 2 ^ 52 mod 2 ^ 11 \<noteq> 2047"
  shows "unat (cl_half_from_double d mode) div 2 ^ 15 = unat d div 2 ^ 63 \<and>
    rounded mode (unat d div 2 ^ 63 \<noteq> 0) (2 ^ 1050) (double_mag d) (unat (cl_half_from_double d mode) mod 2 ^ 15)"
proof -
  let ?c = "half_code mode (unat d div 2 ^ 63 \<noteq> 0) 52 1023 (unat d div 2 ^ 52 mod 2 ^ 11) (unat d mod 2 ^ 52)"
  have "rounded mode (unat d div 2 ^ 63 \<noteq> 0) (2 ^ (1023 + 52 - 25)) (double_mag d) ?c"
    unfolding double_mag_def by (rule half_code_rounded) simp_all
  moreover have "(1023 + 52 - 25 :: nat) = 1050" by simp
  ultimately have r: "rounded mode (unat d div 2 ^ 63 \<noteq> 0) (2 ^ 1050) (double_mag d) ?c" by (simp only:)
  from r signed_code [OF rounded_le [OF r] from_double_unat [OF assms]] show ?thesis by (simp only: simp_thms)
qed

theorem half_from_double_rounded_witness:
  "rounded CL_HALF_RTP True (2 ^ 1050) (double_mag 0xC0EFFC0000000001)
     (unat (cl_half_from_double 0xC0EFFC0000000001 CL_HALF_RTP) mod 2 ^ 15) \<and>
   cl_half_from_double 0xC0EFFC0000000001 CL_HALF_RTP = 0xFBFF"
proof
  show "cl_half_from_double 0xC0EFFC0000000001 CL_HALF_RTP = 0xFBFF" by code_simp
qed (use half_from_double_rounded [of "0xC0EFFC0000000001" CL_HALF_RTP] in simp)

section \<open>The widening conversion\<close>

text \<open>The loop with a bound on its steps, for the proofs.\<close>

fun normalize_steps :: "nat \<Rightarrow> u16 \<Rightarrow> u32 \<Rightarrow> u16 \<times> u32" where
  "normalize_steps bound h_mant shift =
     (if h_mant AND 0x400 = 0
      then (case bound of 0 \<Rightarrow> (h_mant, shift)
            | Suc b \<Rightarrow> normalize_steps b (push_bit 1 h_mant) (shift + 1))
      else (h_mant, shift))"

declare normalize_steps.simps [simp del]

lemma normalize_result:
  assumes "0 < unat m" "unat m < 2048" "1024 \<le> unat m * 2 ^ fuel"
  shows "\<exists>k \<le> fuel. unat (fst (normalize_steps fuel m s)) = unat m * 2 ^ k \<and> snd (normalize_steps fuel m s) = s + of_nat k \<and>
    1024 \<le> unat m * 2 ^ k \<and> unat m * 2 ^ k < 2048"
  using assms
proof (induction fuel arbitrary: m s)
  case 0
  then have "unat m div 1024 = 1" by (intro div_nat_eqI) simp_all
  then have "m AND 0x400 \<noteq> 0" unfolding and_0x400 by simp
  then show ?case using 0 by (auto simp: normalize_steps.simps)
next
  case (Suc fuel)
  show ?case
  proof (cases "m AND 0x400 = 0")
    case True
    then have "even (unat m div 1024)" using and_0x400 by blast
    moreover have "unat m div 1024 < 2" using Suc.prems(2) by linarith
    moreover have "even n \<Longrightarrow> n < 2 \<Longrightarrow> n = 0" for n :: nat by presburger
    ultimately have "unat m div 1024 = 0" by blast
    then have small: "unat m < 1024" by (simp add: div_eq_0_iff)
    then have "2 ^ 1 * unat m < 2 ^ LENGTH(16)" by simp
    from unat_push_bit [OF this] have d: "unat (push_bit 1 m) = 2 * unat m" by (simp only: power_one_right)
    have "0 < unat (push_bit 1 m)" "unat (push_bit 1 m) < 2048" "1024 \<le> unat (push_bit 1 m) * 2 ^ fuel"
      unfolding d using Suc.prems small by simp_all
    note IH = Suc.IH [OF this, of "s + 1"]
    obtain k where k: "k \<le> fuel" "unat (fst (normalize_steps fuel (push_bit 1 m) (s + 1))) = unat (push_bit 1 m) * 2 ^ k"
      "snd (normalize_steps fuel (push_bit 1 m) (s + 1)) = s + 1 + of_nat k"
      "1024 \<le> unat (push_bit 1 m) * 2 ^ k" "unat (push_bit 1 m) * 2 ^ k < 2048"
      using IH by blast
    have n: "normalize_steps (Suc fuel) m s = normalize_steps fuel (push_bit 1 m) (s + 1)"
      by (simp only: normalize_steps.simps [of "Suc fuel"] True simp_thms if_True nat.case)
    show ?thesis unfolding n
      by (rule exI [where x = "Suc k"]) (use k [unfolded d] in \<open>simp add: ac_simps\<close>)
  next
    case False
    then have "odd (unat m div 1024)" using and_0x400 by blast
    then have "1024 \<le> unat m" by (metis div_less even_zero not_less)
    with False Suc.prems show ?thesis by (intro exI [where x = 0]) (simp add: normalize_steps.simps [of "Suc fuel"])
  qed
qed

lemma loop_body [simp]:
  "needs_shift (m, s) \<longleftrightarrow> m AND 0x400 = 0" "shift_mantissa (m, s) = (push_bit 1 m, s + 1)"
  by (simp_all add: needs_shift_def shift_mantissa_def)

text \<open>The loop ends at the state the bounded one ends at, once that state ends it.\<close>

lemma while_normalize_steps:
  "\<not> needs_shift (normalize_steps n m s) \<Longrightarrow>
     while_option needs_shift shift_mantissa (m, s) = Some (normalize_steps n m s)"
proof (induction n arbitrary: m s)
  case 0
  then show ?case
    by (subst while_option_unfold) (auto simp: normalize_steps.simps [of 0] split: if_splits)
next
  case (Suc n)
  show ?case
  proof (cases "m AND 0x400 = 0")
    case True
    then have n: "normalize_steps (Suc n) m s = normalize_steps n (push_bit 1 m) (s + 1)"
      by (simp only: normalize_steps.simps [of "Suc n"] simp_thms if_True nat.case)
    then show ?thesis using Suc.IH [of "push_bit 1 m" "s + 1"] Suc.prems True
      by (subst while_option_unfold) simp
  next
    case False
    then show ?thesis
      by (subst while_option_unfold) (simp add: normalize_steps.simps [of "Suc n"])
  qed
qed

lemma normalize_ends:
  assumes "0 < unat m" "unat m < 1024"
  shows "normalize m = Some (normalize_steps 10 m 0)"
  unfolding normalize_def
proof (rule while_normalize_steps)
  obtain k where "unat (fst (normalize_steps 10 m 0)) = unat m * 2 ^ k" "1024 \<le> unat m * 2 ^ k" "unat m * 2 ^ k < 2048"
    using normalize_result [of m 10 0] assms by auto
  then have "unat (fst (normalize_steps 10 m 0)) div 1024 = 1" by (intro div_nat_eqI) simp_all
  then have "fst (normalize_steps 10 m 0) AND 0x400 \<noteq> 0" unfolding and_0x400 by simp
  then show "\<not> needs_shift (normalize_steps 10 m 0)" by (simp add: needs_shift_def case_prod_unfold)
qed

lemma normalize_zero: "while_option needs_shift shift_mantissa (0, s) = None"
proof (rule ccontr)
  assume "while_option needs_shift shift_mantissa (0, s) \<noteq> None"
  then obtain t where t: "while_option needs_shift shift_mantissa (0, s) = Some t" by blast
  have "fst t = 0" by (rule while_option_rule [OF _ t, of "\<lambda>p. fst p = 0"]) (auto simp: shift_mantissa_def)
  moreover have "\<not> needs_shift t" using while_option_stop [OF t] .
  ultimately show False by (simp add: needs_shift_def case_prod_unfold)
qed

text \<open>What \<open>cl_half_to_float\<close> computes, with the bounded loop.\<close>

definition widened_half :: "u16 \<Rightarrow> u32" where
  "widened_half h =
     (let sign = drop_bit 15 h;
          h_exp = drop_bit (CL_HALF_MANT_DIG - 1) h AND 0x1F;
          h_mant = h AND 0x3FF;
          exp = int (unat h_exp) - CL_HALF_MAX_EXP + 1;
          f_exp = word_of_int (exp + CL_FLT_MAX_EXP - 1) :: u32
      in if h_exp = 0x1F then
           (if h_mant \<noteq> 0 then push_bit 31 (ucast sign) OR 0x7F800000 OR
              (push_bit (CL_FLT_MANT_DIG - CL_HALF_MANT_DIG) (ucast h_mant) OR 0x400000)
            else push_bit 31 (ucast sign) OR 0x7F800000)
         else
           let (f_exp, h_mant) =
                 (if h_exp = 0 then
                    (if h_mant = 0 then (0, h_mant)
                     else let (m, shift) = normalize_steps 10 h_mant 0 in (f_exp - (shift - 1), m AND 0x3FF))
                  else (f_exp, h_mant))
           in push_bit 31 (ucast sign) OR push_bit 23 f_exp OR push_bit 13 (ucast h_mant))"

lemma float_fields:
  assumes "unat s \<le> 1" and "unat e < 256" and "unat m < 1024"
  shows "unat (push_bit 31 (ucast (s :: u16)) OR push_bit 23 (e :: u32) OR push_bit 13 (ucast (m :: u16)) :: u32) =
    2 ^ 31 * unat s + (2 ^ 23 * unat e + 2 ^ 13 * unat m)"
proof -
  have c: "unat (ucast s :: u32) = unat s" "unat (ucast m :: u32) = unat m"
    using assms by (simp_all add: unat_ucast_mod)
  have 1: "unat (push_bit 13 (ucast m) :: u32) = 2 ^ 13 * unat m" 
    using assms(3) c by (subst unat_push_bit) simp_all
  have 2: "unat (push_bit 23 e) = 2 ^ 23 * unat e" using assms(2) by (subst unat_push_bit) simp_all
  have 3: "unat (push_bit 31 (ucast s) :: u32) = 2 ^ 31 * unat s" using assms(1) c by (subst unat_push_bit) simp_all
  have 4: "unat (push_bit 23 e OR push_bit 13 (ucast m)) = 2 ^ 23 * unat e + 2 ^ 13 * unat m"
    using assms(3) 1 2 by (subst or_disjoint_add [where n = 23]) simp_all
  show ?thesis using assms(2,3) 3 4 unfolding or.assoc by (subst or_disjoint_add [where n = 31]) simp_all
qed

lemma half_fields:
  fixes h :: u16
  shows "unat (drop_bit 15 h) = unat h div 2 ^ 15" "unat (drop_bit 10 h AND 0x1F) = unat h div 2 ^ 10 mod 2 ^ 5"
    "unat (h AND 0x3FF) = unat h mod 2 ^ 10"
proof -
  show "unat (drop_bit 15 h) = unat h div 2 ^ 15" by (rule unat_drop_bit)
  have "drop_bit 10 h AND 0x1F = take_bit 5 (drop_bit 10 h)" using and_low_mask [of 5 "drop_bit 10 h"] by simp
  then show "unat (drop_bit 10 h AND 0x1F) = unat h div 2 ^ 10 mod 2 ^ 5" by (simp only: unat_take_bit unat_drop_bit)
  have "h AND 0x3FF = take_bit 10 h" using and_low_mask [of 10 h] by simp
  then show "unat (h AND 0x3FF) = unat h mod 2 ^ 10" by (simp only: unat_take_bit)
qed

lemma word_of_int_u32: "0 \<le> i \<Longrightarrow> i < 2 ^ 32 \<Longrightarrow> unat (word_of_int i :: u32) = nat i"
  by (simp add: unsigned_of_int take_bit_int_eq_self)

text \<open>The exponent and mantissa fields of the result, in the three cases of the code.\<close>

lemma to_float_unat:
  assumes "unat h div 2 ^ 10 mod 2 ^ 5 = e" and "unat h mod 2 ^ 10 = m" and "e \<noteq> 31"
  shows "\<exists>E M. unat (widened_half h) = 2 ^ 31 * (unat h div 2 ^ 15) + (2 ^ 23 * E + 2 ^ 13 * M) \<and> E < 255 \<and> M < 1024 \<and>
    (E = 0 \<and> M = 0 \<and> e = 0 \<and> m = 0 \<or> 0 < E \<and> 0 < e \<and> E = e + 112 \<and> M = m \<or>
     (\<exists>k \<le> 10. e = 0 \<and> E = 113 - k \<and> M + 1024 = m * 2 ^ k))"
proof -
  let ?s = "drop_bit 15 h" and ?e = "drop_bit 10 h AND 0x1F" and ?m = "h AND 0x3FF"
  have e: "unat ?e = e" and m: "unat ?m = m" unfolding half_fields by (rule assms)+
  have es: "e < 32" "m < 1024" using assms(1,2) by auto
  have "unat h < 2 ^ 16" using unsigned_less [of h] by simp
  then have s1: "unat ?s \<le> 1" by (simp add: half_fields(1) less_mult_imp_div_less)
  have s: "unat ?s = unat h div 2 ^ 15" by (rule half_fields)
  have e31: "?e \<noteq> 0x1F" using assms(3) e by (auto simp: word_unat_eq_iff)
  have body: "widened_half h =
     (let (f_exp, h_mant) =
            (if ?e = 0 then
               (if ?m = 0 then (0, ?m)
                else let (m, shift) = normalize_steps 10 ?m 0 in (word_of_int (int e - 15 + 127) - (shift - 1), m AND 0x3FF))
             else (word_of_int (int e - 15 + 127), ?m))
      in push_bit 31 (ucast ?s) OR push_bit 23 f_exp OR push_bit 13 (ucast h_mant))"
  proof -
    have n: "11 - 1 = (10 :: nat)" "int e - 16 + 1 + 128 - 1 = int e - 15 + 127" by simp_all
    show ?thesis unfolding widened_half_def CL_HALF_MANT_DIG_def CL_HALF_MAX_EXP_def CL_FLT_MAX_EXP_def
      CL_FLT_MANT_DIG_def n Let_def e n if_not_P [OF e31] ..
  qed
  consider (zero) "e = 0" "m = 0" | (denormal) "e = 0" "0 < m" | (normal) "0 < e" by auto
  then show ?thesis
  proof cases
    case zero
    then have "?e = 0" "?m = 0" using e m by (auto simp: word_unat_eq_iff)
    then have "widened_half h = push_bit 31 (ucast ?s) OR push_bit 23 0 OR push_bit 13 (ucast (0 :: u16))"
      unfolding body by simp
    with float_fields [OF s1, of 0 0] zero s show ?thesis by (intro exI [where x = 0]) simp
  next
    case normal
    then have "?e \<noteq> 0" using e by auto
    then have f: "widened_half h = push_bit 31 (ucast ?s) OR push_bit 23 (word_of_int (int e - 15 + 127)) OR push_bit 13 (ucast ?m)"
      unfolding body by simp
    have E: "unat (word_of_int (int e - 15 + 127) :: u32) = e + 112" using es by (subst word_of_int_u32) simp_all
    have "unat (widened_half h) = 2 ^ 31 * (unat h div 2 ^ 15) + (2 ^ 23 * (e + 112) + 2 ^ 13 * m)"
      unfolding f by (subst float_fields) (use s1 es E in \<open>simp_all add: m s\<close>)
    with normal es show ?thesis by (intro exI [where x = "e + 112"] exI [where x = m]) simp
  next
    case denormal
    then have z: "?e = 0" "?m \<noteq> 0" using e m by (auto simp: word_unat_eq_iff)
    obtain k where k: "k \<le> 10" "unat (fst (normalize_steps 10 ?m 0)) = m * 2 ^ k" "snd (normalize_steps 10 ?m 0) = of_nat k"
      "1024 \<le> m * 2 ^ k" "m * 2 ^ k < 2048"
      using normalize_result [of ?m 10 0] denormal es unfolding m by auto
    let ?M = "fst (normalize_steps 10 ?m 0) AND 0x3FF"
    have f: "widened_half h = push_bit 31 (ucast ?s) OR push_bit 23 (112 - (of_nat k - 1)) OR push_bit 13 (ucast ?M)"
      unfolding body using z k(3) denormal by (simp add: case_prod_unfold)
    have "112 - (of_nat k - 1) = (word_of_int (113 - int k) :: u32)" by simp
    then have E: "unat (112 - (of_nat k - 1) :: u32) = 113 - k" using k(1) by (simp only:) (subst word_of_int_u32, simp_all)
    have M: "unat ?M + 1024 = m * 2 ^ k" unfolding half_fields k(2) using k(4,5) by (simp add: le_mod_geq)
    have "unat ?M < 1024" unfolding half_fields by simp
    with E M k s s1 denormal show ?thesis
      by (intro exI [where x = "113 - k"] exI [where x = "unat ?M"]) (simp add: f float_fields)
  qed
qed

lemma float_parts:
  assumes "n = 2 ^ 31 * s + (2 ^ 23 * E + 2 ^ 13 * M)" and "E < 255" and "M < (1024 :: nat)"
  shows "n div 2 ^ 31 = s" "n div 2 ^ 23 mod 2 ^ 8 = E" "n mod 2 ^ 23 = 2 ^ 13 * M"
proof -
  have "n = (2 ^ 23 * E + 2 ^ 13 * M) + s * 2 ^ 31" using assms(1) by simp
  moreover have "2 ^ 23 * E + 2 ^ 13 * M < 2 ^ 31" using assms(2,3) by simp
  ultimately show "n div 2 ^ 31 = s" by (simp only: div_mult_self1 div_less)
  have n: "n = 2 ^ 13 * M + (2 ^ 8 * s + E) * 2 ^ 23" using assms(1) by simp
  have m: "2 ^ 13 * M < 2 ^ 23" using assms(3) by simp
  show "n mod 2 ^ 23 = 2 ^ 13 * M" unfolding n mod_mult_self1 using m by (rule mod_less)
  have "n div 2 ^ 23 = 2 ^ 8 * s + E" using div_mult_self1 [of "2 ^ 23" "2 ^ 13 * M" "2 ^ 8 * s + E"] div_less [OF m] n by simp
  then show "n div 2 ^ 23 mod 2 ^ 8 = E" using assms(2) by simp
qed

lemma widened:
  assumes "unat h div 2 ^ 10 mod 2 ^ 5 \<noteq> 31"
  shows widen_sign: "unat (widened_half h) div 2 ^ 31 = unat h div 2 ^ 15"
    and widen_finite: "unat (widened_half h) div 2 ^ 23 mod 2 ^ 8 \<noteq> 255"
    and widen_mag: "float_mag (widened_half h) = half_mag (unat h mod 2 ^ 15) * 2 ^ 125"
proof -
  let ?e = "unat h div 2 ^ 10 mod 2 ^ 5" and ?m = "unat h mod 2 ^ 10"
  obtain E M where EM: "unat (widened_half h) = 2 ^ 31 * (unat h div 2 ^ 15) + (2 ^ 23 * E + 2 ^ 13 * M)"
    "E < 255" "M < 1024"
    "E = 0 \<and> M = 0 \<and> ?e = 0 \<and> ?m = 0 \<or> 0 < E \<and> 0 < ?e \<and> E = ?e + 112 \<and> M = ?m \<or>
     (\<exists>k \<le> 10. ?e = 0 \<and> E = 113 - k \<and> M + 1024 = ?m * 2 ^ k)"
    using to_float_unat [OF refl refl assms] by (elim exE conjE) (rule that)
  note parts = float_parts [OF EM(1-3)]
  show "unat (widened_half h) div 2 ^ 31 = unat h div 2 ^ 15" by (rule parts)
  show "unat (widened_half h) div 2 ^ 23 mod 2 ^ 8 \<noteq> 255" unfolding parts using EM(2) by simp
  have code: "unat h mod 2 ^ 15 = ?e * 1024 + ?m"
  proof -
    have "unat h mod 2 ^ 15 = unat h mod (2 ^ 10 * 2 ^ 5)" by simp
    also have "\<dots> = 2 ^ 10 * ?e + ?m" by (simp only: mod_mult2_eq)
    finally show ?thesis by simp
  qed
  have m: "?m < 1024" by simp
  from EM(4) show "float_mag (widened_half h) = half_mag (unat h mod 2 ^ 15) * 2 ^ 125"
  proof (elim disjE conjE exE)
    assume "E = 0" "M = 0" "?e = 0" "?m = 0"
    then show ?thesis unfolding float_mag_def parts code by (simp add: bin_mag_def half_mag_def)
  next
    assume a: "0 < E" "0 < ?e" "E = ?e + 112" "M = ?m"
    have "float_mag (widened_half h) = (?m + 1024) * (2 ^ 13 * 2 ^ (?e + 111))"
      unfolding float_mag_def parts using a(1,3,4) by (simp add: bin_mag_def algebra_simps)
    also have "(2 :: nat) ^ 13 * 2 ^ (?e + 111) = 2 ^ (?e - 1) * 2 ^ 125"
    proof -
      have "13 + (?e + 111) = (?e - 1) + 125" using a(2) by linarith
      then show ?thesis by (simp only: flip: power_add)
    qed
    finally show ?thesis unfolding code half_mag_normal [OF a(2) m] by (simp only: mult.assoc)
  next
    fix k assume k: "k \<le> 10" "?e = 0" "E = 113 - k" "M + 1024 = ?m * 2 ^ k"
    have "float_mag (widened_half h) = (M + 1024) * (2 ^ 13 * 2 ^ (112 - k))"
      unfolding float_mag_def parts using k(1,3) by (simp add: bin_mag_def algebra_simps)
    also have "\<dots> = ?m * (2 ^ k * (2 ^ 13 * 2 ^ (112 - k)))" unfolding k(4) by (simp only: mult.assoc)
    also have "(2 :: nat) ^ k * (2 ^ 13 * 2 ^ (112 - k)) = 2 ^ 125"
    proof -
      have "k + (13 + (112 - k)) = 125" using k(1) by linarith
      then show ?thesis by (simp only: flip: power_add)
    qed
    finally show ?thesis unfolding code k(2) using half_mag_small [OF m] by simp
  qed
qed

text \<open>The loop is called for non-zero mantissas only, and so the conversion always returns.\<close>

lemma half_to_float_returns: "cl_half_to_float h = Some (widened_half h)"
proof -
  have "normalize (h AND 0x3FF) = Some (normalize_steps 10 (h AND 0x3FF) 0)" if "h AND 0x3FF \<noteq> 0"
  proof (rule normalize_ends)
    show "0 < unat (h AND 0x3FF)" using that by (simp add: unat_gt_0)
    show "unat (h AND 0x3FF) < 1024" unfolding half_fields by simp
  qed
  then show ?thesis
    unfolding cl_half_to_float_def widened_half_def Let_def by (simp add: case_prod_unfold)
qed

text \<open>\<open>cl_half_to_float\<close> is exact: the float is finite and has the sign and the magnitude of the half
  (a half unit is \<open>2^125\<close> float units).\<close>

theorem half_to_float_exact:
  assumes "unat h div 2 ^ 10 mod 2 ^ 5 \<noteq> 31"
  shows "\<exists>f. cl_half_to_float h = Some f \<and> unat f div 2 ^ 31 = unat h div 2 ^ 15 \<and>
    unat f div 2 ^ 23 mod 2 ^ 8 \<noteq> 255 \<and> float_mag f = half_mag (unat h mod 2 ^ 15) * 2 ^ 125"
  using widened [OF assms] by (simp add: half_to_float_returns)

text \<open>C36: the normalisation loop of \<open>cl_half_to_float\<close> ends for every mantissa it is called with.
  For a non-zero mantissa of ten bits it returns after one to ten steps, with the mantissa shifted
  so far that bit 10 is its leading bit and with the number of steps; for the mantissa 0 it would
  never end, and the conversion, which tests for 0 first, returns for every half.\<close>

theorem half_conversion_terminates:
  assumes "0 < unat m" and "unat m < 1024"
  shows "\<exists>k \<in> {1..10}. \<exists>m'. normalize m = Some (m', of_nat k) \<and> unat m' = unat m * 2 ^ k \<and> unat m' div 1024 = 1 \<and>
    normalize 0 = None \<and> (\<forall>h. \<exists>f. cl_half_to_float h = Some f)"
proof -
  obtain k where k: "k \<le> 10" "unat (fst (normalize_steps 10 m 0)) = unat m * 2 ^ k"
    "snd (normalize_steps 10 m 0) = of_nat k" "1024 \<le> unat m * 2 ^ k" "unat m * 2 ^ k < 2048"
    using normalize_result [of m 10 0] assms by auto
  have "k \<noteq> 0" using k(4) assms(2) by (intro notI) simp
  then have "k \<in> {1..10}" using k(1) by simp
  moreover have "normalize m = Some (fst (normalize_steps 10 m 0), of_nat k)"
    using normalize_ends [OF assms] k(3) by (metis prod.collapse)
  moreover have "unat m * 2 ^ k div 1024 = 1" using k(4,5) by (intro div_nat_eqI) simp_all
  moreover have "normalize 0 = None" unfolding normalize_def by (rule normalize_zero)
  ultimately show ?thesis using k(2) half_to_float_returns by auto
qed

theorem half_conversion_terminates_witness:
  "\<exists>k \<in> {1..10}. \<exists>m'. normalize 3 = Some (m', of_nat k) \<and> unat m' = 3 * 2 ^ k \<and> unat m' div 1024 = 1"
  using half_conversion_terminates [of 3] by auto

lemma rounded_exact:
  assumes "rounded mode neg U (half_mag c * U) d" and "0 < U" and "c \<le> 0x7BFF"
  shows "d = c"
proof -
  have mono: "half_mag a < half_mag b \<longleftrightarrow> a < b" for a b
    by (rule strict_mono_less [OF half_mag_strict])
  have mono': "half_mag a \<le> half_mag b \<longleftrightarrow> a \<le> b" for a b
    by (rule strict_mono_less_eq [OF half_mag_strict])
  have "toward_zero U (half_mag c * U) d \<Longrightarrow> d = c" using assms(2,3) by (auto simp: toward_zero_def mono mono')
  moreover have "away_from_zero U (half_mag c * U) d \<Longrightarrow> d = c" using assms(2,3) by (auto simp: away_from_zero_def mono mono')
  moreover have "to_nearest U (half_mag c * U) d \<Longrightarrow> d = c"
  proof -
    assume n: "to_nearest U (half_mag c * U) d"
    have "\<not> d < c"
    proof
      assume "d < c"
      then have "half_mag d * U < half_mag c * U" "half_mag (d + 1) * U \<le> half_mag c * U" "d \<noteq> 0x7C00"
        using assms(2,3) by (simp_all add: mono mono')
      with n show False unfolding to_nearest_def add_mult_distrib by linarith
    qed
    moreover have "\<not> c < d"
    proof
      assume "c < d"
      then have "half_mag c * U < half_mag d * U" "half_mag c * U \<le> half_mag (d - 1) * U" "d \<noteq> 0"
        using assms(2) by (simp_all add: mono mono')
      with n show False unfolding to_nearest_def add_mult_distrib by linarith
    qed
    ultimately show "d = c" by simp
  qed
  ultimately show ?thesis using assms(1) by (cases mode) (auto simp: rounded_def split: if_splits)
qed

lemma numeral_bits:
  "(0x7F800000 :: u32) = push_bit 23 (mask 8)" "(0xFF :: u32) = mask 8" "(0x400000 :: u32) = push_bit 22 1"
  "(0x7C00 :: u16) = push_bit 10 (mask 5)" "(0x200 :: u16) = push_bit 9 1" "(0x3FF :: u16) = mask 10"
  "push_bit 23 1 - 1 = (mask 23 :: u32)"
  by (simp_all add: mask_eq_exp_minus_1)

lemma bit_0x200: "bit (0x200 :: u16) n \<longleftrightarrow> n = 9"
proof -
  have "bit (0x200 :: u16) n \<longleftrightarrow> n < 16 \<and> 9 \<le> n \<and> n - 9 = 0"
    unfolding numeral_bits(5) by (simp only: bit_push_bit_iff bit_1_iff) auto
  then show ?thesis by auto
qed

lemma special_fields:
  fixes h :: u16 and f q :: u32
  assumes "f = push_bit 31 (ucast (drop_bit 15 h)) OR 0x7F800000 OR (push_bit 13 (ucast (h AND 0x3FF)) OR q)"
    and "q = (if b then 0x400000 else 0)"
  shows "ucast (drop_bit 31 f) = drop_bit 15 h" "drop_bit 23 f AND 0xFF = 0xFF"
    "f AND (push_bit 23 1 - 1) = push_bit 13 (ucast (h AND 0x3FF)) OR q"
    "ucast (drop_bit 13 (f AND (push_bit 23 1 - 1))) OR 0x200 = (h AND 0x3FF OR 0x200 :: u16)"
    "\<And>n. bit q n \<longleftrightarrow> b \<and> n = 22"
proof -
  have q: "bit q n \<longleftrightarrow> b \<and> n = 22" for n
  proof (cases b)
    case True
    then have "q = push_bit 22 1" unfolding assms(2) numeral_bits(3) by (simp only: if_True)
    then have "bit q n \<longleftrightarrow> n < 32 \<and> 22 \<le> n \<and> n - 22 = 0" by (simp only: bit_push_bit_iff bit_1_iff) auto
    then show ?thesis using True by auto
  qed (simp add: assms(2))
  then show "bit q n \<longleftrightarrow> b \<and> n = 22" for n .
  show "ucast (drop_bit 31 f) = drop_bit 15 h"
  proof -
    have top: "bit h (15 + n) \<Longrightarrow> n = 0" for n using bit_imp_le_length [of h "15 + n"] by simp
    show ?thesis by (rule bit_word_eqI) (auto simp: assms(1) numeral_bits(1,6) q bit_simps dest: top)
  qed
  show "drop_bit 23 f AND 0xFF = 0xFF"
    unfolding numeral_bits(2) by (rule bit_word_eqI) (auto simp: assms(1) numeral_bits(1,6) q bit_simps)
  show m: "f AND (push_bit 23 1 - 1) = push_bit 13 (ucast (h AND 0x3FF)) OR q"
    unfolding numeral_bits(7) by (rule bit_word_eqI) (auto simp: assms(1) numeral_bits(1,6) q bit_simps)
  show "ucast (drop_bit 13 (f AND (push_bit 23 1 - 1))) OR 0x200 = (h AND 0x3FF OR 0x200 :: u16)"
    unfolding m by (rule bit_word_eqI) (auto simp: bit_0x200 numeral_bits(6) q bit_simps)
qed

lemma special_round_trip:
  assumes "unat h div 2 ^ 10 mod 2 ^ 5 = 31"
  shows "cl_half_from_float (widened_half h) mode = (if unat h mod 2 ^ 10 \<noteq> 0 then h OR 0x200 else h)"
proof -
  have e: "drop_bit 10 h AND 0x1F = 0x1F" using assms half_fields(2) [of h] by (simp add: word_unat_eq_iff)
  have bits: "bit h n" if "10 \<le> n" "n < 15" for n
  proof -
    have "drop_bit 10 h AND mask 5 = mask 5" using e by (simp add: mask_eq_exp_minus_1)
    from arg_cong [OF this, of "\<lambda>x. bit x (n - 10)"] have "bit h n \<and> n - 10 < 16 \<and> n - 10 < 5 \<longleftrightarrow> n - 10 < 16 \<and> n - 10 < 5"
      using that by (simp add: bit_simps)
    moreover have "n - 10 < 5" using that by linarith
    ultimately show ?thesis by simp
  qed
  have m: "h AND 0x3FF = 0 \<longleftrightarrow> unat h mod 2 ^ 10 = 0" using half_fields(3) [of h] by (simp add: word_unat_eq_iff)
  define f where "f = widened_half h"
  define q where "q = (if h AND 0x3FF \<noteq> 0 then 0x400000 else 0 :: u32)"
  have f: "f = push_bit 31 (ucast (drop_bit 15 h)) OR 0x7F800000 OR (push_bit 13 (ucast (h AND 0x3FF)) OR q)"
    using e by (simp add: f_def q_def widened_half_def CL_HALF_MANT_DIG_def CL_FLT_MANT_DIG_def Let_def)
  note fields = special_fields [OF f q_def]
  have zero: "push_bit 13 (ucast (h AND 0x3FF)) OR q = 0 \<longleftrightarrow> h AND 0x3FF = 0"
  proof
    assume "push_bit 13 (ucast (h AND 0x3FF)) OR q = 0"
    then have "\<not> bit q 22" by (metis bit_0_eq bit_or_iff bot_apply bot_bool_def)
    then show "h AND 0x3FF = 0" using fields(5) [of 22] by simp
  qed (simp add: q_def)
  have r: "cl_half_from_float f mode = (if h AND 0x3FF \<noteq> 0
      then push_bit 15 (drop_bit 15 h) OR 0x7C00 OR (h AND 0x3FF OR 0x200) else push_bit 15 (drop_bit 15 h) OR 0x7C00)"
  proof -
    have n: "24 - 1 = (23 :: nat)" "24 - 11 = (13 :: nat)" by simp_all
    show ?thesis unfolding cl_half_from_float_def Let_def CL_FLT_MANT_DIG_def CL_HALF_MANT_DIG_def CL_HALF_EXP_MASK_def n
      unfolding fields zero unfolding fields(3) [symmetric] fields(4) by simp
  qed
  have whole: "push_bit 15 (drop_bit 15 h) OR 0x7C00 OR (h AND 0x3FF) = h"
  proof (rule bit_word_eqI)
    fix n :: nat
    assume "n < LENGTH(16)"
    then consider "n < 10" | "10 \<le> n" "n < 15" "n - 10 < 5" | "n = 15" by force
    then show "bit (push_bit 15 (drop_bit 15 h) OR 0x7C00 OR (h AND 0x3FF)) n \<longleftrightarrow> bit h n"
      by cases (auto simp: numeral_bits(4,6) bit_simps bits)
  qed
  show ?thesis
  proof (cases "h AND 0x3FF = 0")
    case True
    with r m whole show ?thesis by (simp add: f_def)
  next
    case False
    have "cl_half_from_float f mode = (push_bit 15 (drop_bit 15 h) OR 0x7C00 OR (h AND 0x3FF)) OR 0x200"
      using r False by (simp add: or.assoc)
    with False m show ?thesis unfolding whole by (simp add: f_def)
  qed
qed

lemma narrowed_widened:
  "cl_half_from_float (widened_half h) mode =
     (if unat h div 2 ^ 10 mod 2 ^ 5 = 31 \<and> unat h mod 2 ^ 10 \<noteq> 0 then h OR 0x200 else h)"
proof (cases "unat h div 2 ^ 10 mod 2 ^ 5 = 31")
  case True
  then show ?thesis using special_round_trip by simp
next
  case False
  let ?c = "unat h mod 2 ^ 15" and ?r = "cl_half_from_float (widened_half h) mode"
  note w = widened [OF False]
  have c: "?c \<le> 0x7BFF"
  proof -
    have "unat h mod 2 ^ 15 = unat h mod (2 ^ 10 * 2 ^ 5)" by simp
    also have "\<dots> = 2 ^ 10 * (unat h div 2 ^ 10 mod 2 ^ 5) + unat h mod 2 ^ 10" by (simp only: mod_mult2_eq)
    finally have "?c = 1024 * (unat h div 2 ^ 10 mod 2 ^ 5) + unat h mod 2 ^ 10" by simp
    moreover have "unat h div 2 ^ 10 mod 2 ^ 5 < 32" "unat h mod 2 ^ 10 < 1024" by simp_all
    ultimately show ?thesis using False by linarith
  qed
  obtain cr where cr: "unat ?r = 2 ^ 15 * (unat h div 2 ^ 15) + cr" "rounded mode (unat h div 2 ^ 15 \<noteq> 0) (2 ^ 125) (half_mag ?c * 2 ^ 125) cr"
    using from_float_parts [OF w(2), of mode] unfolding w by blast
  from rounded_exact [OF cr(2) _ c] have "cr = ?c" by simp
  with cr(1) have "unat ?r = unat h" using div_mult_mod_eq [of "unat h" "2 ^ 15"] by (simp add: mult.commute)
  then show ?thesis using False by (simp add: word_unat_eq_iff)
qed

text \<open>C35: Converting a half to float and back gives the same half, in every rounding mode, for zeros,
  denormals, normal numbers and infinities; of a NaN the sign and the payload are kept and
  its quiet bit is set.\<close>

theorem half_round_trip:
  "\<exists>f. cl_half_to_float h = Some f \<and>
     cl_half_from_float f mode = (if unat h div 2 ^ 10 mod 2 ^ 5 = 31 \<and> unat h mod 2 ^ 10 \<noteq> 0 then h OR 0x200 else h)"
  by (rule exI [of _ "widened_half h"], rule conjI [OF half_to_float_returns narrowed_widened])

end
