(* ===== verification/CType.thy ===== *)
theory CType
  imports Prelude
begin

text \<open>
  The layout of the C types of \<open>include/CL/cl_platform.h\<close>: sizes, alignments and the offsets of
  members, by the rules of the ABIs the header is compiled for (members of a struct at the
  next aligned offset, members of a union at 0, sizes rounded up to the alignment), and the
  parts of the header the vector types depend on: the scalar types, the native vector types of
  the instruction sets, alignment and anonymous structs.
\<close>

section \<open>Types and layout\<close>

datatype scalar = cl_char | cl_uchar | cl_short | cl_ushort | cl_int | cl_uint | cl_long | cl_ulong
  | cl_half | cl_float | cl_double

text \<open>Exact-width integers, IEEE single and double.\<close>

fun scalar_size :: "scalar \<Rightarrow> nat" where
  "scalar_size cl_char = 1"
| "scalar_size cl_uchar = 1"
| "scalar_size cl_short = 2"
| "scalar_size cl_ushort = 2"
| "scalar_size cl_int = 4"
| "scalar_size cl_uint = 4"
| "scalar_size cl_long = 8"
| "scalar_size cl_ulong = 8"
| "scalar_size cl_half = 2"
| "scalar_size cl_float = 4"
| "scalar_size cl_double = 8"

text \<open>A native vector of some bytes (its element is unknown for the opaque types of other
  compilers), an array, a member with an alignment attribute; an anonymous member has the
  empty name.\<close>

datatype ctype = Scalar scalar | Native "scalar option" nat | Array ctype nat | Aligned nat ctype
  | Struct "(string \<times> ctype) list" | Union "(string \<times> ctype) list"

definition align_up :: "nat \<Rightarrow> nat \<Rightarrow> nat" where
  "align_up n a = (n + a - 1) div a * a"

definition widest :: "(nat \<times> nat) list \<Rightarrow> nat" where
  "widest ls = foldr (\<lambda>(s, a). max a) ls 1"

fun offsets :: "nat \<Rightarrow> (nat \<times> nat) list \<Rightarrow> nat list" where
  "offsets n [] = []"
| "offsets n ((s, a) # ls) = (let p = align_up n a in p # offsets (p + s) ls)"

fun extent :: "nat \<Rightarrow> (nat \<times> nat) list \<Rightarrow> nat" where
  "extent n [] = n"
| "extent n ((s, a) # ls) = extent (align_up n a + s) ls"

definition struct_layout :: "(nat \<times> nat) list \<Rightarrow> nat \<times> nat" where
  "struct_layout ls = (align_up (extent 0 ls) (widest ls), widest ls)"

definition union_layout :: "(nat \<times> nat) list \<Rightarrow> nat \<times> nat" where
  "union_layout ls = (align_up (foldr (\<lambda>(s, a). max s) ls 0) (widest ls), widest ls)"

text \<open>Size and alignment.  Scalars are aligned to their size, as on LP64 targets; some 32-bit ABIs align those of eight
  bytes to four inside structs, which moves no member here: every struct has members of one type.\<close>

primrec layout :: "ctype \<Rightarrow> nat \<times> nat" where
  "layout (Scalar s) = (scalar_size s, scalar_size s)"
| "layout (Native s n) = (n, n)"
| "layout (Array t n) = (n * fst (layout t), snd (layout t))"
| "layout (Aligned a t) = (fst (layout t), max a (snd (layout t)))"
| "layout (Struct ms) = struct_layout (map snd (map (map_prod id layout) ms))"
| "layout (Union ms) = union_layout (map snd (map (map_prod id layout) ms))"

definition sizeof :: "ctype \<Rightarrow> nat" where
  "sizeof t = fst (layout t)"

definition alignof :: "ctype \<Rightarrow> nat" where
  "alignof t = snd (layout t)"

text \<open>Members with their offsets; those of anonymous structs are members of the outer type.\<close>

fun own_members :: "ctype \<Rightarrow> (string \<times> nat \<times> ctype) list" where
  "own_members (Struct ms) = zip (map fst ms) (zip (offsets 0 (map (layout \<circ> snd) ms)) (map snd ms))"
| "own_members (Union ms) = map (\<lambda>(m, t). (m, 0, t)) ms"
| "own_members t = []"

definition members :: "ctype \<Rightarrow> (string \<times> nat \<times> ctype) list" where
  "members t = concat (map (\<lambda>(m, p, u).
     if m = [] then map (\<lambda>(m', p', u'). (m', p + p', u')) (own_members u) else [(m, p, u)]) (own_members t))"

section \<open>The target\<close>

text \<open>The compiler and its flags, as far as the preprocessor conditions ask for them.\<close>

record target =
  gnuc :: bool
  integrity :: bool
  clang :: bool
  win32_msc :: bool
  cplusplus :: bool
  stdc :: bool
  stdc_11 :: bool
  strict_ansi :: bool
  vec :: bool
  sse :: bool
  sse2 :: bool
  mmx :: bool
  avx :: bool

definition has_anon_struct :: "target \<Rightarrow> bool" where
  "has_anon_struct tg \<longleftrightarrow> (\<not> cplusplus tg \<and> stdc_11 tg) \<or> (win32_msc tg \<and> \<not> stdc tg) \<or>
     (gnuc tg \<and> \<not> strict_ansi tg) \<or> clang tg"

definition cl_aligned :: "target \<Rightarrow> nat \<Rightarrow> ctype \<Rightarrow> ctype" where
  "cl_aligned tg a t = (if gnuc tg \<or> integrity tg then Aligned a t else t)"

text \<open>The keys an instruction set defines, with the native type each announces.\<close>

definition vector_size :: "target \<Rightarrow> scalar \<Rightarrow> nat \<Rightarrow> ctype" where
  "vector_size tg s n = Native (if gnuc tg then Some s else None) n"

definition native_vec :: "(string \<times> string \<times> ctype) list" where
  "native_vec =
     [(''__CL_UCHAR16__'', ''__cl_uchar16'', Native (Some cl_uchar) 16),
      (''__CL_CHAR16__'', ''__cl_char16'', Native (Some cl_char) 16),
      (''__CL_USHORT8__'', ''__cl_ushort8'', Native (Some cl_ushort) 16),
      (''__CL_SHORT8__'', ''__cl_short8'', Native (Some cl_short) 16),
      (''__CL_UINT4__'', ''__cl_uint4'', Native (Some cl_uint) 16),
      (''__CL_INT4__'', ''__cl_int4'', Native (Some cl_int) 16),
      (''__CL_FLOAT4__'', ''__cl_float4'', Native (Some cl_float) 16)]"

definition native_sse :: "target \<Rightarrow> (string \<times> string \<times> ctype) list" where
  "native_sse tg = [(''__CL_FLOAT4__'', ''__cl_float4'', vector_size tg cl_float 16)]"

definition native_sse2 :: "target \<Rightarrow> (string \<times> string \<times> ctype) list" where
  "native_sse2 tg =
     [(''__CL_UCHAR16__'', ''__cl_uchar16'', vector_size tg cl_uchar 16),
      (''__CL_CHAR16__'', ''__cl_char16'', vector_size tg cl_char 16),
      (''__CL_USHORT8__'', ''__cl_ushort8'', vector_size tg cl_ushort 16),
      (''__CL_SHORT8__'', ''__cl_short8'', vector_size tg cl_short 16),
      (''__CL_INT4__'', ''__cl_int4'', vector_size tg cl_int 16),
      (''__CL_UINT4__'', ''__cl_uint4'', vector_size tg cl_uint 16),
      (''__CL_ULONG2__'', ''__cl_ulong2'', vector_size tg cl_ulong 16),
      (''__CL_LONG2__'', ''__cl_long2'', vector_size tg cl_long 16),
      (''__CL_DOUBLE2__'', ''__cl_double2'', vector_size tg cl_double 16)]"

definition native_mmx :: "target \<Rightarrow> (string \<times> string \<times> ctype) list" where
  "native_mmx tg =
     [(''__CL_UCHAR8__'', ''__cl_uchar8'', vector_size tg cl_uchar 8),
      (''__CL_CHAR8__'', ''__cl_char8'', vector_size tg cl_char 8),
      (''__CL_USHORT4__'', ''__cl_ushort4'', vector_size tg cl_ushort 8),
      (''__CL_SHORT4__'', ''__cl_short4'', vector_size tg cl_short 8),
      (''__CL_INT2__'', ''__cl_int2'', vector_size tg cl_int 8),
      (''__CL_UINT2__'', ''__cl_uint2'', vector_size tg cl_uint 8),
      (''__CL_ULONG1__'', ''__cl_ulong1'', vector_size tg cl_ulong 8),
      (''__CL_LONG1__'', ''__cl_long1'', vector_size tg cl_long 8),
      (''__CL_FLOAT2__'', ''__cl_float2'', vector_size tg cl_float 8)]"

definition native_avx :: "target \<Rightarrow> (string \<times> string \<times> ctype) list" where
  "native_avx tg =
     [(''__CL_FLOAT8__'', ''__cl_float8'', vector_size tg cl_float 32),
      (''__CL_DOUBLE4__'', ''__cl_double4'', vector_size tg cl_double 32)]"

definition natives :: "target \<Rightarrow> (string \<times> string \<times> ctype) list" where
  "natives tg =
     (if vec tg then native_vec else []) @ (if sse tg then native_sse tg else []) @
     (if sse2 tg then native_sse2 tg else []) @ (if mmx tg then native_mmx tg else []) @
     (if avx tg then native_avx tg else [])"

section \<open>Members of the vector unions\<close>

text \<open>\<open>struct { t a, b, ...; }\<close>; the anonymous structs, where the compiler has them; and
  \<open>#if defined(key) type name[count]; #endif\<close>.\<close>

definition fields :: "ctype \<Rightarrow> string list \<Rightarrow> (string \<times> ctype) list" where
  "fields t ms = map (\<lambda>m. (m, t)) ms"

definition anonymous :: "target \<Rightarrow> (string \<times> ctype) list list \<Rightarrow> (string \<times> ctype) list" where
  "anonymous tg ss = (if has_anon_struct tg then map (\<lambda>ms. ([], Struct ms)) ss else [])"

definition native :: "target \<Rightarrow> string \<Rightarrow> string \<Rightarrow> string \<Rightarrow> nat option \<Rightarrow> (string \<times> ctype) list" where
  "native tg key ty m cnt =
     (case map_of (natives tg) key of
        None \<Rightarrow> []
      | Some _ \<Rightarrow>
          (case map_of (map snd (natives tg)) ty of
             None \<Rightarrow> []
           | Some t \<Rightarrow> [(m, case cnt of None \<Rightarrow> t | Some n \<Rightarrow> Array t n)]))"

section \<open>Layout lemmas\<close>

lemma align_up_id:
  assumes "0 < a" "a dvd n"
  shows "align_up n a = n"
proof -
  obtain k where k: "n = a * k" using assms(2) ..
  have "n + a - 1 = (a - 1) + k * a" using assms(1) by (simp add: k mult.commute)
  then have "(n + a - 1) div a = k + (a - 1) div a" using assms(1) by (simp only: div_mult_self1 neq0_conv)
  then show ?thesis using assms(1) by (simp add: align_up_def k)
qed

lemma offsets_uniform:
  assumes "0 < a" "a dvd s" "a dvd p"
  shows "offsets p (map (\<lambda>m. (s, a)) ms) = map (\<lambda>i. p + i * s) [0..<length ms]"
    and "extent p (map (\<lambda>m. (s, a)) ms) = p + length ms * s"
proof -
  have "offsets p (map (\<lambda>m. (s, a)) ms) = map (\<lambda>i. p + i * s) [0..<length ms] \<and>
    extent p (map (\<lambda>m. (s, a)) ms) = p + length ms * s"
    using assms(3)
  proof (induction ms arbitrary: p)
    case (Cons m ms)
    from Cons.IH [of "p + s"] Cons.prems assms(1,2)
    show ?case by (simp add: align_up_id upt_conv_Cons map_Suc_upt [symmetric] del: upt_Suc)
  qed simp
  then show "offsets p (map (\<lambda>m. (s, a)) ms) = map (\<lambda>i. p + i * s) [0..<length ms]"
    and "extent p (map (\<lambda>m. (s, a)) ms) = p + length ms * s" by simp_all
qed

lemma widest_uniform: "0 < a \<Longrightarrow> ms \<noteq> [] \<Longrightarrow> widest (map (\<lambda>m. (s, a)) ms) = a"
proof (induction ms)
  case (Cons m ms) then show ?case by (cases ms) (auto simp: widest_def)
qed simp

text \<open>A struct whose members have one type is laid out as an array of it.\<close>

lemma struct_fields:
  assumes "layout t = (s, a)" "0 < a" "a dvd s" "ms \<noteq> []"
  shows "layout (Struct (fields t ms)) = (length ms * s, a)"
    and "own_members (Struct (fields t ms)) = zip ms (map (\<lambda>i. (i * s, t)) [0..<length ms])"
proof -
  have l: "map (layout \<circ> snd) (fields t ms) = map (\<lambda>m. (s, a)) ms"
    by (simp add: fields_def assms(1))
  have l': "map snd (map (map_prod id layout) (fields t ms)) = map (\<lambda>m. (s, a)) ms"
    by (simp add: fields_def assms(1))
  have "a dvd length ms * s" using assms(3) by simp
  then show "layout (Struct (fields t ms)) = (length ms * s, a)"
    using assms(2-4) unfolding layout.simps l' struct_layout_def
    by (simp only: widest_uniform offsets_uniform(2) dvd_0_right add_0 align_up_id not_False_eq_True)
  have f: "map fst (fields t ms) = ms" "map snd (fields t ms) = map (\<lambda>m. t) ms" by (simp_all add: fields_def comp_def)
  have "zip (map (\<lambda>i. 0 + i * s) [0..<length ms]) (map (\<lambda>m. t) ms) = map (\<lambda>i. (i * s, t)) [0..<length ms]"
    by (rule nth_equalityI) simp_all
  then show "own_members (Struct (fields t ms)) = zip ms (map (\<lambda>i. (i * s, t)) [0..<length ms])"
    using assms(2,3) unfolding own_members.simps l f by (simp only: offsets_uniform(1) dvd_0_right)
qed

lemma widest_dvd:
  assumes "list_all (\<lambda>(s, a). 0 < a \<and> a dvd n) ls"
  shows "0 < widest ls \<and> widest ls dvd n"
  using assms by (induction ls) (auto simp: widest_def max_def)

lemma widest_upper: "(s, a) \<in> set ls \<Longrightarrow> a \<le> widest ls"
  by (induction ls) (auto simp: widest_def)

text \<open>A union whose members fit into \<open>n\<close> bytes, one of them exactly, with alignments that
  divide \<open>n\<close>.\<close>

lemma union_fits:
  assumes "list_all (\<lambda>(s, a). s \<le> n \<and> 0 < a \<and> a dvd n) ls" and "(n, b) \<in> set ls" and "0 < n"
  shows "\<exists>a. union_layout ls = (n, a) \<and> 0 < a \<and> a dvd n \<and> b \<le> a"
proof -
  have w: "0 < widest ls \<and> widest ls dvd n"
    by (rule widest_dvd) (use assms(1) in \<open>auto simp: list_all_iff\<close>)
  have "foldr (\<lambda>(s, a). max s) ls 0 = n"
  proof (rule antisym)
    show "foldr (\<lambda>(s, a). max s) ls 0 \<le> n" using assms(1) by (induction ls) auto
    show "n \<le> foldr (\<lambda>(s, a). max s) ls 0" using assms(2) by (induction ls) auto
  qed
  then show ?thesis using w widest_upper [OF assms(2)] by (simp add: union_layout_def align_up_id)
qed

text \<open>The members a preprocessor condition adds.\<close>

definition native_kinds :: "(string \<times> scalar \<times> nat) list" where
  "native_kinds =
     [(''__cl_uchar16'', cl_uchar, 16), (''__cl_char16'', cl_char, 16), (''__cl_ushort8'', cl_ushort, 16),
      (''__cl_short8'', cl_short, 16), (''__cl_uint4'', cl_uint, 16), (''__cl_int4'', cl_int, 16),
      (''__cl_float4'', cl_float, 16), (''__cl_ulong2'', cl_ulong, 16), (''__cl_long2'', cl_long, 16),
      (''__cl_double2'', cl_double, 16), (''__cl_uchar8'', cl_uchar, 8), (''__cl_char8'', cl_char, 8),
      (''__cl_ushort4'', cl_ushort, 8), (''__cl_short4'', cl_short, 8), (''__cl_int2'', cl_int, 8),
      (''__cl_uint2'', cl_uint, 8), (''__cl_ulong1'', cl_ulong, 8), (''__cl_long1'', cl_long, 8),
      (''__cl_float2'', cl_float, 8), (''__cl_float8'', cl_float, 32), (''__cl_double4'', cl_double, 32)]"

lemma natives_kinds:
  "list_all (\<lambda>(key, ty, t). case map_of native_kinds ty of None \<Rightarrow> False
     | Some (e, n) \<Rightarrow> t = Native None n \<or> t = Native (Some e) n) (natives tg)"
  unfolding natives_def native_vec_def native_sse_def native_sse2_def native_mmx_def native_avx_def
    vector_size_def native_kinds_def
  by (simp add: list_all_append)

text \<open>A native view of a vector of \<open>e\<close> in \<open>N\<close> bytes: \<open>v2\<close> to \<open>v16\<close> are native vectors of two to sixteen elements,
  as many side by side as fill the type; the type itself has only one of its own size.\<close>

definition native_lanes :: "(string \<times> nat) list" where
  "native_lanes = [(''v2'', 2), (''v4'', 4), (''v8'', 8), (''v16'', 16)]"

definition native_view :: "scalar \<Rightarrow> nat \<Rightarrow> string \<Rightarrow> ctype \<Rightarrow> bool" where
  "native_view e N m u \<longleftrightarrow>
     (case map_of native_lanes m of
        None \<Rightarrow> False
      | Some k \<Rightarrow>
          let b = k * scalar_size e
          in \<exists>x \<in> {None, Some e}. u = Native x b \<and> b = N \<or> (\<exists>c. u = Array (Native x b) c \<and> 1 < c \<and> c * b = N))"

definition fits :: "scalar \<Rightarrow> nat \<Rightarrow> string \<Rightarrow> (string \<times> ctype) list \<Rightarrow> bool" where
  "fits e n m ms \<longleftrightarrow> list_all (\<lambda>(m', t). m' = m \<and> native_view e n m t \<and> (case layout t of (s, a) \<Rightarrow> s = n \<and> 0 < a \<and> a dvd n)) ms \<and>
     length ms \<le> 1"

lemma native_fits:
  assumes "case map_of native_kinds ty of None \<Rightarrow> True
    | Some (x, b) \<Rightarrow> x = e \<and> 0 < b \<and> map_of native_lanes m = Some (b div scalar_size e) \<and> scalar_size e dvd b \<and>
        (case cnt of None \<Rightarrow> b = n | Some c \<Rightarrow> 1 < c \<and> c * b = n)"
  shows "fits e n m (native tg key ty m cnt)"
proof (cases "map_of (map snd (natives tg)) ty")
  case None
  then show ?thesis by (auto simp: fits_def native_def split: option.splits)
next
  case (Some t)
  then obtain key' where "(key', ty, t) \<in> set (natives tg)" using map_of_SomeD [OF Some] by auto
  with natives_kinds [of tg] obtain x b where b: "map_of native_kinds ty = Some (x, b)" "t = Native None b \<or> t = Native (Some x) b"
    by (auto simp: list_all_iff split: option.splits)
  with assms have x: "x = e" "0 < b" "map_of native_lanes m = Some (b div scalar_size e)" "scalar_size e dvd b"
    and c: "case cnt of None \<Rightarrow> b = n | Some c \<Rightarrow> 1 < c \<and> c * b = n" by simp_all
  have "b div scalar_size e * scalar_size e = b" using x(4) by simp
  then show ?thesis using x(1-3) b(2) c
    by (auto simp: fits_def native_def native_view_def Some Let_def split: option.splits)
qed

section \<open>Vector types\<close>

text \<open>What a vector of \<open>n\<close> elements is to the compiler: its size and alignment.\<close>

definition vector_layout :: "scalar \<Rightarrow> nat \<Rightarrow> ctype \<Rightarrow> bool" where
  "vector_layout e n t \<longleftrightarrow>
     (case layout t of (s, a) \<Rightarrow> s = n * scalar_size e \<and> scalar_size e \<le> a \<and> a dvd n * scalar_size e)"

definition lane_names :: "string list" where
  "lane_names = [''s0'', ''s1'', ''s2'', ''s3'', ''s4'', ''s5'', ''s6'', ''s7'',
     ''s8'', ''s9'', ''sA'', ''sB'', ''sC'', ''sD'', ''sE'', ''sF'']"

definition xyzw_names :: "string list" where
  "xyzw_names = [''x'', ''y'', ''z'', ''w'']"

definition hex_names :: "string list" where
  "hex_names = [''sa'', ''sb'', ''sc'', ''sd'', ''se'', ''sf'']"

definition spacer_names :: "string list" where
  "spacer_names = [''__spacer4'', ''__spacer5'', ''__spacer6'', ''__spacer7'', ''__spacer8'', ''__spacer9'']"

definition native_names :: "string list" where
  "native_names = [''v2'', ''v4'', ''v8'', ''v16'']"

text \<open>The views of the elements agree: the array \<open>s\<close> covers the type, \<open>v.s0\<close>, ..., \<open>v.sF\<close>, \<open>v.sa\<close>, ...,
  \<open>v.sf\<close> and \<open>v.x\<close>, ..., \<open>v.w\<close> are the elements of the array, \<open>v.lo\<close> and \<open>v.hi\<close> its halves of type \<open>h\<close>, the native
  members start at the first element and divide the array among vectors of the element type.  There is no other
  member but the spacers, and none reaches outside.\<close>

definition views_agree :: "target \<Rightarrow> scalar \<Rightarrow> nat \<Rightarrow> ctype \<Rightarrow> ctype \<Rightarrow> bool" where
  "views_agree tg e n h t \<longleftrightarrow>
     distinct (map fst (members t)) \<and>
     set (map fst (members t)) \<subseteq> set (''s'' # ''lo'' # ''hi'' # lane_names @ xyzw_names @ hex_names @ spacer_names @ native_names) \<and>
     list_all (\<lambda>(m, p, u). p + sizeof u \<le> n * scalar_size e) (members t) \<and>
     list_all (\<lambda>(m, p, u). m \<in> set native_names \<longrightarrow> p = 0 \<and> native_view e (n * scalar_size e) m u) (members t) \<and>
     map_of (members t) ''s'' = Some (0, cl_aligned tg (n * scalar_size e) (Array (Scalar e) n)) \<and>
     (if has_anon_struct tg then
        map (map_of (members t)) (take n lane_names) = map (\<lambda>i. Some (i * scalar_size e, Scalar e)) [0..<n] \<and>
        map (map_of (members t)) (take n xyzw_names) = map (\<lambda>i. Some (i * scalar_size e, Scalar e)) [0..<min n 4] \<and>
        (n = 16 \<longrightarrow> map (map_of (members t)) hex_names = map (\<lambda>i. Some (i * scalar_size e, Scalar e)) [10, 11, 12, 13, 14, 15]) \<and>
        map_of (members t) ''lo'' = Some (0, h) \<and> map_of (members t) ''hi'' = Some (n div 2 * scalar_size e, h)
      else True)"

lemma scalar_pos: "0 < scalar_size e"
  by (cases e) simp_all

lemma vector_layout_scalar: "vector_layout e 1 (Scalar e)"
  by (simp add: vector_layout_def)

text \<open>A declaration of the shape all the unions have.\<close>

lemma vector_union_layout:
  assumes t: "t = Union ((''s'', cl_aligned tg (n * scalar_size e) (Array (Scalar e) n)) #
      anonymous tg [fields (Scalar e) xs, fields (Scalar e) ss, fields h [''lo'', ''hi'']] @ ns)"
    and "0 < n" and xs: "xs \<noteq> []" "length xs \<le> n" and ss: "ss \<noteq> []" "length ss = n"
    and h: "n = 2 * k" "vector_layout e k h"
    and ns: "list_all (\<lambda>(m, u). case layout u of (s, a) \<Rightarrow> s = n * scalar_size e \<and> 0 < a \<and> a dvd n * scalar_size e) ns"
  shows "vector_layout e n t"
    and "gnuc tg \<or> integrity tg \<Longrightarrow> alignof t = n * scalar_size e"
    and "has_anon_struct tg \<Longrightarrow> members t = (''s'', 0, cl_aligned tg (n * scalar_size e) (Array (Scalar e) n)) #
      zip xs (map (\<lambda>i. (i * scalar_size e, Scalar e)) [0..<length xs]) @
      zip ss (map (\<lambda>i. (i * scalar_size e, Scalar e)) [0..<n]) @
      [(''lo'', 0, h), (''hi'', k * scalar_size e, h)] @ members (Union ns)"
    and "\<not> has_anon_struct tg \<Longrightarrow> members t = (''s'', 0, cl_aligned tg (n * scalar_size e) (Array (Scalar e) n)) # members (Union ns)"
proof -
  let ?e = "scalar_size e"
  let ?N = "n * ?e"
  let ?A = "if gnuc tg \<or> integrity tg then ?N else ?e"
  have e: "0 < ?e" by (rule scalar_pos)
  have N: "0 < ?N" "?e \<le> ?N" using assms(2) e by simp_all
  obtain a where a: "layout h = (k * ?e, a)" "?e \<le> a" "a dvd k * ?e" using h(2) by (auto simp: vector_layout_def)
  have a0: "0 < a" using a(2) e by simp
  note sc = struct_fields [of "Scalar e", OF layout.simps(1) e dvd_refl]
  have hf1: "layout (Struct (fields h [''lo'', ''hi''])) = (2 * (k * ?e), a)"
    using struct_fields(1) [OF a(1) a0 a(3), of "[''lo'', ''hi'']"] by (simp del: layout.simps)
  have hf2: "own_members (Struct (fields h [''lo'', ''hi''])) = [(''lo'', 0, h), (''hi'', k * ?e, h)]"
    using struct_fields(2) [OF a(1) a0 a(3), of "[''lo'', ''hi'']"] by (simp add: upt_rec del: own_members.simps)
  have arr: "layout (cl_aligned tg ?N (Array (Scalar e) n)) = (?N, ?A)"
    using N by (auto simp: cl_aligned_def max_def)
  have hN: "2 * (k * ?e) = ?N" using h(1) by simp
  have aN: "a dvd ?N" unfolding hN [symmetric] using a(3) by (rule dvd_mult)
  have lx: "length xs * ?e \<le> ?N" using xs(2) by simp
  obtain ls where ls: "layout t = union_layout ls" "(?N, ?A) \<in> set ls"
    "list_all (\<lambda>(s, a). s \<le> ?N \<and> 0 < a \<and> a dvd ?N) ls"
  proof
    show "layout t = union_layout (map (layout \<circ> snd) ((''s'', cl_aligned tg ?N (Array (Scalar e) n)) #
      anonymous tg [fields (Scalar e) xs, fields (Scalar e) ss, fields h [''lo'', ''hi'']] @ ns))"
      by (simp add: t)
  next
    show "(?N, ?A) \<in> set (map (layout \<circ> snd) ((''s'', cl_aligned tg ?N (Array (Scalar e) n)) #
      anonymous tg [fields (Scalar e) xs, fields (Scalar e) ss, fields h [''lo'', ''hi'']] @ ns))"
      using arr by simp
  next
    have "list_all (\<lambda>(s, a). s \<le> ?N \<and> 0 < a \<and> a dvd ?N) (map (layout \<circ> snd) ns)"
      using ns by (auto simp: list_all_iff)
    then show "list_all (\<lambda>(s, a). s \<le> ?N \<and> 0 < a \<and> a dvd ?N) (map (layout \<circ> snd) ((''s'', cl_aligned tg ?N (Array (Scalar e) n)) #
      anonymous tg [fields (Scalar e) xs, fields (Scalar e) ss, fields h [''lo'', ''hi'']] @ ns))"
      using arr sc(1) [OF xs(1)] sc(1) [OF ss(1)] hf1 hN aN lx e a0 N(1) ss(2)
      by (simp add: anonymous_def list_all_append del: layout.simps)
  qed
  obtain b where b: "union_layout ls = (?N, b)" "0 < b" "b dvd ?N" "?A \<le> b"
    using union_fits [OF ls(3,2) N(1)] by blast
  have "?e \<le> ?A" using N by simp
  then have "?e \<le> b" using b(4) by (rule le_trans)
  then show "vector_layout e n t" using b ls(1) by (simp add: vector_layout_def)
  show "gnuc tg \<or> integrity tg \<Longrightarrow> alignof t = ?N"
    using b ls(1) dvd_imp_le [OF b(3) N(1)] by (simp add: alignof_def)
  show "has_anon_struct tg \<Longrightarrow> members t = (''s'', 0, cl_aligned tg ?N (Array (Scalar e) n)) #
      zip xs (map (\<lambda>i. (i * ?e, Scalar e)) [0..<length xs]) @
      zip ss (map (\<lambda>i. (i * ?e, Scalar e)) [0..<n]) @
      [(''lo'', 0, h), (''hi'', k * ?e, h)] @ members (Union ns)"
    using sc(2) [OF xs(1)] sc(2) [OF ss(1)] hf2 ss(2)
    by (simp add: t anonymous_def members_def del: own_members.simps(1))
  show "\<not> has_anon_struct tg \<Longrightarrow> members t = (''s'', 0, cl_aligned tg ?N (Array (Scalar e) n)) # members (Union ns)"
    by (simp add: t anonymous_def members_def)
qed


text \<open>The shapes in the header, for 2, 4, 8 and 16 elements.\<close>

definition vector_shapes :: "(nat \<times> string list) list" where
  "vector_shapes =
     [(2, [''x'', ''y'']), (4, [''x'', ''y'', ''z'', ''w'']), (8, [''x'', ''y'', ''z'', ''w'']),
      (16, [''x'', ''y'', ''z'', ''w'', ''__spacer4'', ''__spacer5'', ''__spacer6'', ''__spacer7'',
        ''__spacer8'', ''__spacer9'', ''sa'', ''sb'', ''sc'', ''sd'', ''se'', ''sf''])]"

lemma members_native:
  assumes "set (map fst ns) \<subseteq> set native_names"
  shows "members (Union ns) = map (\<lambda>(m, u). (m, 0, u)) ns"
proof -
  have "\<forall>(m, u) \<in> set ns. m \<noteq> []" using assms by (force simp: native_names_def)
  then show ?thesis by (induction ns) (auto simp: members_def)
qed

lemma upt_numerals:
  "[0..<2] = [0, 1 :: nat]" "[0..<4] = [0, 1, 2, 3 :: nat]" "[0..<8] = [0, 1, 2, 3, 4, 5, 6, 7 :: nat]"
  "[0..<16] = [0, 1, 2, 3, 4, 5, 6, 7, 8, 9, 10, 11, 12, 13, 14, 15 :: nat]"
  by (simp_all add: upt_rec)

lemma shape_views:
  assumes shape: "(n, xs) \<in> set vector_shapes" and k: "n = 2 * k" "vector_layout e k h"
    and ns: "set (map fst ns) \<subseteq> set native_names" "distinct (map fst ns)"
      "list_all (\<lambda>(m, u). sizeof u \<le> n * scalar_size e \<and> native_view e (n * scalar_size e) m u) ns"
    and anon: "has_anon_struct tg \<Longrightarrow> members t = (''s'', 0, cl_aligned tg (n * scalar_size e) (Array (Scalar e) n)) #
      zip xs (map (\<lambda>i. (i * scalar_size e, Scalar e)) [0..<length xs]) @
      zip (take n lane_names) (map (\<lambda>i. (i * scalar_size e, Scalar e)) [0..<n]) @
      [(''lo'', 0, h), (''hi'', k * scalar_size e, h)] @ members (Union ns)"
    and none: "\<not> has_anon_struct tg \<Longrightarrow> members t =
      (''s'', 0, cl_aligned tg (n * scalar_size e) (Array (Scalar e) n)) # members (Union ns)"
  shows "views_agree tg e n h t"
proof -
  have other: "m \<notin> fst ` set ns" if "m \<notin> set native_names" for m using ns(1) that by auto
  have h: "sizeof h = k * scalar_size e" using k(2) by (auto simp: sizeof_def vector_layout_def)
  have s: "sizeof (cl_aligned tg (n * scalar_size e) (Array (Scalar e) n)) = n * scalar_size e" "sizeof (Scalar e) = scalar_size e"
    by (simp_all add: sizeof_def cl_aligned_def)
  have nn: "list_all (\<lambda>(m, p, u). p + sizeof u \<le> n * scalar_size e) (members (Union ns))"
    "list_all (\<lambda>(m, p, u). m \<in> set native_names \<longrightarrow> p = 0 \<and> native_view e (n * scalar_size e) m u) (members (Union ns))"
    "map fst (members (Union ns)) = map fst ns"
    using ns(3) by (auto simp: members_native [OF ns(1)] list_all_iff)
  have xs: "set xs \<subseteq> set (xyzw_names @ hex_names @ spacer_names)"
    using shape by (auto simp: vector_shapes_def xyzw_names_def hex_names_def spacer_names_def)
  have names: "set (map fst (members t)) \<subseteq>
      set (''s'' # ''lo'' # ''hi'' # lane_names @ xyzw_names @ hex_names @ spacer_names @ native_names)"
  proof (cases "has_anon_struct tg")
    case True
    show ?thesis unfolding anon [OF True] map_append list.map set_append list.set nn(3)
      using xs ns(1) by (auto dest!: set_zip_leftD in_set_takeD)
  qed (use ns(1) nn(3) in \<open>auto simp: none\<close>)
  note unfold = views_agree_def eqTrueI [OF names] simp_thms
  show ?thesis
  proof (cases "has_anon_struct tg")
    case False
    then show ?thesis unfolding unfold using nn ns(2) s
      by (simp add: none other native_names_def)
  next
    case True
    have "n = 2 \<and> k = 1 \<or> n = 4 \<and> k = 2 \<or> n = 8 \<and> k = 4 \<or> n = 16 \<and> k = 8" 
      using shape k(1) by (auto simp: vector_shapes_def)
    then show ?thesis unfolding unfold
      by (elim disjE conjE; insert shape nn ns(2) s h k(2);
        simp add: anon [OF True] True vector_shapes_def lane_names_def xyzw_names_def hex_names_def
          spacer_names_def upt_numerals other native_names_def)
  qed
qed


text \<open>\<open>ns\<close> are native members with names among \<open>ms\<close>, in this order.\<close>

inductive fit_names :: "scalar \<Rightarrow> nat \<Rightarrow> string list \<Rightarrow> (string \<times> ctype) list \<Rightarrow> bool" for e n where
  fit_one: "fits e n m nt \<Longrightarrow> fit_names e n [m] nt"
| fit_cons: "fits e n m nt \<Longrightarrow> fit_names e n ms ns \<Longrightarrow> fit_names e n (m # ms) (nt @ ns)"

lemma fits_names: "fits e n m nt \<Longrightarrow> nt = [] \<or> (\<exists>u. nt = [(m, u)])"
  by (cases nt) (auto simp: fits_def)

lemma fit_names_props:
  assumes "fit_names e n ms ns"
  shows "set (map fst ns) \<subseteq> set ms \<and> (distinct ms \<longrightarrow> distinct (map fst ns)) \<and>
    list_all (\<lambda>(m, u). native_view e n m u \<and> (case layout u of (s, a) \<Rightarrow> s = n \<and> 0 < a \<and> a dvd n)) ns"
  using assms
proof induction
  case (fit_one m nt)
  then show ?case using fits_names [OF fit_one] by (auto simp: fits_def)
next
  case (fit_cons m nt ms ns)
  then show ?case using fits_names [OF fit_cons(1)] by (auto simp: fits_def)
qed

text \<open>What the vector types share: size, views and, where the compiler has the attribute,
  natural alignment.\<close>

definition is_vector :: "target \<Rightarrow> scalar \<Rightarrow> nat \<Rightarrow> ctype \<Rightarrow> ctype \<Rightarrow> bool" where
  "is_vector tg e n h t \<longleftrightarrow> sizeof t = n * scalar_size e \<and> views_agree tg e n h t"

definition natural :: "target \<Rightarrow> scalar \<Rightarrow> nat \<Rightarrow> ctype \<Rightarrow> bool" where
  "natural tg e n t \<longleftrightarrow> (gnuc tg \<or> integrity tg \<longrightarrow> alignof t = n * scalar_size e)"

lemma vector_union:
  assumes t: "t = Union ((''s'', cl_aligned tg N (Array (Scalar e) n)) #
      anonymous tg [fields (Scalar e) xs, fields (Scalar e) ss, fields h [''lo'', ''hi'']] @ ns)"
    and N: "N = n * scalar_size e" and shape: "(n, xs) \<in> set vector_shapes" "ss = take n lane_names"
    and k: "n = 2 * k" "vector_layout e k h"
    and fit: "fit_names e N ms ns" "distinct ms" "set ms \<subseteq> set native_names"
  shows "vector_layout e n t \<and> is_vector tg e n h t \<and> natural tg e n t"
proof -
  have sub: "set (map fst ns) \<subseteq> set native_names" and d: "distinct (map fst ns)" 
    and sz: "list_all (\<lambda>(m, u). case layout u of (s, a) \<Rightarrow> s = n * scalar_size e \<and> 0 < a \<and> a dvd n * scalar_size e) ns"
    and view: "list_all (\<lambda>(m, u). native_view e (n * scalar_size e) m u) ns"
    using fit_names_props [OF fit(1)] fit(2,3) by (auto simp: N list_all_iff)
  have n: "0 < n" "xs \<noteq> []" "length xs \<le> n" "ss \<noteq> []" "length ss = n"
    using shape by (auto simp: vector_shapes_def lane_names_def)
  note U = vector_union_layout [OF t [unfolded N] n k sz]
  have v: "vector_layout e n t" by (rule U)
  then have "sizeof t = n * scalar_size e" by (auto simp: vector_layout_def sizeof_def)
  moreover have "list_all (\<lambda>(m, u). sizeof u \<le> n * scalar_size e \<and> native_view e (n * scalar_size e) m u) ns"
    using sz view by (auto simp: list_all_iff sizeof_def)
  from shape_views [OF shape(1) k sub d this U(3,4) [unfolded shape(2)]] have "views_agree tg e n h t" .
  ultimately show ?thesis using v U(2) by (simp add: is_vector_def natural_def)
qed

end
