(* ===== verification/ClVectors.thy ===== *)
theory ClVectors
  imports CType
begin

text \<open>
  The vector types of \<open>include/CL/cl_platform.h\<close> (44 unions and the eleven types of three
  elements, which are those of four), as declared, and what every one of them promises on every
  target: all the ways the API offers to name an element name the same bytes.
\<close>

section \<open>Declarations\<close>

definition cl_char2 :: "target \<Rightarrow> ctype" where
  "cl_char2 tg = Union
     ((''s'', cl_aligned tg 2 (Array (Scalar cl_char) 2)) #
      anonymous tg
       [fields (Scalar cl_char) [''x'', ''y''],
        fields (Scalar cl_char) [''s0'', ''s1''],
        fields (Scalar cl_char) [''lo'', ''hi'']] @
      native tg ''__CL_CHAR2__'' ''__cl_char2'' ''v2'' None)"

definition cl_char4 :: "target \<Rightarrow> ctype" where
  "cl_char4 tg = Union
     ((''s'', cl_aligned tg 4 (Array (Scalar cl_char) 4)) #
      anonymous tg
       [fields (Scalar cl_char) [''x'', ''y'', ''z'', ''w''],
        fields (Scalar cl_char) [''s0'', ''s1'', ''s2'', ''s3''],
        fields (cl_char2 tg) [''lo'', ''hi'']] @
      native tg ''__CL_CHAR2__'' ''__cl_char2'' ''v2'' (Some 2) @
      native tg ''__CL_CHAR4__'' ''__cl_char4'' ''v4'' None)"

definition cl_char3 :: "target \<Rightarrow> ctype" where
  "cl_char3 = cl_char4"

definition cl_char8 :: "target \<Rightarrow> ctype" where
  "cl_char8 tg = Union
     ((''s'', cl_aligned tg 8 (Array (Scalar cl_char) 8)) #
      anonymous tg
       [fields (Scalar cl_char) [''x'', ''y'', ''z'', ''w''],
        fields (Scalar cl_char) [''s0'', ''s1'', ''s2'', ''s3'', ''s4'', ''s5'', ''s6'', ''s7''],
        fields (cl_char4 tg) [''lo'', ''hi'']] @
      native tg ''__CL_CHAR2__'' ''__cl_char2'' ''v2'' (Some 4) @
      native tg ''__CL_CHAR4__'' ''__cl_char4'' ''v4'' (Some 2) @
      native tg ''__CL_CHAR8__'' ''__cl_char8'' ''v8'' None)"

definition cl_char16 :: "target \<Rightarrow> ctype" where
  "cl_char16 tg = Union
     ((''s'', cl_aligned tg 16 (Array (Scalar cl_char) 16)) #
      anonymous tg
       [fields (Scalar cl_char) [''x'', ''y'', ''z'', ''w'', ''__spacer4'', ''__spacer5'',
         ''__spacer6'', ''__spacer7'', ''__spacer8'', ''__spacer9'', ''sa'', ''sb'', ''sc'', ''sd'',
         ''se'', ''sf''],
        fields (Scalar cl_char) [''s0'', ''s1'', ''s2'', ''s3'', ''s4'', ''s5'', ''s6'', ''s7'',
         ''s8'', ''s9'', ''sA'', ''sB'', ''sC'', ''sD'', ''sE'', ''sF''],
        fields (cl_char8 tg) [''lo'', ''hi'']] @
      native tg ''__CL_CHAR2__'' ''__cl_char2'' ''v2'' (Some 8) @
      native tg ''__CL_CHAR4__'' ''__cl_char4'' ''v4'' (Some 4) @
      native tg ''__CL_CHAR8__'' ''__cl_char8'' ''v8'' (Some 2) @
      native tg ''__CL_CHAR16__'' ''__cl_char16'' ''v16'' None)"

definition cl_uchar2 :: "target \<Rightarrow> ctype" where
  "cl_uchar2 tg = Union
     ((''s'', cl_aligned tg 2 (Array (Scalar cl_uchar) 2)) #
      anonymous tg
       [fields (Scalar cl_uchar) [''x'', ''y''],
        fields (Scalar cl_uchar) [''s0'', ''s1''],
        fields (Scalar cl_uchar) [''lo'', ''hi'']] @
      native tg ''__cl_uchar2__'' ''__cl_uchar2'' ''v2'' None)"

definition cl_uchar4 :: "target \<Rightarrow> ctype" where
  "cl_uchar4 tg = Union
     ((''s'', cl_aligned tg 4 (Array (Scalar cl_uchar) 4)) #
      anonymous tg
       [fields (Scalar cl_uchar) [''x'', ''y'', ''z'', ''w''],
        fields (Scalar cl_uchar) [''s0'', ''s1'', ''s2'', ''s3''],
        fields (cl_uchar2 tg) [''lo'', ''hi'']] @
      native tg ''__CL_UCHAR2__'' ''__cl_uchar2'' ''v2'' (Some 2) @
      native tg ''__CL_UCHAR4__'' ''__cl_uchar4'' ''v4'' None)"

definition cl_uchar3 :: "target \<Rightarrow> ctype" where
  "cl_uchar3 = cl_uchar4"

definition cl_uchar8 :: "target \<Rightarrow> ctype" where
  "cl_uchar8 tg = Union
     ((''s'', cl_aligned tg 8 (Array (Scalar cl_uchar) 8)) #
      anonymous tg
       [fields (Scalar cl_uchar) [''x'', ''y'', ''z'', ''w''],
        fields (Scalar cl_uchar) [''s0'', ''s1'', ''s2'', ''s3'', ''s4'', ''s5'', ''s6'', ''s7''],
        fields (cl_uchar4 tg) [''lo'', ''hi'']] @
      native tg ''__CL_UCHAR2__'' ''__cl_uchar2'' ''v2'' (Some 4) @
      native tg ''__CL_UCHAR4__'' ''__cl_uchar4'' ''v4'' (Some 2) @
      native tg ''__CL_UCHAR8__'' ''__cl_uchar8'' ''v8'' None)"

definition cl_uchar16 :: "target \<Rightarrow> ctype" where
  "cl_uchar16 tg = Union
     ((''s'', cl_aligned tg 16 (Array (Scalar cl_uchar) 16)) #
      anonymous tg
       [fields (Scalar cl_uchar) [''x'', ''y'', ''z'', ''w'', ''__spacer4'', ''__spacer5'',
         ''__spacer6'', ''__spacer7'', ''__spacer8'', ''__spacer9'', ''sa'', ''sb'', ''sc'', ''sd'',
         ''se'', ''sf''],
        fields (Scalar cl_uchar) [''s0'', ''s1'', ''s2'', ''s3'', ''s4'', ''s5'', ''s6'', ''s7'',
         ''s8'', ''s9'', ''sA'', ''sB'', ''sC'', ''sD'', ''sE'', ''sF''],
        fields (cl_uchar8 tg) [''lo'', ''hi'']] @
      native tg ''__CL_UCHAR2__'' ''__cl_uchar2'' ''v2'' (Some 8) @
      native tg ''__CL_UCHAR4__'' ''__cl_uchar4'' ''v4'' (Some 4) @
      native tg ''__CL_UCHAR8__'' ''__cl_uchar8'' ''v8'' (Some 2) @
      native tg ''__CL_UCHAR16__'' ''__cl_uchar16'' ''v16'' None)"

definition cl_short2 :: "target \<Rightarrow> ctype" where
  "cl_short2 tg = Union
     ((''s'', cl_aligned tg 4 (Array (Scalar cl_short) 2)) #
      anonymous tg
       [fields (Scalar cl_short) [''x'', ''y''],
        fields (Scalar cl_short) [''s0'', ''s1''],
        fields (Scalar cl_short) [''lo'', ''hi'']] @
      native tg ''__CL_SHORT2__'' ''__cl_short2'' ''v2'' None)"

definition cl_short4 :: "target \<Rightarrow> ctype" where
  "cl_short4 tg = Union
     ((''s'', cl_aligned tg 8 (Array (Scalar cl_short) 4)) #
      anonymous tg
       [fields (Scalar cl_short) [''x'', ''y'', ''z'', ''w''],
        fields (Scalar cl_short) [''s0'', ''s1'', ''s2'', ''s3''],
        fields (cl_short2 tg) [''lo'', ''hi'']] @
      native tg ''__CL_SHORT2__'' ''__cl_short2'' ''v2'' (Some 2) @
      native tg ''__CL_SHORT4__'' ''__cl_short4'' ''v4'' None)"

definition cl_short3 :: "target \<Rightarrow> ctype" where
  "cl_short3 = cl_short4"

definition cl_short8 :: "target \<Rightarrow> ctype" where
  "cl_short8 tg = Union
     ((''s'', cl_aligned tg 16 (Array (Scalar cl_short) 8)) #
      anonymous tg
       [fields (Scalar cl_short) [''x'', ''y'', ''z'', ''w''],
        fields (Scalar cl_short) [''s0'', ''s1'', ''s2'', ''s3'', ''s4'', ''s5'', ''s6'', ''s7''],
        fields (cl_short4 tg) [''lo'', ''hi'']] @
      native tg ''__CL_SHORT2__'' ''__cl_short2'' ''v2'' (Some 4) @
      native tg ''__CL_SHORT4__'' ''__cl_short4'' ''v4'' (Some 2) @
      native tg ''__CL_SHORT8__'' ''__cl_short8'' ''v8'' None)"

definition cl_short16 :: "target \<Rightarrow> ctype" where
  "cl_short16 tg = Union
     ((''s'', cl_aligned tg 32 (Array (Scalar cl_short) 16)) #
      anonymous tg
       [fields (Scalar cl_short) [''x'', ''y'', ''z'', ''w'', ''__spacer4'', ''__spacer5'',
         ''__spacer6'', ''__spacer7'', ''__spacer8'', ''__spacer9'', ''sa'', ''sb'', ''sc'', ''sd'',
         ''se'', ''sf''],
        fields (Scalar cl_short) [''s0'', ''s1'', ''s2'', ''s3'', ''s4'', ''s5'', ''s6'', ''s7'',
         ''s8'', ''s9'', ''sA'', ''sB'', ''sC'', ''sD'', ''sE'', ''sF''],
        fields (cl_short8 tg) [''lo'', ''hi'']] @
      native tg ''__CL_SHORT2__'' ''__cl_short2'' ''v2'' (Some 8) @
      native tg ''__CL_SHORT4__'' ''__cl_short4'' ''v4'' (Some 4) @
      native tg ''__CL_SHORT8__'' ''__cl_short8'' ''v8'' (Some 2) @
      native tg ''__CL_SHORT16__'' ''__cl_short16'' ''v16'' None)"

definition cl_ushort2 :: "target \<Rightarrow> ctype" where
  "cl_ushort2 tg = Union
     ((''s'', cl_aligned tg 4 (Array (Scalar cl_ushort) 2)) #
      anonymous tg
       [fields (Scalar cl_ushort) [''x'', ''y''],
        fields (Scalar cl_ushort) [''s0'', ''s1''],
        fields (Scalar cl_ushort) [''lo'', ''hi'']] @
      native tg ''__CL_USHORT2__'' ''__cl_ushort2'' ''v2'' None)"

definition cl_ushort4 :: "target \<Rightarrow> ctype" where
  "cl_ushort4 tg = Union
     ((''s'', cl_aligned tg 8 (Array (Scalar cl_ushort) 4)) #
      anonymous tg
       [fields (Scalar cl_ushort) [''x'', ''y'', ''z'', ''w''],
        fields (Scalar cl_ushort) [''s0'', ''s1'', ''s2'', ''s3''],
        fields (cl_ushort2 tg) [''lo'', ''hi'']] @
      native tg ''__CL_USHORT2__'' ''__cl_ushort2'' ''v2'' (Some 2) @
      native tg ''__CL_USHORT4__'' ''__cl_ushort4'' ''v4'' None)"

definition cl_ushort3 :: "target \<Rightarrow> ctype" where
  "cl_ushort3 = cl_ushort4"

definition cl_ushort8 :: "target \<Rightarrow> ctype" where
  "cl_ushort8 tg = Union
     ((''s'', cl_aligned tg 16 (Array (Scalar cl_ushort) 8)) #
      anonymous tg
       [fields (Scalar cl_ushort) [''x'', ''y'', ''z'', ''w''],
        fields (Scalar cl_ushort) [''s0'', ''s1'', ''s2'', ''s3'', ''s4'', ''s5'', ''s6'', ''s7''],
        fields (cl_ushort4 tg) [''lo'', ''hi'']] @
      native tg ''__CL_USHORT2__'' ''__cl_ushort2'' ''v2'' (Some 4) @
      native tg ''__CL_USHORT4__'' ''__cl_ushort4'' ''v4'' (Some 2) @
      native tg ''__CL_USHORT8__'' ''__cl_ushort8'' ''v8'' None)"

definition cl_ushort16 :: "target \<Rightarrow> ctype" where
  "cl_ushort16 tg = Union
     ((''s'', cl_aligned tg 32 (Array (Scalar cl_ushort) 16)) #
      anonymous tg
       [fields (Scalar cl_ushort) [''x'', ''y'', ''z'', ''w'', ''__spacer4'', ''__spacer5'',
         ''__spacer6'', ''__spacer7'', ''__spacer8'', ''__spacer9'', ''sa'', ''sb'', ''sc'', ''sd'',
         ''se'', ''sf''],
        fields (Scalar cl_ushort) [''s0'', ''s1'', ''s2'', ''s3'', ''s4'', ''s5'', ''s6'', ''s7'',
         ''s8'', ''s9'', ''sA'', ''sB'', ''sC'', ''sD'', ''sE'', ''sF''],
        fields (cl_ushort8 tg) [''lo'', ''hi'']] @
      native tg ''__CL_USHORT2__'' ''__cl_ushort2'' ''v2'' (Some 8) @
      native tg ''__CL_USHORT4__'' ''__cl_ushort4'' ''v4'' (Some 4) @
      native tg ''__CL_USHORT8__'' ''__cl_ushort8'' ''v8'' (Some 2) @
      native tg ''__CL_USHORT16__'' ''__cl_ushort16'' ''v16'' None)"

definition cl_half2 :: "target \<Rightarrow> ctype" where
  "cl_half2 tg = Union
     ((''s'', cl_aligned tg 4 (Array (Scalar cl_half) 2)) #
      anonymous tg
       [fields (Scalar cl_half) [''x'', ''y''],
        fields (Scalar cl_half) [''s0'', ''s1''],
        fields (Scalar cl_half) [''lo'', ''hi'']] @
      native tg ''__CL_HALF2__'' ''__cl_half2'' ''v2'' None)"

definition cl_half4 :: "target \<Rightarrow> ctype" where
  "cl_half4 tg = Union
     ((''s'', cl_aligned tg 8 (Array (Scalar cl_half) 4)) #
      anonymous tg
       [fields (Scalar cl_half) [''x'', ''y'', ''z'', ''w''],
        fields (Scalar cl_half) [''s0'', ''s1'', ''s2'', ''s3''],
        fields (cl_half2 tg) [''lo'', ''hi'']] @
      native tg ''__CL_HALF2__'' ''__cl_half2'' ''v2'' (Some 2) @
      native tg ''__CL_HALF4__'' ''__cl_half4'' ''v4'' None)"

definition cl_half3 :: "target \<Rightarrow> ctype" where
  "cl_half3 = cl_half4"

definition cl_half8 :: "target \<Rightarrow> ctype" where
  "cl_half8 tg = Union
     ((''s'', cl_aligned tg 16 (Array (Scalar cl_half) 8)) #
      anonymous tg
       [fields (Scalar cl_half) [''x'', ''y'', ''z'', ''w''],
        fields (Scalar cl_half) [''s0'', ''s1'', ''s2'', ''s3'', ''s4'', ''s5'', ''s6'', ''s7''],
        fields (cl_half4 tg) [''lo'', ''hi'']] @
      native tg ''__CL_HALF2__'' ''__cl_half2'' ''v2'' (Some 4) @
      native tg ''__CL_HALF4__'' ''__cl_half4'' ''v4'' (Some 2) @
      native tg ''__CL_HALF8__'' ''__cl_half8'' ''v8'' None)"

definition cl_half16 :: "target \<Rightarrow> ctype" where
  "cl_half16 tg = Union
     ((''s'', cl_aligned tg 32 (Array (Scalar cl_half) 16)) #
      anonymous tg
       [fields (Scalar cl_half) [''x'', ''y'', ''z'', ''w'', ''__spacer4'', ''__spacer5'',
         ''__spacer6'', ''__spacer7'', ''__spacer8'', ''__spacer9'', ''sa'', ''sb'', ''sc'', ''sd'',
         ''se'', ''sf''],
        fields (Scalar cl_half) [''s0'', ''s1'', ''s2'', ''s3'', ''s4'', ''s5'', ''s6'', ''s7'',
         ''s8'', ''s9'', ''sA'', ''sB'', ''sC'', ''sD'', ''sE'', ''sF''],
        fields (cl_half8 tg) [''lo'', ''hi'']] @
      native tg ''__CL_HALF2__'' ''__cl_half2'' ''v2'' (Some 8) @
      native tg ''__CL_HALF4__'' ''__cl_half4'' ''v4'' (Some 4) @
      native tg ''__CL_HALF8__'' ''__cl_half8'' ''v8'' (Some 2) @
      native tg ''__CL_HALF16__'' ''__cl_half16'' ''v16'' None)"

definition cl_int2 :: "target \<Rightarrow> ctype" where
  "cl_int2 tg = Union
     ((''s'', cl_aligned tg 8 (Array (Scalar cl_int) 2)) #
      anonymous tg
       [fields (Scalar cl_int) [''x'', ''y''],
        fields (Scalar cl_int) [''s0'', ''s1''],
        fields (Scalar cl_int) [''lo'', ''hi'']] @
      native tg ''__CL_INT2__'' ''__cl_int2'' ''v2'' None)"

definition cl_int4 :: "target \<Rightarrow> ctype" where
  "cl_int4 tg = Union
     ((''s'', cl_aligned tg 16 (Array (Scalar cl_int) 4)) #
      anonymous tg
       [fields (Scalar cl_int) [''x'', ''y'', ''z'', ''w''],
        fields (Scalar cl_int) [''s0'', ''s1'', ''s2'', ''s3''],
        fields (cl_int2 tg) [''lo'', ''hi'']] @
      native tg ''__CL_INT2__'' ''__cl_int2'' ''v2'' (Some 2) @
      native tg ''__CL_INT4__'' ''__cl_int4'' ''v4'' None)"

definition cl_int3 :: "target \<Rightarrow> ctype" where
  "cl_int3 = cl_int4"

definition cl_int8 :: "target \<Rightarrow> ctype" where
  "cl_int8 tg = Union
     ((''s'', cl_aligned tg 32 (Array (Scalar cl_int) 8)) #
      anonymous tg
       [fields (Scalar cl_int) [''x'', ''y'', ''z'', ''w''],
        fields (Scalar cl_int) [''s0'', ''s1'', ''s2'', ''s3'', ''s4'', ''s5'', ''s6'', ''s7''],
        fields (cl_int4 tg) [''lo'', ''hi'']] @
      native tg ''__CL_INT2__'' ''__cl_int2'' ''v2'' (Some 4) @
      native tg ''__CL_INT4__'' ''__cl_int4'' ''v4'' (Some 2) @
      native tg ''__CL_INT8__'' ''__cl_int8'' ''v8'' None)"

definition cl_int16 :: "target \<Rightarrow> ctype" where
  "cl_int16 tg = Union
     ((''s'', cl_aligned tg 64 (Array (Scalar cl_int) 16)) #
      anonymous tg
       [fields (Scalar cl_int) [''x'', ''y'', ''z'', ''w'', ''__spacer4'', ''__spacer5'',
         ''__spacer6'', ''__spacer7'', ''__spacer8'', ''__spacer9'', ''sa'', ''sb'', ''sc'', ''sd'',
         ''se'', ''sf''],
        fields (Scalar cl_int) [''s0'', ''s1'', ''s2'', ''s3'', ''s4'', ''s5'', ''s6'', ''s7'',
         ''s8'', ''s9'', ''sA'', ''sB'', ''sC'', ''sD'', ''sE'', ''sF''],
        fields (cl_int8 tg) [''lo'', ''hi'']] @
      native tg ''__CL_INT2__'' ''__cl_int2'' ''v2'' (Some 8) @
      native tg ''__CL_INT4__'' ''__cl_int4'' ''v4'' (Some 4) @
      native tg ''__CL_INT8__'' ''__cl_int8'' ''v8'' (Some 2) @
      native tg ''__CL_INT16__'' ''__cl_int16'' ''v16'' None)"

definition cl_uint2 :: "target \<Rightarrow> ctype" where
  "cl_uint2 tg = Union
     ((''s'', cl_aligned tg 8 (Array (Scalar cl_uint) 2)) #
      anonymous tg
       [fields (Scalar cl_uint) [''x'', ''y''],
        fields (Scalar cl_uint) [''s0'', ''s1''],
        fields (Scalar cl_uint) [''lo'', ''hi'']] @
      native tg ''__CL_UINT2__'' ''__cl_uint2'' ''v2'' None)"

definition cl_uint4 :: "target \<Rightarrow> ctype" where
  "cl_uint4 tg = Union
     ((''s'', cl_aligned tg 16 (Array (Scalar cl_uint) 4)) #
      anonymous tg
       [fields (Scalar cl_uint) [''x'', ''y'', ''z'', ''w''],
        fields (Scalar cl_uint) [''s0'', ''s1'', ''s2'', ''s3''],
        fields (cl_uint2 tg) [''lo'', ''hi'']] @
      native tg ''__CL_UINT2__'' ''__cl_uint2'' ''v2'' (Some 2) @
      native tg ''__CL_UINT4__'' ''__cl_uint4'' ''v4'' None)"

definition cl_uint3 :: "target \<Rightarrow> ctype" where
  "cl_uint3 = cl_uint4"

definition cl_uint8 :: "target \<Rightarrow> ctype" where
  "cl_uint8 tg = Union
     ((''s'', cl_aligned tg 32 (Array (Scalar cl_uint) 8)) #
      anonymous tg
       [fields (Scalar cl_uint) [''x'', ''y'', ''z'', ''w''],
        fields (Scalar cl_uint) [''s0'', ''s1'', ''s2'', ''s3'', ''s4'', ''s5'', ''s6'', ''s7''],
        fields (cl_uint4 tg) [''lo'', ''hi'']] @
      native tg ''__CL_UINT2__'' ''__cl_uint2'' ''v2'' (Some 4) @
      native tg ''__CL_UINT4__'' ''__cl_uint4'' ''v4'' (Some 2) @
      native tg ''__CL_UINT8__'' ''__cl_uint8'' ''v8'' None)"

definition cl_uint16 :: "target \<Rightarrow> ctype" where
  "cl_uint16 tg = Union
     ((''s'', cl_aligned tg 64 (Array (Scalar cl_uint) 16)) #
      anonymous tg
       [fields (Scalar cl_uint) [''x'', ''y'', ''z'', ''w'', ''__spacer4'', ''__spacer5'',
         ''__spacer6'', ''__spacer7'', ''__spacer8'', ''__spacer9'', ''sa'', ''sb'', ''sc'', ''sd'',
         ''se'', ''sf''],
        fields (Scalar cl_uint) [''s0'', ''s1'', ''s2'', ''s3'', ''s4'', ''s5'', ''s6'', ''s7'',
         ''s8'', ''s9'', ''sA'', ''sB'', ''sC'', ''sD'', ''sE'', ''sF''],
        fields (cl_uint8 tg) [''lo'', ''hi'']] @
      native tg ''__CL_UINT2__'' ''__cl_uint2'' ''v2'' (Some 8) @
      native tg ''__CL_UINT4__'' ''__cl_uint4'' ''v4'' (Some 4) @
      native tg ''__CL_UINT8__'' ''__cl_uint8'' ''v8'' (Some 2) @
      native tg ''__CL_UINT16__'' ''__cl_uint16'' ''v16'' None)"

definition cl_long2 :: "target \<Rightarrow> ctype" where
  "cl_long2 tg = Union
     ((''s'', cl_aligned tg 16 (Array (Scalar cl_long) 2)) #
      anonymous tg
       [fields (Scalar cl_long) [''x'', ''y''],
        fields (Scalar cl_long) [''s0'', ''s1''],
        fields (Scalar cl_long) [''lo'', ''hi'']] @
      native tg ''__CL_LONG2__'' ''__cl_long2'' ''v2'' None)"

definition cl_long4 :: "target \<Rightarrow> ctype" where
  "cl_long4 tg = Union
     ((''s'', cl_aligned tg 32 (Array (Scalar cl_long) 4)) #
      anonymous tg
       [fields (Scalar cl_long) [''x'', ''y'', ''z'', ''w''],
        fields (Scalar cl_long) [''s0'', ''s1'', ''s2'', ''s3''],
        fields (cl_long2 tg) [''lo'', ''hi'']] @
      native tg ''__CL_LONG2__'' ''__cl_long2'' ''v2'' (Some 2) @
      native tg ''__CL_LONG4__'' ''__cl_long4'' ''v4'' None)"

definition cl_long3 :: "target \<Rightarrow> ctype" where
  "cl_long3 = cl_long4"

definition cl_long8 :: "target \<Rightarrow> ctype" where
  "cl_long8 tg = Union
     ((''s'', cl_aligned tg 64 (Array (Scalar cl_long) 8)) #
      anonymous tg
       [fields (Scalar cl_long) [''x'', ''y'', ''z'', ''w''],
        fields (Scalar cl_long) [''s0'', ''s1'', ''s2'', ''s3'', ''s4'', ''s5'', ''s6'', ''s7''],
        fields (cl_long4 tg) [''lo'', ''hi'']] @
      native tg ''__CL_LONG2__'' ''__cl_long2'' ''v2'' (Some 4) @
      native tg ''__CL_LONG4__'' ''__cl_long4'' ''v4'' (Some 2) @
      native tg ''__CL_LONG8__'' ''__cl_long8'' ''v8'' None)"

definition cl_long16 :: "target \<Rightarrow> ctype" where
  "cl_long16 tg = Union
     ((''s'', cl_aligned tg 128 (Array (Scalar cl_long) 16)) #
      anonymous tg
       [fields (Scalar cl_long) [''x'', ''y'', ''z'', ''w'', ''__spacer4'', ''__spacer5'',
         ''__spacer6'', ''__spacer7'', ''__spacer8'', ''__spacer9'', ''sa'', ''sb'', ''sc'', ''sd'',
         ''se'', ''sf''],
        fields (Scalar cl_long) [''s0'', ''s1'', ''s2'', ''s3'', ''s4'', ''s5'', ''s6'', ''s7'',
         ''s8'', ''s9'', ''sA'', ''sB'', ''sC'', ''sD'', ''sE'', ''sF''],
        fields (cl_long8 tg) [''lo'', ''hi'']] @
      native tg ''__CL_LONG2__'' ''__cl_long2'' ''v2'' (Some 8) @
      native tg ''__CL_LONG4__'' ''__cl_long4'' ''v4'' (Some 4) @
      native tg ''__CL_LONG8__'' ''__cl_long8'' ''v8'' (Some 2) @
      native tg ''__CL_LONG16__'' ''__cl_long16'' ''v16'' None)"

definition cl_ulong2 :: "target \<Rightarrow> ctype" where
  "cl_ulong2 tg = Union
     ((''s'', cl_aligned tg 16 (Array (Scalar cl_ulong) 2)) #
      anonymous tg
       [fields (Scalar cl_ulong) [''x'', ''y''],
        fields (Scalar cl_ulong) [''s0'', ''s1''],
        fields (Scalar cl_ulong) [''lo'', ''hi'']] @
      native tg ''__CL_ULONG2__'' ''__cl_ulong2'' ''v2'' None)"

definition cl_ulong4 :: "target \<Rightarrow> ctype" where
  "cl_ulong4 tg = Union
     ((''s'', cl_aligned tg 32 (Array (Scalar cl_ulong) 4)) #
      anonymous tg
       [fields (Scalar cl_ulong) [''x'', ''y'', ''z'', ''w''],
        fields (Scalar cl_ulong) [''s0'', ''s1'', ''s2'', ''s3''],
        fields (cl_ulong2 tg) [''lo'', ''hi'']] @
      native tg ''__CL_ULONG2__'' ''__cl_ulong2'' ''v2'' (Some 2) @
      native tg ''__CL_ULONG4__'' ''__cl_ulong4'' ''v4'' None)"

definition cl_ulong3 :: "target \<Rightarrow> ctype" where
  "cl_ulong3 = cl_ulong4"

definition cl_ulong8 :: "target \<Rightarrow> ctype" where
  "cl_ulong8 tg = Union
     ((''s'', cl_aligned tg 64 (Array (Scalar cl_ulong) 8)) #
      anonymous tg
       [fields (Scalar cl_ulong) [''x'', ''y'', ''z'', ''w''],
        fields (Scalar cl_ulong) [''s0'', ''s1'', ''s2'', ''s3'', ''s4'', ''s5'', ''s6'', ''s7''],
        fields (cl_ulong4 tg) [''lo'', ''hi'']] @
      native tg ''__CL_ULONG2__'' ''__cl_ulong2'' ''v2'' (Some 4) @
      native tg ''__CL_ULONG4__'' ''__cl_ulong4'' ''v4'' (Some 2) @
      native tg ''__CL_ULONG8__'' ''__cl_ulong8'' ''v8'' None)"

definition cl_ulong16 :: "target \<Rightarrow> ctype" where
  "cl_ulong16 tg = Union
     ((''s'', cl_aligned tg 128 (Array (Scalar cl_ulong) 16)) #
      anonymous tg
       [fields (Scalar cl_ulong) [''x'', ''y'', ''z'', ''w'', ''__spacer4'', ''__spacer5'',
         ''__spacer6'', ''__spacer7'', ''__spacer8'', ''__spacer9'', ''sa'', ''sb'', ''sc'', ''sd'',
         ''se'', ''sf''],
        fields (Scalar cl_ulong) [''s0'', ''s1'', ''s2'', ''s3'', ''s4'', ''s5'', ''s6'', ''s7'',
         ''s8'', ''s9'', ''sA'', ''sB'', ''sC'', ''sD'', ''sE'', ''sF''],
        fields (cl_ulong8 tg) [''lo'', ''hi'']] @
      native tg ''__CL_ULONG2__'' ''__cl_ulong2'' ''v2'' (Some 8) @
      native tg ''__CL_ULONG4__'' ''__cl_ulong4'' ''v4'' (Some 4) @
      native tg ''__CL_ULONG8__'' ''__cl_ulong8'' ''v8'' (Some 2) @
      native tg ''__CL_ULONG16__'' ''__cl_ulong16'' ''v16'' None)"

definition cl_float2 :: "target \<Rightarrow> ctype" where
  "cl_float2 tg = Union
     ((''s'', cl_aligned tg 8 (Array (Scalar cl_float) 2)) #
      anonymous tg
       [fields (Scalar cl_float) [''x'', ''y''],
        fields (Scalar cl_float) [''s0'', ''s1''],
        fields (Scalar cl_float) [''lo'', ''hi'']] @
      native tg ''__CL_FLOAT2__'' ''__cl_float2'' ''v2'' None)"

definition cl_float4 :: "target \<Rightarrow> ctype" where
  "cl_float4 tg = Union
     ((''s'', cl_aligned tg 16 (Array (Scalar cl_float) 4)) #
      anonymous tg
       [fields (Scalar cl_float) [''x'', ''y'', ''z'', ''w''],
        fields (Scalar cl_float) [''s0'', ''s1'', ''s2'', ''s3''],
        fields (cl_float2 tg) [''lo'', ''hi'']] @
      native tg ''__CL_FLOAT2__'' ''__cl_float2'' ''v2'' (Some 2) @
      native tg ''__CL_FLOAT4__'' ''__cl_float4'' ''v4'' None)"

definition cl_float3 :: "target \<Rightarrow> ctype" where
  "cl_float3 = cl_float4"

definition cl_float8 :: "target \<Rightarrow> ctype" where
  "cl_float8 tg = Union
     ((''s'', cl_aligned tg 32 (Array (Scalar cl_float) 8)) #
      anonymous tg
       [fields (Scalar cl_float) [''x'', ''y'', ''z'', ''w''],
        fields (Scalar cl_float) [''s0'', ''s1'', ''s2'', ''s3'', ''s4'', ''s5'', ''s6'', ''s7''],
        fields (cl_float4 tg) [''lo'', ''hi'']] @
      native tg ''__CL_FLOAT2__'' ''__cl_float2'' ''v2'' (Some 4) @
      native tg ''__CL_FLOAT4__'' ''__cl_float4'' ''v4'' (Some 2) @
      native tg ''__CL_FLOAT8__'' ''__cl_float8'' ''v8'' None)"

definition cl_float16 :: "target \<Rightarrow> ctype" where
  "cl_float16 tg = Union
     ((''s'', cl_aligned tg 64 (Array (Scalar cl_float) 16)) #
      anonymous tg
       [fields (Scalar cl_float) [''x'', ''y'', ''z'', ''w'', ''__spacer4'', ''__spacer5'',
         ''__spacer6'', ''__spacer7'', ''__spacer8'', ''__spacer9'', ''sa'', ''sb'', ''sc'', ''sd'',
         ''se'', ''sf''],
        fields (Scalar cl_float) [''s0'', ''s1'', ''s2'', ''s3'', ''s4'', ''s5'', ''s6'', ''s7'',
         ''s8'', ''s9'', ''sA'', ''sB'', ''sC'', ''sD'', ''sE'', ''sF''],
        fields (cl_float8 tg) [''lo'', ''hi'']] @
      native tg ''__CL_FLOAT2__'' ''__cl_float2'' ''v2'' (Some 8) @
      native tg ''__CL_FLOAT4__'' ''__cl_float4'' ''v4'' (Some 4) @
      native tg ''__CL_FLOAT8__'' ''__cl_float8'' ''v8'' (Some 2) @
      native tg ''__CL_FLOAT16__'' ''__cl_float16'' ''v16'' None)"

definition cl_double2 :: "target \<Rightarrow> ctype" where
  "cl_double2 tg = Union
     ((''s'', cl_aligned tg 16 (Array (Scalar cl_double) 2)) #
      anonymous tg
       [fields (Scalar cl_double) [''x'', ''y''],
        fields (Scalar cl_double) [''s0'', ''s1''],
        fields (Scalar cl_double) [''lo'', ''hi'']] @
      native tg ''__CL_DOUBLE2__'' ''__cl_double2'' ''v2'' None)"

definition cl_double4 :: "target \<Rightarrow> ctype" where
  "cl_double4 tg = Union
     ((''s'', cl_aligned tg 32 (Array (Scalar cl_double) 4)) #
      anonymous tg
       [fields (Scalar cl_double) [''x'', ''y'', ''z'', ''w''],
        fields (Scalar cl_double) [''s0'', ''s1'', ''s2'', ''s3''],
        fields (cl_double2 tg) [''lo'', ''hi'']] @
      native tg ''__CL_DOUBLE2__'' ''__cl_double2'' ''v2'' (Some 2) @
      native tg ''__CL_DOUBLE4__'' ''__cl_double4'' ''v4'' None)"

definition cl_double3 :: "target \<Rightarrow> ctype" where
  "cl_double3 = cl_double4"

definition cl_double8 :: "target \<Rightarrow> ctype" where
  "cl_double8 tg = Union
     ((''s'', cl_aligned tg 64 (Array (Scalar cl_double) 8)) #
      anonymous tg
       [fields (Scalar cl_double) [''x'', ''y'', ''z'', ''w''],
        fields (Scalar cl_double) [''s0'', ''s1'', ''s2'', ''s3'', ''s4'', ''s5'', ''s6'', ''s7''],
        fields (cl_double4 tg) [''lo'', ''hi'']] @
      native tg ''__CL_DOUBLE2__'' ''__cl_double2'' ''v2'' (Some 4) @
      native tg ''__CL_DOUBLE4__'' ''__cl_double4'' ''v4'' (Some 2) @
      native tg ''__CL_DOUBLE8__'' ''__cl_double8'' ''v8'' None)"

definition cl_double16 :: "target \<Rightarrow> ctype" where
  "cl_double16 tg = Union
     ((''s'', cl_aligned tg 128 (Array (Scalar cl_double) 16)) #
      anonymous tg
       [fields (Scalar cl_double) [''x'', ''y'', ''z'', ''w'', ''__spacer4'', ''__spacer5'',
         ''__spacer6'', ''__spacer7'', ''__spacer8'', ''__spacer9'', ''sa'', ''sb'', ''sc'', ''sd'',
         ''se'', ''sf''],
        fields (Scalar cl_double) [''s0'', ''s1'', ''s2'', ''s3'', ''s4'', ''s5'', ''s6'', ''s7'',
         ''s8'', ''s9'', ''sA'', ''sB'', ''sC'', ''sD'', ''sE'', ''sF''],
        fields (cl_double8 tg) [''lo'', ''hi'']] @
      native tg ''__CL_DOUBLE2__'' ''__cl_double2'' ''v2'' (Some 8) @
      native tg ''__CL_DOUBLE4__'' ''__cl_double4'' ''v4'' (Some 4) @
      native tg ''__CL_DOUBLE8__'' ''__cl_double8'' ''v8'' (Some 2) @
      native tg ''__CL_DOUBLE16__'' ''__cl_double16'' ''v16'' None)"

section \<open>Layout\<close>

text \<open>The types of the header, by element, with the type of their halves.\<close>

definition vector_types :: "target \<Rightarrow> (scalar \<times> nat \<times> ctype \<times> ctype) list" where
  "vector_types tg =
     [(cl_char, 2, Scalar cl_char, cl_char2 tg), (cl_char, 4, cl_char2 tg, cl_char4 tg),
      (cl_char, 8, cl_char4 tg, cl_char8 tg), (cl_char, 16, cl_char8 tg, cl_char16 tg),
      (cl_uchar, 2, Scalar cl_uchar, cl_uchar2 tg), (cl_uchar, 4, cl_uchar2 tg, cl_uchar4 tg),
      (cl_uchar, 8, cl_uchar4 tg, cl_uchar8 tg), (cl_uchar, 16, cl_uchar8 tg, cl_uchar16 tg),
      (cl_short, 2, Scalar cl_short, cl_short2 tg), (cl_short, 4, cl_short2 tg, cl_short4 tg),
      (cl_short, 8, cl_short4 tg, cl_short8 tg), (cl_short, 16, cl_short8 tg, cl_short16 tg),
      (cl_ushort, 2, Scalar cl_ushort, cl_ushort2 tg), (cl_ushort, 4, cl_ushort2 tg, cl_ushort4 tg),
      (cl_ushort, 8, cl_ushort4 tg, cl_ushort8 tg), (cl_ushort, 16, cl_ushort8 tg, cl_ushort16 tg),
      (cl_half, 2, Scalar cl_half, cl_half2 tg), (cl_half, 4, cl_half2 tg, cl_half4 tg),
      (cl_half, 8, cl_half4 tg, cl_half8 tg), (cl_half, 16, cl_half8 tg, cl_half16 tg),
      (cl_int, 2, Scalar cl_int, cl_int2 tg), (cl_int, 4, cl_int2 tg, cl_int4 tg),
      (cl_int, 8, cl_int4 tg, cl_int8 tg), (cl_int, 16, cl_int8 tg, cl_int16 tg),
      (cl_uint, 2, Scalar cl_uint, cl_uint2 tg), (cl_uint, 4, cl_uint2 tg, cl_uint4 tg),
      (cl_uint, 8, cl_uint4 tg, cl_uint8 tg), (cl_uint, 16, cl_uint8 tg, cl_uint16 tg),
      (cl_long, 2, Scalar cl_long, cl_long2 tg), (cl_long, 4, cl_long2 tg, cl_long4 tg),
      (cl_long, 8, cl_long4 tg, cl_long8 tg), (cl_long, 16, cl_long8 tg, cl_long16 tg),
      (cl_ulong, 2, Scalar cl_ulong, cl_ulong2 tg), (cl_ulong, 4, cl_ulong2 tg, cl_ulong4 tg),
      (cl_ulong, 8, cl_ulong4 tg, cl_ulong8 tg), (cl_ulong, 16, cl_ulong8 tg, cl_ulong16 tg),
      (cl_float, 2, Scalar cl_float, cl_float2 tg), (cl_float, 4, cl_float2 tg, cl_float4 tg),
      (cl_float, 8, cl_float4 tg, cl_float8 tg), (cl_float, 16, cl_float8 tg, cl_float16 tg),
      (cl_double, 2, Scalar cl_double, cl_double2 tg), (cl_double, 4, cl_double2 tg, cl_double4 tg),
      (cl_double, 8, cl_double4 tg, cl_double8 tg), (cl_double, 16, cl_double8 tg, cl_double16 tg)]"

definition vector3_types :: "target \<Rightarrow> (scalar \<times> ctype) list" where
  "vector3_types tg =
     [(cl_char, cl_char3 tg), (cl_uchar, cl_uchar3 tg), (cl_short, cl_short3 tg), (cl_ushort, cl_ushort3 tg),
      (cl_half, cl_half3 tg), (cl_int, cl_int3 tg), (cl_uint, cl_uint3 tg), (cl_long, cl_long3 tg),
      (cl_ulong, cl_ulong3 tg), (cl_float, cl_float3 tg), (cl_double, cl_double3 tg)]"

lemmas fit_rules = fit_cons fit_one native_fits
lemmas shape_defs = vector_shapes_def lane_names_def native_names_def native_kinds_def native_lanes_def

lemma char_vectors:
  shows "vector_layout cl_char 2 (cl_char2 tg) \<and> is_vector tg cl_char 2 (Scalar cl_char) (cl_char2 tg) \<and> natural tg cl_char 2 (cl_char2 tg)"
    and "vector_layout cl_char 4 (cl_char4 tg) \<and> is_vector tg cl_char 4 (cl_char2 tg) (cl_char4 tg) \<and> natural tg cl_char 4 (cl_char4 tg)"
    and "vector_layout cl_char 8 (cl_char8 tg) \<and> is_vector tg cl_char 8 (cl_char4 tg) (cl_char8 tg) \<and> natural tg cl_char 8 (cl_char8 tg)"
    and "vector_layout cl_char 16 (cl_char16 tg) \<and> is_vector tg cl_char 16 (cl_char8 tg) (cl_char16 tg) \<and> natural tg cl_char 16 (cl_char16 tg)"
proof -
  show v2: "vector_layout cl_char 2 (cl_char2 tg) \<and> is_vector tg cl_char 2 (Scalar cl_char) (cl_char2 tg) \<and> natural tg cl_char 2 (cl_char2 tg)"
    by (rule vector_union [OF cl_char2_def _ _ _ _ vector_layout_scalar], (rule fit_rules | simp add: shape_defs)+)
  show v4: "vector_layout cl_char 4 (cl_char4 tg) \<and> is_vector tg cl_char 4 (cl_char2 tg) (cl_char4 tg) \<and> natural tg cl_char 4 (cl_char4 tg)"
    by (rule vector_union [OF cl_char4_def _ _ _ _ conjunct1 [OF v2]], (rule fit_rules | simp add: shape_defs)+)
  show v8: "vector_layout cl_char 8 (cl_char8 tg) \<and> is_vector tg cl_char 8 (cl_char4 tg) (cl_char8 tg) \<and> natural tg cl_char 8 (cl_char8 tg)"
    by (rule vector_union [OF cl_char8_def _ _ _ _ conjunct1 [OF v4]], (rule fit_rules | simp add: shape_defs)+)
  show v16: "vector_layout cl_char 16 (cl_char16 tg) \<and> is_vector tg cl_char 16 (cl_char8 tg) (cl_char16 tg) \<and> natural tg cl_char 16 (cl_char16 tg)"
    by (rule vector_union [OF cl_char16_def _ _ _ _ conjunct1 [OF v8]], (rule fit_rules | simp add: shape_defs)+)
qed

lemma uchar_vectors:
  shows "vector_layout cl_uchar 2 (cl_uchar2 tg) \<and> is_vector tg cl_uchar 2 (Scalar cl_uchar) (cl_uchar2 tg) \<and> natural tg cl_uchar 2 (cl_uchar2 tg)"
    and "vector_layout cl_uchar 4 (cl_uchar4 tg) \<and> is_vector tg cl_uchar 4 (cl_uchar2 tg) (cl_uchar4 tg) \<and> natural tg cl_uchar 4 (cl_uchar4 tg)"
    and "vector_layout cl_uchar 8 (cl_uchar8 tg) \<and> is_vector tg cl_uchar 8 (cl_uchar4 tg) (cl_uchar8 tg) \<and> natural tg cl_uchar 8 (cl_uchar8 tg)"
    and "vector_layout cl_uchar 16 (cl_uchar16 tg) \<and> is_vector tg cl_uchar 16 (cl_uchar8 tg) (cl_uchar16 tg) \<and> natural tg cl_uchar 16 (cl_uchar16 tg)"
proof -
  show v2: "vector_layout cl_uchar 2 (cl_uchar2 tg) \<and> is_vector tg cl_uchar 2 (Scalar cl_uchar) (cl_uchar2 tg) \<and> natural tg cl_uchar 2 (cl_uchar2 tg)"
    by (rule vector_union [OF cl_uchar2_def _ _ _ _ vector_layout_scalar], (rule fit_rules | simp add: shape_defs)+)
  show v4: "vector_layout cl_uchar 4 (cl_uchar4 tg) \<and> is_vector tg cl_uchar 4 (cl_uchar2 tg) (cl_uchar4 tg) \<and> natural tg cl_uchar 4 (cl_uchar4 tg)"
    by (rule vector_union [OF cl_uchar4_def _ _ _ _ conjunct1 [OF v2]], (rule fit_rules | simp add: shape_defs)+)
  show v8: "vector_layout cl_uchar 8 (cl_uchar8 tg) \<and> is_vector tg cl_uchar 8 (cl_uchar4 tg) (cl_uchar8 tg) \<and> natural tg cl_uchar 8 (cl_uchar8 tg)"
    by (rule vector_union [OF cl_uchar8_def _ _ _ _ conjunct1 [OF v4]], (rule fit_rules | simp add: shape_defs)+)
  show v16: "vector_layout cl_uchar 16 (cl_uchar16 tg) \<and> is_vector tg cl_uchar 16 (cl_uchar8 tg) (cl_uchar16 tg) \<and> natural tg cl_uchar 16 (cl_uchar16 tg)"
    by (rule vector_union [OF cl_uchar16_def _ _ _ _ conjunct1 [OF v8]], (rule fit_rules | simp add: shape_defs)+)
qed

lemma short_vectors:
  shows "vector_layout cl_short 2 (cl_short2 tg) \<and> is_vector tg cl_short 2 (Scalar cl_short) (cl_short2 tg) \<and> natural tg cl_short 2 (cl_short2 tg)"
    and "vector_layout cl_short 4 (cl_short4 tg) \<and> is_vector tg cl_short 4 (cl_short2 tg) (cl_short4 tg) \<and> natural tg cl_short 4 (cl_short4 tg)"
    and "vector_layout cl_short 8 (cl_short8 tg) \<and> is_vector tg cl_short 8 (cl_short4 tg) (cl_short8 tg) \<and> natural tg cl_short 8 (cl_short8 tg)"
    and "vector_layout cl_short 16 (cl_short16 tg) \<and> is_vector tg cl_short 16 (cl_short8 tg) (cl_short16 tg) \<and> natural tg cl_short 16 (cl_short16 tg)"
proof -
  show v2: "vector_layout cl_short 2 (cl_short2 tg) \<and> is_vector tg cl_short 2 (Scalar cl_short) (cl_short2 tg) \<and> natural tg cl_short 2 (cl_short2 tg)"
    by (rule vector_union [OF cl_short2_def _ _ _ _ vector_layout_scalar], (rule fit_rules | simp add: shape_defs)+)
  show v4: "vector_layout cl_short 4 (cl_short4 tg) \<and> is_vector tg cl_short 4 (cl_short2 tg) (cl_short4 tg) \<and> natural tg cl_short 4 (cl_short4 tg)"
    by (rule vector_union [OF cl_short4_def _ _ _ _ conjunct1 [OF v2]], (rule fit_rules | simp add: shape_defs)+)
  show v8: "vector_layout cl_short 8 (cl_short8 tg) \<and> is_vector tg cl_short 8 (cl_short4 tg) (cl_short8 tg) \<and> natural tg cl_short 8 (cl_short8 tg)"
    by (rule vector_union [OF cl_short8_def _ _ _ _ conjunct1 [OF v4]], (rule fit_rules | simp add: shape_defs)+)
  show v16: "vector_layout cl_short 16 (cl_short16 tg) \<and> is_vector tg cl_short 16 (cl_short8 tg) (cl_short16 tg) \<and> natural tg cl_short 16 (cl_short16 tg)"
    by (rule vector_union [OF cl_short16_def _ _ _ _ conjunct1 [OF v8]], (rule fit_rules | simp add: shape_defs)+)
qed

lemma ushort_vectors:
  shows "vector_layout cl_ushort 2 (cl_ushort2 tg) \<and> is_vector tg cl_ushort 2 (Scalar cl_ushort) (cl_ushort2 tg) \<and> natural tg cl_ushort 2 (cl_ushort2 tg)"
    and "vector_layout cl_ushort 4 (cl_ushort4 tg) \<and> is_vector tg cl_ushort 4 (cl_ushort2 tg) (cl_ushort4 tg) \<and> natural tg cl_ushort 4 (cl_ushort4 tg)"
    and "vector_layout cl_ushort 8 (cl_ushort8 tg) \<and> is_vector tg cl_ushort 8 (cl_ushort4 tg) (cl_ushort8 tg) \<and> natural tg cl_ushort 8 (cl_ushort8 tg)"
    and "vector_layout cl_ushort 16 (cl_ushort16 tg) \<and> is_vector tg cl_ushort 16 (cl_ushort8 tg) (cl_ushort16 tg) \<and> natural tg cl_ushort 16 (cl_ushort16 tg)"
proof -
  show v2: "vector_layout cl_ushort 2 (cl_ushort2 tg) \<and> is_vector tg cl_ushort 2 (Scalar cl_ushort) (cl_ushort2 tg) \<and> natural tg cl_ushort 2 (cl_ushort2 tg)"
    by (rule vector_union [OF cl_ushort2_def _ _ _ _ vector_layout_scalar], (rule fit_rules | simp add: shape_defs)+)
  show v4: "vector_layout cl_ushort 4 (cl_ushort4 tg) \<and> is_vector tg cl_ushort 4 (cl_ushort2 tg) (cl_ushort4 tg) \<and> natural tg cl_ushort 4 (cl_ushort4 tg)"
    by (rule vector_union [OF cl_ushort4_def _ _ _ _ conjunct1 [OF v2]], (rule fit_rules | simp add: shape_defs)+)
  show v8: "vector_layout cl_ushort 8 (cl_ushort8 tg) \<and> is_vector tg cl_ushort 8 (cl_ushort4 tg) (cl_ushort8 tg) \<and> natural tg cl_ushort 8 (cl_ushort8 tg)"
    by (rule vector_union [OF cl_ushort8_def _ _ _ _ conjunct1 [OF v4]], (rule fit_rules | simp add: shape_defs)+)
  show v16: "vector_layout cl_ushort 16 (cl_ushort16 tg) \<and> is_vector tg cl_ushort 16 (cl_ushort8 tg) (cl_ushort16 tg) \<and> natural tg cl_ushort 16 (cl_ushort16 tg)"
    by (rule vector_union [OF cl_ushort16_def _ _ _ _ conjunct1 [OF v8]], (rule fit_rules | simp add: shape_defs)+)
qed

lemma half_vectors:
  shows "vector_layout cl_half 2 (cl_half2 tg) \<and> is_vector tg cl_half 2 (Scalar cl_half) (cl_half2 tg) \<and> natural tg cl_half 2 (cl_half2 tg)"
    and "vector_layout cl_half 4 (cl_half4 tg) \<and> is_vector tg cl_half 4 (cl_half2 tg) (cl_half4 tg) \<and> natural tg cl_half 4 (cl_half4 tg)"
    and "vector_layout cl_half 8 (cl_half8 tg) \<and> is_vector tg cl_half 8 (cl_half4 tg) (cl_half8 tg) \<and> natural tg cl_half 8 (cl_half8 tg)"
    and "vector_layout cl_half 16 (cl_half16 tg) \<and> is_vector tg cl_half 16 (cl_half8 tg) (cl_half16 tg) \<and> natural tg cl_half 16 (cl_half16 tg)"
proof -
  show v2: "vector_layout cl_half 2 (cl_half2 tg) \<and> is_vector tg cl_half 2 (Scalar cl_half) (cl_half2 tg) \<and> natural tg cl_half 2 (cl_half2 tg)"
    by (rule vector_union [OF cl_half2_def _ _ _ _ vector_layout_scalar], (rule fit_rules | simp add: shape_defs)+)
  show v4: "vector_layout cl_half 4 (cl_half4 tg) \<and> is_vector tg cl_half 4 (cl_half2 tg) (cl_half4 tg) \<and> natural tg cl_half 4 (cl_half4 tg)"
    by (rule vector_union [OF cl_half4_def _ _ _ _ conjunct1 [OF v2]], (rule fit_rules | simp add: shape_defs)+)
  show v8: "vector_layout cl_half 8 (cl_half8 tg) \<and> is_vector tg cl_half 8 (cl_half4 tg) (cl_half8 tg) \<and> natural tg cl_half 8 (cl_half8 tg)"
    by (rule vector_union [OF cl_half8_def _ _ _ _ conjunct1 [OF v4]], (rule fit_rules | simp add: shape_defs)+)
  show v16: "vector_layout cl_half 16 (cl_half16 tg) \<and> is_vector tg cl_half 16 (cl_half8 tg) (cl_half16 tg) \<and> natural tg cl_half 16 (cl_half16 tg)"
    by (rule vector_union [OF cl_half16_def _ _ _ _ conjunct1 [OF v8]], (rule fit_rules | simp add: shape_defs)+)
qed

lemma int_vectors:
  shows "vector_layout cl_int 2 (cl_int2 tg) \<and> is_vector tg cl_int 2 (Scalar cl_int) (cl_int2 tg) \<and> natural tg cl_int 2 (cl_int2 tg)"
    and "vector_layout cl_int 4 (cl_int4 tg) \<and> is_vector tg cl_int 4 (cl_int2 tg) (cl_int4 tg) \<and> natural tg cl_int 4 (cl_int4 tg)"
    and "vector_layout cl_int 8 (cl_int8 tg) \<and> is_vector tg cl_int 8 (cl_int4 tg) (cl_int8 tg) \<and> natural tg cl_int 8 (cl_int8 tg)"
    and "vector_layout cl_int 16 (cl_int16 tg) \<and> is_vector tg cl_int 16 (cl_int8 tg) (cl_int16 tg) \<and> natural tg cl_int 16 (cl_int16 tg)"
proof -
  show v2: "vector_layout cl_int 2 (cl_int2 tg) \<and> is_vector tg cl_int 2 (Scalar cl_int) (cl_int2 tg) \<and> natural tg cl_int 2 (cl_int2 tg)"
    by (rule vector_union [OF cl_int2_def _ _ _ _ vector_layout_scalar], (rule fit_rules | simp add: shape_defs)+)
  show v4: "vector_layout cl_int 4 (cl_int4 tg) \<and> is_vector tg cl_int 4 (cl_int2 tg) (cl_int4 tg) \<and> natural tg cl_int 4 (cl_int4 tg)"
    by (rule vector_union [OF cl_int4_def _ _ _ _ conjunct1 [OF v2]], (rule fit_rules | simp add: shape_defs)+)
  show v8: "vector_layout cl_int 8 (cl_int8 tg) \<and> is_vector tg cl_int 8 (cl_int4 tg) (cl_int8 tg) \<and> natural tg cl_int 8 (cl_int8 tg)"
    by (rule vector_union [OF cl_int8_def _ _ _ _ conjunct1 [OF v4]], (rule fit_rules | simp add: shape_defs)+)
  show v16: "vector_layout cl_int 16 (cl_int16 tg) \<and> is_vector tg cl_int 16 (cl_int8 tg) (cl_int16 tg) \<and> natural tg cl_int 16 (cl_int16 tg)"
    by (rule vector_union [OF cl_int16_def _ _ _ _ conjunct1 [OF v8]], (rule fit_rules | simp add: shape_defs)+)
qed

lemma uint_vectors:
  shows "vector_layout cl_uint 2 (cl_uint2 tg) \<and> is_vector tg cl_uint 2 (Scalar cl_uint) (cl_uint2 tg) \<and> natural tg cl_uint 2 (cl_uint2 tg)"
    and "vector_layout cl_uint 4 (cl_uint4 tg) \<and> is_vector tg cl_uint 4 (cl_uint2 tg) (cl_uint4 tg) \<and> natural tg cl_uint 4 (cl_uint4 tg)"
    and "vector_layout cl_uint 8 (cl_uint8 tg) \<and> is_vector tg cl_uint 8 (cl_uint4 tg) (cl_uint8 tg) \<and> natural tg cl_uint 8 (cl_uint8 tg)"
    and "vector_layout cl_uint 16 (cl_uint16 tg) \<and> is_vector tg cl_uint 16 (cl_uint8 tg) (cl_uint16 tg) \<and> natural tg cl_uint 16 (cl_uint16 tg)"
proof -
  show v2: "vector_layout cl_uint 2 (cl_uint2 tg) \<and> is_vector tg cl_uint 2 (Scalar cl_uint) (cl_uint2 tg) \<and> natural tg cl_uint 2 (cl_uint2 tg)"
    by (rule vector_union [OF cl_uint2_def _ _ _ _ vector_layout_scalar], (rule fit_rules | simp add: shape_defs)+)
  show v4: "vector_layout cl_uint 4 (cl_uint4 tg) \<and> is_vector tg cl_uint 4 (cl_uint2 tg) (cl_uint4 tg) \<and> natural tg cl_uint 4 (cl_uint4 tg)"
    by (rule vector_union [OF cl_uint4_def _ _ _ _ conjunct1 [OF v2]], (rule fit_rules | simp add: shape_defs)+)
  show v8: "vector_layout cl_uint 8 (cl_uint8 tg) \<and> is_vector tg cl_uint 8 (cl_uint4 tg) (cl_uint8 tg) \<and> natural tg cl_uint 8 (cl_uint8 tg)"
    by (rule vector_union [OF cl_uint8_def _ _ _ _ conjunct1 [OF v4]], (rule fit_rules | simp add: shape_defs)+)
  show v16: "vector_layout cl_uint 16 (cl_uint16 tg) \<and> is_vector tg cl_uint 16 (cl_uint8 tg) (cl_uint16 tg) \<and> natural tg cl_uint 16 (cl_uint16 tg)"
    by (rule vector_union [OF cl_uint16_def _ _ _ _ conjunct1 [OF v8]], (rule fit_rules | simp add: shape_defs)+)
qed

lemma long_vectors:
  shows "vector_layout cl_long 2 (cl_long2 tg) \<and> is_vector tg cl_long 2 (Scalar cl_long) (cl_long2 tg) \<and> natural tg cl_long 2 (cl_long2 tg)"
    and "vector_layout cl_long 4 (cl_long4 tg) \<and> is_vector tg cl_long 4 (cl_long2 tg) (cl_long4 tg) \<and> natural tg cl_long 4 (cl_long4 tg)"
    and "vector_layout cl_long 8 (cl_long8 tg) \<and> is_vector tg cl_long 8 (cl_long4 tg) (cl_long8 tg) \<and> natural tg cl_long 8 (cl_long8 tg)"
    and "vector_layout cl_long 16 (cl_long16 tg) \<and> is_vector tg cl_long 16 (cl_long8 tg) (cl_long16 tg) \<and> natural tg cl_long 16 (cl_long16 tg)"
proof -
  show v2: "vector_layout cl_long 2 (cl_long2 tg) \<and> is_vector tg cl_long 2 (Scalar cl_long) (cl_long2 tg) \<and> natural tg cl_long 2 (cl_long2 tg)"
    by (rule vector_union [OF cl_long2_def _ _ _ _ vector_layout_scalar], (rule fit_rules | simp add: shape_defs)+)
  show v4: "vector_layout cl_long 4 (cl_long4 tg) \<and> is_vector tg cl_long 4 (cl_long2 tg) (cl_long4 tg) \<and> natural tg cl_long 4 (cl_long4 tg)"
    by (rule vector_union [OF cl_long4_def _ _ _ _ conjunct1 [OF v2]], (rule fit_rules | simp add: shape_defs)+)
  show v8: "vector_layout cl_long 8 (cl_long8 tg) \<and> is_vector tg cl_long 8 (cl_long4 tg) (cl_long8 tg) \<and> natural tg cl_long 8 (cl_long8 tg)"
    by (rule vector_union [OF cl_long8_def _ _ _ _ conjunct1 [OF v4]], (rule fit_rules | simp add: shape_defs)+)
  show v16: "vector_layout cl_long 16 (cl_long16 tg) \<and> is_vector tg cl_long 16 (cl_long8 tg) (cl_long16 tg) \<and> natural tg cl_long 16 (cl_long16 tg)"
    by (rule vector_union [OF cl_long16_def _ _ _ _ conjunct1 [OF v8]], (rule fit_rules | simp add: shape_defs)+)
qed

lemma ulong_vectors:
  shows "vector_layout cl_ulong 2 (cl_ulong2 tg) \<and> is_vector tg cl_ulong 2 (Scalar cl_ulong) (cl_ulong2 tg) \<and> natural tg cl_ulong 2 (cl_ulong2 tg)"
    and "vector_layout cl_ulong 4 (cl_ulong4 tg) \<and> is_vector tg cl_ulong 4 (cl_ulong2 tg) (cl_ulong4 tg) \<and> natural tg cl_ulong 4 (cl_ulong4 tg)"
    and "vector_layout cl_ulong 8 (cl_ulong8 tg) \<and> is_vector tg cl_ulong 8 (cl_ulong4 tg) (cl_ulong8 tg) \<and> natural tg cl_ulong 8 (cl_ulong8 tg)"
    and "vector_layout cl_ulong 16 (cl_ulong16 tg) \<and> is_vector tg cl_ulong 16 (cl_ulong8 tg) (cl_ulong16 tg) \<and> natural tg cl_ulong 16 (cl_ulong16 tg)"
proof -
  show v2: "vector_layout cl_ulong 2 (cl_ulong2 tg) \<and> is_vector tg cl_ulong 2 (Scalar cl_ulong) (cl_ulong2 tg) \<and> natural tg cl_ulong 2 (cl_ulong2 tg)"
    by (rule vector_union [OF cl_ulong2_def _ _ _ _ vector_layout_scalar], (rule fit_rules | simp add: shape_defs)+)
  show v4: "vector_layout cl_ulong 4 (cl_ulong4 tg) \<and> is_vector tg cl_ulong 4 (cl_ulong2 tg) (cl_ulong4 tg) \<and> natural tg cl_ulong 4 (cl_ulong4 tg)"
    by (rule vector_union [OF cl_ulong4_def _ _ _ _ conjunct1 [OF v2]], (rule fit_rules | simp add: shape_defs)+)
  show v8: "vector_layout cl_ulong 8 (cl_ulong8 tg) \<and> is_vector tg cl_ulong 8 (cl_ulong4 tg) (cl_ulong8 tg) \<and> natural tg cl_ulong 8 (cl_ulong8 tg)"
    by (rule vector_union [OF cl_ulong8_def _ _ _ _ conjunct1 [OF v4]], (rule fit_rules | simp add: shape_defs)+)
  show v16: "vector_layout cl_ulong 16 (cl_ulong16 tg) \<and> is_vector tg cl_ulong 16 (cl_ulong8 tg) (cl_ulong16 tg) \<and> natural tg cl_ulong 16 (cl_ulong16 tg)"
    by (rule vector_union [OF cl_ulong16_def _ _ _ _ conjunct1 [OF v8]], (rule fit_rules | simp add: shape_defs)+)
qed

lemma float_vectors:
  shows "vector_layout cl_float 2 (cl_float2 tg) \<and> is_vector tg cl_float 2 (Scalar cl_float) (cl_float2 tg) \<and> natural tg cl_float 2 (cl_float2 tg)"
    and "vector_layout cl_float 4 (cl_float4 tg) \<and> is_vector tg cl_float 4 (cl_float2 tg) (cl_float4 tg) \<and> natural tg cl_float 4 (cl_float4 tg)"
    and "vector_layout cl_float 8 (cl_float8 tg) \<and> is_vector tg cl_float 8 (cl_float4 tg) (cl_float8 tg) \<and> natural tg cl_float 8 (cl_float8 tg)"
    and "vector_layout cl_float 16 (cl_float16 tg) \<and> is_vector tg cl_float 16 (cl_float8 tg) (cl_float16 tg) \<and> natural tg cl_float 16 (cl_float16 tg)"
proof -
  show v2: "vector_layout cl_float 2 (cl_float2 tg) \<and> is_vector tg cl_float 2 (Scalar cl_float) (cl_float2 tg) \<and> natural tg cl_float 2 (cl_float2 tg)"
    by (rule vector_union [OF cl_float2_def _ _ _ _ vector_layout_scalar], (rule fit_rules | simp add: shape_defs)+)
  show v4: "vector_layout cl_float 4 (cl_float4 tg) \<and> is_vector tg cl_float 4 (cl_float2 tg) (cl_float4 tg) \<and> natural tg cl_float 4 (cl_float4 tg)"
    by (rule vector_union [OF cl_float4_def _ _ _ _ conjunct1 [OF v2]], (rule fit_rules | simp add: shape_defs)+)
  show v8: "vector_layout cl_float 8 (cl_float8 tg) \<and> is_vector tg cl_float 8 (cl_float4 tg) (cl_float8 tg) \<and> natural tg cl_float 8 (cl_float8 tg)"
    by (rule vector_union [OF cl_float8_def _ _ _ _ conjunct1 [OF v4]], (rule fit_rules | simp add: shape_defs)+)
  show v16: "vector_layout cl_float 16 (cl_float16 tg) \<and> is_vector tg cl_float 16 (cl_float8 tg) (cl_float16 tg) \<and> natural tg cl_float 16 (cl_float16 tg)"
    by (rule vector_union [OF cl_float16_def _ _ _ _ conjunct1 [OF v8]], (rule fit_rules | simp add: shape_defs)+)
qed

lemma double_vectors:
  shows "vector_layout cl_double 2 (cl_double2 tg) \<and> is_vector tg cl_double 2 (Scalar cl_double) (cl_double2 tg) \<and> natural tg cl_double 2 (cl_double2 tg)"
    and "vector_layout cl_double 4 (cl_double4 tg) \<and> is_vector tg cl_double 4 (cl_double2 tg) (cl_double4 tg) \<and> natural tg cl_double 4 (cl_double4 tg)"
    and "vector_layout cl_double 8 (cl_double8 tg) \<and> is_vector tg cl_double 8 (cl_double4 tg) (cl_double8 tg) \<and> natural tg cl_double 8 (cl_double8 tg)"
    and "vector_layout cl_double 16 (cl_double16 tg) \<and> is_vector tg cl_double 16 (cl_double8 tg) (cl_double16 tg) \<and> natural tg cl_double 16 (cl_double16 tg)"
proof -
  show v2: "vector_layout cl_double 2 (cl_double2 tg) \<and> is_vector tg cl_double 2 (Scalar cl_double) (cl_double2 tg) \<and> natural tg cl_double 2 (cl_double2 tg)"
    by (rule vector_union [OF cl_double2_def _ _ _ _ vector_layout_scalar], (rule fit_rules | simp add: shape_defs)+)
  show v4: "vector_layout cl_double 4 (cl_double4 tg) \<and> is_vector tg cl_double 4 (cl_double2 tg) (cl_double4 tg) \<and> natural tg cl_double 4 (cl_double4 tg)"
    by (rule vector_union [OF cl_double4_def _ _ _ _ conjunct1 [OF v2]], (rule fit_rules | simp add: shape_defs)+)
  show v8: "vector_layout cl_double 8 (cl_double8 tg) \<and> is_vector tg cl_double 8 (cl_double4 tg) (cl_double8 tg) \<and> natural tg cl_double 8 (cl_double8 tg)"
    by (rule vector_union [OF cl_double8_def _ _ _ _ conjunct1 [OF v4]], (rule fit_rules | simp add: shape_defs)+)
  show v16: "vector_layout cl_double 16 (cl_double16 tg) \<and> is_vector tg cl_double 16 (cl_double8 tg) (cl_double16 tg) \<and> natural tg cl_double 16 (cl_double16 tg)"
    by (rule vector_union [OF cl_double16_def _ _ _ _ conjunct1 [OF v8]], (rule fit_rules | simp add: shape_defs)+)
qed

lemmas all_vectors = char_vectors uchar_vectors short_vectors ushort_vectors half_vectors int_vectors uint_vectors long_vectors ulong_vectors float_vectors double_vectors

text \<open>C38: for every compiler, language mode and instruction set, each of the 44 vector types has the size of its
  elements, and all the ways to name an element name the same bytes: where anonymous structs exist \<open>v.s0\<close> to \<open>v.sF\<close>,
  \<open>v.sa\<close> to \<open>v.sf\<close>, \<open>v.x\<close> to \<open>v.w\<close> and \<open>v.s[i]\<close> are the same elements in the same order, \<open>v.lo\<close> and \<open>v.hi\<close> are
  the two halves, of the type of half as many elements; and every native member the target adds starts at the first
  element and is a vector, or an array of vectors, of the element type that fills the type.  No two members share a name
  and none but the spacers is left over.\<close>

theorem vector_views_agree:
  "list_all (\<lambda>(e, n, h, t). is_vector tg e n h t) (vector_types tg)"
  by (simp add: vector_types_def all_vectors)

text \<open>With a compiler that has the alignment attribute every vector type is as large as its
  elements and aligned to its own size, as OpenCL requires of kernel arguments, and the types of
  three elements are those of four.\<close>

theorem vectors_naturally_aligned:
  assumes "gnuc tg \<or> integrity tg"
  shows "list_all (\<lambda>(e, n, h, t). sizeof t = n * scalar_size e \<and> alignof t = n * scalar_size e) (vector_types tg) \<and>
    list_all (\<lambda>(e, t). sizeof t = 4 * scalar_size e \<and> alignof t = 4 * scalar_size e) (vector3_types tg)"
proof -
  have *: "sizeof t = n * scalar_size e \<and> alignof t = n * scalar_size e"
    if "vector_layout e n t \<and> is_vector tg e n h t \<and> natural tg e n t" for e n h t
    using that assms by (auto simp: is_vector_def natural_def)
  show ?thesis unfolding vector_types_def vector3_types_def cl_char3_def cl_uchar3_def cl_short3_def cl_ushort3_def cl_half3_def cl_int3_def cl_uint3_def cl_long3_def cl_ulong3_def cl_float3_def cl_double3_def
    by (simp only: list.pred_inject case_prod_conv all_vectors [THEN *] simp_thms)
qed

definition linux_gcc :: target where
  "linux_gcc = \<lparr>gnuc = True, integrity = False, clang = False, win32_msc = False, cplusplus = False,
     stdc = True, stdc_11 = True, strict_ansi = False, vec = False, sse = True, sse2 = True,
     mmx = True, avx = False\<rparr>"

theorem vectors_naturally_aligned_witness:
  "sizeof (cl_float4 linux_gcc) = 16 \<and> alignof (cl_float4 linux_gcc) = 16"
  using vectors_naturally_aligned [of linux_gcc] by (simp add: linux_gcc_def vector_types_def)

end
