(* ===== verification/HppInfo.thy ===== *)
theory HppInfo
  imports ClPlatform CType "HOL-Library.Sublist"
begin

text \<open>
  Queries through the C++ binding (\<open>include/CL/opencl.hpp\<close>): the table that gives every parameter
  its C++ type (\<open>CL_HPP_PARAM_NAME_INFO_*\<close> and \<open>param_traits\<close>), the overloads of \<open>getInfoHelper\<close>,
  one per kind of type, and \<open>Device::getInfo\<close> over this driver's \<open>clGetDeviceInfo\<close>.  Values are
  bytes, as in the driver's model; exceptions are off, the header's default.
\<close>

section \<open>Types of parameters\<close>

text \<open>The typedefs of \<open>cl.h\<close>, with the version from which they exist.\<close>

definition cl_typedefs :: "(nat \<times> string \<times> string) list" where
  "cl_typedefs =
     [(100, ''cl_bool'', ''cl_uint''),
      (100, ''cl_bitfield'', ''cl_ulong''),
      (100, ''cl_properties'', ''cl_ulong''),
      (100, ''cl_device_type'', ''cl_bitfield''),
      (100, ''cl_platform_info'', ''cl_uint''),
      (100, ''cl_device_info'', ''cl_uint''),
      (100, ''cl_device_fp_config'', ''cl_bitfield''),
      (100, ''cl_device_mem_cache_type'', ''cl_uint''),
      (100, ''cl_device_local_mem_type'', ''cl_uint''),
      (100, ''cl_device_exec_capabilities'', ''cl_bitfield''),
      (200, ''cl_device_svm_capabilities'', ''cl_bitfield''),
      (100, ''cl_command_queue_properties'', ''cl_bitfield''),
      (120, ''cl_device_partition_property'', ''intptr_t''),
      (120, ''cl_device_affinity_domain'', ''cl_bitfield''),
      (100, ''cl_context_properties'', ''intptr_t''),
      (100, ''cl_context_info'', ''cl_uint''),
      (200, ''cl_queue_properties'', ''cl_properties''),
      (100, ''cl_command_queue_info'', ''cl_uint''),
      (100, ''cl_channel_order'', ''cl_uint''),
      (100, ''cl_channel_type'', ''cl_uint''),
      (100, ''cl_mem_flags'', ''cl_bitfield''),
      (200, ''cl_svm_mem_flags'', ''cl_bitfield''),
      (100, ''cl_mem_object_type'', ''cl_uint''),
      (100, ''cl_mem_info'', ''cl_uint''),
      (120, ''cl_mem_migration_flags'', ''cl_bitfield''),
      (100, ''cl_image_info'', ''cl_uint''),
      (110, ''cl_buffer_create_type'', ''cl_uint''),
      (100, ''cl_addressing_mode'', ''cl_uint''),
      (100, ''cl_filter_mode'', ''cl_uint''),
      (100, ''cl_sampler_info'', ''cl_uint''),
      (100, ''cl_map_flags'', ''cl_bitfield''),
      (200, ''cl_pipe_properties'', ''intptr_t''),
      (200, ''cl_pipe_info'', ''cl_uint''),
      (100, ''cl_program_info'', ''cl_uint''),
      (100, ''cl_program_build_info'', ''cl_uint''),
      (120, ''cl_program_binary_type'', ''cl_uint''),
      (100, ''cl_build_status'', ''cl_int''),
      (100, ''cl_kernel_info'', ''cl_uint''),
      (120, ''cl_kernel_arg_info'', ''cl_uint''),
      (120, ''cl_kernel_arg_address_qualifier'', ''cl_uint''),
      (120, ''cl_kernel_arg_access_qualifier'', ''cl_uint''),
      (120, ''cl_kernel_arg_type_qualifier'', ''cl_bitfield''),
      (100, ''cl_kernel_work_group_info'', ''cl_uint''),
      (210, ''cl_kernel_sub_group_info'', ''cl_uint''),
      (100, ''cl_event_info'', ''cl_uint''),
      (100, ''cl_command_type'', ''cl_uint''),
      (100, ''cl_profiling_info'', ''cl_uint'')]"

text \<open>\<open>string\<close>, \<open>vector<t>\<close>, \<open>array<size_type, 3>\<close>, a class that wraps an object, and any other
  type by its name.\<close>

datatype cpp_type = Plain string | Str | Vec cpp_type | SizeArray | Handle string

type_synonym param_info = "string \<times> u32 \<times> cpp_type"

text \<open>Sizes on the 64-bit targets the driver is built for.\<close>

definition base_sizes :: "(string \<times> nat) list" where
  "base_sizes =
     [(''cl_int'', scalar_size cl_int), (''cl_uint'', scalar_size cl_uint), (''cl_ulong'', scalar_size cl_ulong),
      (''intptr_t'', 8), (''size_type'', 8), (''void*'', 8), (''void**'', 8), (''unsigned char'', 1),
      (''cl_image_format'', 8), (''cl_name_version'', 68)]"

fun plain_size :: "nat \<Rightarrow> string \<Rightarrow> nat option" where
  "plain_size fuel t =
     (case map_of base_sizes t of
        Some n \<Rightarrow> Some n
      | None \<Rightarrow>
          (case fuel of
             0 \<Rightarrow> None
           | Suc fuel' \<Rightarrow>
               (case map_of (map snd cl_typedefs) t of None \<Rightarrow> None | Some b \<Rightarrow> plain_size fuel' b)))"

declare plain_size.simps [simp del]

definition CL_DEVICE_HALF_FP_CONFIG :: u32 where "CL_DEVICE_HALF_FP_CONFIG = 0x1033"
definition CL_DEVICE_IL_VERSION_KHR :: u32 where "CL_DEVICE_IL_VERSION_KHR = 0x105B"
definition CL_PROGRAM_IL_KHR :: u32 where "CL_PROGRAM_IL_KHR = 0x1169"
definition CL_KERNEL_MAX_SUB_GROUP_SIZE_FOR_NDRANGE_KHR :: u32 where
  "CL_KERNEL_MAX_SUB_GROUP_SIZE_FOR_NDRANGE_KHR = 0x2033"
definition CL_KERNEL_SUB_GROUP_COUNT_FOR_NDRANGE_KHR :: u32 where
  "CL_KERNEL_SUB_GROUP_COUNT_FOR_NDRANGE_KHR = 0x2034"

definition CL_HPP_PARAM_NAME_INFO_1_0 :: "param_info list" where
  "CL_HPP_PARAM_NAME_INFO_1_0 =
     [(''cl_platform_info'', CL_PLATFORM_PROFILE, Str),
      (''cl_platform_info'', CL_PLATFORM_VERSION, Str),
      (''cl_platform_info'', CL_PLATFORM_NAME, Str),
      (''cl_platform_info'', CL_PLATFORM_VENDOR, Str),
      (''cl_platform_info'', CL_PLATFORM_EXTENSIONS, Str),
      (''cl_device_info'', CL_DEVICE_TYPE, Plain ''cl_device_type''),
      (''cl_device_info'', CL_DEVICE_VENDOR_ID, Plain ''cl_uint''),
      (''cl_device_info'', CL_DEVICE_MAX_COMPUTE_UNITS, Plain ''cl_uint''),
      (''cl_device_info'', CL_DEVICE_MAX_WORK_ITEM_DIMENSIONS, Plain ''cl_uint''),
      (''cl_device_info'', CL_DEVICE_MAX_WORK_GROUP_SIZE, Plain ''size_type''),
      (''cl_device_info'', CL_DEVICE_MAX_WORK_ITEM_SIZES, Vec (Plain ''size_type'')),
      (''cl_device_info'', CL_DEVICE_PREFERRED_VECTOR_WIDTH_CHAR, Plain ''cl_uint''),
      (''cl_device_info'', CL_DEVICE_PREFERRED_VECTOR_WIDTH_SHORT, Plain ''cl_uint''),
      (''cl_device_info'', CL_DEVICE_PREFERRED_VECTOR_WIDTH_INT, Plain ''cl_uint''),
      (''cl_device_info'', CL_DEVICE_PREFERRED_VECTOR_WIDTH_LONG, Plain ''cl_uint''),
      (''cl_device_info'', CL_DEVICE_PREFERRED_VECTOR_WIDTH_FLOAT, Plain ''cl_uint''),
      (''cl_device_info'', CL_DEVICE_PREFERRED_VECTOR_WIDTH_DOUBLE, Plain ''cl_uint''),
      (''cl_device_info'', CL_DEVICE_MAX_CLOCK_FREQUENCY, Plain ''cl_uint''),
      (''cl_device_info'', CL_DEVICE_ADDRESS_BITS, Plain ''cl_uint''),
      (''cl_device_info'', CL_DEVICE_MAX_READ_IMAGE_ARGS, Plain ''cl_uint''),
      (''cl_device_info'', CL_DEVICE_MAX_WRITE_IMAGE_ARGS, Plain ''cl_uint''),
      (''cl_device_info'', CL_DEVICE_MAX_MEM_ALLOC_SIZE, Plain ''cl_ulong''),
      (''cl_device_info'', CL_DEVICE_IMAGE2D_MAX_WIDTH, Plain ''size_type''),
      (''cl_device_info'', CL_DEVICE_IMAGE2D_MAX_HEIGHT, Plain ''size_type''),
      (''cl_device_info'', CL_DEVICE_IMAGE3D_MAX_WIDTH, Plain ''size_type''),
      (''cl_device_info'', CL_DEVICE_IMAGE3D_MAX_HEIGHT, Plain ''size_type''),
      (''cl_device_info'', CL_DEVICE_IMAGE3D_MAX_DEPTH, Plain ''size_type''),
      (''cl_device_info'', CL_DEVICE_IMAGE_SUPPORT, Plain ''cl_bool''),
      (''cl_device_info'', CL_DEVICE_MAX_PARAMETER_SIZE, Plain ''size_type''),
      (''cl_device_info'', CL_DEVICE_MAX_SAMPLERS, Plain ''cl_uint''),
      (''cl_device_info'', CL_DEVICE_MEM_BASE_ADDR_ALIGN, Plain ''cl_uint''),
      (''cl_device_info'', CL_DEVICE_MIN_DATA_TYPE_ALIGN_SIZE, Plain ''cl_uint''),
      (''cl_device_info'', CL_DEVICE_SINGLE_FP_CONFIG, Plain ''cl_device_fp_config''),
      (''cl_device_info'', CL_DEVICE_DOUBLE_FP_CONFIG, Plain ''cl_device_fp_config''),
      (''cl_device_info'', CL_DEVICE_HALF_FP_CONFIG, Plain ''cl_device_fp_config''),
      (''cl_device_info'', CL_DEVICE_GLOBAL_MEM_CACHE_TYPE, Plain ''cl_device_mem_cache_type''),
      (''cl_device_info'', CL_DEVICE_GLOBAL_MEM_CACHELINE_SIZE, Plain ''cl_uint''),
      (''cl_device_info'', CL_DEVICE_GLOBAL_MEM_CACHE_SIZE, Plain ''cl_ulong''),
      (''cl_device_info'', CL_DEVICE_GLOBAL_MEM_SIZE, Plain ''cl_ulong''),
      (''cl_device_info'', CL_DEVICE_MAX_CONSTANT_BUFFER_SIZE, Plain ''cl_ulong''),
      (''cl_device_info'', CL_DEVICE_MAX_CONSTANT_ARGS, Plain ''cl_uint''),
      (''cl_device_info'', CL_DEVICE_LOCAL_MEM_TYPE, Plain ''cl_device_local_mem_type''),
      (''cl_device_info'', CL_DEVICE_LOCAL_MEM_SIZE, Plain ''cl_ulong''),
      (''cl_device_info'', CL_DEVICE_ERROR_CORRECTION_SUPPORT, Plain ''cl_bool''),
      (''cl_device_info'', CL_DEVICE_PROFILING_TIMER_RESOLUTION, Plain ''size_type''),
      (''cl_device_info'', CL_DEVICE_ENDIAN_LITTLE, Plain ''cl_bool''),
      (''cl_device_info'', CL_DEVICE_AVAILABLE, Plain ''cl_bool''),
      (''cl_device_info'', CL_DEVICE_COMPILER_AVAILABLE, Plain ''cl_bool''),
      (''cl_device_info'', CL_DEVICE_EXECUTION_CAPABILITIES,
        Plain ''cl_device_exec_capabilities''),
      (''cl_device_info'', CL_DEVICE_PLATFORM, Handle ''Platform''),
      (''cl_device_info'', CL_DEVICE_NAME, Str),
      (''cl_device_info'', CL_DEVICE_VENDOR, Str),
      (''cl_device_info'', CL_DRIVER_VERSION, Str),
      (''cl_device_info'', CL_DEVICE_PROFILE, Str),
      (''cl_device_info'', CL_DEVICE_VERSION, Str),
      (''cl_device_info'', CL_DEVICE_EXTENSIONS, Str),
      (''cl_context_info'', CL_CONTEXT_REFERENCE_COUNT, Plain ''cl_uint''),
      (''cl_context_info'', CL_CONTEXT_DEVICES, Vec (Handle ''Device'')),
      (''cl_context_info'', CL_CONTEXT_PROPERTIES, Vec (Plain ''cl_context_properties'')),
      (''cl_event_info'', CL_EVENT_COMMAND_QUEUE, Handle ''CommandQueue''),
      (''cl_event_info'', CL_EVENT_COMMAND_TYPE, Plain ''cl_command_type''),
      (''cl_event_info'', CL_EVENT_REFERENCE_COUNT, Plain ''cl_uint''),
      (''cl_event_info'', CL_EVENT_COMMAND_EXECUTION_STATUS, Plain ''cl_int''),
      (''cl_profiling_info'', CL_PROFILING_COMMAND_QUEUED, Plain ''cl_ulong''),
      (''cl_profiling_info'', CL_PROFILING_COMMAND_SUBMIT, Plain ''cl_ulong''),
      (''cl_profiling_info'', CL_PROFILING_COMMAND_START, Plain ''cl_ulong''),
      (''cl_profiling_info'', CL_PROFILING_COMMAND_END, Plain ''cl_ulong''),
      (''cl_mem_info'', CL_MEM_TYPE, Plain ''cl_mem_object_type''),
      (''cl_mem_info'', CL_MEM_FLAGS, Plain ''cl_mem_flags''),
      (''cl_mem_info'', CL_MEM_SIZE, Plain ''size_type''),
      (''cl_mem_info'', CL_MEM_HOST_PTR, Plain ''void*''),
      (''cl_mem_info'', CL_MEM_MAP_COUNT, Plain ''cl_uint''),
      (''cl_mem_info'', CL_MEM_REFERENCE_COUNT, Plain ''cl_uint''),
      (''cl_mem_info'', CL_MEM_CONTEXT, Handle ''Context''),
      (''cl_image_info'', CL_IMAGE_FORMAT, Plain ''cl_image_format''),
      (''cl_image_info'', CL_IMAGE_ELEMENT_SIZE, Plain ''size_type''),
      (''cl_image_info'', CL_IMAGE_ROW_PITCH, Plain ''size_type''),
      (''cl_image_info'', CL_IMAGE_SLICE_PITCH, Plain ''size_type''),
      (''cl_image_info'', CL_IMAGE_WIDTH, Plain ''size_type''),
      (''cl_image_info'', CL_IMAGE_HEIGHT, Plain ''size_type''),
      (''cl_image_info'', CL_IMAGE_DEPTH, Plain ''size_type''),
      (''cl_sampler_info'', CL_SAMPLER_REFERENCE_COUNT, Plain ''cl_uint''),
      (''cl_sampler_info'', CL_SAMPLER_CONTEXT, Handle ''Context''),
      (''cl_sampler_info'', CL_SAMPLER_NORMALIZED_COORDS, Plain ''cl_bool''),
      (''cl_sampler_info'', CL_SAMPLER_ADDRESSING_MODE, Plain ''cl_addressing_mode''),
      (''cl_sampler_info'', CL_SAMPLER_FILTER_MODE, Plain ''cl_filter_mode''),
      (''cl_program_info'', CL_PROGRAM_REFERENCE_COUNT, Plain ''cl_uint''),
      (''cl_program_info'', CL_PROGRAM_CONTEXT, Handle ''Context''),
      (''cl_program_info'', CL_PROGRAM_NUM_DEVICES, Plain ''cl_uint''),
      (''cl_program_info'', CL_PROGRAM_DEVICES, Vec (Handle ''Device'')),
      (''cl_program_info'', CL_PROGRAM_SOURCE, Str),
      (''cl_program_info'', CL_PROGRAM_BINARY_SIZES, Vec (Plain ''size_type'')),
      (''cl_program_info'', CL_PROGRAM_BINARIES, Vec (Vec (Plain ''unsigned char''))),
      (''cl_program_build_info'', CL_PROGRAM_BUILD_STATUS, Plain ''cl_build_status''),
      (''cl_program_build_info'', CL_PROGRAM_BUILD_OPTIONS, Str),
      (''cl_program_build_info'', CL_PROGRAM_BUILD_LOG, Str),
      (''cl_kernel_info'', CL_KERNEL_FUNCTION_NAME, Str),
      (''cl_kernel_info'', CL_KERNEL_NUM_ARGS, Plain ''cl_uint''),
      (''cl_kernel_info'', CL_KERNEL_REFERENCE_COUNT, Plain ''cl_uint''),
      (''cl_kernel_info'', CL_KERNEL_CONTEXT, Handle ''Context''),
      (''cl_kernel_info'', CL_KERNEL_PROGRAM, Handle ''Program''),
      (''cl_kernel_work_group_info'', CL_KERNEL_WORK_GROUP_SIZE, Plain ''size_type''),
      (''cl_kernel_work_group_info'', CL_KERNEL_COMPILE_WORK_GROUP_SIZE, SizeArray),
      (''cl_kernel_work_group_info'', CL_KERNEL_LOCAL_MEM_SIZE, Plain ''cl_ulong''),
      (''cl_command_queue_info'', CL_QUEUE_CONTEXT, Handle ''Context''),
      (''cl_command_queue_info'', CL_QUEUE_DEVICE, Handle ''Device''),
      (''cl_command_queue_info'', CL_QUEUE_REFERENCE_COUNT, Plain ''cl_uint''),
      (''cl_command_queue_info'', CL_QUEUE_PROPERTIES, Plain ''cl_command_queue_properties'')]"

definition CL_HPP_PARAM_NAME_INFO_1_1 :: "param_info list" where
  "CL_HPP_PARAM_NAME_INFO_1_1 =
     [(''cl_context_info'', CL_CONTEXT_NUM_DEVICES, Plain ''cl_uint''),
      (''cl_device_info'', CL_DEVICE_PREFERRED_VECTOR_WIDTH_HALF, Plain ''cl_uint''),
      (''cl_device_info'', CL_DEVICE_NATIVE_VECTOR_WIDTH_CHAR, Plain ''cl_uint''),
      (''cl_device_info'', CL_DEVICE_NATIVE_VECTOR_WIDTH_SHORT, Plain ''cl_uint''),
      (''cl_device_info'', CL_DEVICE_NATIVE_VECTOR_WIDTH_INT, Plain ''cl_uint''),
      (''cl_device_info'', CL_DEVICE_NATIVE_VECTOR_WIDTH_LONG, Plain ''cl_uint''),
      (''cl_device_info'', CL_DEVICE_NATIVE_VECTOR_WIDTH_FLOAT, Plain ''cl_uint''),
      (''cl_device_info'', CL_DEVICE_NATIVE_VECTOR_WIDTH_DOUBLE, Plain ''cl_uint''),
      (''cl_device_info'', CL_DEVICE_NATIVE_VECTOR_WIDTH_HALF, Plain ''cl_uint''),
      (''cl_device_info'', CL_DEVICE_OPENCL_C_VERSION, Str),
      (''cl_mem_info'', CL_MEM_ASSOCIATED_MEMOBJECT, Handle ''Memory''),
      (''cl_mem_info'', CL_MEM_OFFSET, Plain ''size_type''),
      (''cl_kernel_work_group_info'', CL_KERNEL_PREFERRED_WORK_GROUP_SIZE_MULTIPLE,
        Plain ''size_type''),
      (''cl_kernel_work_group_info'', CL_KERNEL_PRIVATE_MEM_SIZE, Plain ''cl_ulong''),
      (''cl_event_info'', CL_EVENT_CONTEXT, Handle ''Context'')]"

definition CL_HPP_PARAM_NAME_INFO_1_2 :: "param_info list" where
  "CL_HPP_PARAM_NAME_INFO_1_2 =
     [(''cl_program_info'', CL_PROGRAM_NUM_KERNELS, Plain ''size_type''),
      (''cl_program_info'', CL_PROGRAM_KERNEL_NAMES, Str),
      (''cl_program_build_info'', CL_PROGRAM_BINARY_TYPE, Plain ''cl_program_binary_type''),
      (''cl_kernel_info'', CL_KERNEL_ATTRIBUTES, Str),
      (''cl_kernel_arg_info'', CL_KERNEL_ARG_ADDRESS_QUALIFIER,
        Plain ''cl_kernel_arg_address_qualifier''),
      (''cl_kernel_arg_info'', CL_KERNEL_ARG_ACCESS_QUALIFIER,
        Plain ''cl_kernel_arg_access_qualifier''),
      (''cl_kernel_arg_info'', CL_KERNEL_ARG_TYPE_NAME, Str),
      (''cl_kernel_arg_info'', CL_KERNEL_ARG_NAME, Str),
      (''cl_kernel_arg_info'', CL_KERNEL_ARG_TYPE_QUALIFIER,
        Plain ''cl_kernel_arg_type_qualifier''),
      (''cl_kernel_work_group_info'', CL_KERNEL_GLOBAL_WORK_SIZE, SizeArray),
      (''cl_device_info'', CL_DEVICE_LINKER_AVAILABLE, Plain ''cl_bool''),
      (''cl_device_info'', CL_DEVICE_IMAGE_MAX_BUFFER_SIZE, Plain ''size_type''),
      (''cl_device_info'', CL_DEVICE_IMAGE_MAX_ARRAY_SIZE, Plain ''size_type''),
      (''cl_device_info'', CL_DEVICE_PARENT_DEVICE, Handle ''Device''),
      (''cl_device_info'', CL_DEVICE_PARTITION_MAX_SUB_DEVICES, Plain ''cl_uint''),
      (''cl_device_info'', CL_DEVICE_PARTITION_PROPERTIES,
        Vec (Plain ''cl_device_partition_property'')),
      (''cl_device_info'', CL_DEVICE_PARTITION_TYPE,
        Vec (Plain ''cl_device_partition_property'')),
      (''cl_device_info'', CL_DEVICE_REFERENCE_COUNT, Plain ''cl_uint''),
      (''cl_device_info'', CL_DEVICE_PREFERRED_INTEROP_USER_SYNC, Plain ''cl_bool''),
      (''cl_device_info'', CL_DEVICE_PARTITION_AFFINITY_DOMAIN,
        Plain ''cl_device_affinity_domain''),
      (''cl_device_info'', CL_DEVICE_BUILT_IN_KERNELS, Str),
      (''cl_device_info'', CL_DEVICE_PRINTF_BUFFER_SIZE, Plain ''size_type''),
      (''cl_image_info'', CL_IMAGE_ARRAY_SIZE, Plain ''size_type''),
      (''cl_image_info'', CL_IMAGE_NUM_MIP_LEVELS, Plain ''cl_uint''),
      (''cl_image_info'', CL_IMAGE_NUM_SAMPLES, Plain ''cl_uint'')]"

definition CL_HPP_PARAM_NAME_INFO_2_0 :: "param_info list" where
  "CL_HPP_PARAM_NAME_INFO_2_0 =
     [(''cl_device_info'', CL_DEVICE_QUEUE_ON_HOST_PROPERTIES,
        Plain ''cl_command_queue_properties''),
      (''cl_device_info'', CL_DEVICE_QUEUE_ON_DEVICE_PROPERTIES,
        Plain ''cl_command_queue_properties''),
      (''cl_device_info'', CL_DEVICE_QUEUE_ON_DEVICE_PREFERRED_SIZE, Plain ''cl_uint''),
      (''cl_device_info'', CL_DEVICE_QUEUE_ON_DEVICE_MAX_SIZE, Plain ''cl_uint''),
      (''cl_device_info'', CL_DEVICE_MAX_ON_DEVICE_QUEUES, Plain ''cl_uint''),
      (''cl_device_info'', CL_DEVICE_MAX_ON_DEVICE_EVENTS, Plain ''cl_uint''),
      (''cl_device_info'', CL_DEVICE_MAX_PIPE_ARGS, Plain ''cl_uint''),
      (''cl_device_info'', CL_DEVICE_PIPE_MAX_ACTIVE_RESERVATIONS, Plain ''cl_uint''),
      (''cl_device_info'', CL_DEVICE_PIPE_MAX_PACKET_SIZE, Plain ''cl_uint''),
      (''cl_device_info'', CL_DEVICE_SVM_CAPABILITIES, Plain ''cl_device_svm_capabilities''),
      (''cl_device_info'', CL_DEVICE_PREFERRED_PLATFORM_ATOMIC_ALIGNMENT, Plain ''cl_uint''),
      (''cl_device_info'', CL_DEVICE_PREFERRED_GLOBAL_ATOMIC_ALIGNMENT, Plain ''cl_uint''),
      (''cl_device_info'', CL_DEVICE_PREFERRED_LOCAL_ATOMIC_ALIGNMENT, Plain ''cl_uint''),
      (''cl_device_info'', CL_DEVICE_IMAGE_PITCH_ALIGNMENT, Plain ''cl_uint''),
      (''cl_device_info'', CL_DEVICE_IMAGE_BASE_ADDRESS_ALIGNMENT, Plain ''cl_uint''),
      (''cl_device_info'', CL_DEVICE_MAX_READ_WRITE_IMAGE_ARGS, Plain ''cl_uint''),
      (''cl_device_info'', CL_DEVICE_MAX_GLOBAL_VARIABLE_SIZE, Plain ''size_type''),
      (''cl_device_info'', CL_DEVICE_GLOBAL_VARIABLE_PREFERRED_TOTAL_SIZE, Plain ''size_type''),
      (''cl_profiling_info'', CL_PROFILING_COMMAND_COMPLETE, Plain ''cl_ulong''),
      (''cl_kernel_exec_info'', CL_KERNEL_EXEC_INFO_SVM_FINE_GRAIN_SYSTEM, Plain ''cl_bool''),
      (''cl_kernel_exec_info'', CL_KERNEL_EXEC_INFO_SVM_PTRS, Plain ''void**''),
      (''cl_command_queue_info'', CL_QUEUE_SIZE, Plain ''cl_uint''),
      (''cl_mem_info'', CL_MEM_USES_SVM_POINTER, Plain ''cl_bool''),
      (''cl_program_build_info'', CL_PROGRAM_BUILD_GLOBAL_VARIABLE_TOTAL_SIZE,
        Plain ''size_type''),
      (''cl_pipe_info'', CL_PIPE_PACKET_SIZE, Plain ''cl_uint''),
      (''cl_pipe_info'', CL_PIPE_MAX_PACKETS, Plain ''cl_uint'')]"

definition CL_HPP_PARAM_NAME_INFO_SUBGROUP_KHR :: "param_info list" where
  "CL_HPP_PARAM_NAME_INFO_SUBGROUP_KHR =
     [(''cl_kernel_sub_group_info'', CL_KERNEL_MAX_SUB_GROUP_SIZE_FOR_NDRANGE_KHR,
        Plain ''size_type''),
      (''cl_kernel_sub_group_info'', CL_KERNEL_SUB_GROUP_COUNT_FOR_NDRANGE_KHR,
        Plain ''size_type'')]"

definition CL_HPP_PARAM_NAME_INFO_IL_KHR :: "param_info list" where
  "CL_HPP_PARAM_NAME_INFO_IL_KHR =
     [(''cl_device_info'', CL_DEVICE_IL_VERSION_KHR, Str),
      (''cl_program_info'', CL_PROGRAM_IL_KHR, Vec (Plain ''unsigned char''))]"

definition CL_HPP_PARAM_NAME_INFO_2_1 :: "param_info list" where
  "CL_HPP_PARAM_NAME_INFO_2_1 =
     [(''cl_platform_info'', CL_PLATFORM_HOST_TIMER_RESOLUTION, Plain ''cl_ulong''),
      (''cl_program_info'', CL_PROGRAM_IL, Vec (Plain ''unsigned char'')),
      (''cl_device_info'', CL_DEVICE_MAX_NUM_SUB_GROUPS, Plain ''cl_uint''),
      (''cl_device_info'', CL_DEVICE_IL_VERSION, Str),
      (''cl_device_info'', CL_DEVICE_SUB_GROUP_INDEPENDENT_FORWARD_PROGRESS, Plain ''cl_bool''),
      (''cl_command_queue_info'', CL_QUEUE_DEVICE_DEFAULT, Handle ''DeviceCommandQueue''),
      (''cl_kernel_sub_group_info'', CL_KERNEL_MAX_SUB_GROUP_SIZE_FOR_NDRANGE,
        Plain ''size_type''),
      (''cl_kernel_sub_group_info'', CL_KERNEL_SUB_GROUP_COUNT_FOR_NDRANGE, Plain ''size_type''),
      (''cl_kernel_sub_group_info'', CL_KERNEL_LOCAL_SIZE_FOR_SUB_GROUP_COUNT, SizeArray),
      (''cl_kernel_sub_group_info'', CL_KERNEL_MAX_NUM_SUB_GROUPS, Plain ''size_type''),
      (''cl_kernel_sub_group_info'', CL_KERNEL_COMPILE_NUM_SUB_GROUPS, Plain ''size_type'')]"

definition CL_HPP_PARAM_NAME_INFO_2_2 :: "param_info list" where
  "CL_HPP_PARAM_NAME_INFO_2_2 =
     [(''cl_program_info'', CL_PROGRAM_SCOPE_GLOBAL_CTORS_PRESENT, Plain ''cl_bool''),
      (''cl_program_info'', CL_PROGRAM_SCOPE_GLOBAL_DTORS_PRESENT, Plain ''cl_bool'')]"

definition CL_HPP_PARAM_NAME_INFO_3_0 :: "param_info list" where
  "CL_HPP_PARAM_NAME_INFO_3_0 =
     [(''cl_platform_info'', CL_PLATFORM_NUMERIC_VERSION, Plain ''cl_version''),
      (''cl_platform_info'', CL_PLATFORM_EXTENSIONS_WITH_VERSION,
        Vec (Plain ''cl_name_version'')),
      (''cl_device_info'', CL_DEVICE_NUMERIC_VERSION, Plain ''cl_version''),
      (''cl_device_info'', CL_DEVICE_EXTENSIONS_WITH_VERSION, Vec (Plain ''cl_name_version'')),
      (''cl_device_info'', CL_DEVICE_ILS_WITH_VERSION, Vec (Plain ''cl_name_version'')),
      (''cl_device_info'', CL_DEVICE_BUILT_IN_KERNELS_WITH_VERSION,
        Vec (Plain ''cl_name_version'')),
      (''cl_device_info'', CL_DEVICE_ATOMIC_MEMORY_CAPABILITIES,
        Plain ''cl_device_atomic_capabilities''),
      (''cl_device_info'', CL_DEVICE_ATOMIC_FENCE_CAPABILITIES,
        Plain ''cl_device_atomic_capabilities''),
      (''cl_device_info'', CL_DEVICE_NON_UNIFORM_WORK_GROUP_SUPPORT, Plain ''cl_bool''),
      (''cl_device_info'', CL_DEVICE_OPENCL_C_ALL_VERSIONS, Vec (Plain ''cl_name_version'')),
      (''cl_device_info'', CL_DEVICE_PREFERRED_WORK_GROUP_SIZE_MULTIPLE, Plain ''size_type''),
      (''cl_device_info'', CL_DEVICE_WORK_GROUP_COLLECTIVE_FUNCTIONS_SUPPORT, Plain ''cl_bool''),
      (''cl_device_info'', CL_DEVICE_GENERIC_ADDRESS_SPACE_SUPPORT, Plain ''cl_bool''),
      (''cl_device_info'', CL_DEVICE_OPENCL_C_FEATURES, Vec (Plain ''cl_name_version'')),
      (''cl_device_info'', CL_DEVICE_DEVICE_ENQUEUE_CAPABILITIES,
        Plain ''cl_device_device_enqueue_capabilities''),
      (''cl_device_info'', CL_DEVICE_PIPE_SUPPORT, Plain ''cl_bool''),
      (''cl_device_info'', CL_DEVICE_LATEST_CONFORMANCE_VERSION_PASSED, Str),
      (''cl_command_queue_info'', CL_QUEUE_PROPERTIES_ARRAY, Vec (Plain ''cl_queue_properties'')),
      (''cl_mem_info'', CL_MEM_PROPERTIES, Vec (Plain ''cl_mem_properties'')),
      (''cl_pipe_info'', CL_PIPE_PROPERTIES, Vec (Plain ''cl_pipe_properties'')),
      (''cl_sampler_info'', CL_SAMPLER_PROPERTIES, Vec (Plain ''cl_sampler_properties''))]"

definition CL_HPP_PARAM_NAME_INFO_1_0_DEPRECATED_IN_2_0 :: "param_info list" where
  "CL_HPP_PARAM_NAME_INFO_1_0_DEPRECATED_IN_2_0 =
     [(''cl_device_info'', CL_DEVICE_QUEUE_PROPERTIES, Plain ''cl_command_queue_properties'')]"

definition CL_HPP_PARAM_NAME_INFO_1_1_DEPRECATED_IN_2_0 :: "param_info list" where
  "CL_HPP_PARAM_NAME_INFO_1_1_DEPRECATED_IN_2_0 =
     [(''cl_device_info'', CL_DEVICE_HOST_UNIFIED_MEMORY, Plain ''cl_bool'')]"

definition CL_HPP_PARAM_NAME_INFO_1_2_DEPRECATED_IN_2_0 :: "param_info list" where
  "CL_HPP_PARAM_NAME_INFO_1_2_DEPRECATED_IN_2_0 =
     [(''cl_image_info'', CL_IMAGE_BUFFER, Handle ''Buffer'')]"

text \<open>The specialisations of \<open>param_traits\<close> that the header declares for a target and a minimum
  version (times 100) and two extensions.\<close>

definition param_traits :: "nat \<Rightarrow> nat \<Rightarrow> bool \<Rightarrow> bool \<Rightarrow> param_info list" where
  "param_traits target_version minimum_version cl_khr_subgroups cl_khr_il_program =
     CL_HPP_PARAM_NAME_INFO_1_0 @
     (if target_version \<ge> 110 then CL_HPP_PARAM_NAME_INFO_1_1 else []) @
     (if target_version \<ge> 120 then CL_HPP_PARAM_NAME_INFO_1_2 else []) @
     (if target_version \<ge> 200 then CL_HPP_PARAM_NAME_INFO_2_0 else []) @
     (if target_version \<ge> 210 then CL_HPP_PARAM_NAME_INFO_2_1 else []) @
     (if target_version \<ge> 220 then CL_HPP_PARAM_NAME_INFO_2_2 else []) @
     (if target_version \<ge> 300 then CL_HPP_PARAM_NAME_INFO_3_0 else []) @
     (if cl_khr_subgroups \<and> target_version < 210 then CL_HPP_PARAM_NAME_INFO_SUBGROUP_KHR else []) @
     (if cl_khr_il_program \<and> target_version < 210 then CL_HPP_PARAM_NAME_INFO_IL_KHR else []) @
     (if target_version > 100 \<and> minimum_version < 200 \<and> target_version < 200
      then CL_HPP_PARAM_NAME_INFO_1_0_DEPRECATED_IN_2_0 else []) @
     (if target_version > 110 \<and> minimum_version < 200
      then CL_HPP_PARAM_NAME_INFO_1_1_DEPRECATED_IN_2_0 else []) @
     (if target_version > 120 \<and> minimum_version < 200
      then CL_HPP_PARAM_NAME_INFO_1_2_DEPRECATED_IN_2_0 else [])"

section \<open>The helpers\<close>

text \<open>The query function with its object bound.\<close>

type_synonym query = "u32 \<Rightarrow> u64 \<Rightarrow> u8 list option \<Rightarrow> (int \<times> u64 option \<times> u8 list option) option"

text \<open>\<open>param\<close> is the memory of the result before the call; the size is that of its type.\<close>

definition getInfo_value :: "query \<Rightarrow> u32 \<Rightarrow> u8 list \<Rightarrow> (int \<times> u8 list) option" where
  "getInfo_value f name param =
     (case f name (of_nat (length param)) (Some param) of
        Some (err, _, Some out) \<Rightarrow> Some (err, out)
      | _ \<Rightarrow> None)"

text \<open>The common part of the helpers that ask for the size first; \<open>n\<close> is the number of bytes of the
  temporary, a function of the size.  After an answer without a size \<open>required\<close> is uninitialised.\<close>

definition ask_twice :: "query \<Rightarrow> u32 \<Rightarrow> (nat \<Rightarrow> nat) \<Rightarrow> (int + u8 list) option" where
  "ask_twice f name n =
     (case f name 0 None of
        None \<Rightarrow> None
      | Some (err, req, _) \<Rightarrow>
          if err \<noteq> CL_SUCCESS then Some (Inl err)
          else case req of
            None \<Rightarrow> None
          | Some required \<Rightarrow>
              (case f name required (Some (replicate (n (unat required)) 0)) of
                 None \<Rightarrow> None
               | Some (err, _, out) \<Rightarrow>
                   if err \<noteq> CL_SUCCESS then Some (Inl err)
                   else (case out of None \<Rightarrow> None | Some value \<Rightarrow> Some (Inr value))))"

definition getInfo_vector :: "query \<Rightarrow> u32 \<Rightarrow> nat \<Rightarrow> u8 list \<Rightarrow> (int \<times> u8 list) option" where
  "getInfo_vector f name elem_size param =
     (case ask_twice f name (\<lambda>required. required div elem_size * elem_size) of
        None \<Rightarrow> None
      | Some (Inl err) \<Rightarrow> Some (err, param)
      | Some (Inr localData) \<Rightarrow> Some (CL_SUCCESS, localData))"

text \<open>\<open>assign(value.begin(), value.end() - 1)\<close>; for a size of 0 the string is empty and there is no
  second call.\<close>

definition getInfo_string :: "query \<Rightarrow> u32 \<Rightarrow> string \<Rightarrow> (int \<times> string) option" where
  "getInfo_string f name param =
     (case f name 0 None of
        None \<Rightarrow> None
      | Some (err, req, _) \<Rightarrow>
          if err = CL_SUCCESS \<and> req = Some 0 then Some (CL_SUCCESS, [])
          else
            (case ask_twice f name (\<lambda>required. required) of
               None \<Rightarrow> None
             | Some (Inl err) \<Rightarrow> Some (err, param)
             | Some (Inr value) \<Rightarrow> Some (CL_SUCCESS, map (\<lambda>b. char_of (unat b)) (butlast value))))"

text \<open>\<open>array<size_type, N>\<close>: at most the elements of the array are copied.\<close>

definition getInfo_array :: "query \<Rightarrow> u32 \<Rightarrow> u8 list \<Rightarrow> (int \<times> u8 list) option" where
  "getInfo_array f name param =
     (case ask_twice f name (\<lambda>required. required div 8 * 8) of
        None \<Rightarrow> None
      | Some (Inl err) \<Rightarrow> Some (err, param)
      | Some (Inr value) \<Rightarrow>
          let n = min (length value div 8) (length param div 8) * 8
          in Some (CL_SUCCESS, take n value @ drop n param))"

text \<open>The overload for each type that holds no objects; \<open>Device::getInfo\<close> passes its object.\<close>

datatype cpp_value = Bytes "u8 list" | Text string

definition getInfo :: "query \<Rightarrow> cpp_type \<Rightarrow> u32 \<Rightarrow> cpp_value \<Rightarrow> (int \<times> cpp_value) option" where
  "getInfo f T name param =
     (case (T, param) of
        (Plain t, Bytes b) \<Rightarrow> map_option (map_prod id Bytes) (getInfo_value f name b)
      | (Str, Text s) \<Rightarrow> map_option (map_prod id Text) (getInfo_string f name s)
      | (Vec (Plain t), Bytes b) \<Rightarrow>
          (case plain_size 3 t of
             None \<Rightarrow> None
           | Some n \<Rightarrow> map_option (map_prod id Bytes) (getInfo_vector f name n b))
      | (SizeArray, Bytes b) \<Rightarrow> map_option (map_prod id Bytes) (getInfo_array f name b)
      | _ \<Rightarrow> None)"

definition Device_getInfo :: "nat \<Rightarrow> cpp_type \<Rightarrow> u32 \<Rightarrow> cpp_value \<Rightarrow> (int \<times> cpp_value) option" where
  "Device_getInfo object T name param = getInfo (clGetDeviceInfo object) T name param"

section \<open>The helpers over a query that keeps the protocol\<close>

context two_call
begin

lemma get_value:
  assumes "f name = query" and "length param = length val"
  shows "getInfo_value f name param = Some (CL_SUCCESS, val)"
proof -
  obtain n where "query (of_nat (length param)) (Some param) = Some (CL_SUCCESS, n, Some (val @ drop (length val) param))"
    using ask_value [of "of_nat (length param)" param] assms(2) by auto
  then show ?thesis using assms by (simp add: getInfo_value_def)
qed

lemma get_twice:
  assumes "f name = query" and "n (length val) = length val"
  shows "ask_twice f name n = Some (Inr val)"
proof -
  have u: "unat (of_nat (length val) :: u64) = length val"
    using val_small by (simp add: unsigned_of_nat take_bit_eq_mod)
  obtain m where "query (of_nat (length val)) (Some (replicate (length val) 0)) =
      Some (CL_SUCCESS, m, Some (val @ drop (length val) (replicate (length val) 0)))"
    using ask_value [of "of_nat (length val)" "replicate (length val) 0"] by auto
  then show ?thesis using assms ask_size [of 0] u by (simp add: ask_twice_def)
qed

lemma get_string:
  assumes "f name = query" and "val \<noteq> []"
  shows "getInfo_string f name s = Some (CL_SUCCESS, map (\<lambda>b. char_of (unat b)) (butlast val))"
proof -
  have "unat (of_nat (length val) :: u64) = length val"
    using val_small by (simp add: unsigned_of_nat take_bit_eq_mod)
  then have "(of_nat (length val) :: u64) \<noteq> 0" using assms(2) by auto
  then show ?thesis
    using assms ask_size [of 0] get_twice [where f = f and name = name and n = "\<lambda>n. n"] by (simp add: getInfo_string_def)
qed

lemma get_vector:
  assumes "f name = query" and "elem_size dvd length val"
  shows "getInfo_vector f name elem_size param = Some (CL_SUCCESS, val)"
  using get_twice [where f = f and name = name and n = "\<lambda>r. r div elem_size * elem_size"] assms
  by (simp add: getInfo_vector_def)

end

lemma unat_of_char: "unat (of_char c :: u8) = of_char c"
proof -
  have "(of_char c :: nat) < 256" using mod_less_divisor [of 256 "of_char c :: nat"] by simp
  moreover have "(of_char c :: u8) = of_nat (of_char c)" by (cases c) (simp add: of_char_def)
  ultimately show ?thesis by (simp only: unsigned_of_nat) (simp add: take_bit_eq_mod)
qed

lemma text_of_string_bytes: "map (\<lambda>b. char_of (unat b)) (butlast (string_bytes s)) = s"
  by (simp add: string_bytes_def unat_of_char comp_def map_idI)

text \<open>This driver's answers are of the declared types.\<close>

definition declared_value :: "cpp_type \<Rightarrow> u8 list \<Rightarrow> bool" where
  "declared_value T val \<longleftrightarrow>
     (case T of Plain t \<Rightarrow> plain_size 3 t = Some (length val) | Str \<Rightarrow> val \<in> range string_bytes | _ \<Rightarrow> False)"

lemma plain_sizes:
  "plain_size 3 ''cl_device_type'' = Some 8" "plain_size 3 ''cl_uint'' = Some 4"
  "plain_size 3 ''size_type'' = Some 8" "plain_size 3 ''cl_ulong'' = Some 8" "plain_size 3 ''cl_bool'' = Some 4"
  by (simp_all add: plain_size.simps numeral_3_eq_3 base_sizes_def cl_typedefs_def)

lemma declared_values:
  "declared_value Str (string_bytes s)" "declared_value (Plain ''cl_device_type'') (value_bytes 8 w)"
  "declared_value (Plain ''cl_uint'') (value_bytes 4 w)" "declared_value (Plain ''size_type'') (value_bytes 8 w)"
  "declared_value (Plain ''cl_ulong'') (value_bytes 8 w)" "declared_value (Plain ''cl_bool'') (value_bytes 4 w)"
  by (simp_all add: declared_value_def plain_sizes)

lemma info_entries:
  "(''cl_device_info'', CL_DEVICE_NAME, Str) \<in> set CL_HPP_PARAM_NAME_INFO_1_0"
  "(''cl_device_info'', CL_DEVICE_VENDOR, Str) \<in> set CL_HPP_PARAM_NAME_INFO_1_0"
  "(''cl_device_info'', CL_DEVICE_TYPE, Plain ''cl_device_type'') \<in> set CL_HPP_PARAM_NAME_INFO_1_0"
  "(''cl_device_info'', CL_DEVICE_MAX_COMPUTE_UNITS, Plain ''cl_uint'') \<in> set CL_HPP_PARAM_NAME_INFO_1_0"
  "(''cl_device_info'', CL_DEVICE_MAX_WORK_ITEM_DIMENSIONS, Plain ''cl_uint'') \<in> set CL_HPP_PARAM_NAME_INFO_1_0"
  "(''cl_device_info'', CL_DEVICE_MAX_WORK_GROUP_SIZE, Plain ''size_type'') \<in> set CL_HPP_PARAM_NAME_INFO_1_0"
  "(''cl_device_info'', CL_DEVICE_GLOBAL_MEM_SIZE, Plain ''cl_ulong'') \<in> set CL_HPP_PARAM_NAME_INFO_1_0"
  "(''cl_device_info'', CL_DEVICE_MAX_MEM_ALLOC_SIZE, Plain ''cl_ulong'') \<in> set CL_HPP_PARAM_NAME_INFO_1_0"
  "(''cl_device_info'', CL_DEVICE_ADDRESS_BITS, Plain ''cl_uint'') \<in> set CL_HPP_PARAM_NAME_INFO_1_0"
  "(''cl_device_info'', CL_DEVICE_AVAILABLE, Plain ''cl_bool'') \<in> set CL_HPP_PARAM_NAME_INFO_1_0"
  "(''cl_device_info'', CL_DEVICE_COMPILER_AVAILABLE, Plain ''cl_bool'') \<in> set CL_HPP_PARAM_NAME_INFO_1_0"
  unfolding CL_HPP_PARAM_NAME_INFO_1_0_def by (simp_all only: list.set insert_iff simp_thms)

lemma device_value_declared:
  assumes "device_value p = Some val"
  shows "\<exists>T. (''cl_device_info'', p, T) \<in> set CL_HPP_PARAM_NAME_INFO_1_0 \<and> declared_value T val"
  using assms unfolding device_value_def
  by (simp only: option.inject split: if_splits) (blast intro: info_entries declared_values)+

section \<open>Properties\<close>

lemma traits_1_0: "set CL_HPP_PARAM_NAME_INFO_1_0 \<subseteq> set (param_traits tv mv sg il)"
  by (auto simp: param_traits_def)

lemma device_info_answer:
  assumes "device_value p = Some val"
  shows "two_call (clGetDeviceInfo g_device_id p) val"
  using device_info.two_call_axioms [of p] assms by (simp add: known_device_def)

lemma getInfo_declared:
  assumes "two_call (f p) val" and "declared_value T val"
  shows "case T of
      Plain t \<Rightarrow> \<forall>param. length param = length val \<longrightarrow> getInfo f T p (Bytes param) = Some (CL_SUCCESS, Bytes val)
    | Str \<Rightarrow> (\<exists>s. val = string_bytes s \<and> (\<forall>t. getInfo f T p (Text t) = Some (CL_SUCCESS, Text s)))
    | _ \<Rightarrow> False"
proof (cases T)
  case (Plain t)
  then show ?thesis using two_call.get_value [OF assms(1), of f p, OF refl] by (simp add: getInfo_def)
next
  case Str
  then obtain s where s: "val = string_bytes s" using assms(2) by (auto simp: declared_value_def)
  then have "val \<noteq> []" by (simp add: string_bytes_def)
  then show ?thesis using two_call.get_string [OF assms(1), of f p, OF refl] Str s
    by (auto simp: getInfo_def text_of_string_bytes)
qed (use assms(2) in \<open>simp_all add: declared_value_def\<close>)

text \<open>C37: Through the C++ binding every device parameter the driver answers has a declared type, in every
  configuration of the header, and \<open>Device::getInfo\<close> returns \<open>CL_SUCCESS\<close> and exactly the driver's
  value: for a plain type its size is the declared one and every byte of the result is
  written, for a string it is the text without the terminating 0.\<close>

theorem device_queries_typed:
  assumes "device_value p = Some val"
  shows "\<exists>T. (''cl_device_info'', p, T) \<in> set (param_traits tv mv sg il) \<and> declared_value T val \<and>
    (case T of
       Plain t \<Rightarrow> \<forall>param. length param = length val \<longrightarrow>
         Device_getInfo g_device_id T p (Bytes param) = Some (CL_SUCCESS, Bytes val)
     | Str \<Rightarrow> (\<exists>s. val = string_bytes s \<and>
         (\<forall>t. Device_getInfo g_device_id T p (Text t) = Some (CL_SUCCESS, Text s)))
     | _ \<Rightarrow> False)"
proof -
  obtain T where T: "(''cl_device_info'', p, T) \<in> set CL_HPP_PARAM_NAME_INFO_1_0" "declared_value T val"
    using device_value_declared [OF assms] by blast
  with traits_1_0 have "(''cl_device_info'', p, T) \<in> set (param_traits tv mv sg il)" by blast
  with T(2) getInfo_declared [where f = "clGetDeviceInfo g_device_id" and p = p, OF device_info_answer [OF assms] T(2)] show ?thesis
    unfolding Device_getInfo_def by blast
qed

theorem device_queries_typed_witness:
  "\<exists>T. (''cl_device_info'', CL_DEVICE_VENDOR, T) \<in> set (param_traits 120 110 False False) \<and>
    declared_value T (string_bytes ''FPGA-GPU'') \<and>
    (case T of
       Plain t \<Rightarrow> \<forall>param. length param = length (string_bytes ''FPGA-GPU'') \<longrightarrow>
         Device_getInfo g_device_id T CL_DEVICE_VENDOR (Bytes param) = Some (CL_SUCCESS, Bytes (string_bytes ''FPGA-GPU''))
     | Str \<Rightarrow> (\<exists>s. string_bytes ''FPGA-GPU'' = string_bytes s \<and>
         (\<forall>t. Device_getInfo g_device_id T CL_DEVICE_VENDOR (Text t) = Some (CL_SUCCESS, Text s)))
     | _ \<Rightarrow> False)"
  by (rule device_queries_typed)
    (simp add: device_value_def g_device_def CL_DEVICE_VENDOR_def CL_DEVICE_NAME_def)

definition traits_values :: "param_info list \<Rightarrow> u32 list" where
  "traits_values ts = map (\<lambda>t. fst (snd t)) ts"

lemma distinct_subseq: "subseq ts us \<Longrightarrow> distinct (traits_values us) \<Longrightarrow> distinct (traits_values ts)"
proof (induction rule: list_emb.induct)
  case (list_emb_Cons2 x y xs ys)
  moreover have "set xs \<subseteq> set ys" using list_emb_Cons2(2) by (auto elim: list_emb_set)
  ultimately show ?case by (auto simp: traits_values_def)
qed (auto simp: traits_values_def)

text \<open>Tables under conditions: each is taken, or left out for a false condition.\<close>

lemma subseq_first: "subseq r r' \<Longrightarrow> subseq (a @ r) (a @ r')"
  by (rule list_emb_append_mono) simp_all

lemma subseq_last: "subseq (if c then a else []) a"
  by simp

lemma subseq_keep: "subseq r r' \<Longrightarrow> subseq ((if c then a else []) @ r) (a @ r')"
  by (rule list_emb_append_mono) simp_all

lemma subseq_skip: "\<not> c \<Longrightarrow> subseq r r' \<Longrightarrow> subseq ((if c then a else []) @ r) r'"
  by simp

lemmas table_defs = CL_HPP_PARAM_NAME_INFO_1_0_def CL_HPP_PARAM_NAME_INFO_1_1_def
  CL_HPP_PARAM_NAME_INFO_1_2_def CL_HPP_PARAM_NAME_INFO_2_0_def CL_HPP_PARAM_NAME_INFO_2_1_def
  CL_HPP_PARAM_NAME_INFO_2_2_def CL_HPP_PARAM_NAME_INFO_3_0_def
  CL_HPP_PARAM_NAME_INFO_SUBGROUP_KHR_def CL_HPP_PARAM_NAME_INFO_IL_KHR_def
  CL_HPP_PARAM_NAME_INFO_1_0_DEPRECATED_IN_2_0_def CL_HPP_PARAM_NAME_INFO_1_1_DEPRECATED_IN_2_0_def
  CL_HPP_PARAM_NAME_INFO_1_2_DEPRECATED_IN_2_0_def

lemmas param_consts = cl_platform_info_defs cl_device_info_defs cl_context_info_defs cl_event_info_defs
  cl_profiling_info_defs cl_mem_info_defs cl_image_info_defs cl_sampler_info_defs cl_program_info_defs
  cl_program_build_info_defs cl_kernel_info_defs cl_kernel_arg_info_defs cl_kernel_work_group_info_defs
  cl_kernel_sub_group_info_defs cl_kernel_exec_info_defs cl_command_queue_info_defs cl_pipe_info_defs
  CL_DEVICE_HALF_FP_CONFIG_def CL_DEVICE_IL_VERSION_KHR_def CL_PROGRAM_IL_KHR_def
  CL_KERNEL_MAX_SUB_GROUP_SIZE_FOR_NDRANGE_KHR_def CL_KERNEL_SUB_GROUP_COUNT_FOR_NDRANGE_KHR_def

text \<open>The largest sets of tables a configuration can include.\<close>

lemma tables_distinct:
  "distinct (traits_values (
    CL_HPP_PARAM_NAME_INFO_1_0 @ CL_HPP_PARAM_NAME_INFO_1_1 @ CL_HPP_PARAM_NAME_INFO_1_2 @
     CL_HPP_PARAM_NAME_INFO_2_0 @ CL_HPP_PARAM_NAME_INFO_2_1 @ CL_HPP_PARAM_NAME_INFO_2_2 @
     CL_HPP_PARAM_NAME_INFO_3_0 @ CL_HPP_PARAM_NAME_INFO_1_1_DEPRECATED_IN_2_0 @
     CL_HPP_PARAM_NAME_INFO_1_2_DEPRECATED_IN_2_0))"
  "distinct (traits_values (
    CL_HPP_PARAM_NAME_INFO_1_0 @ CL_HPP_PARAM_NAME_INFO_1_1 @ CL_HPP_PARAM_NAME_INFO_1_2 @
     CL_HPP_PARAM_NAME_INFO_2_0 @ CL_HPP_PARAM_NAME_INFO_SUBGROUP_KHR @
     CL_HPP_PARAM_NAME_INFO_IL_KHR @ CL_HPP_PARAM_NAME_INFO_1_1_DEPRECATED_IN_2_0 @
     CL_HPP_PARAM_NAME_INFO_1_2_DEPRECATED_IN_2_0))"
  "distinct (traits_values (
    CL_HPP_PARAM_NAME_INFO_1_0 @ CL_HPP_PARAM_NAME_INFO_1_1 @ CL_HPP_PARAM_NAME_INFO_1_2 @
     CL_HPP_PARAM_NAME_INFO_SUBGROUP_KHR @ CL_HPP_PARAM_NAME_INFO_IL_KHR @
     CL_HPP_PARAM_NAME_INFO_1_0_DEPRECATED_IN_2_0 @ CL_HPP_PARAM_NAME_INFO_1_1_DEPRECATED_IN_2_0 @
     CL_HPP_PARAM_NAME_INFO_1_2_DEPRECATED_IN_2_0))"
  by (rule distinct_unat, simp add: traits_values_def table_defs param_consts)+

text \<open>Traits. In every configuration of the header no two specialisations of \<open>param_traits\<close> are for the same
  parameter number: the deprecated names that share a number with a newer one are left out
  exactly when the newer one is in, so the header compiles for every target and minimum version
  and each query has one type.\<close>

theorem traits_unique:
  "distinct (map (\<lambda>t. fst (snd t)) (param_traits target_version minimum_version sg il))"
proof -
  consider (old) "target_version < 200" | (two) "200 \<le> target_version" "target_version < 210" | (new) "210 \<le> target_version"
    by linarith
  then have "distinct (traits_values (param_traits target_version minimum_version sg il))"
  proof cases
    case old
    show ?thesis unfolding param_traits_def
      by (rule distinct_subseq [OF _ tables_distinct(3)])
        (rule subseq_first subseq_last subseq_keep | (rule subseq_skip, use old in simp))+
  next
    case two
    show ?thesis unfolding param_traits_def
      by (rule distinct_subseq [OF _ tables_distinct(2)])
        (rule subseq_first subseq_last subseq_keep | (rule subseq_skip, use two in simp))+
  next
    case new
    show ?thesis unfolding param_traits_def
      by (rule distinct_subseq [OF _ tables_distinct(1)])
        (rule subseq_first subseq_last subseq_keep | (rule subseq_skip, use new in simp))+
  qed
  then show ?thesis by (simp add: traits_values_def)
qed

end
