(* ===== verification/HppWrapper.thy ===== *)
theory HppWrapper
  imports HppInfo
begin

text \<open>
  Ownership in the C++ binding (\<open>include/CL/opencl.hpp\<close>): \<open>detail::Wrapper\<close>, the base class of all
  object classes, over the retain and release functions that \<open>ReferenceHandler\<close> names, and the
  version test that decides whether devices are counted.  A program's wrapper variables are a
  map from variables to the object each holds (0 is \<open>nullptr\<close>); a variable that is not in
  the map does not exist.  An operation yields the new state and the error it throws, if any;
  \<open>None\<close> is undefined behaviour.  Exceptions are a parameter, as in the header.
\<close>

section \<open>Wrapper\<close>

type_synonym 's refop = "nat \<Rightarrow> 's \<Rightarrow> (int \<times> 's) option"

record 's cpp =
  wrappers :: "nat \<Rightarrow> nat option"
  lib :: 's

type_synonym 's outcome = "('s cpp \<times> int option) option"

definition errHandler :: "bool \<Rightarrow> int \<Rightarrow> int option" where
  "errHandler exceptions err = (if exceptions \<and> err \<noteq> CL_SUCCESS then Some err else None)"

text \<open>\<open>retain()\<close> and \<open>release()\<close> of an object, on the library's state.\<close>

definition counted :: "'s refop \<Rightarrow> 's refop" where
  "counted f obj s = (if obj \<noteq> 0 then f obj s else Some (CL_SUCCESS, s))"

definition set_object :: "nat \<Rightarrow> nat \<Rightarrow> 's cpp \<Rightarrow> 's cpp" where
  "set_object v obj c = c\<lparr>wrappers := (wrappers c)(v \<mapsto> obj)\<rparr>"

definition drop_wrapper :: "nat \<Rightarrow> 's cpp \<Rightarrow> 's cpp" where
  "drop_wrapper v c = c\<lparr>wrappers := (wrappers c)(v := None)\<rparr>"

definition Wrapper_default :: "nat \<Rightarrow> 's cpp \<Rightarrow> 's outcome" where
  "Wrapper_default v c = Some (set_object v 0 c, None)"

text \<open>A constructor that throws leaves no object behind.\<close>

definition Wrapper_object :: "bool \<Rightarrow> 's refop \<Rightarrow> nat \<Rightarrow> nat \<Rightarrow> bool \<Rightarrow> 's cpp \<Rightarrow> 's outcome" where
  "Wrapper_object ex ret v obj retainObject c =
     (if retainObject then
        (case counted ret obj (lib c) of
           None \<Rightarrow> None
         | Some (err, s) \<Rightarrow>
             (case errHandler ex err of
                None \<Rightarrow> Some (set_object v obj (c\<lparr>lib := s\<rparr>), None)
              | Some e \<Rightarrow> Some (c\<lparr>lib := s\<rparr>, Some e)))
      else Some (set_object v obj c, None))"

definition Wrapper_destroy :: "'s refop \<Rightarrow> nat \<Rightarrow> 's cpp \<Rightarrow> 's outcome" where
  "Wrapper_destroy rel v c =
     (case wrappers c v of
        None \<Rightarrow> None
      | Some obj \<Rightarrow>
          if obj \<noteq> 0 then
            (case counted rel obj (lib c) of
               None \<Rightarrow> None
             | Some (_, s) \<Rightarrow> Some (drop_wrapper v (c\<lparr>lib := s\<rparr>), None))
          else Some (drop_wrapper v c, None))"

definition Wrapper_copy :: "bool \<Rightarrow> 's refop \<Rightarrow> nat \<Rightarrow> nat \<Rightarrow> 's cpp \<Rightarrow> 's outcome" where
  "Wrapper_copy ex ret v rhs c =
     (case wrappers c rhs of
        None \<Rightarrow> None
      | Some obj \<Rightarrow>
          (case counted ret obj (lib c) of
             None \<Rightarrow> None
           | Some (err, s) \<Rightarrow>
               (case errHandler ex err of
                  None \<Rightarrow> Some (set_object v obj (c\<lparr>lib := s\<rparr>), None)
                | Some e \<Rightarrow> Some (c\<lparr>lib := s\<rparr>, Some e))))"

definition Wrapper_move :: "nat \<Rightarrow> nat \<Rightarrow> 's cpp \<Rightarrow> 's outcome" where
  "Wrapper_move v rhs c =
     (case wrappers c rhs of
        None \<Rightarrow> None
      | Some obj \<Rightarrow> Some (set_object rhs 0 (set_object v obj c), None))"

text \<open>The assignments release the object they hold first; what follows is their continuation.\<close>

definition release_held :: "bool \<Rightarrow> 's refop \<Rightarrow> nat \<Rightarrow> ('s cpp \<Rightarrow> 's outcome) \<Rightarrow> 's cpp \<Rightarrow> 's outcome" where
  "release_held ex rel v rest c =
     (case wrappers c v of
        None \<Rightarrow> None
      | Some old \<Rightarrow>
          (case counted rel old (lib c) of
             None \<Rightarrow> None
           | Some (err, s) \<Rightarrow>
               (case errHandler ex err of
                  None \<Rightarrow> rest (c\<lparr>lib := s\<rparr>)
                | Some e \<Rightarrow> Some (c\<lparr>lib := s\<rparr>, Some e))))"

definition assign_copy :: "bool \<Rightarrow> 's refop \<Rightarrow> 's refop \<Rightarrow> nat \<Rightarrow> nat \<Rightarrow> 's cpp \<Rightarrow> 's outcome" where
  "assign_copy ex ret rel v rhs c =
     (if v \<noteq> rhs then
        release_held ex rel v (\<lambda>c.
          case wrappers c rhs of
            None \<Rightarrow> None
          | Some obj \<Rightarrow>
              (case counted ret obj (lib c) of
                 None \<Rightarrow> None
               | Some (err, s) \<Rightarrow> Some (set_object v obj (c\<lparr>lib := s\<rparr>), errHandler ex err))) c
      else if wrappers c v = None then None else Some (c, None))"

definition assign_move :: "bool \<Rightarrow> 's refop \<Rightarrow> nat \<Rightarrow> nat \<Rightarrow> 's cpp \<Rightarrow> 's outcome" where
  "assign_move ex rel v rhs c =
     (if v \<noteq> rhs then
        release_held ex rel v (\<lambda>c.
          case wrappers c rhs of
            None \<Rightarrow> None
          | Some obj \<Rightarrow> Some (set_object rhs 0 (set_object v obj c), None)) c
      else if wrappers c v = None then None else Some (c, None))"

definition assign_object :: "bool \<Rightarrow> 's refop \<Rightarrow> nat \<Rightarrow> nat \<Rightarrow> 's cpp \<Rightarrow> 's outcome" where
  "assign_object ex rel v obj c = release_held ex rel v (\<lambda>c. Some (set_object v obj c, None)) c"

text \<open>\<open>getInfoHelper\<close> for a wrapped object, once the query has answered with \<open>value\<close>: it is assigned
  without a reference and then retained; the error of the retain is returned, not thrown here.\<close>

definition getInfo_object :: "bool \<Rightarrow> 's refop \<Rightarrow> 's refop \<Rightarrow> nat \<Rightarrow> nat \<Rightarrow> 's cpp \<Rightarrow> 's outcome" where
  "getInfo_object ex ret rel v value c =
     (case assign_object ex rel v value c of
        None \<Rightarrow> None
      | Some (c, Some e) \<Rightarrow> Some (c, Some e)
      | Some (c, None) \<Rightarrow>
          if value \<noteq> 0 then
            (case counted ret value (lib c) of
               None \<Rightarrow> None
             | Some (err, s) \<Rightarrow> Some (c\<lparr>lib := s\<rparr>, None))
          else Some (c, None))"

section \<open>Programs\<close>

text \<open>What a program does with its wrappers.  \<open>Adopt\<close> is the constructor that takes over a reference,
  \<open>Share\<close> the one that takes its own; \<open>Raw\<close> is any use of the library on references the program
  holds outside wrappers.\<close>

datatype 's wop =
    Default nat
  | Adopt nat nat
  | Share nat nat
  | Copy nat nat
  | Move nat nat
  | Destroy nat
  | AssignCopy nat nat
  | AssignMove nat nat
  | AssignObject nat nat
  | InfoObject nat nat
  | Raw 's

definition wstep :: "bool \<Rightarrow> 's refop \<Rightarrow> 's refop \<Rightarrow> 's wop \<Rightarrow> 's cpp \<Rightarrow> 's outcome" where
  "wstep ex ret rel op c =
     (case op of
        Default v \<Rightarrow> Wrapper_default v c
      | Adopt v p \<Rightarrow> Wrapper_object ex ret v p False c
      | Share v p \<Rightarrow> Wrapper_object ex ret v p True c
      | Copy v r \<Rightarrow> Wrapper_copy ex ret v r c
      | Move v r \<Rightarrow> Wrapper_move v r c
      | Destroy v \<Rightarrow> Wrapper_destroy rel v c
      | AssignCopy v r \<Rightarrow> assign_copy ex ret rel v r c
      | AssignMove v r \<Rightarrow> assign_move ex rel v r c
      | AssignObject v p \<Rightarrow> assign_object ex rel v p c
      | InfoObject v p \<Rightarrow> getInfo_object ex ret rel v p c
      | Raw s \<Rightarrow> Some (c\<lparr>lib := s\<rparr>, None))"

text \<open>A program stops at the first exception.\<close>

fun wrun :: "bool \<Rightarrow> 's refop \<Rightarrow> 's refop \<Rightarrow> 's wop list \<Rightarrow> 's cpp \<Rightarrow> 's outcome" where
  "wrun ex ret rel [] c = Some (c, None)"
| "wrun ex ret rel (op # ops) c =
     (case wstep ex ret rel op c of
        None \<Rightarrow> None
      | Some (c', Some e) \<Rightarrow> Some (c', Some e)
      | Some (c', None) \<Rightarrow> wrun ex ret rel ops c')"

section \<open>Ownership\<close>

text \<open>The wrappers that hold an object, and what the program may do while it holds \<open>own p\<close> further
  references to \<open>p\<close>: variables are created once and used while they exist, a constructor or
  assignment that takes over a reference is given one, a new reference is taken only of a live
  object whose count has room.\<close>

definition holders :: "'s cpp \<Rightarrow> nat \<Rightarrow> nat" where
  "holders c p = card {v. wrappers c v = Some p}"

definition give :: "nat \<Rightarrow> (nat \<Rightarrow> nat) \<Rightarrow> nat \<Rightarrow> nat" where
  "give p own = (if p = 0 then own else own(p := own p - 1))"

definition may_retain :: "('s \<Rightarrow> nat \<Rightarrow> nat) \<Rightarrow> nat \<Rightarrow> nat \<Rightarrow> 's cpp \<Rightarrow> bool" where
  "may_retain count limit p c \<longleftrightarrow> p = 0 \<or> (0 < count (lib c) p \<and> count (lib c) p < limit)"

definition legal :: "('s \<Rightarrow> nat \<Rightarrow> nat) \<Rightarrow> nat \<Rightarrow> 's wop \<Rightarrow> 's cpp \<Rightarrow> (nat \<Rightarrow> nat) \<Rightarrow> (nat \<Rightarrow> nat) \<Rightarrow> bool" where
  "legal count limit op c own own' \<longleftrightarrow>
     (case op of
        Default v \<Rightarrow> wrappers c v = None \<and> own' = own
      | Adopt v p \<Rightarrow> wrappers c v = None \<and> (p \<noteq> 0 \<longrightarrow> 0 < own p) \<and> own' = give p own
      | Share v p \<Rightarrow> wrappers c v = None \<and> may_retain count limit p c \<and> own' = own
      | Copy v r \<Rightarrow> wrappers c v = None \<and> (\<exists>p. wrappers c r = Some p \<and> may_retain count limit p c) \<and> own' = own
      | Move v r \<Rightarrow> wrappers c v = None \<and> wrappers c r \<noteq> None \<and> own' = own
      | Destroy v \<Rightarrow> wrappers c v \<noteq> None \<and> own' = own
      | AssignCopy v r \<Rightarrow> wrappers c v \<noteq> None \<and>
          (\<exists>p. wrappers c r = Some p \<and> may_retain count limit p c) \<and> own' = own
      | AssignMove v r \<Rightarrow> wrappers c v \<noteq> None \<and> wrappers c r \<noteq> None \<and> own' = own
      | AssignObject v p \<Rightarrow> wrappers c v \<noteq> None \<and> (p \<noteq> 0 \<longrightarrow> 0 < own p) \<and> own' = give p own
      | InfoObject v p \<Rightarrow> wrappers c v \<noteq> None \<and> may_retain count limit p c \<and>
          (wrappers c v = Some p \<longrightarrow> p = 0 \<or> 1 < count (lib c) p) \<and> own' = own
      | Raw s \<Rightarrow> (\<forall>p. p \<noteq> 0 \<longrightarrow> count s p + own p = count (lib c) p + own' p))"

definition owned :: "('s \<Rightarrow> nat \<Rightarrow> nat) \<Rightarrow> 's cpp \<Rightarrow> (nat \<Rightarrow> nat) \<Rightarrow> bool" where
  "owned count c own \<longleftrightarrow> finite (dom (wrappers c)) \<and> (\<forall>p. p \<noteq> 0 \<longrightarrow> count (lib c) p = own p + holders c p)"

text \<open>A program whose every step is legal in the state it is made in, with the references it holds
  at the end.\<close>

inductive legal_run :: "('s \<Rightarrow> nat \<Rightarrow> nat) \<Rightarrow> nat \<Rightarrow> bool \<Rightarrow> 's refop \<Rightarrow> 's refop \<Rightarrow>
    's wop list \<Rightarrow> 's cpp \<Rightarrow> (nat \<Rightarrow> nat) \<Rightarrow> (nat \<Rightarrow> nat) \<Rightarrow> bool"
  for count limit ex ret rel where
  legal_nil: "legal_run count limit ex ret rel [] c own own"
| legal_cons: "legal count limit op c own own' \<Longrightarrow>
    (\<And>c'. wstep ex ret rel op c = Some (c', None) \<Longrightarrow> legal_run count limit ex ret rel ops c' own' own'') \<Longrightarrow>
    legal_run count limit ex ret rel (op # ops) c own own''"

text \<open>Counting the wrappers of an object.\<close>

lemma wrappers_simps [simp]:
  "wrappers (set_object v q c) = (wrappers c)(v \<mapsto> q)" "lib (set_object v q c) = lib c"
  "wrappers (drop_wrapper v c) = (wrappers c)(v := None)" "lib (drop_wrapper v c) = lib c"
  by (simp_all add: set_object_def drop_wrapper_def)

lemma holders_lib [simp]: "holders (c\<lparr>lib := s\<rparr>) p = holders c p"
  by (simp add: holders_def)

lemma holders_drop_lib [simp]: "holders (drop_wrapper v (c\<lparr>lib := s\<rparr>)) p = holders (drop_wrapper v c) p"
  by (simp add: holders_def)

lemma finite_holders: "finite (dom (wrappers c)) \<Longrightarrow> finite {v. wrappers c v = Some p}"
  by (rule finite_subset) (auto simp: dom_def)

lemma holders_set:
  assumes "finite (dom (wrappers c))"
  shows "holders (set_object v q c) p = holders (drop_wrapper v c) p + (if q = p then 1 else 0)"
proof -
  have d: "{w. wrappers (drop_wrapper v c) w = Some p} = {w. wrappers c w = Some p} - {v}" by auto
  have e: "{w. wrappers (set_object v q c) w = Some p} =
      (if q = p then insert v ({w. wrappers c w = Some p} - {v}) else {w. wrappers c w = Some p} - {v})" by auto
  show ?thesis unfolding holders_def d e using finite_holders [OF assms, of p] by (simp add: card.insert_remove)
qed

lemma holders_split:
  assumes "finite (dom (wrappers c))"
  shows "holders c p = holders (drop_wrapper v c) p + (if wrappers c v = Some p then 1 else 0)"
proof (cases "wrappers c v")
  case None
  then have "drop_wrapper v c = c" by (simp add: drop_wrapper_def fun_upd_idem)
  with None show ?thesis by simp
next
  case (Some q)
  then have "set_object v q c = c" by (simp add: set_object_def fun_upd_idem)
  with holders_set [OF assms, of v q p] Some show ?thesis by simp
qed

lemma holder_counts: "finite (dom (wrappers c)) \<Longrightarrow> wrappers c v = Some p \<Longrightarrow> 0 < holders c p"
  using holders_split [of c p v] by simp

text \<open>What the binding relies on: the library's retain adds a reference to a live object, and release
  takes one away.\<close>

locale ownership =
  fixes count :: "'s \<Rightarrow> nat \<Rightarrow> nat"
    and ret :: "'s refop"
    and rel :: "'s refop"
    and limit :: nat
  assumes ret_live: "p \<noteq> 0 \<Longrightarrow> 0 < count s p \<Longrightarrow> count s p < limit \<Longrightarrow>
      \<exists>s'. ret p s = Some (CL_SUCCESS, s') \<and> count s' = (count s)(p := count s p + 1)"
    and rel_live: "p \<noteq> 0 \<Longrightarrow> 0 < count s p \<Longrightarrow>
      \<exists>s'. rel p s = Some (CL_SUCCESS, s') \<and> count s' = (count s)(p := count s p - 1)"
begin

lemma retain_counted:
  assumes "p = 0 \<or> (0 < count s p \<and> count s p < limit)"
  shows "\<exists>s'. counted ret p s = Some (CL_SUCCESS, s') \<and>
    (\<forall>q. q \<noteq> 0 \<longrightarrow> count s' q = count s q + (if q = p then 1 else 0))"
  using ret_live [of p s] assms by (cases "p = 0") (auto simp: counted_def)

lemma release_counted:
  assumes "p \<noteq> 0 \<longrightarrow> 0 < count s p"
  shows "\<exists>s'. counted rel p s = Some (CL_SUCCESS, s') \<and>
    (\<forall>q. q \<noteq> 0 \<longrightarrow> count s q = count s' q + (if q = p then 1 else 0))"
  using rel_live [of p s] assms by (cases "p = 0") (auto simp: counted_def)

text \<open>After the release of the object a wrapper holds the counts are those of the other wrappers.\<close>

lemma release_held_object:
  assumes "owned count c own" and "wrappers c v = Some old"
  shows "\<exists>s. counted rel old (lib c) = Some (CL_SUCCESS, s) \<and>
    (\<forall>rest. release_held ex rel v rest c = rest (c\<lparr>lib := s\<rparr>)) \<and>
    (\<forall>q. q \<noteq> 0 \<longrightarrow> count s q = own q + holders (drop_wrapper v c) q)"
proof -
  have f: "finite (dom (wrappers c))" and c: "\<And>q. q \<noteq> 0 \<Longrightarrow> count (lib c) q = own q + holders c q"
    using assms(1) by (auto simp: owned_def)
  have "old \<noteq> 0 \<longrightarrow> 0 < count (lib c) old" using c holder_counts [OF f assms(2)] by simp
  then obtain s where s: "counted rel old (lib c) = Some (CL_SUCCESS, s)"
    "\<forall>q. q \<noteq> 0 \<longrightarrow> count (lib c) q = count s q + (if q = old then 1 else 0)"
    using release_counted by blast
  have "count s q = own q + holders (drop_wrapper v c) q" if "q \<noteq> 0" for q
    using c [OF that] s(2) that holders_split [OF f, of q v] assms(2) by (auto split: if_splits)
  with s(1) assms(2) show ?thesis
    by (intro exI [of _ s]) (simp add: release_held_def errHandler_def)
qed

lemma owned_set:
  assumes "finite (dom (wrappers c))"
    and "\<And>q. q \<noteq> 0 \<Longrightarrow> count s q = own q + holders (drop_wrapper v c) q + (if p = q then 1 else 0)"
  shows "owned count (set_object v p (c\<lparr>lib := s\<rparr>)) own"
  using assms holders_set [of "c\<lparr>lib := s\<rparr>" v p] by (simp add: owned_def)

lemma owned_new:
  assumes "owned count c own" and "wrappers c v = None"
    and "\<And>q. q \<noteq> 0 \<Longrightarrow> count s q + own q = count (lib c) q + own' q + (if p = q then 1 else 0)"
  shows "owned count (set_object v p (c\<lparr>lib := s\<rparr>)) own'"
proof (rule owned_set)
  show f: "finite (dom (wrappers c))" using assms(1) by (simp add: owned_def)
  show "count s q = own' q + holders (drop_wrapper v c) q + (if p = q then 1 else 0)" if "q \<noteq> 0" for q
    using assms that holders_split [OF f, of q v] by (force simp: owned_def)
qed

lemma owned_count: "owned count c own \<Longrightarrow> q \<noteq> 0 \<Longrightarrow> count (lib c) q = own q + holders c q"
  by (simp add: owned_def)

lemma owned_live: "owned count c own \<Longrightarrow> wrappers c v = Some p \<Longrightarrow> p \<noteq> 0 \<Longrightarrow> 0 < count (lib c) p"
  using holder_counts [of c v p] by (simp add: owned_def)

lemma new_step:
  assumes "owned count c own" and "wrappers c v = None" and "may_retain count limit p c"
  shows "\<exists>s. counted ret p (lib c) = Some (CL_SUCCESS, s) \<and> owned count (set_object v p (c\<lparr>lib := s\<rparr>)) own"
proof -
  obtain s where s: "counted ret p (lib c) = Some (CL_SUCCESS, s)"
    "\<forall>q. q \<noteq> 0 \<longrightarrow> count s q = count (lib c) q + (if q = p then 1 else 0)"
    using retain_counted [of p "lib c"] assms(3) by (auto simp: may_retain_def)
  have "owned count (set_object v p (c\<lparr>lib := s\<rparr>)) own"
    by (rule owned_new [OF assms(1,2)]) (use s(2) in auto)
  with s(1) show ?thesis by blast
qed

lemma move_owned:
  assumes "finite (dom (wrappers c))" and "v \<noteq> r" and "wrappers c r = Some p"
    and "\<And>q. q \<noteq> 0 \<Longrightarrow> count (lib c) q = own q + holders (drop_wrapper v c) q"
  shows "owned count (set_object r 0 (set_object v p c)) own"
proof -
  have f: "finite (dom (wrappers (set_object v p c)))" "finite (dom (wrappers (drop_wrapper v c)))" using assms(1) by simp_all
  have "count (lib c) q = own q + holders (set_object r 0 (set_object v p c)) q" if "q \<noteq> 0" for q
    using assms(4) [OF that] holders_set [OF f(1), of r 0 q] holders_split [OF f(1), of q r]
      holders_set [OF assms(1), of v p q] assms(2,3) that holder_counts [OF f(1), of r q] by auto
  then show ?thesis using f(1) by (simp add: owned_def)
qed

lemma destroy_step:
  assumes "owned count c own" and "legal count limit op c own own'" and Destroy: "op = Destroy v"
  shows "\<exists>c'. wstep ex ret rel op c = Some (c', None) \<and> owned count c' own'"
proof -
  have f: "finite (dom (wrappers c))" using assms(1) by (simp add: owned_def)
  have err: "errHandler ex CL_SUCCESS = None" by (simp add: errHandler_def)
  obtain p where v: "wrappers c v = Some p" "own' = own" using assms(2,3) by (auto simp: legal_def)
  from release_held_object [OF assms(1) v(1)] obtain s where s: "counted rel p (lib c) = Some (CL_SUCCESS, s)"
    "\<And>q. q \<noteq> 0 \<Longrightarrow> count s q = own q + holders (drop_wrapper v c) q" by blast
  have d: "drop_wrapper v (c\<lparr>lib := lib c\<rparr>) = drop_wrapper v c" by simp
  show ?thesis
  proof (cases "p = 0")
    case True
    then have "count (lib c) q = own q + holders (drop_wrapper v c) q" if "q \<noteq> 0" for q
      using owned_count [OF assms(1) that] holders_split [OF f, of q v] v that by simp
    then show ?thesis using True v f Destroy by (simp add: wstep_def Wrapper_destroy_def owned_def)
  next
    case False
    then show ?thesis using s v f Destroy by (simp add: wstep_def Wrapper_destroy_def owned_def)
  qed
qed

lemma assign_copy_step:
  assumes "owned count c own" and "legal count limit op c own own'" and AssignCopy: "op = AssignCopy v r"
  shows "\<exists>c'. wstep ex ret rel op c = Some (c', None) \<and> owned count c' own'"
proof -
  have f: "finite (dom (wrappers c))" using assms(1) by (simp add: owned_def)
  have err: "errHandler ex CL_SUCCESS = None" by (simp add: errHandler_def)
  obtain old p where v: "wrappers c v = Some old" "wrappers c r = Some p" "may_retain count limit p c" "own' = own"
    using assms(2,3) by (auto simp: legal_def)
  show ?thesis
  proof (cases "v = r")
    case True
    then show ?thesis using v AssignCopy assms(1) by (simp add: wstep_def assign_copy_def)
  next
    case False
    from release_held_object [OF assms(1) v(1), of ex] obtain s where
      s: "\<And>rest. release_held ex rel v rest c = rest (c\<lparr>lib := s\<rparr>)"
        "\<And>q. q \<noteq> 0 \<Longrightarrow> count s q = own q + holders (drop_wrapper v c) q" by blast
    have "p = 0 \<or> 0 < count s p \<and> count s p < limit"
      using s(2) [of p] v(2,3) False holder_counts [of "drop_wrapper v c" r p] f
        owned_count [OF assms(1), of p] holders_split [OF f, of p v] by (auto simp: may_retain_def)
    then obtain s' where s': "counted ret p s = Some (CL_SUCCESS, s')"
      "\<forall>q. q \<noteq> 0 \<longrightarrow> count s' q = count s q + (if q = p then 1 else 0)" using retain_counted by blast
    have "owned count (set_object v p (c\<lparr>lib := s'\<rparr>)) own"
      by (rule owned_set [OF f]) (use s(2) s'(2) in auto)
    then show ?thesis using v s' err False AssignCopy by (simp add: wstep_def assign_copy_def s(1))
  qed
qed

lemma assign_move_step:
  assumes "owned count c own" and "legal count limit op c own own'" and AssignMove: "op = AssignMove v r"
  shows "\<exists>c'. wstep ex ret rel op c = Some (c', None) \<and> owned count c' own'"
proof -
  have f: "finite (dom (wrappers c))" using assms(1) by (simp add: owned_def)
  have err: "errHandler ex CL_SUCCESS = None" by (simp add: errHandler_def)
  obtain old p where v: "wrappers c v = Some old" "wrappers c r = Some p" "own' = own"
    using assms(2,3) by (auto simp: legal_def)
  show ?thesis
  proof (cases "v = r")
    case True
    then show ?thesis using v AssignMove assms(1) by (simp add: wstep_def assign_move_def)
  next
    case False
    from release_held_object [OF assms(1) v(1), of ex] obtain s where
      s: "\<And>rest. release_held ex rel v rest c = rest (c\<lparr>lib := s\<rparr>)"
        "\<And>q. q \<noteq> 0 \<Longrightarrow> count s q = own q + holders (drop_wrapper v c) q" by blast
    have "owned count (set_object r 0 (set_object v p (c\<lparr>lib := s\<rparr>))) own"
      by (rule move_owned) (use f False v s(2) in simp_all)
    then show ?thesis using v False AssignMove by (simp add: wstep_def assign_move_def s(1))
  qed
qed

lemma assign_object_step:
  assumes "owned count c own" and "legal count limit op c own own'" and AssignObject: "op = AssignObject v p"
  shows "\<exists>c'. wstep ex ret rel op c = Some (c', None) \<and> owned count c' own'"
proof -
  have f: "finite (dom (wrappers c))" using assms(1) by (simp add: owned_def)
  have err: "errHandler ex CL_SUCCESS = None" by (simp add: errHandler_def)
  obtain old where v: "wrappers c v = Some old" "p \<noteq> 0 \<longrightarrow> 0 < own p" "own' = give p own"
    using assms(2,3) by (auto simp: legal_def)
  from release_held_object [OF assms(1) v(1), of ex] obtain s where
    s: "\<And>rest. release_held ex rel v rest c = rest (c\<lparr>lib := s\<rparr>)"
      "\<And>q. q \<noteq> 0 \<Longrightarrow> count s q = own q + holders (drop_wrapper v c) q" by blast
  have "owned count (set_object v p (c\<lparr>lib := s\<rparr>)) own'"
    by (rule owned_set [OF f]) (use s(2) v(2,3) in \<open>auto simp: give_def\<close>)
  then show ?thesis using AssignObject by (simp add: wstep_def assign_object_def s(1))
qed

lemma info_object_step:
  assumes "owned count c own" and "legal count limit op c own own'" and InfoObject: "op = InfoObject v p"
  shows "\<exists>c'. wstep ex ret rel op c = Some (c', None) \<and> owned count c' own'"
proof -
  have f: "finite (dom (wrappers c))" using assms(1) by (simp add: owned_def)
  have err: "errHandler ex CL_SUCCESS = None" by (simp add: errHandler_def)
  obtain old where v: "wrappers c v = Some old" "may_retain count limit p c" "own' = own"
    "old = p \<longrightarrow> p = 0 \<or> 1 < count (lib c) p" using assms(2,3) by (auto simp: legal_def)
  from release_held_object [OF assms(1) v(1), of ex] obtain s where
    s: "\<And>rest. release_held ex rel v rest c = rest (c\<lparr>lib := s\<rparr>)"
      "\<And>q. q \<noteq> 0 \<Longrightarrow> count s q = own q + holders (drop_wrapper v c) q" by blast
  have "p = 0 \<or> 0 < count s p \<and> count s p < limit"
    using s(2) [of p] v owned_count [OF assms(1), of p] holders_split [OF f, of p v]
    by (auto simp: may_retain_def split: if_splits)
  then obtain s' where s': "counted ret p s = Some (CL_SUCCESS, s')"
    "\<forall>q. q \<noteq> 0 \<longrightarrow> count s' q = count s q + (if q = p then 1 else 0)" using retain_counted by blast
  have o: "owned count (set_object v p (c\<lparr>lib := s'\<rparr>)) own"
    by (rule owned_set [OF f]) (use s(2) s'(2) in auto)
  have l: "(set_object v p (c\<lparr>lib := s\<rparr>))\<lparr>lib := s'\<rparr> = set_object v p (c\<lparr>lib := s'\<rparr>)"
    by (simp add: set_object_def)
  have z: "p = 0 \<Longrightarrow> s' = s" using s'(1) by (simp add: counted_def)
  show ?thesis using InfoObject v s' o z by (cases "p = 0") (simp_all add: wstep_def getInfo_object_def assign_object_def s(1) l)
qed

lemma step_owned:
  assumes "owned count c own" and "legal count limit op c own own'"
  shows "\<exists>c'. wstep ex ret rel op c = Some (c', None) \<and> owned count c' own'"
proof -
  have f: "finite (dom (wrappers c))" using assms(1) by (simp add: owned_def)
  have err: "errHandler ex CL_SUCCESS = None" by (simp add: errHandler_def)
  show ?thesis
  proof (cases op)
    case (Default v)
    have "owned count (set_object v 0 (c\<lparr>lib := lib c\<rparr>)) own'"
      by (rule owned_new [OF assms(1)]) (use assms(2) Default in \<open>auto simp: legal_def\<close>)
    then show ?thesis using Default by (simp add: wstep_def Wrapper_default_def)
  next
    case (Adopt v p)
    have "owned count (set_object v p (c\<lparr>lib := lib c\<rparr>)) own'"
      by (rule owned_new [OF assms(1)]) (use assms(2) Adopt in \<open>auto simp: legal_def give_def\<close>)
    then show ?thesis using Adopt by (simp add: wstep_def Wrapper_object_def)
  next
    case (Share v p)
    then show ?thesis using new_step [OF assms(1), of v p] assms(2) err
      by (auto simp: wstep_def Wrapper_object_def legal_def)
  next
    case (Copy v r)
    then obtain p where "wrappers c r = Some p" "may_retain count limit p c" "wrappers c v = None" "own' = own"
      using assms(2) by (auto simp: legal_def)
    then show ?thesis using new_step [OF assms(1), of v p] err Copy by (auto simp: wstep_def Wrapper_copy_def)
  next
    case (Move v r)
    then obtain p where r: "wrappers c r = Some p" "wrappers c v = None" "own' = own"
      using assms(2) by (auto simp: legal_def)
    have "owned count (set_object r 0 (set_object v p c)) own"
      by (rule move_owned [OF f _ r(1)])
        (use r owned_count [OF assms(1)] holders_split [OF f, of _ v] in auto)
    then show ?thesis using r Move by (simp add: wstep_def Wrapper_move_def)
  next
    case (Destroy v)
    with assms show ?thesis by (rule destroy_step)
  next
    case (AssignCopy v r)
    with assms show ?thesis by (rule assign_copy_step)
  next
    case (AssignMove v r)
    with assms show ?thesis by (rule assign_move_step)
  next
    case (AssignObject v p)
    with assms show ?thesis by (rule assign_object_step)
  next
    case (InfoObject v p)
    with assms show ?thesis by (rule info_object_step)
  next
    case (Raw s)
    then show ?thesis using assms by (auto simp: wstep_def legal_def owned_def)
  qed
qed

lemma run_owned:
  assumes "legal_run count limit ex ret rel ops c own own'" and "owned count c own"
  shows "\<exists>c'. wrun ex ret rel ops c = Some (c', None) \<and> owned count c' own'"
  using assms
proof (induction rule: legal_run.induct)
  case (legal_cons op c own own' ops own'')
  from step_owned [OF legal_cons.prems legal_cons.hyps(1)] obtain c' where
    "wstep ex ret rel op c = Some (c', None)" "owned count c' own'" by blast
  with legal_cons.IH show ?case by simp
qed auto

end

section \<open>This driver's contexts\<close>

text \<open>The references to a context.  The driver counts in 32 bits.\<close>

definition context_refs :: "umd \<Rightarrow> nat \<Rightarrow> nat" where
  "context_refs u p = (case contexts u p of None \<Rightarrow> 0 | Some x \<Rightarrow> unat (cx_refs x))"

definition max_refs :: nat where "max_refs = 2 ^ 32 - 1"

lemma retain_context_count:
  assumes "p \<noteq> 0" "0 < context_refs u p" "context_refs u p < max_refs"
  shows "\<exists>u'. clRetainContext p u = Some (CL_SUCCESS, u') \<and>
    context_refs u' = (context_refs u)(p := context_refs u p + 1)"
proof -
  obtain x where x: "contexts u p = Some x" "unat (cx_refs x) < 2 ^ 32 - 1"
    using assms(2,3) by (auto simp: context_refs_def max_refs_def split: option.splits)
  then have "unat (cx_refs x + 1) = unat (cx_refs x) + 1" by (subst unat_add_no_wrap) simp_all
  with x(1) assms(1) show ?thesis by (auto simp: clRetainContext_def context_refs_def fun_eq_iff)
qed

lemma release_context_count:
  assumes "p \<noteq> 0" "0 < context_refs u p"
  shows "\<exists>u'. clReleaseContext sys p u = Some (CL_SUCCESS, u') \<and>
    context_refs u' = (context_refs u)(p := context_refs u p - 1)"
proof -
  obtain x where x: "contexts u p = Some x" "cx_refs x \<noteq> 0"
    using assms(2) by (cases "contexts u p") (simp_all add: context_refs_def unat_gt_0)
  show ?thesis
  proof (cases "cx_refs x = 1")
    case True
    with rc_context.rel_last [OF assms(1) x(1)] obtain u' where
      "clReleaseContext sys p u = Some (CL_SUCCESS, u')" "contexts u' = (contexts u)(p := None)" by blast
    with x(1) True show ?thesis by (auto simp: context_refs_def fun_eq_iff)
  next
    case False
    with rc_context.rel_more [OF assms(1) x(1)] obtain u' y where
      "clReleaseContext sys p u = Some (CL_SUCCESS, u')" "contexts u' = (contexts u)(p \<mapsto> y)" "cx_refs y = cx_refs x - 1" by blast
    with x show ?thesis by (auto simp: context_refs_def fun_eq_iff unat_minus_one)
  qed
qed

interpretation wrapped_context: ownership context_refs clRetainContext "clReleaseContext sys" max_refs for sys
  by unfold_locales (rule retain_context_count release_context_count; assumption)+

text \<open>C32: A C++ program that uses \<open>cl::Context\<close> through its constructors, copies, moves, assignments,
  destructors and queries (each on existing variables, adopting only references it holds) never
  touches a freed context: the whole program is defined and throws nothing, with exceptions on
  or off, and at its end every context has exactly one reference for each wrapper that holds it
  and each reference the program still holds itself; when no wrapper is left, none is leaked.\<close>

theorem wrappers_own_contexts:
  assumes "legal_run context_refs max_refs ex clRetainContext (clReleaseContext sys) ops c own own'"
    and "owned context_refs c own"
  shows "\<exists>c'. wrun ex clRetainContext (clReleaseContext sys) ops c = Some (c', None) \<and>
    (\<forall>p. p \<noteq> 0 \<longrightarrow> context_refs (lib c') p = own' p + holders c' p) \<and>
    (\<forall>v p. p \<noteq> 0 \<longrightarrow> wrappers c' v = Some p \<longrightarrow> contexts (lib c') p \<noteq> None) \<and>
    (wrappers c' = (\<lambda>_. None) \<longrightarrow> (\<forall>p. p \<noteq> 0 \<longrightarrow> context_refs (lib c') p = own' p))"
proof -
  obtain c' where c': "wrun ex clRetainContext (clReleaseContext sys) ops c = Some (c', None)" "owned context_refs c' own'"
    using wrapped_context.run_owned [OF assms] by blast
  have "contexts (lib c') p \<noteq> None" if "p \<noteq> 0" "wrappers c' v = Some p" for v p
    using wrapped_context.owned_live [OF c'(2) that(2,1)] by (cases "contexts (lib c') p") (simp_all add: context_refs_def)
  with c' show ?thesis by (intro exI [of _ c']) (auto simp: owned_def holders_def)
qed

definition one_context :: "umd cpp" where
  "one_context = \<lparr>wrappers = (\<lambda>_. None), lib = umd_start\<lparr>contexts :=
     (\<lambda>_. None)(5 \<mapsto> \<lparr>cx_device = 2, cx_fd = 3, cx_refs = 1\<rparr>)\<rparr>\<rparr>"

lemmas one_context_eval = one_context_def legal_def give_def may_retain_def max_refs_def context_refs_def
  fun_eq_iff wstep_def Wrapper_object_def Wrapper_copy_def Wrapper_destroy_def counted_def errHandler_def
  set_object_def drop_wrapper_def clRetainContext_def clReleaseContext_def CL_SUCCESS_def Let_def

theorem wrappers_own_contexts_witness:
  "\<exists>c' :: umd cpp. wrun True clRetainContext (clReleaseContext (\<lambda>_ _. 0)) [Adopt 0 5, Copy 1 0, Destroy 0, Destroy 1]
      one_context = Some (c', None) \<and>
    (\<forall>p. p \<noteq> 0 \<longrightarrow> context_refs (lib c') p = (\<lambda>_. 0) p + holders c' p) \<and>
    (\<forall>v p. p \<noteq> 0 \<longrightarrow> wrappers c' v = Some p \<longrightarrow> contexts (lib c') p \<noteq> None) \<and>
    (wrappers c' = (\<lambda>_. None) \<longrightarrow> (\<forall>p. p \<noteq> 0 \<longrightarrow> context_refs (lib c') p = (\<lambda>_. 0) p))"
proof (rule wrappers_own_contexts)
  show "owned context_refs one_context ((\<lambda>_. 0)(5 := 1))"
    by (simp add: owned_def one_context_def context_refs_def holders_def)
  show "legal_run context_refs max_refs True clRetainContext (clReleaseContext (\<lambda>_ _. 0))
    [Adopt 0 5, Copy 1 0, Destroy 0, Destroy 1] one_context ((\<lambda>_. 0)(5 := 1)) (\<lambda>_. 0)"
    by ((rule legal_cons [where own' = "\<lambda>_. 0"], simp add: one_context_eval, clarsimp simp: one_context_eval)+,
      rule legal_nil)
qed

section \<open>Are devices counted?\<close>

text \<open>The version string is an array of characters; reading outside of it is undefined.  \<open>until\<close> is
  either of the two loops of \<open>getVersion\<close>: decimal digits up to a stop character, which is
  skipped.\<close>

fun until :: "(u8 \<Rightarrow> bool) \<Rightarrow> u8 list \<Rightarrow> int \<Rightarrow> (int \<times> u8 list) option" where
  "until stop [] n = None"
| "until stop (b # bs) n = (if stop b then Some (n, bs) else until stop bs (n * 10 + (sint b - 48)))"

definition getVersion :: "u8 list \<Rightarrow> u32 option" where
  "getVersion versionInfo =
     (case until (\<lambda>b. b = 46) (drop 7 versionInfo) 0 of
        None \<Rightarrow> None
      | Some (highVersion, rest) \<Rightarrow>
          (case until (\<lambda>b. b = 32 \<or> b = 0) rest 0 of
             None \<Rightarrow> None
           | Some (lowVersion, _) \<Rightarrow> Some (push_bit 16 (word_of_int highVersion) OR word_of_int lowVersion)))"

text \<open>The results of both queries are ignored; \<open>size\<close> stays 0 when the first fails.\<close>

definition getPlatformVersion :: "nat \<Rightarrow> u32 option" where
  "getPlatformVersion platform =
     (case clGetPlatformInfo platform CL_PLATFORM_VERSION 0 None of
        None \<Rightarrow> None
      | Some (_, n, _) \<Rightarrow>
          let size = (case n of None \<Rightarrow> 0 | Some n \<Rightarrow> n)
          in (case clGetPlatformInfo platform CL_PLATFORM_VERSION size (Some (replicate (unat size) 0)) of
                Some (_, _, Some versionInfo) \<Rightarrow> getVersion versionInfo
              | _ \<Rightarrow> None))"

definition address_of_bytes :: "u8 list \<Rightarrow> nat" where
  "address_of_bytes bs = foldr (\<lambda>b n. unat b + 256 * n) bs 0"

text \<open>\<open>platform\<close> is uninitialised before the query, whose result is ignored.\<close>

definition getDevicePlatformVersion :: "nat \<Rightarrow> u8 list \<Rightarrow> u32 option" where
  "getDevicePlatformVersion device platform =
     (case clGetDeviceInfo device CL_DEVICE_PLATFORM (of_nat (length platform)) (Some platform) of
        Some (_, _, Some platform) \<Rightarrow> getPlatformVersion (address_of_bytes platform)
      | _ \<Rightarrow> None)"

definition isReferenceCountable :: "nat \<Rightarrow> nat \<Rightarrow> nat \<Rightarrow> u8 list \<Rightarrow> bool option" where
  "isReferenceCountable target_version minimum_version device platform =
     (if target_version \<ge> 120 then
        (if minimum_version < 120 then
           (if device \<noteq> 0 then
              (case getDevicePlatformVersion device platform of
                 None \<Rightarrow> None
               | Some version \<Rightarrow> Some (sint version > 65537))
            else Some False)
         else Some True)
      else Some False)"

lemma platform_version: "getPlatformVersion g_platform_id = Some (push_bit 16 1 OR 2)"
  by code_simp

lemma no_platform: "platform \<noteq> g_platform_id \<Longrightarrow> getPlatformVersion platform = None"
  by (simp add: getPlatformVersion_def clGetPlatformInfo_def getVersion_def)

lemma platform_not_answered: "device_value CL_DEVICE_PLATFORM = None"
  by (simp add: device_value_def cl_device_info_defs)

text \<open>In the configuration of the C++ binding that still supports OpenCL 1.1 (minimum version below
  1.2), wrapping this driver's device is undefined: the driver does not answer
  \<open>CL_DEVICE_PLATFORM\<close>, the binding ignores that and goes on with an uninitialised platform, and
  unless it happens to be the platform's address the version is parsed beyond the end of an
  empty array.  In all other configurations the test is defined.\<close>

theorem device_version_undefined:
  assumes "length platform = 8" and "address_of_bytes platform \<noteq> g_platform_id"
  shows "isReferenceCountable target_version minimum_version g_device_id platform = None \<longleftrightarrow>
    120 \<le> target_version \<and> minimum_version < 120"
proof -
  have "clGetDeviceInfo g_device_id CL_DEVICE_PLATFORM (of_nat (length platform)) (Some platform) =
      Some (CL_INVALID_VALUE, None, Some platform)"
    by (simp add: clGetDeviceInfo_def platform_not_answered)
  then have "getDevicePlatformVersion g_device_id platform = None"
    using no_platform [OF assms(2)] by (simp add: getDevicePlatformVersion_def)
  then show ?thesis by (simp add: isReferenceCountable_def g_device_id_def)
qed

theorem device_version_undefined_witness:
  "isReferenceCountable 120 110 g_device_id (replicate 8 0) = None"
proof -
  have "address_of_bytes (replicate n 0) = 0" for n by (induction n) (simp_all add: address_of_bytes_def)
  then show ?thesis using device_version_undefined [of "replicate 8 0" 120 110] by (simp add: g_platform_id_def)
qed

end
