(* ===== verification/HppDevice.thy ===== *)
theory HppDevice
  imports HppWrapper
begin

text \<open>
  The wrapper of devices, \<open>detail::Wrapper<cl_device_id>\<close> of \<open>include/CL/opencl.hpp\<close>.  Only some devices
  are reference counted, so it carries a flag beside the handle.  Its operations are modelled with the
  flag as the code keeps it, and refine those of the plain wrapper (theory HppWrapper) over functions
  that count countable devices only.  \<open>clRetainDevice\<close> and \<open>clReleaseDevice\<close> are parameters, because this
  driver does not define them; \<open>countable\<close> is \<open>isReferenceCountable\<close>, \<open>None\<close> where that is undefined.
\<close>

section \<open>Operations\<close>

record 's dcpp =
  devices :: "nat \<Rightarrow> (nat \<times> bool) option"
  dlib :: 's

type_synonym 's doutcome = "('s dcpp \<times> int option) option"

definition dcounted :: "'s refop \<Rightarrow> nat \<times> bool \<Rightarrow> 's \<Rightarrow> (int \<times> 's) option" where
  "dcounted f w s = (case w of (obj, flag) \<Rightarrow> if obj \<noteq> 0 \<and> flag then f obj s else Some (CL_SUCCESS, s))"

definition set_device :: "nat \<Rightarrow> nat \<times> bool \<Rightarrow> 's dcpp \<Rightarrow> 's dcpp" where
  "set_device v w c = c\<lparr>devices := (devices c)(v \<mapsto> w)\<rparr>"

definition drop_device :: "nat \<Rightarrow> 's dcpp \<Rightarrow> 's dcpp" where
  "drop_device v c = c\<lparr>devices := (devices c)(v := None)\<rparr>"

definition Device_default :: "nat \<Rightarrow> 's dcpp \<Rightarrow> 's doutcome" where
  "Device_default v c = Some (set_device v (0, False) c, None)"

definition Device_object ::
  "bool \<Rightarrow> (nat \<Rightarrow> bool option) \<Rightarrow> 's refop \<Rightarrow> nat \<Rightarrow> nat \<Rightarrow> bool \<Rightarrow> 's dcpp \<Rightarrow> 's doutcome" where
  "Device_object ex countable ret v obj retainObject c =
     (case countable obj of
        None \<Rightarrow> None
      | Some flag \<Rightarrow>
          if retainObject then
            (case dcounted ret (obj, flag) (dlib c) of
               None \<Rightarrow> None
             | Some (err, s) \<Rightarrow>
                 (case errHandler ex err of
                    None \<Rightarrow> Some (set_device v (obj, flag) (c\<lparr>dlib := s\<rparr>), None)
                  | Some e \<Rightarrow> Some (c\<lparr>dlib := s\<rparr>, Some e)))
          else Some (set_device v (obj, flag) c, None))"

definition Device_destroy :: "'s refop \<Rightarrow> nat \<Rightarrow> 's dcpp \<Rightarrow> 's doutcome" where
  "Device_destroy rel v c =
     (case devices c v of
        None \<Rightarrow> None
      | Some w \<Rightarrow>
          (case dcounted rel w (dlib c) of
             None \<Rightarrow> None
           | Some (_, s) \<Rightarrow> Some (drop_device v (c\<lparr>dlib := s\<rparr>), None)))"

text \<open>The copy constructor asks again whether the device is counted; the moves take the flag along.\<close>

definition Device_copy :: "bool \<Rightarrow> (nat \<Rightarrow> bool option) \<Rightarrow> 's refop \<Rightarrow> nat \<Rightarrow> nat \<Rightarrow> 's dcpp \<Rightarrow> 's doutcome" where
  "Device_copy ex countable ret v rhs c =
     (case devices c rhs of
        None \<Rightarrow> None
      | Some (obj, _) \<Rightarrow> Device_object ex countable ret v obj True c)"

definition Device_move :: "nat \<Rightarrow> nat \<Rightarrow> 's dcpp \<Rightarrow> 's doutcome" where
  "Device_move v rhs c =
     (case devices c rhs of
        None \<Rightarrow> None
      | Some w \<Rightarrow> Some (set_device rhs (0, False) (set_device v w c), None))"

definition release_device :: "bool \<Rightarrow> 's refop \<Rightarrow> nat \<Rightarrow> ('s dcpp \<Rightarrow> 's doutcome) \<Rightarrow> 's dcpp \<Rightarrow> 's doutcome" where
  "release_device ex rel v rest c =
     (case devices c v of
        None \<Rightarrow> None
      | Some old \<Rightarrow>
          (case dcounted rel old (dlib c) of
             None \<Rightarrow> None
           | Some (err, s) \<Rightarrow>
               (case errHandler ex err of
                  None \<Rightarrow> rest (c\<lparr>dlib := s\<rparr>)
                | Some e \<Rightarrow> Some (c\<lparr>dlib := s\<rparr>, Some e))))"

definition device_assign_copy :: "bool \<Rightarrow> 's refop \<Rightarrow> 's refop \<Rightarrow> nat \<Rightarrow> nat \<Rightarrow> 's dcpp \<Rightarrow> 's doutcome" where
  "device_assign_copy ex ret rel v rhs c =
     (if v \<noteq> rhs then
        release_device ex rel v (\<lambda>c.
          case devices c rhs of
            None \<Rightarrow> None
          | Some w \<Rightarrow>
              (case dcounted ret w (dlib c) of
                 None \<Rightarrow> None
               | Some (err, s) \<Rightarrow> Some (set_device v w (c\<lparr>dlib := s\<rparr>), errHandler ex err))) c
      else if devices c v = None then None else Some (c, None))"

definition device_assign_move :: "bool \<Rightarrow> 's refop \<Rightarrow> nat \<Rightarrow> nat \<Rightarrow> 's dcpp \<Rightarrow> 's doutcome" where
  "device_assign_move ex rel v rhs c =
     (if v \<noteq> rhs then
        release_device ex rel v (\<lambda>c.
          case devices c rhs of
            None \<Rightarrow> None
          | Some w \<Rightarrow> Some (set_device rhs (0, False) (set_device v w c), None)) c
      else if devices c v = None then None else Some (c, None))"

definition device_assign_object ::
  "bool \<Rightarrow> (nat \<Rightarrow> bool option) \<Rightarrow> 's refop \<Rightarrow> nat \<Rightarrow> nat \<Rightarrow> 's dcpp \<Rightarrow> 's doutcome" where
  "device_assign_object ex countable rel v obj c =
     release_device ex rel v (\<lambda>c.
       case countable obj of None \<Rightarrow> None | Some flag \<Rightarrow> Some (set_device v (obj, flag) c, None)) c"

text \<open>\<open>getInfoHelper\<close> for a device: the value is assigned and then retained.\<close>

definition getInfo_device ::
  "bool \<Rightarrow> (nat \<Rightarrow> bool option) \<Rightarrow> 's refop \<Rightarrow> 's refop \<Rightarrow> nat \<Rightarrow> nat \<Rightarrow> 's dcpp \<Rightarrow> 's doutcome" where
  "getInfo_device ex countable ret rel v value c =
     (case device_assign_object ex countable rel v value c of
        None \<Rightarrow> None
      | Some (c, Some e) \<Rightarrow> Some (c, Some e)
      | Some (c, None) \<Rightarrow>
          if value \<noteq> 0 then
            (case devices c v of
               None \<Rightarrow> None
             | Some w \<Rightarrow>
                 (case dcounted ret w (dlib c) of
                    None \<Rightarrow> None
                  | Some (err, s) \<Rightarrow> Some (c\<lparr>dlib := s\<rparr>, None)))
          else Some (c, None))"

definition device_step :: "bool \<Rightarrow> (nat \<Rightarrow> bool option) \<Rightarrow> 's refop \<Rightarrow> 's refop \<Rightarrow> 's wop \<Rightarrow> 's dcpp \<Rightarrow> 's doutcome" where
  "device_step ex countable ret rel op c =
     (case op of
        Default v \<Rightarrow> Device_default v c
      | Adopt v p \<Rightarrow> Device_object ex countable ret v p False c
      | Share v p \<Rightarrow> Device_object ex countable ret v p True c
      | Copy v r \<Rightarrow> Device_copy ex countable ret v r c
      | Move v r \<Rightarrow> Device_move v r c
      | Destroy v \<Rightarrow> Device_destroy rel v c
      | AssignCopy v r \<Rightarrow> device_assign_copy ex ret rel v r c
      | AssignMove v r \<Rightarrow> device_assign_move ex rel v r c
      | AssignObject v p \<Rightarrow> device_assign_object ex countable rel v p c
      | InfoObject v p \<Rightarrow> getInfo_device ex countable ret rel v p c
      | Raw s \<Rightarrow> Some (c\<lparr>dlib := s\<rparr>, None))"

fun device_run :: "bool \<Rightarrow> (nat \<Rightarrow> bool option) \<Rightarrow> 's refop \<Rightarrow> 's refop \<Rightarrow> 's wop list \<Rightarrow> 's dcpp \<Rightarrow> 's doutcome" where
  "device_run ex countable ret rel [] c = Some (c, None)"
| "device_run ex countable ret rel (op # ops) c =
     (case device_step ex countable ret rel op c of
        None \<Rightarrow> None
      | Some (c, Some e) \<Rightarrow> Some (c, Some e)
      | Some (c, None) \<Rightarrow> device_run ex countable ret rel ops c)"

section \<open>Refinement\<close>

text \<open>A device wrapper without its flag, and the functions on countable devices only.\<close>

definition plain :: "'s dcpp \<Rightarrow> 's cpp" where
  "plain c = \<lparr>wrappers = (\<lambda>v. map_option fst (devices c v)), lib = dlib c\<rparr>"

definition only :: "(nat \<Rightarrow> bool) \<Rightarrow> 's refop \<Rightarrow> 's refop" where
  "only cnt f p s = (if cnt p then f p s else Some (CL_SUCCESS, s))"

definition flags_ok :: "(nat \<Rightarrow> bool) \<Rightarrow> 's dcpp \<Rightarrow> bool" where
  "flags_ok cnt c \<longleftrightarrow> (\<forall>v p flag. devices c v = Some (p, flag) \<longrightarrow> p \<noteq> 0 \<longrightarrow> flag = cnt p)"

definition refines :: "(nat \<Rightarrow> bool) \<Rightarrow> 's doutcome \<Rightarrow> 's outcome \<Rightarrow> bool" where
  "refines cnt d w \<longleftrightarrow> map_option (\<lambda>(c, e). (plain c, e)) d = w \<and> (\<forall>c e. d = Some (c, e) \<longrightarrow> flags_ok cnt c)"

lemma plain_simps [simp]:
  "wrappers (plain c) v = map_option fst (devices c v)" "lib (plain c) = dlib c"
  "plain (set_device v (p, flag) c) = set_object v p (plain c)" "plain (drop_device v c) = drop_wrapper v (plain c)"
  "plain (c\<lparr>dlib := s\<rparr>) = (plain c)\<lparr>lib := s\<rparr>"
  by (auto simp: plain_def set_device_def set_object_def drop_device_def drop_wrapper_def fun_eq_iff)

lemma flags_simps [simp]:
  "flags_ok cnt (c\<lparr>dlib := s\<rparr>) = flags_ok cnt c"
  "flags_ok cnt c \<Longrightarrow> p = 0 \<or> flag = cnt p \<Longrightarrow> flags_ok cnt (set_device v (p, flag) c)"
  "flags_ok cnt c \<Longrightarrow> flags_ok cnt (drop_device v c)"
  by (auto simp: flags_ok_def set_device_def drop_device_def)

lemma counted_only: "p = 0 \<or> flag = cnt p \<Longrightarrow> dcounted f (p, flag) s = counted (only cnt f) p s"
  by (auto simp: dcounted_def counted_def only_def)

lemma flags_held: "flags_ok cnt c \<Longrightarrow> devices c v = Some (p, flag) \<Longrightarrow> p = 0 \<or> flag = cnt p"
  by (auto simp: flags_ok_def)

lemma refines_simps [simp]:
  "refines cnt None w \<longleftrightarrow> w = None"
  "refines cnt (Some (c, e)) w \<longleftrightarrow> w = Some (plain c, e) \<and> flags_ok cnt c"
  by (auto simp: refines_def)

lemma device_held:
  assumes "flags_ok cnt c"
  obtains (none) "devices c v = None" "wrappers (plain c) v = None"
    | (some) p flag where "devices c v = Some (p, flag)" "wrappers (plain c) v = Some p" "p = 0 \<or> flag = cnt p"
proof (cases "devices c v")
  case (Some w)
  then show ?thesis using flags_held [OF assms] some by (cases w) simp
qed (simp add: none)

lemma release_refines:
  assumes "flags_ok cnt c" and "\<And>s. refines cnt (rest (c\<lparr>dlib := s\<rparr>)) (rest' ((plain c)\<lparr>lib := s\<rparr>))"
  shows "refines cnt (release_device ex rel v rest c) (release_held ex (only cnt rel) v rest' (plain c))"
proof (cases rule: device_held [OF assms(1), of v, case_names none some])
  case none
  then show ?thesis by (simp add: release_device_def release_held_def)
next
  case (some p flag)
  with assms show ?thesis
    by (auto simp: release_device_def release_held_def counted_only [where cnt = cnt] split: option.split prod.split)
qed

lemma object_refines:
  assumes "flags_ok cnt c" and "countable p = Some (cnt p)"
  shows "refines cnt (Device_object ex countable ret v p retainObject c) (Wrapper_object ex (only cnt ret) v p retainObject (plain c))"
  using assms by (auto simp: Device_object_def Wrapper_object_def counted_only [where cnt = cnt] split: option.split prod.split)

lemma assign_object_refines:
  assumes "flags_ok cnt c" and "countable p = Some (cnt p)"
  shows "refines cnt (device_assign_object ex countable rel v p c) (assign_object ex (only cnt rel) v p (plain c))"
  unfolding device_assign_object_def assign_object_def
  by (rule release_refines [OF assms(1)]) (use assms in simp)

lemma step_refines:
  assumes "flags_ok cnt c" and "\<forall>p. countable p = Some (cnt p)"
  shows "refines cnt (device_step ex countable ret rel op c) (wstep ex (only cnt ret) (only cnt rel) op (plain c))"
proof (cases op)
  case (Copy v r)
  then show ?thesis
    using object_refines [OF assms(1), of countable _ ex ret v True] assms(2)
    by (cases rule: device_held [OF assms(1), of r])
      (auto simp: device_step_def wstep_def Device_copy_def Wrapper_copy_def Wrapper_object_def cong: option.case_cong)
next
  case (Move v r)
  then show ?thesis using assms(1)
    by (cases rule: device_held [OF assms(1), of r]) (simp_all add: device_step_def wstep_def Device_move_def Wrapper_move_def)
next
  case (Destroy v)
  then show ?thesis using assms(1)
    by (cases rule: device_held [OF assms(1), of v])
      (auto simp: device_step_def wstep_def Device_destroy_def Wrapper_destroy_def counted_only [where cnt = cnt] counted_def
        split: option.split prod.split)
next
  case (AssignCopy v r)
  have "refines cnt (release_device ex rel v (\<lambda>c. case devices c r of None \<Rightarrow> None
         | Some w \<Rightarrow> (case dcounted ret w (dlib c) of None \<Rightarrow> None
            | Some (err, s) \<Rightarrow> Some (set_device v w (c\<lparr>dlib := s\<rparr>), errHandler ex err))) c)
       (release_held ex (only cnt rel) v (\<lambda>c. case wrappers c r of None \<Rightarrow> None
         | Some obj \<Rightarrow> (case counted (only cnt ret) obj (lib c) of None \<Rightarrow> None
            | Some (err, s) \<Rightarrow> Some (set_object v obj (c\<lparr>lib := s\<rparr>), errHandler ex err))) (plain c))"
  proof (rule release_refines [OF assms(1)])
    fix s
    show "refines cnt (case devices (c\<lparr>dlib := s\<rparr>) r of None \<Rightarrow> None
         | Some w \<Rightarrow> (case dcounted ret w (dlib (c\<lparr>dlib := s\<rparr>)) of None \<Rightarrow> None
            | Some (err, s') \<Rightarrow> Some (set_device v w (c\<lparr>dlib := s\<rparr>\<lparr>dlib := s'\<rparr>), errHandler ex err)))
       (case wrappers (plain c\<lparr>lib := s\<rparr>) r of None \<Rightarrow> None
         | Some obj \<Rightarrow> (case counted (only cnt ret) obj (lib (plain c\<lparr>lib := s\<rparr>)) of None \<Rightarrow> None
            | Some (err, s') \<Rightarrow> Some (set_object v obj (plain c\<lparr>lib := s\<rparr>\<lparr>lib := s'\<rparr>), errHandler ex err)))"
      using assms(1) by (cases rule: device_held [OF assms(1), of r])
        (auto simp: counted_only [where cnt = cnt] split: option.split prod.split)
  qed
  with AssignCopy assms(1) show ?thesis
    by (auto simp: device_step_def wstep_def device_assign_copy_def assign_copy_def)
next
  case (AssignMove v r)
  have "refines cnt (release_device ex rel v (\<lambda>c. case devices c r of None \<Rightarrow> None
         | Some w \<Rightarrow> Some (set_device r (0, False) (set_device v w c), None)) c)
       (release_held ex (only cnt rel) v (\<lambda>c. case wrappers c r of None \<Rightarrow> None
         | Some obj \<Rightarrow> Some (set_object r 0 (set_object v obj c), None)) (plain c))"
  proof (rule release_refines [OF assms(1)])
    fix s
    show "refines cnt (case devices (c\<lparr>dlib := s\<rparr>) r of None \<Rightarrow> None
         | Some w \<Rightarrow> Some (set_device r (0, False) (set_device v w (c\<lparr>dlib := s\<rparr>)), None))
       (case wrappers (plain c\<lparr>lib := s\<rparr>) r of None \<Rightarrow> None
         | Some obj \<Rightarrow> Some (set_object r 0 (set_object v obj (plain c\<lparr>lib := s\<rparr>)), None))"
      using assms(1) by (cases rule: device_held [OF assms(1), of r]) simp_all
  qed
  with AssignMove assms(1) show ?thesis
    by (auto simp: device_step_def wstep_def device_assign_move_def assign_move_def)
next
  case (AssignObject v p)
  then show ?thesis using assign_object_refines [OF assms(1), of countable p] assms(2)
    by (simp add: device_step_def wstep_def)
next
  case (InfoObject v p)
  have r: "refines cnt (device_assign_object ex countable rel v p c) (assign_object ex (only cnt rel) v p (plain c))"
    using assign_object_refines assms by blast
  show ?thesis
  proof (cases "device_assign_object ex countable rel v p c")
    case None
    with r InfoObject show ?thesis by (simp add: device_step_def wstep_def getInfo_device_def getInfo_object_def)
  next
    case (Some x)
    then obtain c1 e where x: "device_assign_object ex countable rel v p c = Some (c1, e)" by (cases x) simp
    with r have w: "assign_object ex (only cnt rel) v p (plain c) = Some (plain c1, e)" and f: "flags_ok cnt c1" by simp_all
    have "devices c1 v = Some (p, cnt p)" if "e = None"
      using x that assms(2)
      by (auto simp: device_assign_object_def release_device_def set_device_def split: option.splits prod.splits)
    with InfoObject x w f show ?thesis
      by (cases e) (auto simp: device_step_def wstep_def getInfo_device_def getInfo_object_def counted_only [where cnt = cnt]
          split: option.split prod.split)
  qed
qed (use assms object_refines [OF assms(1), of countable] in
    \<open>auto simp: device_step_def wstep_def Device_default_def Wrapper_default_def\<close>)

text \<open>C33: device wrappers count exactly the countable devices.  In every program over \<open>cl::Device\<close>, if the test
  whether a device is counted is defined, the wrappers with their flags do what plain wrappers do over
  functions that count countable devices and accept all others, with the same exceptions and the
  same state of the library; and after every step each flag says whether its device is counted.\<close>

theorem device_wrappers_refine:
  assumes "flags_ok cnt c" and "\<forall>p. countable p = Some (cnt p)"
  shows "map_option (\<lambda>(c', e). (plain c', e)) (device_run ex countable ret rel ops c) =
      wrun ex (only cnt ret) (only cnt rel) ops (plain c) \<and>
    (\<forall>c' e. device_run ex countable ret rel ops c = Some (c', e) \<longrightarrow> flags_ok cnt c')"
proof -
  have "refines cnt (device_run ex countable ret rel ops c) (wrun ex (only cnt ret) (only cnt rel) ops (plain c))"
    using assms(1)
  proof (induction ops arbitrary: c)
    case (Cons op ops)
    have "refines cnt (device_step ex countable ret rel op c) (wstep ex (only cnt ret) (only cnt rel) op (plain c))"
      by (rule step_refines [OF Cons.prems assms(2)])
    with Cons.IH show ?case by (auto split: option.split)
  qed simp
  then show ?thesis by (simp add: refines_def)
qed

theorem device_wrappers_refine_witness:
  "let up = \<lambda>p s. Some (CL_SUCCESS, s(p := s p + 1)); down = \<lambda>p s. Some (CL_SUCCESS, s(p := s p - 1));
       c = \<lparr>devices = Map.empty, dlib = \<lambda>_ :: nat. 1 :: nat\<rparr>;
       run = device_run True (\<lambda>p. isReferenceCountable 120 120 p []) up down [Share 1 5, Copy 2 1, Destroy 1] c
   in map_option (\<lambda>(c', e). (plain c', e)) run =
        wrun True (only (\<lambda>_. True) up) (only (\<lambda>_. True) down) [Share 1 5, Copy 2 1, Destroy 1] (plain c) \<and>
      (\<exists>c'. run = Some (c', None) \<and> dlib c' 5 = 2 \<and> devices c' 2 = Some (5, True) \<and> devices c' 1 = None)"
proof -
  let ?c = "\<lparr>devices = Map.empty, dlib = \<lambda>_ :: nat. 1 :: nat\<rparr>"
  have "flags_ok (\<lambda>_. True) ?c" and "\<forall>p. isReferenceCountable 120 120 p [] = Some True"
    by (simp_all add: flags_ok_def isReferenceCountable_def)
  note run = device_wrappers_refine [OF this]
  show ?thesis unfolding Let_def
    by (intro conjI run [THEN conjunct1])
      (simp add: device_step_def Device_object_def Device_copy_def Device_destroy_def dcounted_def errHandler_def
        isReferenceCountable_def set_device_def drop_device_def)
qed

end
