(* ===== verification/HppCommands.thy ===== *)
theory HppCommands
  imports HppWrapper ClEnqueue
begin

text \<open>
  Commands through the C++ binding (\<open>include/CL/opencl.hpp\<close>): index ranges, kernel arguments, the
  enqueue functions of \<open>CommandQueue\<close> and the kernel functor, over this driver's functions.
  Queues, kernels and buffers are the objects their wrappers hold; an event is a wrapper
  variable, because the functions assign to it.  The results of \<open>malloc\<close> are arguments, as in
  the theories of the driver.  Wait lists are handed on; the driver ignores them.
\<close>

section \<open>Index ranges\<close>

record NDRange =
  nd_sizes :: "u64 list"
  nd_dimensions :: u32

definition NDRange0 :: NDRange where "NDRange0 = \<lparr>nd_sizes = [0, 0, 0], nd_dimensions = 0\<rparr>"
definition NDRange1 :: "u64 \<Rightarrow> NDRange" where "NDRange1 size0 = \<lparr>nd_sizes = [size0, 1, 1], nd_dimensions = 1\<rparr>"

definition NDRange2 :: "u64 \<Rightarrow> u64 \<Rightarrow> NDRange" where
  "NDRange2 size0 size1 = \<lparr>nd_sizes = [size0, size1, 1], nd_dimensions = 2\<rparr>"

definition NDRange3 :: "u64 \<Rightarrow> u64 \<Rightarrow> u64 \<Rightarrow> NDRange" where
  "NDRange3 size0 size1 size2 = \<lparr>nd_sizes = [size0, size1, size2], nd_dimensions = 3\<rparr>"

definition NullRange :: NDRange where "NullRange = NDRange0"

definition dimensions :: "NDRange \<Rightarrow> u64" where "dimensions r = ucast (nd_dimensions r)"
definition NDRange_size :: "NDRange \<Rightarrow> u64" where "NDRange_size r = ucast (nd_dimensions r) * 8"

text \<open>The conversion to \<open>const size_type *\<close>, as what can be read through it.\<close>

definition range_sizes :: "NDRange \<Rightarrow> nat \<Rightarrow> u64" where "range_sizes r d = nd_sizes r ! d"

section \<open>Kernel arguments\<close>

text \<open>\<open>KernelArgumentHandler\<close>: the bytes of a value, a memory object, or local memory of a size.\<close>

datatype cpp_arg = ValueArg "u8 list" | MemoryArg nat | LocalSpaceArg u64

fun arg_size :: "cpp_arg \<Rightarrow> u64" where
  "arg_size (ValueArg bytes) = of_nat (length bytes)"
| "arg_size (MemoryArg mem) = 8"
| "arg_size (LocalSpaceArg n) = n"

fun arg_ptr :: "cpp_arg \<Rightarrow> u8 list option" where
  "arg_ptr (ValueArg bytes) = Some bytes"
| "arg_ptr (MemoryArg mem) = Some (value_bytes 8 (of_nat mem :: u64))"
| "arg_ptr (LocalSpaceArg n) = None"

text \<open>What a member function does with the code of the call it wraps.\<close>

datatype cpp_result = Returned int | Thrown int

definition handled :: "bool \<Rightarrow> int \<Rightarrow> cpp_result" where
  "handled ex err = (case errHandler ex err of None \<Rightarrow> Returned err | Some e \<Rightarrow> Thrown e)"

definition Kernel_setArg :: "bool \<Rightarrow> nat \<Rightarrow> u32 \<Rightarrow> cpp_arg \<Rightarrow> umd \<Rightarrow> (umd \<times> cpp_result) option" where
  "Kernel_setArg ex kern index value u =
     (case clSetKernelArg kern index (arg_size value) (arg_ptr value) u of
        None \<Rightarrow> None
      | Some (err, u1) \<Rightarrow> Some (u1, handled ex err))"

section \<open>Enqueue functions\<close>

text \<open>
  The end they share.  \<open>event\<close> is the caller's variable, if any; \<open>tmp\<close> is the local
  \<open>cl_event\<close>, which the driver fills when its \<open>malloc\<close> gave \<open>alloc\<close> and which otherwise keeps
  the indeterminate value \<open>junk\<close> it had.
\<close>

definition with_event ::
  "bool \<Rightarrow> nat option \<Rightarrow> nat option \<Rightarrow> nat \<Rightarrow> umd cpp \<Rightarrow> (int \<times> umd) option \<Rightarrow> (umd cpp \<times> cpp_result) option" where
  "with_event ex event alloc junk c called =
     (case called of
        None \<Rightarrow> None
      | Some (err, u) \<Rightarrow>
         (case handled ex err of
            Thrown e \<Rightarrow> Some (c\<lparr>lib := u\<rparr>, Thrown e)
          | Returned err \<Rightarrow>
             (case event of
                None \<Rightarrow> Some (c\<lparr>lib := u\<rparr>, Returned err)
              | Some v \<Rightarrow>
                  if err = CL_SUCCESS then
                    (let tmp = (case alloc of Some p \<Rightarrow> p | None \<Rightarrow> junk)
                     in case assign_object ex clReleaseEvent v tmp (c\<lparr>lib := u\<rparr>) of
                          None \<Rightarrow> None
                        | Some (c1, Some e) \<Rightarrow> Some (c1, Thrown e)
                        | Some (c1, None) \<Rightarrow> Some (c1, Returned err))
                  else Some (c\<lparr>lib := u\<rparr>, Returned err))))"

definition wanted :: "nat option \<Rightarrow> nat option \<Rightarrow> nat option option" where
  "wanted event alloc = (if event \<noteq> None then Some alloc else None)"

definition enqueueReadBuffer ::
  "bool \<Rightarrow> sys \<Rightarrow> nat \<Rightarrow> nat \<Rightarrow> u64 \<Rightarrow> u64 \<Rightarrow> u64 \<Rightarrow> nat option \<Rightarrow> nat option \<Rightarrow> nat \<Rightarrow> umd cpp \<Rightarrow>
     (umd cpp \<times> cpp_result) option" where
  "enqueueReadBuffer ex sys queue buffer offset sz ptr event alloc junk c =
     with_event ex event alloc junk c
       (clEnqueueReadBuffer sys queue buffer offset sz ptr (wanted event alloc) (lib c))"

definition enqueueWriteBuffer ::
  "bool \<Rightarrow> sys \<Rightarrow> nat \<Rightarrow> nat \<Rightarrow> u64 \<Rightarrow> u64 \<Rightarrow> u64 \<Rightarrow> nat option \<Rightarrow> nat option \<Rightarrow> nat \<Rightarrow> umd cpp \<Rightarrow>
     (umd cpp \<times> cpp_result) option" where
  "enqueueWriteBuffer ex sys queue buffer offset sz ptr event alloc junk c =
     with_event ex event alloc junk c
       (clEnqueueWriteBuffer sys queue buffer offset sz ptr (wanted event alloc) (lib c))"

definition enqueueCopyBuffer ::
  "bool \<Rightarrow> sys \<Rightarrow> nat \<Rightarrow> nat \<Rightarrow> nat \<Rightarrow> u64 \<Rightarrow> u64 \<Rightarrow> u64 \<Rightarrow> u64 option \<Rightarrow> nat option \<Rightarrow> nat option \<Rightarrow> nat \<Rightarrow> umd cpp \<Rightarrow>
     (umd cpp \<times> cpp_result) option" where
  "enqueueCopyBuffer ex sys queue src dst src_offset dst_offset sz bounce event alloc junk c =
     with_event ex event alloc junk c
       (clEnqueueCopyBuffer sys queue src dst src_offset dst_offset sz bounce (wanted event alloc) (lib c))"

text \<open>The offset of the range goes to a parameter the driver does not look at.\<close>

definition enqueueNDRangeKernel ::
  "bool \<Rightarrow> sys \<Rightarrow> nat \<Rightarrow> nat \<Rightarrow> NDRange \<Rightarrow> NDRange \<Rightarrow> NDRange \<Rightarrow> u64 option \<Rightarrow> nat option \<Rightarrow> nat option \<Rightarrow> nat \<Rightarrow> umd cpp \<Rightarrow>
     (umd cpp \<times> cpp_result) option" where
  "enqueueNDRangeKernel ex sys queue kern offset global local memalign event alloc junk c =
     with_event ex event alloc junk c
       (clEnqueueNDRangeKernel sys queue kern (ucast (dimensions global)) (Some (range_sizes global))
          (if dimensions local \<noteq> 0 then Some (range_sizes local) else None) memalign
          (wanted event alloc) (lib c))"

definition CommandQueue_flush :: "bool \<Rightarrow> nat \<Rightarrow> cpp_result" where
  "CommandQueue_flush ex queue = handled ex (clFlush queue)"

definition CommandQueue_finish :: "bool \<Rightarrow> sys \<Rightarrow> nat \<Rightarrow> umd \<Rightarrow> (umd \<times> cpp_result) option" where
  "CommandQueue_finish ex sys queue u =
     (case clFinish sys queue u of None \<Rightarrow> None | Some (err, u1) \<Rightarrow> Some (u1, handled ex err))"

definition Event_wait :: "bool \<Rightarrow> nat \<Rightarrow> cpp_result" where
  "Event_wait ex event = handled ex (clWaitForEvents 1 [event])"

definition waitForEvents :: "bool \<Rightarrow> nat list \<Rightarrow> cpp_result" where
  "waitForEvents ex es = handled ex (clWaitForEvents (of_nat (length es)) es)"

section \<open>Kernel functors\<close>

text \<open>The eighteen constructors of \<open>EnqueueArgs\<close>: the queue may be left to the default one, the
  events may be none, one or a vector, offset and local range may be left out.\<close>

record EnqueueArgs =
  ea_queue :: nat
  ea_offset :: NDRange
  ea_global :: NDRange
  ea_local :: NDRange
  ea_events :: "nat list"

definition mk_EnqueueArgs ::
  "nat \<Rightarrow> nat option \<Rightarrow> nat list \<Rightarrow> NDRange option \<Rightarrow> NDRange \<Rightarrow> NDRange option \<Rightarrow> EnqueueArgs" where
  "mk_EnqueueArgs default_queue queue es offset global local =
     \<lparr>ea_queue = (case queue of Some q \<Rightarrow> q | None \<Rightarrow> default_queue),
      ea_offset = (case offset of Some r \<Rightarrow> r | None \<Rightarrow> NullRange), ea_global = global,
      ea_local = (case local of Some r \<Rightarrow> r | None \<Rightarrow> NullRange), ea_events = es\<rparr>"

text \<open>\<open>setArgs\<close> from argument \<open>i\<close> on.  The codes that \<open>setArg\<close> returns are not looked at.\<close>

fun setArgs :: "bool \<Rightarrow> nat \<Rightarrow> nat \<Rightarrow> cpp_arg list \<Rightarrow> umd \<Rightarrow> (umd \<times> int option) option" where
  "setArgs ex kern i [] u = Some (u, None)"
| "setArgs ex kern i (t # ts) u =
     (case Kernel_setArg ex kern (of_nat i) t u of
        None \<Rightarrow> None
      | Some (u1, Thrown e) \<Rightarrow> Some (u1, Some e)
      | Some (u1, Returned _) \<Rightarrow> setArgs ex kern (Suc i) ts u1)"

text \<open>The call operator, with the event it returns in variable \<open>v\<close>; an exception destroys it.\<close>

definition throwing :: "nat \<Rightarrow> umd cpp \<Rightarrow> int \<Rightarrow> (umd cpp \<times> cpp_result) option" where
  "throwing v c e =
     (case Wrapper_destroy clReleaseEvent v c of None \<Rightarrow> None | Some (c1, _) \<Rightarrow> Some (c1, Thrown e))"

definition KernelFunctor_call ::
  "bool \<Rightarrow> sys \<Rightarrow> nat \<Rightarrow> EnqueueArgs \<Rightarrow> cpp_arg list \<Rightarrow> u64 option \<Rightarrow> nat \<Rightarrow> nat option \<Rightarrow> nat \<Rightarrow> umd cpp \<Rightarrow>
     (umd cpp \<times> cpp_result) option" where
  "KernelFunctor_call ex sys kern args ts memalign v alloc junk c =
     (case Wrapper_default v c of
        None \<Rightarrow> None
      | Some (c0, _) \<Rightarrow>
         (case setArgs ex kern 0 ts (lib c0) of
            None \<Rightarrow> None
          | Some (u, Some e) \<Rightarrow> throwing v (c0\<lparr>lib := u\<rparr>) e
          | Some (u, None) \<Rightarrow>
             (case enqueueNDRangeKernel ex sys (ea_queue args) kern (ea_offset args) (ea_global args) (ea_local args) memalign
                     (Some v) alloc junk (c0\<lparr>lib := u\<rparr>) of
                None \<Rightarrow> None
              | Some (c1, Thrown e) \<Rightarrow> throwing v c1 e
              | Some (c1, Returned err) \<Rightarrow> Some (c1, Returned err))))"

section \<open>Arguments through the binding\<close>

text \<open>An argument the driver stores as it was meant: at most four bytes, or a live buffer.\<close>

fun plain_arg :: "(nat \<Rightarrow> cl_mem option) \<Rightarrow> cpp_arg \<Rightarrow> bool" where
  "plain_arg ms (ValueArg bytes) \<longleftrightarrow> length bytes \<le> 4"
| "plain_arg ms (MemoryArg mem) \<longleftrightarrow> mem < 2 ^ 64 \<and> ms mem \<noteq> None"
| "plain_arg ms (LocalSpaceArg n) \<longleftrightarrow> False"

fun arg_word :: "(nat \<Rightarrow> cl_mem option) \<Rightarrow> cpp_arg \<Rightarrow> u32" where
  "arg_word ms (ValueArg bytes) = le_word bytes"
| "arg_word ms (MemoryArg mem) = (case ms mem of Some m \<Rightarrow> ucast (mo_ddr3_addr m) | None \<Rightarrow> 0)"
| "arg_word ms (LocalSpaceArg n) = 0"

lemma plain_arg_stored:
  assumes "plain_arg ms t"
  shows "\<exists>val a. arg_ptr t = Some val \<and> kernel_arg_of ms (arg_size t) val = Some a \<and> ka_is_set a \<and>
    ka_scalar_val a = arg_word ms t"
proof (cases t)
  case (ValueArg bytes)
  with assms have n: "length bytes \<le> 4" by simp
  then have "unat (of_nat (length bytes) :: u64) = length bytes"
    by (simp add: unsigned_of_nat take_bit_eq_mod)
  moreover from this n have "(of_nat (length bytes) :: u64) \<noteq> 8" "(of_nat (length bytes) :: u64) \<le> 4"
    by (auto simp: word_le_nat_alt word_unat_eq_iff)
  ultimately show ?thesis by (simp add: ValueArg kernel_arg_of_def)
next
  case (MemoryArg mem)
  with assms obtain m where m: "ms mem = Some m" and mem: "mem < 2 ^ 64" by auto
  have "length (value_bytes 8 (of_nat mem :: u64)) = 8" by (simp add: value_bytes_def)
  moreover from this have "take 8 (value_bytes 8 (of_nat mem :: u64)) = value_bytes 8 (of_nat mem :: u64)" by simp
  moreover have "unat (of_nat mem :: u64) = mem" using mem by (simp add: unsigned_of_nat take_bit_eq_mod)
  ultimately show ?thesis by (simp add: MemoryArg kernel_arg_of_def le_word_bytes_u64 Let_def m)
qed (use assms in simp)

lemma setArg_plain:
  assumes "plain_arg (mems u) t" and "kern \<noteq> 0" and "kernels u kern = Some k" and "i < FPGAGPU_MAX_ARGS"
  shows "\<exists>a. Kernel_setArg ex kern (of_nat i) t u =
      Some (u\<lparr>kernels := (kernels u)(kern \<mapsto> with_arg (of_nat i) a k)\<rparr>, Returned CL_SUCCESS) \<and>
    ka_is_set a \<and> ka_scalar_val a = arg_word (mems u) t"
proof -
  obtain val a where a: "arg_ptr t = Some val" "kernel_arg_of (mems u) (arg_size t) val = Some a"
    "ka_is_set a" "ka_scalar_val a = arg_word (mems u) t"
    using plain_arg_stored [OF assms(1)] by blast
  have "\<not> of_nat FPGAGPU_MAX_ARGS \<le> (of_nat i :: u32)"
    using assms(4) by (simp add: FPGAGPU_MAX_ARGS_def word_le_nat_alt unsigned_of_nat take_bit_eq_mod)
  with a assms(2,3) show ?thesis
    by (intro exI [of _ a])
      (simp add: Kernel_setArg_def clSetKernelArg_def with_arg_def Let_def handled_def errHandler_def)
qed

text \<open>The kernel \<open>k'\<close> after arguments \<open>ts\<close> were set from entry \<open>i\<close> of \<open>k\<close> on.\<close>

definition args_set :: "(nat \<Rightarrow> cl_mem option) \<Rightarrow> nat \<Rightarrow> cpp_arg list \<Rightarrow> cl_kernel \<Rightarrow> cl_kernel \<Rightarrow> bool" where
  "args_set ms i ts k k' \<longleftrightarrow>
     kn_program k' = kn_program k \<and> length (kn_args k') = FPGAGPU_MAX_ARGS \<and>
     unat (kn_num_args k') = (if ts = [] then unat (kn_num_args k) else max (unat (kn_num_args k)) (i + length ts)) \<and>
     (\<forall>n < FPGAGPU_MAX_ARGS. if i \<le> n \<and> n < i + length ts
        then ka_is_set (kn_args k' ! n) \<and> ka_scalar_val (kn_args k' ! n) = arg_word ms (ts ! (n - i))
        else kn_args k' ! n = kn_args k ! n)"

lemma args_set_step:
  assumes "args_set ms (Suc i) ts (with_arg (of_nat i) a k) k'" and "i < FPGAGPU_MAX_ARGS"
    and "length (kn_args k) = FPGAGPU_MAX_ARGS" and "ka_is_set a" and "ka_scalar_val a = arg_word ms t"
  shows "args_set ms i (t # ts) k k'"
proof -
  let ?k = "with_arg (of_nat i) a k"
  have ui: "unat (of_nat i :: u32) = i" "(of_nat i :: u32) < of_nat FPGAGPU_MAX_ARGS"
    using assms(2) by (simp_all add: FPGAGPU_MAX_ARGS_def word_less_nat_alt unsigned_of_nat take_bit_eq_mod)
  note w = with_arg(1,2) [OF ui(2), of a k, unfolded ui(1)]
  have prog: "kn_program ?k = kn_program k" by (simp add: with_arg_def Let_def)
  have "if i \<le> n \<and> n < i + length (t # ts)
       then ka_is_set (kn_args k' ! n) \<and> ka_scalar_val (kn_args k' ! n) = arg_word ms ((t # ts) ! (n - i))
       else kn_args k' ! n = kn_args k ! n" if n: "n < FPGAGPU_MAX_ARGS" for n
  proof (cases "n = i")
    case True
    then show ?thesis using assms n w(1) by (auto simp: args_set_def)
  next
    case False
    then have "Suc i \<le> n \<longleftrightarrow> i \<le> n" "i \<le> n \<Longrightarrow> n - i = Suc (n - Suc i)" by linarith+
    then show ?thesis using assms(1) False n w(1) by (auto simp: args_set_def split: if_splits)
  qed
  moreover have "unat (kn_num_args k') = max (unat (kn_num_args k)) (i + length (t # ts))"
    using assms(1) w(2) by (simp add: args_set_def split: if_splits)
  ultimately show ?thesis using assms(1) prog unfolding args_set_def by simp
qed

lemma setArgs_plain:
  assumes "\<forall>t \<in> set ts. plain_arg (mems u) t" and "kern \<noteq> 0" and "kernels u kern = Some k"
    and "i + length ts \<le> FPGAGPU_MAX_ARGS" and "length (kn_args k) = FPGAGPU_MAX_ARGS"
  shows "\<exists>k'. setArgs ex kern i ts u = Some (u\<lparr>kernels := (kernels u)(kern \<mapsto> k')\<rparr>, None) \<and>
    args_set (mems u) i ts k k'"
  using assms
proof (induction ts arbitrary: i u k)
  case Nil
  then have same: "(kernels u)(kern \<mapsto> k) = kernels u" by (simp add: fun_upd_idem)
  with Nil show ?case by (intro exI [of _ k]) (auto simp: same args_set_def simp del: fun_upd_apply)
next
  case (Cons t ts)
  from Cons.prems have i: "i < FPGAGPU_MAX_ARGS" and t: "plain_arg (mems u) t" by simp_all
  obtain a where a: "Kernel_setArg ex kern (of_nat i) t u =
      Some (u\<lparr>kernels := (kernels u)(kern \<mapsto> with_arg (of_nat i) a k)\<rparr>, Returned CL_SUCCESS)"
    "ka_is_set a" "ka_scalar_val a = arg_word (mems u) t"
    using setArg_plain [OF t Cons.prems(2,3) i] by blast
  let ?k = "with_arg (of_nat i) a k"
  let ?u = "u\<lparr>kernels := (kernels u)(kern \<mapsto> ?k)\<rparr>"
  have "length (kn_args ?k) = FPGAGPU_MAX_ARGS" using Cons.prems(5) by (simp add: with_arg_def Let_def)
  then have "\<exists>k'. setArgs ex kern (Suc i) ts ?u = Some (?u\<lparr>kernels := (kernels ?u)(kern \<mapsto> k')\<rparr>, None) \<and>
      args_set (mems ?u) (Suc i) ts ?k k'"
    by (intro Cons.IH) (use Cons.prems in simp_all)
  then obtain k' where k': "setArgs ex kern (Suc i) ts ?u = Some (?u\<lparr>kernels := (kernels ?u)(kern \<mapsto> k')\<rparr>, None)"
    "args_set (mems u) (Suc i) ts ?k k'" by auto
  then show ?case using args_set_step [OF k'(2) i Cons.prems(5) a(2,3)]
    by (intro exI [of _ k']) (simp add: a(1) del: fun_upd_apply)
qed

text \<open>The argument page a launch with these arguments uploads: each word in both lanes' slots.\<close>

definition arg_words_page :: "(nat \<Rightarrow> cl_mem option) \<Rightarrow> cpp_arg list \<Rightarrow> u32 list" where
  "arg_words_page ms ts = map (\<lambda>n. if n < 2 * length ts then arg_word ms (ts ! (n div 2)) else 0) [0..<1024]"

lemma arg_page_of_args:
  assumes "length as = length ts"
    and "\<forall>n < length ts. ka_scalar_val (as ! n) = arg_word ms (ts ! n)"
  shows "arg_page as = arg_words_page ms ts"
  using assms by (auto simp: arg_page_def arg_words_page_def FPGAGPU_KERNARG_SIZE_def)

lemma with_event_returned:
  assumes "with_event ex (Some v) alloc junk c called = Some (c', Returned CL_SUCCESS)"
  obtains u where "called = Some (CL_SUCCESS, u)"
    and "assign_object ex clReleaseEvent v (case alloc of Some p \<Rightarrow> p | None \<Rightarrow> junk) (c\<lparr>lib := u\<rparr>) = Some (c', None)"
proof -
  from assms obtain err u where called: "called = Some (err, u)"
    by (auto simp: with_event_def split: option.splits)
  have "err = CL_SUCCESS" using assms
    by (cases "err = CL_SUCCESS") (auto simp: with_event_def called handled_def errHandler_def split: if_splits)
  with assms called show ?thesis
    by (intro that) (auto simp: with_event_def handled_def errHandler_def split: option.splits)
qed

lemma fresh_event:
  assumes "wrappers c v = Some 0"
  shows "assign_object ex clReleaseEvent v p c = Some (set_object v p c, None)"
  using assms by (simp add: assign_object_def release_held_def counted_def errHandler_def)

text \<open>C19: a functor call launches what it was given.  When a call of a kernel functor with arguments
  the driver stores as meant returns success, the driver was asked for exactly the four requests of a
  launch: the argument page holds every argument's word in order, twice, then zeros; the
  program is the kernel's; the launch command is that of the global and local range; and the
  event variable holds the event.\<close>

theorem functor_launch_exact:
  assumes "kernel_inv (lib c)" and "kernels (lib c) kern = Some k" and "kern \<noteq> 0"
    and "\<forall>t \<in> set ts. plain_arg (mems (lib c)) t" and "length ts \<le> FPGAGPU_MAX_ARGS"
    and "unat (kn_num_args k) \<le> length ts"
    and "KernelFunctor_call ex sys kern args ts memalign v (Some e) junk c = Some (c', Returned CL_SUCCESS)"
  shows "\<exists>g q cx buf cmd r1 r2 r3 r4. programs (lib c) (kn_program k) = Some g \<and> pg_is_built g \<and>
    queues (lib c) (ea_queue args) = Some q \<and> contexts (lib c) (cq_context q) = Some cx \<and> memalign = Some buf \<and>
    launch_cmd_of (nd_dimensions (ea_global args)) (range_sizes (ea_global args))
      (if nd_dimensions (ea_local args) \<noteq> 0 then Some (range_sizes (ea_local args)) else None) = Some cmd \<and>
    wrappers c' v = Some e \<and> 0 \<le> r1 \<and> 0 \<le> r2 \<and> 0 \<le> r3 \<and> 0 \<le> r4 \<and>
    sys_log (lib c') = sys_log (lib c) @
      [(SysDma (cx_fd cx) (kernarg_upload buf) (arg_words_page (mems (lib c)) ts), r1),
       (SysLoad (cx_fd cx) (kernel_image g) (image_words g), r2), (SysSubmit (cx_fd cx) cmd, r3),
       (SysDoorbell (cx_fd cx), r4)]"
proof -
  let ?c0 = "set_object v 0 c"
  have len: "length (kn_args k) = FPGAGPU_MAX_ARGS" using assms(1,2) by (simp add: kernel_inv_def kernel_ok_def)
  obtain k' where k': "setArgs ex kern 0 ts (lib c) = Some ((lib c)\<lparr>kernels := (kernels (lib c))(kern \<mapsto> k')\<rparr>, None)"
    and set: "args_set (mems (lib c)) 0 ts k k'"
    using setArgs_plain [OF assms(4,3,2) _ len, of 0 ex] assms(5) by auto
  note k'2 = set [unfolded args_set_def]
  let ?u = "(lib c)\<lparr>kernels := (kernels (lib c))(kern \<mapsto> k')\<rparr>"
  have num: "unat (kn_num_args k') = length ts" using k'2 assms(6) by (auto split: if_splits)
  have inv: "kernel_inv ?u" using assms(1,5) k'2 num by (auto simp: kernel_inv_def kernel_ok_def)
  let ?args = "take (unat (kn_num_args k')) (kn_args k')"
  have page: "arg_page ?args = arg_words_page (mems (lib c)) ts"
    by (rule arg_page_of_args) (use k'2 num assms(5) in auto)
  from assms(7) have call: "enqueueNDRangeKernel ex sys (ea_queue args) kern (ea_offset args) (ea_global args)
      (ea_local args) memalign (Some v) (Some e) junk (?c0\<lparr>lib := ?u\<rparr>) = Some (c', Returned CL_SUCCESS)"
    by (auto simp: KernelFunctor_call_def Wrapper_default_def k' throwing_def split: option.splits cpp_result.splits)
  obtain u1 where run: "clEnqueueNDRangeKernel sys (ea_queue args) kern (ucast (dimensions (ea_global args)))
        (Some (range_sizes (ea_global args)))
        (if dimensions (ea_local args) \<noteq> 0 then Some (range_sizes (ea_local args)) else None) memalign
        (wanted (Some v) (Some e)) ?u = Some (CL_SUCCESS, u1)"
    and ev: "assign_object ex clReleaseEvent v e (?c0\<lparr>lib := u1\<rparr>) = Some (c', None)"
    using with_event_returned [OF call [unfolded enqueueNDRangeKernel_def]] by auto
  have c': "c' = set_object v e (?c0\<lparr>lib := u1\<rparr>)" using ev by (simp add: fresh_event)
  have "ucast (ucast x :: u64) = x" for x :: u32
    by (rule bit_word_eqI) (auto simp: bit_simps)
  then have dims: "ucast (dimensions r) = nd_dimensions r" "dimensions r \<noteq> 0 \<longleftrightarrow> nd_dimensions r \<noteq> 0" for r
    unfolding dimensions_def by (simp, metis unsigned_0)
  have k: "kernels ?u kern = Some k'" by simp
  note req = enqueue_kernel_requests [OF inv run, unfolded k option.inject dims]
  then obtain g q cx buf cmd r1 r2 r3 r4 where "programs (lib c) (kn_program k) = Some g" "pg_is_built g"
      "queues (lib c) (ea_queue args) = Some q" "contexts (lib c) (cq_context q) = Some cx" "memalign = Some buf"
      "launch_cmd_of (nd_dimensions (ea_global args)) (range_sizes (ea_global args))
        (if nd_dimensions (ea_local args) \<noteq> 0 then Some (range_sizes (ea_local args)) else None) = Some cmd"
      "0 \<le> r1" "0 \<le> r2" "0 \<le> r3" "0 \<le> r4"
      "sys_log u1 = sys_log (lib c) @
        [(SysDma (cx_fd cx) (kernarg_upload buf) (arg_words_page (mems (lib c)) ts), r1),
         (SysLoad (cx_fd cx) (kernel_image g) (image_words g), r2), (SysSubmit (cx_fd cx) cmd, r3),
         (SysDoorbell (cx_fd cx), r4)]"
    using k'2 page by auto
  moreover have "wrappers c' v = Some e" "sys_log (lib c') = sys_log u1" by (simp_all add: c')
  ultimately show ?thesis by (metis (no_types, lifting))
qed

text \<open>A kernel of one argument launched through a functor.\<close>

definition demo_args :: EnqueueArgs where
  "demo_args = mk_EnqueueArgs 4 None [] None (NDRange1 100) None"

lemmas demo_range_evals = enqueueNDRangeKernel_def dimensions_def NDRange1_def NullRange_def NDRange0_def range_sizes_def
  with_event_def wanted_def handled_def errHandler_def assign_object_def release_held_def counted_def set_object_def

lemmas demo_launch_evals = clEnqueueNDRangeKernel_def demo_launch_def demo_kernel_def launch_kernel_def do_sys_def
  launch_cmd_of_def grid_dim_def complete_event_def cl_codes Let_def

lemmas demo_argument_evals = Kernel_setArg_def clSetKernelArg_def kernel_arg_of_def FPGAGPU_MAX_ARGS_def
  handled_def errHandler_def demo_launch_def demo_kernel_def cl_codes Let_def set_object_def

lemma demo_functor_run:
  "\<exists>c'. KernelFunctor_call False (\<lambda>_ _. 0) 6 demo_args [ValueArg [7, 0, 0, 0]] (Some 8192) 1 (Some 70) 0
     \<lparr>wrappers = Map.empty, lib = demo_launch\<rparr> = Some (c', Returned CL_SUCCESS)"
  by (simp add: KernelFunctor_call_def Wrapper_default_def demo_argument_evals demo_range_evals demo_launch_evals
      demo_args_def mk_EnqueueArgs_def)

theorem functor_launch_exact_witness:
  "\<exists>(c' :: umd cpp) cmd r1 r2 r3 r4.
    KernelFunctor_call False (\<lambda>_ _. 0) 6 demo_args [ValueArg [7, 0, 0, 0]] (Some 8192) 1 (Some 70) 0
      \<lparr>wrappers = Map.empty, lib = demo_launch\<rparr> = Some (c', Returned CL_SUCCESS) \<and>
    wrappers c' 1 = Some 70 \<and>
    sys_log (lib c') =
      [(SysDma 9 (kernarg_upload 8192) (arg_words_page Map.empty [ValueArg [7, 0, 0, 0]]), r1),
       (SysLoad 9 \<lparr>user_instr_ptr = 4096, instr_size = 1, kernel_id = 1\<rparr> [513], r2), (SysSubmit 9 cmd, r3),
       (SysDoorbell 9, r4)]"
proof -
  obtain k where k: "kernels demo_launch 6 = Some k" "unat (kn_num_args k) \<le> 1" "kn_program k = 5"
    by (simp add: demo_launch_def demo_kernel_def)
  have inv: "kernel_inv demo_launch"
    by (simp add: kernel_inv_def kernel_ok_def demo_launch_def demo_kernel_def FPGAGPU_MAX_ARGS_def umd_start_def)
  obtain c' where run: "KernelFunctor_call False (\<lambda>_ _. 0) 6 demo_args [ValueArg [7, 0, 0, 0]] (Some 8192) 1 (Some 70) 0
      \<lparr>wrappers = Map.empty, lib = demo_launch\<rparr> = Some (c', Returned CL_SUCCESS)" using demo_functor_run by blast
  have "mems demo_launch = Map.empty" "sys_log demo_launch = []"
    by (simp_all add: demo_launch_def umd_start_def)
  moreover from functor_launch_exact [OF _ _ _ _ _ _ run, of k] k inv
  obtain g q cx cmd r1 r2 r3 r4 where "programs demo_launch 5 = Some g" "queues demo_launch 4 = Some q"
      "contexts demo_launch (cq_context q) = Some cx" "wrappers c' 1 = Some 70"
      "sys_log (lib c') = sys_log demo_launch @
      [(SysDma (cx_fd cx) (kernarg_upload 8192) (arg_words_page (mems demo_launch) [ValueArg [7, 0, 0, 0]]), r1),
       (SysLoad (cx_fd cx) (kernel_image g) (image_words g), r2), (SysSubmit (cx_fd cx) cmd, r3),
       (SysDoorbell (cx_fd cx), r4)]"
    by (auto simp: FPGAGPU_MAX_ARGS_def demo_args_def mk_EnqueueArgs_def)
  ultimately show ?thesis using run
    by (auto simp: demo_launch_def demo_program_def kernel_image_def image_words_def)
qed

section \<open>What goes wrong\<close>

text \<open>When the driver cannot allocate an event it reports success and the C++ event is garbage.  Of
  each enqueue function with an event variable: if it returns success while \<open>malloc\<close> gave the
  driver no event, the variable holds the indeterminate value its local \<open>cl_event\<close> had, and if that
  names no event, destroying the variable is undefined.\<close>

theorem event_left_uninitialised:
  assumes "Some (c', Returned CL_SUCCESS) \<in>
     {enqueueNDRangeKernel ex sys queue kern offset global local memalign (Some v) None junk c,
      enqueueReadBuffer ex sys queue buffer byte_offset sz ptr (Some v) None junk c,
      enqueueWriteBuffer ex sys queue buffer byte_offset sz ptr (Some v) None junk c,
      enqueueCopyBuffer ex sys queue src dst src_offset dst_offset sz bounce (Some v) None junk c}"
  shows "wrappers c' v = Some junk \<and>
    (junk \<noteq> 0 \<longrightarrow> events (lib c') junk = None \<longrightarrow> Wrapper_destroy clReleaseEvent v c' = None)"
proof -
  from assms obtain called where "with_event ex (Some v) None junk c called = Some (c', Returned CL_SUCCESS)"
    unfolding enqueueNDRangeKernel_def enqueueReadBuffer_def enqueueWriteBuffer_def enqueueCopyBuffer_def
    by auto
  then obtain u where "assign_object ex clReleaseEvent v junk (c\<lparr>lib := u\<rparr>) = Some (c', None)"
    by (rule with_event_returned) simp
  then have "wrappers c' v = Some junk"
    by (auto simp: assign_object_def release_held_def errHandler_def split: option.splits if_splits)
  then show ?thesis by (simp add: Wrapper_destroy_def counted_def clReleaseEvent_def)
qed

theorem event_left_uninitialised_witness:
  "\<exists>c' :: umd cpp. enqueueNDRangeKernel True (\<lambda>_ _. 0) 4 6 NullRange (NDRange1 100) NullRange (Some 8192) (Some 1) None 77
      \<lparr>wrappers = [1 \<mapsto> 0], lib = demo_launch\<rparr> = Some (c', Returned CL_SUCCESS) \<and>
    wrappers c' 1 = Some 77 \<and> Wrapper_destroy clReleaseEvent 1 c' = None"
proof -
  let ?call = "enqueueNDRangeKernel True (\<lambda>_ _. 0) 4 6 NullRange (NDRange1 100) NullRange (Some 8192) (Some 1) None 77
      \<lparr>wrappers = [1 \<mapsto> 0], lib = demo_launch\<rparr>"
  have "\<exists>c'. ?call = Some (c', Returned CL_SUCCESS) \<and> events (lib c') 77 = None"
    by (simp add: demo_range_evals demo_launch_evals umd_start_def set_object_def)
  then obtain c' where run: "?call = Some (c', Returned CL_SUCCESS)" and ev: "events (lib c') 77 = None" by blast
  have "Some (c', Returned CL_SUCCESS) \<in>
     {?call,
      enqueueReadBuffer True (\<lambda>_ _. 0) 4 0 0 0 0 (Some 1) None 77 \<lparr>wrappers = [1 \<mapsto> 0], lib = demo_launch\<rparr>,
      enqueueWriteBuffer True (\<lambda>_ _. 0) 4 0 0 0 0 (Some 1) None 77 \<lparr>wrappers = [1 \<mapsto> 0], lib = demo_launch\<rparr>,
      enqueueCopyBuffer True (\<lambda>_ _. 0) 4 0 0 0 0 0 None (Some 1) None 77 \<lparr>wrappers = [1 \<mapsto> 0], lib = demo_launch\<rparr>}"
    unfolding run [symmetric] by (rule insertI1)
  from event_left_uninitialised [OF this] run ev show ?thesis by auto
qed

lemma local_argument_refused:
  "Kernel_setArg ex kern i (LocalSpaceArg n) u =
     Some (u, handled ex (if kern = 0 then CL_INVALID_KERNEL
       else if i \<ge> of_nat FPGAGPU_MAX_ARGS then CL_INVALID_ARG_INDEX else CL_INVALID_ARG_VALUE))"
  by (simp add: Kernel_setArg_def clSetKernelArg_def)

lemma setArgs_append:
  "setArgs ex kern i (ts @ ts') u =
     (case setArgs ex kern i ts u of
        Some (u1, None) \<Rightarrow> setArgs ex kern (i + length ts) ts' u1
      | r \<Rightarrow> r)"
  by (induction ts arbitrary: i u) (auto split: option.splits cpp_result.splits)

lemma setArgs_log: "setArgs ex kern i ts u = Some (u', e) \<Longrightarrow> sys_log u' = sys_log u"
proof (induction ts arbitrary: i u)
  case (Cons t ts)
  have "Kernel_setArg ex kern (of_nat i) t u = Some (u1, r) \<Longrightarrow> sys_log u1 = sys_log u" for u1 r
    by (auto simp: Kernel_setArg_def clSetKernelArg_def Let_def split: option.splits if_splits)
  with Cons show ?case by (fastforce split: option.splits cpp_result.splits)
qed simp

text \<open>Local memory cannot be passed, and the functor does not notice.  The driver refuses every
  \<open>LocalSpaceArg\<close>; without exceptions a functor call with one at the end is the call without it, so
  the kernel runs with the argument missing; with exceptions no such call returns, and
  nothing is launched.\<close>

theorem functor_drops_local_arguments:
  "KernelFunctor_call False sys kern args (ts @ [LocalSpaceArg n]) memalign v alloc junk c =
     KernelFunctor_call False sys kern args ts memalign v alloc junk c \<and>
   (\<forall>c' r. KernelFunctor_call True sys kern args (ts @ [LocalSpaceArg n]) memalign v alloc junk c = Some (c', r) \<longrightarrow>
     (\<exists>e. r = Thrown e) \<and> sys_log (lib c') = sys_log (lib c))"
proof (intro conjI allI impI)
  have "setArgs False kern 0 (ts @ [LocalSpaceArg n]) u = setArgs False kern 0 ts u" for u
    by (auto simp: setArgs_append local_argument_refused handled_def errHandler_def split: option.splits)
  then show "KernelFunctor_call False sys kern args (ts @ [LocalSpaceArg n]) memalign v alloc junk c =
     KernelFunctor_call False sys kern args ts memalign v alloc junk c"
    by (simp add: KernelFunctor_call_def Wrapper_default_def)
next
  fix c' r assume run: "KernelFunctor_call True sys kern args (ts @ [LocalSpaceArg n]) memalign v alloc junk c = Some (c', r)"
  have thrown: "setArgs True kern 0 (ts @ [LocalSpaceArg n]) u \<noteq> Some (u1, None)" for u u1
    by (auto simp: setArgs_append local_argument_refused handled_def errHandler_def cl_codes split: option.splits)
  then obtain u e where s: "setArgs True kern 0 (ts @ [LocalSpaceArg n]) (lib c) = Some (u, Some e)"
    using run by (auto simp: KernelFunctor_call_def Wrapper_default_def split: option.splits)
  have "Wrapper_destroy clReleaseEvent v ((set_object v 0 c)\<lparr>lib := u\<rparr>) = Some (drop_wrapper v ((set_object v 0 c)\<lparr>lib := u\<rparr>), None)"
    by (simp add: Wrapper_destroy_def)
  with run s show "\<exists>e. r = Thrown e" "sys_log (lib c') = sys_log (lib c)"
    using setArgs_log [OF s] by (auto simp: KernelFunctor_call_def Wrapper_default_def throwing_def)
qed

theorem functor_drops_local_arguments_witness:
  "\<exists>c' :: umd cpp. KernelFunctor_call True (\<lambda>_ _. 0) 6 demo_args ([ValueArg [7, 0, 0, 0]] @ [LocalSpaceArg 64]) (Some 8192) 1
     (Some 70) 0 \<lparr>wrappers = Map.empty, lib = demo_launch\<rparr> = Some (c', Thrown CL_INVALID_ARG_VALUE) \<and>
   sys_log (lib c') = sys_log demo_launch"
proof -
  let ?call = "KernelFunctor_call True (\<lambda>_ _. 0) 6 demo_args ([ValueArg [7, 0, 0, 0]] @ [LocalSpaceArg 64]) (Some 8192) 1
     (Some 70) 0 \<lparr>wrappers = Map.empty, lib = demo_launch\<rparr>"
  have "\<exists>c'. ?call = Some (c', Thrown CL_INVALID_ARG_VALUE)"
    by (simp add: KernelFunctor_call_def Wrapper_default_def throwing_def Wrapper_destroy_def demo_argument_evals
        word_le_nat_alt)
  then obtain c' where run: "?call = Some (c', Thrown CL_INVALID_ARG_VALUE)" by blast
  with functor_drops_local_arguments [of "\<lambda>_ _. 0" 6 demo_args "[ValueArg [7, 0, 0, 0]]" 64 "Some 8192" 1 "Some 70" 0]
  show ?thesis by fastforce
qed

end
