(* ===== verification/HppObjects.thy ===== *)
theory HppObjects
  imports HppCommands
begin

text \<open>
  Objects of the C++ binding (\<open>include/CL/opencl.hpp\<close>) over this driver: discovery of platforms and
  devices, the default platform with its \<open>std::once_flag\<close>, the constructors of contexts, queues,
  buffers, programs and kernels, and the scopes of a program that declares such objects.
\<close>

section \<open>Discovery\<close>

text \<open>\<open>Platform::get\<close> for a vector and \<open>Platform::getDevices\<close>: the code and the ids that the vector holds
  afterwards; it is unchanged on errors.  The target is a version below 1.2, where the devices that
  \<open>getDevices\<close> wraps are not counted, so that wrapping them calls nothing.\<close>

definition Platform_get_all :: "bool \<Rightarrow> nat list option \<Rightarrow> cpp_result \<times> nat list option" where
  "Platform_get_all ex platforms =
     (case platforms of
        None \<Rightarrow> (handled ex CL_INVALID_ARG_VALUE, None)
      | Some old \<Rightarrow>
          let (err, _, n') = clGetPlatformIDs 0 None True; n = (case n' of None \<Rightarrow> 0 | Some n \<Rightarrow> n)
          in if err \<noteq> CL_SUCCESS then (handled ex err, Some old)
             else let (err, ids, _) = clGetPlatformIDs n (Some (replicate (unat n) 0)) False
                  in if err \<noteq> CL_SUCCESS then (handled ex err, Some old) else (Returned CL_SUCCESS, ids))"

definition Platform_getDevices :: "bool \<Rightarrow> nat \<Rightarrow> u64 \<Rightarrow> nat list option \<Rightarrow> cpp_result \<times> nat list option" where
  "Platform_getDevices ex platform type devices =
     (case devices of
        None \<Rightarrow> (handled ex CL_INVALID_ARG_VALUE, None)
      | Some old \<Rightarrow>
          let (err, _, n') = clGetDeviceIDs platform type 0 None True; n = (case n' of None \<Rightarrow> 0 | Some n \<Rightarrow> n)
          in if err \<noteq> CL_SUCCESS \<and> err \<noteq> CL_DEVICE_NOT_FOUND then (handled ex err, Some old)
             else if n > 0 then
               let (err, ids, _) = clGetDeviceIDs platform type n (Some (replicate (unat n) 0)) False
               in if err \<noteq> CL_SUCCESS then (handled ex err, Some old) else (Returned CL_SUCCESS, ids)
             else (Returned CL_SUCCESS, Some []))"

text \<open>The default platform.  A platform is not counted, so its wrapper is its id.\<close>

record default_platform =
  default_initialized :: bool
  default_value :: nat
  default_error :: int

definition default_start :: default_platform where
  "default_start = \<lparr>default_initialized = False, default_value = 0, default_error = CL_SUCCESS\<rparr>"

definition Platform_makeDefault :: "default_platform \<Rightarrow> default_platform" where
  "Platform_makeDefault d =
     (let (err, _, n') = clGetPlatformIDs 0 None True; n = (case n' of None \<Rightarrow> 0 | Some n \<Rightarrow> n)
      in if err \<noteq> CL_SUCCESS then d\<lparr>default_error := err\<rparr>
         else if n = 0 then d\<lparr>default_error := CL_INVALID_PLATFORM\<rparr>
         else let (err, ids, _) = clGetPlatformIDs n (Some (replicate (unat n) 0)) False
              in if err \<noteq> CL_SUCCESS then d\<lparr>default_error := err\<rparr>
                 else d\<lparr>default_value := (case ids of None \<Rightarrow> 0 | Some ps \<Rightarrow> ps ! 0)\<rparr>)"

definition makeDefaultProvided :: "nat \<Rightarrow> default_platform \<Rightarrow> default_platform" where
  "makeDefaultProvided p d = d\<lparr>default_value := p\<rparr>"

definition call_once :: "(default_platform \<Rightarrow> default_platform) \<Rightarrow> default_platform \<Rightarrow> default_platform" where
  "call_once f d = (if default_initialized d then d else (f d)\<lparr>default_initialized := True\<rparr>)"

text \<open>What a program does with the default: the platform it gets, or the error it is thrown.\<close>

datatype default_call = GetDefault | SetDefault nat

definition default_step :: "bool \<Rightarrow> default_call \<Rightarrow> default_platform \<Rightarrow> (int + nat) \<times> default_platform" where
  "default_step ex call d =
     (let d1 = call_once (case call of GetDefault \<Rightarrow> Platform_makeDefault | SetDefault p \<Rightarrow> makeDefaultProvided p) d
      in ((case errHandler ex (default_error d1) of Some e \<Rightarrow> Inl e | None \<Rightarrow> Inr (default_value d1)), d1))"

fun default_run :: "bool \<Rightarrow> default_call list \<Rightarrow> default_platform \<Rightarrow> (int + nat) list" where
  "default_run ex [] d = []"
| "default_run ex (c # cs) d = (let (r, d1) = default_step ex c d in r # default_run ex cs d1)"

section \<open>Constructors\<close>

text \<open>
  The body they share: the object and the code the driver's create function gives are stored, the
  code is handled.  An exception destroys the base class, which releases what was stored.
\<close>

definition constructed :: "bool \<Rightarrow> umd refop \<Rightarrow> nat \<Rightarrow> (int \<times> nat \<times> umd) option \<Rightarrow> umd cpp \<Rightarrow> (umd cpp \<times> cpp_result) option" where
  "constructed ex rel v created c =
     (case created of
        None \<Rightarrow> None
      | Some (error, obj, u) \<Rightarrow>
          let c1 = set_object v obj (c\<lparr>lib := u\<rparr>)
          in case handled ex error of
               Returned err \<Rightarrow> Some (c1, Returned err)
             | Thrown e \<Rightarrow> (case Wrapper_destroy rel v c1 of None \<Rightarrow> None | Some (c2, _) \<Rightarrow> Some (c2, Thrown e)))"

definition Context_devices :: "bool \<Rightarrow> sys \<Rightarrow> nat list \<Rightarrow> nat option \<Rightarrow> nat \<Rightarrow> umd cpp \<Rightarrow> (umd cpp \<times> cpp_result) option" where
  "Context_devices ex sys devices alloc v c =
     constructed ex (clReleaseContext sys) v
       (Some (clCreateContext sys (of_nat (length devices)) (case devices of [] \<Rightarrow> None | d # ds \<Rightarrow> Some d) alloc (lib c))) c"

definition Context_device :: "bool \<Rightarrow> sys \<Rightarrow> nat \<Rightarrow> nat option \<Rightarrow> nat \<Rightarrow> umd cpp \<Rightarrow> (umd cpp \<times> cpp_result) option" where
  "Context_device ex sys device alloc v c =
     constructed ex (clReleaseContext sys) v (Some (clCreateContext sys 1 (Some device) alloc (lib c))) c"

text \<open>The object that a wrapper argument holds.\<close>

definition held :: "nat \<Rightarrow> umd cpp \<Rightarrow> nat" where
  "held w c = (case wrappers c w of None \<Rightarrow> 0 | Some p \<Rightarrow> p)"

text \<open>The constructor from a context, a device and properties, for a target below 2.0.\<close>

definition CommandQueue_device ::
  "bool \<Rightarrow> nat \<Rightarrow> nat \<Rightarrow> u64 \<Rightarrow> nat option \<Rightarrow> nat \<Rightarrow> umd cpp \<Rightarrow> (umd cpp \<times> cpp_result) option" where
  "CommandQueue_device ex context_var device properties alloc v c =
     constructed ex clReleaseCommandQueue v
       (Some (clCreateCommandQueue (held context_var c) device properties alloc (lib c))) c"

definition Buffer_context ::
  "bool \<Rightarrow> sys \<Rightarrow> nat \<Rightarrow> u64 \<Rightarrow> u64 \<Rightarrow> u64 \<Rightarrow> nat option \<Rightarrow> nat \<Rightarrow> umd cpp \<Rightarrow> (umd cpp \<times> cpp_result) option" where
  "Buffer_context ex sys context_var flags sz host_ptr alloc v c =
     constructed ex clReleaseMemObject v (clCreateBuffer sys (held context_var c) flags sz host_ptr alloc (lib c)) c"

text \<open>The data of a string is followed by a terminator; lengths are given.\<close>

definition Program_sources ::
  "bool \<Rightarrow> nat \<Rightarrow> string list \<Rightarrow> nat option \<Rightarrow> bool \<Rightarrow> nat \<Rightarrow> umd cpp \<Rightarrow> (umd cpp \<times> cpp_result) option" where
  "Program_sources ex context_var sources alloc source_alloc v c =
     constructed ex clReleaseProgram v
       (clCreateProgramWithSource (held context_var c)
          (Some (map (\<lambda>s. (Some (s @ [CHR 0x00]), of_nat (length s))) sources)) alloc source_alloc (lib c)) c"

definition Kernel_program ::
  "bool \<Rightarrow> nat \<Rightarrow> string \<Rightarrow> nat option \<Rightarrow> bool \<Rightarrow> nat \<Rightarrow> umd cpp \<Rightarrow> (umd cpp \<times> cpp_result) option" where
  "Kernel_program ex program_var name alloc dup_ok v c =
     constructed ex clReleaseKernel v (clCreateKernel (held program_var c) (Some name) alloc dup_ok (lib c)) c"

text \<open>A declaration with the rest of its block: the object is destroyed when the block is left, by
  an exception or not.\<close>

definition scoped ::
  "umd refop \<Rightarrow> nat \<Rightarrow> (nat \<Rightarrow> umd cpp \<Rightarrow> (umd cpp \<times> cpp_result) option) \<Rightarrow>
     (umd cpp \<Rightarrow> (umd cpp \<times> cpp_result) option) \<Rightarrow> umd cpp \<Rightarrow> (umd cpp \<times> cpp_result) option" where
  "scoped rel v ctor body c =
     (case ctor v c of
        None \<Rightarrow> None
      | Some (c1, Thrown e) \<Rightarrow> Some (c1, Thrown e)
      | Some (c1, Returned _) \<Rightarrow>
          (case body c1 of
             None \<Rightarrow> None
           | Some (c2, r) \<Rightarrow>
               (case Wrapper_destroy rel v c2 of None \<Rightarrow> None | Some (c3, _) \<Rightarrow> Some (c3, r))))"

section \<open>Properties of discovery\<close>

lemma platform_ids: "clGetPlatformIDs 0 None True = (CL_SUCCESS, None, Some 1)"
  "clGetPlatformIDs 1 (Some [0]) False = (CL_SUCCESS, Some [g_platform_id], None)"
  by (simp_all add: clGetPlatformIDs_def)

text \<open>Discovery through the binding finds exactly this platform and its device.  A program that
  passes a vector gets the one platform and success; for a device type it gets the one device if
  the type has one of the bits GPU, accelerator and default, and otherwise an empty vector and
  success; without a vector it gets the error for invalid arguments.\<close>

theorem discovery_exact:
  "Platform_get_all ex (Some old) = (Returned CL_SUCCESS, Some [g_platform_id]) \<and>
   Platform_getDevices ex platform type (Some old) = (Returned CL_SUCCESS,
     Some (if type AND (CL_DEVICE_TYPE_GPU OR CL_DEVICE_TYPE_ACCELERATOR OR CL_DEVICE_TYPE_DEFAULT) = 0 then []
           else [g_device_id])) \<and>
   Platform_get_all ex None = (handled ex CL_INVALID_ARG_VALUE, None) \<and>
   Platform_getDevices ex platform type None = (handled ex CL_INVALID_ARG_VALUE, None)"
  by (simp add: Platform_get_all_def Platform_getDevices_def platform_ids clGetDeviceIDs_def Let_def)

lemma make_default: "Platform_makeDefault d = d\<lparr>default_value := g_platform_id\<rparr>"
  by (simp add: Platform_makeDefault_def platform_ids)

text \<open>The platform the first call settles on.\<close>

fun settled :: "default_call \<Rightarrow> nat" where
  "settled GetDefault = g_platform_id"
| "settled (SetDefault p) = p"

lemma default_settled:
  assumes "default_initialized d" and "default_error d = CL_SUCCESS"
  shows "default_run ex cs d = replicate (length cs) (Inr (default_value d))"
  using assms by (induction cs) (simp_all add: default_step_def call_once_def errHandler_def Let_def)

text \<open>All calls for the default platform agree.  In every program the first of the calls to
  \<open>getDefault\<close> and \<open>setDefault\<close> decides, and each call, whichever it is and whatever platform it
  passes, returns the platform the first one settled on and throws nothing.\<close>

theorem platform_default_fixed:
  "default_run ex (c # cs) default_start = replicate (Suc (length cs)) (Inr (settled c))"
proof (cases c)
  case GetDefault
  then show ?thesis
    by (simp add: default_step_def call_once_def make_default default_start_def errHandler_def Let_def default_settled)
next
  case (SetDefault p)
  then show ?thesis
    by (simp add: default_step_def call_once_def makeDefaultProvided_def default_start_def errHandler_def Let_def
        default_settled)
qed

section \<open>Scopes\<close>

text \<open>All objects of the driver and all variables.\<close>

definition driver_objects :: "umd \<Rightarrow> _" where
  "driver_objects u = (contexts u, queues u, mems u, programs u, kernels u, events u)"

definition objects :: "umd cpp \<Rightarrow> _" where
  "objects c = (driver_objects (lib c), wrappers c)"

text \<open>A constructor at which nothing is lost: it throws and leaves the objects as they were, or
  destroying its variable does.\<close>

definition balanced :: "umd refop \<Rightarrow> nat \<Rightarrow> (nat \<Rightarrow> umd cpp \<Rightarrow> (umd cpp \<times> cpp_result) option) \<Rightarrow> umd cpp \<Rightarrow> bool" where
  "balanced rel v ctor c \<longleftrightarrow>
     (\<exists>c1 e. ctor v c = Some (c1, Thrown e) \<and> objects c1 = objects c) \<or>
     (\<exists>c1 err. ctor v c = Some (c1, Returned err) \<and>
        (\<forall>c2. objects c2 = objects c1 \<longrightarrow>
          (\<exists>c3 x. Wrapper_destroy rel v c2 = Some (c3, x) \<and> objects c3 = objects c)))"

lemma scoped_balanced:
  assumes "balanced rel v ctor c"
    and "\<And>c1 err. ctor v c = Some (c1, Returned err) \<Longrightarrow> \<exists>c2 r. body c1 = Some (c2, r) \<and> objects c2 = objects c1"
  shows "\<exists>c' r. scoped rel v ctor body c = Some (c', r) \<and> objects c' = objects c"
  using assms(1) unfolding balanced_def
proof
  assume "\<exists>c1 e. ctor v c = Some (c1, Thrown e) \<and> objects c1 = objects c"
  then show ?thesis by (auto simp: scoped_def)
next
  assume "\<exists>c1 err. ctor v c = Some (c1, Returned err) \<and>
      (\<forall>c2. objects c2 = objects c1 \<longrightarrow> (\<exists>c3 x. Wrapper_destroy rel v c2 = Some (c3, x) \<and> objects c3 = objects c))"
  then obtain c1 err where c1: "ctor v c = Some (c1, Returned err)"
    and d: "\<And>c2. objects c2 = objects c1 \<Longrightarrow> \<exists>c3 x. Wrapper_destroy rel v c2 = Some (c3, x) \<and> objects c3 = objects c"
    by blast
  obtain c2 r where c2: "body c1 = Some (c2, r)" "objects c2 = objects c1" using assms(2) [OF c1] by blast
  with d obtain c3 x where "Wrapper_destroy rel v c2 = Some (c3, x)" "objects c3 = objects c" by blast
  with c1 c2 show ?thesis by (auto simp: scoped_def)
qed

text \<open>What a create function and its release owe each other: no object on an error, otherwise one that a
  single release removes.\<close>

lemma constructed_balanced:
  assumes "wrappers c v = None" and "created = Some (error, obj, u)"
    and "error \<noteq> CL_SUCCESS \<Longrightarrow> obj = 0 \<and> driver_objects u = driver_objects (lib c)"
    and "\<And>u'. error = CL_SUCCESS \<Longrightarrow> driver_objects u' = driver_objects u \<Longrightarrow>
      obj \<noteq> 0 \<and> (\<exists>r w. rel obj u' = Some (r, w) \<and> driver_objects w = driver_objects (lib c))"
  shows "balanced rel v (\<lambda>v. constructed ex rel v created) c"
proof (cases "error = CL_SUCCESS")
  case True
  have "\<exists>c3 x. Wrapper_destroy rel v c2 = Some (c3, x) \<and> objects c3 = objects c"
    if "objects c2 = objects (set_object v obj (c\<lparr>lib := u\<rparr>))" for c2
  proof -
    from that have c2: "driver_objects (lib c2) = driver_objects u" "wrappers c2 = (wrappers c)(v \<mapsto> obj)"
      by (simp_all add: objects_def)
    obtain r w where w: "obj \<noteq> 0" "rel obj (lib c2) = Some (r, w)" "driver_objects w = driver_objects (lib c)"
      using assms(4) [OF True c2(1)] by blast
    have "(wrappers c2)(v := None) = wrappers c" using c2(2) assms(1) by (simp add: fun_upd_idem)
    with c2 w show ?thesis by (auto simp: Wrapper_destroy_def counted_def objects_def)
  qed
  then show ?thesis
    by (intro disjI2 [THEN balanced_def [THEN iffD2]])
      (simp add: constructed_def assms(2) True handled_def errHandler_def)
next
  case False
  note err = assms(3) [OF False]
  have undo: "(wrappers c)(v := None) = wrappers c" using assms(1) by (simp add: fun_upd_idem)
  have "\<exists>c3 x. Wrapper_destroy rel v c2 = Some (c3, x) \<and> objects c3 = objects c"
    if "objects c2 = objects (set_object v obj (c\<lparr>lib := u\<rparr>))" for c2
  proof -
    from that have c2: "driver_objects (lib c2) = driver_objects u" "wrappers c2 = (wrappers c)(v \<mapsto> 0)"
      using err by (simp_all add: objects_def)
    then show ?thesis using err undo by (simp add: Wrapper_destroy_def objects_def)
  qed
  then show ?thesis using err undo False
    by (cases ex) (auto simp: balanced_def constructed_def assms(2) handled_def errHandler_def Wrapper_destroy_def
        objects_def)
qed

lemma context_balanced:
  assumes "wrappers c v = None" and "\<And>p. alloc = Some p \<Longrightarrow> p \<noteq> 0 \<and> contexts (lib c) p = None"
  shows "balanced (clReleaseContext sys) v (Context_device ex sys device alloc) c"
proof -
  obtain error obj u where u: "clCreateContext sys 1 (Some device) alloc (lib c) = (error, obj, u)" by (metis prod_cases3)
  have fail: "obj = 0 \<and> driver_objects u = driver_objects (lib c)" if "error \<noteq> CL_SUCCESS"
    using u that by (auto simp: clCreateContext_def do_sys_def Let_def driver_objects_def split: if_splits option.splits)
  have succ: "obj \<noteq> 0 \<and> (\<exists>r w. clReleaseContext sys obj u' = Some (r, w) \<and> driver_objects w = driver_objects (lib c))"
    if "error = CL_SUCCESS" "driver_objects u' = driver_objects u" for u'
  proof -
    from u that(1) have alloc: "alloc = Some obj" and upd: "contexts u = (contexts (lib c))(obj := contexts u obj)"
      and x: "\<exists>x. contexts u obj = Some x \<and> cx_refs x = 1"
      and rest: "driver_objects u = (contexts u, queues (lib c), mems (lib c), programs (lib c), kernels (lib c), events (lib c))"
      by (auto simp: clCreateContext_def do_sys_def Let_def driver_objects_def cl_codes split: if_splits option.splits)
    from x obtain x where x: "contexts u obj = Some x" "cx_refs x = 1" by blast
    have "(contexts u)(obj := None) = contexts (lib c)"
      using arg_cong [OF upd, of "\<lambda>f. f(obj := None)", unfolded fun_upd_upd] assms(2) [OF alloc]
      by (metis fun_upd_idem)
    with rest x that(2) assms(2) [OF alloc] show ?thesis
      by (auto simp: clReleaseContext_def do_sys_def Let_def driver_objects_def)
  qed
  have "balanced (clReleaseContext sys) v (\<lambda>v. constructed ex (clReleaseContext sys) v (Some (error, obj, u))) c"
    by (rule constructed_balanced [where error = error and obj = obj and u = u]) (use assms(1) fail succ in blast)+
  then show ?thesis by (simp add: Context_device_def balanced_def u)
qed

lemma queue_balanced:
  assumes "wrappers c v = None" and "\<And>p. alloc = Some p \<Longrightarrow> p \<noteq> 0 \<and> queues (lib c) p = None"
  shows "balanced clReleaseCommandQueue v (CommandQueue_device ex w device properties alloc) c"
proof -
  obtain error obj u where u: "clCreateCommandQueue (held w c) device properties alloc (lib c) = (error, obj, u)"
    by (metis prod_cases3)
  have fail: "obj = 0 \<and> driver_objects u = driver_objects (lib c)" if "error \<noteq> CL_SUCCESS"
    using u that by (auto simp: clCreateCommandQueue_def driver_objects_def split: if_splits option.splits)
  have succ: "obj \<noteq> 0 \<and> (\<exists>r w. clReleaseCommandQueue obj u' = Some (r, w) \<and> driver_objects w = driver_objects (lib c))"
    if "error = CL_SUCCESS" "driver_objects u' = driver_objects u" for u'
  proof -
    from u that(1) have alloc: "alloc = Some obj" and upd: "queues u = (queues (lib c))(obj := queues u obj)"
      and x: "\<exists>x. queues u obj = Some x \<and> cq_refs x = 1"
      and rest: "driver_objects u = (contexts (lib c), queues u, mems (lib c), programs (lib c), kernels (lib c), events (lib c))"
      by (auto simp: clCreateCommandQueue_def driver_objects_def cl_codes split: if_splits option.splits)
    from x obtain x where x: "queues u obj = Some x" "cq_refs x = 1" by blast
    have "(queues u)(obj := None) = queues (lib c)"
      using arg_cong [OF upd, of "\<lambda>f. f(obj := None)", unfolded fun_upd_upd] assms(2) [OF alloc]
      by (metis fun_upd_idem)
    with rest x that(2) assms(2) [OF alloc] show ?thesis
      by (auto simp: clReleaseCommandQueue_def Let_def driver_objects_def)
  qed
  have "balanced clReleaseCommandQueue v (\<lambda>v. constructed ex clReleaseCommandQueue v (Some (error, obj, u))) c"
    by (rule constructed_balanced [where error = error and obj = obj and u = u]) (use assms(1) fail succ in blast)+
  then show ?thesis by (simp add: CommandQueue_device_def balanced_def u)
qed

lemma buffer_balanced:
  assumes "wrappers c v = None" and "\<And>p. alloc = Some p \<Longrightarrow> p \<noteq> 0 \<and> mems (lib c) p = None"
    and "held w c = 0 \<or> contexts (lib c) (held w c) \<noteq> None"
  shows "balanced clReleaseMemObject v (Buffer_context ex sys w flags sz host_ptr alloc) c"
proof -
  have "clCreateBuffer sys (held w c) flags sz host_ptr alloc (lib c) \<noteq> None"
    using assms(3) by (auto simp: clCreateBuffer_def Let_def case_prod_unfold split: option.splits)
  then obtain error obj u where u: "clCreateBuffer sys (held w c) flags sz host_ptr alloc (lib c) = Some (error, obj, u)"
    by (metis not_None_eq prod_cases3)
  have fail: "obj = 0 \<and> driver_objects u = driver_objects (lib c)" if e: "error \<noteq> CL_SUCCESS"
  proof -
    have "obj = 0 \<and> (mems u = mems (lib c) \<or> (\<exists>p x. alloc = Some p \<and> mems u = ((mems (lib c))(p \<mapsto> x))(p := None))) \<and>
      driver_objects u = (contexts (lib c), queues (lib c), mems u, programs (lib c), kernels (lib c), events (lib c))"
      using u e by (auto simp: clCreateBuffer_def do_sys_def Let_def case_prod_unfold driver_objects_def split: if_splits option.splits)
    moreover have "((mems (lib c))(p \<mapsto> x))(p := None) = mems (lib c)" if "alloc = Some p" for p x
      using assms(2) [OF that] by (simp add: fun_upd_idem)
    ultimately show ?thesis by (auto simp: driver_objects_def)
  qed
  have succ: "obj \<noteq> 0 \<and> (\<exists>r w. clReleaseMemObject obj u' = Some (r, w) \<and> driver_objects w = driver_objects (lib c))"
    if "error = CL_SUCCESS" "driver_objects u' = driver_objects u" for u'
  proof -
    from u that(1) have alloc: "alloc = Some obj" and upd: "mems u = (mems (lib c))(obj := mems u obj)"
      and x: "\<exists>x. mems u obj = Some x \<and> mo_refs x = 1"
      and rest: "driver_objects u = (contexts (lib c), queues (lib c), mems u, programs (lib c), kernels (lib c), events (lib c))"
      by (auto simp: clCreateBuffer_def do_sys_def Let_def case_prod_unfold driver_objects_def cl_codes split: if_splits option.splits)
    from x obtain x where x: "mems u obj = Some x" "mo_refs x = 1" by blast
    have "(mems u)(obj := None) = mems (lib c)"
      using arg_cong [OF upd, of "\<lambda>f. f(obj := None)", unfolded fun_upd_upd] assms(2) [OF alloc]
      by (metis fun_upd_idem)
    with rest x that(2) assms(2) [OF alloc] show ?thesis
      by (auto simp: clReleaseMemObject_def Let_def driver_objects_def)
  qed
  have "balanced clReleaseMemObject v (\<lambda>v. constructed ex clReleaseMemObject v (Some (error, obj, u))) c"
    by (rule constructed_balanced [where error = error and obj = obj and u = u]) (use assms(1) fail succ in blast)+
  then show ?thesis by (simp add: Buffer_context_def balanced_def u)
qed

text \<open>What a constructor that returned leaves for the next one.\<close>

lemma constructed_returned:
  assumes "constructed ex rel v (Some (error, obj, u)) c = Some (c1, Returned err)"
  shows "c1 = set_object v obj (c\<lparr>lib := u\<rparr>)"
  using assms by (auto simp: constructed_def Let_def split: cpp_result.splits option.splits)

lemma context_returned:
  assumes "Context_device ex sys device alloc v c = Some (c1, Returned err)"
  shows "\<exists>obj. wrappers c1 = (wrappers c)(v \<mapsto> obj) \<and> queues (lib c1) = queues (lib c) \<and> mems (lib c1) = mems (lib c) \<and>
    (obj = 0 \<or> contexts (lib c1) obj \<noteq> None)"
proof -
  obtain error obj u where u: "clCreateContext sys 1 (Some device) alloc (lib c) = (error, obj, u)" by (metis prod_cases3)
  have "queues u = queues (lib c) \<and> mems u = mems (lib c) \<and> (obj = 0 \<or> contexts u obj \<noteq> None)"
    using u by (auto simp: clCreateContext_def do_sys_def Let_def split: if_splits option.splits)
  with constructed_returned [OF assms [unfolded Context_device_def u]] show ?thesis by auto
qed

lemma queue_returned:
  assumes "CommandQueue_device ex w device properties alloc v c = Some (c1, Returned err)"
  shows "\<exists>obj. wrappers c1 = (wrappers c)(v \<mapsto> obj) \<and> contexts (lib c1) = contexts (lib c) \<and> mems (lib c1) = mems (lib c)"
proof -
  obtain error obj u where u: "clCreateCommandQueue (held w c) device properties alloc (lib c) = (error, obj, u)"
    by (metis prod_cases3)
  have "contexts u = contexts (lib c) \<and> mems u = mems (lib c)"
    using u by (auto simp: clCreateCommandQueue_def split: if_splits option.splits)
  with constructed_returned [OF assms [unfolded CommandQueue_device_def u]] show ?thesis by auto
qed

text \<open>C31: a block that declares a context, a queue and a buffer, in this order, and does any work on
  them is safe and leaves nothing behind.  Whatever fails (no device, no memory, no room, an
  exception in a constructor or in the work), with exceptions on or off, it is defined, and at its end
  the driver has exactly the objects and the program exactly the variables it had before: each
  object is released once, a queue and a buffer before their context.\<close>

theorem scopes_release_objects:
  assumes "distinct [vc, vq, vb]" and "\<forall>v \<in> {vc, vq, vb}. wrappers c v = None"
    and "\<forall>p. alloc1 = Some p \<longrightarrow> p \<noteq> 0 \<and> contexts (lib c) p = None"
    and "\<forall>p. alloc2 = Some p \<longrightarrow> p \<noteq> 0 \<and> queues (lib c) p = None"
    and "\<forall>p. alloc3 = Some p \<longrightarrow> p \<noteq> 0 \<and> mems (lib c) p = None"
    and "\<forall>c1. \<exists>c2 r. work c1 = Some (c2, r) \<and> objects c2 = objects c1"
  shows "\<exists>c' r.
    scoped (clReleaseContext sys) vc (Context_device ex sys device alloc1)
      (scoped clReleaseCommandQueue vq (CommandQueue_device ex vc device properties alloc2)
        (scoped clReleaseMemObject vb (Buffer_context ex sys vc flags sz host_ptr alloc3) work)) c = Some (c', r) \<and>
    objects c' = objects c"
proof (rule scoped_balanced [OF context_balanced])
  show "wrappers c vc = None" using assms(2) by simp
  show "p \<noteq> 0 \<and> contexts (lib c) p = None" if "alloc1 = Some p" for p using assms(3) that by blast
  fix c1 err1 assume ctx: "Context_device ex sys device alloc1 vc c = Some (c1, Returned err1)"
  from context_returned [OF ctx] obtain obj
    where c1: "wrappers c1 = (wrappers c)(vc \<mapsto> obj)" "queues (lib c1) = queues (lib c)" "mems (lib c1) = mems (lib c)"
      "obj = 0 \<or> contexts (lib c1) obj \<noteq> None" by blast
  show "\<exists>c2 r. scoped clReleaseCommandQueue vq (CommandQueue_device ex vc device properties alloc2)
      (scoped clReleaseMemObject vb (Buffer_context ex sys vc flags sz host_ptr alloc3) work) c1 = Some (c2, r) \<and>
    objects c2 = objects c1"
  proof (rule scoped_balanced [OF queue_balanced])
    show "wrappers c1 vq = None" using assms(1,2) c1(1) by simp
    show "p \<noteq> 0 \<and> queues (lib c1) p = None" if "alloc2 = Some p" for p using assms(4) c1(2) that by simp
    fix c2 err2 assume queue: "CommandQueue_device ex vc device properties alloc2 vq c1 = Some (c2, Returned err2)"
    from queue_returned [OF queue] obtain q
      where c2: "wrappers c2 = (wrappers c1)(vq \<mapsto> q)" "contexts (lib c2) = contexts (lib c1)" "mems (lib c2) = mems (lib c1)"
      by blast
    have vars: "held vc c2 = obj" "wrappers c2 vb = None" using assms(1,2) c1(1) c2(1) by (auto simp: held_def)
    show "\<exists>c3 r. scoped clReleaseMemObject vb (Buffer_context ex sys vc flags sz host_ptr alloc3) work c2 = Some (c3, r) \<and>
      objects c3 = objects c2"
    proof (rule scoped_balanced [OF buffer_balanced])
      show "wrappers c2 vb = None" by (rule vars)
      show "p \<noteq> 0 \<and> mems (lib c2) p = None" if "alloc3 = Some p" for p using assms(5) c1(3) c2(3) that by simp
      show "held vc c2 = 0 \<or> contexts (lib c2) (held vc c2) \<noteq> None" using c1(4) c2(2) vars(1) by simp
    qed (use assms(6) in blast)
  qed
qed

theorem scopes_release_objects_witness:
  "\<exists>(c' :: umd cpp) r.
    scoped (clReleaseContext (\<lambda>_ _. - 19)) 1 (Context_device True (\<lambda>_ _. - 19) 2 (Some 10))
      (scoped clReleaseCommandQueue 2 (CommandQueue_device True 1 2 0 (Some 11))
        (scoped clReleaseMemObject 3 (Buffer_context True (\<lambda>_ _. - 19) 1 0 4096 0 (Some 12)) (\<lambda>c. Some (c, Returned 0))))
      \<lparr>wrappers = Map.empty, lib = umd_start\<rparr> = Some (c', r) \<and>
    objects c' = objects \<lparr>wrappers = Map.empty, lib = umd_start\<rparr>"
  by (rule scopes_release_objects) (auto simp: umd_start_def)

end
