(* ===== verification/ClApi.thy ===== *)
theory ClApi
  imports Prelude
begin

text \<open>
  The functions of the API: their prototypes in \<open>include/CL/cl.h\<close>, the function types of
  \<open>include/CL/cl_function_types.h\<close> and the functions that \<open>umd/src\<close> defines.  A type is what it is in
  C, with array parameters as the pointers they are and calling conventions left out; a
  declaration has the macros that must be defined for it, those that must not be, and the
  version its \<open>CL_API_SUFFIX__VERSION_\<close> names.
\<close>

section \<open>Declarations\<close>

datatype api_type = TypeName string | ConstOf api_type | PtrTo api_type | FnType api_type "api_type list"

datatype prototype = Prototype
  (pr_guard: "string list") (pr_unless: "string list") (pr_result: api_type) (pr_name: string)
  (pr_params: "api_type list") (pr_suffix: string)

text \<open>A function of the core, of an extension whose functions are in the ICD dispatch table, of one whose
  functions are not, and a function type.\<close>

abbreviation core_api :: "string list \<Rightarrow> api_type \<Rightarrow> string \<Rightarrow> api_type list \<Rightarrow> string \<Rightarrow> prototype" where
  "core_api g \<equiv> Prototype g [''CL_NO_CORE_PROTOTYPES'']"

abbreviation icd_api :: "string list \<Rightarrow> api_type \<Rightarrow> string \<Rightarrow> api_type list \<Rightarrow> string \<Rightarrow> prototype" where
  "icd_api g \<equiv> Prototype g [''CL_NO_ICD_DISPATCH_EXTENSION_PROTOTYPES'']"

abbreviation ext_api :: "string list \<Rightarrow> api_type \<Rightarrow> string \<Rightarrow> api_type list \<Rightarrow> string \<Rightarrow> prototype" where
  "ext_api g \<equiv> Prototype g [''CL_NO_NON_ICD_DISPATCH_EXTENSION_PROTOTYPES'']"

abbreviation fn_type :: "string list \<Rightarrow> api_type \<Rightarrow> string \<Rightarrow> api_type list \<Rightarrow> string \<Rightarrow> prototype" where
  "fn_type g \<equiv> Prototype g []"

text \<open>The macros that are defined, with their values (0 for an empty one), and what is declared then.\<close>

type_synonym macros = "string \<Rightarrow> int option"

definition declared_in :: "macros \<Rightarrow> prototype \<Rightarrow> bool" where
  "declared_in m p \<longleftrightarrow> list_all (\<lambda>x. m x \<noteq> None) (pr_guard p) \<and> list_all (\<lambda>x. m x = None) (pr_unless p)"

text \<open>A function and the function type of its name.\<close>

definition same_type :: "prototype \<Rightarrow> prototype \<Rightarrow> bool" where
  "same_type p t \<longleftrightarrow> pr_name t = pr_name p @ ''_t'' \<and> pr_result t = pr_result p \<and> pr_params t = pr_params p"

section \<open>Prototypes of the core\<close>

definition platform_apis :: "prototype list" where
  "platform_apis =
   [core_api [] (TypeName ''cl_int'') ''clGetPlatformIDs'' [TypeName ''cl_uint'', PtrTo (TypeName
     ''cl_platform_id''), PtrTo (TypeName ''cl_uint'')] ''1_0'',
    core_api [] (TypeName ''cl_int'') ''clGetPlatformInfo'' [TypeName ''cl_platform_id'', TypeName
     ''cl_platform_info'', TypeName ''size_t'', PtrTo (TypeName ''void''), PtrTo (TypeName ''size_t'')] ''1_0'']"

definition device_apis :: "prototype list" where
  "device_apis =
   [core_api [] (TypeName ''cl_int'') ''clGetDeviceIDs'' [TypeName ''cl_platform_id'', TypeName
     ''cl_device_type'', TypeName ''cl_uint'', PtrTo (TypeName ''cl_device_id''), PtrTo (TypeName ''cl_uint'')]
     ''1_0'',
    core_api [] (TypeName ''cl_int'') ''clGetDeviceInfo'' [TypeName ''cl_device_id'', TypeName ''cl_device_info'',
     TypeName ''size_t'', PtrTo (TypeName ''void''), PtrTo (TypeName ''size_t'')] ''1_0'',
    core_api [''CL_VERSION_1_2''] (TypeName ''cl_int'') ''clCreateSubDevices'' [TypeName ''cl_device_id'', PtrTo
     (ConstOf (TypeName ''cl_device_partition_property'')), TypeName ''cl_uint'', PtrTo (TypeName
     ''cl_device_id''), PtrTo (TypeName ''cl_uint'')] ''1_2'',
    core_api [''CL_VERSION_1_2''] (TypeName ''cl_int'') ''clRetainDevice'' [TypeName ''cl_device_id''] ''1_2'',
    core_api [''CL_VERSION_1_2''] (TypeName ''cl_int'') ''clReleaseDevice'' [TypeName ''cl_device_id''] ''1_2'',
    core_api [''CL_VERSION_2_1''] (TypeName ''cl_int'') ''clSetDefaultDeviceCommandQueue'' [TypeName
     ''cl_context'', TypeName ''cl_device_id'', TypeName ''cl_command_queue''] ''2_1'',
    core_api [''CL_VERSION_2_1''] (TypeName ''cl_int'') ''clGetDeviceAndHostTimer'' [TypeName ''cl_device_id'',
     PtrTo (TypeName ''cl_ulong''), PtrTo (TypeName ''cl_ulong'')] ''2_1'',
    core_api [''CL_VERSION_2_1''] (TypeName ''cl_int'') ''clGetHostTimer'' [TypeName ''cl_device_id'', PtrTo
     (TypeName ''cl_ulong'')] ''2_1'']"

definition context_apis :: "prototype list" where
  "context_apis =
   [core_api [] (TypeName ''cl_context'') ''clCreateContext'' [PtrTo (ConstOf (TypeName
     ''cl_context_properties'')), TypeName ''cl_uint'', PtrTo (ConstOf (TypeName ''cl_device_id'')), PtrTo (FnType
     (TypeName ''void'') [PtrTo (ConstOf (TypeName ''char'')), PtrTo (ConstOf (TypeName ''void'')), TypeName
     ''size_t'', PtrTo (TypeName ''void'')]), PtrTo (TypeName ''void''), PtrTo (TypeName ''cl_int'')] ''1_0'',
    core_api [] (TypeName ''cl_context'') ''clCreateContextFromType'' [PtrTo (ConstOf (TypeName
     ''cl_context_properties'')), TypeName ''cl_device_type'', PtrTo (FnType (TypeName ''void'') [PtrTo (ConstOf
     (TypeName ''char'')), PtrTo (ConstOf (TypeName ''void'')), TypeName ''size_t'', PtrTo (TypeName ''void'')]),
     PtrTo (TypeName ''void''), PtrTo (TypeName ''cl_int'')] ''1_0'',
    core_api [] (TypeName ''cl_int'') ''clRetainContext'' [TypeName ''cl_context''] ''1_0'',
    core_api [] (TypeName ''cl_int'') ''clReleaseContext'' [TypeName ''cl_context''] ''1_0'',
    core_api [] (TypeName ''cl_int'') ''clGetContextInfo'' [TypeName ''cl_context'', TypeName ''cl_context_info'',
     TypeName ''size_t'', PtrTo (TypeName ''void''), PtrTo (TypeName ''size_t'')] ''1_0'',
    core_api [''CL_VERSION_3_0''] (TypeName ''cl_int'') ''clSetContextDestructorCallback'' [TypeName
     ''cl_context'', PtrTo (FnType (TypeName ''void'') [TypeName ''cl_context'', PtrTo (TypeName ''void'')]), PtrTo
     (TypeName ''void'')] ''3_0'']"

definition queue_apis :: "prototype list" where
  "queue_apis =
   [core_api [''CL_VERSION_2_0''] (TypeName ''cl_command_queue'') ''clCreateCommandQueueWithProperties'' [TypeName
     ''cl_context'', TypeName ''cl_device_id'', PtrTo (ConstOf (TypeName ''cl_queue_properties'')), PtrTo (TypeName
     ''cl_int'')] ''2_0'',
    core_api [] (TypeName ''cl_int'') ''clRetainCommandQueue'' [TypeName ''cl_command_queue''] ''1_0'',
    core_api [] (TypeName ''cl_int'') ''clReleaseCommandQueue'' [TypeName ''cl_command_queue''] ''1_0'',
    core_api [] (TypeName ''cl_int'') ''clGetCommandQueueInfo'' [TypeName ''cl_command_queue'', TypeName
     ''cl_command_queue_info'', TypeName ''size_t'', PtrTo (TypeName ''void''), PtrTo (TypeName ''size_t'')]
     ''1_0'']"

definition memory_apis :: "prototype list" where
  "memory_apis =
   [core_api [] (TypeName ''cl_mem'') ''clCreateBuffer'' [TypeName ''cl_context'', TypeName ''cl_mem_flags'',
     TypeName ''size_t'', PtrTo (TypeName ''void''), PtrTo (TypeName ''cl_int'')] ''1_0'',
    core_api [''CL_VERSION_1_1''] (TypeName ''cl_mem'') ''clCreateSubBuffer'' [TypeName ''cl_mem'', TypeName
     ''cl_mem_flags'', TypeName ''cl_buffer_create_type'', PtrTo (ConstOf (TypeName ''void'')), PtrTo (TypeName
     ''cl_int'')] ''1_1'',
    core_api [''CL_VERSION_1_2''] (TypeName ''cl_mem'') ''clCreateImage'' [TypeName ''cl_context'', TypeName
     ''cl_mem_flags'', PtrTo (ConstOf (TypeName ''cl_image_format'')), PtrTo (ConstOf (TypeName
     ''cl_image_desc'')), PtrTo (TypeName ''void''), PtrTo (TypeName ''cl_int'')] ''1_2'',
    core_api [''CL_VERSION_2_0''] (TypeName ''cl_mem'') ''clCreatePipe'' [TypeName ''cl_context'', TypeName
     ''cl_mem_flags'', TypeName ''cl_uint'', TypeName ''cl_uint'', PtrTo (ConstOf (TypeName
     ''cl_pipe_properties'')), PtrTo (TypeName ''cl_int'')] ''2_0'',
    core_api [''CL_VERSION_3_0''] (TypeName ''cl_mem'') ''clCreateBufferWithProperties'' [TypeName ''cl_context'',
     PtrTo (ConstOf (TypeName ''cl_mem_properties'')), TypeName ''cl_mem_flags'', TypeName ''size_t'', PtrTo
     (TypeName ''void''), PtrTo (TypeName ''cl_int'')] ''3_0'',
    core_api [''CL_VERSION_3_0''] (TypeName ''cl_mem'') ''clCreateImageWithProperties'' [TypeName ''cl_context'',
     PtrTo (ConstOf (TypeName ''cl_mem_properties'')), TypeName ''cl_mem_flags'', PtrTo (ConstOf (TypeName
     ''cl_image_format'')), PtrTo (ConstOf (TypeName ''cl_image_desc'')), PtrTo (TypeName ''void''), PtrTo
     (TypeName ''cl_int'')] ''3_0'',
    core_api [] (TypeName ''cl_int'') ''clRetainMemObject'' [TypeName ''cl_mem''] ''1_0'',
    core_api [] (TypeName ''cl_int'') ''clReleaseMemObject'' [TypeName ''cl_mem''] ''1_0'',
    core_api [] (TypeName ''cl_int'') ''clGetSupportedImageFormats'' [TypeName ''cl_context'', TypeName
     ''cl_mem_flags'', TypeName ''cl_mem_object_type'', TypeName ''cl_uint'', PtrTo (TypeName ''cl_image_format''),
     PtrTo (TypeName ''cl_uint'')] ''1_0'',
    core_api [] (TypeName ''cl_int'') ''clGetMemObjectInfo'' [TypeName ''cl_mem'', TypeName ''cl_mem_info'',
     TypeName ''size_t'', PtrTo (TypeName ''void''), PtrTo (TypeName ''size_t'')] ''1_0'',
    core_api [] (TypeName ''cl_int'') ''clGetImageInfo'' [TypeName ''cl_mem'', TypeName ''cl_image_info'',
     TypeName ''size_t'', PtrTo (TypeName ''void''), PtrTo (TypeName ''size_t'')] ''1_0'',
    core_api [''CL_VERSION_2_0''] (TypeName ''cl_int'') ''clGetPipeInfo'' [TypeName ''cl_mem'', TypeName
     ''cl_pipe_info'', TypeName ''size_t'', PtrTo (TypeName ''void''), PtrTo (TypeName ''size_t'')] ''2_0'',
    core_api [''CL_VERSION_1_1''] (TypeName ''cl_int'') ''clSetMemObjectDestructorCallback'' [TypeName ''cl_mem'',
     PtrTo (FnType (TypeName ''void'') [TypeName ''cl_mem'', PtrTo (TypeName ''void'')]), PtrTo (TypeName
     ''void'')] ''1_1'']"

definition svm_apis :: "prototype list" where
  "svm_apis =
   [core_api [''CL_VERSION_2_0''] (PtrTo (TypeName ''void'')) ''clSVMAlloc'' [TypeName ''cl_context'', TypeName
     ''cl_svm_mem_flags'', TypeName ''size_t'', TypeName ''cl_uint''] ''2_0'',
    core_api [''CL_VERSION_2_0''] (TypeName ''void'') ''clSVMFree'' [TypeName ''cl_context'', PtrTo (TypeName
     ''void'')] ''2_0'']"

definition sampler_apis :: "prototype list" where
  "sampler_apis =
   [core_api [''CL_VERSION_2_0''] (TypeName ''cl_sampler'') ''clCreateSamplerWithProperties'' [TypeName
     ''cl_context'', PtrTo (ConstOf (TypeName ''cl_sampler_properties'')), PtrTo (TypeName ''cl_int'')] ''2_0'',
    core_api [] (TypeName ''cl_int'') ''clRetainSampler'' [TypeName ''cl_sampler''] ''1_0'',
    core_api [] (TypeName ''cl_int'') ''clReleaseSampler'' [TypeName ''cl_sampler''] ''1_0'',
    core_api [] (TypeName ''cl_int'') ''clGetSamplerInfo'' [TypeName ''cl_sampler'', TypeName ''cl_sampler_info'',
     TypeName ''size_t'', PtrTo (TypeName ''void''), PtrTo (TypeName ''size_t'')] ''1_0'']"

definition program_apis :: "prototype list" where
  "program_apis =
   [core_api [] (TypeName ''cl_program'') ''clCreateProgramWithSource'' [TypeName ''cl_context'', TypeName
     ''cl_uint'', PtrTo (PtrTo (ConstOf (TypeName ''char''))), PtrTo (ConstOf (TypeName ''size_t'')), PtrTo
     (TypeName ''cl_int'')] ''1_0'',
    core_api [] (TypeName ''cl_program'') ''clCreateProgramWithBinary'' [TypeName ''cl_context'', TypeName
     ''cl_uint'', PtrTo (ConstOf (TypeName ''cl_device_id'')), PtrTo (ConstOf (TypeName ''size_t'')), PtrTo (PtrTo
     (ConstOf (TypeName ''unsigned char''))), PtrTo (TypeName ''cl_int''), PtrTo (TypeName ''cl_int'')] ''1_0'',
    core_api [''CL_VERSION_1_2''] (TypeName ''cl_program'') ''clCreateProgramWithBuiltInKernels'' [TypeName
     ''cl_context'', TypeName ''cl_uint'', PtrTo (ConstOf (TypeName ''cl_device_id'')), PtrTo (ConstOf (TypeName
     ''char'')), PtrTo (TypeName ''cl_int'')] ''1_2'',
    core_api [''CL_VERSION_2_1''] (TypeName ''cl_program'') ''clCreateProgramWithIL'' [TypeName ''cl_context'',
     PtrTo (ConstOf (TypeName ''void'')), TypeName ''size_t'', PtrTo (TypeName ''cl_int'')] ''2_1'',
    core_api [] (TypeName ''cl_int'') ''clRetainProgram'' [TypeName ''cl_program''] ''1_0'',
    core_api [] (TypeName ''cl_int'') ''clReleaseProgram'' [TypeName ''cl_program''] ''1_0'',
    core_api [] (TypeName ''cl_int'') ''clBuildProgram'' [TypeName ''cl_program'', TypeName ''cl_uint'', PtrTo
     (ConstOf (TypeName ''cl_device_id'')), PtrTo (ConstOf (TypeName ''char'')), PtrTo (FnType (TypeName ''void'')
     [TypeName ''cl_program'', PtrTo (TypeName ''void'')]), PtrTo (TypeName ''void'')] ''1_0'',
    core_api [''CL_VERSION_1_2''] (TypeName ''cl_int'') ''clCompileProgram'' [TypeName ''cl_program'', TypeName
     ''cl_uint'', PtrTo (ConstOf (TypeName ''cl_device_id'')), PtrTo (ConstOf (TypeName ''char'')), TypeName
     ''cl_uint'', PtrTo (ConstOf (TypeName ''cl_program'')), PtrTo (PtrTo (ConstOf (TypeName ''char''))), PtrTo
     (FnType (TypeName ''void'') [TypeName ''cl_program'', PtrTo (TypeName ''void'')]), PtrTo (TypeName ''void'')]
     ''1_2'',
    core_api [''CL_VERSION_1_2''] (TypeName ''cl_program'') ''clLinkProgram'' [TypeName ''cl_context'', TypeName
     ''cl_uint'', PtrTo (ConstOf (TypeName ''cl_device_id'')), PtrTo (ConstOf (TypeName ''char'')), TypeName
     ''cl_uint'', PtrTo (ConstOf (TypeName ''cl_program'')), PtrTo (FnType (TypeName ''void'') [TypeName
     ''cl_program'', PtrTo (TypeName ''void'')]), PtrTo (TypeName ''void''), PtrTo (TypeName ''cl_int'')] ''1_2'',
    core_api [''CL_VERSION_2_2''] (TypeName ''cl_int'') ''clSetProgramReleaseCallback'' [TypeName ''cl_program'',
     PtrTo (FnType (TypeName ''void'') [TypeName ''cl_program'', PtrTo (TypeName ''void'')]), PtrTo (TypeName
     ''void'')] ''2_2_DEPRECATED'',
    core_api [''CL_VERSION_2_2''] (TypeName ''cl_int'') ''clSetProgramSpecializationConstant'' [TypeName
     ''cl_program'', TypeName ''cl_uint'', TypeName ''size_t'', PtrTo (ConstOf (TypeName ''void''))] ''2_2'',
    core_api [''CL_VERSION_1_2''] (TypeName ''cl_int'') ''clUnloadPlatformCompiler'' [TypeName ''cl_platform_id'']
     ''1_2'',
    core_api [] (TypeName ''cl_int'') ''clGetProgramInfo'' [TypeName ''cl_program'', TypeName ''cl_program_info'',
     TypeName ''size_t'', PtrTo (TypeName ''void''), PtrTo (TypeName ''size_t'')] ''1_0'',
    core_api [] (TypeName ''cl_int'') ''clGetProgramBuildInfo'' [TypeName ''cl_program'', TypeName
     ''cl_device_id'', TypeName ''cl_program_build_info'', TypeName ''size_t'', PtrTo (TypeName ''void''), PtrTo
     (TypeName ''size_t'')] ''1_0'']"

definition kernel_apis :: "prototype list" where
  "kernel_apis =
   [core_api [] (TypeName ''cl_kernel'') ''clCreateKernel'' [TypeName ''cl_program'', PtrTo (ConstOf (TypeName
     ''char'')), PtrTo (TypeName ''cl_int'')] ''1_0'',
    core_api [] (TypeName ''cl_int'') ''clCreateKernelsInProgram'' [TypeName ''cl_program'', TypeName ''cl_uint'',
     PtrTo (TypeName ''cl_kernel''), PtrTo (TypeName ''cl_uint'')] ''1_0'',
    core_api [''CL_VERSION_2_1''] (TypeName ''cl_kernel'') ''clCloneKernel'' [TypeName ''cl_kernel'', PtrTo
     (TypeName ''cl_int'')] ''2_1'',
    core_api [] (TypeName ''cl_int'') ''clRetainKernel'' [TypeName ''cl_kernel''] ''1_0'',
    core_api [] (TypeName ''cl_int'') ''clReleaseKernel'' [TypeName ''cl_kernel''] ''1_0'',
    core_api [] (TypeName ''cl_int'') ''clSetKernelArg'' [TypeName ''cl_kernel'', TypeName ''cl_uint'', TypeName
     ''size_t'', PtrTo (ConstOf (TypeName ''void''))] ''1_0'',
    core_api [''CL_VERSION_2_0''] (TypeName ''cl_int'') ''clSetKernelArgSVMPointer'' [TypeName ''cl_kernel'',
     TypeName ''cl_uint'', PtrTo (ConstOf (TypeName ''void''))] ''2_0'',
    core_api [''CL_VERSION_2_0''] (TypeName ''cl_int'') ''clSetKernelExecInfo'' [TypeName ''cl_kernel'', TypeName
     ''cl_kernel_exec_info'', TypeName ''size_t'', PtrTo (ConstOf (TypeName ''void''))] ''2_0'',
    core_api [] (TypeName ''cl_int'') ''clGetKernelInfo'' [TypeName ''cl_kernel'', TypeName ''cl_kernel_info'',
     TypeName ''size_t'', PtrTo (TypeName ''void''), PtrTo (TypeName ''size_t'')] ''1_0'',
    core_api [''CL_VERSION_1_2''] (TypeName ''cl_int'') ''clGetKernelArgInfo'' [TypeName ''cl_kernel'', TypeName
     ''cl_uint'', TypeName ''cl_kernel_arg_info'', TypeName ''size_t'', PtrTo (TypeName ''void''), PtrTo (TypeName
     ''size_t'')] ''1_2'',
    core_api [] (TypeName ''cl_int'') ''clGetKernelWorkGroupInfo'' [TypeName ''cl_kernel'', TypeName
     ''cl_device_id'', TypeName ''cl_kernel_work_group_info'', TypeName ''size_t'', PtrTo (TypeName ''void''),
     PtrTo (TypeName ''size_t'')] ''1_0'',
    core_api [''CL_VERSION_2_1''] (TypeName ''cl_int'') ''clGetKernelSubGroupInfo'' [TypeName ''cl_kernel'',
     TypeName ''cl_device_id'', TypeName ''cl_kernel_sub_group_info'', TypeName ''size_t'', PtrTo (ConstOf
     (TypeName ''void'')), TypeName ''size_t'', PtrTo (TypeName ''void''), PtrTo (TypeName ''size_t'')] ''2_1'']"

definition event_apis :: "prototype list" where
  "event_apis =
   [core_api [] (TypeName ''cl_int'') ''clWaitForEvents'' [TypeName ''cl_uint'', PtrTo (ConstOf (TypeName
     ''cl_event''))] ''1_0'',
    core_api [] (TypeName ''cl_int'') ''clGetEventInfo'' [TypeName ''cl_event'', TypeName ''cl_event_info'',
     TypeName ''size_t'', PtrTo (TypeName ''void''), PtrTo (TypeName ''size_t'')] ''1_0'',
    core_api [''CL_VERSION_1_1''] (TypeName ''cl_event'') ''clCreateUserEvent'' [TypeName ''cl_context'', PtrTo
     (TypeName ''cl_int'')] ''1_1'',
    core_api [] (TypeName ''cl_int'') ''clRetainEvent'' [TypeName ''cl_event''] ''1_0'',
    core_api [] (TypeName ''cl_int'') ''clReleaseEvent'' [TypeName ''cl_event''] ''1_0'',
    core_api [''CL_VERSION_1_1''] (TypeName ''cl_int'') ''clSetUserEventStatus'' [TypeName ''cl_event'', TypeName
     ''cl_int''] ''1_1'',
    core_api [''CL_VERSION_1_1''] (TypeName ''cl_int'') ''clSetEventCallback'' [TypeName ''cl_event'', TypeName
     ''cl_int'', PtrTo (FnType (TypeName ''void'') [TypeName ''cl_event'', TypeName ''cl_int'', PtrTo (TypeName
     ''void'')]), PtrTo (TypeName ''void'')] ''1_1'']"

definition finish_apis :: "prototype list" where
  "finish_apis =
   [core_api [] (TypeName ''cl_int'') ''clGetEventProfilingInfo'' [TypeName ''cl_event'', TypeName
     ''cl_profiling_info'', TypeName ''size_t'', PtrTo (TypeName ''void''), PtrTo (TypeName ''size_t'')] ''1_0'',
    core_api [] (TypeName ''cl_int'') ''clFlush'' [TypeName ''cl_command_queue''] ''1_0'',
    core_api [] (TypeName ''cl_int'') ''clFinish'' [TypeName ''cl_command_queue''] ''1_0'']"

definition buffer_command_apis :: "prototype list" where
  "buffer_command_apis =
   [core_api [] (TypeName ''cl_int'') ''clEnqueueReadBuffer'' [TypeName ''cl_command_queue'', TypeName ''cl_mem'',
     TypeName ''cl_bool'', TypeName ''size_t'', TypeName ''size_t'', PtrTo (TypeName ''void''), TypeName
     ''cl_uint'', PtrTo (ConstOf (TypeName ''cl_event'')), PtrTo (TypeName ''cl_event'')] ''1_0'',
    core_api [''CL_VERSION_1_1''] (TypeName ''cl_int'') ''clEnqueueReadBufferRect'' [TypeName
     ''cl_command_queue'', TypeName ''cl_mem'', TypeName ''cl_bool'', PtrTo (ConstOf (TypeName ''size_t'')), PtrTo
     (ConstOf (TypeName ''size_t'')), PtrTo (ConstOf (TypeName ''size_t'')), TypeName ''size_t'', TypeName
     ''size_t'', TypeName ''size_t'', TypeName ''size_t'', PtrTo (TypeName ''void''), TypeName ''cl_uint'', PtrTo
     (ConstOf (TypeName ''cl_event'')), PtrTo (TypeName ''cl_event'')] ''1_1'',
    core_api [] (TypeName ''cl_int'') ''clEnqueueWriteBuffer'' [TypeName ''cl_command_queue'', TypeName
     ''cl_mem'', TypeName ''cl_bool'', TypeName ''size_t'', TypeName ''size_t'', PtrTo (ConstOf (TypeName
     ''void'')), TypeName ''cl_uint'', PtrTo (ConstOf (TypeName ''cl_event'')), PtrTo (TypeName ''cl_event'')]
     ''1_0'',
    core_api [''CL_VERSION_1_1''] (TypeName ''cl_int'') ''clEnqueueWriteBufferRect'' [TypeName
     ''cl_command_queue'', TypeName ''cl_mem'', TypeName ''cl_bool'', PtrTo (ConstOf (TypeName ''size_t'')), PtrTo
     (ConstOf (TypeName ''size_t'')), PtrTo (ConstOf (TypeName ''size_t'')), TypeName ''size_t'', TypeName
     ''size_t'', TypeName ''size_t'', TypeName ''size_t'', PtrTo (ConstOf (TypeName ''void'')), TypeName
     ''cl_uint'', PtrTo (ConstOf (TypeName ''cl_event'')), PtrTo (TypeName ''cl_event'')] ''1_1'',
    core_api [''CL_VERSION_1_2''] (TypeName ''cl_int'') ''clEnqueueFillBuffer'' [TypeName ''cl_command_queue'',
     TypeName ''cl_mem'', PtrTo (ConstOf (TypeName ''void'')), TypeName ''size_t'', TypeName ''size_t'', TypeName
     ''size_t'', TypeName ''cl_uint'', PtrTo (ConstOf (TypeName ''cl_event'')), PtrTo (TypeName ''cl_event'')]
     ''1_2'',
    core_api [] (TypeName ''cl_int'') ''clEnqueueCopyBuffer'' [TypeName ''cl_command_queue'', TypeName ''cl_mem'',
     TypeName ''cl_mem'', TypeName ''size_t'', TypeName ''size_t'', TypeName ''size_t'', TypeName ''cl_uint'',
     PtrTo (ConstOf (TypeName ''cl_event'')), PtrTo (TypeName ''cl_event'')] ''1_0'',
    core_api [''CL_VERSION_1_1''] (TypeName ''cl_int'') ''clEnqueueCopyBufferRect'' [TypeName
     ''cl_command_queue'', TypeName ''cl_mem'', TypeName ''cl_mem'', PtrTo (ConstOf (TypeName ''size_t'')), PtrTo
     (ConstOf (TypeName ''size_t'')), PtrTo (ConstOf (TypeName ''size_t'')), TypeName ''size_t'', TypeName
     ''size_t'', TypeName ''size_t'', TypeName ''size_t'', TypeName ''cl_uint'', PtrTo (ConstOf (TypeName
     ''cl_event'')), PtrTo (TypeName ''cl_event'')] ''1_1'',
    core_api [] (TypeName ''cl_int'') ''clEnqueueReadImage'' [TypeName ''cl_command_queue'', TypeName ''cl_mem'',
     TypeName ''cl_bool'', PtrTo (ConstOf (TypeName ''size_t'')), PtrTo (ConstOf (TypeName ''size_t'')), TypeName
     ''size_t'', TypeName ''size_t'', PtrTo (TypeName ''void''), TypeName ''cl_uint'', PtrTo (ConstOf (TypeName
     ''cl_event'')), PtrTo (TypeName ''cl_event'')] ''1_0'',
    core_api [] (TypeName ''cl_int'') ''clEnqueueWriteImage'' [TypeName ''cl_command_queue'', TypeName ''cl_mem'',
     TypeName ''cl_bool'', PtrTo (ConstOf (TypeName ''size_t'')), PtrTo (ConstOf (TypeName ''size_t'')), TypeName
     ''size_t'', TypeName ''size_t'', PtrTo (ConstOf (TypeName ''void'')), TypeName ''cl_uint'', PtrTo (ConstOf
     (TypeName ''cl_event'')), PtrTo (TypeName ''cl_event'')] ''1_0'']"

definition image_command_apis :: "prototype list" where
  "image_command_apis =
   [core_api [''CL_VERSION_1_2''] (TypeName ''cl_int'') ''clEnqueueFillImage'' [TypeName ''cl_command_queue'',
     TypeName ''cl_mem'', PtrTo (ConstOf (TypeName ''void'')), PtrTo (ConstOf (TypeName ''size_t'')), PtrTo
     (ConstOf (TypeName ''size_t'')), TypeName ''cl_uint'', PtrTo (ConstOf (TypeName ''cl_event'')), PtrTo
     (TypeName ''cl_event'')] ''1_2'',
    core_api [] (TypeName ''cl_int'') ''clEnqueueCopyImage'' [TypeName ''cl_command_queue'', TypeName ''cl_mem'',
     TypeName ''cl_mem'', PtrTo (ConstOf (TypeName ''size_t'')), PtrTo (ConstOf (TypeName ''size_t'')), PtrTo
     (ConstOf (TypeName ''size_t'')), TypeName ''cl_uint'', PtrTo (ConstOf (TypeName ''cl_event'')), PtrTo
     (TypeName ''cl_event'')] ''1_0'',
    core_api [] (TypeName ''cl_int'') ''clEnqueueCopyImageToBuffer'' [TypeName ''cl_command_queue'', TypeName
     ''cl_mem'', TypeName ''cl_mem'', PtrTo (ConstOf (TypeName ''size_t'')), PtrTo (ConstOf (TypeName ''size_t'')),
     TypeName ''size_t'', TypeName ''cl_uint'', PtrTo (ConstOf (TypeName ''cl_event'')), PtrTo (TypeName
     ''cl_event'')] ''1_0'',
    core_api [] (TypeName ''cl_int'') ''clEnqueueCopyBufferToImage'' [TypeName ''cl_command_queue'', TypeName
     ''cl_mem'', TypeName ''cl_mem'', TypeName ''size_t'', PtrTo (ConstOf (TypeName ''size_t'')), PtrTo (ConstOf
     (TypeName ''size_t'')), TypeName ''cl_uint'', PtrTo (ConstOf (TypeName ''cl_event'')), PtrTo (TypeName
     ''cl_event'')] ''1_0'',
    core_api [] (PtrTo (TypeName ''void'')) ''clEnqueueMapBuffer'' [TypeName ''cl_command_queue'', TypeName
     ''cl_mem'', TypeName ''cl_bool'', TypeName ''cl_map_flags'', TypeName ''size_t'', TypeName ''size_t'',
     TypeName ''cl_uint'', PtrTo (ConstOf (TypeName ''cl_event'')), PtrTo (TypeName ''cl_event''), PtrTo (TypeName
     ''cl_int'')] ''1_0'',
    core_api [] (PtrTo (TypeName ''void'')) ''clEnqueueMapImage'' [TypeName ''cl_command_queue'', TypeName
     ''cl_mem'', TypeName ''cl_bool'', TypeName ''cl_map_flags'', PtrTo (ConstOf (TypeName ''size_t'')), PtrTo
     (ConstOf (TypeName ''size_t'')), PtrTo (TypeName ''size_t''), PtrTo (TypeName ''size_t''), TypeName
     ''cl_uint'', PtrTo (ConstOf (TypeName ''cl_event'')), PtrTo (TypeName ''cl_event''), PtrTo (TypeName
     ''cl_int'')] ''1_0'',
    core_api [] (TypeName ''cl_int'') ''clEnqueueUnmapMemObject'' [TypeName ''cl_command_queue'', TypeName
     ''cl_mem'', PtrTo (TypeName ''void''), TypeName ''cl_uint'', PtrTo (ConstOf (TypeName ''cl_event'')), PtrTo
     (TypeName ''cl_event'')] ''1_0'',
    core_api [''CL_VERSION_1_2''] (TypeName ''cl_int'') ''clEnqueueMigrateMemObjects'' [TypeName
     ''cl_command_queue'', TypeName ''cl_uint'', PtrTo (ConstOf (TypeName ''cl_mem'')), TypeName
     ''cl_mem_migration_flags'', TypeName ''cl_uint'', PtrTo (ConstOf (TypeName ''cl_event'')), PtrTo (TypeName
     ''cl_event'')] ''1_2'']"

definition kernel_command_apis :: "prototype list" where
  "kernel_command_apis =
   [core_api [] (TypeName ''cl_int'') ''clEnqueueNDRangeKernel'' [TypeName ''cl_command_queue'', TypeName
     ''cl_kernel'', TypeName ''cl_uint'', PtrTo (ConstOf (TypeName ''size_t'')), PtrTo (ConstOf (TypeName
     ''size_t'')), PtrTo (ConstOf (TypeName ''size_t'')), TypeName ''cl_uint'', PtrTo (ConstOf (TypeName
     ''cl_event'')), PtrTo (TypeName ''cl_event'')] ''1_0'',
    core_api [] (TypeName ''cl_int'') ''clEnqueueNativeKernel'' [TypeName ''cl_command_queue'', PtrTo (FnType
     (TypeName ''void'') [PtrTo (TypeName ''void'')]), PtrTo (TypeName ''void''), TypeName ''size_t'', TypeName
     ''cl_uint'', PtrTo (ConstOf (TypeName ''cl_mem'')), PtrTo (PtrTo (ConstOf (TypeName ''void''))), TypeName
     ''cl_uint'', PtrTo (ConstOf (TypeName ''cl_event'')), PtrTo (TypeName ''cl_event'')] ''1_0'',
    core_api [''CL_VERSION_1_2''] (TypeName ''cl_int'') ''clEnqueueMarkerWithWaitList'' [TypeName
     ''cl_command_queue'', TypeName ''cl_uint'', PtrTo (ConstOf (TypeName ''cl_event'')), PtrTo (TypeName
     ''cl_event'')] ''1_2'',
    core_api [''CL_VERSION_1_2''] (TypeName ''cl_int'') ''clEnqueueBarrierWithWaitList'' [TypeName
     ''cl_command_queue'', TypeName ''cl_uint'', PtrTo (ConstOf (TypeName ''cl_event'')), PtrTo (TypeName
     ''cl_event'')] ''1_2'',
    core_api [''CL_VERSION_2_0''] (TypeName ''cl_int'') ''clEnqueueSVMFree'' [TypeName ''cl_command_queue'',
     TypeName ''cl_uint'', PtrTo (PtrTo (TypeName ''void'')), PtrTo (FnType (TypeName ''void'') [TypeName
     ''cl_command_queue'', TypeName ''cl_uint'', PtrTo (PtrTo (TypeName ''void'')), PtrTo (TypeName ''void'')]),
     PtrTo (TypeName ''void''), TypeName ''cl_uint'', PtrTo (ConstOf (TypeName ''cl_event'')), PtrTo (TypeName
     ''cl_event'')] ''2_0'',
    core_api [''CL_VERSION_2_0''] (TypeName ''cl_int'') ''clEnqueueSVMMemcpy'' [TypeName ''cl_command_queue'',
     TypeName ''cl_bool'', PtrTo (TypeName ''void''), PtrTo (ConstOf (TypeName ''void'')), TypeName ''size_t'',
     TypeName ''cl_uint'', PtrTo (ConstOf (TypeName ''cl_event'')), PtrTo (TypeName ''cl_event'')] ''2_0'',
    core_api [''CL_VERSION_2_0''] (TypeName ''cl_int'') ''clEnqueueSVMMemFill'' [TypeName ''cl_command_queue'',
     PtrTo (TypeName ''void''), PtrTo (ConstOf (TypeName ''void'')), TypeName ''size_t'', TypeName ''size_t'',
     TypeName ''cl_uint'', PtrTo (ConstOf (TypeName ''cl_event'')), PtrTo (TypeName ''cl_event'')] ''2_0'',
    core_api [''CL_VERSION_2_0''] (TypeName ''cl_int'') ''clEnqueueSVMMap'' [TypeName ''cl_command_queue'',
     TypeName ''cl_bool'', TypeName ''cl_map_flags'', PtrTo (TypeName ''void''), TypeName ''size_t'', TypeName
     ''cl_uint'', PtrTo (ConstOf (TypeName ''cl_event'')), PtrTo (TypeName ''cl_event'')] ''2_0'',
    core_api [''CL_VERSION_2_0''] (TypeName ''cl_int'') ''clEnqueueSVMUnmap'' [TypeName ''cl_command_queue'',
     PtrTo (TypeName ''void''), TypeName ''cl_uint'', PtrTo (ConstOf (TypeName ''cl_event'')), PtrTo (TypeName
     ''cl_event'')] ''2_0'',
    core_api [''CL_VERSION_2_1''] (TypeName ''cl_int'') ''clEnqueueSVMMigrateMem'' [TypeName ''cl_command_queue'',
     TypeName ''cl_uint'', PtrTo (PtrTo (ConstOf (TypeName ''void''))), PtrTo (ConstOf (TypeName ''size_t'')),
     TypeName ''cl_mem_migration_flags'', TypeName ''cl_uint'', PtrTo (ConstOf (TypeName ''cl_event'')), PtrTo
     (TypeName ''cl_event'')] ''2_1'']"

definition other_apis :: "prototype list" where
  "other_apis =
   [core_api [''CL_VERSION_1_2''] (PtrTo (TypeName ''void'')) ''clGetExtensionFunctionAddressForPlatform''
     [TypeName ''cl_platform_id'', PtrTo (ConstOf (TypeName ''char''))] ''1_2'',
    core_api [''CL_USE_DEPRECATED_OPENCL_1_0_APIS''] (TypeName ''cl_int'') ''clSetCommandQueueProperty'' [TypeName
     ''cl_command_queue'', TypeName ''cl_command_queue_properties'', TypeName ''cl_bool'', PtrTo (TypeName
     ''cl_command_queue_properties'')] ''1_0_DEPRECATED'',
    core_api [] (TypeName ''cl_mem'') ''clCreateImage2D'' [TypeName ''cl_context'', TypeName ''cl_mem_flags'',
     PtrTo (ConstOf (TypeName ''cl_image_format'')), TypeName ''size_t'', TypeName ''size_t'', TypeName ''size_t'',
     PtrTo (TypeName ''void''), PtrTo (TypeName ''cl_int'')] ''1_1_DEPRECATED'',
    core_api [] (TypeName ''cl_mem'') ''clCreateImage3D'' [TypeName ''cl_context'', TypeName ''cl_mem_flags'',
     PtrTo (ConstOf (TypeName ''cl_image_format'')), TypeName ''size_t'', TypeName ''size_t'', TypeName ''size_t'',
     TypeName ''size_t'', TypeName ''size_t'', PtrTo (TypeName ''void''), PtrTo (TypeName ''cl_int'')]
     ''1_1_DEPRECATED'',
    core_api [] (TypeName ''cl_int'') ''clEnqueueMarker'' [TypeName ''cl_command_queue'', PtrTo (TypeName
     ''cl_event'')] ''1_1_DEPRECATED'',
    core_api [] (TypeName ''cl_int'') ''clEnqueueWaitForEvents'' [TypeName ''cl_command_queue'', TypeName
     ''cl_uint'', PtrTo (ConstOf (TypeName ''cl_event''))] ''1_1_DEPRECATED'',
    core_api [] (TypeName ''cl_int'') ''clEnqueueBarrier'' [TypeName ''cl_command_queue''] ''1_1_DEPRECATED'',
    core_api [] (TypeName ''cl_int'') ''clUnloadCompiler'' [] ''1_1_DEPRECATED'',
    core_api [] (PtrTo (TypeName ''void'')) ''clGetExtensionFunctionAddress'' [PtrTo (ConstOf (TypeName
     ''char''))] ''1_1_DEPRECATED'',
    core_api [] (TypeName ''cl_command_queue'') ''clCreateCommandQueue'' [TypeName ''cl_context'', TypeName
     ''cl_device_id'', TypeName ''cl_command_queue_properties'', PtrTo (TypeName ''cl_int'')] ''1_2_DEPRECATED'',
    core_api [] (TypeName ''cl_sampler'') ''clCreateSampler'' [TypeName ''cl_context'', TypeName ''cl_bool'',
     TypeName ''cl_addressing_mode'', TypeName ''cl_filter_mode'', PtrTo (TypeName ''cl_int'')] ''1_2_DEPRECATED'',
    core_api [] (TypeName ''cl_int'') ''clEnqueueTask'' [TypeName ''cl_command_queue'', TypeName ''cl_kernel'',
     TypeName ''cl_uint'', PtrTo (ConstOf (TypeName ''cl_event'')), PtrTo (TypeName ''cl_event'')]
     ''1_2_DEPRECATED'']"

definition core_apis :: "prototype list" where
  "core_apis =
     platform_apis @ device_apis @ context_apis @ queue_apis @ memory_apis @ svm_apis @ sampler_apis @
     program_apis @ kernel_apis @ event_apis @ finish_apis @ buffer_command_apis @ image_command_apis @
     kernel_command_apis @ other_apis"

section \<open>Function types of the core\<close>

definition platform_types :: "prototype list" where
  "platform_types =
   [fn_type [] (TypeName ''cl_int'') ''clGetPlatformIDs_t'' [TypeName ''cl_uint'', PtrTo (TypeName
     ''cl_platform_id''), PtrTo (TypeName ''cl_uint'')] ''1_0'',
    fn_type [] (TypeName ''cl_int'') ''clGetPlatformInfo_t'' [TypeName ''cl_platform_id'', TypeName
     ''cl_platform_info'', TypeName ''size_t'', PtrTo (TypeName ''void''), PtrTo (TypeName ''size_t'')] ''1_0'',
    fn_type [] (TypeName ''cl_int'') ''clGetDeviceIDs_t'' [TypeName ''cl_platform_id'', TypeName
     ''cl_device_type'', TypeName ''cl_uint'', PtrTo (TypeName ''cl_device_id''), PtrTo (TypeName ''cl_uint'')]
     ''1_0'',
    fn_type [] (TypeName ''cl_int'') ''clGetDeviceInfo_t'' [TypeName ''cl_device_id'', TypeName
     ''cl_device_info'', TypeName ''size_t'', PtrTo (TypeName ''void''), PtrTo (TypeName ''size_t'')] ''1_0'',
    fn_type [] (TypeName ''cl_context'') ''clCreateContext_t'' [PtrTo (ConstOf (TypeName
     ''cl_context_properties'')), TypeName ''cl_uint'', PtrTo (ConstOf (TypeName ''cl_device_id'')), PtrTo (FnType
     (TypeName ''void'') [PtrTo (ConstOf (TypeName ''char'')), PtrTo (ConstOf (TypeName ''void'')), TypeName
     ''size_t'', PtrTo (TypeName ''void'')]), PtrTo (TypeName ''void''), PtrTo (TypeName ''cl_int'')] ''1_0'',
    fn_type [] (TypeName ''cl_context'') ''clCreateContextFromType_t'' [PtrTo (ConstOf (TypeName
     ''cl_context_properties'')), TypeName ''cl_device_type'', PtrTo (FnType (TypeName ''void'') [PtrTo (ConstOf
     (TypeName ''char'')), PtrTo (ConstOf (TypeName ''void'')), TypeName ''size_t'', PtrTo (TypeName ''void'')]),
     PtrTo (TypeName ''void''), PtrTo (TypeName ''cl_int'')] ''1_0'',
    fn_type [] (TypeName ''cl_int'') ''clRetainContext_t'' [TypeName ''cl_context''] ''1_0'',
    fn_type [] (TypeName ''cl_int'') ''clReleaseContext_t'' [TypeName ''cl_context''] ''1_0'',
    fn_type [] (TypeName ''cl_int'') ''clGetContextInfo_t'' [TypeName ''cl_context'', TypeName
     ''cl_context_info'', TypeName ''size_t'', PtrTo (TypeName ''void''), PtrTo (TypeName ''size_t'')] ''1_0'',
    fn_type [] (TypeName ''cl_int'') ''clRetainCommandQueue_t'' [TypeName ''cl_command_queue''] ''1_0'',
    fn_type [] (TypeName ''cl_int'') ''clReleaseCommandQueue_t'' [TypeName ''cl_command_queue''] ''1_0'',
    fn_type [] (TypeName ''cl_int'') ''clGetCommandQueueInfo_t'' [TypeName ''cl_command_queue'', TypeName
     ''cl_command_queue_info'', TypeName ''size_t'', PtrTo (TypeName ''void''), PtrTo (TypeName ''size_t'')]
     ''1_0'']"

definition object_types :: "prototype list" where
  "object_types =
   [fn_type [] (TypeName ''cl_mem'') ''clCreateBuffer_t'' [TypeName ''cl_context'', TypeName ''cl_mem_flags'',
     TypeName ''size_t'', PtrTo (TypeName ''void''), PtrTo (TypeName ''cl_int'')] ''1_0'',
    fn_type [] (TypeName ''cl_int'') ''clRetainMemObject_t'' [TypeName ''cl_mem''] ''1_0'',
    fn_type [] (TypeName ''cl_int'') ''clReleaseMemObject_t'' [TypeName ''cl_mem''] ''1_0'',
    fn_type [] (TypeName ''cl_int'') ''clGetSupportedImageFormats_t'' [TypeName ''cl_context'', TypeName
     ''cl_mem_flags'', TypeName ''cl_mem_object_type'', TypeName ''cl_uint'', PtrTo (TypeName ''cl_image_format''),
     PtrTo (TypeName ''cl_uint'')] ''1_0'',
    fn_type [] (TypeName ''cl_int'') ''clGetMemObjectInfo_t'' [TypeName ''cl_mem'', TypeName ''cl_mem_info'',
     TypeName ''size_t'', PtrTo (TypeName ''void''), PtrTo (TypeName ''size_t'')] ''1_0'',
    fn_type [] (TypeName ''cl_int'') ''clGetImageInfo_t'' [TypeName ''cl_mem'', TypeName ''cl_image_info'',
     TypeName ''size_t'', PtrTo (TypeName ''void''), PtrTo (TypeName ''size_t'')] ''1_0'',
    fn_type [] (TypeName ''cl_int'') ''clRetainSampler_t'' [TypeName ''cl_sampler''] ''1_0'',
    fn_type [] (TypeName ''cl_int'') ''clReleaseSampler_t'' [TypeName ''cl_sampler''] ''1_0'',
    fn_type [] (TypeName ''cl_int'') ''clGetSamplerInfo_t'' [TypeName ''cl_sampler'', TypeName
     ''cl_sampler_info'', TypeName ''size_t'', PtrTo (TypeName ''void''), PtrTo (TypeName ''size_t'')] ''1_0'',
    fn_type [] (TypeName ''cl_program'') ''clCreateProgramWithSource_t'' [TypeName ''cl_context'', TypeName
     ''cl_uint'', PtrTo (PtrTo (ConstOf (TypeName ''char''))), PtrTo (ConstOf (TypeName ''size_t'')), PtrTo
     (TypeName ''cl_int'')] ''1_0'',
    fn_type [] (TypeName ''cl_program'') ''clCreateProgramWithBinary_t'' [TypeName ''cl_context'', TypeName
     ''cl_uint'', PtrTo (ConstOf (TypeName ''cl_device_id'')), PtrTo (ConstOf (TypeName ''size_t'')), PtrTo (PtrTo
     (ConstOf (TypeName ''unsigned char''))), PtrTo (TypeName ''cl_int''), PtrTo (TypeName ''cl_int'')] ''1_0'',
    fn_type [] (TypeName ''cl_int'') ''clRetainProgram_t'' [TypeName ''cl_program''] ''1_0'',
    fn_type [] (TypeName ''cl_int'') ''clReleaseProgram_t'' [TypeName ''cl_program''] ''1_0'',
    fn_type [] (TypeName ''cl_int'') ''clBuildProgram_t'' [TypeName ''cl_program'', TypeName ''cl_uint'', PtrTo
     (ConstOf (TypeName ''cl_device_id'')), PtrTo (ConstOf (TypeName ''char'')), PtrTo (FnType (TypeName ''void'')
     [TypeName ''cl_program'', PtrTo (TypeName ''void'')]), PtrTo (TypeName ''void'')] ''1_0'',
    fn_type [] (TypeName ''cl_int'') ''clGetProgramInfo_t'' [TypeName ''cl_program'', TypeName
     ''cl_program_info'', TypeName ''size_t'', PtrTo (TypeName ''void''), PtrTo (TypeName ''size_t'')] ''1_0'',
    fn_type [] (TypeName ''cl_int'') ''clGetProgramBuildInfo_t'' [TypeName ''cl_program'', TypeName
     ''cl_device_id'', TypeName ''cl_program_build_info'', TypeName ''size_t'', PtrTo (TypeName ''void''), PtrTo
     (TypeName ''size_t'')] ''1_0'']"

definition kernel_types :: "prototype list" where
  "kernel_types =
   [fn_type [] (TypeName ''cl_kernel'') ''clCreateKernel_t'' [TypeName ''cl_program'', PtrTo (ConstOf (TypeName
     ''char'')), PtrTo (TypeName ''cl_int'')] ''1_0'',
    fn_type [] (TypeName ''cl_int'') ''clCreateKernelsInProgram_t'' [TypeName ''cl_program'', TypeName
     ''cl_uint'', PtrTo (TypeName ''cl_kernel''), PtrTo (TypeName ''cl_uint'')] ''1_0'',
    fn_type [] (TypeName ''cl_int'') ''clRetainKernel_t'' [TypeName ''cl_kernel''] ''1_0'',
    fn_type [] (TypeName ''cl_int'') ''clReleaseKernel_t'' [TypeName ''cl_kernel''] ''1_0'',
    fn_type [] (TypeName ''cl_int'') ''clSetKernelArg_t'' [TypeName ''cl_kernel'', TypeName ''cl_uint'', TypeName
     ''size_t'', PtrTo (ConstOf (TypeName ''void''))] ''1_0'',
    fn_type [] (TypeName ''cl_int'') ''clGetKernelInfo_t'' [TypeName ''cl_kernel'', TypeName ''cl_kernel_info'',
     TypeName ''size_t'', PtrTo (TypeName ''void''), PtrTo (TypeName ''size_t'')] ''1_0'',
    fn_type [] (TypeName ''cl_int'') ''clGetKernelWorkGroupInfo_t'' [TypeName ''cl_kernel'', TypeName
     ''cl_device_id'', TypeName ''cl_kernel_work_group_info'', TypeName ''size_t'', PtrTo (TypeName ''void''),
     PtrTo (TypeName ''size_t'')] ''1_0'',
    fn_type [] (TypeName ''cl_int'') ''clWaitForEvents_t'' [TypeName ''cl_uint'', PtrTo (ConstOf (TypeName
     ''cl_event''))] ''1_0'',
    fn_type [] (TypeName ''cl_int'') ''clGetEventInfo_t'' [TypeName ''cl_event'', TypeName ''cl_event_info'',
     TypeName ''size_t'', PtrTo (TypeName ''void''), PtrTo (TypeName ''size_t'')] ''1_0'',
    fn_type [] (TypeName ''cl_int'') ''clRetainEvent_t'' [TypeName ''cl_event''] ''1_0'',
    fn_type [] (TypeName ''cl_int'') ''clReleaseEvent_t'' [TypeName ''cl_event''] ''1_0'',
    fn_type [] (TypeName ''cl_int'') ''clGetEventProfilingInfo_t'' [TypeName ''cl_event'', TypeName
     ''cl_profiling_info'', TypeName ''size_t'', PtrTo (TypeName ''void''), PtrTo (TypeName ''size_t'')] ''1_0'',
    fn_type [] (TypeName ''cl_int'') ''clFlush_t'' [TypeName ''cl_command_queue''] ''1_0'',
    fn_type [] (TypeName ''cl_int'') ''clFinish_t'' [TypeName ''cl_command_queue''] ''1_0'']"

definition buffer_types :: "prototype list" where
  "buffer_types =
   [fn_type [] (TypeName ''cl_int'') ''clEnqueueReadBuffer_t'' [TypeName ''cl_command_queue'', TypeName
     ''cl_mem'', TypeName ''cl_bool'', TypeName ''size_t'', TypeName ''size_t'', PtrTo (TypeName ''void''),
     TypeName ''cl_uint'', PtrTo (ConstOf (TypeName ''cl_event'')), PtrTo (TypeName ''cl_event'')] ''1_0'',
    fn_type [] (TypeName ''cl_int'') ''clEnqueueWriteBuffer_t'' [TypeName ''cl_command_queue'', TypeName
     ''cl_mem'', TypeName ''cl_bool'', TypeName ''size_t'', TypeName ''size_t'', PtrTo (ConstOf (TypeName
     ''void'')), TypeName ''cl_uint'', PtrTo (ConstOf (TypeName ''cl_event'')), PtrTo (TypeName ''cl_event'')]
     ''1_0'',
    fn_type [] (TypeName ''cl_int'') ''clEnqueueCopyBuffer_t'' [TypeName ''cl_command_queue'', TypeName
     ''cl_mem'', TypeName ''cl_mem'', TypeName ''size_t'', TypeName ''size_t'', TypeName ''size_t'', TypeName
     ''cl_uint'', PtrTo (ConstOf (TypeName ''cl_event'')), PtrTo (TypeName ''cl_event'')] ''1_0'',
    fn_type [] (TypeName ''cl_int'') ''clEnqueueReadImage_t'' [TypeName ''cl_command_queue'', TypeName ''cl_mem'',
     TypeName ''cl_bool'', PtrTo (ConstOf (TypeName ''size_t'')), PtrTo (ConstOf (TypeName ''size_t'')), TypeName
     ''size_t'', TypeName ''size_t'', PtrTo (TypeName ''void''), TypeName ''cl_uint'', PtrTo (ConstOf (TypeName
     ''cl_event'')), PtrTo (TypeName ''cl_event'')] ''1_0'',
    fn_type [] (TypeName ''cl_int'') ''clEnqueueWriteImage_t'' [TypeName ''cl_command_queue'', TypeName
     ''cl_mem'', TypeName ''cl_bool'', PtrTo (ConstOf (TypeName ''size_t'')), PtrTo (ConstOf (TypeName
     ''size_t'')), TypeName ''size_t'', TypeName ''size_t'', PtrTo (ConstOf (TypeName ''void'')), TypeName
     ''cl_uint'', PtrTo (ConstOf (TypeName ''cl_event'')), PtrTo (TypeName ''cl_event'')] ''1_0'',
    fn_type [] (TypeName ''cl_int'') ''clEnqueueCopyImage_t'' [TypeName ''cl_command_queue'', TypeName ''cl_mem'',
     TypeName ''cl_mem'', PtrTo (ConstOf (TypeName ''size_t'')), PtrTo (ConstOf (TypeName ''size_t'')), PtrTo
     (ConstOf (TypeName ''size_t'')), TypeName ''cl_uint'', PtrTo (ConstOf (TypeName ''cl_event'')), PtrTo
     (TypeName ''cl_event'')] ''1_0'',
    fn_type [] (TypeName ''cl_int'') ''clEnqueueCopyImageToBuffer_t'' [TypeName ''cl_command_queue'', TypeName
     ''cl_mem'', TypeName ''cl_mem'', PtrTo (ConstOf (TypeName ''size_t'')), PtrTo (ConstOf (TypeName ''size_t'')),
     TypeName ''size_t'', TypeName ''cl_uint'', PtrTo (ConstOf (TypeName ''cl_event'')), PtrTo (TypeName
     ''cl_event'')] ''1_0'',
    fn_type [] (TypeName ''cl_int'') ''clEnqueueCopyBufferToImage_t'' [TypeName ''cl_command_queue'', TypeName
     ''cl_mem'', TypeName ''cl_mem'', TypeName ''size_t'', PtrTo (ConstOf (TypeName ''size_t'')), PtrTo (ConstOf
     (TypeName ''size_t'')), TypeName ''cl_uint'', PtrTo (ConstOf (TypeName ''cl_event'')), PtrTo (TypeName
     ''cl_event'')] ''1_0'']"

definition enqueue_types :: "prototype list" where
  "enqueue_types =
   [fn_type [] (PtrTo (TypeName ''void'')) ''clEnqueueMapBuffer_t'' [TypeName ''cl_command_queue'', TypeName
     ''cl_mem'', TypeName ''cl_bool'', TypeName ''cl_map_flags'', TypeName ''size_t'', TypeName ''size_t'',
     TypeName ''cl_uint'', PtrTo (ConstOf (TypeName ''cl_event'')), PtrTo (TypeName ''cl_event''), PtrTo (TypeName
     ''cl_int'')] ''1_0'',
    fn_type [] (PtrTo (TypeName ''void'')) ''clEnqueueMapImage_t'' [TypeName ''cl_command_queue'', TypeName
     ''cl_mem'', TypeName ''cl_bool'', TypeName ''cl_map_flags'', PtrTo (ConstOf (TypeName ''size_t'')), PtrTo
     (ConstOf (TypeName ''size_t'')), PtrTo (TypeName ''size_t''), PtrTo (TypeName ''size_t''), TypeName
     ''cl_uint'', PtrTo (ConstOf (TypeName ''cl_event'')), PtrTo (TypeName ''cl_event''), PtrTo (TypeName
     ''cl_int'')] ''1_0'',
    fn_type [] (TypeName ''cl_int'') ''clEnqueueUnmapMemObject_t'' [TypeName ''cl_command_queue'', TypeName
     ''cl_mem'', PtrTo (TypeName ''void''), TypeName ''cl_uint'', PtrTo (ConstOf (TypeName ''cl_event'')), PtrTo
     (TypeName ''cl_event'')] ''1_0'',
    fn_type [] (TypeName ''cl_int'') ''clEnqueueNDRangeKernel_t'' [TypeName ''cl_command_queue'', TypeName
     ''cl_kernel'', TypeName ''cl_uint'', PtrTo (ConstOf (TypeName ''size_t'')), PtrTo (ConstOf (TypeName
     ''size_t'')), PtrTo (ConstOf (TypeName ''size_t'')), TypeName ''cl_uint'', PtrTo (ConstOf (TypeName
     ''cl_event'')), PtrTo (TypeName ''cl_event'')] ''1_0'',
    fn_type [] (TypeName ''cl_int'') ''clEnqueueNativeKernel_t'' [TypeName ''cl_command_queue'', PtrTo (FnType
     (TypeName ''void'') [PtrTo (TypeName ''void'')]), PtrTo (TypeName ''void''), TypeName ''size_t'', TypeName
     ''cl_uint'', PtrTo (ConstOf (TypeName ''cl_mem'')), PtrTo (PtrTo (ConstOf (TypeName ''void''))), TypeName
     ''cl_uint'', PtrTo (ConstOf (TypeName ''cl_event'')), PtrTo (TypeName ''cl_event'')] ''1_0'']"

definition deprecated_types :: "prototype list" where
  "deprecated_types =
   [fn_type [] (TypeName ''cl_int'') ''clSetCommandQueueProperty_t'' [TypeName ''cl_command_queue'', TypeName
     ''cl_command_queue_properties'', TypeName ''cl_bool'', PtrTo (TypeName ''cl_command_queue_properties'')]
     ''1_0_DEPRECATED'',
    fn_type [] (TypeName ''cl_mem'') ''clCreateImage2D_t'' [TypeName ''cl_context'', TypeName ''cl_mem_flags'',
     PtrTo (ConstOf (TypeName ''cl_image_format'')), TypeName ''size_t'', TypeName ''size_t'', TypeName ''size_t'',
     PtrTo (TypeName ''void''), PtrTo (TypeName ''cl_int'')] ''1_1_DEPRECATED'',
    fn_type [] (TypeName ''cl_mem'') ''clCreateImage3D_t'' [TypeName ''cl_context'', TypeName ''cl_mem_flags'',
     PtrTo (ConstOf (TypeName ''cl_image_format'')), TypeName ''size_t'', TypeName ''size_t'', TypeName ''size_t'',
     TypeName ''size_t'', TypeName ''size_t'', PtrTo (TypeName ''void''), PtrTo (TypeName ''cl_int'')]
     ''1_1_DEPRECATED'',
    fn_type [] (TypeName ''cl_int'') ''clEnqueueMarker_t'' [TypeName ''cl_command_queue'', PtrTo (TypeName
     ''cl_event'')] ''1_1_DEPRECATED'',
    fn_type [] (TypeName ''cl_int'') ''clEnqueueWaitForEvents_t'' [TypeName ''cl_command_queue'', TypeName
     ''cl_uint'', PtrTo (ConstOf (TypeName ''cl_event''))] ''1_1_DEPRECATED'',
    fn_type [] (TypeName ''cl_int'') ''clEnqueueBarrier_t'' [TypeName ''cl_command_queue''] ''1_1_DEPRECATED'',
    fn_type [] (TypeName ''cl_int'') ''clUnloadCompiler_t'' [] ''1_1_DEPRECATED'',
    fn_type [] (PtrTo (TypeName ''void'')) ''clGetExtensionFunctionAddress_t'' [PtrTo (ConstOf (TypeName
     ''char''))] ''1_1_DEPRECATED'',
    fn_type [] (TypeName ''cl_command_queue'') ''clCreateCommandQueue_t'' [TypeName ''cl_context'', TypeName
     ''cl_device_id'', TypeName ''cl_command_queue_properties'', PtrTo (TypeName ''cl_int'')] ''1_2_DEPRECATED'',
    fn_type [] (TypeName ''cl_sampler'') ''clCreateSampler_t'' [TypeName ''cl_context'', TypeName ''cl_bool'',
     TypeName ''cl_addressing_mode'', TypeName ''cl_filter_mode'', PtrTo (TypeName ''cl_int'')] ''1_2_DEPRECATED'',
    fn_type [] (TypeName ''cl_int'') ''clEnqueueTask_t'' [TypeName ''cl_command_queue'', TypeName ''cl_kernel'',
     TypeName ''cl_uint'', PtrTo (ConstOf (TypeName ''cl_event'')), PtrTo (TypeName ''cl_event'')]
     ''1_2_DEPRECATED'']"

definition cl11_types :: "prototype list" where
  "cl11_types =
   [fn_type [''CL_VERSION_1_1''] (TypeName ''cl_mem'') ''clCreateSubBuffer_t'' [TypeName ''cl_mem'', TypeName
     ''cl_mem_flags'', TypeName ''cl_buffer_create_type'', PtrTo (ConstOf (TypeName ''void'')), PtrTo (TypeName
     ''cl_int'')] ''1_1'',
    fn_type [''CL_VERSION_1_1''] (TypeName ''cl_int'') ''clSetMemObjectDestructorCallback_t'' [TypeName
     ''cl_mem'', PtrTo (FnType (TypeName ''void'') [TypeName ''cl_mem'', PtrTo (TypeName ''void'')]), PtrTo
     (TypeName ''void'')] ''1_1'',
    fn_type [''CL_VERSION_1_1''] (TypeName ''cl_event'') ''clCreateUserEvent_t'' [TypeName ''cl_context'', PtrTo
     (TypeName ''cl_int'')] ''1_1'',
    fn_type [''CL_VERSION_1_1''] (TypeName ''cl_int'') ''clSetUserEventStatus_t'' [TypeName ''cl_event'', TypeName
     ''cl_int''] ''1_1'',
    fn_type [''CL_VERSION_1_1''] (TypeName ''cl_int'') ''clSetEventCallback_t'' [TypeName ''cl_event'', TypeName
     ''cl_int'', PtrTo (FnType (TypeName ''void'') [TypeName ''cl_event'', TypeName ''cl_int'', PtrTo (TypeName
     ''void'')]), PtrTo (TypeName ''void'')] ''1_1'',
    fn_type [''CL_VERSION_1_1''] (TypeName ''cl_int'') ''clEnqueueReadBufferRect_t'' [TypeName
     ''cl_command_queue'', TypeName ''cl_mem'', TypeName ''cl_bool'', PtrTo (ConstOf (TypeName ''size_t'')), PtrTo
     (ConstOf (TypeName ''size_t'')), PtrTo (ConstOf (TypeName ''size_t'')), TypeName ''size_t'', TypeName
     ''size_t'', TypeName ''size_t'', TypeName ''size_t'', PtrTo (TypeName ''void''), TypeName ''cl_uint'', PtrTo
     (ConstOf (TypeName ''cl_event'')), PtrTo (TypeName ''cl_event'')] ''1_1'',
    fn_type [''CL_VERSION_1_1''] (TypeName ''cl_int'') ''clEnqueueWriteBufferRect_t'' [TypeName
     ''cl_command_queue'', TypeName ''cl_mem'', TypeName ''cl_bool'', PtrTo (ConstOf (TypeName ''size_t'')), PtrTo
     (ConstOf (TypeName ''size_t'')), PtrTo (ConstOf (TypeName ''size_t'')), TypeName ''size_t'', TypeName
     ''size_t'', TypeName ''size_t'', TypeName ''size_t'', PtrTo (ConstOf (TypeName ''void'')), TypeName
     ''cl_uint'', PtrTo (ConstOf (TypeName ''cl_event'')), PtrTo (TypeName ''cl_event'')] ''1_1'',
    fn_type [''CL_VERSION_1_1''] (TypeName ''cl_int'') ''clEnqueueCopyBufferRect_t'' [TypeName
     ''cl_command_queue'', TypeName ''cl_mem'', TypeName ''cl_mem'', PtrTo (ConstOf (TypeName ''size_t'')), PtrTo
     (ConstOf (TypeName ''size_t'')), PtrTo (ConstOf (TypeName ''size_t'')), TypeName ''size_t'', TypeName
     ''size_t'', TypeName ''size_t'', TypeName ''size_t'', TypeName ''cl_uint'', PtrTo (ConstOf (TypeName
     ''cl_event'')), PtrTo (TypeName ''cl_event'')] ''1_1'']"

definition cl12_types :: "prototype list" where
  "cl12_types =
   [fn_type [''CL_VERSION_1_2''] (TypeName ''cl_int'') ''clCreateSubDevices_t'' [TypeName ''cl_device_id'', PtrTo
     (ConstOf (TypeName ''cl_device_partition_property'')), TypeName ''cl_uint'', PtrTo (TypeName
     ''cl_device_id''), PtrTo (TypeName ''cl_uint'')] ''1_2'',
    fn_type [''CL_VERSION_1_2''] (TypeName ''cl_int'') ''clRetainDevice_t'' [TypeName ''cl_device_id''] ''1_2'',
    fn_type [''CL_VERSION_1_2''] (TypeName ''cl_int'') ''clReleaseDevice_t'' [TypeName ''cl_device_id''] ''1_2'',
    fn_type [''CL_VERSION_1_2''] (TypeName ''cl_mem'') ''clCreateImage_t'' [TypeName ''cl_context'', TypeName
     ''cl_mem_flags'', PtrTo (ConstOf (TypeName ''cl_image_format'')), PtrTo (ConstOf (TypeName
     ''cl_image_desc'')), PtrTo (TypeName ''void''), PtrTo (TypeName ''cl_int'')] ''1_2'',
    fn_type [''CL_VERSION_1_2''] (TypeName ''cl_program'') ''clCreateProgramWithBuiltInKernels_t'' [TypeName
     ''cl_context'', TypeName ''cl_uint'', PtrTo (ConstOf (TypeName ''cl_device_id'')), PtrTo (ConstOf (TypeName
     ''char'')), PtrTo (TypeName ''cl_int'')] ''1_2'',
    fn_type [''CL_VERSION_1_2''] (TypeName ''cl_int'') ''clCompileProgram_t'' [TypeName ''cl_program'', TypeName
     ''cl_uint'', PtrTo (ConstOf (TypeName ''cl_device_id'')), PtrTo (ConstOf (TypeName ''char'')), TypeName
     ''cl_uint'', PtrTo (ConstOf (TypeName ''cl_program'')), PtrTo (PtrTo (ConstOf (TypeName ''char''))), PtrTo
     (FnType (TypeName ''void'') [TypeName ''cl_program'', PtrTo (TypeName ''void'')]), PtrTo (TypeName ''void'')]
     ''1_2'',
    fn_type [''CL_VERSION_1_2''] (TypeName ''cl_program'') ''clLinkProgram_t'' [TypeName ''cl_context'', TypeName
     ''cl_uint'', PtrTo (ConstOf (TypeName ''cl_device_id'')), PtrTo (ConstOf (TypeName ''char'')), TypeName
     ''cl_uint'', PtrTo (ConstOf (TypeName ''cl_program'')), PtrTo (FnType (TypeName ''void'') [TypeName
     ''cl_program'', PtrTo (TypeName ''void'')]), PtrTo (TypeName ''void''), PtrTo (TypeName ''cl_int'')] ''1_2'',
    fn_type [''CL_VERSION_1_2''] (TypeName ''cl_int'') ''clUnloadPlatformCompiler_t'' [TypeName
     ''cl_platform_id''] ''1_2'',
    fn_type [''CL_VERSION_1_2''] (TypeName ''cl_int'') ''clGetKernelArgInfo_t'' [TypeName ''cl_kernel'', TypeName
     ''cl_uint'', TypeName ''cl_kernel_arg_info'', TypeName ''size_t'', PtrTo (TypeName ''void''), PtrTo (TypeName
     ''size_t'')] ''1_2'']"

definition cl12_enqueue_types :: "prototype list" where
  "cl12_enqueue_types =
   [fn_type [''CL_VERSION_1_2''] (TypeName ''cl_int'') ''clEnqueueFillBuffer_t'' [TypeName ''cl_command_queue'',
     TypeName ''cl_mem'', PtrTo (ConstOf (TypeName ''void'')), TypeName ''size_t'', TypeName ''size_t'', TypeName
     ''size_t'', TypeName ''cl_uint'', PtrTo (ConstOf (TypeName ''cl_event'')), PtrTo (TypeName ''cl_event'')]
     ''1_2'',
    fn_type [''CL_VERSION_1_2''] (TypeName ''cl_int'') ''clEnqueueFillImage_t'' [TypeName ''cl_command_queue'',
     TypeName ''cl_mem'', PtrTo (ConstOf (TypeName ''void'')), PtrTo (ConstOf (TypeName ''size_t'')), PtrTo
     (ConstOf (TypeName ''size_t'')), TypeName ''cl_uint'', PtrTo (ConstOf (TypeName ''cl_event'')), PtrTo
     (TypeName ''cl_event'')] ''1_2'',
    fn_type [''CL_VERSION_1_2''] (TypeName ''cl_int'') ''clEnqueueMigrateMemObjects_t'' [TypeName
     ''cl_command_queue'', TypeName ''cl_uint'', PtrTo (ConstOf (TypeName ''cl_mem'')), TypeName
     ''cl_mem_migration_flags'', TypeName ''cl_uint'', PtrTo (ConstOf (TypeName ''cl_event'')), PtrTo (TypeName
     ''cl_event'')] ''1_2'',
    fn_type [''CL_VERSION_1_2''] (TypeName ''cl_int'') ''clEnqueueMarkerWithWaitList_t'' [TypeName
     ''cl_command_queue'', TypeName ''cl_uint'', PtrTo (ConstOf (TypeName ''cl_event'')), PtrTo (TypeName
     ''cl_event'')] ''1_2'',
    fn_type [''CL_VERSION_1_2''] (TypeName ''cl_int'') ''clEnqueueBarrierWithWaitList_t'' [TypeName
     ''cl_command_queue'', TypeName ''cl_uint'', PtrTo (ConstOf (TypeName ''cl_event'')), PtrTo (TypeName
     ''cl_event'')] ''1_2'',
    fn_type [''CL_VERSION_1_2''] (PtrTo (TypeName ''void'')) ''clGetExtensionFunctionAddressForPlatform_t''
     [TypeName ''cl_platform_id'', PtrTo (ConstOf (TypeName ''char''))] ''1_2'']"

definition cl20_types :: "prototype list" where
  "cl20_types =
   [fn_type [''CL_VERSION_2_0''] (TypeName ''cl_command_queue'') ''clCreateCommandQueueWithProperties_t''
     [TypeName ''cl_context'', TypeName ''cl_device_id'', PtrTo (ConstOf (TypeName ''cl_queue_properties'')), PtrTo
     (TypeName ''cl_int'')] ''2_0'',
    fn_type [''CL_VERSION_2_0''] (TypeName ''cl_mem'') ''clCreatePipe_t'' [TypeName ''cl_context'', TypeName
     ''cl_mem_flags'', TypeName ''cl_uint'', TypeName ''cl_uint'', PtrTo (ConstOf (TypeName
     ''cl_pipe_properties'')), PtrTo (TypeName ''cl_int'')] ''2_0'',
    fn_type [''CL_VERSION_2_0''] (TypeName ''cl_int'') ''clGetPipeInfo_t'' [TypeName ''cl_mem'', TypeName
     ''cl_pipe_info'', TypeName ''size_t'', PtrTo (TypeName ''void''), PtrTo (TypeName ''size_t'')] ''2_0'',
    fn_type [''CL_VERSION_2_0''] (PtrTo (TypeName ''void'')) ''clSVMAlloc_t'' [TypeName ''cl_context'', TypeName
     ''cl_svm_mem_flags'', TypeName ''size_t'', TypeName ''cl_uint''] ''2_0'',
    fn_type [''CL_VERSION_2_0''] (TypeName ''void'') ''clSVMFree_t'' [TypeName ''cl_context'', PtrTo (TypeName
     ''void'')] ''2_0'',
    fn_type [''CL_VERSION_2_0''] (TypeName ''cl_sampler'') ''clCreateSamplerWithProperties_t'' [TypeName
     ''cl_context'', PtrTo (ConstOf (TypeName ''cl_sampler_properties'')), PtrTo (TypeName ''cl_int'')] ''2_0'',
    fn_type [''CL_VERSION_2_0''] (TypeName ''cl_int'') ''clSetKernelArgSVMPointer_t'' [TypeName ''cl_kernel'',
     TypeName ''cl_uint'', PtrTo (ConstOf (TypeName ''void''))] ''2_0'',
    fn_type [''CL_VERSION_2_0''] (TypeName ''cl_int'') ''clSetKernelExecInfo_t'' [TypeName ''cl_kernel'', TypeName
     ''cl_kernel_exec_info'', TypeName ''size_t'', PtrTo (ConstOf (TypeName ''void''))] ''2_0'',
    fn_type [''CL_VERSION_2_0''] (TypeName ''cl_int'') ''clEnqueueSVMFree_t'' [TypeName ''cl_command_queue'',
     TypeName ''cl_uint'', PtrTo (PtrTo (TypeName ''void'')), PtrTo (FnType (TypeName ''void'') [TypeName
     ''cl_command_queue'', TypeName ''cl_uint'', PtrTo (PtrTo (TypeName ''void'')), PtrTo (TypeName ''void'')]),
     PtrTo (TypeName ''void''), TypeName ''cl_uint'', PtrTo (ConstOf (TypeName ''cl_event'')), PtrTo (TypeName
     ''cl_event'')] ''2_0'',
    fn_type [''CL_VERSION_2_0''] (TypeName ''cl_int'') ''clEnqueueSVMMemcpy_t'' [TypeName ''cl_command_queue'',
     TypeName ''cl_bool'', PtrTo (TypeName ''void''), PtrTo (ConstOf (TypeName ''void'')), TypeName ''size_t'',
     TypeName ''cl_uint'', PtrTo (ConstOf (TypeName ''cl_event'')), PtrTo (TypeName ''cl_event'')] ''2_0'',
    fn_type [''CL_VERSION_2_0''] (TypeName ''cl_int'') ''clEnqueueSVMMemFill_t'' [TypeName ''cl_command_queue'',
     PtrTo (TypeName ''void''), PtrTo (ConstOf (TypeName ''void'')), TypeName ''size_t'', TypeName ''size_t'',
     TypeName ''cl_uint'', PtrTo (ConstOf (TypeName ''cl_event'')), PtrTo (TypeName ''cl_event'')] ''2_0'',
    fn_type [''CL_VERSION_2_0''] (TypeName ''cl_int'') ''clEnqueueSVMMap_t'' [TypeName ''cl_command_queue'',
     TypeName ''cl_bool'', TypeName ''cl_map_flags'', PtrTo (TypeName ''void''), TypeName ''size_t'', TypeName
     ''cl_uint'', PtrTo (ConstOf (TypeName ''cl_event'')), PtrTo (TypeName ''cl_event'')] ''2_0'',
    fn_type [''CL_VERSION_2_0''] (TypeName ''cl_int'') ''clEnqueueSVMUnmap_t'' [TypeName ''cl_command_queue'',
     PtrTo (TypeName ''void''), TypeName ''cl_uint'', PtrTo (ConstOf (TypeName ''cl_event'')), PtrTo (TypeName
     ''cl_event'')] ''2_0'']"

definition later_types :: "prototype list" where
  "later_types =
   [fn_type [''CL_VERSION_2_1''] (TypeName ''cl_int'') ''clSetDefaultDeviceCommandQueue_t'' [TypeName
     ''cl_context'', TypeName ''cl_device_id'', TypeName ''cl_command_queue''] ''2_1'',
    fn_type [''CL_VERSION_2_1''] (TypeName ''cl_int'') ''clGetDeviceAndHostTimer_t'' [TypeName ''cl_device_id'',
     PtrTo (TypeName ''cl_ulong''), PtrTo (TypeName ''cl_ulong'')] ''2_1'',
    fn_type [''CL_VERSION_2_1''] (TypeName ''cl_int'') ''clGetHostTimer_t'' [TypeName ''cl_device_id'', PtrTo
     (TypeName ''cl_ulong'')] ''2_1'',
    fn_type [''CL_VERSION_2_1''] (TypeName ''cl_program'') ''clCreateProgramWithIL_t'' [TypeName ''cl_context'',
     PtrTo (ConstOf (TypeName ''void'')), TypeName ''size_t'', PtrTo (TypeName ''cl_int'')] ''2_1'',
    fn_type [''CL_VERSION_2_1''] (TypeName ''cl_kernel'') ''clCloneKernel_t'' [TypeName ''cl_kernel'', PtrTo
     (TypeName ''cl_int'')] ''2_1'',
    fn_type [''CL_VERSION_2_1''] (TypeName ''cl_int'') ''clGetKernelSubGroupInfo_t'' [TypeName ''cl_kernel'',
     TypeName ''cl_device_id'', TypeName ''cl_kernel_sub_group_info'', TypeName ''size_t'', PtrTo (ConstOf
     (TypeName ''void'')), TypeName ''size_t'', PtrTo (TypeName ''void''), PtrTo (TypeName ''size_t'')] ''2_1'',
    fn_type [''CL_VERSION_2_1''] (TypeName ''cl_int'') ''clEnqueueSVMMigrateMem_t'' [TypeName
     ''cl_command_queue'', TypeName ''cl_uint'', PtrTo (PtrTo (ConstOf (TypeName ''void''))), PtrTo (ConstOf
     (TypeName ''size_t'')), TypeName ''cl_mem_migration_flags'', TypeName ''cl_uint'', PtrTo (ConstOf (TypeName
     ''cl_event'')), PtrTo (TypeName ''cl_event'')] ''2_1'',
    fn_type [''CL_VERSION_2_2''] (TypeName ''cl_int'') ''clSetProgramSpecializationConstant_t'' [TypeName
     ''cl_program'', TypeName ''cl_uint'', TypeName ''size_t'', PtrTo (ConstOf (TypeName ''void''))] ''2_2'',
    fn_type [''CL_VERSION_2_2''] (TypeName ''cl_int'') ''clSetProgramReleaseCallback_t'' [TypeName ''cl_program'',
     PtrTo (FnType (TypeName ''void'') [TypeName ''cl_program'', PtrTo (TypeName ''void'')]), PtrTo (TypeName
     ''void'')] ''2_2_DEPRECATED'',
    fn_type [''CL_VERSION_3_0''] (TypeName ''cl_int'') ''clSetContextDestructorCallback_t'' [TypeName
     ''cl_context'', PtrTo (FnType (TypeName ''void'') [TypeName ''cl_context'', PtrTo (TypeName ''void'')]), PtrTo
     (TypeName ''void'')] ''3_0'',
    fn_type [''CL_VERSION_3_0''] (TypeName ''cl_mem'') ''clCreateBufferWithProperties_t'' [TypeName
     ''cl_context'', PtrTo (ConstOf (TypeName ''cl_mem_properties'')), TypeName ''cl_mem_flags'', TypeName
     ''size_t'', PtrTo (TypeName ''void''), PtrTo (TypeName ''cl_int'')] ''3_0'',
    fn_type [''CL_VERSION_3_0''] (TypeName ''cl_mem'') ''clCreateImageWithProperties_t'' [TypeName ''cl_context'',
     PtrTo (ConstOf (TypeName ''cl_mem_properties'')), TypeName ''cl_mem_flags'', PtrTo (ConstOf (TypeName
     ''cl_image_format'')), PtrTo (ConstOf (TypeName ''cl_image_desc'')), PtrTo (TypeName ''void''), PtrTo
     (TypeName ''cl_int'')] ''3_0'']"

definition core_types :: "prototype list" where
  "core_types =
     platform_types @ object_types @ kernel_types @ buffer_types @ enqueue_types @ deprecated_types @
     cl11_types @ cl12_types @ cl12_enqueue_types @ cl20_types @ later_types"

section \<open>Functions of the driver\<close>

definition platform_functions :: "prototype list" where
  "platform_functions =
   [fn_type [] (TypeName ''cl_int'') ''clGetPlatformIDs'' [TypeName ''cl_uint'', PtrTo (TypeName
     ''cl_platform_id''), PtrTo (TypeName ''cl_uint'')] '''',
    fn_type [] (TypeName ''cl_int'') ''clGetPlatformInfo'' [TypeName ''cl_platform_id'', TypeName
     ''cl_platform_info'', TypeName ''size_t'', PtrTo (TypeName ''void''), PtrTo (TypeName ''size_t'')] '''',
    fn_type [] (TypeName ''cl_int'') ''clGetDeviceIDs'' [TypeName ''cl_platform_id'', TypeName ''cl_device_type'',
     TypeName ''cl_uint'', PtrTo (TypeName ''cl_device_id''), PtrTo (TypeName ''cl_uint'')] '''',
    fn_type [] (TypeName ''cl_int'') ''clGetDeviceInfo'' [TypeName ''cl_device_id'', TypeName ''cl_device_info'',
     TypeName ''size_t'', PtrTo (TypeName ''void''), PtrTo (TypeName ''size_t'')] '''']"

definition context_functions :: "prototype list" where
  "context_functions =
   [fn_type [] (TypeName ''cl_context'') ''clCreateContext'' [PtrTo (ConstOf (TypeName
     ''cl_context_properties'')), TypeName ''cl_uint'', PtrTo (ConstOf (TypeName ''cl_device_id'')), PtrTo (FnType
     (TypeName ''void'') [PtrTo (ConstOf (TypeName ''char'')), PtrTo (ConstOf (TypeName ''void'')), TypeName
     ''size_t'', PtrTo (TypeName ''void'')]), PtrTo (TypeName ''void''), PtrTo (TypeName ''cl_int'')] '''',
    fn_type [] (TypeName ''cl_int'') ''clRetainContext'' [TypeName ''cl_context''] '''',
    fn_type [] (TypeName ''cl_int'') ''clReleaseContext'' [TypeName ''cl_context''] '''']"

definition queue_functions :: "prototype list" where
  "queue_functions =
   [fn_type [] (TypeName ''cl_command_queue'') ''clCreateCommandQueue'' [TypeName ''cl_context'', TypeName
     ''cl_device_id'', TypeName ''cl_command_queue_properties'', PtrTo (TypeName ''cl_int'')] '''',
    fn_type [] (TypeName ''cl_int'') ''clReleaseCommandQueue'' [TypeName ''cl_command_queue''] '''',
    fn_type [] (TypeName ''cl_int'') ''clFinish'' [TypeName ''cl_command_queue''] '''',
    fn_type [] (TypeName ''cl_int'') ''clFlush'' [TypeName ''cl_command_queue''] '''']"

definition mem_functions :: "prototype list" where
  "mem_functions =
   [fn_type [] (TypeName ''cl_mem'') ''clCreateBuffer'' [TypeName ''cl_context'', TypeName ''cl_mem_flags'',
     TypeName ''size_t'', PtrTo (TypeName ''void''), PtrTo (TypeName ''cl_int'')] '''',
    fn_type [] (TypeName ''cl_int'') ''clReleaseMemObject'' [TypeName ''cl_mem''] '''',
    fn_type [] (TypeName ''cl_int'') ''clEnqueueWriteBuffer'' [TypeName ''cl_command_queue'', TypeName ''cl_mem'',
     TypeName ''cl_bool'', TypeName ''size_t'', TypeName ''size_t'', PtrTo (ConstOf (TypeName ''void'')), TypeName
     ''cl_uint'', PtrTo (ConstOf (TypeName ''cl_event'')), PtrTo (TypeName ''cl_event'')] '''',
    fn_type [] (TypeName ''cl_int'') ''clEnqueueReadBuffer'' [TypeName ''cl_command_queue'', TypeName ''cl_mem'',
     TypeName ''cl_bool'', TypeName ''size_t'', TypeName ''size_t'', PtrTo (TypeName ''void''), TypeName
     ''cl_uint'', PtrTo (ConstOf (TypeName ''cl_event'')), PtrTo (TypeName ''cl_event'')] '''',
    fn_type [] (TypeName ''cl_int'') ''clEnqueueCopyBuffer'' [TypeName ''cl_command_queue'', TypeName ''cl_mem'',
     TypeName ''cl_mem'', TypeName ''size_t'', TypeName ''size_t'', TypeName ''size_t'', TypeName ''cl_uint'',
     PtrTo (ConstOf (TypeName ''cl_event'')), PtrTo (TypeName ''cl_event'')] '''']"

definition program_functions :: "prototype list" where
  "program_functions =
   [fn_type [] (TypeName ''cl_program'') ''clCreateProgramWithSource'' [TypeName ''cl_context'', TypeName
     ''cl_uint'', PtrTo (PtrTo (ConstOf (TypeName ''char''))), PtrTo (ConstOf (TypeName ''size_t'')), PtrTo
     (TypeName ''cl_int'')] '''',
    fn_type [] (TypeName ''cl_int'') ''clReleaseProgram'' [TypeName ''cl_program''] '''',
    fn_type [] (TypeName ''cl_int'') ''clBuildProgram'' [TypeName ''cl_program'', TypeName ''cl_uint'', PtrTo
     (ConstOf (TypeName ''cl_device_id'')), PtrTo (ConstOf (TypeName ''char'')), PtrTo (FnType (TypeName ''void'')
     [TypeName ''cl_program'', PtrTo (TypeName ''void'')]), PtrTo (TypeName ''void'')] '''']"

definition kernel_functions :: "prototype list" where
  "kernel_functions =
   [fn_type [] (TypeName ''cl_kernel'') ''clCreateKernel'' [TypeName ''cl_program'', PtrTo (ConstOf (TypeName
     ''char'')), PtrTo (TypeName ''cl_int'')] '''',
    fn_type [] (TypeName ''cl_int'') ''clReleaseKernel'' [TypeName ''cl_kernel''] '''',
    fn_type [] (TypeName ''cl_int'') ''clSetKernelArg'' [TypeName ''cl_kernel'', TypeName ''cl_uint'', TypeName
     ''size_t'', PtrTo (ConstOf (TypeName ''void''))] '''']"

definition enqueue_functions :: "prototype list" where
  "enqueue_functions =
   [fn_type [] (TypeName ''cl_int'') ''clEnqueueNDRangeKernel'' [TypeName ''cl_command_queue'', TypeName
     ''cl_kernel'', TypeName ''cl_uint'', PtrTo (ConstOf (TypeName ''size_t'')), PtrTo (ConstOf (TypeName
     ''size_t'')), PtrTo (ConstOf (TypeName ''size_t'')), TypeName ''cl_uint'', PtrTo (ConstOf (TypeName
     ''cl_event'')), PtrTo (TypeName ''cl_event'')] '''',
    fn_type [] (TypeName ''cl_int'') ''clWaitForEvents'' [TypeName ''cl_uint'', PtrTo (ConstOf (TypeName
     ''cl_event''))] '''',
    fn_type [] (TypeName ''cl_int'') ''clReleaseEvent'' [TypeName ''cl_event''] '''']"

definition driver_functions :: "prototype list" where
  "driver_functions =
     platform_functions @ context_functions @ queue_functions @ mem_functions @ program_functions @
     kernel_functions @ enqueue_functions"

end
