(* ===== verification/HppVersion.thy ===== *)
theory HppVersion
  imports ClApi
begin

text \<open>
  The configuration of the headers: \<open>include/CL/cl_version.h\<close>, the version checks of
  \<open>include/CL/opencl.hpp\<close> and the deprecation suffixes of \<open>include/CL/cl_platform.h\<close>, as
  functions on the macros that are defined; \<open>None\<close> is an \<open>#error\<close>.  The constructor of a command
  queue is the place where the choice matters: which functions it refers to.
\<close>

section \<open>The version macros\<close>

definition ifndef :: "string \<Rightarrow> int \<Rightarrow> macros \<Rightarrow> macros" where
  "ifndef x v m = (if m x = None then m(x \<mapsto> v) else m)"

text \<open>In an \<open>#if\<close> a macro that is not defined counts as 0.\<close>

definition value_of :: "macros \<Rightarrow> string \<Rightarrow> int" where
  "value_of m x = (case m x of None \<Rightarrow> 0 | Some v \<Rightarrow> v)"

definition opencl_versions :: "int list" where
  "opencl_versions = [100, 110, 120, 200, 210, 220, 300]"

definition checked :: "string \<Rightarrow> int \<Rightarrow> macros \<Rightarrow> macros" where
  "checked x v m = (if value_of m x \<in> set opencl_versions then m else m(x \<mapsto> v))"

definition version_macros :: "(int \<times> string) list" where
  "version_macros = [(300, ''CL_VERSION_3_0''), (220, ''CL_VERSION_2_2''), (210, ''CL_VERSION_2_1''),
     (200, ''CL_VERSION_2_0''), (120, ''CL_VERSION_1_2''), (110, ''CL_VERSION_1_1''), (100, ''CL_VERSION_1_0'')]"

definition deprecated_macros :: "(int \<times> string) list" where
  "deprecated_macros = [(220, ''CL_USE_DEPRECATED_OPENCL_2_2_APIS''), (210, ''CL_USE_DEPRECATED_OPENCL_2_1_APIS''),
     (200, ''CL_USE_DEPRECATED_OPENCL_2_0_APIS''), (120, ''CL_USE_DEPRECATED_OPENCL_1_2_APIS''),
     (110, ''CL_USE_DEPRECATED_OPENCL_1_1_APIS''), (100, ''CL_USE_DEPRECATED_OPENCL_1_0_APIS'')]"

definition define_versions :: "int \<Rightarrow> macros \<Rightarrow> macros" where
  "define_versions v = fold (\<lambda>(n, x) m. if v \<ge> n then ifndef x 1 m else m) version_macros"

definition allow_deprecated :: "int \<Rightarrow> macros \<Rightarrow> macros" where
  "allow_deprecated v = fold (\<lambda>(n, x) m. if v \<le> n then ifndef x 0 m else m) deprecated_macros"

definition cl_version :: "macros \<Rightarrow> macros" where
  "cl_version m =
     (if m ''__CL_VERSION_H'' \<noteq> None then m
      else let m1 = checked ''CL_TARGET_OPENCL_VERSION'' 300
                 (ifndef ''CL_TARGET_OPENCL_VERSION'' 300 (m(''__CL_VERSION_H'' \<mapsto> 0)));
               v = value_of m1 ''CL_TARGET_OPENCL_VERSION''
           in allow_deprecated v (define_versions v m1))"

definition hpp_version :: "macros \<Rightarrow> macros option" where
  "hpp_version m =
     (let m1 = checked ''CL_HPP_TARGET_OPENCL_VERSION'' 300 (ifndef ''CL_HPP_TARGET_OPENCL_VERSION'' 300 m);
          target = value_of m1 ''CL_HPP_TARGET_OPENCL_VERSION'';
          m2 = ifndef ''CL_TARGET_OPENCL_VERSION'' target m1;
          m3 = checked ''CL_HPP_MINIMUM_OPENCL_VERSION'' 100 (ifndef ''CL_HPP_MINIMUM_OPENCL_VERSION'' 200 m2);
          minimum = value_of m3 ''CL_HPP_MINIMUM_OPENCL_VERSION''
      in if minimum > target then None else Some (allow_deprecated minimum m3))"

text \<open>The C headers are included after the checks.\<close>

definition opencl_hpp :: "macros \<Rightarrow> macros option" where
  "opencl_hpp m = map_option cl_version (hpp_version m)"

text \<open>The suffixes that mark a function as deprecated unless their macro is defined.\<close>

definition deprecated_suffixes :: "(string \<times> string) list" where
  "deprecated_suffixes =
     [(''1_0_DEPRECATED'', ''CL_USE_DEPRECATED_OPENCL_1_0_APIS''), (''1_1_DEPRECATED'', ''CL_USE_DEPRECATED_OPENCL_1_1_APIS''),
      (''1_2_DEPRECATED'', ''CL_USE_DEPRECATED_OPENCL_1_2_APIS''), (''2_0_DEPRECATED'', ''CL_USE_DEPRECATED_OPENCL_2_0_APIS''),
      (''2_1_DEPRECATED'', ''CL_USE_DEPRECATED_OPENCL_2_1_APIS''), (''2_2_DEPRECATED'', ''CL_USE_DEPRECATED_OPENCL_2_2_APIS'')]"

definition marked_deprecated :: "macros \<Rightarrow> prototype \<Rightarrow> bool" where
  "marked_deprecated m p \<longleftrightarrow>
     (case map_of deprecated_suffixes (pr_suffix p) of None \<Rightarrow> False | Some x \<Rightarrow> m x = None)"

section \<open>The queue constructors\<close>

text \<open>How \<open>useWithProperties\<close> is decided, and the functions the constructor from a context and a
  device refers to, in the branches the preprocessor leaves.\<close>

datatype decision = AtRunTime | Always | Never

definition use_with_properties :: "macros \<Rightarrow> decision" where
  "use_with_properties m =
     (if value_of m ''CL_HPP_TARGET_OPENCL_VERSION'' \<ge> 200 \<and> value_of m ''CL_HPP_MINIMUM_OPENCL_VERSION'' < 200 then AtRunTime
      else if value_of m ''CL_HPP_TARGET_OPENCL_VERSION'' \<ge> 200 then Always
      else Never)"

definition queue_calls :: "macros \<Rightarrow> string list" where
  "queue_calls m =
     (if use_with_properties m = AtRunTime then [''clGetContextInfo'', ''clGetDeviceInfo'', ''clGetPlatformInfo''] else []) @
     (if value_of m ''CL_HPP_TARGET_OPENCL_VERSION'' \<ge> 200 then [''clCreateCommandQueueWithProperties''] else []) @
     (if value_of m ''CL_HPP_MINIMUM_OPENCL_VERSION'' < 200 then [''clCreateCommandQueue''] else [])"

section \<open>The configuration\<close>

lemma value_of_def' [simp]: "m x = Some v \<Longrightarrow> value_of m x = v" "m x = None \<Longrightarrow> value_of m x = 0"
  by (simp_all add: value_of_def)

lemma ifndef_other [simp]: "x \<noteq> y \<Longrightarrow> ifndef x v m y = m y"
  by (simp add: ifndef_def)

lemma checked_other [simp]: "x \<noteq> y \<Longrightarrow> checked x v m y = m y"
  by (simp add: checked_def)

text \<open>What a list of conditional definitions does to a macro.\<close>

lemma fold_ifndef_other:
  "y \<notin> snd ` set xs \<Longrightarrow> fold (\<lambda>(n, x) m. if P n then ifndef x v m else m) xs m y = m y"
  by (induction xs arbitrary: m) auto

lemma fold_ifndef_defined:
  "m y \<noteq> None \<Longrightarrow> fold (\<lambda>(n, x) m. if P n then ifndef x v m else m) xs m y = m y"
  by (induction xs arbitrary: m) (auto simp: ifndef_def)

lemma fold_ifndef:
  assumes "distinct (map snd xs)" and "(n, y) \<in> set xs" and "m y = None"
  shows "fold (\<lambda>(n, x) m. if P n then ifndef x v m else m) xs m y \<noteq> None \<longleftrightarrow> P n"
  using assms
proof (induction xs arbitrary: m)
  case (Cons z zs)
  obtain k x where z: "z = (k, x)" by (cases z)
  show ?case
  proof (cases "x = y")
    case True
    with Cons.prems(1,2) z have "k = n" "y \<notin> snd ` set zs" by force+
    with True Cons.prems(3) show ?thesis by (simp add: z fold_ifndef_other ifndef_def)
  next
    case False
    with Cons show ?thesis by (auto simp: z ifndef_def)
  qed
qed simp

lemma macros_distinct: "distinct (map snd version_macros)" "distinct (map snd deprecated_macros)"
  by (simp_all add: version_macros_def deprecated_macros_def)

definition target_macros :: "string set" where
  "target_macros = {''CL_TARGET_OPENCL_VERSION'', ''CL_HPP_TARGET_OPENCL_VERSION'', ''CL_HPP_MINIMUM_OPENCL_VERSION'',
     ''__CL_VERSION_H''}"

lemma target_macros_kept: "x \<in> target_macros \<Longrightarrow> define_versions v m x = m x" "x \<in> target_macros \<Longrightarrow> allow_deprecated v m x = m x"
  unfolding define_versions_def allow_deprecated_def
  by (rule fold_ifndef_other, auto simp: target_macros_def version_macros_def deprecated_macros_def)+

lemma macros_apart:
  "(n, x) \<in> set version_macros \<Longrightarrow> x \<notin> snd ` set deprecated_macros \<and> x \<notin> target_macros"
  "(n, x) \<in> set deprecated_macros \<Longrightarrow> x \<notin> snd ` set version_macros \<and> x \<notin> target_macros"
  by (auto simp: version_macros_def deprecated_macros_def target_macros_def)

text \<open>The value a version macro ends up with: as it was, or a default, or a replacement.\<close>

definition chosen :: "int \<Rightarrow> int \<Rightarrow> int option \<Rightarrow> int" where
  "chosen dflt bad v = (case v of None \<Rightarrow> dflt | Some v \<Rightarrow> if v \<in> set opencl_versions then v else bad)"

lemma checked_ifndef:
  "dflt \<in> set opencl_versions \<Longrightarrow> checked x bad (ifndef x dflt m) x = Some (chosen dflt bad (m x))"
  "x \<noteq> y \<Longrightarrow> checked x bad (ifndef x dflt m) y = m y"
  by (auto simp: checked_def ifndef_def chosen_def split: option.splits)

lemma chosen_valid:
  "dflt \<in> set opencl_versions \<Longrightarrow> bad \<in> set opencl_versions \<Longrightarrow> chosen dflt bad v \<in> set opencl_versions"
  by (auto simp: chosen_def split: option.split)

lemma known_versions [simp]: "100 \<in> set opencl_versions" "200 \<in> set opencl_versions" "300 \<in> set opencl_versions"
  by (simp_all add: opencl_versions_def)

definition target_of :: "macros \<Rightarrow> int" where
  "target_of m = chosen 300 300 (m ''CL_HPP_TARGET_OPENCL_VERSION'')"

definition minimum_of :: "macros \<Rightarrow> int" where
  "minimum_of m = chosen 200 100 (m ''CL_HPP_MINIMUM_OPENCL_VERSION'')"

definition c_target_of :: "macros \<Rightarrow> int" where
  "c_target_of m = chosen (target_of m) 300 (m ''CL_TARGET_OPENCL_VERSION'')"

lemma hpp_version_cases:
  obtains (rejected) "hpp_version m = None" "target_of m < minimum_of m"
    | (accepted) m3 where "hpp_version m = Some (allow_deprecated (minimum_of m) m3)" "minimum_of m \<le> target_of m"
      "m3 ''CL_HPP_TARGET_OPENCL_VERSION'' = Some (target_of m)" "m3 ''CL_HPP_MINIMUM_OPENCL_VERSION'' = Some (minimum_of m)"
      "m3 ''CL_TARGET_OPENCL_VERSION'' = Some (case m ''CL_TARGET_OPENCL_VERSION'' of None \<Rightarrow> target_of m | Some v \<Rightarrow> v)"
      "\<And>x. x \<notin> target_macros \<or> x = ''__CL_VERSION_H'' \<Longrightarrow> m3 x = m x"
proof -
  let ?H = "''CL_HPP_TARGET_OPENCL_VERSION''" and ?T = "''CL_TARGET_OPENCL_VERSION''"
    and ?M = "''CL_HPP_MINIMUM_OPENCL_VERSION''"
  define m1 where "m1 = checked ?H 300 (ifndef ?H 300 m)"
  have m1: "m1 ?H = Some (target_of m)" "\<And>x. x \<noteq> ?H \<Longrightarrow> m1 x = m x"
    unfolding m1_def target_of_def by (rule checked_ifndef(1), simp) (rule checked_ifndef(2), simp)
  define m2 where "m2 = ifndef ?T (target_of m) m1"
  have m2: "m2 ?T = Some (case m ?T of None \<Rightarrow> target_of m | Some v \<Rightarrow> v)" "\<And>x. x \<noteq> ?T \<Longrightarrow> m2 x = m1 x"
    using m1(2) [of ?T] by (auto simp: m2_def ifndef_def split: option.split)
  define m3 where "m3 = checked ?M 100 (ifndef ?M 200 m2)"
  have m3: "m3 ?M = Some (minimum_of m)" "\<And>x. x \<noteq> ?M \<Longrightarrow> m3 x = m2 x"
    using checked_ifndef(1) [of 200 ?M 100 m2] m1(2) m2(2) by (simp_all add: m3_def minimum_of_def checked_ifndef(2))
  have version: "hpp_version m = (if minimum_of m > target_of m then None else Some (allow_deprecated (minimum_of m) m3))"
    using m1(1) m3(1) by (simp add: hpp_version_def Let_def m1_def [symmetric] m2_def [symmetric] m3_def [symmetric])
  show ?thesis
  proof (cases "minimum_of m > target_of m")
    case True
    with version show ?thesis by (intro rejected) simp_all
  next
    case False
    have "m3 x = m x" if "x \<notin> target_macros \<or> x = ''__CL_VERSION_H''" for x
      using that m1(2) m2(2) m3(2) by (auto simp: target_macros_def)
    with False version m1 m2 m3 show ?thesis by (intro accepted [of m3]) simp_all
  qed
qed

text \<open>The macros after an accepted configuration.\<close>

lemma opencl_hpp_result:
  assumes "opencl_hpp m = Some m'" and "m ''__CL_VERSION_H'' = None"
  shows "minimum_of m \<le> target_of m" "m' ''CL_HPP_TARGET_OPENCL_VERSION'' = Some (target_of m)"
    "m' ''CL_HPP_MINIMUM_OPENCL_VERSION'' = Some (minimum_of m)" "m' ''CL_TARGET_OPENCL_VERSION'' = Some (c_target_of m)"
    "(v, x) \<in> set version_macros \<Longrightarrow> m x = None \<Longrightarrow> m' x \<noteq> None \<longleftrightarrow> v \<le> c_target_of m"
    "(v, x) \<in> set deprecated_macros \<Longrightarrow> m x = None \<Longrightarrow> m' x \<noteq> None \<longleftrightarrow> minimum_of m \<le> v \<or> c_target_of m \<le> v"
    "x \<notin> target_macros \<Longrightarrow> x \<notin> snd ` set version_macros \<Longrightarrow> x \<notin> snd ` set deprecated_macros \<Longrightarrow> m' x = m x"
proof -
  let ?T = "''CL_TARGET_OPENCL_VERSION''" and ?c = "c_target_of m"
  from assms(1) obtain m3 where m3: "hpp_version m = Some (allow_deprecated (minimum_of m) m3)" "minimum_of m \<le> target_of m"
      "m3 ''CL_HPP_TARGET_OPENCL_VERSION'' = Some (target_of m)" "m3 ''CL_HPP_MINIMUM_OPENCL_VERSION'' = Some (minimum_of m)"
      "m3 ?T = Some (case m ?T of None \<Rightarrow> target_of m | Some v \<Rightarrow> v)"
      "\<And>x. x \<notin> target_macros \<or> x = ''__CL_VERSION_H'' \<Longrightarrow> m3 x = m x"
    by (cases rule: hpp_version_cases [of m]) (auto simp: opencl_hpp_def)
  define m4 where "m4 = (allow_deprecated (minimum_of m) m3)(''__CL_VERSION_H'' \<mapsto> 0)"
  define m5 where "m5 = checked ?T 300 (ifndef ?T 300 m4)"
  have t: "x \<in> target_macros \<Longrightarrow> x \<noteq> ''__CL_VERSION_H'' \<Longrightarrow> m4 x = m3 x" for x
    by (simp add: m4_def target_macros_kept)
  have T: "?T \<in> target_macros" by (simp add: target_macros_def)
  have c: "m5 ?T = Some ?c"
  proof -
    have "m5 ?T = Some (chosen 300 300 (m4 ?T))" unfolding m5_def by (rule checked_ifndef(1)) simp
    moreover have "m4 ?T = m3 ?T" by (rule t [OF T]) simp
    moreover have "target_of m \<in> set opencl_versions" unfolding target_of_def by (rule chosen_valid) simp_all
    ultimately show ?thesis by (auto simp: m3(5) c_target_of_def chosen_def split: option.split)
  qed
  have other: "m5 x = m4 x" if "x \<noteq> ?T" for x
    unfolding m5_def by (rule checked_ifndef(2)) (use that in blast)
  have m': "m' = allow_deprecated ?c (define_versions ?c m5)"
  proof -
    have "allow_deprecated (minimum_of m) m3 ''__CL_VERSION_H'' = None"
      using m3(6) assms(2) by (simp add: target_macros_kept target_macros_def)
    then have "m' = (let v = value_of m5 ?T in allow_deprecated v (define_versions v m5))"
      using assms(1) m3(1) by (simp add: opencl_hpp_def cl_version_def m4_def m5_def Let_def)
    with c show ?thesis by (simp add: Let_def)
  qed
  have kept: "m' x = m5 x" if "x \<in> target_macros" for x
    unfolding m' using that by (simp add: target_macros_kept)
  show "minimum_of m \<le> target_of m" by (rule m3(2))
  show "m' ?T = Some ?c" using kept [OF T] c by simp
  show "m' ''CL_HPP_TARGET_OPENCL_VERSION'' = Some (target_of m)" "m' ''CL_HPP_MINIMUM_OPENCL_VERSION'' = Some (minimum_of m)"
    using m3(3,4) by (simp_all add: kept other t target_macros_def)
  have dep: "m5 x = allow_deprecated (minimum_of m) m3 x" if "x \<notin> target_macros" for x
    using that by (simp add: other m4_def target_macros_def)
  show "m' x \<noteq> None \<longleftrightarrow> v \<le> ?c" if x: "(v, x) \<in> set version_macros" "m x = None" for v x
  proof -
    note apart = macros_apart(1) [OF x(1)]
    have "m5 x = None" using apart x(2) m3(6) [of x] unfolding dep [OF conjunct2 [OF apart]] allow_deprecated_def
      by (simp add: fold_ifndef_other)
    then have "define_versions ?c m5 x \<noteq> None \<longleftrightarrow> v \<le> ?c"
      unfolding define_versions_def by (rule fold_ifndef [OF macros_distinct(1) x(1)])
    moreover have "m' x = define_versions ?c m5 x"
      unfolding m' allow_deprecated_def using apart by (simp add: fold_ifndef_other)
    ultimately show ?thesis by simp
  qed
  show "m' x \<noteq> None \<longleftrightarrow> minimum_of m \<le> v \<or> ?c \<le> v" if x: "(v, x) \<in> set deprecated_macros" "m x = None" for v x
  proof -
    note apart = macros_apart(2) [OF x(1)]
    have "m3 x = None" using apart x(2) m3(6) [of x] by simp
    then have "m5 x \<noteq> None \<longleftrightarrow> minimum_of m \<le> v" unfolding dep [OF conjunct2 [OF apart]] allow_deprecated_def
      by (rule fold_ifndef [OF macros_distinct(2) x(1)])
    moreover have d: "define_versions ?c m5 x = m5 x"
      unfolding define_versions_def using apart by (simp add: fold_ifndef_other)
    moreover have "m5 x \<noteq> None \<Longrightarrow> m' x \<noteq> None"
      unfolding m' using d by (simp add: allow_deprecated_def fold_ifndef_defined)
    moreover have "m5 x = None \<Longrightarrow> m' x \<noteq> None \<longleftrightarrow> ?c \<le> v"
      unfolding m' allow_deprecated_def by (rule fold_ifndef [OF macros_distinct(2) x(1)]) (simp add: d)
    ultimately show ?thesis by blast
  qed
  show "m' x = m x" if "x \<notin> target_macros" "x \<notin> snd ` set version_macros" "x \<notin> snd ` set deprecated_macros" for x
    unfolding m' using that m3(6) [of x] dep [OF that(1)]
    by (simp add: allow_deprecated_def define_versions_def fold_ifndef_other)
qed

text \<open>An accepted configuration is consistent.  Whatever the application defined, if the headers do
  not stop with an error then target, minimum and C target are versions of OpenCL, the minimum does not
  exceed the target, the C target is the target unless the application chose it, the version
  macros are those up to the C target, and functions deprecated after version \<open>v\<close> are allowed
  exactly if the minimum or the C target is at most \<open>v\<close>.\<close>

theorem hpp_configuration:
  assumes "opencl_hpp m = Some m'" and "m ''__CL_VERSION_H'' = None"
  shows "\<exists>t n c. m' ''CL_HPP_TARGET_OPENCL_VERSION'' = Some t \<and> m' ''CL_HPP_MINIMUM_OPENCL_VERSION'' = Some n \<and>
    m' ''CL_TARGET_OPENCL_VERSION'' = Some c \<and> {t, n, c} \<subseteq> set opencl_versions \<and> n \<le> t \<and>
    (m ''CL_TARGET_OPENCL_VERSION'' = None \<longrightarrow> c = t) \<and>
    (\<forall>(v, x) \<in> set version_macros. m x = None \<longrightarrow> (m' x \<noteq> None \<longleftrightarrow> v \<le> c)) \<and>
    (\<forall>(v, x) \<in> set deprecated_macros. m x = None \<longrightarrow> (m' x \<noteq> None \<longleftrightarrow> n \<le> v \<or> c \<le> v))"
proof (intro exI conjI)
  note r = opencl_hpp_result [OF assms]
  show "m' ''CL_HPP_TARGET_OPENCL_VERSION'' = Some (target_of m)" "m' ''CL_HPP_MINIMUM_OPENCL_VERSION'' = Some (minimum_of m)"
    "m' ''CL_TARGET_OPENCL_VERSION'' = Some (c_target_of m)" "minimum_of m \<le> target_of m" by (rule r)+
  show "{target_of m, minimum_of m, c_target_of m} \<subseteq> set opencl_versions"
    by (simp add: target_of_def minimum_of_def c_target_of_def chosen_valid)
  show "m ''CL_TARGET_OPENCL_VERSION'' = None \<longrightarrow> c_target_of m = target_of m" by (simp add: c_target_of_def chosen_def)
  show "\<forall>(v, x) \<in> set version_macros. m x = None \<longrightarrow> (m' x \<noteq> None \<longleftrightarrow> v \<le> c_target_of m)" using r(5) by blast
  show "\<forall>(v, x) \<in> set deprecated_macros. m x = None \<longrightarrow> (m' x \<noteq> None \<longleftrightarrow> minimum_of m \<le> v \<or> c_target_of m \<le> v)"
    using r(6) by blast
qed

definition target_120 :: macros where
  "target_120 = [''CL_HPP_TARGET_OPENCL_VERSION'' \<mapsto> 120, ''CL_HPP_MINIMUM_OPENCL_VERSION'' \<mapsto> 120]"

lemma target_120_accepted: "\<exists>m'. opencl_hpp target_120 = Some m'"
  by (cases rule: hpp_version_cases [of target_120])
    (auto simp: opencl_hpp_def target_120_def target_of_def minimum_of_def chosen_def opencl_versions_def)

theorem hpp_configuration_witness:
  "\<exists>m'. opencl_hpp target_120 = Some m' \<and> m' ''CL_VERSION_1_2'' \<noteq> None \<and> m' ''CL_VERSION_2_0'' = None"
proof -
  have "target_120 ''__CL_VERSION_H'' = None" by (simp add: target_120_def)
  moreover obtain m' where m': "opencl_hpp target_120 = Some m'" using target_120_accepted by blast
  ultimately obtain c where c: "m' ''CL_TARGET_OPENCL_VERSION'' = Some c"
    "\<forall>(v, x) \<in> set version_macros. target_120 x = None \<longrightarrow> (m' x \<noteq> None \<longleftrightarrow> v \<le> c)"
    using hpp_configuration [of target_120 m'] by blast
  have "c = 120" using opencl_hpp_result(4) [OF m'] c(1) \<open>target_120 ''__CL_VERSION_H'' = None\<close>
    by (simp add: c_target_of_def target_of_def chosen_def target_120_def opencl_versions_def)
  with c(2) m' show ?thesis by (auto simp: version_macros_def target_120_def)
qed

text \<open>The headers refuse a configuration exactly if its minimum exceeds its target, where the target
  is 3.0 unless it is set to a version of OpenCL, and the minimum is 2.0 if it is not set and 1.0 if it is
  set to anything but a version.  So setting only the target, to a version before 2.0, is an error.\<close>

theorem hpp_rejects_exactly:
  "(opencl_hpp m = None \<longleftrightarrow> target_of m < minimum_of m) \<and>
   (m ''CL_HPP_TARGET_OPENCL_VERSION'' = Some t \<and> t \<in> {100, 110, 120} \<and> m ''CL_HPP_MINIMUM_OPENCL_VERSION'' = None
     \<longrightarrow> opencl_hpp m = None)"
proof -
  have "opencl_hpp m = None \<longleftrightarrow> target_of m < minimum_of m"
    by (cases rule: hpp_version_cases [of m]) (simp_all add: opencl_hpp_def)
  moreover have "m ''CL_HPP_TARGET_OPENCL_VERSION'' = Some t \<Longrightarrow> t \<in> {100, 110, 120} \<Longrightarrow>
      m ''CL_HPP_MINIMUM_OPENCL_VERSION'' = None \<Longrightarrow> target_of m < minimum_of m"
    by (auto simp: target_of_def minimum_of_def chosen_def opencl_versions_def)
  ultimately show ?thesis by blast
qed

theorem hpp_rejects_exactly_witness:
  "opencl_hpp [''CL_HPP_TARGET_OPENCL_VERSION'' \<mapsto> 120] = None"
  using hpp_rejects_exactly [of "[''CL_HPP_TARGET_OPENCL_VERSION'' \<mapsto> 120]" 120] by simp

section \<open>Queues on this driver\<close>

lemma driver_queue_functions:
  "''clCreateCommandQueue'' \<in> pr_name ` set driver_functions"
  "''clCreateCommandQueueWithProperties'' \<notin> pr_name ` set driver_functions"
  by (simp_all add: driver_functions_def platform_functions_def context_functions_def queue_functions_def
      mem_functions_def program_functions_def kernel_functions_def enqueue_functions_def)

lemma queue_calls_cases:
  assumes "opencl_hpp m = Some m'" and "m ''__CL_VERSION_H'' = None"
  shows "queue_calls m' =
    (if target_of m < 200 then [''clCreateCommandQueue'']
     else if minimum_of m < 200
       then [''clGetContextInfo'', ''clGetDeviceInfo'', ''clGetPlatformInfo'', ''clCreateCommandQueueWithProperties'',
         ''clCreateCommandQueue'']
     else [''clCreateCommandQueueWithProperties''])"
  using opencl_hpp_result(1-3) [OF assms] by (simp add: queue_calls_def use_with_properties_def)

text \<open>A command queue of the C++ binding can be linked with this driver exactly if the target is
  below 2.0, and for that the application has to set both the target and the minimum version.\<close>

theorem queue_links_exactly:
  assumes "opencl_hpp m = Some m'" and "m ''__CL_VERSION_H'' = None"
  shows "(set (queue_calls m') \<subseteq> pr_name ` set driver_functions \<longleftrightarrow>
      value_of m' ''CL_HPP_TARGET_OPENCL_VERSION'' < 200) \<and>
    (value_of m' ''CL_HPP_TARGET_OPENCL_VERSION'' < 200 \<longrightarrow>
      m ''CL_HPP_TARGET_OPENCL_VERSION'' \<noteq> None \<and> m ''CL_HPP_MINIMUM_OPENCL_VERSION'' \<noteq> None)"
proof -
  note r = opencl_hpp_result(1-3) [OF assms]
  have "set (queue_calls m') \<subseteq> pr_name ` set driver_functions \<longleftrightarrow> target_of m < 200"
    unfolding queue_calls_cases [OF assms] using driver_queue_functions by (simp split: if_splits)
  moreover have "target_of m < 200 \<Longrightarrow> m ''CL_HPP_TARGET_OPENCL_VERSION'' \<noteq> None"
    by (auto simp: target_of_def chosen_def split: option.splits)
  moreover have "target_of m < 200 \<Longrightarrow> m ''CL_HPP_MINIMUM_OPENCL_VERSION'' \<noteq> None"
    using r(1) by (auto simp: minimum_of_def chosen_def split: option.splits)
  ultimately show ?thesis using r(2) by simp
qed

theorem queue_links_exactly_witness:
  "\<exists>m'. opencl_hpp target_120 = Some m' \<and> set (queue_calls m') \<subseteq> pr_name ` set driver_functions"
proof -
  have n: "target_120 ''__CL_VERSION_H'' = None" by (simp add: target_120_def)
  obtain m' where m': "opencl_hpp target_120 = Some m'" using target_120_accepted by blast
  have "value_of m' ''CL_HPP_TARGET_OPENCL_VERSION'' < 200" using opencl_hpp_result(2) [OF m' n]
    by (simp add: target_of_def chosen_def target_120_def opencl_versions_def)
  with queue_links_exactly [OF m' n] m' show ?thesis by blast
qed

text \<open>The prototypes of the functions that the constructor refers to.\<close>

definition usable :: "macros \<Rightarrow> string \<Rightarrow> bool" where
  "usable m f \<longleftrightarrow> (\<exists>p \<in> set core_apis. pr_name p = f \<and> declared_in m p \<and> \<not> marked_deprecated m p)"

lemma queue_prototypes:
  "\<exists>p \<in> set core_apis. pr_name p = ''clGetContextInfo'' \<and> pr_guard p = [] \<and> pr_unless p = [''CL_NO_CORE_PROTOTYPES''] \<and> pr_suffix p = ''1_0''"
  "\<exists>p \<in> set core_apis. pr_name p = ''clGetDeviceInfo'' \<and> pr_guard p = [] \<and> pr_unless p = [''CL_NO_CORE_PROTOTYPES''] \<and> pr_suffix p = ''1_0''"
  "\<exists>p \<in> set core_apis. pr_name p = ''clGetPlatformInfo'' \<and> pr_guard p = [] \<and> pr_unless p = [''CL_NO_CORE_PROTOTYPES''] \<and> pr_suffix p = ''1_0''"
  "\<exists>p \<in> set core_apis. pr_name p = ''clCreateCommandQueueWithProperties'' \<and> pr_guard p = [''CL_VERSION_2_0''] \<and>
     pr_unless p = [''CL_NO_CORE_PROTOTYPES''] \<and> pr_suffix p = ''2_0''"
  "\<exists>p \<in> set core_apis. pr_name p = ''clCreateCommandQueue'' \<and> pr_guard p = [] \<and> pr_unless p = [''CL_NO_CORE_PROTOTYPES''] \<and>
     pr_suffix p = ''1_2_DEPRECATED''"
  by ((rule bexI [of _ "context_apis ! 4"], simp add: context_apis_def, simp add: core_apis_def context_apis_def),
      (rule bexI [of _ "device_apis ! 1"], simp add: device_apis_def, simp add: core_apis_def device_apis_def),
      (rule bexI [of _ "platform_apis ! 1"], simp add: platform_apis_def, simp add: core_apis_def platform_apis_def),
      (rule bexI [of _ "queue_apis ! 0"], simp add: queue_apis_def, simp add: core_apis_def queue_apis_def),
      (rule bexI [of _ "other_apis ! 9"], simp add: other_apis_def, simp add: core_apis_def other_apis_def))

lemma with_properties_guard:
  "p \<in> set core_apis \<Longrightarrow> pr_name p = ''clCreateCommandQueueWithProperties'' \<Longrightarrow> pr_guard p = [''CL_VERSION_2_0'']"
proof -
  have "list_all (\<lambda>p. pr_name p = ''clCreateCommandQueueWithProperties'' \<longrightarrow> pr_guard p = [''CL_VERSION_2_0'']) core_apis"
    by (simp add: core_apis_def platform_apis_def device_apis_def context_apis_def queue_apis_def memory_apis_def
        svm_apis_def sampler_apis_def program_apis_def kernel_apis_def event_apis_def finish_apis_def
        buffer_command_apis_def image_command_apis_def kernel_command_apis_def other_apis_def)
  then show "p \<in> set core_apis \<Longrightarrow> pr_name p = ''clCreateCommandQueueWithProperties'' \<Longrightarrow> pr_guard p = [''CL_VERSION_2_0'']"
    by (simp add: list_all_iff)
qed

lemma usableI:
  assumes "p \<in> set core_apis" and "pr_name p = f" and "pr_unless p = [''CL_NO_CORE_PROTOTYPES'']"
    and "m ''CL_NO_CORE_PROTOTYPES'' = None" and "list_all (\<lambda>x. m x \<noteq> None) (pr_guard p)"
    and "\<forall>x. map_of deprecated_suffixes (pr_suffix p) = Some x \<longrightarrow> m x \<noteq> None"
  shows "usable m f"
  using assms unfolding usable_def declared_in_def marked_deprecated_def
  by (intro bexI [of _ p] conjI) (auto split: option.split)

text \<open>The queue constructor uses only functions that the C headers declare and do not mark as
  deprecated, in every accepted configuration in which the application leaves the C target alone;
  if it chose a C target below 2.0 under a target of 2.0 or more, which the headers only remark
  on, a function is used that is not declared.\<close>

theorem queue_calls_usable:
  assumes "opencl_hpp m = Some m'" and "m ''__CL_VERSION_H'' = None" and "m ''CL_NO_CORE_PROTOTYPES'' = None"
    and "m ''CL_VERSION_2_0'' = None" and "m ''CL_USE_DEPRECATED_OPENCL_1_2_APIS'' = None"
  shows "(list_all (usable m') (queue_calls m') \<longleftrightarrow>
      value_of m' ''CL_HPP_TARGET_OPENCL_VERSION'' < 200 \<or> 200 \<le> value_of m' ''CL_TARGET_OPENCL_VERSION'') \<and>
    (m ''CL_TARGET_OPENCL_VERSION'' = None \<longrightarrow> list_all (usable m') (queue_calls m'))"
proof -
  note r = opencl_hpp_result [OF assms(1,2)]
  have core: "m' ''CL_NO_CORE_PROTOTYPES'' = None"
    using r(7) [of "''CL_NO_CORE_PROTOTYPES''"] assms(3)
    by (simp add: target_macros_def version_macros_def deprecated_macros_def)
  have v20: "m' ''CL_VERSION_2_0'' \<noteq> None \<longleftrightarrow> 200 \<le> c_target_of m"
    by (rule r(5) [OF _ assms(4)]) (simp add: version_macros_def)
  have d12: "m' ''CL_USE_DEPRECATED_OPENCL_1_2_APIS'' \<noteq> None \<longleftrightarrow> minimum_of m \<le> 120 \<or> c_target_of m \<le> 120"
    by (rule r(6) [OF _ assms(5)]) (simp add: deprecated_macros_def)
  have "minimum_of m \<in> set opencl_versions" unfolding minimum_of_def by (rule chosen_valid) simp_all
  then have old: "minimum_of m < 200 \<Longrightarrow> minimum_of m \<le> 120" by (auto simp: opencl_versions_def)
  have plain: "usable m' f" if "\<exists>p \<in> set core_apis. pr_name p = f \<and> pr_guard p = [] \<and>
      pr_unless p = [''CL_NO_CORE_PROTOTYPES''] \<and> pr_suffix p = ''1_0''" for f
  proof -
    from that obtain p where p: "p \<in> set core_apis" "pr_name p = f" "pr_guard p = []"
      "pr_unless p = [''CL_NO_CORE_PROTOTYPES'']" "pr_suffix p = ''1_0''" by blast
    show ?thesis by (rule usableI [where m = m', OF p(1,2,4) core]) (simp_all add: p deprecated_suffixes_def)
  qed
  note plains = plain [OF queue_prototypes(1)] plain [OF queue_prototypes(2)] plain [OF queue_prototypes(3)]
  have new: "usable m' ''clCreateCommandQueueWithProperties'' \<longleftrightarrow> 200 \<le> c_target_of m"
  proof
    assume "usable m' ''clCreateCommandQueueWithProperties''"
    then obtain p where p: "p \<in> set core_apis" "pr_name p = ''clCreateCommandQueueWithProperties''" "declared_in m' p"
      by (auto simp: usable_def)
    with with_properties_guard [OF p(1,2)] show "200 \<le> c_target_of m" using v20 by (simp add: declared_in_def)
  next
    assume c: "200 \<le> c_target_of m"
    obtain p where p: "p \<in> set core_apis" "pr_name p = ''clCreateCommandQueueWithProperties''" "pr_guard p = [''CL_VERSION_2_0'']"
      "pr_unless p = [''CL_NO_CORE_PROTOTYPES'']" "pr_suffix p = ''2_0''" using queue_prototypes(4) by blast
    show "usable m' ''clCreateCommandQueueWithProperties''"
      by (rule usableI [where m = m', OF p(1,2,4) core]) (use c v20 in \<open>simp_all add: p deprecated_suffixes_def\<close>)
  qed
  have create: "usable m' ''clCreateCommandQueue''" if "minimum_of m < 200"
  proof -
    obtain p where p: "p \<in> set core_apis" "pr_name p = ''clCreateCommandQueue''" "pr_guard p = []"
      "pr_unless p = [''CL_NO_CORE_PROTOTYPES'']" "pr_suffix p = ''1_2_DEPRECATED''" using queue_prototypes(5) by blast
    show ?thesis
      by (rule usableI [where m = m', OF p(1,2,4) core]) (use d12 old [OF that] in \<open>simp_all add: p deprecated_suffixes_def\<close>)
  qed
  have low: "target_of m < 200 \<Longrightarrow> minimum_of m < 200" using r(1) by simp
  have iff: "list_all (usable m') (queue_calls m') \<longleftrightarrow>
      value_of m' ''CL_HPP_TARGET_OPENCL_VERSION'' < 200 \<or> 200 \<le> value_of m' ''CL_TARGET_OPENCL_VERSION''"
    unfolding queue_calls_cases [OF assms(1,2)] using r(2,4) plains new create low by (auto split: if_splits)
  moreover have "list_all (usable m') (queue_calls m')" if "m ''CL_TARGET_OPENCL_VERSION'' = None"
  proof -
    have "c_target_of m = target_of m" using that by (simp add: c_target_of_def chosen_def)
    then show ?thesis unfolding iff using r(2,4) by (simp add: linorder_not_less [symmetric])
  qed
  ultimately show ?thesis by blast
qed

theorem queue_calls_usable_witness:
  "\<exists>m'. opencl_hpp target_120 = Some m' \<and> list_all (usable m') (queue_calls m')"
proof -
  obtain m' where m': "opencl_hpp target_120 = Some m'" using target_120_accepted by blast
  have n: "target_120 ''__CL_VERSION_H'' = None" "target_120 ''CL_NO_CORE_PROTOTYPES'' = None" "target_120 ''CL_VERSION_2_0'' = None"
    "target_120 ''CL_USE_DEPRECATED_OPENCL_1_2_APIS'' = None" "target_120 ''CL_TARGET_OPENCL_VERSION'' = None"
    by (simp_all add: target_120_def)
  have "list_all (usable m') (queue_calls m')"
    by (rule mp [OF conjunct2 [OF queue_calls_usable [OF m' n(1-4)]] n(5)])
  with m' show ?thesis by blast
qed

end
