(* ===== verification/ClExtApi.thy ===== *)
theory ClExtApi
  imports ClApi
begin

text \<open>
  The functions of the extensions, with their function types: \<open>include/CL/cl_ext.h\<close>, \<open>cl_gl.h\<close>,
  \<open>cl_layer.h\<close>, \<open>cl_egl.h\<close>, \<open>cl_d3d10.h\<close>, \<open>cl_d3d11.h\<close>, \<open>cl_dx9_media_sharing.h\<close> and
  \<open>cl_va_api_media_sharing_intel.h\<close>, extension by extension in the order of the headers.
\<close>

section \<open>\<open>cl_ext.h\<close>\<close>

definition khr_command_buffer_types_1 :: "prototype list" where
  "khr_command_buffer_types_1 =
   [fn_type [] (TypeName ''cl_command_buffer_khr'') ''clCreateCommandBufferKHR_t'' [TypeName ''cl_uint'', PtrTo
     (ConstOf (TypeName ''cl_command_queue'')), PtrTo (ConstOf (TypeName ''cl_command_buffer_properties_khr'')),
     PtrTo (TypeName ''cl_int'')] '''',
    fn_type [] (TypeName ''cl_int'') ''clFinalizeCommandBufferKHR_t'' [TypeName ''cl_command_buffer_khr''] '''',
    fn_type [] (TypeName ''cl_int'') ''clRetainCommandBufferKHR_t'' [TypeName ''cl_command_buffer_khr''] '''',
    fn_type [] (TypeName ''cl_int'') ''clReleaseCommandBufferKHR_t'' [TypeName ''cl_command_buffer_khr''] '''',
    fn_type [] (TypeName ''cl_int'') ''clEnqueueCommandBufferKHR_t'' [TypeName ''cl_uint'', PtrTo (TypeName
     ''cl_command_queue''), TypeName ''cl_command_buffer_khr'', TypeName ''cl_uint'', PtrTo (ConstOf (TypeName
     ''cl_event'')), PtrTo (TypeName ''cl_event'')] '''',
    fn_type [] (TypeName ''cl_int'') ''clCommandBarrierWithWaitListKHR_t'' [TypeName ''cl_command_buffer_khr'',
     TypeName ''cl_command_queue'', TypeName ''cl_uint'', PtrTo (ConstOf (TypeName ''cl_sync_point_khr'')), PtrTo
     (TypeName ''cl_sync_point_khr''), PtrTo (TypeName ''cl_mutable_command_khr'')] '''',
    fn_type [] (TypeName ''cl_int'') ''clCommandCopyBufferKHR_t'' [TypeName ''cl_command_buffer_khr'', TypeName
     ''cl_command_queue'', TypeName ''cl_mem'', TypeName ''cl_mem'', TypeName ''size_t'', TypeName ''size_t'',
     TypeName ''size_t'', TypeName ''cl_uint'', PtrTo (ConstOf (TypeName ''cl_sync_point_khr'')), PtrTo (TypeName
     ''cl_sync_point_khr''), PtrTo (TypeName ''cl_mutable_command_khr'')] '''',
    fn_type [] (TypeName ''cl_int'') ''clCommandCopyBufferRectKHR_t'' [TypeName ''cl_command_buffer_khr'',
     TypeName ''cl_command_queue'', TypeName ''cl_mem'', TypeName ''cl_mem'', PtrTo (ConstOf (TypeName
     ''size_t'')), PtrTo (ConstOf (TypeName ''size_t'')), PtrTo (ConstOf (TypeName ''size_t'')), TypeName
     ''size_t'', TypeName ''size_t'', TypeName ''size_t'', TypeName ''size_t'', TypeName ''cl_uint'', PtrTo
     (ConstOf (TypeName ''cl_sync_point_khr'')), PtrTo (TypeName ''cl_sync_point_khr''), PtrTo (TypeName
     ''cl_mutable_command_khr'')] '''',
    fn_type [] (TypeName ''cl_int'') ''clCommandCopyBufferToImageKHR_t'' [TypeName ''cl_command_buffer_khr'',
     TypeName ''cl_command_queue'', TypeName ''cl_mem'', TypeName ''cl_mem'', TypeName ''size_t'', PtrTo (ConstOf
     (TypeName ''size_t'')), PtrTo (ConstOf (TypeName ''size_t'')), TypeName ''cl_uint'', PtrTo (ConstOf (TypeName
     ''cl_sync_point_khr'')), PtrTo (TypeName ''cl_sync_point_khr''), PtrTo (TypeName ''cl_mutable_command_khr'')]
     '''',
    fn_type [] (TypeName ''cl_int'') ''clCommandCopyImageKHR_t'' [TypeName ''cl_command_buffer_khr'', TypeName
     ''cl_command_queue'', TypeName ''cl_mem'', TypeName ''cl_mem'', PtrTo (ConstOf (TypeName ''size_t'')), PtrTo
     (ConstOf (TypeName ''size_t'')), PtrTo (ConstOf (TypeName ''size_t'')), TypeName ''cl_uint'', PtrTo (ConstOf
     (TypeName ''cl_sync_point_khr'')), PtrTo (TypeName ''cl_sync_point_khr''), PtrTo (TypeName
     ''cl_mutable_command_khr'')] '''',
    fn_type [] (TypeName ''cl_int'') ''clCommandCopyImageToBufferKHR_t'' [TypeName ''cl_command_buffer_khr'',
     TypeName ''cl_command_queue'', TypeName ''cl_mem'', TypeName ''cl_mem'', PtrTo (ConstOf (TypeName
     ''size_t'')), PtrTo (ConstOf (TypeName ''size_t'')), TypeName ''size_t'', TypeName ''cl_uint'', PtrTo (ConstOf
     (TypeName ''cl_sync_point_khr'')), PtrTo (TypeName ''cl_sync_point_khr''), PtrTo (TypeName
     ''cl_mutable_command_khr'')] '''']"

definition khr_command_buffer_types_2 :: "prototype list" where
  "khr_command_buffer_types_2 =
   [fn_type [] (TypeName ''cl_int'') ''clCommandFillBufferKHR_t'' [TypeName ''cl_command_buffer_khr'', TypeName
     ''cl_command_queue'', TypeName ''cl_mem'', PtrTo (ConstOf (TypeName ''void'')), TypeName ''size_t'', TypeName
     ''size_t'', TypeName ''size_t'', TypeName ''cl_uint'', PtrTo (ConstOf (TypeName ''cl_sync_point_khr'')), PtrTo
     (TypeName ''cl_sync_point_khr''), PtrTo (TypeName ''cl_mutable_command_khr'')] '''',
    fn_type [] (TypeName ''cl_int'') ''clCommandFillImageKHR_t'' [TypeName ''cl_command_buffer_khr'', TypeName
     ''cl_command_queue'', TypeName ''cl_mem'', PtrTo (ConstOf (TypeName ''void'')), PtrTo (ConstOf (TypeName
     ''size_t'')), PtrTo (ConstOf (TypeName ''size_t'')), TypeName ''cl_uint'', PtrTo (ConstOf (TypeName
     ''cl_sync_point_khr'')), PtrTo (TypeName ''cl_sync_point_khr''), PtrTo (TypeName ''cl_mutable_command_khr'')]
     '''',
    fn_type [] (TypeName ''cl_int'') ''clCommandNDRangeKernelKHR_t'' [TypeName ''cl_command_buffer_khr'', TypeName
     ''cl_command_queue'', PtrTo (ConstOf (TypeName ''cl_ndrange_kernel_command_properties_khr'')), TypeName
     ''cl_kernel'', TypeName ''cl_uint'', PtrTo (ConstOf (TypeName ''size_t'')), PtrTo (ConstOf (TypeName
     ''size_t'')), PtrTo (ConstOf (TypeName ''size_t'')), TypeName ''cl_uint'', PtrTo (ConstOf (TypeName
     ''cl_sync_point_khr'')), PtrTo (TypeName ''cl_sync_point_khr''), PtrTo (TypeName ''cl_mutable_command_khr'')]
     '''',
    fn_type [] (TypeName ''cl_int'') ''clCommandSVMMemcpyKHR_t'' [TypeName ''cl_command_buffer_khr'', TypeName
     ''cl_command_queue'', PtrTo (TypeName ''void''), PtrTo (ConstOf (TypeName ''void'')), TypeName ''size_t'',
     TypeName ''cl_uint'', PtrTo (ConstOf (TypeName ''cl_sync_point_khr'')), PtrTo (TypeName
     ''cl_sync_point_khr''), PtrTo (TypeName ''cl_mutable_command_khr'')] ''2_0'',
    fn_type [] (TypeName ''cl_int'') ''clCommandSVMMemFillKHR_t'' [TypeName ''cl_command_buffer_khr'', TypeName
     ''cl_command_queue'', PtrTo (TypeName ''void''), PtrTo (ConstOf (TypeName ''void'')), TypeName ''size_t'',
     TypeName ''size_t'', TypeName ''cl_uint'', PtrTo (ConstOf (TypeName ''cl_sync_point_khr'')), PtrTo (TypeName
     ''cl_sync_point_khr''), PtrTo (TypeName ''cl_mutable_command_khr'')] ''2_0'',
    fn_type [] (TypeName ''cl_int'') ''clGetCommandBufferInfoKHR_t'' [TypeName ''cl_command_buffer_khr'', TypeName
     ''cl_command_buffer_info_khr'', TypeName ''size_t'', PtrTo (TypeName ''void''), PtrTo (TypeName ''size_t'')]
     '''']"

definition khr_command_buffer_apis_1 :: "prototype list" where
  "khr_command_buffer_apis_1 =
   [ext_api [] (TypeName ''cl_command_buffer_khr'') ''clCreateCommandBufferKHR'' [TypeName ''cl_uint'', PtrTo
     (ConstOf (TypeName ''cl_command_queue'')), PtrTo (ConstOf (TypeName ''cl_command_buffer_properties_khr'')),
     PtrTo (TypeName ''cl_int'')] '''',
    ext_api [] (TypeName ''cl_int'') ''clFinalizeCommandBufferKHR'' [TypeName ''cl_command_buffer_khr''] '''',
    ext_api [] (TypeName ''cl_int'') ''clRetainCommandBufferKHR'' [TypeName ''cl_command_buffer_khr''] '''',
    ext_api [] (TypeName ''cl_int'') ''clReleaseCommandBufferKHR'' [TypeName ''cl_command_buffer_khr''] '''',
    ext_api [] (TypeName ''cl_int'') ''clEnqueueCommandBufferKHR'' [TypeName ''cl_uint'', PtrTo (TypeName
     ''cl_command_queue''), TypeName ''cl_command_buffer_khr'', TypeName ''cl_uint'', PtrTo (ConstOf (TypeName
     ''cl_event'')), PtrTo (TypeName ''cl_event'')] '''',
    ext_api [] (TypeName ''cl_int'') ''clCommandBarrierWithWaitListKHR'' [TypeName ''cl_command_buffer_khr'',
     TypeName ''cl_command_queue'', TypeName ''cl_uint'', PtrTo (ConstOf (TypeName ''cl_sync_point_khr'')), PtrTo
     (TypeName ''cl_sync_point_khr''), PtrTo (TypeName ''cl_mutable_command_khr'')] '''',
    ext_api [] (TypeName ''cl_int'') ''clCommandCopyBufferKHR'' [TypeName ''cl_command_buffer_khr'', TypeName
     ''cl_command_queue'', TypeName ''cl_mem'', TypeName ''cl_mem'', TypeName ''size_t'', TypeName ''size_t'',
     TypeName ''size_t'', TypeName ''cl_uint'', PtrTo (ConstOf (TypeName ''cl_sync_point_khr'')), PtrTo (TypeName
     ''cl_sync_point_khr''), PtrTo (TypeName ''cl_mutable_command_khr'')] '''',
    ext_api [] (TypeName ''cl_int'') ''clCommandCopyBufferRectKHR'' [TypeName ''cl_command_buffer_khr'', TypeName
     ''cl_command_queue'', TypeName ''cl_mem'', TypeName ''cl_mem'', PtrTo (ConstOf (TypeName ''size_t'')), PtrTo
     (ConstOf (TypeName ''size_t'')), PtrTo (ConstOf (TypeName ''size_t'')), TypeName ''size_t'', TypeName
     ''size_t'', TypeName ''size_t'', TypeName ''size_t'', TypeName ''cl_uint'', PtrTo (ConstOf (TypeName
     ''cl_sync_point_khr'')), PtrTo (TypeName ''cl_sync_point_khr''), PtrTo (TypeName ''cl_mutable_command_khr'')]
     '''',
    ext_api [] (TypeName ''cl_int'') ''clCommandCopyBufferToImageKHR'' [TypeName ''cl_command_buffer_khr'',
     TypeName ''cl_command_queue'', TypeName ''cl_mem'', TypeName ''cl_mem'', TypeName ''size_t'', PtrTo (ConstOf
     (TypeName ''size_t'')), PtrTo (ConstOf (TypeName ''size_t'')), TypeName ''cl_uint'', PtrTo (ConstOf (TypeName
     ''cl_sync_point_khr'')), PtrTo (TypeName ''cl_sync_point_khr''), PtrTo (TypeName ''cl_mutable_command_khr'')]
     '''',
    ext_api [] (TypeName ''cl_int'') ''clCommandCopyImageKHR'' [TypeName ''cl_command_buffer_khr'', TypeName
     ''cl_command_queue'', TypeName ''cl_mem'', TypeName ''cl_mem'', PtrTo (ConstOf (TypeName ''size_t'')), PtrTo
     (ConstOf (TypeName ''size_t'')), PtrTo (ConstOf (TypeName ''size_t'')), TypeName ''cl_uint'', PtrTo (ConstOf
     (TypeName ''cl_sync_point_khr'')), PtrTo (TypeName ''cl_sync_point_khr''), PtrTo (TypeName
     ''cl_mutable_command_khr'')] '''',
    ext_api [] (TypeName ''cl_int'') ''clCommandCopyImageToBufferKHR'' [TypeName ''cl_command_buffer_khr'',
     TypeName ''cl_command_queue'', TypeName ''cl_mem'', TypeName ''cl_mem'', PtrTo (ConstOf (TypeName
     ''size_t'')), PtrTo (ConstOf (TypeName ''size_t'')), TypeName ''size_t'', TypeName ''cl_uint'', PtrTo (ConstOf
     (TypeName ''cl_sync_point_khr'')), PtrTo (TypeName ''cl_sync_point_khr''), PtrTo (TypeName
     ''cl_mutable_command_khr'')] '''',
    ext_api [] (TypeName ''cl_int'') ''clCommandFillBufferKHR'' [TypeName ''cl_command_buffer_khr'', TypeName
     ''cl_command_queue'', TypeName ''cl_mem'', PtrTo (ConstOf (TypeName ''void'')), TypeName ''size_t'', TypeName
     ''size_t'', TypeName ''size_t'', TypeName ''cl_uint'', PtrTo (ConstOf (TypeName ''cl_sync_point_khr'')), PtrTo
     (TypeName ''cl_sync_point_khr''), PtrTo (TypeName ''cl_mutable_command_khr'')] '''',
    ext_api [] (TypeName ''cl_int'') ''clCommandFillImageKHR'' [TypeName ''cl_command_buffer_khr'', TypeName
     ''cl_command_queue'', TypeName ''cl_mem'', PtrTo (ConstOf (TypeName ''void'')), PtrTo (ConstOf (TypeName
     ''size_t'')), PtrTo (ConstOf (TypeName ''size_t'')), TypeName ''cl_uint'', PtrTo (ConstOf (TypeName
     ''cl_sync_point_khr'')), PtrTo (TypeName ''cl_sync_point_khr''), PtrTo (TypeName ''cl_mutable_command_khr'')]
     '''']"

definition khr_command_buffer_apis_2 :: "prototype list" where
  "khr_command_buffer_apis_2 =
   [ext_api [] (TypeName ''cl_int'') ''clCommandNDRangeKernelKHR'' [TypeName ''cl_command_buffer_khr'', TypeName
     ''cl_command_queue'', PtrTo (ConstOf (TypeName ''cl_ndrange_kernel_command_properties_khr'')), TypeName
     ''cl_kernel'', TypeName ''cl_uint'', PtrTo (ConstOf (TypeName ''size_t'')), PtrTo (ConstOf (TypeName
     ''size_t'')), PtrTo (ConstOf (TypeName ''size_t'')), TypeName ''cl_uint'', PtrTo (ConstOf (TypeName
     ''cl_sync_point_khr'')), PtrTo (TypeName ''cl_sync_point_khr''), PtrTo (TypeName ''cl_mutable_command_khr'')]
     '''',
    ext_api [] (TypeName ''cl_int'') ''clCommandSVMMemcpyKHR'' [TypeName ''cl_command_buffer_khr'', TypeName
     ''cl_command_queue'', PtrTo (TypeName ''void''), PtrTo (ConstOf (TypeName ''void'')), TypeName ''size_t'',
     TypeName ''cl_uint'', PtrTo (ConstOf (TypeName ''cl_sync_point_khr'')), PtrTo (TypeName
     ''cl_sync_point_khr''), PtrTo (TypeName ''cl_mutable_command_khr'')] ''2_0'',
    ext_api [] (TypeName ''cl_int'') ''clCommandSVMMemFillKHR'' [TypeName ''cl_command_buffer_khr'', TypeName
     ''cl_command_queue'', PtrTo (TypeName ''void''), PtrTo (ConstOf (TypeName ''void'')), TypeName ''size_t'',
     TypeName ''size_t'', TypeName ''cl_uint'', PtrTo (ConstOf (TypeName ''cl_sync_point_khr'')), PtrTo (TypeName
     ''cl_sync_point_khr''), PtrTo (TypeName ''cl_mutable_command_khr'')] ''2_0'',
    ext_api [] (TypeName ''cl_int'') ''clGetCommandBufferInfoKHR'' [TypeName ''cl_command_buffer_khr'', TypeName
     ''cl_command_buffer_info_khr'', TypeName ''size_t'', PtrTo (TypeName ''void''), PtrTo (TypeName ''size_t'')]
     '''']"

definition khr_command_buffer_multi_device_types :: "prototype list" where
  "khr_command_buffer_multi_device_types =
   [fn_type [] (TypeName ''cl_command_buffer_khr'') ''clRemapCommandBufferKHR_t'' [TypeName
     ''cl_command_buffer_khr'', TypeName ''cl_bool'', TypeName ''cl_uint'', PtrTo (ConstOf (TypeName
     ''cl_command_queue'')), TypeName ''cl_uint'', PtrTo (ConstOf (TypeName ''cl_mutable_command_khr'')), PtrTo
     (TypeName ''cl_mutable_command_khr''), PtrTo (TypeName ''cl_int'')] '''']"

definition khr_command_buffer_multi_device_apis :: "prototype list" where
  "khr_command_buffer_multi_device_apis =
   [ext_api [] (TypeName ''cl_command_buffer_khr'') ''clRemapCommandBufferKHR'' [TypeName
     ''cl_command_buffer_khr'', TypeName ''cl_bool'', TypeName ''cl_uint'', PtrTo (ConstOf (TypeName
     ''cl_command_queue'')), TypeName ''cl_uint'', PtrTo (ConstOf (TypeName ''cl_mutable_command_khr'')), PtrTo
     (TypeName ''cl_mutable_command_khr''), PtrTo (TypeName ''cl_int'')] '''']"

definition khr_command_buffer_mutable_dispatch_types :: "prototype list" where
  "khr_command_buffer_mutable_dispatch_types =
   [fn_type [] (TypeName ''cl_int'') ''clUpdateMutableCommandsKHR_t'' [TypeName ''cl_command_buffer_khr'', PtrTo
     (ConstOf (TypeName ''cl_mutable_base_config_khr''))] '''',
    fn_type [] (TypeName ''cl_int'') ''clGetMutableCommandInfoKHR_t'' [TypeName ''cl_mutable_command_khr'',
     TypeName ''cl_mutable_command_info_khr'', TypeName ''size_t'', PtrTo (TypeName ''void''), PtrTo (TypeName
     ''size_t'')] '''']"

definition khr_command_buffer_mutable_dispatch_apis :: "prototype list" where
  "khr_command_buffer_mutable_dispatch_apis =
   [ext_api [] (TypeName ''cl_int'') ''clUpdateMutableCommandsKHR'' [TypeName ''cl_command_buffer_khr'', PtrTo
     (ConstOf (TypeName ''cl_mutable_base_config_khr''))] '''',
    ext_api [] (TypeName ''cl_int'') ''clGetMutableCommandInfoKHR'' [TypeName ''cl_mutable_command_khr'', TypeName
     ''cl_mutable_command_info_khr'', TypeName ''size_t'', PtrTo (TypeName ''void''), PtrTo (TypeName ''size_t'')]
     '''']"

definition apple_setmemobjectdestructor_types :: "prototype list" where
  "apple_setmemobjectdestructor_types =
   [fn_type [] (TypeName ''cl_int'') ''clSetMemObjectDestructorAPPLE_t'' [TypeName ''cl_mem'', PtrTo (FnType
     (TypeName ''void'') [TypeName ''cl_mem'', PtrTo (TypeName ''void'')]), PtrTo (TypeName ''void'')] ''1_0'']"

definition apple_setmemobjectdestructor_apis :: "prototype list" where
  "apple_setmemobjectdestructor_apis =
   [ext_api [] (TypeName ''cl_int'') ''clSetMemObjectDestructorAPPLE'' [TypeName ''cl_mem'', PtrTo (FnType
     (TypeName ''void'') [TypeName ''cl_mem'', PtrTo (TypeName ''void'')]), PtrTo (TypeName ''void'')] ''1_0'']"

definition apple_contextloggingfunctions_types :: "prototype list" where
  "apple_contextloggingfunctions_types =
   [fn_type [] (TypeName ''void'') ''clLogMessagesToSystemLogAPPLE_t'' [PtrTo (ConstOf (TypeName ''char'')), PtrTo
     (ConstOf (TypeName ''void'')), TypeName ''size_t'', PtrTo (TypeName ''void'')] ''1_0'',
    fn_type [] (TypeName ''void'') ''clLogMessagesToStdoutAPPLE_t'' [PtrTo (ConstOf (TypeName ''char'')), PtrTo
     (ConstOf (TypeName ''void'')), TypeName ''size_t'', PtrTo (TypeName ''void'')] ''1_0'',
    fn_type [] (TypeName ''void'') ''clLogMessagesToStderrAPPLE_t'' [PtrTo (ConstOf (TypeName ''char'')), PtrTo
     (ConstOf (TypeName ''void'')), TypeName ''size_t'', PtrTo (TypeName ''void'')] ''1_0'']"

definition apple_contextloggingfunctions_apis :: "prototype list" where
  "apple_contextloggingfunctions_apis =
   [ext_api [] (TypeName ''void'') ''clLogMessagesToSystemLogAPPLE'' [PtrTo (ConstOf (TypeName ''char'')), PtrTo
     (ConstOf (TypeName ''void'')), TypeName ''size_t'', PtrTo (TypeName ''void'')] ''1_0'',
    ext_api [] (TypeName ''void'') ''clLogMessagesToStdoutAPPLE'' [PtrTo (ConstOf (TypeName ''char'')), PtrTo
     (ConstOf (TypeName ''void'')), TypeName ''size_t'', PtrTo (TypeName ''void'')] ''1_0'',
    ext_api [] (TypeName ''void'') ''clLogMessagesToStderrAPPLE'' [PtrTo (ConstOf (TypeName ''char'')), PtrTo
     (ConstOf (TypeName ''void'')), TypeName ''size_t'', PtrTo (TypeName ''void'')] ''1_0'']"

definition khr_icd_types :: "prototype list" where
  "khr_icd_types =
   [fn_type [] (TypeName ''cl_int'') ''clIcdGetPlatformIDsKHR_t'' [TypeName ''cl_uint'', PtrTo (TypeName
     ''cl_platform_id''), PtrTo (TypeName ''cl_uint'')] '''']"

definition khr_icd_apis :: "prototype list" where
  "khr_icd_apis =
   [ext_api [] (TypeName ''cl_int'') ''clIcdGetPlatformIDsKHR'' [TypeName ''cl_uint'', PtrTo (TypeName
     ''cl_platform_id''), PtrTo (TypeName ''cl_uint'')] '''']"

definition khr_il_program_types :: "prototype list" where
  "khr_il_program_types =
   [fn_type [] (TypeName ''cl_program'') ''clCreateProgramWithILKHR_t'' [TypeName ''cl_context'', PtrTo (ConstOf
     (TypeName ''void'')), TypeName ''size_t'', PtrTo (TypeName ''cl_int'')] ''1_2'']"

definition khr_il_program_apis :: "prototype list" where
  "khr_il_program_apis =
   [ext_api [] (TypeName ''cl_program'') ''clCreateProgramWithILKHR'' [TypeName ''cl_context'', PtrTo (ConstOf
     (TypeName ''void'')), TypeName ''size_t'', PtrTo (TypeName ''cl_int'')] ''1_2'']"

definition khr_terminate_context_types :: "prototype list" where
  "khr_terminate_context_types =
   [fn_type [] (TypeName ''cl_int'') ''clTerminateContextKHR_t'' [TypeName ''cl_context''] ''1_2'']"

definition khr_terminate_context_apis :: "prototype list" where
  "khr_terminate_context_apis =
   [ext_api [] (TypeName ''cl_int'') ''clTerminateContextKHR'' [TypeName ''cl_context''] ''1_2'']"

definition khr_create_command_queue_types :: "prototype list" where
  "khr_create_command_queue_types =
   [fn_type [] (TypeName ''cl_command_queue'') ''clCreateCommandQueueWithPropertiesKHR_t'' [TypeName
     ''cl_context'', TypeName ''cl_device_id'', PtrTo (ConstOf (TypeName ''cl_queue_properties_khr'')), PtrTo
     (TypeName ''cl_int'')] ''1_2'']"

definition khr_create_command_queue_apis :: "prototype list" where
  "khr_create_command_queue_apis =
   [ext_api [] (TypeName ''cl_command_queue'') ''clCreateCommandQueueWithPropertiesKHR'' [TypeName ''cl_context'',
     TypeName ''cl_device_id'', PtrTo (ConstOf (TypeName ''cl_queue_properties_khr'')), PtrTo (TypeName
     ''cl_int'')] ''1_2'']"

definition ext_device_fission_types :: "prototype list" where
  "ext_device_fission_types =
   [fn_type [] (TypeName ''cl_int'') ''clReleaseDeviceEXT_t'' [TypeName ''cl_device_id''] ''1_1'',
    fn_type [] (TypeName ''cl_int'') ''clRetainDeviceEXT_t'' [TypeName ''cl_device_id''] ''1_1'',
    fn_type [] (TypeName ''cl_int'') ''clCreateSubDevicesEXT_t'' [TypeName ''cl_device_id'', PtrTo (ConstOf
     (TypeName ''cl_device_partition_property_ext'')), TypeName ''cl_uint'', PtrTo (TypeName ''cl_device_id''),
     PtrTo (TypeName ''cl_uint'')] ''1_1'']"

definition ext_device_fission_apis :: "prototype list" where
  "ext_device_fission_apis =
   [icd_api [] (TypeName ''cl_int'') ''clReleaseDeviceEXT'' [TypeName ''cl_device_id''] ''1_1'',
    icd_api [] (TypeName ''cl_int'') ''clRetainDeviceEXT'' [TypeName ''cl_device_id''] ''1_1'',
    icd_api [] (TypeName ''cl_int'') ''clCreateSubDevicesEXT'' [TypeName ''cl_device_id'', PtrTo (ConstOf
     (TypeName ''cl_device_partition_property_ext'')), TypeName ''cl_uint'', PtrTo (TypeName ''cl_device_id''),
     PtrTo (TypeName ''cl_uint'')] ''1_1'']"

definition ext_migrate_memobject_types :: "prototype list" where
  "ext_migrate_memobject_types =
   [fn_type [] (TypeName ''cl_int'') ''clEnqueueMigrateMemObjectEXT_t'' [TypeName ''cl_command_queue'', TypeName
     ''cl_uint'', PtrTo (ConstOf (TypeName ''cl_mem'')), TypeName ''cl_mem_migration_flags_ext'', TypeName
     ''cl_uint'', PtrTo (ConstOf (TypeName ''cl_event'')), PtrTo (TypeName ''cl_event'')] '''']"

definition ext_migrate_memobject_apis :: "prototype list" where
  "ext_migrate_memobject_apis =
   [ext_api [] (TypeName ''cl_int'') ''clEnqueueMigrateMemObjectEXT'' [TypeName ''cl_command_queue'', TypeName
     ''cl_uint'', PtrTo (ConstOf (TypeName ''cl_mem'')), TypeName ''cl_mem_migration_flags_ext'', TypeName
     ''cl_uint'', PtrTo (ConstOf (TypeName ''cl_event'')), PtrTo (TypeName ''cl_event'')] '''']"

definition qcom_ext_host_ptr_types :: "prototype list" where
  "qcom_ext_host_ptr_types =
   [fn_type [] (TypeName ''cl_int'') ''clGetDeviceImageInfoQCOM_t'' [TypeName ''cl_device_id'', TypeName
     ''size_t'', TypeName ''size_t'', PtrTo (ConstOf (TypeName ''cl_image_format'')), TypeName
     ''cl_image_pitch_info_qcom'', TypeName ''size_t'', PtrTo (TypeName ''void''), PtrTo (TypeName ''size_t'')]
     '''']"

definition qcom_ext_host_ptr_apis :: "prototype list" where
  "qcom_ext_host_ptr_apis =
   [ext_api [] (TypeName ''cl_int'') ''clGetDeviceImageInfoQCOM'' [TypeName ''cl_device_id'', TypeName ''size_t'',
     TypeName ''size_t'', PtrTo (ConstOf (TypeName ''cl_image_format'')), TypeName ''cl_image_pitch_info_qcom'',
     TypeName ''size_t'', PtrTo (TypeName ''void''), PtrTo (TypeName ''size_t'')] '''']"

definition img_use_gralloc_ptr_types :: "prototype list" where
  "img_use_gralloc_ptr_types =
   [fn_type [] (TypeName ''cl_int'') ''clEnqueueAcquireGrallocObjectsIMG_t'' [TypeName ''cl_command_queue'',
     TypeName ''cl_uint'', PtrTo (ConstOf (TypeName ''cl_mem'')), TypeName ''cl_uint'', PtrTo (ConstOf (TypeName
     ''cl_event'')), PtrTo (TypeName ''cl_event'')] ''1_2'',
    fn_type [] (TypeName ''cl_int'') ''clEnqueueReleaseGrallocObjectsIMG_t'' [TypeName ''cl_command_queue'',
     TypeName ''cl_uint'', PtrTo (ConstOf (TypeName ''cl_mem'')), TypeName ''cl_uint'', PtrTo (ConstOf (TypeName
     ''cl_event'')), PtrTo (TypeName ''cl_event'')] ''1_2'']"

definition img_use_gralloc_ptr_apis :: "prototype list" where
  "img_use_gralloc_ptr_apis =
   [ext_api [] (TypeName ''cl_int'') ''clEnqueueAcquireGrallocObjectsIMG'' [TypeName ''cl_command_queue'',
     TypeName ''cl_uint'', PtrTo (ConstOf (TypeName ''cl_mem'')), TypeName ''cl_uint'', PtrTo (ConstOf (TypeName
     ''cl_event'')), PtrTo (TypeName ''cl_event'')] ''1_2'',
    ext_api [] (TypeName ''cl_int'') ''clEnqueueReleaseGrallocObjectsIMG'' [TypeName ''cl_command_queue'',
     TypeName ''cl_uint'', PtrTo (ConstOf (TypeName ''cl_mem'')), TypeName ''cl_uint'', PtrTo (ConstOf (TypeName
     ''cl_event'')), PtrTo (TypeName ''cl_event'')] ''1_2'']"

definition img_generate_mipmap_types :: "prototype list" where
  "img_generate_mipmap_types =
   [fn_type [] (TypeName ''cl_int'') ''clEnqueueGenerateMipmapIMG_t'' [TypeName ''cl_command_queue'', TypeName
     ''cl_mem'', TypeName ''cl_mem'', TypeName ''cl_mipmap_filter_mode_img'', PtrTo (ConstOf (TypeName
     ''size_t'')), PtrTo (ConstOf (TypeName ''size_t'')), TypeName ''cl_uint'', PtrTo (ConstOf (TypeName
     ''cl_event'')), PtrTo (TypeName ''cl_event'')] ''1_2'']"

definition img_generate_mipmap_apis :: "prototype list" where
  "img_generate_mipmap_apis =
   [ext_api [] (TypeName ''cl_int'') ''clEnqueueGenerateMipmapIMG'' [TypeName ''cl_command_queue'', TypeName
     ''cl_mem'', TypeName ''cl_mem'', TypeName ''cl_mipmap_filter_mode_img'', PtrTo (ConstOf (TypeName
     ''size_t'')), PtrTo (ConstOf (TypeName ''size_t'')), TypeName ''cl_uint'', PtrTo (ConstOf (TypeName
     ''cl_event'')), PtrTo (TypeName ''cl_event'')] ''1_2'']"

definition khr_subgroups_types :: "prototype list" where
  "khr_subgroups_types =
   [fn_type [] (TypeName ''cl_int'') ''clGetKernelSubGroupInfoKHR_t'' [TypeName ''cl_kernel'', TypeName
     ''cl_device_id'', TypeName ''cl_kernel_sub_group_info'', TypeName ''size_t'', PtrTo (ConstOf (TypeName
     ''void'')), TypeName ''size_t'', PtrTo (TypeName ''void''), PtrTo (TypeName ''size_t'')] ''2_0_DEPRECATED'']"

definition khr_subgroups_apis :: "prototype list" where
  "khr_subgroups_apis =
   [icd_api [] (TypeName ''cl_int'') ''clGetKernelSubGroupInfoKHR'' [TypeName ''cl_kernel'', TypeName
     ''cl_device_id'', TypeName ''cl_kernel_sub_group_info'', TypeName ''size_t'', PtrTo (ConstOf (TypeName
     ''void'')), TypeName ''size_t'', PtrTo (TypeName ''void''), PtrTo (TypeName ''size_t'')] ''2_0_DEPRECATED'']"

definition khr_suggested_local_work_size_types :: "prototype list" where
  "khr_suggested_local_work_size_types =
   [fn_type [] (TypeName ''cl_int'') ''clGetKernelSuggestedLocalWorkSizeKHR_t'' [TypeName ''cl_command_queue'',
     TypeName ''cl_kernel'', TypeName ''cl_uint'', PtrTo (ConstOf (TypeName ''size_t'')), PtrTo (ConstOf (TypeName
     ''size_t'')), PtrTo (TypeName ''size_t'')] ''3_0'']"

definition khr_suggested_local_work_size_apis :: "prototype list" where
  "khr_suggested_local_work_size_apis =
   [ext_api [] (TypeName ''cl_int'') ''clGetKernelSuggestedLocalWorkSizeKHR'' [TypeName ''cl_command_queue'',
     TypeName ''cl_kernel'', TypeName ''cl_uint'', PtrTo (ConstOf (TypeName ''size_t'')), PtrTo (ConstOf (TypeName
     ''size_t'')), PtrTo (TypeName ''size_t'')] ''3_0'']"

definition khr_external_memory_types :: "prototype list" where
  "khr_external_memory_types =
   [fn_type [] (TypeName ''cl_int'') ''clEnqueueAcquireExternalMemObjectsKHR_t'' [TypeName ''cl_command_queue'',
     TypeName ''cl_uint'', PtrTo (ConstOf (TypeName ''cl_mem'')), TypeName ''cl_uint'', PtrTo (ConstOf (TypeName
     ''cl_event'')), PtrTo (TypeName ''cl_event'')] ''3_0'',
    fn_type [] (TypeName ''cl_int'') ''clEnqueueReleaseExternalMemObjectsKHR_t'' [TypeName ''cl_command_queue'',
     TypeName ''cl_uint'', PtrTo (ConstOf (TypeName ''cl_mem'')), TypeName ''cl_uint'', PtrTo (ConstOf (TypeName
     ''cl_event'')), PtrTo (TypeName ''cl_event'')] ''3_0'']"

definition khr_external_memory_apis :: "prototype list" where
  "khr_external_memory_apis =
   [ext_api [] (TypeName ''cl_int'') ''clEnqueueAcquireExternalMemObjectsKHR'' [TypeName ''cl_command_queue'',
     TypeName ''cl_uint'', PtrTo (ConstOf (TypeName ''cl_mem'')), TypeName ''cl_uint'', PtrTo (ConstOf (TypeName
     ''cl_event'')), PtrTo (TypeName ''cl_event'')] ''3_0'',
    ext_api [] (TypeName ''cl_int'') ''clEnqueueReleaseExternalMemObjectsKHR'' [TypeName ''cl_command_queue'',
     TypeName ''cl_uint'', PtrTo (ConstOf (TypeName ''cl_mem'')), TypeName ''cl_uint'', PtrTo (ConstOf (TypeName
     ''cl_event'')), PtrTo (TypeName ''cl_event'')] ''3_0'']"

definition khr_external_semaphore_types :: "prototype list" where
  "khr_external_semaphore_types =
   [fn_type [] (TypeName ''cl_int'') ''clGetSemaphoreHandleForTypeKHR_t'' [TypeName ''cl_semaphore_khr'', TypeName
     ''cl_device_id'', TypeName ''cl_external_semaphore_handle_type_khr'', TypeName ''size_t'', PtrTo (TypeName
     ''void''), PtrTo (TypeName ''size_t'')] ''1_2'']"

definition khr_external_semaphore_apis :: "prototype list" where
  "khr_external_semaphore_apis =
   [ext_api [] (TypeName ''cl_int'') ''clGetSemaphoreHandleForTypeKHR'' [TypeName ''cl_semaphore_khr'', TypeName
     ''cl_device_id'', TypeName ''cl_external_semaphore_handle_type_khr'', TypeName ''size_t'', PtrTo (TypeName
     ''void''), PtrTo (TypeName ''size_t'')] ''1_2'']"

definition khr_external_semaphore_sync_fd_types :: "prototype list" where
  "khr_external_semaphore_sync_fd_types =
   [fn_type [] (TypeName ''cl_int'') ''clReImportSemaphoreSyncFdKHR_t'' [TypeName ''cl_semaphore_khr'', PtrTo
     (TypeName ''cl_semaphore_reimport_properties_khr''), TypeName ''int''] ''3_0'']"

definition khr_external_semaphore_sync_fd_apis :: "prototype list" where
  "khr_external_semaphore_sync_fd_apis =
   [ext_api [] (TypeName ''cl_int'') ''clReImportSemaphoreSyncFdKHR'' [TypeName ''cl_semaphore_khr'', PtrTo
     (TypeName ''cl_semaphore_reimport_properties_khr''), TypeName ''int''] ''3_0'']"

definition khr_semaphore_types :: "prototype list" where
  "khr_semaphore_types =
   [fn_type [] (TypeName ''cl_semaphore_khr'') ''clCreateSemaphoreWithPropertiesKHR_t'' [TypeName ''cl_context'',
     PtrTo (ConstOf (TypeName ''cl_semaphore_properties_khr'')), PtrTo (TypeName ''cl_int'')] ''1_2'',
    fn_type [] (TypeName ''cl_int'') ''clEnqueueWaitSemaphoresKHR_t'' [TypeName ''cl_command_queue'', TypeName
     ''cl_uint'', PtrTo (ConstOf (TypeName ''cl_semaphore_khr'')), PtrTo (ConstOf (TypeName
     ''cl_semaphore_payload_khr'')), TypeName ''cl_uint'', PtrTo (ConstOf (TypeName ''cl_event'')), PtrTo (TypeName
     ''cl_event'')] ''1_2'',
    fn_type [] (TypeName ''cl_int'') ''clEnqueueSignalSemaphoresKHR_t'' [TypeName ''cl_command_queue'', TypeName
     ''cl_uint'', PtrTo (ConstOf (TypeName ''cl_semaphore_khr'')), PtrTo (ConstOf (TypeName
     ''cl_semaphore_payload_khr'')), TypeName ''cl_uint'', PtrTo (ConstOf (TypeName ''cl_event'')), PtrTo (TypeName
     ''cl_event'')] ''1_2'',
    fn_type [] (TypeName ''cl_int'') ''clGetSemaphoreInfoKHR_t'' [TypeName ''cl_semaphore_khr'', TypeName
     ''cl_semaphore_info_khr'', TypeName ''size_t'', PtrTo (TypeName ''void''), PtrTo (TypeName ''size_t'')]
     ''1_2'',
    fn_type [] (TypeName ''cl_int'') ''clReleaseSemaphoreKHR_t'' [TypeName ''cl_semaphore_khr''] ''1_2'',
    fn_type [] (TypeName ''cl_int'') ''clRetainSemaphoreKHR_t'' [TypeName ''cl_semaphore_khr''] ''1_2'']"

definition khr_semaphore_apis :: "prototype list" where
  "khr_semaphore_apis =
   [ext_api [] (TypeName ''cl_semaphore_khr'') ''clCreateSemaphoreWithPropertiesKHR'' [TypeName ''cl_context'',
     PtrTo (ConstOf (TypeName ''cl_semaphore_properties_khr'')), PtrTo (TypeName ''cl_int'')] ''1_2'',
    ext_api [] (TypeName ''cl_int'') ''clEnqueueWaitSemaphoresKHR'' [TypeName ''cl_command_queue'', TypeName
     ''cl_uint'', PtrTo (ConstOf (TypeName ''cl_semaphore_khr'')), PtrTo (ConstOf (TypeName
     ''cl_semaphore_payload_khr'')), TypeName ''cl_uint'', PtrTo (ConstOf (TypeName ''cl_event'')), PtrTo (TypeName
     ''cl_event'')] ''1_2'',
    ext_api [] (TypeName ''cl_int'') ''clEnqueueSignalSemaphoresKHR'' [TypeName ''cl_command_queue'', TypeName
     ''cl_uint'', PtrTo (ConstOf (TypeName ''cl_semaphore_khr'')), PtrTo (ConstOf (TypeName
     ''cl_semaphore_payload_khr'')), TypeName ''cl_uint'', PtrTo (ConstOf (TypeName ''cl_event'')), PtrTo (TypeName
     ''cl_event'')] ''1_2'',
    ext_api [] (TypeName ''cl_int'') ''clGetSemaphoreInfoKHR'' [TypeName ''cl_semaphore_khr'', TypeName
     ''cl_semaphore_info_khr'', TypeName ''size_t'', PtrTo (TypeName ''void''), PtrTo (TypeName ''size_t'')]
     ''1_2'',
    ext_api [] (TypeName ''cl_int'') ''clReleaseSemaphoreKHR'' [TypeName ''cl_semaphore_khr''] ''1_2'',
    ext_api [] (TypeName ''cl_int'') ''clRetainSemaphoreKHR'' [TypeName ''cl_semaphore_khr''] ''1_2'']"

definition arm_import_memory_types :: "prototype list" where
  "arm_import_memory_types =
   [fn_type [] (TypeName ''cl_mem'') ''clImportMemoryARM_t'' [TypeName ''cl_context'', TypeName ''cl_mem_flags'',
     PtrTo (ConstOf (TypeName ''cl_import_properties_arm'')), PtrTo (TypeName ''void''), TypeName ''size_t'', PtrTo
     (TypeName ''cl_int'')] ''1_0'']"

definition arm_import_memory_apis :: "prototype list" where
  "arm_import_memory_apis =
   [ext_api [] (TypeName ''cl_mem'') ''clImportMemoryARM'' [TypeName ''cl_context'', TypeName ''cl_mem_flags'',
     PtrTo (ConstOf (TypeName ''cl_import_properties_arm'')), PtrTo (TypeName ''void''), TypeName ''size_t'', PtrTo
     (TypeName ''cl_int'')] ''1_0'']"

definition arm_shared_virtual_memory_types :: "prototype list" where
  "arm_shared_virtual_memory_types =
   [fn_type [] (PtrTo (TypeName ''void'')) ''clSVMAllocARM_t'' [TypeName ''cl_context'', TypeName
     ''cl_svm_mem_flags_arm'', TypeName ''size_t'', TypeName ''cl_uint''] ''1_2'',
    fn_type [] (TypeName ''void'') ''clSVMFreeARM_t'' [TypeName ''cl_context'', PtrTo (TypeName ''void'')] ''1_2'',
    fn_type [] (TypeName ''cl_int'') ''clEnqueueSVMFreeARM_t'' [TypeName ''cl_command_queue'', TypeName
     ''cl_uint'', PtrTo (PtrTo (TypeName ''void'')), PtrTo (FnType (TypeName ''void'') [TypeName
     ''cl_command_queue'', TypeName ''cl_uint'', PtrTo (PtrTo (TypeName ''void'')), PtrTo (TypeName ''void'')]),
     PtrTo (TypeName ''void''), TypeName ''cl_uint'', PtrTo (ConstOf (TypeName ''cl_event'')), PtrTo (TypeName
     ''cl_event'')] ''1_2'',
    fn_type [] (TypeName ''cl_int'') ''clEnqueueSVMMemcpyARM_t'' [TypeName ''cl_command_queue'', TypeName
     ''cl_bool'', PtrTo (TypeName ''void''), PtrTo (ConstOf (TypeName ''void'')), TypeName ''size_t'', TypeName
     ''cl_uint'', PtrTo (ConstOf (TypeName ''cl_event'')), PtrTo (TypeName ''cl_event'')] ''1_2'',
    fn_type [] (TypeName ''cl_int'') ''clEnqueueSVMMemFillARM_t'' [TypeName ''cl_command_queue'', PtrTo (TypeName
     ''void''), PtrTo (ConstOf (TypeName ''void'')), TypeName ''size_t'', TypeName ''size_t'', TypeName
     ''cl_uint'', PtrTo (ConstOf (TypeName ''cl_event'')), PtrTo (TypeName ''cl_event'')] ''1_2'',
    fn_type [] (TypeName ''cl_int'') ''clEnqueueSVMMapARM_t'' [TypeName ''cl_command_queue'', TypeName
     ''cl_bool'', TypeName ''cl_map_flags'', PtrTo (TypeName ''void''), TypeName ''size_t'', TypeName ''cl_uint'',
     PtrTo (ConstOf (TypeName ''cl_event'')), PtrTo (TypeName ''cl_event'')] ''1_2'',
    fn_type [] (TypeName ''cl_int'') ''clEnqueueSVMUnmapARM_t'' [TypeName ''cl_command_queue'', PtrTo (TypeName
     ''void''), TypeName ''cl_uint'', PtrTo (ConstOf (TypeName ''cl_event'')), PtrTo (TypeName ''cl_event'')]
     ''1_2'',
    fn_type [] (TypeName ''cl_int'') ''clSetKernelArgSVMPointerARM_t'' [TypeName ''cl_kernel'', TypeName
     ''cl_uint'', PtrTo (ConstOf (TypeName ''void''))] ''1_2'',
    fn_type [] (TypeName ''cl_int'') ''clSetKernelExecInfoARM_t'' [TypeName ''cl_kernel'', TypeName
     ''cl_kernel_exec_info_arm'', TypeName ''size_t'', PtrTo (ConstOf (TypeName ''void''))] ''1_2'']"

definition arm_shared_virtual_memory_apis :: "prototype list" where
  "arm_shared_virtual_memory_apis =
   [ext_api [] (PtrTo (TypeName ''void'')) ''clSVMAllocARM'' [TypeName ''cl_context'', TypeName
     ''cl_svm_mem_flags_arm'', TypeName ''size_t'', TypeName ''cl_uint''] ''1_2'',
    ext_api [] (TypeName ''void'') ''clSVMFreeARM'' [TypeName ''cl_context'', PtrTo (TypeName ''void'')] ''1_2'',
    ext_api [] (TypeName ''cl_int'') ''clEnqueueSVMFreeARM'' [TypeName ''cl_command_queue'', TypeName ''cl_uint'',
     PtrTo (PtrTo (TypeName ''void'')), PtrTo (FnType (TypeName ''void'') [TypeName ''cl_command_queue'', TypeName
     ''cl_uint'', PtrTo (PtrTo (TypeName ''void'')), PtrTo (TypeName ''void'')]), PtrTo (TypeName ''void''),
     TypeName ''cl_uint'', PtrTo (ConstOf (TypeName ''cl_event'')), PtrTo (TypeName ''cl_event'')] ''1_2'',
    ext_api [] (TypeName ''cl_int'') ''clEnqueueSVMMemcpyARM'' [TypeName ''cl_command_queue'', TypeName
     ''cl_bool'', PtrTo (TypeName ''void''), PtrTo (ConstOf (TypeName ''void'')), TypeName ''size_t'', TypeName
     ''cl_uint'', PtrTo (ConstOf (TypeName ''cl_event'')), PtrTo (TypeName ''cl_event'')] ''1_2'',
    ext_api [] (TypeName ''cl_int'') ''clEnqueueSVMMemFillARM'' [TypeName ''cl_command_queue'', PtrTo (TypeName
     ''void''), PtrTo (ConstOf (TypeName ''void'')), TypeName ''size_t'', TypeName ''size_t'', TypeName
     ''cl_uint'', PtrTo (ConstOf (TypeName ''cl_event'')), PtrTo (TypeName ''cl_event'')] ''1_2'',
    ext_api [] (TypeName ''cl_int'') ''clEnqueueSVMMapARM'' [TypeName ''cl_command_queue'', TypeName ''cl_bool'',
     TypeName ''cl_map_flags'', PtrTo (TypeName ''void''), TypeName ''size_t'', TypeName ''cl_uint'', PtrTo
     (ConstOf (TypeName ''cl_event'')), PtrTo (TypeName ''cl_event'')] ''1_2'',
    ext_api [] (TypeName ''cl_int'') ''clEnqueueSVMUnmapARM'' [TypeName ''cl_command_queue'', PtrTo (TypeName
     ''void''), TypeName ''cl_uint'', PtrTo (ConstOf (TypeName ''cl_event'')), PtrTo (TypeName ''cl_event'')]
     ''1_2'',
    ext_api [] (TypeName ''cl_int'') ''clSetKernelArgSVMPointerARM'' [TypeName ''cl_kernel'', TypeName
     ''cl_uint'', PtrTo (ConstOf (TypeName ''void''))] ''1_2'',
    ext_api [] (TypeName ''cl_int'') ''clSetKernelExecInfoARM'' [TypeName ''cl_kernel'', TypeName
     ''cl_kernel_exec_info_arm'', TypeName ''size_t'', PtrTo (ConstOf (TypeName ''void''))] ''1_2'']"

definition intel_accelerator_types :: "prototype list" where
  "intel_accelerator_types =
   [fn_type [] (TypeName ''cl_accelerator_intel'') ''clCreateAcceleratorINTEL_t'' [TypeName ''cl_context'',
     TypeName ''cl_accelerator_type_intel'', TypeName ''size_t'', PtrTo (ConstOf (TypeName ''void'')), PtrTo
     (TypeName ''cl_int'')] ''1_2'',
    fn_type [] (TypeName ''cl_int'') ''clGetAcceleratorInfoINTEL_t'' [TypeName ''cl_accelerator_intel'', TypeName
     ''cl_accelerator_info_intel'', TypeName ''size_t'', PtrTo (TypeName ''void''), PtrTo (TypeName ''size_t'')]
     ''1_2'',
    fn_type [] (TypeName ''cl_int'') ''clRetainAcceleratorINTEL_t'' [TypeName ''cl_accelerator_intel''] ''1_2'',
    fn_type [] (TypeName ''cl_int'') ''clReleaseAcceleratorINTEL_t'' [TypeName ''cl_accelerator_intel''] ''1_2'']"

definition intel_accelerator_apis :: "prototype list" where
  "intel_accelerator_apis =
   [ext_api [] (TypeName ''cl_accelerator_intel'') ''clCreateAcceleratorINTEL'' [TypeName ''cl_context'', TypeName
     ''cl_accelerator_type_intel'', TypeName ''size_t'', PtrTo (ConstOf (TypeName ''void'')), PtrTo (TypeName
     ''cl_int'')] ''1_2'',
    ext_api [] (TypeName ''cl_int'') ''clGetAcceleratorInfoINTEL'' [TypeName ''cl_accelerator_intel'', TypeName
     ''cl_accelerator_info_intel'', TypeName ''size_t'', PtrTo (TypeName ''void''), PtrTo (TypeName ''size_t'')]
     ''1_2'',
    ext_api [] (TypeName ''cl_int'') ''clRetainAcceleratorINTEL'' [TypeName ''cl_accelerator_intel''] ''1_2'',
    ext_api [] (TypeName ''cl_int'') ''clReleaseAcceleratorINTEL'' [TypeName ''cl_accelerator_intel''] ''1_2'']"

definition intel_unified_shared_memory_types_1 :: "prototype list" where
  "intel_unified_shared_memory_types_1 =
   [fn_type [] (PtrTo (TypeName ''void'')) ''clHostMemAllocINTEL_t'' [TypeName ''cl_context'', PtrTo (ConstOf
     (TypeName ''cl_mem_properties_intel'')), TypeName ''size_t'', TypeName ''cl_uint'', PtrTo (TypeName
     ''cl_int'')] '''',
    fn_type [] (PtrTo (TypeName ''void'')) ''clDeviceMemAllocINTEL_t'' [TypeName ''cl_context'', TypeName
     ''cl_device_id'', PtrTo (ConstOf (TypeName ''cl_mem_properties_intel'')), TypeName ''size_t'', TypeName
     ''cl_uint'', PtrTo (TypeName ''cl_int'')] '''',
    fn_type [] (PtrTo (TypeName ''void'')) ''clSharedMemAllocINTEL_t'' [TypeName ''cl_context'', TypeName
     ''cl_device_id'', PtrTo (ConstOf (TypeName ''cl_mem_properties_intel'')), TypeName ''size_t'', TypeName
     ''cl_uint'', PtrTo (TypeName ''cl_int'')] '''',
    fn_type [] (TypeName ''cl_int'') ''clMemFreeINTEL_t'' [TypeName ''cl_context'', PtrTo (TypeName ''void'')]
     '''',
    fn_type [] (TypeName ''cl_int'') ''clMemBlockingFreeINTEL_t'' [TypeName ''cl_context'', PtrTo (TypeName
     ''void'')] '''',
    fn_type [] (TypeName ''cl_int'') ''clGetMemAllocInfoINTEL_t'' [TypeName ''cl_context'', PtrTo (ConstOf
     (TypeName ''void'')), TypeName ''cl_mem_info_intel'', TypeName ''size_t'', PtrTo (TypeName ''void''), PtrTo
     (TypeName ''size_t'')] '''',
    fn_type [] (TypeName ''cl_int'') ''clSetKernelArgMemPointerINTEL_t'' [TypeName ''cl_kernel'', TypeName
     ''cl_uint'', PtrTo (ConstOf (TypeName ''void''))] '''',
    fn_type [] (TypeName ''cl_int'') ''clEnqueueMemFillINTEL_t'' [TypeName ''cl_command_queue'', PtrTo (TypeName
     ''void''), PtrTo (ConstOf (TypeName ''void'')), TypeName ''size_t'', TypeName ''size_t'', TypeName
     ''cl_uint'', PtrTo (ConstOf (TypeName ''cl_event'')), PtrTo (TypeName ''cl_event'')] '''',
    fn_type [] (TypeName ''cl_int'') ''clEnqueueMemcpyINTEL_t'' [TypeName ''cl_command_queue'', TypeName
     ''cl_bool'', PtrTo (TypeName ''void''), PtrTo (ConstOf (TypeName ''void'')), TypeName ''size_t'', TypeName
     ''cl_uint'', PtrTo (ConstOf (TypeName ''cl_event'')), PtrTo (TypeName ''cl_event'')] '''',
    fn_type [] (TypeName ''cl_int'') ''clEnqueueMemAdviseINTEL_t'' [TypeName ''cl_command_queue'', PtrTo (ConstOf
     (TypeName ''void'')), TypeName ''size_t'', TypeName ''cl_mem_advice_intel'', TypeName ''cl_uint'', PtrTo
     (ConstOf (TypeName ''cl_event'')), PtrTo (TypeName ''cl_event'')] '''']"

definition intel_unified_shared_memory_types_2 :: "prototype list" where
  "intel_unified_shared_memory_types_2 =
   [fn_type [''CL_VERSION_1_2''] (TypeName ''cl_int'') ''clEnqueueMigrateMemINTEL_t'' [TypeName
     ''cl_command_queue'', PtrTo (ConstOf (TypeName ''void'')), TypeName ''size_t'', TypeName
     ''cl_mem_migration_flags'', TypeName ''cl_uint'', PtrTo (ConstOf (TypeName ''cl_event'')), PtrTo (TypeName
     ''cl_event'')] '''']"

definition intel_unified_shared_memory_types_3 :: "prototype list" where
  "intel_unified_shared_memory_types_3 =
   [fn_type [] (TypeName ''cl_int'') ''clEnqueueMemsetINTEL_t'' [TypeName ''cl_command_queue'', PtrTo (TypeName
     ''void''), TypeName ''cl_int'', TypeName ''size_t'', TypeName ''cl_uint'', PtrTo (ConstOf (TypeName
     ''cl_event'')), PtrTo (TypeName ''cl_event'')] '''']"

definition intel_unified_shared_memory_apis_1 :: "prototype list" where
  "intel_unified_shared_memory_apis_1 =
   [ext_api [] (PtrTo (TypeName ''void'')) ''clHostMemAllocINTEL'' [TypeName ''cl_context'', PtrTo (ConstOf
     (TypeName ''cl_mem_properties_intel'')), TypeName ''size_t'', TypeName ''cl_uint'', PtrTo (TypeName
     ''cl_int'')] '''',
    ext_api [] (PtrTo (TypeName ''void'')) ''clDeviceMemAllocINTEL'' [TypeName ''cl_context'', TypeName
     ''cl_device_id'', PtrTo (ConstOf (TypeName ''cl_mem_properties_intel'')), TypeName ''size_t'', TypeName
     ''cl_uint'', PtrTo (TypeName ''cl_int'')] '''',
    ext_api [] (PtrTo (TypeName ''void'')) ''clSharedMemAllocINTEL'' [TypeName ''cl_context'', TypeName
     ''cl_device_id'', PtrTo (ConstOf (TypeName ''cl_mem_properties_intel'')), TypeName ''size_t'', TypeName
     ''cl_uint'', PtrTo (TypeName ''cl_int'')] '''',
    ext_api [] (TypeName ''cl_int'') ''clMemFreeINTEL'' [TypeName ''cl_context'', PtrTo (TypeName ''void'')] '''',
    ext_api [] (TypeName ''cl_int'') ''clMemBlockingFreeINTEL'' [TypeName ''cl_context'', PtrTo (TypeName
     ''void'')] '''',
    ext_api [] (TypeName ''cl_int'') ''clGetMemAllocInfoINTEL'' [TypeName ''cl_context'', PtrTo (ConstOf (TypeName
     ''void'')), TypeName ''cl_mem_info_intel'', TypeName ''size_t'', PtrTo (TypeName ''void''), PtrTo (TypeName
     ''size_t'')] '''',
    ext_api [] (TypeName ''cl_int'') ''clSetKernelArgMemPointerINTEL'' [TypeName ''cl_kernel'', TypeName
     ''cl_uint'', PtrTo (ConstOf (TypeName ''void''))] '''',
    ext_api [] (TypeName ''cl_int'') ''clEnqueueMemFillINTEL'' [TypeName ''cl_command_queue'', PtrTo (TypeName
     ''void''), PtrTo (ConstOf (TypeName ''void'')), TypeName ''size_t'', TypeName ''size_t'', TypeName
     ''cl_uint'', PtrTo (ConstOf (TypeName ''cl_event'')), PtrTo (TypeName ''cl_event'')] '''',
    ext_api [] (TypeName ''cl_int'') ''clEnqueueMemcpyINTEL'' [TypeName ''cl_command_queue'', TypeName
     ''cl_bool'', PtrTo (TypeName ''void''), PtrTo (ConstOf (TypeName ''void'')), TypeName ''size_t'', TypeName
     ''cl_uint'', PtrTo (ConstOf (TypeName ''cl_event'')), PtrTo (TypeName ''cl_event'')] '''',
    ext_api [] (TypeName ''cl_int'') ''clEnqueueMemAdviseINTEL'' [TypeName ''cl_command_queue'', PtrTo (ConstOf
     (TypeName ''void'')), TypeName ''size_t'', TypeName ''cl_mem_advice_intel'', TypeName ''cl_uint'', PtrTo
     (ConstOf (TypeName ''cl_event'')), PtrTo (TypeName ''cl_event'')] '''']"

definition intel_unified_shared_memory_apis_2 :: "prototype list" where
  "intel_unified_shared_memory_apis_2 =
   [ext_api [''CL_VERSION_1_2''] (TypeName ''cl_int'') ''clEnqueueMigrateMemINTEL'' [TypeName
     ''cl_command_queue'', PtrTo (ConstOf (TypeName ''void'')), TypeName ''size_t'', TypeName
     ''cl_mem_migration_flags'', TypeName ''cl_uint'', PtrTo (ConstOf (TypeName ''cl_event'')), PtrTo (TypeName
     ''cl_event'')] '''']"

definition intel_unified_shared_memory_apis_3 :: "prototype list" where
  "intel_unified_shared_memory_apis_3 =
   [ext_api [] (TypeName ''cl_int'') ''clEnqueueMemsetINTEL'' [TypeName ''cl_command_queue'', PtrTo (TypeName
     ''void''), TypeName ''cl_int'', TypeName ''size_t'', TypeName ''cl_uint'', PtrTo (ConstOf (TypeName
     ''cl_event'')), PtrTo (TypeName ''cl_event'')] '''']"

definition intel_create_buffer_with_properties_types :: "prototype list" where
  "intel_create_buffer_with_properties_types =
   [fn_type [] (TypeName ''cl_mem'') ''clCreateBufferWithPropertiesINTEL_t'' [TypeName ''cl_context'', PtrTo
     (ConstOf (TypeName ''cl_mem_properties_intel'')), TypeName ''cl_mem_flags'', TypeName ''size_t'', PtrTo
     (TypeName ''void''), PtrTo (TypeName ''cl_int'')] ''1_0'']"

definition intel_create_buffer_with_properties_apis :: "prototype list" where
  "intel_create_buffer_with_properties_apis =
   [ext_api [] (TypeName ''cl_mem'') ''clCreateBufferWithPropertiesINTEL'' [TypeName ''cl_context'', PtrTo
     (ConstOf (TypeName ''cl_mem_properties_intel'')), TypeName ''cl_mem_flags'', TypeName ''size_t'', PtrTo
     (TypeName ''void''), PtrTo (TypeName ''cl_int'')] ''1_0'']"

definition intel_program_scope_host_pipe_types :: "prototype list" where
  "intel_program_scope_host_pipe_types =
   [fn_type [] (TypeName ''cl_int'') ''clEnqueueReadHostPipeINTEL_t'' [TypeName ''cl_command_queue'', TypeName
     ''cl_program'', PtrTo (ConstOf (TypeName ''char'')), TypeName ''cl_bool'', PtrTo (TypeName ''void''), TypeName
     ''size_t'', TypeName ''cl_uint'', PtrTo (ConstOf (TypeName ''cl_event'')), PtrTo (TypeName ''cl_event'')]
     ''1_0'',
    fn_type [] (TypeName ''cl_int'') ''clEnqueueWriteHostPipeINTEL_t'' [TypeName ''cl_command_queue'', TypeName
     ''cl_program'', PtrTo (ConstOf (TypeName ''char'')), TypeName ''cl_bool'', PtrTo (ConstOf (TypeName
     ''void'')), TypeName ''size_t'', TypeName ''cl_uint'', PtrTo (ConstOf (TypeName ''cl_event'')), PtrTo
     (TypeName ''cl_event'')] ''1_0'']"

definition intel_program_scope_host_pipe_apis :: "prototype list" where
  "intel_program_scope_host_pipe_apis =
   [ext_api [] (TypeName ''cl_int'') ''clEnqueueReadHostPipeINTEL'' [TypeName ''cl_command_queue'', TypeName
     ''cl_program'', PtrTo (ConstOf (TypeName ''char'')), TypeName ''cl_bool'', PtrTo (TypeName ''void''), TypeName
     ''size_t'', TypeName ''cl_uint'', PtrTo (ConstOf (TypeName ''cl_event'')), PtrTo (TypeName ''cl_event'')]
     ''1_0'',
    ext_api [] (TypeName ''cl_int'') ''clEnqueueWriteHostPipeINTEL'' [TypeName ''cl_command_queue'', TypeName
     ''cl_program'', PtrTo (ConstOf (TypeName ''char'')), TypeName ''cl_bool'', PtrTo (ConstOf (TypeName
     ''void'')), TypeName ''size_t'', TypeName ''cl_uint'', PtrTo (ConstOf (TypeName ''cl_event'')), PtrTo
     (TypeName ''cl_event'')] ''1_0'']"

definition ext_image_requirements_info_types :: "prototype list" where
  "ext_image_requirements_info_types =
   [fn_type [''CL_VERSION_3_0''] (TypeName ''cl_int'') ''clGetImageRequirementsInfoEXT_t'' [TypeName
     ''cl_context'', PtrTo (ConstOf (TypeName ''cl_mem_properties'')), TypeName ''cl_mem_flags'', PtrTo (ConstOf
     (TypeName ''cl_image_format'')), PtrTo (ConstOf (TypeName ''cl_image_desc'')), TypeName
     ''cl_image_requirements_info_ext'', TypeName ''size_t'', PtrTo (TypeName ''void''), PtrTo (TypeName
     ''size_t'')] ''3_0'']"

definition ext_image_requirements_info_apis :: "prototype list" where
  "ext_image_requirements_info_apis =
   [ext_api [''CL_VERSION_3_0''] (TypeName ''cl_int'') ''clGetImageRequirementsInfoEXT'' [TypeName ''cl_context'',
     PtrTo (ConstOf (TypeName ''cl_mem_properties'')), TypeName ''cl_mem_flags'', PtrTo (ConstOf (TypeName
     ''cl_image_format'')), PtrTo (ConstOf (TypeName ''cl_image_desc'')), TypeName
     ''cl_image_requirements_info_ext'', TypeName ''size_t'', PtrTo (TypeName ''void''), PtrTo (TypeName
     ''size_t'')] ''3_0'']"

definition loader_info_types :: "prototype list" where
  "loader_info_types =
   [fn_type [] (TypeName ''cl_int'') ''clGetICDLoaderInfoOCLICD_t'' [TypeName ''cl_icdl_info'', TypeName
     ''size_t'', PtrTo (TypeName ''void''), PtrTo (TypeName ''size_t'')] '''']"

definition loader_info_apis :: "prototype list" where
  "loader_info_apis =
   [ext_api [] (TypeName ''cl_int'') ''clGetICDLoaderInfoOCLICD'' [TypeName ''cl_icdl_info'', TypeName ''size_t'',
     PtrTo (TypeName ''void''), PtrTo (TypeName ''size_t'')] '''']"

definition pocl_content_size_types :: "prototype list" where
  "pocl_content_size_types =
   [fn_type [] (TypeName ''cl_int'') ''clSetContentSizeBufferPoCL_t'' [TypeName ''cl_mem'', TypeName ''cl_mem'']
     ''1_0'']"

definition pocl_content_size_apis :: "prototype list" where
  "pocl_content_size_apis =
   [ext_api [] (TypeName ''cl_int'') ''clSetContentSizeBufferPoCL'' [TypeName ''cl_mem'', TypeName ''cl_mem'']
     ''1_0'']"

definition ext_types :: "prototype list" where
  "ext_types =
     khr_command_buffer_types_1 @ khr_command_buffer_types_2 @ khr_command_buffer_multi_device_types @
     khr_command_buffer_mutable_dispatch_types @ apple_setmemobjectdestructor_types @
     apple_contextloggingfunctions_types @ khr_icd_types @ khr_il_program_types @
     khr_terminate_context_types @ khr_create_command_queue_types @ ext_device_fission_types @
     ext_migrate_memobject_types @ qcom_ext_host_ptr_types @ img_use_gralloc_ptr_types @
     img_generate_mipmap_types @ khr_subgroups_types @ khr_suggested_local_work_size_types @
     khr_external_memory_types @ khr_external_semaphore_types @ khr_external_semaphore_sync_fd_types @
     khr_semaphore_types @ arm_import_memory_types @ arm_shared_virtual_memory_types @
     intel_accelerator_types @ intel_unified_shared_memory_types_1 @ intel_unified_shared_memory_types_2
     @ intel_unified_shared_memory_types_3 @ intel_create_buffer_with_properties_types @
     intel_program_scope_host_pipe_types @ ext_image_requirements_info_types @ loader_info_types @
     pocl_content_size_types"

definition ext_apis :: "prototype list" where
  "ext_apis =
     khr_command_buffer_apis_1 @ khr_command_buffer_apis_2 @ khr_command_buffer_multi_device_apis @
     khr_command_buffer_mutable_dispatch_apis @ apple_setmemobjectdestructor_apis @
     apple_contextloggingfunctions_apis @ khr_icd_apis @ khr_il_program_apis @ khr_terminate_context_apis
     @ khr_create_command_queue_apis @ ext_device_fission_apis @ ext_migrate_memobject_apis @
     qcom_ext_host_ptr_apis @ img_use_gralloc_ptr_apis @ img_generate_mipmap_apis @ khr_subgroups_apis @
     khr_suggested_local_work_size_apis @ khr_external_memory_apis @ khr_external_semaphore_apis @
     khr_external_semaphore_sync_fd_apis @ khr_semaphore_apis @ arm_import_memory_apis @
     arm_shared_virtual_memory_apis @ intel_accelerator_apis @ intel_unified_shared_memory_apis_1 @
     intel_unified_shared_memory_apis_2 @ intel_unified_shared_memory_apis_3 @
     intel_create_buffer_with_properties_apis @ intel_program_scope_host_pipe_apis @
     ext_image_requirements_info_apis @ loader_info_apis @ pocl_content_size_apis"

section \<open>\<open>cl_gl.h\<close>\<close>

definition khr_gl_sharing_types_1 :: "prototype list" where
  "khr_gl_sharing_types_1 =
   [fn_type [] (TypeName ''cl_int'') ''clGetGLContextInfoKHR_t'' [PtrTo (ConstOf (TypeName
     ''cl_context_properties'')), TypeName ''cl_gl_context_info'', TypeName ''size_t'', PtrTo (TypeName ''void''),
     PtrTo (TypeName ''size_t'')] ''1_0'',
    fn_type [] (TypeName ''cl_mem'') ''clCreateFromGLBuffer_t'' [TypeName ''cl_context'', TypeName
     ''cl_mem_flags'', TypeName ''cl_GLuint'', PtrTo (TypeName ''cl_int'')] ''1_0'']"

definition khr_gl_sharing_types_2 :: "prototype list" where
  "khr_gl_sharing_types_2 =
   [fn_type [''CL_VERSION_1_2''] (TypeName ''cl_mem'') ''clCreateFromGLTexture_t'' [TypeName ''cl_context'',
     TypeName ''cl_mem_flags'', TypeName ''cl_GLenum'', TypeName ''cl_GLint'', TypeName ''cl_GLuint'', PtrTo
     (TypeName ''cl_int'')] ''1_2'']"

definition khr_gl_sharing_types_3 :: "prototype list" where
  "khr_gl_sharing_types_3 =
   [fn_type [] (TypeName ''cl_mem'') ''clCreateFromGLRenderbuffer_t'' [TypeName ''cl_context'', TypeName
     ''cl_mem_flags'', TypeName ''cl_GLuint'', PtrTo (TypeName ''cl_int'')] ''1_0'',
    fn_type [] (TypeName ''cl_int'') ''clGetGLObjectInfo_t'' [TypeName ''cl_mem'', PtrTo (TypeName
     ''cl_gl_object_type''), PtrTo (TypeName ''cl_GLuint'')] ''1_0'',
    fn_type [] (TypeName ''cl_int'') ''clGetGLTextureInfo_t'' [TypeName ''cl_mem'', TypeName
     ''cl_gl_texture_info'', TypeName ''size_t'', PtrTo (TypeName ''void''), PtrTo (TypeName ''size_t'')] ''1_0'',
    fn_type [] (TypeName ''cl_int'') ''clEnqueueAcquireGLObjects_t'' [TypeName ''cl_command_queue'', TypeName
     ''cl_uint'', PtrTo (ConstOf (TypeName ''cl_mem'')), TypeName ''cl_uint'', PtrTo (ConstOf (TypeName
     ''cl_event'')), PtrTo (TypeName ''cl_event'')] ''1_0'',
    fn_type [] (TypeName ''cl_int'') ''clEnqueueReleaseGLObjects_t'' [TypeName ''cl_command_queue'', TypeName
     ''cl_uint'', PtrTo (ConstOf (TypeName ''cl_mem'')), TypeName ''cl_uint'', PtrTo (ConstOf (TypeName
     ''cl_event'')), PtrTo (TypeName ''cl_event'')] ''1_0'']"

definition khr_gl_sharing_types_4 :: "prototype list" where
  "khr_gl_sharing_types_4 =
   [fn_type [] (TypeName ''cl_mem'') ''clCreateFromGLTexture2D_t'' [TypeName ''cl_context'', TypeName
     ''cl_mem_flags'', TypeName ''cl_GLenum'', TypeName ''cl_GLint'', TypeName ''cl_GLuint'', PtrTo (TypeName
     ''cl_int'')] ''1_1_DEPRECATED'',
    fn_type [] (TypeName ''cl_mem'') ''clCreateFromGLTexture3D_t'' [TypeName ''cl_context'', TypeName
     ''cl_mem_flags'', TypeName ''cl_GLenum'', TypeName ''cl_GLint'', TypeName ''cl_GLuint'', PtrTo (TypeName
     ''cl_int'')] ''1_1_DEPRECATED'']"

definition khr_gl_sharing_apis_1 :: "prototype list" where
  "khr_gl_sharing_apis_1 =
   [icd_api [] (TypeName ''cl_int'') ''clGetGLContextInfoKHR'' [PtrTo (ConstOf (TypeName
     ''cl_context_properties'')), TypeName ''cl_gl_context_info'', TypeName ''size_t'', PtrTo (TypeName ''void''),
     PtrTo (TypeName ''size_t'')] ''1_0'',
    icd_api [] (TypeName ''cl_mem'') ''clCreateFromGLBuffer'' [TypeName ''cl_context'', TypeName ''cl_mem_flags'',
     TypeName ''cl_GLuint'', PtrTo (TypeName ''cl_int'')] ''1_0'']"

definition khr_gl_sharing_apis_2 :: "prototype list" where
  "khr_gl_sharing_apis_2 =
   [icd_api [''CL_VERSION_1_2''] (TypeName ''cl_mem'') ''clCreateFromGLTexture'' [TypeName ''cl_context'',
     TypeName ''cl_mem_flags'', TypeName ''cl_GLenum'', TypeName ''cl_GLint'', TypeName ''cl_GLuint'', PtrTo
     (TypeName ''cl_int'')] ''1_2'']"

definition khr_gl_sharing_apis_3 :: "prototype list" where
  "khr_gl_sharing_apis_3 =
   [icd_api [] (TypeName ''cl_mem'') ''clCreateFromGLRenderbuffer'' [TypeName ''cl_context'', TypeName
     ''cl_mem_flags'', TypeName ''cl_GLuint'', PtrTo (TypeName ''cl_int'')] ''1_0'',
    icd_api [] (TypeName ''cl_int'') ''clGetGLObjectInfo'' [TypeName ''cl_mem'', PtrTo (TypeName
     ''cl_gl_object_type''), PtrTo (TypeName ''cl_GLuint'')] ''1_0'',
    icd_api [] (TypeName ''cl_int'') ''clGetGLTextureInfo'' [TypeName ''cl_mem'', TypeName ''cl_gl_texture_info'',
     TypeName ''size_t'', PtrTo (TypeName ''void''), PtrTo (TypeName ''size_t'')] ''1_0'',
    icd_api [] (TypeName ''cl_int'') ''clEnqueueAcquireGLObjects'' [TypeName ''cl_command_queue'', TypeName
     ''cl_uint'', PtrTo (ConstOf (TypeName ''cl_mem'')), TypeName ''cl_uint'', PtrTo (ConstOf (TypeName
     ''cl_event'')), PtrTo (TypeName ''cl_event'')] ''1_0'',
    icd_api [] (TypeName ''cl_int'') ''clEnqueueReleaseGLObjects'' [TypeName ''cl_command_queue'', TypeName
     ''cl_uint'', PtrTo (ConstOf (TypeName ''cl_mem'')), TypeName ''cl_uint'', PtrTo (ConstOf (TypeName
     ''cl_event'')), PtrTo (TypeName ''cl_event'')] ''1_0'']"

definition khr_gl_sharing_apis_4 :: "prototype list" where
  "khr_gl_sharing_apis_4 =
   [icd_api [] (TypeName ''cl_mem'') ''clCreateFromGLTexture2D'' [TypeName ''cl_context'', TypeName
     ''cl_mem_flags'', TypeName ''cl_GLenum'', TypeName ''cl_GLint'', TypeName ''cl_GLuint'', PtrTo (TypeName
     ''cl_int'')] ''1_1_DEPRECATED'',
    icd_api [] (TypeName ''cl_mem'') ''clCreateFromGLTexture3D'' [TypeName ''cl_context'', TypeName
     ''cl_mem_flags'', TypeName ''cl_GLenum'', TypeName ''cl_GLint'', TypeName ''cl_GLuint'', PtrTo (TypeName
     ''cl_int'')] ''1_1_DEPRECATED'']"

definition khr_gl_event_types :: "prototype list" where
  "khr_gl_event_types =
   [fn_type [] (TypeName ''cl_event'') ''clCreateEventFromGLsyncKHR_t'' [TypeName ''cl_context'', TypeName
     ''cl_GLsync'', PtrTo (TypeName ''cl_int'')] ''1_1'']"

definition khr_gl_event_apis :: "prototype list" where
  "khr_gl_event_apis =
   [icd_api [] (TypeName ''cl_event'') ''clCreateEventFromGLsyncKHR'' [TypeName ''cl_context'', TypeName
     ''cl_GLsync'', PtrTo (TypeName ''cl_int'')] ''1_1'']"

definition intel_sharing_format_query_gl_types :: "prototype list" where
  "intel_sharing_format_query_gl_types =
   [fn_type [] (TypeName ''cl_int'') ''clGetSupportedGLTextureFormatsINTEL_t'' [TypeName ''cl_context'', TypeName
     ''cl_mem_flags'', TypeName ''cl_mem_object_type'', TypeName ''cl_uint'', PtrTo (TypeName ''cl_GLenum''), PtrTo
     (TypeName ''cl_uint'')] '''']"

definition intel_sharing_format_query_gl_apis :: "prototype list" where
  "intel_sharing_format_query_gl_apis =
   [ext_api [] (TypeName ''cl_int'') ''clGetSupportedGLTextureFormatsINTEL'' [TypeName ''cl_context'', TypeName
     ''cl_mem_flags'', TypeName ''cl_mem_object_type'', TypeName ''cl_uint'', PtrTo (TypeName ''cl_GLenum''), PtrTo
     (TypeName ''cl_uint'')] '''']"

definition gl_types :: "prototype list" where
  "gl_types =
     khr_gl_sharing_types_1 @ khr_gl_sharing_types_2 @ khr_gl_sharing_types_3 @ khr_gl_sharing_types_4 @
     khr_gl_event_types @ intel_sharing_format_query_gl_types"

definition gl_apis :: "prototype list" where
  "gl_apis =
     khr_gl_sharing_apis_1 @ khr_gl_sharing_apis_2 @ khr_gl_sharing_apis_3 @ khr_gl_sharing_apis_4 @
     khr_gl_event_apis @ intel_sharing_format_query_gl_apis"

section \<open>\<open>cl_egl.h\<close>\<close>

definition khr_egl_image_types :: "prototype list" where
  "khr_egl_image_types =
   [fn_type [] (TypeName ''cl_mem'') ''clCreateFromEGLImageKHR_t'' [TypeName ''cl_context'', TypeName
     ''CLeglDisplayKHR'', TypeName ''CLeglImageKHR'', TypeName ''cl_mem_flags'', PtrTo (ConstOf (TypeName
     ''cl_egl_image_properties_khr'')), PtrTo (TypeName ''cl_int'')] ''1_0'',
    fn_type [] (TypeName ''cl_int'') ''clEnqueueAcquireEGLObjectsKHR_t'' [TypeName ''cl_command_queue'', TypeName
     ''cl_uint'', PtrTo (ConstOf (TypeName ''cl_mem'')), TypeName ''cl_uint'', PtrTo (ConstOf (TypeName
     ''cl_event'')), PtrTo (TypeName ''cl_event'')] ''1_0'',
    fn_type [] (TypeName ''cl_int'') ''clEnqueueReleaseEGLObjectsKHR_t'' [TypeName ''cl_command_queue'', TypeName
     ''cl_uint'', PtrTo (ConstOf (TypeName ''cl_mem'')), TypeName ''cl_uint'', PtrTo (ConstOf (TypeName
     ''cl_event'')), PtrTo (TypeName ''cl_event'')] ''1_0'']"

definition khr_egl_image_apis :: "prototype list" where
  "khr_egl_image_apis =
   [icd_api [] (TypeName ''cl_mem'') ''clCreateFromEGLImageKHR'' [TypeName ''cl_context'', TypeName
     ''CLeglDisplayKHR'', TypeName ''CLeglImageKHR'', TypeName ''cl_mem_flags'', PtrTo (ConstOf (TypeName
     ''cl_egl_image_properties_khr'')), PtrTo (TypeName ''cl_int'')] ''1_0'',
    icd_api [] (TypeName ''cl_int'') ''clEnqueueAcquireEGLObjectsKHR'' [TypeName ''cl_command_queue'', TypeName
     ''cl_uint'', PtrTo (ConstOf (TypeName ''cl_mem'')), TypeName ''cl_uint'', PtrTo (ConstOf (TypeName
     ''cl_event'')), PtrTo (TypeName ''cl_event'')] ''1_0'',
    icd_api [] (TypeName ''cl_int'') ''clEnqueueReleaseEGLObjectsKHR'' [TypeName ''cl_command_queue'', TypeName
     ''cl_uint'', PtrTo (ConstOf (TypeName ''cl_mem'')), TypeName ''cl_uint'', PtrTo (ConstOf (TypeName
     ''cl_event'')), PtrTo (TypeName ''cl_event'')] ''1_0'']"

definition khr_egl_event_types :: "prototype list" where
  "khr_egl_event_types =
   [fn_type [] (TypeName ''cl_event'') ''clCreateEventFromEGLSyncKHR_t'' [TypeName ''cl_context'', TypeName
     ''CLeglSyncKHR'', TypeName ''CLeglDisplayKHR'', PtrTo (TypeName ''cl_int'')] ''1_0'']"

definition khr_egl_event_apis :: "prototype list" where
  "khr_egl_event_apis =
   [icd_api [] (TypeName ''cl_event'') ''clCreateEventFromEGLSyncKHR'' [TypeName ''cl_context'', TypeName
     ''CLeglSyncKHR'', TypeName ''CLeglDisplayKHR'', PtrTo (TypeName ''cl_int'')] ''1_0'']"

definition egl_types :: "prototype list" where
  "egl_types =
     khr_egl_image_types @ khr_egl_event_types"

definition egl_apis :: "prototype list" where
  "egl_apis =
     khr_egl_image_apis @ khr_egl_event_apis"

section \<open>\<open>cl_d3d10.h\<close>\<close>

definition khr_d3d10_sharing_types :: "prototype list" where
  "khr_d3d10_sharing_types =
   [fn_type [] (TypeName ''cl_int'') ''clGetDeviceIDsFromD3D10KHR_t'' [TypeName ''cl_platform_id'', TypeName
     ''cl_d3d10_device_source_khr'', PtrTo (TypeName ''void''), TypeName ''cl_d3d10_device_set_khr'', TypeName
     ''cl_uint'', PtrTo (TypeName ''cl_device_id''), PtrTo (TypeName ''cl_uint'')] ''1_0'',
    fn_type [] (TypeName ''cl_mem'') ''clCreateFromD3D10BufferKHR_t'' [TypeName ''cl_context'', TypeName
     ''cl_mem_flags'', PtrTo (TypeName ''ID3D10Buffer''), PtrTo (TypeName ''cl_int'')] ''1_0'',
    fn_type [] (TypeName ''cl_mem'') ''clCreateFromD3D10Texture2DKHR_t'' [TypeName ''cl_context'', TypeName
     ''cl_mem_flags'', PtrTo (TypeName ''ID3D10Texture2D''), TypeName ''UINT'', PtrTo (TypeName ''cl_int'')]
     ''1_0'',
    fn_type [] (TypeName ''cl_mem'') ''clCreateFromD3D10Texture3DKHR_t'' [TypeName ''cl_context'', TypeName
     ''cl_mem_flags'', PtrTo (TypeName ''ID3D10Texture3D''), TypeName ''UINT'', PtrTo (TypeName ''cl_int'')]
     ''1_0'',
    fn_type [] (TypeName ''cl_int'') ''clEnqueueAcquireD3D10ObjectsKHR_t'' [TypeName ''cl_command_queue'',
     TypeName ''cl_uint'', PtrTo (ConstOf (TypeName ''cl_mem'')), TypeName ''cl_uint'', PtrTo (ConstOf (TypeName
     ''cl_event'')), PtrTo (TypeName ''cl_event'')] ''1_0'',
    fn_type [] (TypeName ''cl_int'') ''clEnqueueReleaseD3D10ObjectsKHR_t'' [TypeName ''cl_command_queue'',
     TypeName ''cl_uint'', PtrTo (ConstOf (TypeName ''cl_mem'')), TypeName ''cl_uint'', PtrTo (ConstOf (TypeName
     ''cl_event'')), PtrTo (TypeName ''cl_event'')] ''1_0'']"

definition khr_d3d10_sharing_apis :: "prototype list" where
  "khr_d3d10_sharing_apis =
   [icd_api [] (TypeName ''cl_int'') ''clGetDeviceIDsFromD3D10KHR'' [TypeName ''cl_platform_id'', TypeName
     ''cl_d3d10_device_source_khr'', PtrTo (TypeName ''void''), TypeName ''cl_d3d10_device_set_khr'', TypeName
     ''cl_uint'', PtrTo (TypeName ''cl_device_id''), PtrTo (TypeName ''cl_uint'')] ''1_0'',
    icd_api [] (TypeName ''cl_mem'') ''clCreateFromD3D10BufferKHR'' [TypeName ''cl_context'', TypeName
     ''cl_mem_flags'', PtrTo (TypeName ''ID3D10Buffer''), PtrTo (TypeName ''cl_int'')] ''1_0'',
    icd_api [] (TypeName ''cl_mem'') ''clCreateFromD3D10Texture2DKHR'' [TypeName ''cl_context'', TypeName
     ''cl_mem_flags'', PtrTo (TypeName ''ID3D10Texture2D''), TypeName ''UINT'', PtrTo (TypeName ''cl_int'')]
     ''1_0'',
    icd_api [] (TypeName ''cl_mem'') ''clCreateFromD3D10Texture3DKHR'' [TypeName ''cl_context'', TypeName
     ''cl_mem_flags'', PtrTo (TypeName ''ID3D10Texture3D''), TypeName ''UINT'', PtrTo (TypeName ''cl_int'')]
     ''1_0'',
    icd_api [] (TypeName ''cl_int'') ''clEnqueueAcquireD3D10ObjectsKHR'' [TypeName ''cl_command_queue'', TypeName
     ''cl_uint'', PtrTo (ConstOf (TypeName ''cl_mem'')), TypeName ''cl_uint'', PtrTo (ConstOf (TypeName
     ''cl_event'')), PtrTo (TypeName ''cl_event'')] ''1_0'',
    icd_api [] (TypeName ''cl_int'') ''clEnqueueReleaseD3D10ObjectsKHR'' [TypeName ''cl_command_queue'', TypeName
     ''cl_uint'', PtrTo (ConstOf (TypeName ''cl_mem'')), TypeName ''cl_uint'', PtrTo (ConstOf (TypeName
     ''cl_event'')), PtrTo (TypeName ''cl_event'')] ''1_0'']"

definition intel_sharing_format_query_d3d10_types :: "prototype list" where
  "intel_sharing_format_query_d3d10_types =
   [fn_type [] (TypeName ''cl_int'') ''clGetSupportedD3D10TextureFormatsINTEL_t'' [TypeName ''cl_context'',
     TypeName ''cl_mem_flags'', TypeName ''cl_mem_object_type'', TypeName ''cl_uint'', PtrTo (TypeName
     ''DXGI_FORMAT''), PtrTo (TypeName ''cl_uint'')] '''']"

definition intel_sharing_format_query_d3d10_apis :: "prototype list" where
  "intel_sharing_format_query_d3d10_apis =
   [ext_api [] (TypeName ''cl_int'') ''clGetSupportedD3D10TextureFormatsINTEL'' [TypeName ''cl_context'', TypeName
     ''cl_mem_flags'', TypeName ''cl_mem_object_type'', TypeName ''cl_uint'', PtrTo (TypeName ''DXGI_FORMAT''),
     PtrTo (TypeName ''cl_uint'')] '''']"

definition d3d10_types :: "prototype list" where
  "d3d10_types =
     khr_d3d10_sharing_types @ intel_sharing_format_query_d3d10_types"

definition d3d10_apis :: "prototype list" where
  "d3d10_apis =
     khr_d3d10_sharing_apis @ intel_sharing_format_query_d3d10_apis"

section \<open>\<open>cl_d3d11.h\<close>\<close>

definition khr_d3d11_sharing_types :: "prototype list" where
  "khr_d3d11_sharing_types =
   [fn_type [] (TypeName ''cl_int'') ''clGetDeviceIDsFromD3D11KHR_t'' [TypeName ''cl_platform_id'', TypeName
     ''cl_d3d11_device_source_khr'', PtrTo (TypeName ''void''), TypeName ''cl_d3d11_device_set_khr'', TypeName
     ''cl_uint'', PtrTo (TypeName ''cl_device_id''), PtrTo (TypeName ''cl_uint'')] ''1_2'',
    fn_type [] (TypeName ''cl_mem'') ''clCreateFromD3D11BufferKHR_t'' [TypeName ''cl_context'', TypeName
     ''cl_mem_flags'', PtrTo (TypeName ''ID3D11Buffer''), PtrTo (TypeName ''cl_int'')] ''1_2'',
    fn_type [] (TypeName ''cl_mem'') ''clCreateFromD3D11Texture2DKHR_t'' [TypeName ''cl_context'', TypeName
     ''cl_mem_flags'', PtrTo (TypeName ''ID3D11Texture2D''), TypeName ''UINT'', PtrTo (TypeName ''cl_int'')]
     ''1_2'',
    fn_type [] (TypeName ''cl_mem'') ''clCreateFromD3D11Texture3DKHR_t'' [TypeName ''cl_context'', TypeName
     ''cl_mem_flags'', PtrTo (TypeName ''ID3D11Texture3D''), TypeName ''UINT'', PtrTo (TypeName ''cl_int'')]
     ''1_2'',
    fn_type [] (TypeName ''cl_int'') ''clEnqueueAcquireD3D11ObjectsKHR_t'' [TypeName ''cl_command_queue'',
     TypeName ''cl_uint'', PtrTo (ConstOf (TypeName ''cl_mem'')), TypeName ''cl_uint'', PtrTo (ConstOf (TypeName
     ''cl_event'')), PtrTo (TypeName ''cl_event'')] ''1_2'',
    fn_type [] (TypeName ''cl_int'') ''clEnqueueReleaseD3D11ObjectsKHR_t'' [TypeName ''cl_command_queue'',
     TypeName ''cl_uint'', PtrTo (ConstOf (TypeName ''cl_mem'')), TypeName ''cl_uint'', PtrTo (ConstOf (TypeName
     ''cl_event'')), PtrTo (TypeName ''cl_event'')] ''1_2'']"

definition khr_d3d11_sharing_apis :: "prototype list" where
  "khr_d3d11_sharing_apis =
   [icd_api [] (TypeName ''cl_int'') ''clGetDeviceIDsFromD3D11KHR'' [TypeName ''cl_platform_id'', TypeName
     ''cl_d3d11_device_source_khr'', PtrTo (TypeName ''void''), TypeName ''cl_d3d11_device_set_khr'', TypeName
     ''cl_uint'', PtrTo (TypeName ''cl_device_id''), PtrTo (TypeName ''cl_uint'')] ''1_2'',
    icd_api [] (TypeName ''cl_mem'') ''clCreateFromD3D11BufferKHR'' [TypeName ''cl_context'', TypeName
     ''cl_mem_flags'', PtrTo (TypeName ''ID3D11Buffer''), PtrTo (TypeName ''cl_int'')] ''1_2'',
    icd_api [] (TypeName ''cl_mem'') ''clCreateFromD3D11Texture2DKHR'' [TypeName ''cl_context'', TypeName
     ''cl_mem_flags'', PtrTo (TypeName ''ID3D11Texture2D''), TypeName ''UINT'', PtrTo (TypeName ''cl_int'')]
     ''1_2'',
    icd_api [] (TypeName ''cl_mem'') ''clCreateFromD3D11Texture3DKHR'' [TypeName ''cl_context'', TypeName
     ''cl_mem_flags'', PtrTo (TypeName ''ID3D11Texture3D''), TypeName ''UINT'', PtrTo (TypeName ''cl_int'')]
     ''1_2'',
    icd_api [] (TypeName ''cl_int'') ''clEnqueueAcquireD3D11ObjectsKHR'' [TypeName ''cl_command_queue'', TypeName
     ''cl_uint'', PtrTo (ConstOf (TypeName ''cl_mem'')), TypeName ''cl_uint'', PtrTo (ConstOf (TypeName
     ''cl_event'')), PtrTo (TypeName ''cl_event'')] ''1_2'',
    icd_api [] (TypeName ''cl_int'') ''clEnqueueReleaseD3D11ObjectsKHR'' [TypeName ''cl_command_queue'', TypeName
     ''cl_uint'', PtrTo (ConstOf (TypeName ''cl_mem'')), TypeName ''cl_uint'', PtrTo (ConstOf (TypeName
     ''cl_event'')), PtrTo (TypeName ''cl_event'')] ''1_2'']"

definition intel_sharing_format_query_d3d11_types :: "prototype list" where
  "intel_sharing_format_query_d3d11_types =
   [fn_type [] (TypeName ''cl_int'') ''clGetSupportedD3D11TextureFormatsINTEL_t'' [TypeName ''cl_context'',
     TypeName ''cl_mem_flags'', TypeName ''cl_mem_object_type'', TypeName ''cl_uint'', TypeName ''cl_uint'', PtrTo
     (TypeName ''DXGI_FORMAT''), PtrTo (TypeName ''cl_uint'')] '''']"

definition intel_sharing_format_query_d3d11_apis :: "prototype list" where
  "intel_sharing_format_query_d3d11_apis =
   [ext_api [] (TypeName ''cl_int'') ''clGetSupportedD3D11TextureFormatsINTEL'' [TypeName ''cl_context'', TypeName
     ''cl_mem_flags'', TypeName ''cl_mem_object_type'', TypeName ''cl_uint'', TypeName ''cl_uint'', PtrTo (TypeName
     ''DXGI_FORMAT''), PtrTo (TypeName ''cl_uint'')] '''']"

definition d3d11_types :: "prototype list" where
  "d3d11_types =
     khr_d3d11_sharing_types @ intel_sharing_format_query_d3d11_types"

definition d3d11_apis :: "prototype list" where
  "d3d11_apis =
     khr_d3d11_sharing_apis @ intel_sharing_format_query_d3d11_apis"

section \<open>\<open>cl_dx9_media_sharing.h\<close>\<close>

definition khr_dx9_media_sharing_types :: "prototype list" where
  "khr_dx9_media_sharing_types =
   [fn_type [] (TypeName ''cl_int'') ''clGetDeviceIDsFromDX9MediaAdapterKHR_t'' [TypeName ''cl_platform_id'',
     TypeName ''cl_uint'', PtrTo (TypeName ''cl_dx9_media_adapter_type_khr''), PtrTo (TypeName ''void''), TypeName
     ''cl_dx9_media_adapter_set_khr'', TypeName ''cl_uint'', PtrTo (TypeName ''cl_device_id''), PtrTo (TypeName
     ''cl_uint'')] ''1_2'',
    fn_type [] (TypeName ''cl_mem'') ''clCreateFromDX9MediaSurfaceKHR_t'' [TypeName ''cl_context'', TypeName
     ''cl_mem_flags'', TypeName ''cl_dx9_media_adapter_type_khr'', PtrTo (TypeName ''void''), TypeName ''cl_uint'',
     PtrTo (TypeName ''cl_int'')] ''1_2'',
    fn_type [] (TypeName ''cl_int'') ''clEnqueueAcquireDX9MediaSurfacesKHR_t'' [TypeName ''cl_command_queue'',
     TypeName ''cl_uint'', PtrTo (ConstOf (TypeName ''cl_mem'')), TypeName ''cl_uint'', PtrTo (ConstOf (TypeName
     ''cl_event'')), PtrTo (TypeName ''cl_event'')] ''1_2'',
    fn_type [] (TypeName ''cl_int'') ''clEnqueueReleaseDX9MediaSurfacesKHR_t'' [TypeName ''cl_command_queue'',
     TypeName ''cl_uint'', PtrTo (ConstOf (TypeName ''cl_mem'')), TypeName ''cl_uint'', PtrTo (ConstOf (TypeName
     ''cl_event'')), PtrTo (TypeName ''cl_event'')] ''1_2'']"

definition khr_dx9_media_sharing_apis :: "prototype list" where
  "khr_dx9_media_sharing_apis =
   [icd_api [] (TypeName ''cl_int'') ''clGetDeviceIDsFromDX9MediaAdapterKHR'' [TypeName ''cl_platform_id'',
     TypeName ''cl_uint'', PtrTo (TypeName ''cl_dx9_media_adapter_type_khr''), PtrTo (TypeName ''void''), TypeName
     ''cl_dx9_media_adapter_set_khr'', TypeName ''cl_uint'', PtrTo (TypeName ''cl_device_id''), PtrTo (TypeName
     ''cl_uint'')] ''1_2'',
    icd_api [] (TypeName ''cl_mem'') ''clCreateFromDX9MediaSurfaceKHR'' [TypeName ''cl_context'', TypeName
     ''cl_mem_flags'', TypeName ''cl_dx9_media_adapter_type_khr'', PtrTo (TypeName ''void''), TypeName ''cl_uint'',
     PtrTo (TypeName ''cl_int'')] ''1_2'',
    icd_api [] (TypeName ''cl_int'') ''clEnqueueAcquireDX9MediaSurfacesKHR'' [TypeName ''cl_command_queue'',
     TypeName ''cl_uint'', PtrTo (ConstOf (TypeName ''cl_mem'')), TypeName ''cl_uint'', PtrTo (ConstOf (TypeName
     ''cl_event'')), PtrTo (TypeName ''cl_event'')] ''1_2'',
    icd_api [] (TypeName ''cl_int'') ''clEnqueueReleaseDX9MediaSurfacesKHR'' [TypeName ''cl_command_queue'',
     TypeName ''cl_uint'', PtrTo (ConstOf (TypeName ''cl_mem'')), TypeName ''cl_uint'', PtrTo (ConstOf (TypeName
     ''cl_event'')), PtrTo (TypeName ''cl_event'')] ''1_2'']"

definition intel_dx9_media_sharing_types :: "prototype list" where
  "intel_dx9_media_sharing_types =
   [fn_type [] (TypeName ''cl_int'') ''clGetDeviceIDsFromDX9INTEL_t'' [TypeName ''cl_platform_id'', TypeName
     ''cl_dx9_device_source_intel'', PtrTo (TypeName ''void''), TypeName ''cl_dx9_device_set_intel'', TypeName
     ''cl_uint'', PtrTo (TypeName ''cl_device_id''), PtrTo (TypeName ''cl_uint'')] ''1_1'',
    fn_type [] (TypeName ''cl_mem'') ''clCreateFromDX9MediaSurfaceINTEL_t'' [TypeName ''cl_context'', TypeName
     ''cl_mem_flags'', PtrTo (TypeName ''IDirect3DSurface9''), TypeName ''HANDLE'', TypeName ''UINT'', PtrTo
     (TypeName ''cl_int'')] ''1_1'',
    fn_type [] (TypeName ''cl_int'') ''clEnqueueAcquireDX9ObjectsINTEL_t'' [TypeName ''cl_command_queue'',
     TypeName ''cl_uint'', PtrTo (ConstOf (TypeName ''cl_mem'')), TypeName ''cl_uint'', PtrTo (ConstOf (TypeName
     ''cl_event'')), PtrTo (TypeName ''cl_event'')] ''1_1'',
    fn_type [] (TypeName ''cl_int'') ''clEnqueueReleaseDX9ObjectsINTEL_t'' [TypeName ''cl_command_queue'',
     TypeName ''cl_uint'', PtrTo (TypeName ''cl_mem''), TypeName ''cl_uint'', PtrTo (ConstOf (TypeName
     ''cl_event'')), PtrTo (TypeName ''cl_event'')] ''1_1'']"

definition intel_dx9_media_sharing_apis :: "prototype list" where
  "intel_dx9_media_sharing_apis =
   [ext_api [] (TypeName ''cl_int'') ''clGetDeviceIDsFromDX9INTEL'' [TypeName ''cl_platform_id'', TypeName
     ''cl_dx9_device_source_intel'', PtrTo (TypeName ''void''), TypeName ''cl_dx9_device_set_intel'', TypeName
     ''cl_uint'', PtrTo (TypeName ''cl_device_id''), PtrTo (TypeName ''cl_uint'')] ''1_1'',
    ext_api [] (TypeName ''cl_mem'') ''clCreateFromDX9MediaSurfaceINTEL'' [TypeName ''cl_context'', TypeName
     ''cl_mem_flags'', PtrTo (TypeName ''IDirect3DSurface9''), TypeName ''HANDLE'', TypeName ''UINT'', PtrTo
     (TypeName ''cl_int'')] ''1_1'',
    ext_api [] (TypeName ''cl_int'') ''clEnqueueAcquireDX9ObjectsINTEL'' [TypeName ''cl_command_queue'', TypeName
     ''cl_uint'', PtrTo (ConstOf (TypeName ''cl_mem'')), TypeName ''cl_uint'', PtrTo (ConstOf (TypeName
     ''cl_event'')), PtrTo (TypeName ''cl_event'')] ''1_1'',
    ext_api [] (TypeName ''cl_int'') ''clEnqueueReleaseDX9ObjectsINTEL'' [TypeName ''cl_command_queue'', TypeName
     ''cl_uint'', PtrTo (TypeName ''cl_mem''), TypeName ''cl_uint'', PtrTo (ConstOf (TypeName ''cl_event'')), PtrTo
     (TypeName ''cl_event'')] ''1_1'']"

definition intel_sharing_format_query_dx9_types :: "prototype list" where
  "intel_sharing_format_query_dx9_types =
   [fn_type [] (TypeName ''cl_int'') ''clGetSupportedDX9MediaSurfaceFormatsINTEL_t'' [TypeName ''cl_context'',
     TypeName ''cl_mem_flags'', TypeName ''cl_mem_object_type'', TypeName ''cl_uint'', TypeName ''cl_uint'', PtrTo
     (TypeName ''D3DFORMAT''), PtrTo (TypeName ''cl_uint'')] '''']"

definition intel_sharing_format_query_dx9_apis :: "prototype list" where
  "intel_sharing_format_query_dx9_apis =
   [ext_api [] (TypeName ''cl_int'') ''clGetSupportedDX9MediaSurfaceFormatsINTEL'' [TypeName ''cl_context'',
     TypeName ''cl_mem_flags'', TypeName ''cl_mem_object_type'', TypeName ''cl_uint'', TypeName ''cl_uint'', PtrTo
     (TypeName ''D3DFORMAT''), PtrTo (TypeName ''cl_uint'')] '''']"

definition dx9_types :: "prototype list" where
  "dx9_types =
     khr_dx9_media_sharing_types @ intel_dx9_media_sharing_types @ intel_sharing_format_query_dx9_types"

definition dx9_apis :: "prototype list" where
  "dx9_apis =
     khr_dx9_media_sharing_apis @ intel_dx9_media_sharing_apis @ intel_sharing_format_query_dx9_apis"

section \<open>\<open>cl_va_api_media_sharing_intel.h\<close>\<close>

definition intel_sharing_format_query_va_api_types :: "prototype list" where
  "intel_sharing_format_query_va_api_types =
   [fn_type [] (TypeName ''cl_int'') ''clGetSupportedVA_APIMediaSurfaceFormatsINTEL_t'' [TypeName ''cl_context'',
     TypeName ''cl_mem_flags'', TypeName ''cl_mem_object_type'', TypeName ''cl_uint'', TypeName ''cl_uint'', PtrTo
     (TypeName ''VAImageFormat''), PtrTo (TypeName ''cl_uint'')] '''']"

definition intel_sharing_format_query_va_api_apis :: "prototype list" where
  "intel_sharing_format_query_va_api_apis =
   [ext_api [] (TypeName ''cl_int'') ''clGetSupportedVA_APIMediaSurfaceFormatsINTEL'' [TypeName ''cl_context'',
     TypeName ''cl_mem_flags'', TypeName ''cl_mem_object_type'', TypeName ''cl_uint'', TypeName ''cl_uint'', PtrTo
     (TypeName ''VAImageFormat''), PtrTo (TypeName ''cl_uint'')] '''']"

definition intel_va_api_media_sharing_types :: "prototype list" where
  "intel_va_api_media_sharing_types =
   [fn_type [] (TypeName ''cl_int'') ''clGetDeviceIDsFromVA_APIMediaAdapterINTEL_t'' [TypeName ''cl_platform_id'',
     TypeName ''cl_va_api_device_source_intel'', PtrTo (TypeName ''void''), TypeName
     ''cl_va_api_device_set_intel'', TypeName ''cl_uint'', PtrTo (TypeName ''cl_device_id''), PtrTo (TypeName
     ''cl_uint'')] ''1_2'',
    fn_type [] (TypeName ''cl_mem'') ''clCreateFromVA_APIMediaSurfaceINTEL_t'' [TypeName ''cl_context'', TypeName
     ''cl_mem_flags'', PtrTo (TypeName ''VASurfaceID''), TypeName ''cl_uint'', PtrTo (TypeName ''cl_int'')] ''1_2'',
    fn_type [] (TypeName ''cl_int'') ''clEnqueueAcquireVA_APIMediaSurfacesINTEL_t'' [TypeName
     ''cl_command_queue'', TypeName ''cl_uint'', PtrTo (ConstOf (TypeName ''cl_mem'')), TypeName ''cl_uint'', PtrTo
     (ConstOf (TypeName ''cl_event'')), PtrTo (TypeName ''cl_event'')] ''1_2'',
    fn_type [] (TypeName ''cl_int'') ''clEnqueueReleaseVA_APIMediaSurfacesINTEL_t'' [TypeName
     ''cl_command_queue'', TypeName ''cl_uint'', PtrTo (ConstOf (TypeName ''cl_mem'')), TypeName ''cl_uint'', PtrTo
     (ConstOf (TypeName ''cl_event'')), PtrTo (TypeName ''cl_event'')] ''1_2'']"

definition intel_va_api_media_sharing_apis :: "prototype list" where
  "intel_va_api_media_sharing_apis =
   [ext_api [] (TypeName ''cl_int'') ''clGetDeviceIDsFromVA_APIMediaAdapterINTEL'' [TypeName ''cl_platform_id'',
     TypeName ''cl_va_api_device_source_intel'', PtrTo (TypeName ''void''), TypeName
     ''cl_va_api_device_set_intel'', TypeName ''cl_uint'', PtrTo (TypeName ''cl_device_id''), PtrTo (TypeName
     ''cl_uint'')] ''1_2'',
    ext_api [] (TypeName ''cl_mem'') ''clCreateFromVA_APIMediaSurfaceINTEL'' [TypeName ''cl_context'', TypeName
     ''cl_mem_flags'', PtrTo (TypeName ''VASurfaceID''), TypeName ''cl_uint'', PtrTo (TypeName ''cl_int'')] ''1_2'',
    ext_api [] (TypeName ''cl_int'') ''clEnqueueAcquireVA_APIMediaSurfacesINTEL'' [TypeName ''cl_command_queue'',
     TypeName ''cl_uint'', PtrTo (ConstOf (TypeName ''cl_mem'')), TypeName ''cl_uint'', PtrTo (ConstOf (TypeName
     ''cl_event'')), PtrTo (TypeName ''cl_event'')] ''1_2'',
    ext_api [] (TypeName ''cl_int'') ''clEnqueueReleaseVA_APIMediaSurfacesINTEL'' [TypeName ''cl_command_queue'',
     TypeName ''cl_uint'', PtrTo (ConstOf (TypeName ''cl_mem'')), TypeName ''cl_uint'', PtrTo (ConstOf (TypeName
     ''cl_event'')), PtrTo (TypeName ''cl_event'')] ''1_2'']"

definition va_types :: "prototype list" where
  "va_types =
     intel_sharing_format_query_va_api_types @ intel_va_api_media_sharing_types"

definition va_apis :: "prototype list" where
  "va_apis =
     intel_sharing_format_query_va_api_apis @ intel_va_api_media_sharing_apis"

section \<open>\<open>cl_layer.h\<close>\<close>

definition layer_types :: "prototype list" where
  "layer_types =
   [fn_type [] (TypeName ''cl_int'') ''clGetLayerInfo_t'' [TypeName ''cl_layer_info'', TypeName ''size_t'', PtrTo
     (TypeName ''void''), PtrTo (TypeName ''size_t'')] '''',
    fn_type [] (TypeName ''cl_int'') ''clInitLayer_t'' [TypeName ''cl_uint'', PtrTo (ConstOf (TypeName
     ''cl_icd_dispatch'')), PtrTo (TypeName ''cl_uint''), PtrTo (PtrTo (ConstOf (TypeName ''cl_icd_dispatch'')))] '''']"

definition layer_apis :: "prototype list" where
  "layer_apis =
   [ext_api [] (TypeName ''cl_int'') ''clGetLayerInfo'' [TypeName ''cl_layer_info'', TypeName ''size_t'', PtrTo
     (TypeName ''void''), PtrTo (TypeName ''size_t'')] '''',
    ext_api [] (TypeName ''cl_int'') ''clInitLayer'' [TypeName ''cl_uint'', PtrTo (ConstOf (TypeName
     ''cl_icd_dispatch'')), PtrTo (TypeName ''cl_uint''), PtrTo (PtrTo (ConstOf (TypeName ''cl_icd_dispatch'')))] '''']"

end
