(* ===== verification/ClIcd.thy ===== *)
theory ClIcd
  imports ClExtApi
begin

text \<open>
  The dispatch table of the ICD, \<open>struct _cl_icd_dispatch\<close> of \<open>include/CL/cl_icd.h\<close>, and what the
  headers owe each other: prototypes and function types agree, the table has one layout in
  every configuration, and it holds exactly the functions it is meant to hold.
\<close>

section \<open>The dispatch table\<close>

text \<open>A member is a pointer to the function type named first, or to \<open>void\<close>; \<open>IfDefined\<close> is an
  \<open>#ifdef\<close> with its \<open>#else\<close>.\<close>

datatype icd_item = Slot string string | IfDefined string "(string \<times> string) list" "(string \<times> string) list"

fun item_fields :: "macros \<Rightarrow> icd_item \<Rightarrow> (string \<times> string) list" where
  "item_fields m (Slot t n) = [(t, n)]"
| "item_fields m (IfDefined x a b) = (if m x \<noteq> None then a else b)"

definition icd_opencl10 :: "icd_item list" where
  "icd_opencl10 =
    [Slot ''clGetPlatformIDs_t'' ''clGetPlatformIDs'',
     Slot ''clGetPlatformInfo_t'' ''clGetPlatformInfo'',
     Slot ''clGetDeviceIDs_t'' ''clGetDeviceIDs'',
     Slot ''clGetDeviceInfo_t'' ''clGetDeviceInfo'',
     Slot ''clCreateContext_t'' ''clCreateContext'',
     Slot ''clCreateContextFromType_t'' ''clCreateContextFromType'',
     Slot ''clRetainContext_t'' ''clRetainContext'',
     Slot ''clReleaseContext_t'' ''clReleaseContext'',
     Slot ''clGetContextInfo_t'' ''clGetContextInfo'',
     Slot ''clCreateCommandQueue_t'' ''clCreateCommandQueue'',
     Slot ''clRetainCommandQueue_t'' ''clRetainCommandQueue'',
     Slot ''clReleaseCommandQueue_t'' ''clReleaseCommandQueue'',
     Slot ''clGetCommandQueueInfo_t'' ''clGetCommandQueueInfo'',
     Slot ''clSetCommandQueueProperty_t'' ''clSetCommandQueueProperty'',
     Slot ''clCreateBuffer_t'' ''clCreateBuffer'',
     Slot ''clCreateImage2D_t'' ''clCreateImage2D'',
     Slot ''clCreateImage3D_t'' ''clCreateImage3D'',
     Slot ''clRetainMemObject_t'' ''clRetainMemObject'',
     Slot ''clReleaseMemObject_t'' ''clReleaseMemObject'',
     Slot ''clGetSupportedImageFormats_t'' ''clGetSupportedImageFormats'',
     Slot ''clGetMemObjectInfo_t'' ''clGetMemObjectInfo'',
     Slot ''clGetImageInfo_t'' ''clGetImageInfo'',
     Slot ''clCreateSampler_t'' ''clCreateSampler'',
     Slot ''clRetainSampler_t'' ''clRetainSampler'',
     Slot ''clReleaseSampler_t'' ''clReleaseSampler'',
     Slot ''clGetSamplerInfo_t'' ''clGetSamplerInfo'',
     Slot ''clCreateProgramWithSource_t'' ''clCreateProgramWithSource'',
     Slot ''clCreateProgramWithBinary_t'' ''clCreateProgramWithBinary'',
     Slot ''clRetainProgram_t'' ''clRetainProgram'',
     Slot ''clReleaseProgram_t'' ''clReleaseProgram'',
     Slot ''clBuildProgram_t'' ''clBuildProgram'',
     Slot ''clUnloadCompiler_t'' ''clUnloadCompiler'',
     Slot ''clGetProgramInfo_t'' ''clGetProgramInfo'',
     Slot ''clGetProgramBuildInfo_t'' ''clGetProgramBuildInfo'',
     Slot ''clCreateKernel_t'' ''clCreateKernel'',
     Slot ''clCreateKernelsInProgram_t'' ''clCreateKernelsInProgram'',
     Slot ''clRetainKernel_t'' ''clRetainKernel'',
     Slot ''clReleaseKernel_t'' ''clReleaseKernel'',
     Slot ''clSetKernelArg_t'' ''clSetKernelArg'',
     Slot ''clGetKernelInfo_t'' ''clGetKernelInfo'',
     Slot ''clGetKernelWorkGroupInfo_t'' ''clGetKernelWorkGroupInfo'',
     Slot ''clWaitForEvents_t'' ''clWaitForEvents'',
     Slot ''clGetEventInfo_t'' ''clGetEventInfo'',
     Slot ''clRetainEvent_t'' ''clRetainEvent'',
     Slot ''clReleaseEvent_t'' ''clReleaseEvent'',
     Slot ''clGetEventProfilingInfo_t'' ''clGetEventProfilingInfo'',
     Slot ''clFlush_t'' ''clFlush'',
     Slot ''clFinish_t'' ''clFinish'',
     Slot ''clEnqueueReadBuffer_t'' ''clEnqueueReadBuffer'',
     Slot ''clEnqueueWriteBuffer_t'' ''clEnqueueWriteBuffer'',
     Slot ''clEnqueueCopyBuffer_t'' ''clEnqueueCopyBuffer'',
     Slot ''clEnqueueReadImage_t'' ''clEnqueueReadImage'',
     Slot ''clEnqueueWriteImage_t'' ''clEnqueueWriteImage'',
     Slot ''clEnqueueCopyImage_t'' ''clEnqueueCopyImage'',
     Slot ''clEnqueueCopyImageToBuffer_t'' ''clEnqueueCopyImageToBuffer'',
     Slot ''clEnqueueCopyBufferToImage_t'' ''clEnqueueCopyBufferToImage'',
     Slot ''clEnqueueMapBuffer_t'' ''clEnqueueMapBuffer'',
     Slot ''clEnqueueMapImage_t'' ''clEnqueueMapImage'',
     Slot ''clEnqueueUnmapMemObject_t'' ''clEnqueueUnmapMemObject'',
     Slot ''clEnqueueNDRangeKernel_t'' ''clEnqueueNDRangeKernel'',
     Slot ''clEnqueueTask_t'' ''clEnqueueTask'',
     Slot ''clEnqueueNativeKernel_t'' ''clEnqueueNativeKernel'',
     Slot ''clEnqueueMarker_t'' ''clEnqueueMarker'',
     Slot ''clEnqueueWaitForEvents_t'' ''clEnqueueWaitForEvents'',
     Slot ''clEnqueueBarrier_t'' ''clEnqueueBarrier'',
     Slot ''clGetExtensionFunctionAddress_t'' ''clGetExtensionFunctionAddress'',
     Slot ''clCreateFromGLBuffer_t'' ''clCreateFromGLBuffer'',
     Slot ''clCreateFromGLTexture2D_t'' ''clCreateFromGLTexture2D'',
     Slot ''clCreateFromGLTexture3D_t'' ''clCreateFromGLTexture3D'',
     Slot ''clCreateFromGLRenderbuffer_t'' ''clCreateFromGLRenderbuffer'',
     Slot ''clGetGLObjectInfo_t'' ''clGetGLObjectInfo'',
     Slot ''clGetGLTextureInfo_t'' ''clGetGLTextureInfo'',
     Slot ''clEnqueueAcquireGLObjects_t'' ''clEnqueueAcquireGLObjects'',
     Slot ''clEnqueueReleaseGLObjects_t'' ''clEnqueueReleaseGLObjects'',
     Slot ''clGetGLContextInfoKHR_t'' ''clGetGLContextInfoKHR'']"

definition icd_d3d10 :: "icd_item list" where
  "icd_d3d10 =
    [IfDefined ''_WIN32''
       [(''clGetDeviceIDsFromD3D10KHR_t'', ''clGetDeviceIDsFromD3D10KHR''),
        (''clCreateFromD3D10BufferKHR_t'', ''clCreateFromD3D10BufferKHR''),
        (''clCreateFromD3D10Texture2DKHR_t'', ''clCreateFromD3D10Texture2DKHR''),
        (''clCreateFromD3D10Texture3DKHR_t'', ''clCreateFromD3D10Texture3DKHR''),
        (''clEnqueueAcquireD3D10ObjectsKHR_t'', ''clEnqueueAcquireD3D10ObjectsKHR''),
        (''clEnqueueReleaseD3D10ObjectsKHR_t'', ''clEnqueueReleaseD3D10ObjectsKHR'')]
       [(''void'', ''clGetDeviceIDsFromD3D10KHR''), (''void'', ''clCreateFromD3D10BufferKHR''),
        (''void'', ''clCreateFromD3D10Texture2DKHR''), (''void'', ''clCreateFromD3D10Texture3DKHR''),
        (''void'', ''clEnqueueAcquireD3D10ObjectsKHR''), (''void'', ''clEnqueueReleaseD3D10ObjectsKHR'')]]"

definition icd_opencl11 :: "icd_item list" where
  "icd_opencl11 =
    [IfDefined ''CL_VERSION_1_1''
       [(''clSetEventCallback_t'', ''clSetEventCallback''),
        (''clCreateSubBuffer_t'', ''clCreateSubBuffer''),
        (''clSetMemObjectDestructorCallback_t'', ''clSetMemObjectDestructorCallback''),
        (''clCreateUserEvent_t'', ''clCreateUserEvent''),
        (''clSetUserEventStatus_t'', ''clSetUserEventStatus''),
        (''clEnqueueReadBufferRect_t'', ''clEnqueueReadBufferRect''),
        (''clEnqueueWriteBufferRect_t'', ''clEnqueueWriteBufferRect''),
        (''clEnqueueCopyBufferRect_t'', ''clEnqueueCopyBufferRect'')]
       [(''void'', ''clSetEventCallback''), (''void'', ''clCreateSubBuffer''),
        (''void'', ''clSetMemObjectDestructorCallback''), (''void'', ''clCreateUserEvent''),
        (''void'', ''clSetUserEventStatus''), (''void'', ''clEnqueueReadBufferRect''),
        (''void'', ''clEnqueueWriteBufferRect''), (''void'', ''clEnqueueCopyBufferRect'')]]"

definition icd_fission_gl :: "icd_item list" where
  "icd_fission_gl =
    [Slot ''clCreateSubDevicesEXT_t'' ''clCreateSubDevicesEXT'',
     Slot ''clRetainDeviceEXT_t'' ''clRetainDeviceEXT'',
     Slot ''clReleaseDeviceEXT_t'' ''clReleaseDeviceEXT'',
     Slot ''clCreateEventFromGLsyncKHR_t'' ''clCreateEventFromGLsyncKHR'']"

definition icd_opencl12 :: "icd_item list" where
  "icd_opencl12 =
    [IfDefined ''CL_VERSION_1_2''
       [(''clCreateSubDevices_t'', ''clCreateSubDevices''), (''clRetainDevice_t'', ''clRetainDevice''),
        (''clReleaseDevice_t'', ''clReleaseDevice''), (''clCreateImage_t'', ''clCreateImage''),
        (''clCreateProgramWithBuiltInKernels_t'', ''clCreateProgramWithBuiltInKernels''),
        (''clCompileProgram_t'', ''clCompileProgram''), (''clLinkProgram_t'', ''clLinkProgram''),
        (''clUnloadPlatformCompiler_t'', ''clUnloadPlatformCompiler''),
        (''clGetKernelArgInfo_t'', ''clGetKernelArgInfo''),
        (''clEnqueueFillBuffer_t'', ''clEnqueueFillBuffer''),
        (''clEnqueueFillImage_t'', ''clEnqueueFillImage''),
        (''clEnqueueMigrateMemObjects_t'', ''clEnqueueMigrateMemObjects''),
        (''clEnqueueMarkerWithWaitList_t'', ''clEnqueueMarkerWithWaitList''),
        (''clEnqueueBarrierWithWaitList_t'', ''clEnqueueBarrierWithWaitList''),
        (''clGetExtensionFunctionAddressForPlatform_t'', ''clGetExtensionFunctionAddressForPlatform''),
        (''clCreateFromGLTexture_t'', ''clCreateFromGLTexture'')]
       [(''void'', ''clCreateSubDevices''), (''void'', ''clRetainDevice''), (''void'', ''clReleaseDevice''),
        (''void'', ''clCreateImage''), (''void'', ''clCreateProgramWithBuiltInKernels''),
        (''void'', ''clCompileProgram''), (''void'', ''clLinkProgram''),
        (''void'', ''clUnloadPlatformCompiler''), (''void'', ''clGetKernelArgInfo''),
        (''void'', ''clEnqueueFillBuffer''), (''void'', ''clEnqueueFillImage''),
        (''void'', ''clEnqueueMigrateMemObjects''), (''void'', ''clEnqueueMarkerWithWaitList''),
        (''void'', ''clEnqueueBarrierWithWaitList''),
        (''void'', ''clGetExtensionFunctionAddressForPlatform''), (''void'', ''clCreateFromGLTexture'')]]"

definition icd_d3d11_dx9 :: "icd_item list" where
  "icd_d3d11_dx9 =
    [IfDefined ''_WIN32''
       [(''clGetDeviceIDsFromD3D11KHR_t'', ''clGetDeviceIDsFromD3D11KHR''),
        (''clCreateFromD3D11BufferKHR_t'', ''clCreateFromD3D11BufferKHR''),
        (''clCreateFromD3D11Texture2DKHR_t'', ''clCreateFromD3D11Texture2DKHR''),
        (''clCreateFromD3D11Texture3DKHR_t'', ''clCreateFromD3D11Texture3DKHR''),
        (''clCreateFromDX9MediaSurfaceKHR_t'', ''clCreateFromDX9MediaSurfaceKHR''),
        (''clEnqueueAcquireD3D11ObjectsKHR_t'', ''clEnqueueAcquireD3D11ObjectsKHR''),
        (''clEnqueueReleaseD3D11ObjectsKHR_t'', ''clEnqueueReleaseD3D11ObjectsKHR''),
        (''clGetDeviceIDsFromDX9MediaAdapterKHR_t'', ''clGetDeviceIDsFromDX9MediaAdapterKHR''),
        (''clEnqueueAcquireDX9MediaSurfacesKHR_t'', ''clEnqueueAcquireDX9MediaSurfacesKHR''),
        (''clEnqueueReleaseDX9MediaSurfacesKHR_t'', ''clEnqueueReleaseDX9MediaSurfacesKHR'')]
       [(''void'', ''clGetDeviceIDsFromD3D11KHR''), (''void'', ''clCreateFromD3D11BufferKHR''),
        (''void'', ''clCreateFromD3D11Texture2DKHR''), (''void'', ''clCreateFromD3D11Texture3DKHR''),
        (''void'', ''clCreateFromDX9MediaSurfaceKHR''), (''void'', ''clEnqueueAcquireD3D11ObjectsKHR''),
        (''void'', ''clEnqueueReleaseD3D11ObjectsKHR''),
        (''void'', ''clGetDeviceIDsFromDX9MediaAdapterKHR''),
        (''void'', ''clEnqueueAcquireDX9MediaSurfacesKHR''),
        (''void'', ''clEnqueueReleaseDX9MediaSurfacesKHR'')]]"

definition icd_egl :: "icd_item list" where
  "icd_egl =
    [Slot ''clCreateFromEGLImageKHR_t'' ''clCreateFromEGLImageKHR'',
     Slot ''clEnqueueAcquireEGLObjectsKHR_t'' ''clEnqueueAcquireEGLObjectsKHR'',
     Slot ''clEnqueueReleaseEGLObjectsKHR_t'' ''clEnqueueReleaseEGLObjectsKHR'',
     Slot ''clCreateEventFromEGLSyncKHR_t'' ''clCreateEventFromEGLSyncKHR'']"

definition icd_opencl20 :: "icd_item list" where
  "icd_opencl20 =
    [IfDefined ''CL_VERSION_2_0''
       [(''clCreateCommandQueueWithProperties_t'', ''clCreateCommandQueueWithProperties''),
        (''clCreatePipe_t'', ''clCreatePipe''), (''clGetPipeInfo_t'', ''clGetPipeInfo''),
        (''clSVMAlloc_t'', ''clSVMAlloc''), (''clSVMFree_t'', ''clSVMFree''),
        (''clEnqueueSVMFree_t'', ''clEnqueueSVMFree''), (''clEnqueueSVMMemcpy_t'', ''clEnqueueSVMMemcpy''),
        (''clEnqueueSVMMemFill_t'', ''clEnqueueSVMMemFill''), (''clEnqueueSVMMap_t'', ''clEnqueueSVMMap''),
        (''clEnqueueSVMUnmap_t'', ''clEnqueueSVMUnmap''),
        (''clCreateSamplerWithProperties_t'', ''clCreateSamplerWithProperties''),
        (''clSetKernelArgSVMPointer_t'', ''clSetKernelArgSVMPointer''),
        (''clSetKernelExecInfo_t'', ''clSetKernelExecInfo'')]
       [(''void'', ''clCreateCommandQueueWithProperties''), (''void'', ''clCreatePipe''),
        (''void'', ''clGetPipeInfo''), (''void'', ''clSVMAlloc''), (''void'', ''clSVMFree''),
        (''void'', ''clEnqueueSVMFree''), (''void'', ''clEnqueueSVMMemcpy''),
        (''void'', ''clEnqueueSVMMemFill''), (''void'', ''clEnqueueSVMMap''),
        (''void'', ''clEnqueueSVMUnmap''), (''void'', ''clCreateSamplerWithProperties''),
        (''void'', ''clSetKernelArgSVMPointer''), (''void'', ''clSetKernelExecInfo'')]]"

definition icd_opencl21 :: "icd_item list" where
  "icd_opencl21 =
    [Slot ''clGetKernelSubGroupInfoKHR_t'' ''clGetKernelSubGroupInfoKHR'',
     IfDefined ''CL_VERSION_2_1''
       [(''clCloneKernel_t'', ''clCloneKernel''), (''clCreateProgramWithIL_t'', ''clCreateProgramWithIL''),
        (''clEnqueueSVMMigrateMem_t'', ''clEnqueueSVMMigrateMem''),
        (''clGetDeviceAndHostTimer_t'', ''clGetDeviceAndHostTimer''),
        (''clGetHostTimer_t'', ''clGetHostTimer''),
        (''clGetKernelSubGroupInfo_t'', ''clGetKernelSubGroupInfo''),
        (''clSetDefaultDeviceCommandQueue_t'', ''clSetDefaultDeviceCommandQueue'')]
       [(''void'', ''clCloneKernel''), (''void'', ''clCreateProgramWithIL''),
        (''void'', ''clEnqueueSVMMigrateMem''), (''void'', ''clGetDeviceAndHostTimer''),
        (''void'', ''clGetHostTimer''), (''void'', ''clGetKernelSubGroupInfo''),
        (''void'', ''clSetDefaultDeviceCommandQueue'')]]"

definition icd_opencl22 :: "icd_item list" where
  "icd_opencl22 =
    [IfDefined ''CL_VERSION_2_2''
       [(''clSetProgramReleaseCallback_t'', ''clSetProgramReleaseCallback''),
        (''clSetProgramSpecializationConstant_t'', ''clSetProgramSpecializationConstant'')]
       [(''void'', ''clSetProgramReleaseCallback''), (''void'', ''clSetProgramSpecializationConstant'')]]"

definition icd_opencl30 :: "icd_item list" where
  "icd_opencl30 =
    [IfDefined ''CL_VERSION_3_0''
       [(''clCreateBufferWithProperties_t'', ''clCreateBufferWithProperties''),
        (''clCreateImageWithProperties_t'', ''clCreateImageWithProperties''),
        (''clSetContextDestructorCallback_t'', ''clSetContextDestructorCallback'')]
       [(''void'', ''clCreateBufferWithProperties''), (''void'', ''clCreateImageWithProperties''),
        (''void'', ''clSetContextDestructorCallback'')]]"

definition icd_dispatch :: "icd_item list" where
  "icd_dispatch =
     icd_opencl10 @ icd_d3d10 @ icd_opencl11 @ icd_fission_gl @ icd_opencl12 @ icd_d3d11_dx9 @ icd_egl @
     icd_opencl20 @ icd_opencl21 @ icd_opencl22 @ icd_opencl30"

definition icd_fields :: "macros \<Rightarrow> (string \<times> string) list" where
  "icd_fields m = concat (map (item_fields m) icd_dispatch)"

text \<open>Members are pointers, eight bytes each.\<close>

definition icd_offset :: "macros \<Rightarrow> string \<Rightarrow> nat option" where
  "icd_offset m n = map_of (zip (map snd (icd_fields m)) (map ((*) 8) [0..<length (icd_fields m)])) n"

text \<open>The function types the header sees: those of the headers it includes.\<close>

definition icd_types :: "macros \<Rightarrow> prototype list" where
  "icd_types m = core_types @ egl_types @ ext_types @ gl_types @
     (if m ''_WIN32'' \<noteq> None then d3d11_types @ d3d10_types @ dx9_types else [])"

section \<open>Prototypes and function types\<close>

definition all_apis :: "prototype list" where
  "all_apis = core_apis @ ext_apis @ gl_apis @ egl_apis @ d3d10_apis @ d3d11_apis @ dx9_apis @ va_apis @ layer_apis"

definition all_types :: "prototype list" where
  "all_types = core_types @ ext_types @ gl_types @ egl_types @ d3d10_types @ d3d11_types @ dx9_types @ va_types @ layer_types"

text \<open>A function type that is the type of a prototype, and declared wherever the prototype is.\<close>

definition agrees :: "prototype \<Rightarrow> prototype \<Rightarrow> bool" where
  "agrees p t \<longleftrightarrow> same_type p t \<and> pr_suffix t = pr_suffix p \<and> list_all (\<lambda>x. x \<in> set (pr_guard p)) (pr_guard t) \<and>
     pr_unless t = []"

lemma agrees_declared: "agrees p t \<Longrightarrow> declared_in m p \<Longrightarrow> declared_in m t"
  by (auto simp: agrees_def declared_in_def list_all_iff)

lemmas api_groups = all_apis_def core_apis_def ext_apis_def gl_apis_def egl_apis_def d3d10_apis_def d3d11_apis_def
  dx9_apis_def va_apis_def layer_apis_def

lemmas type_groups = all_types_def core_types_def ext_types_def gl_types_def egl_types_def d3d10_types_def
  d3d11_types_def dx9_types_def va_types_def layer_types_def

lemma core_typed:
  "list_all2 agrees core_apis [platform_types ! 0, platform_types ! 1, platform_types ! 2, platform_types !
    3, cl12_types ! 0, cl12_types ! 1, cl12_types ! 2, later_types ! 0, later_types ! 1, later_types ! 2,
    platform_types ! 4, platform_types ! 5, platform_types ! 6, platform_types ! 7, platform_types ! 8,
    later_types ! 9, cl20_types ! 0, platform_types ! 9, platform_types ! 10, platform_types ! 11,
    object_types ! 0, cl11_types ! 0, cl12_types ! 3, cl20_types ! 1, later_types ! 10, later_types ! 11,
    object_types ! 1, object_types ! 2, object_types ! 3, object_types ! 4, object_types ! 5, cl20_types !
    2, cl11_types ! 1, cl20_types ! 3, cl20_types ! 4, cl20_types ! 5, object_types ! 6, object_types ! 7,
    object_types ! 8, object_types ! 9, object_types ! 10, cl12_types ! 4, later_types ! 3, object_types !
    11, object_types ! 12, object_types ! 13, cl12_types ! 5, cl12_types ! 6, later_types ! 8, later_types !
    7, cl12_types ! 7, object_types ! 14, object_types ! 15, kernel_types ! 0, kernel_types ! 1, later_types
    ! 4, kernel_types ! 2, kernel_types ! 3, kernel_types ! 4, cl20_types ! 6, cl20_types ! 7, kernel_types
    ! 5, cl12_types ! 8, kernel_types ! 6, later_types ! 5, kernel_types ! 7, kernel_types ! 8, cl11_types !
    2, kernel_types ! 9, kernel_types ! 10, cl11_types ! 3, cl11_types ! 4, kernel_types ! 11, kernel_types
    ! 12, kernel_types ! 13, buffer_types ! 0, cl11_types ! 5, buffer_types ! 1, cl11_types ! 6,
    cl12_enqueue_types ! 0, buffer_types ! 2, cl11_types ! 7, buffer_types ! 3, buffer_types ! 4,
    cl12_enqueue_types ! 1, buffer_types ! 5, buffer_types ! 6, buffer_types ! 7, enqueue_types ! 0,
    enqueue_types ! 1, enqueue_types ! 2, cl12_enqueue_types ! 2, enqueue_types ! 3, enqueue_types ! 4,
    cl12_enqueue_types ! 3, cl12_enqueue_types ! 4, cl20_types ! 8, cl20_types ! 9, cl20_types ! 10,
    cl20_types ! 11, cl20_types ! 12, later_types ! 6, cl12_enqueue_types ! 5, deprecated_types ! 0,
    deprecated_types ! 1, deprecated_types ! 2, deprecated_types ! 3, deprecated_types ! 4, deprecated_types
    ! 5, deprecated_types ! 6, deprecated_types ! 7, deprecated_types ! 8, deprecated_types ! 9,
    deprecated_types ! 10]"
  by (simp add: agrees_def same_type_def core_apis_def platform_apis_def device_apis_def context_apis_def queue_apis_def
    memory_apis_def svm_apis_def sampler_apis_def program_apis_def kernel_apis_def event_apis_def
    finish_apis_def buffer_command_apis_def image_command_apis_def kernel_command_apis_def other_apis_def
    platform_types_def object_types_def kernel_types_def buffer_types_def enqueue_types_def
    deprecated_types_def cl11_types_def cl12_types_def cl12_enqueue_types_def cl20_types_def later_types_def)

lemma core_used:
  "list_all2 agrees [platform_apis ! 0, platform_apis ! 1, device_apis ! 0, device_apis ! 1, context_apis !
    0, context_apis ! 1, context_apis ! 2, context_apis ! 3, context_apis ! 4, queue_apis ! 1, queue_apis !
    2, queue_apis ! 3, memory_apis ! 0, memory_apis ! 6, memory_apis ! 7, memory_apis ! 8, memory_apis ! 9,
    memory_apis ! 10, sampler_apis ! 1, sampler_apis ! 2, sampler_apis ! 3, program_apis ! 0, program_apis !
    1, program_apis ! 4, program_apis ! 5, program_apis ! 6, program_apis ! 12, program_apis ! 13,
    kernel_apis ! 0, kernel_apis ! 1, kernel_apis ! 3, kernel_apis ! 4, kernel_apis ! 5, kernel_apis ! 8,
    kernel_apis ! 10, event_apis ! 0, event_apis ! 1, event_apis ! 3, event_apis ! 4, finish_apis ! 0,
    finish_apis ! 1, finish_apis ! 2, buffer_command_apis ! 0, buffer_command_apis ! 2, buffer_command_apis
    ! 5, buffer_command_apis ! 7, buffer_command_apis ! 8, image_command_apis ! 1, image_command_apis ! 2,
    image_command_apis ! 3, image_command_apis ! 4, image_command_apis ! 5, image_command_apis ! 6,
    kernel_command_apis ! 0, kernel_command_apis ! 1, other_apis ! 1, other_apis ! 2, other_apis ! 3,
    other_apis ! 4, other_apis ! 5, other_apis ! 6, other_apis ! 7, other_apis ! 8, other_apis ! 9,
    other_apis ! 10, other_apis ! 11, memory_apis ! 1, memory_apis ! 12, event_apis ! 2, event_apis ! 5,
    event_apis ! 6, buffer_command_apis ! 1, buffer_command_apis ! 3, buffer_command_apis ! 6, device_apis !
    2, device_apis ! 3, device_apis ! 4, memory_apis ! 2, program_apis ! 2, program_apis ! 7, program_apis !
    8, program_apis ! 11, kernel_apis ! 9, buffer_command_apis ! 4, image_command_apis ! 0,
    image_command_apis ! 7, kernel_command_apis ! 2, kernel_command_apis ! 3, other_apis ! 0, queue_apis !
    0, memory_apis ! 3, memory_apis ! 11, svm_apis ! 0, svm_apis ! 1, sampler_apis ! 0, kernel_apis ! 6,
    kernel_apis ! 7, kernel_command_apis ! 4, kernel_command_apis ! 5, kernel_command_apis ! 6,
    kernel_command_apis ! 7, kernel_command_apis ! 8, device_apis ! 5, device_apis ! 6, device_apis ! 7,
    program_apis ! 3, kernel_apis ! 2, kernel_apis ! 11, kernel_command_apis ! 9, program_apis ! 10,
    program_apis ! 9, context_apis ! 5, memory_apis ! 4, memory_apis ! 5] core_types"
  by (simp add: agrees_def same_type_def core_types_def platform_apis_def device_apis_def context_apis_def
    queue_apis_def memory_apis_def svm_apis_def sampler_apis_def program_apis_def kernel_apis_def
    event_apis_def finish_apis_def buffer_command_apis_def image_command_apis_def kernel_command_apis_def
    other_apis_def platform_types_def object_types_def kernel_types_def buffer_types_def enqueue_types_def
    deprecated_types_def cl11_types_def cl12_types_def cl12_enqueue_types_def cl20_types_def later_types_def)

lemma ext_typed:
  "list_all2 agrees ext_apis [khr_command_buffer_types_1 ! 0, khr_command_buffer_types_1 ! 1,
    khr_command_buffer_types_1 ! 2, khr_command_buffer_types_1 ! 3, khr_command_buffer_types_1 ! 4,
    khr_command_buffer_types_1 ! 5, khr_command_buffer_types_1 ! 6, khr_command_buffer_types_1 ! 7,
    khr_command_buffer_types_1 ! 8, khr_command_buffer_types_1 ! 9, khr_command_buffer_types_1 ! 10,
    khr_command_buffer_types_2 ! 0, khr_command_buffer_types_2 ! 1, khr_command_buffer_types_2 ! 2,
    khr_command_buffer_types_2 ! 3, khr_command_buffer_types_2 ! 4, khr_command_buffer_types_2 ! 5,
    khr_command_buffer_multi_device_types ! 0, khr_command_buffer_mutable_dispatch_types ! 0,
    khr_command_buffer_mutable_dispatch_types ! 1, apple_setmemobjectdestructor_types ! 0,
    apple_contextloggingfunctions_types ! 0, apple_contextloggingfunctions_types ! 1,
    apple_contextloggingfunctions_types ! 2, khr_icd_types ! 0, khr_il_program_types ! 0,
    khr_terminate_context_types ! 0, khr_create_command_queue_types ! 0, ext_device_fission_types ! 0,
    ext_device_fission_types ! 1, ext_device_fission_types ! 2, ext_migrate_memobject_types ! 0,
    qcom_ext_host_ptr_types ! 0, img_use_gralloc_ptr_types ! 0, img_use_gralloc_ptr_types ! 1,
    img_generate_mipmap_types ! 0, khr_subgroups_types ! 0, khr_suggested_local_work_size_types ! 0,
    khr_external_memory_types ! 0, khr_external_memory_types ! 1, khr_external_semaphore_types ! 0,
    khr_external_semaphore_sync_fd_types ! 0, khr_semaphore_types ! 0, khr_semaphore_types ! 1,
    khr_semaphore_types ! 2, khr_semaphore_types ! 3, khr_semaphore_types ! 4, khr_semaphore_types ! 5,
    arm_import_memory_types ! 0, arm_shared_virtual_memory_types ! 0, arm_shared_virtual_memory_types ! 1,
    arm_shared_virtual_memory_types ! 2, arm_shared_virtual_memory_types ! 3,
    arm_shared_virtual_memory_types ! 4, arm_shared_virtual_memory_types ! 5,
    arm_shared_virtual_memory_types ! 6, arm_shared_virtual_memory_types ! 7,
    arm_shared_virtual_memory_types ! 8, intel_accelerator_types ! 0, intel_accelerator_types ! 1,
    intel_accelerator_types ! 2, intel_accelerator_types ! 3, intel_unified_shared_memory_types_1 ! 0,
    intel_unified_shared_memory_types_1 ! 1, intel_unified_shared_memory_types_1 ! 2,
    intel_unified_shared_memory_types_1 ! 3, intel_unified_shared_memory_types_1 ! 4,
    intel_unified_shared_memory_types_1 ! 5, intel_unified_shared_memory_types_1 ! 6,
    intel_unified_shared_memory_types_1 ! 7, intel_unified_shared_memory_types_1 ! 8,
    intel_unified_shared_memory_types_1 ! 9, intel_unified_shared_memory_types_2 ! 0,
    intel_unified_shared_memory_types_3 ! 0, intel_create_buffer_with_properties_types ! 0,
    intel_program_scope_host_pipe_types ! 0, intel_program_scope_host_pipe_types ! 1,
    ext_image_requirements_info_types ! 0, loader_info_types ! 0, pocl_content_size_types ! 0]"
  by (simp add: agrees_def same_type_def ext_apis_def khr_command_buffer_apis_1_def khr_command_buffer_apis_2_def
    khr_command_buffer_multi_device_apis_def khr_command_buffer_mutable_dispatch_apis_def
    apple_setmemobjectdestructor_apis_def apple_contextloggingfunctions_apis_def khr_icd_apis_def
    khr_il_program_apis_def khr_terminate_context_apis_def khr_create_command_queue_apis_def
    ext_device_fission_apis_def ext_migrate_memobject_apis_def qcom_ext_host_ptr_apis_def
    img_use_gralloc_ptr_apis_def img_generate_mipmap_apis_def khr_subgroups_apis_def
    khr_suggested_local_work_size_apis_def khr_external_memory_apis_def khr_external_semaphore_apis_def
    khr_external_semaphore_sync_fd_apis_def khr_semaphore_apis_def arm_import_memory_apis_def
    arm_shared_virtual_memory_apis_def intel_accelerator_apis_def intel_unified_shared_memory_apis_1_def
    intel_unified_shared_memory_apis_2_def intel_unified_shared_memory_apis_3_def
    intel_create_buffer_with_properties_apis_def intel_program_scope_host_pipe_apis_def
    ext_image_requirements_info_apis_def loader_info_apis_def pocl_content_size_apis_def
    khr_command_buffer_types_1_def khr_command_buffer_types_2_def khr_command_buffer_multi_device_types_def
    khr_command_buffer_mutable_dispatch_types_def apple_setmemobjectdestructor_types_def
    apple_contextloggingfunctions_types_def khr_icd_types_def khr_il_program_types_def
    khr_terminate_context_types_def khr_create_command_queue_types_def ext_device_fission_types_def
    ext_migrate_memobject_types_def qcom_ext_host_ptr_types_def img_use_gralloc_ptr_types_def
    img_generate_mipmap_types_def khr_subgroups_types_def khr_suggested_local_work_size_types_def
    khr_external_memory_types_def khr_external_semaphore_types_def khr_external_semaphore_sync_fd_types_def
    khr_semaphore_types_def arm_import_memory_types_def arm_shared_virtual_memory_types_def
    intel_accelerator_types_def intel_unified_shared_memory_types_1_def
    intel_unified_shared_memory_types_2_def intel_unified_shared_memory_types_3_def
    intel_create_buffer_with_properties_types_def intel_program_scope_host_pipe_types_def
    ext_image_requirements_info_types_def loader_info_types_def pocl_content_size_types_def)

lemma ext_used:
  "list_all2 agrees [khr_command_buffer_apis_1 ! 0, khr_command_buffer_apis_1 ! 1,
    khr_command_buffer_apis_1 ! 2, khr_command_buffer_apis_1 ! 3, khr_command_buffer_apis_1 ! 4,
    khr_command_buffer_apis_1 ! 5, khr_command_buffer_apis_1 ! 6, khr_command_buffer_apis_1 ! 7,
    khr_command_buffer_apis_1 ! 8, khr_command_buffer_apis_1 ! 9, khr_command_buffer_apis_1 ! 10,
    khr_command_buffer_apis_1 ! 11, khr_command_buffer_apis_1 ! 12, khr_command_buffer_apis_2 ! 0,
    khr_command_buffer_apis_2 ! 1, khr_command_buffer_apis_2 ! 2, khr_command_buffer_apis_2 ! 3,
    khr_command_buffer_multi_device_apis ! 0, khr_command_buffer_mutable_dispatch_apis ! 0,
    khr_command_buffer_mutable_dispatch_apis ! 1, apple_setmemobjectdestructor_apis ! 0,
    apple_contextloggingfunctions_apis ! 0, apple_contextloggingfunctions_apis ! 1,
    apple_contextloggingfunctions_apis ! 2, khr_icd_apis ! 0, khr_il_program_apis ! 0,
    khr_terminate_context_apis ! 0, khr_create_command_queue_apis ! 0, ext_device_fission_apis ! 0,
    ext_device_fission_apis ! 1, ext_device_fission_apis ! 2, ext_migrate_memobject_apis ! 0,
    qcom_ext_host_ptr_apis ! 0, img_use_gralloc_ptr_apis ! 0, img_use_gralloc_ptr_apis ! 1,
    img_generate_mipmap_apis ! 0, khr_subgroups_apis ! 0, khr_suggested_local_work_size_apis ! 0,
    khr_external_memory_apis ! 0, khr_external_memory_apis ! 1, khr_external_semaphore_apis ! 0,
    khr_external_semaphore_sync_fd_apis ! 0, khr_semaphore_apis ! 0, khr_semaphore_apis ! 1,
    khr_semaphore_apis ! 2, khr_semaphore_apis ! 3, khr_semaphore_apis ! 4, khr_semaphore_apis ! 5,
    arm_import_memory_apis ! 0, arm_shared_virtual_memory_apis ! 0, arm_shared_virtual_memory_apis ! 1,
    arm_shared_virtual_memory_apis ! 2, arm_shared_virtual_memory_apis ! 3, arm_shared_virtual_memory_apis !
    4, arm_shared_virtual_memory_apis ! 5, arm_shared_virtual_memory_apis ! 6,
    arm_shared_virtual_memory_apis ! 7, arm_shared_virtual_memory_apis ! 8, intel_accelerator_apis ! 0,
    intel_accelerator_apis ! 1, intel_accelerator_apis ! 2, intel_accelerator_apis ! 3,
    intel_unified_shared_memory_apis_1 ! 0, intel_unified_shared_memory_apis_1 ! 1,
    intel_unified_shared_memory_apis_1 ! 2, intel_unified_shared_memory_apis_1 ! 3,
    intel_unified_shared_memory_apis_1 ! 4, intel_unified_shared_memory_apis_1 ! 5,
    intel_unified_shared_memory_apis_1 ! 6, intel_unified_shared_memory_apis_1 ! 7,
    intel_unified_shared_memory_apis_1 ! 8, intel_unified_shared_memory_apis_1 ! 9,
    intel_unified_shared_memory_apis_2 ! 0, intel_unified_shared_memory_apis_3 ! 0,
    intel_create_buffer_with_properties_apis ! 0, intel_program_scope_host_pipe_apis ! 0,
    intel_program_scope_host_pipe_apis ! 1, ext_image_requirements_info_apis ! 0, loader_info_apis ! 0,
    pocl_content_size_apis ! 0] ext_types"
  by (simp add: agrees_def same_type_def ext_types_def khr_command_buffer_apis_1_def khr_command_buffer_apis_2_def
    khr_command_buffer_multi_device_apis_def khr_command_buffer_mutable_dispatch_apis_def
    apple_setmemobjectdestructor_apis_def apple_contextloggingfunctions_apis_def khr_icd_apis_def
    khr_il_program_apis_def khr_terminate_context_apis_def khr_create_command_queue_apis_def
    ext_device_fission_apis_def ext_migrate_memobject_apis_def qcom_ext_host_ptr_apis_def
    img_use_gralloc_ptr_apis_def img_generate_mipmap_apis_def khr_subgroups_apis_def
    khr_suggested_local_work_size_apis_def khr_external_memory_apis_def khr_external_semaphore_apis_def
    khr_external_semaphore_sync_fd_apis_def khr_semaphore_apis_def arm_import_memory_apis_def
    arm_shared_virtual_memory_apis_def intel_accelerator_apis_def intel_unified_shared_memory_apis_1_def
    intel_unified_shared_memory_apis_2_def intel_unified_shared_memory_apis_3_def
    intel_create_buffer_with_properties_apis_def intel_program_scope_host_pipe_apis_def
    ext_image_requirements_info_apis_def loader_info_apis_def pocl_content_size_apis_def
    khr_command_buffer_types_1_def khr_command_buffer_types_2_def khr_command_buffer_multi_device_types_def
    khr_command_buffer_mutable_dispatch_types_def apple_setmemobjectdestructor_types_def
    apple_contextloggingfunctions_types_def khr_icd_types_def khr_il_program_types_def
    khr_terminate_context_types_def khr_create_command_queue_types_def ext_device_fission_types_def
    ext_migrate_memobject_types_def qcom_ext_host_ptr_types_def img_use_gralloc_ptr_types_def
    img_generate_mipmap_types_def khr_subgroups_types_def khr_suggested_local_work_size_types_def
    khr_external_memory_types_def khr_external_semaphore_types_def khr_external_semaphore_sync_fd_types_def
    khr_semaphore_types_def arm_import_memory_types_def arm_shared_virtual_memory_types_def
    intel_accelerator_types_def intel_unified_shared_memory_types_1_def
    intel_unified_shared_memory_types_2_def intel_unified_shared_memory_types_3_def
    intel_create_buffer_with_properties_types_def intel_program_scope_host_pipe_types_def
    ext_image_requirements_info_types_def loader_info_types_def pocl_content_size_types_def)

lemma gl_typed:
  "list_all2 agrees gl_apis [khr_gl_sharing_types_1 ! 0, khr_gl_sharing_types_1 ! 1, khr_gl_sharing_types_2
    ! 0, khr_gl_sharing_types_3 ! 0, khr_gl_sharing_types_3 ! 1, khr_gl_sharing_types_3 ! 2,
    khr_gl_sharing_types_3 ! 3, khr_gl_sharing_types_3 ! 4, khr_gl_sharing_types_4 ! 0,
    khr_gl_sharing_types_4 ! 1, khr_gl_event_types ! 0, intel_sharing_format_query_gl_types ! 0]"
  by (simp add: agrees_def same_type_def gl_apis_def khr_gl_sharing_apis_1_def khr_gl_sharing_apis_2_def
    khr_gl_sharing_apis_3_def khr_gl_sharing_apis_4_def khr_gl_event_apis_def
    intel_sharing_format_query_gl_apis_def khr_gl_sharing_types_1_def khr_gl_sharing_types_2_def
    khr_gl_sharing_types_3_def khr_gl_sharing_types_4_def khr_gl_event_types_def
    intel_sharing_format_query_gl_types_def)

lemma gl_used:
  "list_all2 agrees [khr_gl_sharing_apis_1 ! 0, khr_gl_sharing_apis_1 ! 1, khr_gl_sharing_apis_2 ! 0,
    khr_gl_sharing_apis_3 ! 0, khr_gl_sharing_apis_3 ! 1, khr_gl_sharing_apis_3 ! 2, khr_gl_sharing_apis_3 !
    3, khr_gl_sharing_apis_3 ! 4, khr_gl_sharing_apis_4 ! 0, khr_gl_sharing_apis_4 ! 1, khr_gl_event_apis !
    0, intel_sharing_format_query_gl_apis ! 0] gl_types"
  by (simp add: agrees_def same_type_def gl_types_def khr_gl_sharing_apis_1_def khr_gl_sharing_apis_2_def
    khr_gl_sharing_apis_3_def khr_gl_sharing_apis_4_def khr_gl_event_apis_def
    intel_sharing_format_query_gl_apis_def khr_gl_sharing_types_1_def khr_gl_sharing_types_2_def
    khr_gl_sharing_types_3_def khr_gl_sharing_types_4_def khr_gl_event_types_def
    intel_sharing_format_query_gl_types_def)

lemma egl_typed:
  "list_all2 agrees egl_apis [khr_egl_image_types ! 0, khr_egl_image_types ! 1, khr_egl_image_types ! 2,
    khr_egl_event_types ! 0]"
  by (simp add: agrees_def same_type_def egl_apis_def khr_egl_image_apis_def khr_egl_event_apis_def
    khr_egl_image_types_def khr_egl_event_types_def)

lemma egl_used:
  "list_all2 agrees [khr_egl_image_apis ! 0, khr_egl_image_apis ! 1, khr_egl_image_apis ! 2,
    khr_egl_event_apis ! 0] egl_types"
  by (simp add: agrees_def same_type_def egl_types_def khr_egl_image_apis_def khr_egl_event_apis_def
    khr_egl_image_types_def khr_egl_event_types_def)

lemma d3d10_typed:
  "list_all2 agrees d3d10_apis [khr_d3d10_sharing_types ! 0, khr_d3d10_sharing_types ! 1,
    khr_d3d10_sharing_types ! 2, khr_d3d10_sharing_types ! 3, khr_d3d10_sharing_types ! 4,
    khr_d3d10_sharing_types ! 5, intel_sharing_format_query_d3d10_types ! 0]"
  by (simp add: agrees_def same_type_def d3d10_apis_def khr_d3d10_sharing_apis_def
    intel_sharing_format_query_d3d10_apis_def khr_d3d10_sharing_types_def
    intel_sharing_format_query_d3d10_types_def)

lemma d3d10_used:
  "list_all2 agrees [khr_d3d10_sharing_apis ! 0, khr_d3d10_sharing_apis ! 1, khr_d3d10_sharing_apis ! 2,
    khr_d3d10_sharing_apis ! 3, khr_d3d10_sharing_apis ! 4, khr_d3d10_sharing_apis ! 5,
    intel_sharing_format_query_d3d10_apis ! 0] d3d10_types"
  by (simp add: agrees_def same_type_def d3d10_types_def khr_d3d10_sharing_apis_def
    intel_sharing_format_query_d3d10_apis_def khr_d3d10_sharing_types_def
    intel_sharing_format_query_d3d10_types_def)

lemma d3d11_typed:
  "list_all2 agrees d3d11_apis [khr_d3d11_sharing_types ! 0, khr_d3d11_sharing_types ! 1,
    khr_d3d11_sharing_types ! 2, khr_d3d11_sharing_types ! 3, khr_d3d11_sharing_types ! 4,
    khr_d3d11_sharing_types ! 5, intel_sharing_format_query_d3d11_types ! 0]"
  by (simp add: agrees_def same_type_def d3d11_apis_def khr_d3d11_sharing_apis_def
    intel_sharing_format_query_d3d11_apis_def khr_d3d11_sharing_types_def
    intel_sharing_format_query_d3d11_types_def)

lemma d3d11_used:
  "list_all2 agrees [khr_d3d11_sharing_apis ! 0, khr_d3d11_sharing_apis ! 1, khr_d3d11_sharing_apis ! 2,
    khr_d3d11_sharing_apis ! 3, khr_d3d11_sharing_apis ! 4, khr_d3d11_sharing_apis ! 5,
    intel_sharing_format_query_d3d11_apis ! 0] d3d11_types"
  by (simp add: agrees_def same_type_def d3d11_types_def khr_d3d11_sharing_apis_def
    intel_sharing_format_query_d3d11_apis_def khr_d3d11_sharing_types_def
    intel_sharing_format_query_d3d11_types_def)

lemma dx9_typed:
  "list_all2 agrees dx9_apis [khr_dx9_media_sharing_types ! 0, khr_dx9_media_sharing_types ! 1,
    khr_dx9_media_sharing_types ! 2, khr_dx9_media_sharing_types ! 3, intel_dx9_media_sharing_types ! 0,
    intel_dx9_media_sharing_types ! 1, intel_dx9_media_sharing_types ! 2, intel_dx9_media_sharing_types ! 3,
    intel_sharing_format_query_dx9_types ! 0]"
  by (simp add: agrees_def same_type_def dx9_apis_def khr_dx9_media_sharing_apis_def intel_dx9_media_sharing_apis_def
    intel_sharing_format_query_dx9_apis_def khr_dx9_media_sharing_types_def
    intel_dx9_media_sharing_types_def intel_sharing_format_query_dx9_types_def)

lemma dx9_used:
  "list_all2 agrees [khr_dx9_media_sharing_apis ! 0, khr_dx9_media_sharing_apis ! 1,
    khr_dx9_media_sharing_apis ! 2, khr_dx9_media_sharing_apis ! 3, intel_dx9_media_sharing_apis ! 0,
    intel_dx9_media_sharing_apis ! 1, intel_dx9_media_sharing_apis ! 2, intel_dx9_media_sharing_apis ! 3,
    intel_sharing_format_query_dx9_apis ! 0] dx9_types"
  by (simp add: agrees_def same_type_def dx9_types_def khr_dx9_media_sharing_apis_def intel_dx9_media_sharing_apis_def
    intel_sharing_format_query_dx9_apis_def khr_dx9_media_sharing_types_def
    intel_dx9_media_sharing_types_def intel_sharing_format_query_dx9_types_def)

lemma va_typed:
  "list_all2 agrees va_apis [intel_sharing_format_query_va_api_types ! 0, intel_va_api_media_sharing_types
    ! 0, intel_va_api_media_sharing_types ! 1, intel_va_api_media_sharing_types ! 2,
    intel_va_api_media_sharing_types ! 3]"
  by (simp add: agrees_def same_type_def va_apis_def intel_sharing_format_query_va_api_apis_def
    intel_va_api_media_sharing_apis_def intel_sharing_format_query_va_api_types_def
    intel_va_api_media_sharing_types_def)

lemma va_used:
  "list_all2 agrees [intel_sharing_format_query_va_api_apis ! 0, intel_va_api_media_sharing_apis ! 0,
    intel_va_api_media_sharing_apis ! 1, intel_va_api_media_sharing_apis ! 2,
    intel_va_api_media_sharing_apis ! 3] va_types"
  by (simp add: agrees_def same_type_def va_types_def intel_sharing_format_query_va_api_apis_def
    intel_va_api_media_sharing_apis_def intel_sharing_format_query_va_api_types_def
    intel_va_api_media_sharing_types_def)

text \<open>The groups by their lengths, so that a member named by its position is one.\<close>

lemma group_lengths:
  "length platform_apis = 2" "length device_apis = 8" "length context_apis = 6" "length queue_apis = 4"
  "length memory_apis = 13" "length svm_apis = 2" "length sampler_apis = 4" "length program_apis = 14"
  "length kernel_apis = 12" "length event_apis = 7" "length finish_apis = 3" "length buffer_command_apis =
  9" "length image_command_apis = 8" "length kernel_command_apis = 10" "length other_apis = 12" "length
  platform_types = 12" "length object_types = 16" "length kernel_types = 14" "length buffer_types = 8"
  "length enqueue_types = 5" "length deprecated_types = 11" "length cl11_types = 8" "length cl12_types =
  9" "length cl12_enqueue_types = 6" "length cl20_types = 13" "length later_types = 12" "length
  khr_command_buffer_apis_1 = 13" "length khr_command_buffer_apis_2 = 4" "length
  khr_command_buffer_multi_device_apis = 1" "length khr_command_buffer_mutable_dispatch_apis = 2" "length
  apple_setmemobjectdestructor_apis = 1" "length apple_contextloggingfunctions_apis = 3" "length
  khr_icd_apis = 1" "length khr_il_program_apis = 1" "length khr_terminate_context_apis = 1" "length
  khr_create_command_queue_apis = 1" "length ext_device_fission_apis = 3" "length
  ext_migrate_memobject_apis = 1" "length qcom_ext_host_ptr_apis = 1" "length img_use_gralloc_ptr_apis =
  2" "length img_generate_mipmap_apis = 1" "length khr_subgroups_apis = 1" "length
  khr_suggested_local_work_size_apis = 1" "length khr_external_memory_apis = 2" "length
  khr_external_semaphore_apis = 1" "length khr_external_semaphore_sync_fd_apis = 1" "length
  khr_semaphore_apis = 6" "length arm_import_memory_apis = 1" "length arm_shared_virtual_memory_apis = 9"
  "length intel_accelerator_apis = 4" "length intel_unified_shared_memory_apis_1 = 10" "length
  intel_unified_shared_memory_apis_2 = 1" "length intel_unified_shared_memory_apis_3 = 1" "length
  intel_create_buffer_with_properties_apis = 1" "length intel_program_scope_host_pipe_apis = 2" "length
  ext_image_requirements_info_apis = 1" "length loader_info_apis = 1" "length pocl_content_size_apis = 1"
  "length khr_command_buffer_types_1 = 11" "length khr_command_buffer_types_2 = 6" "length
  khr_command_buffer_multi_device_types = 1" "length khr_command_buffer_mutable_dispatch_types = 2"
  "length apple_setmemobjectdestructor_types = 1" "length apple_contextloggingfunctions_types = 3" "length
  khr_icd_types = 1" "length khr_il_program_types = 1" "length khr_terminate_context_types = 1" "length
  khr_create_command_queue_types = 1" "length ext_device_fission_types = 3" "length
  ext_migrate_memobject_types = 1" "length qcom_ext_host_ptr_types = 1" "length img_use_gralloc_ptr_types
  = 2" "length img_generate_mipmap_types = 1" "length khr_subgroups_types = 1" "length
  khr_suggested_local_work_size_types = 1" "length khr_external_memory_types = 2" "length
  khr_external_semaphore_types = 1" "length khr_external_semaphore_sync_fd_types = 1" "length
  khr_semaphore_types = 6" "length arm_import_memory_types = 1" "length arm_shared_virtual_memory_types =
  9" "length intel_accelerator_types = 4" "length intel_unified_shared_memory_types_1 = 10" "length
  intel_unified_shared_memory_types_2 = 1" "length intel_unified_shared_memory_types_3 = 1" "length
  intel_create_buffer_with_properties_types = 1" "length intel_program_scope_host_pipe_types = 2" "length
  ext_image_requirements_info_types = 1" "length loader_info_types = 1" "length pocl_content_size_types =
  1" "length khr_gl_sharing_apis_1 = 2" "length khr_gl_sharing_apis_2 = 1" "length khr_gl_sharing_apis_3 =
  5" "length khr_gl_sharing_apis_4 = 2" "length khr_gl_event_apis = 1" "length
  intel_sharing_format_query_gl_apis = 1" "length khr_gl_sharing_types_1 = 2" "length
  khr_gl_sharing_types_2 = 1" "length khr_gl_sharing_types_3 = 5" "length khr_gl_sharing_types_4 = 2"
  "length khr_gl_event_types = 1" "length intel_sharing_format_query_gl_types = 1" "length
  khr_egl_image_apis = 3" "length khr_egl_event_apis = 1" "length khr_egl_image_types = 3" "length
  khr_egl_event_types = 1" "length khr_d3d10_sharing_apis = 6" "length
  intel_sharing_format_query_d3d10_apis = 1" "length khr_d3d10_sharing_types = 6" "length
  intel_sharing_format_query_d3d10_types = 1" "length khr_d3d11_sharing_apis = 6" "length
  intel_sharing_format_query_d3d11_apis = 1" "length khr_d3d11_sharing_types = 6" "length
  intel_sharing_format_query_d3d11_types = 1" "length khr_dx9_media_sharing_apis = 4" "length
  intel_dx9_media_sharing_apis = 4" "length intel_sharing_format_query_dx9_apis = 1" "length
  khr_dx9_media_sharing_types = 4" "length intel_dx9_media_sharing_types = 4" "length
  intel_sharing_format_query_dx9_types = 1" "length intel_sharing_format_query_va_api_apis = 1" "length
  intel_va_api_media_sharing_apis = 4" "length intel_sharing_format_query_va_api_types = 1" "length
  intel_va_api_media_sharing_types = 4"
  by (simp_all add: platform_apis_def device_apis_def context_apis_def queue_apis_def memory_apis_def svm_apis_def
    sampler_apis_def program_apis_def kernel_apis_def event_apis_def finish_apis_def buffer_command_apis_def
    image_command_apis_def kernel_command_apis_def other_apis_def platform_types_def object_types_def
    kernel_types_def buffer_types_def enqueue_types_def deprecated_types_def cl11_types_def cl12_types_def
    cl12_enqueue_types_def cl20_types_def later_types_def khr_command_buffer_apis_1_def
    khr_command_buffer_apis_2_def khr_command_buffer_multi_device_apis_def
    khr_command_buffer_mutable_dispatch_apis_def apple_setmemobjectdestructor_apis_def
    apple_contextloggingfunctions_apis_def khr_icd_apis_def khr_il_program_apis_def
    khr_terminate_context_apis_def khr_create_command_queue_apis_def ext_device_fission_apis_def
    ext_migrate_memobject_apis_def qcom_ext_host_ptr_apis_def img_use_gralloc_ptr_apis_def
    img_generate_mipmap_apis_def khr_subgroups_apis_def khr_suggested_local_work_size_apis_def
    khr_external_memory_apis_def khr_external_semaphore_apis_def khr_external_semaphore_sync_fd_apis_def
    khr_semaphore_apis_def arm_import_memory_apis_def arm_shared_virtual_memory_apis_def
    intel_accelerator_apis_def intel_unified_shared_memory_apis_1_def intel_unified_shared_memory_apis_2_def
    intel_unified_shared_memory_apis_3_def intel_create_buffer_with_properties_apis_def
    intel_program_scope_host_pipe_apis_def ext_image_requirements_info_apis_def loader_info_apis_def
    pocl_content_size_apis_def khr_command_buffer_types_1_def khr_command_buffer_types_2_def
    khr_command_buffer_multi_device_types_def khr_command_buffer_mutable_dispatch_types_def
    apple_setmemobjectdestructor_types_def apple_contextloggingfunctions_types_def khr_icd_types_def
    khr_il_program_types_def khr_terminate_context_types_def khr_create_command_queue_types_def
    ext_device_fission_types_def ext_migrate_memobject_types_def qcom_ext_host_ptr_types_def
    img_use_gralloc_ptr_types_def img_generate_mipmap_types_def khr_subgroups_types_def
    khr_suggested_local_work_size_types_def khr_external_memory_types_def khr_external_semaphore_types_def
    khr_external_semaphore_sync_fd_types_def khr_semaphore_types_def arm_import_memory_types_def
    arm_shared_virtual_memory_types_def intel_accelerator_types_def intel_unified_shared_memory_types_1_def
    intel_unified_shared_memory_types_2_def intel_unified_shared_memory_types_3_def
    intel_create_buffer_with_properties_types_def intel_program_scope_host_pipe_types_def
    ext_image_requirements_info_types_def loader_info_types_def pocl_content_size_types_def
    khr_gl_sharing_apis_1_def khr_gl_sharing_apis_2_def khr_gl_sharing_apis_3_def khr_gl_sharing_apis_4_def
    khr_gl_event_apis_def intel_sharing_format_query_gl_apis_def khr_gl_sharing_types_1_def
    khr_gl_sharing_types_2_def khr_gl_sharing_types_3_def khr_gl_sharing_types_4_def khr_gl_event_types_def
    intel_sharing_format_query_gl_types_def khr_egl_image_apis_def khr_egl_event_apis_def
    khr_egl_image_types_def khr_egl_event_types_def khr_d3d10_sharing_apis_def
    intel_sharing_format_query_d3d10_apis_def khr_d3d10_sharing_types_def
    intel_sharing_format_query_d3d10_types_def khr_d3d11_sharing_apis_def
    intel_sharing_format_query_d3d11_apis_def khr_d3d11_sharing_types_def
    intel_sharing_format_query_d3d11_types_def khr_dx9_media_sharing_apis_def
    intel_dx9_media_sharing_apis_def intel_sharing_format_query_dx9_apis_def khr_dx9_media_sharing_types_def
    intel_dx9_media_sharing_types_def intel_sharing_format_query_dx9_types_def
    intel_sharing_format_query_va_api_apis_def intel_va_api_media_sharing_apis_def
    intel_sharing_format_query_va_api_types_def intel_va_api_media_sharing_types_def)

lemma list_all2_found:
  assumes "list_all2 R xs ys" and "list_all P ys"
  shows "\<forall>x \<in> set xs. \<exists>y. P y \<and> R x y"
  using assms by (induction rule: list_all2_induct) auto

lemma list_all2_found':
  assumes "list_all2 R xs ys" and "list_all P xs"
  shows "\<forall>y \<in> set ys. \<exists>x. P x \<and> R x y"
  using assms by (induction rule: list_all2_induct) auto

lemma core_apis_typed: "\<forall>p \<in> set core_apis. \<exists>t. t \<in> set core_types \<and> agrees p t"
  by (rule list_all2_found [OF core_typed]) (simp add: core_types_def group_lengths)

lemma core_types_used: "\<forall>t \<in> set core_types. \<exists>p. p \<in> set core_apis \<and> agrees p t"
  by (rule list_all2_found' [OF core_used]) (simp add: core_apis_def group_lengths)

lemma ext_apis_typed: "\<forall>p \<in> set ext_apis. \<exists>t. t \<in> set ext_types \<and> agrees p t"
  by (rule list_all2_found [OF ext_typed]) (simp add: ext_types_def group_lengths)

lemma ext_types_used: "\<forall>t \<in> set ext_types. \<exists>p. p \<in> set ext_apis \<and> agrees p t"
  by (rule list_all2_found' [OF ext_used]) (simp add: ext_apis_def group_lengths)

lemma gl_apis_typed: "\<forall>p \<in> set gl_apis. \<exists>t. t \<in> set gl_types \<and> agrees p t"
  by (rule list_all2_found [OF gl_typed]) (simp add: gl_types_def group_lengths)

lemma gl_types_used: "\<forall>t \<in> set gl_types. \<exists>p. p \<in> set gl_apis \<and> agrees p t"
  by (rule list_all2_found' [OF gl_used]) (simp add: gl_apis_def group_lengths)

lemma egl_apis_typed: "\<forall>p \<in> set egl_apis. \<exists>t. t \<in> set egl_types \<and> agrees p t"
  by (rule list_all2_found [OF egl_typed]) (simp add: egl_types_def group_lengths)

lemma egl_types_used: "\<forall>t \<in> set egl_types. \<exists>p. p \<in> set egl_apis \<and> agrees p t"
  by (rule list_all2_found' [OF egl_used]) (simp add: egl_apis_def group_lengths)

lemma d3d10_apis_typed: "\<forall>p \<in> set d3d10_apis. \<exists>t. t \<in> set d3d10_types \<and> agrees p t"
  by (rule list_all2_found [OF d3d10_typed]) (simp add: d3d10_types_def group_lengths)

lemma d3d10_types_used: "\<forall>t \<in> set d3d10_types. \<exists>p. p \<in> set d3d10_apis \<and> agrees p t"
  by (rule list_all2_found' [OF d3d10_used]) (simp add: d3d10_apis_def group_lengths)

lemma d3d11_apis_typed: "\<forall>p \<in> set d3d11_apis. \<exists>t. t \<in> set d3d11_types \<and> agrees p t"
  by (rule list_all2_found [OF d3d11_typed]) (simp add: d3d11_types_def group_lengths)

lemma d3d11_types_used: "\<forall>t \<in> set d3d11_types. \<exists>p. p \<in> set d3d11_apis \<and> agrees p t"
  by (rule list_all2_found' [OF d3d11_used]) (simp add: d3d11_apis_def group_lengths)

lemma dx9_apis_typed: "\<forall>p \<in> set dx9_apis. \<exists>t. t \<in> set dx9_types \<and> agrees p t"
  by (rule list_all2_found [OF dx9_typed]) (simp add: dx9_types_def group_lengths)

lemma dx9_types_used: "\<forall>t \<in> set dx9_types. \<exists>p. p \<in> set dx9_apis \<and> agrees p t"
  by (rule list_all2_found' [OF dx9_used]) (simp add: dx9_apis_def group_lengths)

lemma va_apis_typed: "\<forall>p \<in> set va_apis. \<exists>t. t \<in> set va_types \<and> agrees p t"
  by (rule list_all2_found [OF va_typed]) (simp add: va_types_def group_lengths)

lemma va_types_used: "\<forall>t \<in> set va_types. \<exists>p. p \<in> set va_apis \<and> agrees p t"
  by (rule list_all2_found' [OF va_used]) (simp add: va_apis_def group_lengths)

lemma layer_typed: "list_all2 agrees layer_apis layer_types"
  by (simp add: agrees_def same_type_def layer_apis_def layer_types_def)

lemma layer_apis_typed: "\<forall>p \<in> set layer_apis. \<exists>t. t \<in> set layer_types \<and> agrees p t"
  by (rule list_all2_found [OF layer_typed]) (simp add: list_all_iff)

lemma layer_types_used: "\<forall>t \<in> set layer_types. \<exists>p. p \<in> set layer_apis \<and> agrees p t"
  by (rule list_all2_found' [OF layer_typed]) (simp add: list_all_iff)

lemmas typed_facts = core_apis_typed ext_apis_typed gl_apis_typed egl_apis_typed d3d10_apis_typed d3d11_apis_typed
  dx9_apis_typed va_apis_typed layer_apis_typed

lemmas used_facts = core_types_used ext_types_used gl_types_used egl_types_used d3d10_types_used d3d11_types_used
  dx9_types_used va_types_used layer_types_used

text \<open>C40: every function prototype of the headers has its function type, and every function type its
  prototype: with the same result and parameter types and the same version suffix, and declared in
  every configuration that declares the prototype.\<close>

theorem prototypes_match_types:
  "(\<forall>p \<in> set all_apis. \<exists>t \<in> set all_types. same_type p t \<and> pr_suffix t = pr_suffix p \<and>
     (\<forall>m. declared_in m p \<longrightarrow> declared_in m t)) \<and>
   (\<forall>t \<in> set all_types. \<exists>p \<in> set all_apis. same_type p t \<and> pr_suffix t = pr_suffix p)"
proof (intro conjI ballI)
  fix p assume "p \<in> set all_apis"
  then obtain t where "t \<in> set all_types" "agrees p t"
    using typed_facts unfolding all_apis_def all_types_def set_append by blast
  then show "\<exists>t \<in> set all_types. same_type p t \<and> pr_suffix t = pr_suffix p \<and>
      (\<forall>m. declared_in m p \<longrightarrow> declared_in m t)"
    using agrees_declared by (intro bexI [of _ t]) (auto simp: agrees_def)
next
  fix t assume "t \<in> set all_types"
  then obtain p where "p \<in> set all_apis" "agrees p t"
    using used_facts unfolding all_apis_def all_types_def set_append by blast
  then show "\<exists>p \<in> set all_apis. same_type p t \<and> pr_suffix t = pr_suffix p"
    by (intro bexI [of _ p]) (simp_all add: agrees_def)
qed

theorem prototypes_match_types_witness:
  "platform_apis ! 0 \<in> set all_apis \<and>
   (\<exists>t \<in> set all_types. same_type (platform_apis ! 0) t \<and> pr_suffix t = pr_suffix (platform_apis ! 0))"
proof
  show "platform_apis ! 0 \<in> set all_apis" by (simp add: all_apis_def core_apis_def platform_apis_def)
  with conjunct1 [OF prototypes_match_types]
  show "\<exists>t \<in> set all_types. same_type (platform_apis ! 0) t \<and> pr_suffix t = pr_suffix (platform_apis ! 0)" by blast
qed

section \<open>One layout, known types\<close>

text \<open>The members of an item that are not \<open>void\<close>, with the macro they depend on.\<close>

fun typed_fields :: "icd_item \<Rightarrow> (string option \<times> string \<times> string) list" where
  "typed_fields (Slot t n) = [(None, t, n)]"
| "typed_fields (IfDefined x a b) = map (\<lambda>(t, n). (Some x, t, n)) a"

text \<open>Both branches of an item name the same members, and the second has \<open>void\<close> pointers only.\<close>

fun regular :: "icd_item \<Rightarrow> bool" where
  "regular (Slot t n) \<longleftrightarrow> True"
| "regular (IfDefined x a b) \<longleftrightarrow> map snd a = map snd b \<and> list_all (\<lambda>(t, n). t = ''void'') b"

definition member_names :: "icd_item list \<Rightarrow> string list" where
  "member_names is = concat (map (map snd \<circ> item_fields Map.empty) is)"

lemmas icd_groups = icd_opencl10_def icd_d3d10_def icd_opencl11_def icd_fission_gl_def icd_opencl12_def icd_d3d11_dx9_def
  icd_egl_def icd_opencl20_def icd_opencl21_def icd_opencl22_def icd_opencl30_def

lemma icd_regular: "list_all regular icd_dispatch"
  by (simp add: icd_dispatch_def icd_groups)

lemma icd_names: "map snd (icd_fields m) = member_names icd_dispatch"
proof -
  have "map snd (item_fields m i) = map snd (item_fields Map.empty i)" if "i \<in> set icd_dispatch" for i
    using icd_regular that by (cases i) (auto simp: list_all_iff)
  then show ?thesis by (simp add: icd_fields_def member_names_def map_concat comp_def cong: map_cong)
qed

text \<open>Names as numbers, which are told apart more easily.\<close>

definition name_code :: "string \<Rightarrow> nat" where
  "name_code n = foldl (\<lambda>k c. k * 256 + of_char c) 0 n"

lemma icd_names_distinct: "distinct (member_names icd_dispatch) \<and> length (member_names icd_dispatch) = 149"
proof
  have "distinct (map name_code (member_names icd_dispatch))"
    by (simp add: member_names_def icd_dispatch_def icd_groups name_code_def)
  then show "distinct (member_names icd_dispatch)" by (simp add: distinct_map)
  show "length (member_names icd_dispatch) = 149"
    by (simp add: member_names_def icd_dispatch_def icd_groups)
qed

text \<open>C39: the dispatch table has one layout.  Whatever macros are defined (Windows or not, any OpenCL
  version), it has the same 149 members in the same order, no name twice, so every function
  pointer is at the same offset for a loader and a driver that were compiled differently.\<close>

theorem icd_layout_fixed:
  "map snd (icd_fields m) = map snd (icd_fields m') \<and> icd_offset m = icd_offset m' \<and>
   length (icd_fields m) = 149 \<and> distinct (map snd (icd_fields m))"
proof -
  have len: "length (icd_fields k) = 149" for k
    using icd_names [of k] icd_names_distinct by (metis length_map)
  then show ?thesis by (simp add: icd_offset_def fun_eq_iff icd_names icd_names_distinct)
qed

text \<open>The type of a member: declared wherever the member has it.\<close>

definition slot_typed :: "string option \<times> string \<times> string \<Rightarrow> prototype \<Rightarrow> bool" where
  "slot_typed s f \<longleftrightarrow> (case s of (g, t, n) \<Rightarrow>
     t = n @ ''_t'' \<and> pr_name f = t \<and> list_all (\<lambda>x. g = Some x) (pr_guard f) \<and> pr_unless f = [])"

lemma icd_opencl10_slots:
  "list_all2 slot_typed (concat (map typed_fields icd_opencl10)) [platform_types ! 0, platform_types ! 1,
    platform_types ! 2, platform_types ! 3, platform_types ! 4, platform_types ! 5, platform_types ! 6,
    platform_types ! 7, platform_types ! 8, deprecated_types ! 8, platform_types ! 9, platform_types ! 10,
    platform_types ! 11, deprecated_types ! 0, object_types ! 0, deprecated_types ! 1, deprecated_types ! 2,
    object_types ! 1, object_types ! 2, object_types ! 3, object_types ! 4, object_types ! 5,
    deprecated_types ! 9, object_types ! 6, object_types ! 7, object_types ! 8, object_types ! 9,
    object_types ! 10, object_types ! 11, object_types ! 12, object_types ! 13, deprecated_types ! 6,
    object_types ! 14, object_types ! 15, kernel_types ! 0, kernel_types ! 1, kernel_types ! 2, kernel_types
    ! 3, kernel_types ! 4, kernel_types ! 5, kernel_types ! 6, kernel_types ! 7, kernel_types ! 8,
    kernel_types ! 9, kernel_types ! 10, kernel_types ! 11, kernel_types ! 12, kernel_types ! 13,
    buffer_types ! 0, buffer_types ! 1, buffer_types ! 2, buffer_types ! 3, buffer_types ! 4, buffer_types !
    5, buffer_types ! 6, buffer_types ! 7, enqueue_types ! 0, enqueue_types ! 1, enqueue_types ! 2,
    enqueue_types ! 3, deprecated_types ! 10, enqueue_types ! 4, deprecated_types ! 3, deprecated_types ! 4,
    deprecated_types ! 5, deprecated_types ! 7, khr_gl_sharing_types_1 ! 1, khr_gl_sharing_types_4 ! 0,
    khr_gl_sharing_types_4 ! 1, khr_gl_sharing_types_3 ! 0, khr_gl_sharing_types_3 ! 1,
    khr_gl_sharing_types_3 ! 2, khr_gl_sharing_types_3 ! 3, khr_gl_sharing_types_3 ! 4,
    khr_gl_sharing_types_1 ! 0]"
  by (simp add: slot_typed_def icd_opencl10_def platform_types_def deprecated_types_def object_types_def kernel_types_def
    buffer_types_def enqueue_types_def khr_gl_sharing_types_1_def khr_gl_sharing_types_4_def
    khr_gl_sharing_types_3_def)

lemma icd_opencl10_slots_found:
  "\<forall>s \<in> set (concat (map typed_fields icd_opencl10)). \<exists>f. f \<in> set (core_types @ egl_types @ ext_types @ gl_types) \<and> slot_typed s f"
  by (rule list_all2_found [OF icd_opencl10_slots]) (simp add: group_lengths core_types_def egl_types_def ext_types_def gl_types_def)

lemma icd_opencl11_slots:
  "list_all2 slot_typed (concat (map typed_fields icd_opencl11)) [cl11_types ! 4, cl11_types ! 0,
    cl11_types ! 1, cl11_types ! 2, cl11_types ! 3, cl11_types ! 5, cl11_types ! 6, cl11_types ! 7]"
  by (simp add: slot_typed_def icd_opencl11_def cl11_types_def)

lemma icd_opencl11_slots_found:
  "\<forall>s \<in> set (concat (map typed_fields icd_opencl11)). \<exists>f. f \<in> set (core_types @ egl_types @ ext_types @ gl_types) \<and> slot_typed s f"
  by (rule list_all2_found [OF icd_opencl11_slots]) (simp add: group_lengths core_types_def egl_types_def ext_types_def gl_types_def)

lemma icd_fission_gl_slots:
  "list_all2 slot_typed (concat (map typed_fields icd_fission_gl)) [ext_device_fission_types ! 2,
    ext_device_fission_types ! 1, ext_device_fission_types ! 0, khr_gl_event_types ! 0]"
  by (simp add: slot_typed_def icd_fission_gl_def ext_device_fission_types_def khr_gl_event_types_def)

lemma icd_fission_gl_slots_found:
  "\<forall>s \<in> set (concat (map typed_fields icd_fission_gl)). \<exists>f. f \<in> set (core_types @ egl_types @ ext_types @ gl_types) \<and> slot_typed s f"
  by (rule list_all2_found [OF icd_fission_gl_slots]) (simp add: group_lengths core_types_def egl_types_def ext_types_def gl_types_def)

lemma icd_opencl12_slots:
  "list_all2 slot_typed (concat (map typed_fields icd_opencl12)) [cl12_types ! 0, cl12_types ! 1,
    cl12_types ! 2, cl12_types ! 3, cl12_types ! 4, cl12_types ! 5, cl12_types ! 6, cl12_types ! 7,
    cl12_types ! 8, cl12_enqueue_types ! 0, cl12_enqueue_types ! 1, cl12_enqueue_types ! 2,
    cl12_enqueue_types ! 3, cl12_enqueue_types ! 4, cl12_enqueue_types ! 5, khr_gl_sharing_types_2 ! 0]"
  by (simp add: slot_typed_def icd_opencl12_def cl12_types_def cl12_enqueue_types_def khr_gl_sharing_types_2_def)

lemma icd_opencl12_slots_found:
  "\<forall>s \<in> set (concat (map typed_fields icd_opencl12)). \<exists>f. f \<in> set (core_types @ egl_types @ ext_types @ gl_types) \<and> slot_typed s f"
  by (rule list_all2_found [OF icd_opencl12_slots]) (simp add: group_lengths core_types_def egl_types_def ext_types_def gl_types_def)

lemma icd_egl_slots:
  "list_all2 slot_typed (concat (map typed_fields icd_egl)) [khr_egl_image_types ! 0, khr_egl_image_types !
    1, khr_egl_image_types ! 2, khr_egl_event_types ! 0]"
  by (simp add: slot_typed_def icd_egl_def khr_egl_image_types_def khr_egl_event_types_def)

lemma icd_egl_slots_found:
  "\<forall>s \<in> set (concat (map typed_fields icd_egl)). \<exists>f. f \<in> set (core_types @ egl_types @ ext_types @ gl_types) \<and> slot_typed s f"
  by (rule list_all2_found [OF icd_egl_slots]) (simp add: group_lengths core_types_def egl_types_def ext_types_def gl_types_def)

lemma icd_opencl20_slots:
  "list_all2 slot_typed (concat (map typed_fields icd_opencl20)) [cl20_types ! 0, cl20_types ! 1,
    cl20_types ! 2, cl20_types ! 3, cl20_types ! 4, cl20_types ! 8, cl20_types ! 9, cl20_types ! 10,
    cl20_types ! 11, cl20_types ! 12, cl20_types ! 5, cl20_types ! 6, cl20_types ! 7]"
  by (simp add: slot_typed_def icd_opencl20_def cl20_types_def)

lemma icd_opencl20_slots_found:
  "\<forall>s \<in> set (concat (map typed_fields icd_opencl20)). \<exists>f. f \<in> set (core_types @ egl_types @ ext_types @ gl_types) \<and> slot_typed s f"
  by (rule list_all2_found [OF icd_opencl20_slots]) (simp add: group_lengths core_types_def egl_types_def ext_types_def gl_types_def)

lemma icd_opencl21_slots:
  "list_all2 slot_typed (concat (map typed_fields icd_opencl21)) [khr_subgroups_types ! 0, later_types ! 4,
    later_types ! 3, later_types ! 6, later_types ! 1, later_types ! 2, later_types ! 5, later_types ! 0]"
  by (simp add: slot_typed_def icd_opencl21_def khr_subgroups_types_def later_types_def)

lemma icd_opencl21_slots_found:
  "\<forall>s \<in> set (concat (map typed_fields icd_opencl21)). \<exists>f. f \<in> set (core_types @ egl_types @ ext_types @ gl_types) \<and> slot_typed s f"
  by (rule list_all2_found [OF icd_opencl21_slots]) (simp add: group_lengths core_types_def egl_types_def ext_types_def gl_types_def)

lemma icd_opencl22_slots:
  "list_all2 slot_typed (concat (map typed_fields icd_opencl22)) [later_types ! 8, later_types ! 7]"
  by (simp add: slot_typed_def icd_opencl22_def later_types_def)

lemma icd_opencl22_slots_found:
  "\<forall>s \<in> set (concat (map typed_fields icd_opencl22)). \<exists>f. f \<in> set (core_types @ egl_types @ ext_types @ gl_types) \<and> slot_typed s f"
  by (rule list_all2_found [OF icd_opencl22_slots]) (simp add: group_lengths core_types_def egl_types_def ext_types_def gl_types_def)

lemma icd_opencl30_slots:
  "list_all2 slot_typed (concat (map typed_fields icd_opencl30)) [later_types ! 10, later_types ! 11,
    later_types ! 9]"
  by (simp add: slot_typed_def icd_opencl30_def later_types_def)

lemma icd_opencl30_slots_found:
  "\<forall>s \<in> set (concat (map typed_fields icd_opencl30)). \<exists>f. f \<in> set (core_types @ egl_types @ ext_types @ gl_types) \<and> slot_typed s f"
  by (rule list_all2_found [OF icd_opencl30_slots]) (simp add: group_lengths core_types_def egl_types_def ext_types_def gl_types_def)

lemma icd_d3d10_slots:
  "list_all2 slot_typed (concat (map typed_fields icd_d3d10)) [khr_d3d10_sharing_types ! 0,
    khr_d3d10_sharing_types ! 1, khr_d3d10_sharing_types ! 2, khr_d3d10_sharing_types ! 3,
    khr_d3d10_sharing_types ! 4, khr_d3d10_sharing_types ! 5]"
  by (simp add: slot_typed_def icd_d3d10_def khr_d3d10_sharing_types_def)

lemma icd_d3d10_slots_found:
  "\<forall>s \<in> set (concat (map typed_fields icd_d3d10)). \<exists>f. f \<in> set (d3d11_types @ d3d10_types @ dx9_types) \<and> slot_typed s f"
  by (rule list_all2_found [OF icd_d3d10_slots]) (simp add: group_lengths d3d11_types_def d3d10_types_def dx9_types_def)

lemma icd_d3d11_dx9_slots:
  "list_all2 slot_typed (concat (map typed_fields icd_d3d11_dx9)) [khr_d3d11_sharing_types ! 0,
    khr_d3d11_sharing_types ! 1, khr_d3d11_sharing_types ! 2, khr_d3d11_sharing_types ! 3,
    khr_dx9_media_sharing_types ! 1, khr_d3d11_sharing_types ! 4, khr_d3d11_sharing_types ! 5,
    khr_dx9_media_sharing_types ! 0, khr_dx9_media_sharing_types ! 2, khr_dx9_media_sharing_types ! 3]"
  by (simp add: slot_typed_def icd_d3d11_dx9_def khr_d3d11_sharing_types_def khr_dx9_media_sharing_types_def)

lemma icd_d3d11_dx9_slots_found:
  "\<forall>s \<in> set (concat (map typed_fields icd_d3d11_dx9)). \<exists>f. f \<in> set (d3d11_types @ d3d10_types @ dx9_types) \<and> slot_typed s f"
  by (rule list_all2_found [OF icd_d3d11_dx9_slots]) (simp add: group_lengths d3d11_types_def d3d10_types_def dx9_types_def)

lemmas portable_slots_found = icd_opencl10_slots_found icd_opencl11_slots_found icd_fission_gl_slots_found icd_opencl12_slots_found
  icd_egl_slots_found icd_opencl20_slots_found icd_opencl21_slots_found icd_opencl22_slots_found
  icd_opencl30_slots_found

lemmas windows_slots_found = icd_d3d10_slots_found icd_d3d11_dx9_slots_found

lemma windows_guard: "s \<in> set (concat (map typed_fields (icd_d3d10 @ icd_d3d11_dx9))) \<Longrightarrow> fst s = Some ''_WIN32''"
  by (auto simp: icd_d3d10_def icd_d3d11_dx9_def)

lemma field_cases:
  assumes "(t, n) \<in> set (icd_fields m)" and "t \<noteq> ''void''"
  obtains g where "(g, t, n) \<in> set (concat (map typed_fields icd_dispatch))" and "\<forall>x. g = Some x \<longrightarrow> m x \<noteq> None"
proof -
  from assms(1) obtain i where i: "i \<in> set icd_dispatch" "(t, n) \<in> set (item_fields m i)"
    by (auto simp: icd_fields_def)
  have "regular i" using icd_regular i(1) by (simp add: list_all_iff)
  have "\<exists>g. (g, t, n) \<in> set (typed_fields i) \<and> (\<forall>x. g = Some x \<longrightarrow> m x \<noteq> None)"
  proof (cases i)
    case (Slot t' n')
    with i(2) show ?thesis by (intro exI [of _ None]) simp
  next
    case (IfDefined x a b)
    then have "list_all (\<lambda>(t, n). t = ''void'') b" using \<open>regular i\<close> by simp
    then have "(t, n) \<notin> set b" using assms(2) by (auto simp: list_all_iff)
    then have "m x \<noteq> None" "(t, n) \<in> set a" using i(2) IfDefined by (simp_all split: if_splits)
    then show ?thesis by (intro exI [of _ "Some x"]) (auto simp: IfDefined image_iff intro: bexI [of _ "(t, n)"])
  qed
  then obtain g where "(g, t, n) \<in> set (typed_fields i)" "\<forall>x. g = Some x \<longrightarrow> m x \<noteq> None" by blast
  with i(1) show ?thesis by (intro that [of g]) auto
qed

text \<open>A typed member of the dispatch table has the type of its function.  In every configuration a
  member is a \<open>void\<close> pointer, or its type is the function type with the member's name, which one of
  the headers included in that configuration declares.\<close>

theorem icd_slots_typed:
  assumes "(t, n) \<in> set (icd_fields m)"
  shows "t = ''void'' \<or> (t = n @ ''_t'' \<and> (\<exists>f \<in> set (icd_types m). pr_name f = t \<and> declared_in m f))"
proof (cases "t = ''void''")
  case False
  with assms obtain g where g: "(g, t, n) \<in> set (concat (map typed_fields icd_dispatch))"
    "\<forall>x. g = Some x \<longrightarrow> m x \<noteq> None" by (rule field_cases)
  let ?port = "concat (map typed_fields (icd_opencl10 @ icd_opencl11 @ icd_fission_gl @ icd_opencl12 @ icd_egl @ icd_opencl20 @ icd_opencl21 @
    icd_opencl22 @ icd_opencl30))"
  let ?win = "concat (map typed_fields (icd_d3d10 @ icd_d3d11_dx9))"
  have "(g, t, n) \<in> set ?port \<or> (g, t, n) \<in> set ?win" using g(1) by (auto simp: icd_dispatch_def)
  then have "\<exists>f \<in> set (icd_types m). slot_typed (g, t, n) f"
  proof
    assume "(g, t, n) \<in> set ?port"
    then have "\<exists>f. f \<in> set (core_types @ egl_types @ ext_types @ gl_types) \<and> slot_typed (g, t, n) f"
      using portable_slots_found unfolding map_append concat_append set_append Un_iff by blast
    then show ?thesis by (auto simp: icd_types_def)
  next
    assume w: "(g, t, n) \<in> set ?win"
    with windows_guard g(2) have "m ''_WIN32'' \<noteq> None" by fastforce
    moreover have "\<exists>f. f \<in> set (d3d11_types @ d3d10_types @ dx9_types) \<and> slot_typed (g, t, n) f"
      using w windows_slots_found unfolding map_append concat_append set_append Un_iff by blast
    ultimately show ?thesis by (auto simp: icd_types_def)
  qed
  then obtain f where "f \<in> set (icd_types m)" "slot_typed (g, t, n) f" by blast
  with g(2) show ?thesis by (auto simp: slot_typed_def declared_in_def list_all_iff intro!: bexI [of _ f])
qed simp

theorem icd_slots_typed_witness:
  "\<exists>f \<in> set (icd_types Map.empty). pr_name f = ''clGetPlatformIDs_t'' \<and> declared_in Map.empty f"
proof -
  have "(''clGetPlatformIDs_t'', ''clGetPlatformIDs'') \<in> set (icd_fields Map.empty)"
    by (simp add: icd_fields_def icd_dispatch_def icd_opencl10_def)
  from icd_slots_typed [OF this] show ?thesis by simp
qed

section \<open>The functions in the table\<close>

text \<open>The functions that go through the table: the core's and those of the extensions whose
  prototypes are guarded by the macro for dispatched extensions.\<close>

definition dispatched :: "prototype \<Rightarrow> bool" where
  "dispatched p \<longleftrightarrow> pr_unless p \<noteq> [''CL_NO_NON_ICD_DISPATCH_EXTENSION_PROTOTYPES'']"

definition names_function :: "string \<Rightarrow> prototype \<Rightarrow> bool" where
  "names_function n p \<longleftrightarrow> pr_name p = n \<and> dispatched p"

definition in_table :: "prototype \<Rightarrow> string \<Rightarrow> bool" where
  "in_table p n \<longleftrightarrow> dispatched p \<longrightarrow> pr_name p = n"

lemma table_functions:
  "list_all2 names_function (member_names icd_dispatch) [platform_apis ! 0, platform_apis ! 1, device_apis
    ! 0, device_apis ! 1, context_apis ! 0, context_apis ! 1, context_apis ! 2, context_apis ! 3,
    context_apis ! 4, other_apis ! 9, queue_apis ! 1, queue_apis ! 2, queue_apis ! 3, other_apis ! 1,
    memory_apis ! 0, other_apis ! 2, other_apis ! 3, memory_apis ! 6, memory_apis ! 7, memory_apis ! 8,
    memory_apis ! 9, memory_apis ! 10, other_apis ! 10, sampler_apis ! 1, sampler_apis ! 2, sampler_apis !
    3, program_apis ! 0, program_apis ! 1, program_apis ! 4, program_apis ! 5, program_apis ! 6, other_apis
    ! 7, program_apis ! 12, program_apis ! 13, kernel_apis ! 0, kernel_apis ! 1, kernel_apis ! 3,
    kernel_apis ! 4, kernel_apis ! 5, kernel_apis ! 8, kernel_apis ! 10, event_apis ! 0, event_apis ! 1,
    event_apis ! 3, event_apis ! 4, finish_apis ! 0, finish_apis ! 1, finish_apis ! 2, buffer_command_apis !
    0, buffer_command_apis ! 2, buffer_command_apis ! 5, buffer_command_apis ! 7, buffer_command_apis ! 8,
    image_command_apis ! 1, image_command_apis ! 2, image_command_apis ! 3, image_command_apis ! 4,
    image_command_apis ! 5, image_command_apis ! 6, kernel_command_apis ! 0, other_apis ! 11,
    kernel_command_apis ! 1, other_apis ! 4, other_apis ! 5, other_apis ! 6, other_apis ! 8,
    khr_gl_sharing_apis_1 ! 1, khr_gl_sharing_apis_4 ! 0, khr_gl_sharing_apis_4 ! 1, khr_gl_sharing_apis_3 !
    0, khr_gl_sharing_apis_3 ! 1, khr_gl_sharing_apis_3 ! 2, khr_gl_sharing_apis_3 ! 3,
    khr_gl_sharing_apis_3 ! 4, khr_gl_sharing_apis_1 ! 0, khr_d3d10_sharing_apis ! 0, khr_d3d10_sharing_apis
    ! 1, khr_d3d10_sharing_apis ! 2, khr_d3d10_sharing_apis ! 3, khr_d3d10_sharing_apis ! 4,
    khr_d3d10_sharing_apis ! 5, event_apis ! 6, memory_apis ! 1, memory_apis ! 12, event_apis ! 2,
    event_apis ! 5, buffer_command_apis ! 1, buffer_command_apis ! 3, buffer_command_apis ! 6,
    ext_device_fission_apis ! 2, ext_device_fission_apis ! 1, ext_device_fission_apis ! 0, khr_gl_event_apis
    ! 0, device_apis ! 2, device_apis ! 3, device_apis ! 4, memory_apis ! 2, program_apis ! 2, program_apis
    ! 7, program_apis ! 8, program_apis ! 11, kernel_apis ! 9, buffer_command_apis ! 4, image_command_apis !
    0, image_command_apis ! 7, kernel_command_apis ! 2, kernel_command_apis ! 3, other_apis ! 0,
    khr_gl_sharing_apis_2 ! 0, khr_d3d11_sharing_apis ! 0, khr_d3d11_sharing_apis ! 1,
    khr_d3d11_sharing_apis ! 2, khr_d3d11_sharing_apis ! 3, khr_dx9_media_sharing_apis ! 1,
    khr_d3d11_sharing_apis ! 4, khr_d3d11_sharing_apis ! 5, khr_dx9_media_sharing_apis ! 0,
    khr_dx9_media_sharing_apis ! 2, khr_dx9_media_sharing_apis ! 3, khr_egl_image_apis ! 0,
    khr_egl_image_apis ! 1, khr_egl_image_apis ! 2, khr_egl_event_apis ! 0, queue_apis ! 0, memory_apis ! 3,
    memory_apis ! 11, svm_apis ! 0, svm_apis ! 1, kernel_command_apis ! 4, kernel_command_apis ! 5,
    kernel_command_apis ! 6, kernel_command_apis ! 7, kernel_command_apis ! 8, sampler_apis ! 0, kernel_apis
    ! 6, kernel_apis ! 7, khr_subgroups_apis ! 0, kernel_apis ! 2, program_apis ! 3, kernel_command_apis !
    9, device_apis ! 6, device_apis ! 7, kernel_apis ! 11, device_apis ! 5, program_apis ! 9, program_apis !
    10, memory_apis ! 4, memory_apis ! 5, context_apis ! 5]"
  by (simp add: names_function_def dispatched_def member_names_def icd_dispatch_def icd_groups platform_apis_def device_apis_def context_apis_def other_apis_def queue_apis_def memory_apis_def
    sampler_apis_def program_apis_def kernel_apis_def event_apis_def finish_apis_def buffer_command_apis_def
    image_command_apis_def kernel_command_apis_def khr_gl_sharing_apis_1_def khr_gl_sharing_apis_4_def
    khr_gl_sharing_apis_3_def khr_d3d10_sharing_apis_def ext_device_fission_apis_def khr_gl_event_apis_def
    khr_gl_sharing_apis_2_def khr_d3d11_sharing_apis_def khr_dx9_media_sharing_apis_def
    khr_egl_image_apis_def khr_egl_event_apis_def svm_apis_def khr_subgroups_apis_def)

lemma table_functions_found:
  "\<forall>n \<in> set (member_names icd_dispatch). \<exists>p. p \<in> set all_apis \<and> names_function n p"
  by (rule list_all2_found [OF table_functions]) (simp add: group_lengths api_groups)

lemma core_in_table:
  "list_all2 in_table core_apis [member_names icd_opencl10 ! 0, member_names icd_opencl10 ! 1, member_names
    icd_opencl10 ! 2, member_names icd_opencl10 ! 3, member_names icd_opencl12 ! 0, member_names
    icd_opencl12 ! 1, member_names icd_opencl12 ! 2, member_names icd_opencl21 ! 7, member_names
    icd_opencl21 ! 4, member_names icd_opencl21 ! 5, member_names icd_opencl10 ! 4, member_names
    icd_opencl10 ! 5, member_names icd_opencl10 ! 6, member_names icd_opencl10 ! 7, member_names
    icd_opencl10 ! 8, member_names icd_opencl30 ! 2, member_names icd_opencl20 ! 0, member_names
    icd_opencl10 ! 10, member_names icd_opencl10 ! 11, member_names icd_opencl10 ! 12, member_names
    icd_opencl10 ! 14, member_names icd_opencl11 ! 1, member_names icd_opencl12 ! 3, member_names
    icd_opencl20 ! 1, member_names icd_opencl30 ! 0, member_names icd_opencl30 ! 1, member_names
    icd_opencl10 ! 17, member_names icd_opencl10 ! 18, member_names icd_opencl10 ! 19, member_names
    icd_opencl10 ! 20, member_names icd_opencl10 ! 21, member_names icd_opencl20 ! 2, member_names
    icd_opencl11 ! 2, member_names icd_opencl20 ! 3, member_names icd_opencl20 ! 4, member_names
    icd_opencl20 ! 10, member_names icd_opencl10 ! 23, member_names icd_opencl10 ! 24, member_names
    icd_opencl10 ! 25, member_names icd_opencl10 ! 26, member_names icd_opencl10 ! 27, member_names
    icd_opencl12 ! 4, member_names icd_opencl21 ! 2, member_names icd_opencl10 ! 28, member_names
    icd_opencl10 ! 29, member_names icd_opencl10 ! 30, member_names icd_opencl12 ! 5, member_names
    icd_opencl12 ! 6, member_names icd_opencl22 ! 0, member_names icd_opencl22 ! 1, member_names
    icd_opencl12 ! 7, member_names icd_opencl10 ! 32, member_names icd_opencl10 ! 33, member_names
    icd_opencl10 ! 34, member_names icd_opencl10 ! 35, member_names icd_opencl21 ! 1, member_names
    icd_opencl10 ! 36, member_names icd_opencl10 ! 37, member_names icd_opencl10 ! 38, member_names
    icd_opencl20 ! 11, member_names icd_opencl20 ! 12, member_names icd_opencl10 ! 39, member_names
    icd_opencl12 ! 8, member_names icd_opencl10 ! 40, member_names icd_opencl21 ! 6, member_names
    icd_opencl10 ! 41, member_names icd_opencl10 ! 42, member_names icd_opencl11 ! 3, member_names
    icd_opencl10 ! 43, member_names icd_opencl10 ! 44, member_names icd_opencl11 ! 4, member_names
    icd_opencl11 ! 0, member_names icd_opencl10 ! 45, member_names icd_opencl10 ! 46, member_names
    icd_opencl10 ! 47, member_names icd_opencl10 ! 48, member_names icd_opencl11 ! 5, member_names
    icd_opencl10 ! 49, member_names icd_opencl11 ! 6, member_names icd_opencl12 ! 9, member_names
    icd_opencl10 ! 50, member_names icd_opencl11 ! 7, member_names icd_opencl10 ! 51, member_names
    icd_opencl10 ! 52, member_names icd_opencl12 ! 10, member_names icd_opencl10 ! 53, member_names
    icd_opencl10 ! 54, member_names icd_opencl10 ! 55, member_names icd_opencl10 ! 56, member_names
    icd_opencl10 ! 57, member_names icd_opencl10 ! 58, member_names icd_opencl12 ! 11, member_names
    icd_opencl10 ! 59, member_names icd_opencl10 ! 61, member_names icd_opencl12 ! 12, member_names
    icd_opencl12 ! 13, member_names icd_opencl20 ! 5, member_names icd_opencl20 ! 6, member_names
    icd_opencl20 ! 7, member_names icd_opencl20 ! 8, member_names icd_opencl20 ! 9, member_names
    icd_opencl21 ! 3, member_names icd_opencl12 ! 14, member_names icd_opencl10 ! 13, member_names
    icd_opencl10 ! 15, member_names icd_opencl10 ! 16, member_names icd_opencl10 ! 62, member_names
    icd_opencl10 ! 63, member_names icd_opencl10 ! 64, member_names icd_opencl10 ! 31, member_names
    icd_opencl10 ! 65, member_names icd_opencl10 ! 9, member_names icd_opencl10 ! 22, member_names
    icd_opencl10 ! 60]"
  by (simp add: in_table_def dispatched_def member_names_def core_apis_def platform_apis_def device_apis_def context_apis_def queue_apis_def memory_apis_def
    svm_apis_def sampler_apis_def program_apis_def kernel_apis_def event_apis_def finish_apis_def
    buffer_command_apis_def image_command_apis_def kernel_command_apis_def other_apis_def icd_opencl10_def
    icd_opencl12_def icd_opencl21_def icd_opencl30_def icd_opencl20_def icd_opencl11_def icd_opencl22_def)

lemma ext_in_table:
  "list_all2 in_table ext_apis [member_names icd_opencl10 ! 0, member_names icd_opencl10 ! 0, member_names
    icd_opencl10 ! 0, member_names icd_opencl10 ! 0, member_names icd_opencl10 ! 0, member_names
    icd_opencl10 ! 0, member_names icd_opencl10 ! 0, member_names icd_opencl10 ! 0, member_names
    icd_opencl10 ! 0, member_names icd_opencl10 ! 0, member_names icd_opencl10 ! 0, member_names
    icd_opencl10 ! 0, member_names icd_opencl10 ! 0, member_names icd_opencl10 ! 0, member_names
    icd_opencl10 ! 0, member_names icd_opencl10 ! 0, member_names icd_opencl10 ! 0, member_names
    icd_opencl10 ! 0, member_names icd_opencl10 ! 0, member_names icd_opencl10 ! 0, member_names
    icd_opencl10 ! 0, member_names icd_opencl10 ! 0, member_names icd_opencl10 ! 0, member_names
    icd_opencl10 ! 0, member_names icd_opencl10 ! 0, member_names icd_opencl10 ! 0, member_names
    icd_opencl10 ! 0, member_names icd_opencl10 ! 0, member_names icd_fission_gl ! 2, member_names
    icd_fission_gl ! 1, member_names icd_fission_gl ! 0, member_names icd_opencl10 ! 0, member_names
    icd_opencl10 ! 0, member_names icd_opencl10 ! 0, member_names icd_opencl10 ! 0, member_names
    icd_opencl10 ! 0, member_names icd_opencl21 ! 0, member_names icd_opencl10 ! 0, member_names
    icd_opencl10 ! 0, member_names icd_opencl10 ! 0, member_names icd_opencl10 ! 0, member_names
    icd_opencl10 ! 0, member_names icd_opencl10 ! 0, member_names icd_opencl10 ! 0, member_names
    icd_opencl10 ! 0, member_names icd_opencl10 ! 0, member_names icd_opencl10 ! 0, member_names
    icd_opencl10 ! 0, member_names icd_opencl10 ! 0, member_names icd_opencl10 ! 0, member_names
    icd_opencl10 ! 0, member_names icd_opencl10 ! 0, member_names icd_opencl10 ! 0, member_names
    icd_opencl10 ! 0, member_names icd_opencl10 ! 0, member_names icd_opencl10 ! 0, member_names
    icd_opencl10 ! 0, member_names icd_opencl10 ! 0, member_names icd_opencl10 ! 0, member_names
    icd_opencl10 ! 0, member_names icd_opencl10 ! 0, member_names icd_opencl10 ! 0, member_names
    icd_opencl10 ! 0, member_names icd_opencl10 ! 0, member_names icd_opencl10 ! 0, member_names
    icd_opencl10 ! 0, member_names icd_opencl10 ! 0, member_names icd_opencl10 ! 0, member_names
    icd_opencl10 ! 0, member_names icd_opencl10 ! 0, member_names icd_opencl10 ! 0, member_names
    icd_opencl10 ! 0, member_names icd_opencl10 ! 0, member_names icd_opencl10 ! 0, member_names
    icd_opencl10 ! 0, member_names icd_opencl10 ! 0, member_names icd_opencl10 ! 0, member_names
    icd_opencl10 ! 0, member_names icd_opencl10 ! 0, member_names icd_opencl10 ! 0]"
  by (simp add: in_table_def dispatched_def member_names_def ext_apis_def khr_command_buffer_apis_1_def khr_command_buffer_apis_2_def
    khr_command_buffer_multi_device_apis_def khr_command_buffer_mutable_dispatch_apis_def
    apple_setmemobjectdestructor_apis_def apple_contextloggingfunctions_apis_def khr_icd_apis_def
    khr_il_program_apis_def khr_terminate_context_apis_def khr_create_command_queue_apis_def
    ext_device_fission_apis_def ext_migrate_memobject_apis_def qcom_ext_host_ptr_apis_def
    img_use_gralloc_ptr_apis_def img_generate_mipmap_apis_def khr_subgroups_apis_def
    khr_suggested_local_work_size_apis_def khr_external_memory_apis_def khr_external_semaphore_apis_def
    khr_external_semaphore_sync_fd_apis_def khr_semaphore_apis_def arm_import_memory_apis_def
    arm_shared_virtual_memory_apis_def intel_accelerator_apis_def intel_unified_shared_memory_apis_1_def
    intel_unified_shared_memory_apis_2_def intel_unified_shared_memory_apis_3_def
    intel_create_buffer_with_properties_apis_def intel_program_scope_host_pipe_apis_def
    ext_image_requirements_info_apis_def loader_info_apis_def pocl_content_size_apis_def icd_fission_gl_def
    icd_opencl21_def icd_opencl10_def)

lemma gl_in_table:
  "list_all2 in_table gl_apis [member_names icd_opencl10 ! 74, member_names icd_opencl10 ! 66, member_names
    icd_opencl12 ! 15, member_names icd_opencl10 ! 69, member_names icd_opencl10 ! 70, member_names
    icd_opencl10 ! 71, member_names icd_opencl10 ! 72, member_names icd_opencl10 ! 73, member_names
    icd_opencl10 ! 67, member_names icd_opencl10 ! 68, member_names icd_fission_gl ! 3, member_names
    icd_opencl10 ! 0]"
  by (simp add: in_table_def dispatched_def member_names_def gl_apis_def khr_gl_sharing_apis_1_def khr_gl_sharing_apis_2_def khr_gl_sharing_apis_3_def
    khr_gl_sharing_apis_4_def khr_gl_event_apis_def intel_sharing_format_query_gl_apis_def icd_opencl10_def
    icd_opencl12_def icd_fission_gl_def)

lemma egl_in_table:
  "list_all2 in_table egl_apis [member_names icd_egl ! 0, member_names icd_egl ! 1, member_names icd_egl !
    2, member_names icd_egl ! 3]"
  by (simp add: in_table_def dispatched_def member_names_def egl_apis_def khr_egl_image_apis_def khr_egl_event_apis_def icd_egl_def icd_opencl10_def)

lemma d3d10_in_table:
  "list_all2 in_table d3d10_apis [member_names icd_d3d10 ! 0, member_names icd_d3d10 ! 1, member_names
    icd_d3d10 ! 2, member_names icd_d3d10 ! 3, member_names icd_d3d10 ! 4, member_names icd_d3d10 ! 5,
    member_names icd_opencl10 ! 0]"
  by (simp add: in_table_def dispatched_def member_names_def d3d10_apis_def khr_d3d10_sharing_apis_def intel_sharing_format_query_d3d10_apis_def icd_d3d10_def
    icd_opencl10_def)

lemma d3d11_in_table:
  "list_all2 in_table d3d11_apis [member_names icd_d3d11_dx9 ! 0, member_names icd_d3d11_dx9 ! 1,
    member_names icd_d3d11_dx9 ! 2, member_names icd_d3d11_dx9 ! 3, member_names icd_d3d11_dx9 ! 5,
    member_names icd_d3d11_dx9 ! 6, member_names icd_opencl10 ! 0]"
  by (simp add: in_table_def dispatched_def member_names_def d3d11_apis_def khr_d3d11_sharing_apis_def intel_sharing_format_query_d3d11_apis_def icd_d3d11_dx9_def
    icd_opencl10_def)

lemma dx9_in_table:
  "list_all2 in_table dx9_apis [member_names icd_d3d11_dx9 ! 7, member_names icd_d3d11_dx9 ! 4,
    member_names icd_d3d11_dx9 ! 8, member_names icd_d3d11_dx9 ! 9, member_names icd_opencl10 ! 0,
    member_names icd_opencl10 ! 0, member_names icd_opencl10 ! 0, member_names icd_opencl10 ! 0,
    member_names icd_opencl10 ! 0]"
  by (simp add: in_table_def dispatched_def member_names_def dx9_apis_def khr_dx9_media_sharing_apis_def intel_dx9_media_sharing_apis_def
    intel_sharing_format_query_dx9_apis_def icd_d3d11_dx9_def icd_opencl10_def)

lemma va_in_table:
  "list_all2 in_table va_apis [member_names icd_opencl10 ! 0, member_names icd_opencl10 ! 0, member_names
    icd_opencl10 ! 0, member_names icd_opencl10 ! 0, member_names icd_opencl10 ! 0]"
  by (simp add: in_table_def dispatched_def member_names_def va_apis_def intel_sharing_format_query_va_api_apis_def intel_va_api_media_sharing_apis_def
    icd_opencl10_def)

lemma member_lengths:
  "length (member_names icd_opencl10) = 75" "length (member_names icd_d3d10) = 6" "length (member_names
  icd_opencl11) = 8" "length (member_names icd_fission_gl) = 4" "length (member_names icd_opencl12) = 16"
  "length (member_names icd_d3d11_dx9) = 10" "length (member_names icd_egl) = 4" "length (member_names
  icd_opencl20) = 13" "length (member_names icd_opencl21) = 8" "length (member_names icd_opencl22) = 2"
  "length (member_names icd_opencl30) = 3"
  by (simp_all add: member_names_def icd_groups)

lemma member_names_append: "member_names (a @ b) = member_names a @ member_names b"
  by (simp add: member_names_def)

lemma core_found: "\<forall>p \<in> set core_apis. \<exists>n. n \<in> set (member_names icd_dispatch) \<and> in_table p n"
  by (rule list_all2_found [OF core_in_table]) (simp add: icd_dispatch_def member_names_append member_lengths)

lemma ext_found: "\<forall>p \<in> set ext_apis. \<exists>n. n \<in> set (member_names icd_dispatch) \<and> in_table p n"
  by (rule list_all2_found [OF ext_in_table]) (simp add: icd_dispatch_def member_names_append member_lengths)

lemma gl_found: "\<forall>p \<in> set gl_apis. \<exists>n. n \<in> set (member_names icd_dispatch) \<and> in_table p n"
  by (rule list_all2_found [OF gl_in_table]) (simp add: icd_dispatch_def member_names_append member_lengths)

lemma egl_found: "\<forall>p \<in> set egl_apis. \<exists>n. n \<in> set (member_names icd_dispatch) \<and> in_table p n"
  by (rule list_all2_found [OF egl_in_table]) (simp add: icd_dispatch_def member_names_append member_lengths)

lemma d3d10_found: "\<forall>p \<in> set d3d10_apis. \<exists>n. n \<in> set (member_names icd_dispatch) \<and> in_table p n"
  by (rule list_all2_found [OF d3d10_in_table]) (simp add: icd_dispatch_def member_names_append member_lengths)

lemma d3d11_found: "\<forall>p \<in> set d3d11_apis. \<exists>n. n \<in> set (member_names icd_dispatch) \<and> in_table p n"
  by (rule list_all2_found [OF d3d11_in_table]) (simp add: icd_dispatch_def member_names_append member_lengths)

lemma dx9_found: "\<forall>p \<in> set dx9_apis. \<exists>n. n \<in> set (member_names icd_dispatch) \<and> in_table p n"
  by (rule list_all2_found [OF dx9_in_table]) (simp add: icd_dispatch_def member_names_append member_lengths)

lemma va_found: "\<forall>p \<in> set va_apis. \<exists>n. n \<in> set (member_names icd_dispatch) \<and> in_table p n"
  by (rule list_all2_found [OF va_in_table]) (simp add: icd_dispatch_def member_names_append member_lengths)

lemma layer_not_dispatched: "p \<in> set layer_apis \<Longrightarrow> \<not> dispatched p"
  by (auto simp: layer_apis_def dispatched_def)

lemma icd_table_names: "set (map snd (icd_fields m)) = pr_name ` {p \<in> set all_apis. dispatched p}"
proof -
  have "pr_name p \<in> set (member_names icd_dispatch)" if p: "p \<in> set all_apis" "dispatched p" for p
  proof -
    have "\<exists>n. n \<in> set (member_names icd_dispatch) \<and> in_table p n"
      using p core_found ext_found gl_found egl_found d3d10_found d3d11_found dx9_found va_found layer_not_dispatched
      unfolding all_apis_def set_append by blast
    with p(2) show ?thesis by (auto simp: in_table_def)
  qed
  moreover have "n \<in> pr_name ` {p \<in> set all_apis. dispatched p}" if "n \<in> set (member_names icd_dispatch)" for n
    using table_functions_found that by (force simp: names_function_def)
  ultimately show ?thesis unfolding icd_names by blast
qed

text \<open>The dispatch table holds exactly the functions it should: in every configuration its members
  are the core functions and the functions of those extensions whose prototypes the headers
  guard as dispatched, and no others.\<close>

theorem icd_table_complete:
  "set (map snd (icd_fields m)) = pr_name ` {p \<in> set all_apis. dispatched p}"
  by (rule icd_table_names)

lemma core_dispatched: "p \<in> set core_apis \<Longrightarrow> p \<in> set all_apis \<and> dispatched p"
proof -
  have "list_all dispatched core_apis"
    by (simp add: dispatched_def core_apis_def platform_apis_def device_apis_def context_apis_def queue_apis_def memory_apis_def svm_apis_def
      sampler_apis_def program_apis_def kernel_apis_def event_apis_def finish_apis_def buffer_command_apis_def
      image_command_apis_def kernel_command_apis_def other_apis_def)
  then show "p \<in> set core_apis \<Longrightarrow> p \<in> set all_apis \<and> dispatched p" by (simp add: all_apis_def list_all_iff)
qed

section \<open>The functions of the driver\<close>

lemma driver_declared:
  "list_all2 (\<lambda>f p. pr_name p = pr_name f \<and> pr_result p = pr_result f \<and> pr_params p =
    pr_params f) driver_functions [platform_apis ! 0, platform_apis ! 1, device_apis ! 0, device_apis ! 1,
    context_apis ! 0, context_apis ! 2, context_apis ! 3, other_apis ! 9, queue_apis ! 2, finish_apis ! 2,
    finish_apis ! 1, memory_apis ! 0, memory_apis ! 7, buffer_command_apis ! 2, buffer_command_apis ! 0,
    buffer_command_apis ! 5, program_apis ! 0, program_apis ! 5, program_apis ! 6, kernel_apis ! 0,
    kernel_apis ! 4, kernel_apis ! 5, kernel_command_apis ! 0, event_apis ! 0, event_apis ! 4]"
  by (simp add: driver_functions_def platform_functions_def context_functions_def queue_functions_def mem_functions_def
    program_functions_def kernel_functions_def enqueue_functions_def platform_apis_def device_apis_def
    context_apis_def other_apis_def queue_apis_def finish_apis_def memory_apis_def buffer_command_apis_def
    program_apis_def kernel_apis_def kernel_command_apis_def event_apis_def)

text \<open>The driver implements what the header declares.  Each of the 25 functions that \<open>umd/src\<close>
  defines is a function of \<open>cl.h\<close>, with the declared result and parameter types, and has a place
  in the dispatch table.\<close>

theorem driver_implements_api:
  "length driver_functions = 25 \<and>
   (\<forall>f \<in> set driver_functions. icd_offset m (pr_name f) \<noteq> None \<and>
     (\<exists>p \<in> set core_apis. pr_name p = pr_name f \<and> pr_result p = pr_result f \<and> pr_params p = pr_params f))"
proof (intro conjI ballI)
  show "length driver_functions = 25" by (simp add: driver_functions_def group_lengths platform_functions_def context_functions_def queue_functions_def mem_functions_def program_functions_def
    kernel_functions_def enqueue_functions_def)
  fix f assume f: "f \<in> set driver_functions"
  have "\<exists>p. p \<in> set core_apis \<and> pr_name p = pr_name f \<and> pr_result p = pr_result f \<and> pr_params p = pr_params f"
    using list_all2_found [OF driver_declared, of "\<lambda>p. p \<in> set core_apis"] f by (simp add: core_apis_def group_lengths)
  then obtain p where p: "p \<in> set core_apis" "pr_name p = pr_name f" "pr_result p = pr_result f" "pr_params p = pr_params f"
    by blast
  then show "\<exists>p \<in> set core_apis. pr_name p = pr_name f \<and> pr_result p = pr_result f \<and> pr_params p = pr_params f" by blast
  have "pr_name f \<in> set (map snd (icd_fields m))"
    unfolding icd_table_names p(2) [symmetric] using core_dispatched [OF p(1)] by simp
  then show "icd_offset m (pr_name f) \<noteq> None"
    using map_of_zip_is_Some [of "map snd (icd_fields m)" "map ((*) 8) [0..<length (icd_fields m)]" "pr_name f"]
    by (simp add: icd_offset_def)
qed

theorem driver_implements_api_witness:
  "\<exists>p \<in> set core_apis. pr_name p = ''clFlush'' \<and> pr_params p = [TypeName ''cl_command_queue'']"
proof -
  have "queue_functions ! 3 \<in> set driver_functions" by (simp add: driver_functions_def group_lengths platform_functions_def context_functions_def queue_functions_def mem_functions_def program_functions_def
    kernel_functions_def enqueue_functions_def)
  moreover have "pr_name (queue_functions ! 3) = ''clFlush''" "pr_params (queue_functions ! 3) = [TypeName ''cl_command_queue'']"
    by (simp_all add: queue_functions_def)
  ultimately show ?thesis using conjunct2 [OF driver_implements_api] by force
qed

end
