(* ===== verification/Spec2Isabelle.thy ===== *)
theory Spec2Isabelle
  imports RingConc DmaRace WaitQueue VectorAdd MatMul ClHalfProps ClVectors HppDevice HppObjects HppVersion ClIcd
begin

text \<open>
  A verification library for the FPGA GPU driver: the Linux kernel module under
  \<open>src/driver/\<close>, the OpenCL user mode driver under \<open>src/umd/src/\<close>, the interface between them
  (\<open>src/include/uapi/fpgagpu_ioctl.h\<close>), and those parts of the OpenCL headers under
  \<open>src/include/CL/\<close> that compute something.

  \<^bold>\<open>The program.\<close>  An application calls the OpenCL functions of the user mode driver.  These
  keep objects (contexts, queues, buffers, programs, kernels, events) in the process, hand out
  regions of the board's DDR3 memory from a bump allocator, run a compiler for kernel sources,
  and turn transfers and launches into ioctls on the driver's device file.  The kernel module
  validates an ioctl and either programs the XDMA engine (DMA_TRANSFER) or puts a 64-byte
  packet into a ring in the board's BAR0 memory (SUBMIT_CMD, LOAD_KERNEL), rings the command
  processor's interrupt and waits until the firmware on the board has moved the ring's head.

  \<^bold>\<open>Theories, in the order of their imports.\<close>

  \<^item> Prelude: machine words, kernel errors as values, stores of 32-bit cells with their laws
    (locale \<open>word_store\<close>, interpreted for BAR0 in Device), index arithmetic.
  \<^item> Uapi (\<open>fpgagpu_ioctl.h\<close>): the four parameter structures, the command numbers over a
    parameter \<open>ioc_abi\<close> for Linux's \<open>_IOC\<close> macros; they are distinct and read back.
  \<^item> Device (\<open>fpgagpu_core.h\<close>): packet, ring, descriptor, context and device structures, BAR0
    offsets, MMIO accesses with a log of the writes.
  \<^item> Fifo: the bounded queue a ring is meant to be (locale \<open>bounded_fifo\<close>), with order of
    delivery proved once.  Ring interprets it: the head and tail cells and the 512 slots of BAR0
    are a queue of 511 packets.  Slot 511 is not ring memory (the structure is 64 bytes longer
    than its window); its entry in the abstract queue is \<open>None\<close>.
  \<^item> Commands (SUBMIT_CMD, DOORBELL, GET_VERSION, LOAD_KERNEL of \<open>fpgagpu_ioctl.c\<close>), Dma and
    DmaProps (DMA_TRANSFER), DmaRace (two transfers at the same time), Ioctl (the dispatcher and
    the invariant of the device that every ioctl keeps).  What the handlers call in Linux (user
    copies, page pinning, mapping, waiting) is the record \<open>kenv\<close>; \<open>gup_ok\<close>, \<open>dma_map_ok\<close>,
    \<open>wait_ok\<close>, \<open>fw_only_head\<close> and \<open>wait_frame\<close> state its documented behaviour, and
    \<open>sample_env\<close> is an instance of all of them.
  \<^item> RingConc: submitting and loading threads access by access, with the lock and the firmware,
    as a step relation; mutual exclusion, delivery in order, progress, and the race on the
    staging buffer.  WaitQueue: the threads that wait for the firmware, the interrupt that wakes
    them and the wait queue between, as a step relation; no wakeup is lost, and who misses one.
  \<^item> Lifecycle and Files (\<open>fpgagpu_main.c\<close>, \<open>fpgagpu_mmap.c\<close>, \<open>fpgagpu_sched.c\<close>): module init and
    exit, probe with each error label, remove; open, release, mmap and the interrupt handler.
    Resources are a set; releasing what is not held is recorded.
  \<^item> Vram (\<open>vram_alloc.c\<close>): the allocator, against locale \<open>region_alloc\<close>.
  \<^item> Umd, ClMem, ClProgram, ClEnqueue, ClPlatform (\<open>fpgagpu_umd.h\<close> and the \<open>cl_*.c\<close> files of the
    same names; \<open>cl_kernel.c\<close> in ClProgram, \<open>cl_context.c\<close> and \<open>cl_queue.c\<close> in Umd).  Objects live
    at addresses in one map per type; a function that would dereference a dead address has the
    result \<open>None\<close>.  The results of \<open>malloc\<close>, the device compiler and the answers of the kernel
    are parameters; the requests made are a log.  Locales: \<open>refcounted\<close> (six release functions),
    \<open>two_call\<close> (size-then-value queries).
  \<^item> ClApp: whole applications as a step relation over the user mode driver, labelled with what a
    call asks of the allocator, and the invariants of buffers and kernels with their conditions.
  \<^item> Stack and Launch: the user mode driver on top of the kernel driver.  A request of the one is
    served by \<open>fpgagpu_ioctl\<close> of the other: bytes written reach their buffer, compiled code reaches
    the staging buffer, a launch leaves program, arguments and packets on the device.  RoundTrip: a
    buffer is written and read back.  The DMA engine is a parameter there; \<open>engine_ok\<close> states its
    documented effect on a descriptor chain and \<open>bytewise\<close> is an engine that has it.
  \<^item> Whole programs, on the machine made of the driver's device, the host's pages and the board's
    memory; a program owns memory, which it reaches through an address translation.  DmaTest
    (\<open>tests/test_dma.c\<close>) makes ioctls itself.  System serves every system call of the user mode
    driver by the kernel driver on that machine; CopyTest (\<open>tests/test_opencl_buffer_copy.c\<close>) is a
    program over it.  KernelRun carries a launch up to the state in which the GPU starts; ThreeBuffers
    is a program of two operands, a result and a kernel, over which VectorAdd
    (\<open>tests/test_opencl_vector_add.c\<close>) and MatMul (\<open>tests/test_opencl_matmul.c\<close>, \<open>tests/raw_data.c\<close>)
    build, launch and check theirs.
    \<open>working\<close> (with \<open>mapped\<close> and \<open>serves\<close>), \<open>board_ok\<close>, \<open>build_ok\<close> and \<open>translates\<close> (with \<open>gpu_runs\<close>) collect
    what is documented of Linux, the engine, the firmware, the file system, the compiler and the GPU;
    \<open>test_env\<close>, \<open>test_board\<close> and \<open>thread_board\<close> are instances.
  \<^item> ClConst (\<open>cl.h\<close>): every constant, grouped by enumeration.  ClHalf and ClHalfProps
    (\<open>cl_half.h\<close>): the conversions on bit patterns, against exact magnitudes and a reference
    rounding.  CType and ClVectors (\<open>cl_platform.h\<close>): the layout rules of C for the types used
    there, and the vector types on every target.
  \<^item> The C++ binding (\<open>opencl.hpp\<close>) over the functions of this driver.  HppInfo: typed queries.
    HppWrapper: the ownership discipline of the wrappers (locale \<open>ownership\<close>); HppDevice: the
    wrapper of devices, which may be uncounted, as a refinement of it.  HppCommands: index
    ranges, arguments, the enqueue functions and the kernel functor.  HppObjects: discovery, the
    default platform, constructors, and scopes that release what they own.  HppVersion: the
    configuration macros (\<open>cl_version.h\<close> included) and the functions a queue links to.
  \<^item> ClApi and ClExtApi: prototypes and function types of \<open>cl.h\<close>, \<open>cl_function_types.h\<close> and the
    extension headers, as data with the macros that guard them.  ClIcd (\<open>cl_icd.h\<close>): the dispatch
    table in every configuration, and what the three owe each other.

  \<^bold>\<open>What the properties show.\<close>  They are numbered C1 to C40, in order of importance, each with
  its statement in words above it.  Composition: C1, C11 to C13, C18 to C20; whole programs: C14
  to C17.  The DMA engine: C2, C8 to C10, C24.  The ring, its commands and their completion: C3
  to C7, C23, C25 to C27.  The user mode driver: C21, C22.  Module life and contexts: C28 to C30.
  The C++ binding: C19, C31 to C33, C37.  The C headers: C34 to C36, C38 to C40.  Several
  state exactly what the code does where it does not do what it means to: the slot that
  overwrites the registers (C23), the missing lock of DMA_TRANSFER (C24), the completion that a
  second waiter misses (C25), the load that sleeps out its time (C26), the launch of no work that
  runs 32 blocks (C20), the error paths of probe (C28).  HppVersion shows when a queue links to a
  function this driver lacks.

  \<^bold>\<open>Bounds and fuel.\<close>  Machine integers have their width everywhere; the target is an LP64
  little-endian host with 4 KiB pages.  \<open>xdma_poll\<close> is the code's own counter of ten million reads;
  \<open>chain_walk\<close> has fuel 8192, the number of descriptors the ring can hold, and the theorems show
  that it suffices.  \<open>normalize\<close> is a \<open>while_option\<close>; C36 shows that it returns, after at most
  ten rounds, wherever the conversions call it.  No other definition has fuel.

  \<^bold>\<open>Not modelled.\<close>  The firmware and the GPU (only the documented effect on the ring's head), the
  XDMA engine beyond the chain it reads, the compiler, timing, and memory ordering: MMIO writes
  take effect in program order.  \<open>fpgagpu_board.c\<close> is commented out.  The PCI identification table
  and the module's licence and parameter declarations have no behaviour.  In the headers: the
  constants and structures of extensions (none is implemented), macros for compilers and
  calling conventions, and those classes of \<open>opencl.hpp\<close> that forward to functions this driver does
  not define.  Of the test programs four are modelled; the others run further kernels on
  the same path, or measure time over threads.
\<close>

end
